(* ===== verification/Values.thy ===== *)
theory Values
  imports Prelude
begin

text \<open>
  JSON-like values (\<open>Any\<close> in the source), the Python built-ins the code applies to them, text
  helpers, and the record \<open>pylib\<close> of the library functions the repository calls but does not
  contain. \<open>lawful_lib\<close> collects the documented behaviour of those functions that theorems rely
  on; \<open>ref_lib\<close> is a concrete, executable instance of it used by the witnesses.
\<close>

datatype jval =
    JNull
  | JBool bool
  | JInt int
  | JFloat rat
  | JStr string
  | JList "jval list"
  | JDict "(string \<times> jval) list"

type_synonym jdict = "(string \<times> jval) list"

record pylib =
  fl :: "rat \<Rightarrow> rat"                            \<comment> \<open>rounding of an exact result to binary64\<close>
  digest :: "jval \<Rightarrow> string"                     \<comment> \<open>SHA-256 of the JSON text of a value\<close>
  file_digest :: "jval \<Rightarrow> string"                \<comment> \<open>SHA-256 of a compressed JSON artifact\<close>
  uuid5 :: "string \<Rightarrow> uuid"                      \<comment> \<open>uuid.uuid5(NAMESPACE_URL, _)\<close>
  uuid_of :: "string \<Rightarrow> uuid option"             \<comment> \<open>uuid.UUID(_), None where it raises\<close>
  float_of :: "string \<Rightarrow> rat option"             \<comment> \<open>float(_) of a text\<close>
  py_repr :: "jval \<Rightarrow> string"                    \<comment> \<open>str(_) of a float or a container\<close>
  dist3 :: "int \<times> int \<times> int \<Rightarrow> int \<times> int \<times> int \<Rightarrow> rat"   \<comment> \<open>math.dist\<close>
  rng_new :: "int \<Rightarrow> nat"                        \<comment> \<open>random.Random(seed)\<close>
  rng_int :: "nat \<Rightarrow> int \<Rightarrow> int \<Rightarrow> int \<times> nat"     \<comment> \<open>randint and the next state\<close>
  co_int :: "jval \<Rightarrow> int option"                 \<comment> \<open>pydantic conversions of a raw value\<close>
  co_float :: "jval \<Rightarrow> rat option"
  co_str :: "jval \<Rightarrow> string option"
  co_uuid :: "jval \<Rightarrow> uuid option"
  co_bool :: "jval \<Rightarrow> bool option"

section \<open>Text\<close>

definition is_space :: "char \<Rightarrow> bool" where
  "is_space c = (let n = (of_char c :: nat) in
     n = 32 \<or> (9 \<le> n \<and> n \<le> 13) \<or> (28 \<le> n \<and> n \<le> 31) \<or> n = 133 \<or> n = 160)"

definition strip :: "string \<Rightarrow> string" where
  "strip s = rev (dropWhile is_space (rev (dropWhile is_space s)))"

definition lower_char :: "char \<Rightarrow> char" where
  "lower_char c = (let n = (of_char c :: nat) in
     if 65 \<le> n \<and> n \<le> 90 then char_of (n + 32) else c)"

definition upper_char :: "char \<Rightarrow> char" where
  "upper_char c = (let n = (of_char c :: nat) in
     if 97 \<le> n \<and> n \<le> 122 then char_of (n - 32) else c)"

definition casefold :: "string \<Rightarrow> string" where
  "casefold s = map lower_char s"

definition upper :: "string \<Rightarrow> string" where
  "upper s = map upper_char s"

definition starts_with :: "string \<Rightarrow> string \<Rightarrow> bool" where
  "starts_with p s = (take (length p) s = p)"

fun has_infix :: "string \<Rightarrow> string \<Rightarrow> bool" where
  "has_infix p [] = (p = [])"
| "has_infix p (c # cs) = (starts_with p (c # cs) \<or> has_infix p cs)"

definition replace_char :: "char \<Rightarrow> char \<Rightarrow> string \<Rightarrow> string" where
  "replace_char a b s = map (\<lambda>c. if c = a then b else c) s"

definition is_digit :: "char \<Rightarrow> bool" where
  "is_digit c = (let n = (of_char c :: nat) in 48 \<le> n \<and> n \<le> 57)"

fun nat_str :: "nat \<Rightarrow> string" where
  "nat_str n = (if n < 10 then [char_of (48 + n)] else nat_str (n div 10) @ [char_of (48 + n mod 10)])"

declare nat_str.simps [simp del]

definition int_str :: "int \<Rightarrow> string" where
  "int_str i = (if i < 0 then CHR ''-'' # nat_str (nat (- i)) else nat_str (nat i))"

text \<open>The digits of \<open>int(text)\<close>: single underscores are allowed between digits.\<close>

fun digits_val :: "nat \<Rightarrow> bool \<Rightarrow> string \<Rightarrow> nat option" where
  "digits_val acc prev [] = (if prev then Some acc else None)"
| "digits_val acc prev (c # cs) =
     (if is_digit c then digits_val (acc * 10 + (of_char c - 48)) True cs
      else if c = CHR ''_'' \<and> prev then digits_val acc False cs
      else None)"

definition parse_int :: "string \<Rightarrow> int option" where
  "parse_int s = (case strip s of
      [] \<Rightarrow> None
    | c # cs \<Rightarrow>
        if c = CHR ''-'' then map_option (\<lambda>n. - int n) (digits_val 0 False cs)
        else if c = CHR ''+'' then map_option int (digits_val 0 False cs)
        else map_option int (digits_val 0 False (c # cs)))"

section \<open>Built-in conversions\<close>

definition truncate_rat :: "rat \<Rightarrow> int" where
  "truncate_rat q = (if 0 \<le> q then \<lfloor>q\<rfloor> else \<lceil>q\<rceil>)"

fun py_int :: "jval \<Rightarrow> int res" where
  "py_int (JInt n) = Inr n"
| "py_int (JBool b) = Inr (if b then 1 else 0)"
| "py_int (JFloat q) = Inr (truncate_rat q)"
| "py_int (JStr s) = of_option (ValueError ''invalid literal for int()'') (parse_int s)"
| "py_int _ = Inl (TypeError ''int() argument'')"

fun py_float :: "pylib \<Rightarrow> jval \<Rightarrow> rat res" where
  "py_float L (JInt n) = Inr (fl L (of_int n))"
| "py_float L (JBool b) = Inr (if b then 1 else 0)"
| "py_float L (JFloat q) = Inr q"
| "py_float L (JStr s) = of_option (ValueError ''could not convert string to float'') (float_of L s)"
| "py_float L _ = Inl (TypeError ''float() argument'')"

fun py_bool :: "jval \<Rightarrow> bool" where
  "py_bool JNull = False"
| "py_bool (JBool b) = b"
| "py_bool (JInt n) = (n \<noteq> 0)"
| "py_bool (JFloat q) = (q \<noteq> 0)"
| "py_bool (JStr s) = (s \<noteq> [])"
| "py_bool (JList xs) = (xs \<noteq> [])"
| "py_bool (JDict d) = (d \<noteq> [])"

fun py_str :: "pylib \<Rightarrow> jval \<Rightarrow> string" where
  "py_str L JNull = ''None''"
| "py_str L (JBool b) = (if b then ''True'' else ''False'')"
| "py_str L (JInt n) = int_str n"
| "py_str L (JStr s) = s"
| "py_str L v = py_repr L v"

fun py_list :: "jval \<Rightarrow> jval list res" where
  "py_list (JList xs) = Inr xs"
| "py_list (JStr s) = Inr (map (\<lambda>c. JStr [c]) s)"
| "py_list (JDict d) = Inr (map (\<lambda>(k, _). JStr k) d)"
| "py_list _ = Inl (TypeError ''object is not iterable'')"

text \<open>\<open>dict(v)\<close>: a mapping is copied, an iterable must consist of key/value pairs.\<close>

fun pairs_of :: "jval list \<Rightarrow> jdict res" where
  "pairs_of [] = Inr []"
| "pairs_of (JList [JStr k, v] # xs) = bindR (pairs_of xs) (\<lambda>d. Inr ((k, v) # d))"
| "pairs_of _ = Inl (ValueError ''dictionary update sequence'')"

fun py_dict :: "jval \<Rightarrow> jdict res" where
  "py_dict (JDict d) = Inr d"
| "py_dict (JList xs) = bindR (pairs_of xs) (\<lambda>ps. Inr (dupdate [] ps))"
| "py_dict (JStr s) = (if s = [] then Inr [] else Inl (ValueError ''dictionary update sequence''))"
| "py_dict _ = Inl (TypeError ''object is not iterable'')"

text \<open>An attribute access \<open>v.get\<close> needs a mapping.\<close>

fun as_mapping :: "jval \<Rightarrow> jdict res" where
  "as_mapping (JDict d) = Inr d"
| "as_mapping _ = Inl (AttributeError ''get'')"

text \<open>\<open>int(d.get(k, default))\<close>, the access pattern of the rule modules.\<close>

definition get_int :: "jdict \<Rightarrow> string \<Rightarrow> int \<Rightarrow> int res" where
  "get_int d k dflt = py_int (dget_or d k (JInt dflt))"

definition parse_uuid :: "pylib \<Rightarrow> string \<Rightarrow> uuid res" where
  "parse_uuid L s = of_option (ValueError ''badly formed hexadecimal UUID string'') (uuid_of L s)"

fun opt_str :: "string option \<Rightarrow> jval" where
  "opt_str None = JNull"
| "opt_str (Some s) = JStr s"

text \<open>Numeric and sequence addition, the \<open>+\<close> of the INCREMENT operation.\<close>

fun num_of :: "jval \<Rightarrow> (int + rat) option" where
  "num_of (JInt n) = Some (Inl n)"
| "num_of (JBool b) = Some (Inl (if b then 1 else 0))"
| "num_of (JFloat q) = Some (Inr q)"
| "num_of _ = None"

fun py_add :: "pylib \<Rightarrow> jval \<Rightarrow> jval \<Rightarrow> jval res" where
  "py_add L (JStr s) (JStr t) = Inr (JStr (s @ t))"
| "py_add L (JList s) (JList t) = Inr (JList (s @ t))"
| "py_add L u v = (case (num_of u, num_of v) of
      (Some (Inl m), Some (Inl n)) \<Rightarrow> Inr (JInt (m + n))
    | (Some (Inl m), Some (Inr q)) \<Rightarrow> Inr (JFloat (fl L (fl L (of_int m) + q)))
    | (Some (Inr p), Some (Inl n)) \<Rightarrow> Inr (JFloat (fl L (p + fl L (of_int n))))
    | (Some (Inr p), Some (Inr q)) \<Rightarrow> Inr (JFloat (fl L (p + q)))
    | _ \<Rightarrow> Inl (TypeError ''unsupported operand type(s) for +''))"

section \<open>Canonical form and stable hash\<close>

text \<open>\<open>json.dumps(value, sort_keys=True)\<close> orders the keys of every mapping.\<close>

fun json_canon :: "jval \<Rightarrow> jval" where
  "json_canon (JList xs) = JList (map json_canon xs)"
| "json_canon (JDict d) = JDict (sort_key fst (map (\<lambda>p. (fst p, json_canon (snd p))) d))"
| "json_canon v = v"

definition stable_hash :: "pylib \<Rightarrow> jval \<Rightarrow> string" where
  "stable_hash L v = digest L (json_canon v)"

lemma insort_key_map_commute:
  assumes "\<And>x. k (f x) = k x"
  shows "map f (insort_key k x xs) = insort_key k (f x) (map f xs)"
  by (induction xs) (simp_all add: assms)

lemma map_sort_key_commute:
  assumes "\<And>x. k (f x) = k x"
  shows "map f (sort_key k xs) = sort_key k (map f xs)"
  by (induction xs) (simp_all add: sort_key_def insort_key_map_commute [where k = k and f = f] assms)

lemma sort_key_idem: "sort_key k (sort_key k xs) = sort_key k xs"
  by (simp add: sort_key_id_if_sorted)

section \<open>Rounding to decimal places\<close>

definition round_half_even :: "rat \<Rightarrow> int" where
  "round_half_even q = (let f = \<lfloor>q\<rfloor>; r = q - of_int f in
     if r < 1 / 2 then f else if r > 1 / 2 then f + 1 else if even f then f else f + 1)"

definition round6 :: "pylib \<Rightarrow> rat \<Rightarrow> rat" where
  "round6 L q = fl L (of_int (round_half_even (q * 1000000)) / 1000000)"

section \<open>Documented behaviour of the library functions\<close>

definition lawful_lib :: "pylib \<Rightarrow> bool" where
  "lawful_lib L \<longleftrightarrow>
     (\<forall>p q. p \<le> q \<longrightarrow> fl L p \<le> fl L q) \<and> (\<forall>q. fl L (fl L q) = fl L q) \<and> fl L 0 = 0 \<and> fl L 1 = 1 \<and>
     (\<forall>a b. 0 \<le> dist3 L a b) \<and>
     (\<forall>g lo hi. lo \<le> hi \<longrightarrow> lo \<le> fst (rng_int L g lo hi) \<and> fst (rng_int L g lo hi) \<le> hi) \<and>
     (\<forall>n. co_int L (JInt n) = Some n) \<and> (\<forall>q. co_float L (JFloat q) = Some q) \<and>
     (\<forall>s. co_str L (JStr s) = Some s) \<and> (\<forall>b. co_bool L (JBool b) = Some b) \<and>
     (\<forall>v u. co_uuid L v = Some u \<longrightarrow> co_uuid L (JStr u) = Some u \<and>
        (\<exists>s. v = JStr s \<and> uuid_of L s = Some u))"

text \<open>The identifiers of the instance are the names they are made from, with every colon exchanged for a tilde, so that
  they can stand in the path of a file.\<close>

definition swap_colon :: "char \<Rightarrow> char" where
  "swap_colon c = (if c = CHR '':'' then CHR ''~'' else if c = CHR ''~'' then CHR '':'' else c)"

definition swap_colons :: "string \<Rightarrow> string" where
  "swap_colons s = map swap_colon s"

lemma swap_colons_twice [simp]: "swap_colons (swap_colons s) = s"
proof -
  have "swap_colon (swap_colon c) = c" for c by (simp add: swap_colon_def)
  then show ?thesis by (simp add: swap_colons_def comp_def)
qed

definition ref_lib :: pylib where
  "ref_lib = \<lparr>fl = (\<lambda>q. q), digest = (\<lambda>v. ''digest''),
     file_digest = (\<lambda>v. ''artifact''), uuid5 = swap_colons, uuid_of = Some,
     float_of = (\<lambda>s. None), py_repr = (\<lambda>v. ''repr''),
     dist3 = (\<lambda>(a, b, c) (x, y, z). of_int (\<bar>a - x\<bar> + \<bar>b - y\<bar> + \<bar>c - z\<bar>)),
     rng_new = (\<lambda>seed. nat \<bar>seed\<bar>), rng_int = (\<lambda>g lo hi. (max lo (min hi (int g)), g)),
     co_int = (\<lambda>v. case v of JInt n \<Rightarrow> Some n | _ \<Rightarrow> None),
     co_float = (\<lambda>v. case v of JFloat q \<Rightarrow> Some q | JInt n \<Rightarrow> Some (of_int n) | _ \<Rightarrow> None),
     co_str = (\<lambda>v. case v of JStr s \<Rightarrow> Some s | _ \<Rightarrow> None),
     co_uuid = (\<lambda>v. case v of JStr s \<Rightarrow> Some s | _ \<Rightarrow> None),
     co_bool = (\<lambda>v. case v of JBool b \<Rightarrow> Some b | _ \<Rightarrow> None)\<rparr>"

lemma lawful_ref_lib: "lawful_lib ref_lib"
  by (auto simp: lawful_lib_def ref_lib_def split: jval.splits)

lemma lawful_rng:
  "lawful_lib L \<Longrightarrow> lo \<le> hi \<Longrightarrow> lo \<le> fst (rng_int L g lo hi)"
  "lawful_lib L \<Longrightarrow> lo \<le> hi \<Longrightarrow> fst (rng_int L g lo hi) \<le> hi"
  by (auto simp: lawful_lib_def)

lemma lawful_fl_mono: "lawful_lib L \<Longrightarrow> p \<le> q \<Longrightarrow> fl L p \<le> fl L q"
  by (simp add: lawful_lib_def)

lemma lawful_dist: "lawful_lib L \<Longrightarrow> 0 \<le> dist3 L a b"
  unfolding lawful_lib_def by blast

lemma lawful_fl_idem: "lawful_lib L \<Longrightarrow> fl L (fl L q) = fl L q"
  by (simp add: lawful_lib_def)

lemma lawful_fl_consts [simp]: "lawful_lib L \<Longrightarrow> fl L 0 = 0" "lawful_lib L \<Longrightarrow> fl L 1 = 1"
  by (simp_all add: lawful_lib_def)

lemma lawful_co:
  assumes "lawful_lib L"
  shows "co_int L (JInt n) = Some n" "co_float L (JFloat q) = Some q"
    "co_str L (JStr s) = Some s" "co_bool L (JBool b) = Some b"
    "co_uuid L v = Some u \<Longrightarrow> co_uuid L (JStr u) = Some u"
    "co_uuid L v = Some u \<Longrightarrow> \<exists>s. v = JStr s \<and> uuid_of L s = Some u"
  using assms unfolding lawful_lib_def by blast+

text \<open>Distinct names have distinct name-based UUIDs.\<close>

definition uuid5_injective :: "pylib \<Rightarrow> bool" where
  "uuid5_injective L \<longleftrightarrow> (\<forall>m n. uuid5 L m = uuid5 L n \<longrightarrow> m = n)"

lemma ref_lib_injective: "uuid5_injective ref_lib"
proof -
  have "m = n" if "swap_colons m = swap_colons n" for m n
    using arg_cong [OF that, of swap_colons] by simp
  then show ?thesis by (simp add: uuid5_injective_def ref_lib_def)
qed

lemma lawful_fl_unit:
  assumes "lawful_lib L" "0 \<le> q" "q \<le> 1"
  shows "0 \<le> fl L q" "fl L q \<le> 1"
  using assms lawful_fl_mono [of L 0 q] lawful_fl_mono [of L q 1] by simp_all

lemma round_half_even_ge: "of_int n \<le> q \<Longrightarrow> n \<le> round_half_even q"
proof -
  assume "of_int n \<le> q"
  then have "n \<le> \<lfloor>q\<rfloor>" by (simp add: le_floor_iff)
  then show ?thesis by (simp add: round_half_even_def Let_def)
qed

lemma round_half_even_le:
  assumes "q \<le> of_int n"
  shows "round_half_even q \<le> n"
proof (cases "\<lfloor>q\<rfloor> = n")
  case True
  with assms have "q = of_int n" by linarith
  then show ?thesis by (simp add: round_half_even_def)
next
  case False
  with assms have "\<lfloor>q\<rfloor> + 1 \<le> n" by linarith
  then show ?thesis by (auto simp: round_half_even_def Let_def)
qed

lemma round6_unit:
  assumes "lawful_lib L"
  shows "0 \<le> q \<Longrightarrow> 0 \<le> round6 L q" "q \<le> 1 \<Longrightarrow> round6 L q \<le> 1"
proof -
  assume "0 \<le> q"
  then have "0 \<le> round_half_even (q * 1000000)" by (intro round_half_even_ge) simp
  then have "0 \<le> (of_int (round_half_even (q * 1000000)) / 1000000 :: rat)" by simp
  from lawful_fl_mono [OF assms this] show "0 \<le> round6 L q" by (simp add: round6_def assms)
next
  assume "q \<le> 1"
  then have "q * 1000000 \<le> of_int 1000000" by simp
  then have "round_half_even (q * 1000000) \<le> 1000000" by (rule round_half_even_le)
  then have "of_int (round_half_even (q * 1000000)) \<le> (of_int 1000000 :: rat)"
    by (simp only: of_int_le_iff)
  then have "of_int (round_half_even (q * 1000000)) / 1000000 \<le> (1 :: rat)"
    by (simp add: divide_le_eq)
  from lawful_fl_mono [OF assms this] show "round6 L q \<le> 1" by (simp add: round6_def assms)
qed

lemma round_half_even_of_int [simp]: "round_half_even (of_int n) = n"
  by (simp add: round_half_even_def)

lemma json_canon_idem [simp]: "json_canon (json_canon v) = json_canon v"
proof (induction v rule: json_canon.induct)
  case (1 xs)
  then show ?case by simp
next
  case (2 d)
  let ?f = "\<lambda>p. (fst p, json_canon (snd p))"
  have "map ?f (map ?f d) = map ?f d"
    using 2 by (auto intro!: prod_eqI)
  moreover have "map ?f (sort_key fst ys) = sort_key fst (map ?f ys)" for ys :: jdict
    by (rule map_sort_key_commute) simp
  ultimately show ?case by (simp add: sort_key_idem del: map_map)
qed simp_all

lemma stable_hash_canon [simp]: "stable_hash L (json_canon v) = stable_hash L v"
  by (simp add: stable_hash_def)

lemma as_mapping_Inr [simp, res_simps]: "as_mapping v = Inr d \<longleftrightarrow> v = JDict d"
  by (cases v) auto

lemma get_int_JInt: "dget d k = Some (JInt n) \<Longrightarrow> get_int d k z = Inr n"
  by (simp add: get_int_def dget_or_def)

lemma get_int_None: "dget d k = None \<Longrightarrow> get_int d k z = Inr z"
  by (simp add: get_int_def dget_or_def)

end
