(* ===== verification/Schema.thy ===== *)
theory Schema
  imports Values
begin

text \<open>
  Declarative request and result models. A pydantic class of the source is a \<open>schema\<close>: its
  fields in order, each with its annotation (with the bounds of \<open>Field\<close>) and its default.
  \<open>model_validate\<close> is the validation of a raw parameter mapping followed by
  \<open>model_dump\<close>: unknown keys are dropped, missing keys take their default or fail, and
  present values are converted by the conversions of \<open>pylib\<close> and checked against the bounds.
\<close>

datatype fkind =
    FInt "int option" "int option"
  | FFloat "rat option" "rat option"
  | FFloatGt rat
  | FStr nat "nat option"
  | FUuid
  | FBool
  | FAny
  | FMapping
  | FEnum "string list"
  | FConst jval
  | FOption fkind
  | FTuple nat fkind
  | FModel "(string \<times> fkind \<times> jval option) list"

type_synonym schema = "(string \<times> fkind \<times> jval option) list"

definition in_bounds :: "('a::linorder) option \<Rightarrow> 'a option \<Rightarrow> 'a \<Rightarrow> bool" where
  "in_bounds lo hi x = ((case lo of None \<Rightarrow> True | Some l \<Rightarrow> l \<le> x) \<and>
                     (case hi of None \<Rightarrow> True | Some h \<Rightarrow> x \<le> h))"

text \<open>The sequence of results, \<open>None\<close> if one of them is.\<close>

fun all_some :: "'a option list \<Rightarrow> 'a list option" where
  "all_some [] = Some []"
| "all_some (None # xs) = None"
| "all_some (Some x # xs) = map_option ((#) x) (all_some xs)"

fun check_kind :: "pylib \<Rightarrow> fkind \<Rightarrow> jval \<Rightarrow> jval option"
  and check_fields :: "pylib \<Rightarrow> schema \<Rightarrow> jdict \<Rightarrow> jdict option" where
  "check_kind L (FInt lo hi) v = (case co_int L v of None \<Rightarrow> None
     | Some n \<Rightarrow> if in_bounds lo hi n then Some (JInt n) else None)"
| "check_kind L (FFloat lo hi) v = (case co_float L v of None \<Rightarrow> None
     | Some q \<Rightarrow> if in_bounds lo hi q then Some (JFloat q) else None)"
| "check_kind L (FFloatGt lo) v = (case co_float L v of None \<Rightarrow> None
     | Some q \<Rightarrow> if lo < q then Some (JFloat q) else None)"
| "check_kind L (FStr lo hi) v = (case co_str L v of None \<Rightarrow> None
     | Some s \<Rightarrow> if in_bounds (Some lo) hi (length s) then Some (JStr s) else None)"
| "check_kind L FUuid v = map_option JStr (co_uuid L v)"
| "check_kind L FBool v = map_option JBool (co_bool L v)"
| "check_kind L FAny v = Some v"
| "check_kind L FMapping v = (case v of JDict d \<Rightarrow> Some v | _ \<Rightarrow> None)"
| "check_kind L (FEnum vs) v = (case v of JStr s \<Rightarrow> if s \<in> set vs then Some v else None | _ \<Rightarrow> None)"
| "check_kind L (FConst c) v = (if v = c then Some c else None)"
| "check_kind L (FOption k) v = (case v of JNull \<Rightarrow> Some JNull | _ \<Rightarrow> check_kind L k v)"
| "check_kind L (FTuple m k) v = (case v of
       JList xs \<Rightarrow> if m \<le> length xs then map_option JList (all_some (map (check_kind L k) xs)) else None
     | _ \<Rightarrow> None)"
| "check_kind L (FModel fs) v = (case v of
       JDict d \<Rightarrow> map_option JDict (check_fields L fs d) | _ \<Rightarrow> None)"
| "check_fields L [] d = Some []"
| "check_fields L ((n, k, dflt) # fs) d =
     (case (case dget d n of Some v \<Rightarrow> check_kind L k v | None \<Rightarrow> dflt) of
        None \<Rightarrow> None
      | Some w \<Rightarrow> map_option ((#) (n, w)) (check_fields L fs d))"

definition model_validate :: "pylib \<Rightarrow> schema \<Rightarrow> jdict \<Rightarrow> jdict res" where
  "model_validate L fs d = of_option ValidationError (check_fields L fs d)"

text \<open>\<open>model_validate\<close> of an arbitrary value.\<close>

definition validate_any :: "pylib \<Rightarrow> schema \<Rightarrow> jval \<Rightarrow> jdict res" where
  "validate_any L fs v = (case v of JDict d \<Rightarrow> model_validate L fs d | _ \<Rightarrow> Inl ValidationError)"

text \<open>The construction of an enum member from a value.\<close>

definition enum_of :: "string list \<Rightarrow> jval \<Rightarrow> string res" where
  "enum_of vs v = (case v of
      JStr s \<Rightarrow> if s \<in> set vs then Inr s else Inl (ValueError ''not a valid member'')
    | _ \<Rightarrow> Inl (ValueError ''not a valid member''))"

definition model_accepts :: "pylib \<Rightarrow> schema \<Rightarrow> jdict \<Rightarrow> bool" where
  "model_accepts L fs d = (check_fields L fs d \<noteq> None)"

section \<open>Reading a validated mapping\<close>

text \<open>
  The attributes of a validated model. The default branches are never taken on the result of
  \<open>model_validate\<close> for a field of the matching kind (\<open>validated_int\<close> and its siblings).
\<close>

definition vint :: "jdict \<Rightarrow> string \<Rightarrow> int" where
  "vint d n = (case dget d n of Some (JInt i) \<Rightarrow> i | _ \<Rightarrow> 0)"

definition vstr :: "jdict \<Rightarrow> string \<Rightarrow> string" where
  "vstr d n = (case dget d n of Some (JStr s) \<Rightarrow> s | _ \<Rightarrow> [])"

definition vopt :: "jdict \<Rightarrow> string \<Rightarrow> string option" where
  "vopt d n = (case dget d n of Some (JStr s) \<Rightarrow> Some s | _ \<Rightarrow> None)"

definition vrat :: "jdict \<Rightarrow> string \<Rightarrow> rat" where
  "vrat d n = (case dget d n of Some (JFloat q) \<Rightarrow> q | Some (JInt i) \<Rightarrow> of_int i | _ \<Rightarrow> 0)"

definition vany :: "jdict \<Rightarrow> string \<Rightarrow> jval" where
  "vany d n = dget_or d n JNull"

definition vdict :: "jdict \<Rightarrow> string \<Rightarrow> jdict" where
  "vdict d n = (case dget d n of Some (JDict m) \<Rightarrow> m | _ \<Rightarrow> [])"

definition vlist :: "jdict \<Rightarrow> string \<Rightarrow> jval list" where
  "vlist d n = (case dget d n of Some (JList m) \<Rightarrow> m | _ \<Rightarrow> [])"

section \<open>What validation guarantees\<close>

lemma check_fields_names: "check_fields L fs d = Some r \<Longrightarrow> map fst r = map fst fs"
  by (induction fs arbitrary: r) (auto split: option.splits)

lemma check_fields_dget:
  assumes "check_fields L fs d = Some r" and "distinct (map fst fs)" and "(n, k, dflt) \<in> set fs"
  shows "\<exists>w. dget r n = Some w \<and> (case dget d n of Some v \<Rightarrow> check_kind L k v | None \<Rightarrow> dflt) = Some w"
  using assms
proof (induction fs arbitrary: r)
  case Nil
  then show ?case by simp
next
  case (Cons f fs)
  obtain n' k' dflt' where f: "f = (n', k', dflt')" by (cases f)
  from Cons.prems(1) obtain w r' where
    w: "(case dget d n' of Some v \<Rightarrow> check_kind L k' v | None \<Rightarrow> dflt') = Some w"
    and r': "check_fields L fs d = Some r'" and r: "r = (n', w) # r'"
    by (auto simp: f split: option.splits)
  show ?case
  proof (cases "(n, k, dflt) = f")
    case True
    with f have e: "n' = n" "k' = k" "dflt' = dflt" by simp_all
    from w show ?thesis unfolding e by (simp add: r e)
  next
    case False
    with Cons.prems(3) have "(n, k, dflt) \<in> set fs" by simp
    moreover from this Cons.prems(2) f have "n \<noteq> n'" by force
    ultimately show ?thesis using Cons.IH [OF r'] Cons.prems(2) r by (simp add: f)
  qed
qed

lemma model_validate_field:
  assumes "model_validate L fs d = Inr r" and "distinct (map fst fs)" and "(n, k, dflt) \<in> set fs"
  shows "\<exists>w. dget r n = Some w \<and> ((\<exists>v. check_kind L k v = Some w) \<or> dflt = Some w)"
proof -
  from assms(1) have "check_fields L fs d = Some r" by (simp add: model_validate_def)
  from check_fields_dget [OF this assms(2,3)] show ?thesis
    by (auto split: option.splits)
qed

text \<open>A bounded integer field is an integer within its bounds, provided its default is.\<close>

lemma validated_int:
  assumes "model_validate L fs d = Inr r" and "distinct (map fst fs)"
    and "(n, FInt lo hi, dflt) \<in> set fs"
    and "\<And>w. dflt = Some w \<Longrightarrow> \<exists>i. w = JInt i \<and> in_bounds lo hi i"
  shows "dget r n = Some (JInt (vint r n)) \<and> in_bounds lo hi (vint r n)"
  using model_validate_field [OF assms(1,2,3)] assms(4)
  by (fastforce simp: vint_def split: option.splits if_splits)

lemma validated_float:
  assumes "model_validate L fs d = Inr r" and "distinct (map fst fs)"
    and "(n, FFloat lo hi, dflt) \<in> set fs"
    and "\<And>w. dflt = Some w \<Longrightarrow> \<exists>q. w = JFloat q \<and> in_bounds lo hi q"
  shows "in_bounds lo hi (vrat r n)"
  using model_validate_field [OF assms(1,2,3)] assms(4)
  by (fastforce simp: vrat_def split: option.splits if_splits)

lemma validated_str:
  assumes "model_validate L fs d = Inr r" and "distinct (map fst fs)"
    and "(n, FStr lo hi, None) \<in> set fs"
  shows "dget r n = Some (JStr (vstr r n)) \<and> lo \<le> length (vstr r n)"
  using model_validate_field [OF assms]
  by (fastforce simp: vstr_def in_bounds_def split: option.splits if_splits)

lemma validated_uuid:
  assumes "model_validate L fs d = Inr r" and "distinct (map fst fs)"
    and "(n, FUuid, None) \<in> set fs"
  shows "dget r n = Some (JStr (vstr r n))"
  using model_validate_field [OF assms] by (fastforce simp: vstr_def)

lemma validated_enum:
  assumes "model_validate L fs d = Inr r" and "distinct (map fst fs)"
    and "(n, FEnum vs, None) \<in> set fs"
  shows "dget r n = Some (JStr (vstr r n)) \<and> vstr r n \<in> set vs"
  using model_validate_field [OF assms]
  by (fastforce simp: vstr_def split: jval.splits if_splits)

lemma enum_of_Inr [simp, res_simps]: "enum_of vs v = Inr s \<longleftrightarrow> v = JStr s \<and> s \<in> set vs"
  by (auto simp: enum_of_def split: jval.splits)

lemma validate_any_Inr [simp, res_simps]:
  "validate_any L fs v = Inr r \<longleftrightarrow> (\<exists>d. v = JDict d \<and> model_validate L fs d = Inr r)"
  by (auto simp: validate_any_def split: jval.splits)

section \<open>Validating twice is validating once\<close>

text \<open>
  The bus validates the parameters and hands the normalised mapping to the handler, which
  validates it again. For a library that leaves its own results alone the second validation
  returns its input.
\<close>

definition default_stable :: "pylib \<Rightarrow> string \<times> fkind \<times> jval option \<Rightarrow> bool" where
  "default_stable L f = (case f of (n, k, dflt) \<Rightarrow>
     (case dflt of None \<Rightarrow> True | Some w \<Rightarrow> check_kind L k w = Some w))"

primrec simple_kind :: "fkind \<Rightarrow> bool" where
  "simple_kind (FInt lo hi) = True"
| "simple_kind (FFloat lo hi) = True"
| "simple_kind (FFloatGt lo) = True"
| "simple_kind (FStr lo hi) = True"
| "simple_kind FUuid = True"
| "simple_kind FBool = True"
| "simple_kind FAny = True"
| "simple_kind FMapping = True"
| "simple_kind (FEnum vs) = True"
| "simple_kind (FConst c) = True"
| "simple_kind (FOption k) = simple_kind k"
| "simple_kind (FTuple m k) = simple_kind k"
| "simple_kind (FModel fs) = False"

lemma all_some_length: "all_some xs = Some ys \<Longrightarrow> length ys = length xs"
  by (induction xs arbitrary: ys rule: all_some.induct) auto

lemma all_some_map_idem:
  assumes "all_some (map f xs) = Some ys" and "\<And>x y. f x = Some y \<Longrightarrow> f y = Some y"
  shows "all_some (map f ys) = Some ys"
  using assms(1)
proof (induction xs arbitrary: ys)
  case Nil
  then show ?case by simp
next
  case (Cons x xs)
  then show ?case by (cases "f x") (auto simp: assms(2))
qed

lemma check_kind_idem:
  assumes "lawful_lib L" and "simple_kind k" and "check_kind L k v = Some w"
  shows "check_kind L k w = Some w"
  using assms(2,3)
proof (induction k arbitrary: v w)
  case (FOption k)
  then show ?case by (cases "v = JNull") (auto split: jval.splits)
next
  case (FTuple m k)
  from FTuple.prems obtain xs ys where "v = JList xs" "w = JList ys" and m: "m \<le> length xs"
    and ys: "all_some (map (check_kind L k) xs) = Some ys"
    by (auto split: jval.splits if_splits)
  moreover have "all_some (map (check_kind L k) ys) = Some ys"
    using FTuple.prems(1) by (intro all_some_map_idem [OF ys] FTuple.IH) simp_all
  moreover have "length ys = length xs" using all_some_length [OF ys] by simp
  ultimately show ?case by simp
qed (auto simp: lawful_co [OF assms(1)] split: option.splits if_splits jval.splits)

lemma check_fields_restrict:
  assumes "\<And>n k dflt. (n, k, dflt) \<in> set fs \<Longrightarrow>
    (case dget d n of Some v \<Rightarrow> check_kind L k v | None \<Rightarrow> dflt) = dget r n \<and> dget r n \<noteq> None"
  shows "check_fields L fs d = Some (map (\<lambda>f. (fst f, the (dget r (fst f)))) fs)"
  using assms
proof (induction fs)
  case Nil
  then show ?case by simp
next
  case (Cons f fs)
  obtain n k dflt where f: "f = (n, k, dflt)" by (cases f)
  from Cons.prems [of n k dflt] obtain w where
    "(case dget d n of Some v \<Rightarrow> check_kind L k v | None \<Rightarrow> dflt) = Some w" "dget r n = Some w"
    by (auto simp: f)
  moreover have "check_fields L fs d = Some (map (\<lambda>f. (fst f, the (dget r (fst f)))) fs)"
    using Cons.prems by (intro Cons.IH) auto
  ultimately show ?case by (simp add: f)
qed

lemma map_of_self: "distinct (map fst r) \<Longrightarrow> map (\<lambda>p. (fst p, the (dget r (fst p)))) r = r"
  by (rule map_idI) (auto simp: map_of_eq_Some_iff prod_eq_iff)

lemma model_validate_fields: "model_validate L fs d = Inr r \<longleftrightarrow> check_fields L fs d = Some r"
  by (simp add: model_validate_def)

lemma all_some_ident: "(\<And>x. x \<in> set xs \<Longrightarrow> f x = Some x) \<Longrightarrow> all_some (map f xs) = Some xs"
  by (induction xs) auto

definition stable_kind :: "pylib \<Rightarrow> fkind \<Rightarrow> bool" where
  "stable_kind L k \<longleftrightarrow> (\<forall>v w. check_kind L k v = Some w \<longrightarrow> check_kind L k w = Some w)"

lemma model_validate_stable:
  assumes "distinct (map fst fs)"
    and "\<And>f. f \<in> set fs \<Longrightarrow> stable_kind L (fst (snd f)) \<and> default_stable L f"
    and "model_validate L fs d = Inr r"
  shows "model_validate L fs r = Inr r"
proof -
  from assms(3) have r: "check_fields L fs d = Some r" by (simp add: model_validate_def)
  have "check_fields L fs r = Some (map (\<lambda>f. (fst f, the (dget r (fst f)))) fs)"
  proof (rule check_fields_restrict)
    fix n k dflt assume f: "(n, k, dflt) \<in> set fs"
    from check_fields_dget [OF r assms(1) f] obtain w where w: "dget r n = Some w"
      and src: "(case dget d n of Some v \<Rightarrow> check_kind L k v | None \<Rightarrow> dflt) = Some w"
      by blast
    have "check_kind L k w = Some w"
      using src assms(2) [OF f]
      by (auto simp: default_stable_def stable_kind_def split: option.splits)
    with w show "(case dget r n of Some v \<Rightarrow> check_kind L k v | None \<Rightarrow> dflt) = dget r n \<and>
      dget r n \<noteq> None" by simp
  qed
  also have "map (\<lambda>f. (fst f, the (dget r (fst f)))) fs = map (\<lambda>n. (n, the (dget r n))) (map fst r)"
    by (simp add: check_fields_names [OF r])
  also have "\<dots> = r"
    using map_of_self [of r] assms(1) by (simp add: check_fields_names [OF r, symmetric] comp_def)
  finally show ?thesis by (simp add: model_validate_def)
qed

lemma simple_kind_stable: "lawful_lib L \<Longrightarrow> simple_kind k \<Longrightarrow> stable_kind L k"
  using check_kind_idem by (auto simp: stable_kind_def)

lemma model_validate_idem:
  assumes "lawful_lib L" and "distinct (map fst fs)"
    and "\<And>f. f \<in> set fs \<Longrightarrow> simple_kind (fst (snd f)) \<and> default_stable L f"
    and "model_validate L fs d = Inr r"
  shows "model_validate L fs r = Inr r"
  using assms(3) simple_kind_stable [OF assms(1)] by (intro model_validate_stable [OF assms(2) _ assms(4)]) blast

end
