(* ===== verification/Contracts.thy ===== *)
theory Contracts
  imports Schema
begin

text \<open>
  The immutable records of \<open>kernel/contracts.py\<close> and \<open>kernel/perception_contracts.py\<close>:
  actors, command proposals, state deltas, command results, event envelopes, sensory emissions
  and perception grants. Field names carry a short prefix of their class.
\<close>

datatype actor_kind = HUMAN | AGENT | SYSTEM

datatype branch_kind = CANONICAL | TRIAL

datatype run_kind = LIVE | POPULATION | EVALUATION

record actor =
  actor_id :: uuid
  actor_kind :: actor_kind
  display_name :: string
  roles :: "string set"
  capabilities :: "string set"
  controlled_entity_ids :: "uuid set"

definition has_capabilities :: "actor \<Rightarrow> string set \<Rightarrow> bool" where
  "has_capabilities a required = (required \<subseteq> capabilities a)"

record proposal =
  p_command_id :: uuid
  p_command_type :: string
  p_world_id :: uuid
  p_branch_id :: uuid
  p_run_id :: uuid
  p_interaction_id :: "uuid option"
  p_actor_id :: uuid
  p_embodied_entity_id :: "uuid option"
  p_parameters :: jdict
  p_idempotency_key :: string
  p_correlation_id :: uuid
  p_causation_id :: "uuid option"
  p_seed :: "int option"
  p_decision_trace_id :: "uuid option"
  p_persona_version :: "string option"
  p_policy_version :: "string option"
  p_prompt_contract_version :: "string option"
  p_model_version :: "string option"

datatype delta_op = SET | MERGE | DELETE | INCREMENT

record state_delta =
  sd_projection :: string
  sd_operation :: delta_op
  sd_entity_id :: "uuid option"
  sd_values :: jdict

record entity_mutation =
  em_entity_id :: uuid
  em_entity_type :: string
  em_name :: string
  em_public_state :: jdict
  em_secret_state :: jdict
  em_controller_actor_id :: "uuid option"

record command_result =
  cr_accepted :: bool
  cr_result :: jdict
  cr_deltas :: "state_delta list"
  cr_entity_mutations :: "entity_mutation list"
  cr_domain_tags :: "string list"

text \<open>A result with the defaults of the class for the fields a handler leaves out.\<close>

definition mk_result :: "jdict \<Rightarrow> state_delta list \<Rightarrow> string list \<Rightarrow> command_result" where
  "mk_result r ds tags = \<lparr>cr_accepted = True, cr_result = r, cr_deltas = ds,
     cr_entity_mutations = [], cr_domain_tags = tags\<rparr>"

definition mk_delta :: "string \<Rightarrow> delta_op \<Rightarrow> uuid \<Rightarrow> jdict \<Rightarrow> state_delta" where
  "mk_delta proj op e vs =
     \<lparr>sd_projection = proj, sd_operation = op, sd_entity_id = Some e, sd_values = vs\<rparr>"

record event =
  e_event_id :: uuid
  e_world_id :: uuid
  e_branch_id :: uuid
  e_run_id :: uuid
  e_interaction_id :: "uuid option"
  e_actor_id :: uuid
  e_embodied_entity_id :: "uuid option"
  e_event_type :: string
  e_payload :: jdict
  e_observed_by :: "uuid list"
  e_visible_to :: "uuid list"
  e_correlation_id :: uuid
  e_causation_id :: "uuid option"
  e_domain_tags :: "string list"
  e_idempotency_key :: "string option"
  e_persona_version :: "string option"
  e_policy_version :: "string option"
  e_prompt_contract_version :: "string option"
  e_model_version :: "string option"
  e_seed :: "int option"
  e_decision_trace_id :: "uuid option"
  e_created_at :: int

text \<open>The validator of \<open>visible_to\<close>.\<close>

definition visible_to_cannot_be_empty :: "uuid list \<Rightarrow> uuid list res" where
  "visible_to_cannot_be_empty value =
     (if value = [] then Inl (ValueError ''visible_to must contain at least one actor'')
      else Inr value)"

section \<open>Sensory contracts\<close>

datatype modality = SIGHT | SOUND | TOUCH | MAGIC

datatype outcome = DIRECT | PARTIAL

datatype anchor_phase = BEFORE | AFTER | EXPLICIT

record anchor =
  an_entity_id :: "uuid option"
  an_phase :: anchor_phase
  an_zone_id :: "string option"
  an_x :: "rat option"
  an_y :: "rat option"
  an_z :: "rat option"

definition entity_anchor :: "uuid \<Rightarrow> anchor_phase \<Rightarrow> anchor" where
  "entity_anchor e ph = \<lparr>an_entity_id = Some e, an_phase = ph, an_zone_id = None,
     an_x = None, an_y = None, an_z = None\<rparr>"

record emission =
  em_anchor :: anchor
  em_modalities :: "modality list"
  em_intensity :: rat
  em_max_range :: rat
  em_allowed_payload_fields :: "string list option"
  em_hidden_payload_fields :: "string set"
  em_payload_overrides :: jdict
  em_reason_codes :: "string list"

record grant =
  g_event_id :: uuid
  g_world_id :: uuid
  g_branch_id :: uuid
  g_observer_entity_id :: uuid
  g_controller_actor_id :: "uuid option"
  g_modalities :: "modality list"
  g_outcome :: outcome
  g_confidence :: rat
  g_allowed_payload_fields :: "string list option"
  g_hidden_payload_fields :: "string set"
  g_payload_overrides :: jdict
  g_reason_codes :: "string list"
  g_resolver_version :: string
  g_spatial_context_hash :: string

text \<open>\<open>AudienceResolution\<close> is its tuple of grants; the summary lists the distinct controllers
  in the order of their text.\<close>

definition controller_actor_summary :: "grant list \<Rightarrow> uuid list" where
  "controller_actor_summary gs =
     sort (remdups (List.map_filter g_controller_actor_id gs))"

lemma set_controller_actor_summary:
  "set (controller_actor_summary gs) = {u. \<exists>g\<in>set gs. g_controller_actor_id g = Some u}"
  by (auto simp: controller_actor_summary_def List.map_filter_def image_iff) force

lemma mk_result_simps [simp]:
  "cr_accepted (mk_result r ds tags) = True"
  "cr_result (mk_result r ds tags) = r"
  "cr_deltas (mk_result r ds tags) = ds"
  "cr_entity_mutations (mk_result r ds tags) = []"
  "cr_domain_tags (mk_result r ds tags) = tags"
  by (simp_all add: mk_result_def)

lemma mk_delta_simps [simp]:
  "sd_projection (mk_delta proj op e vs) = proj"
  "sd_operation (mk_delta proj op e vs) = op"
  "sd_entity_id (mk_delta proj op e vs) = Some e"
  "sd_values (mk_delta proj op e vs) = vs"
  by (simp_all add: mk_delta_def)

end
