(* ===== verification/KernelState.thy ===== *)
theory KernelState
  imports Contracts
begin

text \<open>
  \<open>kernel/state.py\<close>: a branch of a world as nested projections, the four delta operations,
  and the reference store with its idempotent, all-or-nothing \<open>execute_atomic\<close>.
  Operations that raise return the exception; \<open>execute_atomic\<close> also returns the store, so
  that what an exception leaves behind is a statement about the model. The evaluated operation
  receives the working copy and may hand back a mutated one, also together with an exception.
\<close>

type_synonym projections = "(string \<times> (string \<times> jval) list) list"

record branch_state =
  bs_world_id :: uuid
  bs_branch_id :: uuid
  bs_kind :: branch_kind
  projections :: projections
  base_snapshot_hash :: "string option"
  bs_version :: int

text \<open>The projections as one JSON document, the argument of \<open>stable_hash\<close>.\<close>

definition projections_json :: "projections \<Rightarrow> jval" where
  "projections_json ps = JDict (map (\<lambda>p. (fst p, JDict (snd p))) ps)"

definition state_hash :: "pylib \<Rightarrow> branch_state \<Rightarrow> string" where
  "state_hash L s = stable_hash L (projections_json (projections s))"

definition clone_for_trial :: "pylib \<Rightarrow> branch_state \<Rightarrow> uuid \<Rightarrow> branch_state" where
  "clone_for_trial L s branch_id = \<lparr>bs_world_id = bs_world_id s, bs_branch_id = branch_id,
     bs_kind = TRIAL, projections = projections s,
     base_snapshot_hash = Some (state_hash L s), bs_version = 0\<rparr>"

definition working_copy :: "branch_state \<Rightarrow> branch_state" where
  "working_copy s = \<lparr>bs_world_id = bs_world_id s, bs_branch_id = bs_branch_id s,
     bs_kind = bs_kind s, projections = projections s,
     base_snapshot_hash = base_snapshot_hash s, bs_version = bs_version s\<rparr>"

section \<open>Deltas\<close>

definition bucket :: "branch_state \<Rightarrow> string \<Rightarrow> (string \<times> jval) list" where
  "bucket s proj = dget_or (projections s) proj []"

definition set_bucket :: "branch_state \<Rightarrow> string \<Rightarrow> (string \<times> jval) list \<Rightarrow> branch_state" where
  "set_bucket s proj b = s\<lparr>projections := dset (projections s) proj b\<rparr>"

definition delta_key :: "state_delta \<Rightarrow> string" where
  "delta_key d = (case sd_entity_id d of None \<Rightarrow> ''singleton'' | Some e \<Rightarrow> e)"

text \<open>The INCREMENT loop: \<open>current[name] = current.get(name, 0) + amount\<close>.\<close>

definition increment_all :: "pylib \<Rightarrow> jdict \<Rightarrow> jdict \<Rightarrow> jdict res" where
  "increment_all L current values = foldR (\<lambda>cur (name, amount).
     bindR (py_add L (dget_or cur name (JInt 0)) amount) (\<lambda>v. Inr (dset cur name v))) current values"

definition apply_delta :: "pylib \<Rightarrow> branch_state \<Rightarrow> state_delta \<Rightarrow> branch_state res" where
  "apply_delta L s d = (let b = bucket s (sd_projection d); key = delta_key d in
     case sd_operation d of
       DELETE \<Rightarrow> Inr (set_bucket s (sd_projection d) (ddel b key))
     | SET \<Rightarrow> Inr (set_bucket s (sd_projection d) (dset b key (JDict (sd_values d))))
     | MERGE \<Rightarrow> bindR (as_mapping (dget_or b key (JDict []))) (\<lambda>cur.
         Inr (set_bucket s (sd_projection d) (dset b key (JDict (dupdate cur (sd_values d))))))
     | INCREMENT \<Rightarrow> bindR (if sd_values d = [] then Inr (dget_or b key (JDict []))
           else bindR (as_mapping (dget_or b key (JDict []))) (\<lambda>cur.
             bindR (increment_all L cur (sd_values d)) (\<lambda>cur'. Inr (JDict cur')))) (\<lambda>v.
         Inr (set_bucket s (sd_projection d) (dset b key v))))"

definition apply_deltas :: "pylib \<Rightarrow> branch_state \<Rightarrow> state_delta list \<Rightarrow> branch_state res" where
  "apply_deltas L s ds = foldR (apply_delta L) s ds"

section \<open>The store\<close>

type_synonym receipt_key = "uuid \<times> uuid \<times> string"

record 'r store =
  branches :: "(uuid \<times> branch_state) list"
  receipts :: "(receipt_key \<times> 'r) list"

definition empty_store :: "'r store" where
  "empty_store = \<lparr>branches = [], receipts = []\<rparr>"

definition store_add :: "'r store \<Rightarrow> branch_state \<Rightarrow> 'r store res" where
  "store_add st s =
     (if dhas (branches st) (bs_branch_id s)
      then Inl (BranchIsolationError ''Branch already exists'')
      else Inr (st\<lparr>branches := dset (branches st) (bs_branch_id s) s\<rparr>))"

definition store_get :: "'r store \<Rightarrow> uuid \<Rightarrow> branch_state res" where
  "store_get st b = of_option (BranchIsolationError ''Unknown branch'') (dget (branches st) b)"

definition store_all :: "'r store \<Rightarrow> branch_state list" where
  "store_all st = List.map_filter (dget (branches st)) (sort (map fst (branches st)))"

definition execute_atomic ::
  "'r store \<Rightarrow> uuid \<Rightarrow> receipt_key \<Rightarrow> (branch_state \<Rightarrow> 'r res \<times> branch_state) \<Rightarrow>
   ('r \<times> bool) res \<times> 'r store" where
  "execute_atomic st branch_id key operation =
     (case dget (receipts st) key of
        Some r \<Rightarrow> (Inr (r, True), st)
      | None \<Rightarrow>
          (case store_get st branch_id of
             Inl e \<Rightarrow> (Inl e, st)
           | Inr source \<Rightarrow>
               (case operation (working_copy source) of
                  (Inl e, _) \<Rightarrow> (Inl e, st)
                | (Inr r, working) \<Rightarrow>
                    (let source' = source\<lparr>projections := projections working,
                           base_snapshot_hash := base_snapshot_hash working,
                           bs_version := bs_version source + 1\<rparr>
                     in (Inr (r, False),
                         st\<lparr>branches := dset (branches st) branch_id source',
                            receipts := dset (receipts st) key r\<rparr>)))))"

definition store_create_trial :: "pylib \<Rightarrow> 'r store \<Rightarrow> uuid \<Rightarrow> uuid \<Rightarrow> (branch_state \<times> 'r store) res" where
  "store_create_trial L st canonical_id trial_id =
     bindR (store_get st canonical_id) (\<lambda>canonical.
     if bs_kind canonical \<noteq> CANONICAL
     then Inl (BranchIsolationError ''Trials must be created from a canonical branch'')
     else (let trial = clone_for_trial L canonical trial_id in
           bindR (store_add st trial) (\<lambda>st'. Inr (trial, st'))))"

section \<open>Deltas touch one entry of one projection\<close>

lemma bucket_set_bucket [simp, frame_simps]:
  "bucket (set_bucket s proj b) proj' = (if proj' = proj then b else bucket s proj')"
  by (simp add: bucket_def set_bucket_def)

lemma set_bucket_other [simp, frame_simps]:
  "bs_world_id (set_bucket s proj b) = bs_world_id s"
  "bs_branch_id (set_bucket s proj b) = bs_branch_id s"
  "bs_kind (set_bucket s proj b) = bs_kind s"
  "base_snapshot_hash (set_bucket s proj b) = base_snapshot_hash s"
  "bs_version (set_bucket s proj b) = bs_version s"
  by (simp_all add: set_bucket_def)

lemma apply_delta_shape:
  assumes "apply_delta L s d = Inr t"
  shows "\<exists>b. t = set_bucket s (sd_projection d) b \<and>
    (\<forall>k. k \<noteq> delta_key d \<longrightarrow> dget b k = dget (bucket s (sd_projection d)) k)"
  using assms
  by (cases "sd_operation d") (auto simp: apply_delta_def Let_def bindR_eq_Inr)

lemma apply_delta_frame [frame_simps]:
  assumes "apply_delta L s d = Inr t"
  shows "bs_world_id t = bs_world_id s" "bs_branch_id t = bs_branch_id s" "bs_kind t = bs_kind s"
    "base_snapshot_hash t = base_snapshot_hash s" "bs_version t = bs_version s"
    "proj \<noteq> sd_projection d \<Longrightarrow> bucket t proj = bucket s proj"
    "k \<noteq> delta_key d \<Longrightarrow> dget (bucket t proj) k = dget (bucket s proj) k"
  using apply_delta_shape [OF assms] by auto

lemma apply_deltas_Nil [simp]: "apply_deltas L s [] = Inr s"
  by (simp add: apply_deltas_def)

lemma apply_deltas_Cons [simp]:
  "apply_deltas L s (d # ds) = bindR (apply_delta L s d) (\<lambda>t. apply_deltas L t ds)"
  by (simp add: apply_deltas_def)

lemma apply_deltas_append:
  "apply_deltas L s (ds @ es) = bindR (apply_deltas L s ds) (\<lambda>t. apply_deltas L t es)"
  by (simp add: apply_deltas_def foldR_append)

lemma apply_deltas_frame [frame_simps]:
  assumes "apply_deltas L s ds = Inr t"
  shows "bs_world_id t = bs_world_id s" "bs_branch_id t = bs_branch_id s" "bs_kind t = bs_kind s"
    "base_snapshot_hash t = base_snapshot_hash s" "bs_version t = bs_version s"
    "(\<forall>d\<in>set ds. sd_projection d \<noteq> proj) \<Longrightarrow> bucket t proj = bucket s proj"
    "(\<forall>d\<in>set ds. sd_projection d = proj \<longrightarrow> delta_key d \<noteq> k) \<Longrightarrow>
       dget (bucket t proj) k = dget (bucket s proj) k"
proof -
  have "bs_world_id t = bs_world_id s \<and> bs_branch_id t = bs_branch_id s \<and> bs_kind t = bs_kind s \<and>
    base_snapshot_hash t = base_snapshot_hash s \<and> bs_version t = bs_version s \<and>
    ((\<forall>d\<in>set ds. sd_projection d \<noteq> proj) \<longrightarrow> bucket t proj = bucket s proj) \<and>
    ((\<forall>d\<in>set ds. sd_projection d = proj \<longrightarrow> delta_key d \<noteq> k) \<longrightarrow>
       dget (bucket t proj) k = dget (bucket s proj) k)"
    using assms
  proof (induction ds arbitrary: s)
    case Nil
    then show ?case by simp
  next
    case (Cons d ds)
    from Cons.prems obtain u where u: "apply_delta L s d = Inr u" "apply_deltas L u ds = Inr t"
      by (auto simp: bindR_eq_Inr)
    from Cons.IH [OF u(2)] apply_delta_frame [OF u(1)] show ?case
      by (metis list.set_intros(1) list.set_intros(2))
  qed
  then show "bs_world_id t = bs_world_id s" "bs_branch_id t = bs_branch_id s" "bs_kind t = bs_kind s"
    "base_snapshot_hash t = base_snapshot_hash s" "bs_version t = bs_version s"
    "(\<forall>d\<in>set ds. sd_projection d \<noteq> proj) \<Longrightarrow> bucket t proj = bucket s proj"
    "(\<forall>d\<in>set ds. sd_projection d = proj \<longrightarrow> delta_key d \<noteq> k) \<Longrightarrow>
       dget (bucket t proj) k = dget (bucket s proj) k"
    by blast+
qed

text \<open>Deltas see nothing but the projections, so runs from equal projections agree.\<close>

lemma apply_delta_cong:
  assumes "projections s = projections s'"
  shows "map_sum id projections (apply_delta L s d) = map_sum id projections (apply_delta L s' d)"
  using assms
  by (cases "sd_operation d")
     (auto simp: apply_delta_def Let_def bucket_def set_bucket_def bindR_def split: sum.splits)

lemma apply_deltas_cong:
  assumes "projections s = projections s'" and "apply_deltas L s ds = Inr t"
  shows "\<exists>t'. apply_deltas L s' ds = Inr t' \<and> projections t' = projections t"
  using assms
proof (induction ds arbitrary: s s')
  case Nil
  then show ?case by simp
next
  case (Cons d ds)
  from Cons.prems obtain u where u: "apply_delta L s d = Inr u" "apply_deltas L u ds = Inr t"
    by (auto simp: bindR_eq_Inr)
  from apply_delta_cong [OF Cons.prems(1), of L d] u(1) obtain u' where
    "apply_delta L s' d = Inr u'" "projections u' = projections u"
    by (cases "apply_delta L s' d") auto
  with Cons.IH [of u u'] u(2) show ?case by (auto simp: bindR_eq_Inr)
qed

section \<open>The store\<close>

lemma store_get_Inr [simp, res_simps]: "store_get st b = Inr s \<longleftrightarrow> dget (branches st) b = Some s"
  by (simp add: store_get_def)

lemma working_copy_id [simp]: "working_copy s = s"
  by (simp add: working_copy_def)

lemma execute_atomic_Inl: "execute_atomic st b key op = (Inl e, st') \<Longrightarrow> st' = st"
  by (auto simp: execute_atomic_def Let_def split: option.splits sum.splits prod.splits)

lemma execute_atomic_duplicate:
  "dget (receipts st) key = Some r \<Longrightarrow> execute_atomic st b key op = (Inr (r, True), st)"
  by (simp add: execute_atomic_def)

lemma execute_atomic_fresh:
  assumes "execute_atomic st b key op = (Inr (r, False), st')"
  obtains source working where "dget (receipts st) key = None" "dget (branches st) b = Some source"
    "op source = (Inr r, working)"
    "st' = st\<lparr>branches := dset (branches st) b (source\<lparr>projections := projections working,
        base_snapshot_hash := base_snapshot_hash working, bs_version := bs_version source + 1\<rparr>),
      receipts := dset (receipts st) key r\<rparr>"
  using assms
  by (auto simp: execute_atomic_def Let_def split: option.splits sum.splits prod.splits)

lemma execute_atomic_recorded:
  "execute_atomic st b key op = (Inr (r, dup), st') \<Longrightarrow> dget (receipts st') key = Some r"
  by (auto simp: execute_atomic_def Let_def split: option.splits sum.splits prod.splits)

text \<open>Resubmission returns the original receipt and changes nothing, whatever the second
  operation is.\<close>

lemma execute_atomic_idempotent:
  assumes "execute_atomic st b key op = (Inr (r, dup), st')"
  shows "execute_atomic st' b' key op' = (Inr (r, True), st')"
  using execute_atomic_recorded [OF assms] by (rule execute_atomic_duplicate)

lemma execute_atomic_other_branch:
  assumes "execute_atomic st b key op = (res, st')" and "b' \<noteq> b"
  shows "dget (branches st') b' = dget (branches st) b'"
  using assms
  by (auto simp: execute_atomic_def Let_def split: option.splits sum.splits prod.splits)

lemma execute_atomic_dom:
  assumes "execute_atomic st b key op = (res, st')" and "dget (branches st) b' = Some s"
  shows "\<exists>s'. dget (branches st') b' = Some s' \<and> bs_kind s' = bs_kind s \<and>
    bs_world_id s' = bs_world_id s \<and> bs_branch_id s' = bs_branch_id s \<and>
    bs_version s \<le> bs_version s'"
  using assms
  by (auto simp: execute_atomic_def Let_def split: option.splits sum.splits prod.splits if_splits)

text \<open>Receipts are never overwritten.\<close>

lemma execute_atomic_receipts:
  assumes "execute_atomic st b key op = (res, st')" and "dget (receipts st) k = Some r"
  shows "dget (receipts st') k = Some r"
  using assms
  by (auto simp: execute_atomic_def Let_def split: option.splits sum.splits prod.splits if_splits)

end
