(* ===== verification/CommandBus.thy ===== *)
theory CommandBus
  imports KernelState
begin

text \<open>
  \<open>kernel/event_factory.py\<close> and \<open>kernel/command_bus.py\<close>: command definitions, the event
  materialiser, and the deny-by-default command authority with its single mutation boundary.
  The wall clock is the argument \<open>now\<close>; the perception resolver is a field of the bus, as the
  event factory of the source holds it.
\<close>

type_synonym handler = "proposal \<Rightarrow> branch_state \<Rightarrow> command_result res \<times> branch_state"

type_synonym emission_builder =
  "proposal \<Rightarrow> command_result \<Rightarrow> branch_state \<Rightarrow> branch_state \<Rightarrow> emission option res"

type_synonym resolver =
  "uuid \<Rightarrow> proposal \<Rightarrow> emission option \<Rightarrow> branch_state \<Rightarrow> branch_state \<Rightarrow> grant list res"

record command_definition =
  cd_command_type :: string
  cd_required_capabilities :: "string set"
  cd_allowed_branch_kinds :: "branch_kind set"
  cd_handler :: handler
  cd_version :: string
  cd_request_model :: "(jdict \<Rightarrow> jdict res) option"
  cd_result_model :: "(jdict \<Rightarrow> bool) option"
  cd_sensitive_parameters :: "string set"
  cd_requires_controlled_entity :: bool
  cd_emission_builder :: "emission_builder option"

record receipt =
  rc_result :: command_result
  rc_event :: event
  rc_state_hash :: string
  rc_perceptions :: "grant list"

record bus =
  bus_states :: "receipt store"
  bus_resolver :: resolver
  bus_definitions :: "(string \<times> command_definition) list"

text \<open>A handler that only reads the state it is given.\<close>

definition reads_only :: "(proposal \<Rightarrow> branch_state \<Rightarrow> command_result res) \<Rightarrow> handler" where
  "reads_only f = (\<lambda>p s. (f p s, s))"

section \<open>Events\<close>

definition stable_event_id :: "pylib \<Rightarrow> proposal \<Rightarrow> uuid" where
  "stable_event_id L p = uuid5 L (''tabletop-dm:event:'' @ p_run_id p @ '':'' @ p_actor_id p @
     '':'' @ p_idempotency_key p)"

definition null_resolver :: resolver where
  "null_resolver event_id p em before after = Inr []"

definition materialize ::
  "pylib \<Rightarrow> resolver \<Rightarrow> int \<Rightarrow> proposal \<Rightarrow> command_result \<Rightarrow> branch_state \<Rightarrow> branch_state \<Rightarrow>
   emission_builder option \<Rightarrow> (event \<times> grant list) res" where
  "materialize L resolve now p result before after builder =
     (let event_id = stable_event_id L p in
      bindR (case builder of None \<Rightarrow> Inr None | Some f \<Rightarrow> f p result before after) (\<lambda>em.
      bindR (resolve event_id p em before after) (\<lambda>perceptions.
      bindR (visible_to_cannot_be_empty [p_actor_id p]) (\<lambda>visible.
      Inr (\<lparr>e_event_id = event_id, e_world_id = p_world_id p, e_branch_id = p_branch_id p,
            e_run_id = p_run_id p, e_interaction_id = p_interaction_id p,
            e_actor_id = p_actor_id p, e_embodied_entity_id = p_embodied_entity_id p,
            e_event_type = p_command_type p, e_payload = cr_result result,
            e_observed_by = controller_actor_summary perceptions, e_visible_to = visible,
            e_correlation_id = p_correlation_id p, e_causation_id = p_causation_id p,
            e_domain_tags = cr_domain_tags result,
            e_idempotency_key = Some (p_idempotency_key p),
            e_persona_version = p_persona_version p, e_policy_version = p_policy_version p,
            e_prompt_contract_version = p_prompt_contract_version p,
            e_model_version = p_model_version p, e_seed = p_seed p,
            e_decision_trace_id = p_decision_trace_id p, e_created_at = now\<rparr>,
           perceptions)))))"

section \<open>The bus\<close>

definition new_bus :: "receipt store \<Rightarrow> bus" where
  "new_bus st = \<lparr>bus_states = st, bus_resolver = null_resolver, bus_definitions = []\<rparr>"

definition register :: "bus \<Rightarrow> command_definition \<Rightarrow> bus res" where
  "register b d =
     (if dhas (bus_definitions b) (cd_command_type d)
      then Inl (ValueError ''Command already registered'')
      else Inr (b\<lparr>bus_definitions := dset (bus_definitions b) (cd_command_type d) d\<rparr>))"

definition bus_definition :: "bus \<Rightarrow> string \<Rightarrow> command_definition res" where
  "bus_definition b ct = of_option (UnknownCommand ct) (dget (bus_definitions b) ct)"

definition branch_capability :: "branch_kind \<Rightarrow> string" where
  "branch_capability k = (if k = CANONICAL then ''action.commit'' else ''action.propose'')"

text \<open>The checks of \<open>execute\<close> before the transaction, in the order of the code.\<close>

definition admit :: "bus \<Rightarrow> proposal \<Rightarrow> actor \<Rightarrow> (command_definition \<times> proposal) res" where
  "admit b p a =
     bindR (ensure (p_actor_id p = actor_id a)
       (AuthorizationDenied ''Proposal actor does not match authenticated actor'')) (\<lambda>_.
     bindR (bus_definition b (p_command_type p)) (\<lambda>d.
     bindR (ensure (has_capabilities a (cd_required_capabilities d))
       (AuthorizationDenied ''Missing capabilities'')) (\<lambda>_.
     bindR (ensure (\<not> (cd_requires_controlled_entity d \<and> p_embodied_entity_id p = None))
       (AuthorizationDenied ''Command requires an embodied entity'')) (\<lambda>_.
     bindR (ensure (\<not> (cd_requires_controlled_entity d \<and>
         (case p_embodied_entity_id p of None \<Rightarrow> True | Some e \<Rightarrow> e \<notin> controlled_entity_ids a)))
       (AuthorizationDenied ''Actor does not control the embodied entity'')) (\<lambda>_.
     (case cd_request_model d of
        None \<Rightarrow> Inr (d, p)
      | Some validate \<Rightarrow>
          (case validate (p_parameters p) of
             Inr normalized \<Rightarrow> Inr (d, p\<lparr>p_parameters := normalized\<rparr>)
           | Inl ValidationError \<Rightarrow> Inl (ValueError ''Invalid parameters'')
           | Inl e \<Rightarrow> Inl e)))))))"

text \<open>The closure \<open>run\<close>, evaluated on the working copy inside \<open>execute_atomic\<close>.\<close>

definition run_command ::
  "pylib \<Rightarrow> bus \<Rightarrow> int \<Rightarrow> command_definition \<Rightarrow> proposal \<Rightarrow> actor \<Rightarrow> branch_state \<Rightarrow>
   receipt res \<times> branch_state" where
  "run_command L b now d p a state =
     (if bs_world_id state \<noteq> p_world_id p
      then (Inl (AuthorizationDenied ''Branch does not belong to proposal world''), state)
      else if bs_kind state \<notin> cd_allowed_branch_kinds d
      then (Inl (AuthorizationDenied ''command is not allowed on this branch kind''), state)
      else if branch_capability (bs_kind state) \<notin> capabilities a
      then (Inl (AuthorizationDenied ''Missing capabilities''), state)
      else
        (let before = working_copy state in
         case cd_handler d p state of
           (Inl e, state') \<Rightarrow> (Inl e, state')
         | (Inr result, state') \<Rightarrow>
             if (case cd_result_model d of None \<Rightarrow> False | Some accepts \<Rightarrow> \<not> accepts (cr_result result))
             then (Inl ValidationError, state')
             else
               (case apply_deltas L state' (cr_deltas result) of
                  Inl e \<Rightarrow> (Inl e, state')
                | Inr after \<Rightarrow>
                    (case materialize L (bus_resolver b) now p result before after
                            (cd_emission_builder d) of
                       Inl e \<Rightarrow> (Inl e, after)
                     | Inr (ev, perceptions) \<Rightarrow>
                         (Inr \<lparr>rc_result = result, rc_event = ev,
                               rc_state_hash = state_hash L after,
                               rc_perceptions = perceptions\<rparr>, after)))))"

definition receipt_key_of :: "proposal \<Rightarrow> receipt_key" where
  "receipt_key_of p = (p_run_id p, p_actor_id p, p_idempotency_key p)"

definition execute ::
  "pylib \<Rightarrow> int \<Rightarrow> bus \<Rightarrow> proposal \<Rightarrow> actor \<Rightarrow> receipt res \<times> bus" where
  "execute L now b p a =
     (case admit b p a of
        Inl e \<Rightarrow> (Inl e, b)
      | Inr (d, q) \<Rightarrow>
          (case execute_atomic (bus_states b) (p_branch_id q) (receipt_key_of q)
                  (run_command L b now d q a) of
             (Inl e, st) \<Rightarrow> (Inl e, b\<lparr>bus_states := st\<rparr>)
           | (Inr (r, _), st) \<Rightarrow> (Inr r, b\<lparr>bus_states := st\<rparr>)))"

section \<open>What admission and execution establish\<close>

lemma admit_Inr:
  assumes "admit b p a = Inr (d, q)"
  shows "p_actor_id p = actor_id a" "dget (bus_definitions b) (p_command_type p) = Some d"
    "cd_required_capabilities d \<subseteq> capabilities a"
    "cd_requires_controlled_entity d \<Longrightarrow>
       \<exists>e. p_embodied_entity_id p = Some e \<and> e \<in> controlled_entity_ids a"
    "q = p\<lparr>p_parameters := p_parameters q\<rparr>"
    "case cd_request_model d of None \<Rightarrow> q = p
       | Some validate \<Rightarrow> validate (p_parameters p) = Inr (p_parameters q)"
  using assms
  by (auto simp: admit_def bindR_eq_Inr bus_definition_def has_capabilities_def
      split: if_splits option.splits sum.splits pyerr.splits)

lemma admit_keeps:
  assumes "admit b p a = Inr (d, q)"
  shows "receipt_key_of q = receipt_key_of p" "p_branch_id q = p_branch_id p"
    "p_world_id q = p_world_id p" "p_embodied_entity_id q = p_embodied_entity_id p"
    "p_seed q = p_seed p" "p_actor_id q = p_actor_id p" "p_command_type q = p_command_type p"
    "stable_event_id L q = stable_event_id L p"
proof -
  from admit_Inr(5) [OF assms] obtain ps where q: "q = p\<lparr>p_parameters := ps\<rparr>" by blast
  show "receipt_key_of q = receipt_key_of p" "p_branch_id q = p_branch_id p"
    "p_world_id q = p_world_id p" "p_embodied_entity_id q = p_embodied_entity_id p"
    "p_seed q = p_seed p" "p_actor_id q = p_actor_id p" "p_command_type q = p_command_type p"
    "stable_event_id L q = stable_event_id L p"
    by (simp_all add: q receipt_key_of_def stable_event_id_def)
qed

lemma materialize_Inr:
  assumes "materialize L resolve now p result s t builder = Inr (ev, gs)"
  shows "e_event_id ev = stable_event_id L p" "e_world_id ev = p_world_id p"
    "e_branch_id ev = p_branch_id p" "e_run_id ev = p_run_id p" "e_actor_id ev = p_actor_id p"
    "e_event_type ev = p_command_type p" "e_payload ev = cr_result result"
    "e_visible_to ev = [p_actor_id p]" "e_created_at ev = now"
    "e_idempotency_key ev = Some (p_idempotency_key p)"
  using assms
  by (auto simp: materialize_def bindR_eq_Inr Let_def visible_to_cannot_be_empty_def)

lemma run_command_Inr:
  assumes "run_command L b now d p a state = (Inr r, working)"
  obtains state' where "bs_world_id state = p_world_id p"
    "bs_kind state \<in> cd_allowed_branch_kinds d"
    "branch_capability (bs_kind state) \<in> capabilities a"
    "cd_handler d p state = (Inr (rc_result r), state')"
    "case cd_result_model d of None \<Rightarrow> True | Some accepts \<Rightarrow> accepts (cr_result (rc_result r))"
    "apply_deltas L state' (cr_deltas (rc_result r)) = Inr working"
    "rc_state_hash r = state_hash L working"
    "materialize L (bus_resolver b) now p (rc_result r) state working (cd_emission_builder d) =
       Inr (rc_event r, rc_perceptions r)"
proof -
  from assms have guards: "bs_world_id state = p_world_id p"
    "bs_kind state \<in> cd_allowed_branch_kinds d"
    "branch_capability (bs_kind state) \<in> capabilities a"
    by (auto simp: run_command_def split: if_splits)
  with assms obtain result state' where h: "cd_handler d p state = (Inr result, state')"
    by (cases "cd_handler d p state"; cases "fst (cd_handler d p state)")
      (auto simp: run_command_def)
  with assms guards have model: "case cd_result_model d of None \<Rightarrow> True
      | Some accepts \<Rightarrow> accepts (cr_result result)"
    by (auto simp: run_command_def split: if_splits option.splits)
  with assms guards h obtain after where d: "apply_deltas L state' (cr_deltas result) = Inr after"
    by (cases "apply_deltas L state' (cr_deltas result)")
      (auto simp: run_command_def split: option.splits if_splits)
  with assms guards h model obtain ev gs where
    m: "materialize L (bus_resolver b) now p result state after (cd_emission_builder d) = Inr (ev, gs)"
    by (cases "materialize L (bus_resolver b) now p result state after (cd_emission_builder d)")
      (auto simp: run_command_def split: option.splits if_splits)
  from assms guards h model d m have w: "working = after" and
    r: "r = \<lparr>rc_result = result, rc_event = ev, rc_state_hash = state_hash L after, rc_perceptions = gs\<rparr>"
    by (auto simp: run_command_def split: option.splits if_splits)
  show ?thesis
    by (rule that [of state'])
      (use guards h model d m in \<open>simp_all add: r w split: option.splits\<close>)
qed

lemma execute_cases:
  assumes "execute L now b p a = (res, b')"
  obtains (refused) e where "admit b p a = Inl e" "res = Inl e" "b' = b"
  | (failed) d q e where "admit b p a = Inr (d, q)" "res = Inl e" "b' = b"
  | (duplicate) d q r where "admit b p a = Inr (d, q)" "res = Inr r" "b' = b"
      "dget (receipts (bus_states b)) (receipt_key_of p) = Some r"
  | (fresh) d q r source working where "admit b p a = Inr (d, q)" "res = Inr r"
      "dget (receipts (bus_states b)) (receipt_key_of p) = None"
      "dget (branches (bus_states b)) (p_branch_id p) = Some source"
      "run_command L b now d q a source = (Inr r, working)"
      "b' = b\<lparr>bus_states := (bus_states b)
         \<lparr>branches := dset (branches (bus_states b)) (p_branch_id p)
            (source\<lparr>projections := projections working,
              base_snapshot_hash := base_snapshot_hash working,
              bs_version := bs_version source + 1\<rparr>),
          receipts := dset (receipts (bus_states b)) (receipt_key_of p) r\<rparr>\<rparr>"
proof (cases "admit b p a")
  case (Inl e)
  show ?thesis
    by (rule refused [OF Inl]) (use assms Inl in \<open>simp_all add: execute_def\<close>)
next
  case (Inr dq)
  obtain d q where dq: "dq = (d, q)" by (cases dq)
  note adm = Inr [unfolded dq]
  note keep = admit_keeps [OF adm]
  obtain out st where ex: "execute_atomic (bus_states b) (p_branch_id q) (receipt_key_of q)
      (run_command L b now d q a) = (out, st)" by (rule prod.exhaust)
  show ?thesis
  proof (cases out)
    case (Inl e)
    with ex have "st = bus_states b" by (simp add: execute_atomic_Inl)
    with assms adm ex Inl have "res = Inl e" "b' = b" by (simp_all add: execute_def)
    then show ?thesis by (rule failed [OF adm])
  next
    case (Inr rd)
    obtain r dup where rd: "rd = (r, dup)" by (cases rd)
    show ?thesis
    proof (cases dup)
      case True
      with ex Inr rd have dup_st: "st = bus_states b"
        and rec: "dget (receipts (bus_states b)) (receipt_key_of p) = Some r"
        by (auto simp: execute_atomic_def Let_def keep
            split: option.splits sum.splits prod.splits)
      with assms adm ex Inr rd have "res = Inr r" "b' = b" by (simp_all add: execute_def)
      then show ?thesis using rec by (rule duplicate [OF adm])
    next
      case False
      with ex Inr rd have "execute_atomic (bus_states b) (p_branch_id q) (receipt_key_of q)
        (run_command L b now d q a) = (Inr (r, False), st)" by simp
      then obtain source working where f:
        "dget (receipts (bus_states b)) (receipt_key_of p) = None"
        "dget (branches (bus_states b)) (p_branch_id p) = Some source"
        "run_command L b now d q a source = (Inr r, working)"
        and st: "st = (bus_states b)\<lparr>branches := dset (branches (bus_states b)) (p_branch_id p)
            (source\<lparr>projections := projections working,
              base_snapshot_hash := base_snapshot_hash working,
              bs_version := bs_version source + 1\<rparr>),
          receipts := dset (receipts (bus_states b)) (receipt_key_of p) r\<rparr>"
        unfolding keep by (rule execute_atomic_fresh)
      from assms adm ex Inr rd st have "res = Inr r" "b' = b\<lparr>bus_states := st\<rparr>"
        by (simp_all add: execute_def)
      with f st show ?thesis by (intro fresh [OF adm]) simp_all
    qed
  qed
qed

section \<open>The contract of a perception resolver\<close>

text \<open>
  What the event factory relies on: grants are about the event that is being materialised, are
  given for an emission only and through its senses, carry its payload restrictions, and name
  each observer once.
\<close>

locale audience_resolver =
  fixes resolve :: resolver
  assumes no_emission: "resolve ev p None s t = Inr gs \<Longrightarrow> gs = []"
    and about_event: "resolve ev p eo s t = Inr gs \<Longrightarrow> g \<in> set gs \<Longrightarrow>
      g_event_id g = ev \<and> g_world_id g = p_world_id p \<and> g_branch_id g = p_branch_id p"
    and by_senses: "resolve ev p (Some em) s t = Inr gs \<Longrightarrow> g \<in> set gs \<Longrightarrow>
      g_modalities g \<noteq> [] \<and> set (g_modalities g) \<subseteq> set (em_modalities em)"
    and restricted: "resolve ev p (Some em) s t = Inr gs \<Longrightarrow> g \<in> set gs \<Longrightarrow>
      g_allowed_payload_fields g = em_allowed_payload_fields em \<and>
      g_hidden_payload_fields g = em_hidden_payload_fields em"
    and one_each: "resolve ev p eo s t = Inr gs \<Longrightarrow> distinct (map g_observer_entity_id gs)"
begin

lemma materialized:
  assumes "materialize L resolve now p r s t builder = Inr (ev, gs)"
  shows "g \<in> set gs \<Longrightarrow> g_event_id g = e_event_id ev \<and> g_world_id g = e_world_id ev \<and>
      g_branch_id g = e_branch_id ev"
    and "builder = None \<Longrightarrow> gs = []"
    and "distinct (map g_observer_entity_id gs)"
    and "set (e_observed_by ev) = {u. \<exists>g\<in>set gs. g_controller_actor_id g = Some u}"
proof -
  from assms obtain em where
    em: "(case builder of None \<Rightarrow> Inr None | Some f \<Rightarrow> f p r s t) = Inr em"
    and gs: "resolve (stable_event_id L p) p em s t = Inr gs"
    and ev: "e_event_id ev = stable_event_id L p" "e_world_id ev = p_world_id p"
      "e_branch_id ev = p_branch_id p" "e_observed_by ev = controller_actor_summary gs"
    by (auto simp: materialize_def bindR_eq_Inr Let_def)
  show "g \<in> set gs \<Longrightarrow> g_event_id g = e_event_id ev \<and> g_world_id g = e_world_id ev \<and>
      g_branch_id g = e_branch_id ev"
    using about_event [OF gs] by (simp add: ev)
  show "builder = None \<Longrightarrow> gs = []" using em gs no_emission by auto
  show "distinct (map g_observer_entity_id gs)" by (rule one_each [OF gs])
  show "set (e_observed_by ev) = {u. \<exists>g\<in>set gs. g_controller_actor_id g = Some u}"
    by (simp add: ev set_controller_actor_summary)
qed

lemma executed:
  assumes "run_command L b now d p a s = (Inr rc, t)" "bus_resolver b = resolve"
  shows "g \<in> set (rc_perceptions rc) \<Longrightarrow> g_event_id g = e_event_id (rc_event rc) \<and>
      g_branch_id g = e_branch_id (rc_event rc)"
    and "cd_emission_builder d = None \<Longrightarrow> rc_perceptions rc = []"
    and "distinct (map g_observer_entity_id (rc_perceptions rc))"
proof -
  have m: "materialize L resolve now p (rc_result rc) s t (cd_emission_builder d) =
    Inr (rc_event rc, rc_perceptions rc)"
    using assms(1) by (rule run_command_Inr) (simp add: assms(2))
  show "g \<in> set (rc_perceptions rc) \<Longrightarrow> g_event_id g = e_event_id (rc_event rc) \<and>
      g_branch_id g = e_branch_id (rc_event rc)"
    using materialized(1) [OF m] by simp
  show "cd_emission_builder d = None \<Longrightarrow> rc_perceptions rc = []" by (rule materialized(2) [OF m])
  show "distinct (map g_observer_entity_id (rc_perceptions rc))" by (rule materialized(3) [OF m])
qed

end

interpretation deaf: audience_resolver null_resolver
  by unfold_locales (auto simp: null_resolver_def)

end
