(* ===== verification/RuleContract.thy ===== *)
theory RuleContract
  imports CommandBus
begin

text \<open>
  The interface between the bus and a rule module of \<open>domains/tabletop\<close>. A rule reads the
  branch and returns a result with deltas. The contract names the projections a rule may write
  and, for each proposal, the entries it may write there; every rule module interprets it on
  its own handler. The lemmas of the locale are what the bus gains from the contract: whatever
  the deltas do, everything outside the footprint is unchanged after the command.
\<close>

definition pget :: "(string \<times> jval) list \<Rightarrow> string \<Rightarrow> jval option" where
  "pget b k = (case dget b k of Some JNull \<Rightarrow> None | x \<Rightarrow> x)"

text \<open>\<open>entities.get(str(id))\<close> followed by the test for None and the mapping access.\<close>

definition need_mapping :: "(string \<times> jval) list \<Rightarrow> string \<Rightarrow> pyerr \<Rightarrow> jdict res" where
  "need_mapping b k e = bindR (of_option e (pget b k)) as_mapping"

lemma need_mapping_Inr [simp, res_simps]:
  "need_mapping b k e = Inr d \<longleftrightarrow> dget b k = Some (JDict d)"
  by (auto simp: need_mapping_def pget_def bindR_eq_Inr split: option.splits jval.splits)

lemma pget_Some [simp]: "pget b k = Some v \<longleftrightarrow> dget b k = Some v \<and> v \<noteq> JNull"
  by (auto simp: pget_def split: option.splits jval.splits)

text \<open>\<open>v[k]\<close> on a value that should be a mapping.\<close>

definition item :: "jval \<Rightarrow> string \<Rightarrow> jval res" where
  "item v k = (case v of
      JDict d \<Rightarrow> of_option (KeyError k) (dget d k)
    | _ \<Rightarrow> Inl (TypeError ''indices must be integers''))"

lemma item_simps [simp]: "item (JDict d) k = of_option (KeyError k) (dget d k)"
  by (simp add: item_def)

definition delta_within :: "string set \<Rightarrow> string set \<Rightarrow> state_delta \<Rightarrow> bool" where
  "delta_within projs keys d \<longleftrightarrow> sd_projection d \<in> projs \<and> delta_key d \<in> keys"

lemma delta_within_mk [simp]:
  "delta_within projs keys (mk_delta proj op e vs) \<longleftrightarrow> proj \<in> projs \<and> e \<in> keys"
  by (simp add: delta_within_def delta_key_def)

locale rule_handler =
  fixes rule :: "proposal \<Rightarrow> branch_state \<Rightarrow> command_result res"
    and projs :: "string set"
    and subjects :: "proposal \<Rightarrow> string set"
  assumes accepted: "rule p s = Inr r \<Longrightarrow> cr_accepted r"
    and footprint: "rule p s = Inr r \<Longrightarrow> d \<in> set (cr_deltas r) \<Longrightarrow> delta_within projs (subjects p) d"
begin

lemma other_projection:
  assumes "rule p s = Inr r" "apply_deltas L s (cr_deltas r) = Inr t" "proj \<notin> projs"
  shows "bucket t proj = bucket s proj"
  using footprint [OF assms(1)] assms(3)
  by (intro apply_deltas_frame(6) [OF assms(2)]) (auto simp: delta_within_def)

lemma other_subject:
  assumes "rule p s = Inr r" "apply_deltas L s (cr_deltas r) = Inr t" "k \<notin> subjects p"
  shows "dget (bucket t proj) k = dget (bucket s proj) k"
  using footprint [OF assms(1)] assms(3)
  by (intro apply_deltas_frame(7) [OF assms(2)]) (auto simp: delta_within_def)

text \<open>The same on the level of a transaction of the bus.\<close>

lemma run_command_frame:
  assumes "cd_handler d = reads_only rule" "run_command L b now d p a s = (Inr rc, t)"
  shows "proj \<notin> projs \<Longrightarrow> bucket t proj = bucket s proj"
    and "k \<notin> subjects p \<Longrightarrow> dget (bucket t proj) k = dget (bucket s proj) k"
proof -
  from assms(2) obtain s' where h: "cd_handler d p s = (Inr (rc_result rc), s')"
    and ds: "apply_deltas L s' (cr_deltas (rc_result rc)) = Inr t"
    by (rule run_command_Inr)
  from h have "(rule p s, s) = (Inr (rc_result rc), s')" by (simp only: assms(1) reads_only_def)
  then have "s' = s" "rule p s = Inr (rc_result rc)" by blast+
  with ds show "proj \<notin> projs \<Longrightarrow> bucket t proj = bucket s proj"
    and "k \<notin> subjects p \<Longrightarrow> dget (bucket t proj) k = dget (bucket s proj) k"
    using other_projection other_subject by auto
qed

end

text \<open>The entities a proposal names: the embodied one and identifiers among its parameters.\<close>

definition embodied :: "proposal \<Rightarrow> string set" where
  "embodied p = set_option (p_embodied_entity_id p)"

definition named :: "pylib \<Rightarrow> schema \<Rightarrow> string \<Rightarrow> proposal \<Rightarrow> string set" where
  "named L fs field p = {vstr r field |r. model_validate L fs (p_parameters p) = Inr r}"

lemma embodied_iff [simp]: "e \<in> embodied p \<longleftrightarrow> p_embodied_entity_id p = Some e"
  by (simp add: embodied_def)

lemma namedI [intro]: "model_validate L fs (p_parameters p) = Inr r \<Longrightarrow> vstr r field \<in> named L fs field p"
  by (auto simp: named_def)

definition both_branches :: "branch_kind set" where
  "both_branches = {CANONICAL, TRIAL}"

definition act_capabilities :: "string set" where
  "act_capabilities = {''action.propose'', ''entity.act''}"

end
