(* ===== verification/Fixtures.thy ===== *)
theory Fixtures
  imports RuleContract
begin

text \<open>
  Concrete proposals, actors and branches. The witnesses of the development evaluate the model
  on them; nothing else uses them.
\<close>

definition fixture_id :: "char \<Rightarrow> uuid" where
  "fixture_id c = replicate 36 c"

definition fixture_proposal :: "string \<Rightarrow> uuid option \<Rightarrow> jdict \<Rightarrow> proposal" where
  "fixture_proposal ct e params = \<lparr>p_command_id = ''c'', p_command_type = ct, p_world_id = ''w'',
     p_branch_id = ''b'', p_run_id = fixture_id CHR ''r'', p_interaction_id = None,
     p_actor_id = fixture_id CHR ''a'', p_embodied_entity_id = e, p_parameters = params,
     p_idempotency_key = ''k'', p_correlation_id = ''x'', p_causation_id = None, p_seed = Some 12,
     p_decision_trace_id = None, p_persona_version = None, p_policy_version = None,
     p_prompt_contract_version = None, p_model_version = None\<rparr>"

definition fixture_branch :: "projections \<Rightarrow> branch_state" where
  "fixture_branch ps = \<lparr>bs_world_id = ''w'', bs_branch_id = ''b'', bs_kind = CANONICAL,
     projections = ps, base_snapshot_hash = None, bs_version = 0\<rparr>"

definition fixture_actor :: "string set \<Rightarrow> uuid set \<Rightarrow> actor" where
  "fixture_actor caps controlled = \<lparr>actor_id = fixture_id CHR ''a'', actor_kind = HUMAN,
     display_name = ''A'', roles = {}, capabilities = caps, controlled_entity_ids = controlled\<rparr>"

text \<open>A hero, a wolf next to it and a wall.\<close>

definition fixture_party :: branch_state where
  "fixture_party = fixture_branch
     [(''tabletop.entities'',
        [(''hero'', JDict [(''x'', JInt 2), (''y'', JInt 3), (''hp'', JInt 24), (''mana'', JInt 12),
            (''gold'', JInt 40), (''inventory'', JDict [(''herb'', JInt 2)])]),
         (''wolf'', JDict [(''x'', JInt 3), (''y'', JInt 3), (''hp'', JInt 11), (''armor'', JInt 11),
            (''gold'', JInt 5)])]),
      (''tabletop.obstacles'', [(''wall'', JDict [(''x'', JInt 2), (''y'', JInt 4)])])]"

text \<open>A rule result whose deltas apply, from one evaluation.\<close>

lemma runs:
  assumes "is_ok (bindR m (\<lambda>r. apply_deltas L s (cr_deltas r)))"
  obtains r t where "m = Inr r" "apply_deltas L s (cr_deltas r) = Inr t"
  using assms by (auto simp: is_ok_iff bindR_eq_Inr)

lemmas fixture_defs = fixture_proposal_def fixture_branch_def fixture_actor_def fixture_party_def

end
