(* ===== verification/Battlefield.thy ===== *)
theory Battlefield
  imports Fixtures
begin

text \<open>
  \<open>domains/tabletop/battlefield\<close>: the control mode and squad order rules
  (\<open>models.py\<close>, \<open>commands.py\<close>), weapon statistics, and the frame that a renderer is given
  (\<open>bridge.py\<close>). The renderer and input ports are interfaces without code.
\<close>

section \<open>Models\<close>

definition camera_modes :: "string list" where
  "camera_modes = [''TACTICAL'', ''THIRD_PERSON'', ''FIRST_PERSON'']"

definition authority_modes :: "string list" where
  "authority_modes = [''FORMATION'', ''DIRECT'']"

definition order_kinds :: "string list" where
  "order_kinds = [''FOLLOW'', ''HOLD'', ''FOCUS'', ''SPREAD'', ''REGROUP'']"

definition FocusPoint :: schema where
  "FocusPoint = [(''x'', FFloat None None, None), (''y'', FFloat None None, None),
     (''z'', FFloat None None, Some (JInt 0))]"

definition SetControlModeRequest :: schema where
  "SetControlModeRequest = [(''camera_mode'', FEnum camera_modes, None)]"

definition SetControlModeResult :: schema where
  "SetControlModeResult =
     [(''entity_id'', FUuid, None), (''previous_camera_mode'', FEnum camera_modes, None),
      (''camera_mode'', FEnum camera_modes, None),
      (''control_authority'', FEnum authority_modes, None), (''squad_ai'', FStr 0 None, None),
      (''revision'', FInt (Some 1) None, None)]"

definition SquadOrderRequest :: schema where
  "SquadOrderRequest =
     [(''squad_id'', FUuid, None), (''order'', FEnum order_kinds, None),
      (''target_entity_id'', FOption FUuid, Some JNull),
      (''focus_point'', FOption (FModel FocusPoint), Some JNull)]"

text \<open>The validator \<open>focus_requires_a_target\<close> runs after the fields.\<close>

definition validate_squad_order :: "pylib \<Rightarrow> jdict \<Rightarrow> jdict res" where
  "validate_squad_order L d =
     bindR (model_validate L SquadOrderRequest d) (\<lambda>r.
     bindR (ensure (\<not> (vstr r ''order'' = ''FOCUS'' \<and> vopt r ''target_entity_id'' = None \<and>
         vany r ''focus_point'' = JNull)) ValidationError) (\<lambda>_. Inr r))"

definition SquadOrderResult :: schema where
  "SquadOrderResult =
     [(''squad_id'', FUuid, None), (''leader_entity_id'', FUuid, None),
      (''order'', FEnum order_kinds, None),
      (''target_entity_id'', FOption FUuid, Some JNull),
      (''focus_point'', FOption (FModel FocusPoint), Some JNull),
      (''squad_ai'', FStr 0 None, None), (''revision'', FInt (Some 1) None, None)]"

definition WeaponDefinition :: schema where
  "WeaponDefinition =
     [(''weapon_id'', FStr 1 (Some 120), None), (''name'', FStr 1 (Some 160), None),
      (''damage'', FFloatGt 0, None), (''fire_rate'', FFloatGt 0, None), (''range'', FFloatGt 0, None),
      (''magazine'', FInt (Some 1) None, None), (''reload_time'', FFloat (Some 0) None, None),
      (''recoil'', FFloat (Some 0) None, None), (''spread'', FFloat (Some 0) None, None),
      (''projectile_speed'', FFloatGt 0, None), (''penetration'', FFloat (Some 0) None, None),
      (''squad_accuracy'', FFloat (Some 0) (Some 1), None),
      (''asset_ref'', FOption (FStr 0 (Some 500)), Some JNull)]"

definition WeaponModifiers :: schema where
  "WeaponModifiers = map (\<lambda>n. (n, FFloatGt 0, Some (JInt 1)))
     [''damage'', ''fire_rate'', ''range'', ''magazine'', ''reload_time'', ''recoil'', ''spread'',
      ''projectile_speed'', ''penetration'', ''squad_accuracy'']"

record weapon_stats =
  ws_weapon_id :: string
  ws_name :: string
  ws_damage :: rat
  ws_fire_rate :: rat
  ws_range :: rat
  ws_magazine :: int
  ws_reload_time :: rat
  ws_recoil :: rat
  ws_spread :: rat
  ws_projectile_speed :: rat
  ws_penetration :: rat
  ws_squad_accuracy :: rat
  ws_asset_ref :: "string option"

definition resolve_weapon :: "pylib \<Rightarrow> jdict \<Rightarrow> jdict \<Rightarrow> weapon_stats" where
  "resolve_weapon L d m =
     (let scaled = (\<lambda>n. fl L (vrat d n * vrat m n)) in
      \<lparr>ws_weapon_id = vstr d ''weapon_id'', ws_name = vstr d ''name'',
       ws_damage = round6 L (scaled ''damage''), ws_fire_rate = round6 L (scaled ''fire_rate''),
       ws_range = round6 L (scaled ''range''),
       ws_magazine = max 1 (round_half_even (scaled ''magazine'')),
       ws_reload_time = round6 L (scaled ''reload_time''), ws_recoil = round6 L (scaled ''recoil''),
       ws_spread = round6 L (scaled ''spread''),
       ws_projectile_speed = round6 L (scaled ''projectile_speed''),
       ws_penetration = round6 L (scaled ''penetration''),
       ws_squad_accuracy = round6 L (min 1 (scaled ''squad_accuracy'')),
       ws_asset_ref = vopt d ''asset_ref''\<rparr>)"

definition squad_dps_contribution :: "pylib \<Rightarrow> weapon_stats \<Rightarrow> rat" where
  "squad_dps_contribution L w =
     round6 L (fl L (fl L (ws_damage w * ws_fire_rate w) * ws_squad_accuracy w))"

section \<open>The rules\<close>

definition embodied_entity :: "proposal \<Rightarrow> branch_state \<Rightarrow> (uuid \<times> jval) res" where
  "embodied_entity p s =
     bindR (of_option (ValueError ''battlefield control requires an embodied entity'') (p_embodied_entity_id p)) (\<lambda>e.
     bindR (of_option (ValueError ''embodied entity does not exist'') (pget (bucket s ''tabletop.entities'') e)) (\<lambda>v.
     Inr (e, v)))"

definition set_control_mode :: "pylib \<Rightarrow> proposal \<Rightarrow> branch_state \<Rightarrow> command_result res" where
  "set_control_mode L p s =
     bindR (embodied_entity p s) (\<lambda>(e, _).
     bindR (model_validate L SetControlModeRequest (p_parameters p)) (\<lambda>request.
     bindR (as_mapping (dget_or (bucket s ''tabletop.control_modes'') e (JDict []))) (\<lambda>existing.
     bindR (enum_of camera_modes (dget_or existing ''camera_mode'' (JStr ''TACTICAL''))) (\<lambda>previous.
     let mode = vstr request ''camera_mode'';
         authority = (if mode = ''TACTICAL'' then ''FORMATION'' else ''DIRECT'') in
     bindR (get_int existing ''revision'' 0) (\<lambda>old.
     let revision = old + 1 in
     bindR (ensure (1 \<le> revision) ValidationError) (\<lambda>_.
     Inr (mk_result
       [(''entity_id'', JStr e), (''previous_camera_mode'', JStr previous),
        (''camera_mode'', JStr mode), (''control_authority'', JStr authority),
        (''squad_ai'', JStr ''ACTIVE''), (''revision'', JInt revision)]
       [mk_delta ''tabletop.control_modes'' MERGE e
          [(''camera_mode'', JStr mode), (''control_authority'', JStr authority),
           (''squad_ai'', JStr ''ACTIVE''), (''revision'', JInt revision)]]
       [''tabletop'', ''battlefield'', ''control-mode''])))))))"

definition issue_squad_order :: "pylib \<Rightarrow> proposal \<Rightarrow> branch_state \<Rightarrow> command_result res" where
  "issue_squad_order L p s =
     bindR (embodied_entity p s) (\<lambda>(leader, _).
     bindR (validate_squad_order L (p_parameters p)) (\<lambda>request.
     let squad_id = vstr request ''squad_id''; target = vopt request ''target_entity_id'' in
     bindR (need_mapping (bucket s ''tabletop.squads'') squad_id (ValueError ''squad does not exist'')) (\<lambda>squad.
     bindR (ensure (py_str L (dget_or squad ''leader_entity_id'' JNull) = leader)
       (ValueError ''embodied entity is not the squad leader'')) (\<lambda>_.
     bindR (ensure (case target of None \<Rightarrow> True | Some t \<Rightarrow> dhas (bucket s ''tabletop.entities'') t)
       (ValueError ''squad-order target does not exist'')) (\<lambda>_.
     bindR (as_mapping (dget_or (bucket s ''tabletop.squad_orders'') squad_id (JDict []))) (\<lambda>existing.
     bindR (get_int existing ''revision'' 0) (\<lambda>old.
     let revision = old + 1 in
     bindR (ensure (1 \<le> revision) ValidationError) (\<lambda>_.
     Inr (mk_result
       [(''squad_id'', JStr squad_id), (''leader_entity_id'', JStr leader),
        (''order'', JStr (vstr request ''order'')), (''target_entity_id'', opt_str target),
        (''focus_point'', vany request ''focus_point''), (''squad_ai'', JStr ''ACTIVE''),
        (''revision'', JInt revision)]
       [mk_delta ''tabletop.squad_orders'' MERGE squad_id
          [(''order'', JStr (vstr request ''order'')), (''leader_entity_id'', JStr leader),
           (''target_entity_id'', opt_str target), (''focus_point'', vany request ''focus_point''),
           (''squad_ai'', JStr ''ACTIVE''), (''revision'', JInt revision)]]
       [''tabletop'', ''battlefield'', ''squad-order''])))))))))"

definition battlefield_definitions :: "pylib \<Rightarrow> command_definition list" where
  "battlefield_definitions L =
     [\<lparr>cd_command_type = ''tabletop.battlefield.set_control_mode'',
       cd_required_capabilities = act_capabilities, cd_allowed_branch_kinds = both_branches,
       cd_handler = reads_only (set_control_mode L), cd_version = ''1.0.0'',
       cd_request_model = Some (model_validate L SetControlModeRequest),
       cd_result_model = Some (model_accepts L SetControlModeResult),
       cd_sensitive_parameters = {}, cd_requires_controlled_entity = True,
       cd_emission_builder = None\<rparr>,
      \<lparr>cd_command_type = ''tabletop.battlefield.issue_squad_order'',
       cd_required_capabilities = act_capabilities, cd_allowed_branch_kinds = both_branches,
       cd_handler = reads_only (issue_squad_order L), cd_version = ''1.0.0'',
       cd_request_model = Some (validate_squad_order L),
       cd_result_model = Some (model_accepts L SquadOrderResult),
       cd_sensitive_parameters = {}, cd_requires_controlled_entity = True,
       cd_emission_builder = None\<rparr>]"

section \<open>Frames\<close>

record entity_view =
  ev_entity_id :: uuid
  ev_entity_type :: string
  ev_public_state :: jdict

record squad_view =
  sv_squad_id :: uuid
  sv_leader_entity_id :: uuid
  sv_member_entity_ids :: "uuid list"
  sv_formation :: string
  sv_current_order :: string
  sv_squad_ai :: string

record frame =
  fr_world_id :: uuid
  fr_branch_id :: uuid
  fr_run_id :: uuid
  fr_projection_version :: int
  fr_state_hash :: string
  fr_commander_entity_id :: uuid
  fr_camera_mode :: string
  fr_control_authority :: string
  fr_squad_ai :: string
  fr_commander :: entity_view
  fr_squad :: "squad_view option"
  fr_visible_entities :: "entity_view list"
  fr_weapon :: "weapon_stats option"

definition frame_view :: "pylib \<Rightarrow> uuid \<Rightarrow> jval \<Rightarrow> entity_view res" where
  "frame_view L e payload = bindR (as_mapping payload) (\<lambda>d.
     Inr \<lparr>ev_entity_id = e,
          ev_entity_type = py_str L (dget_or d ''entity_type'' (JStr ''UNKNOWN'')),
          ev_public_state = ddel d ''entity_type''\<rparr>)"

text \<open>The first squad, in the order of the keys, that the commander leads.\<close>

fun squad_for :: "pylib \<Rightarrow> branch_state \<Rightarrow> uuid \<Rightarrow> string \<Rightarrow> (string \<times> jval) list \<Rightarrow> squad_view option res" where
  "squad_for L s commander squad_ai [] = Inr None"
| "squad_for L s commander squad_ai ((key, v) # rest) =
     bindR (as_mapping v) (\<lambda>squad.
     if py_str L (dget_or squad ''leader_entity_id'' JNull) \<noteq> commander
     then squad_for L s commander squad_ai rest
     else
       bindR (as_mapping (dget_or (bucket s ''tabletop.squad_orders'') key (JDict []))) (\<lambda>order.
       bindR (parse_uuid L key) (\<lambda>squad_id.
       bindR (py_list (dget_or squad ''member_entity_ids'' (JList []))) (\<lambda>raw.
       bindR (mapR (\<lambda>v. parse_uuid L (py_str L v)) raw) (\<lambda>members.
       Inr (Some \<lparr>sv_squad_id = squad_id, sv_leader_entity_id = commander,
         sv_member_entity_ids = members,
         sv_formation = py_str L (dget_or squad ''formation'' (JStr ''COLUMN'')),
         sv_current_order = py_str L (dget_or order ''order'' (JStr ''FOLLOW'')),
         sv_squad_ai = py_str L (dget_or order ''squad_ai'' (JStr squad_ai))\<rparr>))))))"

definition weapon_for :: "pylib \<Rightarrow> branch_state \<Rightarrow> jdict \<Rightarrow> weapon_stats option res" where
  "weapon_for L s commander_state =
     (case pget commander_state ''weapon_id'' of
        None \<Rightarrow> Inr None
      | Some weapon_id \<Rightarrow>
          (case pget (bucket s ''tabletop.weapons'') (py_str L weapon_id) of
             None \<Rightarrow> Inr None
           | Some raw_weapon \<Rightarrow>
               bindR (validate_any L WeaponModifiers (dget_or commander_state ''weapon_modifiers'' (JDict []))) (\<lambda>modifiers.
               bindR (validate_any L WeaponDefinition raw_weapon) (\<lambda>weapon.
               Inr (Some (resolve_weapon L weapon modifiers))))))"

definition build_frame :: "pylib \<Rightarrow> branch_state \<Rightarrow> uuid \<Rightarrow> uuid \<Rightarrow> uuid list \<Rightarrow> frame res" where
  "build_frame L s run_id commander_id visible_ids =
     (let entities = bucket s ''tabletop.entities'' in
      bindR (of_option (ValueError ''commander entity does not exist'') (pget entities commander_id)) (\<lambda>commander_state.
      bindR (frame_view L commander_id commander_state) (\<lambda>commander.
      bindR (mapR (\<lambda>e. bindR (of_option (KeyError e) (dget entities e)) (frame_view L e))
        [e \<leftarrow> sort (remdups visible_ids). e \<noteq> commander_id \<and> dhas entities e]) (\<lambda>visible.
      bindR (as_mapping (dget_or (bucket s ''tabletop.control_modes'') commander_id (JDict []))) (\<lambda>control.
      bindR (enum_of camera_modes (dget_or control ''camera_mode'' (JStr ''TACTICAL''))) (\<lambda>camera_mode.
      bindR (enum_of authority_modes (dget_or control ''control_authority'' (JStr ''FORMATION''))) (\<lambda>authority.
      let squad_ai = py_str L (dget_or control ''squad_ai'' (JStr ''ACTIVE'')) in
      bindR (squad_for L s commander_id squad_ai (sort_key fst (bucket s ''tabletop.squads''))) (\<lambda>squad.
      bindR (bindR (as_mapping commander_state) (weapon_for L s)) (\<lambda>weapon.
      Inr \<lparr>fr_world_id = bs_world_id s, fr_branch_id = bs_branch_id s, fr_run_id = run_id,
           fr_projection_version = bs_version s, fr_state_hash = state_hash L s,
           fr_commander_entity_id = commander_id, fr_camera_mode = camera_mode,
           fr_control_authority = authority, fr_squad_ai = squad_ai, fr_commander = commander,
           fr_squad = squad, fr_visible_entities = visible, fr_weapon = weapon\<rparr>)))))))))"

section \<open>Lemmas\<close>

lemma embodied_entity_Inr [simp, res_simps]:
  "embodied_entity p s = Inr (e, v) \<longleftrightarrow>
     p_embodied_entity_id p = Some e \<and> dget (bucket s ''tabletop.entities'') e = Some v \<and> v \<noteq> JNull"
  by (auto simp: embodied_entity_def bindR_eq_Inr)

lemma set_control_mode_Inr:
  assumes "set_control_mode L p s = Inr r"
  obtains e req existing old where "p_embodied_entity_id p = Some e"
    "model_validate L SetControlModeRequest (p_parameters p) = Inr req"
    "dget_or (bucket s ''tabletop.control_modes'') e (JDict []) = JDict existing"
    "get_int existing ''revision'' 0 = Inr old" "0 \<le> old"
    "cr_deltas r = [mk_delta ''tabletop.control_modes'' MERGE e
       [(''camera_mode'', JStr (vstr req ''camera_mode'')),
        (''control_authority'', JStr (if vstr req ''camera_mode'' = ''TACTICAL'' then ''FORMATION'' else ''DIRECT'')),
        (''squad_ai'', JStr ''ACTIVE''), (''revision'', JInt (old + 1))]]"
    "cr_accepted r"
  using assms
  by (auto simp: set_control_mode_def bindR_eq_Inr Let_def simp del: bindR_ensure)

lemma issue_squad_order_Inr:
  assumes "issue_squad_order L p s = Inr r"
  obtains leader req squad existing old where "p_embodied_entity_id p = Some leader"
    "validate_squad_order L (p_parameters p) = Inr req"
    "dget (bucket s ''tabletop.squads'') (vstr req ''squad_id'') = Some (JDict squad)"
    "py_str L (dget_or squad ''leader_entity_id'' JNull) = leader"
    "case vopt req ''target_entity_id'' of None \<Rightarrow> True
       | Some t \<Rightarrow> dhas (bucket s ''tabletop.entities'') t"
    "dget_or (bucket s ''tabletop.squad_orders'') (vstr req ''squad_id'') (JDict []) = JDict existing"
    "get_int existing ''revision'' 0 = Inr old" "0 \<le> old"
    "cr_deltas r = [mk_delta ''tabletop.squad_orders'' MERGE (vstr req ''squad_id'')
       [(''order'', JStr (vstr req ''order'')), (''leader_entity_id'', JStr leader),
        (''target_entity_id'', opt_str (vopt req ''target_entity_id'')),
        (''focus_point'', vany req ''focus_point''), (''squad_ai'', JStr ''ACTIVE''),
        (''revision'', JInt (old + 1))]]"
    "cr_accepted r"
  using assms
  by (auto simp: issue_squad_order_def bindR_eq_Inr Let_def simp del: bindR_ensure)

lemma validate_squad_order_Inr:
  "validate_squad_order L d = Inr r \<longleftrightarrow> model_validate L SquadOrderRequest d = Inr r \<and>
     (vstr r ''order'' = ''FOCUS'' \<longrightarrow> vopt r ''target_entity_id'' \<noteq> None \<or> vany r ''focus_point'' \<noteq> JNull)"
  by (auto simp: validate_squad_order_def bindR_eq_Inr simp del: bindR_ensure)

interpretation control: rule_handler "set_control_mode L" "{''tabletop.control_modes''}" embodied for L
proof
  fix p s r
  assume r: "set_control_mode L p s = Inr r"
  show "cr_accepted r" using r by (rule set_control_mode_Inr)
  show "delta_within {''tabletop.control_modes''} (embodied p) d" if "d \<in> set (cr_deltas r)" for d
    using r by (rule set_control_mode_Inr) (use that in auto)
qed

interpretation squads: rule_handler "issue_squad_order L" "{''tabletop.squad_orders''}"
  "named L SquadOrderRequest ''squad_id''" for L
proof
  fix p s r
  assume r: "issue_squad_order L p s = Inr r"
  show "cr_accepted r" using r by (rule issue_squad_order_Inr)
  show "delta_within {''tabletop.squad_orders''} (named L SquadOrderRequest ''squad_id'' p) d"
    if "d \<in> set (cr_deltas r)" for d
    using r by (rule issue_squad_order_Inr) (use that in \<open>auto simp: validate_squad_order_Inr\<close>)
qed

text \<open>A frame shows the commander and what the caller authorised, nothing else.\<close>

lemma frame_view_Inr: "frame_view L e v = Inr w \<longleftrightarrow> (\<exists>d. v = JDict d \<and> w =
    \<lparr>ev_entity_id = e, ev_entity_type = py_str L (dget_or d ''entity_type'' (JStr ''UNKNOWN'')),
     ev_public_state = ddel d ''entity_type''\<rparr>)"
  by (auto simp: frame_view_def bindR_eq_Inr)

lemma build_frame_visible:
  assumes "build_frame L s run c vis = Inr f"
  shows "map ev_entity_id (fr_visible_entities f) =
      [e \<leftarrow> sort (remdups vis). e \<noteq> c \<and> dhas (bucket s ''tabletop.entities'') e]"
    "\<forall>v\<in>set (fr_visible_entities f). \<exists>d.
      dget (bucket s ''tabletop.entities'') (ev_entity_id v) = Some (JDict d) \<and>
      ev_public_state v = ddel d ''entity_type''"
proof -
  let ?view = "\<lambda>e. bindR (of_option (KeyError e) (dget (bucket s ''tabletop.entities'') e)) (frame_view L e)"
  from assms obtain vs where f: "fr_visible_entities f = vs"
    and vs: "mapR ?view [e \<leftarrow> sort (remdups vis). e \<noteq> c \<and> dhas (bucket s ''tabletop.entities'') e] = Inr vs"
    by (auto simp: build_frame_def bindR_eq_Inr Let_def)
  show "map ev_entity_id (fr_visible_entities f) =
      [e \<leftarrow> sort (remdups vis). e \<noteq> c \<and> dhas (bucket s ''tabletop.entities'') e]"
    unfolding f by (rule mapR_inverse [OF vs]) (auto simp: bindR_eq_Inr frame_view_Inr)
  show "\<forall>v\<in>set (fr_visible_entities f). \<exists>d.
      dget (bucket s ''tabletop.entities'') (ev_entity_id v) = Some (JDict d) \<and>
      ev_public_state v = ddel d ''entity_type''"
    unfolding f using mapR_set [OF vs] by (fastforce simp: bindR_eq_Inr frame_view_Inr)
qed

lemma resolve_weapon_bounds:
  assumes "lawful_lib L"
  shows "1 \<le> ws_magazine (resolve_weapon L d m)" "ws_squad_accuracy (resolve_weapon L d m) \<le> 1"
proof -
  show "1 \<le> ws_magazine (resolve_weapon L d m)" by (simp add: resolve_weapon_def Let_def)
  show "ws_squad_accuracy (resolve_weapon L d m) \<le> 1"
    using round6_unit(2) [OF assms, of "min 1 (fl L (vrat d ''squad_accuracy'' * vrat m ''squad_accuracy''))"]
    by (simp add: resolve_weapon_def Let_def)
qed

section \<open>Properties\<close>

definition fixture_squad :: branch_state where
  "fixture_squad = fixture_branch
     [(''tabletop.entities'', [(''hero'', JDict [(''entity_type'', JStr ''PC'')]),
        (''wolf'', JDict [(''hp'', JInt 3)]), (''spy'', JDict [])]),
      (''tabletop.squads'', [(''sq'', JDict [(''leader_entity_id'', JStr ''hero'')])])]"

text \<open>
  A squad order that succeeds was given by the leader the branch records for the squad; a
  target, if one is named, is an entity of the branch; an order to focus has a target or a
  focus point. The stored order names the leader and counts one revision up.
\<close>

theorem squad_order_by_leader:
  assumes "issue_squad_order L p s = Inr r" "apply_deltas L s (cr_deltas r) = Inr t"
    and "validate_squad_order L (p_parameters p) = Inr req"
  shows "\<exists>leader squad existing order old.
    p_embodied_entity_id p = Some leader \<and>
    dget (bucket s ''tabletop.squads'') (vstr req ''squad_id'') = Some (JDict squad) \<and>
    py_str L (dget_or squad ''leader_entity_id'' JNull) = leader \<and>
    (\<forall>e. vopt req ''target_entity_id'' = Some e \<longrightarrow> dhas (bucket s ''tabletop.entities'') e) \<and>
    (vstr req ''order'' = ''FOCUS'' \<longrightarrow>
       vopt req ''target_entity_id'' \<noteq> None \<or> vany req ''focus_point'' \<noteq> JNull) \<and>
    dget_or (bucket s ''tabletop.squad_orders'') (vstr req ''squad_id'') (JDict []) = JDict existing \<and>
    get_int existing ''revision'' 0 = Inr old \<and>
    dget (bucket t ''tabletop.squad_orders'') (vstr req ''squad_id'') = Some (JDict order) \<and>
    dget order ''leader_entity_id'' = Some (JStr leader) \<and>
    dget order ''order'' = Some (JStr (vstr req ''order'')) \<and>
    dget order ''revision'' = Some (JInt (old + 1)) \<and> 1 \<le> old + 1"
  using assms(1)
proof (rule issue_squad_order_Inr)
  fix leader req' squad existing old
  assume leader: "p_embodied_entity_id p = Some leader" and rq: "validate_squad_order L (p_parameters p) = Inr req'"
    and squad: "dget (bucket s ''tabletop.squads'') (vstr req' ''squad_id'') = Some (JDict squad)"
    "py_str L (dget_or squad ''leader_entity_id'' JNull) = leader"
    and tgt: "case vopt req' ''target_entity_id'' of None \<Rightarrow> True
       | Some t \<Rightarrow> dhas (bucket s ''tabletop.entities'') t"
    and ex: "dget_or (bucket s ''tabletop.squad_orders'') (vstr req' ''squad_id'') (JDict []) = JDict existing"
    "get_int existing ''revision'' 0 = Inr old" "0 \<le> old"
    and ds: "cr_deltas r = [mk_delta ''tabletop.squad_orders'' MERGE (vstr req' ''squad_id'')
       [(''order'', JStr (vstr req' ''order'')), (''leader_entity_id'', JStr leader),
        (''target_entity_id'', opt_str (vopt req' ''target_entity_id'')),
        (''focus_point'', vany req' ''focus_point''), (''squad_ai'', JStr ''ACTIVE''),
        (''revision'', JInt (old + 1))]]"
  let ?vs = "[(''order'', JStr (vstr req ''order'')), (''leader_entity_id'', JStr leader),
        (''target_entity_id'', opt_str (vopt req ''target_entity_id'')),
        (''focus_point'', vany req ''focus_point''), (''squad_ai'', JStr ''ACTIVE''),
        (''revision'', JInt (old + 1))]"
  have eq: "req' = req" using rq assms(3) by simp
  have "dget (bucket t ''tabletop.squad_orders'') (vstr req ''squad_id'') = Some (JDict (dupdate existing ?vs))"
    using assms(2) ex(1)
    by (auto simp: ds eq apply_delta_def Let_def delta_key_def bindR_eq_Inr)
  moreover have "dget (dupdate existing ?vs) ''leader_entity_id'' = Some (JStr leader)"
    "dget (dupdate existing ?vs) ''order'' = Some (JStr (vstr req ''order''))"
    "dget (dupdate existing ?vs) ''revision'' = Some (JInt (old + 1))" by simp_all
  moreover have "\<forall>e. vopt req ''target_entity_id'' = Some e \<longrightarrow> dhas (bucket s ''tabletop.entities'') e"
    using tgt by (auto simp: eq split: option.splits)
  moreover have "vstr req ''order'' = ''FOCUS'' \<longrightarrow>
       vopt req ''target_entity_id'' \<noteq> None \<or> vany req ''focus_point'' \<noteq> JNull"
    using assms(3) by (simp add: validate_squad_order_Inr)
  moreover have "1 \<le> old + 1" using ex(3) by simp
  ultimately show ?thesis using leader squad ex unfolding eq by blast
qed

theorem squad_order_by_leader_witness:
  "\<exists>r t leader. issue_squad_order ref_lib (fixture_proposal ''tabletop.battlefield.issue_squad_order''
      (Some ''hero'') [(''squad_id'', JStr ''sq''), (''order'', JStr ''FOCUS''),
       (''target_entity_id'', JStr ''wolf'')]) fixture_squad = Inr r \<and>
    apply_deltas ref_lib fixture_squad (cr_deltas r) = Inr t \<and>
    (\<exists>order. dget (bucket t ''tabletop.squad_orders'') ''sq'' = Some (JDict order) \<and>
       dget order ''leader_entity_id'' = Some (JStr leader))"
proof -
  let ?ps = "[(''squad_id'', JStr ''sq''), (''order'', JStr ''FOCUS''), (''target_entity_id'', JStr ''wolf'')]"
  let ?req = "?ps @ [(''focus_point'', JNull)]"
  let ?p = "fixture_proposal ''tabletop.battlefield.issue_squad_order'' (Some ''hero'') ?ps"
  have "is_ok (bindR (issue_squad_order ref_lib ?p fixture_squad)
    (\<lambda>r. apply_deltas ref_lib fixture_squad (cr_deltas r)))" by code_simp
  then obtain r t where rt: "issue_squad_order ref_lib ?p fixture_squad = Inr r"
    "apply_deltas ref_lib fixture_squad (cr_deltas r) = Inr t" by (rule runs)
  have "validate_squad_order ref_lib ?ps = Inr ?req" by code_simp
  then have q: "validate_squad_order ref_lib (p_parameters ?p) = Inr ?req" by (simp add: fixture_proposal_def)
  have id: "vstr ?req ''squad_id'' = ''sq''" by (simp add: vstr_def)
  from squad_order_by_leader [OF rt q, unfolded id] rt show ?thesis
    by (elim exE conjE) (intro exI conjI; assumption)
qed

text \<open>
  A frame is an authorised view of one branch: it carries the version and the hash of the
  branch it was taken from, its visible entities are exactly the entities the caller named that
  the branch has, without the commander and without repetition, in the order of their ids, and
  each shows exactly its public record without the type field.
\<close>

theorem frame_is_authorised:
  assumes "build_frame L s run_id commander visible = Inr f"
  shows "fr_state_hash f = state_hash L s \<and> fr_projection_version f = bs_version s \<and>
    fr_commander_entity_id f = commander \<and> ev_entity_id (fr_commander f) = commander \<and>
    map ev_entity_id (fr_visible_entities f) =
      [e \<leftarrow> sort (remdups visible). e \<noteq> commander \<and> dhas (bucket s ''tabletop.entities'') e] \<and>
    (\<forall>v\<in>set (fr_visible_entities f). \<exists>d.
       dget (bucket s ''tabletop.entities'') (ev_entity_id v) = Some (JDict d) \<and>
       ev_public_state v = ddel d ''entity_type'')"
proof -
  have "fr_state_hash f = state_hash L s" "fr_projection_version f = bs_version s"
    "fr_commander_entity_id f = commander" "ev_entity_id (fr_commander f) = commander"
    using assms by (auto simp: build_frame_def bindR_eq_Inr Let_def frame_view_Inr)
  then show ?thesis using build_frame_visible [OF assms] by blast
qed

theorem frame_is_authorised_witness:
  "\<exists>f. build_frame ref_lib fixture_squad ''run'' ''hero'' [''wolf'', ''ghost'', ''hero''] = Inr f \<and>
    map ev_entity_id (fr_visible_entities f) = [''wolf''] \<and>
    fr_state_hash f = state_hash ref_lib fixture_squad"
proof -
  let ?m = "build_frame ref_lib fixture_squad ''run'' ''hero'' [''wolf'', ''ghost'', ''hero'']"
  have "is_ok ?m" by code_simp
  then obtain f where f: "?m = Inr f" by (auto simp: is_ok_iff)
  have "[e \<leftarrow> sort (remdups [''wolf'', ''ghost'', ''hero'']). e \<noteq> ''hero'' \<and>
    dhas (bucket fixture_squad ''tabletop.entities'') e] = [''wolf'']" by code_simp
  with frame_is_authorised [OF f] f show ?thesis by auto
qed

end
