(* ===== verification/Onboarding.thy ===== *)
theory Onboarding
  imports Fixtures
begin

text \<open>
  \<open>domains/tabletop/onboarding.py\<close>: the onboarding handler on the stored record, and the
  state machine it implements. \<open>tutorial\<close> is the abstract state; \<open>encode\<close> is the stored form
  of a state, and \<open>onboarding_refines\<close> says that the handler on the stored form is the step
  of the machine.
\<close>

section \<open>The handler\<close>

definition ONBOARDING_STEPS :: "string list" where
  "ONBOARDING_STEPS = [''WELCOME'', ''LEARN_CONTROLS'', ''COMPLETE_TASK'', ''CLAIM_REWARD'',
     ''CHOOSE_PATH'', ''FINISH'']"

definition EXPECTED_ACTION :: "(string \<times> string) list" where
  "EXPECTED_ACTION =
     [(''WELCOME'', ''START''), (''LEARN_CONTROLS'', ''READ_INSTRUCTIONS''),
      (''COMPLETE_TASK'', ''COMPLETE_FIRST_GOAL''), (''CLAIM_REWARD'', ''CLAIM_REWARD''),
      (''CHOOSE_PATH'', ''CHOOSE_PATH''), (''FINISH'', ''FINISH_ONBOARDING'')]"

definition OnboardingAction :: schema where
  "OnboardingAction = [(''action'', FStr 0 None, None)]"

definition OnboardingResult :: schema where
  "OnboardingResult =
     [(''action'', FStr 0 None, None), (''expected_action'', FStr 0 None, None),
      (''step'', FStr 0 None, None),
      (''outcome'', FEnum [''INVALID'', ''ALREADY_COMPLETE'', ''HELP_PROVIDED'', ''VALID''], None)]"

definition initial_record :: jdict where
  "initial_record =
     [(''step_index'', JInt 0), (''invalid_actions'', JInt 0), (''help_requests'', JInt 0),
      (''hints_requested'', JInt 0), (''dialogue_loops'', JInt 0), (''completed'', JBool False),
      (''had_help_this_step'', JBool False)]"

text \<open>\<open>ONBOARDING_STEPS[min(step_index, 5)]\<close>; a negative index counts from the end.\<close>

definition step_at :: "int \<Rightarrow> string res" where
  "step_at i = (let j = min i (int (length ONBOARDING_STEPS) - 1);
                    k = (if j < 0 then j + int (length ONBOARDING_STEPS) else j) in
     if k < 0 then Inl (IndexError ''tuple index out of range'')
     else Inr (ONBOARDING_STEPS ! nat k))"

definition onboarding_changes :: "jval \<Rightarrow> int \<Rightarrow> string \<Rightarrow> string \<Rightarrow> string \<Rightarrow> (string \<times> jdict) res" where
  "onboarding_changes rec step_index step expected action =
     bindR (item rec ''completed'') (\<lambda>completed.
     if py_bool completed then Inr (''ALREADY_COMPLETE'', [])
     else if action = ''ASK_HELP'' then
       bindR (bindR (item rec ''help_requests'') py_int) (\<lambda>helps.
       bindR (bindR (item rec ''hints_requested'') py_int) (\<lambda>hints.
       bindR (bindR (item rec ''dialogue_loops'') py_int) (\<lambda>loops.
       bindR (item rec ''had_help_this_step'') (\<lambda>had.
       Inr (''HELP_PROVIDED'',
         [(''help_requests'', JInt (helps + 1)),
          (''hints_requested'', JInt (hints + (if step = ''COMPLETE_TASK'' then 1 else 0))),
          (''dialogue_loops'', JInt (loops + (if py_bool had then 1 else 0))),
          (''had_help_this_step'', JBool True)])))))
     else if action = expected then
       Inr (''VALID'',
         [(''step_index'', JInt (step_index + 1)), (''had_help_this_step'', JBool False),
          (''completed'', JBool (int (length ONBOARDING_STEPS) \<le> step_index + 1))])
     else
       bindR (bindR (item rec ''invalid_actions'') py_int) (\<lambda>n.
       Inr (''INVALID'', [(''invalid_actions'', JInt (n + 1))])))"

definition handle_onboarding_action :: "pylib \<Rightarrow> proposal \<Rightarrow> branch_state \<Rightarrow> command_result res" where
  "handle_onboarding_action L p s =
     bindR (of_option (ValueError ''onboarding actions require an embodied entity'') (p_embodied_entity_id p)) (\<lambda>e.
     let rec = (case pget (bucket s ''tabletop.onboarding'') e of
                  None \<Rightarrow> JDict initial_record | Some r \<Rightarrow> r);
         action = py_str L (dget_or (p_parameters p) ''action'' (JStr [])) in
     bindR (bindR (item rec ''step_index'') py_int) (\<lambda>step_index.
     bindR (step_at step_index) (\<lambda>step.
     bindR (of_option (KeyError step) (dget EXPECTED_ACTION step)) (\<lambda>expected.
     bindR (onboarding_changes rec step_index step expected action) (\<lambda>(outcome, changes).
     bindR (py_dict rec) (\<lambda>d.
     Inr (mk_result
       [(''action'', JStr action), (''expected_action'', JStr expected), (''step'', JStr step),
        (''outcome'', JStr outcome)]
       [mk_delta ''tabletop.onboarding'' SET e (dupdate d changes)]
       [''tabletop'', ''onboarding''])))))))"

definition onboarding_definition :: "pylib \<Rightarrow> command_definition" where
  "onboarding_definition L = \<lparr>cd_command_type = ''tabletop.onboarding.act'',
     cd_required_capabilities = act_capabilities, cd_allowed_branch_kinds = both_branches,
     cd_handler = reads_only (handle_onboarding_action L), cd_version = ''1.0.0'',
     cd_request_model = Some (model_validate L OnboardingAction),
     cd_result_model = Some (model_accepts L OnboardingResult), cd_sensitive_parameters = {},
     cd_requires_controlled_entity = True, cd_emission_builder = None\<rparr>"

section \<open>The state machine\<close>

record tutorial =
  tu_step :: nat
  tu_invalid :: int
  tu_helps :: int
  tu_hints :: int
  tu_loops :: int
  tu_completed :: bool
  tu_had_help :: bool

definition tutorial_start :: tutorial where
  "tutorial_start = \<lparr>tu_step = 0, tu_invalid = 0, tu_helps = 0, tu_hints = 0, tu_loops = 0,
     tu_completed = False, tu_had_help = False\<rparr>"

text \<open>The action the machine waits for.\<close>

definition expected_action :: "tutorial \<Rightarrow> string" where
  "expected_action t = [''START'', ''READ_INSTRUCTIONS'', ''COMPLETE_FIRST_GOAL'', ''CLAIM_REWARD'',
     ''CHOOSE_PATH'', ''FINISH_ONBOARDING''] ! min (tu_step t) 5"

definition tutorial_step :: "string \<Rightarrow> tutorial \<Rightarrow> tutorial" where
  "tutorial_step action t =
     (if tu_completed t then t
      else if action = ''ASK_HELP'' then
        t\<lparr>tu_helps := tu_helps t + 1, tu_hints := tu_hints t + (if tu_step t = 2 then 1 else 0),
          tu_loops := tu_loops t + (if tu_had_help t then 1 else 0), tu_had_help := True\<rparr>
      else if action = expected_action t then
        t\<lparr>tu_step := tu_step t + 1, tu_had_help := False, tu_completed := (6 \<le> tu_step t + 1)\<rparr>
      else t\<lparr>tu_invalid := tu_invalid t + 1\<rparr>)"

inductive tutorial_reaches :: "tutorial \<Rightarrow> tutorial \<Rightarrow> bool" where
  start: "tutorial_reaches t t"
| act: "tutorial_reaches t u \<Longrightarrow> tutorial_reaches t (tutorial_step action u)"

definition tutorial_ok :: "tutorial \<Rightarrow> bool" where
  "tutorial_ok t \<longleftrightarrow> tu_step t \<le> 6 \<and> (tu_completed t \<longleftrightarrow> tu_step t = 6) \<and>
     0 \<le> tu_hints t \<and> tu_hints t \<le> tu_helps t \<and> 0 \<le> tu_loops t \<and> tu_loops t \<le> tu_helps t \<and>
     0 \<le> tu_invalid t"

definition encode :: "tutorial \<Rightarrow> jdict" where
  "encode t =
     [(''step_index'', JInt (int (tu_step t))), (''invalid_actions'', JInt (tu_invalid t)),
      (''help_requests'', JInt (tu_helps t)), (''hints_requested'', JInt (tu_hints t)),
      (''dialogue_loops'', JInt (tu_loops t)), (''completed'', JBool (tu_completed t)),
      (''had_help_this_step'', JBool (tu_had_help t))]"

text \<open>The record a branch holds for an entity, absent or stored.\<close>

definition stored_tutorial :: "branch_state \<Rightarrow> uuid \<Rightarrow> tutorial \<Rightarrow> bool" where
  "stored_tutorial s e t \<longleftrightarrow> pget (bucket s ''tabletop.onboarding'') e = Some (JDict (encode t)) \<or>
     pget (bucket s ''tabletop.onboarding'') e = None \<and> t = tutorial_start"

lemma encode_start: "encode tutorial_start = initial_record"
  by (simp add: encode_def tutorial_start_def initial_record_def)

lemma tutorial_ok_start: "tutorial_ok tutorial_start"
  by (simp add: tutorial_ok_def tutorial_start_def)

lemma tutorial_ok_step: "tutorial_ok t \<Longrightarrow> tutorial_ok (tutorial_step action t)"
  by (auto simp: tutorial_ok_def tutorial_step_def)

lemma tutorial_ok_reaches: "tutorial_reaches t u \<Longrightarrow> tutorial_ok t \<Longrightarrow> tutorial_ok u"
  by (induction rule: tutorial_reaches.induct) (simp_all add: tutorial_ok_step)

text \<open>Progress is never lost, and a finished tutorial does not change.\<close>

lemma tutorial_step_mono: "tu_step t \<le> tu_step (tutorial_step action t)"
  by (simp add: tutorial_step_def)

lemma tutorial_reaches_mono: "tutorial_reaches t u \<Longrightarrow> tu_step t \<le> tu_step u"
  by (induction rule: tutorial_reaches.induct) (auto intro: order_trans tutorial_step_mono)

lemma step_at_tutorial:
  "tu_step t \<le> 6 \<Longrightarrow> step_at (int (tu_step t)) = Inr (ONBOARDING_STEPS ! min (tu_step t) 5) \<and>
     dget EXPECTED_ACTION (ONBOARDING_STEPS ! min (tu_step t) 5) = Some (expected_action t) \<and>
     (ONBOARDING_STEPS ! min (tu_step t) 5 = ''COMPLETE_TASK'' \<longleftrightarrow> tu_step t = 2)"
proof -
  assume "tu_step t \<le> 6"
  then have "tu_step t \<in> {0, 1, 2, 3, 4, 5, 6}" by auto
  then show ?thesis
    by (auto simp: step_at_def ONBOARDING_STEPS_def EXPECTED_ACTION_def expected_action_def Let_def)
qed

lemma onboarding_changes_encode:
  assumes "tutorial_ok t"
  shows "\<exists>outcome changes. onboarding_changes (JDict (encode t)) (int (tu_step t))
      (ONBOARDING_STEPS ! min (tu_step t) 5) (expected_action t) action = Inr (outcome, changes) \<and>
    dupdate (encode t) changes = encode (tutorial_step action t)"
proof -
  from assms have b: "tu_step t \<le> 6" and c: "tu_completed t \<longleftrightarrow> tu_step t = 6"
    by (simp_all add: tutorial_ok_def)
  have task: "ONBOARDING_STEPS ! min (tu_step t) 5 = ''COMPLETE_TASK'' \<longleftrightarrow> tu_step t = 2"
    using step_at_tutorial [OF b] by blast
  have len: "length ONBOARDING_STEPS = 6" by (simp add: ONBOARDING_STEPS_def)
  consider (finished) "tu_completed t" | (asks) "\<not> tu_completed t" "action = ''ASK_HELP''"
    | (progress) "\<not> tu_completed t" "action \<noteq> ''ASK_HELP''" "action = expected_action t"
    | (wrong) "\<not> tu_completed t" "action \<noteq> ''ASK_HELP''" "action \<noteq> expected_action t" by blast
  then show ?thesis
    by cases (auto simp: onboarding_changes_def tutorial_step_def encode_def task len)
qed

text \<open>The handler is the machine on the stored form.\<close>

lemma onboarding_refines:
  assumes "tutorial_ok t" "p_embodied_entity_id p = Some e" "stored_tutorial s e t"
    and "dget (p_parameters p) ''action'' = Some (JStr action)"
  shows "\<exists>r. handle_onboarding_action L p s = Inr r \<and>
    cr_deltas r = [mk_delta ''tabletop.onboarding'' SET e (encode (tutorial_step action t))]"
proof -
  have rec: "(case pget (bucket s ''tabletop.onboarding'') e of
      None \<Rightarrow> JDict initial_record | Some r \<Rightarrow> r) = JDict (encode t)"
    using assms(3) by (auto simp: stored_tutorial_def encode_start simp del: pget_Some)
  have idx: "dget (encode t) ''step_index'' = Some (JInt (int (tu_step t)))"
    by (simp add: encode_def)
  from onboarding_changes_encode [OF assms(1), of action] obtain outcome changes where
    ch: "onboarding_changes (JDict (encode t)) (int (tu_step t))
      (ONBOARDING_STEPS ! min (tu_step t) 5) (expected_action t) action = Inr (outcome, changes)"
    and up: "dupdate (encode t) changes = encode (tutorial_step action t)" by blast
  from assms(1) have "tu_step t \<le> 6" by (simp add: tutorial_ok_def)
  note st = step_at_tutorial [OF this]
  show ?thesis
    by (simp add: handle_onboarding_action_def assms(2) rec idx of_option_def dget_or_def assms(4)
        st ch up)
qed

lemma handle_onboarding_Inr:
  assumes "handle_onboarding_action L p s = Inr r"
  obtains e vs where "p_embodied_entity_id p = Some e"
    "cr_deltas r = [mk_delta ''tabletop.onboarding'' SET e vs]" "cr_accepted r"
  using assms by (auto simp: handle_onboarding_action_def bindR_eq_Inr Let_def)

interpretation onboard: rule_handler "handle_onboarding_action L" "{''tabletop.onboarding''}" embodied for L
proof
  fix p s r
  assume r: "handle_onboarding_action L p s = Inr r"
  show "cr_accepted r" using r by (rule handle_onboarding_Inr)
  show "delta_within {''tabletop.onboarding''} (embodied p) d" if "d \<in> set (cr_deltas r)" for d
    using r by (rule handle_onboarding_Inr) (use that in auto)
qed

section \<open>Properties\<close>

definition onboarding_proposal :: "proposal \<Rightarrow> string \<Rightarrow> proposal" where
  "onboarding_proposal p action = p\<lparr>p_parameters := [(''action'', JStr action)]\<rparr>"

text \<open>One action carried out on a branch: the handler, then its changes.\<close>

definition perform :: "pylib \<Rightarrow> proposal \<Rightarrow> branch_state \<Rightarrow> string \<Rightarrow> branch_state res" where
  "perform L p s action = bindR (handle_onboarding_action L (onboarding_proposal p action) s)
     (\<lambda>r. apply_deltas L s (cr_deltas r))"

lemma perform_refines:
  assumes "tutorial_ok u" "p_embodied_entity_id p = Some e" "stored_tutorial s e u"
  shows "\<exists>t. perform L p s action = Inr t \<and> stored_tutorial t e (tutorial_step action u) \<and>
    tutorial_ok (tutorial_step action u)"
proof -
  have "dget (p_parameters (onboarding_proposal p action)) ''action'' = Some (JStr action)"
    "p_embodied_entity_id (onboarding_proposal p action) = Some e"
    using assms(2) by (simp_all add: onboarding_proposal_def)
  from onboarding_refines [OF assms(1) this(2) assms(3) this(1)] obtain r where
    "handle_onboarding_action L (onboarding_proposal p action) s = Inr r"
    "cr_deltas r = [mk_delta ''tabletop.onboarding'' SET e (encode (tutorial_step action u))]" by blast
  then show ?thesis
    using tutorial_ok_step [OF assms(1)]
    by (simp add: perform_def apply_delta_def Let_def delta_key_def stored_tutorial_def)
qed

text \<open>
  C8. The handler implements the tutorial state machine on the stored record: for a branch that
  holds a well-formed state (or none yet, which is the start state), every action succeeds, the
  branch then holds the next state of the machine, and that state is again well formed.
\<close>

theorem onboarding_simulates:
  assumes "tutorial_reaches tutorial_start u" "p_embodied_entity_id p = Some e" "stored_tutorial s e u"
  shows "\<exists>r t. handle_onboarding_action L (onboarding_proposal p action) s = Inr r \<and>
    apply_deltas L s (cr_deltas r) = Inr t \<and> stored_tutorial t e (tutorial_step action u) \<and>
    tutorial_ok (tutorial_step action u)"
  using perform_refines [OF tutorial_ok_reaches [OF assms(1) tutorial_ok_start] assms(2,3),
    where L = L and action = action]
  by (auto simp: perform_def bindR_eq_Inr)

theorem onboarding_simulates_witness:
  "\<exists>t. stored_tutorial t ''hero'' (tutorial_step ''ASK_HELP'' tutorial_start)"
  using onboarding_simulates [OF tutorial_reaches.start, of "fixture_proposal ''x'' (Some ''hero'') []"
    "''hero''" fixture_party ref_lib "''ASK_HELP''"]
  by (auto simp: fixture_defs stored_tutorial_def pget_def bucket_def dget_or_def)

text \<open>
  The tutorial can always be finished: on a branch that has no record for the entity, the
  six expected actions one after the other succeed and leave the entity's tutorial completed.
\<close>

theorem onboarding_can_finish:
  assumes "p_embodied_entity_id p = Some e" "pget (bucket s ''tabletop.onboarding'') e = None"
  shows "\<exists>t u. foldR (perform L p) s [''START'', ''READ_INSTRUCTIONS'', ''COMPLETE_FIRST_GOAL'',
      ''CLAIM_REWARD'', ''CHOOSE_PATH'', ''FINISH_ONBOARDING''] = Inr t \<and>
    stored_tutorial t e u \<and> tu_completed u \<and> tu_step u = 6 \<and> tu_invalid u = 0"
proof -
  have fold: "\<exists>t. foldR (perform L p) s acts = Inr t \<and> stored_tutorial t e (fold tutorial_step acts u)"
    if "tutorial_ok u" "stored_tutorial s e u" for acts u s
    using that
  proof (induction acts arbitrary: s u)
    case Nil
    then show ?case by simp
  next
    case (Cons a acts)
    from perform_refines [OF Cons.prems(1) assms(1) Cons.prems(2), of L a] obtain s1 where
      "perform L p s a = Inr s1" "stored_tutorial s1 e (tutorial_step a u)" by blast
    with Cons.IH [OF tutorial_ok_step [OF Cons.prems(1)]] show ?case by simp
  qed
  have "stored_tutorial s e tutorial_start" using assms(2) by (simp add: stored_tutorial_def)
  note run = fold [OF tutorial_ok_start this, of "[''START'', ''READ_INSTRUCTIONS'', ''COMPLETE_FIRST_GOAL'',
      ''CLAIM_REWARD'', ''CHOOSE_PATH'', ''FINISH_ONBOARDING'']"]
  let ?u = "fold tutorial_step [''START'', ''READ_INSTRUCTIONS'', ''COMPLETE_FIRST_GOAL'',
      ''CLAIM_REWARD'', ''CHOOSE_PATH'', ''FINISH_ONBOARDING''] tutorial_start"
  have "tu_completed ?u \<and> tu_step ?u = 6 \<and> tu_invalid ?u = 0"
    by (simp add: tutorial_step_def tutorial_start_def expected_action_def)
  with run show ?thesis by blast
qed

theorem onboarding_can_finish_witness:
  "\<exists>t u. foldR (perform ref_lib (fixture_proposal ''x'' (Some ''hero'') [])) fixture_party
      [''START'', ''READ_INSTRUCTIONS'', ''COMPLETE_FIRST_GOAL'', ''CLAIM_REWARD'', ''CHOOSE_PATH'',
       ''FINISH_ONBOARDING''] = Inr t \<and> stored_tutorial t ''hero'' u \<and> tu_completed u"
  using onboarding_can_finish [of "fixture_proposal ''x'' (Some ''hero'') []" "''hero''" fixture_party ref_lib]
  by (auto simp: fixture_defs pget_def bucket_def dget_or_def)

end
