(* ===== verification/RulesNarrative.thy ===== *)
theory RulesNarrative
  imports Fixtures
begin

text \<open>
  The rules that create entities and record speech: \<open>domains/tabletop/entities\<close> and
  \<open>domains/tabletop/dialogue\<close>, and the boundary gate of \<open>domains/tabletop/content_rating\<close>.
\<close>

section \<open>Spawning\<close>

definition SpawnEntityRequest :: schema where
  "SpawnEntityRequest =
     [(''entity_id'', FUuid, None), (''name'', FStr 1 (Some 160), None),
      (''entity_type'', FStr 1 (Some 120), None),
      (''public_state'', FMapping, Some (JDict [])), (''secret_state'', FMapping, Some (JDict [])),
      (''controller_actor_id'', FOption FUuid, Some JNull)]"

definition SpawnEntityResult :: schema where
  "SpawnEntityResult =
     [(''entity_id'', FUuid, None), (''name'', FStr 0 None, None),
      (''entity_type'', FStr 0 None, None), (''public_state'', FMapping, None)]"

definition spawn :: "pylib \<Rightarrow> proposal \<Rightarrow> branch_state \<Rightarrow> command_result res" where
  "spawn L p s =
     bindR (model_validate L SpawnEntityRequest (p_parameters p)) (\<lambda>request.
     let entity_id = vstr request ''entity_id''; public = vdict request ''public_state'' in
     bindR (ensure (\<not> dhas (bucket s ''tabletop.entities'') entity_id)
       (ValueError ''entity already exists in this branch'')) (\<lambda>_.
     let vals = dupdate [(''name'', JStr (vstr request ''name'')),
                           (''entity_type'', JStr (vstr request ''entity_type''))] public in
     bindR (get_int public ''x'' 0) (\<lambda>x.
     bindR (get_int public ''y'' 0) (\<lambda>y.
     bindR (get_int public ''z'' 0) (\<lambda>z.
     let position =
           [(''entity_id'', JStr entity_id),
            (''zone_id'', dget_or public ''zone_id'' (JStr ''world'')),
            (''x'', JInt x), (''y'', JInt y), (''z'', JInt z),
            (''facing'', dget_or public ''facing'' JNull)] in
     bindR (py_float L (dget_or public ''hearing_acuity'' (JFloat 1))) (\<lambda>hearing.
     bindR (py_float L (dget_or public ''sight_acuity'' (JFloat 1))) (\<lambda>sight.
     let flag = (\<lambda>name. JBool (py_bool (dget_or public name (JBool False))));
         sensory_profile =
           [(''controller_actor_id'', opt_str (vopt request ''controller_actor_id'')),
            (''hearing_acuity'', JFloat hearing), (''sight_acuity'', JFloat sight),
            (''deafened'', flag ''deafened''), (''blinded'', flag ''blinded''),
            (''invisible'', flag ''invisible'')] in
     Inr \<lparr>cr_accepted = True,
       cr_result = [(''entity_id'', JStr entity_id), (''name'', JStr (vstr request ''name'')),
         (''entity_type'', JStr (vstr request ''entity_type'')), (''public_state'', JDict public)],
       cr_deltas = [mk_delta ''tabletop.entities'' SET entity_id vals,
         mk_delta ''tabletop.spatial.positions'' SET entity_id position,
         mk_delta ''tabletop.sensory_profiles'' SET entity_id sensory_profile],
       cr_entity_mutations = [\<lparr>em_entity_id = entity_id,
         em_entity_type = vstr request ''entity_type'', em_name = vstr request ''name'',
         em_public_state = public, em_secret_state = vdict request ''secret_state'',
         em_controller_actor_id = vopt request ''controller_actor_id''\<rparr>],
       cr_domain_tags = [''tabletop'', ''entity'', ''spawn'']\<rparr>)))))))"

definition spawn_definition :: "pylib \<Rightarrow> command_definition" where
  "spawn_definition L = \<lparr>cd_command_type = ''tabletop.entity.spawn'',
     cd_required_capabilities = {''entity.create'', ''entity.control''},
     cd_allowed_branch_kinds = both_branches,
     cd_handler = reads_only (spawn L), cd_version = ''1.0.0'',
     cd_request_model = Some (model_validate L SpawnEntityRequest),
     cd_result_model = Some (model_accepts L SpawnEntityResult),
     cd_sensitive_parameters = {''secret_state''},
     cd_requires_controlled_entity = False, cd_emission_builder = None\<rparr>"

section \<open>Dialogue\<close>

definition DialogueClaim :: schema where
  "DialogueClaim =
     [(''subject_type'', FStr 1 (Some 120), None), (''subject_id'', FOption (FStr 0 None), Some JNull),
      (''predicate'', FStr 1 (Some 160), None), (''value'', FAny, None),
      (''confidence'', FFloat (Some 0) (Some 1), Some (JInt 1))]"

definition ConsoleSubmission :: schema where
  "ConsoleSubmission =
     [(''text'', FStr 1 (Some 4000), None), (''claims'', FTuple 0 (FModel DialogueClaim), Some (JList []))]"

definition ConsoleSubmissionResult :: schema where
  "ConsoleSubmissionResult =
     [(''text'', FStr 0 None, None), (''submission_kind'', FEnum [''COMMAND'', ''DIALOGUE''], None),
      (''interpreted'', FConst (JBool False), None), (''summary'', FStr 0 None, None),
      (''claims'', FTuple 0 (FModel DialogueClaim), Some (JList []))]"

definition volumes :: "string list" where
  "volumes = [''WHISPER'', ''NORMAL'', ''LOUD'', ''SHOUT'']"

definition SpeechRequest :: schema where
  "SpeechRequest =
     [(''text'', FStr 1 (Some 4000), None), (''volume'', FEnum volumes, Some (JStr ''NORMAL'')),
      (''language'', FStr 1 (Some 80), Some (JStr ''common'')),
      (''claims'', FTuple 0 (FModel DialogueClaim), Some (JList []))]"

definition SpeechResult :: schema where
  "SpeechResult =
     [(''speaker_entity_id'', FUuid, None), (''text'', FStr 0 None, None),
      (''volume'', FEnum volumes, None), (''language'', FStr 0 None, None),
      (''summary'', FStr 0 None, None), (''claims'', FTuple 0 (FModel DialogueClaim), Some (JList []))]"

definition submit_console :: "pylib \<Rightarrow> proposal \<Rightarrow> branch_state \<Rightarrow> command_result res" where
  "submit_console L p s =
     bindR (model_validate L ConsoleSubmission (p_parameters p)) (\<lambda>request.
     let text = strip (vstr request ''text'') in
     bindR (ensure (text \<noteq> []) (ValueError ''console text cannot be blank'')) (\<lambda>_.
     let is_command = starts_with ''/'' text;
         result =
           [(''text'', JStr text),
            (''submission_kind'', JStr (if is_command then ''COMMAND'' else ''DIALOGUE'')),
            (''interpreted'', JBool False),
            (''summary'', JStr (if is_command then ''Proposed '' @ text @ ''.'' else text))];
         claims = vlist request ''claims'' in
     Inr (mk_result (if claims = [] then result else result @ [(''claims'', JList claims)]) []
       [''tabletop'', if is_command then ''command'' else ''dialogue'', ''proposal''])))"

definition speak :: "pylib \<Rightarrow> proposal \<Rightarrow> branch_state \<Rightarrow> command_result res" where
  "speak L p s =
     bindR (of_option (ValueError ''in-world speech requires an embodied entity'') (p_embodied_entity_id p)) (\<lambda>e.
     bindR (model_validate L SpeechRequest (p_parameters p)) (\<lambda>request.
     let text = strip (vstr request ''text'') in
     bindR (ensure (text \<noteq> []) (ValueError ''speech cannot be blank'')) (\<lambda>_.
     Inr (mk_result
       [(''speaker_entity_id'', JStr e), (''text'', JStr text),
        (''volume'', JStr (vstr request ''volume'')), (''language'', JStr (vstr request ''language'')),
        (''summary'', JStr text), (''claims'', JList (vlist request ''claims''))]
       [] [''tabletop'', ''dialogue'', ''speech'', ''testimony'']))))"

definition speech_range :: "string \<Rightarrow> rat option" where
  "speech_range = map_of [(''WHISPER'', 3 / 2), (''NORMAL'', 8), (''LOUD'', 16), (''SHOUT'', 32)]"

definition speech_intensity :: "pylib \<Rightarrow> string \<Rightarrow> rat option" where
  "speech_intensity L = map_of [(''WHISPER'', fl L (4 / 5)), (''NORMAL'', 1),
     (''LOUD'', fl L (27 / 20)), (''SHOUT'', 2)]"

definition speech_emission :: "pylib \<Rightarrow> emission_builder" where
  "speech_emission L p result before after =
     bindR (of_option (ValueError ''speech emission requires an embodied entity'') (p_embodied_entity_id p)) (\<lambda>e.
     bindR (of_option (KeyError ''volume'') (dget (cr_result result) ''volume'')) (\<lambda>v.
     let volume = py_str L v in
     bindR (of_option (KeyError volume) (speech_intensity L volume)) (\<lambda>intensity.
     bindR (of_option (KeyError volume) (speech_range volume)) (\<lambda>max_range.
     Inr (Some \<lparr>em_anchor = entity_anchor e BEFORE, em_modalities = [SOUND],
       em_intensity = intensity, em_max_range = max_range,
       em_allowed_payload_fields = Some [''speaker_entity_id'', ''text'', ''volume'', ''language'',
         ''summary'', ''claims''],
       em_hidden_payload_fields = {}, em_payload_overrides = [],
       em_reason_codes = [''speech.volume.'' @ casefold volume]\<rparr>)))))"

definition dialogue_definitions :: "pylib \<Rightarrow> command_definition list" where
  "dialogue_definitions L =
     [\<lparr>cd_command_type = ''tabletop.console.submit'',
       cd_required_capabilities = {''action.propose''}, cd_allowed_branch_kinds = both_branches,
       cd_handler = reads_only (submit_console L), cd_version = ''1.0.0'',
       cd_request_model = Some (model_validate L ConsoleSubmission),
       cd_result_model = Some (model_accepts L ConsoleSubmissionResult),
       cd_sensitive_parameters = {}, cd_requires_controlled_entity = False,
       cd_emission_builder = None\<rparr>,
      \<lparr>cd_command_type = ''tabletop.dialogue.speak'',
       cd_required_capabilities = act_capabilities, cd_allowed_branch_kinds = both_branches,
       cd_handler = reads_only (speak L), cd_version = ''1.0.0'',
       cd_request_model = Some (model_validate L SpeechRequest),
       cd_result_model = Some (model_accepts L SpeechResult),
       cd_sensitive_parameters = {}, cd_requires_controlled_entity = True,
       cd_emission_builder = Some (speech_emission L)\<rparr>]"

section \<open>Content boundaries\<close>

record content_decision =
  cn_allowed :: bool
  cn_rating :: string
  cn_matched_boundaries :: "string list"

definition content_policy :: "string list \<Rightarrow> string list" where
  "content_policy blocked = map casefold blocked"

definition evaluate_content :: "string list \<Rightarrow> string \<Rightarrow> string \<Rightarrow> content_decision" where
  "evaluate_content policy text rating =
     (let matched = [term \<leftarrow> policy. has_infix term (casefold text)] in
      \<lparr>cn_allowed = (matched = []), cn_rating = rating, cn_matched_boundaries = matched\<rparr>)"

section \<open>Lemmas\<close>

lemma spawn_Inr:
  assumes "spawn L p s = Inr r"
  obtains req e x y z hearing sight where
    "model_validate L SpawnEntityRequest (p_parameters p) = Inr req"
    "e = vstr req ''entity_id''" "\<not> dhas (bucket s ''tabletop.entities'') e"
    "get_int (vdict req ''public_state'') ''x'' 0 = Inr x"
    "get_int (vdict req ''public_state'') ''y'' 0 = Inr y"
    "get_int (vdict req ''public_state'') ''z'' 0 = Inr z"
    "map sd_projection (cr_deltas r) =
       [''tabletop.entities'', ''tabletop.spatial.positions'', ''tabletop.sensory_profiles'']"
    "map sd_operation (cr_deltas r) = [SET, SET, SET]" "map delta_key (cr_deltas r) = [e, e, e]"
    "sd_values (cr_deltas r ! 0) = dupdate [(''name'', JStr (vstr req ''name'')),
       (''entity_type'', JStr (vstr req ''entity_type''))] (vdict req ''public_state'')"
    "sd_values (cr_deltas r ! 1) = [(''entity_id'', JStr e),
       (''zone_id'', dget_or (vdict req ''public_state'') ''zone_id'' (JStr ''world'')),
       (''x'', JInt x), (''y'', JInt y), (''z'', JInt z),
       (''facing'', dget_or (vdict req ''public_state'') ''facing'' JNull)]"
    "map em_secret_state (cr_entity_mutations r) = [vdict req ''secret_state'']"
    "cr_result r = [(''entity_id'', JStr e), (''name'', JStr (vstr req ''name'')),
       (''entity_type'', JStr (vstr req ''entity_type'')),
       (''public_state'', JDict (vdict req ''public_state''))]"
    "cr_accepted r"
  using assms
  by (auto simp: spawn_def bindR_eq_Inr Let_def delta_key_def simp del: bindR_ensure dupdate_Cons)

lemma delta_list_within:
  assumes "set (map sd_projection ds) \<subseteq> projs" "set (map delta_key ds) \<subseteq> ks" "d \<in> set ds"
  shows "delta_within projs ks d"
  using assms by (auto simp: delta_within_def)

lemma submit_console_Inr:
  assumes "submit_console L p s = Inr r"
  shows "cr_accepted r" "cr_deltas r = []"
  using assms by (auto simp: submit_console_def bindR_eq_Inr Let_def simp del: bindR_ensure)

lemma speak_Inr:
  assumes "speak L p s = Inr r"
  obtains e req where "p_embodied_entity_id p = Some e"
    "model_validate L SpeechRequest (p_parameters p) = Inr req"
    "strip (vstr req ''text'') \<noteq> []"
    "dget (cr_result r) ''speaker_entity_id'' = Some (JStr e)"
    "dget (cr_result r) ''text'' = Some (JStr (strip (vstr req ''text'')))"
    "dget (cr_result r) ''volume'' = Some (JStr (vstr req ''volume''))"
    "cr_deltas r = []" "cr_accepted r"
  using assms by (auto simp: speak_def bindR_eq_Inr Let_def simp del: bindR_ensure)

interpretation entities: rule_handler "spawn L"
  "{''tabletop.entities'', ''tabletop.spatial.positions'', ''tabletop.sensory_profiles''}"
  "named L SpawnEntityRequest ''entity_id''" for L
proof
  fix p s r
  assume r: "spawn L p s = Inr r"
  show "cr_accepted r" using r by (rule spawn_Inr)
  show "delta_within {''tabletop.entities'', ''tabletop.spatial.positions'', ''tabletop.sensory_profiles''}
      (named L SpawnEntityRequest ''entity_id'' p) d" if "d \<in> set (cr_deltas r)" for d
    using r by (rule spawn_Inr) (rule delta_list_within [OF _ _ that], auto)
qed

interpretation console: rule_handler "submit_console L" "{}" "\<lambda>p. {}" for L
  by unfold_locales (simp_all add: submit_console_Inr)

interpretation speech: rule_handler "speak L" "{}" "\<lambda>p. {}" for L
  by unfold_locales (auto elim: speak_Inr)

section \<open>Properties\<close>

text \<open>
  A spawn that succeeds creates an entity that the branch did not have: the entity, its
  position and its sensory profile appear under the requested identifier, the position has the
  coordinates of the public state, and no other entry of the branch changes.
\<close>

theorem spawn_creates:
  assumes "spawn L p s = Inr r" "apply_deltas L s (cr_deltas r) = Inr t"
    and "model_validate L SpawnEntityRequest (p_parameters p) = Inr req"
  shows "\<not> dhas (bucket s ''tabletop.entities'') (vstr req ''entity_id'') \<and>
    dget (bucket t ''tabletop.entities'') (vstr req ''entity_id'') =
      Some (JDict (dupdate [(''name'', JStr (vstr req ''name'')),
        (''entity_type'', JStr (vstr req ''entity_type''))] (vdict req ''public_state''))) \<and>
    (\<exists>pos x y. dget (bucket t ''tabletop.spatial.positions'') (vstr req ''entity_id'') = Some (JDict pos) \<and>
      get_int (vdict req ''public_state'') ''x'' 0 = Inr x \<and> dget pos ''x'' = Some (JInt x) \<and>
      get_int (vdict req ''public_state'') ''y'' 0 = Inr y \<and> dget pos ''y'' = Some (JInt y)) \<and>
    dhas (bucket t ''tabletop.sensory_profiles'') (vstr req ''entity_id'') \<and>
    (\<forall>proj k. k \<noteq> vstr req ''entity_id'' \<longrightarrow> dget (bucket t proj) k = dget (bucket s proj) k)"
proof -
  have other: "\<forall>proj k. k \<noteq> vstr req ''entity_id'' \<longrightarrow> dget (bucket t proj) k = dget (bucket s proj) k"
    using entities.other_subject [OF assms(1,2)] assms(3) by (auto simp: named_def)
  from assms show ?thesis
    by (auto simp: spawn_def bindR_eq_Inr Let_def apply_delta_def delta_key_def other
        simp del: bindR_ensure dupdate_Cons)
qed

theorem spawn_creates_witness:
  "\<exists>r t. spawn ref_lib (fixture_proposal ''tabletop.entity.spawn'' None
      [(''entity_id'', JStr ''owl''), (''name'', JStr ''Owl''), (''entity_type'', JStr ''NPC''),
       (''public_state'', JDict [(''x'', JInt 7)])]) fixture_party = Inr r \<and>
    apply_deltas ref_lib fixture_party (cr_deltas r) = Inr t \<and>
    dhas (bucket t ''tabletop.sensory_profiles'') ''owl''"
proof -
  let ?ps = "[(''entity_id'', JStr ''owl''), (''name'', JStr ''Owl''), (''entity_type'', JStr ''NPC''),
       (''public_state'', JDict [(''x'', JInt 7)])]"
  let ?req = "?ps @ [(''secret_state'', JDict []), (''controller_actor_id'', JNull)]"
  let ?p = "fixture_proposal ''tabletop.entity.spawn'' None ?ps"
  have "is_ok (bindR (spawn ref_lib ?p fixture_party) (\<lambda>r. apply_deltas ref_lib fixture_party (cr_deltas r)))"
    by code_simp
  then obtain r t where rt: "spawn ref_lib ?p fixture_party = Inr r"
    "apply_deltas ref_lib fixture_party (cr_deltas r) = Inr t" by (rule runs)
  have "model_validate ref_lib SpawnEntityRequest ?ps = Inr ?req" by code_simp
  then have q: "model_validate ref_lib SpawnEntityRequest (p_parameters ?p) = Inr ?req"
    by (simp add: fixture_proposal_def)
  have id: "vstr ?req ''entity_id'' = ''owl''" by (simp add: vstr_def)
  from spawn_creates [OF rt q, unfolded id] rt show ?thesis by blast
qed

text \<open>
  The secret state of a spawned entity stays out of the branch and of the event: two
  proposals whose validated requests differ in the secret state only produce the same public
  result and the same changes.
\<close>

theorem spawn_secret_independent:
  assumes "spawn L p s = Inr r"
    and "model_validate L SpawnEntityRequest (p_parameters p) = Inr req"
    and "model_validate L SpawnEntityRequest (p_parameters p') = Inr req'"
    and "\<And>f. f \<noteq> ''secret_state'' \<Longrightarrow> dget req' f = dget req f"
  shows "\<exists>r'. spawn L p' s = Inr r' \<and> cr_result r' = cr_result r \<and> cr_deltas r' = cr_deltas r"
proof -
  have "vstr req' f = vstr req f" "vopt req' f = vopt req f" "vdict req' f = vdict req f"
    if "f \<noteq> ''secret_state''" for f
    using assms(4) [OF that] by (simp_all add: vstr_def vopt_def vdict_def)
  with assms(1-3) show ?thesis
    by (auto simp: spawn_def bindR_eq_Inr Let_def simp del: bindR_ensure)
qed

theorem spawn_secret_independent_witness:
  "\<exists>r r'. spawn ref_lib (fixture_proposal ''tabletop.entity.spawn'' None
      [(''entity_id'', JStr ''owl''), (''name'', JStr ''Owl''), (''entity_type'', JStr ''NPC''),
       (''secret_state'', JDict [(''true_name'', JStr ''Nyx'')])]) fixture_party = Inr r \<and>
    spawn ref_lib (fixture_proposal ''tabletop.entity.spawn'' None
      [(''entity_id'', JStr ''owl''), (''name'', JStr ''Owl''), (''entity_type'', JStr ''NPC'')])
      fixture_party = Inr r' \<and> cr_deltas r' = cr_deltas r"
proof -
  let ?qs = "[(''entity_id'', JStr ''owl''), (''name'', JStr ''Owl''), (''entity_type'', JStr ''NPC'')]"
  let ?ps = "?qs @ [(''secret_state'', JDict [(''true_name'', JStr ''Nyx'')])]"
  let ?req = "?qs @ [(''public_state'', JDict []), (''secret_state'', JDict [(''true_name'', JStr ''Nyx'')]),
      (''controller_actor_id'', JNull)]"
  let ?req' = "?qs @ [(''public_state'', JDict []), (''secret_state'', JDict []), (''controller_actor_id'', JNull)]"
  let ?p = "fixture_proposal ''tabletop.entity.spawn'' None"
  have "is_ok (spawn ref_lib (?p ?ps) fixture_party)" by code_simp
  then obtain r where r: "spawn ref_lib (?p ?ps) fixture_party = Inr r" by (auto simp: is_ok_iff)
  have "model_validate ref_lib SpawnEntityRequest ?ps = Inr ?req"
    "model_validate ref_lib SpawnEntityRequest ?qs = Inr ?req'" by code_simp+
  then have q: "model_validate ref_lib SpawnEntityRequest (p_parameters (?p ?ps)) = Inr ?req"
    "model_validate ref_lib SpawnEntityRequest (p_parameters (?p ?qs)) = Inr ?req'"
    by (simp_all add: fixture_proposal_def)
  have "dget ?req' f = dget ?req f" if "f \<noteq> ''secret_state''" for f using that by simp
  from spawn_secret_independent [OF r q this] r show ?thesis by auto
qed

end
