(* ===== verification/RulesCombat.thy ===== *)
theory RulesCombat
  imports Fixtures
begin

text \<open>
  \<open>domains/tabletop/combat\<close> and \<open>domains/tabletop/magic\<close>: the attack rule with its seeded
  dice, and the spell rule with its mana cost and three effects.
\<close>

section \<open>Attack\<close>

definition AttackRequest :: schema where
  "AttackRequest =
     [(''target_id'', FUuid, None),
      (''attack_bonus'', FInt (Some (-10)) (Some 30), Some (JInt 0)),
      (''damage_dice'', FInt (Some 1) (Some 20), Some (JInt 1)),
      (''damage_sides'', FInt (Some 2) (Some 100), Some (JInt 6)),
      (''damage_bonus'', FInt (Some (-10)) (Some 100), Some (JInt 0))]"

definition AttackResult :: schema where
  "AttackResult =
     [(''attacker_id'', FUuid, None), (''target_id'', FUuid, None),
      (''attack_roll'', FInt (Some 1) (Some 20), None), (''hit'', FBool, None),
      (''damage'', FInt (Some 0) None, None), (''hp_before'', FInt (Some 0) None, None),
      (''hp_after'', FInt (Some 0) None, None)]"

text \<open>\<open>sum(rng.randint(1, sides) for _ in range(dice))\<close>\<close>

fun roll_dice :: "pylib \<Rightarrow> nat \<Rightarrow> int \<Rightarrow> nat \<Rightarrow> int" where
  "roll_dice L 0 sides rng = 0"
| "roll_dice L (Suc n) sides rng =
     (case rng_int L rng 1 sides of (v, rng') \<Rightarrow> v + roll_dice L n sides rng')"

definition attack_hits :: "int \<Rightarrow> int \<Rightarrow> jdict \<Rightarrow> bool res" where
  "attack_hits roll bonus target =
     (if roll = 20 then Inr True
      else if roll = 1 then Inr False
      else bindR (get_int target ''armor'' 10) (\<lambda>armor. Inr (armor \<le> roll + bonus)))"

definition attack :: "pylib \<Rightarrow> proposal \<Rightarrow> branch_state \<Rightarrow> command_result res" where
  "attack L p s =
     bindR (case (p_embodied_entity_id p, p_seed p) of
         (Some attacker_id, Some seed) \<Rightarrow> Inr (attacker_id, seed)
       | _ \<Rightarrow> Inl (ValueError ''attacks require an embodied entity and explicit seed'')) (\<lambda>(attacker_id, seed).
     bindR (model_validate L AttackRequest (p_parameters p)) (\<lambda>request.
     let entities = bucket s ''tabletop.entities''; target_id = vstr request ''target_id'' in
     bindR (of_option (ValueError ''attacker and target must exist'') (pget entities attacker_id)) (\<lambda>av.
     bindR (of_option (ValueError ''attacker and target must exist'') (pget entities target_id)) (\<lambda>tv.
     bindR (as_mapping av) (\<lambda>attacker.
     bindR (get_int attacker ''x'' 0) (\<lambda>ax.
     bindR (as_mapping tv) (\<lambda>target.
     bindR (get_int target ''x'' 0) (\<lambda>tx.
     bindR (get_int attacker ''y'' 0) (\<lambda>ay.
     bindR (get_int target ''y'' 0) (\<lambda>ty.
     bindR (get_int attacker ''reach'' 1) (\<lambda>reach.
     bindR (ensure (max \<bar>ax - tx\<bar> \<bar>ay - ty\<bar> \<le> reach) (ValueError ''target is out of reach'')) (\<lambda>_.
     bindR (get_int attacker ''hp'' 0) (\<lambda>ahp.
     bindR (ensure (0 < ahp) (ValueError ''incapacitated entities cannot attack or be attacked'')) (\<lambda>_.
     bindR (get_int target ''hp'' 0) (\<lambda>hp_before.
     bindR (ensure (0 < hp_before) (ValueError ''incapacitated entities cannot attack or be attacked'')) (\<lambda>_.
     let (roll, rng) = rng_int L (rng_new L seed) 1 20 in
     bindR (attack_hits roll (vint request ''attack_bonus'') target) (\<lambda>hit.
     let damage = (if hit
           then max 0 (roll_dice L (nat (vint request ''damage_dice''))
                         (vint request ''damage_sides'') rng + vint request ''damage_bonus'')
           else 0);
         hp_after = max 0 (hp_before - damage) in
     Inr (mk_result
       [(''attacker_id'', JStr attacker_id), (''target_id'', JStr target_id),
        (''attack_roll'', JInt roll), (''hit'', JBool hit), (''damage'', JInt damage),
        (''hp_before'', JInt hp_before), (''hp_after'', JInt hp_after)]
       [mk_delta ''tabletop.entities'' MERGE target_id
          [(''hp'', JInt hp_after), (''defeated'', JBool (hp_after = 0))]]
       [''tabletop'', ''combat'', ''attack'']))))))))))))))))))"

definition attack_definition :: "pylib \<Rightarrow> command_definition" where
  "attack_definition L = \<lparr>cd_command_type = ''tabletop.combat.attack'',
     cd_required_capabilities = act_capabilities, cd_allowed_branch_kinds = both_branches,
     cd_handler = reads_only (attack L), cd_version = ''1.0.0'',
     cd_request_model = Some (model_validate L AttackRequest),
     cd_result_model = Some (model_accepts L AttackResult), cd_sensitive_parameters = {},
     cd_requires_controlled_entity = True, cd_emission_builder = None\<rparr>"

section \<open>Spells\<close>

definition CastRequest :: schema where
  "CastRequest =
     [(''target_id'', FUuid, None), (''spell'', FStr 1 (Some 80), None),
      (''mana_cost'', FInt (Some 0) (Some 1000), None),
      (''effect'', FEnum [''DAMAGE'', ''HEAL'', ''CONDITION''], None),
      (''power'', FInt (Some 0) (Some 10000), Some (JInt 0)),
      (''condition'', FOption (FStr 0 (Some 80)), Some JNull)]"

definition CastResult :: schema where
  "CastResult =
     [(''spell'', FStr 0 None, None), (''caster_id'', FUuid, None), (''target_id'', FUuid, None),
      (''effect'', FEnum [''DAMAGE'', ''HEAL'', ''CONDITION''], None),
      (''power'', FInt (Some 0) None, None), (''mana_after'', FInt (Some 0) None, None)]"

definition spell_changes :: "jdict \<Rightarrow> jval \<Rightarrow> jdict res" where
  "spell_changes request tv =
     (if vstr request ''effect'' = ''DAMAGE''
      then bindR (as_mapping tv) (\<lambda>target.
           bindR (get_int target ''hp'' 0) (\<lambda>hp.
           Inr [(''hp'', JInt (max 0 (hp - vint request ''power'')))]))
      else if vstr request ''effect'' = ''HEAL''
      then bindR (as_mapping tv) (\<lambda>target.
           bindR (py_int (dget_or target ''max_hp'' (dget_or target ''hp'' (JInt 0)))) (\<lambda>max_hp.
           bindR (get_int target ''hp'' 0) (\<lambda>hp.
           Inr [(''hp'', JInt (min max_hp (hp + vint request ''power'')))])))
      else (case vopt request ''condition'' of
         Some (c # cs) \<Rightarrow>
           bindR (as_mapping tv) (\<lambda>target.
           bindR (py_list (dget_or target ''conditions'' (JList []))) (\<lambda>conditions.
           Inr [(''conditions'', JList (if JStr (c # cs) \<in> set conditions then conditions
                                        else conditions @ [JStr (c # cs)]))]))
       | _ \<Rightarrow> Inl (ValueError ''condition effects require a condition'')))"

definition cast :: "pylib \<Rightarrow> proposal \<Rightarrow> branch_state \<Rightarrow> command_result res" where
  "cast L p s =
     bindR (of_option (ValueError ''spellcasting requires an embodied entity'') (p_embodied_entity_id p)) (\<lambda>caster_id.
     bindR (model_validate L CastRequest (p_parameters p)) (\<lambda>request.
     let entities = bucket s ''tabletop.entities''; target_id = vstr request ''target_id'' in
     bindR (of_option (ValueError ''caster and target must exist'') (pget entities caster_id)) (\<lambda>cv.
     bindR (of_option (ValueError ''caster and target must exist'') (pget entities target_id)) (\<lambda>tv.
     bindR (as_mapping cv) (\<lambda>caster.
     bindR (get_int caster ''mana'' 0) (\<lambda>mana_before.
     bindR (ensure (vint request ''mana_cost'' \<le> mana_before) (ValueError ''insufficient mana'')) (\<lambda>_.
     bindR (spell_changes request tv) (\<lambda>target_changes.
     Inr (mk_result
       [(''spell'', JStr (vstr request ''spell'')), (''caster_id'', JStr caster_id),
        (''target_id'', JStr target_id), (''effect'', JStr (vstr request ''effect'')),
        (''power'', JInt (vint request ''power'')),
        (''mana_after'', JInt (mana_before - vint request ''mana_cost''))]
       [mk_delta ''tabletop.entities'' MERGE caster_id
          [(''mana'', JInt (mana_before - vint request ''mana_cost''))],
        mk_delta ''tabletop.entities'' MERGE target_id target_changes]
       [''tabletop'', ''magic'', replace_char CHR '' '' CHR ''_'' (casefold (vstr request ''spell''))])))))))))"

definition cast_definition :: "pylib \<Rightarrow> command_definition" where
  "cast_definition L = \<lparr>cd_command_type = ''tabletop.magic.cast'',
     cd_required_capabilities = act_capabilities, cd_allowed_branch_kinds = both_branches,
     cd_handler = reads_only (cast L), cd_version = ''1.0.0'',
     cd_request_model = Some (model_validate L CastRequest),
     cd_result_model = Some (model_accepts L CastResult), cd_sensitive_parameters = {},
     cd_requires_controlled_entity = True, cd_emission_builder = None\<rparr>"

section \<open>Dice\<close>

lemma roll_dice_bounds:
  assumes "lawful_lib L" "1 \<le> sides"
  shows "int n \<le> roll_dice L n sides rng \<and> roll_dice L n sides rng \<le> int n * sides"
proof (induction n arbitrary: rng)
  case 0
  show ?case by simp
next
  case (Suc n)
  obtain v rng' where v: "rng_int L rng 1 sides = (v, rng')" by (rule prod.exhaust)
  with lawful_rng [OF assms, of rng] have "1 \<le> v" "v \<le> sides" by simp_all
  with Suc [of rng'] v show ?case by (simp add: algebra_simps)
qed

lemma attack_hits_cases:
  "attack_hits roll bonus target = Inr hit \<Longrightarrow>
     (roll = 20 \<longrightarrow> hit) \<and> (roll = 1 \<longrightarrow> \<not> hit) \<and>
     (roll \<noteq> 1 \<longrightarrow> roll \<noteq> 20 \<longrightarrow>
        (\<exists>armor. get_int target ''armor'' 10 = Inr armor \<and> hit = (armor \<le> roll + bonus)))"
  by (auto simp: attack_hits_def bindR_eq_Inr split: if_splits)

section \<open>Inversion\<close>

text \<open>What a successful attack has checked and what it returns.\<close>

lemma attack_Inr:
  assumes "attack L p s = Inr r"
  obtains attacker_id seed req attacker target ax ay tx ty reach hp roll rng hit damage where
    "p_embodied_entity_id p = Some attacker_id" "p_seed p = Some seed"
    "model_validate L AttackRequest (p_parameters p) = Inr req"
    "dget (bucket s ''tabletop.entities'') attacker_id = Some (JDict attacker)"
    "dget (bucket s ''tabletop.entities'') (vstr req ''target_id'') = Some (JDict target)"
    "get_int attacker ''x'' 0 = Inr ax" "get_int attacker ''y'' 0 = Inr ay"
    "get_int target ''x'' 0 = Inr tx" "get_int target ''y'' 0 = Inr ty"
    "get_int attacker ''reach'' 1 = Inr reach" "max \<bar>ax - tx\<bar> \<bar>ay - ty\<bar> \<le> reach"
    "get_int target ''hp'' 0 = Inr hp" "0 < hp"
    "rng_int L (rng_new L seed) 1 20 = (roll, rng)"
    "attack_hits roll (vint req ''attack_bonus'') target = Inr hit"
    "damage = (if hit then max 0 (roll_dice L (nat (vint req ''damage_dice''))
         (vint req ''damage_sides'') rng + vint req ''damage_bonus'') else 0)"
    "r = mk_result
       [(''attacker_id'', JStr attacker_id), (''target_id'', JStr (vstr req ''target_id'')),
        (''attack_roll'', JInt roll), (''hit'', JBool hit), (''damage'', JInt damage),
        (''hp_before'', JInt hp), (''hp_after'', JInt (max 0 (hp - damage)))]
       [mk_delta ''tabletop.entities'' MERGE (vstr req ''target_id'')
          [(''hp'', JInt (max 0 (hp - damage))), (''defeated'', JBool (max 0 (hp - damage) = 0))]]
       [''tabletop'', ''combat'', ''attack'']"
proof -
  from assms obtain attacker_id seed where e: "p_embodied_entity_id p = Some attacker_id"
    and sd: "p_seed p = Some seed"
    by (cases "p_embodied_entity_id p"; cases "p_seed p") (simp_all add: attack_def)
  obtain roll rng where roll: "rng_int L (rng_new L seed) 1 20 = (roll, rng)" by (rule prod.exhaust)
  from assms show ?thesis
    by (auto simp: attack_def e sd roll bindR_eq_Inr Let_def simp del: bindR_ensure
        intro!: that [OF e sd])
qed

lemma cast_Inr:
  assumes "cast L p s = Inr r"
  obtains caster_id req caster target mana changes where
    "p_embodied_entity_id p = Some caster_id"
    "model_validate L CastRequest (p_parameters p) = Inr req"
    "dget (bucket s ''tabletop.entities'') caster_id = Some (JDict caster)"
    "dget (bucket s ''tabletop.entities'') (vstr req ''target_id'') = Some target"
    "get_int caster ''mana'' 0 = Inr mana" "vint req ''mana_cost'' \<le> mana"
    "spell_changes req target = Inr changes"
    "cr_deltas r = [mk_delta ''tabletop.entities'' MERGE caster_id
          [(''mana'', JInt (mana - vint req ''mana_cost''))],
        mk_delta ''tabletop.entities'' MERGE (vstr req ''target_id'') changes]"
    "cr_accepted r"
  using assms
  by (auto simp: cast_def bindR_eq_Inr Let_def simp del: bindR_ensure)

lemma AttackRequest_bounds:
  assumes "model_validate L AttackRequest d = Inr r"
  shows "1 \<le> vint r ''damage_dice'' \<and> vint r ''damage_dice'' \<le> 20"
    "2 \<le> vint r ''damage_sides'' \<and> vint r ''damage_sides'' \<le> 100"
    "-10 \<le> vint r ''damage_bonus'' \<and> vint r ''damage_bonus'' \<le> 100"
  using validated_int [OF assms, of "''damage_dice''" "Some 1" "Some 20" "Some (JInt 1)"]
    validated_int [OF assms, of "''damage_sides''" "Some 2" "Some 100" "Some (JInt 6)"]
    validated_int [OF assms, of "''damage_bonus''" "Some (-10)" "Some 100" "Some (JInt 0)"]
  by (simp_all add: AttackRequest_def in_bounds_def)

lemma CastRequest_bounds:
  assumes "model_validate L CastRequest d = Inr r"
  shows "0 \<le> vint r ''mana_cost'' \<and> vint r ''mana_cost'' \<le> 1000"
    "0 \<le> vint r ''power'' \<and> vint r ''power'' \<le> 10000"
  using validated_int [OF assms, of "''mana_cost''" "Some 0" "Some 1000" None]
    validated_int [OF assms, of "''power''" "Some 0" "Some 10000" "Some (JInt 0)"]
  by (simp_all add: CastRequest_def in_bounds_def)

section \<open>The rules keep to their footprint\<close>

interpretation combat: rule_handler "attack L" "{''tabletop.entities''}"
  "named L AttackRequest ''target_id''" for L
proof
  fix p s r
  assume r: "attack L p s = Inr r"
  show "cr_accepted r" using r by (rule attack_Inr) simp
  show "delta_within {''tabletop.entities''} (named L AttackRequest ''target_id'' p) d"
    if "d \<in> set (cr_deltas r)" for d
    using r by (rule attack_Inr) (use that in auto)
qed

interpretation magic: rule_handler "cast L" "{''tabletop.entities''}"
  "\<lambda>p. embodied p \<union> named L CastRequest ''target_id'' p" for L
proof
  fix p s r
  assume r: "cast L p s = Inr r"
  show "cr_accepted r" using r by (rule cast_Inr)
  show "delta_within {''tabletop.entities''} (embodied p \<union> named L CastRequest ''target_id'' p) d"
    if "d \<in> set (cr_deltas r)" for d
    using r by (rule cast_Inr) (use that in auto)
qed

section \<open>Properties\<close>

lemma applied_merge:
  assumes "apply_deltas L s [mk_delta proj MERGE e vs] = Inr t" "dget (bucket s proj) e = Some (JDict d)"
  shows "dget (bucket t proj) e = Some (JDict (dupdate d vs))"
  using assms by (auto simp: apply_delta_def Let_def delta_key_def bindR_eq_Inr dget_or_def)

text \<open>
  C11. An attack that succeeds rolls a number from 1 to 20; 20 always hits and 1 never does. A
  miss deals no damage, a hit deals between 0 and the maximum of the dice plus a positive
  bonus. After the command the target has its old hit points less the damage, never below
  zero, and is marked as defeated exactly when they are used up.
\<close>

theorem attack_outcome:
  assumes "lawful_lib L" "attack L p s = Inr r" "apply_deltas L s (cr_deltas r) = Inr t"
  shows "\<exists>req target ent hp roll hit damage.
    model_validate L AttackRequest (p_parameters p) = Inr req \<and>
    dget (bucket s ''tabletop.entities'') (vstr req ''target_id'') = Some (JDict target) \<and>
    get_int target ''hp'' 0 = Inr hp \<and> 0 < hp \<and>
    dget (cr_result r) ''attack_roll'' = Some (JInt roll) \<and> 1 \<le> roll \<and> roll \<le> 20 \<and>
    dget (cr_result r) ''hit'' = Some (JBool hit) \<and> (roll = 20 \<longrightarrow> hit) \<and> (roll = 1 \<longrightarrow> \<not> hit) \<and>
    dget (cr_result r) ''damage'' = Some (JInt damage) \<and> (\<not> hit \<longrightarrow> damage = 0) \<and> 0 \<le> damage \<and>
    damage \<le> vint req ''damage_dice'' * vint req ''damage_sides'' + max 0 (vint req ''damage_bonus'') \<and>
    dget (bucket t ''tabletop.entities'') (vstr req ''target_id'') = Some (JDict ent) \<and>
    dget ent ''hp'' = Some (JInt (max 0 (hp - damage))) \<and>
    dget ent ''defeated'' = Some (JBool (hp \<le> damage))"
  using assms(2)
proof (rule attack_Inr)
  fix attacker_id seed req attacker target ax ay tx ty reach hp roll rng hit damage
  assume req: "model_validate L AttackRequest (p_parameters p) = Inr req"
    and target: "dget (bucket s ''tabletop.entities'') (vstr req ''target_id'') = Some (JDict target)"
    "get_int target ''hp'' 0 = Inr hp" "0 < hp"
    and roll: "rng_int L (rng_new L seed) 1 20 = (roll, rng)"
    and hit: "attack_hits roll (vint req ''attack_bonus'') target = Inr hit"
    and damage: "damage = (if hit then max 0 (roll_dice L (nat (vint req ''damage_dice''))
         (vint req ''damage_sides'') rng + vint req ''damage_bonus'') else 0)"
    and r: "r = mk_result
       [(''attacker_id'', JStr attacker_id), (''target_id'', JStr (vstr req ''target_id'')),
        (''attack_roll'', JInt roll), (''hit'', JBool hit), (''damage'', JInt damage),
        (''hp_before'', JInt hp), (''hp_after'', JInt (max 0 (hp - damage)))]
       [mk_delta ''tabletop.entities'' MERGE (vstr req ''target_id'')
          [(''hp'', JInt (max 0 (hp - damage))), (''defeated'', JBool (max 0 (hp - damage) = 0))]]
       [''tabletop'', ''combat'', ''attack'']"
  from lawful_rng [OF assms(1), of 1 20 "rng_new L seed"] roll have "1 \<le> roll" "roll \<le> 20" by simp_all
  moreover have "0 \<le> damage \<and> damage \<le> vint req ''damage_dice'' * vint req ''damage_sides'' +
      max 0 (vint req ''damage_bonus'') \<and> (\<not> hit \<longrightarrow> damage = 0)"
    using roll_dice_bounds [OF assms(1), of "vint req ''damage_sides''" "nat (vint req ''damage_dice'')" rng]
      AttackRequest_bounds [OF req] by (auto simp: damage)
  moreover have "dget (bucket t ''tabletop.entities'') (vstr req ''target_id'') =
      Some (JDict (dupdate target [(''hp'', JInt (max 0 (hp - damage))), (''defeated'', JBool (max 0 (hp - damage) = 0))]))"
    by (rule applied_merge [OF _ target(1)]) (use assms(3) in \<open>simp only: r mk_result_simps\<close>)
  moreover have "max 0 (hp - damage) = 0 \<longleftrightarrow> hp \<le> damage" by auto
  ultimately show ?thesis
    using req target attack_hits_cases [OF hit]
    by (rule_tac x = req in exI, rule_tac x = target in exI, rule_tac x = "dupdate target
        [(''hp'', JInt (max 0 (hp - damage))), (''defeated'', JBool (max 0 (hp - damage) = 0))]" in exI,
        rule_tac x = hp in exI, rule_tac x = roll in exI, rule_tac x = hit in exI, rule_tac x = damage in exI)
      (simp add: r)
qed

theorem attack_outcome_witness:
  "\<exists>r t roll damage. attack ref_lib (fixture_proposal ''tabletop.combat.attack'' (Some ''hero'')
      [(''target_id'', JStr ''wolf''), (''damage_sides'', JInt 8)]) fixture_party = Inr r \<and>
    apply_deltas ref_lib fixture_party (cr_deltas r) = Inr t \<and>
    dget (cr_result r) ''attack_roll'' = Some (JInt roll) \<and> 1 \<le> roll \<and> roll \<le> 20 \<and>
    dget (cr_result r) ''damage'' = Some (JInt damage) \<and> 0 \<le> damage"
proof -
  let ?p = "fixture_proposal ''tabletop.combat.attack'' (Some ''hero'')
      [(''target_id'', JStr ''wolf''), (''damage_sides'', JInt 8)]"
  have "is_ok (bindR (attack ref_lib ?p fixture_party) (\<lambda>r. apply_deltas ref_lib fixture_party (cr_deltas r)))"
    by code_simp
  then obtain r t where rt: "attack ref_lib ?p fixture_party = Inr r"
    "apply_deltas ref_lib fixture_party (cr_deltas r) = Inr t" by (rule runs)
  from attack_outcome [OF lawful_ref_lib rt] show ?thesis
    by (elim exE conjE) (intro exI conjI; (rule rt | assumption))
qed

text \<open>
  A spell that succeeds takes its cost from the caster, who had at least that much mana. Its
  effect on the target is the one asked for: damage never leaves hit points below zero, healing
  stops at the maximum, and a condition is present afterwards.
\<close>

theorem cast_outcome:
  assumes "cast L p s = Inr r" "apply_deltas L s (cr_deltas r) = Inr t"
    and "p_embodied_entity_id p = Some caster_id"
    and "model_validate L CastRequest (p_parameters p) = Inr req"
  shows "\<exists>mana ent target tent hp. vint req ''mana_cost'' \<le> mana \<and>
    dget (bucket t ''tabletop.entities'') caster_id = Some (JDict ent) \<and>
    dget ent ''mana'' = Some (JInt (mana - vint req ''mana_cost'')) \<and>
    dget (bucket s ''tabletop.entities'') (vstr req ''target_id'') = Some (JDict target) \<and>
    dget (bucket t ''tabletop.entities'') (vstr req ''target_id'') = Some (JDict tent) \<and>
    (vstr req ''effect'' = ''DAMAGE'' \<longrightarrow> get_int target ''hp'' 0 = Inr hp \<and>
       dget tent ''hp'' = Some (JInt (max 0 (hp - vint req ''power'')))) \<and>
    (vstr req ''effect'' = ''HEAL'' \<longrightarrow> get_int target ''hp'' 0 = Inr hp \<and>
       (\<exists>cap. py_int (dget_or target ''max_hp'' (dget_or target ''hp'' (JInt 0))) = Inr cap \<and>
          dget tent ''hp'' = Some (JInt (min cap (hp + vint req ''power''))))) \<and>
    (vstr req ''effect'' = ''CONDITION'' \<longrightarrow> (\<exists>c xs. vopt req ''condition'' = Some c \<and>
       dget tent ''conditions'' = Some (JList xs) \<and> JStr c \<in> set xs))"
  using assms(1)
proof (rule cast_Inr)
  fix c_id req' caster target_v mana changes
  assume c: "p_embodied_entity_id p = Some c_id" and rq: "model_validate L CastRequest (p_parameters p) = Inr req'"
    and caster: "dget (bucket s ''tabletop.entities'') c_id = Some (JDict caster)"
    and tv: "dget (bucket s ''tabletop.entities'') (vstr req' ''target_id'') = Some target_v"
    and mana: "vint req' ''mana_cost'' \<le> mana" and ch: "spell_changes req' target_v = Inr changes"
    and ds: "cr_deltas r = [mk_delta ''tabletop.entities'' MERGE c_id
          [(''mana'', JInt (mana - vint req' ''mana_cost''))],
        mk_delta ''tabletop.entities'' MERGE (vstr req' ''target_id'') changes]"
  from c rq assms(3,4) have eqs: "c_id = caster_id" "req' = req" by simp_all
  from ch obtain target where target: "target_v = JDict target"
    by (auto simp: spell_changes_def bindR_eq_Inr split: if_splits option.splits list.splits)
  let ?tid = "vstr req ''target_id''"
  let ?caster = "dset caster ''mana'' (JInt (mana - vint req ''mana_cost''))"
  from assms(2) obtain s1 where s1: "apply_deltas L s [mk_delta ''tabletop.entities'' MERGE c_id
          [(''mana'', JInt (mana - vint req ''mana_cost''))]] = Inr s1"
    and t: "apply_deltas L s1 [mk_delta ''tabletop.entities'' MERGE ?tid changes] = Inr t"
    by (auto simp: ds eqs bindR_eq_Inr)
  from applied_merge [OF s1 caster] have c1: "dget (bucket s1 ''tabletop.entities'') caster_id = Some (JDict ?caster)"
    by (simp add: eqs)
  have mana_kept: "dget changes ''mana'' = None"
    using ch by (auto simp: spell_changes_def bindR_eq_Inr split: if_splits option.splits list.splits)
  have "?tid \<noteq> caster_id \<Longrightarrow> dget (bucket s1 ''tabletop.entities'') ?tid = Some (JDict target)"
    using apply_deltas_frame(7) [OF s1, of "''tabletop.entities''" ?tid] tv target
    by (simp add: delta_key_def eqs)
  then obtain base where base: "dget (bucket s1 ''tabletop.entities'') ?tid = Some (JDict base)"
    "?tid \<noteq> caster_id \<longrightarrow> base = target" "?tid = caster_id \<longrightarrow> base = ?caster"
    using c1 by (cases "?tid = caster_id") auto
  note tent = applied_merge [OF t base(1)]
  have ent: "\<exists>ent. dget (bucket t ''tabletop.entities'') caster_id = Some (JDict ent) \<and>
      dget ent ''mana'' = Some (JInt (mana - vint req ''mana_cost''))"
  proof (cases "?tid = caster_id")
    case True
    have "''mana'' \<notin> fst ` set changes" using mana_kept by (simp add: map_of_eq_None_iff)
    with True tent base show ?thesis by (simp add: dget_dupdate_notin)
  next
    case False
    with apply_deltas_frame(7) [OF t, of "''tabletop.entities''" caster_id] c1 show ?thesis
      by (simp add: delta_key_def)
  qed
  have eff: "\<exists>hp. (vstr req ''effect'' = ''DAMAGE'' \<longrightarrow> get_int target ''hp'' 0 = Inr hp \<and>
       dget (dupdate base changes) ''hp'' = Some (JInt (max 0 (hp - vint req ''power'')))) \<and>
    (vstr req ''effect'' = ''HEAL'' \<longrightarrow> get_int target ''hp'' 0 = Inr hp \<and>
       (\<exists>cap. py_int (dget_or target ''max_hp'' (dget_or target ''hp'' (JInt 0))) = Inr cap \<and>
          dget (dupdate base changes) ''hp'' = Some (JInt (min cap (hp + vint req ''power''))))) \<and>
    (vstr req ''effect'' = ''CONDITION'' \<longrightarrow> (\<exists>c xs. vopt req ''condition'' = Some c \<and>
       dget (dupdate base changes) ''conditions'' = Some (JList xs) \<and> JStr c \<in> set xs))"
    using ch by (auto simp: eqs target spell_changes_def bindR_eq_Inr split: if_splits option.splits list.splits)
  from ent eff mana tv target tent show ?thesis unfolding eqs by blast
qed

theorem cast_outcome_witness:
  "\<exists>r t mana. cast ref_lib (fixture_proposal ''tabletop.magic.cast'' (Some ''hero'')
      [(''target_id'', JStr ''wolf''), (''spell'', JStr ''Fire Bolt''), (''mana_cost'', JInt 5),
       (''effect'', JStr ''DAMAGE''), (''power'', JInt 4)]) fixture_party = Inr r \<and>
    apply_deltas ref_lib fixture_party (cr_deltas r) = Inr t \<and> 5 \<le> mana \<and>
    (\<exists>ent. dget (bucket t ''tabletop.entities'') ''hero'' = Some (JDict ent) \<and>
       dget ent ''mana'' = Some (JInt (mana - 5)))"
proof -
  let ?ps = "[(''target_id'', JStr ''wolf''), (''spell'', JStr ''Fire Bolt''), (''mana_cost'', JInt 5),
       (''effect'', JStr ''DAMAGE''), (''power'', JInt 4)]"
  let ?p = "fixture_proposal ''tabletop.magic.cast'' (Some ''hero'') ?ps"
  have "is_ok (bindR (cast ref_lib ?p fixture_party) (\<lambda>r. apply_deltas ref_lib fixture_party (cr_deltas r)))"
    by code_simp
  then obtain r t where r: "cast ref_lib ?p fixture_party = Inr r"
    and t: "apply_deltas ref_lib fixture_party (cr_deltas r) = Inr t" by (rule runs)
  have "\<exists>q. model_validate ref_lib CastRequest ?ps = Inr q \<and> vint q ''mana_cost'' = 5"
    by (rule exI [of _ "?ps @ [(''condition'', JNull)]"]) code_simp
  then obtain q where q: "model_validate ref_lib CastRequest (p_parameters ?p) = Inr q" "vint q ''mana_cost'' = 5"
    by (auto simp: fixture_proposal_def)
  from cast_outcome [OF r t _ q(1), of "''hero''"] r t q(2) show ?thesis
    by (force simp: fixture_proposal_def)
qed

end
