(* ===== verification/RulesSociety.thy ===== *)
theory RulesSociety
  imports Fixtures
begin

text \<open>
  The rules on possessions, quests, standing and blessings: \<open>domains/tabletop/economy\<close>,
  \<open>quests\<close>, \<open>factions\<close> and \<open>divine\<close>.
\<close>

section \<open>Trade\<close>

definition TradeRequest :: schema where
  "TradeRequest =
     [(''counterparty_id'', FUuid, None), (''item'', FStr 1 (Some 120), None),
      (''quantity'', FInt (Some 1) (Some 100000), None),
      (''unit_price'', FInt (Some 0) (Some 1000000), None),
      (''direction'', FEnum [''BUY'', ''SELL''], None)]"

definition TradeResult :: schema where
  "TradeResult =
     [(''buyer_id'', FUuid, None), (''seller_id'', FUuid, None), (''item'', FStr 0 None, None),
      (''quantity'', FInt (Some 1) None, None), (''price'', FInt (Some 0) None, None)]"

definition trade :: "pylib \<Rightarrow> proposal \<Rightarrow> branch_state \<Rightarrow> command_result res" where
  "trade L p s =
     bindR (of_option (ValueError ''trade requires an embodied entity'') (p_embodied_entity_id p)) (\<lambda>actor_entity_id.
     bindR (model_validate L TradeRequest (p_parameters p)) (\<lambda>request.
     let entities = bucket s ''tabletop.entities'';
         counterparty_id = vstr request ''counterparty_id'';
         quantity = vint request ''quantity'';
         thing = vstr request ''item'' in
     bindR (of_option (ValueError ''both trade parties must exist'') (pget entities actor_entity_id)) (\<lambda>av.
     bindR (of_option (ValueError ''both trade parties must exist'') (pget entities counterparty_id)) (\<lambda>cv.
     let buys = (vstr request ''direction'' = ''BUY'');
         (buyer_id, seller_id) = (if buys then (actor_entity_id, counterparty_id)
                                  else (counterparty_id, actor_entity_id));
         price = quantity * vint request ''unit_price'' in
     bindR (as_mapping (if buys then av else cv)) (\<lambda>buyer.
     bindR (py_dict (dget_or buyer ''inventory'' (JDict []))) (\<lambda>buyer_inventory.
     bindR (as_mapping (if buys then cv else av)) (\<lambda>seller.
     bindR (py_dict (dget_or seller ''inventory'' (JDict []))) (\<lambda>seller_inventory.
     bindR (get_int buyer ''gold'' 0) (\<lambda>buyer_gold.
     bindR (ensure (price \<le> buyer_gold) (ValueError ''buyer has insufficient gold'')) (\<lambda>_.
     bindR (get_int seller_inventory thing 0) (\<lambda>held.
     bindR (ensure (quantity \<le> held) (ValueError ''seller has insufficient inventory'')) (\<lambda>_.
     bindR (get_int buyer_inventory thing 0) (\<lambda>owned.
     bindR (of_option (KeyError thing) (dget seller_inventory thing)) (\<lambda>_.
     bindR (get_int seller ''gold'' 0) (\<lambda>seller_gold.
     Inr (mk_result
       [(''buyer_id'', JStr buyer_id), (''seller_id'', JStr seller_id), (''item'', JStr thing),
        (''quantity'', JInt quantity), (''price'', JInt price)]
       [mk_delta ''tabletop.entities'' MERGE buyer_id
          [(''gold'', JInt (buyer_gold - price)),
           (''inventory'', JDict (dset buyer_inventory thing (JInt (owned + quantity))))],
        mk_delta ''tabletop.entities'' MERGE seller_id
          [(''gold'', JInt (seller_gold + price)),
           (''inventory'', JDict (dset seller_inventory thing (JInt (held - quantity))))]]
       [''tabletop'', ''economy'', ''trade'']))))))))))))))))"

definition trade_definition :: "pylib \<Rightarrow> command_definition" where
  "trade_definition L = \<lparr>cd_command_type = ''tabletop.economy.trade'',
     cd_required_capabilities = act_capabilities, cd_allowed_branch_kinds = both_branches,
     cd_handler = reads_only (trade L), cd_version = ''1.0.0'',
     cd_request_model = Some (model_validate L TradeRequest),
     cd_result_model = Some (model_accepts L TradeResult), cd_sensitive_parameters = {},
     cd_requires_controlled_entity = True, cd_emission_builder = None\<rparr>"

section \<open>Quests\<close>

definition QuestProgressRequest :: schema where
  "QuestProgressRequest =
     [(''quest_id'', FStr 1 (Some 120), None), (''objective'', FStr 1 (Some 160), None),
      (''amount'', FInt (Some 1) (Some 1000), Some (JInt 1)),
      (''target'', FInt (Some 1) (Some 1000000), Some (JInt 1))]"

definition QuestProgressResult :: schema where
  "QuestProgressResult =
     [(''quest_id'', FStr 0 None, None), (''objective'', FStr 0 None, None),
      (''progress'', FInt (Some 0) None, None), (''target'', FInt (Some 1) None, None),
      (''completed'', FBool, None)]"

definition advance :: "pylib \<Rightarrow> proposal \<Rightarrow> branch_state \<Rightarrow> command_result res" where
  "advance L p s =
     bindR (of_option (ValueError ''quest progress requires an embodied entity'') (p_embodied_entity_id p)) (\<lambda>entity_id.
     bindR (model_validate L QuestProgressRequest (p_parameters p)) (\<lambda>request.
     let quest_id = vstr request ''quest_id''; objective = vstr request ''objective'';
         target = vint request ''target'' in
     bindR (as_mapping (dget_or (bucket s ''tabletop.quests'') entity_id (JDict []))) (\<lambda>rec.
     bindR (py_dict (dget_or rec ''quests'' (JDict []))) (\<lambda>quests.
     bindR (py_dict (dget_or quests quest_id (JDict []))) (\<lambda>quest.
     bindR (py_dict (dget_or quest ''objectives'' (JDict []))) (\<lambda>objectives.
     bindR (get_int objectives objective 0) (\<lambda>progress.
     let value = min target (progress + vint request ''amount'');
         quest' = dupdate quest [(''objectives'', JDict (dset objectives objective (JInt value))),
                                 (''completed'', JBool (target \<le> value))] in
     Inr (mk_result
       [(''quest_id'', JStr quest_id), (''objective'', JStr objective), (''progress'', JInt value),
        (''target'', JInt target), (''completed'', JBool (target \<le> value))]
       [mk_delta ''tabletop.quests'' MERGE entity_id
          [(''quests'', JDict (dset quests quest_id (JDict quest')))]]
       [''tabletop'', ''quest'', quest_id]))))))))"

definition advance_definition :: "pylib \<Rightarrow> command_definition" where
  "advance_definition L = \<lparr>cd_command_type = ''tabletop.quest.advance'',
     cd_required_capabilities = act_capabilities, cd_allowed_branch_kinds = both_branches,
     cd_handler = reads_only (advance L), cd_version = ''1.0.0'',
     cd_request_model = Some (model_validate L QuestProgressRequest),
     cd_result_model = Some (model_accepts L QuestProgressResult), cd_sensitive_parameters = {},
     cd_requires_controlled_entity = True, cd_emission_builder = None\<rparr>"

section \<open>Reputation\<close>

definition ReputationRequest :: schema where
  "ReputationRequest =
     [(''faction_id'', FStr 1 (Some 120), None), (''amount'', FInt (Some (-100)) (Some 100), None),
      (''reason'', FStr 1 (Some 240), None)]"

definition ReputationResult :: schema where
  "ReputationResult =
     [(''faction_id'', FStr 0 None, None), (''before'', FInt (Some (-100)) (Some 100), None),
      (''after'', FInt (Some (-100)) (Some 100), None), (''reason'', FStr 0 None, None)]"

definition adjust_reputation :: "pylib \<Rightarrow> proposal \<Rightarrow> branch_state \<Rightarrow> command_result res" where
  "adjust_reputation L p s =
     bindR (of_option (ValueError ''reputation requires an embodied entity'') (p_embodied_entity_id p)) (\<lambda>entity_id.
     bindR (model_validate L ReputationRequest (p_parameters p)) (\<lambda>request.
     let faction_id = vstr request ''faction_id'' in
     bindR (as_mapping (dget_or (bucket s ''tabletop.reputation'') entity_id (JDict []))) (\<lambda>rec.
     bindR (py_dict (dget_or rec ''factions'' (JDict []))) (\<lambda>values.
     bindR (get_int values faction_id 0) (\<lambda>before.
     let after = max (-100) (min 100 (before + vint request ''amount'')) in
     Inr (mk_result
       [(''faction_id'', JStr faction_id), (''before'', JInt before), (''after'', JInt after),
        (''reason'', JStr (vstr request ''reason''))]
       [mk_delta ''tabletop.reputation'' MERGE entity_id
          [(''factions'', JDict (dset values faction_id (JInt after)))]]
       [''tabletop'', ''faction'', faction_id]))))))"

definition reputation_definition :: "pylib \<Rightarrow> command_definition" where
  "reputation_definition L = \<lparr>cd_command_type = ''tabletop.faction.adjust_reputation'',
     cd_required_capabilities = {''faction.manage''}, cd_allowed_branch_kinds = both_branches,
     cd_handler = reads_only (adjust_reputation L), cd_version = ''1.0.0'',
     cd_request_model = Some (model_validate L ReputationRequest),
     cd_result_model = Some (model_accepts L ReputationResult), cd_sensitive_parameters = {},
     cd_requires_controlled_entity = False, cd_emission_builder = None\<rparr>"

section \<open>Blessings\<close>

definition BlessRequest :: schema where
  "BlessRequest =
     [(''target_id'', FUuid, None), (''blessing'', FStr 1 (Some 100), None),
      (''duration_turns'', FInt (Some 1) (Some 10000), Some (JInt 1))]"

definition BlessResult :: schema where
  "BlessResult =
     [(''target_id'', FUuid, None), (''blessing'', FStr 0 None, None),
      (''duration_turns'', FInt (Some 1) None, None)]"

definition bless :: "pylib \<Rightarrow> proposal \<Rightarrow> branch_state \<Rightarrow> command_result res" where
  "bless L p s =
     bindR (model_validate L BlessRequest (p_parameters p)) (\<lambda>request.
     let target_id = vstr request ''target_id'' in
     bindR (need_mapping (bucket s ''tabletop.entities'') target_id
       (ValueError ''blessing target does not exist'')) (\<lambda>target.
     bindR (py_list (dget_or target ''blessings'' (JList []))) (\<lambda>blessings.
     Inr (mk_result
       [(''target_id'', JStr target_id), (''blessing'', JStr (vstr request ''blessing'')),
        (''duration_turns'', JInt (vint request ''duration_turns''))]
       [mk_delta ''tabletop.entities'' MERGE target_id
          [(''blessings'', JList (blessings @ [JDict
             [(''name'', JStr (vstr request ''blessing'')),
              (''remaining_turns'', JInt (vint request ''duration_turns''))]]))]]
       [''tabletop'', ''divine'', ''blessing'']))))"

definition bless_definition :: "pylib \<Rightarrow> command_definition" where
  "bless_definition L = \<lparr>cd_command_type = ''tabletop.divine.bless'',
     cd_required_capabilities = {''divine.invoke''}, cd_allowed_branch_kinds = both_branches,
     cd_handler = reads_only (bless L), cd_version = ''1.0.0'',
     cd_request_model = Some (model_validate L BlessRequest),
     cd_result_model = Some (model_accepts L BlessResult), cd_sensitive_parameters = {},
     cd_requires_controlled_entity = False, cd_emission_builder = None\<rparr>"

section \<open>Inversion\<close>

lemma trade_Inr:
  assumes "trade L p s = Inr r"
  obtains me req buyer_id seller_id buyer seller binv sinv bgold sgold held owned price where
    "p_embodied_entity_id p = Some me"
    "model_validate L TradeRequest (p_parameters p) = Inr req"
    "price = vint req ''quantity'' * vint req ''unit_price''"
    "(buyer_id, seller_id) = (if vstr req ''direction'' = ''BUY''
       then (me, vstr req ''counterparty_id'') else (vstr req ''counterparty_id'', me))"
    "dget (bucket s ''tabletop.entities'') buyer_id = Some (JDict buyer)"
    "dget (bucket s ''tabletop.entities'') seller_id = Some (JDict seller)"
    "py_dict (dget_or buyer ''inventory'' (JDict [])) = Inr binv"
    "py_dict (dget_or seller ''inventory'' (JDict [])) = Inr sinv"
    "get_int buyer ''gold'' 0 = Inr bgold" "price \<le> bgold"
    "get_int seller ''gold'' 0 = Inr sgold"
    "get_int sinv (vstr req ''item'') 0 = Inr held" "vint req ''quantity'' \<le> held"
    "get_int binv (vstr req ''item'') 0 = Inr owned"
    "cr_deltas r = [mk_delta ''tabletop.entities'' MERGE buyer_id
          [(''gold'', JInt (bgold - price)),
           (''inventory'', JDict (dset binv (vstr req ''item'') (JInt (owned + vint req ''quantity''))))],
        mk_delta ''tabletop.entities'' MERGE seller_id
          [(''gold'', JInt (sgold + price)),
           (''inventory'', JDict (dset sinv (vstr req ''item'') (JInt (held - vint req ''quantity''))))]]"
    "cr_accepted r"
proof -
  from assms obtain me req where 1: "p_embodied_entity_id p = Some me"
    "model_validate L TradeRequest (p_parameters p) = Inr req"
    by (auto simp: trade_def bindR_eq_Inr)
  show ?thesis
  proof (cases "vstr req ''direction'' = ''BUY''")
    case True
    from assms 1 True show ?thesis
      by (auto simp: trade_def bindR_eq_Inr Let_def simp del: bindR_ensure intro!: that [OF 1 refl])
  next
    case False
    from assms 1 False show ?thesis
      by (auto simp: trade_def bindR_eq_Inr Let_def simp del: bindR_ensure intro!: that [OF 1 refl])
  qed
qed

lemma advance_Inr:
  assumes "advance L p s = Inr r"
  obtains e req rec quests quest objectives n v where
    "p_embodied_entity_id p = Some e"
    "model_validate L QuestProgressRequest (p_parameters p) = Inr req"
    "dget_or (bucket s ''tabletop.quests'') e (JDict []) = JDict rec"
    "py_dict (dget_or rec ''quests'' (JDict [])) = Inr quests"
    "py_dict (dget_or quests (vstr req ''quest_id'') (JDict [])) = Inr quest"
    "py_dict (dget_or quest ''objectives'' (JDict [])) = Inr objectives"
    "get_int objectives (vstr req ''objective'') 0 = Inr n"
    "v = min (vint req ''target'') (n + vint req ''amount'')"
    "cr_deltas r = [mk_delta ''tabletop.quests'' MERGE e
       [(''quests'', JDict (dset quests (vstr req ''quest_id'') (JDict
          (dupdate quest [(''objectives'', JDict (dset objectives (vstr req ''objective'') (JInt v))),
                          (''completed'', JBool (vint req ''target'' \<le> v))]))))]]"
    "cr_accepted r"
  using assms
  by (auto simp: advance_def bindR_eq_Inr Let_def simp del: dupdate_Cons)

lemma adjust_reputation_Inr:
  assumes "adjust_reputation L p s = Inr r"
  obtains e req rec vs before where
    "p_embodied_entity_id p = Some e"
    "model_validate L ReputationRequest (p_parameters p) = Inr req"
    "dget_or (bucket s ''tabletop.reputation'') e (JDict []) = JDict rec"
    "py_dict (dget_or rec ''factions'' (JDict [])) = Inr vs"
    "get_int vs (vstr req ''faction_id'') 0 = Inr before"
    "cr_deltas r = [mk_delta ''tabletop.reputation'' MERGE e
       [(''factions'', JDict (dset vs (vstr req ''faction_id'')
          (JInt (max (-100) (min 100 (before + vint req ''amount''))))))]]"
    "cr_accepted r"
  using assms by (auto simp: adjust_reputation_def bindR_eq_Inr Let_def)

lemma bless_Inr:
  assumes "bless L p s = Inr r"
  obtains req target bs where
    "model_validate L BlessRequest (p_parameters p) = Inr req"
    "dget (bucket s ''tabletop.entities'') (vstr req ''target_id'') = Some (JDict target)"
    "py_list (dget_or target ''blessings'' (JList [])) = Inr bs"
    "cr_deltas r = [mk_delta ''tabletop.entities'' MERGE (vstr req ''target_id'')
       [(''blessings'', JList (bs @ [JDict [(''name'', JStr (vstr req ''blessing'')),
          (''remaining_turns'', JInt (vint req ''duration_turns''))]]))]]"
    "cr_accepted r"
  using assms by (auto simp: bless_def bindR_eq_Inr Let_def)

lemma TradeRequest_bounds:
  assumes "model_validate L TradeRequest d = Inr r"
  shows "1 \<le> vint r ''quantity'' \<and> vint r ''quantity'' \<le> 100000"
    "0 \<le> vint r ''unit_price'' \<and> vint r ''unit_price'' \<le> 1000000"
  using validated_int [OF assms, of "''quantity''" "Some 1" "Some 100000" None]
    validated_int [OF assms, of "''unit_price''" "Some 0" "Some 1000000" None]
  by (simp_all add: TradeRequest_def in_bounds_def)

lemma QuestProgressRequest_bounds:
  assumes "model_validate L QuestProgressRequest d = Inr r"
  shows "1 \<le> vint r ''amount'' \<and> vint r ''amount'' \<le> 1000"
    "1 \<le> vint r ''target'' \<and> vint r ''target'' \<le> 1000000"
  using validated_int [OF assms, of "''amount''" "Some 1" "Some 1000" "Some (JInt 1)"]
    validated_int [OF assms, of "''target''" "Some 1" "Some 1000000" "Some (JInt 1)"]
  by (simp_all add: QuestProgressRequest_def in_bounds_def)

section \<open>Footprints\<close>

interpretation economy: rule_handler "trade L" "{''tabletop.entities''}"
  "\<lambda>p. embodied p \<union> named L TradeRequest ''counterparty_id'' p" for L
proof
  fix p s r
  assume r: "trade L p s = Inr r"
  show "cr_accepted r" using r by (rule trade_Inr)
  show "delta_within {''tabletop.entities''} (embodied p \<union> named L TradeRequest ''counterparty_id'' p) d"
    if "d \<in> set (cr_deltas r)" for d
    using r by (rule trade_Inr) (use that in \<open>auto split: if_splits\<close>)
qed

interpretation quests: rule_handler "advance L" "{''tabletop.quests''}" embodied for L
proof
  fix p s r
  assume r: "advance L p s = Inr r"
  show "cr_accepted r" using r by (rule advance_Inr)
  show "delta_within {''tabletop.quests''} (embodied p) d" if "d \<in> set (cr_deltas r)" for d
    using r by (rule advance_Inr) (use that in auto)
qed

interpretation factions: rule_handler "adjust_reputation L" "{''tabletop.reputation''}" embodied for L
proof
  fix p s r
  assume r: "adjust_reputation L p s = Inr r"
  show "cr_accepted r" using r by (rule adjust_reputation_Inr)
  show "delta_within {''tabletop.reputation''} (embodied p) d" if "d \<in> set (cr_deltas r)" for d
    using r by (rule adjust_reputation_Inr) (use that in auto)
qed

interpretation divine: rule_handler "bless L" "{''tabletop.entities''}"
  "named L BlessRequest ''target_id''" for L
proof
  fix p s r
  assume r: "bless L p s = Inr r"
  show "cr_accepted r" using r by (rule bless_Inr)
  show "delta_within {''tabletop.entities''} (named L BlessRequest ''target_id'' p) d"
    if "d \<in> set (cr_deltas r)" for d
    using r by (rule bless_Inr) (use that in auto)
qed

section \<open>Properties\<close>

definition gold_of :: "jdict \<Rightarrow> int res" where
  "gold_of d = get_int d ''gold'' 0"

definition held_of :: "jdict \<Rightarrow> string \<Rightarrow> int res" where
  "held_of d thing = bindR (py_dict (dget_or d ''inventory'' (JDict []))) (\<lambda>inv. get_int inv thing 0)"

lemma two_merges:
  assumes "apply_deltas L s [mk_delta proj MERGE e vs, mk_delta proj MERGE f ws] = Inr t"
    and "dget (bucket s proj) e = Some (JDict d)" "dget (bucket s proj) f = Some (JDict c)"
  shows "e \<noteq> f \<Longrightarrow> dget (bucket t proj) e = Some (JDict (dupdate d vs)) \<and>
      dget (bucket t proj) f = Some (JDict (dupdate c ws))"
    "e = f \<Longrightarrow> dget (bucket t proj) e = Some (JDict (dupdate (dupdate d vs) ws))"
  using assms by (auto simp: apply_delta_def Let_def delta_key_def bindR_eq_Inr dget_or_def)

text \<open>
  C10. A trade between two different entities conserves the gold and the traded item: the buyer
  pays the price and receives the quantity, the seller the reverse, the sums stay, and neither
  the buyer's gold nor the seller's stock becomes negative.
\<close>

theorem trade_conserves:
  assumes "trade L p s = Inr r" "apply_deltas L s (cr_deltas r) = Inr t"
    and "p_embodied_entity_id p = Some me" "model_validate L TradeRequest (p_parameters p) = Inr req"
    and "vstr req ''counterparty_id'' \<noteq> me"
  shows "\<exists>buyer_id seller_id buyer seller buyer' seller' bg sg bh sh.
    {buyer_id, seller_id} = {me, vstr req ''counterparty_id''} \<and>
    (vstr req ''direction'' = ''BUY'' \<longleftrightarrow> buyer_id = me) \<and>
    dget (bucket s ''tabletop.entities'') buyer_id = Some (JDict buyer) \<and>
    dget (bucket s ''tabletop.entities'') seller_id = Some (JDict seller) \<and>
    dget (bucket t ''tabletop.entities'') buyer_id = Some (JDict buyer') \<and>
    dget (bucket t ''tabletop.entities'') seller_id = Some (JDict seller') \<and>
    gold_of buyer = Inr bg \<and> gold_of seller = Inr sg \<and>
    held_of buyer (vstr req ''item'') = Inr bh \<and> held_of seller (vstr req ''item'') = Inr sh \<and>
    gold_of buyer' = Inr (bg - vint req ''quantity'' * vint req ''unit_price'') \<and>
    gold_of seller' = Inr (sg + vint req ''quantity'' * vint req ''unit_price'') \<and>
    held_of buyer' (vstr req ''item'') = Inr (bh + vint req ''quantity'') \<and>
    held_of seller' (vstr req ''item'') = Inr (sh - vint req ''quantity'') \<and>
    0 \<le> bg - vint req ''quantity'' * vint req ''unit_price'' \<and> 0 \<le> sh - vint req ''quantity''"
  using assms(1)
proof (rule trade_Inr)
  fix me' req' buyer_id seller_id buyer seller binv sinv bgold sgold held owned price
  assume "p_embodied_entity_id p = Some me'" "model_validate L TradeRequest (p_parameters p) = Inr req'"
    and price: "price = vint req' ''quantity'' * vint req' ''unit_price''"
    and parties: "(buyer_id, seller_id) = (if vstr req' ''direction'' = ''BUY''
       then (me', vstr req' ''counterparty_id'') else (vstr req' ''counterparty_id'', me'))"
    and ents: "dget (bucket s ''tabletop.entities'') buyer_id = Some (JDict buyer)"
    "dget (bucket s ''tabletop.entities'') seller_id = Some (JDict seller)"
    and inv: "py_dict (dget_or buyer ''inventory'' (JDict [])) = Inr binv"
    "py_dict (dget_or seller ''inventory'' (JDict [])) = Inr sinv"
    and gold: "get_int buyer ''gold'' 0 = Inr bgold" "price \<le> bgold" "get_int seller ''gold'' 0 = Inr sgold"
    and stock: "get_int sinv (vstr req' ''item'') 0 = Inr held" "vint req' ''quantity'' \<le> held"
    "get_int binv (vstr req' ''item'') 0 = Inr owned"
    and ds: "cr_deltas r = [mk_delta ''tabletop.entities'' MERGE buyer_id
          [(''gold'', JInt (bgold - price)),
           (''inventory'', JDict (dset binv (vstr req' ''item'') (JInt (owned + vint req' ''quantity''))))],
        mk_delta ''tabletop.entities'' MERGE seller_id
          [(''gold'', JInt (sgold + price)),
           (''inventory'', JDict (dset sinv (vstr req' ''item'') (JInt (held - vint req' ''quantity''))))]]"
  then have eqs: "me' = me" "req' = req" using assms(3,4) by simp_all
  with parties assms(5) have ne: "buyer_id \<noteq> seller_id" and
    roles: "{buyer_id, seller_id} = {me, vstr req ''counterparty_id''}"
    "vstr req ''direction'' = ''BUY'' \<longleftrightarrow> buyer_id = me" by (auto split: if_splits)
  let ?b = "dupdate buyer [(''gold'', JInt (bgold - price)),
           (''inventory'', JDict (dset binv (vstr req ''item'') (JInt (owned + vint req ''quantity''))))]"
  let ?s = "dupdate seller [(''gold'', JInt (sgold + price)),
           (''inventory'', JDict (dset sinv (vstr req ''item'') (JInt (held - vint req ''quantity''))))]"
  note after = two_merges(1) [OF assms(2) [unfolded ds eqs] ents ne]
  have "gold_of buyer = Inr bgold" "gold_of seller = Inr sgold"
    "held_of buyer (vstr req ''item'') = Inr owned" "held_of seller (vstr req ''item'') = Inr held"
    using gold inv stock by (simp_all add: gold_of_def held_of_def eqs)
  moreover have "gold_of ?b = Inr (bgold - price)" "gold_of ?s = Inr (sgold + price)"
    "held_of ?b (vstr req ''item'') = Inr (owned + vint req ''quantity'')"
    "held_of ?s (vstr req ''item'') = Inr (held - vint req ''quantity'')"
    by (simp_all add: gold_of_def held_of_def get_int_def dget_or_def)
  ultimately show ?thesis
    using roles ents after gold(2) stock(2) price unfolding eqs
    by (rule_tac x = buyer_id in exI, rule_tac x = seller_id in exI, rule_tac x = buyer in exI,
        rule_tac x = seller in exI, rule_tac x = ?b in exI, rule_tac x = ?s in exI,
        rule_tac x = bgold in exI, rule_tac x = sgold in exI, rule_tac x = owned in exI,
        rule_tac x = held in exI) (simp del: dupdate_Cons)
qed

theorem trade_conserves_witness:
  "\<exists>r t buyer' bg. trade ref_lib (fixture_proposal ''tabletop.economy.trade'' (Some ''hero'')
      [(''counterparty_id'', JStr ''wolf''), (''item'', JStr ''herb''), (''quantity'', JInt 1),
       (''unit_price'', JInt 3), (''direction'', JStr ''SELL'')]) fixture_party = Inr r \<and>
    apply_deltas ref_lib fixture_party (cr_deltas r) = Inr t \<and>
    (\<exists>buyer_id. dget (bucket t ''tabletop.entities'') buyer_id = Some (JDict buyer') \<and>
       gold_of buyer' = Inr (bg - 1 * 3)) \<and> 0 \<le> bg - 1 * 3"
proof -
  let ?ps = "[(''counterparty_id'', JStr ''wolf''), (''item'', JStr ''herb''), (''quantity'', JInt 1),
       (''unit_price'', JInt 3), (''direction'', JStr ''SELL'')]"
  let ?p = "fixture_proposal ''tabletop.economy.trade'' (Some ''hero'') ?ps"
  have "is_ok (bindR (trade ref_lib ?p fixture_party) (\<lambda>r. apply_deltas ref_lib fixture_party (cr_deltas r)))"
    by code_simp
  then obtain r t where rt: "trade ref_lib ?p fixture_party = Inr r"
    "apply_deltas ref_lib fixture_party (cr_deltas r) = Inr t" by (rule runs)
  have "model_validate ref_lib TradeRequest ?ps = Inr ?ps" by code_simp
  then have q: "model_validate ref_lib TradeRequest (p_parameters ?p) = Inr ?ps"
    by (simp add: fixture_proposal_def)
  have e: "p_embodied_entity_id ?p = Some ''hero''" by (simp add: fixture_proposal_def)
  have ne: "vstr ?ps ''counterparty_id'' \<noteq> ''hero''" by (simp add: vstr_def)
  have n: "vint ?ps ''quantity'' = 1" "vint ?ps ''unit_price'' = 3" by (simp_all add: vint_def)
  from trade_conserves [OF rt e q ne, unfolded n] rt show ?thesis
    by (elim exE conjE) (intro exI conjI; assumption)
qed

text \<open>
  When the counterparty of a trade is the embodied entity itself, the second change
  overwrites the first one: the entity ends with more gold than it had, by the price, and with
  less of the item, by the quantity. The rule does not refuse such a trade.
\<close>

theorem trade_with_self:
  assumes "trade L p s = Inr r" "apply_deltas L s (cr_deltas r) = Inr t"
    and "p_embodied_entity_id p = Some me" "model_validate L TradeRequest (p_parameters p) = Inr req"
    and "vstr req ''counterparty_id'' = me"
  shows "\<exists>before after g h.
    dget (bucket s ''tabletop.entities'') me = Some (JDict before) \<and>
    dget (bucket t ''tabletop.entities'') me = Some (JDict after) \<and>
    gold_of before = Inr g \<and> gold_of after = Inr (g + vint req ''quantity'' * vint req ''unit_price'') \<and>
    held_of before (vstr req ''item'') = Inr h \<and>
    held_of after (vstr req ''item'') = Inr (h - vint req ''quantity'')"
  using assms(1)
proof (rule trade_Inr)
  fix me' req' buyer_id seller_id buyer seller binv sinv bgold sgold held owned price
  assume "p_embodied_entity_id p = Some me'" "model_validate L TradeRequest (p_parameters p) = Inr req'"
    and price: "price = vint req' ''quantity'' * vint req' ''unit_price''"
    and parties: "(buyer_id, seller_id) = (if vstr req' ''direction'' = ''BUY''
       then (me', vstr req' ''counterparty_id'') else (vstr req' ''counterparty_id'', me'))"
    and ents: "dget (bucket s ''tabletop.entities'') buyer_id = Some (JDict buyer)"
    "dget (bucket s ''tabletop.entities'') seller_id = Some (JDict seller)"
    and inv: "py_dict (dget_or seller ''inventory'' (JDict [])) = Inr sinv"
    and gold: "get_int seller ''gold'' 0 = Inr sgold"
    and stock: "get_int sinv (vstr req' ''item'') 0 = Inr held"
    and ds: "cr_deltas r = [mk_delta ''tabletop.entities'' MERGE buyer_id
          [(''gold'', JInt (bgold - price)),
           (''inventory'', JDict (dset binv (vstr req' ''item'') (JInt (owned + vint req' ''quantity''))))],
        mk_delta ''tabletop.entities'' MERGE seller_id
          [(''gold'', JInt (sgold + price)),
           (''inventory'', JDict (dset sinv (vstr req' ''item'') (JInt (held - vint req' ''quantity''))))]]"
  then have eqs: "me' = me" "req' = req" using assms(3,4) by simp_all
  with parties assms(5) have ids: "buyer_id = me" "seller_id = me" by (auto split: if_splits)
  let ?after = "dupdate (dupdate buyer [(''gold'', JInt (bgold - price)),
           (''inventory'', JDict (dset binv (vstr req ''item'') (JInt (owned + vint req ''quantity''))))])
         [(''gold'', JInt (sgold + price)),
           (''inventory'', JDict (dset sinv (vstr req ''item'') (JInt (held - vint req ''quantity''))))]"
  have "dget (bucket t ''tabletop.entities'') me = Some (JDict ?after)"
    using two_merges(2) [OF assms(2) [unfolded ds eqs ids] ents [unfolded ids] refl] .
  moreover have "gold_of seller = Inr sgold" "held_of seller (vstr req ''item'') = Inr held"
    using gold inv stock by (simp_all add: gold_of_def held_of_def eqs)
  moreover have "gold_of ?after = Inr (sgold + price)"
    "held_of ?after (vstr req ''item'') = Inr (held - vint req ''quantity'')"
    by (simp_all add: gold_of_def held_of_def get_int_def dget_or_def)
  moreover have "dget (bucket s ''tabletop.entities'') me = Some (JDict seller)" using ents by (simp add: ids)
  ultimately show ?thesis unfolding price eqs by blast
qed

theorem trade_with_self_witness:
  "\<exists>r t before after g. trade ref_lib (fixture_proposal ''tabletop.economy.trade'' (Some ''hero'')
      [(''counterparty_id'', JStr ''hero''), (''item'', JStr ''herb''), (''quantity'', JInt 2),
       (''unit_price'', JInt 3), (''direction'', JStr ''SELL'')]) fixture_party = Inr r \<and>
    apply_deltas ref_lib fixture_party (cr_deltas r) = Inr t \<and>
    dget (bucket fixture_party ''tabletop.entities'') ''hero'' = Some (JDict before) \<and>
    dget (bucket t ''tabletop.entities'') ''hero'' = Some (JDict after) \<and>
    gold_of before = Inr g \<and> gold_of after = Inr (g + 2 * 3)"
proof -
  let ?ps = "[(''counterparty_id'', JStr ''hero''), (''item'', JStr ''herb''), (''quantity'', JInt 2),
       (''unit_price'', JInt 3), (''direction'', JStr ''SELL'')]"
  let ?p = "fixture_proposal ''tabletop.economy.trade'' (Some ''hero'') ?ps"
  have "is_ok (bindR (trade ref_lib ?p fixture_party) (\<lambda>r. apply_deltas ref_lib fixture_party (cr_deltas r)))"
    by code_simp
  then obtain r t where rt: "trade ref_lib ?p fixture_party = Inr r"
    "apply_deltas ref_lib fixture_party (cr_deltas r) = Inr t" by (rule runs)
  have "model_validate ref_lib TradeRequest ?ps = Inr ?ps" by code_simp
  then have q: "model_validate ref_lib TradeRequest (p_parameters ?p) = Inr ?ps"
    by (simp add: fixture_proposal_def)
  have e: "p_embodied_entity_id ?p = Some ''hero''" by (simp add: fixture_proposal_def)
  have eq: "vstr ?ps ''counterparty_id'' = ''hero''" by (simp add: vstr_def)
  have n: "vint ?ps ''quantity'' = 2" "vint ?ps ''unit_price'' = 3" by (simp_all add: vint_def)
  from trade_with_self [OF rt e q eq, unfolded n] rt show ?thesis
    by (elim exE conjE) (intro exI conjI; assumption)
qed

text \<open>
  Quest progress only counts up to the target: after a successful advance the objective of
  the quest stands at the old value plus the amount, cut at the target, the quest is marked
  complete exactly when the target is reached, and every other quest is as before.
\<close>

theorem advance_outcome:
  assumes "advance L p s = Inr r" "apply_deltas L s (cr_deltas r) = Inr t"
    and "p_embodied_entity_id p = Some e" "model_validate L QuestProgressRequest (p_parameters p) = Inr req"
  shows "\<exists>rec quests rec' quests' quest objectives n v.
    dget_or (bucket s ''tabletop.quests'') e (JDict []) = JDict rec \<and>
    py_dict (dget_or rec ''quests'' (JDict [])) = Inr quests \<and>
    dget (bucket t ''tabletop.quests'') e = Some (JDict rec') \<and>
    dget rec' ''quests'' = Some (JDict quests') \<and>
    dget quests' (vstr req ''quest_id'') = Some (JDict quest) \<and>
    dget quest ''objectives'' = Some (JDict objectives) \<and>
    dget objectives (vstr req ''objective'') = Some (JInt v) \<and>
    v = min (vint req ''target'') (n + vint req ''amount'') \<and> v \<le> vint req ''target'' \<and>
    dget quest ''completed'' = Some (JBool (v = vint req ''target'')) \<and>
    (\<forall>k. k \<noteq> vstr req ''quest_id'' \<longrightarrow> dget quests' k = dget quests k)"
  using assms(1)
proof (rule advance_Inr)
  fix e' req' rec quests quest objectives n v
  assume "p_embodied_entity_id p = Some e'" "model_validate L QuestProgressRequest (p_parameters p) = Inr req'"
    and rec: "dget_or (bucket s ''tabletop.quests'') e' (JDict []) = JDict rec"
    and quests: "py_dict (dget_or rec ''quests'' (JDict [])) = Inr quests"
    and v: "v = min (vint req' ''target'') (n + vint req' ''amount'')"
    and ds: "cr_deltas r = [mk_delta ''tabletop.quests'' MERGE e'
       [(''quests'', JDict (dset quests (vstr req' ''quest_id'') (JDict
          (dupdate quest [(''objectives'', JDict (dset objectives (vstr req' ''objective'') (JInt v))),
                          (''completed'', JBool (vint req' ''target'' \<le> v))]))))]]"
  then have eqs: "e' = e" "req' = req" using assms(3,4) by simp_all
  let ?quest = "dupdate quest [(''objectives'', JDict (dset objectives (vstr req ''objective'') (JInt v))),
                          (''completed'', JBool (vint req ''target'' \<le> v))]"
  have "dget (bucket t ''tabletop.quests'') e =
      Some (JDict (dset rec ''quests'' (JDict (dset quests (vstr req ''quest_id'') (JDict ?quest)))))"
    using assms(2) rec
    by (auto simp: ds eqs apply_delta_def Let_def delta_key_def bindR_eq_Inr)
  moreover have "dget ?quest ''completed'' = Some (JBool (v = vint req ''target''))"
    using v by (auto simp: eqs)
  moreover have "v \<le> vint req ''target''" using v by (simp add: eqs)
  moreover have "dget (dset rec ''quests'' (JDict (dset quests (vstr req ''quest_id'') (JDict ?quest)))) ''quests'' =
      Some (JDict (dset quests (vstr req ''quest_id'') (JDict ?quest)))"
    "dget (dset quests (vstr req ''quest_id'') (JDict ?quest)) (vstr req ''quest_id'') = Some (JDict ?quest)"
    "dget ?quest ''objectives'' = Some (JDict (dset objectives (vstr req ''objective'') (JInt v)))"
    "dget (dset objectives (vstr req ''objective'') (JInt v)) (vstr req ''objective'') = Some (JInt v)"
    "\<forall>k. k \<noteq> vstr req ''quest_id'' \<longrightarrow>
       dget (dset quests (vstr req ''quest_id'') (JDict ?quest)) k = dget quests k" by simp_all
  ultimately show ?thesis using rec quests v unfolding eqs by blast
qed

theorem advance_outcome_witness:
  "\<exists>r t v. advance ref_lib (fixture_proposal ''tabletop.quest.advance'' (Some ''hero'')
      [(''quest_id'', JStr ''q''), (''objective'', JStr ''o''), (''amount'', JInt 5), (''target'', JInt 3)])
      fixture_party = Inr r \<and>
    apply_deltas ref_lib fixture_party (cr_deltas r) = Inr t \<and> v \<le> (3 :: int) \<and>
    (\<exists>rec'. dget (bucket t ''tabletop.quests'') ''hero'' = Some (JDict rec'))"
proof -
  let ?ps = "[(''quest_id'', JStr ''q''), (''objective'', JStr ''o''), (''amount'', JInt 5), (''target'', JInt 3)]"
  let ?p = "fixture_proposal ''tabletop.quest.advance'' (Some ''hero'') ?ps"
  have "is_ok (bindR (advance ref_lib ?p fixture_party) (\<lambda>r. apply_deltas ref_lib fixture_party (cr_deltas r)))"
    by code_simp
  then obtain r t where rt: "advance ref_lib ?p fixture_party = Inr r"
    "apply_deltas ref_lib fixture_party (cr_deltas r) = Inr t" by (rule runs)
  have "model_validate ref_lib QuestProgressRequest ?ps = Inr ?ps" by code_simp
  then have q: "model_validate ref_lib QuestProgressRequest (p_parameters ?p) = Inr ?ps"
    by (simp add: fixture_proposal_def)
  have e: "p_embodied_entity_id ?p = Some ''hero''" by (simp add: fixture_proposal_def)
  have n: "vint ?ps ''target'' = 3" by (simp add: vint_def)
  from advance_outcome [OF rt e q, unfolded n] rt show ?thesis
    by (elim exE conjE) (intro exI conjI; assumption)
qed

text \<open>
  The standing of an entity with a faction stays between -100 and 100 after every change,
  whatever was stored before, and within the range it moves by exactly the amount.
\<close>

theorem reputation_clamped:
  assumes "adjust_reputation L p s = Inr r" "apply_deltas L s (cr_deltas r) = Inr t"
    and "p_embodied_entity_id p = Some e" "model_validate L ReputationRequest (p_parameters p) = Inr req"
  shows "\<exists>rec vs before rec' vs' after.
    dget_or (bucket s ''tabletop.reputation'') e (JDict []) = JDict rec \<and>
    py_dict (dget_or rec ''factions'' (JDict [])) = Inr vs \<and>
    get_int vs (vstr req ''faction_id'') 0 = Inr before \<and>
    dget (bucket t ''tabletop.reputation'') e = Some (JDict rec') \<and>
    dget rec' ''factions'' = Some (JDict vs') \<and>
    dget vs' (vstr req ''faction_id'') = Some (JInt after) \<and> -100 \<le> after \<and> after \<le> 100 \<and>
    (-100 \<le> before + vint req ''amount'' \<and> before + vint req ''amount'' \<le> 100 \<longrightarrow>
       after = before + vint req ''amount'') \<and>
    (\<forall>k. k \<noteq> vstr req ''faction_id'' \<longrightarrow> dget vs' k = dget vs k)"
  using assms(1)
proof (rule adjust_reputation_Inr)
  fix e' req' rec vs before
  assume "p_embodied_entity_id p = Some e'" "model_validate L ReputationRequest (p_parameters p) = Inr req'"
    and rec: "dget_or (bucket s ''tabletop.reputation'') e' (JDict []) = JDict rec"
    "py_dict (dget_or rec ''factions'' (JDict [])) = Inr vs"
    "get_int vs (vstr req' ''faction_id'') 0 = Inr before"
    and ds: "cr_deltas r = [mk_delta ''tabletop.reputation'' MERGE e'
       [(''factions'', JDict (dset vs (vstr req' ''faction_id'')
          (JInt (max (-100) (min 100 (before + vint req' ''amount''))))))]]"
  then have eqs: "e' = e" "req' = req" using assms(3,4) by simp_all
  let ?after = "max (-100) (min 100 (before + vint req ''amount''))"
  let ?vs = "dset vs (vstr req ''faction_id'') (JInt ?after)"
  have "dget (bucket t ''tabletop.reputation'') e = Some (JDict (dset rec ''factions'' (JDict ?vs)))"
    using assms(2) rec(1)
    by (auto simp: ds eqs apply_delta_def Let_def delta_key_def bindR_eq_Inr)
  moreover have "-100 \<le> ?after" "?after \<le> 100"
    "-100 \<le> before + vint req ''amount'' \<and> before + vint req ''amount'' \<le> 100 \<longrightarrow>
       ?after = before + vint req ''amount''" by simp_all
  moreover have "dget (dset rec ''factions'' (JDict ?vs)) ''factions'' = Some (JDict ?vs)"
    "dget ?vs (vstr req ''faction_id'') = Some (JInt ?after)"
    "\<forall>k. k \<noteq> vstr req ''faction_id'' \<longrightarrow> dget ?vs k = dget vs k" by simp_all
  ultimately show ?thesis using rec unfolding eqs by blast
qed

theorem reputation_clamped_witness:
  "\<exists>r t after. adjust_reputation ref_lib (fixture_proposal ''tabletop.faction.adjust_reputation'' (Some ''hero'')
      [(''faction_id'', JStr ''f''), (''amount'', JInt 70), (''reason'', JStr ''r'')]) fixture_party = Inr r \<and>
    apply_deltas ref_lib fixture_party (cr_deltas r) = Inr t \<and> after \<le> (100 :: int) \<and>
    (\<exists>rec'. dget (bucket t ''tabletop.reputation'') ''hero'' = Some (JDict rec'))"
proof -
  let ?ps = "[(''faction_id'', JStr ''f''), (''amount'', JInt 70), (''reason'', JStr ''r'')]"
  let ?p = "fixture_proposal ''tabletop.faction.adjust_reputation'' (Some ''hero'') ?ps"
  have "is_ok (bindR (adjust_reputation ref_lib ?p fixture_party) (\<lambda>r. apply_deltas ref_lib fixture_party (cr_deltas r)))"
    by code_simp
  then obtain r t where rt: "adjust_reputation ref_lib ?p fixture_party = Inr r"
    "apply_deltas ref_lib fixture_party (cr_deltas r) = Inr t" by (rule runs)
  have "model_validate ref_lib ReputationRequest ?ps = Inr ?ps" by code_simp
  then have q: "model_validate ref_lib ReputationRequest (p_parameters ?p) = Inr ?ps"
    by (simp add: fixture_proposal_def)
  have e: "p_embodied_entity_id ?p = Some ''hero''" by (simp add: fixture_proposal_def)
  from reputation_clamped [OF rt e q] rt show ?thesis
    by (elim exE conjE) (intro exI conjI; assumption)
qed

end
