(* ===== verification/RulesMovement.thy ===== *)
theory RulesMovement
  imports Fixtures
begin

text \<open>
  \<open>domains/tabletop/spatial\<close>: the position, zone, portal and occluder models, the movement
  rule with its obstacle check, and the sight emission of a movement.
\<close>

section \<open>Models\<close>

definition SpatialPosition :: schema where
  "SpatialPosition =
     [(''zone_id'', FStr 0 None, Some (JStr ''world'')),
      (''x'', FInt None None, None),
      (''y'', FInt None None, None),
      (''z'', FInt None None, Some (JInt 0)),
      (''facing'', FOption (FStr 0 None), Some JNull)]"

definition MoveRequest :: schema where
  "MoveRequest = [(''dx'', FInt (Some (-1)) (Some 1), None), (''dy'', FInt (Some (-1)) (Some 1), None)]"

definition Coordinate :: schema where
  "Coordinate = [(''x'', FInt None None, None), (''y'', FInt None None, None)]"

definition MoveResult :: schema where
  "MoveResult =
     [(''entity_id'', FUuid, None), (''origin'', FModel Coordinate, None),
      (''destination'', FModel Coordinate, None), (''zone_id'', FStr 0 None, None)]"

section \<open>The rule\<close>

definition item_int :: "jval \<Rightarrow> string \<Rightarrow> int res" where
  "item_int v k = bindR (item v k) py_int"

definition obstacle_cell :: "string \<times> jval \<Rightarrow> (int \<times> int) res" where
  "obstacle_cell kv = bindR (item_int (snd kv) ''x'') (\<lambda>x. bindR (item_int (snd kv) ''y'') (\<lambda>y. Inr (x, y)))"

text \<open>\<open>explicit_positions.get(id, entities.get(id))\<close>: the dictionary the record is read from.\<close>

definition position_source :: "branch_state \<Rightarrow> string \<Rightarrow> (string \<times> jval) list" where
  "position_source s e = (let explicit = bucket s ''tabletop.spatial.positions'' in
     if dhas explicit e then explicit else bucket s ''tabletop.entities'')"

definition move :: "pylib \<Rightarrow> proposal \<Rightarrow> branch_state \<Rightarrow> command_result res" where
  "move L p s =
     bindR (of_option (ValueError ''movement requires an embodied entity'') (p_embodied_entity_id p)) (\<lambda>entity_id.
     bindR (model_validate L MoveRequest (p_parameters p)) (\<lambda>request.
     bindR (ensure (\<not> (vint request ''dx'' = 0 \<and> vint request ''dy'' = 0))
       (ValueError ''movement must change at least one coordinate'')) (\<lambda>_.
     bindR (need_mapping (position_source s entity_id) entity_id
       (ValueError ''embodied entity does not exist'')) (\<lambda>current.
     bindR (get_int current ''x'' 0) (\<lambda>x.
     bindR (get_int current ''y'' 0) (\<lambda>y.
     let destination = (x + vint request ''dx'', y + vint request ''dy'') in
     bindR (mapR obstacle_cell (bucket s ''tabletop.obstacles'')) (\<lambda>blocked.
     bindR (ensure (destination \<notin> set blocked) (ValueError ''destination is blocked'')) (\<lambda>_.
     bindR (get_int current ''z'' 0) (\<lambda>z.
     bindR (model_validate L SpatialPosition
        [(''zone_id'', dget_or current ''zone_id'' (JStr ''world'')),
         (''x'', JInt (fst destination)), (''y'', JInt (snd destination)), (''z'', JInt z),
         (''facing'', dget_or current ''facing'' JNull)]) (\<lambda>position.
     Inr (mk_result
       [(''entity_id'', JStr entity_id),
        (''origin'', JDict [(''x'', JInt x), (''y'', JInt y)]),
        (''destination'', JDict [(''x'', JInt (fst destination)), (''y'', JInt (snd destination))]),
        (''zone_id'', dget_or current ''zone_id'' (JStr ''world''))]
       [mk_delta ''tabletop.spatial.positions'' SET entity_id position,
        mk_delta ''tabletop.entities'' MERGE entity_id
          [(''x'', JInt (fst destination)), (''y'', JInt (snd destination))]]
       [''tabletop'', ''spatial'', ''movement''])))))))))))"

definition movement_emission :: emission_builder where
  "movement_emission p result before after = (case p_embodied_entity_id p of
      None \<Rightarrow> Inl (ValueError ''movement emission requires an embodied entity'')
    | Some e \<Rightarrow> Inr (Some \<lparr>em_anchor = entity_anchor e BEFORE, em_modalities = [SIGHT],
        em_intensity = 1, em_max_range = 12,
        em_allowed_payload_fields = Some [''entity_id'', ''origin'', ''destination'', ''zone_id''],
        em_hidden_payload_fields = {}, em_payload_overrides = [],
        em_reason_codes = [''movement.visible_transition'']\<rparr>))"

definition move_definition :: "pylib \<Rightarrow> command_definition" where
  "move_definition L = \<lparr>cd_command_type = ''tabletop.spatial.move'',
     cd_required_capabilities = act_capabilities, cd_allowed_branch_kinds = both_branches,
     cd_handler = reads_only (move L), cd_version = ''1.0.0'',
     cd_request_model = Some (model_validate L MoveRequest),
     cd_result_model = Some (model_accepts L MoveResult), cd_sensitive_parameters = {},
     cd_requires_controlled_entity = True, cd_emission_builder = Some movement_emission\<rparr>"

section \<open>Lemmas\<close>

text \<open>Inversion of a successful move.\<close>

lemma move_Inr:
  assumes "move L p s = Inr r"
  obtains e req cur x y z pos where "p_embodied_entity_id p = Some e"
    "model_validate L MoveRequest (p_parameters p) = Inr req"
    "vint req ''dx'' \<noteq> 0 \<or> vint req ''dy'' \<noteq> 0"
    "dget (position_source s e) e = Some (JDict cur)"
    "get_int cur ''x'' 0 = Inr x" "get_int cur ''y'' 0 = Inr y" "get_int cur ''z'' 0 = Inr z"
    "\<And>b v. (b, v) \<in> set (bucket s ''tabletop.obstacles'') \<Longrightarrow>
       \<exists>c. obstacle_cell (b, v) = Inr c \<and> c \<noteq> (x + vint req ''dx'', y + vint req ''dy'')"
    "model_validate L SpatialPosition
        [(''zone_id'', dget_or cur ''zone_id'' (JStr ''world'')),
         (''x'', JInt (x + vint req ''dx'')), (''y'', JInt (y + vint req ''dy'')), (''z'', JInt z),
         (''facing'', dget_or cur ''facing'' JNull)] = Inr pos"
    "cr_deltas r = [mk_delta ''tabletop.spatial.positions'' SET e pos,
        mk_delta ''tabletop.entities'' MERGE e
          [(''x'', JInt (x + vint req ''dx'')), (''y'', JInt (y + vint req ''dy''))]]"
    "cr_accepted r"
proof -
  have mapR_all: "\<exists>c. f kv = Inr c \<and> c \<in> set ys" if "mapR f xs = Inr ys" "kv \<in> set xs"
    for f :: "string \<times> jval \<Rightarrow> (int \<times> int) res" and xs ys kv
    using that by (induction xs arbitrary: ys) (auto simp: bindR_eq_Inr)
  from assms obtain e req cur x y z pos blocked where
    "p_embodied_entity_id p = Some e"
    "model_validate L MoveRequest (p_parameters p) = Inr req"
    "vint req ''dx'' \<noteq> 0 \<or> vint req ''dy'' \<noteq> 0"
    "dget (position_source s e) e = Some (JDict cur)"
    "get_int cur ''x'' 0 = Inr x" "get_int cur ''y'' 0 = Inr y" "get_int cur ''z'' 0 = Inr z"
    "mapR obstacle_cell (bucket s ''tabletop.obstacles'') = Inr blocked"
    "(x + vint req ''dx'', y + vint req ''dy'') \<notin> set blocked"
    "model_validate L SpatialPosition
        [(''zone_id'', dget_or cur ''zone_id'' (JStr ''world'')),
         (''x'', JInt (x + vint req ''dx'')), (''y'', JInt (y + vint req ''dy'')), (''z'', JInt z),
         (''facing'', dget_or cur ''facing'' JNull)] = Inr pos"
    "r = mk_result
       [(''entity_id'', JStr e),
        (''origin'', JDict [(''x'', JInt x), (''y'', JInt y)]),
        (''destination'', JDict [(''x'', JInt (x + vint req ''dx'')), (''y'', JInt (y + vint req ''dy''))]),
        (''zone_id'', dget_or cur ''zone_id'' (JStr ''world''))]
       [mk_delta ''tabletop.spatial.positions'' SET e pos,
        mk_delta ''tabletop.entities'' MERGE e
          [(''x'', JInt (x + vint req ''dx'')), (''y'', JInt (y + vint req ''dy''))]]
       [''tabletop'', ''spatial'', ''movement'']"
    by (auto simp: move_def bindR_eq_Inr Let_def simp del: bindR_ensure)
  then show ?thesis
    by (intro that [of e req cur x y z pos]) (auto dest!: mapR_all)
qed

lemma MoveRequest_bounds:
  assumes "model_validate L MoveRequest d = Inr r"
  shows "-1 \<le> vint r ''dx'' \<and> vint r ''dx'' \<le> 1 \<and> -1 \<le> vint r ''dy'' \<and> vint r ''dy'' \<le> 1"
  using validated_int [OF assms, of "''dx''" "Some (-1)" "Some 1" None]
    validated_int [OF assms, of "''dy''" "Some (-1)" "Some 1" None]
  by (simp add: MoveRequest_def in_bounds_def)

interpretation movement: rule_handler "move L"
  "{''tabletop.spatial.positions'', ''tabletop.entities''}" embodied for L
proof
  fix p s r
  assume r: "move L p s = Inr r"
  show "cr_accepted r" using r by (rule move_Inr)
  show "delta_within {''tabletop.spatial.positions'', ''tabletop.entities''} (embodied p) d"
    if "d \<in> set (cr_deltas r)" for d
    using r by (rule move_Inr) (use that in auto)
qed


section \<open>Properties\<close>

lemma validated_position:
  assumes "lawful_lib L" "model_validate L SpatialPosition
        [(''zone_id'', z), (''x'', JInt x), (''y'', JInt y), (''z'', JInt h), (''facing'', f)] = Inr pos"
  shows "dget pos ''x'' = Some (JInt x)" "dget pos ''y'' = Some (JInt y)"
  using assms(2)
  by (auto simp: model_validate_def SpatialPosition_def lawful_co [OF assms(1)] in_bounds_def
      split: option.splits if_splits)

text \<open>
  A movement that succeeds and is applied takes the embodied entity one cell along at least
  one axis and never more than one along either, does not end in a cell of an obstacle, and
  leaves the explicit position and the entity record with the same new coordinates.
\<close>

theorem move_one_cell:
  assumes "lawful_lib L" "move L p s = Inr r" "apply_deltas L s (cr_deltas r) = Inr t"
    and "p_embodied_entity_id p = Some e"
  shows "\<exists>cur pos ent x y x' y'. dget (position_source s e) e = Some (JDict cur) \<and>
    get_int cur ''x'' 0 = Inr x \<and> get_int cur ''y'' 0 = Inr y \<and>
    \<bar>x' - x\<bar> \<le> 1 \<and> \<bar>y' - y\<bar> \<le> 1 \<and> (x', y') \<noteq> (x, y) \<and>
    (\<forall>b v. (b, v) \<in> set (bucket s ''tabletop.obstacles'') \<longrightarrow> obstacle_cell (b, v) \<noteq> Inr (x', y')) \<and>
    dget (bucket t ''tabletop.spatial.positions'') e = Some (JDict pos) \<and>
    dget pos ''x'' = Some (JInt x') \<and> dget pos ''y'' = Some (JInt y') \<and>
    dget (bucket t ''tabletop.entities'') e = Some (JDict ent) \<and>
    dget ent ''x'' = Some (JInt x') \<and> dget ent ''y'' = Some (JInt y')"
  using assms(2)
proof (rule move_Inr)
  fix e' req cur x y z pos
  assume e': "p_embodied_entity_id p = Some e'"
    and req: "model_validate L MoveRequest (p_parameters p) = Inr req"
    and moved: "vint req ''dx'' \<noteq> 0 \<or> vint req ''dy'' \<noteq> 0"
    and cur: "dget (position_source s e') e' = Some (JDict cur)"
    "get_int cur ''x'' 0 = Inr x" "get_int cur ''y'' 0 = Inr y"
    and free: "\<And>b v. (b, v) \<in> set (bucket s ''tabletop.obstacles'') \<Longrightarrow>
       \<exists>c. obstacle_cell (b, v) = Inr c \<and> c \<noteq> (x + vint req ''dx'', y + vint req ''dy'')"
    and pos: "model_validate L SpatialPosition
        [(''zone_id'', dget_or cur ''zone_id'' (JStr ''world'')),
         (''x'', JInt (x + vint req ''dx'')), (''y'', JInt (y + vint req ''dy'')), (''z'', JInt z),
         (''facing'', dget_or cur ''facing'' JNull)] = Inr pos"
    and ds: "cr_deltas r = [mk_delta ''tabletop.spatial.positions'' SET e' pos,
        mk_delta ''tabletop.entities'' MERGE e'
          [(''x'', JInt (x + vint req ''dx'')), (''y'', JInt (y + vint req ''dy''))]]"
  from assms(3) obtain old where t: "bucket t ''tabletop.spatial.positions'' =
      dset (bucket s ''tabletop.spatial.positions'') e' (JDict pos)"
    "dget (bucket t ''tabletop.entities'') e' = Some (JDict
      (dset (dset old ''x'' (JInt (x + vint req ''dx''))) ''y'' (JInt (y + vint req ''dy''))))"
    by (auto simp: ds apply_delta_def Let_def delta_key_def bindR_eq_Inr)
  let ?x = "x + vint req ''dx''" and ?y = "y + vint req ''dy''"
  have "e' = e" using e' assms(4) by simp
  moreover note cur t(2) validated_position [OF assms(1) pos]
  moreover have "dget (bucket t ''tabletop.spatial.positions'') e' = Some (JDict pos)" by (simp add: t)
  moreover have "\<bar>?x - x\<bar> \<le> 1" "\<bar>?y - y\<bar> \<le> 1" using MoveRequest_bounds [OF req] by auto
  moreover have "(?x, ?y) \<noteq> (x, y)" using moved by simp
  moreover have "\<forall>b v. (b, v) \<in> set (bucket s ''tabletop.obstacles'') \<longrightarrow> obstacle_cell (b, v) \<noteq> Inr (?x, ?y)"
    using free by fastforce
  moreover have "dget (dset (dset old ''x'' (JInt ?x)) ''y'' (JInt ?y)) ''x'' = Some (JInt ?x)"
    "dget (dset (dset old ''x'' (JInt ?x)) ''y'' (JInt ?y)) ''y'' = Some (JInt ?y)" by simp_all
  ultimately show ?thesis by blast
qed

theorem move_one_cell_witness:
  "\<exists>r t cur x y x' y'. move ref_lib (fixture_proposal ''tabletop.spatial.move'' (Some ''hero'')
      [(''dx'', JInt 1), (''dy'', JInt 1)]) fixture_party = Inr r \<and>
    apply_deltas ref_lib fixture_party (cr_deltas r) = Inr t \<and>
    dget (position_source fixture_party ''hero'') ''hero'' = Some (JDict cur) \<and>
    get_int cur ''x'' 0 = Inr x \<and> get_int cur ''y'' 0 = Inr y \<and> \<bar>x' - x\<bar> \<le> 1 \<and> (x', y') \<noteq> (x, y)"
proof -
  let ?p = "fixture_proposal ''tabletop.spatial.move'' (Some ''hero'') [(''dx'', JInt 1), (''dy'', JInt 1)]"
  have "is_ok (bindR (move ref_lib ?p fixture_party) (\<lambda>r. apply_deltas ref_lib fixture_party (cr_deltas r)))"
    by code_simp
  then obtain r t where "move ref_lib ?p fixture_party = Inr r"
    "apply_deltas ref_lib fixture_party (cr_deltas r) = Inr t" by (rule runs)
  with move_one_cell [OF lawful_ref_lib this, of "''hero''"] show ?thesis
    by (fastforce simp: fixture_proposal_def)
qed

end
