(* ===== verification/SpatialGrid.thy ===== *)
theory SpatialGrid
  imports RulesMovement
begin

text \<open>
  The grid of \<open>domains/tabletop/spatial/perception.py\<close>: what the resolver reads from the
  projections, the supercover line and the transmission between zones. Validated models are dictionaries (\<open>model_validate\<close>); float arithmetic
  rounds every operation with \<open>fl\<close>, in the order of the source.

  The loop of \<open>_zone_transmission\<close> has no bound in the source. It is a
  \<open>partial_function (option)\<close> here, and \<open>zone_loop_returns\<close> proves that it returns for
  validated portals; the loop of \<open>_supercover\<close> has a measure.
\<close>

section \<open>Models\<close>

definition SpatialZone :: schema where
  "SpatialZone =
     [(''zone_id'', FStr 0 None, None), (''name'', FStr 0 None, None),
      (''ambient_light'', FFloat (Some 0) (Some 1), Some (JFloat 1)),
      (''ambient_noise'', FFloat (Some 0) (Some 1), Some (JFloat 0))]"

definition SpatialPortal :: schema where
  "SpatialPortal =
     [(''portal_id'', FUuid, None), (''from_zone_id'', FStr 0 None, None),
      (''to_zone_id'', FStr 0 None, None),
      (''kind'', FEnum [''DOOR'', ''WINDOW'', ''OPENING'', ''PASSAGE''], None),
      (''state'', FEnum [''OPEN'', ''CLOSED'', ''LOCKED''], Some (JStr ''OPEN'')),
      (''sight_transmission'', FFloat (Some 0) (Some 1), Some (JFloat 1)),
      (''sound_transmission'', FFloat (Some 0) (Some 1), Some (JFloat 1)),
      (''movement_allowed'', FBool, Some (JBool True))]"

definition SpatialOccluder :: "pylib \<Rightarrow> schema" where
  "SpatialOccluder L =
     [(''zone_id'', FStr 0 None, Some (JStr ''world'')), (''x'', FInt None None, None),
      (''y'', FInt None None, None), (''blocks_movement'', FBool, Some (JBool True)),
      (''sight_opacity'', FFloat (Some 0) (Some 1), Some (JFloat 1)),
      (''sound_attenuation'', FFloat (Some 0) (Some 1), Some (JFloat (fl L (1 / 5))))]"

section \<open>Reading the projections\<close>

text \<open>\<open>k in v\<close> for a string \<open>k\<close>.\<close>

definition py_in :: "string \<Rightarrow> jval \<Rightarrow> bool res" where
  "py_in k v = (case v of
      JDict d \<Rightarrow> Inr (dhas d k)
    | JList xs \<Rightarrow> Inr (JStr k \<in> set xs)
    | JStr s \<Rightarrow> Inr (has_infix k s)
    | _ \<Rightarrow> Inl (TypeError ''argument is not iterable''))"

definition position_entry :: "pylib \<Rightarrow> (string \<times> jval) list \<Rightarrow> (uuid \<times> jdict) list \<Rightarrow> string \<times> jval \<Rightarrow> (uuid \<times> jdict) list res" where
  "position_entry L explicit acc = (\<lambda>(raw_id, entity).
     let spatial = dget_or explicit raw_id entity in
     bindR (py_in ''x'' spatial) (\<lambda>has_x.
     bindR (if has_x then py_in ''y'' spatial else Inr False) (\<lambda>has_y.
     if \<not> has_y then Inr acc
     else
       bindR (parse_uuid L raw_id) (\<lambda>entity_id.
       bindR (as_mapping spatial) (\<lambda>sp.
       bindR (as_mapping entity) (\<lambda>en.
       bindR (bindR (item spatial ''x'') py_int) (\<lambda>x.
       bindR (bindR (item spatial ''y'') py_int) (\<lambda>y.
       bindR (py_int (dget_or sp ''z'' (dget_or en ''z'' (JInt 0)))) (\<lambda>z.
       bindR (model_validate L SpatialPosition
         [(''zone_id'', dget_or sp ''zone_id'' (dget_or en ''zone_id'' (JStr ''world''))),
          (''x'', JInt x), (''y'', JInt y), (''z'', JInt z),
          (''facing'', dget_or sp ''facing'' (dget_or en ''facing'' JNull))]) (\<lambda>position.
       Inr (dset acc entity_id position)))))))))))"

definition positions :: "pylib \<Rightarrow> branch_state \<Rightarrow> (uuid \<times> jdict) list res" where
  "positions L s = foldR (position_entry L (bucket s ''tabletop.spatial.positions'')) []
     (bucket s ''tabletop.entities'')"

definition world_zone :: jdict where
  "world_zone = [(''zone_id'', JStr ''world''), (''name'', JStr ''World''),
     (''ambient_light'', JFloat 1), (''ambient_noise'', JFloat 0)]"

definition zones :: "pylib \<Rightarrow> branch_state \<Rightarrow> (string \<times> jdict) list res" where
  "zones L s = foldR (\<lambda>acc (key, v).
     bindR (as_mapping v) (\<lambda>d.
     bindR (model_validate L SpatialZone (dupdate [(''zone_id'', JStr key)] d)) (\<lambda>z.
     Inr (dset acc key z)))) [(''world'', world_zone)] (bucket s ''tabletop.spatial.zones'')"

definition portals :: "pylib \<Rightarrow> branch_state \<Rightarrow> jdict list res" where
  "portals L s = mapR (\<lambda>(key, v).
     bindR (as_mapping v) (\<lambda>d.
     model_validate L SpatialPortal (dupdate [(''portal_id'', JStr key)] d)))
     (sort_key fst (bucket s ''tabletop.spatial.portals''))"

definition occluders :: "pylib \<Rightarrow> branch_state \<Rightarrow> jdict list res" where
  "occluders L s = mapR (validate_any L (SpatialOccluder L))
     (map snd (bucket s ''tabletop.spatial.occluders'') @ map snd (bucket s ''tabletop.obstacles''))"

definition origin :: "emission \<Rightarrow> (uuid \<times> jdict) list \<Rightarrow> jdict option" where
  "origin em ps = (let a = em_anchor em in
     case an_phase a of
       EXPLICIT \<Rightarrow> (case (an_x a, an_y a) of
           (Some x, Some y) \<Rightarrow> Some
             [(''zone_id'', JStr (case an_zone_id a of Some (c # cs) \<Rightarrow> c # cs | _ \<Rightarrow> ''world'')),
              (''x'', JInt (round_half_even x)), (''y'', JInt (round_half_even y)),
              (''z'', JInt (round_half_even (case an_z a of None \<Rightarrow> 0 | Some z \<Rightarrow> z))),
              (''facing'', JNull)]
         | _ \<Rightarrow> None)
     | _ \<Rightarrow> (case an_entity_id a of None \<Rightarrow> None | Some e \<Rightarrow> dget ps e))"

section \<open>The supercover line\<close>

text \<open>No step goes past the end on its axis.\<close>

lemma supercover_progress:
  fixes ix iy nx ny :: nat
  assumes "ix < nx \<or> iy < ny"
  shows "(1 + 2 * ix) * ny = (1 + 2 * iy) * nx \<Longrightarrow> ix < nx \<and> iy < ny"
    "(1 + 2 * ix) * ny < (1 + 2 * iy) * nx \<Longrightarrow> ix < nx"
    "(1 + 2 * iy) * nx < (1 + 2 * ix) * ny \<Longrightarrow> iy < ny"
proof -
  have x: "(1 + 2 * iy) * nx < (1 + 2 * ix) * ny" if "nx \<le> ix" "iy < ny"
  proof -
    have "(1 + 2 * iy) * nx \<le> (2 * ny - 1) * nx" using that by (intro mult_right_mono) simp_all
    also have "\<dots> \<le> 2 * (nx * ny)" by (simp add: algebra_simps)
    also have "\<dots> \<le> 2 * (ix * ny)" using that by simp
    also have "\<dots> < (1 + 2 * ix) * ny" using that by (simp add: algebra_simps)
    finally show ?thesis .
  qed
  have y: "(1 + 2 * ix) * ny < (1 + 2 * iy) * nx" if "ny \<le> iy" "ix < nx"
  proof -
    have "(1 + 2 * ix) * ny \<le> (2 * nx - 1) * ny" using that by (intro mult_right_mono) simp_all
    also have "\<dots> \<le> 2 * (ny * nx)" by (simp add: algebra_simps)
    also have "\<dots> \<le> 2 * (iy * nx)" using that by simp
    also have "\<dots> < (1 + 2 * iy) * nx" using that by (simp add: algebra_simps)
    finally show ?thesis .
  qed
  show "ix < nx \<and> iy < ny" if "(1 + 2 * ix) * ny = (1 + 2 * iy) * nx"
    using assms x y that by (metis less_irrefl not_le)
  show "ix < nx" if "(1 + 2 * ix) * ny < (1 + 2 * iy) * nx"
    using assms x that by (metis less_asym not_le)
  show "iy < ny" if "(1 + 2 * iy) * nx < (1 + 2 * ix) * ny"
    using assms y that by (metis less_asym not_le)
qed

function supercover_loop :: "int \<Rightarrow> int \<Rightarrow> nat \<Rightarrow> nat \<Rightarrow> nat \<Rightarrow> nat \<Rightarrow> int \<Rightarrow> int \<Rightarrow> (int \<times> int) list" where
  "supercover_loop sx sy nx ny ix iy px py =
     (if ix < nx \<or> iy < ny then
        (let left = (1 + 2 * ix) * ny; right = (1 + 2 * iy) * nx in
         if left = right
         then (px + sx, py + sy) # supercover_loop sx sy nx ny (ix + 1) (iy + 1) (px + sx) (py + sy)
         else if left < right
         then (px + sx, py) # supercover_loop sx sy nx ny (ix + 1) iy (px + sx) py
         else (px, py + sy) # supercover_loop sx sy nx ny ix (iy + 1) px (py + sy))
      else [])"
  by pat_completeness auto

termination
proof (relation "measure (\<lambda>(sx, sy, nx, ny, ix, iy, px, py). (nx - ix) + (ny - iy))", goal_cases)
  case 1
  show ?case by simp
next
  case (2 sx sy nx ny ix iy px py left right)
  then show ?case using supercover_progress(1) [of ix nx iy ny] by auto
next
  case (3 sx sy nx ny ix iy px py left right)
  then show ?case using supercover_progress(2) [of ix nx iy ny] by auto
next
  case (4 sx sy nx ny ix iy px py left right)
  then show ?case using supercover_progress(3) [of ix nx iy ny] by auto
qed

declare supercover_loop.simps [simp del]

definition supercover :: "int \<Rightarrow> int \<Rightarrow> int \<Rightarrow> int \<Rightarrow> (int \<times> int) list" where
  "supercover x0 y0 x1 y1 =
     (let dx = x1 - x0; dy = y1 - y0 in
      (x0, y0) # supercover_loop (if 0 < dx then 1 else -1) (if 0 < dy then 1 else -1)
        (nat \<bar>dx\<bar>) (nat \<bar>dy\<bar>) 0 0 x0 y0)"

text \<open>The cells strictly between the ends: \<open>[1:-1]\<close>.\<close>

definition between_cells :: "jdict \<Rightarrow> jdict \<Rightarrow> (int \<times> int) list" where
  "between_cells a b = butlast (tl (supercover (vint a ''x'') (vint a ''y'') (vint b ''x'') (vint b ''y'')))"

section \<open>Transmission between zones\<close>

definition portal_base :: "pylib \<Rightarrow> modality \<Rightarrow> jdict \<Rightarrow> rat" where
  "portal_base L m p = (let base = (if m = SOUND then vrat p ''sound_transmission''
                                    else vrat p ''sight_transmission'') in
     if vstr p ''state'' \<in> {''CLOSED'', ''LOCKED''} then fl L (base * fl L (1 / 5)) else base)"

text \<open>The inner loop over the portals; \<open>Inl\<close> is the early return.\<close>

fun scan_portals ::
  "pylib \<Rightarrow> modality \<Rightarrow> string \<Rightarrow> string \<Rightarrow> rat \<Rightarrow> jdict list \<Rightarrow> (string \<times> rat) list \<Rightarrow>
   (string \<times> rat) list \<Rightarrow> rat + ((string \<times> rat) list \<times> (string \<times> rat) list)" where
  "scan_portals L m goal zone strength [] queue best = Inr (queue, best)"
| "scan_portals L m goal zone strength (p # ps) queue best =
     (let left = vstr p ''from_zone_id''; right = vstr p ''to_zone_id'' in
      if zone \<noteq> left \<and> zone \<noteq> right then scan_portals L m goal zone strength ps queue best
      else
        (let next_zone = (if zone = left then right else left);
             candidate = fl L (strength * portal_base L m p) in
         if candidate \<le> dget_or best next_zone 0 then scan_portals L m goal zone strength ps queue best
         else if next_zone = goal then Inl candidate
         else scan_portals L m goal zone strength ps (queue @ [(next_zone, candidate)])
                (dset best next_zone candidate)))"

partial_function (option) zone_loop ::
  "pylib \<Rightarrow> modality \<Rightarrow> jdict list \<Rightarrow> string \<Rightarrow> (string \<times> rat) list \<Rightarrow> (string \<times> rat) list \<Rightarrow> rat option" where
  "zone_loop L m ps goal queue best =
     (case queue of
        [] \<Rightarrow> Some 0
      | (zone, strength) # rest \<Rightarrow>
          (case scan_portals L m goal zone strength ps rest best of
             Inl c \<Rightarrow> Some c
           | Inr (queue', best') \<Rightarrow> zone_loop L m ps goal queue' best'))"

definition zone_transmission :: "pylib \<Rightarrow> modality \<Rightarrow> string \<Rightarrow> string \<Rightarrow> jdict list \<Rightarrow> rat option" where
  "zone_transmission L m start goal ps = zone_loop L m ps goal [(start, 1)] [(start, 1)]"

section \<open>The line joins its ends\<close>

lemma supercover_loop_path:
  fixes sx sy x0 y0 :: int
  assumes "ix \<le> nx" "iy \<le> ny" "px = x0 + sx * int ix" "py = y0 + sy * int iy"
  shows "last ((px, py) # supercover_loop sx sy nx ny ix iy px py) = (x0 + sx * int nx, y0 + sy * int ny)"
  using assms
proof (induction sx sy nx ny ix iy px py rule: supercover_loop.induct)
  case (1 sx sy nx ny ix iy px py)
  show ?case
  proof (cases "ix < nx \<or> iy < ny")
    case False
    with "1.prems" have "ix = nx" "iy = ny" by simp_all
    with "1.prems" show ?thesis by (subst supercover_loop.simps) simp
  next
    case True
    note step = supercover_loop.simps [of sx sy nx ny ix iy px py]
    consider (diag) "(1 + 2 * ix) * ny = (1 + 2 * iy) * nx"
      | (horizontal) "(1 + 2 * ix) * ny < (1 + 2 * iy) * nx"
      | (vertical) "(1 + 2 * iy) * nx < (1 + 2 * ix) * ny" by linarith
    then show ?thesis
    proof cases
      case diag
      with supercover_progress(1) [OF True] have "ix < nx" "iy < ny" by auto
      then have "last ((px + sx, py + sy) # supercover_loop sx sy nx ny (ix + 1) (iy + 1) (px + sx) (py + sy)) =
        (x0 + sx * int nx, y0 + sy * int ny)"
        using "1.prems" by (intro "1.IH"(1) [OF True refl refl diag]) (simp_all add: algebra_simps)
      moreover have "supercover_loop sx sy nx ny ix iy px py =
        (px + sx, py + sy) # supercover_loop sx sy nx ny (ix + 1) (iy + 1) (px + sx) (py + sy)"
        by (simp only: step if_P [OF True] if_P [OF diag] Let_def)
      ultimately show ?thesis by (simp only: last_ConsR list.distinct not_False_eq_True)
    next
      case horizontal
      with supercover_progress(2) [OF True] have "ix < nx" by auto
      then have "last ((px + sx, py) # supercover_loop sx sy nx ny (ix + 1) iy (px + sx) py) =
        (x0 + sx * int nx, y0 + sy * int ny)"
        using "1.prems" horizontal
        by (intro "1.IH"(2) [OF True refl refl _ horizontal]) (simp_all add: algebra_simps)
      with True horizontal show ?thesis by (simp add: step Let_def)
    next
      case vertical
      with supercover_progress(3) [OF True] have "iy < ny" by auto
      then have "last ((px, py + sy) # supercover_loop sx sy nx ny ix (iy + 1) px (py + sy)) =
        (x0 + sx * int nx, y0 + sy * int ny)"
        using "1.prems" vertical
        by (intro "1.IH"(3) [OF True refl refl]) (simp_all add: algebra_simps)
      with True vertical show ?thesis by (simp add: step Let_def)
    qed
  qed
qed

text \<open>Consecutive cells of the line touch.\<close>

fun touching :: "(int \<times> int) list \<Rightarrow> bool" where
  "touching ((x, y) # (x', y') # cs) = (\<bar>x' - x\<bar> \<le> 1 \<and> \<bar>y' - y\<bar> \<le> 1 \<and> touching ((x', y') # cs))"
| "touching cs = True"

lemma supercover_loop_touching:
  assumes "\<bar>sx\<bar> = 1" "\<bar>sy\<bar> = 1"
  shows "touching ((px, py) # supercover_loop sx sy nx ny ix iy px py)"
  using assms
proof (induction sx sy nx ny ix iy px py rule: supercover_loop.induct)
  case (1 sx sy nx ny ix iy px py)
  then show ?case
    by (subst supercover_loop.simps) (simp add: Let_def)
qed

lemma supercover_ends:
  "hd (supercover x0 y0 x1 y1) = (x0, y0)" "last (supercover x0 y0 x1 y1) = (x1, y1)"
  "touching (supercover x0 y0 x1 y1)"
proof -
  show "hd (supercover x0 y0 x1 y1) = (x0, y0)" by (simp add: supercover_def Let_def)
  let ?sx = "if 0 < x1 - x0 then 1 else - 1 :: int" and ?sy = "if 0 < y1 - y0 then 1 else - 1 :: int"
  have "last (supercover x0 y0 x1 y1) =
    (x0 + ?sx * int (nat \<bar>x1 - x0\<bar>), y0 + ?sy * int (nat \<bar>y1 - y0\<bar>))"
    unfolding supercover_def Let_def by (rule supercover_loop_path) simp_all
  then show "last (supercover x0 y0 x1 y1) = (x1, y1)" by (simp split: if_splits)
  show "touching (supercover x0 y0 x1 y1)"
    unfolding supercover_def Let_def by (rule supercover_loop_touching) simp_all
qed

text \<open>
  The band: in steps \<open>a\<close>, \<open>b\<close> from the start, a cell lies on the line when twice its distance from
  it, scaled by the length of the line, is at most the width of a cell.
\<close>

definition offset :: "nat \<Rightarrow> nat \<Rightarrow> nat \<Rightarrow> nat \<Rightarrow> int" where
  "offset nx ny a b = 2 * (int nx * int b - int ny * int a)"

lemma offset_cases:
  assumes "l = (1 + 2 * ix) * ny" "r = (1 + 2 * iy) * nx"
  shows "l = r \<longleftrightarrow> offset nx ny ix iy = int ny - int nx"
    "l < r \<longleftrightarrow> int ny - int nx < offset nx ny ix iy"
    "r < l \<longleftrightarrow> offset nx ny ix iy < int ny - int nx"
proof -
  have "int l - int r = int ny - int nx - offset nx ny ix iy"
    by (simp add: assms offset_def algebra_simps)
  then show "l = r \<longleftrightarrow> offset nx ny ix iy = int ny - int nx"
    "l < r \<longleftrightarrow> int ny - int nx < offset nx ny ix iy"
    "r < l \<longleftrightarrow> offset nx ny ix iy < int ny - int nx" by linarith+
qed

lemma offset_step:
  "offset nx ny (ix + 1) iy = offset nx ny ix iy - 2 * int ny"
  "offset nx ny ix (iy + 1) = offset nx ny ix iy + 2 * int nx"
  "offset nx ny (ix + 1) (iy + 1) = offset nx ny ix iy + 2 * int nx - 2 * int ny"
  by (simp_all add: offset_def algebra_simps)

lemma offset_above:
  assumes "\<bar>offset nx ny ix b\<bar> < int nx + int ny" "iy \<le> b" "int ny - int nx \<le> offset nx ny ix iy"
  shows "b = iy"
proof (rule ccontr)
  assume "b \<noteq> iy"
  with assms(2) have "int nx * (int iy + 1) \<le> int nx * int b" by (intro mult_left_mono) simp_all
  with assms(1,3) show False by (simp add: offset_def algebra_simps)
qed

lemma offset_beyond:
  assumes "\<bar>offset nx ny a iy\<bar> < int nx + int ny" "ix \<le> a" "offset nx ny ix iy \<le> int ny - int nx"
  shows "a = ix"
proof (rule ccontr)
  assume "a \<noteq> ix"
  with assms(2) have "int ny * (int ix + 1) \<le> int ny * int a" by (intro mult_left_mono) simp_all
  with assms(1,3) show False by (simp add: offset_def algebra_simps)
qed

lemma supercover_loop_band:
  assumes "ix \<le> nx" "iy \<le> ny" "px = x0 + sx * int ix" "py = y0 + sy * int iy"
    and "\<bar>offset nx ny ix iy\<bar> \<le> int nx + int ny"
    and "c \<in> set ((px, py) # supercover_loop sx sy nx ny ix iy px py)"
  shows "\<exists>a b. c = (x0 + sx * int a, y0 + sy * int b) \<and> a \<le> nx \<and> b \<le> ny \<and>
    \<bar>offset nx ny a b\<bar> \<le> int nx + int ny"
  using assms
proof (induction sx sy nx ny ix iy px py rule: supercover_loop.induct)
  case (1 sx sy nx ny ix iy px py)
  note step = supercover_loop.simps [of sx sy nx ny ix iy px py]
  show ?case
  proof (cases "c = (px, py)")
    case True
    with "1.prems" show ?thesis by blast
  next
    case False
    with "1.prems"(6) have c: "c \<in> set (supercover_loop sx sy nx ny ix iy px py)" by simp
    then have more: "ix < nx \<or> iy < ny" by (subst (asm) step) (simp split: if_splits)
    note D = offset_cases [OF refl refl, where ix = ix and iy = iy and nx = nx and ny = ny]
    consider (diag) "(1 + 2 * ix) * ny = (1 + 2 * iy) * nx"
      | (horizontal) "(1 + 2 * ix) * ny < (1 + 2 * iy) * nx"
      | (vertical) "(1 + 2 * iy) * nx < (1 + 2 * ix) * ny" by linarith
    then show ?thesis
    proof cases
      case diag
      have "\<bar>offset nx ny (ix + 1) (iy + 1)\<bar> \<le> int nx + int ny"
        using iffD1 [OF D(1) diag] unfolding offset_step(3) by linarith
      moreover have "c \<in> set ((px + sx, py + sy) # supercover_loop sx sy nx ny (ix + 1) (iy + 1) (px + sx) (py + sy))"
        using c unfolding step if_P [OF more] if_P [OF diag] Let_def .
      ultimately show ?thesis
        using "1.prems" supercover_progress(1) [OF more diag]
        by (intro "1.IH"(1) [OF more refl refl diag]) (simp_all add: algebra_simps)
    next
      case horizontal
      then have ne: "(1 + 2 * ix) * ny \<noteq> (1 + 2 * iy) * nx" by simp
      have "\<bar>offset nx ny (ix + 1) iy\<bar> \<le> int nx + int ny"
        using iffD1 [OF D(2) horizontal] "1.prems"(5) unfolding offset_step(1) by linarith
      moreover have "c \<in> set ((px + sx, py) # supercover_loop sx sy nx ny (ix + 1) iy (px + sx) py)"
        using c unfolding step if_P [OF more] if_not_P [OF ne] if_P [OF horizontal] Let_def .
      ultimately show ?thesis
        using "1.prems" supercover_progress(2) [OF more horizontal]
        by (intro "1.IH"(2) [OF more refl refl ne horizontal]) (simp_all add: algebra_simps)
    next
      case vertical
      then have ne: "(1 + 2 * ix) * ny \<noteq> (1 + 2 * iy) * nx" "\<not> (1 + 2 * ix) * ny < (1 + 2 * iy) * nx" by simp_all
      have "\<bar>offset nx ny ix (iy + 1)\<bar> \<le> int nx + int ny"
        using iffD1 [OF D(3) vertical] "1.prems"(5) unfolding offset_step(2) by linarith
      moreover have "c \<in> set ((px, py + sy) # supercover_loop sx sy nx ny ix (iy + 1) px (py + sy))"
        using c unfolding step if_P [OF more] if_not_P [OF ne(1)] if_not_P [OF ne(2)] Let_def .
      ultimately show ?thesis
        using "1.prems" supercover_progress(3) [OF more vertical]
        by (intro "1.IH"(3) [OF more refl refl ne]) (simp_all add: algebra_simps)
    qed
  qed
qed

lemma supercover_loop_complete:
  assumes "ix \<le> a" "iy \<le> b" "a \<le> nx" "b \<le> ny" "px = x0 + sx * int ix" "py = y0 + sy * int iy"
    and "\<bar>offset nx ny a b\<bar> < int nx + int ny"
  shows "(x0 + sx * int a, y0 + sy * int b) \<in> set ((px, py) # supercover_loop sx sy nx ny ix iy px py)"
  using assms
proof (induction sx sy nx ny ix iy px py rule: supercover_loop.induct)
  case (1 sx sy nx ny ix iy px py)
  note step = supercover_loop.simps [of sx sy nx ny ix iy px py]
  show ?case
  proof (cases "ix = a \<and> iy = b")
    case True
    with "1.prems" show ?thesis by simp
  next
    case False
    with "1.prems" have more: "ix < nx \<or> iy < ny" by auto
    note D = offset_cases [OF refl refl, where ix = ix and iy = iy and nx = nx and ny = ny]
    consider (diag) "(1 + 2 * ix) * ny = (1 + 2 * iy) * nx"
      | (horizontal) "(1 + 2 * ix) * ny < (1 + 2 * iy) * nx"
      | (vertical) "(1 + 2 * iy) * nx < (1 + 2 * ix) * ny" by linarith
    then show ?thesis
    proof cases
      case diag
      have "ix \<noteq> a" using offset_above [of nx ny ix b iy] False "1.prems"(2,7) iffD1 [OF D(1) diag] by auto
      moreover have "iy \<noteq> b" using offset_beyond [of nx ny a iy ix] False "1.prems"(1,7) iffD1 [OF D(1) diag] by auto
      ultimately have "(x0 + sx * int a, y0 + sy * int b) \<in>
        set ((px + sx, py + sy) # supercover_loop sx sy nx ny (ix + 1) (iy + 1) (px + sx) (py + sy))"
        using "1.prems" by (intro "1.IH"(1) [OF more refl refl diag]) (simp_all add: algebra_simps)
      then show ?thesis unfolding step if_P [OF more] if_P [OF diag] Let_def by (rule list.set_intros(2))
    next
      case horizontal
      then have ne: "(1 + 2 * ix) * ny \<noteq> (1 + 2 * iy) * nx" by simp
      have "ix \<noteq> a" using offset_above [of nx ny ix b iy] False "1.prems"(2,7) iffD1 [OF D(2) horizontal] by auto
      then have "(x0 + sx * int a, y0 + sy * int b) \<in>
        set ((px + sx, py) # supercover_loop sx sy nx ny (ix + 1) iy (px + sx) py)"
        using "1.prems" by (intro "1.IH"(2) [OF more refl refl ne horizontal]) (simp_all add: algebra_simps)
      then show ?thesis unfolding step if_P [OF more] if_not_P [OF ne] if_P [OF horizontal] Let_def
        by (rule list.set_intros(2))
    next
      case vertical
      then have ne: "(1 + 2 * ix) * ny \<noteq> (1 + 2 * iy) * nx" "\<not> (1 + 2 * ix) * ny < (1 + 2 * iy) * nx" by simp_all
      have "iy \<noteq> b" using offset_beyond [of nx ny a iy ix] False "1.prems"(1,7) iffD1 [OF D(3) vertical] by auto
      then have "(x0 + sx * int a, y0 + sy * int b) \<in>
        set ((px, py + sy) # supercover_loop sx sy nx ny ix (iy + 1) px (py + sy))"
        using "1.prems" by (intro "1.IH"(3) [OF more refl refl ne]) (simp_all add: algebra_simps)
      then show ?thesis unfolding step if_P [OF more] if_not_P [OF ne(1)] if_not_P [OF ne(2)] Let_def
        by (rule list.set_intros(2))
    qed
  qed
qed

text \<open>The same in the coordinates of the grid.\<close>

definition sgn1 :: "int \<Rightarrow> int" where
  "sgn1 d = (if 0 < d then 1 else - 1)"

definition deviation :: "int \<Rightarrow> int \<Rightarrow> int \<Rightarrow> int \<Rightarrow> int \<times> int \<Rightarrow> int" where
  "deviation x0 y0 x1 y1 c = 2 * \<bar>(x1 - x0) * (snd c - y0) - (y1 - y0) * (fst c - x0)\<bar>"

definition box :: "int \<Rightarrow> int \<Rightarrow> int \<Rightarrow> int \<Rightarrow> (int \<times> int) set" where
  "box x0 y0 x1 y1 = {min x0 x1..max x0 x1} \<times> {min y0 y1..max y0 y1}"

lemma axis_steps:
  "x \<in> {min x0 x1..max x0 x1} \<longleftrightarrow> (\<exists>a \<le> nat \<bar>x1 - x0\<bar>. x = x0 + sgn1 (x1 - x0) * int a)"
proof
  assume "x \<in> {min x0 x1..max x0 x1}"
  then have "nat \<bar>x - x0\<bar> \<le> nat \<bar>x1 - x0\<bar> \<and> x = x0 + sgn1 (x1 - x0) * int (nat \<bar>x - x0\<bar>)"
    by (auto simp: sgn1_def)
  then show "\<exists>a \<le> nat \<bar>x1 - x0\<bar>. x = x0 + sgn1 (x1 - x0) * int a" by blast
qed (auto simp: sgn1_def)

lemma deviation_offset:
  "deviation x0 y0 x1 y1 (x0 + sgn1 (x1 - x0) * int a, y0 + sgn1 (y1 - y0) * int b) =
     \<bar>offset (nat \<bar>x1 - x0\<bar>) (nat \<bar>y1 - y0\<bar>) a b\<bar>"
proof -
  define sx sy nx ny where d: "sx = sgn1 (x1 - x0)" "sy = sgn1 (y1 - y0)"
    "nx = int (nat \<bar>x1 - x0\<bar>)" "ny = int (nat \<bar>y1 - y0\<bar>)"
  have "x1 - x0 = sx * nx" "y1 - y0 = sy * ny" and unit: "\<bar>sx * sy\<bar> = 1"
    by (simp_all add: d sgn1_def)
  then have "(x1 - x0) * (sy * int b) - (y1 - y0) * (sx * int a) = sx * sy * (nx * int b - ny * int a)"
    by (simp add: algebra_simps)
  moreover have "2 * \<bar>sx * sy * (nx * int b - ny * int a)\<bar> = \<bar>2 * (nx * int b - ny * int a)\<bar>"
    unfolding abs_mult [of "sx * sy"] unit abs_mult [of 2] by simp
  ultimately show ?thesis unfolding deviation_def offset_def d by simp
qed

lemma supercover_steps:
  "supercover x0 y0 x1 y1 = (x0, y0) # supercover_loop (sgn1 (x1 - x0)) (sgn1 (y1 - y0))
     (nat \<bar>x1 - x0\<bar>) (nat \<bar>y1 - y0\<bar>) 0 0 x0 y0"
  by (simp add: supercover_def sgn1_def Let_def)

lemma supercover_sound:
  "set (supercover x0 y0 x1 y1) \<subseteq>
     {c \<in> box x0 y0 x1 y1. deviation x0 y0 x1 y1 c \<le> \<bar>x1 - x0\<bar> + \<bar>y1 - y0\<bar>}"
proof
  fix c
  assume "c \<in> set (supercover x0 y0 x1 y1)"
  from supercover_loop_band [OF _ _ _ _ _ this [unfolded supercover_steps], of x0 y0]
  obtain a b where "c = (x0 + sgn1 (x1 - x0) * int a, y0 + sgn1 (y1 - y0) * int b)"
    "a \<le> nat \<bar>x1 - x0\<bar>" "b \<le> nat \<bar>y1 - y0\<bar>"
    "\<bar>offset (nat \<bar>x1 - x0\<bar>) (nat \<bar>y1 - y0\<bar>) a b\<bar> \<le> \<bar>x1 - x0\<bar> + \<bar>y1 - y0\<bar>"
    by (auto simp: offset_def)
  then show "c \<in> {c \<in> box x0 y0 x1 y1. deviation x0 y0 x1 y1 c \<le> \<bar>x1 - x0\<bar> + \<bar>y1 - y0\<bar>}"
    by (auto simp: box_def axis_steps deviation_offset simp del: atLeastAtMost_iff)
qed

lemma supercover_complete:
  "{c \<in> box x0 y0 x1 y1. deviation x0 y0 x1 y1 c < \<bar>x1 - x0\<bar> + \<bar>y1 - y0\<bar>} \<subseteq>
     set (supercover x0 y0 x1 y1)"
proof
  fix c
  assume c: "c \<in> {c \<in> box x0 y0 x1 y1. deviation x0 y0 x1 y1 c < \<bar>x1 - x0\<bar> + \<bar>y1 - y0\<bar>}"
  then have "fst c \<in> {min x0 x1..max x0 x1}" "snd c \<in> {min y0 y1..max y0 y1}"
    by (simp_all only: box_def mem_Collect_eq mem_Times_iff)
  then obtain a b where "fst c = x0 + sgn1 (x1 - x0) * int a" "snd c = y0 + sgn1 (y1 - y0) * int b"
    and le: "a \<le> nat \<bar>x1 - x0\<bar>" "b \<le> nat \<bar>y1 - y0\<bar>" unfolding axis_steps by blast
  then have e: "c = (x0 + sgn1 (x1 - x0) * int a, y0 + sgn1 (y1 - y0) * int b)" by (simp add: prod_eq_iff)
  from c have "\<bar>offset (nat \<bar>x1 - x0\<bar>) (nat \<bar>y1 - y0\<bar>) a b\<bar> < \<bar>x1 - x0\<bar> + \<bar>y1 - y0\<bar>"
    by (simp add: e deviation_offset)
  with le show "c \<in> set (supercover x0 y0 x1 y1)"
    unfolding e supercover_steps by (intro supercover_loop_complete) simp_all
qed

section \<open>The zone search returns\<close>

text \<open>
  A queue entry carries the zones on the way to it as ghost data. Strengths only fall along a
  way, and the table \<open>best\<close> holds at least the strength of the entry for each of these zones,
  so a zone is never entered twice on one way. With \<open>K\<close> more than the number of portals, an
  entry whose way has \<open>k\<close> of \<open>N\<close> zones weighs \<open>K ^ (N - k)\<close>, and the weight of the queue falls.
\<close>

definition portal_ok :: "jdict \<Rightarrow> bool" where
  "portal_ok p \<longleftrightarrow> 0 \<le> vrat p ''sound_transmission'' \<and> vrat p ''sound_transmission'' \<le> 1 \<and>
     0 \<le> vrat p ''sight_transmission'' \<and> vrat p ''sight_transmission'' \<le> 1"

definition zones_of :: "string \<Rightarrow> jdict list \<Rightarrow> string set" where
  "zones_of start ps = insert start (set (map (\<lambda>p. vstr p ''from_zone_id'') ps) \<union>
     set (map (\<lambda>p. vstr p ''to_zone_id'') ps))"

type_synonym way = "string \<times> rat \<times> string set"

definition way_ok :: "pylib \<Rightarrow> string set \<Rightarrow> (string \<times> rat) list \<Rightarrow> way \<Rightarrow> bool" where
  "way_ok L Z best w = (case w of (z, q, A) \<Rightarrow> z \<in> Z \<and> A \<subseteq> Z \<and> 0 \<le> q \<and> fl L q = q \<and>
     (\<forall>a\<in>A. q \<le> dget_or best a 0))"

definition weight :: "nat \<Rightarrow> nat \<Rightarrow> way list \<Rightarrow> nat" where
  "weight K N ws = sum_list (map (\<lambda>w. K ^ (N - card (snd (snd w)))) ws)"

abbreviation entries :: "way list \<Rightarrow> (string \<times> rat) list" where
  "entries ws \<equiv> map (\<lambda>(z, q, A). (z, q)) ws"

lemma way_ok_mono:
  "way_ok L Z best w \<Longrightarrow> \<forall>a. dget_or best a 0 \<le> dget_or best' a 0 \<Longrightarrow> way_ok L Z best' w"
  by (cases w) (force simp: way_ok_def intro: order_trans)

lemma portal_base_unit:
  assumes "lawful_lib L" "portal_ok p"
  shows "0 \<le> portal_base L m p" "portal_base L m p \<le> 1"
proof -
  have f: "0 \<le> fl L (1 / 5)" "fl L (1 / 5) \<le> 1" by (rule lawful_fl_unit [OF assms(1)]; simp)+
  have "0 \<le> fl L (b * fl L (1 / 5)) \<and> fl L (b * fl L (1 / 5)) \<le> 1" if b: "0 \<le> b" "b \<le> 1" for b
  proof -
    from b f have "0 \<le> b * fl L (1 / 5)" "b * fl L (1 / 5) \<le> 1" by (simp_all add: mult_le_one)
    from lawful_fl_unit [OF assms(1) this] show ?thesis by simp
  qed
  with assms(2) show "0 \<le> portal_base L m p" "portal_base L m p \<le> 1"
    by (auto simp: portal_base_def portal_ok_def Let_def)
qed

lemma candidate_le:
  assumes "lawful_lib L" "portal_ok p" "0 \<le> q" "fl L q = q"
  shows "0 \<le> fl L (q * portal_base L m p)" "fl L (q * portal_base L m p) \<le> q"
proof -
  note b = portal_base_unit [OF assms(1,2), of m]
  have "0 \<le> q * portal_base L m p" using assms(3) b by simp
  from lawful_fl_mono [OF assms(1) this] show "0 \<le> fl L (q * portal_base L m p)"
    by (simp add: assms(1))
  have "q * portal_base L m p \<le> q" using assms(3) b by (simp add: mult_left_le)
  from lawful_fl_mono [OF assms(1) this] show "fl L (q * portal_base L m p) \<le> q"
    by (simp add: assms(4))
qed

text \<open>One scan appends at most one extended way per portal.\<close>

lemma scan_portals_ways:
  assumes "lawful_lib L" "\<forall>p\<in>set ps. portal_ok p" "zones_of start ps \<subseteq> Z"
    and "way_ok L Z best (z, q, A)"
    and "scan_portals L m goal z q ps queue best = Inr (queue', best')"
  shows "\<exists>new. queue' = queue @ entries new \<and> length new \<le> length ps \<and>
    (\<forall>a. dget_or best a 0 \<le> dget_or best' a 0) \<and>
    (\<forall>w\<in>set new. way_ok L Z best' w \<and> (\<exists>z'. z' \<notin> A \<and> snd (snd w) = insert z' A))"
  using assms(2-)
proof (induction ps arbitrary: queue best)
  case Nil
  then show ?case by (intro exI [of _ "[]"]) simp
next
  case (Cons p ps)
  let ?left = "vstr p ''from_zone_id''" and ?right = "vstr p ''to_zone_id''"
  let ?next = "if z = ?left then ?right else ?left"
  let ?c = "fl L (q * portal_base L m p)"
  have sub: "zones_of start ps \<subseteq> Z" and next_Z: "?next \<in> Z"
    using Cons.prems(2) by (auto simp: zones_of_def)
  have w: "z \<in> Z" "A \<subseteq> Z" "0 \<le> q" "fl L q = q" "\<forall>a\<in>A. q \<le> dget_or best a 0"
    using Cons.prems(3) by (simp_all add: way_ok_def)
  have pok: "portal_ok p" and psok: "\<forall>p\<in>set ps. portal_ok p" using Cons.prems(1) by simp_all
  note c = candidate_le [OF assms(1) pok w(3,4), of m]
  show ?case
  proof (cases "(z \<noteq> ?left \<and> z \<noteq> ?right) \<or> ?c \<le> dget_or best ?next 0")
    case True
    with Cons.prems(4) have "scan_portals L m goal z q ps queue best = Inr (queue', best')"
      by (auto simp: Let_def split: if_splits)
    from Cons.IH [OF psok sub Cons.prems(3) this] show ?thesis by fastforce
  next
    case False
    with Cons.prems(4) have rec: "scan_portals L m goal z q ps (queue @ [(?next, ?c)])
        (dset best ?next ?c) = Inr (queue', best')"
      by (auto simp: Let_def split: if_splits)
    have up: "dget_or best a 0 \<le> dget_or (dset best ?next ?c) a 0" for a
      using False by auto
    have "way_ok L Z (dset best ?next ?c) (z, q, A)"
      by (rule way_ok_mono [OF Cons.prems(3)]) (use up in blast)
    from Cons.IH [OF psok sub this rec] obtain new where
      new: "queue' = (queue @ [(?next, ?c)]) @ entries new" "length new \<le> length ps"
      "\<forall>a. dget_or (dset best ?next ?c) a 0 \<le> dget_or best' a 0"
      "\<forall>w\<in>set new. way_ok L Z best' w \<and> (\<exists>z'. z' \<notin> A \<and> snd (snd w) = insert z' A)" by blast
    have "?next \<notin> A"
    proof
      assume "?next \<in> A"
      with w(5) have "q \<le> dget_or best ?next 0" by (rule bspec)
      with c(2) have "?c \<le> dget_or best ?next 0" by (rule order_trans)
      with False show False by blast
    qed
    moreover have "?c \<le> dget_or best' ?next 0" using new(3) [rule_format, of ?next] by simp
    moreover have "\<forall>a\<in>A. ?c \<le> dget_or best' a 0"
      using w(5) c(2) up new(3) by (meson order_trans)
    ultimately have "way_ok L Z best' (?next, ?c, insert ?next A)"
      using w(2) next_Z c(1) lawful_fl_idem [OF assms(1)] by (simp add: way_ok_def)
    moreover have "\<forall>a. dget_or best a 0 \<le> dget_or best' a 0"
      using new(3) up by (meson order_trans)
    ultimately show ?thesis using new \<open>?next \<notin> A\<close>
      by (intro exI [of _ "(?next, ?c, insert ?next A) # new"]) auto
  qed
qed

lemma weight_new:
  assumes "\<forall>w\<in>set new. \<exists>z'. z' \<notin> A \<and> snd (snd w) = insert z' A \<and> insert z' A \<subseteq> Z"
    and "finite Z" "length new < K"
  shows "weight K (card Z) new < K ^ (card Z - card A)"
proof (cases new)
  case Nil
  with assms(3) show ?thesis by (simp add: weight_def)
next
  case (Cons w0 ws)
  with assms(1) obtain z0 where z0: "z0 \<notin> A" "insert z0 A \<subseteq> Z" by auto
  then have finA: "finite A" using assms(2) finite_subset by auto
  have "card (insert z0 A) \<le> card Z" using z0 assms(2) by (intro card_mono) simp_all
  with z0 finA have le: "card A + 1 \<le> card Z" by simp
  have each: "\<forall>w\<in>set new. K ^ (card Z - card (snd (snd w))) = K ^ (card Z - (card A + 1))"
    using assms(1) finA by auto
  have "weight K (card Z) new = sum_list (map (\<lambda>w. K ^ (card Z - card (snd (snd w)))) new)"
    by (simp add: weight_def)
  also have "\<dots> = sum_list (map (\<lambda>w. K ^ (card Z - (card A + 1))) new)"
    using each by (intro arg_cong [of _ _ sum_list] map_cong) auto
  also have "\<dots> = length new * K ^ (card Z - (card A + 1))" by (simp add: sum_list_triv)
  also have "\<dots> < K * K ^ (card Z - (card A + 1))" using assms(3) by simp
  also have "\<dots> = K ^ (card Z - card A)" using le
    by (metis Suc_diff_le Suc_eq_plus1 diff_Suc_Suc power_Suc)
  finally show ?thesis .
qed

lemma zone_loop_returns:
  assumes "lawful_lib L" "\<forall>p\<in>set ps. portal_ok p" "zones_of start ps \<subseteq> Z" "finite Z"
    and "\<forall>w\<in>set ws. way_ok L Z best w"
  shows "zone_loop L m ps goal (entries ws) best \<noteq> None"
  using assms(5)
proof (induction "weight (Suc (length ps)) (card Z) ws" arbitrary: ws best rule: less_induct)
  case less
  show ?case
  proof (cases ws)
    case Nil
    then show ?thesis by (simp add: zone_loop.simps)
  next
    case (Cons w ws')
    obtain z q A where w: "w = (z, q, A)" by (cases w)
    with Cons less.prems have ok: "way_ok L Z best (z, q, A)" by simp
    show ?thesis
    proof (cases "scan_portals L m goal z q ps (entries ws') best")
      case (Inl c)
      then show ?thesis by (simp add: Cons w zone_loop.simps)
    next
      case (Inr qb)
      obtain queue' best' where qb: "qb = (queue', best')" by (cases qb)
      from scan_portals_ways [OF assms(1-3) ok Inr [unfolded qb]] obtain new where
        q': "queue' = entries ws' @ entries new" and len: "length new \<le> length ps"
        and up: "\<forall>a. dget_or best a 0 \<le> dget_or best' a 0"
        and new: "\<forall>w\<in>set new. way_ok L Z best' w \<and> (\<exists>z'. z' \<notin> A \<and> snd (snd w) = insert z' A)" by blast
      have "\<forall>w\<in>set new. \<exists>z'. z' \<notin> A \<and> snd (snd w) = insert z' A \<and> insert z' A \<subseteq> Z"
        using new by (fastforce simp: way_ok_def)
      from weight_new [OF this assms(4)] len
      have "weight (Suc (length ps)) (card Z) new < Suc (length ps) ^ (card Z - card A)" by simp
      then have less_w: "weight (Suc (length ps)) (card Z) (ws' @ new) < weight (Suc (length ps)) (card Z) ws"
        by (simp add: weight_def Cons w)
      have "\<forall>w\<in>set (ws' @ new). way_ok L Z best' w"
        using new less.prems way_ok_mono [OF _ up] by (auto simp: Cons)
      from less.hyps [OF less_w this] q' have "zone_loop L m ps goal queue' best' \<noteq> None" by simp
      then show ?thesis by (subst zone_loop.simps) (simp add: Cons w Inr qb)
    qed
  qed
qed

lemma zone_transmission_returns:
  assumes "lawful_lib L" "\<forall>p\<in>set ps. portal_ok p"
  shows "zone_transmission L m start goal ps \<noteq> None"
proof -
  have "way_ok L (zones_of start ps) [(start, 1)] (start, 1, {start})"
    using assms(1) by (simp add: way_ok_def zones_of_def dget_or_def)
  then have "zone_loop L m ps goal (entries [(start, 1, {start})]) [(start, 1)] \<noteq> None"
    by (intro zone_loop_returns [OF assms, of start "zones_of start ps"]) (simp_all add: zones_of_def)
  then show ?thesis by (simp add: zone_transmission_def)
qed

text \<open>What the search finds is a chain of portals that carry the sense.\<close>

definition passage :: "pylib \<Rightarrow> modality \<Rightarrow> jdict list \<Rightarrow> (string \<times> string) set" where
  "passage L m ps = {(a, b). \<exists>p\<in>set ps. 0 < portal_base L m p \<and>
     {a, b} = {vstr p ''from_zone_id'', vstr p ''to_zone_id''}}"

definition reaches :: "pylib \<Rightarrow> modality \<Rightarrow> jdict list \<Rightarrow> string \<Rightarrow> string \<times> rat \<Rightarrow> bool" where
  "reaches L m ps start = (\<lambda>(z, q). (start, z) \<in> (passage L m ps)\<^sup>* \<and> 0 < q \<and> q \<le> 1 \<and> fl L q = q)"

lemma scan_portals_reaches:
  assumes "lawful_lib L" "\<forall>p\<in>set ps. portal_ok p" "set ps \<subseteq> set all" "reaches L m all start (z, q)"
    and "\<forall>w\<in>set queue. reaches L m all start w" "\<forall>a. 0 \<le> dget_or best a 0"
  shows "case scan_portals L m goal z q ps queue best of
    Inl c \<Rightarrow> reaches L m all start (goal, c)
  | Inr (queue', best') \<Rightarrow> (\<forall>w\<in>set queue'. reaches L m all start w) \<and> (\<forall>a. 0 \<le> dget_or best' a 0)"
  using assms(2-)
proof (induction ps arbitrary: queue best)
  case Nil
  then show ?case by simp
next
  case (Cons p ps)
  let ?left = "vstr p ''from_zone_id''" and ?right = "vstr p ''to_zone_id''"
  let ?next = "if z = ?left then ?right else ?left"
  let ?c = "fl L (q * portal_base L m p)"
  have IH: "case scan_portals L m goal z q ps queue' best' of
      Inl c \<Rightarrow> reaches L m all start (goal, c)
    | Inr (queue', best') \<Rightarrow> (\<forall>w\<in>set queue'. reaches L m all start w) \<and> (\<forall>a. 0 \<le> dget_or best' a 0)"
    if "\<forall>w\<in>set queue'. reaches L m all start w" "\<forall>a. 0 \<le> dget_or best' a 0" for queue' best'
    using Cons.prems that by (intro Cons.IH) simp_all
  show ?case
  proof (cases "(z \<noteq> ?left \<and> z \<noteq> ?right) \<or> ?c \<le> dget_or best ?next 0")
    case True
    then have "scan_portals L m goal z q (p # ps) queue best = scan_portals L m goal z q ps queue best"
      by (auto simp: Let_def)
    with IH [OF Cons.prems(4,5)] show ?thesis by simp
  next
    case False
    have q: "0 < q" "q \<le> 1" "fl L q = q" "(start, z) \<in> (passage L m all)\<^sup>*"
      using Cons.prems(3) by (simp_all add: reaches_def)
    have pok: "portal_ok p" using Cons.prems(1) by simp
    have "0 \<le> q" using q(1) by simp
    note c = candidate_le [OF assms(1) pok this q(3), of m] and b = portal_base_unit(1) [OF assms(1) pok, of m]
    have "dget_or best ?next 0 < ?c" using False by (simp only: de_Morgan_disj not_le)
    with spec [OF Cons.prems(5), of ?next] have pos: "0 < ?c" by (rule le_less_trans)
    then have "portal_base L m p \<noteq> 0" using assms(1) by auto
    with b have "0 < portal_base L m p" by simp
    moreover have "p \<in> set all" using Cons.prems(2) by simp
    moreover have "{z, ?next} = {?left, ?right}" using False by (cases "z = ?left") auto
    ultimately have "(z, ?next) \<in> passage L m all" unfolding passage_def by blast
    with q(4) have "(start, ?next) \<in> (passage L m all)\<^sup>*" by (rule rtrancl_into_rtrancl)
    moreover have "?c \<le> 1" using c(2) q(2) by (rule order_trans)
    ultimately have r: "reaches L m all start (?next, ?c)"
      unfolding reaches_def using pos lawful_fl_idem [OF assms(1)] by blast
    show ?thesis
    proof (cases "?next = goal")
      case True
      with False have "scan_portals L m goal z q (p # ps) queue best = Inl ?c" by (auto simp: Let_def)
      with r True show ?thesis by simp
    next
      case other: False
      with False have "scan_portals L m goal z q (p # ps) queue best =
        scan_portals L m goal z q ps (queue @ [(?next, ?c)]) (dset best ?next ?c)"
        by (auto simp: Let_def)
      moreover have "\<forall>w\<in>set (queue @ [(?next, ?c)]). reaches L m all start w" using Cons.prems(4) r by simp
      moreover have "\<forall>a. 0 \<le> dget_or (dset best ?next ?c) a 0" using Cons.prems(5) c(1) by auto
      ultimately show ?thesis using IH by presburger
    qed
  qed
qed

lemma zone_loop_reaches:
  assumes "lawful_lib L" "\<forall>p\<in>set ps. portal_ok p" "zone_loop L m ps goal queue best = Some q"
    and "\<forall>w\<in>set queue. reaches L m ps start w" "\<forall>a. 0 \<le> dget_or best a 0"
  shows "q = 0 \<or> reaches L m ps start (goal, q)"
proof -
  have "lawful_lib L \<longrightarrow> (\<forall>p\<in>set ps. portal_ok p) \<longrightarrow> (\<forall>w\<in>set queue. reaches L m ps start w) \<longrightarrow>
    (\<forall>a. 0 \<le> dget_or best a 0) \<longrightarrow> q = 0 \<or> reaches L m ps start (goal, q)"
  proof (rule zone_loop.raw_induct [where P = "\<lambda>L m ps goal queue best q. lawful_lib L \<longrightarrow>
    (\<forall>p\<in>set ps. portal_ok p) \<longrightarrow> (\<forall>w\<in>set queue. reaches L m ps start w) \<longrightarrow>
    (\<forall>a. 0 \<le> dget_or best a 0) \<longrightarrow> q = 0 \<or> reaches L m ps start (goal, q)", OF _ assms(3)], intro impI, goal_cases)
  case (1 f L m ps goal queue best q)
  show ?case
  proof (cases queue)
    case Nil
    with 1(2) show ?thesis by simp
  next
    case (Cons w rest)
    obtain z strength where w: "w = (z, strength)" by (cases w)
    with 1(5) Cons have here: "reaches L m ps start (z, strength)" and rest: "\<forall>w\<in>set rest. reaches L m ps start w"
      by simp_all
    note scan = scan_portals_reaches [OF 1(3) _ subset_refl here rest 1(6), of goal]
    show ?thesis
    proof (cases "scan_portals L m goal z strength ps rest best")
      case (Inl c)
      with scan 1(2,4) show ?thesis by (simp add: Cons w)
    next
      case (Inr qb)
      obtain queue' best' where qb: "qb = (queue', best')" by (cases qb)
      have "f L m ps goal queue' best' = Some q" using 1(2) by (simp add: Cons w Inr qb)
      moreover have "(\<forall>w\<in>set queue'. reaches L m ps start w) \<and> (\<forall>a. 0 \<le> dget_or best' a 0)"
        using scan 1(4) by (simp add: Inr qb)
      ultimately show ?thesis using 1(1) [of L m ps goal queue' best' q] 1(3,4) by blast
    qed
  qed
  qed
  with assms show ?thesis by blast
qed

lemma zone_transmission_reaches:
  assumes "lawful_lib L" "\<forall>p\<in>set ps. portal_ok p" "zone_transmission L m start goal ps = Some q"
  shows "q = 0 \<or> reaches L m ps start (goal, q)"
  using assms(3) unfolding zone_transmission_def
  by (rule zone_loop_reaches [OF assms(1,2)])
    (use assms(1) in \<open>auto simp: reaches_def dget_or_def\<close>)

end
