(* ===== verification/SpatialPerception.thy ===== *)
theory SpatialPerception
  imports SpatialGrid
begin

text \<open>
  The resolver of \<open>domains/tabletop/spatial/perception.py\<close>: the confidence of sound and sight,
  the grants for an event, and the current view of an entity. Float arithmetic rounds every
  operation with \<open>fl\<close>, in the order of the source.
\<close>

section \<open>Confidence\<close>

definition cell_of :: "jdict \<Rightarrow> int \<times> int \<times> int" where
  "cell_of p = (vint p ''x'', vint p ''y'', vint p ''z'')"

definition zone_or_world :: "(string \<times> jdict) list \<Rightarrow> string \<Rightarrow> jdict" where
  "zone_or_world zs z = dget_or zs z (dget_or zs ''world'' world_zone)"

definition point05 :: "pylib \<Rightarrow> rat" where
  "point05 L = fl L (1 / 20)"

text \<open>
  A loop that does not return has no confidence; \<open>zone_loop_returns\<close> shows that this branch
  is not taken.
\<close>

definition sound_confidence ::
  "pylib \<Rightarrow> jdict \<Rightarrow> jdict \<Rightarrow> emission \<Rightarrow> (string \<times> jdict) list \<Rightarrow> jdict list \<Rightarrow> jdict list \<Rightarrow>
   (rat \<times> string list) option" where
  "sound_confidence L src observer em zs ps os =
     (let src_zone = vstr src ''zone_id''; obs_zone = vstr observer ''zone_id'' in
      case (if src_zone \<noteq> obs_zone then zone_transmission L SOUND src_zone obs_zone ps else Some 1) of
        None \<Rightarrow> None
      | Some transmission \<Rightarrow> Some (
          if src_zone \<noteq> obs_zone \<and> transmission \<le> 0 then (0, [])
          else
            (let reasons = (if src_zone \<noteq> obs_zone then [''sound.portal_path''] else [''sound.same_zone'']);
                 dist = dist3 L (cell_of src) (cell_of observer);
                 distance = (if src_zone \<noteq> obs_zone then max dist 4 else dist);
                 noise = vrat (zone_or_world zs obs_zone) ''ambient_noise'';
                 line = set (between_cells src observer);
                 attenuation = (if src_zone = obs_zone
                   then fold (\<lambda>oc att. if vstr oc ''zone_id'' = src_zone \<and>
                                         (vint oc ''x'', vint oc ''y'') \<in> line
                                      then fl L (att * vrat oc ''sound_attenuation'') else att) os 1
                   else 1);
                 range0 = fl L (fl L (fl L (em_max_range em * em_intensity em) * transmission) * attenuation);
                 effective_range = fl L (range0 * max (point05 L) (fl L (1 - noise)))
             in if effective_range \<le> 0 \<or> effective_range < distance then (0, [])
                else (max (point05 L) (fl L (1 - fl L (distance / max effective_range 1))), reasons))))"

definition sight_confidence ::
  "pylib \<Rightarrow> jdict \<Rightarrow> jdict \<Rightarrow> emission \<Rightarrow> (string \<times> jdict) list \<Rightarrow> jdict list \<Rightarrow> rat \<times> string list" where
  "sight_confidence L src observer em zs os =
     (let zone = vstr src ''zone_id'' in
      if zone \<noteq> vstr observer ''zone_id'' then (0, [])
      else
        (let distance = dist3 L (cell_of src) (cell_of observer);
             light = vrat (zone_or_world zs zone) ''ambient_light'';
             effective_range = fl L (em_max_range em * max (point05 L) light)
         in if effective_range < distance then (0, [])
            else
              (let line = set (between_cells src observer);
                   opacity = foldl (\<lambda>acc oc. if vstr oc ''zone_id'' = zone \<and>
                                              (vint oc ''x'', vint oc ''y'') \<in> line
                                           then fl L (acc + vrat oc ''sight_opacity'') else acc) 0 os
               in if 1 \<le> opacity then (0, [])
                  else (max (point05 L)
                          (fl L (fl L (1 - fl L (distance / max effective_range 1)) * fl L (1 - opacity))),
                        [''sight.line_of_sight'']))))"

section \<open>The resolver\<close>

definition anchor_json :: "anchor \<Rightarrow> jval" where
  "anchor_json a = (let num = (\<lambda>q. case q of None \<Rightarrow> JNull | Some r \<Rightarrow> JFloat r) in JDict
     [(''entity_id'', opt_str (an_entity_id a)),
      (''phase'', JStr (case an_phase a of BEFORE \<Rightarrow> ''BEFORE'' | AFTER \<Rightarrow> ''AFTER'' | EXPLICIT \<Rightarrow> ''EXPLICIT'')),
      (''zone_id'', opt_str (an_zone_id a)), (''x'', num (an_x a)), (''y'', num (an_y a)), (''z'', num (an_z a))])"

definition modality_value :: "modality \<Rightarrow> string" where
  "modality_value m = (case m of SIGHT \<Rightarrow> ''SIGHT'' | SOUND \<Rightarrow> ''SOUND'' | TOUCH \<Rightarrow> ''TOUCH'' | MAGIC \<Rightarrow> ''MAGIC'')"

definition emission_json :: "emission \<Rightarrow> jval" where
  "emission_json em = JDict
     [(''anchor'', anchor_json (em_anchor em)),
      (''modalities'', JList (map (\<lambda>m. JStr (modality_value m)) (em_modalities em))),
      (''intensity'', JFloat (em_intensity em)), (''max_range'', JFloat (em_max_range em)),
      (''allowed_payload_fields'', (case em_allowed_payload_fields em of
         None \<Rightarrow> JNull | Some fs \<Rightarrow> JList (map JStr fs))),
      (''hidden_payload_fields'', JList (map JStr (sorted_list_of_set (em_hidden_payload_fields em)))),
      (''payload_overrides'', JDict (em_payload_overrides em)),
      (''reason_codes'', JList (map JStr (em_reason_codes em)))]"

definition resolver_version :: string where
  "resolver_version = ''grid-spatial-perception-1.0.0''"

definition context_hash ::
  "pylib \<Rightarrow> branch_state \<Rightarrow> branch_state \<Rightarrow> emission \<Rightarrow> (uuid \<times> jdict) list \<Rightarrow> (string \<times> jdict) list \<Rightarrow>
   jdict list \<Rightarrow> jdict list \<Rightarrow> (string \<times> jval) list \<Rightarrow> string" where
  "context_hash L before after em pos zs ps os profiles = stable_hash L (JDict
     [(''before_hash'', JStr (state_hash L before)), (''after_hash'', JStr (state_hash L after)),
      (''emission'', emission_json em),
      (''positions'', JDict (map (\<lambda>(k, d). (k, JDict ((''entity_id'', JStr k) # d))) (sort_key fst pos))),
      (''zones'', JDict (map (\<lambda>(k, d). (k, JDict d)) zs)),
      (''portals'', JList (map JDict ps)), (''occluders'', JList (map JDict os)),
      (''sensor_profiles'', JDict profiles), (''resolver_version'', JStr resolver_version)])"

text \<open>One sense of one observer: perceived modality, weighted confidence and reasons.\<close>

definition weigh :: "pylib \<Rightarrow> jdict \<Rightarrow> string \<Rightarrow> modality \<Rightarrow> rat \<times> string list \<Rightarrow> (modality \<times> rat \<times> string list) list res" where
  "weigh L profile acuity m = (\<lambda>(confidence, reasons).
     if 0 < confidence
     then bindR (py_float L (dget_or profile acuity (JFloat 1))) (\<lambda>q.
          Inr [(m, fl L (confidence * q), reasons)])
     else Inr [])"

definition perceive ::
  "pylib \<Rightarrow> jdict \<Rightarrow> jdict \<Rightarrow> jdict \<Rightarrow> emission \<Rightarrow> (string \<times> jdict) list \<Rightarrow> jdict list \<Rightarrow> jdict list \<Rightarrow>
   (modality \<times> rat \<times> string list) list res" where
  "perceive L profile src observer em zs ps os =
     bindR (if SOUND \<in> set (em_modalities em) \<and> \<not> py_bool (dget_or profile ''deafened'' JNull)
            then (case sound_confidence L src observer em zs ps os of
                    None \<Rightarrow> Inl (RuntimeError ''zone transmission does not return'')
                  | Some c \<Rightarrow> weigh L profile ''hearing_acuity'' SOUND c)
            else Inr []) (\<lambda>heard.
     bindR (if SIGHT \<in> set (em_modalities em) \<and> \<not> py_bool (dget_or profile ''blinded'' JNull)
            then weigh L profile ''sight_acuity'' SIGHT (sight_confidence L src observer em zs os)
            else Inr []) (\<lambda>seen.
     Inr (heard @ seen)))"

definition grant_for ::
  "pylib \<Rightarrow> uuid \<Rightarrow> proposal \<Rightarrow> emission \<Rightarrow> string \<Rightarrow> uuid \<Rightarrow> jdict \<Rightarrow> (modality \<times> rat \<times> string list) list \<Rightarrow> grant res" where
  "grant_for L event_id p em ctx entity_id profile senses =
     (let confidence = round6 L (max 0 (min 1 (foldr max (map (fst \<circ> snd) senses) (fst (snd (hd senses))))));
          controller = (if Some entity_id = p_embodied_entity_id p then JStr (p_actor_id p)
                        else dget_or profile ''controller_actor_id'' JNull) in
      bindR (if py_bool controller then bindR (parse_uuid L (py_str L controller)) (\<lambda>u. Inr (Some u))
             else Inr None) (\<lambda>controller_id.
      Inr \<lparr>g_event_id = event_id, g_world_id = p_world_id p, g_branch_id = p_branch_id p,
           g_observer_entity_id = entity_id, g_controller_actor_id = controller_id,
           g_modalities = [m \<leftarrow> [SIGHT, SOUND]. m \<in> set (map fst senses)],
           g_outcome = (if 3 / 4 \<le> confidence then DIRECT else PARTIAL), g_confidence = confidence,
           g_allowed_payload_fields = em_allowed_payload_fields em,
           g_hidden_payload_fields = em_hidden_payload_fields em,
           g_payload_overrides = em_payload_overrides em,
           g_reason_codes = sort (remdups (em_reason_codes em @ concat (map (snd \<circ> snd) senses))),
           g_resolver_version = resolver_version, g_spatial_context_hash = ctx\<rparr>))"

text \<open>The body of the loop over the observers, and of the loop of \<open>visible_entities\<close>.\<close>

definition resolve_step ::
  "pylib \<Rightarrow> uuid \<Rightarrow> proposal \<Rightarrow> emission \<Rightarrow> string \<Rightarrow> jdict \<Rightarrow> (string \<times> jdict) list \<Rightarrow> jdict list \<Rightarrow>
   jdict list \<Rightarrow> (string \<times> jval) list \<Rightarrow> grant list \<Rightarrow> uuid \<times> jdict \<Rightarrow> grant list res" where
  "resolve_step L event_id p em ctx src zs ps os profiles grants = (\<lambda>(entity_id, observer).
     bindR (as_mapping (dget_or profiles entity_id (JDict []))) (\<lambda>profile.
     bindR (perceive L profile src observer em zs ps os) (\<lambda>senses.
     if senses = [] then Inr grants
     else bindR (grant_for L event_id p em ctx entity_id profile senses) (\<lambda>g.
          Inr (grants @ [g])))))"

definition grid_resolver :: "pylib \<Rightarrow> resolver" where
  "grid_resolver L event_id p emission before after =
     (case emission of
        None \<Rightarrow> Inr []
      | Some em \<Rightarrow>
          if em_modalities em = [] then Inr []
          else
            (let st = (if an_phase (em_anchor em) = BEFORE then before else after) in
             bindR (positions L st) (\<lambda>pos.
             (case origin em pos of
                None \<Rightarrow> Inr []
              | Some src \<Rightarrow>
                  bindR (zones L st) (\<lambda>zs.
                  bindR (portals L st) (\<lambda>ps.
                  bindR (occluders L st) (\<lambda>os.
                  let profiles = bucket st ''tabletop.sensory_profiles'';
                      ctx = context_hash L before after em pos zs ps os profiles in
                  foldR (resolve_step L event_id p em ctx src zs ps os profiles) []
                    (sort_key fst pos))))))))"

definition sight_emission :: "uuid \<Rightarrow> rat \<Rightarrow> emission" where
  "sight_emission e max_range = \<lparr>em_anchor = entity_anchor e AFTER, em_modalities = [SIGHT],
     em_intensity = 1, em_max_range = max_range, em_allowed_payload_fields = None,
     em_hidden_payload_fields = {}, em_payload_overrides = [], em_reason_codes = []\<rparr>"

definition visible_step ::
  "pylib \<Rightarrow> uuid \<Rightarrow> jdict \<Rightarrow> rat \<Rightarrow> (string \<times> jdict) list \<Rightarrow> jdict list \<Rightarrow> (string \<times> jval) list \<Rightarrow>
   (uuid \<times> rat) list \<Rightarrow> uuid \<times> jdict \<Rightarrow> (uuid \<times> rat) list res" where
  "visible_step L observer_id observer max_range zs os profiles visible = (\<lambda>(target_id, target).
     if target_id = observer_id then Inr visible
     else
       bindR (as_mapping (dget_or profiles target_id (JDict []))) (\<lambda>profile.
       if py_bool (dget_or profile ''invisible'' JNull) then Inr visible
       else
         (let confidence = fst (sight_confidence L target observer
                (sight_emission target_id max_range) zs os) in
          if 0 < confidence then Inr (dset visible target_id (round6 L confidence))
          else Inr visible)))"

definition visible_entities :: "pylib \<Rightarrow> branch_state \<Rightarrow> uuid \<Rightarrow> rat \<Rightarrow> (uuid \<times> rat) list res" where
  "visible_entities L s observer_id max_range =
     bindR (positions L s) (\<lambda>pos.
     (case dget pos observer_id of
        None \<Rightarrow> Inr []
      | Some observer \<Rightarrow>
          bindR (zones L s) (\<lambda>zs.
          bindR (occluders L s) (\<lambda>os.
          let profiles = bucket s ''tabletop.sensory_profiles'' in
          foldR (visible_step L observer_id observer max_range zs os profiles) [(observer_id, 1)]
            (sort_key fst pos)))))"

section \<open>Sight\<close>

definition occluder_ok :: "jdict \<Rightarrow> bool" where
  "occluder_ok d \<longleftrightarrow> 0 \<le> vrat d ''sight_opacity'' \<and> vrat d ''sight_opacity'' \<le> 1"

abbreviation blocks :: "string \<Rightarrow> (int \<times> int) set \<Rightarrow> jdict \<Rightarrow> bool" where
  "blocks zone line d \<equiv> vstr d ''zone_id'' = zone \<and> (vint d ''x'', vint d ''y'') \<in> line"

definition opacity_sum :: "pylib \<Rightarrow> string \<Rightarrow> (int \<times> int) set \<Rightarrow> rat \<Rightarrow> jdict list \<Rightarrow> rat" where
  "opacity_sum L zone line = foldl (\<lambda>acc d. if blocks zone line d
     then fl L (acc + vrat d ''sight_opacity'') else acc)"

lemma opacity_sum_ge:
  assumes "lawful_lib L" "\<forall>d\<in>set os. occluder_ok d" "0 \<le> acc" "fl L acc = acc"
  shows "acc \<le> opacity_sum L zone line acc os"
  using assms(2-)
proof (induction os arbitrary: acc)
  case Nil
  then show ?case by (simp add: opacity_sum_def)
next
  case (Cons d os)
  let ?a = "fl L (acc + vrat d ''sight_opacity'')"
  have "acc \<le> acc + vrat d ''sight_opacity''" using Cons.prems(1) by (simp add: occluder_ok_def)
  from lawful_fl_mono [OF assms(1) this] Cons.prems(3) have a: "acc \<le> ?a" by simp
  have "?a \<le> opacity_sum L zone line ?a os"
    using Cons.prems a lawful_fl_idem [OF assms(1)] by (intro Cons.IH) simp_all
  moreover have "acc \<le> opacity_sum L zone line acc os" using Cons.prems by (intro Cons.IH) simp_all
  ultimately show ?case using a by (simp add: opacity_sum_def)
qed

text \<open>An opaque cell on the line makes the sum at least one.\<close>

lemma opacity_sum_wall:
  assumes "lawful_lib L" "\<forall>d\<in>set os. occluder_ok d" "0 \<le> acc" "fl L acc = acc"
    and "w \<in> set os" "blocks zone line w" "vrat w ''sight_opacity'' = 1"
  shows "1 \<le> opacity_sum L zone line acc os"
  using assms(2-5)
proof (induction os arbitrary: acc)
  case Nil
  then show ?case by simp
next
  case (Cons d os)
  let ?a = "fl L (acc + vrat d ''sight_opacity'')"
  have "0 \<le> vrat d ''sight_opacity''" using Cons.prems(1) by (simp add: occluder_ok_def)
  with Cons.prems(2) have "0 \<le> acc + vrat d ''sight_opacity''" by simp
  from lawful_fl_mono [OF assms(1) this] have a: "0 \<le> ?a" by (simp add: assms(1))
  have fa: "fl L ?a = ?a" by (rule lawful_fl_idem [OF assms(1)])
  have ok: "\<forall>d\<in>set os. occluder_ok d" using Cons.prems(1) by simp
  show ?case
  proof (cases "d = w")
    case True
    have "1 \<le> acc + vrat d ''sight_opacity''" using Cons.prems(2) assms(7) True by simp
    from lawful_fl_mono [OF assms(1) this] have "1 \<le> ?a" by (simp add: assms(1))
    moreover have "?a \<le> opacity_sum L zone line ?a os"
      by (rule opacity_sum_ge [OF assms(1) ok a fa])
    ultimately show ?thesis using True assms(6) by (simp add: opacity_sum_def)
  next
    case False
    with Cons.prems(4) have "w \<in> set os" by simp
    with Cons.IH [OF ok a fa] Cons.IH [OF ok Cons.prems(2,3)] show ?thesis
      by (simp add: opacity_sum_def)
  qed
qed

lemma sight_confidence_alt:
  "fst (sight_confidence L src ob em zs os) =
     (let zone = vstr src ''zone_id''; d = dist3 L (cell_of src) (cell_of ob);
          r = fl L (em_max_range em * max (point05 L) (vrat (zone_or_world zs zone) ''ambient_light''));
          op = opacity_sum L zone (set (between_cells src ob)) 0 os in
      if zone \<noteq> vstr ob ''zone_id'' \<or> r < d \<or> 1 \<le> op then 0
      else max (point05 L) (fl L (fl L (1 - fl L (d / max r 1)) * fl L (1 - op))))"
  by (simp add: sight_confidence_def opacity_sum_def Let_def)

lemma point05_unit: "lawful_lib L \<Longrightarrow> 0 \<le> point05 L" "lawful_lib L \<Longrightarrow> point05 L \<le> 1"
  unfolding point05_def by (rule lawful_fl_unit; simp)+

lemma unit_fraction: "0 \<le> d \<Longrightarrow> d \<le> r \<Longrightarrow> 0 \<le> d / max r 1 \<and> d / max r 1 \<le> (1 :: rat)"
  by (auto simp: max_def divide_le_eq)

lemma sight_confidence_unit:
  assumes "lawful_lib L" "\<forall>d\<in>set os. occluder_ok d"
  shows "0 \<le> fst (sight_confidence L src ob em zs os)" "fst (sight_confidence L src ob em zs os) \<le> 1"
proof -
  let ?d = "dist3 L (cell_of src) (cell_of ob)"
  let ?r = "fl L (em_max_range em * max (point05 L)
    (vrat (zone_or_world zs (vstr src ''zone_id'')) ''ambient_light''))"
  let ?op = "opacity_sum L (vstr src ''zone_id'') (set (between_cells src ob)) 0 os"
  note p = point05_unit [OF assms(1)]
  have op: "0 \<le> ?op" using opacity_sum_ge [OF assms, of 0] by (simp add: assms(1))
  have "0 \<le> fl L (fl L (1 - fl L (?d / max ?r 1)) * fl L (1 - ?op)) \<and>
    fl L (fl L (1 - fl L (?d / max ?r 1)) * fl L (1 - ?op)) \<le> 1" if "?d \<le> ?r" "?op < 1"
  proof -
    from unit_fraction [OF lawful_dist [OF assms(1)] that(1)]
    have "0 \<le> ?d / max ?r 1" "?d / max ?r 1 \<le> 1" by simp_all
    from lawful_fl_unit [OF assms(1) this] have "0 \<le> 1 - fl L (?d / max ?r 1)"
      "1 - fl L (?d / max ?r 1) \<le> 1" by simp_all
    note a = lawful_fl_unit [OF assms(1) this]
    have "0 \<le> 1 - ?op" "1 - ?op \<le> 1" using op that by simp_all
    note b = lawful_fl_unit [OF assms(1) this]
    have "0 \<le> fl L (1 - fl L (?d / max ?r 1)) * fl L (1 - ?op)"
      "fl L (1 - fl L (?d / max ?r 1)) * fl L (1 - ?op) \<le> 1"
      using a b by (simp_all add: mult_le_one)
    from lawful_fl_unit [OF assms(1) this] show ?thesis by simp
  qed
  then show "0 \<le> fst (sight_confidence L src ob em zs os)"
    "fst (sight_confidence L src ob em zs os) \<le> 1"
    using p by (auto simp: sight_confidence_alt Let_def not_less not_le max_def)
qed

lemma wall_blocks_sight:
  assumes "lawful_lib L" "\<forall>d\<in>set os. occluder_ok d" "w \<in> set os"
    and "blocks (vstr src ''zone_id'') (set (between_cells src ob)) w" "vrat w ''sight_opacity'' = 1"
  shows "fst (sight_confidence L src ob em zs os) = 0"
proof -
  have "1 \<le> opacity_sum L (vstr src ''zone_id'') (set (between_cells src ob)) 0 os"
    using opacity_sum_wall [OF assms(1,2) _ _ assms(3-5), of 0] assms(1) by simp
  then show ?thesis unfolding sight_confidence_alt Let_def by (intro if_P disjI2)
qed

lemma occluders_ok:
  assumes "occluders L s = Inr os"
  shows "\<forall>d\<in>set os. occluder_ok d"
proof
  fix d assume "d \<in> set os"
  from mapR_set [OF assms [unfolded occluders_def] this] obtain raw where
    v: "model_validate L (SpatialOccluder L) raw = Inr d" by auto
  from validated_float [OF v, of "''sight_opacity''" "Some 0" "Some 1" "Some (JFloat 1)"]
  show "occluder_ok d" by (simp add: SpatialOccluder_def occluder_ok_def in_bounds_def)
qed

lemma portals_ok:
  assumes "portals L s = Inr ps"
  shows "\<forall>d\<in>set ps. portal_ok d"
proof
  fix d assume "d \<in> set ps"
  from mapR_set [OF assms [unfolded portals_def] this] obtain raw where
    v: "model_validate L SpatialPortal raw = Inr d" by (auto simp: bindR_eq_Inr)
  from validated_float [OF v, of "''sight_transmission''" "Some 0" "Some 1" "Some (JFloat 1)"]
    validated_float [OF v, of "''sound_transmission''" "Some 0" "Some 1" "Some (JFloat 1)"]
  show "portal_ok d" by (simp add: SpatialPortal_def portal_ok_def in_bounds_def)
qed

text \<open>On the portals a branch holds, the sound computation returns.\<close>

lemma sound_confidence_returns:
  assumes "lawful_lib L" "portals L s = Inr ps"
  shows "sound_confidence L src ob em zs ps os \<noteq> None"
  using zone_transmission_returns [OF assms(1) portals_ok [OF assms(2)], of SOUND
    "vstr src ''zone_id''" "vstr ob ''zone_id''"]
  by (auto simp: sound_confidence_def Let_def split: option.splits)

section \<open>What an entity sees\<close>

lemma visible_step_Inr:
  assumes "visible_step L o_id ob rng zs os profiles vis (t_id, t) = Inr vis'"
  shows "vis' = vis \<or> (t_id \<noteq> o_id \<and> vis' = dset vis t_id
      (round6 L (fst (sight_confidence L t ob (sight_emission t_id rng) zs os))) \<and>
    0 < fst (sight_confidence L t ob (sight_emission t_id rng) zs os) \<and>
    (\<exists>profile. dget_or profiles t_id (JDict []) = JDict profile \<and>
       \<not> py_bool (dget_or profile ''invisible'' JNull)))"
  using assms by (auto simp: visible_step_def bindR_eq_Inr Let_def split: if_splits)

section \<open>Grants\<close>

lemma grant_for_Inr:
  assumes "grant_for L ev p em ctx e profile senses = Inr g"
  shows "g_event_id g = ev" "g_world_id g = p_world_id p" "g_branch_id g = p_branch_id p"
    "g_observer_entity_id g = e" "g_modalities g = [m \<leftarrow> [SIGHT, SOUND]. m \<in> set (map fst senses)]"
    "g_allowed_payload_fields g = em_allowed_payload_fields em"
    "g_hidden_payload_fields g = em_hidden_payload_fields em"
    "lawful_lib L \<Longrightarrow> 0 \<le> g_confidence g \<and> g_confidence g \<le> 1"
    "g_outcome g = DIRECT \<longleftrightarrow> 3 / 4 \<le> g_confidence g"
    "p_embodied_entity_id p = Some e \<Longrightarrow> p_actor_id p \<noteq> [] \<Longrightarrow>
       g_controller_actor_id g = uuid_of L (p_actor_id p)"
proof -
  let ?q = "max 0 (min 1 (foldr max (map (fst \<circ> snd) senses) (fst (snd (hd senses)))))"
  from assms obtain c where g: "g = \<lparr>g_event_id = ev, g_world_id = p_world_id p, g_branch_id = p_branch_id p,
     g_observer_entity_id = e, g_controller_actor_id = c,
     g_modalities = [m \<leftarrow> [SIGHT, SOUND]. m \<in> set (map fst senses)],
     g_outcome = (if 3 / 4 \<le> round6 L ?q then DIRECT else PARTIAL), g_confidence = round6 L ?q,
     g_allowed_payload_fields = em_allowed_payload_fields em,
     g_hidden_payload_fields = em_hidden_payload_fields em,
     g_payload_overrides = em_payload_overrides em,
     g_reason_codes = sort (remdups (em_reason_codes em @ concat (map (snd \<circ> snd) senses))),
     g_resolver_version = resolver_version, g_spatial_context_hash = ctx\<rparr>"
    and c: "(let ct = (if Some e = p_embodied_entity_id p then JStr (p_actor_id p)
               else dget_or profile ''controller_actor_id'' JNull) in
      if py_bool ct then bindR (parse_uuid L (py_str L ct)) (\<lambda>u. Inr (Some u)) else Inr None) = Inr c"
    by (auto simp: grant_for_def bindR_eq_Inr Let_def)
  show "g_event_id g = ev" "g_world_id g = p_world_id p" "g_branch_id g = p_branch_id p"
    "g_observer_entity_id g = e" "g_modalities g = [m \<leftarrow> [SIGHT, SOUND]. m \<in> set (map fst senses)]"
    "g_allowed_payload_fields g = em_allowed_payload_fields em"
    "g_hidden_payload_fields g = em_hidden_payload_fields em"
    "g_outcome g = DIRECT \<longleftrightarrow> 3 / 4 \<le> g_confidence g"
    by (simp_all add: g)
  show "0 \<le> g_confidence g \<and> g_confidence g \<le> 1" if "lawful_lib L"
    using round6_unit [OF that, of ?q] by (simp add: g)
  show "g_controller_actor_id g = uuid_of L (p_actor_id p)"
    if "p_embodied_entity_id p = Some e" "p_actor_id p \<noteq> []"
    using c that by (auto simp: g bindR_eq_Inr parse_uuid_def)
qed

lemma weigh_senses: "weigh L profile acuity m c = Inr ws \<Longrightarrow> (m', q) \<in> set ws \<Longrightarrow> m' = m"
  by (cases c) (auto simp: weigh_def bindR_eq_Inr split: if_splits)

lemma perceive_senses:
  assumes "perceive L profile src ob em zs ps os = Inr senses"
  shows "set (map fst senses) \<subseteq> set (em_modalities em) \<inter> {SIGHT, SOUND}"
proof -
  from assms obtain heard seen where
    h: "(if SOUND \<in> set (em_modalities em) \<and> \<not> py_bool (dget_or profile ''deafened'' JNull)
            then (case sound_confidence L src ob em zs ps os of
                    None \<Rightarrow> Inl (RuntimeError ''zone transmission does not return'')
                  | Some c \<Rightarrow> weigh L profile ''hearing_acuity'' SOUND c)
            else Inr []) = Inr heard"
    and s: "(if SIGHT \<in> set (em_modalities em) \<and> \<not> py_bool (dget_or profile ''blinded'' JNull)
            then weigh L profile ''sight_acuity'' SIGHT (sight_confidence L src ob em zs os)
            else Inr []) = Inr seen" and "senses = heard @ seen"
    by (auto simp: perceive_def bindR_eq_Inr simp del: split_paired_Ex)
  moreover have "set (map fst heard) \<subseteq> set (em_modalities em) \<inter> {SOUND}"
    using h by (auto dest: weigh_senses split: if_splits option.splits)
  moreover have "set (map fst seen) \<subseteq> set (em_modalities em) \<inter> {SIGHT}"
    using s by (auto dest: weigh_senses split: if_splits)
  ultimately show ?thesis by auto
qed

section \<open>The grants of one event\<close>

definition grant_ok :: "uuid \<Rightarrow> proposal \<Rightarrow> emission \<Rightarrow> grant \<Rightarrow> bool" where
  "grant_ok ev p em g \<longleftrightarrow> g_event_id g = ev \<and> g_world_id g = p_world_id p \<and>
     g_branch_id g = p_branch_id p \<and> g_modalities g \<noteq> [] \<and>
     set (g_modalities g) \<subseteq> set (em_modalities em) \<and>
     g_allowed_payload_fields g = em_allowed_payload_fields em \<and>
     g_hidden_payload_fields g = em_hidden_payload_fields em"

lemma resolve_step_Inr:
  assumes "resolve_step L ev p em ctx src zs ps os profiles gs (e, ob) = Inr gs'"
  shows "gs' = gs \<or> (\<exists>g. gs' = gs @ [g] \<and> grant_ok ev p em g \<and> g_observer_entity_id g = e \<and>
    (lawful_lib L \<longrightarrow> 0 \<le> g_confidence g \<and> g_confidence g \<le> 1))"
proof -
  from assms obtain profile senses where pc: "perceive L profile src ob em zs ps os = Inr senses"
    and r: "(if senses = [] then Inr gs else bindR (grant_for L ev p em ctx e profile senses)
         (\<lambda>g. Inr (gs @ [g]))) = Inr gs'"
    by (auto simp: resolve_step_def bindR_eq_Inr)
  show ?thesis
  proof (cases "senses = []")
    case True
    with r show ?thesis by simp
  next
    case False
    with r obtain g where g: "grant_for L ev p em ctx e profile senses = Inr g" "gs' = gs @ [g]"
      by (auto simp: bindR_eq_Inr)
    from False have m: "fst (hd senses) \<in> set (map fst senses)" by simp
    with perceive_senses [OF pc] have "fst (hd senses) \<in> set [SIGHT, SOUND]" by auto
    with m have "[m \<leftarrow> [SIGHT, SOUND]. m \<in> set (map fst senses)] \<noteq> []"
      by (metis (mono_tags, lifting) filter_empty_conv)
    moreover have "set [m \<leftarrow> [SIGHT, SOUND]. m \<in> set (map fst senses)] \<subseteq> set (em_modalities em)"
      using perceive_senses [OF pc] by auto
    ultimately
    show ?thesis using g grant_for_Inr [OF g(1)] by (simp add: grant_ok_def)
  qed
qed

lemma resolve_fold:
  assumes "foldR (resolve_step L ev p em ctx src zs ps os profiles) gs obs = Inr gs'"
    and "distinct (map fst obs)"
  shows "\<exists>new. gs' = gs @ new \<and> (\<forall>g\<in>set new. grant_ok ev p em g) \<and>
    (lawful_lib L \<longrightarrow> (\<forall>g\<in>set new. 0 \<le> g_confidence g \<and> g_confidence g \<le> 1)) \<and>
    g_observer_entity_id ` set new \<subseteq> fst ` set obs \<and> distinct (map g_observer_entity_id new)"
  using assms
proof (induction obs arbitrary: gs)
  case Nil
  then show ?case by simp
next
  case (Cons eo obs)
  obtain e ob where eo: "eo = (e, ob)" by (cases eo)
  from Cons.prems(1) obtain gs1 where
    step: "resolve_step L ev p em ctx src zs ps os profiles gs (e, ob) = Inr gs1"
    and rest: "foldR (resolve_step L ev p em ctx src zs ps os profiles) gs1 obs = Inr gs'"
    by (auto simp: eo bindR_eq_Inr)
  from Cons.prems(2) have "e \<notin> fst ` set obs" "distinct (map fst obs)" by (auto simp: eo)
  with Cons.IH [OF rest] obtain new where new: "gs' = gs1 @ new" "\<forall>g\<in>set new. grant_ok ev p em g"
    "lawful_lib L \<longrightarrow> (\<forall>g\<in>set new. 0 \<le> g_confidence g \<and> g_confidence g \<le> 1)"
    "g_observer_entity_id ` set new \<subseteq> fst ` set obs" "distinct (map g_observer_entity_id new)" by blast
  from resolve_step_Inr [OF step] show ?case
  proof
    assume "gs1 = gs"
    with new show ?thesis by (intro exI [of _ new]) (auto simp: eo)
  next
    assume "\<exists>g. gs1 = gs @ [g] \<and> grant_ok ev p em g \<and> g_observer_entity_id g = e \<and>
      (lawful_lib L \<longrightarrow> 0 \<le> g_confidence g \<and> g_confidence g \<le> 1)"
    then obtain g where "gs1 = gs @ [g]" "grant_ok ev p em g" "g_observer_entity_id g = e"
      "lawful_lib L \<longrightarrow> 0 \<le> g_confidence g \<and> g_confidence g \<le> 1" by blast
    with new \<open>e \<notin> fst ` set obs\<close> show ?thesis
      by (intro exI [of _ "g # new"]) (auto simp: eo)
  qed
qed

lemma positions_distinct:
  assumes "positions L s = Inr pos"
  shows "distinct (map fst pos)"
proof -
  have "distinct (map fst acc')"
    if "distinct (map fst acc)" "position_entry L ex acc kv = Inr acc'" for ex acc kv acc'
    using that by (cases kv) (auto simp: position_entry_def bindR_eq_Inr Let_def distinct_update split: if_splits)
  note step = this
  from assms have f: "foldR (position_entry L (bucket s ''tabletop.spatial.positions'')) []
    (bucket s ''tabletop.entities'') = Inr pos" by (simp add: positions_def)
  show ?thesis
    by (rule foldR_invariant [where P = "\<lambda>a. distinct (map fst a)", OF step _ f]) simp_all
qed

lemma grid_resolver_Inr:
  assumes "grid_resolver L ev p eo s t = Inr gs"
  shows "eo = None \<longrightarrow> gs = []"
    "\<forall>em. eo = Some em \<longrightarrow> (\<forall>g\<in>set gs. grant_ok ev p em g)"
    "distinct (map g_observer_entity_id gs)"
    "lawful_lib L \<Longrightarrow> \<forall>g\<in>set gs. 0 \<le> g_confidence g \<and> g_confidence g \<le> 1"
proof -
  have "gs = [] \<or> (\<exists>em. eo = Some em \<and> (\<forall>g\<in>set gs. grant_ok ev p em g) \<and>
    (lawful_lib L \<longrightarrow> (\<forall>g\<in>set gs. 0 \<le> g_confidence g \<and> g_confidence g \<le> 1)) \<and>
    distinct (map g_observer_entity_id gs))"
  proof (cases "eo = None \<or> gs = []")
    case True
    with assms show ?thesis by (auto simp: grid_resolver_def)
  next
    case False
    then obtain em where em: "eo = Some em" by (cases eo) auto
    with False assms have "em_modalities em \<noteq> []" by (auto simp: grid_resolver_def split: if_splits)
    with assms em obtain pos where pos: "positions L (if an_phase (em_anchor em) = BEFORE then s else t) = Inr pos"
      by (auto simp: grid_resolver_def bindR_eq_Inr Let_def)
    with assms em False \<open>em_modalities em \<noteq> []\<close> obtain ctx src zs ps os profiles where
      f: "foldR (resolve_step L ev p em ctx src zs ps os profiles) [] (sort_key fst pos) = Inr gs"
      by (auto simp: grid_resolver_def bindR_eq_Inr Let_def split: option.splits)
    have "distinct (map fst (sort_key fst pos))"
      using positions_distinct [OF pos] by (simp add: distinct_map)
    from resolve_fold [OF f this] em show ?thesis by auto
  qed
  then show "eo = None \<longrightarrow> gs = []"
    "\<forall>em. eo = Some em \<longrightarrow> (\<forall>g\<in>set gs. grant_ok ev p em g)"
    "distinct (map g_observer_entity_id gs)"
    "lawful_lib L \<Longrightarrow> \<forall>g\<in>set gs. 0 \<le> g_confidence g \<and> g_confidence g \<le> 1" by auto
qed

interpretation grid: audience_resolver "grid_resolver L" for L
proof
  fix ev p s t gs
  assume "grid_resolver L ev p None s t = Inr gs"
  then show "gs = []" using grid_resolver_Inr(1) by blast
next
  fix ev p eo s t gs g
  assume r: "grid_resolver L ev p eo s t = Inr gs" and g: "g \<in> set gs"
  then show "g_event_id g = ev \<and> g_world_id g = p_world_id p \<and> g_branch_id g = p_branch_id p"
    using grid_resolver_Inr(1,2) [OF r] by (cases eo) (auto simp: grant_ok_def)
next
  fix ev p em s t gs g
  assume r: "grid_resolver L ev p (Some em) s t = Inr gs" and g: "g \<in> set gs"
  then show "g_modalities g \<noteq> [] \<and> set (g_modalities g) \<subseteq> set (em_modalities em)"
    "g_allowed_payload_fields g = em_allowed_payload_fields em \<and>
      g_hidden_payload_fields g = em_hidden_payload_fields em"
    using grid_resolver_Inr(2) [OF r] by (auto simp: grant_ok_def)
next
  fix ev p eo s t gs
  assume "grid_resolver L ev p eo s t = Inr gs"
  then show "distinct (map g_observer_entity_id gs)" by (rule grid_resolver_Inr(3))
qed

section \<open>What was perceived could be perceived\<close>

definition clear_view :: "jdict list \<Rightarrow> jdict \<Rightarrow> jdict \<Rightarrow> bool" where
  "clear_view os src observer \<longleftrightarrow> vstr src ''zone_id'' = vstr observer ''zone_id'' \<and>
     (\<forall>d\<in>set os. blocks (vstr src ''zone_id'') (set (between_cells src observer)) d \<longrightarrow>
        vrat d ''sight_opacity'' \<noteq> 1)"

text \<open>Zones joined by portals whose strength for sound is positive; a closed or locked portal keeps a fifth of it.\<close>

definition in_earshot :: "pylib \<Rightarrow> jdict list \<Rightarrow> jdict \<Rightarrow> jdict \<Rightarrow> bool" where
  "in_earshot L ps src observer \<longleftrightarrow>
     (vstr src ''zone_id'', vstr observer ''zone_id'') \<in> (passage L SOUND ps)\<^sup>*"

lemma sight_clear_view:
  assumes "lawful_lib L" "\<forall>d\<in>set os. occluder_ok d" "0 < fst (sight_confidence L src ob em zs os)"
  shows "clear_view os src ob"
  unfolding clear_view_def
proof (intro conjI ballI impI notI)
  show "vstr src ''zone_id'' = vstr ob ''zone_id''"
    using assms(3) by (simp add: sight_confidence_def Let_def split: if_splits)
  fix d
  assume "d \<in> set os" "blocks (vstr src ''zone_id'') (set (between_cells src ob)) d" "vrat d ''sight_opacity'' = 1"
  from wall_blocks_sight [OF assms(1,2) this] assms(3) show False by simp
qed

lemma sound_in_earshot:
  assumes "lawful_lib L" "\<forall>p\<in>set ps. portal_ok p"
    and "sound_confidence L src ob em zs ps os = Some (c, reasons)" "0 < c"
  shows "in_earshot L ps src ob"
proof (cases "vstr src ''zone_id'' = vstr ob ''zone_id''")
  case True
  then show ?thesis by (simp add: in_earshot_def)
next
  case False
  with assms(3,4) obtain q where "zone_transmission L SOUND (vstr src ''zone_id'') (vstr ob ''zone_id'') ps = Some q"
    "0 < q" by (fastforce simp: sound_confidence_def Let_def split: option.splits if_splits)
  with zone_transmission_reaches [OF assms(1,2) this(1)] show ?thesis
    by (auto simp: in_earshot_def reaches_def)
qed

lemma weigh_positive: "weigh L profile acuity m c = Inr ws \<Longrightarrow> ws \<noteq> [] \<Longrightarrow> 0 < fst c"
  by (cases c) (auto simp: weigh_def split: if_splits)

definition earned ::
  "pylib \<Rightarrow> emission \<Rightarrow> jdict list \<Rightarrow> jdict list \<Rightarrow> jdict \<Rightarrow> jdict \<Rightarrow> jdict \<Rightarrow> modality set \<Rightarrow> bool" where
  "earned L em ps os profile src observer ms \<longleftrightarrow> ms \<noteq> {} \<and> ms \<subseteq> set (em_modalities em) \<inter> {SIGHT, SOUND} \<and>
     (SIGHT \<in> ms \<longrightarrow> \<not> py_bool (dget_or profile ''blinded'' JNull) \<and> clear_view os src observer) \<and>
     (SOUND \<in> ms \<longrightarrow> \<not> py_bool (dget_or profile ''deafened'' JNull) \<and> in_earshot L ps src observer)"

lemma perceive_earned:
  assumes "lawful_lib L" "\<forall>p\<in>set ps. portal_ok p" "\<forall>d\<in>set os. occluder_ok d"
    and p: "perceive L profile src ob em zs ps os = Inr senses" "senses \<noteq> []"
  shows "earned L em ps os profile src ob (set (map fst senses))"
proof -
  from p obtain heard seen where
    h: "(if SOUND \<in> set (em_modalities em) \<and> \<not> py_bool (dget_or profile ''deafened'' JNull)
            then (case sound_confidence L src ob em zs ps os of
                    None \<Rightarrow> Inl (RuntimeError ''zone transmission does not return'')
                  | Some c \<Rightarrow> weigh L profile ''hearing_acuity'' SOUND c)
            else Inr []) = Inr heard"
    and s: "(if SIGHT \<in> set (em_modalities em) \<and> \<not> py_bool (dget_or profile ''blinded'' JNull)
            then weigh L profile ''sight_acuity'' SIGHT (sight_confidence L src ob em zs os)
            else Inr []) = Inr seen" and e: "senses = heard @ seen"
    by (auto simp: perceive_def bindR_eq_Inr simp del: split_paired_Ex)
  have heard: "SIGHT \<notin> fst ` set heard" using h by (auto dest: weigh_senses split: if_splits option.splits)
  have seen: "SOUND \<notin> fst ` set seen" using s by (auto dest: weigh_senses split: if_splits)
  have "clear_view os src ob \<and> \<not> py_bool (dget_or profile ''blinded'' JNull)" if "SIGHT \<in> set (map fst senses)"
  proof -
    from that heard e have "seen \<noteq> []" by auto
    with s have "\<not> py_bool (dget_or profile ''blinded'' JNull)"
      "weigh L profile ''sight_acuity'' SIGHT (sight_confidence L src ob em zs os) = Inr seen"
      by (simp_all split: if_splits)
    with weigh_positive [OF this(2) \<open>seen \<noteq> []\<close>] sight_clear_view [OF assms(1,3)] show ?thesis by blast
  qed
  moreover have "in_earshot L ps src ob \<and> \<not> py_bool (dget_or profile ''deafened'' JNull)"
    if "SOUND \<in> set (map fst senses)"
  proof -
    from that seen e have "heard \<noteq> []" by auto
    with h obtain c reasons where "\<not> py_bool (dget_or profile ''deafened'' JNull)"
      "sound_confidence L src ob em zs ps os = Some (c, reasons)"
      "weigh L profile ''hearing_acuity'' SOUND (c, reasons) = Inr heard"
      by (auto split: if_splits option.splits)
    with weigh_positive [OF this(3) \<open>heard \<noteq> []\<close>] sound_in_earshot [OF assms(1,2) this(2)] show ?thesis by simp
  qed
  ultimately show ?thesis using p(2) perceive_senses [OF p(1)] by (auto simp: earned_def)
qed

lemma resolve_fold_origin:
  assumes "foldR (resolve_step L ev p em ctx src zs ps os profiles) gs obs = Inr gs'" "g \<in> set gs'"
  shows "g \<in> set gs \<or> (\<exists>e ob profile senses. (e, ob) \<in> set obs \<and>
    dget_or profiles e (JDict []) = JDict profile \<and> perceive L profile src ob em zs ps os = Inr senses \<and>
    senses \<noteq> [] \<and> grant_for L ev p em ctx e profile senses = Inr g)"
  using assms
proof (induction obs arbitrary: gs)
  case Nil
  then show ?case by simp
next
  case (Cons eo obs)
  obtain e ob where eo: "eo = (e, ob)" by (cases eo)
  from Cons.prems(1) obtain gs1 where
    step: "resolve_step L ev p em ctx src zs ps os profiles gs (e, ob) = Inr gs1"
    and rest: "foldR (resolve_step L ev p em ctx src zs ps os profiles) gs1 obs = Inr gs'"
    by (auto simp: eo bindR_eq_Inr)
  from step have "gs1 = gs \<or> (\<exists>g profile senses. gs1 = gs @ [g] \<and>
    dget_or profiles e (JDict []) = JDict profile \<and> perceive L profile src ob em zs ps os = Inr senses \<and>
    senses \<noteq> [] \<and> grant_for L ev p em ctx e profile senses = Inr g)"
    by (auto simp: resolve_step_def bindR_eq_Inr split: if_splits)
  with Cons.IH [OF rest Cons.prems(2)] show ?case unfolding eo by (elim disjE) fastforce+
qed

lemma grid_resolver_earned:
  assumes L: "lawful_lib L" and r: "grid_resolver L ev p (Some em) s t = Inr gs" and g: "g \<in> set gs"
    and st: "st = (if an_phase (em_anchor em) = BEFORE then s else t)"
  shows "\<exists>pos ps os src observer profile. positions L st = Inr pos \<and> portals L st = Inr ps \<and>
    occluders L st = Inr os \<and> origin em pos = Some src \<and>
    dget pos (g_observer_entity_id g) = Some observer \<and>
    dget_or (bucket st ''tabletop.sensory_profiles'') (g_observer_entity_id g) (JDict []) = JDict profile \<and>
    earned L em ps os profile src observer (set (g_modalities g))"
proof -
  from r g have "em_modalities em \<noteq> []" by (auto simp: grid_resolver_def)
  with r g obtain pos src zs ps os ctx where pos: "positions L st = Inr pos" and src: "origin em pos = Some src"
    and ps: "portals L st = Inr ps" and os: "occluders L st = Inr os"
    and f: "foldR (resolve_step L ev p em ctx src zs ps os (bucket st ''tabletop.sensory_profiles'')) []
      (sort_key fst pos) = Inr gs"
    by (auto simp: grid_resolver_def bindR_eq_Inr Let_def st split: option.splits)
  from resolve_fold_origin [OF f g] obtain e ob profile senses where eo: "(e, ob) \<in> set pos"
    and pr: "dget_or (bucket st ''tabletop.sensory_profiles'') e (JDict []) = JDict profile"
    and pc: "perceive L profile src ob em zs ps os = Inr senses" "senses \<noteq> []"
    and gr: "grant_for L ev p em ctx e profile senses = Inr g" by auto
  have "dget pos e = Some ob" using eo positions_distinct [OF pos] by simp
  moreover have "g_observer_entity_id g = e" by (rule grant_for_Inr(4) [OF gr])
  moreover have er: "earned L em ps os profile src ob (set (map fst senses))"
    by (rule perceive_earned [OF L portals_ok [OF ps] occluders_ok [OF os] pc])
  moreover have "set (g_modalities g) = set (map fst senses)"
    using er unfolding earned_def grant_for_Inr(5) [OF gr] set_filter by auto
  ultimately show ?thesis using pos ps os src pr by auto
qed

lemma visible_fold:
  assumes "foldR (visible_step L o_id ob rng zs os profiles) vis obs = Inr vis'" "(e, q) \<in> set vis'"
  shows "(e, q) \<in> set vis \<or> (\<exists>t profile. (e, t) \<in> set obs \<and> e \<noteq> o_id \<and>
    dget_or profiles e (JDict []) = JDict profile \<and> \<not> py_bool (dget_or profile ''invisible'' JNull) \<and>
    q = round6 L (fst (sight_confidence L t ob (sight_emission e rng) zs os)) \<and>
    0 < fst (sight_confidence L t ob (sight_emission e rng) zs os))"
  using assms
proof (induction obs arbitrary: vis)
  case Nil
  then show ?case by simp
next
  case (Cons et obs)
  obtain e' t where et: "et = (e', t)" by (cases et)
  from Cons.prems(1) obtain vis1 where step: "visible_step L o_id ob rng zs os profiles vis (e', t) = Inr vis1"
    and rest: "foldR (visible_step L o_id ob rng zs os profiles) vis1 obs = Inr vis'"
    by (auto simp: et bindR_eq_Inr)
  have "(e, q) \<in> set vis1 \<Longrightarrow> (e, q) \<in> set vis \<or> (e = e' \<and> e \<noteq> o_id \<and>
    (\<exists>profile. dget_or profiles e (JDict []) = JDict profile \<and> \<not> py_bool (dget_or profile ''invisible'' JNull)) \<and>
    q = round6 L (fst (sight_confidence L t ob (sight_emission e rng) zs os)) \<and>
    0 < fst (sight_confidence L t ob (sight_emission e rng) zs os))"
    using visible_step_Inr [OF step] by (auto dest: subsetD [OF set_dset_subset])
  with Cons.IH [OF rest Cons.prems(2)] show ?case unfolding et by auto
qed

section \<open>Properties\<close>

text \<open>
  C7. The supercover line joins its two ends by cells that touch, it stays in the rectangle of
  the ends, and it is exact: each of its cells meets the segment between the centres of the end
  cells, and each cell of the rectangle whose interior the segment crosses is on it. The
  deviation of a cell is twice its distance from the segment scaled by the length of the
  segment, and a cell is met when this is at most the width of the cell seen from the segment.
\<close>

theorem supercover_exact:
  "hd (supercover x0 y0 x1 y1) = (x0, y0) \<and> last (supercover x0 y0 x1 y1) = (x1, y1) \<and>
   touching (supercover x0 y0 x1 y1) \<and>
   set (supercover x0 y0 x1 y1) \<subseteq>
     {c \<in> box x0 y0 x1 y1. deviation x0 y0 x1 y1 c \<le> \<bar>x1 - x0\<bar> + \<bar>y1 - y0\<bar>} \<and>
   {c \<in> box x0 y0 x1 y1. deviation x0 y0 x1 y1 c < \<bar>x1 - x0\<bar> + \<bar>y1 - y0\<bar>} \<subseteq>
     set (supercover x0 y0 x1 y1)"
  by (intro conjI supercover_ends supercover_sound supercover_complete)

text \<open>
  The search for a way between zones returns on the portals of every branch, although its
  loop has no bound: it yields a transmission between 0 and 1, and a positive transmission means
  that portals which carry the sense lead from the one zone to the other.
\<close>

theorem zone_search_returns:
  assumes "lawful_lib L" "portals L s = Inr ps"
  shows "\<exists>q. zone_transmission L m start goal ps = Some q \<and> 0 \<le> q \<and> q \<le> 1 \<and>
    (0 < q \<longrightarrow> (start, goal) \<in> (passage L m ps)\<^sup>*)"
proof -
  note ok = portals_ok [OF assms(2)]
  from zone_transmission_returns [OF assms(1) ok] obtain q where
    q: "zone_transmission L m start goal ps = Some q" by blast
  with zone_transmission_reaches [OF assms(1) ok q] show ?thesis by (auto simp: reaches_def)
qed

definition fixture_rooms :: branch_state where
  "fixture_rooms = fixture_branch
     [(''tabletop.spatial.portals'',
        [(''door'', JDict [(''from_zone_id'', JStr ''hall''), (''to_zone_id'', JStr ''cell''),
           (''kind'', JStr ''DOOR''), (''state'', JStr ''CLOSED'')]),
         (''gate'', JDict [(''from_zone_id'', JStr ''yard''), (''to_zone_id'', JStr ''hall''),
           (''kind'', JStr ''PASSAGE'')])])]"

theorem zone_search_returns_witness:
  "\<exists>ps q. portals ref_lib fixture_rooms = Inr ps \<and>
     zone_transmission ref_lib SOUND ''yard'' ''cell'' ps = Some q \<and> 0 \<le> q \<and> q \<le> 1"
proof -
  have "is_ok (portals ref_lib fixture_rooms)" by code_simp
  then obtain ps where "portals ref_lib fixture_rooms = Inr ps" by (auto simp: is_ok_iff)
  from zone_search_returns [OF lawful_ref_lib this] this show ?thesis by blast
qed

text \<open>
  C6. A perception grant is earned. In the branch the emission is anchored to, before or after
  the command, the observer has a position; the grant gives some of the emitted senses, only
  sight and sound; sight only to an observer that is not blinded, in the zone of the source, with
  no fully opaque occluder on the line between them; sound only to an observer that is not
  deafened and is in the zone of the source or in one that portals which let sound through connect to it. A
  closed or locked portal muffles to a fifth but is no barrier; only a portal that transmits no sound is.
\<close>

theorem grants_are_earned:
  assumes "lawful_lib L" "grid_resolver L ev p (Some em) before after = Inr gs" "g \<in> set gs"
  shows "\<exists>st pos ps os src observer profile. st = (if an_phase (em_anchor em) = BEFORE then before else after) \<and>
    positions L st = Inr pos \<and> portals L st = Inr ps \<and> occluders L st = Inr os \<and>
    origin em pos = Some src \<and> dget pos (g_observer_entity_id g) = Some observer \<and>
    dget_or (bucket st ''tabletop.sensory_profiles'') (g_observer_entity_id g) (JDict []) = JDict profile \<and>
    earned L em ps os profile src observer (set (g_modalities g)) \<and>
    0 \<le> g_confidence g \<and> g_confidence g \<le> 1"
  using grid_resolver_earned [OF assms refl] grid_resolver_Inr(4) [OF assms(2,1)] assms(3) by blast

theorem grants_are_earned_witness:
  "\<exists>gs g. grid_resolver ref_lib ''e'' (fixture_proposal ''t'' (Some ''hero'') [])
      (Some (sight_emission ''hero'' 9)) fixture_party fixture_party = Inr gs \<and> g \<in> set gs \<and>
    g_confidence g \<le> 1"
proof -
  let ?m = "grid_resolver ref_lib ''e'' (fixture_proposal ''t'' (Some ''hero'') [])
      (Some (sight_emission ''hero'' 9)) fixture_party fixture_party"
  have "is_ok (bindR ?m (\<lambda>gs. ensure (gs \<noteq> []) StopIteration))" by code_simp
  then obtain gs where gs: "?m = Inr gs" "gs \<noteq> []"
    by (auto simp: is_ok_iff bindR_eq_Inr simp del: bindR_ensure)
  then have "hd gs \<in> set gs" by simp
  from grants_are_earned [OF lawful_ref_lib gs(1) this] gs(1) this show ?thesis by blast
qed

text \<open>
  What an entity sees is in plain view: every entity of the view is the observer itself or
  has a position in its zone, no fully opaque occluder on the line between them, and a sensory
  profile that does not make it invisible; its confidence is between 0 and 1.
\<close>

theorem seen_in_plain_view:
  assumes "lawful_lib L" "visible_entities L s obs max_range = Inr vis" "(e, q) \<in> set vis" "e \<noteq> obs"
  shows "\<exists>pos os observer target profile. positions L s = Inr pos \<and> occluders L s = Inr os \<and>
    dget pos obs = Some observer \<and> dget pos e = Some target \<and> clear_view os target observer \<and>
    dget_or (bucket s ''tabletop.sensory_profiles'') e (JDict []) = JDict profile \<and>
    \<not> py_bool (dget_or profile ''invisible'' JNull) \<and> 0 \<le> q \<and> q \<le> 1"
proof -
  from assms(2,3) obtain pos observer zs os where pos: "positions L s = Inr pos"
    and obs: "dget pos obs = Some observer" and os: "occluders L s = Inr os"
    and f: "foldR (visible_step L obs observer max_range zs os (bucket s ''tabletop.sensory_profiles''))
      [(obs, 1)] (sort_key fst pos) = Inr vis"
    by (auto simp: visible_entities_def bindR_eq_Inr Let_def split: option.splits)
  from visible_fold [OF f assms(3)] assms(4) obtain t profile where t: "(e, t) \<in> set pos"
    and pr: "dget_or (bucket s ''tabletop.sensory_profiles'') e (JDict []) = JDict profile"
      "\<not> py_bool (dget_or profile ''invisible'' JNull)"
    and q: "q = round6 L (fst (sight_confidence L t observer (sight_emission e max_range) zs os))"
      "0 < fst (sight_confidence L t observer (sight_emission e max_range) zs os)" by auto
  have "dget pos e = Some t" using t positions_distinct [OF pos] by simp
  moreover have "clear_view os t observer" by (rule sight_clear_view [OF assms(1) occluders_ok [OF os] q(2)])
  moreover have "0 \<le> q" "q \<le> 1"
    using round6_unit [OF assms(1)] sight_confidence_unit [OF assms(1) occluders_ok [OF os]] q by simp_all
  ultimately show ?thesis using pos obs os pr by blast
qed

theorem seen_in_plain_view_witness:
  "\<exists>vis q. visible_entities ref_lib fixture_party ''hero'' 9 = Inr vis \<and> (''wolf'', q) \<in> set vis \<and> q \<le> 1"
proof -
  let ?m = "visible_entities ref_lib fixture_party ''hero'' 9"
  have "is_ok (bindR ?m (\<lambda>vis. ensure (dhas vis ''wolf'') StopIteration))" by code_simp
  then obtain vis where vis: "?m = Inr vis" "dhas vis ''wolf''"
    by (auto simp: is_ok_iff bindR_eq_Inr simp del: bindR_ensure)
  then obtain q where q: "(''wolf'', q) \<in> set vis" by (auto simp: dhas_def dest: map_of_SomeD)
  have "''wolf'' \<noteq> ''hero''" by simp
  from seen_in_plain_view [OF lawful_ref_lib vis(1) q this] vis(1) q show ?thesis by blast
qed

end
