(* ===== verification/KernelServices.thy ===== *)
theory KernelServices
  imports CommandBus "HOL-Library.Multiset"
begin

text \<open>
  The services around the bus: promotion of trial consequences and the branch manager
  (\<open>kernel/branching.py\<close>), replay (\<open>kernel/replay.py\<close>), visibility
  (\<open>kernel/visibility.py\<close>), the scheduler (\<open>kernel/scheduling.py\<close>) and the snapshot store
  (\<open>kernel/snapshots.py\<close>). The heap of the scheduler is a list of entries whose least element
  is popped, which is what \<open>heapq\<close> promises; the snapshot directory is a map from paths to the
  JSON documents written there.
\<close>

section \<open>Promotion\<close>

definition state_delta_schema :: schema where
  "state_delta_schema =
     [(''projection'', FStr 0 None, None),
      (''operation'', FEnum [''SET'', ''MERGE'', ''DELETE'', ''INCREMENT''], None),
      (''entity_id'', FOption FUuid, Some JNull),
      (''values'', FMapping, Some (JDict []))]"

definition delta_op_of :: "string \<Rightarrow> delta_op" where
  "delta_op_of s = (if s = ''SET'' then SET else if s = ''MERGE'' then MERGE
     else if s = ''DELETE'' then DELETE else INCREMENT)"

definition delta_of_json :: "jdict \<Rightarrow> state_delta" where
  "delta_of_json d = \<lparr>sd_projection = vstr d ''projection'',
     sd_operation = delta_op_of (vstr d ''operation''),
     sd_entity_id = vopt d ''entity_id'', sd_values = vdict d ''values''\<rparr>"

definition deltas_of_json :: "jval list \<Rightarrow> state_delta list" where
  "deltas_of_json vs = map (\<lambda>v. case v of JDict d \<Rightarrow> delta_of_json d | _ \<Rightarrow> delta_of_json []) vs"

definition consequence_package :: schema where
  "consequence_package =
     [(''source_branch_id'', FUuid, None),
      (''expected_canonical_hash'', FStr 0 None, None),
      (''deltas'', FTuple 1 (FModel state_delta_schema), None),
      (''review_note'', FStr 1 (Some 2000), None)]"

definition promotion_result :: schema where
  "promotion_result =
     [(''source_branch_id'', FUuid, None),
      (''promoted_delta_count'', FInt (Some 1) None, None),
      (''review_note'', FStr 0 None, None)]"

definition promote_consequences :: "pylib \<Rightarrow> proposal \<Rightarrow> branch_state \<Rightarrow> command_result res" where
  "promote_consequences L p s =
     bindR (model_validate L consequence_package (p_parameters p)) (\<lambda>package.
     bindR (ensure (bs_kind s = CANONICAL)
       (ValueError ''consequences can only be promoted to canonical branches'')) (\<lambda>_.
     bindR (ensure (state_hash L s = vstr package ''expected_canonical_hash'')
       (ValueError ''canonical state changed after the trial snapshot'')) (\<lambda>_.
     let deltas = deltas_of_json (vlist package ''deltas'') in
     Inr (mk_result
       [(''source_branch_id'', JStr (vstr package ''source_branch_id'')),
        (''promoted_delta_count'', JInt (int (length deltas))),
        (''review_note'', JStr (vstr package ''review_note''))]
       deltas [''kernel'', ''branch'', ''canonical_promotion'']))))"

definition promotion_definition :: "pylib \<Rightarrow> command_definition" where
  "promotion_definition L = \<lparr>cd_command_type = ''kernel.branch.promote'',
     cd_required_capabilities = {''canonical.promote'', ''action.commit''},
     cd_allowed_branch_kinds = {CANONICAL},
     cd_handler = reads_only (promote_consequences L), cd_version = ''1.0.0'',
     cd_request_model = Some (model_validate L consequence_package),
     cd_result_model = Some (model_accepts L promotion_result),
     cd_sensitive_parameters = {}, cd_requires_controlled_entity = False,
     cd_emission_builder = None\<rparr>"

definition create_world_branch :: "'r store \<Rightarrow> uuid \<Rightarrow> uuid \<Rightarrow> projections \<Rightarrow> (branch_state \<times> 'r store) res" where
  "create_world_branch st world_id branch_id ps =
     (let canonical = \<lparr>bs_world_id = world_id, bs_branch_id = branch_id, bs_kind = CANONICAL,
            projections = ps, base_snapshot_hash = None, bs_version = 0\<rparr>
      in bindR (store_add st canonical) (\<lambda>st'. Inr (canonical, st')))"

section \<open>Replay\<close>

record replay_record =
  rr_proposal :: proposal
  rr_result :: command_result
  rr_expected_state_hash :: string

definition replay_step :: "pylib \<Rightarrow> (nat \<times> branch_state) \<Rightarrow> replay_record \<Rightarrow> (nat \<times> branch_state) res" where
  "replay_step L = (\<lambda>(index, state) rec.
     bindR (apply_deltas L state (cr_deltas (rr_result rec))) (\<lambda>t.
     let t' = t\<lparr>bs_version := bs_version t + 1\<rparr> in
     if state_hash L t' \<noteq> rr_expected_state_hash rec then Inl (ReplayDivergence index)
     else Inr (Suc index, t')))"

definition replay :: "pylib \<Rightarrow> branch_state \<Rightarrow> replay_record list \<Rightarrow> branch_state res" where
  "replay L initial records =
     bindR (foldR (replay_step L) (1, working_copy initial) records) (\<lambda>(_, s). Inr s)"

section \<open>Visibility\<close>

definition event_for :: "event \<Rightarrow> actor \<Rightarrow> event option" where
  "event_for ev a = (if actor_id a \<in> set (e_visible_to ev) \<or> ''world.read.all'' \<in> capabilities a
     then Some ev else None)"

definition entity_for :: "jdict \<Rightarrow> jdict \<Rightarrow> actor \<Rightarrow> uuid option \<Rightarrow> jdict" where
  "entity_for public_state secret_state a controller =
     (let visible = public_state in
      if Some (actor_id a) = controller \<or> ''entity.read.secret'' \<in> capabilities a
      then dupdate visible secret_state else visible)"

section \<open>Scheduling\<close>

text \<open>A naive datetime, or an aware one: local microseconds and its offset from UTC.\<close>

datatype datetime = Naive int | Aware int int

record scheduled_command =
  sc_due_at :: int
  sc_order :: int
  sc_proposal :: proposal

record scheduler =
  sch_queue :: "scheduled_command list"
  sch_counter :: int

definition new_scheduler :: scheduler where
  "new_scheduler = \<lparr>sch_queue = [], sch_counter = 0\<rparr>"

text \<open>\<open>dataclass(order=True)\<close> compares the fields in their order; the proposal is excluded.\<close>

datatype due_key = DueKey (dk_due: int) (dk_order: int)

instantiation due_key :: linorder
begin

definition less_eq_due_key :: "due_key \<Rightarrow> due_key \<Rightarrow> bool" where
  "less_eq_due_key x y = (dk_due x < dk_due y \<or> (dk_due x = dk_due y \<and> dk_order x \<le> dk_order y))"

definition less_due_key :: "due_key \<Rightarrow> due_key \<Rightarrow> bool" where
  "less_due_key x y = (dk_due x < dk_due y \<or> (dk_due x = dk_due y \<and> dk_order x < dk_order y))"

instance
  by standard (auto simp: less_eq_due_key_def less_due_key_def due_key.expand)

end

definition sc_key :: "scheduled_command \<Rightarrow> due_key" where
  "sc_key c = DueKey (sc_due_at c) (sc_order c)"

fun heappop :: "scheduled_command list \<Rightarrow> (scheduled_command \<times> scheduled_command list) option" where
  "heappop [] = None"
| "heappop (x # xs) = (case heappop xs of
      None \<Rightarrow> Some (x, [])
    | Some (m, rest) \<Rightarrow> if sc_key x \<le> sc_key m then Some (x, xs) else Some (m, x # rest))"

definition schedule :: "scheduler \<Rightarrow> datetime \<Rightarrow> proposal \<Rightarrow> scheduler res" where
  "schedule s due_at p = (case due_at of
      Naive _ \<Rightarrow> Inl (ValueError ''scheduled times must be timezone-aware'')
    | Aware t off \<Rightarrow> (let n = sch_counter s + 1 in
        Inr \<lparr>sch_queue = sch_queue s @ [\<lparr>sc_due_at = t - off, sc_order = n, sc_proposal = p\<rparr>],
             sch_counter = n\<rparr>))"

lemma heappop_length: "heappop q = Some (m, rest) \<Longrightarrow> length rest < length q"
  by (induction q arbitrary: m rest) (auto split: option.splits prod.splits if_splits)

function due_loop :: "int \<Rightarrow> scheduled_command list \<Rightarrow> scheduled_command list \<times> scheduled_command list" where
  "due_loop boundary q = (case heappop q of
      None \<Rightarrow> ([], q)
    | Some (m, rest) \<Rightarrow>
        if sc_due_at m \<le> boundary
        then (case due_loop boundary rest of (vs, q') \<Rightarrow> (m # vs, q'))
        else ([], q))"
  by pat_completeness auto
termination
  by (relation "measure (\<lambda>(b, q). length q)") (auto dest: heappop_length)

declare due_loop.simps [simp del]

definition due :: "scheduler \<Rightarrow> datetime \<Rightarrow> (proposal list \<times> scheduler) res" where
  "due s now = (case now of
      Naive _ \<Rightarrow> Inl (ValueError ''scheduler clock must be timezone-aware'')
    | Aware t off \<Rightarrow>
        (case due_loop (t - off) (sch_queue s) of
           (vs, q') \<Rightarrow> Inr (map sc_proposal vs, s\<lparr>sch_queue := q'\<rparr>)))"

section \<open>Snapshots\<close>

record manifest =
  mf_snapshot_id :: uuid
  mf_world_id :: uuid
  mf_branch_id :: uuid
  mf_through_event_seq :: int
  mf_state_hash :: string
  mf_artifact_uri :: string
  mf_artifact_hash :: string

record snapshot_store =
  ss_root :: string
  ss_files :: "(string \<times> jval) list"

definition snapshot_body :: "pylib \<Rightarrow> uuid \<Rightarrow> uuid \<Rightarrow> uuid \<Rightarrow> int \<Rightarrow> string \<Rightarrow> projections \<Rightarrow> jval" where
  "snapshot_body L sid world_id branch_id through h ps = json_canon (JDict
     [(''snapshot_id'', JStr sid), (''world_id'', JStr world_id), (''branch_id'', JStr branch_id),
      (''through_event_seq'', JInt through), (''contract_version'', JStr ''2.0.0''),
      (''state_hash'', JStr h), (''projections'', projections_json ps)])"

definition snapshot_path :: "string \<Rightarrow> uuid \<Rightarrow> uuid \<Rightarrow> string" where
  "snapshot_path base world_id sid = base @ ''/'' @ world_id @ ''/'' @ sid @ ''.json.gz''"

text \<open>\<open>Path.as_uri\<close> percent-encodes the bytes of a path that are not allowed in a URI.\<close>

definition uri_safe :: "char \<Rightarrow> bool" where
  "uri_safe c \<longleftrightarrow> c \<in> set ''ABCDEFGHIJKLMNOPQRSTUVWXYZabcdefghijklmnopqrstuvwxyz0123456789_.-~/''"

definition utf8 :: "char \<Rightarrow> nat list" where
  "utf8 c = (let n = of_char c in if n < 128 then [n] else [192 + n div 64, 128 + n mod 64])"

definition percent_byte :: "nat \<Rightarrow> string" where
  "percent_byte n = [CHR ''%'', ''0123456789ABCDEF'' ! (n div 16), ''0123456789ABCDEF'' ! (n mod 16)]"

definition quote :: "string \<Rightarrow> string" where
  "quote path = concat (map (\<lambda>c. if uri_safe c then [c] else concat (map percent_byte (utf8 c))) path)"

definition as_uri :: "string \<Rightarrow> string" where
  "as_uri path = ''file://'' @ quote path"

definition snapshot_create ::
  "pylib \<Rightarrow> snapshot_store \<Rightarrow> uuid \<Rightarrow> uuid \<Rightarrow> int \<Rightarrow> projections \<Rightarrow> manifest \<times> snapshot_store" where
  "snapshot_create L ss world_id branch_id through ps =
     (let h = stable_hash L (projections_json ps);
          sid = uuid5 L (''tabletop-dm:snapshot:'' @ world_id @ '':'' @ branch_id @ '':'' @
                  int_str through @ '':'' @ h);
          body = snapshot_body L sid world_id branch_id through h ps;
          path = snapshot_path (ss_root ss) world_id sid
      in (\<lparr>mf_snapshot_id = sid, mf_world_id = world_id, mf_branch_id = branch_id,
           mf_through_event_seq = through, mf_state_hash = h,
           mf_artifact_uri = as_uri path, mf_artifact_hash = file_digest L body\<rparr>,
          ss\<lparr>ss_files := dset (ss_files ss) path body\<rparr>))"

definition removeprefix :: "string \<Rightarrow> string \<Rightarrow> string" where
  "removeprefix p s = (if starts_with p s then drop (length p) s else s)"

definition snapshot_read :: "snapshot_store \<Rightarrow> string \<Rightarrow> jval res" where
  "snapshot_read ss uri =
     (let path = removeprefix ''file:///'' uri;
          path' = (if \<not> dhas (ss_files ss) path \<and> starts_with ''file:///'' uri
                   then ''/'' @ path else path)
      in of_option (FileNotFoundError path') (dget (ss_files ss) path'))"

definition snapshot_load :: "pylib \<Rightarrow> snapshot_store \<Rightarrow> manifest \<Rightarrow> jdict res" where
  "snapshot_load L ss m =
     bindR (snapshot_read ss (mf_artifact_uri m)) (\<lambda>doc.
     bindR (ensure (file_digest L doc = mf_artifact_hash m)
       (ValueError ''Snapshot artifact hash mismatch'')) (\<lambda>_.
     bindR (as_mapping doc) (\<lambda>payload.
     bindR (of_option (KeyError ''projections'') (dget payload ''projections'')) (\<lambda>ps.
     bindR (ensure (stable_hash L ps = mf_state_hash m)
       (ValueError ''Snapshot state hash mismatch'')) (\<lambda>_.
     Inr payload)))))"

section \<open>The queue is drained in order\<close>

lemma heappop_None [simp]: "heappop q = None \<longleftrightarrow> q = []"
  by (cases q) (auto split: option.splits prod.splits if_splits)

lemma heappop_mset: "heappop q = Some (m, rest) \<Longrightarrow> mset q = add_mset m (mset rest)"
  by (induction q arbitrary: m rest) (auto split: option.splits prod.splits if_splits)

lemma heappop_min: "heappop q = Some (m, rest) \<Longrightarrow> x \<in> set q \<Longrightarrow> sc_key m \<le> sc_key x"
proof (induction q arbitrary: m rest)
  case Nil
  then show ?case by simp
next
  case (Cons y ys)
  show ?case
  proof (cases "heappop ys")
    case None
    with Cons.prems show ?thesis by auto
  next
    case (Some mr)
    obtain m' r' where mr: "mr = (m', r')" by (cases mr)
    with Some Cons.IH have low: "x \<in> set ys \<Longrightarrow> sc_key m' \<le> sc_key x" by blast
    show ?thesis
      using Cons.prems Some mr low by (auto split: if_splits intro: order_trans)
  qed
qed

lemma due_loop_spec:
  assumes "due_loop boundary q = (vs, q')"
  shows "mset vs + mset q' = mset q" "\<forall>c\<in>set vs. sc_due_at c \<le> boundary"
    "\<forall>c\<in>set q'. boundary < sc_due_at c"
    "sorted (map sc_key vs)"
proof -
  have "mset vs + mset q' = mset q \<and> (\<forall>c\<in>set vs. sc_due_at c \<le> boundary) \<and>
    (\<forall>c\<in>set q'. boundary < sc_due_at c) \<and> sorted (map sc_key vs)"
    using assms
  proof (induction boundary q arbitrary: vs rule: due_loop.induct)
    case (1 boundary q)
    show ?case
    proof (cases "heappop q")
      case None
      with "1.prems" show ?thesis by (simp add: due_loop.simps [of boundary q])
    next
      case (Some mr)
      obtain m rest where mr: "mr = (m, rest)" by (cases mr)
      note pop = Some [unfolded mr]
      show ?thesis
      proof (cases "sc_due_at m \<le> boundary")
        case True
        obtain ws where ws: "due_loop boundary rest = (ws, q')" and vs: "vs = m # ws"
          using "1.prems" pop True
          by (auto simp: due_loop.simps [of boundary q] split: prod.splits)
        note IH = "1.IH" [OF pop refl True ws]
        have "set ws \<subseteq> set q"
          using IH heappop_mset [OF pop] by (metis add_mset_add_single mset_subset_eq_add_left
              mset_subset_eq_add_right set_mset_mono set_mset_mset subset_mset.order_trans)
        with heappop_min [OF pop] IH heappop_mset [OF pop] True vs show ?thesis by auto
      next
        case False
        have "\<forall>c\<in>set q. boundary < sc_due_at c"
          using False heappop_min [OF pop] by (fastforce simp: less_eq_due_key_def sc_key_def)
        with "1.prems" pop False show ?thesis by (simp add: due_loop.simps [of boundary q])
      qed
    qed
  qed
  then show "mset vs + mset q' = mset q" "\<forall>c\<in>set vs. sc_due_at c \<le> boundary"
    "\<forall>c\<in>set q'. boundary < sc_due_at c"
    "sorted (map sc_key vs)" by auto
qed

end
