(* ===== verification/TabletopRegistry.thy ===== *)
theory TabletopRegistry
  imports Battlefield Onboarding RulesNarrative RulesCombat RulesSociety SpatialPerception KernelServices
begin

text \<open>
  \<open>domains/tabletop/registry.py\<close>: the command definitions of the tabletop domain on a bus with
  the grid resolver. The lemmas collect what all registered handlers share: they only read the
  branch, they report acceptance, and only \<open>spawn\<close> returns entity mutations.
\<close>

definition command_definitions :: "pylib \<Rightarrow> command_definition list" where
  "command_definitions L =
     battlefield_definitions L @ [onboarding_definition L] @ dialogue_definitions L @
     [spawn_definition L, move_definition L, attack_definition L, cast_definition L,
      trade_definition L, reputation_definition L, bless_definition L, advance_definition L]"

definition register_tabletop :: "pylib \<Rightarrow> bus \<Rightarrow> bus res" where
  "register_tabletop L b = foldR register (b\<lparr>bus_resolver := grid_resolver L\<rparr>) (command_definitions L)"

text \<open>The bus of the application: the tabletop commands and the promotion command.\<close>

definition application_bus :: "pylib \<Rightarrow> receipt store \<Rightarrow> bus res" where
  "application_bus L st = bindR (register_tabletop L (new_bus st)) (\<lambda>b. register b (promotion_definition L))"

definition application_definitions :: "pylib \<Rightarrow> command_definition list" where
  "application_definitions L = command_definitions L @ [promotion_definition L]"

lemmas definition_defs = battlefield_definitions_def onboarding_definition_def
  dialogue_definitions_def spawn_definition_def move_definition_def attack_definition_def
  cast_definition_def trade_definition_def reputation_definition_def bless_definition_def
  advance_definition_def promotion_definition_def

lemma registered_types:
  "map cd_command_type (application_definitions L) =
     [''tabletop.battlefield.set_control_mode'', ''tabletop.battlefield.issue_squad_order'',
      ''tabletop.onboarding.act'', ''tabletop.console.submit'', ''tabletop.dialogue.speak'',
      ''tabletop.entity.spawn'', ''tabletop.spatial.move'', ''tabletop.combat.attack'',
      ''tabletop.magic.cast'', ''tabletop.economy.trade'', ''tabletop.faction.adjust_reputation'',
      ''tabletop.divine.bless'', ''tabletop.quest.advance'', ''kernel.branch.promote'']"
  by (simp add: application_definitions_def command_definitions_def definition_defs)

lemma register_fold:
  assumes "distinct (map cd_command_type ds)"
    and "\<forall>d\<in>set ds. \<not> dhas (bus_definitions b) (cd_command_type d)"
  shows "foldR register b ds = Inr (b\<lparr>bus_definitions :=
    bus_definitions b @ map (\<lambda>d. (cd_command_type d, d)) ds\<rparr>)"
  using assms
proof (induction ds arbitrary: b)
  case Nil
  show ?case by simp
next
  case (Cons d ds)
  have "dset (bus_definitions b) (cd_command_type d) d = bus_definitions b @ [(cd_command_type d, d)]"
    using Cons.prems(2) by (simp add: dset_fresh)
  then have "register b d = Inr (b\<lparr>bus_definitions := bus_definitions b @ [(cd_command_type d, d)]\<rparr>)"
    using Cons.prems(2) by (simp add: register_def)
  moreover have "foldR register (b\<lparr>bus_definitions := bus_definitions b @ [(cd_command_type d, d)]\<rparr>) ds =
    Inr (b\<lparr>bus_definitions := bus_definitions b @ map (\<lambda>d. (cd_command_type d, d)) (d # ds)\<rparr>)"
    using Cons.prems
    by (subst Cons.IH) (auto simp: dhas_def map_add_def rev_image_eqI split: option.splits)
  ultimately show ?case by simp
qed

lemma application_bus_eq:
  "application_bus L st = Inr \<lparr>bus_states = st, bus_resolver = grid_resolver L,
     bus_definitions = map (\<lambda>d. (cd_command_type d, d)) (application_definitions L)\<rparr>"
proof -
  have "distinct (map cd_command_type (application_definitions L))"
    by (simp add: registered_types)
  then have "distinct (map cd_command_type (command_definitions L))"
    and fresh: "cd_command_type (promotion_definition L) \<notin> set (map cd_command_type (command_definitions L))"
    by (auto simp: application_definitions_def)
  then have "register_tabletop L (new_bus st) = Inr \<lparr>bus_states = st, bus_resolver = grid_resolver L,
     bus_definitions = map (\<lambda>d. (cd_command_type d, d)) (command_definitions L)\<rparr>"
    unfolding register_tabletop_def by (subst register_fold) (simp_all add: new_bus_def dhas_def)
  moreover have "\<not> dhas (map (\<lambda>d. (cd_command_type d, d)) (command_definitions L))
      (cd_command_type (promotion_definition L))"
    using fresh by (simp add: dhas_def map_of_eq_None_iff image_image)
  ultimately show ?thesis
    by (simp add: application_bus_def register_def application_definitions_def dset_fresh)
qed

lemma registered:
  assumes "dget (map (\<lambda>d. (cd_command_type d, d)) (application_definitions L)) ct = Some d"
  shows "d \<in> set (application_definitions L)" "cd_command_type d = ct"
  using map_of_SomeD [OF assms] by auto

section \<open>What the registered handlers share\<close>

definition plain_handler :: "(proposal \<Rightarrow> branch_state \<Rightarrow> command_result res) \<Rightarrow> bool" where
  "plain_handler f \<longleftrightarrow> (\<forall>p s r. f p s = Inr r \<longrightarrow> cr_accepted r \<and> cr_entity_mutations r = [])"

lemma plain_handlers:
  "plain_handler (set_control_mode L)" "plain_handler (issue_squad_order L)"
  "plain_handler (handle_onboarding_action L)" "plain_handler (submit_console L)"
  "plain_handler (speak L)" "plain_handler (move L)" "plain_handler (attack L)"
  "plain_handler (cast L)" "plain_handler (trade L)" "plain_handler (adjust_reputation L)"
  "plain_handler (bless L)" "plain_handler (advance L)" "plain_handler (promote_consequences L)"
  unfolding plain_handler_def
            apply (auto simp: set_control_mode_def bindR_eq_Inr Let_def simp del: bindR_ensure)[1]
           apply (auto simp: issue_squad_order_def bindR_eq_Inr Let_def simp del: bindR_ensure)[1]
          apply (auto simp: handle_onboarding_action_def bindR_eq_Inr Let_def)[1]
         apply (auto simp: submit_console_def bindR_eq_Inr Let_def simp del: bindR_ensure)[1]
        apply (auto simp: speak_def bindR_eq_Inr Let_def simp del: bindR_ensure)[1]
       apply (auto simp: move_def bindR_eq_Inr Let_def simp del: bindR_ensure)[1]
      apply (auto elim!: attack_Inr)[1]
     apply (auto simp: cast_def bindR_eq_Inr Let_def simp del: bindR_ensure)[1]
    apply (auto simp: trade_def bindR_eq_Inr Let_def case_prod_beta simp del: bindR_ensure)[1]
   apply (auto simp: adjust_reputation_def bindR_eq_Inr Let_def)[1]
  apply (auto simp: bless_def bindR_eq_Inr Let_def)[1]
   apply (auto simp: advance_def bindR_eq_Inr Let_def)[1]
  apply (auto simp: promote_consequences_def bindR_eq_Inr Let_def simp del: bindR_ensure)[1]
  done

lemma reads_only_inject [simp]: "reads_only f = reads_only g \<longleftrightarrow> f = g"
  by (auto simp: reads_only_def fun_eq_iff)

lemma registered_handler:
  assumes "d \<in> set (application_definitions L)"
  shows "(\<exists>f. cd_handler d = reads_only f \<and> plain_handler f) \<or> d = spawn_definition L"
  using assms
  by (auto simp: application_definitions_def command_definitions_def battlefield_definitions_def
      onboarding_definition_def dialogue_definitions_def move_definition_def attack_definition_def
      cast_definition_def trade_definition_def reputation_definition_def bless_definition_def
      advance_definition_def promotion_definition_def plain_handlers)

lemma registered_reads_only:
  assumes "d \<in> set (application_definitions L)"
  shows "\<exists>f. cd_handler d = reads_only f"
  using registered_handler [OF assms] by (auto simp: spawn_definition_def)

end
