(* ===== verification/Application.thy ===== *)
theory Application
  imports TabletopRegistry
begin

text \<open>
  \<open>kernel/application.py\<close> in its reference configuration: no durable repository, snapshot
  persister or subjective projector is configured. The tables of the service are the fields of
  the record \<open>app\<close>. An operation that can raise after it has changed a table returns the
  changed state together with the exception. Identifiers from \<open>uuid4\<close> and the wall clock are
  arguments.
\<close>

definition stable_id :: "pylib \<Rightarrow> string \<Rightarrow> uuid" where
  "stable_id L label = uuid5 L (''tabletop-dm:v2:'' @ label)"

section \<open>Records and state\<close>

record world_record =
  wr_world_id :: uuid
  wr_slug :: string
  wr_name :: string
  wr_status :: string
  wr_domain_packs :: "string list"
  wr_canonical_branch_id :: uuid
  wr_created_at :: int

record run_record =
  rn_run_id :: uuid
  rn_world_id :: uuid
  rn_branch_id :: uuid
  rn_kind :: run_kind
  rn_status :: string
  rn_seed :: "int option"
  rn_started_at :: int

record entity_record =
  er_entity_id :: uuid
  er_world_id :: uuid
  er_branch_id :: uuid
  er_entity_type :: string
  er_name :: string
  er_controller_actor_id :: "uuid option"
  er_public_state :: jdict
  er_secret_state :: jdict

record app =
  ap_bus :: bus
  ap_worlds :: "(uuid \<times> world_record) list"
  ap_runs :: "(uuid \<times> run_record) list"
  ap_actors :: "(uuid \<times> actor) list"
  ap_authorities :: "((uuid \<times> uuid) \<times> actor) list"
  ap_entities :: "((uuid \<times> uuid) \<times> entity_record) list"
  ap_events :: "(uuid \<times> event) list"
  ap_perceptions :: "((uuid \<times> uuid) \<times> grant) list"
  ap_history :: "(uuid \<times> replay_record list) list"
  ap_bases :: "(uuid \<times> branch_state) list"
  ap_offsets :: "(uuid \<times> nat) list"
  ap_snapshot_store :: snapshot_store
  ap_snapshots :: "(uuid \<times> manifest) list"

definition init_app :: "pylib \<Rightarrow> string \<Rightarrow> app res" where
  "init_app L artifact_root = bindR (application_bus L empty_store) (\<lambda>b. Inr
     \<lparr>ap_bus = b, ap_worlds = [], ap_runs = [], ap_actors = [], ap_authorities = [],
      ap_entities = [], ap_events = [], ap_perceptions = [], ap_history = [], ap_bases = [],
      ap_offsets = [], ap_snapshot_store = \<lparr>ss_root = artifact_root, ss_files = []\<rparr>,
      ap_snapshots = []\<rparr>)"

definition app_states :: "app \<Rightarrow> receipt store" where
  "app_states a = bus_states (ap_bus a)"

definition set_app_states :: "app \<Rightarrow> receipt store \<Rightarrow> app" where
  "set_app_states a st = a\<lparr>ap_bus := (ap_bus a)\<lparr>bus_states := st\<rparr>\<rparr>"

section \<open>Worlds, actors and authority\<close>

text \<open>\<open>re.sub(r"[^a-z0-9]+", "-", name.casefold()).strip("-")\<close>\<close>

definition slug_char :: "char \<Rightarrow> bool" where
  "slug_char c = (is_digit c \<or> (let n = (of_char c :: nat) in 97 \<le> n \<and> n \<le> 122))"

fun squeeze :: "bool \<Rightarrow> string \<Rightarrow> string" where
  "squeeze inrun [] = []"
| "squeeze inrun (c # cs) = (if slug_char c then c # squeeze False cs
     else if inrun then squeeze True cs else CHR ''-'' # squeeze True cs)"

definition slugify :: "string \<Rightarrow> string" where
  "slugify name = (let d = (\<lambda>c. c = CHR ''-'') in
     rev (dropWhile d (rev (dropWhile d (squeeze False (casefold name))))))"

definition initial_projections :: projections where
  "initial_projections = map (\<lambda>n. (n, []))
     [''tabletop.entities'', ''tabletop.obstacles'', ''tabletop.spatial.positions'',
      ''tabletop.spatial.zones'', ''tabletop.spatial.portals'', ''tabletop.spatial.occluders'',
      ''tabletop.quests'', ''tabletop.reputation'']"

definition create_world ::
  "pylib \<Rightarrow> int \<Rightarrow> app \<Rightarrow> string \<Rightarrow> string option \<Rightarrow> uuid \<Rightarrow> uuid \<Rightarrow> (world_record \<times> app) res" where
  "create_world L now a name slug_arg world_id branch_id =
     (let slug = (case slug_arg of Some (c # cs) \<Rightarrow> c # cs | _ \<Rightarrow> slugify name) in
      bindR (ensure (slug \<noteq> []) (ValueError ''world slug cannot be empty'')) (\<lambda>_.
      bindR (ensure (\<not> (\<exists>w\<in>set (map snd (ap_worlds a)). wr_slug w = slug))
        (ValueError ''world slug already exists'')) (\<lambda>_.
      bindR (create_world_branch (app_states a) world_id branch_id initial_projections) (\<lambda>(_, st).
      let world = \<lparr>wr_world_id = world_id, wr_slug = slug, wr_name = name, wr_status = ''ACTIVE'',
            wr_domain_packs = [''tabletop''], wr_canonical_branch_id = branch_id,
            wr_created_at = now\<rparr>;
          run_id = stable_id L (''run:'' @ world_id @ '':live'');
          run = \<lparr>rn_run_id = run_id, rn_world_id = world_id, rn_branch_id = branch_id,
            rn_kind = LIVE, rn_status = ''ACTIVE'', rn_seed = None, rn_started_at = now\<rparr>;
          a' = set_app_states a st
      in Inr (world, a'\<lparr>ap_worlds := dset (ap_worlds a) world_id world,
                        ap_runs := dset (ap_runs a) run_id run\<rparr>)))))"

definition grant_authority ::
  "app \<Rightarrow> uuid \<Rightarrow> uuid \<Rightarrow> string set \<Rightarrow> string set \<Rightarrow> uuid set \<Rightarrow> (actor \<times> app) res" where
  "grant_authority a world_id aid rs caps controlled =
     bindR (ensure (dhas (ap_worlds a) world_id) (KeyError world_id)) (\<lambda>_.
     bindR (of_option (KeyError aid) (dget (ap_actors a) aid)) (\<lambda>identity.
     let authority = identity\<lparr>roles := rs, capabilities := caps, controlled_entity_ids := controlled\<rparr> in
     Inr (authority, a\<lparr>ap_authorities := dset (ap_authorities a) (world_id, aid) authority\<rparr>)))"

definition create_actor ::
  "app \<Rightarrow> string \<Rightarrow> actor_kind \<Rightarrow> string set \<Rightarrow> string set \<Rightarrow> uuid set \<Rightarrow> uuid \<Rightarrow> uuid option \<Rightarrow>
   actor res \<times> app" where
  "create_actor a name kind rs caps controlled aid world =
     (let identity = \<lparr>actor_id = aid, actor_kind = kind, display_name = name, roles = {},
            capabilities = {}, controlled_entity_ids = {}\<rparr>;
          a' = a\<lparr>ap_actors := dset (ap_actors a) aid identity\<rparr>;
          finish = (\<lambda>w. case grant_authority a' w aid rs caps controlled of
            Inl e \<Rightarrow> (Inl e, a') | Inr (authority, a'') \<Rightarrow> (Inr authority, a''))
      in case world of
           Some w \<Rightarrow> finish w
         | None \<Rightarrow>
             if rs = {} \<and> caps = {} \<and> controlled = {} then (Inr identity, a')
             else (case ap_worlds a of
                 [(w, _)] \<Rightarrow> finish w
               | _ \<Rightarrow> (Inl (ValueError ''world_id is required for scoped actor authority''), a')))"

definition authority :: "app \<Rightarrow> uuid \<Rightarrow> uuid \<Rightarrow> actor res" where
  "authority a world_id aid = of_option
     (AuthorizationDenied ''Actor has no authority in this world'') (dget (ap_authorities a) (world_id, aid))"

definition authorities_for_world :: "app \<Rightarrow> uuid \<Rightarrow> actor list" where
  "authorities_for_world a world_id = [auth. ((w, _), auth) \<leftarrow> ap_authorities a, w = world_id]"

definition assign_control :: "app \<Rightarrow> uuid \<Rightarrow> uuid \<Rightarrow> uuid \<Rightarrow> (actor \<times> app) res" where
  "assign_control a world_id aid entity_id =
     bindR (authority a world_id aid) (\<lambda>auth.
     let updated = auth\<lparr>controlled_entity_ids := insert entity_id (controlled_entity_ids auth)\<rparr> in
     Inr (updated, a\<lparr>ap_authorities := dset (ap_authorities a) (world_id, aid) updated\<rparr>))"

definition create_run ::
  "int \<Rightarrow> app \<Rightarrow> uuid \<Rightarrow> uuid \<Rightarrow> run_kind \<Rightarrow> int option \<Rightarrow> uuid \<Rightarrow> (run_record \<times> app) res" where
  "create_run now a world_id branch_id kind seed run_id =
     bindR (store_get (app_states a) branch_id) (\<lambda>branch.
     bindR (ensure (bs_world_id branch = world_id) (ValueError ''branch does not belong to world'')) (\<lambda>_.
     bindR (ensure (\<not> dhas (ap_runs a) run_id) (ValueError ''run already exists'')) (\<lambda>_.
     let run = \<lparr>rn_run_id = run_id, rn_world_id = world_id, rn_branch_id = branch_id,
           rn_kind = kind, rn_status = ''ACTIVE'', rn_seed = seed, rn_started_at = now\<rparr> in
     Inr (run, a\<lparr>ap_runs := dset (ap_runs a) run_id run\<rparr>))))"

section \<open>Entities\<close>

text \<open>
  The three projections of a new entity, written into the branch one after the other. The
  conversions of the second and third record can raise after the first one has been stored.
\<close>

definition position_record :: "uuid \<Rightarrow> jdict \<Rightarrow> jdict res" where
  "position_record entity_id public =
     bindR (get_int public ''x'' 0) (\<lambda>x.
     bindR (get_int public ''y'' 0) (\<lambda>y.
     bindR (get_int public ''z'' 0) (\<lambda>z.
     Inr [(''entity_id'', JStr entity_id),
          (''zone_id'', dget_or public ''zone_id'' (JStr ''world'')),
          (''x'', JInt x), (''y'', JInt y), (''z'', JInt z),
          (''facing'', dget_or public ''facing'' JNull)])))"

definition sensory_record :: "pylib \<Rightarrow> uuid option \<Rightarrow> jdict \<Rightarrow> jdict res" where
  "sensory_record L controller public =
     bindR (py_float L (dget_or public ''hearing_acuity'' (JFloat 1))) (\<lambda>hearing.
     bindR (py_float L (dget_or public ''sight_acuity'' (JFloat 1))) (\<lambda>sight.
     let flag = (\<lambda>name. JBool (py_bool (dget_or public name (JBool False)))) in
     Inr [(''controller_actor_id'', opt_str controller), (''hearing_acuity'', JFloat hearing),
          (''sight_acuity'', JFloat sight), (''deafened'', flag ''deafened''),
          (''blinded'', flag ''blinded''), (''invisible'', flag ''invisible'')]))"

definition put_entry :: "branch_state \<Rightarrow> string \<Rightarrow> uuid \<Rightarrow> jdict \<Rightarrow> branch_state" where
  "put_entry s proj e d = set_bucket s proj (dset (bucket s proj) e (JDict d))"

definition project_entity ::
  "pylib \<Rightarrow> branch_state \<Rightarrow> uuid \<Rightarrow> string \<Rightarrow> string \<Rightarrow> uuid option \<Rightarrow> jdict \<Rightarrow> unit res \<times> branch_state" where
  "project_entity L s e name entity_type controller public =
     (let s1 = put_entry s ''tabletop.entities'' e
            (dupdate [(''name'', JStr name), (''entity_type'', JStr entity_type)] public) in
      case position_record e public of
        Inl err \<Rightarrow> (Inl err, s1)
      | Inr pos \<Rightarrow>
          (let s2 = put_entry s1 ''tabletop.spatial.positions'' e pos in
           case sensory_record L controller public of
             Inl err \<Rightarrow> (Inl err, s2)
           | Inr profile \<Rightarrow> (Inr (), put_entry s2 ''tabletop.sensory_profiles'' e profile)))"

definition create_entity ::
  "pylib \<Rightarrow> app \<Rightarrow> uuid \<Rightarrow> uuid \<Rightarrow> string \<Rightarrow> string \<Rightarrow> jdict \<Rightarrow> jdict \<Rightarrow> uuid option \<Rightarrow> uuid \<Rightarrow> bool \<Rightarrow>
   entity_record res \<times> app" where
  "create_entity L a world_id branch_id name entity_type public secret controller entity_id project =
     (case store_get (app_states a) branch_id of
        Inl e \<Rightarrow> (Inl e, a)
      | Inr branch \<Rightarrow>
          if bs_world_id branch \<noteq> world_id then (Inl (ValueError ''branch does not belong to world''), a)
          else
            (let entity = \<lparr>er_entity_id = entity_id, er_world_id = world_id, er_branch_id = branch_id,
                   er_entity_type = entity_type, er_name = name, er_controller_actor_id = controller,
                   er_public_state = public, er_secret_state = secret\<rparr>;
                 a1 = a\<lparr>ap_entities := dset (ap_entities a) (branch_id, entity_id) entity\<rparr>
             in case (case controller of None \<Rightarrow> Inr a1
                        | Some c \<Rightarrow> bindR (assign_control a1 world_id c entity_id) (\<lambda>(_, x). Inr x)) of
                  Inl e \<Rightarrow> (Inl e, a1)
                | Inr a2 \<Rightarrow>
                    if \<not> project then (Inr entity, a2)
                    else
                      (case project_entity L branch entity_id name entity_type controller public of
                         (r, branch') \<Rightarrow>
                           (bindR r (\<lambda>_. Inr entity),
                            set_app_states a2 ((app_states a2)
                              \<lparr>branches := dset (branches (app_states a2)) branch_id branch'\<rparr>)))))"

section \<open>Submitting commands\<close>

text \<open>The checks of \<open>submit\<close> that do not change the service.\<close>

definition submit_checks :: "pylib \<Rightarrow> app \<Rightarrow> proposal \<Rightarrow> actor res" where
  "submit_checks L a p =
     bindR (store_get (app_states a) (p_branch_id p)) (\<lambda>branch.
     bindR (ensure (bs_world_id branch = p_world_id p)
       (ValueError ''proposal branch does not belong to world'')) (\<lambda>_.
     bindR (ensure (case dget (ap_runs a) (p_run_id p) of None \<Rightarrow> False
         | Some run \<Rightarrow> rn_world_id run = p_world_id p \<and> rn_branch_id run = p_branch_id p)
       (ValueError ''proposal run does not belong to world branch'')) (\<lambda>_.
     bindR (authority a (p_world_id p) (p_actor_id p)) (\<lambda>auth.
     bindR (if p_command_type p = ''tabletop.entity.spawn''
            then bindR (parse_uuid L (py_str L (dget_or (p_parameters p) ''entity_id'' JNull))) (\<lambda>e.
                 bindR (ensure (\<not> dhas (ap_entities a) (p_branch_id p, e))
                   (ValueError ''entity already exists in this branch'')) (\<lambda>_.
                 (case pget (p_parameters p) ''controller_actor_id'' of
                    None \<Rightarrow> Inr ()
                  | Some c \<Rightarrow> bindR (parse_uuid L (py_str L c)) (\<lambda>u.
                      bindR (authority a (p_world_id p) u) (\<lambda>_. Inr ())))))
            else Inr ()) (\<lambda>_.
     Inr auth)))))"

definition capture_base :: "app \<Rightarrow> uuid \<Rightarrow> app" where
  "capture_base a b =
     (if dhas (ap_bases a) b then a
      else case dget (branches (app_states a)) b of
          None \<Rightarrow> a
        | Some s \<Rightarrow> a\<lparr>ap_bases := dset (ap_bases a) b (working_copy s),
                      ap_offsets := dset (ap_offsets a) b (length (dget_or (ap_history a) b []))\<rparr>)"

definition expected_entity :: "proposal \<Rightarrow> entity_mutation \<Rightarrow> entity_record" where
  "expected_entity p m = \<lparr>er_entity_id = em_entity_id m, er_world_id = p_world_id p,
     er_branch_id = p_branch_id p, er_entity_type = em_entity_type m, er_name = em_name m,
     er_controller_actor_id = em_controller_actor_id m, er_public_state = em_public_state m,
     er_secret_state = em_secret_state m\<rparr>"

fun record_mutations :: "pylib \<Rightarrow> proposal \<Rightarrow> app \<Rightarrow> entity_mutation list \<Rightarrow> unit res \<times> app" where
  "record_mutations L p a [] = (Inr (), a)"
| "record_mutations L p a (m # ms) =
     (case dget (ap_entities a) (p_branch_id p, em_entity_id m) of
        None \<Rightarrow>
          (case create_entity L a (p_world_id p) (p_branch_id p) (em_name m) (em_entity_type m)
                  (em_public_state m) (em_secret_state m) (em_controller_actor_id m)
                  (em_entity_id m) False of
             (Inl e, a') \<Rightarrow> (Inl e, a')
           | (Inr _, a') \<Rightarrow> record_mutations L p a' ms)
      | Some existing \<Rightarrow>
          if existing \<noteq> expected_entity p m
          then (Inl (ValueError ''idempotent entity mutation differs from entity''), a)
          else record_mutations L p a ms)"

definition record_event :: "proposal \<Rightarrow> receipt \<Rightarrow> app \<Rightarrow> app" where
  "record_event p r a = a\<lparr>ap_events := dset (ap_events a) (e_event_id (rc_event r)) (rc_event r),
     ap_history := dset (ap_history a) (p_branch_id p) (dget_or (ap_history a) (p_branch_id p) [] @
       [\<lparr>rr_proposal = p, rr_result = rc_result r, rr_expected_state_hash = rc_state_hash r\<rparr>])\<rparr>"

definition record_grants :: "receipt \<Rightarrow> app \<Rightarrow> app" where
  "record_grants r a = a\<lparr>ap_perceptions := foldl (\<lambda>acc g.
     dset acc (g_event_id g, g_observer_entity_id g) g) (ap_perceptions a) (rc_perceptions r)\<rparr>"

definition submit :: "pylib \<Rightarrow> int \<Rightarrow> app \<Rightarrow> proposal \<Rightarrow> receipt res \<times> app" where
  "submit L now a p =
     (case submit_checks L a p of
        Inl e \<Rightarrow> (Inl e, a)
      | Inr auth \<Rightarrow>
          (let a1 = capture_base a (p_branch_id p) in
           case execute L now (ap_bus a1) p auth of
             (Inl e, b) \<Rightarrow> (Inl e, a1\<lparr>ap_bus := b\<rparr>)
           | (Inr r, b) \<Rightarrow>
               (let a2 = a1\<lparr>ap_bus := b\<rparr> in
                if dhas (ap_events a2) (e_event_id (rc_event r))
                then (Inr r, record_grants r a2)
                else
                  (case (if cr_accepted (rc_result r)
                         then record_mutations L p a2 (cr_entity_mutations (rc_result r))
                         else (Inr (), a2)) of
                     (Inl e, a3) \<Rightarrow> (Inl e, a3)
                   | (Inr _, a3) \<Rightarrow> (Inr r, record_grants r (record_event p r a3))))))"

section \<open>Reading\<close>

definition perception_grant :: "app \<Rightarrow> uuid \<Rightarrow> uuid \<Rightarrow> grant option" where
  "perception_grant a event_id observer = dget (ap_perceptions a) (event_id, observer)"

definition perceptions_for_entity :: "app \<Rightarrow> uuid \<Rightarrow> uuid \<Rightarrow> uuid \<Rightarrow> grant list" where
  "perceptions_for_entity a world_id branch_id observer = sort_key g_event_id
     [g \<leftarrow> map snd (ap_perceptions a). g_world_id g = world_id \<and> g_branch_id g = branch_id \<and>
        g_observer_entity_id g = observer]"

definition visible_events :: "app \<Rightarrow> uuid \<Rightarrow> event list" where
  "visible_events a aid =
     [ev \<leftarrow> sort_key e_created_at (map snd (ap_events a)).
        case dget (ap_authorities a) (e_world_id ev, aid) of
          None \<Rightarrow> False | Some auth \<Rightarrow> event_for ev auth \<noteq> None]"

section \<open>Snapshots, trials and replay\<close>

definition create_branch_snapshot :: "pylib \<Rightarrow> app \<Rightarrow> uuid \<Rightarrow> (manifest \<times> app) res" where
  "create_branch_snapshot L a branch_id =
     bindR (store_get (app_states a) branch_id) (\<lambda>s.
     let through = length (dget_or (ap_history a) branch_id []);
         (m, ss) = snapshot_create L (ap_snapshot_store a) (bs_world_id s) branch_id (int through) (projections s)
     in Inr (m, a\<lparr>ap_snapshot_store := ss,
                  ap_snapshots := dset (ap_snapshots a) (mf_snapshot_id m) m\<rparr>))"

definition create_snapshot :: "pylib \<Rightarrow> app \<Rightarrow> uuid \<Rightarrow> (manifest \<times> app) res" where
  "create_snapshot L a world_id =
     bindR (of_option (KeyError world_id) (dget (ap_worlds a) world_id)) (\<lambda>w.
     create_branch_snapshot L a (wr_canonical_branch_id w))"

text \<open>The projections of a loaded document; a snapshot always holds a mapping of mappings.\<close>

definition projections_of_json :: "jval \<Rightarrow> projections res" where
  "projections_of_json v = bindR (as_mapping v) (\<lambda>d.
     mapR (\<lambda>(k, b). bindR (as_mapping b) (\<lambda>m. Inr (k, m))) d)"

definition trial_entity :: "branch_state \<Rightarrow> entity_record \<Rightarrow> entity_record res" where
  "trial_entity branch e =
     bindR (as_mapping (dget_or (bucket branch ''tabletop.entities'') (er_entity_id e)
       (JDict (er_public_state e)))) (\<lambda>projected.
     Inr (e\<lparr>er_branch_id := bs_branch_id branch,
            er_public_state := [kv \<leftarrow> projected. fst kv \<notin> {''name'', ''entity_type''}]\<rparr>))"

fun add_trial_entities ::
  "branch_state \<Rightarrow> ((uuid \<times> uuid) \<times> entity_record) list \<Rightarrow> entity_record list \<Rightarrow>
   unit res \<times> ((uuid \<times> uuid) \<times> entity_record) list" where
  "add_trial_entities branch ents [] = (Inr (), ents)"
| "add_trial_entities branch ents (e # es) =
     (case trial_entity branch e of
        Inl err \<Rightarrow> (Inl err, ents)
      | Inr e' \<Rightarrow> add_trial_entities branch
          (dsetdefault ents (bs_branch_id branch, er_entity_id e) e') es)"

definition create_trial :: "pylib \<Rightarrow> int \<Rightarrow> app \<Rightarrow> uuid \<Rightarrow> uuid \<Rightarrow> int \<Rightarrow> (branch_state \<times> run_record) res \<times> app" where
  "create_trial L now a world_id snapshot_id seed =
     (case bindR (of_option (KeyError world_id) (dget (ap_worlds a) world_id)) (\<lambda>w.
           bindR (of_option (KeyError snapshot_id) (dget (ap_snapshots a) snapshot_id)) (\<lambda>m.
           bindR (ensure (mf_world_id m = world_id) (ValueError ''snapshot does not belong to world'')) (\<lambda>_.
           Inr (w, m)))) of
        Inl e \<Rightarrow> (Inl e, a)
      | Inr (w, m) \<Rightarrow>
          (let branch_id = stable_id L (''trial:'' @ snapshot_id @ '':'' @ int_str seed) in
           case (case dget (branches (app_states a)) branch_id of
                   Some branch \<Rightarrow> Inr (branch, app_states a)
                 | None \<Rightarrow>
                     bindR (snapshot_load L (ap_snapshot_store a) m) (\<lambda>payload.
                     bindR (bindR (of_option (KeyError ''projections'') (dget payload ''projections''))
                       projections_of_json) (\<lambda>ps.
                     let branch = \<lparr>bs_world_id = world_id, bs_branch_id = branch_id, bs_kind = TRIAL,
                           projections = ps, base_snapshot_hash = Some (mf_state_hash m),
                           bs_version = 0\<rparr>
                     in bindR (store_add (app_states a) branch) (\<lambda>st. Inr (branch, st))))) of
             Inl e \<Rightarrow> (Inl e, a)
           | Inr (branch, st) \<Rightarrow>
               (let run_id = stable_id L (''run:'' @ branch_id @ '':'' @ int_str seed);
                    run = dget_or (ap_runs a) run_id
                      \<lparr>rn_run_id = run_id, rn_world_id = world_id, rn_branch_id = branch_id,
                       rn_kind = EVALUATION, rn_status = ''ACTIVE'', rn_seed = Some seed,
                       rn_started_at = now\<rparr>;
                    a1 = (set_app_states a st)\<lparr>ap_runs := dsetdefault (ap_runs a) run_id run\<rparr>;
                    canonical = [e. ((b, _), e) \<leftarrow> ap_entities a, b = wr_canonical_branch_id w]
                in case add_trial_entities branch (ap_entities a) canonical of
                     (r, ents) \<Rightarrow> (bindR r (\<lambda>_. Inr (branch, run)), a1\<lparr>ap_entities := ents\<rparr>))))"

definition replay_branch :: "pylib \<Rightarrow> app \<Rightarrow> uuid \<Rightarrow> branch_state res" where
  "replay_branch L a branch_id =
     (case dget (ap_bases a) branch_id of
        None \<Rightarrow> bindR (store_get (app_states a) branch_id) (\<lambda>s. Inr (working_copy s))
      | Some base \<Rightarrow> replay L base
          (drop (dget_or (ap_offsets a) branch_id 0) (dget_or (ap_history a) branch_id [])))"

section \<open>The demo world\<close>

definition demo_capabilities :: "string set" where
  "demo_capabilities = {''world.read'', ''world.read.all'', ''entity.control'', ''entity.act'',
     ''entity.create'', ''entity.read.secret'', ''action.propose'', ''action.commit'',
     ''run.branch'', ''metric.evaluate'', ''canonical.promote'', ''faction.manage'',
     ''divine.invoke'', ''mind.read.all'', ''mind.write.all''}"

definition demo_state ::
  "int \<Rightarrow> int \<Rightarrow> int \<Rightarrow> int \<Rightarrow> int \<Rightarrow> int \<Rightarrow> int \<Rightarrow> jdict \<Rightarrow> string \<Rightarrow> jdict" where
  "demo_state x y hp max_hp armor mana gold inventory faction =
     [(''x'', JInt x), (''y'', JInt y), (''hp'', JInt hp), (''max_hp'', JInt max_hp),
      (''armor'', JInt armor), (''mana'', JInt mana), (''gold'', JInt gold),
      (''inventory'', JDict inventory), (''faction'', JStr faction), (''conditions'', JList [])]"

definition bootstrap_existing :: "app \<Rightarrow> world_record \<Rightarrow> (string \<times> uuid) list res" where
  "bootstrap_existing a w =
     bindR (of_option StopIteration (List.find (\<lambda>r. rn_world_id r = wr_world_id w \<and>
         rn_branch_id r = wr_canonical_branch_id w) (map snd (ap_runs a)))) (\<lambda>run.
     bindR (case authorities_for_world a (wr_world_id w) of
         [] \<Rightarrow> Inl StopIteration | x # _ \<Rightarrow> Inr x) (\<lambda>auth.
     Inr [(''world_id'', wr_world_id w), (''branch_id'', wr_canonical_branch_id w),
          (''run_id'', rn_run_id run), (''actor_id'', actor_id auth)]))"

text \<open>Sequencing of operations that return the service with the result.\<close>

definition bindS :: "'a res \<times> app \<Rightarrow> ('a \<Rightarrow> app \<Rightarrow> 'b res \<times> app) \<Rightarrow> 'b res \<times> app" where
  "bindS m f = (case m of (Inl e, a) \<Rightarrow> (Inl e, a) | (Inr x, a) \<Rightarrow> f x a)"

definition bootstrap_demo :: "pylib \<Rightarrow> int \<Rightarrow> app \<Rightarrow> (string \<times> uuid) list res \<times> app" where
  "bootstrap_demo L now a =
     (case ap_worlds a of
        (_, w) # _ \<Rightarrow> (bootstrap_existing a w, a)
      | [] \<Rightarrow>
          (let world_id = stable_id L ''demo:world'';
               branch_id = stable_id L ''demo:branch:canonical'';
               hero_id = stable_id L ''demo:entity:hero'' in
           bindS (case create_world L now a ''Eclipse Keep'' (Some ''eclipse-keep'') world_id branch_id of
                    Inl e \<Rightarrow> (Inl e, a) | Inr (w, a1) \<Rightarrow> (Inr w, a1)) (\<lambda>world a1.
           bindS (create_actor a1 ''Local GM'' HUMAN {''GM'', ''PLAYER'', ''OBSERVER''} demo_capabilities
                    {hero_id} (stable_id L ''demo:actor:operator'') (Some (wr_world_id world))) (\<lambda>auth a2.
           bindS (create_entity L a2 world_id branch_id ''Aster Vale'' ''PLAYER_CHARACTER''
                    (demo_state 2 3 24 24 14 12 40 [(''healing_herb'', JInt 2)] ''keepers'') []
                    (Some (actor_id auth)) hero_id True) (\<lambda>_ a3.
           bindS (create_entity L a3 world_id branch_id ''Ash Wolf'' ''NPC''
                    (demo_state 3 3 11 11 11 0 0 [] ''wild'') []
                    None (stable_id L ''demo:entity:wolf'') True) (\<lambda>_ a4.
           bindS (create_entity L a4 world_id branch_id ''Mara Venn'' ''NPC''
                    (demo_state 4 2 18 18 10 0 120 [(''healing_herb'', JInt 20)] ''merchants'') []
                    None (stable_id L ''demo:entity:merchant'') True) (\<lambda>_ a5.
           (bindR (of_option StopIteration (List.find (\<lambda>r. rn_world_id r = wr_world_id world)
                (map snd (ap_runs a5)))) (\<lambda>run.
              Inr [(''world_id'', wr_world_id world), (''branch_id'', branch_id),
                   (''run_id'', rn_run_id run), (''actor_id'', actor_id auth), (''hero_id'', hero_id)]),
            a5))))))))"

end
