(* ===== verification/ApplicationFacts.thy ===== *)
theory ApplicationFacts
  imports Application
begin

text \<open>
  The invariant of the application service and its operations as a step relation. The service
  keeps three tables of what happened (receipts, events, history); the invariant says that they
  agree and that replaying the history of a branch from its base gives the committed branch.
  Operations that a host performs while it sets a branch up (\<open>create_entity\<close> with projection)
  are steps only as long as no command has been submitted to the branch.
\<close>

section \<open>Replay\<close>

lemma state_hash_version [simp]: "state_hash L (s\<lparr>bs_version := v\<rparr>) = state_hash L s"
  by (simp add: state_hash_def)

lemma replay_Nil [simp]: "replay L base [] = Inr base"
  by (simp add: replay_def)

lemma replay_snoc:
  assumes "replay L base rs = Inr s" "apply_deltas L s (cr_deltas (rr_result rec)) = Inr t"
    and "state_hash L t = rr_expected_state_hash rec"
  shows "replay L base (rs @ [rec]) = Inr (t\<lparr>bs_version := bs_version t + 1\<rparr>)"
  using assms by (auto simp: replay_def foldR_append bindR_eq_Inr replay_step_def Let_def)

text \<open>What a fresh execution commits is what replaying its receipt computes.\<close>

lemma commit_is_replay:
  assumes "cd_handler d = reads_only f" "run_command L b now d q a s = (Inr r, w)"
  shows "apply_deltas L s (cr_deltas (rc_result r)) = Inr w" "rc_state_hash r = state_hash L w"
    "s\<lparr>projections := projections w, base_snapshot_hash := base_snapshot_hash w,
       bs_version := bs_version s + 1\<rparr> = w\<lparr>bs_version := bs_version w + 1\<rparr>"
    "f q s = Inr (rc_result r)"
proof -
  from assms(2) obtain s' where h: "cd_handler d q s = (Inr (rc_result r), s')"
    and w: "apply_deltas L s' (cr_deltas (rc_result r)) = Inr w"
    and hash: "rc_state_hash r = state_hash L w" by (rule run_command_Inr)
  from h have "(f q s, s) = (Inr (rc_result r), s')" by (simp only: assms(1) reads_only_def)
  then have s': "s' = s" and "f q s = Inr (rc_result r)" by blast+
  then show "f q s = Inr (rc_result r)" by simp
  from w s' show d: "apply_deltas L s (cr_deltas (rc_result r)) = Inr w" by simp
  show "rc_state_hash r = state_hash L w" by (rule hash)
  show "s\<lparr>projections := projections w, base_snapshot_hash := base_snapshot_hash w,
       bs_version := bs_version s + 1\<rparr> = w\<lparr>bs_version := bs_version w + 1\<rparr>"
    using apply_deltas_frame(1-5) [OF d] by simp
qed

section \<open>The invariant\<close>

definition key_event_id :: "pylib \<Rightarrow> receipt_key \<Rightarrow> uuid" where
  "key_event_id L k = (case k of (run, act, key) \<Rightarrow>
     uuid5 L (''tabletop-dm:event:'' @ run @ '':'' @ act @ '':'' @ key))"

text \<open>The canonical text of a UUID has 36 characters.\<close>

definition uuid_text :: "uuid \<Rightarrow> bool" where
  "uuid_text u = (length u = 36)"

definition proposal_ok :: "proposal \<Rightarrow> bool" where
  "proposal_ok p = (uuid_text (p_run_id p) \<and> uuid_text (p_actor_id p))"

lemma key_event_id_inj:
  assumes "uuid5_injective L" "key_event_id L (r, a, k) = key_event_id L (r', a', k')"
    and "uuid_text r" "uuid_text r'" "uuid_text a" "uuid_text a'"
  shows "(r, a, k) = (r', a', k')"
proof -
  have "''tabletop-dm:event:'' @ r @ '':'' @ a @ '':'' @ k = ''tabletop-dm:event:'' @ r' @ '':'' @ a' @ '':'' @ k'"
    using assms(1,2) by (auto simp: uuid5_injective_def key_event_id_def)
  then have "r @ '':'' @ a @ '':'' @ k = r' @ '':'' @ a' @ '':'' @ k'" by simp
  moreover have "length r = length r'" "length a = length a'"
    using assms(3-6) by (simp_all add: uuid_text_def)
  ultimately show ?thesis by simp
qed

lemma stable_event_id_key: "stable_event_id L p = key_event_id L (receipt_key_of p)"
  by (simp add: stable_event_id_def key_event_id_def receipt_key_of_def)

text \<open>Registered commands, and receipts that agree with the recorded events.\<close>

definition bus_ok :: "pylib \<Rightarrow> bus \<Rightarrow> bool" where
  "bus_ok L b \<longleftrightarrow> bus_resolver b = grid_resolver L \<and>
     bus_definitions b = map (\<lambda>d. (cd_command_type d, d)) (application_definitions L)"

definition ledger_ok :: "pylib \<Rightarrow> app \<Rightarrow> bool" where
  "ledger_ok L a \<longleftrightarrow>
     (\<forall>k r. dget (receipts (app_states a)) k = Some r \<longrightarrow>
        uuid_text (fst k) \<and> uuid_text (fst (snd k)) \<and> e_event_id (rc_event r) = key_event_id L k) \<and>
     (\<forall>ev. dhas (ap_events a) ev \<longleftrightarrow> (\<exists>k. dhas (receipts (app_states a)) k \<and> ev = key_event_id L k))"

definition branch_replays :: "pylib \<Rightarrow> app \<Rightarrow> uuid \<Rightarrow> bool" where
  "branch_replays L a b \<longleftrightarrow>
     (\<forall>base. dget (ap_bases a) b = Some base \<longrightarrow> (\<exists>s. dget (branches (app_states a)) b = Some s \<and>
        dget_or (ap_offsets a) b 0 \<le> length (dget_or (ap_history a) b []) \<and>
        replay L base (drop (dget_or (ap_offsets a) b 0) (dget_or (ap_history a) b [])) = Inr s))"

text \<open>\<open>W\<close> are the branches that were written past the ledger.\<close>

definition app_ok :: "pylib \<Rightarrow> uuid set \<Rightarrow> app \<Rightarrow> bool" where
  "app_ok L W a \<longleftrightarrow> bus_ok L (ap_bus a) \<and> ledger_ok L a \<and>
     (\<forall>b. dhas (ap_bases a) b \<longrightarrow> dhas (branches (app_states a)) b) \<and> (\<forall>b. b \<notin> W \<longrightarrow> branch_replays L a b)"

lemma app_ok_mono: "app_ok L W a \<Longrightarrow> W \<subseteq> V \<Longrightarrow> app_ok L V a"
  by (auto simp: app_ok_def)

lemma app_ok_init: "init_app L artifacts = Inr a \<Longrightarrow> app_ok L W a"
  by (auto simp: init_app_def application_bus_eq app_ok_def bus_ok_def ledger_ok_def
      branch_replays_def app_states_def empty_store_def dhas_def)

text \<open>Operations that leave the recorded part of the service alone.\<close>

definition same_record :: "app \<Rightarrow> app \<Rightarrow> bool" where
  "same_record a a' \<longleftrightarrow> ap_bus a' = ap_bus a \<and> ap_events a' = ap_events a \<and>
     ap_history a' = ap_history a \<and> ap_bases a' = ap_bases a \<and> ap_offsets a' = ap_offsets a"

lemma app_ok_same_record: "same_record a a' \<Longrightarrow> app_ok L W a \<Longrightarrow> app_ok L W a'"
  by (simp add: same_record_def app_ok_def ledger_ok_def branch_replays_def app_states_def)

text \<open>Operations that add a branch, or change one that has no base yet.\<close>

lemma app_ok_branch:
  assumes "app_ok L W a" "ap_events a' = ap_events a" "ap_history a' = ap_history a"
    "ap_bases a' = ap_bases a" "ap_offsets a' = ap_offsets a"
    and "ap_bus a' = (ap_bus a)\<lparr>bus_states := st\<rparr>" "receipts st = receipts (app_states a)"
    and "\<And>b. dhas (ap_bases a) b \<Longrightarrow> b \<notin> W \<Longrightarrow> dget (branches st) b = dget (branches (app_states a)) b"
    and "\<And>b. dhas (branches (app_states a)) b \<Longrightarrow> dhas (branches st) b"
  shows "app_ok L W a'"
proof -
  have st: "app_states a' = st" by (simp add: app_states_def assms(6))
  have "branch_replays L a' b" if "b \<notin> W" for b
    using assms(1) assms(8) [of b] that
    by (auto simp: app_ok_def branch_replays_def st assms(3-5) dhas_def)
  then show ?thesis
    using assms(1) assms(9) by (simp add: app_ok_def bus_ok_def ledger_ok_def st assms(2,4,6,7))
qed

section \<open>Submitting a command\<close>

lemma submit_checks_Inr:
  assumes "submit_checks L a p = Inr auth"
  obtains s run where "dget (branches (app_states a)) (p_branch_id p) = Some s"
    "bs_world_id s = p_world_id p" "dget (ap_runs a) (p_run_id p) = Some run"
    "rn_world_id run = p_world_id p" "rn_branch_id run = p_branch_id p"
    "dget (ap_authorities a) (p_world_id p, p_actor_id p) = Some auth"
    "p_command_type p = ''tabletop.entity.spawn'' \<longrightarrow>
       (\<exists>e. parse_uuid L (py_str L (dget_or (p_parameters p) ''entity_id'' JNull)) = Inr e \<and>
          \<not> dhas (ap_entities a) (p_branch_id p, e) \<and>
          (\<forall>c. pget (p_parameters p) ''controller_actor_id'' = Some c \<longrightarrow>
             (\<exists>u. parse_uuid L (py_str L c) = Inr u \<and> dhas (ap_authorities a) (p_world_id p, u))))"
proof -
  from assms obtain s run where base: "dget (branches (app_states a)) (p_branch_id p) = Some s"
    "bs_world_id s = p_world_id p" "dget (ap_runs a) (p_run_id p) = Some run"
    "rn_world_id run = p_world_id p" "rn_branch_id run = p_branch_id p"
    "dget (ap_authorities a) (p_world_id p, p_actor_id p) = Some auth"
    by (auto simp: submit_checks_def bindR_eq_Inr authority_def simp del: bindR_ensure
        split: option.splits)
  have "p_command_type p = ''tabletop.entity.spawn'' \<longrightarrow>
       (\<exists>e. parse_uuid L (py_str L (dget_or (p_parameters p) ''entity_id'' JNull)) = Inr e \<and>
          \<not> dhas (ap_entities a) (p_branch_id p, e) \<and>
          (\<forall>c. pget (p_parameters p) ''controller_actor_id'' = Some c \<longrightarrow>
             (\<exists>u. parse_uuid L (py_str L c) = Inr u \<and> dhas (ap_authorities a) (p_world_id p, u))))"
  proof
    assume spawn: "p_command_type p = ''tabletop.entity.spawn''"
    show "\<exists>e. parse_uuid L (py_str L (dget_or (p_parameters p) ''entity_id'' JNull)) = Inr e \<and>
          \<not> dhas (ap_entities a) (p_branch_id p, e) \<and>
          (\<forall>c. pget (p_parameters p) ''controller_actor_id'' = Some c \<longrightarrow>
             (\<exists>u. parse_uuid L (py_str L c) = Inr u \<and> dhas (ap_authorities a) (p_world_id p, u)))"
      using assms
      by (auto simp: submit_checks_def bindR_eq_Inr authority_def spawn dhas_def
          simp del: bindR_ensure pget_Some split: option.splits)
  qed
  with base show ?thesis by (rule that)
qed

lemma capture_base_same [simp]:
  "ap_bus (capture_base a b) = ap_bus a" "ap_events (capture_base a b) = ap_events a"
  "ap_history (capture_base a b) = ap_history a" "ap_entities (capture_base a b) = ap_entities a"
  "ap_authorities (capture_base a b) = ap_authorities a" "ap_runs (capture_base a b) = ap_runs a"
  "ap_perceptions (capture_base a b) = ap_perceptions a" "ap_worlds (capture_base a b) = ap_worlds a"
  "ap_actors (capture_base a b) = ap_actors a" "ap_snapshots (capture_base a b) = ap_snapshots a"
  "ap_snapshot_store (capture_base a b) = ap_snapshot_store a"
  "app_states (capture_base a b) = app_states a"
  by (simp_all add: capture_base_def app_states_def split: option.splits)

lemma capture_base_bus [simp]: "(capture_base a b)\<lparr>ap_bus := ap_bus a\<rparr> = capture_base a b"
  by (simp add: capture_base_def split: option.splits)

lemma capture_base_ok:
  assumes "app_ok L W a"
  shows "app_ok L W (capture_base a b)"
proof (cases "\<not> dhas (ap_bases a) b \<and> dget (branches (app_states a)) b \<noteq> None")
  case False
  then have "capture_base a b = a" by (auto simp: capture_base_def split: option.splits)
  with assms show ?thesis by simp
next
  case True
  then obtain s where s: "dget (branches (app_states a)) b = Some s" by blast
  have c: "capture_base a b = a\<lparr>ap_bases := dset (ap_bases a) b s,
      ap_offsets := dset (ap_offsets a) b (length (dget_or (ap_history a) b []))\<rparr>"
    using True s by (simp add: capture_base_def)
  have "branch_replays L (capture_base a b) b'" if "b' \<notin> W" for b'
  proof (cases "b' = b")
    case True
    with s show ?thesis by (simp add: c branch_replays_def app_states_def)
  next
    case False
    with assms that show ?thesis by (simp add: c app_ok_def branch_replays_def app_states_def dget_or_def)
  qed
  moreover have "dhas (branches (app_states a)) b" using s by (simp add: dhas_def)
  ultimately show ?thesis using assms by (auto simp: app_ok_def ledger_ok_def c app_states_def)
qed

lemma capture_base_has:
  "dget (branches (app_states a)) b = Some s \<Longrightarrow> dhas (ap_bases (capture_base a b)) b"
  by (simp add: capture_base_def)

text \<open>Recording mutations touches only the entity table and the authorities.\<close>

definition same_but_entities :: "app \<Rightarrow> app \<Rightarrow> bool" where
  "same_but_entities a a' \<longleftrightarrow> same_record a a' \<and> ap_worlds a' = ap_worlds a \<and>
     ap_runs a' = ap_runs a \<and> ap_actors a' = ap_actors a \<and> ap_perceptions a' = ap_perceptions a \<and>
     ap_snapshot_store a' = ap_snapshot_store a \<and> ap_snapshots a' = ap_snapshots a"

lemma same_but_entities_refl [simp]: "same_but_entities a a"
  by (simp add: same_but_entities_def same_record_def)

lemma same_but_entities_trans:
  "same_but_entities a a' \<Longrightarrow> same_but_entities a' a'' \<Longrightarrow> same_but_entities a a''"
  by (simp add: same_but_entities_def same_record_def)

lemma assign_control_Inr:
  "assign_control a w c e = Inr (auth, a') \<Longrightarrow> same_but_entities a a' \<and> ap_entities a' = ap_entities a"
  by (auto simp: assign_control_def authority_def bindR_eq_Inr same_but_entities_def same_record_def Let_def)

lemma create_entity_unprojected:
  assumes "create_entity L a w b nm ty public secret c e False = (res, a')"
  shows "same_but_entities a a'"
proof (cases "dget (branches (app_states a)) b")
  case None
  with assms show ?thesis by (simp add: create_entity_def store_get_def)
next
  case (Some s)
  let ?ent = "\<lparr>er_entity_id = e, er_world_id = w, er_branch_id = b, er_entity_type = ty,
    er_name = nm, er_controller_actor_id = c, er_public_state = public, er_secret_state = secret\<rparr>"
  let ?a1 = "a\<lparr>ap_entities := dset (ap_entities a) (b, e) ?ent\<rparr>"
  have a1: "same_but_entities a ?a1" by (simp add: same_but_entities_def same_record_def)
  show ?thesis
  proof (cases c)
    case None
    with assms Some a1 show ?thesis
      by (auto simp: create_entity_def store_get_def Let_def split: if_splits)
  next
    case (Some c')
    show ?thesis
    proof (cases "assign_control ?a1 w c' e")
      case (Inl err)
      with assms \<open>dget _ b = Some s\<close> Some a1 show ?thesis
        by (auto simp: create_entity_def store_get_def Let_def split: if_splits)
    next
      case (Inr x)
      obtain auth a2 where x: "x = (auth, a2)" by (cases x)
      with Inr a1 have "same_but_entities a a2"
        by (auto dest!: assign_control_Inr intro: same_but_entities_trans)
      with assms \<open>dget _ b = Some s\<close> Some Inr x show ?thesis
        by (auto simp: create_entity_def store_get_def Let_def split: if_splits)
    qed
  qed
qed

lemma record_mutations_same: "record_mutations L p a ms = (res, a') \<Longrightarrow> same_but_entities a a'"
proof (induction L p a ms rule: record_mutations.induct)
  case (1 L p a)
  then show ?case by simp
next
  case (2 L p a m ms)
  show ?case
  proof (cases "dget (ap_entities a) (p_branch_id p, em_entity_id m)")
    case None
    obtain r1 a1 where c: "create_entity L a (p_world_id p) (p_branch_id p) (em_name m)
        (em_entity_type m) (em_public_state m) (em_secret_state m) (em_controller_actor_id m)
        (em_entity_id m) False = (r1, a1)" by (rule prod.exhaust)
    note s1 = create_entity_unprojected [OF c]
    show ?thesis
    proof (cases r1)
      case (Inl e)
      with "2.prems" None c s1 show ?thesis by simp
    next
      case (Inr x)
      with "2.prems" None c have "record_mutations L p a1 ms = (res, a')" by simp
      with "2.IH"(1) [OF None c [symmetric] Inr] s1 show ?thesis
        by (blast intro: same_but_entities_trans)
    qed
  next
    case (Some ex)
    with 2 show ?thesis by (auto split: if_splits)
  qed
qed

text \<open>After the checks of \<open>submit\<close>, recording the mutations of a fresh result succeeds.\<close>

lemma spawn_request:
  assumes "lawful_lib L" "model_validate L SpawnEntityRequest d = Inr r"
  shows "model_validate L SpawnEntityRequest r = Inr r"
    "parse_uuid L (py_str L (dget_or d ''entity_id'' JNull)) = Inr (vstr r ''entity_id'')"
    "vopt r ''controller_actor_id'' = Some c \<Longrightarrow>
       \<exists>v. pget d ''controller_actor_id'' = Some v \<and> parse_uuid L (py_str L v) = Inr c"
proof -
  have dist: "distinct (map fst SpawnEntityRequest)" by (simp add: SpawnEntityRequest_def)
  show "model_validate L SpawnEntityRequest r = Inr r"
    by (rule model_validate_idem [OF assms(1) dist _ assms(2)])
      (auto simp: SpawnEntityRequest_def default_stable_def)
  from assms(2) have cf: "check_fields L SpawnEntityRequest d = Some r"
    by (simp add: model_validate_def)
  from check_fields_dget [OF cf dist, of "''entity_id''" FUuid None]
  obtain v u where "dget d ''entity_id'' = Some v" "co_uuid L v = Some u"
    "dget r ''entity_id'' = Some (JStr u)"
    by (auto simp: SpawnEntityRequest_def split: option.splits)
  with lawful_co(6) [OF assms(1)] show
    "parse_uuid L (py_str L (dget_or d ''entity_id'' JNull)) = Inr (vstr r ''entity_id'')"
    by (force simp: parse_uuid_def dget_or_def vstr_def)
  assume c: "vopt r ''controller_actor_id'' = Some c"
  from check_fields_dget [OF cf dist, of "''controller_actor_id''" "FOption FUuid" "Some JNull"]
  obtain w where w: "dget r ''controller_actor_id'' = Some w"
    "(case dget d ''controller_actor_id'' of Some v \<Rightarrow> check_kind L (FOption FUuid) v | None \<Rightarrow> Some JNull) = Some w"
    by (auto simp: SpawnEntityRequest_def)
  with c have "w = JStr c" by (auto simp: vopt_def split: jval.splits)
  with w(2) obtain v where "dget d ''controller_actor_id'' = Some v" "v \<noteq> JNull" "co_uuid L v = Some c"
    by (auto split: option.splits jval.splits)
  with lawful_co(6) [OF assms(1)] show
    "\<exists>v. pget d ''controller_actor_id'' = Some v \<and> parse_uuid L (py_str L v) = Inr c"
    by (force simp: parse_uuid_def)
qed

lemma spawn_mutation:
  assumes "spawn L p s = Inr r" "model_validate L SpawnEntityRequest (p_parameters p) = Inr req"
  shows "\<exists>m. cr_entity_mutations r = [m] \<and> em_entity_id m = vstr req ''entity_id'' \<and>
    em_controller_actor_id m = vopt req ''controller_actor_id'' \<and> cr_accepted r"
  using assms by (auto simp: spawn_def bindR_eq_Inr Let_def simp del: bindR_ensure)

lemma create_entity_accepted:
  assumes "dget (branches (app_states a)) b = Some s" "bs_world_id s = w"
    and "\<And>x. c = Some x \<Longrightarrow> dhas (ap_authorities a) (w, x)"
  shows "\<exists>ent a'. create_entity L a w b nm ty public secret c e False = (Inr ent, a')"
  using assms
  by (cases c)
    (auto simp: create_entity_def app_states_def store_get_def assign_control_def authority_def
        dhas_def Let_def)

lemma record_mutations_accepted:
  assumes "lawful_lib L" "submit_checks L a p = Inr auth" "bus_ok L (ap_bus a)"
    and "admit (ap_bus a) p auth = Inr (d, q)"
    and "run_command L bb now d q auth s = (Inr r, w)"
    and "ap_entities a' = ap_entities a" "ap_authorities a' = ap_authorities a"
    and "map fst (branches (app_states a')) = map fst (branches (app_states a))"
    and "\<And>b s t. dget (branches (app_states a)) b = Some s \<Longrightarrow> dget (branches (app_states a')) b = Some t \<Longrightarrow>
      bs_world_id t = bs_world_id s"
  shows "fst (record_mutations L p a' (cr_entity_mutations (rc_result r))) = Inr () \<and> cr_accepted (rc_result r)"
proof -
  have "dget (map (\<lambda>d. (cd_command_type d, d)) (application_definitions L)) (p_command_type p) = Some d"
    using admit_Inr(2) [OF assms(4)] assms(3) by (simp add: bus_ok_def)
  note d = registered [OF this]
  from registered_handler [OF d(1)] show ?thesis
  proof
    assume "\<exists>f. cd_handler d = reads_only f \<and> plain_handler f"
    then obtain f where f: "cd_handler d = reads_only f" "plain_handler f" by blast
    from commit_is_replay(4) [OF f(1) assms(5)] f(2) show ?thesis by (simp add: plain_handler_def)
  next
    assume ds: "d = spawn_definition L"
    from commit_is_replay(4) [OF _ assms(5)] ds have sp: "spawn L q s = Inr (rc_result r)"
      by (simp add: spawn_definition_def)
    from admit_Inr(6) [OF assms(4)] ds have v: "model_validate L SpawnEntityRequest (p_parameters p) = Inr (p_parameters q)"
      by (simp add: spawn_definition_def)
    from sp spawn_request(1) [OF assms(1) v] obtain m where
      m: "cr_entity_mutations (rc_result r) = [m]" "em_entity_id m = vstr (p_parameters q) ''entity_id''"
      "em_controller_actor_id m = vopt (p_parameters q) ''controller_actor_id''" "cr_accepted (rc_result r)"
      using spawn_mutation by blast
    have ty: "p_command_type p = ''tabletop.entity.spawn''"
      using d(2) ds by (simp add: spawn_definition_def)
    from assms(2) obtain s0 e where br: "dget (branches (app_states a)) (p_branch_id p) = Some s0"
      "bs_world_id s0 = p_world_id p"
      and e: "parse_uuid L (py_str L (dget_or (p_parameters p) ''entity_id'' JNull)) = Inr e"
      "\<not> dhas (ap_entities a) (p_branch_id p, e)"
      and ctrl: "\<And>c. pget (p_parameters p) ''controller_actor_id'' = Some c \<Longrightarrow>
             \<exists>u. parse_uuid L (py_str L c) = Inr u \<and> dhas (ap_authorities a) (p_world_id p, u)"
      by (rule submit_checks_Inr) (use ty in blast)
    have "e = em_entity_id m" using e(1) spawn_request(2) [OF assms(1) v] m(2) by simp
    with e(2) assms(6) have new: "dget (ap_entities a') (p_branch_id p, em_entity_id m) = None"
      by (simp add: dhas_def)
    from br(1) assms(8) obtain t where t: "dget (branches (app_states a')) (p_branch_id p) = Some t"
      by (metis domIff dom_map_of_conv_image_fst image_set not_Some_eq)
    with assms(9) br have "bs_world_id t = p_world_id p" by metis
    moreover have "dhas (ap_authorities a') (p_world_id p, x)" if "em_controller_actor_id m = Some x" for x
      using spawn_request(3) [OF assms(1) v] that m(3) ctrl assms(7) by force
    ultimately obtain ent a'' where "create_entity L a' (p_world_id p) (p_branch_id p) (em_name m)
        (em_entity_type m) (em_public_state m) (em_secret_state m) (em_controller_actor_id m)
        (em_entity_id m) False = (Inr ent, a'')"
      using create_entity_accepted [OF t] by blast
    with new m show ?thesis by simp
  qed
qed

lemma ledger_event:
  assumes "ledger_ok L a" "dget (receipts (app_states a)) k = Some r"
  shows "dhas (ap_events a) (e_event_id (rc_event r))"
proof -
  from assms have "e_event_id (rc_event r) = key_event_id L k" unfolding ledger_ok_def by blast
  moreover from assms(2) have "dhas (receipts (app_states a)) k" by (simp add: dhas_def)
  ultimately show ?thesis using assms(1) unfolding ledger_ok_def by blast
qed

text \<open>The four ways a submission can end.\<close>

lemma submit_cases:
  assumes "lawful_lib L" "uuid5_injective L" "app_ok L W a" "proposal_ok p" "submit L now a p = (res, a')"
  obtains (refused) e where "submit_checks L a p = Inl e" "res = Inl e" "a' = a"
  | (failed) auth e where "submit_checks L a p = Inr auth" "res = Inl e"
      "fst (execute L now (ap_bus a) p auth) = Inl e" "a' = capture_base a (p_branch_id p)"
  | (duplicate) auth r where "submit_checks L a p = Inr auth" "res = Inr r"
      "dget (receipts (app_states a)) (receipt_key_of p) = Some r"
      "a' = record_grants r (capture_base a (p_branch_id p))"
  | (fresh) auth d q r s w b' a3 where "submit_checks L a p = Inr auth" "res = Inr r"
      "admit (ap_bus a) p auth = Inr (d, q)" "d \<in> set (application_definitions L)"
      "dget (receipts (app_states a)) (receipt_key_of p) = None"
      "dget (branches (app_states a)) (p_branch_id p) = Some s"
      "run_command L (ap_bus a) now d q auth s = (Inr r, w)"
      "b' = (ap_bus a)\<lparr>bus_states := (app_states a)
         \<lparr>branches := dset (branches (app_states a)) (p_branch_id p)
            (s\<lparr>projections := projections w, base_snapshot_hash := base_snapshot_hash w,
              bs_version := bs_version s + 1\<rparr>),
          receipts := dset (receipts (app_states a)) (receipt_key_of p) r\<rparr>\<rparr>"
      "same_but_entities ((capture_base a (p_branch_id p))\<lparr>ap_bus := b'\<rparr>) a3"
      "\<not> dhas (ap_events a) (stable_event_id L p)"
      "a' = record_grants r (record_event p r a3)"
proof (cases "submit_checks L a p")
  case (Inl e)
  show ?thesis by (rule refused [OF Inl]) (use assms(5) Inl in \<open>simp_all add: submit_def\<close>)
next
  case (Inr auth)
  note chk = Inr
  let ?a1 = "capture_base a (p_branch_id p)"
  obtain out b where ex: "execute L now (ap_bus a) p auth = (out, b)" by (rule prod.exhaust)
  from ex show ?thesis
  proof (cases rule: execute_cases)
    case (refused e)
    with assms(5) chk ex have "res = Inl e" "fst (execute L now (ap_bus a) p auth) = Inl e" "a' = ?a1"
      by (auto simp: submit_def Let_def)
    then show ?thesis by (rule that(2) [OF chk])
  next
    case (failed d q e)
    with assms(5) chk ex have "res = Inl e" "fst (execute L now (ap_bus a) p auth) = Inl e" "a' = ?a1"
      by (auto simp: submit_def Let_def)
    then show ?thesis by (rule that(2) [OF chk])
  next
    case (duplicate d q r)
    have rec: "dget (receipts (app_states a)) (receipt_key_of p) = Some r"
      using duplicate by (simp add: app_states_def)
    with assms(3) have "dhas (ap_events a) (e_event_id (rc_event r))"
      by (intro ledger_event [where L = L]) (simp_all add: app_ok_def)
    with assms(5) chk ex duplicate have "res = Inr r" "a' = record_grants r ?a1"
      by (simp_all add: submit_def Let_def)
    with rec show ?thesis by (intro that(3) [OF chk])
  next
    case (fresh d q r s w)
    have bus: "bus_ok L (ap_bus a)" using assms(3) by (simp add: app_ok_def)
    have "dget (map (\<lambda>d. (cd_command_type d, d)) (application_definitions L)) (p_command_type p) = Some d"
      using admit_Inr(2) [OF fresh(1)] bus by (simp add: bus_ok_def)
    note d = registered [OF this]
    have ev: "e_event_id (rc_event r) = stable_event_id L p"
      using fresh(5) by (rule run_command_Inr)
        (simp add: materialize_Inr(1) admit_keeps(8) [OF fresh(1), of L])
    have new: "\<not> dhas (ap_events a) (stable_event_id L p)"
    proof
      assume "dhas (ap_events a) (stable_event_id L p)"
      with assms(3) obtain k r0 where k: "dget (receipts (app_states a)) k = Some r0"
        "stable_event_id L p = key_event_id L k"
        by (auto simp: app_ok_def ledger_ok_def dhas_def)
      obtain run act key where kk: "k = (run, act, key)" by (cases k)
      with assms(3) k(1) have "uuid_text run" "uuid_text act"
        by (auto simp: app_ok_def ledger_ok_def)
      with k(2) assms(2,4) have "k = receipt_key_of p"
        unfolding kk stable_event_id_key receipt_key_of_def
        by (intro key_event_id_inj [symmetric]) (auto simp: proposal_ok_def)
      with k(1) fresh(3) show False by (simp add: app_states_def)
    qed
    let ?a2 = "?a1\<lparr>ap_bus := b\<rparr>"
    obtain rr a3 where rm: "record_mutations L p ?a2 (cr_entity_mutations (rc_result r)) = (rr, a3)"
      by (rule prod.exhaust)
    have br: "dget (branches (app_states a)) (p_branch_id p) = Some s"
      using fresh(4) by (simp add: app_states_def)
    have "fst (record_mutations L p ?a2 (cr_entity_mutations (rc_result r))) = Inr () \<and>
      cr_accepted (rc_result r)"
    proof (rule record_mutations_accepted [OF assms(1) chk bus fresh(1) fresh(5)])
      have "p_branch_id p \<in> set (map fst (branches (app_states a)))"
        using br by (metis domI dom_map_of_conv_image_fst image_set)
      then show "map fst (branches (app_states ?a2)) = map fst (branches (app_states a))"
        by (simp add: app_states_def fresh(6) update_keys)
    qed (use br fresh(6) in \<open>auto simp: app_states_def split: if_splits\<close>)
    then have rr: "rr = Inr ()" and acc: "cr_accepted (rc_result r)" by (simp_all add: rm)
    have "res = Inr r" "a' = record_grants r (record_event p r a3)"
      using assms(5) chk ex fresh(2) ev new rm rr acc by (simp_all add: submit_def Let_def)
    moreover have "same_but_entities ?a2 a3" by (rule record_mutations_same [OF rm])
    ultimately show ?thesis
      using fresh br new by (intro that(4) [OF chk _ fresh(1) d(1)]) (simp_all add: app_states_def)
  qed
qed

section \<open>The invariant is preserved\<close>

lemma record_grants_same [simp]:
  "ap_bus (record_grants r a) = ap_bus a" "ap_events (record_grants r a) = ap_events a"
  "ap_history (record_grants r a) = ap_history a" "ap_bases (record_grants r a) = ap_bases a"
  "ap_offsets (record_grants r a) = ap_offsets a" "ap_entities (record_grants r a) = ap_entities a"
  "ap_authorities (record_grants r a) = ap_authorities a"
  "app_states (record_grants r a) = app_states a"
  by (simp_all add: record_grants_def app_states_def)

lemma record_grants_ok: "app_ok L W (record_grants r a) = app_ok L W a"
  by (simp add: app_ok_def ledger_ok_def branch_replays_def)

lemma record_event_same [simp]:
  "ap_bus (record_event p r a) = ap_bus a" "ap_bases (record_event p r a) = ap_bases a"
  "ap_offsets (record_event p r a) = ap_offsets a" "app_states (record_event p r a) = app_states a"
  "ap_entities (record_event p r a) = ap_entities a"
  "ap_authorities (record_event p r a) = ap_authorities a"
  "ap_events (record_event p r a) = dset (ap_events a) (e_event_id (rc_event r)) (rc_event r)"
  "ap_history (record_event p r a) = dset (ap_history a) (p_branch_id p)
     (dget_or (ap_history a) (p_branch_id p) [] @ [\<lparr>rr_proposal = p, rr_result = rc_result r,
        rr_expected_state_hash = rc_state_hash r\<rparr>])"
  by (simp_all add: record_event_def app_states_def)

lemma submit_ok:
  assumes "lawful_lib L" "uuid5_injective L" "app_ok L W a" "proposal_ok p" "submit L now a p = (res, a')"
  shows "app_ok L W a'"
  using assms
proof (cases rule: submit_cases)
  case (refused e)
  with assms show ?thesis by simp
next
  case (failed auth e)
  with assms show ?thesis by (simp add: capture_base_ok)
next
  case (duplicate auth r)
  with assms show ?thesis by (simp add: capture_base_ok record_grants_ok)
next
  case (fresh auth d q r s w b' a3)
  let ?b = "p_branch_id p" and ?k = "receipt_key_of p"
  let ?a1 = "capture_base a ?b"
  let ?s' = "s\<lparr>projections := projections w, base_snapshot_hash := base_snapshot_hash w,
              bs_version := bs_version s + 1\<rparr>"
  have ok1: "app_ok L W ?a1" by (rule capture_base_ok [OF assms(3)])
  have a3: "ap_bus a3 = b'" "ap_events a3 = ap_events a" "ap_history a3 = ap_history a"
    "ap_bases a3 = ap_bases ?a1" "ap_offsets a3 = ap_offsets ?a1"
    using fresh(9) by (simp_all add: same_but_entities_def same_record_def)
  have st: "app_states a3 = (app_states a)\<lparr>branches := dset (branches (app_states a)) ?b ?s',
      receipts := dset (receipts (app_states a)) ?k r\<rparr>"
    by (simp add: app_states_def a3(1) fresh(8))
  from registered_reads_only [OF fresh(4)] obtain f where f: "cd_handler d = reads_only f" by blast
  note c = commit_is_replay [OF f fresh(7)]
  have ev: "e_event_id (rc_event r) = key_event_id L ?k"
    using fresh(7) by (rule run_command_Inr)
      (simp add: materialize_Inr(1) stable_event_id_key admit_keeps(1) [OF fresh(3)])
  have "bus_ok L (ap_bus a3)" using assms(3) by (simp add: a3 fresh(8) app_ok_def bus_ok_def)
  moreover have "ledger_ok L (record_event p r a3)"
  proof -
    have led: "ledger_ok L a" using assms(3) by (simp add: app_ok_def)
    have rk: "dhas (receipts (app_states a3)) k \<longleftrightarrow> k = ?k \<or> dhas (receipts (app_states a)) k" for k
      by (simp add: st)
    have "dhas (ap_events (record_event p r a3)) x \<longleftrightarrow>
      (\<exists>k. dhas (receipts (app_states a3)) k \<and> x = key_event_id L k)" for x
    proof -
      have "dhas (ap_events (record_event p r a3)) x \<longleftrightarrow> x = key_event_id L ?k \<or> dhas (ap_events a) x"
        by (simp add: a3 ev)
      also have "\<dots> \<longleftrightarrow> x = key_event_id L ?k \<or> (\<exists>k. dhas (receipts (app_states a)) k \<and> x = key_event_id L k)"
        using led unfolding ledger_ok_def by blast
      also have "\<dots> \<longleftrightarrow> (\<exists>k. dhas (receipts (app_states a3)) k \<and> x = key_event_id L k)"
        by (simp only: rk) blast
      finally show ?thesis .
    qed
    moreover have "\<forall>k rc. dget (receipts (app_states a3)) k = Some rc \<longrightarrow>
        uuid_text (fst k) \<and> uuid_text (fst (snd k)) \<and> e_event_id (rc_event rc) = key_event_id L k"
    proof (intro allI impI)
      fix k rc assume "dget (receipts (app_states a3)) k = Some rc"
      then have "(k = ?k \<and> rc = r) \<or> dget (receipts (app_states a)) k = Some rc"
        by (simp add: st split: if_splits)
      then show "uuid_text (fst k) \<and> uuid_text (fst (snd k)) \<and> e_event_id (rc_event rc) = key_event_id L k"
      proof
        assume "k = ?k \<and> rc = r"
        then show ?thesis using assms(4) ev by (simp add: receipt_key_of_def proposal_ok_def)
      next
        assume "dget (receipts (app_states a)) k = Some rc"
        then show ?thesis using led unfolding ledger_ok_def by blast
      qed
    qed
    ultimately show ?thesis by (simp only: ledger_ok_def record_event_same) blast
  qed
  moreover have "branch_replays L (record_event p r a3) b" if clean: "b \<notin> W" for b
  proof (cases "b = ?b")
    case False
    have "branch_replays L ?a1 b" using ok1 clean by (simp add: app_ok_def)
    with False show ?thesis
      by (simp add: branch_replays_def st a3)
  next
    case True
    let ?off = "dget_or (ap_offsets ?a1) ?b 0" and ?h = "dget_or (ap_history a) ?b []"
    have "branch_replays L ?a1 ?b" using ok1 clean True by (simp add: app_ok_def)
    then have rep: "?off \<le> length ?h \<and> replay L base (drop ?off ?h) = Inr s"
      if "dget (ap_bases ?a1) ?b = Some base" for base
      using that fresh(6) by (auto simp: branch_replays_def)
    have "replay L base (drop ?off ?h @ [\<lparr>rr_proposal = p, rr_result = rc_result r,
        rr_expected_state_hash = rc_state_hash r\<rparr>]) = Inr ?s'"
      if "dget (ap_bases ?a1) ?b = Some base" for base
      unfolding c(3) by (rule replay_snoc) (use rep [OF that] c(1,2) in \<open>simp_all\<close>)
    with rep have "\<exists>t. dget (branches (app_states a3)) ?b = Some t \<and>
        ?off \<le> length (dget_or (ap_history (record_event p r a3)) ?b []) \<and>
        replay L base (drop ?off (dget_or (ap_history (record_event p r a3)) ?b [])) = Inr t"
      if "dget (ap_bases ?a1) ?b = Some base" for base
      using that by (intro exI [of _ ?s']) (simp add: st a3 le_SucI)
    then show ?thesis using True by (simp add: branch_replays_def a3)
  qed
  moreover have "dhas (branches (app_states (record_event p r a3))) b" if "dhas (ap_bases (record_event p r a3)) b" for b
    using ok1 that by (simp add: app_ok_def a3 st)
  ultimately show ?thesis
    by (simp only: fresh(11) record_grants_ok) (simp add: app_ok_def)
qed

section \<open>The service as a step relation\<close>

text \<open>
  One constructor per operation of the service that changes it; a step is taken whether the
  operation returns or raises. \<open>create_entity\<close> with projection writes a branch without a
  command. A step is labelled with the branches it writes past the ledger: those that have a replay base
  already, as an earlier write is part of the base.
\<close>

inductive app_step :: "pylib \<Rightarrow> uuid set \<Rightarrow> app \<Rightarrow> app \<Rightarrow> bool" for L where
  world: "create_world L now a name slug w b = Inr (wr, a') \<Longrightarrow> app_step L {} a a'"
| identity: "create_actor a name kind rs caps controlled aid w = (res, a') \<Longrightarrow> app_step L {} a a'"
| authority: "grant_authority a w aid rs caps controlled = Inr (auth, a') \<Longrightarrow> app_step L {} a a'"
| control: "assign_control a w aid e = Inr (auth, a') \<Longrightarrow> app_step L {} a a'"
| run: "create_run now a w b kind seed r = Inr (rn, a') \<Longrightarrow> app_step L {} a a'"
| entity: "create_entity L a w b nm ty public secret c e project = (res, a') \<Longrightarrow>
    app_step L (if project \<and> dhas (ap_bases a) b then {b} else {}) a a'"
| submission: "submit L now a p = (res, a') \<Longrightarrow> proposal_ok p \<Longrightarrow> app_step L {} a a'"
| snapshot: "create_branch_snapshot L a b = Inr (m, a') \<Longrightarrow> app_step L {} a a'"
| trial: "create_trial L now a w sid seed = (out, a') \<Longrightarrow> app_step L {} a a'"

text \<open>The states of the service, with the branches written past the ledger on the way.\<close>

inductive app_history :: "pylib \<Rightarrow> string \<Rightarrow> uuid set \<Rightarrow> app \<Rightarrow> bool" for L artifacts where
  start: "init_app L artifacts = Inr a \<Longrightarrow> app_history L artifacts {} a"
| step: "app_history L artifacts W a \<Longrightarrow> app_step L V a a' \<Longrightarrow> app_history L artifacts (W \<union> V) a'"

definition app_reachable :: "pylib \<Rightarrow> string \<Rightarrow> app \<Rightarrow> bool" where
  "app_reachable L artifacts a \<longleftrightarrow> (\<exists>W. app_history L artifacts W a)"

lemma app_history_clean: "app_history L artifacts {} a \<Longrightarrow> app_step L {} a a' \<Longrightarrow> app_history L artifacts {} a'"
  using app_history.step [of L artifacts "{}" a "{}" a'] by simp

inductive_cases app_stepE: "app_step L V a a'"

lemma app_ok_based:
  "app_ok L W a \<Longrightarrow> dhas (ap_bases a) b \<Longrightarrow> dhas (branches (app_states a)) b"
  by (simp add: app_ok_def)

lemma store_add_Inr:
  "store_add st s = Inr st' \<longleftrightarrow> \<not> dhas (branches st) (bs_branch_id s) \<and>
     st' = st\<lparr>branches := dset (branches st) (bs_branch_id s) s\<rparr>"
  by (auto simp: store_add_def)

text \<open>Adding a branch to the store keeps the invariant.\<close>

lemma app_ok_store_add:
  assumes "app_ok L W a" "store_add (app_states a) s = Inr st"
    and "ap_events a' = ap_events a" "ap_history a' = ap_history a" "ap_bases a' = ap_bases a"
      "ap_offsets a' = ap_offsets a" "ap_bus a' = (ap_bus a)\<lparr>bus_states := st\<rparr>"
  shows "app_ok L W a'"
proof (rule app_ok_branch [OF assms(1,3-7)])
  from assms(2) have fresh: "\<not> dhas (branches (app_states a)) (bs_branch_id s)"
    and st: "st = (app_states a)\<lparr>branches := dset (branches (app_states a)) (bs_branch_id s) s\<rparr>"
    by (simp_all add: store_add_Inr)
  show "receipts st = receipts (app_states a)" by (simp add: st)
  fix b assume "dhas (ap_bases a) b"
  with app_ok_based [OF assms(1)] fresh have "b \<noteq> bs_branch_id s" by blast
  then show "dget (branches st) b = dget (branches (app_states a)) b" by (simp add: st)
next
  from assms(2) show "dhas (branches st) b" if "dhas (branches (app_states a)) b" for b
    using that by (auto simp: store_add_Inr)
qed

lemma create_world_ok:
  assumes "app_ok L W a" "create_world L now a name slug w b = Inr (wr, a')"
  shows "app_ok L W a'"
proof -
  from assms(2) obtain s st where "store_add (app_states a) s = Inr st"
    "ap_events a' = ap_events a" "ap_history a' = ap_history a" "ap_bases a' = ap_bases a"
    "ap_offsets a' = ap_offsets a" "ap_bus a' = (ap_bus a)\<lparr>bus_states := st\<rparr>"
    by (auto simp: create_world_def create_world_branch_def bindR_eq_Inr Let_def set_app_states_def
        simp del: bindR_ensure)
  then show ?thesis by (rule app_ok_store_add [OF assms(1)])
qed

lemma same_record_steps:
  "create_actor a name kind rs caps controlled aid wo = (res, a') \<Longrightarrow> same_record a a'"
  "grant_authority a w aid rs caps controlled = Inr (auth, a') \<Longrightarrow> same_record a a'"
  "assign_control a w aid e = Inr (auth, a') \<Longrightarrow> same_record a a'"
  "create_run now a w b rkind seed r = Inr (rn, a') \<Longrightarrow> same_record a a'"
  "create_branch_snapshot L a b = Inr (m, a') \<Longrightarrow> same_record a a'"
proof -
  have g: "same_record x y" if "grant_authority x w aid rs caps controlled = Inr (auth, y)" for x y w auth
    using that by (auto simp: grant_authority_def bindR_eq_Inr Let_def same_record_def simp del: bindR_ensure)
  then show "grant_authority a w aid rs caps controlled = Inr (auth, a') \<Longrightarrow> same_record a a'" .
  show "same_record a a'" if "create_actor a name kind rs caps controlled aid wo = (res, a')"
  proof -
    let ?i = "\<lparr>actor_id = aid, actor_kind = kind, display_name = name, roles = {},
        capabilities = {}, controlled_entity_ids = {}\<rparr>"
    let ?a = "a\<lparr>ap_actors := dset (ap_actors a) aid ?i\<rparr>"
    have base: "same_record a ?a" by (simp add: same_record_def)
    have "a' = ?a \<or> (\<exists>w auth. grant_authority ?a w aid rs caps controlled = Inr (auth, a'))"
      using that by (auto simp: create_actor_def Let_def split: option.splits if_splits list.splits sum.splits prod.splits)
    with base g show ?thesis by (fastforce simp: same_record_def)
  qed
  show "assign_control a w aid e = Inr (auth, a') \<Longrightarrow> same_record a a'"
    using assign_control_Inr by (simp add: same_but_entities_def)
  show "create_run now a w b rkind seed r = Inr (rn, a') \<Longrightarrow> same_record a a'"
    by (auto simp: create_run_def bindR_eq_Inr Let_def same_record_def simp del: bindR_ensure)
  show "create_branch_snapshot L a b = Inr (m, a') \<Longrightarrow> same_record a a'"
    by (auto simp: create_branch_snapshot_def bindR_eq_Inr Let_def case_prod_beta same_record_def)
qed

lemma project_entity_branch:
  assumes "create_entity L a w b nm ty public secret c e True = (res, a')"
    and "dget (branches (app_states a)) b = Some s" "bs_world_id s = w"
  shows "\<exists>a2 t. same_but_entities a a2 \<and> (a' = a2 \<or> a' = set_app_states a2 ((app_states a2)
    \<lparr>branches := dset (branches (app_states a2)) b t\<rparr>))"
proof -
  let ?ent = "\<lparr>er_entity_id = e, er_world_id = w, er_branch_id = b, er_entity_type = ty,
    er_name = nm, er_controller_actor_id = c, er_public_state = public, er_secret_state = secret\<rparr>"
  let ?a1 = "a\<lparr>ap_entities := dset (ap_entities a) (b, e) ?ent\<rparr>"
  let ?ctrl = "case c of None \<Rightarrow> Inr ?a1 | Some c \<Rightarrow> bindR (assign_control ?a1 w c e) (\<lambda>(_, x). Inr x)"
  have a1: "same_but_entities a ?a1" by (simp add: same_but_entities_def same_record_def)
  obtain r t where pr: "project_entity L s e nm ty c public = (r, t)" by (rule prod.exhaust)
  show ?thesis
  proof (cases ?ctrl)
    case (Inl err)
    with assms a1 show ?thesis by (intro exI [of _ ?a1]) (simp add: create_entity_def store_get_def Let_def)
  next
    case (Inr a2)
    have "same_but_entities a a2"
    proof (cases c)
      case None
      with Inr a1 show ?thesis by simp
    next
      case (Some c')
      with Inr obtain auth where "assign_control ?a1 w c' e = Inr (auth, a2)" by (auto simp: bindR_eq_Inr)
      with a1 show ?thesis by (blast dest: assign_control_Inr intro: same_but_entities_trans)
    qed
    with assms Inr pr show ?thesis
      by (intro exI [of _ a2] exI [of _ t]) (simp add: create_entity_def store_get_def Let_def)
  qed
qed

lemma create_entity_ok:
  assumes "app_ok L W a" "create_entity L a w b nm ty public secret c e project = (res, a')"
    and "project \<longrightarrow> dhas (ap_bases a) b \<longrightarrow> b \<in> W"
  shows "app_ok L W a'"
proof (cases "project \<and> (\<exists>s. dget (branches (app_states a)) b = Some s \<and> bs_world_id s = w)")
  case False
  have "same_record a a'"
  proof (cases project)
    case True
    with False assms(2) have "a' = a"
      by (cases "dget (branches (app_states a)) b")
        (auto simp: create_entity_def store_get_def Let_def split: if_splits)
    then show ?thesis by (simp add: same_record_def)
  next
    case False
    with assms(2) show ?thesis
      using create_entity_unprojected by (force simp: same_but_entities_def)
  qed
  then show ?thesis using assms(1) by (rule app_ok_same_record)
next
  case True
  then obtain s where pr: project and s: "dget (branches (app_states a)) b = Some s" "bs_world_id s = w"
    by blast
  from project_entity_branch [OF assms(2) [unfolded eqTrueI [OF pr]] s]
  obtain a2 t where a2: "same_but_entities a a2" and "a' = a2 \<or> a' = set_app_states a2
      ((app_states a2)\<lparr>branches := dset (branches (app_states a2)) b t\<rparr>)" by blast
  then show ?thesis
  proof (elim disjE)
    assume "a' = a2"
    with a2 show ?thesis using app_ok_same_record assms(1) by (auto simp: same_but_entities_def)
  next
    assume a': "a' = set_app_states a2 ((app_states a2)\<lparr>branches := dset (branches (app_states a2)) b t\<rparr>)"
    have eqs: "ap_events a' = ap_events a" "ap_history a' = ap_history a" "ap_bases a' = ap_bases a"
      "ap_offsets a' = ap_offsets a" "ap_bus a' = (ap_bus a)\<lparr>bus_states :=
        (app_states a)\<lparr>branches := dset (branches (app_states a)) b t\<rparr>\<rparr>"
      using a2 by (simp_all add: a' set_app_states_def same_but_entities_def same_record_def app_states_def)
    show ?thesis
      by (rule app_ok_branch [OF assms(1) eqs]) (use assms(3) True in auto)
  qed
qed

lemma create_trial_ok:
  assumes "app_ok L W a" "create_trial L now a w sid seed = (out, a')"
  shows "app_ok L W a'"
proof -
  have "a' = a \<or> (\<exists>st. (st = app_states a \<or> (\<exists>s. store_add (app_states a) s = Inr st)) \<and>
    ap_events a' = ap_events a \<and> ap_history a' = ap_history a \<and> ap_bases a' = ap_bases a \<and>
    ap_offsets a' = ap_offsets a \<and> ap_bus a' = (ap_bus a)\<lparr>bus_states := st\<rparr>)"
    using assms(2)
    by (auto simp: create_trial_def Let_def bindR_eq_Inr set_app_states_def
        split: sum.splits option.splits prod.splits simp del: bindR_ensure)
  then show ?thesis
  proof (elim disjE exE conjE)
    assume "a' = a"
    with assms(1) show ?thesis by simp
  next
    fix st assume "st = app_states a" "ap_events a' = ap_events a" "ap_history a' = ap_history a"
      "ap_bases a' = ap_bases a" "ap_offsets a' = ap_offsets a" "ap_bus a' = (ap_bus a)\<lparr>bus_states := st\<rparr>"
    then have "same_record a a'" by (simp add: same_record_def app_states_def)
    then show ?thesis using assms(1) by (rule app_ok_same_record)
  next
    fix st s assume "store_add (app_states a) s = Inr st" "ap_events a' = ap_events a"
      "ap_history a' = ap_history a" "ap_bases a' = ap_bases a" "ap_offsets a' = ap_offsets a"
      "ap_bus a' = (ap_bus a)\<lparr>bus_states := st\<rparr>"
    then show ?thesis by (rule app_ok_store_add [OF assms(1)])
  qed
qed

lemma app_step_ok:
  assumes "lawful_lib L" "uuid5_injective L" "app_ok L W a" "app_step L V a a'"
  shows "app_ok L (W \<union> V) a'"
proof -
  have ok: "app_ok L (W \<union> V) a" using assms(3) by (rule app_ok_mono) simp
  from assms(4) show ?thesis
  proof cases
    case (world now name slug w b wr)
    show ?thesis by (rule create_world_ok [OF ok world(2)])
  next
    case (identity name kind rs caps controlled aid w res)
    show ?thesis by (rule app_ok_same_record [OF same_record_steps(1) [OF identity(2)] ok])
  next
    case (authority w aid rs caps controlled auth)
    show ?thesis by (rule app_ok_same_record [OF same_record_steps(2) [OF authority(2)] ok])
  next
    case (control w aid e auth)
    show ?thesis by (rule app_ok_same_record [OF same_record_steps(3) [OF control(2)] ok])
  next
    case (run now w b kind seed r rn)
    show ?thesis by (rule app_ok_same_record [OF same_record_steps(4) [OF run(2)] ok])
  next
    case (entity w b nm ty public secret c e project res)
    then have "project \<longrightarrow> dhas (ap_bases a) b \<longrightarrow> b \<in> W \<union> V" by simp
    then show ?thesis by (rule create_entity_ok [OF ok entity(2)])
  next
    case (submission now p res)
    show ?thesis by (rule submit_ok [OF assms(1,2) ok submission(3,2)])
  next
    case (snapshot b m)
    show ?thesis by (rule app_ok_same_record [OF same_record_steps(5) [OF snapshot(2)] ok])
  next
    case (trial now w sid seed out)
    show ?thesis by (rule create_trial_ok [OF ok trial(2)])
  qed
qed

lemma app_history_ok:
  assumes "lawful_lib L" "uuid5_injective L" "app_history L artifacts W a"
  shows "app_ok L W a"
  using assms(3)
  by induction (simp_all add: app_ok_init app_step_ok [OF assms(1,2)])

lemma app_reachable_ok:
  assumes "lawful_lib L" "uuid5_injective L" "app_reachable L artifacts a"
  obtains W where "app_ok L W a"
  using assms(3) app_history_ok [OF assms(1,2)] unfolding app_reachable_def by blast

lemma app_reachable_ledger:
  "\<lbrakk>lawful_lib L; uuid5_injective L; app_reachable L artifacts a\<rbrakk> \<Longrightarrow> ledger_ok L a"
  by (erule (2) app_reachable_ok) (simp add: app_ok_def)

text \<open>A direct write does not change what is replayed.\<close>

lemma create_entity_ledger:
  assumes "create_entity L a w b nm ty public secret c e project = (res, a')"
  shows "ap_bases a' = ap_bases a" "ap_offsets a' = ap_offsets a" "ap_history a' = ap_history a"
proof -
  have "ap_bases a' = ap_bases a \<and> ap_offsets a' = ap_offsets a \<and> ap_history a' = ap_history a"
  proof (cases project)
    case False
    with assms show ?thesis
      using create_entity_unprojected by (force simp: same_but_entities_def same_record_def)
  next
    case True
    show ?thesis
    proof (cases "\<exists>s. dget (branches (app_states a)) b = Some s \<and> bs_world_id s = w")
      case False
      with assms True have "a' = a"
        by (cases "dget (branches (app_states a)) b")
          (auto simp: create_entity_def store_get_def Let_def split: if_splits)
      then show ?thesis by simp
    next
      case written: True
      with assms True obtain a2 t where "same_but_entities a a2" "a' = a2 \<or> a' = set_app_states a2
          ((app_states a2)\<lparr>branches := dset (branches (app_states a2)) b t\<rparr>)"
        using project_entity_branch by (metis (full_types))
      then show ?thesis by (auto simp: same_but_entities_def same_record_def set_app_states_def)
    qed
  qed
  then show "ap_bases a' = ap_bases a" "ap_offsets a' = ap_offsets a" "ap_history a' = ap_history a" by blast+
qed

lemma replay_ignores_direct_write:
  assumes "create_entity L a w b nm ty public secret c e project = (res, a')" and "dhas (ap_bases a) b'"
  shows "replay_branch L a' b' = replay_branch L a b'"
  using assms(2) create_entity_ledger [OF assms(1)] by (auto simp: replay_branch_def dhas_def)

end
