(* ===== verification/ServiceFixture.thy ===== *)
theory ServiceFixture
  imports ApplicationFacts
begin

text \<open>
  A concrete service for the witnesses: a world with its canonical branch, a run, an actor and a
  hero, reached by the operations of the service, on which one move is submitted.
\<close>

definition fixture_move :: proposal where
  "fixture_move = fixture_proposal ''tabletop.spatial.move'' (Some ''hero'')
     [(''dx'', JInt (-1)), (''dy'', JInt 0)]"

definition service_bus :: "receipt store \<Rightarrow> bus" where
  "service_bus st = \<lparr>bus_states = st, bus_resolver = grid_resolver ref_lib,
     bus_definitions = map (\<lambda>d. (cd_command_type d, d)) (application_definitions ref_lib)\<rparr>"

definition fixture_app :: "receipt store \<Rightarrow> (uuid \<times> run_record) list \<Rightarrow> (uuid \<times> actor) list \<Rightarrow> ((uuid \<times> uuid) \<times> actor) list \<Rightarrow>
    ((uuid \<times> uuid) \<times> entity_record) list \<Rightarrow> app" where
  "fixture_app st rs acs auths es = \<lparr>ap_bus = service_bus st, 
     ap_worlds = [(''w'', \<lparr>wr_world_id = ''w'', wr_slug = ''keep'', wr_name = ''Keep'', wr_status = ''ACTIVE'',
        wr_domain_packs = [''tabletop''], wr_canonical_branch_id = ''b'', wr_created_at = 0\<rparr>)],
     ap_runs = rs, ap_actors = acs, ap_authorities = auths, ap_entities = es,
     ap_events = [], ap_perceptions = [], ap_history = [], ap_bases = [],
      ap_offsets = [], ap_snapshot_store = \<lparr>ss_root = ''/data'', ss_files = []\<rparr>, ap_snapshots = []\<rparr>"
definition fixture_keep :: branch_state where
  "fixture_keep = \<lparr>bs_world_id = ''w'', bs_branch_id = ''b'', bs_kind = CANONICAL, projections = initial_projections,
     base_snapshot_hash = None, bs_version = 0\<rparr>"
definition fixture_live :: run_record where
  "fixture_live = \<lparr>rn_run_id = stable_id ref_lib (''run:'' @ ''w'' @ '':live''), rn_world_id = ''w'', rn_branch_id = ''b'',
            rn_kind = LIVE, rn_status = ''ACTIVE'', rn_seed = None, rn_started_at = 0\<rparr>"

lemma a0: "\<exists>a0 w. init_app ref_lib ''/data'' = Inr a0 \<and> 
  create_world ref_lib 0 a0 ''Keep'' (Some ''keep'') ''w'' ''b'' = Inr (w, fixture_app \<lparr>branches = [(''b'', fixture_keep)], receipts = []\<rparr>
    [(rn_run_id fixture_live, fixture_live)] [] [] [])"
  by (simp add: init_app_def application_bus_eq create_world_def Let_def app_states_def set_app_states_def create_world_branch_def
   store_add_def empty_store_def dhas_def fixture_app_def service_bus_def fixture_keep_def fixture_live_def)

definition fixture_run :: run_record where
  "fixture_run = \<lparr>rn_run_id = fixture_id CHR ''r'', rn_world_id = ''w'', rn_branch_id = ''b'',
            rn_kind = LIVE, rn_status = ''ACTIVE'', rn_seed = None, rn_started_at = 0\<rparr>"
abbreviation runs2 :: "(uuid \<times> run_record) list" where
  "runs2 \<equiv> [(rn_run_id fixture_live, fixture_live), (fixture_id CHR ''r'', fixture_run)]"
abbreviation st0 :: "branch_state \<Rightarrow> receipt store" where
  "st0 s \<equiv> \<lparr>branches = [(''b'', s)], receipts = []\<rparr>"
lemma a2: "create_run 0 (fixture_app (st0 fixture_keep) [(rn_run_id fixture_live, fixture_live)] [] [] []) ''w'' ''b'' LIVE None (fixture_id CHR ''r'') =
   Inr (fixture_run, fixture_app (st0 fixture_keep) runs2 [] [] [])"
  by (simp add: store_get_def create_run_def fixture_app_def service_bus_def app_states_def Let_def fixture_run_def fixture_live_def fixture_keep_def
    stable_id_def ref_lib_def swap_colons_def swap_colon_def fixture_id_def dhas_def numeral_eq_Suc)
definition fixture_player :: actor where
  "fixture_player = fixture_actor {''action.propose'', ''action.commit'', ''entity.act''} {''hero''}"
abbreviation acs :: "(uuid \<times> actor) list" where
  "acs \<equiv> [(fixture_id CHR ''a'', fixture_actor {} {})]"
abbreviation auths :: "((uuid \<times> uuid) \<times> actor) list" where
  "auths \<equiv> [((''w'', fixture_id CHR ''a''), fixture_player)]"
lemma a3: "snd (create_actor (fixture_app st rs [] [] []) ''A'' HUMAN {} {''action.propose'', ''action.commit'', ''entity.act''}
           {''hero''} (fixture_id CHR ''a'') (Some ''w'')) = fixture_app st rs acs auths []"
  by (simp add: create_actor_def grant_authority_def fixture_app_def fixture_player_def fixture_actor_def Let_def dhas_def)
definition fixture_lair :: branch_state where
  "fixture_lair = snd (project_entity ref_lib fixture_keep ''hero'' ''Hero'' ''PC'' None [(''x'', JInt 2), (''y'', JInt 3)])"
definition fixture_hero :: entity_record where
  "fixture_hero = \<lparr>er_entity_id = ''hero'', er_world_id = ''w'', er_branch_id = ''b'',
                   er_entity_type = ''PC'', er_name = ''Hero'', er_controller_actor_id = None,
                   er_public_state = [(''x'', JInt 2), (''y'', JInt 3)], er_secret_state = []\<rparr>"
lemma a4: "snd (create_entity ref_lib (fixture_app (st0 fixture_keep) rs ac au []) ''w'' ''b'' ''Hero'' ''PC'' [(''x'', JInt 2), (''y'', JInt 3)] []
           None ''hero'' True) = fixture_app (st0 fixture_lair) rs ac au [((''b'', ''hero''), fixture_hero)]"
proof -
  have "store_get (app_states (fixture_app (st0 fixture_keep) rs ac au [])) ''b'' = Inr fixture_keep" "bs_world_id fixture_keep = ''w''"
    by (simp_all add: fixture_app_def service_bus_def app_states_def fixture_keep_def)
  moreover obtain r where "project_entity ref_lib fixture_keep ''hero'' ''Hero'' ''PC'' None [(''x'', JInt 2), (''y'', JInt 3)] = (r, fixture_lair)"
    unfolding fixture_lair_def by (metis prod.collapse)
  ultimately show ?thesis unfolding create_entity_def Let_def
    by (simp add: store_get_def fixture_app_def service_bus_def app_states_def set_app_states_def fixture_hero_def)
qed
definition fixture_service :: app where
  "fixture_service = fixture_app (st0 fixture_lair) runs2 acs auths [((''b'', ''hero''), fixture_hero)]"
lemma fixture_history: "app_history ref_lib ''/data'' {} fixture_service"
proof -
  from a0 obtain start w where s: "init_app ref_lib ''/data'' = Inr start"
    "create_world ref_lib 0 start ''Keep'' (Some ''keep'') ''w'' ''b'' =
       Inr (w, fixture_app (st0 fixture_keep) [(rn_run_id fixture_live, fixture_live)] [] [] [])" by blast
  have run: "app_history ref_lib ''/data'' {} (fixture_app (st0 fixture_keep) runs2 [] [] [])"
    by (rule app_history_clean [OF app_history_clean [OF app_history.start [OF s(1)] app_step.world [OF s(2)]]
      app_step.run [OF a2]])
  have "app_step ref_lib {} (fixture_app (st0 fixture_keep) runs2 [] [] [])
    (fixture_app (st0 fixture_keep) runs2 acs auths [])"
    unfolding a3 [symmetric, where st = "st0 fixture_keep" and rs = runs2]
    by (rule app_step.identity [OF prod.collapse [symmetric]])
  moreover have "app_step ref_lib {} (fixture_app (st0 fixture_keep) runs2 acs auths []) fixture_service"
    using app_step.entity [where L = ref_lib and a = "fixture_app (st0 fixture_keep) runs2 acs auths []" and w = "''w''"
        and b = "''b''" and nm = "''Hero''" and ty = "''PC''" and public = "[(''x'', JInt 2), (''y'', JInt 3)]" and secret = "[]"
        and c = None and e = "''hero''" and project = True, OF prod.collapse [symmetric]]
    by (simp add: a4 fixture_service_def) (simp add: fixture_app_def dhas_def)
  ultimately show ?thesis using run by (blast intro: app_history_clean)
qed

lemma fixture_reachable: "app_reachable ref_lib ''/data'' fixture_service"
  using fixture_history unfolding app_reachable_def by blast

lemma fixture_submits:
  obtains r a' where "submit ref_lib 1 fixture_service fixture_move = (Inr r, a')"
proof -
  have "is_ok (fst (submit ref_lib 1 fixture_service fixture_move))" by code_simp
  then show ?thesis
    by (cases "submit ref_lib 1 fixture_service fixture_move") (auto simp: is_ok_iff intro: that)
qed

lemma fixture_move_ok: "proposal_ok fixture_move"
  by (simp add: proposal_ok_def uuid_text_def fixture_move_def fixture_proposal_def fixture_id_def)

lemma fixture_unrecorded: "ap_events fixture_service = []" "receipts (app_states fixture_service) = []"
  by (simp_all add: fixture_service_def fixture_app_def service_bus_def app_states_def)


end
