(* ===== verification/KernelProperties.thy ===== *)
theory KernelProperties
  imports ServiceFixture
begin

text \<open>
  What the kernel promises: the properties of the command bus, the application service, the
  promotion command, the scheduler and the snapshots, over the definitions of
  \<open>CommandBus\<close>, \<open>KernelServices\<close>, \<open>TabletopRegistry\<close> and \<open>Application\<close>.
\<close>

section \<open>The bus\<close>

text \<open>The projections a command may write, and the entries it may write there.\<close>

definition footprint :: "string \<Rightarrow> string set" where
  "footprint ct =
     (if ct = ''tabletop.battlefield.set_control_mode'' then {''tabletop.control_modes''}
      else if ct = ''tabletop.battlefield.issue_squad_order'' then {''tabletop.squad_orders''}
      else if ct = ''tabletop.onboarding.act'' then {''tabletop.onboarding''}
      else if ct = ''tabletop.entity.spawn'' then
        {''tabletop.entities'', ''tabletop.spatial.positions'', ''tabletop.sensory_profiles''}
      else if ct = ''tabletop.spatial.move'' then {''tabletop.spatial.positions'', ''tabletop.entities''}
      else if ct = ''tabletop.quest.advance'' then {''tabletop.quests''}
      else if ct = ''tabletop.faction.adjust_reputation'' then {''tabletop.reputation''}
      else if ct \<in> {''tabletop.combat.attack'', ''tabletop.magic.cast'', ''tabletop.economy.trade'',
        ''tabletop.divine.bless''} then {''tabletop.entities''}
      else {})"

definition subjects :: "pylib \<Rightarrow> proposal \<Rightarrow> string set" where
  "subjects L p = (let ct = p_command_type p in
     if ct = ''tabletop.battlefield.issue_squad_order'' then named L SquadOrderRequest ''squad_id'' p
     else if ct = ''tabletop.entity.spawn'' then named L SpawnEntityRequest ''entity_id'' p
     else if ct = ''tabletop.combat.attack'' then named L AttackRequest ''target_id'' p
     else if ct = ''tabletop.magic.cast'' then embodied p \<union> named L CastRequest ''target_id'' p
     else if ct = ''tabletop.economy.trade'' then embodied p \<union> named L TradeRequest ''counterparty_id'' p
     else if ct = ''tabletop.divine.bless'' then named L BlessRequest ''target_id'' p
     else embodied p)"

definition handlers :: "pylib \<Rightarrow> (string \<times> (proposal \<Rightarrow> branch_state \<Rightarrow> command_result res)) list" where
  "handlers L =
     [(''tabletop.battlefield.set_control_mode'', set_control_mode L),
      (''tabletop.battlefield.issue_squad_order'', issue_squad_order L),
      (''tabletop.onboarding.act'', handle_onboarding_action L),
      (''tabletop.console.submit'', submit_console L), (''tabletop.dialogue.speak'', speak L),
      (''tabletop.entity.spawn'', spawn L), (''tabletop.spatial.move'', move L),
      (''tabletop.combat.attack'', attack L), (''tabletop.magic.cast'', cast L),
      (''tabletop.economy.trade'', trade L),
      (''tabletop.faction.adjust_reputation'', adjust_reputation L),
      (''tabletop.divine.bless'', bless L), (''tabletop.quest.advance'', advance L),
      (''kernel.branch.promote'', promote_consequences L)]"

lemma registered_handlers:
  "map (\<lambda>d. (cd_command_type d, cd_handler d)) (application_definitions L) =
     map (\<lambda>(ct, f). (ct, reads_only f)) (handlers L)"
  by (simp add: application_definitions_def command_definitions_def definition_defs handlers_def)

definition framed :: "pylib \<Rightarrow> string \<Rightarrow> (proposal \<Rightarrow> branch_state \<Rightarrow> command_result res) \<Rightarrow> bool" where
  "framed L ct f \<longleftrightarrow> (\<forall>b now d q a s rc t proj k. cd_handler d = reads_only f \<longrightarrow>
     p_command_type q = ct \<longrightarrow> run_command L b now d q a s = (Inr rc, t) \<longrightarrow>
     proj \<notin> footprint ct \<or> k \<notin> subjects L q \<longrightarrow> dget (bucket t proj) k = dget (bucket s proj) k)"

lemma framedI:
  assumes "\<And>b now d q a s rc t proj. cd_handler d = reads_only f \<Longrightarrow>
      run_command L b now d q a s = (Inr rc, t) \<Longrightarrow> proj \<notin> projs \<Longrightarrow> bucket t proj = bucket s proj"
    and "\<And>b now d q a s rc t proj k. cd_handler d = reads_only f \<Longrightarrow>
      run_command L b now d q a s = (Inr rc, t) \<Longrightarrow> k \<notin> subj q \<Longrightarrow>
      dget (bucket t proj) k = dget (bucket s proj) k"
    and "projs = footprint ct" "\<And>q. p_command_type q = ct \<Longrightarrow> subj q = subjects L q"
  shows "framed L ct f"
  unfolding framed_def using assms by metis

lemma framed_handlers: "(ct, f) \<in> set (handlers L) \<Longrightarrow> ct \<noteq> ''kernel.branch.promote'' \<Longrightarrow> framed L ct f"
proof -
  have "framed L ''tabletop.battlefield.set_control_mode'' (set_control_mode L)"
    by (rule framedI [OF control.run_command_frame]) (auto simp: footprint_def subjects_def)
  moreover have "framed L ''tabletop.battlefield.issue_squad_order'' (issue_squad_order L)"
    by (rule framedI [OF squads.run_command_frame]) (auto simp: footprint_def subjects_def)
  moreover have "framed L ''tabletop.onboarding.act'' (handle_onboarding_action L)"
    by (rule framedI [OF onboard.run_command_frame]) (auto simp: footprint_def subjects_def)
  moreover have "framed L ''tabletop.console.submit'' (submit_console L)"
    unfolding framed_def using console.run_command_frame(1) by (metis empty_iff)
  moreover have "framed L ''tabletop.dialogue.speak'' (speak L)"
    unfolding framed_def using speech.run_command_frame(1) by (metis empty_iff)
  moreover have "framed L ''tabletop.entity.spawn'' (spawn L)"
    by (rule framedI [OF entities.run_command_frame]) (auto simp: footprint_def subjects_def)
  moreover have "framed L ''tabletop.spatial.move'' (move L)"
    by (rule framedI [OF movement.run_command_frame]) (auto simp: footprint_def subjects_def)
  moreover have "framed L ''tabletop.combat.attack'' (attack L)"
    by (rule framedI [OF combat.run_command_frame]) (auto simp: footprint_def subjects_def)
  moreover have "framed L ''tabletop.magic.cast'' (cast L)"
    by (rule framedI [OF magic.run_command_frame]) (auto simp: footprint_def subjects_def)
  moreover have "framed L ''tabletop.economy.trade'' (trade L)"
    by (rule framedI [OF economy.run_command_frame]) (auto simp: footprint_def subjects_def)
  moreover have "framed L ''tabletop.faction.adjust_reputation'' (adjust_reputation L)"
    by (rule framedI [OF factions.run_command_frame]) (auto simp: footprint_def subjects_def)
  moreover have "framed L ''tabletop.divine.bless'' (bless L)"
    by (rule framedI [OF divine.run_command_frame]) (auto simp: footprint_def subjects_def)
  moreover have "framed L ''tabletop.quest.advance'' (advance L)"
    by (rule framedI [OF quests.run_command_frame]) (auto simp: footprint_def subjects_def)
  moreover assume "(ct, f) \<in> set (handlers L)" "ct \<noteq> ''kernel.branch.promote''"
  ultimately show ?thesis unfolding handlers_def by (simp only: list.set insert_iff empty_iff prod.inject) blast
qed

lemma registered_frame:
  assumes "d \<in> set (application_definitions L)" "cd_command_type d = p_command_type q"
    and "p_command_type q \<noteq> ''kernel.branch.promote''"
    and "run_command L b now d q a s = (Inr rc, t)"
    and "proj \<notin> footprint (p_command_type q) \<or> k \<notin> subjects L q"
  shows "dget (bucket t proj) k = dget (bucket s proj) k"
proof -
  have "(cd_command_type d, cd_handler d) \<in> set (map (\<lambda>d. (cd_command_type d, cd_handler d)) (application_definitions L))"
    using assms(1) by simp
  then obtain f where "(p_command_type q, f) \<in> set (handlers L)" "cd_handler d = reads_only f"
    unfolding registered_handlers assms(2) by auto
  with framed_handlers [OF this(1) assms(3)] assms(4,5) show ?thesis unfolding framed_def by blast
qed

definition fixture_bus :: bus where
  "fixture_bus = \<lparr>bus_states = \<lparr>branches = [(''b'', fixture_party)], receipts = []\<rparr>,
     bus_resolver = grid_resolver ref_lib,
     bus_definitions = [(''tabletop.spatial.move'', move_definition ref_lib)]\<rparr>"

lemma fixture_executes:
  obtains r b' where "execute ref_lib 0 fixture_bus fixture_move fixture_player = (Inr r, b')"
proof -
  have "is_ok (fst (execute ref_lib 0 fixture_bus fixture_move fixture_player))" by code_simp
  then show ?thesis
    by (cases "execute ref_lib 0 fixture_bus fixture_move fixture_player") (auto simp: is_ok_iff intro: that)
qed

text \<open>
  C1. A command that commits was authorised and commits exactly once to one branch: the proposal
  names the authenticated actor, its command is registered, the actor has every capability the
  command and the kind of the branch require and controls the embodied entity when the command
  needs one, the branch belongs to the world of the proposal and its kind is allowed; the branch
  gets one version newer and has the state of the receipt, its world and kind stay, the receipt
  is recorded under the key of the proposal, and no other branch and no other receipt changes.
\<close>

theorem commit_is_authorised:
  assumes "execute L now b p a = (Inr r, b')" "\<not> dhas (receipts (bus_states b)) (receipt_key_of p)"
  shows "\<exists>d s s'. p_actor_id p = actor_id a \<and> dget (bus_definitions b) (p_command_type p) = Some d \<and>
    cd_required_capabilities d \<subseteq> capabilities a \<and>
    (cd_requires_controlled_entity d \<longrightarrow>
       (\<exists>e. p_embodied_entity_id p = Some e \<and> e \<in> controlled_entity_ids a)) \<and>
    dget (branches (bus_states b)) (p_branch_id p) = Some s \<and> bs_world_id s = p_world_id p \<and>
    bs_kind s \<in> cd_allowed_branch_kinds d \<and> branch_capability (bs_kind s) \<in> capabilities a \<and>
    branches (bus_states b') = dset (branches (bus_states b)) (p_branch_id p) s' \<and>
    bs_version s' = bs_version s + 1 \<and> bs_world_id s' = bs_world_id s \<and> bs_kind s' = bs_kind s \<and>
    state_hash L s' = rc_state_hash r \<and>
    receipts (bus_states b') = dset (receipts (bus_states b)) (receipt_key_of p) r"
  using assms(1)
proof (cases rule: execute_cases)
  case (fresh d q r0 s w)
  note adm = admit_Inr(1-4) [OF fresh(1)] and keep = admit_keeps [OF fresh(1)]
  let ?s' = "s\<lparr>projections := projections w, base_snapshot_hash := base_snapshot_hash w,
    bs_version := bs_version s + 1\<rparr>"
  have r: "r0 = r" using fresh(2) by simp
  have "bs_world_id s = p_world_id p" "bs_kind s \<in> cd_allowed_branch_kinds d"
    "branch_capability (bs_kind s) \<in> capabilities a" "rc_state_hash r = state_hash L w"
    using fresh(5) by (rule run_command_Inr, simp add: keep(3) r)+
  moreover have "state_hash L ?s' = state_hash L w" by (simp add: state_hash_def)
  ultimately show ?thesis using adm fresh(4,6)
    by (intro exI [of _ d] exI [of _ s] exI [of _ ?s']) (simp add: r)
qed (use assms(2) in \<open>auto simp: dhas_def\<close>)

theorem commit_is_authorised_witness:
  "\<exists>r b' s'. execute ref_lib 0 fixture_bus fixture_move fixture_player = (Inr r, b') \<and>
    branches (bus_states b') = [(''b'', s')] \<and> bs_version s' = 1 \<and>
    receipts (bus_states b') = [(receipt_key_of fixture_move, r)]"
proof -
  obtain r b' where ex: "execute ref_lib 0 fixture_bus fixture_move fixture_player = (Inr r, b')"
    by (rule fixture_executes)
  have fresh: "\<not> dhas (receipts (bus_states fixture_bus)) (receipt_key_of fixture_move)"
    by (simp add: fixture_bus_def dhas_def)
  from commit_is_authorised [OF ex fresh] ex show ?thesis
    by (auto simp: fixture_bus_def fixture_move_def fixture_defs)
qed

lemma execute_definitions: "execute L now b p a = (res, b') \<Longrightarrow> bus_definitions b' = bus_definitions b"
  by (erule execute_cases) simp_all

lemma admit_cong: "bus_definitions b' = bus_definitions b \<Longrightarrow> admit b' p a = admit b p a"
  by (simp add: admit_def bus_definition_def)

text \<open>
  C2. Commands are executed exactly once. An execution that raises leaves the bus as it was;
  one that returns has recorded its receipt, and every later proposal with the same run, actor
  and idempotency key that is admitted gets this receipt and changes nothing, whatever its
  command and time are. Receipts that were recorded before are kept.
\<close>

theorem exactly_once:
  assumes "execute L now b p a = (res, b')"
  shows "(\<forall>e. res = Inl e \<longrightarrow> b' = b) \<and>
    (\<forall>r. res = Inr r \<longrightarrow> dget (receipts (bus_states b')) (receipt_key_of p) = Some r \<and>
       (\<forall>now' p' a' dq. receipt_key_of p' = receipt_key_of p \<and> admit b' p' a' = Inr dq \<longrightarrow>
          execute L now' b' p' a' = (Inr r, b'))) \<and>
    (\<forall>k r. dget (receipts (bus_states b)) k = Some r \<longrightarrow> dget (receipts (bus_states b')) k = Some r)"
proof -
  have again: "execute L now' b' p' a' = (Inr r, b')"
    if "dget (receipts (bus_states b')) (receipt_key_of p) = Some r"
      "receipt_key_of p' = receipt_key_of p" "admit b' p' a' = Inr dq" for now' p' a' dq r
    using that by (cases dq) (simp add: execute_def execute_atomic_duplicate admit_keeps(1) [of b' p' a'])
  from assms show ?thesis
  proof (cases rule: execute_cases)
    case (refused e)
    then show ?thesis by simp
  next
    case (failed d q e)
    then show ?thesis by simp
  next
    case (duplicate d q r)
    then show ?thesis using again by auto
  next
    case (fresh d q r s w)
    then have rec: "dget (receipts (bus_states b')) (receipt_key_of p) = Some r" by simp
    have "dget (receipts (bus_states b')) k = Some r'" if "dget (receipts (bus_states b)) k = Some r'" for k r'
      using that fresh(3,6) by auto
    with rec again fresh(2) show ?thesis by simp
  qed
qed

theorem exactly_once_witness:
  "\<exists>r b'. execute ref_lib 0 fixture_bus fixture_move fixture_player = (Inr r, b') \<and>
    execute ref_lib 5 b' fixture_move fixture_player = (Inr r, b')"
proof -
  obtain r b' where ex: "execute ref_lib 0 fixture_bus fixture_move fixture_player = (Inr r, b')"
    by (rule fixture_executes)
  have "is_ok (admit fixture_bus fixture_move fixture_player)" by code_simp
  then obtain dq where "admit fixture_bus fixture_move fixture_player = Inr dq" unfolding is_ok_iff by blast
  then have "admit b' fixture_move fixture_player = Inr dq"
    by (simp only: admit_cong [OF execute_definitions [OF ex]])
  with exactly_once [OF ex, THEN conjunct2, THEN conjunct1, THEN spec, THEN mp, OF refl, THEN conjunct2]
  have "execute ref_lib 5 b' fixture_move fixture_player = (Inr r, b')" by simp
  with ex show ?thesis by (intro exI conjI)
qed

text \<open>
  C5. Every domain command stays in its footprint: apart from the promotion command, a command
  that the application registers writes, of its branch, only the projections of its footprint,
  and there only the entries of the entities its proposal names.
\<close>

theorem commands_stay_in_footprint:
  assumes "bus_ok L b" "execute L now b p a = (Inr r, b')" "admit b p a = Inr (d, q)"
    and "p_command_type p \<noteq> ''kernel.branch.promote''"
    and "dget (branches (bus_states b)) (p_branch_id p) = Some s"
    and "dget (branches (bus_states b')) (p_branch_id p) = Some s'"
    and "proj \<notin> footprint (p_command_type p) \<or> k \<notin> subjects L q"
  shows "dget (bucket s' proj) k = dget (bucket s proj) k"
  using assms(2)
proof (cases rule: execute_cases)
  case (fresh d' q' r0 s0 w)
  with assms(3,5) have eq: "d' = d" "q' = q" "s0 = s" "r0 = r" by auto
  have ct: "p_command_type q = p_command_type p" by (rule admit_keeps(7) [OF assms(3)])
  have "dget (map (\<lambda>d. (cd_command_type d, d)) (application_definitions L)) (p_command_type p) = Some d"
    using admit_Inr(2) [OF assms(3)] assms(1) by (simp add: bus_ok_def)
  note reg = registered [OF this]
  have "dget (bucket w proj) k = dget (bucket s proj) k"
    by (rule registered_frame [OF reg(1) _ _ fresh(5) [unfolded eq]]) (use reg(2) ct assms(4,7) in simp_all)
  moreover have "bucket s' proj = bucket w proj"
    using assms(6) fresh(6) by (auto simp: eq bucket_def)
  ultimately show ?thesis by simp
qed (use assms(5,6) in auto)

definition fixture_service_bus :: bus where
  "fixture_service_bus = service_bus (bus_states fixture_bus)"

theorem commands_stay_in_footprint_witness:
  "\<exists>b' r s'. execute ref_lib 0 fixture_service_bus fixture_move fixture_player = (Inr r, b') \<and>
    dget (branches (bus_states b')) ''b'' = Some s' \<and>
    dget (bucket s' ''tabletop.entities'') ''wolf'' = dget (bucket fixture_party ''tabletop.entities'') ''wolf''"
proof -
  let ?b = fixture_service_bus
  have "is_ok (fst (execute ref_lib 0 ?b fixture_move fixture_player))" by code_simp
  then obtain r b' where ex: "execute ref_lib 0 ?b fixture_move fixture_player = (Inr r, b')"
    by (cases "execute ref_lib 0 ?b fixture_move fixture_player") (auto simp: is_ok_iff)
  have "is_ok (admit ?b fixture_move fixture_player)" by code_simp
  then obtain d q where adm: "admit ?b fixture_move fixture_player = Inr (d, q)" by (auto simp: is_ok_iff)
  have ok: "bus_ok ref_lib ?b" by (simp add: bus_ok_def fixture_service_bus_def service_bus_def)
  have s: "dget (branches (bus_states ?b)) (p_branch_id fixture_move) = Some fixture_party"
    by (simp add: fixture_service_bus_def service_bus_def fixture_bus_def fixture_move_def fixture_proposal_def)
  have fresh: "\<not> dhas (receipts (bus_states ?b)) (receipt_key_of fixture_move)"
    by (simp add: fixture_service_bus_def service_bus_def fixture_bus_def dhas_def)
  from ex fresh obtain s' where s': "dget (branches (bus_states b')) (p_branch_id fixture_move) = Some s'"
    by (auto elim!: execute_cases simp: dhas_def)
  have "''wolf'' \<notin> subjects ref_lib q"
    using admit_keeps [OF adm] by (simp add: subjects_def fixture_move_def fixture_proposal_def)
  with commands_stay_in_footprint [OF ok ex adm _ s s', of "''tabletop.entities''" "''wolf''"] ex s'
  show ?thesis by (simp add: fixture_move_def fixture_proposal_def)
qed

section \<open>The services\<close>

text \<open>
  The scheduler hands out what is due, in order, and keeps the rest: the entries popped and
  the entries left are the entries of the queue, exactly those with a due time up to the clock are
  popped, and they come by due time and, at the same time, in the order they were scheduled in.
\<close>

theorem due_in_order:
  assumes "due s (Aware t off) = Inr (ps, s')"
  shows "\<exists>vs. ps = map sc_proposal vs \<and> mset vs + mset (sch_queue s') = mset (sch_queue s) \<and>
    set vs = {c \<in> set (sch_queue s). sc_due_at c \<le> t - off} \<and>
    set (sch_queue s') = {c \<in> set (sch_queue s). t - off < sc_due_at c} \<and>
    sorted (map sc_key vs) \<and> sch_counter s' = sch_counter s"
proof -
  from assms obtain vs where vs: "due_loop (t - off) (sch_queue s) = (vs, sch_queue s')"
    "ps = map sc_proposal vs" "sch_counter s' = sch_counter s"
    by (auto simp: due_def split: prod.splits)
  note spec = due_loop_spec [OF vs(1)]
  have "set (sch_queue s) = set vs \<union> set (sch_queue s')"
    using arg_cong [OF spec(1), of set_mset] by simp
  then have "set vs = {c \<in> set (sch_queue s). sc_due_at c \<le> t - off}"
    "set (sch_queue s') = {c \<in> set (sch_queue s). t - off < sc_due_at c}"
    using spec(2,3) by fastforce+
  with vs(2,3) spec(1,4) show ?thesis by blast
qed

theorem due_in_order_witness:
  "\<exists>s s' ps. schedule new_scheduler (Aware 7 2) fixture_move = Inr s \<and>
    due s (Aware 9 4) = Inr (ps, s') \<and> sch_queue s' = [] \<and> sch_counter s' = 1"
proof -
  let ?s = "\<lparr>sch_queue = [\<lparr>sc_due_at = 5, sc_order = 1, sc_proposal = fixture_move\<rparr>], sch_counter = 1\<rparr>"
  have s: "schedule new_scheduler (Aware 7 2) fixture_move = Inr ?s"
    by (simp add: schedule_def new_scheduler_def Let_def)
  obtain ps s' where d: "due ?s (Aware 9 4) = Inr (ps, s')"
    by (cases "due_loop 5 (sch_queue ?s)") (simp add: due_def)
  note D = due_in_order [OF d]
  then have "set (sch_queue s') = {c \<in> set (sch_queue ?s). 9 - 4 < sc_due_at c}" by blast
  also have "\<dots> = {}" by auto
  finally have "sch_queue s' = []" by simp
  moreover from D have "sch_counter s' = 1" by auto
  ultimately have "sch_queue s' = []" "sch_counter s' = 1" by simp_all
  with s d show ?thesis by blast
qed

definition absolute :: "string \<Rightarrow> bool" where
  "absolute path \<longleftrightarrow> (\<exists>c rest. path = CHR ''/'' # c # rest \<and> c \<noteq> CHR ''/'')"

definition absolute_store :: "snapshot_store \<Rightarrow> bool" where
  "absolute_store ss \<longleftrightarrow> absolute (ss_root ss) \<and> (\<forall>k. dhas (ss_files ss) k \<longrightarrow> absolute k)"

lemma quote_Cons: "quote (c # cs) = (if uri_safe c then [c] else concat (map percent_byte (utf8 c))) @ quote cs"
  by (simp add: quote_def)

lemma utf8_length: "1 \<le> length (utf8 c)"
  by (simp add: utf8_def Let_def)

lemma quoted_char: "1 < length (concat (map percent_byte (utf8 c)))"
  using utf8_length [of c] by (cases "utf8 c") (auto simp: percent_byte_def)

lemma quote_length: "length path \<le> length (quote path)"
proof (induction path)
  case (Cons c path)
  then show ?case using quoted_char [of c] by (auto simp: quote_Cons)
qed (simp add: quote_def)

text \<open>Exactly the paths without a character to be encoded are their own quotation.\<close>

lemma quote_same: "quote path = path \<longleftrightarrow> list_all uri_safe path"
proof (induction path)
  case (Cons c path)
  show ?case
  proof (cases "uri_safe c")
    case False
    have "length (c # path) < length (quote (c # path))"
      using quoted_char [of c] quote_length [of path] False by (simp add: quote_Cons)
    then show ?thesis using False by auto
  qed (use Cons in \<open>simp add: quote_Cons\<close>)
qed (simp add: quote_def)

lemma absolute_quote:
  assumes "absolute path"
  shows "absolute (quote path)"
proof -
  from assms obtain c rest where path: "path = CHR ''/'' # c # rest" "c \<noteq> CHR ''/''"
    by (auto simp: absolute_def)
  have "\<exists>d ds. concat (map percent_byte (utf8 c)) = d # ds \<and> d = CHR ''%''"
    using utf8_length [of c] by (cases "utf8 c") (auto simp: percent_byte_def)
  moreover have "uri_safe (CHR ''/'')" by (simp add: uri_safe_def)
  ultimately show ?thesis using path by (auto simp: absolute_def quote_Cons)
qed

lemma snapshot_read_quoted:
  assumes "absolute_store ss" "absolute path"
  shows "snapshot_read ss (as_uri path) = of_option (FileNotFoundError (quote path)) (dget (ss_files ss) (quote path))"
proof -
  from absolute_quote [OF assms(2)] obtain c rest where path: "quote path = CHR ''/'' # c # rest" "c \<noteq> CHR ''/''"
    by (auto simp: absolute_def)
  have "\<not> dhas (ss_files ss) (c # rest)"
    using assms(1) path(2) by (auto simp: absolute_store_def absolute_def)
  then show ?thesis by (simp add: snapshot_read_def as_uri_def removeprefix_def starts_with_def path Let_def)
qed

lemma snapshot_body_projections:
  "\<exists>payload. snapshot_body L sid w b n h ps = JDict payload \<and>
     dget payload ''projections'' = Some (json_canon (projections_json ps))"
  unfolding snapshot_body_def json_canon.simps
  by (intro exI conjI, rule refl, rule map_of_is_SomeI) (auto simp: distinct_map)

text \<open>
  C13. Snapshots round-trip exactly when the path of the file needs no percent-encoding. A snapshot written to an
  absolute directory has a manifest with the hash of the projections it was taken from. When every character of
  the path may stand in a URI, it loads again with these projections, in canonical key order, and once the file
  has been replaced by a document with another digest, loading is refused. When some character may not, loading looks
  for the file under its encoded name and raises \<open>FileNotFoundError\<close>, unless another file has that name.
\<close>

theorem snapshot_round_trip:
  assumes "absolute_store ss" "snapshot_create L ss w b n ps = (m, ss')"
    and "path = snapshot_path (ss_root ss) w (mf_snapshot_id m)"
  shows "absolute_store ss' \<and> mf_state_hash m = stable_hash L (projections_json ps) \<and>
    (list_all uri_safe path \<longrightarrow>
       (\<exists>payload. snapshot_load L ss' m = Inr payload \<and>
          dget payload ''projections'' = Some (json_canon (projections_json ps))) \<and>
       (\<forall>doc. file_digest L doc \<noteq> mf_artifact_hash m \<longrightarrow>
          snapshot_load L (ss'\<lparr>ss_files := dset (ss_files ss') path doc\<rparr>) m =
            Inl (ValueError ''Snapshot artifact hash mismatch''))) \<and>
    (\<not> list_all uri_safe path \<longrightarrow> \<not> dhas (ss_files ss) (quote path) \<longrightarrow>
       snapshot_load L ss' m = Inl (FileNotFoundError (quote path)))"
proof -
  from assms(2,3) obtain sid body where
    body: "body = snapshot_body L sid w b n (mf_state_hash m) ps" and
    m: "mf_state_hash m = stable_hash L (projections_json ps)" "mf_artifact_uri m = as_uri path"
      "mf_artifact_hash m = file_digest L body" and
    ss': "ss' = ss\<lparr>ss_files := dset (ss_files ss) path body\<rparr>"
    by (auto simp: snapshot_create_def Let_def)
  have ap: "absolute path" using assms(1,3) by (auto simp: absolute_store_def absolute_def snapshot_path_def)
  have any: "absolute_store (ss\<lparr>ss_files := dset (ss_files ss) path d\<rparr>)" for d
    using assms(1) ap by (auto simp: absolute_store_def)
  from snapshot_body_projections obtain payload where pl: "body = JDict payload"
    "dget payload ''projections'' = Some (json_canon (projections_json ps))" unfolding body by blast
  have read: "snapshot_read (ss\<lparr>ss_files := dset (ss_files ss) path d\<rparr>) (mf_artifact_uri m) =
      of_option (FileNotFoundError (quote path)) (if quote path = path then Some d else dget (ss_files ss) (quote path))" for d
    unfolding m(2) snapshot_read_quoted [OF any ap] by simp
  have "\<exists>payload. snapshot_load L ss' m = Inr payload \<and>
      dget payload ''projections'' = Some (json_canon (projections_json ps))" if "list_all uri_safe path"
    using pl that by (simp add: snapshot_load_def m(1,3) read ss' quote_same)
  moreover have "snapshot_load L (ss'\<lparr>ss_files := dset (ss_files ss') path doc\<rparr>) m =
    Inl (ValueError ''Snapshot artifact hash mismatch'')" if "list_all uri_safe path" "file_digest L doc \<noteq> mf_artifact_hash m" for doc
    using that by (simp add: snapshot_load_def read ss' quote_same)
  moreover have "snapshot_load L ss' m = Inl (FileNotFoundError (quote path))"
    if "\<not> list_all uri_safe path" "\<not> dhas (ss_files ss) (quote path)"
    using that by (simp add: snapshot_load_def read ss' quote_same dhas_def)
  ultimately show ?thesis using any [of body] m(1) ss' by blast
qed

theorem snapshot_round_trip_witness:
  "\<exists>m ss' payload. snapshot_create ref_lib \<lparr>ss_root = ''/data'', ss_files = []\<rparr> ''w'' ''b'' 3
      (projections fixture_party) = (m, ss') \<and> snapshot_load ref_lib ss' m = Inr payload \<and>
    dget payload ''projections'' = Some (json_canon (projections_json (projections fixture_party)))"
proof -
  have ok: "absolute_store \<lparr>ss_root = ''/data'', ss_files = []\<rparr>"
    by (simp add: absolute_store_def absolute_def dhas_def)
  obtain m ss' where made: "snapshot_create ref_lib \<lparr>ss_root = ''/data'', ss_files = []\<rparr> ''w'' ''b'' 3
      (projections fixture_party) = (m, ss')" by (rule prod.exhaust)
  then have "mf_snapshot_id m = swap_colons (''tabletop-dm:snapshot:w:b:'' @ int_str 3 @ '':digest'')"
    by (auto simp: snapshot_create_def Let_def stable_hash_def ref_lib_def)
  then have "list_all uri_safe (snapshot_path ''/data'' ''w'' (mf_snapshot_id m))"
    by (simp add: snapshot_path_def) code_simp
  with snapshot_round_trip [OF ok made refl] made show ?thesis by auto
qed

lemma registered_promotion:
  "dget (map (\<lambda>d. (cd_command_type d, d)) (application_definitions L)) ''kernel.branch.promote'' =
     Some (promotion_definition L)"
proof (rule map_of_is_SomeI)
  have "distinct (map cd_command_type (application_definitions L))" by (simp add: registered_types)
  then show "distinct (map fst (map (\<lambda>d. (cd_command_type d, d)) (application_definitions L)))"
    by (simp add: comp_def)
  show "(''kernel.branch.promote'', promotion_definition L) \<in>
    set (map (\<lambda>d. (cd_command_type d, d)) (application_definitions L))"
    by (simp add: application_definitions_def promotion_definition_def)
qed

lemma promote_Inr:
  assumes "promote_consequences L p s = Inr r"
  obtains package where "model_validate L consequence_package (p_parameters p) = Inr package"
    "bs_kind s = CANONICAL" "state_hash L s = vstr package ''expected_canonical_hash''"
    "cr_deltas r = deltas_of_json (vlist package ''deltas'')"
    "dget (cr_result r) ''promoted_delta_count'' = Some (JInt (int (length (vlist package ''deltas''))))"
proof -
  from assms obtain package where "model_validate L consequence_package (p_parameters p) = Inr package"
    "bs_kind s = CANONICAL" "state_hash L s = vstr package ''expected_canonical_hash''"
    "mk_result [(''source_branch_id'', JStr (vstr package ''source_branch_id'')),
        (''promoted_delta_count'', JInt (int (length (deltas_of_json (vlist package ''deltas''))))),
        (''review_note'', JStr (vstr package ''review_note''))]
       (deltas_of_json (vlist package ''deltas'')) [''kernel'', ''branch'', ''canonical_promotion''] = r"
    by (auto simp: promote_consequences_def bindR_eq_Inr Let_def simp del: bindR_ensure)
  then show ?thesis by (intro that [of package]) (auto simp: mk_result_def deltas_of_json_def)
qed

text \<open>
  C12. Consequences are promoted only onto the canonical state they were reviewed against. When
  the promotion command commits, the actor may promote and commit, the branch is canonical, its
  state before the command has the hash the package names, and its new projections are those the
  deltas of the package yield, the receipt counting them.
\<close>

theorem promotion_is_guarded:
  assumes "bus_ok L b" "execute L now b p a = (Inr r, b')" "p_command_type p = ''kernel.branch.promote''"
    and "\<not> dhas (receipts (bus_states b)) (receipt_key_of p)"
  shows "\<exists>package s s' w. model_validate L consequence_package (p_parameters p) = Inr package \<and>
    {''canonical.promote'', ''action.commit''} \<subseteq> capabilities a \<and>
    dget (branches (bus_states b)) (p_branch_id p) = Some s \<and> bs_kind s = CANONICAL \<and>
    (\<exists>package'. model_validate L consequence_package package = Inr package' \<and>
       state_hash L s = vstr package' ''expected_canonical_hash'' \<and>
       apply_deltas L s (deltas_of_json (vlist package' ''deltas'')) = Inr w \<and>
       dget (cr_result (rc_result r)) ''promoted_delta_count'' =
         Some (JInt (int (length (vlist package' ''deltas''))))) \<and>
    dget (branches (bus_states b')) (p_branch_id p) = Some s' \<and> projections s' = projections w"
  using assms(2)
proof (cases rule: execute_cases)
  case (fresh d q r0 s w)
  have r: "r0 = r" using fresh(2) by simp
  have "dget (map (\<lambda>d. (cd_command_type d, d)) (application_definitions L)) (p_command_type p) = Some d"
    using admit_Inr(2) [OF fresh(1)] assms(1) by (simp add: bus_ok_def)
  then have d: "d = promotion_definition L" by (simp add: assms(3) registered_promotion)
  have v: "model_validate L consequence_package (p_parameters p) = Inr (p_parameters q)"
    using admit_Inr(6) [OF fresh(1)] by (simp add: d promotion_definition_def)
  note c = commit_is_replay [of d "promote_consequences L", OF _ fresh(5)]
  have "cd_handler d = reads_only (promote_consequences L)" by (simp add: d promotion_definition_def)
  note c = c [OF this]
  from promote_Inr [OF c(4)] obtain package' where p': "model_validate L consequence_package (p_parameters q) = Inr package'"
    "bs_kind s = CANONICAL" "state_hash L s = vstr package' ''expected_canonical_hash''"
    "cr_deltas (rc_result r) = deltas_of_json (vlist package' ''deltas'')"
    "dget (cr_result (rc_result r)) ''promoted_delta_count'' =
         Some (JInt (int (length (vlist package' ''deltas''))))"
    unfolding r by blast
  have "{''canonical.promote'', ''action.commit''} \<subseteq> capabilities a"
    using admit_Inr(3) [OF fresh(1)] by (simp add: d promotion_definition_def)
  with v fresh(4,6) p' c(1) show ?thesis by (force simp: r)
qed (use assms(4) in \<open>auto simp: dhas_def\<close>)

definition fixture_promotion :: proposal where
  "fixture_promotion = fixture_proposal ''kernel.branch.promote'' None
     [(''source_branch_id'', JStr ''trial''), (''expected_canonical_hash'', JStr ''digest''),
      (''deltas'', JList [JDict [(''projection'', JStr ''tabletop.quests''), (''operation'', JStr ''SET''),
         (''entity_id'', JStr ''hero''), (''values'', JDict [(''done'', JBool True)])]]),
      (''review_note'', JStr ''ok'')]"

theorem promotion_is_guarded_witness:
  "\<exists>r b'. execute ref_lib 0 fixture_service_bus fixture_promotion
      (fixture_actor {''canonical.promote'', ''action.commit''} {}) = (Inr r, b') \<and>
    (\<exists>s' (w :: branch_state). dget (branches (bus_states b')) ''b'' = Some s' \<and> projections s' = projections w)"
proof -
  let ?m = "execute ref_lib 0 fixture_service_bus fixture_promotion
      (fixture_actor {''canonical.promote'', ''action.commit''} {})"
  have "is_ok (fst ?m)" by code_simp
  then obtain r b' where ex: "?m = (Inr r, b')" by (cases ?m) (auto simp: is_ok_iff)
  have "bus_ok ref_lib fixture_service_bus" by (simp add: bus_ok_def fixture_service_bus_def service_bus_def)
  moreover have "\<not> dhas (receipts (bus_states fixture_service_bus)) (receipt_key_of fixture_promotion)"
    by (simp add: fixture_service_bus_def service_bus_def fixture_bus_def dhas_def)
  moreover have "p_command_type fixture_promotion = ''kernel.branch.promote''" "p_branch_id fixture_promotion = ''b''"
    by (simp_all add: fixture_promotion_def fixture_proposal_def)
  ultimately obtain s' and w :: branch_state where "dget (branches (bus_states b')) ''b'' = Some s'" "projections s' = projections w"
    using promotion_is_guarded [OF _ ex] by (elim meta_impE) auto
  with ex show ?thesis by blast
qed

section \<open>The service\<close>

text \<open>
  C3. Replay is faithful: after any sequence of the operations of the service, replaying the recorded history of
  a branch from its captured base yields exactly the committed branch, its version and projections included,
  unless \<open>create_entity\<close> has placed an entity on the branch directly after its base was captured by its first
  command (\<open>W\<close> are the branches where it has); a branch that does not exist is refused in the same way.
\<close>

theorem replay_is_faithful:
  assumes "lawful_lib L" "uuid5_injective L" "app_history L artifacts W a" "b \<notin> W"
  shows "replay_branch L a b = store_get (app_states a) b"
proof (cases "dget (ap_bases a) b")
  case None
  then show ?thesis by (simp add: replay_branch_def bindR_def store_get_def split: sum.splits option.splits)
next
  case (Some base)
  with app_history_ok [OF assms(1-3)] assms(4) obtain s where "dget (branches (app_states a)) b = Some s"
    "replay L base (drop (dget_or (ap_offsets a) b 0) (dget_or (ap_history a) b [])) = Inr s"
    unfolding app_ok_def branch_replays_def by blast
  with Some show ?thesis by (simp add: replay_branch_def store_get_def)
qed

theorem replay_is_faithful_witness:
  "\<exists>r a. submit ref_lib 1 fixture_service fixture_move = (Inr r, a) \<and>
    replay_branch ref_lib a ''b'' = store_get (app_states a) ''b''"
proof -
  obtain r a where s: "submit ref_lib 1 fixture_service fixture_move = (Inr r, a)" by (rule fixture_submits)
  then have "app_history ref_lib ''/data'' {} a"
    by (intro app_history_clean [OF fixture_history app_step.submission [OF _ fixture_move_ok]])
  from replay_is_faithful [OF lawful_ref_lib ref_lib_injective this] s show ?thesis by blast
qed

text \<open>
  C9. Nothing happens twice and nothing is lost: in every reachable state the recorded events and
  the receipts of the bus correspond one to one. Every receipt has its event in the event log, and
  every event in the log belongs to exactly one idempotency key.
\<close>

theorem ledger_is_consistent:
  assumes "lawful_lib L" "uuid5_injective L" "app_reachable L artifacts a"
  shows "(\<forall>k r. dget (receipts (app_states a)) k = Some r \<longrightarrow> dhas (ap_events a) (e_event_id (rc_event r))) \<and>
    (\<forall>ev. dhas (ap_events a) ev \<longrightarrow>
       (\<exists>!k. \<exists>r. dget (receipts (app_states a)) k = Some r \<and> e_event_id (rc_event r) = ev))"
proof (intro conjI allI impI)
  have led: "ledger_ok L a" using app_reachable_ledger [OF assms] .
  show "dhas (ap_events a) (e_event_id (rc_event r))" if "dget (receipts (app_states a)) k = Some r" for k r
    by (rule ledger_event [OF led that])
  fix ev
  assume "dhas (ap_events a) ev"
  with led obtain k r where k: "dget (receipts (app_states a)) k = Some r" "ev = key_event_id L k"
    unfolding ledger_ok_def dhas_def by blast
  have key: "uuid_text (fst k) \<and> uuid_text (fst (snd k)) \<and> e_event_id (rc_event r) = key_event_id L k"
    if "dget (receipts (app_states a)) k = Some r" for k r
    using led that unfolding ledger_ok_def by blast
  show "\<exists>!k. \<exists>r. dget (receipts (app_states a)) k = Some r \<and> e_event_id (rc_event r) = ev"
  proof (rule ex1I [of _ k])
    show "\<exists>r. dget (receipts (app_states a)) k = Some r \<and> e_event_id (rc_event r) = ev"
      using k key [OF k(1)] by auto
    fix k'
    assume "\<exists>r. dget (receipts (app_states a)) k' = Some r \<and> e_event_id (rc_event r) = ev"
    then obtain r' where r': "dget (receipts (app_states a)) k' = Some r'" "e_event_id (rc_event r') = ev" by blast
    obtain x y z x' y' z' where kk: "k = (x, y, z)" "k' = (x', y', z')" by (cases k, cases k') blast
    from key [OF k(1)] key [OF r'(1)] r'(2) k(2) assms(2) show "k' = k"
      unfolding kk by (intro key_event_id_inj [OF assms(2)]) simp_all
  qed
qed

theorem ledger_is_consistent_witness:
  "\<exists>r a. submit ref_lib 1 fixture_service fixture_move = (Inr r, a) \<and>
    (\<forall>k r. dget (receipts (app_states a)) k = Some r \<longrightarrow> dhas (ap_events a) (e_event_id (rc_event r)))"
proof -
  obtain r a where s: "submit ref_lib 1 fixture_service fixture_move = (Inr r, a)" by (rule fixture_submits)
  then have "app_reachable ref_lib ''/data'' a"
    unfolding app_reachable_def
    by (blast intro: app_history_clean [OF fixture_history app_step.submission [OF _ fixture_move_ok]])
  from ledger_is_consistent [OF lawful_ref_lib ref_lib_injective this] s show ?thesis by blast
qed

lemma record_grants_have:
  "g \<in> set (rc_perceptions r) \<Longrightarrow>
     dhas (ap_perceptions (record_grants r a)) (g_event_id g, g_observer_entity_id g)"
proof -
  have "dhas (foldl (\<lambda>acc g. dset acc (g_event_id g, g_observer_entity_id g) g) ps gs) k \<longleftrightarrow>
    dhas ps k \<or> k \<in> (\<lambda>g. (g_event_id g, g_observer_entity_id g)) ` set gs"
    for ps :: "((uuid \<times> uuid) \<times> grant) list" and gs k
    by (induction gs arbitrary: ps) auto
  then show "g \<in> set (rc_perceptions r) \<Longrightarrow>
     dhas (ap_perceptions (record_grants r a)) (g_event_id g, g_observer_entity_id g)"
    by (simp add: record_grants_def)
qed

text \<open>
  C4. A submission happens completely or not at all. If it raises, the branches, receipts, events,
  histories, entities, authorities and perceptions of the service are unchanged. If it returns,
  the receipt and its event are recorded, every perception grant of the receipt can be looked up,
  and no branch but that of the proposal has changed.
\<close>

theorem submission_is_atomic:
  assumes "lawful_lib L" "uuid5_injective L" "app_reachable L artifacts a" "proposal_ok p"
    and "submit L now a p = (res, a')"
  shows "(\<forall>e. res = Inl e \<longrightarrow> app_states a' = app_states a \<and> ap_events a' = ap_events a \<and>
      ap_history a' = ap_history a \<and> ap_entities a' = ap_entities a \<and>
      ap_authorities a' = ap_authorities a \<and> ap_perceptions a' = ap_perceptions a) \<and>
    (\<forall>r. res = Inr r \<longrightarrow> dget (receipts (app_states a')) (receipt_key_of p) = Some r \<and>
      dhas (ap_events a') (e_event_id (rc_event r)) \<and>
      (\<forall>g\<in>set (rc_perceptions r). perception_grant a' (g_event_id g) (g_observer_entity_id g) \<noteq> None) \<and>
      (\<forall>x. x \<noteq> p_branch_id p \<longrightarrow> dget (branches (app_states a')) x = dget (branches (app_states a)) x))"
proof -
  obtain W where ok: "app_ok L W a" using app_reachable_ok [OF assms(1-3)] .
  have grants: "perception_grant (record_grants r x) (g_event_id g) (g_observer_entity_id g) \<noteq> None"
    if "g \<in> set (rc_perceptions r)" for g r x
    using record_grants_have [OF that] by (simp add: perception_grant_def dhas_def)
  from assms(1,2) ok assms(4,5) show ?thesis
  proof (cases rule: submit_cases)
    case (refused e)
    then show ?thesis by simp
  next
    case (failed auth e)
    then show ?thesis by simp
  next
    case (duplicate auth r)
    have "dhas (ap_events a) (e_event_id (rc_event r))"
      using ok duplicate(3) by (intro ledger_event) (auto simp: app_ok_def)
    with duplicate grants show ?thesis by simp
  next
    case (fresh auth d q r s w b' a3)
    from fresh(9) have "ap_bus a3 = b'" by (simp add: same_but_entities_def same_record_def)
    then have "app_states a3 = bus_states b'" by (simp add: app_states_def)
    with fresh(2,8,11) grants show ?thesis by simp
  qed
qed

theorem submission_is_atomic_witness:
  "\<exists>r a. submit ref_lib 1 fixture_service fixture_move = (Inr r, a) \<and>
    dget (receipts (app_states a)) (receipt_key_of fixture_move) = Some r \<and>
    dhas (ap_events a) (e_event_id (rc_event r))"
proof -
  obtain r a where s: "submit ref_lib 1 fixture_service fixture_move = (Inr r, a)" by (rule fixture_submits)
  from submission_is_atomic [OF lawful_ref_lib ref_lib_injective fixture_reachable fixture_move_ok s] s
  show ?thesis by blast
qed

text \<open>
  C14. Events are private to their actor. After a command has been executed for the first time its
  event is visible to exactly those who have authority in its world and are the submitting actor
  or may read the whole world.
\<close>

theorem event_is_private:
  assumes "lawful_lib L" "uuid5_injective L" "app_reachable L artifacts a" "proposal_ok p"
    and "submit L now a p = (Inr r, a')" "\<not> dhas (ap_events a) (stable_event_id L p)"
  shows "rc_event r \<in> set (visible_events a' aid) \<longleftrightarrow>
    (\<exists>auth. dget (ap_authorities a') (p_world_id p, aid) = Some auth \<and>
       (actor_id auth = p_actor_id p \<or> ''world.read.all'' \<in> capabilities auth))"
proof -
  obtain W where ok: "app_ok L W a" using app_reachable_ok [OF assms(1-3)] .
  have new: "e_event_id (rc_event r) = stable_event_id L p \<and> e_world_id (rc_event r) = p_world_id p \<and>
    e_visible_to (rc_event r) = [p_actor_id p] \<and> rc_event r \<in> set (map snd (ap_events a'))"
    using assms(1,2) ok assms(4,5)
  proof (cases rule: submit_cases)
    case (duplicate auth r0)
    have led: "ledger_ok L a" using ok by (simp add: app_ok_def)
    from duplicate have rec: "dget (receipts (app_states a)) (receipt_key_of p) = Some r" by simp
    then have "e_event_id (rc_event r) = key_event_id L (receipt_key_of p)"
      using led unfolding ledger_ok_def by blast
    with ledger_event [OF led rec] have "dhas (ap_events a) (stable_event_id L p)"
      by (simp add: stable_event_id_key)
    with assms(6) show ?thesis by simp
  next
    case (fresh auth d q r0 s w b' a3)
    have r: "r0 = r" using fresh(2) by simp
    from fresh(7) obtain state builder where
      "materialize L (bus_resolver (ap_bus a)) now q (rc_result r) s state builder = Inr (rc_event r, rc_perceptions r)"
      unfolding r by (rule run_command_Inr) blast
    note m = materialize_Inr [OF this] and keep = admit_keeps [OF fresh(3)]
    have "(e_event_id (rc_event r), rc_event r) \<in> set (ap_events a')"
      by (rule map_of_SomeD) (simp add: fresh(11) r)
    then have "rc_event r \<in> set (map snd (ap_events a'))" by force
    with m keep show ?thesis by simp
  qed simp_all
  then have "rc_event r \<in> set (sort_key e_created_at (map snd (ap_events a')))" by simp
  with new show ?thesis
    by (auto simp: visible_events_def event_for_def split: option.splits)
qed

theorem event_is_private_witness:
  "\<exists>r a. submit ref_lib 1 fixture_service fixture_move = (Inr r, a) \<and>
    rc_event r \<in> set (visible_events a (p_actor_id fixture_move)) \<longleftrightarrow>
    (\<exists>auth. dget (ap_authorities a) (p_world_id fixture_move, p_actor_id fixture_move) = Some auth \<and>
       (actor_id auth = p_actor_id fixture_move \<or> ''world.read.all'' \<in> capabilities auth))"
proof -
  obtain r a where s: "submit ref_lib 1 fixture_service fixture_move = (Inr r, a)" by (rule fixture_submits)
  have "\<not> dhas (ap_events fixture_service) (stable_event_id ref_lib fixture_move)"
    by (simp add: fixture_unrecorded dhas_def)
  from event_is_private [OF lawful_ref_lib ref_lib_injective fixture_reachable fixture_move_ok s this] s
  show ?thesis by blast
qed

lemma projections_of_json_inverse:
  assumes "projections_of_json v = Inr ps"
  shows "projections_json ps = v"
proof -
  from assms obtain d where d: "v = JDict d"
    and f: "mapR (\<lambda>(k, b). bindR (as_mapping b) (\<lambda>m. Inr (k, m))) d = Inr ps"
    by (auto simp: projections_of_json_def bindR_eq_Inr)
  have "map (\<lambda>p. (fst p, JDict (snd p))) ps = d"
    by (rule mapR_inverse [OF f]) (auto simp: bindR_eq_Inr)
  then show ?thesis by (simp add: projections_json_def d)
qed

text \<open>
  A trial is an isolated, reproducible copy of a snapshot: a new trial branch lies in the world
  of the snapshot, is a trial at version 0, has exactly the state hash the snapshot records and
  names it as its base, its run carries the seed, its identifier is a function of snapshot and
  seed, and every branch that existed before is unchanged.
\<close>

theorem trial_copies_snapshot:
  assumes "create_trial L now a w sid seed = (Inr (trial, run), a')"
    and "\<not> dhas (branches (app_states a)) (stable_id L (''trial:'' @ sid @ '':'' @ int_str seed))"
  shows "\<exists>m. dget (ap_snapshots a) sid = Some m \<and> mf_world_id m = w \<and>
    bs_branch_id trial = stable_id L (''trial:'' @ sid @ '':'' @ int_str seed) \<and>
    bs_world_id trial = w \<and> bs_kind trial = TRIAL \<and> bs_version trial = 0 \<and>
    state_hash L trial = mf_state_hash m \<and> base_snapshot_hash trial = Some (mf_state_hash m) \<and>
    branches (app_states a') = dset (branches (app_states a)) (bs_branch_id trial) trial \<and>
    (\<not> dhas (ap_runs a) (stable_id L (''run:'' @ bs_branch_id trial @ '':'' @ int_str seed)) \<longrightarrow>
       rn_seed run = Some seed \<and> rn_branch_id run = bs_branch_id trial \<and> rn_kind run = EVALUATION)"
proof -
  let ?id = "stable_id L (''trial:'' @ sid @ '':'' @ int_str seed)"
  from assms(1) obtain wr m where m: "dget (ap_snapshots a) sid = Some m" "mf_world_id m = w"
    and head: "bindR (of_option (KeyError w) (dget (ap_worlds a) w)) (\<lambda>w'.
           bindR (of_option (KeyError sid) (dget (ap_snapshots a) sid)) (\<lambda>m.
           bindR (ensure (mf_world_id m = w) (ValueError ''snapshot does not belong to world'')) (\<lambda>_.
           Inr (w', m)))) = Inr (wr, m)"
    by (auto simp: create_trial_def bindR_eq_Inr simp del: bindR_ensure split: sum.splits)
  have none: "dget (branches (app_states a)) ?id = None" using assms(2) by (simp add: dhas_def)
  from assms(1) obtain payload v ps st where load: "snapshot_load L (ap_snapshot_store a) m = Inr payload"
    "dget payload ''projections'' = Some v" "projections_of_json v = Inr ps"
    and t: "trial = \<lparr>bs_world_id = w, bs_branch_id = ?id, bs_kind = TRIAL, projections = ps,
       base_snapshot_hash = Some (mf_state_hash m), bs_version = 0\<rparr>"
    and st: "store_add (app_states a) trial = Inr st" "app_states a' = st"
    and run: "run = dget_or (ap_runs a) (stable_id L (''run:'' @ ?id @ '':'' @ int_str seed))
      \<lparr>rn_run_id = stable_id L (''run:'' @ ?id @ '':'' @ int_str seed), rn_world_id = w, rn_branch_id = ?id,
       rn_kind = EVALUATION, rn_status = ''ACTIVE'', rn_seed = Some seed, rn_started_at = now\<rparr>"
    unfolding create_trial_def head Let_def none
    by (auto simp: bindR_eq_Inr app_states_def set_app_states_def split: sum.splits prod.splits)
  have "stable_hash L v = mf_state_hash m"
    using load(1,2) by (auto simp: snapshot_load_def bindR_eq_Inr simp del: bindR_ensure)
  moreover have "projections_json ps = v" by (rule projections_of_json_inverse [OF load(3)])
  ultimately have "state_hash L trial = mf_state_hash m" by (simp add: t state_hash_def)
  moreover have "branches (app_states a') = dset (branches (app_states a)) (bs_branch_id trial) trial"
    using st by (simp add: store_add_Inr)
  moreover have "bs_branch_id trial = ?id" "bs_world_id trial = w" "bs_kind trial = TRIAL" "bs_version trial = 0"
    "base_snapshot_hash trial = Some (mf_state_hash m)" by (simp_all add: t)
  moreover have "rn_seed run = Some seed \<and> rn_branch_id run = ?id \<and> rn_kind run = EVALUATION"
    if "\<not> dhas (ap_runs a) (stable_id L (''run:'' @ ?id @ '':'' @ int_str seed))"
    using that unfolding run dhas_def by (simp add: dget_or_def)
  ultimately show ?thesis using m by metis
qed

definition fixture_snapshot :: "(manifest \<times> app) res" where
  "fixture_snapshot = create_branch_snapshot ref_lib fixture_service ''b''"

theorem trial_copies_snapshot_witness:
  "\<exists>m a trial run a'. fixture_snapshot = Inr (m, a) \<and>
    create_trial ref_lib 4 a ''w'' (mf_snapshot_id m) 7 = (Inr (trial, run), a') \<and>
    bs_kind trial = TRIAL \<and> state_hash ref_lib trial = mf_state_hash m"
proof -
  have "is_ok (bindR fixture_snapshot (\<lambda>(m, a).
    bindR (ensure (\<not> dhas (branches (app_states a)) (stable_id ref_lib (''trial:'' @ mf_snapshot_id m @ '':'' @ int_str 7)))
      StopIteration) (\<lambda>_.
    bindR (ensure (dget (ap_snapshots a) (mf_snapshot_id m) = Some m) StopIteration) (\<lambda>_.
    fst (create_trial ref_lib 4 a ''w'' (mf_snapshot_id m) 7)))))" by code_simp
  then obtain m a trial run where a: "fixture_snapshot = Inr (m, a)"
    and fresh: "\<not> dhas (branches (app_states a)) (stable_id ref_lib (''trial:'' @ mf_snapshot_id m @ '':'' @ int_str 7))"
    and m: "dget (ap_snapshots a) (mf_snapshot_id m) = Some m"
    and "fst (create_trial ref_lib 4 a ''w'' (mf_snapshot_id m) 7) = Inr (trial, run)"
    unfolding is_ok_iff by (auto simp: bindR_eq_Inr simp del: bindR_ensure)
  then obtain a' where t: "create_trial ref_lib 4 a ''w'' (mf_snapshot_id m) 7 = (Inr (trial, run), a')"
    by (metis prod.collapse)
  from trial_copies_snapshot [OF t fresh] m have "bs_kind trial = TRIAL" "state_hash ref_lib trial = mf_state_hash m"
    by auto
  with a t show ?thesis by (intro exI conjI)
qed

end
