(* ===== verification/CommandTypes.thy ===== *)
theory CommandTypes
  imports ServiceFixture
begin

text \<open>
  The request models of the commands read as types: what a value of each annotation looks like
  after validation, and that a handler is only ever given parameters of the type its command declares.
\<close>

fun kind_ok :: "fkind \<Rightarrow> jval \<Rightarrow> bool"
  and fields_ok :: "schema \<Rightarrow> jdict \<Rightarrow> bool" where
  "kind_ok (FInt lo hi) v = (case v of JInt n \<Rightarrow> in_bounds lo hi n | _ \<Rightarrow> False)"
| "kind_ok (FFloat lo hi) v = (case v of JFloat q \<Rightarrow> in_bounds lo hi q
     | JInt n \<Rightarrow> in_bounds lo hi (of_int n) | _ \<Rightarrow> False)"
| "kind_ok (FFloatGt lo) v = (case v of JFloat q \<Rightarrow> lo < q | JInt n \<Rightarrow> lo < of_int n | _ \<Rightarrow> False)"
| "kind_ok (FStr lo hi) v = (case v of JStr s \<Rightarrow> in_bounds (Some lo) hi (length s) | _ \<Rightarrow> False)"
| "kind_ok FUuid v = (case v of JStr _ \<Rightarrow> True | _ \<Rightarrow> False)"
| "kind_ok FBool v = (case v of JBool _ \<Rightarrow> True | _ \<Rightarrow> False)"
| "kind_ok FAny v = True"
| "kind_ok FMapping v = (case v of JDict _ \<Rightarrow> True | _ \<Rightarrow> False)"
| "kind_ok (FEnum vs) v = (case v of JStr s \<Rightarrow> s \<in> set vs | _ \<Rightarrow> False)"
| "kind_ok (FConst c) v = (v = c)"
| "kind_ok (FOption k) v = (v = JNull \<or> kind_ok k v)"
| "kind_ok (FTuple m k) v = (case v of JList xs \<Rightarrow> m \<le> length xs \<and> list_all (kind_ok k) xs | _ \<Rightarrow> False)"
| "kind_ok (FModel fs) v = (case v of JDict d \<Rightarrow> fields_ok fs d | _ \<Rightarrow> False)"
| "fields_ok [] r = (r = [])"
| "fields_ok ((n, k, dflt) # fs) r = (case r of [] \<Rightarrow> False
     | (m, w) # r' \<Rightarrow> m = n \<and> kind_ok k w \<and> fields_ok fs r')"

text \<open>The defaults of a model are values of their annotations.\<close>

fun defaults_ok :: "fkind \<Rightarrow> bool"
  and schema_ok :: "schema \<Rightarrow> bool" where
  "defaults_ok (FOption k) = defaults_ok k"
| "defaults_ok (FTuple m k) = defaults_ok k"
| "defaults_ok (FModel fs) = schema_ok fs"
| "defaults_ok k = True"
| "schema_ok [] = True"
| "schema_ok ((n, k, dflt) # fs) =
     ((case dflt of None \<Rightarrow> True | Some w \<Rightarrow> kind_ok k w) \<and> defaults_ok k \<and> schema_ok fs)"

lemma all_some_list_all:
  "\<lbrakk>all_some (map f xs) = Some ys; \<And>x y. x \<in> set xs \<Longrightarrow> f x = Some y \<Longrightarrow> P y\<rbrakk> \<Longrightarrow> list_all P ys"
proof (induction xs arbitrary: ys)
  case Nil
  then show ?case by simp
next
  case (Cons x xs)
  from Cons.prems(1) obtain a z where "f x = Some a" "all_some (map f xs) = Some z" "ys = a # z"
    by (cases "f x") auto
  moreover from Cons.IH [OF this(2)] Cons.prems(2) have "list_all P z" by (meson list.set_intros(2))
  moreover have "P a" using Cons.prems(2) [of x a] calculation by simp
  ultimately show ?case by simp
qed

lemma validated_typed:
  "\<lbrakk>check_kind L k v = Some w; defaults_ok k\<rbrakk> \<Longrightarrow> kind_ok k w"
  "\<lbrakk>check_fields L fs d = Some r; schema_ok fs\<rbrakk> \<Longrightarrow> fields_ok fs r"
proof (induction L k v and L fs d arbitrary: w and r rule: check_kind_check_fields.induct)
  case (12 L m k v)
  from "12.prems"(1) obtain xs ys where v: "v = JList xs" and w: "w = JList ys" and m: "m \<le> length xs"
    and ys: "all_some (map (check_kind L k) xs) = Some ys"
    by (auto split: jval.splits if_splits)
  have "list_all (kind_ok k) ys"
    using "12.IH" [OF v m] "12.prems"(2) by (intro all_some_list_all [OF ys]) simp
  moreover have "length ys = length xs" using all_some_length [OF ys] by simp
  ultimately show ?case by (simp add: w m)
next
  case (15 L n k dflt fs d)
  then show ?case by (auto split: option.splits)
qed (auto split: option.splits if_splits jval.splits)

text \<open>The request model of each command.\<close>

definition request_schemas :: "(string \<times> schema) list" where
  "request_schemas = [(''tabletop.battlefield.set_control_mode'', SetControlModeRequest),
     (''tabletop.battlefield.issue_squad_order'', SquadOrderRequest),
     (''tabletop.onboarding.act'', OnboardingAction), (''tabletop.console.submit'', ConsoleSubmission),
     (''tabletop.dialogue.speak'', SpeechRequest), (''tabletop.entity.spawn'', SpawnEntityRequest),
     (''tabletop.spatial.move'', MoveRequest), (''tabletop.combat.attack'', AttackRequest),
     (''tabletop.magic.cast'', CastRequest), (''tabletop.economy.trade'', TradeRequest),
     (''tabletop.faction.adjust_reputation'', ReputationRequest), (''tabletop.divine.bless'', BlessRequest),
     (''tabletop.quest.advance'', QuestProgressRequest), (''kernel.branch.promote'', consequence_package)]"

lemmas request_schema_defs = SetControlModeRequest_def SquadOrderRequest_def OnboardingAction_def
  ConsoleSubmission_def SpeechRequest_def SpawnEntityRequest_def MoveRequest_def AttackRequest_def
  CastRequest_def TradeRequest_def ReputationRequest_def BlessRequest_def QuestProgressRequest_def
  consequence_package_def DialogueClaim_def FocusPoint_def state_delta_schema_def volumes_def

lemma request_schemas_ok: "list_all (\<lambda>p. schema_ok (snd p)) request_schemas"
  by (simp add: request_schemas_def request_schema_defs in_bounds_def)

lemma squad_order_typed: "validate_squad_order L d = Inr r \<Longrightarrow> model_validate L SquadOrderRequest d = Inr r"
  by (auto simp: validate_squad_order_def bindR_eq_Inr split: if_splits)

lemma request_models:
  assumes "d \<in> set (application_definitions L)"
  shows "\<exists>fs validate. dget request_schemas (cd_command_type d) = Some fs \<and> cd_request_model d = Some validate \<and>
    (\<forall>params q. validate params = Inr q \<longrightarrow> model_validate L fs params = Inr q)"
  using assms squad_order_typed [of L]
  by (auto simp: application_definitions_def command_definitions_def definition_defs request_schemas_def)

text \<open>
  C40. Handlers are given typed parameters only. When the bus admits a proposal to a command of the
  application, its parameters have been replaced by a mapping that has exactly the fields of the
  request model of that command, in order, each with a value of its annotation: integers and
  texts within their bounds, members of the enumerations, nested models and tuples of them likewise.
\<close>

theorem commands_are_well_typed:
  assumes "admit b p a = Inr (d, q)" and "d \<in> set (application_definitions L)"
  shows "\<exists>fs. dget request_schemas (cd_command_type d) = Some fs \<and> fields_ok fs (p_parameters q)"
proof -
  from request_models [OF assms(2)] obtain fs validate where
    fs: "dget request_schemas (cd_command_type d) = Some fs" and validate: "cd_request_model d = Some validate"
    and model: "\<And>params q. validate params = Inr q \<Longrightarrow> model_validate L fs params = Inr q"
    by blast
  from admit_Inr(6) [OF assms(1)] validate have "validate (p_parameters p) = Inr (p_parameters q)" by simp
  then have "check_fields L fs (p_parameters p) = Some (p_parameters q)"
    by (auto simp: model_validate_def dest: model)
  moreover have "schema_ok fs"
    using request_schemas_ok map_of_SomeD [OF fs] by (auto simp: list_all_iff)
  ultimately show ?thesis using fs validated_typed(2) by blast
qed

abbreviation idle_bus :: bus where
  "idle_bus \<equiv> service_bus \<lparr>branches = [], receipts = []\<rparr>"

theorem commands_are_well_typed_witness:
  "\<exists>d q. admit idle_bus fixture_move fixture_player = Inr (d, q) \<and> fields_ok MoveRequest (p_parameters q)"
proof -
  have "is_ok (admit idle_bus fixture_move fixture_player)" by code_simp
  then obtain d q where adm: "admit idle_bus fixture_move fixture_player = Inr (d, q)"
    by (auto simp: is_ok_iff)
  have "dget (bus_definitions idle_bus) ''tabletop.spatial.move'' = Some (move_definition ref_lib)"
    by (simp add: service_bus_def application_definitions_def command_definitions_def definition_defs)
  with admit_Inr(2) [OF adm] have d: "d = move_definition ref_lib"
    by (simp add: fixture_move_def fixture_proposal_def)
  then have "d \<in> set (application_definitions ref_lib)"
    by (simp add: application_definitions_def command_definitions_def)
  from commands_are_well_typed [OF adm this] adm show ?thesis
    by (auto simp: d move_definition_def request_schemas_def)
qed

end
