(* ===== verification/IdentityAccounts.thy ===== *)
theory IdentityAccounts
  imports Values
begin

text \<open>
  The data of the identity component: accounts, profiles and credentials
  (\<open>identity/models.py\<close>), the translation of product roles into kernel capabilities
  (\<open>kernel_authority\<close> of \<open>identity/repository.py\<close>) and the password scheme
  (\<open>identity/passwords.py\<close>). An instant is the number of microseconds since the epoch; the key
  derivation, the digest and the base64 codec are the parameter \<open>crypto\<close>.
\<close>

section \<open>Accounts\<close>

type_synonym instant = int

record user_profile =
  pr_display_name :: string
  pr_legal_name :: "string option"
  pr_email :: "string option"
  pr_date_of_birth :: "int option"
  pr_pronouns :: "string option"
  pr_timezone :: string
  pr_locale :: string
  pr_bio :: "string option"
  pr_avatar_uri :: "string option"

definition text_between :: "nat \<Rightarrow> nat \<Rightarrow> string \<Rightarrow> bool" where
  "text_between lo hi s = (lo \<le> length s \<and> length s \<le> hi)"

text \<open>What pydantic checks when a profile is built; every profile value has passed it.\<close>

definition profile_ok :: "user_profile \<Rightarrow> bool" where
  "profile_ok p =
     (text_between 1 160 (pr_display_name p) \<and>
      pred_option (text_between 0 200) (pr_legal_name p) \<and>
      pred_option (text_between 0 320) (pr_email p) \<and>
      pred_option (text_between 0 80) (pr_pronouns p) \<and>
      text_between 1 100 (pr_timezone p) \<and>
      text_between 2 40 (pr_locale p) \<and>
      pred_option (text_between 0 4000) (pr_bio p) \<and>
      pred_option (text_between 0 2000) (pr_avatar_uri p))"

definition plain_profile :: "string \<Rightarrow> user_profile" where
  "plain_profile name = \<lparr>pr_display_name = name, pr_legal_name = None, pr_email = None,
     pr_date_of_birth = None, pr_pronouns = None, pr_timezone = ''UTC'',
     pr_locale = ''en-US'', pr_bio = None, pr_avatar_uri = None\<rparr>"

record world_role_grant =
  wg_world_id :: uuid
  wg_roles :: "string set"

record user_account =
  ua_user_id :: uuid
  ua_actor_id :: uuid
  ua_username :: string
  ua_profile :: user_profile
  ua_global_roles :: "string set"
  ua_world_roles :: "world_role_grant list"
  ua_password_change_required :: bool
  ua_is_active :: bool
  ua_last_login_at :: "instant option"
  ua_created_at :: instant

record authenticated_user = user_account +
  au_session_id :: uuid
  au_session_expires_at :: instant

definition is_admin :: "'a user_account_scheme \<Rightarrow> bool" where
  "is_admin u = (''ADMIN'' \<in> ua_global_roles u)"

fun grants_for :: "world_role_grant list \<Rightarrow> uuid \<Rightarrow> string set" where
  "grants_for [] w = {}"
| "grants_for (g # gs) w = (if wg_world_id g = w then wg_roles g else grants_for gs w)"

definition roles_for :: "'a user_account_scheme \<Rightarrow> uuid \<Rightarrow> string set" where
  "roles_for u w = grants_for (ua_world_roles u) w"

definition has_dm_role :: "'a user_account_scheme \<Rightarrow> bool" where
  "has_dm_role u = list_ex (\<lambda>g. ''DM'' \<in> wg_roles g) (ua_world_roles u)"

definition has_player_role :: "'a user_account_scheme \<Rightarrow> bool" where
  "has_player_role u = list_ex (\<lambda>g. ''PLAYER'' \<in> wg_roles g) (ua_world_roles u)"

text \<open>\<open>AuthenticatedUser(**account.model_dump(), session_id=..., session_expires_at=...)\<close>.\<close>

definition authenticated :: "user_account \<Rightarrow> uuid \<Rightarrow> instant \<Rightarrow> authenticated_user" where
  "authenticated a sid expires =
     user_account.extend a (authenticated_user.fields sid expires)"

record credential_record =
  cr_account :: user_account
  cr_password_hash :: string
  cr_failed_login_count :: int
  cr_locked_until :: "instant option"

text \<open>\<open>CredentialRecord(account, password_hash)\<close>: no failures counted, no lock.\<close>

definition fresh_credential :: "user_account \<Rightarrow> string \<Rightarrow> credential_record" where
  "fresh_credential a h = \<lparr>cr_account = a, cr_password_hash = h, cr_failed_login_count = 0,
     cr_locked_until = None\<rparr>"

lemma truncate_authenticated [simp]: "user_account.truncate (authenticated a sid e) = a"
  by (simp add: authenticated_def user_account.truncate_def user_account.extend_def)

lemma authenticated_fields [simp]:
  "au_session_id (authenticated a sid e) = sid"
  "au_session_expires_at (authenticated a sid e) = e"
  "ua_user_id (authenticated a sid e) = ua_user_id a"
  "ua_username (authenticated a sid e) = ua_username a"
  "ua_global_roles (authenticated a sid e) = ua_global_roles a"
  "ua_world_roles (authenticated a sid e) = ua_world_roles a"
  "ua_is_active (authenticated a sid e) = ua_is_active a"
  by (simp_all add: authenticated_def user_account.extend_def authenticated_user.fields_def)

lemma fresh_credential_fields [simp]:
  "cr_account (fresh_credential a h) = a" "cr_password_hash (fresh_credential a h) = h"
  "cr_failed_login_count (fresh_credential a h) = 0" "cr_locked_until (fresh_credential a h) = None"
  by (simp_all add: fresh_credential_def)

section \<open>Product roles and kernel capabilities\<close>

definition ADMIN_CAPABILITIES :: "string set" where
  "ADMIN_CAPABILITIES = {''world.read'', ''world.read.all'', ''action.propose'', ''action.commit'',
     ''entity.create'', ''entity.control'', ''entity.act'', ''entity.read.secret'',
     ''faction.manage'', ''divine.invoke'', ''run.branch'', ''metric.evaluate'',
     ''canonical.promote'', ''mind.read.all'', ''mind.write.all''}"

definition DM_CAPABILITIES :: "string set" where
  "DM_CAPABILITIES = {''world.read'', ''world.read.all'', ''action.propose'', ''action.commit'',
     ''entity.create'', ''entity.control'', ''entity.act'', ''entity.read.secret'',
     ''faction.manage'', ''divine.invoke'', ''run.branch'', ''mind.read.all'', ''mind.write.all''}"

definition PLAYER_CAPABILITIES :: "string set" where
  "PLAYER_CAPABILITIES = {''world.read'', ''action.propose'', ''action.commit'', ''entity.act''}"

definition MANAGED_CAPABILITIES :: "string set" where
  "MANAGED_CAPABILITIES = ADMIN_CAPABILITIES \<union> DM_CAPABILITIES \<union> PLAYER_CAPABILITIES"

definition kernel_authority :: "bool \<Rightarrow> string set \<Rightarrow> string set \<times> string set" where
  "kernel_authority admin world_roles =
     (let roles0 = (if admin then {''ADMIN''} else {});
          capabilities0 = (if admin then ADMIN_CAPABILITIES else {});
          roles1 = (if ''DM'' \<in> world_roles then insert ''GM'' roles0 else roles0);
          capabilities1 = (if ''DM'' \<in> world_roles then capabilities0 \<union> DM_CAPABILITIES
                           else capabilities0);
          roles2 = (if ''PLAYER'' \<in> world_roles then insert ''PLAYER'' roles1 else roles1);
          capabilities2 = (if ''PLAYER'' \<in> world_roles then capabilities1 \<union> PLAYER_CAPABILITIES
                           else capabilities1)
      in (roles2, capabilities2))"

lemmas capability_sets =
  ADMIN_CAPABILITIES_def DM_CAPABILITIES_def PLAYER_CAPABILITIES_def MANAGED_CAPABILITIES_def

lemma capability_order: "PLAYER_CAPABILITIES \<subseteq> DM_CAPABILITIES" "DM_CAPABILITIES \<subseteq> ADMIN_CAPABILITIES"
  by (simp_all add: capability_sets)

lemma kernel_authority_capabilities:
  "snd (kernel_authority admin rs) =
     (if admin then ADMIN_CAPABILITIES else if ''DM'' \<in> rs then DM_CAPABILITIES
      else if ''PLAYER'' \<in> rs then PLAYER_CAPABILITIES else {})"
  using capability_order by (auto simp: kernel_authority_def Let_def)

section \<open>Passwords\<close>

record crypto =
  scrypt :: "string \<Rightarrow> string \<Rightarrow> int \<Rightarrow> int \<Rightarrow> int \<Rightarrow> nat \<Rightarrow> string option"
    \<comment> \<open>password, salt, n, r, p, dklen; None where hashlib.scrypt raises\<close>
  b64encode :: "string \<Rightarrow> string"
  b64decode :: "string \<Rightarrow> string option"
  sha256_hex :: "string \<Rightarrow> string"

text \<open>
  The documented behaviour of the two modules: decoding inverts encoding, the encoded text has
  no dollar sign, and \<open>scrypt\<close> accepts the parameters of the code and returns \<open>dklen\<close> bytes.
\<close>

definition lawful_crypto :: "crypto \<Rightarrow> bool" where
  "lawful_crypto C =
     ((\<forall>s. b64decode C (b64encode C s) = Some s) \<and>
      (\<forall>s. CHR ''$'' \<notin> set (b64encode C s)) \<and>
      (\<forall>password salt. \<exists>key. scrypt C password salt 16384 8 1 32 = Some key \<and> length key = 32))"

definition SCHEME :: string where "SCHEME = ''scrypt''"

definition COST_N :: int where "COST_N = 2 ^ 14"

definition COST_R :: int where "COST_R = 8"

definition COST_P :: int where "COST_P = 1"

definition KEY_BYTES :: nat where "KEY_BYTES = 32"

definition common_passwords :: "string set" where
  "common_passwords = {''admin123'', ''password'', ''password123'', ''administrator''}"

definition validate_password :: "string \<Rightarrow> unit res" where
  "validate_password password =
     bindR (ensure (12 \<le> length password)
       (ValueError ''password must contain at least 12 characters'')) (\<lambda>_.
     bindR (ensure (length password \<le> 256)
       (ValueError ''password must contain no more than 256 characters'')) (\<lambda>_.
     ensure (casefold password \<notin> common_passwords)
       (ValueError ''choose a password that is not a common default'')))"

text \<open>\<open>text.split("$", n)\<close>: at most \<open>n\<close> cuts, the rest of the text is the last part.\<close>

fun split_dollar :: "nat \<Rightarrow> string \<Rightarrow> string list" where
  "split_dollar 0 s = [s]"
| "split_dollar (Suc n) s =
     (let part = takeWhile (\<lambda>c. c \<noteq> CHR ''$'') s; rest = dropWhile (\<lambda>c. c \<noteq> CHR ''$'') s
      in case rest of [] \<Rightarrow> [part] | _ # cs \<Rightarrow> part # split_dollar n cs)"

fun join_dollar :: "string list \<Rightarrow> string" where
  "join_dollar [] = []"
| "join_dollar [s] = s"
| "join_dollar (s # t # ts) = s @ CHR ''$'' # join_dollar (t # ts)"

definition hash_password :: "crypto \<Rightarrow> bool \<Rightarrow> string \<Rightarrow> string \<Rightarrow> string res" where
  "hash_password C allow_bootstrap_default salt password =
     bindR (if allow_bootstrap_default then Inr () else validate_password password) (\<lambda>_.
     bindR (of_option (ValueError ''scrypt'') (scrypt C password salt COST_N COST_R COST_P KEY_BYTES))
       (\<lambda>derived.
     Inr (join_dollar [SCHEME, int_str COST_N, int_str COST_R, int_str COST_P,
       b64encode C salt, b64encode C derived])))"

definition verify_password :: "crypto \<Rightarrow> string \<Rightarrow> string \<Rightarrow> bool" where
  "verify_password C password encoded =
     (case split_dollar 5 encoded of
        [scheme, n, r, p, salt_text, expected_text] \<Rightarrow>
          if scheme \<noteq> SCHEME then False
          else (case (b64decode C salt_text, b64decode C expected_text,
                      parse_int n, parse_int r, parse_int p) of
             (Some salt, Some expected, Some n', Some r', Some p') \<Rightarrow>
               (case scrypt C password salt n' r' p' (length expected) of
                  None \<Rightarrow> False
                | Some actual \<Rightarrow> expected = actual)
           | _ \<Rightarrow> False)
      | _ \<Rightarrow> False)"

lemma split_join_dollar:
  "\<lbrakk>\<forall>s\<in>set (butlast ss). CHR ''$'' \<notin> set s; ss \<noteq> []; length ss = Suc n\<rbrakk> \<Longrightarrow>
   split_dollar n (join_dollar ss) = ss"
proof (induction n arbitrary: ss)
  case 0
  then show ?case by (cases ss) auto
next
  case (Suc n)
  then obtain s t ts where ss: "ss = s # t # ts" by (cases ss; cases "tl ss") auto
  have clean: "CHR ''$'' \<notin> set s" using Suc.prems(1) ss by simp
  have cut: "takeWhile (\<lambda>c. c \<noteq> CHR ''$'') (s @ CHR ''$'' # x) = s"
    "dropWhile (\<lambda>c. c \<noteq> CHR ''$'') (s @ CHR ''$'' # x) = CHR ''$'' # x" for x
    using clean by (induction s) auto
  have "split_dollar n (join_dollar (t # ts)) = t # ts"
    using Suc.prems ss by (intro Suc.IH) (auto split: if_splits)
  then show ?case by (simp add: ss cut)
qed

lemma validate_password_ok:
  "validate_password p = Inr () \<longleftrightarrow>
     12 \<le> length p \<and> length p \<le> 256 \<and> casefold p \<notin> common_passwords"
  by (simp add: validate_password_def bindR_eq_Inr)

lemma cost_texts:
  "int_str COST_N = ''16384''" "int_str COST_R = ''8''" "int_str COST_P = ''1''"
  "parse_int ''16384'' = Some 16384" "parse_int ''8'' = Some 8" "parse_int ''1'' = Some 1"
  by (simp_all add: COST_N_def COST_R_def COST_P_def int_str_def nat_str.simps char_of_def bit_0
      parse_int_def strip_def is_space_def is_digit_def Let_def)

definition stored_hash :: "crypto \<Rightarrow> string \<Rightarrow> string \<Rightarrow> string" where
  "stored_hash C salt key = join_dollar [SCHEME, int_str COST_N, int_str COST_R, int_str COST_P,
     b64encode C salt, b64encode C key]"

lemma hash_password_Inr:
  "hash_password C allow salt password = Inr encoded \<longleftrightarrow> (allow \<or> validate_password password = Inr ()) \<and>
     (\<exists>key. scrypt C password salt COST_N COST_R COST_P KEY_BYTES = Some key \<and>
       encoded = stored_hash C salt key)"
  by (auto simp: hash_password_def stored_hash_def bindR_eq_Inr)

text \<open>Against a stored hash, a password verifies exactly when it derives the stored key.\<close>

lemma verify_stored:
  assumes lawful: "lawful_crypto C" and key: "length key = 32"
  shows "verify_password C password (stored_hash C salt key) \<longleftrightarrow>
    scrypt C password salt COST_N COST_R COST_P KEY_BYTES = Some key"
proof -
  have codec: "b64decode C (b64encode C s) = Some s" "CHR ''$'' \<notin> set (b64encode C s)" for s
    using lawful by (auto simp: lawful_crypto_def)
  have "split_dollar 5 (stored_hash C salt key) = [SCHEME, int_str COST_N, int_str COST_R,
      int_str COST_P, b64encode C salt, b64encode C key]"
    unfolding stored_hash_def by (rule split_join_dollar) (auto simp: SCHEME_def cost_texts codec)
  then show ?thesis
    by (simp add: verify_password_def cost_texts codec key)
      (auto simp: COST_N_def COST_R_def COST_P_def KEY_BYTES_def split: option.splits)
qed

lemma lawful_key_length:
  "\<lbrakk>lawful_crypto C; scrypt C password salt COST_N COST_R COST_P KEY_BYTES = Some key\<rbrakk> \<Longrightarrow> length key = 32"
  by (auto simp: lawful_crypto_def COST_N_def COST_R_def COST_P_def KEY_BYTES_def) (metis option.inject)

lemma password_hash_verifies:
  assumes "lawful_crypto C" and "hash_password C allow salt password = Inr encoded"
  shows "verify_password C password encoded"
  using assms verify_stored lawful_key_length by (auto simp: hash_password_Inr)

text \<open>
  A password verifies against the hash that was stored for it: the record text is split
  back into its six fields, the parameters are read back as the integers that were printed, and
  the key derived from the stored salt is the stored key.
\<close>

theorem password_round_trip:
  assumes "lawful_crypto C" and "hash_password C allow salt password = Inr encoded"
  shows "verify_password C password encoded"
  using assms by (rule password_hash_verifies)

text \<open>
  A concrete codec and key derivation for the witnesses: each byte as two letters, and the key
  the first bytes of the padded password and salt.
\<close>

definition letter :: "nat \<Rightarrow> char" where "letter n = char_of (65 + n)"

fun pairs_encode :: "string \<Rightarrow> string" where
  "pairs_encode [] = []"
| "pairs_encode (c # cs) =
     letter (of_char c div 16) # letter (of_char c mod 16) # pairs_encode cs"

fun pairs_decode :: "string \<Rightarrow> string option" where
  "pairs_decode [] = Some []"
| "pairs_decode [c] = None"
| "pairs_decode (a # b # cs) =
     map_option (\<lambda>s. char_of ((of_char a - 65) * 16 + (of_char b - 65) :: nat) # s) (pairs_decode cs)"

definition ref_crypto :: crypto where
  "ref_crypto = \<lparr>
     scrypt = (\<lambda>password salt n r p dklen. if dklen = 0 then None
       else Some (take dklen (password @ CHR ''/'' # salt @ replicate dklen CHR ''.''))),
     b64encode = pairs_encode, b64decode = pairs_decode,
     sha256_hex = (\<lambda>s. ''#'' @ s)\<rparr>"

lemma letter_inverse: "n < 16 \<Longrightarrow> (of_char (letter n) :: nat) = 65 + n"
  by (simp add: letter_def)

lemma pairs_round_trip: "pairs_decode (pairs_encode s) = Some s"
proof (induction s)
  case Nil
  show ?case by simp
next
  case (Cons c s)
  have "of_char c div 16 < (16 :: nat)" using nat_of_char_less_256 [of c] by linarith
  then show ?case by (simp add: Cons.IH letter_inverse)
qed

lemma pairs_no_dollar: "CHR ''$'' \<notin> set (pairs_encode s)"
proof (induction s)
  case Nil
  show ?case by simp
next
  case (Cons c s)
  have high: "of_char c div 16 < (16 :: nat)" using nat_of_char_less_256 [of c] by linarith
  have ne: "letter n \<noteq> CHR ''$''" if "n < 16" for n
  proof
    assume "letter n = CHR ''$''"
    then have "(of_char (letter n) :: nat) = 36" by simp
    with that show False by (simp add: letter_inverse)
  qed
  show ?case using Cons.IH ne [OF high] ne [of "of_char c mod 16"] by auto
qed

lemma ref_crypto_lawful: "lawful_crypto ref_crypto"
  by (auto simp: lawful_crypto_def ref_crypto_def pairs_round_trip pairs_no_dollar min_def)

theorem password_round_trip_witness:
  "\<exists>encoded. hash_password ref_crypto False ''salt'' ''correct horse'' = Inr encoded \<and>
     verify_password ref_crypto ''correct horse'' encoded"
proof -
  have "casefold ''correct horse'' \<notin> common_passwords" by code_simp
  then have "is_ok (hash_password ref_crypto False ''salt'' ''correct horse'')"
    by (simp add: hash_password_def validate_password_def ref_crypto_def KEY_BYTES_def)
  then obtain encoded where "hash_password ref_crypto False ''salt'' ''correct horse'' = Inr encoded"
    by (auto simp: is_ok_iff)
  with password_round_trip [OF ref_crypto_lawful this] show ?thesis by blast
qed


definition ref_key :: "string \<Rightarrow> string \<Rightarrow> string" where
  "ref_key salt password = take 32 (password @ CHR ''/'' # salt @ replicate 32 CHR ''.'')"

lemma ref_scrypt: "scrypt ref_crypto password salt COST_N COST_R COST_P KEY_BYTES = Some (ref_key salt password)"
  by (simp add: ref_crypto_def ref_key_def KEY_BYTES_def)

lemma ref_hash:
  "hash_password ref_crypto allow salt password = Inr encoded \<longleftrightarrow>
     (allow \<or> validate_password password = Inr ()) \<and>
     encoded = stored_hash ref_crypto salt (ref_key salt password)"
  by (simp add: hash_password_Inr ref_scrypt)

lemma ref_verify:
  "verify_password ref_crypto password (stored_hash ref_crypto salt (ref_key salt password')) \<longleftrightarrow>
     ref_key salt password = ref_key salt password'"
  by (subst verify_stored [OF ref_crypto_lawful]) (auto simp: ref_scrypt, simp add: ref_key_def)

end
