(* ===== verification/Effects.thy ===== *)
theory Effects
  imports Prelude
begin

text \<open>
  Methods that change their object and may raise: a computation takes the state and returns
  the outcome together with the state it leaves, also when it raises. \<open>bindE\<close> sequences two of
  them, \<open>liftE\<close> is a step that does not touch the state, \<open>updE\<close> one that only changes it.
  \<open>keeps P m\<close> says that \<open>m\<close> preserves \<open>P\<close> on every path, exceptions included.
\<close>

named_theorems effect_simps "rules that run a stateful computation"

type_synonym ('s, 'a) eff = "'s \<Rightarrow> 'a res \<times> 's"

definition returnE :: "'a \<Rightarrow> ('s, 'a) eff" where
  "returnE x s = (Inr x, s)"

definition raiseE :: "pyerr \<Rightarrow> ('s, 'a) eff" where
  "raiseE e s = (Inl e, s)"

definition bindE :: "('s, 'a) eff \<Rightarrow> ('a \<Rightarrow> ('s, 'b) eff) \<Rightarrow> ('s, 'b) eff" where
  "bindE m f s = (case m s of (Inl e, s') \<Rightarrow> (Inl e, s') | (Inr x, s') \<Rightarrow> f x s')"

definition liftE :: "'a res \<Rightarrow> ('s, 'a) eff" where
  "liftE r s = (r, s)"

definition readE :: "('s \<Rightarrow> 'a) \<Rightarrow> ('s, 'a) eff" where
  "readE f s = (Inr (f s), s)"

definition updE :: "('s \<Rightarrow> 's) \<Rightarrow> ('s, unit) eff" where
  "updE f s = (Inr (), f s)"

definition ensureE :: "bool \<Rightarrow> pyerr \<Rightarrow> ('s, unit) eff" where
  "ensureE b e = liftE (ensure b e)"

definition keeps :: "('s \<Rightarrow> bool) \<Rightarrow> ('s, 'a) eff \<Rightarrow> bool" where
  "keeps P m \<longleftrightarrow> (\<forall>s. P s \<longrightarrow> P (snd (m s)))"

lemma run_simps [simp, effect_simps]:
  "returnE x s = (Inr x, s)"
  "raiseE e s = (Inl e, s)"
  "liftE r s = (r, s)"
  "readE f s = (Inr (f s), s)"
  "updE g s = (Inr (), g s)"
  by (simp_all add: returnE_def raiseE_def liftE_def readE_def updE_def)

lemma ensureE_run [simp, effect_simps]:
  "ensureE b e s = (if b then Inr () else Inl e, s)"
  by (simp add: ensureE_def ensure_def)

lemma bindE_run [effect_simps]:
  "m s = (Inr x, s') \<Longrightarrow> bindE m f s = f x s'"
  "m s = (Inl e, s') \<Longrightarrow> bindE m f s = (Inl e, s')"
  by (simp_all add: bindE_def)

lemma bindE_steps [simp, effect_simps]:
  "bindE (returnE x) f s = f x s"
  "bindE (raiseE e) f s = (Inl e, s)"
  "bindE (readE g) f s = f (g s) s"
  "bindE (updE h) f' s = f' () (h s)"
  "bindE (ensureE b e) f' s = (if b then f' () s else (Inl e, s))"
  "bindE (liftE (Inr x)) f s = f x s"
  "bindE (liftE (Inl e)) f s = (Inl e, s)"
  by (simp_all add: bindE_def)

lemma bindE_eq_Inr [res_simps]:
  "bindE m f s = (Inr y, t) \<longleftrightarrow> (\<exists>x s'. m s = (Inr x, s') \<and> f x s' = (Inr y, t))"
  by (auto simp: bindE_def split: prod.splits sum.splits)

lemma bindE_eq_Inl [res_simps]:
  "bindE m f s = (Inl e, t) \<longleftrightarrow>
     m s = (Inl e, t) \<or> (\<exists>x s'. m s = (Inr x, s') \<and> f x s' = (Inl e, t))"
  by (auto simp: bindE_def split: prod.splits sum.splits)

lemma keepsD: "\<lbrakk>keeps P m; m s = (r, t); P s\<rbrakk> \<Longrightarrow> P t"
  unfolding keeps_def by (metis snd_conv)

lemma keepsI: "(\<And>s r t. m s = (r, t) \<Longrightarrow> P s \<Longrightarrow> P t) \<Longrightarrow> keeps P m"
  unfolding keeps_def by (metis surj_pair snd_conv)

lemma keeps_bindE [intro]:
  assumes "keeps P m" and "\<And>x. keeps P (f x)"
  shows "keeps P (bindE m f)"
  using assms unfolding keeps_def bindE_def
  by (auto split: prod.splits sum.splits)

lemma keeps_steps [simp, intro]:
  "keeps P (returnE x)" "keeps P (raiseE e)" "keeps P (liftE r)" "keeps P (readE g)"
  "keeps P (ensureE b e)"
  by (simp_all add: keeps_def)

lemma keeps_updE: "(\<And>s. P s \<Longrightarrow> P (h s)) \<Longrightarrow> keeps P (updE h)"
  by (simp add: keeps_def)

end
