(* ===== verification/IdentityRepository.thy ===== *)
theory IdentityRepository
  imports IdentityAccounts Effects "HOL-Library.Multiset"
begin

text \<open>
  The account store of the identity component: \<open>InMemoryIdentityRepository\<close> of
  \<open>identity/repository.py\<close>, one definition per method, and the interface
  \<open>IdentityRepository\<close> (a \<open>Protocol\<close> in the source) as a locale. Readings of the clock and
  fresh identifiers are arguments: \<open>clk i\<close> is the i-th reading of the clock in the call.
  Presentation data of a session (user agent, address), which this store discards, is left out.
\<close>

section \<open>State\<close>

record session =
  se_session_id :: uuid
  se_user_id :: uuid
  se_expires_at :: instant
  se_revoked_at :: "instant option"

record audit_entry =
  ae_actor_user_id :: "uuid option"
  ae_target_user_id :: "uuid option"
  ae_event_type :: string
  ae_details :: jdict
  ae_occurred_at :: instant

record identity_repo =
  ir_bootstrap_actor_id :: "uuid option"
  ir_credentials :: "(uuid \<times> credential_record) list"
  ir_usernames :: "(string \<times> uuid) list"
  ir_sessions :: "(string \<times> session) list"
  ir_audit :: "audit_entry list"

definition empty_identity_repo :: "uuid option \<Rightarrow> identity_repo" where
  "empty_identity_repo actor = \<lparr>ir_bootstrap_actor_id = actor, ir_credentials = [],
     ir_usernames = [], ir_sessions = [], ir_audit = []\<rparr>"

section \<open>Operations\<close>

definition record_audit ::
  "instant \<Rightarrow> uuid option \<Rightarrow> uuid option \<Rightarrow> string \<Rightarrow> jdict \<Rightarrow> identity_repo \<Rightarrow> identity_repo" where
  "record_audit now actor target event_type details s = s\<lparr>ir_audit := ir_audit s @
     [\<lparr>ae_actor_user_id = actor, ae_target_user_id = target, ae_event_type = event_type,
       ae_details = details, ae_occurred_at = now\<rparr>]\<rparr>"

definition put_credential :: "uuid \<Rightarrow> credential_record \<Rightarrow> identity_repo \<Rightarrow> identity_repo" where
  "put_credential uid c s = s\<lparr>ir_credentials := dset (ir_credentials s) uid c\<rparr>"

definition required_credential :: "uuid \<Rightarrow> (identity_repo, credential_record) eff" where
  "required_credential uid s =
     (of_option (KeyError uid) (dget (ir_credentials s) uid), s)"

definition ensure_bootstrap ::
  "(nat \<Rightarrow> instant) \<Rightarrow> uuid \<Rightarrow> uuid \<Rightarrow> string \<Rightarrow> (identity_repo, user_account) eff" where
  "ensure_bootstrap clk uid actor_uid password_hash s =
     (case ir_credentials s of
        (_, record) # _ \<Rightarrow> (Inr (cr_account record), s)
      | [] \<Rightarrow>
          let account = \<lparr>ua_user_id = uid,
                ua_actor_id = (case ir_bootstrap_actor_id s of Some a \<Rightarrow> a | None \<Rightarrow> actor_uid),
                ua_username = ''admin'', ua_profile = plain_profile ''Administrator'',
                ua_global_roles = {''ADMIN''}, ua_world_roles = [],
                ua_password_change_required = True, ua_is_active = True,
                ua_last_login_at = None, ua_created_at = clk 0\<rparr>;
              s1 = put_credential uid (fresh_credential account password_hash) s;
              s2 = s1\<lparr>ir_usernames := dset (ir_usernames s1) ''admin'' uid\<rparr>
          in (Inr account, record_audit (clk 1) None (Some uid) ''identity.bootstrap_admin'' [] s2))"

definition get_credentials :: "identity_repo \<Rightarrow> string \<Rightarrow> credential_record option" where
  "get_credentials s username =
     (case dget (ir_usernames s) (casefold username) of
        None \<Rightarrow> None
      | Some uid \<Rightarrow> dget (ir_credentials s) uid)"

definition get_account :: "identity_repo \<Rightarrow> uuid \<Rightarrow> user_account option" where
  "get_account s uid = map_option cr_account (dget (ir_credentials s) uid)"

definition list_accounts :: "identity_repo \<Rightarrow> user_account list" where
  "list_accounts s =
     sort_key (\<lambda>a. casefold (ua_username a)) (map (\<lambda>(_, c). cr_account c) (ir_credentials s))"

definition create_user ::
  "(nat \<Rightarrow> instant) \<Rightarrow> uuid \<Rightarrow> uuid \<Rightarrow> string \<Rightarrow> string \<Rightarrow> user_profile \<Rightarrow> uuid
     \<Rightarrow> (identity_repo, user_account) eff" where
  "create_user clk uid actor_uid username password_hash profile created_by s =
     (if dhas (ir_usernames s) (casefold username)
      then (Inl (ValueError ''username is already in use''), s)
      else
        let account = \<lparr>ua_user_id = uid, ua_actor_id = actor_uid, ua_username = username,
              ua_profile = profile, ua_global_roles = {}, ua_world_roles = [],
              ua_password_change_required = True, ua_is_active = True,
              ua_last_login_at = None, ua_created_at = clk 0\<rparr>;
            s1 = put_credential uid (fresh_credential account password_hash) s;
            s2 = s1\<lparr>ir_usernames := dset (ir_usernames s1) (casefold username) uid\<rparr>
        in (Inr account,
            record_audit (clk 1) (Some created_by) (Some uid) ''identity.user_created'' [] s2))"

text \<open>
  \<open>username and username.casefold() != ...\<close>: no name, an empty one, and one that differs from
  the present name only in case leave the name as it is.
\<close>

definition renames :: "user_account \<Rightarrow> string option \<Rightarrow> string option" where
  "renames a username = (case username of
      None \<Rightarrow> None
    | Some name \<Rightarrow> if name \<noteq> [] \<and> casefold name \<noteq> casefold (ua_username a) then Some name else None)"

definition move_username :: "uuid \<Rightarrow> user_account \<Rightarrow> string option \<Rightarrow> (identity_repo, unit) eff" where
  "move_username uid a rename = (case rename of
      None \<Rightarrow> returnE ()
    | Some name \<Rightarrow>
        bindE (readE ir_usernames) (\<lambda>names.
        bindE (ensureE (\<not> dhas names (casefold name)) (ValueError ''username is already in use'')) (\<lambda>_.
        bindE (ensureE (dhas names (casefold (ua_username a))) (KeyError (casefold (ua_username a)))) (\<lambda>_.
        updE (\<lambda>s. s\<lparr>ir_usernames :=
          dset (ddel names (casefold (ua_username a))) (casefold name) uid\<rparr>)))))"

definition applied_update :: "user_account \<Rightarrow> string option \<Rightarrow> bool option \<Rightarrow> user_profile option \<Rightarrow> user_account" where
  "applied_update a username active profile =
     (let a1 = (case renames a username of None \<Rightarrow> a | Some name \<Rightarrow> a\<lparr>ua_username := name\<rparr>);
          a2 = (case active of None \<Rightarrow> a1 | Some b \<Rightarrow> a1\<lparr>ua_is_active := b\<rparr>)
      in case profile of None \<Rightarrow> a2 | Some p \<Rightarrow> a2\<lparr>ua_profile := p\<rparr>)"

definition update_account ::
  "instant \<Rightarrow> uuid \<Rightarrow> string option \<Rightarrow> bool option \<Rightarrow> user_profile option \<Rightarrow> uuid
     \<Rightarrow> (identity_repo, user_account) eff" where
  "update_account now uid username active profile actor =
     bindE (required_credential uid) (\<lambda>record.
     bindE (move_username uid (cr_account record) (renames (cr_account record) username)) (\<lambda>_.
     let account = applied_update (cr_account record) username active profile in
     bindE (updE (put_credential uid (record\<lparr>cr_account := account\<rparr>))) (\<lambda>_.
     bindE (updE (record_audit now (Some actor) (Some uid) ''identity.user_updated'' [])) (\<lambda>_.
     returnE account))))"

definition revoke_user_sessions :: "instant \<Rightarrow> uuid \<Rightarrow> identity_repo \<Rightarrow> identity_repo" where
  "revoke_user_sessions now uid s = s\<lparr>ir_sessions :=
     map (\<lambda>(h, se). (h, if se_user_id se = uid then se\<lparr>se_revoked_at := Some now\<rparr> else se))
       (ir_sessions s)\<rparr>"

definition set_password ::
  "(nat \<Rightarrow> instant) \<Rightarrow> uuid \<Rightarrow> string \<Rightarrow> bool \<Rightarrow> uuid \<Rightarrow> (identity_repo, unit) eff" where
  "set_password clk uid password_hash require_change actor =
     bindE (required_credential uid) (\<lambda>record.
     let account = (cr_account record)\<lparr>ua_password_change_required := require_change\<rparr> in
     bindE (updE (put_credential uid (fresh_credential account password_hash))) (\<lambda>_.
     bindE (updE (revoke_user_sessions (clk 0) uid)) (\<lambda>_.
     updE (record_audit (clk 1) (Some actor) (Some uid)
       (if require_change then ''identity.password_reset'' else ''identity.password_changed'') []))))"

definition role_texts :: "string set \<Rightarrow> jval" where
  "role_texts roles = JList (map JStr (sorted_list_of_set roles))"

definition set_global_roles ::
  "instant \<Rightarrow> uuid \<Rightarrow> string set \<Rightarrow> uuid \<Rightarrow> (identity_repo, user_account) eff" where
  "set_global_roles now uid roles actor =
     bindE (required_credential uid) (\<lambda>record.
     let account = (cr_account record)\<lparr>ua_global_roles := roles\<rparr> in
     bindE (updE (put_credential uid (record\<lparr>cr_account := account\<rparr>))) (\<lambda>_.
     bindE (updE (record_audit now (Some actor) (Some uid) ''identity.global_roles_changed''
       [(''roles'', role_texts roles)])) (\<lambda>_.
     returnE account)))"

definition world_grants :: "world_role_grant list \<Rightarrow> uuid \<Rightarrow> string set \<Rightarrow> world_role_grant list" where
  "world_grants held w roles =
     (let grants = dupdate [] (map (\<lambda>g. (wg_world_id g, wg_roles g)) held);
          grants' = (if roles \<noteq> {} then dset grants w roles else ddel grants w)
      in map (\<lambda>(k, v). \<lparr>wg_world_id = k, wg_roles = v\<rparr>) (sort_key fst grants'))"

definition set_world_roles ::
  "instant \<Rightarrow> uuid \<Rightarrow> uuid \<Rightarrow> string set \<Rightarrow> uuid \<Rightarrow> (identity_repo, user_account) eff" where
  "set_world_roles now uid w roles actor =
     bindE (required_credential uid) (\<lambda>record.
     let account = (cr_account record)\<lparr>ua_world_roles :=
           world_grants (ua_world_roles (cr_account record)) w roles\<rparr> in
     bindE (updE (put_credential uid (record\<lparr>cr_account := account\<rparr>))) (\<lambda>_.
     bindE (updE (record_audit now (Some actor) (Some uid) ''identity.world_roles_changed''
       [(''world_id'', JStr w), (''roles'', role_texts roles)])) (\<lambda>_.
     returnE account)))"

definition create_session ::
  "uuid \<Rightarrow> uuid \<Rightarrow> string \<Rightarrow> instant \<Rightarrow> (identity_repo, uuid \<times> instant) eff" where
  "create_session sid uid token_hash expires_at =
     bindE (updE (\<lambda>s. s\<lparr>ir_sessions := dset (ir_sessions s) token_hash
       \<lparr>se_session_id = sid, se_user_id = uid, se_expires_at = expires_at,
        se_revoked_at = None\<rparr>\<rparr>)) (\<lambda>_.
     returnE (sid, expires_at))"

definition account_for_session ::
  "instant \<Rightarrow> identity_repo \<Rightarrow> string \<Rightarrow> (user_account \<times> uuid \<times> instant) option" where
  "account_for_session now s token_hash =
     (case dget (ir_sessions s) token_hash of
        None \<Rightarrow> None
      | Some se \<Rightarrow>
          if se_revoked_at se \<noteq> None \<or> se_expires_at se \<le> now then None
          else (case get_account s (se_user_id se) of
                  None \<Rightarrow> None
                | Some a \<Rightarrow> if \<not> ua_is_active a then None
                    else Some (a, se_session_id se, se_expires_at se)))"

definition revoke_session :: "instant \<Rightarrow> string \<Rightarrow> identity_repo \<Rightarrow> identity_repo" where
  "revoke_session now token_hash s =
     (case dget (ir_sessions s) token_hash of
        None \<Rightarrow> s
      | Some se \<Rightarrow>
          s\<lparr>ir_sessions := dset (ir_sessions s) token_hash (se\<lparr>se_revoked_at := Some now\<rparr>)\<rparr>)"

definition record_login_success :: "instant \<Rightarrow> uuid \<Rightarrow> (identity_repo, unit) eff" where
  "record_login_success now uid =
     bindE (required_credential uid) (\<lambda>record.
     updE (put_credential uid
       (fresh_credential ((cr_account record)\<lparr>ua_last_login_at := Some now\<rparr>) (cr_password_hash record))))"

definition record_login_failure :: "uuid \<Rightarrow> int \<Rightarrow> instant option \<Rightarrow> (identity_repo, unit) eff" where
  "record_login_failure uid failed locked_until =
     bindE (required_credential uid) (\<lambda>record.
     updE (put_credential uid
       (record\<lparr>cr_failed_login_count := failed, cr_locked_until := locked_until\<rparr>)))"

definition delete_user :: "(nat \<Rightarrow> instant) \<Rightarrow> uuid \<Rightarrow> uuid \<Rightarrow> (identity_repo, unit) eff" where
  "delete_user clk uid actor =
     bindE (required_credential uid) (\<lambda>record.
     let name = ua_username (cr_account record) in
     bindE (updE (record_audit (clk 0) (Some actor) (Some uid) ''identity.user_deleted''
       [(''username'', JStr name)])) (\<lambda>_.
     bindE (updE (revoke_user_sessions (clk 1) uid)) (\<lambda>_.
     bindE (updE (\<lambda>s. s\<lparr>ir_credentials := ddel (ir_credentials s) uid\<rparr>)) (\<lambda>_.
     bindE (readE ir_usernames) (\<lambda>names.
     bindE (ensureE (dhas names (casefold name)) (KeyError (casefold name))) (\<lambda>_.
     updE (\<lambda>s. s\<lparr>ir_usernames := ddel names (casefold name)\<rparr>)))))))"

definition audit_entries :: "nat \<Rightarrow> identity_repo \<Rightarrow> audit_entry list" where
  "audit_entries limit s =
     (if limit = 0 then rev (ir_audit s)
      else rev (drop (length (ir_audit s) - limit) (ir_audit s)))"


section \<open>Well-formed stores\<close>

text \<open>
  The user-name index and the credentials describe the same accounts: every account is filed
  under its identifier and indexed under its case-folded name, and the index holds nothing else.
\<close>

definition login_key :: "user_account \<Rightarrow> string" where
  "login_key a = casefold (ua_username a)"

definition index_ok :: "(uuid \<rightharpoonup> credential_record) \<Rightarrow> (string \<rightharpoonup> uuid) \<Rightarrow> bool" where
  "index_ok A N \<longleftrightarrow>
     (\<forall>u c. A u = Some c \<longrightarrow> ua_user_id (cr_account c) = u \<and> N (login_key (cr_account c)) = Some u) \<and>
     (\<forall>n u. N n = Some u \<longrightarrow> (\<exists>c. A u = Some c \<and> login_key (cr_account c) = n))"

definition repo_ok :: "identity_repo \<Rightarrow> bool" where
  "repo_ok s \<longleftrightarrow> distinct (map fst (ir_credentials s)) \<and> distinct (map fst (ir_usernames s)) \<and>
     index_ok (dget (ir_credentials s)) (dget (ir_usernames s))"

definition same_person :: "user_account \<Rightarrow> user_account \<Rightarrow> bool" where
  "same_person a b \<longleftrightarrow> ua_user_id a = ua_user_id b \<and> login_key a = login_key b"

lemma required_credential_Inr [res_simps]:
  "required_credential u s = (Inr c, t) \<longleftrightarrow> dget (ir_credentials s) u = Some c \<and> t = s"
  by (auto simp: required_credential_def)

lemma required_credential_Inl [res_simps]:
  "required_credential u s = (Inl e, t) \<longleftrightarrow>
     dget (ir_credentials s) u = None \<and> e = KeyError u \<and> t = s"
  by (auto simp: required_credential_def)

lemma required_credential_run [effect_simps]:
  "bindE (required_credential u) f s =
     (case dget (ir_credentials s) u of None \<Rightarrow> (Inl (KeyError u), s) | Some c \<Rightarrow> f c s)"
  by (simp add: bindE_def required_credential_def split: option.splits)

lemma keeps_required [simp, intro]: "keeps P (required_credential u)"
  by (simp add: keeps_def required_credential_def)

lemma record_audit_frame [simp, frame_simps]:
  "ir_credentials (record_audit n a b c d s) = ir_credentials s"
  "ir_usernames (record_audit n a b c d s) = ir_usernames s"
  "ir_sessions (record_audit n a b c d s) = ir_sessions s"
  by (simp_all add: record_audit_def)

lemma put_credential_frame [simp, frame_simps]:
  "ir_credentials (put_credential u c s) = dset (ir_credentials s) u c"
  "ir_usernames (put_credential u c s) = ir_usernames s"
  "ir_sessions (put_credential u c s) = ir_sessions s"
  by (simp_all add: put_credential_def)

lemma revoke_user_sessions_frame [simp, frame_simps]:
  "ir_credentials (revoke_user_sessions n u s) = ir_credentials s"
  "ir_usernames (revoke_user_sessions n u s) = ir_usernames s"
  by (simp_all add: revoke_user_sessions_def)

lemma revoke_session_frame [simp, frame_simps]:
  "ir_credentials (revoke_session n h s) = ir_credentials s"
  "ir_usernames (revoke_session n h s) = ir_usernames s"
  by (simp_all add: revoke_session_def split: option.splits)

lemma get_account_same [frame_simps]:
  "ir_credentials s = ir_credentials t \<Longrightarrow> get_account s = get_account t"
  by (simp add: get_account_def fun_eq_iff)

lemma get_account_audit [simp]: "get_account (record_audit n a b c d s) = get_account s"
  by (rule get_account_same) simp

lemma get_account_revoked [simp]: "get_account (revoke_user_sessions n u s) = get_account s"
  by (rule get_account_same) simp

lemma get_account_put [simp]:
  "get_account (put_credential u c s) v = (if v = u then Some (cr_account c) else get_account s v)"
  by (simp add: get_account_def)

lemma index_okI:
  assumes "\<And>u c. A u = Some c \<Longrightarrow> ua_user_id (cr_account c) = u"
    and "\<And>u c. A u = Some c \<Longrightarrow> N (login_key (cr_account c)) = Some u"
    and "\<And>n u. N n = Some u \<Longrightarrow> \<exists>c. A u = Some c \<and> login_key (cr_account c) = n"
  shows "index_ok A N"
  using assms unfolding index_ok_def by blast

lemma index_okD:
  assumes "index_ok A N"
  shows "A u = Some c \<Longrightarrow> ua_user_id (cr_account c) = u"
    and "A u = Some c \<Longrightarrow> N (login_key (cr_account c)) = Some u"
    and "N n = Some u \<Longrightarrow> \<exists>c. A u = Some c \<and> login_key (cr_account c) = n"
  using assms unfolding index_ok_def by blast+

lemma index_ok_put:
  assumes ok: "index_ok A N" and held: "A u = Some c"
    and same: "same_person (cr_account c') (cr_account c)"
  shows "index_ok (A(u \<mapsto> c')) N"
proof (rule index_okI)
  fix v d assume "(A(u \<mapsto> c')) v = Some d"
  then have "v = u \<and> d = c' \<or> A v = Some d" by (simp split: if_splits)
  then show "ua_user_id (cr_account d) = v" and "N (login_key (cr_account d)) = Some v"
    using index_okD(1,2) [OF ok] held same by (auto simp: same_person_def)
next
  fix n v assume "N n = Some v"
  from index_okD(3) [OF ok this] show "\<exists>d. (A(u \<mapsto> c')) v = Some d \<and> login_key (cr_account d) = n"
    using held same by (auto simp: same_person_def)
qed

lemma index_ok_file:
  assumes ok: "index_ok A N" and fresh: "A u = None" and free: "N (login_key (cr_account c)) = None"
    and id: "ua_user_id (cr_account c) = u"
  shows "index_ok (A(u \<mapsto> c)) (N(login_key (cr_account c) \<mapsto> u))"
proof (rule index_okI)
  fix v d assume "(A(u \<mapsto> c)) v = Some d"
  then have "v = u \<and> d = c \<or> v \<noteq> u \<and> A v = Some d" by (simp split: if_splits)
  then show "ua_user_id (cr_account d) = v"
    and "(N(login_key (cr_account c) \<mapsto> u)) (login_key (cr_account d)) = Some v"
    using index_okD(1) [OF ok, of v d] index_okD(2) [OF ok, of v d] free id by auto
next
  fix n v assume "(N(login_key (cr_account c) \<mapsto> u)) n = Some v"
  then show "\<exists>d. (A(u \<mapsto> c)) v = Some d \<and> login_key (cr_account d) = n"
    using index_okD(3) [OF ok, of n v] fresh by (auto split: if_splits)
qed

lemma index_ok_unfile:
  assumes ok: "index_ok A N" and held: "A u = Some c"
  shows "index_ok (A(u := None)) (N(login_key (cr_account c) := None))"
proof (rule index_okI)
  fix v d assume "(A(u := None)) v = Some d"
  then have "v \<noteq> u" and d: "A v = Some d" by (simp_all split: if_splits)
  then show "ua_user_id (cr_account d) = v"
    and "(N(login_key (cr_account c) := None)) (login_key (cr_account d)) = Some v"
    using index_okD(2) [OF ok d] index_okD(2) [OF ok held] index_okD(1) [OF ok d] by auto
next
  fix n v assume "(N(login_key (cr_account c) := None)) n = Some v"
  then show "\<exists>d. (A(u := None)) v = Some d \<and> login_key (cr_account d) = n"
    using index_okD(3) [OF ok, of n v] held by (auto split: if_splits)
qed

lemma index_ok_unique:
  assumes "index_ok A N" and "A u = Some c" and "A v = Some d"
    and "login_key (cr_account c) = login_key (cr_account d)"
  shows "u = v"
  using assms(4) index_okD(2) [OF assms(1,2)] index_okD(2) [OF assms(1,3)] by simp

lemma dget_maps: "dget (dset d k v) = (dget d)(k \<mapsto> v)" "dget (ddel d k) = (dget d)(k := None)"
  by (rule ext, simp)+

lemma repo_ok_same:
  "\<lbrakk>repo_ok s; ir_credentials t = ir_credentials s; ir_usernames t = ir_usernames s\<rbrakk> \<Longrightarrow> repo_ok t"
  unfolding repo_ok_def by metis

lemma repo_ok_audit [simp]: "repo_ok (record_audit n a b c d s) = repo_ok s"
  by (simp add: repo_ok_def)

lemma repo_ok_revoked [simp]: "repo_ok (revoke_user_sessions n u s) = repo_ok s"
  by (simp add: repo_ok_def)

lemma repo_ok_revoke_session [simp]: "repo_ok (revoke_session n h s) = repo_ok s"
  by (simp add: repo_ok_def)

lemma repo_ok_sessions [simp]: "repo_ok (s\<lparr>ir_sessions := x\<rparr>) = repo_ok s"
  by (simp add: repo_ok_def)

lemma repo_ok_user_id:
  "\<lbrakk>repo_ok s; dget (ir_credentials s) u = Some c\<rbrakk> \<Longrightarrow> ua_user_id (cr_account c) = u"
  unfolding repo_ok_def index_ok_def by metis

lemma repo_ok_put:
  assumes "repo_ok s" and "dget (ir_credentials s) u = Some c"
    and "same_person (cr_account c') (cr_account c)"
  shows "repo_ok (put_credential u c' s)"
  using assms index_ok_put [of "dget (ir_credentials s)" "dget (ir_usernames s)" u c c']
  unfolding repo_ok_def by (simp only: put_credential_frame dget_maps distinct_update simp_thms)

lemma repo_ok_unique:
  assumes "repo_ok s" and "get_account s u = Some a" and "get_account s v = Some b"
    and "login_key a = login_key b"
  shows "u = v"
proof -
  from assms(2,3) obtain c d where "dget (ir_credentials s) u = Some c" "cr_account c = a"
    and "dget (ir_credentials s) v = Some d" "cr_account d = b"
    unfolding get_account_def by blast
  with assms(1,4) show ?thesis unfolding repo_ok_def by (metis index_ok_unique)
qed

lemma repo_ok_login_name:
  assumes "repo_ok s" and "get_credentials s name = Some c"
  shows "dget (ir_credentials s) (ua_user_id (cr_account c)) = Some c \<and>
    login_key (cr_account c) = casefold name"
proof -
  from assms(2) obtain u where "dget (ir_usernames s) (casefold name) = Some u"
    and "dget (ir_credentials s) u = Some c"
    unfolding get_credentials_def by (auto split: option.splits)
  with assms(1) show ?thesis unfolding repo_ok_def index_ok_def by (metis option.inject)
qed

lemma repo_ok_find:
  assumes "repo_ok s" and "dget (ir_credentials s) u = Some c"
  shows "get_credentials s (ua_username (cr_account c)) = Some c"
proof -
  have "dget (ir_usernames s) (login_key (cr_account c)) = Some u"
    using assms unfolding repo_ok_def index_ok_def by metis
  with assms(2) show ?thesis by (simp add: get_credentials_def login_key_def)
qed

lemma repo_ok_file:
  assumes "repo_ok s" and "\<not> dhas (ir_credentials s) u"
    and "\<not> dhas (ir_usernames s) (login_key (cr_account c))" and "ua_user_id (cr_account c) = u"
    and creds: "ir_credentials t = dset (ir_credentials s) u c"
    and names: "ir_usernames t = dset (ir_usernames s) (login_key (cr_account c)) u"
  shows "repo_ok t"
  using assms(1-4) index_ok_file [of "dget (ir_credentials s)" "dget (ir_usernames s)" u c]
  unfolding repo_ok_def creds names dhas_def by (simp only: dget_maps distinct_update simp_thms)

lemma repo_ok_unfile:
  assumes "repo_ok s" and "dget (ir_credentials s) u = Some c"
    and creds: "ir_credentials t = ddel (ir_credentials s) u"
    and names: "ir_usernames t = ddel (ir_usernames s) (login_key (cr_account c))"
  shows "repo_ok t"
  using assms(1,2) index_ok_unfile [of "dget (ir_credentials s)" "dget (ir_usernames s)" u c]
  unfolding repo_ok_def creds names by (simp only: dget_maps distinct_delete simp_thms)

text \<open>A rename is the removal of the account followed by its filing under the new name.\<close>

lemma repo_ok_rename:
  assumes ok: "repo_ok s" and held: "dget (ir_credentials s) u = Some c"
    and free: "\<not> dhas (ir_usernames s) (login_key (cr_account c'))"
    and id: "ua_user_id (cr_account c') = u"
    and creds: "ir_credentials t = dset (ir_credentials s) u c'"
    and names: "ir_usernames t =
      dset (ddel (ir_usernames s) (login_key (cr_account c))) (login_key (cr_account c')) u"
  shows "repo_ok t"
proof -
  let ?A = "dget (ir_credentials s)" and ?N = "dget (ir_usernames s)"
  have "index_ok (?A(u := None)) (?N(login_key (cr_account c) := None))"
    using ok held by (simp only: repo_ok_def index_ok_unfile)
  then have "index_ok (?A(u := None, u \<mapsto> c'))
      (?N(login_key (cr_account c) := None, login_key (cr_account c') \<mapsto> u))"
    using free id by (intro index_ok_file) (simp_all add: dhas_def)
  then show ?thesis using ok unfolding repo_ok_def creds names
    by (simp only: dget_maps distinct_update distinct_delete fun_upd_upd simp_thms)
qed


section \<open>What the operations do to accounts and sessions\<close>

lemma applied_update_fields [simp]:
  "ua_user_id (applied_update a n b p) = ua_user_id a"
  "ua_global_roles (applied_update a n b p) = ua_global_roles a"
  "ua_is_active (applied_update a n b p) = (case b of None \<Rightarrow> ua_is_active a | Some x \<Rightarrow> x)"
  "login_key (applied_update a n b p) =
     (case renames a n of None \<Rightarrow> login_key a | Some name \<Rightarrow> casefold name)"
  by (simp_all add: applied_update_def Let_def login_key_def split: option.splits)

lemma move_username_Inr:
  "move_username u a r s = (Inr x, t) \<longleftrightarrow>
     (case r of None \<Rightarrow> t = s
      | Some name \<Rightarrow> \<not> dhas (ir_usernames s) (casefold name) \<and> dhas (ir_usernames s) (login_key a) \<and>
          t = s\<lparr>ir_usernames := dset (ddel (ir_usernames s) (login_key a)) (casefold name) u\<rparr>)"
  by (auto simp: move_username_def login_key_def split: option.splits if_splits)

lemma move_username_Inl: "move_username u a r s = (Inl e, t) \<Longrightarrow> t = s"
  by (auto simp: move_username_def split: option.splits if_splits)

lemma update_account_run:
  "update_account now u n b p act s = (case dget (ir_credentials s) u of
     None \<Rightarrow> (Inl (KeyError u), s)
   | Some c \<Rightarrow> (case move_username u (cr_account c) (renames (cr_account c) n) s of
       (Inl e, s1) \<Rightarrow> (Inl e, s1)
     | (Inr _, s1) \<Rightarrow> (Inr (applied_update (cr_account c) n b p),
         record_audit now (Some act) (Some u) ''identity.user_updated'' []
           (put_credential u (c\<lparr>cr_account := applied_update (cr_account c) n b p\<rparr>) s1))))"
  unfolding update_account_def required_credential_run Let_def
  by (rule option.case_cong [OF refl refl]) (simp add: bindE_def [of "move_username u a r" for a r]
      split: prod.splits sum.splits)

lemma update_account_Inr:
  assumes "update_account now u n b p act s = (Inr a, t)"
  obtains c where "dget (ir_credentials s) u = Some c" and "a = applied_update (cr_account c) n b p"
    and "ir_credentials t = dset (ir_credentials s) u (c\<lparr>cr_account := a\<rparr>)"
    and "ir_sessions t = ir_sessions s"
    and "ir_usernames t = (case renames (cr_account c) n of None \<Rightarrow> ir_usernames s
      | Some name \<Rightarrow> dset (ddel (ir_usernames s) (login_key (cr_account c))) (casefold name) u)"
    and "\<forall>name. renames (cr_account c) n = Some name \<longrightarrow> \<not> dhas (ir_usernames s) (casefold name)"
proof -
  from assms obtain c s1 where c: "dget (ir_credentials s) u = Some c"
    and moved: "move_username u (cr_account c) (renames (cr_account c) n) s = (Inr (), s1)"
    and a: "a = applied_update (cr_account c) n b p"
    and t: "t = record_audit now (Some act) (Some u) ''identity.user_updated'' []
      (put_credential u (c\<lparr>cr_account := a\<rparr>) s1)"
    unfolding update_account_run by (auto split: option.splits prod.splits sum.splits)
  have "ir_credentials s1 = ir_credentials s" and "ir_sessions s1 = ir_sessions s"
    and "ir_usernames s1 = (case renames (cr_account c) n of None \<Rightarrow> ir_usernames s
      | Some name \<Rightarrow> dset (ddel (ir_usernames s) (login_key (cr_account c))) (casefold name) u)"
    and "\<forall>name. renames (cr_account c) n = Some name \<longrightarrow> \<not> dhas (ir_usernames s) (casefold name)"
    using moved by (simp_all add: move_username_Inr split: option.splits)
  then show ?thesis
    by (intro that [OF c a]) (simp_all only: t record_audit_frame put_credential_frame)
qed

lemma update_account_Inl: "update_account now u n b p act s = (Inl e, t) \<Longrightarrow> t = s"
  unfolding update_account_run
  by (auto split: option.splits prod.splits sum.splits dest: move_username_Inl)

lemma keeps_update_account: "keeps repo_ok (update_account now u n b p act)"
proof (rule keepsI)
  fix s r t assume run: "update_account now u n b p act s = (r, t)" and ok: "repo_ok s"
  show "repo_ok t"
  proof (cases r)
    case (Inl e)
    with run ok update_account_Inl show ?thesis by blast
  next
    case (Inr a)
    with run obtain c where c: "dget (ir_credentials s) u = Some c"
      and a: "a = applied_update (cr_account c) n b p"
      and creds: "ir_credentials t = dset (ir_credentials s) u (c\<lparr>cr_account := a\<rparr>)"
      and names: "ir_usernames t = (case renames (cr_account c) n of None \<Rightarrow> ir_usernames s
        | Some name \<Rightarrow> dset (ddel (ir_usernames s) (login_key (cr_account c))) (casefold name) u)"
      and free: "\<forall>name. renames (cr_account c) n = Some name \<longrightarrow> \<not> dhas (ir_usernames s) (casefold name)"
      by (metis update_account_Inr)
    have id: "ua_user_id (cr_account c) = u" by (rule repo_ok_user_id [OF ok c])
    show ?thesis
    proof (cases "renames (cr_account c) n")
      case None
      have "repo_ok (put_credential u (c\<lparr>cr_account := a\<rparr>) s)"
        by (rule repo_ok_put [OF ok c]) (simp add: same_person_def a None)
      then show ?thesis by (rule repo_ok_same) (simp_all add: creds names None)
    next
      case (Some name)
      show ?thesis
        by (rule repo_ok_rename [OF ok c, where c' = "c\<lparr>cr_account := a\<rparr>"])
          (simp_all add: creds names Some free a id)
    qed
  qed
qed

lemma create_user_Inr:
  "create_user clk u au name h p by s = (Inr a, t) \<Longrightarrow>
     \<not> dhas (ir_usernames s) (login_key a) \<and> ua_user_id a = u \<and> ua_global_roles a = {} \<and>
     ir_credentials t = dset (ir_credentials s) u (fresh_credential a h) \<and>
     ir_usernames t = dset (ir_usernames s) (login_key a) u \<and> ir_sessions t = ir_sessions s"
  by (auto simp: create_user_def Let_def login_key_def split: if_splits)

lemma create_user_Inl: "create_user clk u au name h p by s = (Inl e, t) \<Longrightarrow> t = s"
  by (auto simp: create_user_def Let_def split: if_splits)

lemma set_password_run:
  "set_password clk u h change act s = (case dget (ir_credentials s) u of
     None \<Rightarrow> (Inl (KeyError u), s)
   | Some c \<Rightarrow> (Inr (), record_audit (clk 1) (Some act) (Some u)
       (if change then ''identity.password_reset'' else ''identity.password_changed'') []
       (revoke_user_sessions (clk 0) u (put_credential u
         (fresh_credential ((cr_account c)\<lparr>ua_password_change_required := change\<rparr>) h) s))))"
  by (simp add: set_password_def required_credential_run Let_def split: option.splits)

lemma set_global_roles_run:
  "set_global_roles now u roles act s = (case dget (ir_credentials s) u of
     None \<Rightarrow> (Inl (KeyError u), s)
   | Some c \<Rightarrow> (Inr ((cr_account c)\<lparr>ua_global_roles := roles\<rparr>),
       record_audit now (Some act) (Some u) ''identity.global_roles_changed'' [(''roles'', role_texts roles)]
       (put_credential u (c\<lparr>cr_account := (cr_account c)\<lparr>ua_global_roles := roles\<rparr>\<rparr>) s)))"
  by (simp add: set_global_roles_def required_credential_run Let_def split: option.splits)

lemma set_world_roles_run:
  "set_world_roles now u w roles act s = (case dget (ir_credentials s) u of
     None \<Rightarrow> (Inl (KeyError u), s)
   | Some c \<Rightarrow> let a = (cr_account c)\<lparr>ua_world_roles := world_grants (ua_world_roles (cr_account c)) w roles\<rparr> in
       (Inr a, record_audit now (Some act) (Some u) ''identity.world_roles_changed''
         [(''world_id'', JStr w), (''roles'', role_texts roles)] (put_credential u (c\<lparr>cr_account := a\<rparr>) s)))"
  by (simp add: set_world_roles_def required_credential_run Let_def split: option.splits)

lemma record_login_success_run:
  "record_login_success now u s = (case dget (ir_credentials s) u of
     None \<Rightarrow> (Inl (KeyError u), s)
   | Some c \<Rightarrow> (Inr (), put_credential u
       (fresh_credential ((cr_account c)\<lparr>ua_last_login_at := Some now\<rparr>) (cr_password_hash c)) s))"
  by (simp add: record_login_success_def required_credential_run split: option.splits)

lemma record_login_failure_run:
  "record_login_failure u failed locked s = (case dget (ir_credentials s) u of
     None \<Rightarrow> (Inl (KeyError u), s)
   | Some c \<Rightarrow> (Inr (), put_credential u
       (c\<lparr>cr_failed_login_count := failed, cr_locked_until := locked\<rparr>) s))"
  by (simp add: record_login_failure_def required_credential_run split: option.splits)

lemma create_session_run:
  "create_session sid u h e s = (Inr (sid, e), s\<lparr>ir_sessions := dset (ir_sessions s) h
     \<lparr>se_session_id = sid, se_user_id = u, se_expires_at = e, se_revoked_at = None\<rparr>\<rparr>)"
  by (simp add: create_session_def)

lemmas identity_runs = set_password_run set_global_roles_run set_world_roles_run
  record_login_success_run record_login_failure_run create_session_run

lemma delete_user_Inr:
  "delete_user clk u act s = (Inr x, t) \<Longrightarrow> \<exists>c. dget (ir_credentials s) u = Some c \<and>
     ir_credentials t = ddel (ir_credentials s) u \<and>
     ir_usernames t = ddel (ir_usernames s) (login_key (cr_account c))"
  unfolding delete_user_def Let_def
  by (auto simp: required_credential_run login_key_def split: option.splits if_splits)

lemma delete_user_Inl:
  assumes "delete_user clk u act s = (Inl e, t)" and ok: "repo_ok s"
  shows "t = s"
proof -
  have "dhas (ir_usernames s) (login_key (cr_account c))" if "dget (ir_credentials s) u = Some c" for c
    using ok that unfolding repo_ok_def dhas_def by (metis index_okD(2) option.distinct(1))
  then show ?thesis
    using assms(1) unfolding delete_user_def Let_def
    by (auto simp: required_credential_run login_key_def split: option.splits if_splits)
qed

lemma keeps_repo_ok [intro]:
  "keeps repo_ok (set_password clk u h change act)"
  "keeps repo_ok (set_global_roles now u roles act)"
  "keeps repo_ok (set_world_roles now u w roles act)"
  "keeps repo_ok (record_login_success now u)"
  "keeps repo_ok (record_login_failure u failed locked)"
  "keeps repo_ok (create_session sid u k e)"
  by (auto simp: keeps_def identity_runs Let_def login_key_def same_person_def
      split: option.splits intro: repo_ok_put)

lemma keeps_delete_user: "keeps repo_ok (delete_user clk u act)"
proof (rule keepsI)
  fix s r t assume "delete_user clk u act s = (r, t)" and "repo_ok s"
  then show "repo_ok t"
    by (cases r) (auto dest: delete_user_Inl dest!: delete_user_Inr intro: repo_ok_unfile)
qed

lemma keeps_create_user:
  assumes "repo_ok s" and "\<not> dhas (ir_credentials s) u"
    and run: "create_user clk u au name h p by s = (r, t)"
  shows "repo_ok t"
proof (cases r)
  case (Inl e)
  with run assms(1) create_user_Inl show ?thesis by blast
next
  case (Inr a)
  from create_user_Inr [OF run [unfolded Inr]] show ?thesis
    by (intro repo_ok_file [OF assms(1,2), where c = "fresh_credential a h"]) simp_all
qed


lemma list_accounts_set:
  assumes ok: "repo_ok s"
  shows "set (list_accounts s) = {a. get_account s (ua_user_id a) = Some a}"
proof -
  have filed: "(u, c) \<in> set (ir_credentials s) \<longleftrightarrow> dget (ir_credentials s) u = Some c" for u c
    using ok by (simp add: repo_ok_def)
  have "set (list_accounts s) = {a. \<exists>u c. dget (ir_credentials s) u = Some c \<and> a = cr_account c}"
    by (auto simp: list_accounts_def filed [symmetric] image_iff Bex_def)
  also have "\<dots> = {a. get_account s (ua_user_id a) = Some a}"
    using repo_ok_user_id [OF ok] by (auto simp: get_account_def)
  finally show ?thesis .
qed

lemma revoked_sessions:
  "dget (ir_sessions (revoke_user_sessions now u s)) k =
     map_option (\<lambda>se. if se_user_id se = u then se\<lparr>se_revoked_at := Some now\<rparr> else se)
       (dget (ir_sessions s) k)"
  by (simp add: revoke_user_sessions_def map_of_map)

lemma account_for_session_Some:
  "account_for_session now s k = Some (a, sid, e) \<longleftrightarrow>
     (\<exists>se. dget (ir_sessions s) k = Some se \<and> se_revoked_at se = None \<and> se_expires_at se = e \<and>
       now < e \<and> se_session_id se = sid \<and> get_account s (se_user_id se) = Some a \<and> ua_is_active a)"
  by (auto simp: account_for_session_def split: option.splits if_splits)

lemma set_password_revokes:
  assumes ok: "repo_ok s" and run: "set_password clk u h change act s = (Inr (), t)"
    and used: "account_for_session now t k = Some (a, sid, e)"
  shows "ua_user_id a \<noteq> u \<and> account_for_session now s k = Some (a, sid, e)"
proof -
  have sessions: "dget (ir_sessions t) k = map_option (\<lambda>se. if se_user_id se = u
      then se\<lparr>se_revoked_at := Some (clk 0)\<rparr> else se) (dget (ir_sessions s) k)"
    and others: "v \<noteq> u \<Longrightarrow> get_account t v = get_account s v" for v
    using run by (auto simp: set_password_run revoked_sessions split: option.splits)
  from used [unfolded account_for_session_Some] obtain se' where
    se': "dget (ir_sessions t) k = Some se' \<and> se_revoked_at se' = None \<and> se_expires_at se' = e \<and>
      now < e \<and> se_session_id se' = sid \<and> get_account t (se_user_id se') = Some a \<and> ua_is_active a" ..
  have "map_option (\<lambda>se. if se_user_id se = u then se\<lparr>se_revoked_at := Some (clk 0)\<rparr> else se)
      (dget (ir_sessions s) k) = Some se'" using se' sessions by simp
  then obtain se where se: "dget (ir_sessions s) k = Some se"
    and form: "se' = (if se_user_id se = u then se\<lparr>se_revoked_at := Some (clk 0)\<rparr> else se)"
    unfolding map_option_eq_Some by blast
  from form se' have other: "se_user_id se \<noteq> u" and same: "se' = se"
    by (auto split: if_splits)
  have owner: "get_account s (se_user_id se) = Some a"
    using others [OF other] se' same by simp
  then have "ua_user_id a = se_user_id se"
    using repo_ok_user_id [OF ok] by (auto simp: get_account_def)
  with other have "ua_user_id a \<noteq> u" by simp
  moreover have "account_for_session now s k = Some (a, sid, e)"
    unfolding account_for_session_Some using se se' same owner by (intro exI [of _ se]) simp
  ultimately show ?thesis by (rule conjI)
qed

lemma account_for_session_cong:
  "\<lbrakk>dget (ir_sessions s) k = dget (ir_sessions t) k; get_account s = get_account t\<rbrakk> \<Longrightarrow>
     account_for_session now s k = account_for_session now t k"
  unfolding account_for_session_def by metis

lemma get_account_sessions [simp]: "get_account (s\<lparr>ir_sessions := x\<rparr>) = get_account s"
  by (rule get_account_same) simp

lemma revoke_session_closes:
  "account_for_session now (revoke_session n k s) k' =
     (if k' = k then None else account_for_session now s k')"
proof (cases "k' = k")
  case True
  then show ?thesis
    by (simp add: account_for_session_def revoke_session_def split: option.splits)
next
  case False
  then have "account_for_session now (revoke_session n k s) k' = account_for_session now s k'"
    by (intro account_for_session_cong) (simp_all add: revoke_session_def split: option.splits)
  with False show ?thesis by simp
qed

lemma create_session_resolves:
  assumes "create_session sid u k e s = (Inr r, t)"
  shows "get_account t = get_account s \<and> account_for_session now t k' = (if k' = k then
        (case get_account s u of None \<Rightarrow> None
         | Some a \<Rightarrow> if ua_is_active a \<and> now < e then Some (a, sid, e) else None)
        else account_for_session now s k')"
proof -
  have t: "t = s\<lparr>ir_sessions := dset (ir_sessions s) k
     \<lparr>se_session_id = sid, se_user_id = u, se_expires_at = e, se_revoked_at = None\<rparr>\<rparr>"
    using assms by (simp add: create_session_run)
  show ?thesis
  proof (cases "k' = k")
    case True
    then show ?thesis by (auto simp: t account_for_session_def split: option.splits)
  next
    case False
    then have "account_for_session now t k' = account_for_session now s k'"
      by (intro account_for_session_cong) (simp_all add: t)
    with False show ?thesis by (simp add: t)
  qed
qed

section \<open>The interface\<close>

text \<open>
  What the service relies on in a repository: which account a session token stands for, how
  the methods that matter for that change it, and that the listing of the accounts is complete.
\<close>

locale identity_repository =
  fixes good :: "'s \<Rightarrow> bool"
    and account :: "'s \<Rightarrow> uuid \<Rightarrow> user_account option"
    and accounts :: "'s \<Rightarrow> user_account list"
    and resolve :: "instant \<Rightarrow> 's \<Rightarrow> string \<Rightarrow> (user_account \<times> uuid \<times> instant) option"
    and store_password :: "(nat \<Rightarrow> instant) \<Rightarrow> uuid \<Rightarrow> string \<Rightarrow> bool \<Rightarrow> uuid \<Rightarrow> ('s, unit) eff"
    and open_session :: "uuid \<Rightarrow> uuid \<Rightarrow> string \<Rightarrow> instant \<Rightarrow> ('s, uuid \<times> instant) eff"
    and close_session :: "instant \<Rightarrow> string \<Rightarrow> 's \<Rightarrow> 's"
    and update :: "instant \<Rightarrow> uuid \<Rightarrow> string option \<Rightarrow> bool option \<Rightarrow> user_profile option \<Rightarrow> uuid
      \<Rightarrow> ('s, user_account) eff"
    and global_roles :: "instant \<Rightarrow> uuid \<Rightarrow> string set \<Rightarrow> uuid \<Rightarrow> ('s, user_account) eff"
    and remove :: "(nat \<Rightarrow> instant) \<Rightarrow> uuid \<Rightarrow> uuid \<Rightarrow> ('s, unit) eff"
  assumes account_id: "\<lbrakk>good s; account s u = Some a\<rbrakk> \<Longrightarrow> ua_user_id a = u"
    and accounts_complete: "good s \<Longrightarrow> set (accounts s) = {a. account s (ua_user_id a) = Some a}"
    and resolve_live: "\<lbrakk>good s; resolve now s k = Some (a, sid, e)\<rbrakk> \<Longrightarrow>
      account s (ua_user_id a) = Some a \<and> ua_is_active a \<and> now < e"
    and store_password_good: "keeps good (store_password clk u h change act)"
    and store_password_revokes: "\<lbrakk>good s; store_password clk u h change act s = (Inr (), t);
      resolve now t k = Some (a, sid, e)\<rbrakk> \<Longrightarrow> ua_user_id a \<noteq> u \<and> resolve now s k = Some (a, sid, e)"
    and open_session_good: "keeps good (open_session sid u k e)"
    and open_session_resolves: "open_session sid u k e s = (Inr r, t) \<Longrightarrow>
      account t = account s \<and>
      resolve now t k' = (if k' = k then
        (case account s u of None \<Rightarrow> None
         | Some a \<Rightarrow> if ua_is_active a \<and> now < e then Some (a, sid, e) else None)
        else resolve now s k')"
    and close_session_good: "good s \<Longrightarrow> good (close_session n k s)"
    and close_session_closes: "resolve now (close_session n k s) k' =
      (if k' = k then None else resolve now s k')"
    and update_good: "keeps good (update n u name b p act)"
    and update_account: "\<lbrakk>good s; update n u name b p act s = (Inr a, t)\<rbrakk> \<Longrightarrow>
      account t = (account s)(u \<mapsto> a) \<and> (\<exists>a0. account s u = Some a0 \<and>
        ua_global_roles a = ua_global_roles a0 \<and>
        ua_is_active a = (case b of None \<Rightarrow> ua_is_active a0 | Some x \<Rightarrow> x))"
    and global_roles_good: "keeps good (global_roles n u rs act)"
    and global_roles_account: "\<lbrakk>good s; global_roles n u rs act s = (Inr a, t)\<rbrakk> \<Longrightarrow>
      account t = (account s)(u \<mapsto> a) \<and> (\<exists>a0. account s u = Some a0 \<and>
        ua_global_roles a = rs \<and> ua_is_active a = ua_is_active a0)"
    and remove_good: "keeps good (remove clk u act)"
    and remove_account: "\<lbrakk>good s; remove clk u act s = (Inr (), t)\<rbrakk> \<Longrightarrow>
      account t = (account s)(u := None)"
begin

definition administered :: "'s \<Rightarrow> bool" where
  "administered s \<longleftrightarrow> (\<exists>u a. account s u = Some a \<and> is_admin a \<and> ua_is_active a)"

definition others :: "'s \<Rightarrow> uuid \<Rightarrow> nat" where
  "others s u =
     length (filter (\<lambda>a. is_admin a \<and> ua_is_active a \<and> ua_user_id a \<noteq> u) (accounts s))"

lemma other_administrator:
  assumes good: "good s" and "others s u \<noteq> 0"
  obtains v a where "v \<noteq> u" and "account s v = Some a" and "is_admin a" and "ua_is_active a"
proof -
  from assms(2) obtain a where "a \<in> set (accounts s)" "is_admin a" "ua_is_active a" "ua_user_id a \<noteq> u"
    unfolding others_def by (auto simp: filter_empty_conv)
  with accounts_complete [OF good] that show ?thesis by blast
qed

lemma administered_keep:
  assumes good: "good s" and adm: "administered s" and same: "\<And>v. v \<noteq> u \<Longrightarrow> account t v = account s v"
    and held: "account s u = Some a"
    and guard: "is_admin a \<Longrightarrow> others s u \<noteq> 0 \<or>
      (\<exists>b. account t u = Some b \<and> is_admin b \<and> (ua_is_active a \<longrightarrow> ua_is_active b))"
  shows "administered t"
proof -
  from adm obtain v c where v: "account s v = Some c" "is_admin c" "ua_is_active c"
    unfolding administered_def by blast
  show ?thesis
  proof (cases "v = u")
    case False
    with v same show ?thesis unfolding administered_def by metis
  next
    case True
    with v held have "is_admin a" "ua_is_active a" by auto
    with guard consider "others s u \<noteq> 0"
      | b where "account t u = Some b" "is_admin b" "ua_is_active b" by blast
    then show ?thesis
    proof cases
      case 1
      then show ?thesis
        using other_administrator [OF good] same unfolding administered_def by metis
    next
      case 2
      then show ?thesis unfolding administered_def by blast
    qed
  qed
qed

lemma update_administered:
  assumes good: "good s" and adm: "administered s" and run: "update n u name b p act s = (Inr a, t)"
    and guard: "\<And>a0. \<lbrakk>b = Some False; account s u = Some a0; is_admin a0\<rbrakk> \<Longrightarrow> others s u \<noteq> 0"
  shows "administered t"
proof -
  from update_account [OF good run] obtain a0 where t: "account t = (account s)(u \<mapsto> a)"
    and a0: "account s u = Some a0" and same: "ua_global_roles a = ua_global_roles a0"
    and active: "ua_is_active a = (case b of None \<Rightarrow> ua_is_active a0 | Some x \<Rightarrow> x)" by blast
  show ?thesis
  proof (rule administered_keep [OF good adm _ a0])
    show "account t v = account s v" if "v \<noteq> u" for v using that t by simp
    show "others s u \<noteq> 0 \<or>
      (\<exists>b. account t u = Some b \<and> is_admin b \<and> (ua_is_active a0 \<longrightarrow> ua_is_active b))" if "is_admin a0"
      using that guard [OF _ a0] same active t
      by (cases "b = Some False") (auto simp: is_admin_def split: option.splits)
  qed
qed

lemma global_roles_administered:
  assumes good: "good s" and adm: "administered s" and run: "global_roles n u rs act s = (Inr a, t)"
    and guard: "\<And>a0. \<lbrakk>account s u = Some a0; is_admin a0; ''ADMIN'' \<notin> rs\<rbrakk> \<Longrightarrow> others s u \<noteq> 0"
  shows "administered t"
proof -
  from global_roles_account [OF good run] obtain a0 where t: "account t = (account s)(u \<mapsto> a)"
    and a0: "account s u = Some a0" and a: "ua_global_roles a = rs" "ua_is_active a = ua_is_active a0"
    by blast
  show ?thesis
  proof (rule administered_keep [OF good adm _ a0])
    show "account t v = account s v" if "v \<noteq> u" for v using that t by simp
    show "others s u \<noteq> 0 \<or>
      (\<exists>b. account t u = Some b \<and> is_admin b \<and> (ua_is_active a0 \<longrightarrow> ua_is_active b))" if "is_admin a0"
      using that guard [OF a0] a t by (cases "''ADMIN'' \<in> rs") (auto simp: is_admin_def)
  qed
qed

lemma remove_administered:
  assumes good: "good s" and adm: "administered s" and run: "remove clk u act s = (Inr (), t)"
    and held: "account s u = Some a" and guard: "is_admin a \<Longrightarrow> others s u \<noteq> 0"
  shows "administered t"
proof (rule administered_keep [OF good adm _ held])
  show "account t v = account s v" if "v \<noteq> u" for v using that remove_account [OF good run] by simp
qed (use guard in blast)

text \<open>After a password was stored and one session opened, that session is the only one.\<close>

lemma only_new_session:
  assumes good: "good s" and stored: "store_password clk u h change act s = (Inr (), s1)"
    and opened: "open_session sid u k e s1 = (Inr r, t)"
    and used: "resolve now t k' = Some (a, sid', e')" and mine: "ua_user_id a = u"
  shows "k' = k \<and> sid' = sid \<and> e' = e \<and> now < e"
proof (cases "k' = k")
  case True
  then show ?thesis
    using used open_session_resolves [OF opened, of now k'] by (auto split: option.splits if_splits)
next
  case False
  then have "resolve now s1 k' = Some (a, sid', e')"
    using used open_session_resolves [OF opened, of now k'] by simp
  with store_password_revokes [OF good stored] mine show ?thesis by blast
qed

end

interpretation memory: identity_repository repo_ok get_account list_accounts account_for_session
  set_password create_session revoke_session update_account set_global_roles delete_user
proof unfold_locales
  fix s u a assume "repo_ok s" "get_account s u = Some a"
  then show "ua_user_id a = u" by (auto simp: get_account_def dest: repo_ok_user_id)
next
  fix s assume ok: "repo_ok s"
  then show "set (list_accounts s) = {a. get_account s (ua_user_id a) = Some a}"
    by (rule list_accounts_set)
next
  fix s now k a sid e assume "repo_ok s" "account_for_session now s k = Some (a, sid, e)"
  then show "get_account s (ua_user_id a) = Some a \<and> ua_is_active a \<and> now < e"
    by (auto simp: account_for_session_def get_account_def repo_ok_user_id split: option.splits if_splits)
next
  fix s clk u h change act t now k a sid e
  assume ok: "repo_ok s" and "set_password clk u h change act s = (Inr (), t)"
    and "account_for_session now t k = Some (a, sid, e)"
  then show "ua_user_id a \<noteq> u \<and> account_for_session now s k = Some (a, sid, e)"
    by (rule set_password_revokes)
next
  fix sid u k e s r t now k'
  assume "create_session sid u k e s = (Inr r, t)"
  then show "get_account t = get_account s \<and> account_for_session now t k' = (if k' = k then
        (case get_account s u of None \<Rightarrow> None
         | Some a \<Rightarrow> if ua_is_active a \<and> now < e then Some (a, sid, e) else None)
        else account_for_session now s k')"
    by (rule create_session_resolves)
next
  fix now n k s k'
  show "account_for_session now (revoke_session n k s) k' =
      (if k' = k then None else account_for_session now s k')"
    by (rule revoke_session_closes)
next
  fix s n u name b p act a t assume "repo_ok s" "update_account n u name b p act s = (Inr a, t)"
  then show "get_account t = (get_account s)(u \<mapsto> a) \<and> (\<exists>a0. get_account s u = Some a0 \<and>
        ua_global_roles a = ua_global_roles a0 \<and>
        ua_is_active a = (case b of None \<Rightarrow> ua_is_active a0 | Some x \<Rightarrow> x))"
    by (auto elim!: update_account_Inr simp: get_account_def fun_eq_iff)
next
  fix s n u rs act a t assume "repo_ok s" "set_global_roles n u rs act s = (Inr a, t)"
  then show "get_account t = (get_account s)(u \<mapsto> a) \<and> (\<exists>a0. get_account s u = Some a0 \<and>
        ua_global_roles a = rs \<and> ua_is_active a = ua_is_active a0)"
    by (auto simp: set_global_roles_run fun_eq_iff split: option.splits) (simp_all add: get_account_def)
next
  fix s clk u act t assume "repo_ok s" "delete_user clk u act s = (Inr (), t)"
  then show "get_account t = (get_account s)(u := None)"
    by (auto dest!: delete_user_Inr simp: get_account_def fun_eq_iff)
qed (auto intro: keeps_update_account keeps_delete_user)

end
