(* ===== verification/IdentityService.thy ===== *)
theory IdentityService
  imports IdentityRepository
begin

text \<open>
  \<open>identity/service.py\<close>: login with lockout, sessions, passwords and the administration of
  accounts, over the in-memory repository. \<open>clk i\<close> is the i-th reading of the clock in a call;
  tokens, salts and identifiers drawn in a call are arguments of it. \<open>identity_reachable\<close> is the
  set of stores that any sequence of calls, successful or not, can lead to.
\<close>

definition minutes :: "int \<Rightarrow> int" where "minutes n = n * 60 * 1000000"

definition SESSION_TTL :: int where "SESSION_TTL = minutes (12 * 60)"

definition LOCKOUT_THRESHOLD :: int where "LOCKOUT_THRESHOLD = 5"

definition LOCKOUT_DURATION :: int where "LOCKOUT_DURATION = minutes 15"

record identity_service =
  sv_dummy_hash :: string
  sv_bootstrap_admin :: user_account

section \<open>Checks\<close>

definition is_alnum :: "char \<Rightarrow> bool" where
  "is_alnum c = (let n = (of_char c :: nat) in
     48 \<le> n \<and> n \<le> 57 \<or> 65 \<le> n \<and> n \<le> 90 \<or> 97 \<le> n \<and> n \<le> 122)"

text \<open>\<open>USERNAME.fullmatch\<close>: a letter or digit, then 2 to 63 characters of the larger class.\<close>

definition username_matches :: "string \<Rightarrow> bool" where
  "username_matches s = (case s of
      [] \<Rightarrow> False
    | c # cs \<Rightarrow> is_alnum c \<and> 2 \<le> length cs \<and> length cs \<le> 63 \<and>
        list_all (\<lambda>d. is_alnum d \<or> d \<in> {CHR ''_'', CHR ''.'', CHR ''-''}) cs)"

definition validate_username :: "string \<Rightarrow> unit res" where
  "validate_username username = ensure (username_matches (strip username))
     (ValueError ''username must be 3-64 characters using letters, numbers, dot, dash, or underscore'')"

definition locked :: "instant option \<Rightarrow> instant \<Rightarrow> bool" where
  "locked locked_until now = (case locked_until of None \<Rightarrow> False | Some t \<Rightarrow> t > now)"

definition require_admin :: "'a user_account_scheme \<Rightarrow> unit res" where
  "require_admin user = ensure (is_admin user) (PermissionError ''administrator role required'')"

definition require_world_role :: "'a user_account_scheme \<Rightarrow> uuid \<Rightarrow> string list \<Rightarrow> unit res" where
  "require_world_role user w roles =
     (if is_admin user then Inr ()
      else ensure (roles_for user w \<inter> set roles \<noteq> {})
        (PermissionError (''one of these world roles is required: '' @
          concat (map (\<lambda>(i, r). if i = 0 then r else '', '' @ r) (enumerate 0 roles)))))"

definition admin_count :: "identity_repo \<Rightarrow> uuid option \<Rightarrow> nat" where
  "admin_count s excluding = length (filter
     (\<lambda>a. is_admin a \<and> ua_is_active a \<and> Some (ua_user_id a) \<noteq> excluding) (list_accounts s))"

definition token_hash :: "crypto \<Rightarrow> string \<Rightarrow> string" where
  "token_hash C token = sha256_hex C token"

section \<open>Sessions and passwords\<close>

definition init_service ::
  "crypto \<Rightarrow> (nat \<Rightarrow> instant) \<Rightarrow> uuid \<Rightarrow> uuid \<Rightarrow> string \<Rightarrow> string \<Rightarrow> string
     \<Rightarrow> (identity_repo, identity_service) eff" where
  "init_service C clk uid actor_uid secret salt1 salt2 =
     bindE (liftE (hash_password C False salt1 secret)) (\<lambda>dummy.
     bindE (liftE (hash_password C True salt2 ''admin123'')) (\<lambda>bootstrap.
     bindE (ensure_bootstrap clk uid actor_uid bootstrap) (\<lambda>admin.
     returnE \<lparr>sv_dummy_hash = dummy, sv_bootstrap_admin = admin\<rparr>)))"

definition new_session ::
  "crypto \<Rightarrow> instant \<Rightarrow> string \<Rightarrow> uuid \<Rightarrow> uuid \<Rightarrow> (identity_repo, authenticated_user \<times> string) eff" where
  "new_session C now token sid uid =
     bindE (create_session sid uid (token_hash C token) (now + SESSION_TTL)) (\<lambda>(sid', expires_at).
     bindE (readE (\<lambda>s. get_account s uid)) (\<lambda>account.
     bindE (liftE (of_option (AuthenticationError ''account no longer exists'') account)) (\<lambda>a.
     returnE (authenticated a sid' expires_at, token))))"

text \<open>The book-keeping of a failed attempt (lines 57 to 68 of the source).\<close>

definition note_failure :: "instant \<Rightarrow> credential_record \<Rightarrow> (identity_repo, unit) eff" where
  "note_failure now record =
     (if \<not> locked (cr_locked_until record) now
      then
        let lapsed = (cr_locked_until record \<noteq> None);
            failed = (if lapsed then 1 else cr_failed_login_count record + 1);
            locked_until = (if failed \<ge> LOCKOUT_THRESHOLD then Some (now + LOCKOUT_DURATION) else None)
        in record_login_failure (ua_user_id (cr_account record)) failed locked_until
      else returnE ())"

definition login ::
  "crypto \<Rightarrow> identity_service \<Rightarrow> (nat \<Rightarrow> instant) \<Rightarrow> string \<Rightarrow> uuid \<Rightarrow> string \<Rightarrow> string
     \<Rightarrow> (identity_repo, authenticated_user \<times> string) eff" where
  "login C svc clk token sid username password =
     bindE (readE (\<lambda>s. get_credentials s (strip username))) (\<lambda>found.
     let encoded = (case found of Some r \<Rightarrow> cr_password_hash r | None \<Rightarrow> sv_dummy_hash svc);
         valid = verify_password C password encoded;
         now = clk 0
     in case found of
          None \<Rightarrow> raiseE (AuthenticationError ''invalid username or password'')
        | Some record \<Rightarrow>
            if \<not> valid
            then bindE (note_failure now record) (\<lambda>_.
              raiseE (AuthenticationError ''invalid username or password''))
            else
              bindE (ensureE (ua_is_active (cr_account record))
                (AuthenticationError ''account is disabled'')) (\<lambda>_.
              bindE (ensureE (\<not> locked (cr_locked_until record) now)
                (AuthenticationError ''account is temporarily locked'')) (\<lambda>_.
              bindE (record_login_success (clk 1) (ua_user_id (cr_account record))) (\<lambda>_.
              new_session C (clk 2) token sid (ua_user_id (cr_account record))))))"

definition authenticate ::
  "crypto \<Rightarrow> instant \<Rightarrow> identity_repo \<Rightarrow> string option \<Rightarrow> authenticated_user option" where
  "authenticate C now s token =
     (if token = None \<or> token = Some [] then None
      else (case account_for_session now s (token_hash C (the token)) of
          None \<Rightarrow> None
        | Some (account, sid, expires_at) \<Rightarrow> Some (authenticated account sid expires_at)))"

definition logout :: "crypto \<Rightarrow> instant \<Rightarrow> string option \<Rightarrow> identity_repo \<Rightarrow> identity_repo" where
  "logout C now token s =
     (if token = None \<or> token = Some [] then s else revoke_session now (token_hash C (the token)) s)"

definition change_password ::
  "crypto \<Rightarrow> (nat \<Rightarrow> instant) \<Rightarrow> string \<Rightarrow> string \<Rightarrow> uuid \<Rightarrow> authenticated_user \<Rightarrow> string \<Rightarrow> string
     \<Rightarrow> (identity_repo, authenticated_user \<times> string) eff" where
  "change_password C clk salt token sid user current_password new_password =
     bindE (readE (\<lambda>s. get_credentials s (ua_username user))) (\<lambda>found.
     case found of
       None \<Rightarrow> raiseE (AuthenticationError ''current password is incorrect'')
     | Some record \<Rightarrow>
         bindE (ensureE (verify_password C current_password (cr_password_hash record))
           (AuthenticationError ''current password is incorrect'')) (\<lambda>_.
         bindE (ensureE (\<not> verify_password C new_password (cr_password_hash record))
           (ValueError ''new password must be different from the current password'')) (\<lambda>_.
         bindE (liftE (validate_password new_password)) (\<lambda>_.
         bindE (liftE (hash_password C False salt new_password)) (\<lambda>encoded.
         bindE (set_password clk (ua_user_id user) encoded False (ua_user_id user)) (\<lambda>_.
         new_session C (clk 2) token sid (ua_user_id user)))))))"

definition update_profile ::
  "instant \<Rightarrow> authenticated_user \<Rightarrow> user_profile \<Rightarrow> (identity_repo, user_account) eff" where
  "update_profile now user profile =
     update_account now (ua_user_id user) None None (Some profile) (ua_user_id user)"

section \<open>Administration\<close>

definition list_users :: "authenticated_user \<Rightarrow> (identity_repo, user_account list) eff" where
  "list_users actor = bindE (liftE (require_admin actor)) (\<lambda>_. readE list_accounts)"

definition add_user ::
  "crypto \<Rightarrow> (nat \<Rightarrow> instant) \<Rightarrow> uuid \<Rightarrow> uuid \<Rightarrow> string \<Rightarrow> authenticated_user \<Rightarrow> string \<Rightarrow> string
     \<Rightarrow> user_profile \<Rightarrow> (identity_repo, user_account) eff" where
  "add_user C clk uid actor_uid salt actor username temporary_password profile =
     bindE (liftE (require_admin actor)) (\<lambda>_.
     bindE (liftE (validate_username username)) (\<lambda>_.
     bindE (liftE (validate_password temporary_password)) (\<lambda>_.
     bindE (liftE (hash_password C False salt temporary_password)) (\<lambda>encoded.
     create_user clk uid actor_uid (strip username) encoded profile (ua_user_id actor)))))"

definition deactivation_allowed :: "uuid \<Rightarrow> (identity_repo, unit) eff" where
  "deactivation_allowed uid =
     bindE (readE (\<lambda>s. get_account s uid)) (\<lambda>found.
     bindE (liftE (of_option (KeyError uid) found)) (\<lambda>target.
     bindE (readE (\<lambda>s. admin_count s (Some uid))) (\<lambda>n.
     ensureE (\<not> (is_admin target \<and> n = 0))
       (ValueError ''the final administrator account cannot be disabled''))))"

definition update_user ::
  "instant \<Rightarrow> authenticated_user \<Rightarrow> uuid \<Rightarrow> string option \<Rightarrow> bool option \<Rightarrow> user_profile option
     \<Rightarrow> (identity_repo, user_account) eff" where
  "update_user now actor uid username active profile =
     bindE (liftE (require_admin actor)) (\<lambda>_.
     bindE (liftE (case username of None \<Rightarrow> Inr () | Some name \<Rightarrow> validate_username name)) (\<lambda>_.
     bindE (ensureE (\<not> (uid = ua_user_id actor \<and> active = Some False))
       (ValueError ''you cannot disable your own account'')) (\<lambda>_.
     bindE (if active = Some False then deactivation_allowed uid else returnE ()) (\<lambda>_.
     update_account now uid
       (case username of None \<Rightarrow> None | Some name \<Rightarrow> if name \<noteq> [] then Some (strip name) else None)
       active profile (ua_user_id actor)))))"

definition reset_password ::
  "crypto \<Rightarrow> (nat \<Rightarrow> instant) \<Rightarrow> string \<Rightarrow> authenticated_user \<Rightarrow> uuid \<Rightarrow> string \<Rightarrow> (identity_repo, unit) eff" where
  "reset_password C clk salt actor uid temporary_password =
     bindE (liftE (require_admin actor)) (\<lambda>_.
     bindE (liftE (validate_password temporary_password)) (\<lambda>_.
     bindE (liftE (hash_password C False salt temporary_password)) (\<lambda>encoded.
     set_password clk uid encoded True (ua_user_id actor))))"

definition change_global_roles ::
  "instant \<Rightarrow> authenticated_user \<Rightarrow> uuid \<Rightarrow> string set \<Rightarrow> (identity_repo, user_account) eff" where
  "change_global_roles now actor uid roles =
     bindE (liftE (require_admin actor)) (\<lambda>_.
     bindE (ensureE (roles - {''ADMIN''} = {}) (ValueError ''unsupported global role'')) (\<lambda>_.
     bindE (readE (\<lambda>s. get_account s uid)) (\<lambda>found.
     bindE (liftE (of_option (KeyError uid) found)) (\<lambda>existing.
     bindE (readE (\<lambda>s. admin_count s (Some uid))) (\<lambda>n.
     bindE (ensureE (\<not> (is_admin existing \<and> ''ADMIN'' \<notin> roles \<and> n = 0))
       (ValueError ''the final administrator role cannot be removed'')) (\<lambda>_.
     set_global_roles now uid roles (ua_user_id actor)))))))"

definition change_world_roles ::
  "instant \<Rightarrow> authenticated_user \<Rightarrow> uuid \<Rightarrow> uuid \<Rightarrow> string set \<Rightarrow> (identity_repo, user_account) eff" where
  "change_world_roles now actor uid w roles =
     bindE (liftE (require_admin actor)) (\<lambda>_.
     bindE (ensureE (roles - {''DM'', ''PLAYER''} = {})
       (ValueError ''world roles must be DM, PLAYER, or both'')) (\<lambda>_.
     set_world_roles now uid w roles (ua_user_id actor)))"

definition remove_user ::
  "(nat \<Rightarrow> instant) \<Rightarrow> authenticated_user \<Rightarrow> uuid \<Rightarrow> (identity_repo, unit) eff" where
  "remove_user clk actor uid =
     bindE (liftE (require_admin actor)) (\<lambda>_.
     bindE (ensureE (uid \<noteq> ua_user_id actor) (ValueError ''you cannot delete your own account'')) (\<lambda>_.
     bindE (readE (\<lambda>s. get_account s uid)) (\<lambda>found.
     bindE (liftE (of_option (KeyError uid) found)) (\<lambda>target.
     bindE (readE (\<lambda>s. admin_count s (Some uid))) (\<lambda>n.
     bindE (ensureE (\<not> (is_admin target \<and> n = 0))
       (ValueError ''the final administrator account cannot be deleted'')) (\<lambda>_.
     delete_user clk uid (ua_user_id actor)))))))"

text \<open>\<open>sync_admin_world\<close>, which the in-memory repository answers without a change.\<close>

definition sync_admin_world :: "uuid \<Rightarrow> (identity_repo, unit) eff" where
  "sync_admin_world w = returnE ()"

section \<open>Reachable stores\<close>

text \<open>
  One call of the service, whatever its arguments and its outcome; the actor is any
  authenticated user value, also one whose rights have changed since it was issued. The only
  assumption is that \<open>uuid4\<close> does not repeat an identifier that is in use.
\<close>

inductive identity_step :: "crypto \<Rightarrow> identity_service \<Rightarrow> identity_repo \<Rightarrow> identity_repo \<Rightarrow> bool"
  for C :: crypto and svc :: identity_service where
  step_login: "login C svc clk token sid username password s = (r, t) \<Longrightarrow> identity_step C svc s t"
| step_logout: "identity_step C svc s (logout C now tok s)"
| step_change_password:
    "change_password C clk salt token sid user current new s = (r, t) \<Longrightarrow> identity_step C svc s t"
| step_update_profile: "update_profile now user profile s = (r, t) \<Longrightarrow> identity_step C svc s t"
| step_add_user: "\<lbrakk>\<not> dhas (ir_credentials s) uid;
    add_user C clk uid actor_uid salt actor username temporary profile s = (r, t)\<rbrakk> \<Longrightarrow>
    identity_step C svc s t"
| step_update_user: "update_user now actor uid username active profile s = (r, t) \<Longrightarrow> identity_step C svc s t"
| step_reset_password: "reset_password C clk salt actor uid temporary s = (r, t) \<Longrightarrow> identity_step C svc s t"
| step_global_roles: "change_global_roles now actor uid roles s = (r, t) \<Longrightarrow> identity_step C svc s t"
| step_world_roles: "change_world_roles now actor uid w roles s = (r, t) \<Longrightarrow> identity_step C svc s t"
| step_remove_user: "remove_user clk actor uid s = (r, t) \<Longrightarrow> identity_step C svc s t"

inductive identity_reachable :: "crypto \<Rightarrow> identity_service \<Rightarrow> identity_repo \<Rightarrow> bool"
  for C :: crypto and svc :: identity_service where
  reach_init: "init_service C clk uid actor_uid secret salt1 salt2 (empty_identity_repo actor) = (Inr svc, s) \<Longrightarrow>
    identity_reachable C svc s"
| reach_step: "\<lbrakk>identity_reachable C svc s; identity_step C svc s t\<rbrakk> \<Longrightarrow> identity_reachable C svc t"


section \<open>What every call preserves\<close>

definition keeps_rights :: "identity_repo \<Rightarrow> identity_repo \<Rightarrow> bool" where
  "keeps_rights s t \<longleftrightarrow> (\<forall>v a. get_account s v = Some a \<longrightarrow> (\<exists>b. get_account t v = Some b \<and>
     ua_global_roles b = ua_global_roles a \<and> ua_is_active b = ua_is_active a))"

lemma keeps_rights_refl [simp, intro]: "keeps_rights s s"
  by (simp add: keeps_rights_def)

lemma keeps_rights_same: "\<lbrakk>keeps_rights s0 s; get_account t = get_account s\<rbrakk> \<Longrightarrow> keeps_rights s0 t"
  by (simp add: keeps_rights_def)

lemma keeps_rights_put:
  assumes kept: "keeps_rights s0 s" and held: "get_account s u = Some a"
    and "ua_global_roles (cr_account c) = ua_global_roles a" "ua_is_active (cr_account c) = ua_is_active a"
    and t: "get_account t = (get_account s)(u \<mapsto> cr_account c)"
  shows "keeps_rights s0 t"
  unfolding keeps_rights_def
proof (intro allI impI)
  fix v b assume "get_account s0 v = Some b"
  with kept obtain d where "get_account s v = Some d" "ua_global_roles d = ua_global_roles b"
    "ua_is_active d = ua_is_active b" unfolding keeps_rights_def by blast
  then show "\<exists>d. get_account t v = Some d \<and> ua_global_roles d = ua_global_roles b \<and>
      ua_is_active d = ua_is_active b"
    using assms(2-4) t by (cases "v = u") auto
qed

lemma keeps_rights_administered:
  "\<lbrakk>keeps_rights s t; memory.administered s\<rbrakk> \<Longrightarrow> memory.administered t"
  unfolding keeps_rights_def memory.administered_def is_admin_def by metis

lemma held_account: "dget (ir_credentials s) u = Some c \<Longrightarrow> get_account s u = Some (cr_account c)"
  by (simp add: get_account_def)

lemma get_account_put_fun: "get_account (put_credential u c s) = (get_account s)(u \<mapsto> cr_account c)"
  by (simp add: fun_eq_iff)

lemma keeps_rights_credential:
  assumes run: "\<And>s. m s = (case dget (ir_credentials s) u of None \<Rightarrow> (Inl e, s) | Some c \<Rightarrow> (g c, f c s))"
    and effect: "\<And>s c. get_account (f c s) = (get_account s)(u \<mapsto> h c)"
    and same: "\<And>c. ua_global_roles (h c) = ua_global_roles (cr_account c)"
      "\<And>c. ua_is_active (h c) = ua_is_active (cr_account c)"
  shows "keeps (keeps_rights s0) m"
proof (rule keepsI)
  fix s r t assume m: "m s = (r, t)" and kept: "keeps_rights s0 s"
  show "keeps_rights s0 t"
  proof (cases "dget (ir_credentials s) u")
    case None
    with m run [of s] kept show ?thesis by simp
  next
    case (Some c)
    have t: "t = f c s" using m run [of s] Some by simp
    show ?thesis
      by (rule keeps_rights_put [OF kept held_account [OF Some], where c = "fresh_credential (h c) []"])
        (simp_all add: same t effect)
  qed
qed

lemma keeps_rights_ops [intro]:
  "keeps (keeps_rights s0) (set_password clk u h change act)"
  "keeps (keeps_rights s0) (set_world_roles now u w roles act)"
  "keeps (keeps_rights s0) (record_login_success now u)"
  "keeps (keeps_rights s0) (record_login_failure u failed until)"
  "keeps (keeps_rights s0) (create_session sid u k e)"
proof -
  show "keeps (keeps_rights s0) (set_password clk u h change act)"
    by (rule keeps_rights_credential [OF set_password_run,
        where h = "\<lambda>c. (cr_account c)\<lparr>ua_password_change_required := change\<rparr>"]) (simp_all add: get_account_put_fun)
  show "keeps (keeps_rights s0) (set_world_roles now u w roles act)"
    by (rule keeps_rights_credential [OF set_world_roles_run [unfolded Let_def],
        where h = "\<lambda>c. (cr_account c)\<lparr>ua_world_roles := world_grants (ua_world_roles (cr_account c)) w roles\<rparr>"])
      (simp_all add: get_account_put_fun)
  show "keeps (keeps_rights s0) (record_login_success now u)"
    by (rule keeps_rights_credential [OF record_login_success_run,
        where h = "\<lambda>c. (cr_account c)\<lparr>ua_last_login_at := Some now\<rparr>"]) (simp_all add: get_account_put_fun)
  show "keeps (keeps_rights s0) (record_login_failure u failed until)"
    by (rule keeps_rights_credential [OF record_login_failure_run,
        where h = "cr_account"]) (simp_all add: get_account_put_fun)
  show "keeps (keeps_rights s0) (create_session sid u k e)"
    by (simp add: keeps_def create_session_run keeps_rights_def)
qed

lemma keeps_rights_create:
  assumes run: "create_user clk u au name h p by s = (r, t)" and fresh: "\<not> dhas (ir_credentials s) u"
    and kept: "keeps_rights s0 s"
  shows "keeps_rights s0 t"
proof (cases r)
  case (Inl e)
  with run kept create_user_Inl show ?thesis by blast
next
  case (Inr a)
  from create_user_Inr [OF run [unfolded Inr]]
  have "get_account t v = (if v = u then Some a else get_account s v)" for v
    by (simp add: get_account_def)
  moreover have "get_account s u = None" using fresh by (simp add: get_account_def dhas_def)
  ultimately show ?thesis using kept unfolding keeps_rights_def by (metis option.distinct(1))
qed

text \<open>The calls that touch neither roles nor activity, as compositions of such steps.\<close>

lemma keeps_new_session:
  assumes "\<And>sid u k e. keeps P (create_session sid u k e)"
  shows "keeps P (new_session C now token sid uid)"
  unfolding new_session_def by (rule keeps_bindE [OF assms]) auto

lemma keeps_login:
  assumes "\<And>sid u k e. keeps P (create_session sid u k e)"
    and "\<And>u f l. keeps P (record_login_failure u f l)" and "\<And>n u. keeps P (record_login_success n u)"
  shows "keeps P (login C svc clk token sid username password)"
  unfolding login_def Let_def note_failure_def
  by (intro keeps_bindE keeps_steps) (auto split: option.splits intro!: keeps_bindE assms keeps_new_session)

lemma keeps_change_password:
  assumes "\<And>sid u k e. keeps P (create_session sid u k e)"
    and "\<And>clk u h c a. keeps P (set_password clk u h c a)"
  shows "keeps P (change_password C clk salt token sid user current new)"
  unfolding change_password_def
  by (intro keeps_bindE keeps_steps) (auto split: option.splits intro!: keeps_bindE assms keeps_new_session)

lemma keeps_reset_password:
  assumes "\<And>clk u h c a. keeps P (set_password clk u h c a)"
  shows "keeps P (reset_password C clk salt actor uid temporary)"
  unfolding reset_password_def by (auto intro!: keeps_bindE assms)

lemma keeps_change_world_roles:
  assumes "\<And>n u w rs a. keeps P (set_world_roles n u w rs a)"
  shows "keeps P (change_world_roles now actor uid w roles)"
  unfolding change_world_roles_def by (auto intro!: keeps_bindE assms)

lemma logout_frame [simp]:
  "repo_ok (logout C now tok s) = repo_ok s"
  "get_account (logout C now tok s) = get_account s"
  by (auto simp: logout_def intro: get_account_same [symmetric])

lemma update_profile_rights:
  assumes ok: "repo_ok s" and run: "update_profile now user profile s = (r, t)" and "memory.administered s"
  shows "memory.administered t"
proof (cases r)
  case (Inl e)
  with run assms(3) show ?thesis unfolding update_profile_def by (metis update_account_Inl)
next
  case (Inr a)
  show ?thesis
    by (rule memory.update_administered [OF ok assms(3)]) (use run Inr in \<open>auto simp: update_profile_def\<close>)
qed

lemma admin_count_others: "admin_count s (Some u) = memory.others s u"
  by (simp add: admin_count_def memory.others_def)

definition guarded :: "identity_repo \<Rightarrow> bool" where
  "guarded s \<longleftrightarrow> repo_ok s \<and> memory.administered s"

lemma add_user_cases:
  assumes "add_user C clk uid au salt actor username temporary profile s = (r, t)"
  shows "t = s \<or> (\<exists>name h. create_user clk uid au name h profile (ua_user_id actor) s = (r, t))"
  using assms unfolding add_user_def by (auto simp: bindE_def liftE_def split: sum.splits)

lemma update_user_cases:
  assumes "update_user now actor uid username active profile s = (r, t)"
  shows "t = s \<or> (\<exists>name. update_account now uid name active profile (ua_user_id actor) s = (r, t) \<and>
    (active = Some False \<longrightarrow> uid \<noteq> ua_user_id actor \<and>
      (\<exists>a. get_account s uid = Some a \<and> \<not> (is_admin a \<and> admin_count s (Some uid) = 0))))"
proof (cases "active = Some False")
  case True
  then show ?thesis
    using assms unfolding update_user_def deactivation_allowed_def
    by (auto simp: bindE_def liftE_def readE_def of_option_def ensureE_def ensure_def
        split: sum.splits option.splits if_splits)
next
  case False
  then show ?thesis
    using assms unfolding update_user_def
    by (auto simp: bindE_def liftE_def ensureE_def ensure_def returnE_def split: sum.splits if_splits)
qed

lemma global_roles_cases:
  assumes "change_global_roles now actor uid roles s = (r, t)"
  shows "t = s \<or> (set_global_roles now uid roles (ua_user_id actor) s = (r, t) \<and>
    (\<exists>a. get_account s uid = Some a \<and> \<not> (is_admin a \<and> ''ADMIN'' \<notin> roles \<and> admin_count s (Some uid) = 0)))"
  using assms unfolding change_global_roles_def
  by (auto simp: bindE_def liftE_def readE_def of_option_def ensureE_def ensure_def
      split: sum.splits option.splits if_splits)

lemma remove_user_cases:
  assumes "remove_user clk actor uid s = (r, t)"
  shows "t = s \<or> (delete_user clk uid (ua_user_id actor) s = (r, t) \<and> uid \<noteq> ua_user_id actor \<and>
    (\<exists>a. get_account s uid = Some a \<and> \<not> (is_admin a \<and> admin_count s (Some uid) = 0)))"
  using assms unfolding remove_user_def
  by (auto simp: bindE_def liftE_def readE_def of_option_def ensureE_def ensure_def
      split: sum.splits option.splits if_splits)

lemma guarded_keeps:
  assumes "guarded s" and "m s = (r, t)" and "keeps repo_ok m" and "keeps (keeps_rights s) m"
  shows "guarded t"
  using assms keepsD [OF assms(3,2)] keepsD [OF assms(4,2)] keeps_rights_administered
  unfolding guarded_def by blast

lemma step_guarded:
  assumes "identity_step C svc s t" and "guarded s"
  shows "guarded t"
  using assms
proof (cases rule: identity_step.cases)
  case step_login
  then show ?thesis by (rule guarded_keeps [OF assms(2)]) (auto intro!: keeps_login)
next
  case step_logout
  then show ?thesis using assms(2) by (simp add: guarded_def memory.administered_def)
next
  case step_change_password
  then show ?thesis by (rule guarded_keeps [OF assms(2)]) (auto intro!: keeps_change_password)
next
  case (step_update_profile now user profile r)
  then show ?thesis
    using assms(2) update_profile_rights keepsD [OF keeps_update_account]
    unfolding guarded_def update_profile_def by blast
next
  case (step_add_user uid clk au salt actor username temporary profile r)
  show ?thesis
    using add_user_cases [OF step_add_user(2)]
  proof (elim disjE exE)
    fix name h assume run: "create_user clk uid au name h profile (ua_user_id actor) s = (r, t)"
    then show ?thesis
      using assms(2) step_add_user(1) keeps_create_user keeps_rights_create [OF run _ keeps_rights_refl]
        keeps_rights_administered unfolding guarded_def by blast
  qed (use assms(2) in simp)
next
  case (step_update_user now actor uid username active profile r)
  show ?thesis
    using update_user_cases [OF step_update_user]
  proof (elim disjE exE conjE)
    fix name
    assume run: "update_account now uid name active profile (ua_user_id actor) s = (r, t)"
      and off: "active = Some False \<longrightarrow> uid \<noteq> ua_user_id actor \<and>
        (\<exists>a. get_account s uid = Some a \<and> \<not> (is_admin a \<and> admin_count s (Some uid) = 0))"
    have ok: "repo_ok t" using keepsD [OF keeps_update_account run] assms(2) by (simp add: guarded_def)
    show ?thesis
    proof (cases r)
      case (Inl e)
      with run assms(2) update_account_Inl show ?thesis by blast
    next
      case (Inr a)
      have "memory.administered t"
      proof (rule memory.update_administered [OF _ _ run [unfolded Inr]])
        show "repo_ok s" "memory.administered s" using assms(2) by (simp_all add: guarded_def)
        show "memory.others s uid \<noteq> 0"
          if "active = Some False" "get_account s uid = Some a0" "is_admin a0" for a0
          using that off by (simp add: admin_count_others)
      qed
      with ok show ?thesis by (simp add: guarded_def)
    qed
  qed (use assms(2) in simp)
next
  case step_reset_password
  then show ?thesis by (rule guarded_keeps [OF assms(2)]) (auto intro!: keeps_reset_password)
next
  case (step_global_roles now actor uid roles r)
  show ?thesis
    using global_roles_cases [OF step_global_roles]
  proof (elim disjE conjE)
    assume run: "set_global_roles now uid roles (ua_user_id actor) s = (r, t)"
      and held: "\<exists>a. get_account s uid = Some a \<and>
        \<not> (is_admin a \<and> ''ADMIN'' \<notin> roles \<and> admin_count s (Some uid) = 0)"
    then obtain a where r: "r = Inr a" by (auto simp: set_global_roles_run get_account_def split: option.splits)
    have "memory.administered t"
    proof (rule memory.global_roles_administered [OF _ _ run [unfolded r]])
      show "repo_ok s" "memory.administered s" using assms(2) by (simp_all add: guarded_def)
      show "memory.others s uid \<noteq> 0"
        if "get_account s uid = Some a0" "is_admin a0" "''ADMIN'' \<notin> roles" for a0
        using that held by (simp add: admin_count_others)
    qed
    then show ?thesis using keepsD [OF keeps_repo_ok(2) run] assms(2) by (simp add: guarded_def)
  qed (use assms(2) in simp)
next
  case step_world_roles
  then show ?thesis by (rule guarded_keeps [OF assms(2)]) (auto intro!: keeps_change_world_roles)
next
  case (step_remove_user clk actor uid r)
  show ?thesis
    using remove_user_cases [OF step_remove_user]
  proof (elim disjE conjE exE)
    fix a assume run: "delete_user clk uid (ua_user_id actor) s = (r, t)"
      and held: "get_account s uid = Some a" and some: "\<not> (is_admin a \<and> admin_count s (Some uid) = 0)"
    show ?thesis
    proof (cases r)
      case (Inl e)
      with run assms(2) delete_user_Inl show ?thesis unfolding guarded_def by metis
    next
      case (Inr x)
      have gone: "delete_user clk uid (ua_user_id actor) s = (Inr (), t)" using run Inr by simp
      have "memory.administered t"
      proof (rule memory.remove_administered [OF _ _ gone held])
        show "repo_ok s" "memory.administered s" using assms(2) by (simp_all add: guarded_def)
        show "memory.others s uid \<noteq> 0" if "is_admin a" using that some by (simp add: admin_count_others)
      qed
      then show ?thesis using keepsD [OF keeps_delete_user run] assms(2) by (simp add: guarded_def)
    qed
  qed (use assms(2) in simp)
qed


lemma init_guarded:
  assumes "init_service C clk uid actor_uid secret salt1 salt2 (empty_identity_repo actor) = (Inr svc, s)"
  shows "guarded s"
proof -
  obtain h a where boot: "ensure_bootstrap clk uid actor_uid h (empty_identity_repo actor) = (Inr a, s)"
    using assms unfolding init_service_def
    by (auto simp: bindE_def liftE_def returnE_def split: sum.splits prod.splits)
  let ?c = "fresh_credential a h"
  have a: "ua_user_id a = uid" "login_key a = ''admin''" "is_admin a" "ua_is_active a"
    and creds: "ir_credentials s = [(uid, ?c)]" and names: "ir_usernames s = [(''admin'', uid)]"
    using boot by (auto simp: ensure_bootstrap_def empty_identity_repo_def Let_def put_credential_def
        record_audit_def login_key_def is_admin_def casefold_def lower_char_def)
  have "repo_ok s"
    unfolding repo_ok_def creds names index_ok_def using a by simp
  moreover have "get_account s uid = Some a" by (simp add: get_account_def creds)
  ultimately show ?thesis using a unfolding guarded_def memory.administered_def by blast
qed

lemma reachable_guarded: "identity_reachable C svc s \<Longrightarrow> guarded s"
  by (induction rule: identity_reachable.induct) (auto intro: init_guarded step_guarded)

text \<open>
  C15. Whatever sequence of calls is made, by whatever actors, with whatever outcome, the
  installation keeps at least one active administrator: the guards of disabling an account,
  withdrawing the role and deleting an account together rule out a lock-out.
\<close>

theorem administrator_remains:
  assumes "identity_reachable C svc s"
  shows "\<exists>a\<in>set (list_accounts s). is_admin a \<and> ua_is_active a"
  using reachable_guarded [OF assms] list_accounts_set memory.account_id
  unfolding guarded_def memory.administered_def by blast

text \<open>
  In every reachable store the user-name index and the accounts agree: each listed account
  is filed under its own identifier, its credentials are what a login under its name finds,
  and no two accounts have names that differ only in case.
\<close>

theorem accounts_indexed:
  assumes "identity_reachable C svc s"
  shows "\<forall>a\<in>set (list_accounts s).
    get_account s (ua_user_id a) = Some a \<and>
    (\<exists>c. get_credentials s (ua_username a) = Some c \<and> cr_account c = a) \<and>
    (\<forall>b\<in>set (list_accounts s). casefold (ua_username b) = casefold (ua_username a) \<longrightarrow> b = a)"
proof
  have ok: "repo_ok s" using reachable_guarded [OF assms] by (simp add: guarded_def)
  fix a assume "a \<in> set (list_accounts s)"
  then have a: "get_account s (ua_user_id a) = Some a" by (simp add: list_accounts_set [OF ok])
  then obtain c where c: "dget (ir_credentials s) (ua_user_id a) = Some c" "cr_account c = a"
    by (auto simp: get_account_def)
  have "get_credentials s (ua_username a) = Some c" using repo_ok_find [OF ok c(1)] c(2) by simp
  moreover have "b = a" if "b \<in> set (list_accounts s)" "login_key b = login_key a" for b
  proof -
    from that(1) have b: "get_account s (ua_user_id b) = Some b" by (simp add: list_accounts_set [OF ok])
    with repo_ok_unique [OF ok b a that(2)] a show ?thesis by simp
  qed
  ultimately show "get_account s (ua_user_id a) = Some a \<and>
    (\<exists>c. get_credentials s (ua_username a) = Some c \<and> cr_account c = a) \<and>
    (\<forall>b\<in>set (list_accounts s). casefold (ua_username b) = casefold (ua_username a) \<longrightarrow> b = a)"
    using a c(2) unfolding login_key_def by blast
qed

section \<open>Lockout\<close>

record attempt =
  at_clock :: "nat \<Rightarrow> instant"
  at_token :: string
  at_session :: uuid
  at_password :: string

text \<open>A series of login attempts under one name: the outcomes and the store they leave.\<close>

fun login_all ::
  "crypto \<Rightarrow> identity_service \<Rightarrow> string \<Rightarrow> attempt list \<Rightarrow> identity_repo
     \<Rightarrow> (authenticated_user \<times> string) res list \<times> identity_repo" where
  "login_all C svc username [] s = ([], s)"
| "login_all C svc username (q # qs) s =
     (let (r, s1) = login C svc (at_clock q) (at_token q) (at_session q) username (at_password q) s;
          (rs, s2) = login_all C svc username qs s1
      in (r # rs, s2))"

definition failed_with :: "int \<Rightarrow> instant option \<Rightarrow> credential_record \<Rightarrow> credential_record" where
  "failed_with n l r = r\<lparr>cr_failed_login_count := n, cr_locked_until := l\<rparr>"

lemma failed_with_fields [simp]:
  "cr_account (failed_with n l r) = cr_account r" "cr_password_hash (failed_with n l r) = cr_password_hash r"
  "cr_failed_login_count (failed_with n l r) = n" "cr_locked_until (failed_with n l r) = l"
  "failed_with n l (failed_with n' l' r) = failed_with n l r"
  "failed_with (cr_failed_login_count r) (cr_locked_until r) r = r"
  by (simp_all add: failed_with_def)

lemma get_credentials_put:
  assumes ok: "repo_ok s" and found: "get_credentials s name = Some r"
  shows "get_credentials (put_credential (ua_user_id (cr_account r)) r' s) name = Some r'"
  using repo_ok_login_name [OF ok found] found
  by (auto simp: get_credentials_def split: option.splits)
     (metis assms(1) index_okD(1) repo_ok_def)

text \<open>One wrong password, while the account is not under a live lock.\<close>

lemma wrong_password:
  assumes ok: "repo_ok s" and found: "get_credentials s (strip username) = Some r"
    and wrong: "\<not> verify_password C password (cr_password_hash r)"
    and open_account: "\<not> locked (cr_locked_until r) (clk 0)"
    and n: "n = (if cr_locked_until r = None then cr_failed_login_count r + 1 else 1)"
    and l: "l = (if n \<ge> LOCKOUT_THRESHOLD then Some (clk 0 + LOCKOUT_DURATION) else None)"
  shows "login C svc clk token sid username password s =
    (Inl (AuthenticationError ''invalid username or password''),
     put_credential (ua_user_id (cr_account r)) (failed_with n l r) s)"
proof -
  have "dget (ir_credentials s) (ua_user_id (cr_account r)) = Some r"
    using repo_ok_login_name [OF ok found] by blast
  then have "note_failure (clk 0) r s =
      (Inr (), put_credential (ua_user_id (cr_account r)) (failed_with n l r) s)"
    using open_account n l
    by (simp add: note_failure_def record_login_failure_run failed_with_def Let_def)
  then show ?thesis using found wrong by (simp add: login_def bindE_run Let_def)
qed

lemma locked_login:
  assumes found: "get_credentials s (strip username) = Some r"
    and live: "locked (cr_locked_until r) (clk 0)"
  shows "\<exists>m. login C svc clk token sid username password s = (Inl (AuthenticationError m), s)"
  using found live by (simp add: login_def note_failure_def Let_def)

lemma locked_login_all:
  assumes "get_credentials s (strip username) = Some r"
    and "\<forall>q\<in>set qs. locked (cr_locked_until r) (at_clock q 0)"
  shows "snd (login_all C svc username qs s) = s \<and>
    (\<forall>out\<in>set (fst (login_all C svc username qs s)). \<exists>m. out = Inl (AuthenticationError m))"
  using assms
proof (induction qs)
  case Nil
  show ?case by simp
next
  case (Cons q qs)
  from Cons.prems obtain m where "login C svc (at_clock q) (at_token q) (at_session q) username
      (at_password q) s = (Inl (AuthenticationError m), s)"
    using locked_login by (metis list.set_intros(1))
  with Cons show ?case by (auto simp: Let_def split: prod.splits)
qed


lemma login_all_append:
  "snd (login_all C svc username (qs @ qs') s) =
     snd (login_all C svc username qs' (snd (login_all C svc username qs s)))"
  by (induction qs arbitrary: s) (simp_all add: Let_def case_prod_beta)

lemma put_failed_ok:
  assumes ok: "repo_ok s" and found: "get_credentials s name = Some r"
  shows "repo_ok (put_credential (ua_user_id (cr_account r)) (failed_with n l r) s)"
  using repo_ok_put [OF ok] repo_ok_login_name [OF ok found] by (simp add: same_person_def)

lemma wrong_passwords:
  assumes "repo_ok s" and "get_credentials s (strip username) = Some (failed_with k None r)"
    and "\<forall>q\<in>set qs. \<not> verify_password C (at_password q) (cr_password_hash r)"
    and "k + int (length qs) < LOCKOUT_THRESHOLD"
  shows "repo_ok (snd (login_all C svc username qs s)) \<and>
    get_credentials (snd (login_all C svc username qs s)) (strip username) =
      Some (failed_with (k + int (length qs)) None r)"
  using assms
proof (induction qs arbitrary: s k)
  case Nil
  then show ?case by simp
next
  case (Cons q qs)
  let ?r = "failed_with k None r"
  let ?s1 = "put_credential (ua_user_id (cr_account ?r)) (failed_with (k + 1) None ?r) s"
  have "login C svc (at_clock q) (at_token q) (at_session q) username (at_password q) s =
      (Inl (AuthenticationError ''invalid username or password''), ?s1)"
    by (rule wrong_password [OF Cons.prems(1,2)]) (use Cons.prems(3,4) in \<open>auto simp: locked_def\<close>)
  then have run: "snd (login_all C svc username (q # qs) s) = snd (login_all C svc username qs ?s1)"
    by (simp add: Let_def split: prod.splits)
  have ok1: "repo_ok ?s1" by (rule put_failed_ok [OF Cons.prems(1,2)])
  have found1: "get_credentials ?s1 (strip username) = Some (failed_with (k + 1) None r)"
    using get_credentials_put [OF Cons.prems(1,2)] by simp
  show ?case
    unfolding run using Cons.IH [OF ok1 found1] Cons.prems(3,4) by (simp add: add.assoc)
qed

text \<open>
  C16. Lockout. Five wrong passwords in a row on an account without earlier failures lock it
  for fifteen minutes from the fifth. Every attempt in that time is refused, the right password
  included, and leaves the store as it is: attempts during a lock do not prolong it.
\<close>

theorem lockout_holds:
  assumes reachable: "identity_reachable C svc s"
    and found: "get_credentials s (strip username) = Some r"
    and clean: "cr_failed_login_count r = 0" "cr_locked_until r = None"
    and five: "length qs = 5" "\<forall>q\<in>set qs. \<not> verify_password C (at_password q) (cr_password_hash r)"
    and during: "\<forall>q\<in>set later. at_clock q 0 < at_clock (last qs) 0 + LOCKOUT_DURATION"
    and s5: "s5 = snd (login_all C svc username qs s)"
  shows "get_credentials s5 (strip username) =
      Some (failed_with 5 (Some (at_clock (last qs) 0 + LOCKOUT_DURATION)) r) \<and>
    snd (login_all C svc username later s5) = s5 \<and>
    (\<forall>out\<in>set (fst (login_all C svc username later s5)). \<exists>m. out = Inl (AuthenticationError m))"
proof -
  have ok: "repo_ok s" using reachable_guarded [OF reachable] by (simp add: guarded_def)
  obtain q4 q where qs: "qs = q4 @ [q]" and four: "length q4 = 4"
    using five(1) by (cases qs rule: rev_cases) auto
  let ?s4 = "snd (login_all C svc username q4 s)" and ?r = "failed_with 4 None r"
  have start: "get_credentials s (strip username) = Some (failed_with 0 None r)"
    using found failed_with_fields(6) [of r] clean by simp
  have ok4: "repo_ok ?s4" and found4: "get_credentials ?s4 (strip username) = Some ?r"
    using wrong_passwords [OF ok start, of q4 C svc] five(2) four
    by (auto simp: qs LOCKOUT_THRESHOLD_def)
  let ?lock = "Some (at_clock q 0 + LOCKOUT_DURATION)"
  have "login C svc (at_clock q) (at_token q) (at_session q) username (at_password q) ?s4 =
    (Inl (AuthenticationError ''invalid username or password''),
     put_credential (ua_user_id (cr_account ?r)) (failed_with 5 ?lock ?r) ?s4)"
    by (rule wrong_password [OF ok4 found4]) (use five(2) in \<open>auto simp: qs locked_def LOCKOUT_THRESHOLD_def\<close>)
  then have "s5 = put_credential (ua_user_id (cr_account ?r)) (failed_with 5 ?lock ?r) ?s4"
    unfolding s5 qs login_all_append by (simp add: Let_def split: prod.splits)
  then have locked5: "get_credentials s5 (strip username) = Some (failed_with 5 ?lock r)"
    using get_credentials_put [OF ok4 found4] by simp
  show ?thesis
    using locked_login_all [OF locked5, of later C svc] locked5 during
    by (simp add: qs locked_def)
qed

section \<open>Sessions\<close>

lemma authenticate_Some:
  "authenticate C now s (Some tok) = Some u \<longleftrightarrow> tok \<noteq> [] \<and>
     (\<exists>a sid e. account_for_session now s (token_hash C tok) = Some (a, sid, e) \<and> u = authenticated a sid e)"
  by (auto simp: authenticate_def split: option.splits)

lemma new_session_Inr:
  assumes "new_session C now token sid uid s = (Inr (user, tok), t)"
  shows "tok = token \<and> (\<exists>r a. create_session sid uid (token_hash C token) (now + SESSION_TTL) s = (Inr r, t) \<and>
    get_account s uid = Some a \<and> user = authenticated a sid (now + SESSION_TTL))"
  using assms unfolding new_session_def
  by (auto simp: create_session_run bindE_run of_option_def split: option.splits)

lemma login_Inr:
  assumes "login C svc clk token sid username password s = (Inr (user, tok), t)"
  obtains r s1 where "get_credentials s (strip username) = Some r"
    and "verify_password C password (cr_password_hash r)" and "ua_is_active (cr_account r)"
    and "\<not> locked (cr_locked_until r) (clk 0)"
    and "record_login_success (clk 1) (ua_user_id (cr_account r)) s = (Inr (), s1)"
    and "new_session C (clk 2) token sid (ua_user_id (cr_account r)) s1 = (Inr (user, tok), t)"
  using assms that unfolding login_def Let_def
  by (auto simp: bindE_eq_Inr split: option.splits if_splits)


lemma get_credentials_same:
  "\<lbrakk>ir_credentials t = ir_credentials s; ir_usernames t = ir_usernames s\<rbrakk> \<Longrightarrow>
     get_credentials t name = get_credentials s name"
  by (simp add: get_credentials_def split: option.splits)

lemma login_success_run:
  assumes ok: "repo_ok s" and found: "get_credentials s (strip username) = Some r"
    and valid: "verify_password C password (cr_password_hash r)"
    and active: "ua_is_active (cr_account r)" and unlocked: "\<not> locked (cr_locked_until r) (clk 0)"
    and c: "c = fresh_credential ((cr_account r)\<lparr>ua_last_login_at := Some (clk 1)\<rparr>) (cr_password_hash r)"
    and s1: "s1 = put_credential (ua_user_id (cr_account r)) c s"
  shows "login C svc clk token sid username password s =
    (Inr (authenticated (cr_account c) sid (clk 2 + SESSION_TTL), token),
     snd (create_session sid (ua_user_id (cr_account r)) (token_hash C token) (clk 2 + SESSION_TTL) s1))"
proof -
  have held: "dget (ir_credentials s) (ua_user_id (cr_account r)) = Some r"
    using repo_ok_login_name [OF ok found] by blast
  then have "record_login_success (clk 1) (ua_user_id (cr_account r)) s = (Inr (), s1)"
    by (simp add: record_login_success_run s1 c)
  moreover have "get_account s1 (ua_user_id (cr_account r)) = Some (cr_account c)" by (simp add: s1)
  ultimately show ?thesis
    using found valid active unlocked
    by (simp add: login_def Let_def bindE_run new_session_def create_session_run)
qed

text \<open>
  For a known user name, login succeeds exactly when the password is right, the account is
  active and no lock is live. Success clears the failure count and the lock, hands out the token
  it was given, and that token stands for this account for twelve hours and no longer.
\<close>

theorem login_outcome:
  assumes reachable: "identity_reachable C svc s"
    and found: "get_credentials s (strip username) = Some r"
    and run: "login C svc clk token sid username password s = (out, t)"
  shows "((\<exists>x. out = Inr x) \<longleftrightarrow> verify_password C password (cr_password_hash r) \<and>
      ua_is_active (cr_account r) \<and> \<not> locked (cr_locked_until r) (clk 0)) \<and>
    (\<forall>user tok. out = Inr (user, tok) \<longrightarrow> tok = token \<and>
      ua_user_id user = ua_user_id (cr_account r) \<and>
      get_credentials t (strip username) = Some (fresh_credential
        ((cr_account r)\<lparr>ua_last_login_at := Some (clk 1)\<rparr>) (cr_password_hash r)) \<and>
      (\<forall>now. authenticate C now t (Some token) =
        (if token \<noteq> [] \<and> now < clk 2 + SESSION_TTL then Some user else None)))"
proof -
  have ok: "repo_ok s" using reachable_guarded [OF reachable] by (simp add: guarded_def)
  let ?u = "ua_user_id (cr_account r)"
  let ?c = "fresh_credential ((cr_account r)\<lparr>ua_last_login_at := Some (clk 1)\<rparr>) (cr_password_hash r)"
  let ?s1 = "put_credential ?u ?c s"
  let ?good = "verify_password C password (cr_password_hash r) \<and> ua_is_active (cr_account r) \<and>
    \<not> locked (cr_locked_until r) (clk 0)"
  show ?thesis
  proof (cases ?good)
    case False
    have "\<exists>e. out = Inl e"
    proof (cases out)
      case (Inr x)
      obtain user tok where "x = (user, tok)" by (cases x)
      with run Inr have "login C svc clk token sid username password s = (Inr (user, tok), t)" by simp
      then show ?thesis using found False by (elim login_Inr) simp
    qed simp
    with False show ?thesis by auto
  next
    case True
    have out: "out = Inr (authenticated (cr_account ?c) sid (clk 2 + SESSION_TTL), token)"
      and t: "create_session sid ?u (token_hash C token) (clk 2 + SESSION_TTL) ?s1 =
        (Inr (sid, clk 2 + SESSION_TTL), t)"
      using run login_success_run [OF ok found _ _ _ refl refl, of C password clk svc token sid] True
      by (simp_all add: create_session_run)
    have "get_credentials t (strip username) = get_credentials ?s1 (strip username)"
      by (rule get_credentials_same) (use t in \<open>auto simp: create_session_run\<close>)
    then have kept: "get_credentials t (strip username) = Some ?c"
      using get_credentials_put [OF ok found] by simp
    have "authenticate C now t (Some token) = (if token \<noteq> [] \<and> now < clk 2 + SESSION_TTL
      then Some (authenticated (cr_account ?c) sid (clk 2 + SESSION_TTL)) else None)" for now
      using memory.open_session_resolves [OF t, of now "token_hash C token"] True
      by (simp add: authenticate_def)
    with kept True show ?thesis by (simp add: out)
  qed
qed

lemma change_password_run:
  assumes "get_credentials s (ua_username user) = Some r"
    and "verify_password C current (cr_password_hash r)"
    and "\<not> verify_password C new (cr_password_hash r)" and "validate_password new = Inr ()"
    and "hash_password C False salt new = Inr encoded"
    and "set_password clk (ua_user_id user) encoded False (ua_user_id user) s = (Inr (), s1)"
    and "get_account s1 (ua_user_id user) = Some a"
  shows "\<exists>user' t. change_password C clk salt token sid user current new s = (Inr (user', token), t)"
proof -
  have "\<exists>user' t. new_session C (clk 2) token sid (ua_user_id user) s1 = (Inr (user', token), t)"
    using assms(7) by (simp add: new_session_def bindE_run create_session_run)
  with assms(1-6) show ?thesis by (simp add: change_password_def bindE_run)
qed

text \<open>
  A successful change of password signs out everybody else: the only token that still stands
  for the account is the one handed out with the change, and the stored hash is that of the new
  password, with no change required any more.
\<close>

theorem password_change_signs_out:
  assumes lawful: "lawful_crypto C" and reachable: "identity_reachable C svc s"
    and run: "change_password C clk salt token sid user current new s = (Inr (user', tok), t)"
  shows "(\<exists>c. dget (ir_credentials t) (ua_user_id user) = Some c \<and>
      verify_password C new (cr_password_hash c) \<and> \<not> ua_password_change_required (cr_account c)) \<and>
    (\<forall>now k u. authenticate C now t (Some k) = Some u \<longrightarrow> ua_user_id u = ua_user_id user \<longrightarrow>
      token_hash C k = token_hash C token)"
proof -
  have ok: "repo_ok s" using reachable_guarded [OF reachable] by (simp add: guarded_def)
  let ?u = "ua_user_id user"
  from run obtain encoded s1 where hashed: "hash_password C False salt new = Inr encoded"
    and stored: "set_password clk ?u encoded False ?u s = (Inr (), s1)"
    and opened: "new_session C (clk 2) token sid ?u s1 = (Inr (user', tok), t)"
    unfolding change_password_def by (auto simp: bindE_eq_Inr split: option.splits if_splits)
  from new_session_Inr [OF opened] obtain r where
    session: "create_session sid ?u (token_hash C token) (clk 2 + SESSION_TTL) s1 = (Inr r, t)" by blast
  have "\<exists>c. dget (ir_credentials s1) ?u = Some c \<and> cr_password_hash c = encoded \<and>
      \<not> ua_password_change_required (cr_account c)"
    using stored by (auto simp: set_password_run split: option.splits)
  then have "\<exists>c. dget (ir_credentials t) ?u = Some c \<and> verify_password C new (cr_password_hash c) \<and>
      \<not> ua_password_change_required (cr_account c)"
    using session password_hash_verifies [OF lawful hashed] by (auto simp: create_session_run)
  moreover have "token_hash C k = token_hash C token"
    if "authenticate C now t (Some k) = Some u" "ua_user_id u = ?u" for now k u
  proof -
    from that(1) obtain a sid' e where used: "account_for_session now t (token_hash C k) = Some (a, sid', e)"
      and u: "u = authenticated a sid' e" by (auto simp: authenticate_Some)
    from that(2) u have "ua_user_id a = ?u" by simp
    with memory.only_new_session [OF ok stored session used] show ?thesis by blast
  qed
  ultimately show ?thesis by blast
qed

lemma update_user_Inr:
  assumes "update_user now actor uid username active profile s = (Inr a, t)"
  shows "\<exists>name. update_account now uid name active profile (ua_user_id actor) s = (Inr a, t)"
  using assms unfolding update_user_def deactivation_allowed_def
  by (auto simp: bindE_eq_Inr liftE_def readE_def ensureE_def returnE_def split: if_splits)

text \<open>
  An account that an administrator disables is shut out at once: none of its tokens is
  accepted any more, at whatever time, and a login under its name, in any spelling, fails
  whatever the password.
\<close>

theorem disabled_is_shut_out:
  assumes reachable: "identity_reachable C svc s"
    and run: "update_user now actor uid username (Some False) profile s = (Inr a, t)"
  shows "(\<forall>later k u. authenticate C later t (Some k) = Some u \<longrightarrow> ua_user_id u \<noteq> uid) \<and>
    (\<forall>clk token sid name password. casefold (strip name) = casefold (ua_username a) \<longrightarrow>
      (\<exists>e. fst (login C svc clk token sid name password t) = Inl e))"
proof -
  have ok: "guarded t"
    using step_guarded [OF step_update_user [OF run]] reachable_guarded [OF reachable] by blast
  then have okt: "repo_ok t" and oks: "repo_ok s"
    using reachable_guarded [OF reachable] by (simp_all add: guarded_def)
  obtain name where "update_account now uid name (Some False) profile (ua_user_id actor) s = (Inr a, t)"
    using update_user_Inr [OF run] by blast
  from memory.update_account [OF oks this] have held: "get_account t uid = Some a" and off: "\<not> ua_is_active a"
    by auto
  have "ua_user_id u \<noteq> uid" if "authenticate C later t (Some k) = Some u" for later k u
  proof -
    from that obtain b sid e where "account_for_session later t (token_hash C k) = Some (b, sid, e)"
      and u: "u = authenticated b sid e" by (auto simp: authenticate_Some)
    from memory.resolve_live [OF okt this(1)] held off u show ?thesis by auto
  qed
  moreover have "\<exists>e. fst (login C svc clk token sid name password t) = Inl e"
    if name: "casefold (strip name) = casefold (ua_username a)" for clk token sid name password
  proof (rule ccontr)
    assume "\<nexists>e. fst (login C svc clk token sid name password t) = Inl e"
    then obtain user tok t' where "login C svc clk token sid name password t = (Inr (user, tok), t')"
      by (metis prod.collapse sum.exhaust)
    then obtain r where r: "get_credentials t (strip name) = Some r" "ua_is_active (cr_account r)"
      by (elim login_Inr) blast
    from repo_ok_login_name [OF okt r(1)]
    have "get_account t (ua_user_id (cr_account r)) = Some (cr_account r)" "login_key (cr_account r) = login_key a"
      using name by (auto simp: held_account login_key_def)
    with repo_ok_unique [OF okt _ held] held have "cr_account r = a" by fastforce
    with r(2) off show False by simp
  qed
  ultimately show ?thesis by blast
qed


section \<open>A concrete installation\<close>

text \<open>
  A service just after its start, with the bootstrap administrator and the default password; the
  witnesses below apply the properties to it. The clock reads \<open>n\<close> at its \<open>n\<close>-th reading.
\<close>

definition ticking :: "nat \<Rightarrow> instant" where "ticking n = int n"

definition fixture_admin :: user_account where
  "fixture_admin = \<lparr>ua_user_id = ''u-1'', ua_actor_id = ''a-1'', ua_username = ''admin'',
     ua_profile = plain_profile ''Administrator'', ua_global_roles = {''ADMIN''}, ua_world_roles = [],
     ua_password_change_required = True, ua_is_active = True, ua_last_login_at = None,
     ua_created_at = 0\<rparr>"

definition fixture_hash :: string where
  "fixture_hash = stored_hash ref_crypto ''s-2'' (ref_key ''s-2'' ''admin123'')"

definition fixture_identity :: identity_service where
  "fixture_identity = \<lparr>sv_dummy_hash =
     stored_hash ref_crypto ''s-1'' (ref_key ''s-1'' ''a long random secret''),
     sv_bootstrap_admin = fixture_admin\<rparr>"

definition fixture_accounts :: identity_repo where
  "fixture_accounts = \<lparr>ir_bootstrap_actor_id = None,
     ir_credentials = [(''u-1'', fresh_credential fixture_admin fixture_hash)],
     ir_usernames = [(''admin'', ''u-1'')], ir_sessions = [],
     ir_audit = [\<lparr>ae_actor_user_id = None, ae_target_user_id = Some ''u-1'',
       ae_event_type = ''identity.bootstrap_admin'', ae_details = [], ae_occurred_at = 1\<rparr>]\<rparr>"

lemma fixture_accounts_reachable: "identity_reachable ref_crypto fixture_identity fixture_accounts"
proof (rule reach_init)
  have "casefold ''a long random secret'' \<notin> common_passwords" by code_simp
  then show "init_service ref_crypto ticking ''u-1'' ''a-1'' ''a long random secret'' ''s-1'' ''s-2''
      (empty_identity_repo None) = (Inr fixture_identity, fixture_accounts)"
    by (simp add: init_service_def bindE_def liftE_def ref_hash [THEN iffD2] validate_password_def
        ensure_bootstrap_def empty_identity_repo_def put_credential_def record_audit_def
        fixture_identity_def fixture_accounts_def fixture_admin_def fixture_hash_def ticking_def
        Let_def returnE_def)
qed

lemma fixture_login_name: "get_credentials fixture_accounts (strip ''admin'') =
    Some (fresh_credential fixture_admin fixture_hash)"
proof -
  have "casefold (strip ''admin'') = ''admin''" by code_simp
  then show ?thesis by (simp add: get_credentials_def fixture_accounts_def)
qed

lemma fixture_password:
  "verify_password ref_crypto ''admin123'' fixture_hash"
  "\<not> verify_password ref_crypto ''guess'' fixture_hash"
  unfolding fixture_hash_def ref_verify by (simp_all add: ref_key_def)

theorem administrator_remains_witness:
  "\<exists>a\<in>set (list_accounts fixture_accounts). is_admin a \<and> ua_is_active a"
  by (rule administrator_remains [OF fixture_accounts_reachable])

theorem accounts_indexed_witness:
  "fixture_admin \<in> set (list_accounts fixture_accounts) \<and>
   get_account fixture_accounts (ua_user_id fixture_admin) = Some fixture_admin"
proof -
  have "fixture_admin \<in> set (list_accounts fixture_accounts)"
    by (simp add: list_accounts_def fixture_accounts_def)
  with accounts_indexed [OF fixture_accounts_reachable] show ?thesis by blast
qed

definition guesses :: "attempt list" where
  "guesses = map (\<lambda>n. \<lparr>at_clock = (\<lambda>_. minutes n), at_token = ''t'', at_session = ''x'',
     at_password = ''guess''\<rparr>) [1, 2, 3, 4, 5]"

definition right_guess :: attempt where
  "right_guess = \<lparr>at_clock = (\<lambda>_. minutes 19), at_token = ''t'', at_session = ''x'',
     at_password = ''admin123''\<rparr>"

theorem lockout_holds_witness:
  "\<exists>m. fst (login_all ref_crypto fixture_identity ''admin'' [right_guess]
     (snd (login_all ref_crypto fixture_identity ''admin'' guesses fixture_accounts))) =
   [Inl (AuthenticationError m)]"
proof -
  let ?s5 = "snd (login_all ref_crypto fixture_identity ''admin'' guesses fixture_accounts)"
  have "length guesses = 5" "\<forall>q\<in>set guesses. \<not> verify_password ref_crypto (at_password q) fixture_hash"
    "\<forall>q\<in>set [right_guess]. at_clock q 0 < at_clock (last guesses) 0 + LOCKOUT_DURATION"
    by (simp_all add: guesses_def fixture_password right_guess_def LOCKOUT_DURATION_def minutes_def)
  from lockout_holds [OF fixture_accounts_reachable fixture_login_name _ _ this(1) _ this(3) refl] this(2)
  have "\<forall>out\<in>set (fst (login_all ref_crypto fixture_identity ''admin'' [right_guess] ?s5)).
      \<exists>m. out = Inl (AuthenticationError m)" by simp
  then show ?thesis by (simp add: Let_def split: prod.splits)
qed

text \<open>The administrator signed in, the token being \<open>token\<close>.\<close>

definition signed_admin :: user_account where
  "signed_admin = fixture_admin\<lparr>ua_last_login_at := Some 1\<rparr>"

definition signed_user :: authenticated_user where
  "signed_user = authenticated signed_admin ''x-1'' (2 + SESSION_TTL)"

definition signed_accounts :: identity_repo where
  "signed_accounts = fixture_accounts\<lparr>
     ir_credentials := [(''u-1'', fresh_credential signed_admin fixture_hash)],
     ir_sessions := [(''#token'', \<lparr>se_session_id = ''x-1'', se_user_id = ''u-1'',
       se_expires_at = 2 + SESSION_TTL, se_revoked_at = None\<rparr>)]\<rparr>"

lemma fixture_login:
  "login ref_crypto fixture_identity ticking ''token'' ''x-1'' ''admin'' ''admin123'' fixture_accounts =
     (Inr (signed_user, ''token''), signed_accounts)"
proof -
  have ok: "repo_ok fixture_accounts"
    using reachable_guarded [OF fixture_accounts_reachable] by (simp add: guarded_def)
  have unlocked: "ua_is_active fixture_admin" "\<not> locked None (ticking 0)"
    by (simp_all add: fixture_admin_def locked_def)
  show ?thesis
    using login_success_run [OF ok fixture_login_name _ _ _ refl refl, where C = ref_crypto
        and password = "''admin123''" and clk = ticking and svc = fixture_identity
        and token = "''token''" and sid = "''x-1''"] fixture_password(1) unlocked
    by (simp add: create_session_run signed_user_def signed_accounts_def signed_admin_def
        fixture_accounts_def fixture_admin_def put_credential_def ticking_def token_hash_def ref_crypto_def)
qed

lemma signed_accounts_reachable: "identity_reachable ref_crypto fixture_identity signed_accounts"
  by (rule reach_step [OF fixture_accounts_reachable step_login [OF fixture_login]])

lemma signed_login_name: "get_credentials signed_accounts ''admin'' = Some (fresh_credential signed_admin fixture_hash)"
proof -
  have "casefold ''admin'' = ''admin''" by code_simp
  then show ?thesis by (simp add: get_credentials_def signed_accounts_def fixture_accounts_def)
qed

theorem login_outcome_witness:
  "authenticate ref_crypto 100 signed_accounts (Some ''token'') = Some signed_user \<and>
   authenticate ref_crypto (3 + SESSION_TTL) signed_accounts (Some ''token'') = None"
proof -
  have "\<forall>now. authenticate ref_crypto now signed_accounts (Some ''token'') =
      (if ''token'' \<noteq> [] \<and> now < ticking 2 + SESSION_TTL then Some signed_user else None)"
    using login_outcome [OF fixture_accounts_reachable fixture_login_name fixture_login] by blast
  then show ?thesis by (simp add: ticking_def SESSION_TTL_def minutes_def)
qed

theorem password_change_signs_out_witness:
  "\<exists>user t. change_password ref_crypto ticking ''s-3'' ''other'' ''x-2'' signed_user ''admin123''
     ''a better password'' signed_accounts = (Inr (user, ''other''), t) \<and>
   (\<forall>now u. authenticate ref_crypto now t (Some ''token'') = Some u \<longrightarrow> ua_user_id u \<noteq> ''u-1'')"
proof -
  have new: "\<not> verify_password ref_crypto ''a better password'' fixture_hash"
    unfolding fixture_hash_def ref_verify by (simp add: ref_key_def)
  have "casefold ''a better password'' \<notin> common_passwords" by code_simp
  then have valid: "validate_password ''a better password'' = Inr ()" by (simp add: validate_password_def)
  have who: "ua_user_id signed_user = ''u-1''" "ua_username signed_user = ''admin''"
    by (simp_all add: signed_user_def signed_admin_def fixture_admin_def)
  let ?h = "stored_hash ref_crypto ''s-3'' (ref_key ''s-3'' ''a better password'')"
  have hash: "hash_password ref_crypto False ''s-3'' ''a better password'' = Inr ?h"
    by (simp add: ref_hash valid)
  have held: "dget (ir_credentials signed_accounts) ''u-1'' = Some (fresh_credential signed_admin fixture_hash)"
    by (simp add: signed_accounts_def)
  obtain s1 where stored: "set_password ticking ''u-1'' ?h False ''u-1'' signed_accounts = (Inr (), s1)"
    and "get_account s1 ''u-1'' = Some (signed_admin\<lparr>ua_password_change_required := False\<rparr>)"
    using held by (simp add: set_password_run)
  then obtain user t where run: "change_password ref_crypto ticking ''s-3'' ''other'' ''x-2'' signed_user
      ''admin123'' ''a better password'' signed_accounts = (Inr (user, ''other''), t)"
    using change_password_run [OF _ _ _ valid hash, where s = signed_accounts and user = signed_user
        and r = "fresh_credential signed_admin fixture_hash" and current = "''admin123''"
        and clk = ticking and token = "''other''" and sid = "''x-2''" and ?s1.0 = s1]
      who signed_login_name fixture_password(1) new by auto
  have "token_hash ref_crypto ''token'' \<noteq> token_hash ref_crypto ''other''"
    by (simp add: token_hash_def ref_crypto_def)
  with password_change_signs_out [OF ref_crypto_lawful signed_accounts_reachable run] who run
  show ?thesis by metis
qed


lemma signed_user_administers: "require_admin signed_user = Inr ()"
  by (simp add: require_admin_def ensure_def is_admin_def signed_user_def signed_admin_def fixture_admin_def)

lemma add_user_run:
  assumes "require_admin actor = Inr ()" and "validate_username username = Inr ()"
    and "validate_password temporary = Inr ()" and "hash_password C False salt temporary = Inr h"
  shows "add_user C clk uid au salt actor username temporary p s =
    create_user clk uid au (strip username) h p (ua_user_id actor) s"
  using assms by (simp add: add_user_def bindE_run)

lemma two_accounts:
  obtains s where "identity_reachable ref_crypto fixture_identity s"
    and "\<exists>c. dget (ir_credentials s) ''u-2'' = Some c \<and> \<not> is_admin (cr_account c)"
proof -
  have "casefold ''a better password'' \<notin> common_passwords" by code_simp
  then have valid: "validate_password ''a better password'' = Inr ()" by (simp add: validate_password_def)
  let ?h = "stored_hash ref_crypto ''s-4'' (ref_key ''s-4'' ''a better password'')"
  have hash: "hash_password ref_crypto False ''s-4'' ''a better password'' = Inr ?h"
    by (simp add: ref_hash valid)
  have name: "strip ''mara'' = ''mara''" "casefold ''mara'' = ''mara''" "username_matches ''mara''"
    by code_simp+
  then have "validate_username ''mara'' = Inr ()" by (simp add: validate_username_def ensure_def)
  note run = add_user_run [OF signed_user_administers this valid hash]
  have free: "\<not> dhas (ir_usernames signed_accounts) ''mara''" "\<not> dhas (ir_credentials signed_accounts) ''u-2''"
    by (simp_all add: signed_accounts_def fixture_accounts_def dhas_def)
  let ?r = "add_user ref_crypto ticking ''u-2'' ''a-2'' ''s-4'' signed_user ''mara'' ''a better password''
    (plain_profile ''Mara'') signed_accounts"
  have "identity_reachable ref_crypto fixture_identity (snd ?r)"
    by (rule reach_step [OF signed_accounts_reachable step_add_user [OF free(2)]]) (rule prod.collapse [symmetric])
  moreover have "\<exists>c. dget (ir_credentials (snd ?r)) ''u-2'' = Some c \<and> \<not> is_admin (cr_account c)"
    using free by (simp add: run create_user_def name Let_def is_admin_def)
  ultimately show ?thesis using that by blast
qed

theorem disabled_is_shut_out_witness:
  "\<exists>s a t. identity_reachable ref_crypto fixture_identity s \<and>
     update_user 9 signed_user ''u-2'' None (Some False) None s = (Inr a, t) \<and>
     (\<forall>later k u. authenticate ref_crypto later t (Some k) = Some u \<longrightarrow> ua_user_id u \<noteq> ''u-2'')"
proof -
  obtain s c where reach: "identity_reachable ref_crypto fixture_identity s"
    and c: "dget (ir_credentials s) ''u-2'' = Some c" "\<not> is_admin (cr_account c)"
    using two_accounts by blast
  have who: "ua_user_id signed_user = ''u-1''"
    by (simp add: signed_user_def signed_admin_def fixture_admin_def)
  have "get_account s ''u-2'' = Some (cr_account c)" using c(1) by (rule held_account)
  then have allowed: "deactivation_allowed ''u-2'' s = (Inr (), s)"
    using c(2) by (simp add: deactivation_allowed_def)
  have "\<exists>a t. update_user 9 signed_user ''u-2'' None (Some False) None s = (Inr a, t)"
    using c(1) by (simp add: update_user_def signed_user_administers who bindE_run allowed
        update_account_run renames_def move_username_def)
  then show ?thesis using disabled_is_shut_out [OF reach] reach by blast
qed

end
