(* ===== verification/PortalRepository.thy ===== *)
theory PortalRepository
  imports IdentityAccounts Effects
begin

text \<open>
  The records of the tabletop portal and \<open>InMemoryPortalRepository\<close>
  (\<open>domains/tabletop/portal.py\<close>). Characters and games are changed with pydantic's
  \<open>model_copy(update=...)\<close>, which does not validate: the fields a client may update therefore
  hold any JSON value, and the type annotations of the source are not assumed for them.
\<close>

section \<open>Records\<close>

definition ABILITIES :: "string list" where
  "ABILITIES = [''strength'', ''dexterity'', ''constitution'', ''intelligence'', ''wisdom'', ''charisma'']"

definition CLASSES :: "string list" where
  "CLASSES = [''Barbarian'', ''Bard'', ''Cleric'', ''Druid'', ''Fighter'', ''Monk'', ''Paladin'',
     ''Ranger'', ''Rogue'', ''Sorcerer'', ''Warlock'', ''Wizard'']"

definition SPECIES :: "string list" where
  "SPECIES = [''Dragonborn'', ''Dwarf'', ''Elf'', ''Gnome'', ''Goliath'', ''Halfling'', ''Human'',
     ''Orc'', ''Tiefling'']"

definition BACKGROUNDS :: "string list" where
  "BACKGROUNDS = [''Acolyte'', ''Artisan'', ''Charlatan'', ''Criminal'', ''Entertainer'', ''Farmer'',
     ''Guard'', ''Guide'', ''Hermit'', ''Merchant'', ''Noble'', ''Sage'', ''Sailor'', ''Scribe'',
     ''Soldier'', ''Wayfarer'']"

record character =
  ch_character_id :: uuid
  ch_owner_user_id :: uuid
  ch_world_id :: jval
  ch_entity_id :: "uuid option"
  ch_name :: jval
  ch_species :: jval
  ch_class_name :: jval
  ch_background :: jval
  ch_level :: jval
  ch_status :: jval
  ch_current_hit_points :: jval
  ch_maximum_hit_points :: jval
  ch_armor_class :: jval
  ch_speed :: jval
  ch_ability_scores :: "(string \<times> int) list"
  ch_sheet :: jval
  ch_creation_method :: string
  ch_source_filename :: "string option"
  ch_created_at :: instant
  ch_updated_at :: instant

record game_member =
  mb_user_id :: uuid
  mb_username :: string
  mb_display_name :: string
  mb_character_id :: "uuid option"
  mb_character_name :: "string option"
  mb_membership_role :: string
  mb_status :: string
  mb_joined_at :: "instant option"

record hosted_game =
  hg_game_id :: uuid
  hg_world_id :: uuid
  hg_host_user_id :: uuid
  hg_name :: jval
  hg_description :: jval
  hg_status :: jval
  hg_max_players :: jval
  hg_safety_notes :: jval
  hg_house_rules :: jval
  hg_members :: "game_member list"
  hg_created_at :: instant
  hg_updated_at :: instant

record hosted_session =
  hs_session_id :: uuid
  hs_game_id :: uuid
  hs_title :: string
  hs_scheduled_for :: "instant option"
  hs_status :: string
  hs_public_notes :: string
  hs_dm_notes :: "string option"
  hs_started_at :: "instant option"
  hs_ended_at :: "instant option"
  hs_created_at :: instant
  hs_updated_at :: instant

record portal_repo =
  pt_characters :: "(uuid \<times> character) list"
  pt_games :: "(uuid \<times> hosted_game) list"
  pt_sessions :: "(uuid \<times> hosted_session) list"

definition empty_portal :: portal_repo where
  "empty_portal = \<lparr>pt_characters = [], pt_games = [], pt_sessions = []\<rparr>"

section \<open>Operations\<close>

definition characters_of :: "portal_repo \<Rightarrow> uuid option \<Rightarrow> character list" where
  "characters_of s owner =
     filter (\<lambda>c. owner = None \<or> Some (ch_owner_user_id c) = owner) (map snd (pt_characters s))"

definition get_character :: "portal_repo \<Rightarrow> uuid \<Rightarrow> character option" where
  "get_character s cid = dget (pt_characters s) cid"

definition store_character :: "character \<Rightarrow> portal_repo \<Rightarrow> portal_repo" where
  "store_character c s = s\<lparr>pt_characters := dset (pt_characters s) (ch_character_id c) c\<rparr>"

definition drop_character :: "uuid \<Rightarrow> (portal_repo, unit) eff" where
  "drop_character cid =
     bindE (readE (\<lambda>s. dhas (pt_characters s) cid)) (\<lambda>present.
     bindE (ensureE present (KeyError cid)) (\<lambda>_.
     updE (\<lambda>s. s\<lparr>pt_characters := ddel (pt_characters s) cid\<rparr>)))"

definition all_games :: "portal_repo \<Rightarrow> hosted_game list" where
  "all_games s = map snd (pt_games s)"

definition get_game :: "portal_repo \<Rightarrow> uuid \<Rightarrow> hosted_game option" where
  "get_game s gid = dget (pt_games s) gid"

definition store_game :: "hosted_game \<Rightarrow> portal_repo \<Rightarrow> portal_repo" where
  "store_game g s = s\<lparr>pt_games := dset (pt_games s) (hg_game_id g) g\<rparr>"

definition drop_game :: "uuid \<Rightarrow> (portal_repo, unit) eff" where
  "drop_game gid =
     bindE (readE (\<lambda>s. dhas (pt_games s) gid)) (\<lambda>present.
     bindE (ensureE present (KeyError gid)) (\<lambda>_.
     updE (\<lambda>s. s\<lparr>pt_games := ddel (pt_games s) gid,
       pt_sessions := filter (\<lambda>(k, row). hs_game_id row \<noteq> gid) (pt_sessions s)\<rparr>)))"

definition with_member :: "game_member list \<Rightarrow> game_member \<Rightarrow> game_member list" where
  "with_member members m =
     map snd (dset (dupdate [] (map (\<lambda>row. (mb_user_id row, row)) members)) (mb_user_id m) m)"

text \<open>\<open>set_member\<close> and \<open>remove_member\<close> of the repository store the game under the identifier they were given.\<close>

definition put_game :: "uuid \<Rightarrow> hosted_game \<Rightarrow> portal_repo \<Rightarrow> portal_repo" where
  "put_game gid g s = s\<lparr>pt_games := dset (pt_games s) gid g\<rparr>"

definition store_member :: "instant \<Rightarrow> uuid \<Rightarrow> game_member \<Rightarrow> (portal_repo, unit) eff" where
  "store_member now gid m =
     bindE (readE (\<lambda>s. get_game s gid)) (\<lambda>found.
     bindE (liftE (of_option (KeyError gid) found)) (\<lambda>game.
     updE (put_game gid (game\<lparr>hg_members := with_member (hg_members game) m, hg_updated_at := now\<rparr>))))"

definition drop_member :: "instant \<Rightarrow> uuid \<Rightarrow> uuid \<Rightarrow> (portal_repo, unit) eff" where
  "drop_member now gid uid =
     bindE (readE (\<lambda>s. get_game s gid)) (\<lambda>found.
     bindE (liftE (of_option (KeyError gid) found)) (\<lambda>game.
     updE (put_game gid (game\<lparr>hg_members := filter (\<lambda>row. mb_user_id row \<noteq> uid) (hg_members game),
       hg_updated_at := now\<rparr>))))"

definition sessions_of :: "portal_repo \<Rightarrow> uuid \<Rightarrow> hosted_session list" where
  "sessions_of s gid = filter (\<lambda>row. hs_game_id row = gid) (map snd (pt_sessions s))"

definition store_session :: "hosted_session \<Rightarrow> portal_repo \<Rightarrow> portal_repo" where
  "store_session row s = s\<lparr>pt_sessions := dset (pt_sessions s) (hs_session_id row) row\<rparr>"

section \<open>The interface\<close>

text \<open>
  What the service uses of a repository for each kind of record: a row that was saved is found
  under its key, the others are not touched, and the listing has exactly the rows that can be
  found.
\<close>

locale keyed_store =
  fixes filed :: "'s \<Rightarrow> bool"
    and find :: "'s \<Rightarrow> 'k \<Rightarrow> 'v option"
    and save :: "'v \<Rightarrow> 's \<Rightarrow> 's"
    and rows :: "'s \<Rightarrow> 'v list"
    and key :: "'v \<Rightarrow> 'k"
  assumes find_save: "find (save v s) k = (if k = key v then Some v else find s k)"
    and filed_save: "filed s \<Longrightarrow> filed (save v s)"
    and find_key: "\<lbrakk>filed s; find s k = Some v\<rbrakk> \<Longrightarrow> key v = k"
    and rows_found: "filed s \<Longrightarrow> set (rows s) = {v. find s (key v) = Some v}"
begin

definition every :: "('v \<Rightarrow> bool) \<Rightarrow> 's \<Rightarrow> bool" where
  "every P s \<longleftrightarrow> (\<forall>v\<in>set (rows s). P v)"

lemma every_find: "filed s \<Longrightarrow> every P s \<longleftrightarrow> (\<forall>k v. find s k = Some v \<longrightarrow> P v)"
  unfolding every_def using rows_found find_key by blast

lemma every_save: "\<lbrakk>filed s; every P s; P v\<rbrakk> \<Longrightarrow> every P (save v s)"
  by (simp add: every_find filed_save find_save)

lemma every_found: "\<lbrakk>filed s; every P s; find s k = Some v\<rbrakk> \<Longrightarrow> P v"
  by (simp add: every_find)

lemma saved_row: "filed s \<Longrightarrow> v \<in> set (rows (save v s))"
  by (simp add: rows_found filed_save find_save)

lemma other_rows: "\<lbrakk>filed s; w \<in> set (rows s); key w \<noteq> key v\<rbrakk> \<Longrightarrow> w \<in> set (rows (save v s))"
  by (simp add: rows_found filed_save find_save)

end

definition keyed :: "('v \<Rightarrow> uuid) \<Rightarrow> (uuid \<times> 'v) list \<Rightarrow> bool" where
  "keyed f d \<longleftrightarrow> distinct (map fst d) \<and> (\<forall>(k, v)\<in>set d. f v = k)"

lemma keyed_Nil [simp]: "keyed f []"
  by (simp add: keyed_def)

lemma keyed_find: "\<lbrakk>keyed f d; dget d k = Some v\<rbrakk> \<Longrightarrow> f v = k"
  unfolding keyed_def by (metis case_prodD map_of_SomeD)

lemma keyed_dset: "\<lbrakk>keyed f d; f v = k\<rbrakk> \<Longrightarrow> keyed f (dset d k v)"
  unfolding keyed_def using set_dset_subset [where d = d and k = k and v = v] by (auto simp: distinct_update)

lemma keyed_ddel: "keyed f d \<Longrightarrow> keyed f (ddel d k)"
  unfolding keyed_def by (auto simp: distinct_delete dest: in_set_ddel)

lemma keyed_filter: "keyed f d \<Longrightarrow> keyed f (filter P d)"
  unfolding keyed_def by (auto simp: distinct_map_filter)

lemma keyed_rows: "keyed f d \<Longrightarrow> set (map snd d) = {v. dget d (f v) = Some v}"
  unfolding keyed_def by (force simp: image_iff)

definition portal_filed :: "portal_repo \<Rightarrow> bool" where
  "portal_filed s \<longleftrightarrow> keyed ch_character_id (pt_characters s) \<and> keyed hg_game_id (pt_games s) \<and>
     keyed hs_session_id (pt_sessions s)"

definition list_character_rows :: "portal_repo \<Rightarrow> character list" where
  "list_character_rows s = characters_of s None"

definition all_sessions :: "portal_repo \<Rightarrow> hosted_session list" where
  "all_sessions s = map snd (pt_sessions s)"

interpretation characters: keyed_store portal_filed get_character store_character
  list_character_rows ch_character_id
  by unfold_locales (auto simp: get_character_def store_character_def portal_filed_def
      list_character_rows_def characters_of_def keyed_find keyed_rows [of ch_character_id, simplified]
      intro: keyed_dset)

interpretation games: keyed_store portal_filed get_game store_game all_games hg_game_id
  by unfold_locales (auto simp: get_game_def store_game_def portal_filed_def all_games_def keyed_find
      keyed_rows [of hg_game_id, simplified] intro: keyed_dset)

interpretation sessions: keyed_store portal_filed "\<lambda>s. dget (pt_sessions s)" store_session
  all_sessions hs_session_id
  by unfold_locales (auto simp: store_session_def portal_filed_def all_sessions_def keyed_find
      keyed_rows [of hs_session_id, simplified] intro: keyed_dset)

end
