(* ===== verification/PortalService.thy ===== *)
theory PortalService
  imports PortalRepository IdentityService
begin

text \<open>
  \<open>TabletopPortalService\<close> of \<open>domains/tabletop/portal.py\<close>: the characters of the players, the
  games that Dungeon Masters host, their members and sessions. A payload is the JSON object of
  the request. The identifier, the clock reading and the random seed drawn in a call are
  arguments of it; the random generator is that of \<open>pylib\<close>, on which \<open>choice\<close> and \<open>shuffle\<close>
  are defined as the standard library defines them.
\<close>

section \<open>Checks\<close>

definition require_player :: "'a user_account_scheme \<Rightarrow> unit res" where
  "require_player actor =
     ensure (is_admin actor \<or> has_player_role actor) (PermissionError ''a Player role is required'')"

text \<open>An operand of a numeric comparison.\<close>

definition py_num :: "jval \<Rightarrow> rat res" where
  "py_num v = (case num_of v of
      None \<Rightarrow> Inl (TypeError ''not supported between instances'')
    | Some (Inl n) \<Rightarrow> Inr (of_int n)
    | Some (Inr q) \<Rightarrow> Inr q)"

definition py_strip :: "jval \<Rightarrow> string res" where
  "py_strip v = (case v of JStr s \<Rightarrow> Inr (strip s) | _ \<Rightarrow> Inl (AttributeError ''strip''))"

definition hit_points_valid :: "jval \<Rightarrow> jval \<Rightarrow> unit res" where
  "hit_points_valid current maximum =
     (let bad = ValueError ''character hit points are invalid'' in
     bindR (py_num maximum) (\<lambda>m.
     if m < 1 then Inl bad else
     bindR (py_num current) (\<lambda>c.
     if c < 0 then Inl bad else ensure (\<not> c > m) bad)))"

definition validate_character :: "character \<Rightarrow> unit res" where
  "validate_character c =
     bindR (py_strip (ch_name c)) (\<lambda>name.
     bindR (ensure (name \<noteq> []) (ValueError ''character name is required'')) (\<lambda>_.
     bindR (py_num (ch_level c)) (\<lambda>level.
     bindR (ensure (\<not> (level < 1 \<or> level > 20))
       (ValueError ''character level must be between 1 and 20'')) (\<lambda>_.
     bindR (hit_points_valid (ch_current_hit_points c) (ch_maximum_hit_points c)) (\<lambda>_.
     ensure (\<not> list_ex (\<lambda>(_, score). score < 1 \<or> score > 30) (ch_ability_scores c))
       (ValueError ''ability scores must be between 1 and 30''))))))"

definition scores_of :: "jval \<Rightarrow> (string \<times> int) list res" where
  "scores_of raw =
     (let vals = (case raw of JDict d \<Rightarrow> d | _ \<Rightarrow> []) in
     mapR (\<lambda>ability. bindR (get_int vals ability 10) (\<lambda>n. Inr (ability, n))) ABILITIES)"

definition find_character :: "uuid \<Rightarrow> (portal_repo, character) eff" where
  "find_character cid =
     bindE (readE (\<lambda>s. get_character s cid)) (\<lambda>found. liftE (of_option (KeyError cid) found))"

definition find_game :: "uuid \<Rightarrow> (portal_repo, hosted_game) eff" where
  "find_game gid =
     bindE (readE (\<lambda>s. get_game s gid)) (\<lambda>found. liftE (of_option (KeyError gid) found))"

definition is_co_dm :: "'a user_account_scheme \<Rightarrow> hosted_game \<Rightarrow> bool" where
  "is_co_dm actor game = list_ex (\<lambda>m. mb_user_id m = ua_user_id actor \<and> mb_membership_role m = ''CO_DM'')
     (hg_members game)"

definition runs_game :: "'a user_account_scheme \<Rightarrow> hosted_game \<Rightarrow> bool" where
  "runs_game actor game \<longleftrightarrow>
     is_admin actor \<or> hg_host_user_id game = ua_user_id actor \<or> is_co_dm actor game"

definition hosted :: "'a user_account_scheme \<Rightarrow> uuid \<Rightarrow> (portal_repo, hosted_game) eff" where
  "hosted actor gid =
     bindE (find_game gid) (\<lambda>game.
     bindE (ensureE (runs_game actor game) (PermissionError ''DM access to this game is required'')) (\<lambda>_.
     returnE game))"

section \<open>Random characters\<close>

definition rng_choice :: "pylib \<Rightarrow> 'a list \<Rightarrow> nat \<Rightarrow> 'a \<times> nat" where
  "rng_choice L xs rng = (let (i, rng') = rng_int L rng 0 (int (length xs) - 1) in (xs ! nat i, rng'))"

fun rng_shuffle :: "pylib \<Rightarrow> nat \<Rightarrow> 'a list \<Rightarrow> nat \<Rightarrow> 'a list \<times> nat" where
  "rng_shuffle L 0 xs rng = (xs, rng)"
| "rng_shuffle L (Suc i) xs rng =
     (let (j, rng') = rng_int L rng 0 (int (Suc i))
      in rng_shuffle L i (xs[Suc i := xs ! nat j, nat j := xs ! Suc i]) rng')"

definition adventurer_names :: "string list" where
  "adventurer_names = [''Arden'', ''Bryn'', ''Cael'', ''Dara'', ''Elian'', ''Fenn'', ''Kaia'',
     ''Mira'', ''Orin'', ''Tamsin'']"

definition standard_scores :: "int list" where
  "standard_scores = [15, 14, 13, 12, 10, 8]"

definition generated :: "pylib \<Rightarrow> int \<Rightarrow> jdict" where
  "generated L seed =
     (let (class_name, r1) = rng_choice L CLASSES (rng_new L seed);
          (species, r2) = rng_choice L SPECIES r1;
          (background, r3) = rng_choice L BACKGROUNDS r2;
          (scores, r4) = rng_shuffle L (length standard_scores - 1) standard_scores r3;
          (maximum, r5) = rng_int L r4 8 14;
          (name, r6) = rng_choice L adventurer_names r5;
          (armor, r7) = rng_int L r6 11 16
      in [(''name'', JStr name), (''class_name'', JStr class_name), (''species'', JStr species),
          (''background'', JStr background),
          (''ability_scores'', JDict (zip ABILITIES (map JInt scores))),
          (''maximum_hit_points'', JInt maximum), (''current_hit_points'', JInt maximum),
          (''armor_class'', JInt armor), (''speed'', JInt 30),
          (''sheet'', JDict [(''generation_seed'', JInt seed)])])"

section \<open>Characters\<close>

definition list_characters :: "'a user_account_scheme \<Rightarrow> (portal_repo, character list) eff" where
  "list_characters actor =
     bindE (liftE (require_player actor)) (\<lambda>_.
     readE (\<lambda>s. characters_of s (if is_admin actor then None else Some (ua_user_id actor))))"

definition py_or :: "jval \<Rightarrow> jval \<Rightarrow> jval" where
  "py_or a b = (if py_bool a then a else b)"

definition optional_text :: "pylib \<Rightarrow> jval \<Rightarrow> string option res" where
  "optional_text L v = (case v of JNull \<Rightarrow> Inr None
    | _ \<Rightarrow> bindR (of_option ValidationError (co_str L v)) (\<lambda>s. Inr (Some s)))"

definition new_character ::
  "pylib \<Rightarrow> instant \<Rightarrow> int \<Rightarrow> uuid \<Rightarrow> uuid \<Rightarrow> jdict \<Rightarrow> character res" where
  "new_character L now random_seed cid owner payload =
     (let method = upper (py_str L (dget_or payload ''creation_method'' (JStr ''BUILT''))) in
     bindR (py_int (dget_or payload ''seed'' (JInt random_seed))) (\<lambda>seed.
     let gen = (if method = ''GENERATED'' then generated L seed else []);
         vals = dupdate gen payload in
     bindR (scores_of (dget_or vals ''ability_scores'' (JDict []))) (\<lambda>scores.
     bindR (get_int vals ''maximum_hit_points'' 10) (\<lambda>maximum.
     bindR (get_int vals ''current_hit_points'' maximum) (\<lambda>current.
     let world = dget_or vals ''world_id'' JNull in
     bindR (if py_bool world then bindR (parse_uuid L (py_str L world)) (\<lambda>u. Inr (JStr u))
            else Inr JNull) (\<lambda>world_id.
     let text = (\<lambda>k dflt. JStr (py_str L (dget_or vals k (JStr dflt)))) in
     bindR (get_int vals ''level'' 1) (\<lambda>level.
     bindR (get_int vals ''armor_class'' 10) (\<lambda>armor.
     bindR (get_int vals ''speed'' 30) (\<lambda>speed.
     bindR (py_dict (dget_or vals ''sheet'' (JDict []))) (\<lambda>sheet.
     bindR (optional_text L (dget_or vals ''source_filename'' JNull)) (\<lambda>source_filename.
     Inr \<lparr>ch_character_id = cid, ch_owner_user_id = owner, ch_world_id = world_id,
       ch_entity_id = None,
       ch_name = JStr (strip (py_str L (py_or (dget_or vals ''name'' JNull)
         (py_or (dget_or gen ''name'' JNull) (JStr ''Unnamed Adventurer''))))),
       ch_species = text ''species'' ''Human'', ch_class_name = text ''class_name'' ''Fighter'',
       ch_background = text ''background'' ''Adventurer'', ch_level = JInt level,
       ch_status = JStr (upper (py_str L (dget_or vals ''status'' (JStr ''ALIVE'')))),
       ch_current_hit_points = JInt current, ch_maximum_hit_points = JInt maximum,
       ch_armor_class = JInt armor, ch_speed = JInt speed, ch_ability_scores = scores,
       ch_sheet = JDict sheet, ch_creation_method = method,
       ch_source_filename = source_filename, ch_created_at = now, ch_updated_at = now\<rparr>)))))))))))"

definition create_character ::
  "pylib \<Rightarrow> instant \<Rightarrow> int \<Rightarrow> uuid \<Rightarrow> 'a user_account_scheme \<Rightarrow> jdict \<Rightarrow> (portal_repo, character) eff" where
  "create_character L now random_seed cid actor payload =
     bindE (liftE (require_player actor)) (\<lambda>_.
     bindE (liftE (new_character L now random_seed cid (ua_user_id actor) payload)) (\<lambda>character.
     bindE (liftE (validate_character character)) (\<lambda>_.
     bindE (updE (store_character character)) (\<lambda>_.
     returnE character))))"

definition may_edit :: "'a user_account_scheme \<Rightarrow> character \<Rightarrow> bool" where
  "may_edit actor c \<longleftrightarrow> is_admin actor \<or> ch_owner_user_id c = ua_user_id actor"

definition CHARACTER_FIELDS :: "string list" where
  "CHARACTER_FIELDS = [''name'', ''species'', ''class_name'', ''background'', ''level'', ''status'',
     ''current_hit_points'', ''maximum_hit_points'', ''armor_class'', ''speed'', ''ability_scores'',
     ''sheet'', ''world_id'']"

text \<open>\<open>model_copy(update=...)\<close> on one key; the value is stored as it is.\<close>

definition set_character_field :: "string \<times> jval \<Rightarrow> character \<Rightarrow> character" where
  "set_character_field kv c = (case kv of (k, v) \<Rightarrow>
     if k = ''name'' then c\<lparr>ch_name := v\<rparr> else
     if k = ''species'' then c\<lparr>ch_species := v\<rparr> else
     if k = ''class_name'' then c\<lparr>ch_class_name := v\<rparr> else
     if k = ''background'' then c\<lparr>ch_background := v\<rparr> else
     if k = ''level'' then c\<lparr>ch_level := v\<rparr> else
     if k = ''status'' then c\<lparr>ch_status := v\<rparr> else
     if k = ''current_hit_points'' then c\<lparr>ch_current_hit_points := v\<rparr> else
     if k = ''maximum_hit_points'' then c\<lparr>ch_maximum_hit_points := v\<rparr> else
     if k = ''armor_class'' then c\<lparr>ch_armor_class := v\<rparr> else
     if k = ''speed'' then c\<lparr>ch_speed := v\<rparr> else
     if k = ''sheet'' then c\<lparr>ch_sheet := v\<rparr> else
     if k = ''world_id'' then c\<lparr>ch_world_id := v\<rparr> else c)"

definition apply_updates :: "pylib \<Rightarrow> instant \<Rightarrow> jdict \<Rightarrow> character \<Rightarrow> character res" where
  "apply_updates L now payload existing =
     (let updates = filter (\<lambda>(k, _). k \<in> set CHARACTER_FIELDS) payload in
     bindR (case dget updates ''world_id'' of
         Some w \<Rightarrow> if py_bool w then bindR (parse_uuid L (py_str L w))
             (\<lambda>u. Inr (dset updates ''world_id'' (JStr u))) else Inr updates
       | None \<Rightarrow> Inr updates) (\<lambda>updates1.
     bindR (case dget updates1 ''ability_scores'' of
         Some raw \<Rightarrow> scores_of raw | None \<Rightarrow> Inr (ch_ability_scores existing)) (\<lambda>scores.
     Inr ((fold set_character_field updates1 existing)
       \<lparr>ch_ability_scores := scores, ch_updated_at := now\<rparr>))))"

definition update_character ::
  "pylib \<Rightarrow> instant \<Rightarrow> 'a user_account_scheme \<Rightarrow> uuid \<Rightarrow> jdict \<Rightarrow> (portal_repo, character) eff" where
  "update_character L now actor cid payload =
     bindE (find_character cid) (\<lambda>existing.
     bindE (ensureE (may_edit actor existing)
       (PermissionError ''only the character owner can edit this character'')) (\<lambda>_.
     bindE (liftE (apply_updates L now payload existing)) (\<lambda>character.
     bindE (liftE (validate_character character)) (\<lambda>_.
     bindE (updE (store_character character)) (\<lambda>_.
     returnE character)))))"

definition delete_character :: "'a user_account_scheme \<Rightarrow> uuid \<Rightarrow> (portal_repo, unit) eff" where
  "delete_character actor cid =
     bindE (find_character cid) (\<lambda>existing.
     bindE (ensureE (may_edit actor existing)
       (PermissionError ''only the character owner can delete this character'')) (\<lambda>_.
     drop_character cid))"

text \<open>Membership in a Python set needs a hashable value.\<close>

definition hashable :: "jval \<Rightarrow> unit res" where
  "hashable v = (case v of JList _ \<Rightarrow> Inl (TypeError ''unhashable type'')
    | JDict _ \<Rightarrow> Inl (TypeError ''unhashable type'') | _ \<Rightarrow> Inr ())"

definition bind_character_entity ::
  "instant \<Rightarrow> 'a user_account_scheme \<Rightarrow> uuid \<Rightarrow> uuid \<Rightarrow> uuid \<Rightarrow> (portal_repo, character) eff" where
  "bind_character_entity now actor cid w entity =
     bindE (liftE (if is_admin actor then Inr () else require_world_role actor w [''DM''])) (\<lambda>_.
     bindE (find_character cid) (\<lambda>c.
     bindE (liftE (hashable (ch_world_id c))) (\<lambda>_.
     bindE (ensureE (ch_world_id c \<in> {JNull, JStr w})
       (ValueError ''character is already assigned to another world'')) (\<lambda>_.
     bindE (ensureE (ch_entity_id c \<in> {None, Some entity})
       (ValueError ''character is already bound to another embodied entity'')) (\<lambda>_.
     let bound = c\<lparr>ch_world_id := JStr w, ch_entity_id := Some entity, ch_updated_at := now\<rparr> in
     bindE (updE (store_character bound)) (\<lambda>_.
     returnE bound))))))"

section \<open>Games\<close>

definition list_games :: "'a user_account_scheme \<Rightarrow> (portal_repo, hosted_game list) eff" where
  "list_games actor =
     bindE (ensureE (is_admin actor \<or> has_player_role actor \<or> has_dm_role actor)
       (PermissionError ''a Player or Dungeon Master role is required'')) (\<lambda>_.
     readE (\<lambda>s. if is_admin actor then all_games s else filter (\<lambda>game.
       hg_host_user_id game = ua_user_id actor \<or>
       list_ex (\<lambda>m. mb_user_id m = ua_user_id actor) (hg_members game)) (all_games s)))"

definition new_game ::
  "pylib \<Rightarrow> instant \<Rightarrow> uuid \<Rightarrow> 'a user_account_scheme \<Rightarrow> jdict \<Rightarrow> hosted_game res" where
  "new_game L now gid actor payload =
     bindR (of_option (KeyError ''world_id'') (dget payload ''world_id'')) (\<lambda>w.
     bindR (parse_uuid L (py_str L w)) (\<lambda>world_id.
     bindR (require_world_role actor world_id [''DM'']) (\<lambda>_.
     bindR (of_option (KeyError ''name'') (dget payload ''name'')) (\<lambda>name.
     let text = (\<lambda>k dflt. py_str L (dget_or payload k (JStr dflt))) in
     bindR (get_int payload ''max_players'' 6) (\<lambda>max_players.
     Inr \<lparr>hg_game_id = gid, hg_world_id = world_id, hg_host_user_id = ua_user_id actor,
       hg_name = JStr (strip (py_str L name)), hg_description = JStr (text ''description'' []),
       hg_status = JStr (upper (text ''status'' ''PLANNING'')), hg_max_players = JInt max_players,
       hg_safety_notes = JStr (text ''safety_notes'' []), hg_house_rules = JStr (text ''house_rules'' []),
       hg_members = [], hg_created_at = now, hg_updated_at = now\<rparr>)))))"

definition create_game ::
  "pylib \<Rightarrow> instant \<Rightarrow> uuid \<Rightarrow> 'a user_account_scheme \<Rightarrow> jdict \<Rightarrow> (portal_repo, hosted_game) eff" where
  "create_game L now gid actor payload =
     bindE (liftE (new_game L now gid actor payload)) (\<lambda>game.
     bindE (updE (store_game game)) (\<lambda>_.
     returnE game))"

definition GAME_FIELDS :: "string list" where
  "GAME_FIELDS = [''name'', ''description'', ''status'', ''max_players'', ''safety_notes'', ''house_rules'']"

definition set_game_field :: "string \<times> jval \<Rightarrow> hosted_game \<Rightarrow> hosted_game" where
  "set_game_field kv g = (case kv of (k, v) \<Rightarrow>
     if k = ''name'' then g\<lparr>hg_name := v\<rparr> else
     if k = ''description'' then g\<lparr>hg_description := v\<rparr> else
     if k = ''status'' then g\<lparr>hg_status := v\<rparr> else
     if k = ''max_players'' then g\<lparr>hg_max_players := v\<rparr> else
     if k = ''safety_notes'' then g\<lparr>hg_safety_notes := v\<rparr> else
     if k = ''house_rules'' then g\<lparr>hg_house_rules := v\<rparr> else g)"

definition update_game ::
  "pylib \<Rightarrow> instant \<Rightarrow> 'a user_account_scheme \<Rightarrow> uuid \<Rightarrow> jdict \<Rightarrow> (portal_repo, hosted_game) eff" where
  "update_game L now actor gid payload =
     bindE (hosted actor gid) (\<lambda>game.
     let updates = filter (\<lambda>(k, _). k \<in> set GAME_FIELDS) payload;
         updates1 = (case dget updates ''status'' of None \<Rightarrow> updates
           | Some v \<Rightarrow> dset updates ''status'' (JStr (upper (py_str L v))));
         changed = (fold set_game_field updates1 game)\<lparr>hg_updated_at := now\<rparr> in
     bindE (updE (store_game changed)) (\<lambda>_.
     returnE changed))"

definition delete_game :: "'a user_account_scheme \<Rightarrow> uuid \<Rightarrow> (portal_repo, unit) eff" where
  "delete_game actor gid = bindE (hosted actor gid) (\<lambda>_. drop_game gid)"

definition new_member ::
  "pylib \<Rightarrow> instant \<Rightarrow> identity_repo \<Rightarrow> portal_repo \<Rightarrow> hosted_game \<Rightarrow> jdict \<Rightarrow> game_member res" where
  "new_member L now ids s game payload =
     bindR (of_option (KeyError ''user_id'') (dget payload ''user_id'')) (\<lambda>u.
     bindR (parse_uuid L (py_str L u)) (\<lambda>user_id.
     bindR (of_option (KeyError user_id) (get_account ids user_id)) (\<lambda>account.
     let membership_role = upper (py_str L (dget_or payload ''membership_role'' (JStr ''PLAYER'')));
         required = (if membership_role = ''CO_DM'' then ''DM'' else ''PLAYER'') in
     bindR (require_world_role account (hg_world_id game) [required]) (\<lambda>_.
     let cid = dget_or payload ''character_id'' JNull in
     bindR (if py_bool cid then bindR (parse_uuid L (py_str L cid)) (\<lambda>c. Inr (Some c))
            else Inr None) (\<lambda>character_id.
     let character = (case character_id of None \<Rightarrow> None | Some c \<Rightarrow> get_character s c) in
     bindR (ensure (case character of None \<Rightarrow> True | Some c \<Rightarrow> ch_owner_user_id c = user_id)
       (ValueError ''assigned character must belong to the selected user'')) (\<lambda>_.
     let raw_status = dget_or payload ''status'' JNull in
     bindR (hashable raw_status) (\<lambda>_.
     bindR (case character of None \<Rightarrow> Inr None | Some c \<Rightarrow> optional_text L (ch_name c)) (\<lambda>character_name.
     Inr \<lparr>mb_user_id = user_id, mb_username = ua_username account,
       mb_display_name = pr_display_name (ua_profile account), mb_character_id = character_id,
       mb_character_name = character_name, mb_membership_role = membership_role,
       mb_status = upper (py_str L (dget_or payload ''status'' (JStr ''INVITED''))),
       mb_joined_at = (if raw_status \<in> {JStr ''JOINED'', JStr ''READY''} then Some now else None)\<rparr>))))))))"

definition set_member ::
  "pylib \<Rightarrow> (nat \<Rightarrow> instant) \<Rightarrow> identity_repo \<Rightarrow> 'a user_account_scheme \<Rightarrow> uuid \<Rightarrow> jdict
     \<Rightarrow> (portal_repo, hosted_game) eff" where
  "set_member L clk ids actor gid payload =
     bindE (hosted actor gid) (\<lambda>game.
     bindE (readE id) (\<lambda>s.
     bindE (liftE (new_member L (clk 0) ids s game payload)) (\<lambda>member.
     bindE (store_member (clk 1) gid member) (\<lambda>_.
     readE (\<lambda>s'. case get_game s' gid of Some g \<Rightarrow> g | None \<Rightarrow> game)))))"

definition remove_member ::
  "instant \<Rightarrow> 'a user_account_scheme \<Rightarrow> uuid \<Rightarrow> uuid \<Rightarrow> (portal_repo, unit) eff" where
  "remove_member now actor gid uid = bindE (hosted actor gid) (\<lambda>_. drop_member now gid uid)"

section \<open>Sessions\<close>

definition list_sessions :: "'a user_account_scheme \<Rightarrow> uuid \<Rightarrow> (portal_repo, hosted_session list) eff" where
  "list_sessions actor gid =
     bindE (find_game gid) (\<lambda>game.
     let member = list_ex (\<lambda>m. mb_user_id m = ua_user_id actor) (hg_members game) in
     bindE (ensureE (is_admin actor \<or> hg_host_user_id game = ua_user_id actor \<or> member)
       (PermissionError ''game membership required'')) (\<lambda>_.
     bindE (readE (\<lambda>s. sessions_of s gid)) (\<lambda>rows.
     returnE (if runs_game actor game then rows else map (\<lambda>row. row\<lparr>hs_dm_notes := None\<rparr>) rows))))"

text \<open>\<open>existing.f if existing else default\<close>.\<close>

definition held_or :: "hosted_session option \<Rightarrow> (hosted_session \<Rightarrow> 'v) \<Rightarrow> 'v \<Rightarrow> 'v" where
  "held_or existing f dflt = (case existing of None \<Rightarrow> dflt | Some e \<Rightarrow> f e)"

definition session_from ::
  "pylib \<Rightarrow> (jval \<Rightarrow> instant option) \<Rightarrow> instant \<Rightarrow> uuid \<Rightarrow> uuid \<Rightarrow> hosted_session option \<Rightarrow> jdict
     \<Rightarrow> hosted_session res" where
  "session_from L co_datetime now sid gid existing payload =
     (let text = (\<lambda>k dflt. py_str L (dget_or payload k dflt));
          status = upper (text ''status'' (held_or existing (\<lambda>e. JStr (hs_status e)) (JStr ''SCHEDULED'')));
          started0 = held_or existing hs_started_at None;
          ended0 = held_or existing hs_ended_at None;
          started = (if status = ''LIVE'' \<and> started0 = None then Some now else started0);
          ended = (if status \<in> {''COMPLETED'', ''CANCELLED''} \<and> started \<noteq> None then Some now else ended0)
      in bindR (case dget payload ''scheduled_for'' of
             None \<Rightarrow> Inr (held_or existing hs_scheduled_for None)
           | Some JNull \<Rightarrow> Inr None
           | Some v \<Rightarrow> bindR (of_option ValidationError (co_datetime v)) (\<lambda>t. Inr (Some t)))
         (\<lambda>scheduled_for.
         Inr \<lparr>hs_session_id = sid, hs_game_id = gid,
           hs_title = text ''title'' (held_or existing (\<lambda>e. JStr (hs_title e)) (JStr ''Game Session'')),
           hs_scheduled_for = scheduled_for, hs_status = status,
           hs_public_notes = text ''public_notes'' (held_or existing (\<lambda>e. JStr (hs_public_notes e)) (JStr [])),
           hs_dm_notes = Some (text ''dm_notes'' (held_or existing (\<lambda>e. opt_str (hs_dm_notes e)) (JStr []))),
           hs_started_at = started, hs_ended_at = ended,
           hs_created_at = held_or existing hs_created_at now, hs_updated_at = now\<rparr>))"

definition save_session ::
  "pylib \<Rightarrow> (jval \<Rightarrow> instant option) \<Rightarrow> instant \<Rightarrow> uuid \<Rightarrow> 'a user_account_scheme \<Rightarrow> uuid \<Rightarrow> jdict
     \<Rightarrow> uuid option \<Rightarrow> (portal_repo, hosted_session) eff" where
  "save_session L co_datetime now fresh actor gid payload session_id =
     bindE (hosted actor gid) (\<lambda>_.
     bindE (readE (\<lambda>s. List.find (\<lambda>row. Some (hs_session_id row) = session_id) (sessions_of s gid))) (\<lambda>existing.
     bindE (liftE (session_from L co_datetime now
       (case session_id of Some i \<Rightarrow> i | None \<Rightarrow> fresh) gid existing payload)) (\<lambda>session.
     bindE (updE (store_session session)) (\<lambda>_.
     returnE session))))"


section \<open>Reachable portals\<close>

text \<open>
  One call by one actor, whatever its arguments and outcome. Identifiers are drawn by \<open>uuid4\<close>,
  which does not repeat one that is in use; the accounts are those of any identity store.
\<close>

inductive portal_step :: "pylib \<Rightarrow> user_account \<Rightarrow> portal_repo \<Rightarrow> portal_repo \<Rightarrow> bool"
  for L :: pylib and actor :: user_account where
  step_create_character: "\<lbrakk>get_character s cid = None;
    create_character L now seed cid actor payload s = (r, t)\<rbrakk> \<Longrightarrow> portal_step L actor s t"
| step_update_character: "update_character L now actor cid payload s = (r, t) \<Longrightarrow> portal_step L actor s t"
| step_delete_character: "delete_character actor cid s = (r, t) \<Longrightarrow> portal_step L actor s t"
| step_bind_character: "bind_character_entity now actor cid w entity s = (r, t) \<Longrightarrow> portal_step L actor s t"
| step_create_game: "\<lbrakk>get_game s gid = None; create_game L now gid actor payload s = (r, t)\<rbrakk> \<Longrightarrow>
    portal_step L actor s t"
| step_update_game: "update_game L now actor gid payload s = (r, t) \<Longrightarrow> portal_step L actor s t"
| step_delete_game: "delete_game actor gid s = (r, t) \<Longrightarrow> portal_step L actor s t"
| step_set_member: "set_member L clk ids actor gid payload s = (r, t) \<Longrightarrow> portal_step L actor s t"
| step_remove_member: "remove_member now actor gid uid s = (r, t) \<Longrightarrow> portal_step L actor s t"
| step_save_session: "save_session L co_datetime now fresh actor gid payload sid s = (r, t) \<Longrightarrow>
    portal_step L actor s t"

inductive portal_reachable :: "pylib \<Rightarrow> portal_repo \<Rightarrow> bool" for L :: pylib where
  portal_start: "portal_reachable L empty_portal"
| portal_next: "\<lbrakk>portal_reachable L s; portal_step L actor s t\<rbrakk> \<Longrightarrow> portal_reachable L t"

section \<open>What the calls do\<close>

definition number_in :: "rat \<Rightarrow> rat \<Rightarrow> jval \<Rightarrow> bool" where
  "number_in lo hi v \<longleftrightarrow> (\<exists>q. py_num v = Inr q \<and> lo \<le> q \<and> q \<le> hi)"

definition legal_character :: "character \<Rightarrow> bool" where
  "legal_character c \<longleftrightarrow>
     (\<exists>n. ch_name c = JStr n \<and> strip n \<noteq> []) \<and> number_in 1 20 (ch_level c) \<and>
     (\<exists>m. py_num (ch_maximum_hit_points c) = Inr m \<and> 1 \<le> m \<and> number_in 0 m (ch_current_hit_points c)) \<and>
     map fst (ch_ability_scores c) = ABILITIES \<and>
     (\<forall>(a, n)\<in>set (ch_ability_scores c). 1 \<le> n \<and> n \<le> 30)"

lemma py_strip_Inr [simp, res_simps]: "py_strip v = Inr n \<longleftrightarrow> (\<exists>s. v = JStr s \<and> n = strip s)"
  by (auto simp: py_strip_def split: jval.splits)

lemma hit_points_valid_Inr:
  "hit_points_valid c m = Inr u \<longleftrightarrow> (\<exists>q. py_num m = Inr q \<and> 1 \<le> q \<and> number_in 0 q c)"
  by (auto simp: hit_points_valid_def Let_def bindR_eq_Inr number_in_def not_less)

lemma validate_character_Inr:
  assumes "validate_character c = Inr u" and "map fst (ch_ability_scores c) = ABILITIES"
  shows "legal_character c"
  using assms unfolding validate_character_def legal_character_def
  by (auto simp: bindR_eq_Inr hit_points_valid_Inr number_in_def list_ex_iff not_less split: if_splits)

lemma scores_of_names: "scores_of raw = Inr scores \<Longrightarrow> map fst scores = ABILITIES"
  unfolding scores_of_def Let_def by (erule mapR_inverse) (auto simp: bindR_eq_Inr)

lemma set_character_field_frame [simp]:
  "ch_character_id (set_character_field kv c) = ch_character_id c"
  "ch_owner_user_id (set_character_field kv c) = ch_owner_user_id c"
  "ch_ability_scores (set_character_field kv c) = ch_ability_scores c"
  by (cases kv, simp add: set_character_field_def)+

lemma fold_character_frame [simp]:
  "ch_character_id (fold set_character_field us c) = ch_character_id c"
  "ch_owner_user_id (fold set_character_field us c) = ch_owner_user_id c"
  "ch_ability_scores (fold set_character_field us c) = ch_ability_scores c"
  by (induction us arbitrary: c) simp_all

lemma set_game_field_frame [simp]: "hg_game_id (set_game_field kv g) = hg_game_id g"
  by (cases kv) (simp add: set_game_field_def)

lemma fold_game_frame [simp]: "hg_game_id (fold set_game_field us g) = hg_game_id g"
  by (induction us arbitrary: g) simp_all

lemma apply_updates_Inr:
  assumes "apply_updates L now payload c = Inr c'"
  shows "ch_character_id c' = ch_character_id c \<and> ch_owner_user_id c' = ch_owner_user_id c \<and>
    (map fst (ch_ability_scores c) = ABILITIES \<longrightarrow> map fst (ch_ability_scores c') = ABILITIES)"
  using assms unfolding apply_updates_def Let_def
  by (auto simp: bindR_eq_Inr scores_of_names split: option.splits)

lemma find_character_run:
  "find_character cid s = (of_option (KeyError cid) (get_character s cid), s)"
  by (simp add: find_character_def)

lemma find_game_run: "find_game gid s = (of_option (KeyError gid) (get_game s gid), s)"
  by (simp add: find_game_def)

lemma hosted_run:
  "hosted actor gid s = (case get_game s gid of None \<Rightarrow> (Inl (KeyError gid), s)
     | Some g \<Rightarrow> if runs_game actor g then (Inr g, s)
         else (Inl (PermissionError ''DM access to this game is required''), s))"
  by (simp add: hosted_def bindE_def find_game_run returnE_def ensureE_def liftE_def ensure_def
      split: option.splits)

lemma bind_hosted:
  assumes "bindE (hosted actor gid) f s = (r, t)"
  shows "t = s \<or> (\<exists>g. get_game s gid = Some g \<and> runs_game actor g \<and> f g s = (r, t))"
  using assms by (auto simp: bindE_def hosted_run split: option.splits if_splits)

lemma bind_liftE:
  assumes "bindE (liftE m) f s = (r, t)"
  shows "t = s \<or> (\<exists>x. m = Inr x \<and> f x s = (r, t))"
  using assms by (cases m) (auto simp: bindE_def)

lemma bind_find_character:
  assumes "bindE (find_character cid) f s = (r, t)"
  shows "t = s \<or> (\<exists>c. get_character s cid = Some c \<and> f c s = (r, t))"
  using assms by (cases "get_character s cid") (auto simp: bindE_def find_character_run)

lemma create_character_effect:
  assumes "create_character L now seed cid actor payload s = (r, t)"
  shows "t = s \<or> (\<exists>c. new_character L now seed cid (ua_user_id actor) payload = Inr c \<and>
    validate_character c = Inr () \<and> t = store_character c s)"
  using assms unfolding create_character_def
  by (auto dest!: bind_liftE simp: returnE_def)

lemma new_character_Inr:
  assumes "new_character L now seed cid owner payload = Inr c"
  shows "ch_character_id c = cid \<and> ch_owner_user_id c = owner \<and> map fst (ch_ability_scores c) = ABILITIES"
  using assms unfolding new_character_def Let_def
  by (auto simp: bindR_eq_Inr scores_of_names simp del: bindR_ensure)

lemma update_character_effect:
  assumes "update_character L now actor cid payload s = (r, t)"
  shows "t = s \<or> (\<exists>c c'. get_character s cid = Some c \<and> may_edit actor c \<and>
    apply_updates L now payload c = Inr c' \<and> validate_character c' = Inr () \<and> t = store_character c' s)"
  using assms unfolding update_character_def
  by (cases "get_character s cid")
    (auto simp: find_character_run bindE_run returnE_def dest!: bind_liftE split: if_splits)

lemma delete_character_effect:
  assumes "delete_character actor cid s = (r, t)"
  shows "t = s \<or> (\<exists>c. get_character s cid = Some c \<and> may_edit actor c \<and>
    t = s\<lparr>pt_characters := ddel (pt_characters s) cid\<rparr>)"
  using assms unfolding delete_character_def drop_character_def
  by (cases "get_character s cid") (auto simp: find_character_run bindE_run split: if_splits)

lemma bind_character_effect:
  assumes "bind_character_entity now actor cid w entity s = (r, t)"
  shows "t = s \<or> (\<exists>c. get_character s cid = Some c \<and> (is_admin actor \<or> ''DM'' \<in> roles_for actor w) \<and>
    t = store_character (c\<lparr>ch_world_id := JStr w, ch_entity_id := Some entity, ch_updated_at := now\<rparr>) s)"
proof -
  from bind_liftE [OF assms [unfolded bind_character_entity_def]] consider "t = s"
    | f where "is_admin actor \<or> ''DM'' \<in> roles_for actor w" "bindE (find_character cid) f s = (r, t)"
      "f = (\<lambda>c. bindE (liftE (hashable (ch_world_id c))) (\<lambda>_.
     bindE (ensureE (ch_world_id c \<in> {JNull, JStr w})
       (ValueError ''character is already assigned to another world'')) (\<lambda>_.
     bindE (ensureE (ch_entity_id c \<in> {None, Some entity})
       (ValueError ''character is already bound to another embodied entity'')) (\<lambda>_.
     let bound = c\<lparr>ch_world_id := JStr w, ch_entity_id := Some entity, ch_updated_at := now\<rparr> in
     bindE (updE (store_character bound)) (\<lambda>_.
     returnE bound)))))"
    by (auto simp: require_world_role_def split: if_splits)
  then show ?thesis
  proof cases
    case 2
    from bind_find_character [OF this(2)] show ?thesis
      unfolding 2(3) using 2(1) by (auto dest!: bind_liftE simp: Let_def returnE_def split: if_splits)
  qed simp
qed

lemma game_call_frames [simp, frame_simps]:
  "pt_characters (store_game g s) = pt_characters s"
  "pt_characters (store_session x s) = pt_characters s"
  "pt_games (store_session x s) = pt_games s" "pt_games (store_character c s) = pt_games s"
  by (simp_all add: store_game_def store_session_def store_character_def)

lemma create_game_effect:
  assumes "create_game L now gid actor payload s = (r, t)"
  shows "t = s \<or> (\<exists>g. hg_game_id g = gid \<and> t = store_game g s)"
proof -
  have "hg_game_id g = gid" if "new_game L now gid actor payload = Inr g" for g
    using that unfolding new_game_def Let_def by (auto simp: bindR_eq_Inr simp del: bindR_ensure)
  then show ?thesis
    using assms unfolding create_game_def by (auto dest!: bind_liftE simp: returnE_def)
qed

lemma update_game_effect:
  assumes "update_game L now actor gid payload s = (r, t)"
  shows "t = s \<or> (\<exists>g g'. get_game s gid = Some g \<and> runs_game actor g \<and> hg_game_id g' = hg_game_id g \<and>
    t = store_game g' s)"
proof -
  from bind_hosted [OF assms [unfolded update_game_def]] consider "t = s"
    | g us where "get_game s gid = Some g" "runs_game actor g"
      "t = store_game ((fold set_game_field us g)\<lparr>hg_updated_at := now\<rparr>) s"
    by (auto simp: Let_def returnE_def)
  then show ?thesis
  proof cases
    case 2
    have "hg_game_id ((fold set_game_field us g)\<lparr>hg_updated_at := now\<rparr>) = hg_game_id g" by simp
    with 2 show ?thesis by blast
  qed simp
qed

lemma delete_game_effect:
  assumes "delete_game actor gid s = (r, t)"
  shows "t = s \<or> (\<exists>g. get_game s gid = Some g \<and> runs_game actor g \<and>
    t = s\<lparr>pt_games := ddel (pt_games s) gid,
      pt_sessions := filter (\<lambda>(k, row). hs_game_id row \<noteq> gid) (pt_sessions s)\<rparr>)"
  using bind_hosted [OF assms [unfolded delete_game_def]] by (auto simp: drop_game_def split: if_splits)

lemma set_member_effect:
  assumes "set_member L clk ids actor gid payload s = (r, t)"
  shows "t = s \<or> (\<exists>g m. get_game s gid = Some g \<and> runs_game actor g \<and>
    new_member L (clk 0) ids s g payload = Inr m \<and>
    t = put_game gid (g\<lparr>hg_members := with_member (hg_members g) m, hg_updated_at := clk 1\<rparr>) s)"
proof -
  from bind_hosted [OF assms [unfolded set_member_def]] show ?thesis
  proof (elim disjE exE conjE)
    fix g assume g: "get_game s gid = Some g" "runs_game actor g"
      and run: "bindE (readE id) (\<lambda>s. bindE (liftE (new_member L (clk 0) ids s g payload)) (\<lambda>member.
        bindE (store_member (clk 1) gid member) (\<lambda>_.
        readE (\<lambda>s'. case get_game s' gid of Some g \<Rightarrow> g | None \<Rightarrow> g)))) s = (r, t)"
    have "bindE (store_member (clk 1) gid m) (\<lambda>_. readE f) s = (r, t) \<Longrightarrow>
      t = put_game gid (g\<lparr>hg_members := with_member (hg_members g) m, hg_updated_at := clk 1\<rparr>) s" for m f
      using g by (auto simp: store_member_def bindE_def readE_def liftE_def updE_def)
    with run g show ?thesis by (auto dest!: bind_liftE)
  qed simp
qed

lemma remove_member_effect:
  assumes "remove_member now actor gid uid s = (r, t)"
  shows "t = s \<or> (\<exists>g. get_game s gid = Some g \<and> runs_game actor g \<and> t = put_game gid
    (g\<lparr>hg_members := filter (\<lambda>row. mb_user_id row \<noteq> uid) (hg_members g), hg_updated_at := now\<rparr>) s)"
  using bind_hosted [OF assms [unfolded remove_member_def]] by (auto simp: drop_member_def)

lemma save_session_effect:
  assumes "save_session L dt now fresh actor gid payload sid s = (r, t)"
  shows "t = s \<or> (\<exists>x. t = store_session x s)"
  using bind_hosted [OF assms [unfolded save_session_def]] by (auto dest!: bind_liftE simp: returnE_def)

lemmas portal_effects = create_character_effect update_character_effect delete_character_effect
  bind_character_effect create_game_effect update_game_effect delete_game_effect set_member_effect
  remove_member_effect save_session_effect


definition portal_sound :: "portal_repo \<Rightarrow> bool" where
  "portal_sound s \<longleftrightarrow> portal_filed s \<and> characters.every legal_character s"

lemma portal_filed_puts:
  assumes "portal_filed s"
  shows "portal_filed (store_character c s)" "portal_filed (store_game g s)" "portal_filed (store_session x s)"
    "hg_game_id g = gid \<Longrightarrow> portal_filed (put_game gid g s)"
    "portal_filed (s\<lparr>pt_characters := ddel (pt_characters s) cid\<rparr>)"
    "portal_filed (s\<lparr>pt_games := ddel (pt_games s) gid, pt_sessions := filter P (pt_sessions s)\<rparr>)"
  using assms by (auto simp: portal_filed_def store_character_def store_game_def store_session_def
      put_game_def intro: keyed_dset keyed_ddel keyed_filter)

lemma game_key: "\<lbrakk>portal_filed s; get_game s gid = Some g\<rbrakk> \<Longrightarrow> hg_game_id g = gid"
  by (rule games.find_key)

lemma same_characters_ok:
  "\<lbrakk>portal_sound s; portal_filed t; pt_characters t = pt_characters s\<rbrakk> \<Longrightarrow> portal_sound t"
  unfolding portal_sound_def characters.every_def list_character_rows_def characters_of_def by simp

lemma store_character_ok: "\<lbrakk>portal_sound s; legal_character c\<rbrakk> \<Longrightarrow> portal_sound (store_character c s)"
  unfolding portal_sound_def using characters.every_save portal_filed_puts(1) by blast

lemma portal_sound_found: "\<lbrakk>portal_sound s; get_character s cid = Some c\<rbrakk> \<Longrightarrow> legal_character c"
  unfolding portal_sound_def using characters.every_found by blast

lemma legal_names: "legal_character c \<Longrightarrow> map fst (ch_ability_scores c) = ABILITIES"
  by (simp add: legal_character_def)

lemma put_game_characters [simp]: "pt_characters (put_game gid g s) = pt_characters s"
  by (simp add: put_game_def)

lemma portal_step_ok:
  assumes "portal_step L actor s t" and ok: "portal_sound s"
  shows "portal_sound t"
proof -
  have filed: "portal_filed s" using ok by (simp add: portal_sound_def)
  note same = same_characters_ok [OF ok]
  show ?thesis
    using assms(1)
  proof (cases rule: portal_step.cases)
    case (step_create_character cid now seed payload r)
    from create_character_effect [OF this(2)] ok show ?thesis
      by (auto intro!: store_character_ok dest: new_character_Inr validate_character_Inr)
  next
    case (step_update_character now cid payload r)
    from update_character_effect [OF this] show ?thesis
    proof (elim disjE exE conjE)
      fix c c' assume "get_character s cid = Some c" and changed: "apply_updates L now payload c = Inr c'"
        and valid: "validate_character c' = Inr ()" and t: "t = store_character c' s"
      then have "map fst (ch_ability_scores c) = ABILITIES" using portal_sound_found [OF ok] legal_names by blast
      with apply_updates_Inr [OF changed] have "legal_character c'" using validate_character_Inr [OF valid] by blast
      then show ?thesis unfolding t by (rule store_character_ok [OF ok])
    qed (use ok in simp)
  next
    case (step_delete_character cid r)
    have "portal_sound (s\<lparr>pt_characters := ddel (pt_characters s) cid\<rparr>)"
      using ok portal_filed_puts(5) [OF filed, of cid] unfolding portal_sound_def
      by (auto simp: characters.every_find get_character_def)
    with delete_character_effect [OF step_delete_character] ok show ?thesis by auto
  next
    case (step_bind_character now cid w entity r)
    from bind_character_effect [OF this] consider "t = s" | c where "get_character s cid = Some c"
      "t = store_character (c\<lparr>ch_world_id := JStr w, ch_entity_id := Some entity, ch_updated_at := now\<rparr>) s"
      by blast
    then show ?thesis
    proof cases
      case 2
      then have "legal_character c" using portal_sound_found [OF ok] by blast
      then show ?thesis unfolding 2(2) by (intro store_character_ok [OF ok]) (simp add: legal_character_def)
    qed (use ok in simp)
  next
    case (step_create_game gid now payload r)
    from create_game_effect [OF this(2)] ok filed show ?thesis
      by (auto intro: same portal_filed_puts [OF filed])
  next
    case (step_update_game now gid payload r)
    from update_game_effect [OF this] ok filed show ?thesis
      by (auto intro: same portal_filed_puts [OF filed])
  next
    case (step_delete_game gid r)
    from delete_game_effect [OF this] ok filed show ?thesis
      by (auto intro!: same portal_filed_puts(6) [OF filed])
  next
    case (step_set_member clk ids gid payload r)
    from set_member_effect [OF this] ok filed show ?thesis
      by (auto intro!: same portal_filed_puts(4) [OF filed] dest: game_key [OF filed])
  next
    case (step_remove_member now gid uid r)
    from remove_member_effect [OF this] ok filed show ?thesis
      by (auto intro!: same portal_filed_puts(4) [OF filed] dest: game_key [OF filed])
  next
    case (step_save_session dt now fresh gid payload sid r)
    from save_session_effect [OF this] ok filed show ?thesis
      by (auto intro: same portal_filed_puts [OF filed])
  qed
qed

lemma empty_portal_sound: "portal_sound empty_portal"
  by (simp add: portal_sound_def portal_filed_def empty_portal_def characters.every_def
      list_character_rows_def characters_of_def)

lemma portal_reachable_ok: "portal_reachable L s \<Longrightarrow> portal_sound s"
  by (induction rule: portal_reachable.induct) (auto intro: empty_portal_sound portal_step_ok)

text \<open>
  Although updates are stored without validation by the model class, every character of a
  reachable portal is legal: a name that is not blank, a level from 1 to 20, hit points between
  0 and a positive maximum, and exactly the six abilities with scores from 1 to 30.
\<close>

theorem characters_stay_legal:
  assumes "portal_reachable L s"
  shows "\<forall>c\<in>set (list_character_rows s). legal_character c"
  using portal_reachable_ok [OF assms] by (simp add: portal_sound_def characters.every_def)

text \<open>
  C17. A call by an actor who is not an administrator leaves the characters of other users alone,
  except that a Dungeon Master of a world may bind one to that world and to an entity; and it
  leaves every game alone that the actor neither hosts nor co-hosts.
\<close>

theorem records_are_owned:
  assumes reachable: "portal_reachable L s" and step: "portal_step L actor s t"
    and plain: "\<not> is_admin actor"
  shows "(\<forall>k c. get_character s k = Some c \<longrightarrow> ch_owner_user_id c \<noteq> ua_user_id actor \<longrightarrow>
      get_character t k = Some c \<or>
      (\<exists>w e n. get_character t k = Some (c\<lparr>ch_world_id := JStr w, ch_entity_id := Some e, ch_updated_at := n\<rparr>) \<and>
        ''DM'' \<in> roles_for actor w)) \<and>
    (\<forall>k g. get_game s k = Some g \<longrightarrow> \<not> runs_game actor g \<longrightarrow> get_game t k = Some g)"
proof -
  have ok: "portal_sound s" by (rule portal_reachable_ok [OF reachable])
  then have filed: "portal_filed s" by (simp add: portal_sound_def)
  note find = characters.find_save games.find_save characters.find_key [OF filed] games.find_key [OF filed]
  show ?thesis
    using step
  proof (cases rule: portal_step.cases)
    case (step_create_character cid now seed payload r)
    from create_character_effect [OF this(2)] this(1) show ?thesis
      by (auto simp: find get_game_def dest!: new_character_Inr)
  next
    case (step_update_character now cid payload r)
    from update_character_effect [OF this] plain show ?thesis
      by (auto simp: find get_game_def may_edit_def dest!: apply_updates_Inr)
  next
    case (step_delete_character cid r)
    from delete_character_effect [OF this] plain show ?thesis
      by (auto simp: get_character_def get_game_def may_edit_def)
  next
    case (step_bind_character now cid w entity r)
    let ?f = "\<lambda>c. c\<lparr>ch_world_id := JStr w, ch_entity_id := Some entity, ch_updated_at := now\<rparr>"
    from bind_character_effect [OF step_bind_character] plain consider "t = s" | c where "get_character s cid = Some c"
      "''DM'' \<in> roles_for actor w" "t = store_character (?f c) s" by blast
    then show ?thesis
    proof cases
      case 2
      have "ch_character_id (?f c) = cid" using find(3) [OF 2(1)] by simp
      then have "get_character t k = (if k = cid then Some (?f c) else get_character s k)" for k
        unfolding 2(3) characters.find_save by simp
      moreover have "get_game t = get_game s" by (simp add: 2(3) get_game_def fun_eq_iff)
      ultimately show ?thesis using 2(1,2) by (metis option.inject)
    qed simp
  next
    case (step_create_game gid now payload r)
    from create_game_effect [OF this(2)] this(1) show ?thesis
      by (auto simp: find get_character_def)
  next
    case (step_update_game now gid payload r)
    from update_game_effect [OF this] show ?thesis
      by (auto simp: find get_character_def)
  next
    case (step_delete_game gid r)
    from delete_game_effect [OF this] show ?thesis
      by (auto simp: get_game_def get_character_def)
  next
    case (step_set_member clk ids gid payload r)
    from set_member_effect [OF this] show ?thesis
      by (auto simp: get_game_def get_character_def put_game_def)
  next
    case (step_remove_member now gid uid r)
    from remove_member_effect [OF this] show ?thesis
      by (auto simp: get_game_def get_character_def put_game_def)
  next
    case (step_save_session dt now fresh gid payload sid r)
    from save_session_effect [OF this] show ?thesis
      by (auto simp: get_game_def get_character_def)
  qed
qed


section \<open>Generated characters\<close>

lemma rng_choice_mem:
  assumes "lawful_lib L" and "xs \<noteq> []"
  shows "fst (rng_choice L xs rng) \<in> set xs"
proof -
  obtain i rng' where i: "rng_int L rng 0 (int (length xs) - 1) = (i, rng')" by (rule prod.exhaust)
  have "(0 :: int) \<le> int (length xs) - 1" using assms(2) by (cases xs) auto
  from lawful_rng [OF assms(1) this, of rng] i have "0 \<le> i" "i < int (length xs)" by simp_all
  then show ?thesis by (simp add: rng_choice_def i)
qed

lemma rng_shuffle_mset:
  "\<lbrakk>lawful_lib L; i < length xs\<rbrakk> \<Longrightarrow> mset (fst (rng_shuffle L i xs rng)) = mset xs"
proof (induction L i xs rng rule: rng_shuffle.induct)
  case (1 L xs rng)
  show ?case by simp
next
  case (2 L i xs rng)
  obtain j rng' where j: "rng_int L rng 0 (int (Suc i)) = (j, rng')" by (rule prod.exhaust)
  from lawful_rng [OF 2(2), of 0 "int (Suc i)" rng] j have "0 \<le> j" "j \<le> int (Suc i)" by simp_all
  with 2(3) have "nat j < length xs" by linarith
  with 2(3) have "mset (xs[Suc i := xs ! nat j, nat j := xs ! Suc i]) = mset xs" by (simp add: mset_swap)
  moreover have "i < length (xs[Suc i := xs ! nat j, nat j := xs ! Suc i])" using 2(3) by simp
  ultimately show ?case using 2(1) [OF j [symmetric] refl 2(2)] by (simp add: j Let_def del: of_nat_Suc)
qed

lemma generated_form:
  assumes "lawful_lib L"
  obtains name cls species background scores m armor where
    "generated L seed = [(''name'', JStr name), (''class_name'', JStr cls), (''species'', JStr species),
      (''background'', JStr background), (''ability_scores'', JDict (zip ABILITIES (map JInt scores))),
      (''maximum_hit_points'', JInt m), (''current_hit_points'', JInt m), (''armor_class'', JInt armor),
      (''speed'', JInt 30), (''sheet'', JDict [(''generation_seed'', JInt seed)])]"
    and "name \<in> set adventurer_names" and "mset scores = mset standard_scores"
    and "8 \<le> m" "m \<le> 14" "11 \<le> armor" "armor \<le> 16"
proof -
  obtain cls r1 where c1: "rng_choice L CLASSES (rng_new L seed) = (cls, r1)" by (rule prod.exhaust)
  obtain species r2 where c2: "rng_choice L SPECIES r1 = (species, r2)" by (rule prod.exhaust)
  obtain background r3 where c3: "rng_choice L BACKGROUNDS r2 = (background, r3)" by (rule prod.exhaust)
  obtain scores r4 where c4: "rng_shuffle L (length standard_scores - 1) standard_scores r3 = (scores, r4)"
    by (rule prod.exhaust)
  obtain m r5 where c5: "rng_int L r4 8 14 = (m, r5)" by (rule prod.exhaust)
  obtain name r6 where c6: "rng_choice L adventurer_names r5 = (name, r6)" by (rule prod.exhaust)
  obtain armor r7 where c7: "rng_int L r6 11 16 = (armor, r7)" by (rule prod.exhaust)
  have "name \<in> set adventurer_names"
    using rng_choice_mem [OF assms, of adventurer_names r5] c6 by (simp add: adventurer_names_def)
  moreover have "mset scores = mset standard_scores"
    using rng_shuffle_mset [OF assms, of "length standard_scores - 1" standard_scores r3] c4
    by (simp add: standard_scores_def)
  moreover have "8 \<le> m" "m \<le> 14" "11 \<le> armor" "armor \<le> 16"
    using lawful_rng [OF assms, of 8 14 r4] lawful_rng [OF assms, of 11 16 r6] c5 c7 by simp_all
  ultimately show ?thesis
    by (intro that [of name cls species background scores m armor]) (simp_all add: generated_def c1 c2 c3 c4 c5 c6 c7 del: One_nat_def)
qed

lemma scores_of_zip:
  assumes "length scores = 6"
  shows "scores_of (JDict (zip ABILITIES (map JInt scores))) = Inr (zip ABILITIES scores)"
proof -
  obtain a b c d e f where "scores = [a, b, c, d, e, f]"
    using assms by (auto simp: numeral_eq_Suc length_Suc_conv)
  then show ?thesis by (simp add: scores_of_def ABILITIES_def get_int_def dget_or_def)
qed

lemma adventurer_names_plain: "n \<in> set adventurer_names \<Longrightarrow> n \<noteq> [] \<and> strip n = n"
proof -
  have "list_all (\<lambda>n. n \<noteq> [] \<and> strip n = n) adventurer_names" by code_simp
  then show "n \<in> set adventurer_names \<Longrightarrow> n \<noteq> [] \<and> strip n = n" by (simp add: list_all_iff)
qed

text \<open>
  Asking for a generated character always succeeds for a player: whatever the seed, the
  character is stored under its owner, is of level 1, has between 8 and 14 hit points, an armour
  class from 11 to 16 and the standard scores 15, 14, 13, 12, 10 and 8 in some order.
\<close>

theorem generated_character_is_legal:
  assumes lawful: "lawful_lib L" and player: "is_admin actor \<or> has_player_role actor"
  shows "\<exists>c m armor. create_character L now n cid actor
      [(''creation_method'', JStr ''GENERATED''), (''seed'', JInt seed)] s = (Inr c, store_character c s) \<and>
    legal_character c \<and> ch_owner_user_id c = ua_user_id actor \<and> ch_character_id c = cid \<and>
    ch_level c = JInt 1 \<and> mset (map snd (ch_ability_scores c)) = {#15, 14, 13, 12, 10, 8#} \<and>
    ch_maximum_hit_points c = JInt m \<and> ch_current_hit_points c = JInt m \<and> 8 \<le> m \<and> m \<le> 14 \<and>
    ch_armor_class c = JInt armor \<and> 11 \<le> armor \<and> armor \<le> 16"
proof -
  obtain name cls species background scores m armor where
    gen: "generated L seed = [(''name'', JStr name), (''class_name'', JStr cls), (''species'', JStr species),
      (''background'', JStr background), (''ability_scores'', JDict (zip ABILITIES (map JInt scores))),
      (''maximum_hit_points'', JInt m), (''current_hit_points'', JInt m), (''armor_class'', JInt armor),
      (''speed'', JInt 30), (''sheet'', JDict [(''generation_seed'', JInt seed)])]"
    and name: "name \<in> set adventurer_names" and scores: "mset scores = mset standard_scores"
    and m: "8 \<le> m" "m \<le> 14" and armor: "11 \<le> armor" "armor \<le> 16"
    using generated_form [OF lawful] by metis
  have "size (mset scores) = 6" unfolding scores by (simp add: standard_scores_def)
  then have six: "length scores = 6" by simp
  have named: "upper ''GENERATED'' = ''GENERATED''" "upper ''ALIVE'' = ''ALIVE''" by code_simp+
  let ?payload = "[(''creation_method'', JStr ''GENERATED''), (''seed'', JInt seed)]"
  note plain = adventurer_names_plain [OF name]
  obtain c where c: "new_character L now n cid (ua_user_id actor) ?payload = Inr c"
    and fields: "ch_name c = JStr name" "ch_maximum_hit_points c = JInt m" "ch_current_hit_points c = JInt m"
      "ch_level c = JInt 1" "ch_armor_class c = JInt armor" "ch_ability_scores c = zip ABILITIES scores"
    using plain by (simp add: new_character_def named gen dget_or_def Let_def scores_of_zip [OF six]
        get_int_def optional_text_def py_or_def)
  have unzipped: "map snd (zip ABILITIES scores) = scores" using six by (simp add: ABILITIES_def)
  have "set scores = {15, 14, 13, 12, 10, 8}"
    using scores by (metis set_mset_mset standard_scores_def list.set(1,2) insert_commute)
  then have range: "\<not> list_ex (\<lambda>(_, score). score < 1 \<or> score > 30) (zip ABILITIES scores)"
    by (auto simp: list_ex_iff dest!: set_zip_rightD)
  have valid: "validate_character c = Inr ()"
    using plain range m by (simp add: validate_character_def fields hit_points_valid_def py_num_def py_strip_def)
  have "legal_character c"
    by (rule validate_character_Inr [OF valid]) (use new_character_Inr [OF c] in simp)
  moreover have "create_character L now n cid actor ?payload s = (Inr c, store_character c s)"
    using player c valid by (simp add: create_character_def require_player_def ensure_def returnE_def)
  moreover have "mset (map snd (ch_ability_scores c)) = {#15, 14, 13, 12, 10, 8#}"
    unfolding fields unzipped scores by (simp add: standard_scores_def)
  ultimately show ?thesis using fields m armor new_character_Inr [OF c] by blast
qed

section \<open>Sessions of a game\<close>

text \<open>
  Listing the sessions of a game needs membership, changes nothing and shows each session of
  the game once, in the stored order; the notes of the Dungeon Master are in the answer only for
  an administrator, the host and a co-host, everybody else sees the same rows without them.
\<close>

theorem dm_notes_are_private:
  assumes "list_sessions actor gid s = (Inr rows, t)"
  shows "t = s \<and> (\<exists>game. get_game s gid = Some game \<and>
    (runs_game actor game \<or> ua_user_id actor \<in> mb_user_id ` set (hg_members game)) \<and>
    (if runs_game actor game then rows = sessions_of s gid
     else rows = map (\<lambda>row. row\<lparr>hs_dm_notes := None\<rparr>) (sessions_of s gid)))"
proof (cases "get_game s gid")
  case None
  then show ?thesis using assms by (simp add: list_sessions_def find_game_run bindE_def)
next
  case (Some game)
  then show ?thesis
    using assms unfolding list_sessions_def
    by (auto simp: find_game_run bindE_run Let_def returnE_def runs_game_def list_ex_iff split: if_splits
        intro: rev_image_eqI)
qed

text \<open>
  C18. A host can take over a session of a game that is not theirs: saving under the identifier
  of a session of another game finds no such session in the own game, and the new session then
  replaces the other game's one, which no longer lists it.
\<close>

theorem session_is_taken_over:
  assumes mine: "get_game s gid = Some game" "runs_game actor game"
    and filed: "portal_filed s" and theirs: "dget (pt_sessions s) sid = Some row" "hs_game_id row \<noteq> gid"
  shows "\<exists>row' t. save_session L dt now fresh actor gid [] (Some sid) s = (Inr row', t) \<and>
    dget (pt_sessions t) sid = Some row' \<and> hs_game_id row' = gid \<and> hs_title row' = ''Game Session'' \<and>
    sid \<notin> hs_session_id ` set (sessions_of t (hs_game_id row))"
proof -
  have unknown: "List.find (\<lambda>r. Some (hs_session_id r) = Some sid) (sessions_of s gid) = None"
    using sessions.rows_found [OF filed] theirs
    by (auto simp: find_None_iff sessions_of_def all_sessions_def)
  obtain row' where row': "session_from L dt now sid gid None [] = Inr row'"
    and new: "hs_session_id row' = sid" "hs_game_id row' = gid" "hs_title row' = ''Game Session''"
    by (simp add: session_from_def held_or_def dget_or_def Let_def)
  have saved: "save_session L dt now fresh actor gid [] (Some sid) s = (Inr row', store_session row' s)"
    using mine unknown row'
    by (simp add: save_session_def bindE_run hosted_run returnE_def)
  have held: "dget (pt_sessions (store_session row' s)) sid = Some row'"
    using sessions.find_save [of row' s sid] new by simp
  have filed': "portal_filed (store_session row' s)" by (rule sessions.filed_save [OF filed])
  have "x = row'" if "x \<in> set (all_sessions (store_session row' s))" "hs_session_id x = sid" for x
    using sessions.rows_found [OF filed'] that held by auto
  then have "hs_game_id x = gid" if "x \<in> set (all_sessions (store_session row' s))" "hs_session_id x = sid" for x
    using that new(2) by blast
  then have "sid \<notin> hs_session_id ` set (sessions_of (store_session row' s) (hs_game_id row))"
    using theirs(2) unfolding sessions_of_def all_sessions_def by fastforce
  with saved held new show ?thesis by blast
qed


section \<open>A concrete portal\<close>

definition plain_player :: user_account where
  "plain_player = fixture_admin\<lparr>ua_user_id := ''u-2'', ua_username := ''mara'', ua_global_roles := {},
     ua_world_roles := [\<lparr>wg_world_id = ''w-1'', wg_roles = {''PLAYER''}\<rparr>]\<rparr>"

definition plain_dm :: user_account where
  "plain_dm = plain_player\<lparr>ua_user_id := ''u-3'',
     ua_world_roles := [\<lparr>wg_world_id = ''w-1'', wg_roles = {''DM''}\<rparr>]\<rparr>"

definition portal1 :: portal_repo where
  "portal1 = snd (create_character ref_lib 1 7 ''c-1'' fixture_admin [(''name'', JStr ''Ada'')] empty_portal)"

definition portal2 :: portal_repo where
  "portal2 = snd (create_game ref_lib 2 ''g-1'' fixture_admin
     [(''world_id'', JStr ''w-1''), (''name'', JStr ''One'')] portal1)"

definition portal3 :: portal_repo where
  "portal3 = snd (create_game ref_lib 3 ''g-2'' plain_dm
     [(''world_id'', JStr ''w-1''), (''name'', JStr ''Two'')] portal2)"

definition portal4 :: portal_repo where
  "portal4 = snd (save_session ref_lib (\<lambda>_. None) 4 ''x-1'' fixture_admin ''g-1''
     [(''title'', JStr ''Start'')] None portal3)"

lemma portal4_facts:
  "(case get_character portal4 ''c-1'' of None \<Rightarrow> False | Some c \<Rightarrow> ch_owner_user_id c = ''u-1'') \<and>
   (case get_game portal4 ''g-1'' of None \<Rightarrow> False | Some g \<Rightarrow> \<not> runs_game plain_dm g \<and> \<not> runs_game plain_player g) \<and>
   (case get_game portal4 ''g-2'' of None \<Rightarrow> False | Some g \<Rightarrow> runs_game plain_dm g) \<and>
   (case dget (pt_sessions portal4) ''x-1'' of None \<Rightarrow> False | Some x \<Rightarrow> hs_game_id x = ''g-1'')"
  by code_simp

lemma portal4_reachable: "portal_reachable ref_lib portal4"
proof -
  have free: "get_character empty_portal ''c-1'' = None" "get_game portal1 ''g-1'' = None"
    "get_game portal2 ''g-2'' = None"
    by code_simp+
  have "portal_reachable ref_lib portal1"
    unfolding portal1_def by (rule portal_next [OF portal_start step_create_character [OF free(1)]])
      (rule prod.collapse [symmetric])
  from portal_next [OF this step_create_game [OF free(2)]] have "portal_reachable ref_lib portal2"
    unfolding portal2_def by (metis prod.collapse)
  from portal_next [OF this step_create_game [OF free(3)]] have "portal_reachable ref_lib portal3"
    unfolding portal3_def by (metis prod.collapse)
  from portal_next [OF this step_save_session] show ?thesis
    unfolding portal4_def by (metis prod.collapse)
qed

theorem characters_stay_legal_witness:
  "\<exists>c\<in>set (list_character_rows portal4). ch_owner_user_id c = ''u-1'' \<and> legal_character c"
proof -
  obtain c where c: "get_character portal4 ''c-1'' = Some c" "ch_owner_user_id c = ''u-1''"
    using portal4_facts by (auto split: option.splits)
  have filed: "portal_filed portal4" using portal_reachable_ok [OF portal4_reachable] by (simp add: portal_sound_def)
  then have "ch_character_id c = ''c-1''" using c(1) by (rule characters.find_key)
  then have "c \<in> set (list_character_rows portal4)" by (simp add: characters.rows_found [OF filed] c(1))
  with characters_stay_legal [OF portal4_reachable] c(2) show ?thesis by (intro bexI [of _ c] conjI) simp_all
qed

theorem records_are_owned_witness:
  "\<exists>c g. get_character portal4 ''c-1'' = Some c \<and> get_game portal4 ''g-1'' = Some g \<and>
     get_game (snd (delete_game plain_player ''g-1'' portal4)) ''g-1'' = Some g"
proof -
  obtain c g where c: "get_character portal4 ''c-1'' = Some c"
    and g: "get_game portal4 ''g-1'' = Some g" "\<not> runs_game plain_player g"
    using portal4_facts by (auto split: option.splits)
  have "\<not> is_admin plain_player" by (simp add: is_admin_def plain_player_def)
  moreover have "portal_step ref_lib plain_player portal4 (snd (delete_game plain_player ''g-1'' portal4))"
    by (rule step_delete_game) (rule prod.collapse [symmetric])
  ultimately show ?thesis using records_are_owned [OF portal4_reachable] c g by blast
qed

theorem generated_character_is_legal_witness:
  "\<exists>c s. create_character ref_lib 9 0 ''c-9'' fixture_admin
     [(''creation_method'', JStr ''GENERATED''), (''seed'', JInt 42)] empty_portal = (Inr c, s) \<and>
   legal_character c \<and> ch_owner_user_id c = ''u-1''"
proof -
  have "is_admin fixture_admin \<or> has_player_role fixture_admin" "ua_user_id fixture_admin = ''u-1''"
    by (simp_all add: is_admin_def fixture_admin_def)
  with generated_character_is_legal [OF lawful_ref_lib this(1), of 9 0 "''c-9''" 42 empty_portal]
  show ?thesis by metis
qed

theorem dm_notes_are_private_witness:
  "\<exists>rows. list_sessions fixture_admin ''g-1'' portal4 = (Inr rows, portal4) \<and>
     rows = sessions_of portal4 ''g-1''"
proof -
  have admin: "is_admin fixture_admin" by (simp add: is_admin_def fixture_admin_def)
  obtain g where "get_game portal4 ''g-1'' = Some g"
    using portal4_facts by (auto split: option.splits)
  then obtain rows t where "list_sessions fixture_admin ''g-1'' portal4 = (Inr rows, t)"
    using admin by (simp add: list_sessions_def find_game_run bindE_run Let_def returnE_def)
  with dm_notes_are_private [OF this] admin show ?thesis by (auto simp: runs_game_def)
qed

theorem session_is_taken_over_witness:
  "\<exists>row t. save_session ref_lib (\<lambda>_. None) 5 ''x-2'' plain_dm ''g-2'' [] (Some ''x-1'') portal4 = (Inr row, t) \<and>
     ''x-1'' \<notin> hs_session_id ` set (sessions_of t ''g-1'')"
proof -
  obtain g where g: "get_game portal4 ''g-2'' = Some g" "runs_game plain_dm g"
    using portal4_facts by (auto split: option.splits)
  obtain x where x: "dget (pt_sessions portal4) ''x-1'' = Some x" "hs_game_id x = ''g-1''"
    using portal4_facts by (auto split: option.splits)
  have "portal_filed portal4" using portal_reachable_ok [OF portal4_reachable] by (simp add: portal_sound_def)
  with x(2) have "hs_game_id x \<noteq> ''g-2''" "portal_filed portal4" by simp_all
  from session_is_taken_over [OF g this(2) x(1) this(1), where L = ref_lib and dt = "\<lambda>_. None"
      and now = 5 and fresh = "''x-2''"] show ?thesis unfolding x(2) by blast
qed

end
