(* ===== verification/Cognition.thy ===== *)
theory Cognition
  imports Contracts Schema "HOL-Library.Product_Lexorder"
begin

text \<open>
  What the modules of \<open>cognition/\<close> share: Python's \<open>==\<close> and \<open><\<close> on JSON values, rounding
  to decimal places as \<open>round\<close> does it, the text of a JSON document, and the records of
  \<open>cognition/models.py\<close>.
\<close>

section \<open>Comparisons\<close>

definition num_val :: "jval \<Rightarrow> rat option" where
  "num_val v = (case num_of v of None \<Rightarrow> None | Some (Inl n) \<Rightarrow> Some (of_int n) | Some (Inr q) \<Rightarrow> Some q)"

text \<open>\<open>left == right\<close>: numbers by value whatever their type, containers element by element.\<close>

fun py_eq :: "jval \<Rightarrow> jval \<Rightarrow> bool"
  and py_eq_list :: "jval list \<Rightarrow> jval list \<Rightarrow> bool"
  and py_eq_dict :: "jdict \<Rightarrow> jdict \<Rightarrow> bool" where
  "py_eq (JStr s) w = (w = JStr s)"
| "py_eq JNull w = (w = JNull)"
| "py_eq (JList xs) w = (case w of JList ys \<Rightarrow> py_eq_list xs ys | _ \<Rightarrow> False)"
| "py_eq (JDict d) w = (case w of JDict e \<Rightarrow> length d = length e \<and> py_eq_dict d e | _ \<Rightarrow> False)"
| "py_eq (JBool b) w = (num_val w = Some (if b then 1 else 0))"
| "py_eq (JInt n) w = (num_val w = Some (of_int n))"
| "py_eq (JFloat q) w = (num_val w = Some q)"
| "py_eq_list [] ys = (ys = [])"
| "py_eq_list (x # xs) ys = (case ys of [] \<Rightarrow> False | y # ys' \<Rightarrow> py_eq x y \<and> py_eq_list xs ys')"
| "py_eq_dict [] e = True"
| "py_eq_dict ((k, v) # d) e =
     ((case dget e k of None \<Rightarrow> False | Some w \<Rightarrow> py_eq v w) \<and> py_eq_dict d e)"

text \<open>\<open>left < right\<close>, \<open>None\<close> where Python raises \<open>TypeError\<close>.\<close>

fun py_less :: "jval \<Rightarrow> jval \<Rightarrow> bool option"
  and py_less_list :: "jval list \<Rightarrow> jval list \<Rightarrow> bool option" where
  "py_less (JStr s) w = (case w of JStr t \<Rightarrow> Some (s < t) | _ \<Rightarrow> None)"
| "py_less (JList xs) w = (case w of JList ys \<Rightarrow> py_less_list xs ys | _ \<Rightarrow> None)"
| "py_less JNull w = None"
| "py_less (JDict d) w = None"
| "py_less (JBool b) w = map_option ((<) (if b then 1 else 0)) (num_val w)"
| "py_less (JInt n) w = map_option ((<) (of_int n)) (num_val w)"
| "py_less (JFloat q) w = map_option ((<) q) (num_val w)"
| "py_less_list [] ys = Some (ys \<noteq> [])"
| "py_less_list (x # xs) ys = (case ys of
      [] \<Rightarrow> Some False
    | y # ys' \<Rightarrow> if py_eq x y then py_less_list xs ys' else py_less x y)"

section \<open>Decimal rounding\<close>

definition round_to :: "pylib \<Rightarrow> nat \<Rightarrow> rat \<Rightarrow> rat" where
  "round_to L n q = fl L (of_int (round_half_even (q * 10 ^ n)) / 10 ^ n)"

lemma round_to_6: "round_to L 6 q = round6 L q"
  by (simp add: round_to_def round6_def)

lemma round_half_even_mono: "p \<le> q \<Longrightarrow> round_half_even p \<le> round_half_even q"
proof -
  assume le: "p \<le> q"
  show ?thesis
  proof (cases "\<lfloor>p\<rfloor> = \<lfloor>q\<rfloor>")
    case True
    then show ?thesis using le by (auto simp: round_half_even_def Let_def)
  next
    case False
    then have lt: "\<lfloor>p\<rfloor> + 1 \<le> \<lfloor>q\<rfloor>" using floor_mono [OF le] by linarith
    have "round_half_even p \<le> \<lfloor>p\<rfloor> + 1" by (auto simp: round_half_even_def Let_def)
    moreover have "\<lfloor>q\<rfloor> \<le> round_half_even q" by (auto simp: round_half_even_def Let_def)
    ultimately show ?thesis using lt by linarith
  qed
qed

lemma round_to_mono: "\<lbrakk>lawful_lib L; p \<le> q\<rbrakk> \<Longrightarrow> round_to L n p \<le> round_to L n q"
  unfolding round_to_def
  by (intro lawful_fl_mono divide_right_mono) (simp_all add: round_half_even_mono mult_right_mono)

lemma round_to_0 [simp]: "lawful_lib L \<Longrightarrow> round_to L n 0 = 0"
proof -
  have "round_half_even 0 = 0" using round_half_even_of_int [of 0] by simp
  then show "lawful_lib L \<Longrightarrow> round_to L n 0 = 0" by (simp add: round_to_def)
qed

lemma round6_mono: "\<lbrakk>lawful_lib L; p \<le> q\<rbrakk> \<Longrightarrow> round6 L p \<le> round6 L q"
  using round_to_mono [of L p q 6] by (simp add: round_to_6)

lemma round6_consts [simp]: "lawful_lib L \<Longrightarrow> round6 L 0 = 0" "lawful_lib L \<Longrightarrow> round6 L 1 = 1"
proof -
  show "lawful_lib L \<Longrightarrow> round6 L 0 = 0" using round_to_0 [of L 6] by (simp add: round_to_6)
  have "round_half_even 1000000 = 1000000" using round_half_even_of_int [of 1000000] by simp
  then show "lawful_lib L \<Longrightarrow> round6 L 1 = 1" by (simp add: round6_def)
qed

text \<open>\<open>max(lo, min(hi, x))\<close>\<close>

definition clamp :: "rat \<Rightarrow> rat \<Rightarrow> rat \<Rightarrow> rat" where
  "clamp lo hi x = max lo (min hi x)"

lemma clamp_bounds: "lo \<le> hi \<Longrightarrow> lo \<le> clamp lo hi x \<and> clamp lo hi x \<le> hi"
  by (simp add: clamp_def)

section \<open>Texts\<close>

text \<open>The format \<open>.6f\<close> of a value that is not negative.\<close>

definition pad6 :: "string \<Rightarrow> string" where
  "pad6 s = replicate (6 - length s) CHR ''0'' @ s"

definition fixed6 :: "rat \<Rightarrow> string" where
  "fixed6 q = (let n = nat (round_half_even (q * 1000000))
     in nat_str (n div 1000000) @ CHR ''.'' # pad6 (nat_str (n mod 1000000)))"

definition hex_digit :: "nat \<Rightarrow> char" where
  "hex_digit n = (if n < 10 then char_of (48 + n) else char_of (87 + n))"

definition json_char :: "char \<Rightarrow> string" where
  "json_char c = (let n = (of_char c :: nat) in
     if n = 34 then [char_of (92 :: nat), char_of (34 :: nat)]
     else if n = 92 then [char_of (92 :: nat), char_of (92 :: nat)]
     else if n = 10 then [char_of (92 :: nat), CHR ''n'']
     else if n = 13 then [char_of (92 :: nat), CHR ''r'']
     else if n = 9 then [char_of (92 :: nat), CHR ''t'']
     else if n = 8 then [char_of (92 :: nat), CHR ''b'']
     else if n = 12 then [char_of (92 :: nat), CHR ''f'']
     else if n < 32 \<or> n > 126
     then [char_of (92 :: nat), CHR ''u'', CHR ''0'', CHR ''0'', hex_digit (n div 16), hex_digit (n mod 16)]
     else [c])"

definition json_string :: "string \<Rightarrow> string" where
  "json_string s = char_of (34 :: nat) # concat (map json_char s) @ [char_of (34 :: nat)]"

fun join_with :: "string \<Rightarrow> string list \<Rightarrow> string" where
  "join_with sep [] = []"
| "join_with sep [s] = s"
| "join_with sep (s # t # ts) = s @ sep @ join_with sep (t # ts)"

text \<open>\<open>json.dumps(value, separators=(",", ":"))\<close>; the text of a float is that of \<open>repr\<close>.\<close>

fun json_write :: "pylib \<Rightarrow> jval \<Rightarrow> string" where
  "json_write L JNull = ''null''"
| "json_write L (JBool b) = (if b then ''true'' else ''false'')"
| "json_write L (JInt n) = int_str n"
| "json_write L (JFloat q) = py_repr L (JFloat q)"
| "json_write L (JStr s) = json_string s"
| "json_write L (JList xs) = ''['' @ join_with '','' (map (json_write L) xs) @ '']''"
| "json_write L (JDict d) =
     ''{'' @ join_with '','' (map (\<lambda>p. json_string (fst p) @ '':'' @ json_write L (snd p)) d) @ ''}''"

definition json_text :: "pylib \<Rightarrow> jval \<Rightarrow> string" where
  "json_text L v = json_write L (json_canon v)"

section \<open>Records\<close>

record observation =
  ob_observation_id :: uuid
  ob_observer_entity_id :: uuid
  ob_source_event_id :: uuid
  ob_perceived_payload :: jdict
  ob_confidence :: rat
  ob_observed_at :: int

record belief =
  bl_belief_id :: uuid
  bl_entity_id :: uuid
  bl_subject_type :: string
  bl_subject_id :: "uuid option"
  bl_predicate :: string
  bl_value :: jval
  bl_confidence :: rat
  bl_source_observation_id :: "uuid option"
  bl_contradicted_by_event_id :: "uuid option"
  bl_updated_at :: int

record memory =
  mm_memory_id :: uuid
  mm_entity_id :: uuid
  mm_source_event_id :: uuid
  mm_source_observation_id :: "uuid option"
  mm_summary :: string
  mm_emotional_weight :: rat
  mm_importance :: rat
  mm_recall_strength :: rat
  mm_visibility :: string
  mm_created_at :: int

datatype evidence_type = DIRECT_OBSERVATION | TESTIMONY | DOCUMENT | INFERENCE | MAGIC

record belief_evidence =
  evd_evidence_id :: uuid
  evd_world_id :: uuid
  evd_branch_id :: uuid
  evd_entity_id :: uuid
  evd_belief_id :: "uuid option"
  evd_source_observation_id :: uuid
  evd_evidence_type :: evidence_type
  evd_immediate_source_entity_id :: "uuid option"
  evd_claimed_origin_event_id :: "uuid option"
  evd_parent_evidence_id :: "uuid option"
  evd_direct_witness :: bool
  evd_confidence_modifier :: rat
  evd_created_at :: int

record disposition =
  di_persist_observation :: bool
  di_revise_beliefs :: bool
  di_create_memory :: bool
  di_importance :: rat
  di_emotional_weight :: rat

record mind_state =
  ms_entity_id :: uuid
  ms_mood :: string
  ms_stress :: rat
  ms_attention_budget :: rat
  ms_active_plan :: "string list"
  ms_goals :: "string list"
  ms_needs :: "(string \<times> rat) list"
  ms_beliefs :: "belief list"
  ms_memories :: "memory list"

definition new_mind :: "uuid \<Rightarrow> mind_state" where
  "new_mind e = \<lparr>ms_entity_id = e, ms_mood = ''NEUTRAL'', ms_stress = 0, ms_attention_budget = 100,
     ms_active_plan = [], ms_goals = [], ms_needs = [], ms_beliefs = [], ms_memories = []\<rparr>"

end
