(* ===== verification/CognitionMind.thy ===== *)
theory CognitionMind
  imports Cognition "HOL-Library.Multiset"
begin

text \<open>
  The three engines that turn an authorized event into a mind's own state:
  \<open>cognition/perception.py\<close> (what of the event is perceived), \<open>cognition/beliefs.py\<close> (how claims
  revise beliefs) and \<open>cognition/memory.py\<close> (recording, decay and recall).
\<close>

section \<open>Perception\<close>

record perception_profile =
  pp_observer_entity_id :: uuid
  pp_observer_actor_id :: uuid
  pp_acuity :: rat
  pp_confidence_bias :: rat
  pp_allowed_payload_fields :: "string list option"
  pp_hidden_payload_fields :: "string set"
  pp_payload_overrides :: jdict

definition grant_matches :: "event \<Rightarrow> perception_profile \<Rightarrow> grant \<Rightarrow> bool" where
  "grant_matches e p g \<longleftrightarrow> g_event_id g = e_event_id e \<and> g_world_id g = e_world_id e \<and>
     g_branch_id g = e_branch_id e \<and> g_observer_entity_id g = pp_observer_entity_id p"

definition restrict_fields :: "string list option \<Rightarrow> jdict \<Rightarrow> jdict" where
  "restrict_fields allowed d = (case allowed of None \<Rightarrow> d | Some ks \<Rightarrow> filter (\<lambda>(k, v). k \<in> set ks) d)"

definition perceived_payload :: "jdict \<Rightarrow> perception_profile \<Rightarrow> grant \<Rightarrow> jdict" where
  "perceived_payload payload p g =
     dupdate
       (dupdate
         (filter (\<lambda>(k, v). k \<notin> g_hidden_payload_fields g \<union> pp_hidden_payload_fields p)
           (restrict_fields (pp_allowed_payload_fields p)
             (restrict_fields (g_allowed_payload_fields g) payload)))
         (g_payload_overrides g))
       (pp_payload_overrides p)"

definition perceived_confidence :: "pylib \<Rightarrow> perception_profile \<Rightarrow> grant \<Rightarrow> rat option \<Rightarrow> rat" where
  "perceived_confidence L p g base =
     (let resolved = (case base of None \<Rightarrow> g_confidence g | Some b \<Rightarrow> min (g_confidence g) b)
      in clamp 0 1 (fl L (fl L (resolved * pp_acuity p) + pp_confidence_bias p)))"

definition observation_id :: "pylib \<Rightarrow> event \<Rightarrow> perception_profile \<Rightarrow> jdict \<Rightarrow> rat \<Rightarrow> uuid" where
  "observation_id L e p payload confidence = uuid5 L (join_with '':''
     [''tabletop-dm:observation'', ''perception-1.0.0'', e_event_id e, pp_observer_entity_id p,
      stable_hash L (JDict payload), fixed6 confidence])"

definition observe ::
  "pylib \<Rightarrow> event \<Rightarrow> perception_profile \<Rightarrow> grant \<Rightarrow> rat option \<Rightarrow> observation option" where
  "observe L e p g base =
     (if \<not> grant_matches e p g then None
      else
        let payload = perceived_payload (e_payload e) p g;
            confidence = perceived_confidence L p g base
        in Some \<lparr>ob_observation_id = observation_id L e p payload confidence,
             ob_observer_entity_id = pp_observer_entity_id p, ob_source_event_id = e_event_id e,
             ob_perceived_payload = payload, ob_confidence = round6 L confidence,
             ob_observed_at = e_created_at e\<rparr>)"

lemma dget_filter_keys: "dget (filter (\<lambda>(k, v). P k) d) k = (if P k then dget d k else None)"
  by (induction d) auto

lemma dget_restrict:
  "dget (restrict_fields a d) k = (if (\<forall>ks. a = Some ks \<longrightarrow> k \<in> set ks) then dget d k else None)"
  by (auto simp: restrict_fields_def dget_filter_keys split: option.splits)

lemma dget_dupdate_in:
  assumes "dget (dupdate d e) k = Some v"
  shows "(k, v) \<in> set e \<or> (k \<notin> fst ` set e \<and> dget d k = Some v)"
  using assms map_of_SomeD [of "rev e" k]
  by (auto simp: dget_dupdate map_of_eq_None_iff split: option.splits)

lemma perceived_payload_source:
  assumes "dget (perceived_payload payload p g) k = Some v"
  shows "(k, v) \<in> set (pp_payload_overrides p) \<or> (k, v) \<in> set (g_payload_overrides g) \<or>
    (dget payload k = Some v \<and> k \<notin> g_hidden_payload_fields g \<and> k \<notin> pp_hidden_payload_fields p \<and>
     (\<forall>ks. g_allowed_payload_fields g = Some ks \<longrightarrow> k \<in> set ks) \<and>
     (\<forall>ks. pp_allowed_payload_fields p = Some ks \<longrightarrow> k \<in> set ks))"
  using dget_dupdate_in [OF assms [unfolded perceived_payload_def]]
  by (auto dest!: dget_dupdate_in simp: dget_filter_keys dget_restrict split: if_splits)

lemma perceived_confidence_unit:
  "0 \<le> perceived_confidence L p g base \<and> perceived_confidence L p g base \<le> 1"
  using clamp_bounds [of 0 1] by (simp add: perceived_confidence_def Let_def)

lemma round6_unit_range:
  "\<lbrakk>lawful_lib L; 0 \<le> q; q \<le> 1\<rbrakk> \<Longrightarrow> 0 \<le> round6 L q \<and> round6 L q \<le> 1"
  using round6_mono [of L 0 q] round6_mono [of L q 1] by simp

text \<open>
  C19. An observation discloses only what the perceiver was granted. It exists exactly when the grant
  is for that event, world, branch and observer; each of its fields is one of the event that the
  grant and the profile both allow and neither hides, or an override that one of them states; and
  its confidence is between 0 and 1.
\<close>

theorem observation_discloses_only:
  assumes "lawful_lib L"
  shows "case observe L e p g base of
      None \<Rightarrow> \<not> grant_matches e p g
    | Some ob \<Rightarrow> grant_matches e p g \<and> ob_observer_entity_id ob = g_observer_entity_id g \<and>
        ob_source_event_id ob = e_event_id e \<and> 0 \<le> ob_confidence ob \<and> ob_confidence ob \<le> 1 \<and>
        (\<forall>k v. dget (ob_perceived_payload ob) k = Some v \<longrightarrow>
          (k, v) \<in> set (pp_payload_overrides p) \<or> (k, v) \<in> set (g_payload_overrides g) \<or>
          (dget (e_payload e) k = Some v \<and>
           k \<notin> g_hidden_payload_fields g \<and> k \<notin> pp_hidden_payload_fields p \<and>
           (\<forall>ks. g_allowed_payload_fields g = Some ks \<longrightarrow> k \<in> set ks) \<and>
           (\<forall>ks. pp_allowed_payload_fields p = Some ks \<longrightarrow> k \<in> set ks)))"
  using perceived_confidence_unit [of L p g base] perceived_payload_source [of "e_payload e" p g]
    round6_unit_range [OF assms, of "perceived_confidence L p g base"]
  by (auto simp: observe_def Let_def grant_matches_def)

section \<open>Beliefs\<close>

type_synonym bkey = "string \<times> string \<times> string"

record belief_claim =
  bc_subject_type :: string
  bc_subject_id :: "uuid option"
  bc_predicate :: string
  bc_value :: jval
  bc_confidence :: rat

record belief_revision =
  br_active_beliefs :: "belief list"
  br_superseded_beliefs :: "belief list"

definition claim_schema :: schema where
  "claim_schema = [(''subject_type'', FStr 1 None, None), (''subject_id'', FOption FUuid, Some JNull),
     (''predicate'', FStr 1 None, None), (''value'', FAny, None),
     (''confidence'', FFloat (Some 0) (Some 1), Some (JFloat 1))]"

definition claim_of :: "jdict \<Rightarrow> belief_claim" where
  "claim_of d = \<lparr>bc_subject_type = vstr d ''subject_type'', bc_subject_id = vopt d ''subject_id'',
     bc_predicate = vstr d ''predicate'', bc_value = vany d ''value'', bc_confidence = vrat d ''confidence''\<rparr>"

definition claim_key :: "belief_claim \<Rightarrow> bkey" where
  "claim_key c = (bc_subject_type c, case bc_subject_id c of None \<Rightarrow> [] | Some u \<Rightarrow> u, bc_predicate c)"

definition belief_key :: "belief \<Rightarrow> bkey" where
  "belief_key b = (bl_subject_type b, case bl_subject_id b of None \<Rightarrow> [] | Some u \<Rightarrow> u, bl_predicate b)"

definition claims_from_observation :: "pylib \<Rightarrow> observation \<Rightarrow> belief_claim list res" where
  "claims_from_observation L ob =
     (case dget_or (ob_perceived_payload ob) ''claims'' (JList []) of
        JList raw \<Rightarrow> bindR (mapR (validate_any L claim_schema) raw) (\<lambda>ds. Inr (map claim_of ds))
      | _ \<Rightarrow> Inl (TypeError ''Observation claims must be a list''))"

definition same_value :: "jval \<Rightarrow> jval \<Rightarrow> bool" where
  "same_value left right = (json_canon left = json_canon right)"

definition strengthened :: "pylib \<Rightarrow> observation \<Rightarrow> rat \<Rightarrow> belief \<Rightarrow> belief" where
  "strengthened L ob confidence prior = prior\<lparr>
     bl_confidence := round6 L (fl L (1 - fl L (fl L (1 - bl_confidence prior) * fl L (1 - confidence)))),
     bl_source_observation_id := Some (ob_observation_id ob), bl_updated_at := ob_observed_at ob\<rparr>"

definition contradicted :: "observation \<Rightarrow> belief \<Rightarrow> belief" where
  "contradicted ob prior = prior\<lparr>bl_contradicted_by_event_id := Some (ob_source_event_id ob),
     bl_updated_at := ob_observed_at ob\<rparr>"

definition new_belief :: "pylib \<Rightarrow> observation \<Rightarrow> rat \<Rightarrow> belief_claim \<Rightarrow> belief" where
  "new_belief L ob confidence c = (case claim_key c of (st, sid, pr) \<Rightarrow>
     \<lparr>bl_belief_id = uuid5 L (join_with '':'' [''tabletop-dm:belief'', ''belief-revision-1.0.0'',
        ob_observer_entity_id ob, ob_observation_id ob, st, sid, pr, stable_hash L (bc_value c)]),
      bl_entity_id = ob_observer_entity_id ob, bl_subject_type = bc_subject_type c,
      bl_subject_id = bc_subject_id c, bl_predicate = bc_predicate c, bl_value = bc_value c,
      bl_confidence = confidence, bl_source_observation_id = Some (ob_observation_id ob),
      bl_contradicted_by_event_id = None, bl_updated_at = ob_observed_at ob\<rparr>)"

type_synonym belief_state = "(bkey \<times> belief) list \<times> belief list"

definition revise_claim :: "pylib \<Rightarrow> observation \<Rightarrow> belief_state \<Rightarrow> belief_claim \<Rightarrow> belief_state" where
  "revise_claim L ob st c = (case st of (active, superseded) \<Rightarrow>
     let confidence = round6 L (fl L (ob_confidence ob * bc_confidence c))
     in case dget active (claim_key c) of
          None \<Rightarrow> (dset active (claim_key c) (new_belief L ob confidence c), superseded)
        | Some prior \<Rightarrow>
            if same_value (bl_value prior) (bc_value c)
            then (dset active (claim_key c) (strengthened L ob confidence prior), superseded)
            else (dset active (claim_key c) (new_belief L ob confidence c),
                  superseded @ [contradicted ob prior]))"

definition is_active :: "belief \<Rightarrow> bool" where
  "is_active b = (bl_contradicted_by_event_id b = None)"

definition revise :: "pylib \<Rightarrow> observation \<Rightarrow> belief_claim list \<Rightarrow> belief list \<Rightarrow> belief_revision res" where
  "revise L ob claims existing =
     bindR (ensure (distinct (map claim_key claims))
       (ValueError ''An observation cannot assert the same belief key twice'')) (\<lambda>_.
     let active = dupdate [] (map (\<lambda>b. (belief_key b, b)) (filter is_active existing));
         superseded = filter (\<lambda>b. \<not> is_active b) existing
     in case foldl (revise_claim L ob) (active, superseded) (sort_key claim_key claims) of
          (active', superseded') \<Rightarrow> Inr \<lparr>
            br_active_beliefs = map snd (sort_key fst active'),
            br_superseded_beliefs = sort_key bl_belief_id superseded'\<rparr>)"

text \<open>What one claim makes of the active belief of its key, whatever the other claims do.\<close>

definition revised :: "pylib \<Rightarrow> observation \<Rightarrow> belief_claim \<Rightarrow> belief option \<Rightarrow> belief" where
  "revised L ob c prior =
     (let confidence = round6 L (fl L (ob_confidence ob * bc_confidence c))
      in case prior of
           None \<Rightarrow> new_belief L ob confidence c
         | Some b \<Rightarrow> if same_value (bl_value b) (bc_value c) then strengthened L ob confidence b
             else new_belief L ob confidence c)"

text \<open>The beliefs that the claims displace, in their order.\<close>

definition displaced ::
  "observation \<Rightarrow> (bkey \<Rightarrow> belief option) \<Rightarrow> belief_claim list \<Rightarrow> belief list" where
  "displaced ob prior claims = concat (map (\<lambda>c. case prior (claim_key c) of None \<Rightarrow> []
     | Some b \<Rightarrow> if same_value (bl_value b) (bc_value c) then [] else [contradicted ob b]) claims)"

lemma revise_claim_eq:
  "revise_claim L ob (active, superseded) c =
     (dset active (claim_key c) (revised L ob c (dget active (claim_key c))),
      superseded @ displaced ob (dget active) [c])"
  by (auto simp: revise_claim_def revised_def displaced_def Let_def split: option.splits)

lemma displaced_cong:
  "(\<And>c. c \<in> set cs \<Longrightarrow> f (claim_key c) = g (claim_key c)) \<Longrightarrow> displaced ob f cs = displaced ob g cs"
  unfolding displaced_def by (rule arg_cong [where f = concat]) (rule map_cong, simp_all)

lemma dset_distinct: "distinct (map fst d) \<Longrightarrow> distinct (map fst (dset d k v))"
  by (rule distinct_update)

text \<open>Claims with different keys do not interfere, so the loop is a pointwise revision.\<close>

lemma revise_fold:
  assumes "distinct (map claim_key cs)" and "distinct (map fst active)"
    and "foldl (revise_claim L ob) (active, superseded) cs = (active', superseded')"
  shows "distinct (map fst active') \<and>
    dget active' = (\<lambda>k. case List.find (\<lambda>c. claim_key c = k) cs of None \<Rightarrow> dget active k
      | Some c \<Rightarrow> Some (revised L ob c (dget active k))) \<and>
    superseded' = superseded @ displaced ob (dget active) cs"
  using assms
proof (induction cs arbitrary: active superseded)
  case Nil
  then show ?case by (simp add: displaced_def)
next
  case (Cons c cs)
  let ?k = "claim_key c"
  let ?a = "dset active ?k (revised L ob c (dget active ?k))"
  let ?s = "superseded @ displaced ob (dget active) [c]"
  have rest: "foldl (revise_claim L ob) (?a, ?s) cs = (active', superseded')"
    using Cons.prems(3) by (simp add: revise_claim_eq)
  have fresh: "?k \<noteq> claim_key x" if "x \<in> set cs" for x using Cons.prems(1) that by auto
  have nofind: "List.find (\<lambda>x. claim_key x = ?k) cs = None"
    unfolding find_None_iff using fresh by metis
  have "displaced ob (dget ?a) cs = displaced ob (dget active) cs"
    by (rule displaced_cong) (simp add: fresh [symmetric])
  moreover have "displaced ob (dget active) (c # cs) =
      displaced ob (dget active) [c] @ displaced ob (dget active) cs"
    by (simp add: displaced_def)
  moreover have "distinct (map claim_key cs)" using Cons.prems(1) by simp
  note IH = Cons.IH [OF this dset_distinct [OF Cons.prems(2)] rest]
  moreover have "dget active' k = (case List.find (\<lambda>x. claim_key x = k) (c # cs) of None \<Rightarrow> dget active k
      | Some x \<Rightarrow> Some (revised L ob x (dget active k)))" for k
    using IH nofind by (cases "k = ?k"; cases "List.find (\<lambda>x. claim_key x = k) cs") simp_all
  ultimately show ?case by auto
qed

text \<open>The active belief of each key: the last one listed, as the dictionary of the code keeps it.\<close>

definition held :: "belief list \<Rightarrow> bkey \<Rightarrow> belief option" where
  "held bs = dget (map (\<lambda>b. (belief_key b, b)) (rev (filter is_active bs)))"

lemma held_dict: "dget (dupdate [] (map (\<lambda>b. (belief_key b, b)) (filter is_active bs))) = held bs"
  by (rule ext) (simp add: held_def dget_dupdate rev_map rev_filter split: option.splits)

lemma held_Some: "held bs k = Some b \<Longrightarrow> b \<in> set bs \<and> belief_key b = k \<and> is_active b"
  unfolding held_def by (drule map_of_SomeD) auto

lemma dupdate_distinct: "distinct (map fst d) \<Longrightarrow> distinct (map fst (dupdate d e))"
  by (induction e arbitrary: d) (auto simp: dset_distinct)

lemma mset_displaced:
  "mset (displaced ob f cs) = (\<Sum>c\<in>#mset cs. mset (displaced ob f [c]))"
  by (induction cs) (simp_all add: displaced_def)

lemma find_distinct_iff:
  assumes "distinct (map f xs)"
  shows "List.find (\<lambda>x. f x = k) xs = Some x \<longleftrightarrow> x \<in> set xs \<and> f x = k"
  using assms by (induction xs) auto

lemma find_sorted:
  assumes "distinct (map f xs)"
  shows "List.find (\<lambda>x. f x = k) (sort_key f xs) = List.find (\<lambda>x. f x = k) xs"
proof -
  have "distinct (map f (sort_key f xs))" using assms by (simp add: distinct_map)
  then have "List.find (\<lambda>x. f x = k) (sort_key f xs) = Some x \<longleftrightarrow> List.find (\<lambda>x. f x = k) xs = Some x" for x
    using assms by (simp add: find_distinct_iff)
  then show ?thesis by (metis option.exhaust)
qed

lemma revised_key:
  assumes "\<And>b. prior = Some b \<Longrightarrow> belief_key b = claim_key c \<and> is_active b"
  shows "belief_key (revised L ob c prior) = claim_key c \<and> is_active (revised L ob c prior)"
proof -
  have "belief_key (new_belief L ob q c) = claim_key c \<and> is_active (new_belief L ob q c)" for q
    by (simp add: new_belief_def claim_key_def belief_key_def is_active_def)
  moreover have "belief_key (strengthened L ob q b) = belief_key b \<and> is_active (strengthened L ob q b) = is_active b" for q b
    by (simp add: strengthened_def belief_key_def is_active_def)
  ultimately show ?thesis
    using assms by (cases prior) (simp_all add: revised_def Let_def)
qed

lemma held_of_dict:
  assumes d: "distinct (map fst d)" and keys: "\<And>k b. dget d k = Some b \<Longrightarrow> belief_key b = k \<and> is_active b"
  shows "distinct (map belief_key (map snd (sort_key fst d))) \<and> (\<forall>b\<in>set (map snd (sort_key fst d)). is_active b) \<and>
    held (map snd (sort_key fst d)) = dget d"
proof -
  let ?s = "sort_key fst d"
  have ok: "belief_key (snd p) = fst p \<and> is_active (snd p)" if "p \<in> set d" for p
    using keys [of "fst p" "snd p"] that d by (simp add: map_of_eq_Some_iff)
  have s: "distinct (map fst ?s)" using d by (simp add: distinct_map)
  have names: "map belief_key (map snd ?s) = map fst ?s" using ok by simp
  have "filter is_active (map snd ?s) = map snd ?s" using ok by (auto simp: filter_id_conv)
  then have "held (map snd ?s) = dget (map (\<lambda>b. (belief_key b, b)) (rev (map snd ?s)))"
    by (simp add: held_def)
  also have "map (\<lambda>b. (belief_key b, b)) (rev (map snd ?s)) = rev ?s"
    using ok by (auto simp: rev_map [symmetric] comp_def intro!: map_idI)
  also have "dget (rev ?s) = dget d"
    using s d by (subst map_of_inject_set) (auto simp: rev_map [symmetric])
  finally show ?thesis using s ok by (simp add: names del: map_map)
qed

lemma revise_spec:
  "case revise L ob claims existing of
     Inl e \<Rightarrow> \<not> distinct (map claim_key claims)
   | Inr r \<Rightarrow> distinct (map claim_key claims) \<and> distinct (map belief_key (br_active_beliefs r)) \<and>
       filter is_active (br_active_beliefs r) = br_active_beliefs r \<and>
       held (br_active_beliefs r) = (\<lambda>k. case List.find (\<lambda>c. claim_key c = k) claims of
           None \<Rightarrow> held existing k | Some c \<Rightarrow> Some (revised L ob c (held existing k))) \<and>
       mset (br_superseded_beliefs r) =
         mset (filter (\<lambda>b. \<not> is_active b) existing) + mset (displaced ob (held existing) claims)"
proof (cases "distinct (map claim_key claims)")
  case False
  then show ?thesis by (simp add: revise_def)
next
  case True
  let ?active = "dupdate [] (map (\<lambda>b. (belief_key b, b)) (filter is_active existing))"
  let ?sup = "filter (\<lambda>b. \<not> is_active b) existing"
  let ?cs = "sort_key claim_key claims"
  obtain a s where fold: "foldl (revise_claim L ob) (?active, ?sup) ?cs = (a, s)" by fastforce
  have cs: "distinct (map claim_key ?cs)" using True by (simp add: distinct_map)
  have "distinct (map fst ?active)" by (rule dupdate_distinct) simp
  from revise_fold [OF cs this fold]
  have d: "distinct (map fst a)" and s: "s = ?sup @ displaced ob (held existing) ?cs"
    and get: "dget a = (\<lambda>k. case List.find (\<lambda>c. claim_key c = k) claims of
      None \<Rightarrow> held existing k | Some c \<Rightarrow> Some (revised L ob c (held existing k)))"
    unfolding held_dict find_sorted [OF True] by simp_all
  have "belief_key b = k \<and> is_active b" if "dget a k = Some b" for k b
    using that held_Some [of existing k] revised_key [of "held existing k"]
    by (auto simp: get find_distinct_iff [OF True] split: option.splits)
  note out = held_of_dict [OF d this]
  have "mset (displaced ob (held existing) ?cs) = mset (displaced ob (held existing) claims)"
    by (simp add: mset_displaced [of ob _ ?cs] mset_displaced [of ob _ claims])
  then show ?thesis
    using True out fold by (auto simp: revise_def s get filter_id_conv)
qed


definition unit_rat :: "rat \<Rightarrow> bool" where
  "unit_rat q \<longleftrightarrow> 0 \<le> q \<and> q \<le> 1"

lemma unit_rat_round: "\<lbrakk>lawful_lib L; unit_rat q\<rbrakk> \<Longrightarrow> unit_rat (round6 L (fl L q))"
  using lawful_fl_unit [of L q] round6_unit_range [of L "fl L q"] by (simp add: unit_rat_def)

lemma unit_rat_mult: "\<lbrakk>unit_rat p; unit_rat q\<rbrakk> \<Longrightarrow> unit_rat (p * q)"
  by (simp add: unit_rat_def mult_le_one)

lemma unit_rat_flip: "\<lbrakk>lawful_lib L; unit_rat q\<rbrakk> \<Longrightarrow> unit_rat (fl L (1 - q))"
  using lawful_fl_unit [of L "1 - q"] by (simp add: unit_rat_def)

lemma unit_rat_fl: "\<lbrakk>lawful_lib L; unit_rat q\<rbrakk> \<Longrightarrow> unit_rat (fl L q)"
  using lawful_fl_unit [of L q] by (simp add: unit_rat_def)

lemma revised_confidence:
  assumes L: "lawful_lib L" and "unit_rat (ob_confidence ob)" "unit_rat (bc_confidence c)"
    and prior: "\<And>b. prior = Some b \<Longrightarrow> unit_rat (bl_confidence b)"
  shows "unit_rat (bl_confidence (revised L ob c prior))"
proof -
  let ?q = "round6 L (fl L (ob_confidence ob * bc_confidence c))"
  have q: "unit_rat ?q" by (intro unit_rat_round unit_rat_mult L assms(2,3))
  have "unit_rat (1 - fl L (fl L (1 - bl_confidence b) * fl L (1 - ?q)))" if "prior = Some b" for b
    using unit_rat_fl [OF L unit_rat_mult [OF unit_rat_flip [OF L prior [OF that]] unit_rat_flip [OF L q]]]
    by (simp add: unit_rat_def)
  then show ?thesis
    using q unit_rat_round [OF L]
    by (cases prior) (simp_all add: revised_def Let_def strengthened_def new_belief_def split: prod.splits)
qed

lemma held_active:
  assumes "distinct (map belief_key bs)" and "b \<in> set bs" and "is_active b"
  shows "held bs (belief_key b) = Some b"
proof -
  let ?f = "filter is_active bs"
  have "distinct (map belief_key (rev ?f))"
    using assms(1) by (simp add: distinct_map_filter rev_map [symmetric])
  then have "distinct (map fst (map (\<lambda>b. (belief_key b, b)) (rev ?f)))" by (simp add: comp_def)
  then show ?thesis
    unfolding held_def using assms(2,3) by (intro map_of_is_SomeI) auto
qed

lemma displaced_confidence:
  assumes "b \<in> set (displaced ob (held existing) claims)"
  shows "\<exists>p\<in>set existing. bl_confidence b = bl_confidence p"
proof -
  from assms obtain c where c: "b \<in> set (case held existing (claim_key c) of None \<Rightarrow> []
      | Some p \<Rightarrow> if same_value (bl_value p) (bc_value c) then [] else [contradicted ob p])"
    by (auto simp: displaced_def)
  then obtain p where p: "held existing (claim_key c) = Some p" by (cases "held existing (claim_key c)") auto
  with c have "b = contradicted ob p" by (auto split: if_splits)
  with held_Some [OF p] show ?thesis by (auto simp: contradicted_def)
qed

text \<open>
  Confidences stay between 0 and 1: if those of the observation, the claims and the beliefs held
  are, then so are those of every active and superseded belief after the revision.
\<close>

theorem beliefs_stay_probabilities:
  assumes L: "lawful_lib L" and r: "revise L ob claims existing = Inr r"
    and ob: "unit_rat (ob_confidence ob)" and cl: "\<forall>c\<in>set claims. unit_rat (bc_confidence c)"
    and ex: "\<forall>b\<in>set existing. unit_rat (bl_confidence b)"
  shows "\<forall>b\<in>set (br_active_beliefs r) \<union> set (br_superseded_beliefs r). unit_rat (bl_confidence b)"
proof
  have spec: "distinct (map belief_key (br_active_beliefs r))"
    "filter is_active (br_active_beliefs r) = br_active_beliefs r"
    "held (br_active_beliefs r) = (\<lambda>k. case List.find (\<lambda>c. claim_key c = k) claims of
       None \<Rightarrow> held existing k | Some c \<Rightarrow> Some (revised L ob c (held existing k)))"
    "mset (br_superseded_beliefs r) =
       mset (filter (\<lambda>b. \<not> is_active b) existing) + mset (displaced ob (held existing) claims)"
    using revise_spec [where L = L and ob = ob and claims = claims and existing = existing] r by simp_all
  have held: "unit_rat (bl_confidence b)" if "held existing k = Some b" for k b
    using held_Some [OF that] ex by blast
  fix b assume "b \<in> set (br_active_beliefs r) \<union> set (br_superseded_beliefs r)"
  then show "unit_rat (bl_confidence b)"
  proof
    assume b: "b \<in> set (br_active_beliefs r)"
    with spec(2) have "is_active b" by (metis filter_id_conv)
    from held_active [OF spec(1) b this] have get: "held (br_active_beliefs r) (belief_key b) = Some b" .
    show ?thesis
    proof (cases "List.find (\<lambda>c. claim_key c = belief_key b) claims")
      case None
      then show ?thesis using get held by (simp add: spec(3))
    next
      case (Some c)
      then have "c \<in> set claims" by (auto simp: find_Some_iff)
      then show ?thesis
        using get Some revised_confidence [OF L ob, of c "held existing (belief_key b)"] held cl
        by (simp add: spec(3))
    qed
  next
    assume "b \<in> set (br_superseded_beliefs r)"
    then have "b \<in># mset (filter (\<lambda>b. \<not> is_active b) existing) + mset (displaced ob (held existing) claims)"
      unfolding spec(4) [symmetric] by simp
    then show ?thesis using ex displaced_confidence [of b ob existing claims] by auto
  qed
qed

section \<open>Memories\<close>

record recalled_memory =
  rm_memory :: memory
  rm_score :: rat

definition starting_strength :: "pylib \<Rightarrow> rat \<Rightarrow> rat \<Rightarrow> rat" where
  "starting_strength L importance emotional_weight =
     round6 L (min 1 (fl L (fl L (fl L (45 / 100) + fl L (fl L (4 / 10) * importance)) +
       fl L (fl L (15 / 100) * \<bar>emotional_weight\<bar>))))"

definition record_memory ::
  "pylib \<Rightarrow> observation \<Rightarrow> string option \<Rightarrow> rat \<Rightarrow> rat \<Rightarrow> string \<Rightarrow> memory res" where
  "record_memory L ob summary emotional_weight importance visibility =
     (let text = strip (case summary of None \<Rightarrow> json_text L (JDict (ob_perceived_payload ob)) | Some s \<Rightarrow> s)
      in bindR (ensure (text \<noteq> []) (ValueError ''Memory summary cannot be empty'')) (\<lambda>_.
         bindR (ensure (-1 \<le> emotional_weight \<and> emotional_weight \<le> 1)
           (ValueError ''emotional_weight must be between -1 and 1'')) (\<lambda>_.
         bindR (ensure (0 \<le> importance \<and> importance \<le> 1)
           (ValueError ''importance must be between 0 and 1'')) (\<lambda>_.
         Inr \<lparr>mm_memory_id = uuid5 L (join_with '':'' [''tabletop-dm:memory'', ''memory-1.0.0'',
                ob_observer_entity_id ob, ob_source_event_id ob, text]),
              mm_entity_id = ob_observer_entity_id ob, mm_source_event_id = ob_source_event_id ob,
              mm_source_observation_id = Some (ob_observation_id ob), mm_summary = text,
              mm_emotional_weight = emotional_weight, mm_importance = importance,
              mm_recall_strength = starting_strength L importance emotional_weight,
              mm_visibility = visibility, mm_created_at = ob_observed_at ob\<rparr>))))"

text \<open>\<open>x ** n\<close> on floats is a function of the platform; \<open>lawful_pow\<close> is what is used of it.\<close>

definition lawful_pow :: "(rat \<Rightarrow> nat \<Rightarrow> rat) \<Rightarrow> bool" where
  "lawful_pow pw \<longleftrightarrow> (\<forall>x n. 0 \<le> x \<and> x \<le> 1 \<longrightarrow> 0 \<le> pw x n \<and> pw x n \<le> 1) \<and> (\<forall>x. pw x 0 = 1)"

definition decayed_strength :: "pylib \<Rightarrow> (rat \<Rightarrow> nat \<Rightarrow> rat) \<Rightarrow> nat \<Rightarrow> rat \<Rightarrow> memory \<Rightarrow> rat" where
  "decayed_strength L pw n decay_rate m =
     (let effective_rate = fl L (decay_rate * fl L (1 - fl L (1 / 2 * mm_importance m)))
      in round6 L (max 0 (fl L (mm_recall_strength m * pw (fl L (1 - effective_rate)) n))))"

definition decay_memories ::
  "pylib \<Rightarrow> (rat \<Rightarrow> nat \<Rightarrow> rat) \<Rightarrow> memory list \<Rightarrow> int \<Rightarrow> rat \<Rightarrow> memory list res" where
  "decay_memories L pw memories elapsed_steps decay_rate =
     bindR (ensure (\<not> elapsed_steps < 0) (ValueError ''elapsed_steps cannot be negative'')) (\<lambda>_.
     bindR (ensure (0 \<le> decay_rate \<and> decay_rate \<le> 1)
       (ValueError ''decay_rate must be between 0 and 1'')) (\<lambda>_.
     Inr (map (\<lambda>m. m\<lparr>mm_recall_strength := decayed_strength L pw (nat elapsed_steps) decay_rate m\<rparr>) memories)))"

text \<open>\<open>re.compile("[a-z0-9]+").findall(text.lower())\<close>\<close>

definition token_char :: "char \<Rightarrow> bool" where
  "token_char c = (let n = (of_char c :: nat) in (97 \<le> n \<and> n \<le> 122) \<or> is_digit c)"

fun tokens_from :: "string \<Rightarrow> string \<Rightarrow> string list" where
  "tokens_from acc [] = (if acc = [] then [] else [acc])"
| "tokens_from acc (c # cs) = (if token_char c then tokens_from (acc @ [c]) cs
     else if acc = [] then tokens_from [] cs else acc # tokens_from [] cs)"

definition tokens :: "string \<Rightarrow> string list" where
  "tokens s = remdups (tokens_from [] (casefold s))"

definition lexical_overlap :: "pylib \<Rightarrow> string list \<Rightarrow> string list \<Rightarrow> rat" where
  "lexical_overlap L query_tokens memory_tokens = (if query_tokens = [] then 0
     else fl L (of_nat (length (filter (\<lambda>t. t \<in> set memory_tokens) query_tokens)) /
       of_nat (length query_tokens)))"

definition recall_score :: "pylib \<Rightarrow> string list \<Rightarrow> memory \<Rightarrow> rat" where
  "recall_score L query_tokens m = round6 L
     (fl L (fl L (fl L (fl L (fl L (45 / 100) * lexical_overlap L query_tokens (tokens (mm_summary m)))
        + fl L (fl L (3 / 10) * mm_importance m))
      + fl L (fl L (2 / 10) * mm_recall_strength m))
      + fl L (fl L (5 / 100) * \<bar>mm_emotional_weight m\<bar>)))"

definition recall ::
  "pylib \<Rightarrow> memory list \<Rightarrow> string \<Rightarrow> int \<Rightarrow> string set option \<Rightarrow> recalled_memory list res" where
  "recall L memories query limit allowed_visibilities =
     bindR (ensure (\<not> limit < 0) (ValueError ''limit cannot be negative'')) (\<lambda>_.
     let query_tokens = tokens query;
         seen = filter (\<lambda>m. case allowed_visibilities of None \<Rightarrow> True | Some vs \<Rightarrow> mm_visibility m \<in> vs) memories;
         recalled = map (\<lambda>m. \<lparr>rm_memory = m, rm_score = recall_score L query_tokens m\<rparr>) seen
     in Inr (take (nat limit) (sort_key (\<lambda>r. (- rm_score r, mm_memory_id (rm_memory r))) recalled)))"

lemma decayed_bounds:
  assumes L: "lawful_lib L" and "lawful_pow pw" and rate: "unit_rat decay_rate"
    and m: "unit_rat (mm_importance m)" "unit_rat (mm_recall_strength m)"
  shows "unit_rat (decayed_strength L pw n decay_rate m) \<and>
    decayed_strength L pw n decay_rate m \<le> round6 L (fl L (mm_recall_strength m))"
proof -
  let ?eff = "fl L (decay_rate * fl L (1 - fl L (1 / 2 * mm_importance m)))"
  let ?p = "pw (fl L (1 - ?eff)) n"
  have "unit_rat (1 / 2 * mm_importance m)" using m(1) by (simp add: unit_rat_def)
  then have "unit_rat ?eff"
    using unit_rat_flip [OF L unit_rat_fl [OF L]] unit_rat_fl [OF L unit_rat_mult [OF rate]] by blast
  then have "unit_rat (fl L (1 - ?eff))" by (rule unit_rat_flip [OF L])
  then have p: "unit_rat ?p" using assms(2) by (simp add: lawful_pow_def unit_rat_def)
  have prod: "unit_rat (fl L (mm_recall_strength m * ?p))" by (intro unit_rat_fl unit_rat_mult L m p)
  have "mm_recall_strength m * ?p \<le> mm_recall_strength m"
    using m(2) p by (simp add: unit_rat_def mult_left_le)
  then have "fl L (mm_recall_strength m * ?p) \<le> fl L (mm_recall_strength m)" by (rule lawful_fl_mono [OF L])
  then have "round6 L (fl L (mm_recall_strength m * ?p)) \<le> round6 L (fl L (mm_recall_strength m))"
    by (rule round6_mono [OF L])
  moreover have "max 0 (fl L (mm_recall_strength m * ?p)) = fl L (mm_recall_strength m * ?p)"
    using prod by (simp add: unit_rat_def)
  ultimately show ?thesis
    using round6_unit_range [OF L, of "fl L (mm_recall_strength m * ?p)"] prod
    by (simp add: decayed_strength_def Let_def unit_rat_def)
qed

text \<open>
  Decay only fades. With a rate between 0 and 1 and a count of steps that is not negative it
  succeeds and changes nothing of a memory but its strength, which stays between 0 and 1 and is
  never above the strength it had, to six places; after no steps it is that strength exactly.
\<close>

theorem decay_only_fades:
  assumes L: "lawful_lib L" and pw: "lawful_pow pw"
    and ok: "\<forall>m\<in>set memories. unit_rat (mm_importance m) \<and> unit_rat (mm_recall_strength m)"
    and "0 \<le> elapsed_steps" and "unit_rat decay_rate"
  shows "\<exists>faded. decay_memories L pw memories elapsed_steps decay_rate = Inr faded \<and>
    map (\<lambda>m. m\<lparr>mm_recall_strength := 0\<rparr>) faded = map (\<lambda>m. m\<lparr>mm_recall_strength := 0\<rparr>) memories \<and>
    list_all2 (\<lambda>m f. unit_rat (mm_recall_strength f) \<and>
      mm_recall_strength f \<le> round6 L (fl L (mm_recall_strength m)) \<and>
      (elapsed_steps = 0 \<longrightarrow> mm_recall_strength f = round6 L (fl L (mm_recall_strength m)))) memories faded"
proof -
  let ?fade = "\<lambda>m. m\<lparr>mm_recall_strength := decayed_strength L pw (nat elapsed_steps) decay_rate m\<rparr>"
  have "list_all2 (\<lambda>m f. unit_rat (mm_recall_strength f) \<and>
      mm_recall_strength f \<le> round6 L (fl L (mm_recall_strength m)) \<and>
      (elapsed_steps = 0 \<longrightarrow> mm_recall_strength f = round6 L (fl L (mm_recall_strength m))))
    memories (map ?fade memories)"
    unfolding list.rel_map
  proof (rule list.rel_refl_strong)
    fix m assume "m \<in> set memories"
    with ok have m: "unit_rat (mm_importance m)" "unit_rat (mm_recall_strength m)" by auto
    have "decayed_strength L pw 0 decay_rate m = round6 L (fl L (mm_recall_strength m))"
      using pw unit_rat_fl [OF L m(2)] by (simp add: decayed_strength_def lawful_pow_def unit_rat_def)
    then show "unit_rat (mm_recall_strength (?fade m)) \<and>
        mm_recall_strength (?fade m) \<le> round6 L (fl L (mm_recall_strength m)) \<and>
        (elapsed_steps = 0 \<longrightarrow> mm_recall_strength (?fade m) = round6 L (fl L (mm_recall_strength m)))"
      using decayed_bounds [OF L pw assms(5) m, of "nat elapsed_steps"] by simp
  qed
  then show ?thesis using assms(4,5) by (auto simp: decay_memories_def unit_rat_def)
qed

lemma not_taken_dropped: "\<lbrakk>x \<in> set xs; x \<notin> set (take n xs)\<rbrakk> \<Longrightarrow> x \<in> set (drop n xs)"
  by (metis Un_iff append_take_drop_id set_append)

lemma sorted_take_sort: "sorted_wrt (\<lambda>x y. f x \<le> f y) (take n (sort_key f xs))"
proof -
  have "sorted_wrt (\<lambda>x y. f x \<le> f y) (sort_key f xs)"
    by (rule sorted_map [THEN iffD1]) simp
  then show ?thesis by (rule sorted_wrt_take)
qed

lemma sort_key_take:
  assumes "x \<in> set (take n (sort_key f xs))" and "y \<in> set (drop n (sort_key f xs))"
  shows "f x \<le> f y"
proof -
  have "sorted (map f (take n (sort_key f xs) @ drop n (sort_key f xs)))" by simp
  then show ?thesis using assms by (simp only: map_append sorted_append) auto
qed

text \<open>
  Recall returns the best matches the caller may see: at most \<open>limit\<close> memories, each with its
  score and of an allowed visibility, in falling order of score, and every visible memory that is
  left out scores no higher than any memory that is returned.
\<close>

theorem recall_returns_the_best:
  assumes "recall L memories query limit allowed = Inr rs"
  shows "length rs = min (nat limit) (length (filter (\<lambda>m. \<forall>vs. allowed = Some vs \<longrightarrow> mm_visibility m \<in> vs) memories)) \<and>
    sorted_wrt (\<lambda>r s. rm_score r \<ge> rm_score s) rs \<and>
    (\<forall>r\<in>set rs. rm_memory r \<in> set memories \<and> rm_score r = recall_score L (tokens query) (rm_memory r) \<and>
      (\<forall>vs. allowed = Some vs \<longrightarrow> mm_visibility (rm_memory r) \<in> vs)) \<and>
    (\<forall>m\<in>set memories. (\<forall>vs. allowed = Some vs \<longrightarrow> mm_visibility m \<in> vs) \<longrightarrow> m \<notin> rm_memory ` set rs \<longrightarrow>
      (\<forall>r\<in>set rs. recall_score L (tokens query) m \<le> rm_score r))"
proof -
  let ?see = "\<lambda>m. \<forall>vs. allowed = Some vs \<longrightarrow> mm_visibility m \<in> vs"
  let ?rate = "\<lambda>m. \<lparr>rm_memory = m, rm_score = recall_score L (tokens query) m\<rparr>"
  let ?key = "\<lambda>r. (- rm_score r, mm_memory_id (rm_memory r))"
  let ?all = "map ?rate (filter ?see memories)"
  have see: "(\<lambda>m. case allowed of None \<Rightarrow> True | Some vs \<Rightarrow> mm_visibility m \<in> vs) = ?see"
    by (rule ext) (simp split: option.splits)
  have rs: "rs = take (nat limit) (sort_key ?key ?all)"
    using assms by (simp add: recall_def see Let_def split: if_splits)
  have in_all: "r \<in> set ?all" if "r \<in> set rs" for r
    using that set_take_subset [of "nat limit" "sort_key ?key ?all"] unfolding rs by (simp only: set_sort) blast
  have "sorted_wrt (\<lambda>r s. ?key r \<le> ?key s) rs"
    unfolding rs by (rule sorted_take_sort)
  then have sorted: "sorted_wrt (\<lambda>r s. rm_score r \<ge> rm_score s) rs"
    by (rule sorted_wrt_mono_rel [rotated]) (auto simp: less_eq_prod_def)
  have best: "recall_score L (tokens query) m \<le> rm_score r"
    if "m \<in> set memories" "?see m" "m \<notin> rm_memory ` set rs" "r \<in> set rs" for m r
  proof -
    have "?rate m \<in> set (sort_key ?key ?all)" using that(1,2) by (simp only: set_sort) auto
    moreover have "?rate m \<notin> set rs" using that(3) by (metis image_eqI recalled_memory.select_convs(1))
    ultimately have "?rate m \<in> set (drop (nat limit) (sort_key ?key ?all))"
      unfolding rs by (rule not_taken_dropped)
    with sort_key_take [of r "nat limit" ?key ?all "?rate m"] that(4)
    have "?key r \<le> ?key (?rate m)" unfolding rs by blast
    then show ?thesis by (auto simp: less_eq_prod_def)
  qed
  have each: "rm_memory r \<in> set memories \<and> rm_score r = recall_score L (tokens query) (rm_memory r) \<and>
      ?see (rm_memory r)" if "r \<in> set rs" for r
  proof -
    from in_all [OF that] obtain m where m: "m \<in> set (filter ?see memories)" and r: "r = ?rate m"
      unfolding set_map by (rule imageE)
    from m have "m \<in> set memories \<and> ?see m" unfolding set_filter by (rule CollectD)
    then show ?thesis by (simp add: r)
  qed
  have "length rs = min (nat limit) (length (filter ?see memories))" by (simp add: rs)
  then show ?thesis using each best sorted by blast
qed

section \<open>A guard at the gate\<close>

text \<open>An event, its grant and a profile; what is observed, believed, remembered and recalled of it.\<close>

definition gate_event :: event where
  "gate_event = \<lparr>e_event_id = ''ev'', e_world_id = ''w'', e_branch_id = ''b'', e_run_id = ''r'',
     e_interaction_id = None, e_actor_id = ''thief'', e_embodied_entity_id = Some ''thief'',
     e_event_type = ''opened'', e_payload = [(''door'', JStr ''gate''), (''purse'', JInt 40)],
     e_observed_by = [], e_visible_to = [''gm''], e_correlation_id = ''c'', e_causation_id = None,
     e_domain_tags = [''movement''], e_idempotency_key = None, e_persona_version = None,
     e_policy_version = None, e_prompt_contract_version = None, e_model_version = None,
     e_seed = None, e_decision_trace_id = None, e_created_at = 7\<rparr>"

definition gate_grant :: grant where
  "gate_grant = \<lparr>g_event_id = ''ev'', g_world_id = ''w'', g_branch_id = ''b'',
     g_observer_entity_id = ''guard'', g_controller_actor_id = Some ''gm'', g_modalities = [SIGHT],
     g_outcome = PARTIAL, g_confidence = 1 / 2, g_allowed_payload_fields = None,
     g_hidden_payload_fields = {''purse''}, g_payload_overrides = [(''light'', JStr ''dim'')],
     g_reason_codes = [], g_resolver_version = ''v'', g_spatial_context_hash = ''h''\<rparr>"

definition guard_profile :: perception_profile where
  "guard_profile = \<lparr>pp_observer_entity_id = ''guard'', pp_observer_actor_id = ''gm'', pp_acuity = 1,
     pp_confidence_bias = 0, pp_allowed_payload_fields = None, pp_hidden_payload_fields = {},
     pp_payload_overrides = []\<rparr>"

definition gate_observation :: observation where
  "gate_observation = \<lparr>ob_observation_id = ''o'', ob_observer_entity_id = ''guard'',
     ob_source_event_id = ''ev'', ob_perceived_payload = [], ob_confidence = 1 / 2, ob_observed_at = 7\<rparr>"

definition gate_claim :: "jval \<Rightarrow> belief_claim" where
  "gate_claim v = \<lparr>bc_subject_type = ''door'', bc_subject_id = None, bc_predicate = ''open'',
     bc_value = v, bc_confidence = 1\<rparr>"

definition gate_belief :: "jval \<Rightarrow> belief" where
  "gate_belief v = \<lparr>bl_belief_id = ''old'', bl_entity_id = ''guard'', bl_subject_type = ''door'',
     bl_subject_id = None, bl_predicate = ''open'', bl_value = v, bl_confidence = 1,
     bl_source_observation_id = None, bl_contradicted_by_event_id = None, bl_updated_at = 1\<rparr>"

definition gate_memory :: memory where
  "gate_memory = \<lparr>mm_memory_id = ''m'', mm_entity_id = ''guard'', mm_source_event_id = ''ev'',
     mm_source_observation_id = None, mm_summary = ''gate'', mm_emotional_weight = 0,
     mm_importance = 1 / 2, mm_recall_strength = 1, mm_visibility = ''PRIVATE'', mm_created_at = 7\<rparr>"

theorem observation_discloses_only_witness:
  "\<exists>ob. observe ref_lib gate_event guard_profile gate_grant None = Some ob \<and>
    ob_observer_entity_id ob = ''guard'' \<and> dget (ob_perceived_payload ob) ''purse'' = None"
proof -
  have m: "grant_matches gate_event guard_profile gate_grant"
    by (simp add: grant_matches_def gate_event_def guard_profile_def gate_grant_def)
  then obtain ob where ob: "observe ref_lib gate_event guard_profile gate_grant None = Some ob"
    by (simp add: observe_def Let_def)
  note facts = observation_discloses_only [OF lawful_ref_lib, where e = gate_event and p = guard_profile
    and g = gate_grant and base = None, unfolded ob option.case]
  have "dget (ob_perceived_payload ob) ''purse'' = None"
    using facts by (cases "dget (ob_perceived_payload ob) ''purse''")
      (auto simp: gate_grant_def guard_profile_def)
  then show ?thesis using ob facts by (auto simp: gate_grant_def)
qed

theorem beliefs_stay_probabilities_witness:
  "\<exists>r. revise ref_lib gate_observation [gate_claim (JBool True)] [gate_belief (JBool False)] = Inr r \<and>
    (\<forall>b\<in>set (br_active_beliefs r) \<union> set (br_superseded_beliefs r). unit_rat (bl_confidence b))"
proof -
  obtain r where r: "revise ref_lib gate_observation [gate_claim (JBool True)] [gate_belief (JBool False)] = Inr r"
    using revise_spec [where L = ref_lib and ob = gate_observation and claims = "[gate_claim (JBool True)]"
      and existing = "[gate_belief (JBool False)]"] by (auto split: sum.splits)
  show ?thesis
    using beliefs_stay_probabilities [OF lawful_ref_lib r] r
    by (simp add: gate_observation_def gate_claim_def gate_belief_def unit_rat_def)
qed

lemma lawful_power: "lawful_pow (^)"
  by (simp add: lawful_pow_def power_le_one)

theorem decay_only_fades_witness:
  "\<exists>faded. decay_memories ref_lib (^) [gate_memory] 2 (1 / 2) = Inr faded \<and> length faded = 1"
proof -
  have ok: "\<forall>m\<in>set [gate_memory]. unit_rat (mm_importance m) \<and> unit_rat (mm_recall_strength m)"
    by (simp add: gate_memory_def unit_rat_def)
  obtain faded where f: "decay_memories ref_lib (^) [gate_memory] 2 (1 / 2) = Inr faded"
    and "map (\<lambda>m. m\<lparr>mm_recall_strength := 0\<rparr>) faded = map (\<lambda>m. m\<lparr>mm_recall_strength := 0\<rparr>) [gate_memory]"
    using decay_only_fades [OF lawful_ref_lib lawful_power ok, of 2 "1 / 2"] by (auto simp: unit_rat_def)
  from arg_cong [OF this(2), of length] have "length faded = 1" by simp
  with f show ?thesis by blast
qed

theorem recall_returns_the_best_witness:
  "\<exists>rs. recall ref_lib [gate_memory] ''gate'' 3 None = Inr rs \<and> length rs = 1"
proof -
  obtain rs where rs: "recall ref_lib [gate_memory] ''gate'' 3 None = Inr rs"
    by (simp add: recall_def Let_def)
  with recall_returns_the_best [OF rs] show ?thesis by simp
qed

end
