(* ===== verification/CognitionRelations.thy ===== *)
theory CognitionRelations
  imports Cognition
begin

text \<open>
  Relationships between entities, \<open>cognition/relationships.py\<close>: a vector of axes, the bounds of
  each, and how an event moves them.
\<close>

record relationship_vector =
  rv_trust :: rat
  rv_affection :: rat
  rv_respect :: rat
  rv_fear :: rat
  rv_resentment :: rat
  rv_obligation :: rat
  rv_familiarity :: rat
  rv_suspicion :: rat
  rv_ideological_alignment :: rat
  rv_dependency :: rat
  rv_attraction :: "rat option"

definition neutral_vector :: relationship_vector where
  "neutral_vector = \<lparr>rv_trust = 0, rv_affection = 0, rv_respect = 0, rv_fear = 0, rv_resentment = 0,
     rv_obligation = 0, rv_familiarity = 0, rv_suspicion = 0, rv_ideological_alignment = 0,
     rv_dependency = 0, rv_attraction = None\<rparr>"

definition RELATIONSHIP_EVENT_DELTAS :: "(string \<times> (string \<times> rat) list) list" where
  "RELATIONSHIP_EVENT_DELTAS = [
     (''kept_promise'', [(''trust'', 12), (''respect'', 4), (''obligation'', - 2)]),
     (''public_humiliation'', [(''affection'', - 8), (''respect'', - 6), (''resentment'', 15), (''fear'', 2)]),
     (''saved_life'', [(''trust'', 20), (''affection'', 10), (''obligation'', 25)])]"

definition AXIS_BOUNDS :: "(string \<times> int \<times> int) list" where
  "AXIS_BOUNDS = [(''trust'', -100, 100), (''affection'', -100, 100), (''respect'', -100, 100),
     (''fear'', 0, 100), (''resentment'', 0, 100), (''obligation'', -100, 100), (''familiarity'', 0, 100),
     (''suspicion'', 0, 100), (''ideological_alignment'', -100, 100), (''dependency'', 0, 100),
     (''attraction'', -100, 100)]"

type_synonym axis_values = "(string \<times> rat option) list"

definition vector_dump :: "relationship_vector \<Rightarrow> axis_values" where
  "vector_dump v = [(''trust'', Some (rv_trust v)), (''affection'', Some (rv_affection v)),
     (''respect'', Some (rv_respect v)), (''fear'', Some (rv_fear v)), (''resentment'', Some (rv_resentment v)),
     (''obligation'', Some (rv_obligation v)), (''familiarity'', Some (rv_familiarity v)),
     (''suspicion'', Some (rv_suspicion v)), (''ideological_alignment'', Some (rv_ideological_alignment v)),
     (''dependency'', Some (rv_dependency v)), (''attraction'', rv_attraction v)]"

text \<open>A value for an axis as the class accepts it; a missing value takes the default.\<close>

definition axis_accepts :: "axis_values \<Rightarrow> string \<times> int \<times> int \<Rightarrow> bool" where
  "axis_accepts vs b = (case b of (axis, lo, hi) \<Rightarrow> (case dget vs axis of
       None \<Rightarrow> True
     | Some None \<Rightarrow> axis = ''attraction''
     | Some (Some q) \<Rightarrow> of_int lo \<le> q \<and> q \<le> of_int hi))"

definition axis_value :: "axis_values \<Rightarrow> string \<Rightarrow> rat" where
  "axis_value vs axis = (case dget vs axis of Some (Some q) \<Rightarrow> q | _ \<Rightarrow> 0)"

definition vector_validate :: "axis_values \<Rightarrow> relationship_vector res" where
  "vector_validate vs = bindR (ensure (list_all (axis_accepts vs) AXIS_BOUNDS) ValidationError) (\<lambda>_.
     Inr \<lparr>rv_trust = axis_value vs ''trust'', rv_affection = axis_value vs ''affection'',
       rv_respect = axis_value vs ''respect'', rv_fear = axis_value vs ''fear'',
       rv_resentment = axis_value vs ''resentment'', rv_obligation = axis_value vs ''obligation'',
       rv_familiarity = axis_value vs ''familiarity'', rv_suspicion = axis_value vs ''suspicion'',
       rv_ideological_alignment = axis_value vs ''ideological_alignment'',
       rv_dependency = axis_value vs ''dependency'',
       rv_attraction = (case dget vs ''attraction'' of None \<Rightarrow> None | Some a \<Rightarrow> a)\<rparr>)"

definition vector_ok :: "relationship_vector \<Rightarrow> bool" where
  "vector_ok v = list_all (axis_accepts (vector_dump v)) AXIS_BOUNDS"

section \<open>How an event moves the axes\<close>

record relationship_modifiers =
  md_forgiveness :: string
  md_betrayal_sensitivity :: string
  md_authority_trust :: string
  md_axis_multipliers :: "(string \<times> rat) list"
  md_event_multipliers :: "(string \<times> rat) list"
  md_attraction_permitted :: bool

definition default_modifiers :: relationship_modifiers where
  "default_modifiers = \<lparr>md_forgiveness = ''MEDIUM'', md_betrayal_sensitivity = ''MEDIUM'',
     md_authority_trust = ''MEDIUM'', md_axis_multipliers = [], md_event_multipliers = [],
     md_attraction_permitted = False\<rparr>"

definition level :: "pylib \<Rightarrow> string \<Rightarrow> rat" where
  "level L name = dget_or [(''LOW'', fl L (65 / 100)), (''MEDIUM'', 1), (''HIGH'', 3 / 2)] name 1"

definition axis_multiplier ::
  "pylib \<Rightarrow> relationship_modifiers \<Rightarrow> string \<Rightarrow> string \<Rightarrow> rat \<Rightarrow> rat" where
  "axis_multiplier L md event_type axis delta =
     (let m0 = fl L (dget_or (md_event_multipliers md) event_type 1 * dget_or (md_axis_multipliers md) axis 1);
          m1 = (if delta < 0 \<and> axis \<in> {''trust'', ''affection'', ''respect''}
                then fl L (m0 * level L (md_betrayal_sensitivity md)) else m0);
          forgiveness = level L (md_forgiveness md);
          m2 = (if axis = ''resentment''
                then fl L (m1 * (if delta > 0 then fl L (2 - forgiveness) else forgiveness)) else m1)
      in if axis = ''respect'' \<and> has_infix ''authority'' event_type
         then fl L (m2 * level L (md_authority_trust md)) else m2)"

definition moved :: "pylib \<Rightarrow> string \<Rightarrow> rat \<Rightarrow> rat \<Rightarrow> rat" where
  "moved L axis current effective = (case dget AXIS_BOUNDS axis of
      None \<Rightarrow> current
    | Some (lo, hi) \<Rightarrow> round6 L (clamp (of_int lo) (of_int hi) (fl L (current + effective))))"

definition apply_axis ::
  "pylib \<Rightarrow> relationship_modifiers \<Rightarrow> string \<Rightarrow> (string \<times> rat) list \<Rightarrow>
     axis_values \<times> (string \<times> rat) list \<Rightarrow> string \<Rightarrow> axis_values \<times> (string \<times> rat) list" where
  "apply_axis L md event_type requested st axis = (case st of (vs, applied) \<Rightarrow>
     if axis = ''attraction'' \<and> \<not> md_attraction_permitted md then (vs, applied)
     else
       let delta = dget_or requested axis 0;
           effective = round6 L (fl L (delta * axis_multiplier L md event_type axis delta));
           current = axis_value vs axis;
           updated = moved L axis current effective
       in (dset vs axis (Some updated), dset applied axis (round6 L (fl L (updated - current)))))"

record relationship_change =
  rg_event_type :: string
  rg_before :: relationship_vector
  rg_requested_deltas :: "(string \<times> rat) list"
  rg_applied_deltas :: "(string \<times> rat) list"
  rg_after :: relationship_vector

definition apply_relationship ::
  "pylib \<Rightarrow> relationship_vector \<Rightarrow> string \<Rightarrow> relationship_modifiers option \<Rightarrow> (string \<times> rat) list option \<Rightarrow>
     relationship_change res" where
  "apply_relationship L vector event_type modifiers deltas =
     (let md = (case modifiers of None \<Rightarrow> default_modifiers | Some m \<Rightarrow> m);
          requested = (case deltas of None \<Rightarrow> dget_or RELATIONSHIP_EVENT_DELTAS event_type [] | Some ds \<Rightarrow> ds)
      in bindR (ensure (\<not> (deltas = None \<and> \<not> dhas RELATIONSHIP_EVENT_DELTAS event_type))
           (ValueError ''Unknown relationship event type'')) (\<lambda>_.
         bindR (ensure (requested \<noteq> []) (ValueError ''Relationship deltas cannot be empty'')) (\<lambda>_.
         bindR (ensure (list_all (\<lambda>p. dhas AXIS_BOUNDS (fst p)) requested)
           (ValueError ''Unknown relationship axes'')) (\<lambda>_.
         case foldl (apply_axis L md event_type requested) (vector_dump vector, []) (sort (map fst requested)) of
           (vs, applied) \<Rightarrow> bindR (vector_validate vs) (\<lambda>after.
             Inr \<lparr>rg_event_type = event_type, rg_before = vector, rg_requested_deltas = requested,
               rg_applied_deltas = applied, rg_after = after\<rparr>)))))"

section \<open>Causal records\<close>

record relationship_change_record = relationship_change +
  rg_change_id :: uuid
  rg_world_id :: uuid
  rg_branch_id :: uuid
  rg_source_entity_id :: uuid
  rg_target_entity_id :: uuid
  rg_source_event_id :: uuid
  rg_actor_id :: uuid
  rg_policy_version :: string
  rg_created_at :: int

definition change_identity :: "pylib \<Rightarrow> uuid \<Rightarrow> uuid \<Rightarrow> uuid \<Rightarrow> uuid \<Rightarrow> uuid \<Rightarrow> uuid" where
  "change_identity L world branch source target event_id = uuid5 L (join_with '':''
     [''tabletop-dm:relationship-change'', world, branch, source, target, event_id])"

definition from_change ::
  "pylib \<Rightarrow> relationship_change \<Rightarrow> uuid \<Rightarrow> uuid \<Rightarrow> uuid \<Rightarrow> uuid \<Rightarrow> uuid \<Rightarrow> uuid \<Rightarrow> string \<Rightarrow> int \<Rightarrow>
     relationship_change_record" where
  "from_change L change world branch source target event_id actor policy_version created_at =
     \<lparr>rg_event_type = rg_event_type change, rg_before = rg_before change,
      rg_requested_deltas = rg_requested_deltas change, rg_applied_deltas = rg_applied_deltas change,
      rg_after = rg_after change, rg_change_id = change_identity L world branch source target event_id,
      rg_world_id = world, rg_branch_id = branch, rg_source_entity_id = source,
      rg_target_entity_id = target, rg_source_event_id = event_id, rg_actor_id = actor,
      rg_policy_version = policy_version, rg_created_at = created_at\<rparr>"

text \<open>The content that a causal retry must repeat: everything but the time of creation.\<close>

definition immutable_content :: "relationship_change_record \<Rightarrow> relationship_change_record" where
  "immutable_content r = r\<lparr>rg_created_at := 0\<rparr>"

section \<open>Bounds\<close>

text \<open>Integers of up to 53 bits are floats.\<close>

definition exact_ints :: "pylib \<Rightarrow> bool" where
  "exact_ints L \<longleftrightarrow> (\<forall>n :: int. \<bar>n\<bar> \<le> 2 ^ 53 \<longrightarrow> fl L (of_int n) = of_int n)"

lemma exact_ints_ref: "exact_ints ref_lib"
  by (simp add: exact_ints_def ref_lib_def)

lemma round6_int:
  assumes "exact_ints L" and "\<bar>n\<bar> \<le> 100"
  shows "round6 L (of_int n) = of_int n"
proof -
  have "round_half_even (of_int n * 1000000) = n * 1000000"
    using round_half_even_of_int [of "n * 1000000"] by simp
  then show ?thesis using assms by (simp add: round6_def exact_ints_def)
qed

lemma moved_bounds:
  assumes L: "lawful_lib L" "exact_ints L" and "dget AXIS_BOUNDS axis = Some (lo, hi)"
  shows "of_int lo \<le> moved L axis c e \<and> moved L axis c e \<le> of_int hi"
proof -
  from assms(3) have b: "\<bar>lo\<bar> \<le> 100" "\<bar>hi\<bar> \<le> 100" "lo \<le> hi"
    by (auto simp: AXIS_BOUNDS_def split: if_splits)
  from b(3) have "(of_int lo :: rat) \<le> of_int hi" by simp
  from clamp_bounds [OF this, of "fl L (c + e)"]
  show ?thesis
    using assms(3) round6_mono [OF L(1)] round6_int [OF L(2) b(1)] round6_int [OF L(2) b(2)]
    by (simp add: moved_def) metis
qed

lemma accepts_dset:
  assumes "list_all (axis_accepts vs) AXIS_BOUNDS"
    and "\<And>lo hi. dget AXIS_BOUNDS axis = Some (lo, hi) \<Longrightarrow> of_int lo \<le> q \<and> q \<le> of_int hi"
  shows "list_all (axis_accepts (dset vs axis (Some q))) AXIS_BOUNDS"
proof -
  have "axis_accepts (dset vs axis (Some q)) b" if b: "b \<in> set AXIS_BOUNDS" for b
  proof -
    obtain a lo hi where b': "b = (a, lo, hi)" by (cases b)
    have "distinct (map fst AXIS_BOUNDS)" by (simp add: AXIS_BOUNDS_def)
    with b have "dget AXIS_BOUNDS a = Some (lo, hi)" by (simp add: b')
    with assms b show ?thesis by (auto simp: b' axis_accepts_def list_all_iff split: option.splits)
  qed
  then show ?thesis by (simp add: list_all_iff)
qed

definition permitted :: "relationship_modifiers \<Rightarrow> string \<Rightarrow> bool" where
  "permitted md axis \<longleftrightarrow> (axis = ''attraction'' \<longrightarrow> md_attraction_permitted md)"

definition moves :: "relationship_modifiers \<Rightarrow> (string \<times> rat) list \<Rightarrow> string \<Rightarrow> bool" where
  "moves md requested axis \<longleftrightarrow> dhas requested axis \<and> permitted md axis"

definition new_value ::
  "pylib \<Rightarrow> relationship_modifiers \<Rightarrow> string \<Rightarrow> (string \<times> rat) list \<Rightarrow> axis_values \<Rightarrow> string \<Rightarrow> rat" where
  "new_value L md event_type requested vs axis = (let delta = dget_or requested axis 0 in
     moved L axis (axis_value vs axis) (round6 L (fl L (delta * axis_multiplier L md event_type axis delta))))"

lemma apply_axis_eq:
  "apply_axis L md et rq (vs, applied) a =
     (if \<not> permitted md a then (vs, applied)
      else (dset vs a (Some (new_value L md et rq vs a)),
            dset applied a (round6 L (fl L (new_value L md et rq vs a - axis_value vs a)))))"
  by (auto simp: apply_axis_def new_value_def Let_def permitted_def)

lemma new_value_cong: "dget vs a = dget ws a \<Longrightarrow> new_value L md et rq vs a = new_value L md et rq ws a"
  by (simp add: new_value_def axis_value_def)

lemma axis_value_cong: "dget vs a = dget ws a \<Longrightarrow> axis_value vs a = axis_value ws a"
  by (simp add: axis_value_def)

lemma apply_axes:
  assumes "foldl (apply_axis L md et rq) (vs, applied) as = (vs', applied')" and "distinct as"
    and L: "lawful_lib L" "exact_ints L" and "list_all (axis_accepts vs) AXIS_BOUNDS"
  shows "list_all (axis_accepts vs') AXIS_BOUNDS \<and>
    (\<forall>a. dget vs' a = (if a \<in> set as \<and> permitted md a
       then Some (Some (new_value L md et rq vs a)) else dget vs a)) \<and>
    (\<forall>a. dget applied' a = (if a \<in> set as \<and> permitted md a
       then Some (round6 L (fl L (new_value L md et rq vs a - axis_value vs a))) else dget applied a))"
  using assms(1,2,5)
proof (induction as arbitrary: vs applied)
  case Nil
  then show ?case by simp
next
  case (Cons a as)
  show ?case
  proof (cases "permitted md a")
    case False
    then show ?thesis using Cons.IH [of vs applied] Cons.prems by (auto simp: apply_axis_eq)
  next
    case True
    let ?v = "dset vs a (Some (new_value L md et rq vs a))"
    let ?p = "dset applied a (round6 L (fl L (new_value L md et rq vs a - axis_value vs a)))"
    have rest: "foldl (apply_axis L md et rq) (?v, ?p) as = (vs', applied')"
      using Cons.prems(1) True by (simp add: apply_axis_eq)
    have ok: "list_all (axis_accepts ?v) AXIS_BOUNDS"
      by (rule accepts_dset [OF Cons.prems(3)]) (simp add: new_value_def Let_def moved_bounds [OF L])
    have same: "new_value L md et rq ?v x = new_value L md et rq vs x" "axis_value ?v x = axis_value vs x"
      if "x \<noteq> a" for x
      using that by (auto intro!: new_value_cong axis_value_cong)
    from Cons.prems(2) have d: "distinct as" "a \<notin> set as" by simp_all
    note IH = Cons.IH [OF rest d(1) ok]
    have get: "dget vs' x = (if x \<in> set (a # as) \<and> permitted md x
        then Some (Some (new_value L md et rq vs x)) else dget vs x)" for x
      using IH d(2) True same [of x] by (cases "x = a") simp_all
    have "dget applied' x = (if x \<in> set (a # as) \<and> permitted md x
        then Some (round6 L (fl L (new_value L md et rq vs x - axis_value vs x))) else dget applied x)" for x
      using IH d(2) True same [of x] by (cases "x = a") simp_all
    with get IH show ?thesis by blast
  qed
qed

lemma vector_validate_ok:
  assumes "list_all (axis_accepts vs) AXIS_BOUNDS" and "\<And>a. dhas AXIS_BOUNDS a \<Longrightarrow> dhas vs a"
  shows "\<exists>v. vector_validate vs = Inr v \<and> (\<forall>a. dhas AXIS_BOUNDS a \<longrightarrow> dget (vector_dump v) a = dget vs a)"
proof -
  have known: "dget vs a = (if a = ''attraction'' then dget vs a else Some (Some (axis_value vs a)))"
    if "dhas AXIS_BOUNDS a" for a
  proof -
    obtain lo hi where "(a, lo, hi) \<in> set AXIS_BOUNDS"
      using \<open>dhas AXIS_BOUNDS a\<close> by (auto simp: dhas_def dest: map_of_SomeD)
    then have "axis_accepts vs (a, lo, hi)" using assms(1) by (simp add: list_all_iff)
    with assms(2) [OF that] show ?thesis
      by (auto simp: axis_accepts_def axis_value_def dhas_def split: option.splits)
  qed
  obtain x where x: "dget vs ''attraction'' = Some x"
    using assms(2) [of "''attraction''"] by (auto simp: AXIS_BOUNDS_def dhas_def)
  show ?thesis
  proof (intro exI conjI allI impI)
    show "vector_validate vs = Inr \<lparr>rv_trust = axis_value vs ''trust'', rv_affection = axis_value vs ''affection'',
       rv_respect = axis_value vs ''respect'', rv_fear = axis_value vs ''fear'',
       rv_resentment = axis_value vs ''resentment'', rv_obligation = axis_value vs ''obligation'',
       rv_familiarity = axis_value vs ''familiarity'', rv_suspicion = axis_value vs ''suspicion'',
       rv_ideological_alignment = axis_value vs ''ideological_alignment'',
       rv_dependency = axis_value vs ''dependency'', rv_attraction = x\<rparr>" (is "_ = Inr ?v")
      using assms(1) by (simp add: vector_validate_def x)
    fix a assume a: "dhas AXIS_BOUNDS a"
    then show "dget (vector_dump ?v) a = dget vs a"
      using known [OF a] x by (auto simp: AXIS_BOUNDS_def dhas_def vector_dump_def split: if_splits)
  qed
qed

lemma vector_dump_keys: "dhas (vector_dump v) a \<longleftrightarrow> dhas AXIS_BOUNDS a"
  by (simp add: vector_dump_def AXIS_BOUNDS_def dhas_def)

lemma relationship_spec:
  assumes L: "lawful_lib L" "exact_ints L" and v: "vector_ok v"
    and rq: "rq = (case deltas of None \<Rightarrow> dget_or RELATIONSHIP_EVENT_DELTAS event_type [] | Some ds \<Rightarrow> ds)"
    and md: "md = (case modifiers of None \<Rightarrow> default_modifiers | Some m \<Rightarrow> m)"
    and dist: "distinct (map fst rq)"
  shows "case apply_relationship L v event_type modifiers deltas of
      Inl e \<Rightarrow> rq = [] \<or> (\<exists>p\<in>set rq. \<not> dhas AXIS_BOUNDS (fst p))
    | Inr ch \<Rightarrow> vector_ok (rg_after ch) \<and> rg_before ch = v \<and>
        (\<forall>a. dget (vector_dump (rg_after ch)) a = (if moves md rq a
           then Some (Some (new_value L md event_type rq (vector_dump v) a)) else dget (vector_dump v) a)) \<and>
        (\<forall>a. dget (rg_applied_deltas ch) a = (if moves md rq a
           then Some (round6 L (fl L (new_value L md event_type rq (vector_dump v) a - axis_value (vector_dump v) a)))
           else None))"
proof (cases "apply_relationship L v event_type modifiers deltas")
  case (Inr ch)
  let ?as = "sort (map fst rq)"
  obtain vs applied where fold: "foldl (apply_axis L md event_type rq) (vector_dump v, []) ?as = (vs, applied)"
    by fastforce
  have known: "list_all (\<lambda>p. dhas AXIS_BOUNDS (fst p)) rq"
    and after: "vector_validate vs = Inr (rg_after ch)"
    and ch: "rg_before ch = v" "rg_applied_deltas ch = applied"
    using Inr fold by (auto simp: apply_relationship_def rq [symmetric] md [symmetric] bindR_eq_Inr Let_def
        split: if_splits)
  from dist have "distinct ?as" by simp
  note out = apply_axes [OF fold this L v [unfolded vector_ok_def]]
  have mv: "a \<in> set ?as \<and> permitted md a \<longleftrightarrow> moves md rq a" for a
    by (simp add: moves_def dhas_def map_of_eq_None_iff)
  have has: "dhas vs a" if "dhas AXIS_BOUNDS a" for a
    using out vector_dump_keys [of v a] that by (simp add: dhas_def)
  have out_dom: "dget vs a = None" if "\<not> dhas AXIS_BOUNDS a" for a
    using out vector_dump_keys [of v a] that known by (auto simp: dhas_def list_all_iff)
  obtain v' where v': "vector_validate vs = Inr v'" and get: "\<And>a. dhas AXIS_BOUNDS a \<Longrightarrow> dget (vector_dump v') a = dget vs a"
    using vector_validate_ok [OF conjunct1 [OF out] has] by blast
  have same: "dget (vector_dump v') a = dget vs a" for a
    using get [of a] out_dom [of a] vector_dump_keys [of v' a] by (cases "dhas AXIS_BOUNDS a") (auto simp: dhas_def)
  then have "axis_accepts (vector_dump v') = axis_accepts vs" by (simp add: axis_accepts_def fun_eq_iff)
  with out have "vector_ok v'" by (simp add: vector_ok_def)
  moreover have "rg_after ch = v'" using after v' by simp
  ultimately show ?thesis
    using out by (simp add: Inr ch same mv [symmetric])
next
  case (Inl e)
  have "rq = [] \<or> (\<exists>p\<in>set rq. \<not> dhas AXIS_BOUNDS (fst p))"
  proof (rule ccontr)
    assume "\<not> ?thesis"
    then have ne: "rq \<noteq> []" and known: "list_all (\<lambda>p. dhas AXIS_BOUNDS (fst p)) rq" by (auto simp: list_all_iff)
    obtain vs applied where fold:
      "foldl (apply_axis L md event_type rq) (vector_dump v, []) (sort (map fst rq)) = (vs, applied)"
      by fastforce
    have event_known: "\<not> (deltas = None \<and> \<not> dhas RELATIONSHIP_EVENT_DELTAS event_type)"
      using ne rq by (cases deltas) (auto simp: dget_or_def dhas_def split: option.splits)
    from dist have "distinct (sort (map fst rq))" by simp
    note out = apply_axes [OF fold this L v [unfolded vector_ok_def]]
    have "dhas vs a" if "dhas AXIS_BOUNDS a" for a
      using out vector_dump_keys [of v a] that by (simp add: dhas_def)
    from vector_validate_ok [OF conjunct1 [OF out] this] obtain v' where "vector_validate vs = Inr v'" by blast
    with Inl fold ne known event_known show False
      unfolding apply_relationship_def Let_def rq [symmetric] md [symmetric] by simp
  qed
  then show ?thesis by (simp add: Inl)
qed

text \<open>
  An event moves the axes it names and no others, within their bounds. Applied to a legal vector
  and a request without repeated axes, it fails only for an unknown event type, an empty request
  or an unknown axis; otherwise the vector it returns is legal again, every requested axis has its new
  clamped value (attraction only where it is permitted), every other axis is as
  before, and the deltas reported are the differences.
\<close>

theorem relationship_outcome:
  assumes L: "lawful_lib L" "exact_ints L" and v: "vector_ok v"
    and rq: "rq = (case deltas of None \<Rightarrow> dget_or RELATIONSHIP_EVENT_DELTAS event_type [] | Some ds \<Rightarrow> ds)"
    and md: "md = (case modifiers of None \<Rightarrow> default_modifiers | Some m \<Rightarrow> m)"
    and dist: "distinct (map fst rq)"
  shows "case apply_relationship L v event_type modifiers deltas of
      Inl e \<Rightarrow> rq = [] \<or> (\<exists>p\<in>set rq. \<not> dhas AXIS_BOUNDS (fst p))
    | Inr ch \<Rightarrow> vector_ok (rg_after ch) \<and> rg_before ch = v \<and>
        (\<forall>a. dget (vector_dump (rg_after ch)) a = (if moves md rq a
           then Some (Some (new_value L md event_type rq (vector_dump v) a)) else dget (vector_dump v) a)) \<and>
        (\<forall>a. dget (rg_applied_deltas ch) a = (if moves md rq a
           then Some (round6 L (fl L (new_value L md event_type rq (vector_dump v) a - axis_value (vector_dump v) a)))
           else None))"
  by (rule relationship_spec [OF assms])

theorem relationship_outcome_witness:
  "\<exists>ch. apply_relationship ref_lib neutral_vector ''saved_life'' None None = Inr ch \<and>
    vector_ok (rg_after ch) \<and> rg_before ch = neutral_vector"
proof -
  let ?rq = "[(''trust'', 20), (''affection'', 10), (''obligation'', 25)] :: (string \<times> rat) list"
  have rq: "?rq = (case None of None \<Rightarrow> dget_or RELATIONSHIP_EVENT_DELTAS ''saved_life'' [] | Some ds \<Rightarrow> ds)"
    by (simp add: RELATIONSHIP_EVENT_DELTAS_def dget_or_def)
  have v: "vector_ok neutral_vector" by code_simp
  have known: "list_all (\<lambda>p. dhas AXIS_BOUNDS (fst p)) ?rq" by (simp add: AXIS_BOUNDS_def dhas_def)
  have "case apply_relationship ref_lib neutral_vector ''saved_life'' None None of
      Inl e \<Rightarrow> ?rq = [] \<or> (\<exists>p\<in>set ?rq. \<not> dhas AXIS_BOUNDS (fst p))
    | Inr ch \<Rightarrow> vector_ok (rg_after ch) \<and> rg_before ch = neutral_vector"
    using relationship_outcome [OF lawful_ref_lib exact_ints_ref v rq refl, where modifiers = None]
    by (simp split: sum.splits)
  with known show ?thesis by (auto simp: list_all_iff split: sum.splits)
qed

end
