(* ===== verification/CognitionPlanning.thy ===== *)
theory CognitionPlanning
  imports Cognition
begin

text \<open>
  The goal-oriented planner of \<open>cognition/planning.py\<close>: a bounded uniform-cost search over
  JSON states. The key of a state is its canonical JSON document; the text that the code
  compares determines it. The heap is a list of nodes whose least one is taken, by cost, depth,
  path and counter: the state key that stands before the counter never decides, since two nodes
  with one path have the same state.
\<close>

record goap_action =
  ga_name :: string
  ga_preconditions :: jdict
  ga_effects :: jdict
  ga_cost :: rat

record plan_result =
  pl_achieved :: bool
  pl_actions :: "string list"
  pl_total_cost :: rat
  pl_explored_nodes :: nat
  pl_final_state :: jdict
  pl_reason :: string

record node =
  nd_cost :: rat
  nd_depth :: nat
  nd_path :: "string list"
  nd_key :: jval
  nd_count :: nat
  nd_state :: jdict

definition satisfies :: "jdict \<Rightarrow> jdict \<Rightarrow> bool" where
  "satisfies state requirements = list_all (\<lambda>(k, v). py_eq (dget_or state k JNull) v) requirements"

definition state_key :: "jdict \<Rightarrow> jval" where
  "state_key state = json_canon (JDict state)"

section \<open>The queue\<close>

definition node_order :: "node \<Rightarrow> rat \<times> nat \<times> string list \<times> nat" where
  "node_order n = (nd_cost n, nd_depth n, nd_path n, nd_count n)"

definition least_node :: "node \<Rightarrow> node list \<Rightarrow> node" where
  "least_node n ns = fold (\<lambda>m best. if node_order m < node_order best then m else best) ns n"

fun pop_node :: "node list \<Rightarrow> (node \<times> node list) option" where
  "pop_node [] = None"
| "pop_node (n # ns) = (let m = least_node n ns in Some (m, remove1 m (n # ns)))"

lemma least_node_in: "least_node n ns \<in> set (n # ns)"
proof -
  have "fold (\<lambda>m best. if node_order m < node_order best then m else best) ns b \<in> insert b (set ns)" for b
    by (induction ns arbitrary: b) (auto split: if_splits)
  then show ?thesis by (simp add: least_node_def)
qed

lemma least_node_le: "m \<in> set (n # ns) \<Longrightarrow> node_order (least_node n ns) \<le> node_order m"
proof -
  have "node_order (fold (\<lambda>m best. if node_order m < node_order best then m else best) ns b) \<le> node_order c"
    if "c \<in> insert b (set ns)" for b c
    using that
  proof (induction ns arbitrary: b c)
    case Nil
    then show ?case by simp
  next
    case (Cons x ns)
    let ?b = "if node_order x < node_order b then x else b"
    have "node_order (fold (\<lambda>m best. if node_order m < node_order best then m else best) ns ?b) \<le> node_order ?b"
      using Cons.IH [of ?b ?b] by simp
    moreover have "node_order ?b \<le> node_order x" "node_order ?b \<le> node_order b" by auto
    ultimately show ?case using Cons.prems Cons.IH [of c ?b] by (auto split: if_splits)
  qed
  then show "m \<in> set (n # ns) \<Longrightarrow> ?thesis" by (simp add: least_node_def)
qed

lemma pop_node_Some:
  assumes "pop_node q = Some (m, rest)"
  shows "m \<in> set q \<and> set rest \<subseteq> set q \<and> length rest < length q \<and> (\<forall>x\<in>set q. node_order m \<le> node_order x)"
proof (cases q)
  case Nil
  with assms show ?thesis by simp
next
  case (Cons n ns)
  let ?m = "least_node n ns"
  have m: "m = ?m" and rest: "rest = remove1 ?m q" using assms by (auto simp: Cons Let_def split: if_splits)
  have "?m \<in> set q" using least_node_in [of n ns] by (simp add: Cons)
  then show ?thesis
    using least_node_le [of _ n ns] length_pos_if_in_set [of ?m ns]
    by (auto simp: m rest length_remove1 Cons dest: notin_set_remove1)
qed

section \<open>The search\<close>

type_synonym frontier = "node list \<times> (jval \<times> rat) list \<times> nat"

definition expand_action :: "pylib \<Rightarrow> node \<Rightarrow> frontier \<Rightarrow> goap_action \<Rightarrow> frontier" where
  "expand_action L n fr a = (case fr of (queue, best, counter) \<Rightarrow>
     if \<not> satisfies (nd_state n) (ga_preconditions a) then fr
     else
       let next_state = dupdate (nd_state n) (ga_effects a);
           next_key = state_key next_state;
           next_cost = round_to L 9 (fl L (nd_cost n + ga_cost a))
       in case dget best next_key of
            Some c \<Rightarrow> if next_cost \<ge> c then fr
              else (queue @ [\<lparr>nd_cost = next_cost, nd_depth = nd_depth n + 1, nd_path = nd_path n @ [ga_name a],
                     nd_key = next_key, nd_count = counter, nd_state = next_state\<rparr>],
                    dset best next_key next_cost, counter + 1)
          | None \<Rightarrow>
              (queue @ [\<lparr>nd_cost = next_cost, nd_depth = nd_depth n + 1, nd_path = nd_path n @ [ga_name a],
                 nd_key = next_key, nd_count = counter, nd_state = next_state\<rparr>],
               dset best next_key next_cost, counter + 1))"

definition failed_plan :: "jdict \<Rightarrow> nat \<Rightarrow> node list \<Rightarrow> plan_result" where
  "failed_plan initial explored queue = \<lparr>pl_achieved = False, pl_actions = [], pl_total_cost = 0,
     pl_explored_nodes = explored, pl_final_state = initial,
     pl_reason = (if queue \<noteq> [] then ''search_bound_reached'' else ''no_plan'')\<rparr>"

function search ::
  "pylib \<Rightarrow> goap_action list \<Rightarrow> jdict \<Rightarrow> jdict \<Rightarrow> nat \<Rightarrow> nat \<Rightarrow> frontier \<Rightarrow> nat \<Rightarrow> plan_result" where
  "search L ordered_actions initial goal max_depth max_nodes (queue, best, counter) explored =
     (if explored \<ge> max_nodes then failed_plan initial explored queue
      else case pop_node queue of
        None \<Rightarrow> failed_plan initial explored queue
      | Some (n, rest) \<Rightarrow>
          if (case dget best (nd_key n) of Some c \<Rightarrow> nd_cost n > c | None \<Rightarrow> False)
          then search L ordered_actions initial goal max_depth max_nodes (rest, best, counter) explored
          else if satisfies (nd_state n) goal
          then \<lparr>pl_achieved = True, pl_actions = nd_path n, pl_total_cost = round6 L (nd_cost n),
                 pl_explored_nodes = explored + 1, pl_final_state = nd_state n, pl_reason = ''goal_reached''\<rparr>
          else if nd_depth n \<ge> max_depth
          then search L ordered_actions initial goal max_depth max_nodes (rest, best, counter) (explored + 1)
          else search L ordered_actions initial goal max_depth max_nodes
                 (foldl (expand_action L n) (rest, best, counter) ordered_actions) (explored + 1))"
  by pat_completeness auto

termination
  by (relation "measures [\<lambda>(L, as, i, g, d, mn, (q, b, c), e). mn - e, \<lambda>(L, as, i, g, d, mn, (q, b, c), e). length q]")
     (auto dest: pop_node_Some)

declare search.simps [simp del]

definition plan ::
  "pylib \<Rightarrow> jdict \<Rightarrow> jdict \<Rightarrow> goap_action list \<Rightarrow> int \<Rightarrow> int \<Rightarrow> plan_result res" where
  "plan L initial_state goal actions max_depth max_nodes =
     bindR (ensure (\<not> max_depth < 0) (ValueError ''max_depth cannot be negative'')) (\<lambda>_.
     bindR (ensure (\<not> max_nodes < 1) (ValueError ''max_nodes must be positive'')) (\<lambda>_.
     bindR (ensure (distinct (map ga_name actions)) (ValueError ''GOAP action names must be unique'')) (\<lambda>_.
     if satisfies initial_state goal
     then Inr \<lparr>pl_achieved = True, pl_actions = [], pl_total_cost = 0, pl_explored_nodes = 0,
            pl_final_state = initial_state, pl_reason = ''goal_already_satisfied''\<rparr>
     else Inr (search L (sort_key ga_name actions) initial_state goal (nat max_depth) (nat max_nodes)
       ([\<lparr>nd_cost = 0, nd_depth = 0, nd_path = [], nd_key = state_key initial_state, nd_count = 0,
          nd_state = initial_state\<rparr>], [(state_key initial_state, 0)], 1) 0))))"

section \<open>Soundness\<close>

definition action_named :: "goap_action list \<Rightarrow> string \<Rightarrow> goap_action option" where
  "action_named actions name = List.find (\<lambda>a. ga_name a = name) actions"

text \<open>Carrying out a sequence of actions from a state, as the simulation would.\<close>

fun carry_out :: "goap_action list \<Rightarrow> jdict \<Rightarrow> string list \<Rightarrow> jdict option" where
  "carry_out actions state [] = Some state"
| "carry_out actions state (name # names) = (case action_named actions name of
      None \<Rightarrow> None
    | Some a \<Rightarrow> if satisfies state (ga_preconditions a)
        then carry_out actions (dupdate state (ga_effects a)) names else None)"

text \<open>The cost of a sequence, rounded at each step as the search does it.\<close>

fun path_cost :: "pylib \<Rightarrow> goap_action list \<Rightarrow> rat \<Rightarrow> string list \<Rightarrow> rat" where
  "path_cost L actions c [] = c"
| "path_cost L actions c (name # names) = path_cost L actions
     (case action_named actions name of None \<Rightarrow> c | Some a \<Rightarrow> round_to L 9 (fl L (c + ga_cost a))) names"

lemma carry_out_snoc:
  "carry_out actions s (ns @ [n]) = (case carry_out actions s ns of None \<Rightarrow> None
     | Some s' \<Rightarrow> (case action_named actions n of None \<Rightarrow> None
       | Some a \<Rightarrow> if satisfies s' (ga_preconditions a) then Some (dupdate s' (ga_effects a)) else None))"
  by (induction ns arbitrary: s) (auto split: option.splits)

lemma path_cost_snoc:
  "path_cost L actions c (ns @ [n]) = (case action_named actions n of None \<Rightarrow> path_cost L actions c ns
     | Some a \<Rightarrow> round_to L 9 (fl L (path_cost L actions c ns + ga_cost a)))"
  by (induction ns arbitrary: c) (auto split: option.splits)

lemma action_named_distinct:
  assumes "distinct (map ga_name actions)" and "a \<in> set actions"
  shows "action_named actions (ga_name a) = Some a"
  using assms by (induction actions) (auto simp: action_named_def image_iff split: if_splits)

definition node_ok :: "pylib \<Rightarrow> goap_action list \<Rightarrow> jdict \<Rightarrow> nat \<Rightarrow> node \<Rightarrow> bool" where
  "node_ok L actions initial max_depth n \<longleftrightarrow>
     carry_out actions initial (nd_path n) = Some (nd_state n) \<and> nd_depth n = length (nd_path n) \<and>
     nd_depth n \<le> max_depth \<and> nd_cost n = path_cost L actions 0 (nd_path n) \<and>
     nd_key n = state_key (nd_state n)"

lemma expand_action_ok:
  assumes "distinct (map ga_name actions)" and "a \<in> set actions"
    and n: "node_ok L actions initial d n" "nd_depth n < d"
    and fr: "\<forall>m\<in>set (fst fr). node_ok L actions initial d m"
  shows "\<forall>m\<in>set (fst (expand_action L n fr a)). node_ok L actions initial d m"
proof -
  obtain queue best counter where fr': "fr = (queue, best, counter)" by (cases fr)
  note named = action_named_distinct [OF assms(1,2)]
  show ?thesis
    using n fr named
    by (auto simp: fr' expand_action_def Let_def node_ok_def carry_out_snoc path_cost_snoc split: option.splits)
qed

lemma expand_all_ok:
  assumes names: "distinct (map ga_name actions)" and "set as \<subseteq> set actions"
    and n: "node_ok L actions initial d n" "nd_depth n < d"
    and "\<forall>m\<in>set (fst fr). node_ok L actions initial d m"
  shows "\<forall>m\<in>set (fst (foldl (expand_action L n) fr as)). node_ok L actions initial d m"
  using assms(2,5)
proof (induction as arbitrary: fr)
  case Nil
  then show ?case by simp
next
  case (Cons a as)
  have "\<forall>m\<in>set (fst (expand_action L n fr a)). node_ok L actions initial d m"
    by (rule expand_action_ok [OF names _ n]) (use Cons.prems in auto)
  then show ?case using Cons by simp
qed

definition sound_result ::
  "pylib \<Rightarrow> goap_action list \<Rightarrow> jdict \<Rightarrow> jdict \<Rightarrow> nat \<Rightarrow> nat \<Rightarrow> plan_result \<Rightarrow> bool" where
  "sound_result L actions initial goal max_depth max_nodes r \<longleftrightarrow>
     pl_explored_nodes r \<le> max_nodes \<and>
     (if pl_achieved r
      then carry_out actions initial (pl_actions r) = Some (pl_final_state r) \<and>
        satisfies (pl_final_state r) goal \<and> length (pl_actions r) \<le> max_depth \<and>
        pl_total_cost r = round6 L (path_cost L actions 0 (pl_actions r))
      else pl_actions r = [] \<and> pl_final_state r = initial \<and>
        pl_reason r \<in> {''search_bound_reached'', ''no_plan''})"

lemma search_sound:
  assumes names: "distinct (map ga_name actions)" and sub: "set ordered \<subseteq> set actions"
    and "\<forall>m\<in>set (fst fr). node_ok L actions initial max_depth m" and "explored \<le> max_nodes"
  shows "sound_result L actions initial goal max_depth max_nodes
    (search L ordered initial goal max_depth max_nodes fr explored)"
  using assms(2-4)
proof (induction L ordered initial goal max_depth max_nodes fr explored rule: search.induct)
  case (1 L ordered initial goal max_depth max_nodes queue best counter explored)
  show ?case
  proof (cases "explored \<ge> max_nodes \<or> pop_node queue = None")
    case True
    then show ?thesis
      using "1.prems"(3) by (subst search.simps) (auto simp: sound_result_def failed_plan_def)
  next
    case False
    then obtain n rest where more: "\<not> explored \<ge> max_nodes" and pop: "pop_node queue = Some (n, rest)"
      by auto
    let ?stale = "case dget best (nd_key n) of Some c \<Rightarrow> nd_cost n > c | None \<Rightarrow> False"
    have n: "node_ok L actions initial max_depth n"
      and rest: "\<forall>m\<in>set (fst (rest, best, counter)). node_ok L actions initial max_depth m"
      using pop_node_Some [OF pop] "1.prems"(2) by auto
    consider "?stale" | "\<not> ?stale" "satisfies (nd_state n) goal"
      | "\<not> ?stale" "\<not> satisfies (nd_state n) goal" "nd_depth n \<ge> max_depth"
      | "\<not> ?stale" "\<not> satisfies (nd_state n) goal" "nd_depth n < max_depth" by fastforce
    then show ?thesis
    proof cases
      case 1
      then show ?thesis
        using "1.IH"(1) [OF more pop refl 1 "1.prems"(1) rest "1.prems"(3)] more pop by (subst search.simps) simp
    next
      case 2
      then show ?thesis
        using more pop n by (subst search.simps) (simp add: sound_result_def node_ok_def)
    next
      case 3
      then show ?thesis
        using "1.IH"(2) [OF more pop refl 3 "1.prems"(1) rest] more pop by (subst search.simps) simp
    next
      case 4
      have "\<forall>m\<in>set (fst (foldl (expand_action L n) (rest, best, counter) ordered)).
          node_ok L actions initial max_depth m"
        by (rule expand_all_ok [OF names "1.prems"(1) n 4(3) rest])
      then show ?thesis
        using "1.IH"(3) [OF more pop refl 4(1,2) _ "1.prems"(1)] 4 more pop by (subst search.simps) simp
    qed
  qed
qed


lemma plan_errors:
  "plan L initial goal actions max_depth max_nodes = Inl e \<Longrightarrow>
     max_depth < 0 \<or> max_nodes < 1 \<or> \<not> distinct (map ga_name actions)"
  by (auto simp: plan_def split: if_splits)

lemma plan_sound:
  assumes "lawful_lib L" and "plan L initial goal actions max_depth max_nodes = Inr r"
  shows "sound_result L actions initial goal (nat max_depth) (nat max_nodes) r"
proof -
  have names: "distinct (map ga_name actions)"
    using assms by (auto simp: plan_def split: if_splits)
  let ?start = "[\<lparr>nd_cost = 0, nd_depth = 0, nd_path = [], nd_key = state_key initial, nd_count = 0,
    nd_state = initial\<rparr>]"
  show ?thesis
  proof (cases "satisfies initial goal")
    case True
    then have "r = \<lparr>pl_achieved = True, pl_actions = [], pl_total_cost = 0, pl_explored_nodes = 0,
        pl_final_state = initial, pl_reason = ''goal_already_satisfied''\<rparr>"
      using assms by (auto simp: plan_def split: if_splits)
    then show ?thesis using True round6_consts(1) [OF assms(1)] by (simp add: sound_result_def)
  next
    case False
    then have r: "r = search L (sort_key ga_name actions) initial goal (nat max_depth) (nat max_nodes)
        (?start, [(state_key initial, 0)], 1) 0"
      using assms by (auto simp: plan_def split: if_splits)
    show ?thesis
      unfolding r by (rule search_sound [OF names]) (simp_all add: node_ok_def)
  qed
qed

text \<open>
  C21. The planner fails only for bounds below their minimum or repeated action names. Otherwise it
  returns, explores at most \<open>max_nodes\<close> nodes, and what it reports is true:
  an achieved plan is a sequence of at most \<open>max_depth\<close> named actions each of whose preconditions
  holds when it is carried out, it ends in the reported state, which satisfies the goal, and the
  reported cost is the accumulated one; otherwise there is no action and the state is the initial one.
\<close>

theorem plan_is_sound:
  assumes "lawful_lib L"
  shows "case plan L initial goal actions max_depth max_nodes of
      Inl e \<Rightarrow> max_depth < 0 \<or> max_nodes < 1 \<or> \<not> distinct (map ga_name actions)
    | Inr r \<Rightarrow> sound_result L actions initial goal (nat max_depth) (nat max_nodes) r"
  using plan_sound [OF assms] plan_errors by (auto split: sum.splits)

section \<open>The depth bound\<close>

text \<open>Two ways to the same place: a direct, dear one and a cheap detour.\<close>

definition walk :: "string \<Rightarrow> int \<Rightarrow> int \<Rightarrow> rat \<Rightarrow> goap_action" where
  "walk name a b c = \<lparr>ga_name = name, ga_preconditions = [(''at'', JInt a)],
     ga_effects = [(''at'', JInt b)], ga_cost = c\<rparr>"

definition detour_actions :: "goap_action list" where
  "detour_actions = [walk ''direct'' 0 2 5, walk ''detour'' 0 1 1, walk ''return'' 1 2 1, walk ''finish'' 2 3 1]"

definition place :: "int \<Rightarrow> jdict" where
  "place n = [(''at'', JInt n)]"

theorem plan_is_sound_witness:
  "sound_result ref_lib detour_actions (place 0) (place 3) 3 256
    \<lparr>pl_achieved = True, pl_actions = [''detour'', ''return'', ''finish''], pl_total_cost = 3,
     pl_explored_nodes = 4, pl_final_state = place 3, pl_reason = ''goal_reached''\<rparr>"
proof -
  have "plan ref_lib (place 0) (place 3) detour_actions 3 256 =
    Inr \<lparr>pl_achieved = True, pl_actions = [''detour'', ''return'', ''finish''], pl_total_cost = 3,
     pl_explored_nodes = 4, pl_final_state = place 3, pl_reason = ''goal_reached''\<rparr>" by code_simp
  with plan_is_sound [OF lawful_ref_lib, where initial = "place 0" and goal = "place 3" and actions = detour_actions
    and max_depth = 3 and max_nodes = 256] show ?thesis by simp
qed

text \<open>
  The bound on the depth is not applied to the states reached but to the cheapest way found to
  each: when a cheap detour has taken the place of a short way to a state, a goal that the short way
  reaches within \<open>max_depth\<close> actions is reported to have no plan.
\<close>

theorem planner_misses_short_plan:
  "plan ref_lib (place 0) (place 3) detour_actions 2 256 =
     Inr \<lparr>pl_achieved = False, pl_actions = [], pl_total_cost = 0, pl_explored_nodes = 3,
       pl_final_state = place 0, pl_reason = ''no_plan''\<rparr> \<and>
   carry_out detour_actions (place 0) [''direct'', ''finish''] = Some (place 3)"
  by code_simp

end
