(* ===== verification/CognitionDecision.thy ===== *)
theory CognitionDecision
  imports CognitionPlanning "HOL-Library.Multiset"
begin

text \<open>
  The layered decision engine, \<open>cognition/engine.py\<close>, and its layers: reflexes
  (\<open>cognition/reflexes.py\<close>), utility (\<open>cognition/policy.py\<close>), the planner and the deliberation
  gateway (\<open>cognition/deliberation.py\<close>). The sum and the uniform noise of the utility layer and
  the provider of the gateway are parameters; a provider is a function of the request, so it does
  not change the request's situation.
\<close>

section \<open>Reflexes\<close>

datatype condition_operator = EQ | NE | LT | LTE | GT | GTE | IN | CONTAINS | TRUTHY

record reflex_condition =
  rx_path :: string
  rx_operator :: condition_operator
  rx_value :: jval

record reflex_rule =
  rl_rule_id :: string
  rl_action :: string
  rl_priority :: int
  rl_conditions :: "reflex_condition list"

record reflex_decision =
  rd_action :: string
  rd_rule_id :: string
  rd_priority :: int
  rd_matched_rule_ids :: "string list"

fun split_dots :: "string \<Rightarrow> string \<Rightarrow> string list" where
  "split_dots acc [] = [acc]"
| "split_dots acc (c # cs) = (if c = CHR ''.'' then acc # split_dots [] cs else split_dots (acc @ [c]) cs)"

fun resolve_in :: "jval \<Rightarrow> string list \<Rightarrow> jval option" where
  "resolve_in v [] = Some v"
| "resolve_in v (c # cs) = (case v of
      JDict d \<Rightarrow> (case dget d c of None \<Rightarrow> None | Some w \<Rightarrow> resolve_in w cs)
    | _ \<Rightarrow> None)"

definition resolve :: "jdict \<Rightarrow> string \<Rightarrow> jval option" where
  "resolve source path = resolve_in (JDict source) (split_dots [] path)"

text \<open>\<open>item in container\<close>, \<open>None\<close> where Python raises \<open>TypeError\<close>.\<close>

fun json_in :: "jval \<Rightarrow> jval \<Rightarrow> bool option" where
  "json_in v (JList ys) = Some (list_ex (\<lambda>y. py_eq v y) ys)"
| "json_in v (JStr t) = (case v of JStr s \<Rightarrow> Some (has_infix s t) | _ \<Rightarrow> None)"
| "json_in v (JDict d) = (case v of JStr s \<Rightarrow> Some (dhas d s) | JList _ \<Rightarrow> None | JDict _ \<Rightarrow> None | _ \<Rightarrow> Some False)"
| "json_in v w = None"

definition py_le :: "jval \<Rightarrow> jval \<Rightarrow> bool option" where
  "py_le v w = map_option (\<lambda>b. b \<or> py_eq v w) (py_less v w)"

definition operator_holds :: "condition_operator \<Rightarrow> jval \<Rightarrow> jval \<Rightarrow> bool" where
  "operator_holds cop actual expected = (case cop of
      EQ \<Rightarrow> py_eq actual expected
    | NE \<Rightarrow> \<not> py_eq actual expected
    | LT \<Rightarrow> py_less actual expected = Some True
    | LTE \<Rightarrow> py_le actual expected = Some True
    | GT \<Rightarrow> py_less expected actual = Some True
    | GTE \<Rightarrow> py_le expected actual = Some True
    | IN \<Rightarrow> json_in actual expected = Some True
    | CONTAINS \<Rightarrow> json_in expected actual = Some True
    | TRUTHY \<Rightarrow> py_bool actual)"

definition condition_matches :: "jdict \<Rightarrow> reflex_condition \<Rightarrow> bool" where
  "condition_matches situation c = (case resolve situation (rx_path c) of
      None \<Rightarrow> False
    | Some actual \<Rightarrow> operator_holds (rx_operator c) actual (rx_value c))"

definition rule_matches :: "jdict \<Rightarrow> reflex_rule \<Rightarrow> bool" where
  "rule_matches situation r = list_all (condition_matches situation) (rl_conditions r)"

definition rule_order :: "reflex_rule \<Rightarrow> int \<times> string \<times> string" where
  "rule_order r = (- rl_priority r, rl_rule_id r, rl_action r)"

definition choose_reflex :: "jdict \<Rightarrow> reflex_rule list \<Rightarrow> reflex_decision option res" where
  "choose_reflex situation rules =
     bindR (ensure (distinct (map rl_rule_id rules)) (ValueError ''Reflex rule IDs must be unique'')) (\<lambda>_.
     case sort_key rule_order (filter (rule_matches situation) rules) of
       [] \<Rightarrow> Inr None
     | r # rs \<Rightarrow> Inr (Some \<lparr>rd_action = rl_action r, rd_rule_id = rl_rule_id r, rd_priority = rl_priority r,
         rd_matched_rule_ids = map rl_rule_id (r # rs)\<rparr>))"

section \<open>Utility\<close>

record decision_candidate =
  dc_action :: string
  dc_score :: rat
  dc_factors :: "(string \<times> rat) list"

record compiled_persona =
  cp_persona_id :: uuid
  cp_persona_version :: string
  cp_compiler_version :: string
  cp_identity_summary :: string
  cp_policy_weights :: "(string \<times> rat) list"
  cp_starting_goals :: "string list"
  cp_retrieval_filters :: "string list"
  cp_starting_beliefs :: "jdict list"
  cp_starting_relationships :: "jdict list"
  cp_routines :: "jdict list"
  cp_capability_modifiers :: "(string \<times> rat) list"
  cp_deep_traits :: jdict

record decision_trace =
  dt_trace_id :: uuid
  dt_persona_id :: uuid
  dt_persona_version :: string
  dt_policy_version :: string
  dt_runtime_kind :: string
  dt_seed :: int
  dt_candidates :: "decision_candidate list"
  dt_chosen_action :: string
  dt_decision_tier :: "string option"
  dt_rationale :: "string option"
  dt_fallback_reason :: "string option"
  dt_plan :: "string list"
  dt_prompt_contract_version :: "string option"
  dt_model_version :: "string option"

record action_option =
  ao_action :: string
  ao_factors :: "(string \<times> rat) list"

text \<open>\<open>sum\<close> of floats and \<open>uniform(-0.05, 0.05)\<close> with the next state of the generator.\<close>

record utility_lib =
  ul_sum :: "rat list \<Rightarrow> rat"
  ul_uniform :: "nat \<Rightarrow> rat \<times> nat"

fun score_options :: "pylib \<Rightarrow> utility_lib \<Rightarrow> nat \<Rightarrow> action_option list \<Rightarrow> decision_candidate list" where
  "score_options L U g [] = []"
| "score_options L U g (opt # opts) = (case ul_uniform U g of (noise, g') \<Rightarrow>
     \<lparr>dc_action = ao_action opt,
      dc_score = round6 L (fl L (ul_sum U (map snd (ao_factors opt)) + noise)),
      dc_factors = ao_factors opt\<rparr> # score_options L U g' opts)"

definition candidate_order :: "decision_candidate \<Rightarrow> rat \<times> string" where
  "candidate_order c = (dc_score c, dc_action c)"

definition max_candidate :: "decision_candidate \<Rightarrow> decision_candidate list \<Rightarrow> decision_candidate" where
  "max_candidate c cs = foldl (\<lambda>best x. if candidate_order best < candidate_order x then x else best) c cs"

definition choose_utility ::
  "pylib \<Rightarrow> utility_lib \<Rightarrow> compiled_persona \<Rightarrow> int \<Rightarrow> action_option list \<Rightarrow> decision_trace res" where
  "choose_utility L U persona seed options =
     (case score_options L U (rng_new L seed) (sort_key ao_action options) of
        [] \<Rightarrow> Inl (ValueError ''max() iterable argument is empty'')
      | c # cs \<Rightarrow>
          let chosen = max_candidate c cs
          in Inr \<lparr>dt_trace_id = uuid5 L (''tabletop-dm:trace:'' @ cp_persona_id persona @ '':'' @
                 ''onboarding-policy-1.0.0'' @ '':'' @ int_str seed @ '':'' @ dc_action chosen),
               dt_persona_id = cp_persona_id persona, dt_persona_version = cp_persona_version persona,
               dt_policy_version = ''onboarding-policy-1.0.0'', dt_runtime_kind = ''UTILITY'',
               dt_seed = seed, dt_candidates = c # cs, dt_chosen_action = dc_action chosen,
               dt_decision_tier = None, dt_rationale = None, dt_fallback_reason = None, dt_plan = [],
               dt_prompt_contract_version = None, dt_model_version = None\<rparr>)"

section \<open>Deliberation\<close>

record deliberation_request =
  dq_identity_summary :: string
  dq_situation :: jdict
  dq_allowed_actions :: "string list"
  dq_seed :: int
  dq_prompt_contract_version :: string

record deliberation_response =
  ds_action :: string
  ds_rationale :: string
  ds_confidence :: rat

record deliberation_result =
  dl_response :: deliberation_response
  dl_used_model :: bool
  dl_model_version :: "string option"
  dl_fallback_reason :: "string option"

text \<open>What a call of the provider comes back with; the text of an answer is given with what
  \<open>json.loads\<close> makes of it, and an exception with the name of its class and whether it is one of
  those that count as an invalid answer.\<close>

datatype completion =
    Typed deliberation_response
  | Mapping jval
  | JsonText "jval option"
  | Raises string bool

record provider =
  pv_model_version :: string
  pv_complete :: "deliberation_request \<Rightarrow> completion"

definition response_schema :: schema where
  "response_schema = [(''action'', FStr 0 None, None), (''rationale'', FStr 1 (Some 2000), None),
     (''confidence'', FFloat (Some 0) (Some 1), None)]"

definition validate_response :: "pylib \<Rightarrow> jval \<Rightarrow> deliberation_response option" where
  "validate_response L v = (case v of
      JDict d \<Rightarrow> if list_all (\<lambda>p. fst p \<in> set (map fst response_schema)) d
        then map_option (\<lambda>r. \<lparr>ds_action = vstr r ''action'', ds_rationale = vstr r ''rationale'',
               ds_confidence = vrat r ''confidence''\<rparr>) (check_fields L response_schema d)
        else None
    | _ \<Rightarrow> None)"

definition fallback_order :: "(string \<times> rat) list \<Rightarrow> string \<Rightarrow> rat \<times> string" where
  "fallback_order scores action = (- dget_or scores action 0, action)"

definition min_action :: "(string \<times> rat) list \<Rightarrow> string list \<Rightarrow> string" where
  "min_action scores actions = foldl (\<lambda>best x. if fallback_order scores x < fallback_order scores best then x else best)
     (hd actions) (tl actions)"

definition fallback_rationale :: "string \<Rightarrow> string" where
  "fallback_rationale reason = ''Deterministic policy fallback ('' @ reason @ '').''"

definition fallback :: "deliberation_request \<Rightarrow> (string \<times> rat) list \<Rightarrow> string \<Rightarrow> deliberation_result" where
  "fallback request scores reason = \<lparr>dl_response = \<lparr>ds_action = min_action scores (dq_allowed_actions request),
       ds_rationale = fallback_rationale reason, ds_confidence = 1 / 2\<rparr>,
     dl_used_model = False, dl_model_version = None, dl_fallback_reason = Some reason\<rparr>"

definition completed :: "pylib \<Rightarrow> completion \<Rightarrow> string + deliberation_response" where
  "completed L c = (case c of
      Typed r \<Rightarrow> Inr r
    | Mapping v \<Rightarrow> (case validate_response L v of None \<Rightarrow> Inl ''invalid_model_response:ValidationError'' | Some r \<Rightarrow> Inr r)
    | JsonText None \<Rightarrow> Inl ''invalid_model_response:JSONDecodeError''
    | JsonText (Some v) \<Rightarrow> (case validate_response L v of
          None \<Rightarrow> Inl ''invalid_model_response:ValidationError'' | Some r \<Rightarrow> Inr r)
    | Raises name invalid \<Rightarrow> Inl ((if invalid then ''invalid_model_response:'' else ''model_provider_error:'') @ name))"

text \<open>The rationale of a fallback is validated too, which fails when the action that the model named is
  too long; that failure is then one of the invalid answers. Names of exception classes are short.\<close>

definition disallowed_reason :: "string \<Rightarrow> string" where
  "disallowed_reason action = (let reason = ''model_selected_disallowed_action:'' @ action
     in if length (fallback_rationale reason) \<le> 2000 then reason else ''invalid_model_response:ValidationError'')"

definition deliberate ::
  "pylib \<Rightarrow> deliberation_request \<Rightarrow> (string \<times> rat) list \<Rightarrow> provider option \<Rightarrow> deliberation_result res" where
  "deliberate L request scores prov =
     bindR (ensure (list_all (dhas scores) (dq_allowed_actions request))
       (ValueError ''Missing fallback scores for actions'')) (\<lambda>_.
     case prov of
       None \<Rightarrow> Inr (fallback request scores ''model_provider_unavailable'')
     | Some pv \<Rightarrow> (case completed L (pv_complete pv request) of
           Inl reason \<Rightarrow> Inr (fallback request scores reason)
         | Inr r \<Rightarrow>
             if ds_action r \<notin> set (dq_allowed_actions request)
             then Inr (fallback request scores (disallowed_reason (ds_action r)))
             else Inr \<lparr>dl_response = r, dl_used_model = True,
               dl_model_version = Some (pv_model_version pv), dl_fallback_reason = None\<rparr>))"

section \<open>Facts of the layers\<close>

lemma choose_reflex_cases:
  assumes "choose_reflex situation rules = Inr x"
  shows "case x of None \<Rightarrow> \<forall>r\<in>set rules. \<not> rule_matches situation r
    | Some d \<Rightarrow> \<exists>r\<in>set rules. rule_matches situation r \<and> rl_rule_id r = rd_rule_id d \<and> rl_action r = rd_action d \<and>
        rl_priority r = rd_priority d \<and> (\<forall>q\<in>set rules. rule_matches situation q \<longrightarrow> rule_order r \<le> rule_order q)"
proof -
  let ?m = "filter (rule_matches situation) rules"
  have set_m: "set (sort_key rule_order ?m) = set ?m" by simp
  have sorted_m: "sorted (map rule_order (sort_key rule_order ?m))" by simp
  show ?thesis
  proof (cases "sort_key rule_order ?m")
    case Nil
    then have "?m = []" using set_m by (simp only: Nil list.set) (metis set_empty)
    then show ?thesis using assms Nil by (auto simp: choose_reflex_def filter_empty_conv split: if_splits)
  next
    case (Cons r rs)
    have x: "x = Some \<lparr>rd_action = rl_action r, rd_rule_id = rl_rule_id r, rd_priority = rl_priority r,
        rd_matched_rule_ids = map rl_rule_id (r # rs)\<rparr>"
      using assms by (simp add: choose_reflex_def Cons split: if_splits)
    have r: "r \<in> set ?m" using set_m unfolding Cons by auto
    have "rule_order r \<le> rule_order q" if "q \<in> set ?m" for q
      using that set_m sorted_m unfolding Cons by auto
    with r show ?thesis by (auto simp: x)
  qed
qed

text \<open>
  The reflex layer does not depend on the order in which the rules are listed: two lists of the
  same rules give the same decision, the matching rule of the highest priority, and among those the
  one whose identifier comes first, or the same error.
\<close>

theorem reflex_order_irrelevant:
  assumes "mset rules = mset rules'"
  shows "choose_reflex situation rules = choose_reflex situation rules'"
proof (cases "distinct (map rl_rule_id rules)")
  case True
  let ?f = "filter (rule_matches situation)"
  have "inj_on rule_order (set (?f rules))"
    using True by (auto simp: inj_on_def rule_order_def distinct_map)
  moreover have "mset (?f rules) = mset (sort_key rule_order (?f rules'))" using assms by simp
  ultimately have "sort_key rule_order (?f rules) = sort_key rule_order (?f rules')"
    by (intro sort_key_inj_key_eq) simp_all
  moreover have "distinct (map rl_rule_id rules')"
    using True assms by (metis mset_map mset_eq_imp_distinct_iff)
  ultimately show ?thesis using True by (simp add: choose_reflex_def)
next
  case False
  then have "\<not> distinct (map rl_rule_id rules')"
    using assms by (metis mset_map mset_eq_imp_distinct_iff)
  with False show ?thesis by (simp add: choose_reflex_def)
qed

lemma scored_actions: "map dc_action (score_options L U g opts) = map ao_action opts"
  by (induction opts arbitrary: g) (auto split: prod.splits)

lemma utility_candidates:
  assumes "choose_utility L U persona seed opts = Inr t"
  shows "map dc_action (dt_candidates t) = map ao_action (sort_key ao_action opts) \<and> dt_candidates t \<noteq> []"
  using assms scored_actions [of L U "rng_new L seed" "sort_key ao_action opts"]
  by (auto simp: choose_utility_def Let_def split: list.splits)

lemma utility_returns: "opts \<noteq> [] \<Longrightarrow> \<exists>t. choose_utility L U persona seed opts = Inr t"
proof -
  assume "opts \<noteq> []"
  then have "length (map ao_action (sort_key ao_action opts)) \<noteq> 0" by simp
  then have "score_options L U (rng_new L seed) (sort_key ao_action opts) \<noteq> []"
    unfolding scored_actions [of L U "rng_new L seed", symmetric] by auto
  then show ?thesis by (auto simp: choose_utility_def Let_def split: list.splits)
qed

text \<open>A scan that keeps the better of two ends with the best.\<close>

lemma scan_min:
  fixes f :: "'a \<Rightarrow> 'b::linorder"
  defines "better \<equiv> \<lambda>best x. if f x < f best then x else best"
  shows "foldl better b xs \<in> set (b # xs) \<and> (\<forall>x\<in>set (b # xs). f (foldl better b xs) \<le> f x)"
proof (induction xs arbitrary: b)
  case Nil
  then show ?case by simp
next
  case (Cons x xs)
  have "f (better b x) \<le> f b" "f (better b x) \<le> f x" "better b x \<in> {b, x}"
    by (auto simp: better_def)
  with Cons.IH [of "better b x"] show ?case by force
qed

lemma min_action_best:
  assumes "actions \<noteq> []"
  shows "min_action scores actions \<in> set actions \<and>
    (\<forall>x\<in>set actions. dget_or scores x 0 \<le> dget_or scores (min_action scores actions) 0)"
proof -
  have "hd actions # tl actions = actions" using assms by simp
  note best = scan_min [of "fallback_order scores" "hd actions" "tl actions", unfolded this, folded min_action_def]
  then show ?thesis by (auto simp: fallback_order_def less_eq_prod_def)
qed

lemma deliberate_spec:
  assumes "dq_allowed_actions request \<noteq> []"
    and "\<forall>a\<in>set (dq_allowed_actions request). dhas scores a"
  shows "\<exists>res. deliberate L request scores prov = Inr res \<and>
    ds_action (dl_response res) \<in> set (dq_allowed_actions request) \<and>
    (if dl_used_model res
     then \<exists>pv. prov = Some pv \<and> completed L (pv_complete pv request) = Inr (dl_response res) \<and>
       dl_model_version res = Some (pv_model_version pv) \<and> dl_fallback_reason res = None
     else dl_model_version res = None \<and> dl_fallback_reason res \<noteq> None \<and>
       (\<forall>a\<in>set (dq_allowed_actions request). dget_or scores a 0 \<le> dget_or scores (ds_action (dl_response res)) 0))"
proof -
  have fb: "ds_action (dl_response (fallback request scores reason)) \<in> set (dq_allowed_actions request) \<and>
      \<not> dl_used_model (fallback request scores reason) \<and> dl_model_version (fallback request scores reason) = None \<and>
      dl_fallback_reason (fallback request scores reason) \<noteq> None \<and>
      (\<forall>a\<in>set (dq_allowed_actions request).
        dget_or scores a 0 \<le> dget_or scores (ds_action (dl_response (fallback request scores reason))) 0)" for reason
    using min_action_best [OF assms(1), of scores] by (simp add: fallback_def)
  have known: "list_all (dhas scores) (dq_allowed_actions request)"
    using assms(2) by (simp add: list_all_iff)
  show ?thesis
  proof (cases prov)
    case None
    then show ?thesis using known fb by (simp add: deliberate_def)
  next
    case (Some pv)
    show ?thesis
    proof (cases "completed L (pv_complete pv request)")
      case (Inl reason)
      then show ?thesis using known fb Some by (simp add: deliberate_def)
    next
      case (Inr r)
      then show ?thesis using known fb Some by (simp add: deliberate_def)
    qed
  qed
qed

text \<open>
  Whatever a provider answers or raises, deliberation selects an allowed action. With scores for
  all allowed actions it always returns; it reports a model answer only when the provider's
  answer was well formed and allowed, and falls back to an allowed action with the highest score otherwise.
\<close>

theorem deliberation_stays_allowed:
  assumes "dq_allowed_actions request \<noteq> []"
    and "\<forall>a\<in>set (dq_allowed_actions request). dhas scores a"
  shows "\<exists>res. deliberate L request scores prov = Inr res \<and>
    ds_action (dl_response res) \<in> set (dq_allowed_actions request) \<and>
    (if dl_used_model res
     then \<exists>pv. prov = Some pv \<and> completed L (pv_complete pv request) = Inr (dl_response res) \<and>
       dl_model_version res = Some (pv_model_version pv) \<and> dl_fallback_reason res = None
     else dl_model_version res = None \<and> dl_fallback_reason res \<noteq> None \<and>
       (\<forall>a\<in>set (dq_allowed_actions request). dget_or scores a 0 \<le> dget_or scores (ds_action (dl_response res)) 0))"
  by (rule deliberate_spec [OF assms])

section \<open>Two applications\<close>

theorem reflex_order_irrelevant_witness:
  "choose_reflex [] [\<lparr>rl_rule_id = ''a'', rl_action = ''x'', rl_priority = 1, rl_conditions = []\<rparr>,
       \<lparr>rl_rule_id = ''b'', rl_action = ''y'', rl_priority = 2, rl_conditions = []\<rparr>] =
   choose_reflex [] [\<lparr>rl_rule_id = ''b'', rl_action = ''y'', rl_priority = 2, rl_conditions = []\<rparr>,
       \<lparr>rl_rule_id = ''a'', rl_action = ''x'', rl_priority = 1, rl_conditions = []\<rparr>]"
  by (rule reflex_order_irrelevant) simp

definition two_ways :: deliberation_request where
  "two_ways = \<lparr>dq_identity_summary = ''i'', dq_situation = [], dq_allowed_actions = [''go'', ''stay''],
     dq_seed = 1, dq_prompt_contract_version = ''v''\<rparr>"

definition rogue :: provider where
  "rogue = \<lparr>pv_model_version = ''m'', pv_complete = (\<lambda>_. Typed \<lparr>ds_action = ''fly'', ds_rationale = ''why'', ds_confidence = 1\<rparr>)\<rparr>"

theorem deliberation_stays_allowed_witness:
  "\<exists>res. deliberate ref_lib two_ways [(''go'', 1), (''stay'', 0)] (Some rogue) = Inr res \<and>
    ds_action (dl_response res) \<in> {''go'', ''stay''} \<and> \<not> dl_used_model res"
proof -
  have "dq_allowed_actions two_ways \<noteq> []" "\<forall>a\<in>set (dq_allowed_actions two_ways). dhas [(''go'', 1 :: rat), (''stay'', 0)] a"
    by (simp_all add: two_ways_def dhas_def)
  from deliberation_stays_allowed [OF this, where L = ref_lib and prov = "Some rogue"]
  obtain res where res: "deliberate ref_lib two_ways [(''go'', 1), (''stay'', 0)] (Some rogue) = Inr res"
    and mem: "ds_action (dl_response res) \<in> set (dq_allowed_actions two_ways)"
    and how: "dl_used_model res \<longrightarrow> completed ref_lib (pv_complete rogue two_ways) = Inr (dl_response res)"
    by (auto split: if_splits)
  have "ds_action (dl_response res) = ''fly''" if "dl_used_model res"
    using how that by (simp add: rogue_def completed_def) (metis deliberation_response.select_convs(1))
  then have "\<not> dl_used_model res" using mem by (auto simp: two_ways_def)
  with res mem show ?thesis by (auto simp: two_ways_def)
qed

end
