(* ===== verification/CognitionEngine.thy ===== *)
theory CognitionEngine
  imports CognitionDecision
begin

text \<open>
  \<open>LayeredDecisionEngine.decide\<close> of \<open>cognition/engine.py\<close>: which layer decides, the trace, and the
  command proposal that is handed to the kernel.
\<close>

record decision_action =
  da_action :: string
  da_command_type :: string
  da_parameters :: jdict
  da_utility_factors :: "(string \<times> rat) list"

record decision_request =
  rq_persona :: compiled_persona
  rq_world_id :: uuid
  rq_branch_id :: uuid
  rq_run_id :: uuid
  rq_actor_id :: uuid
  rq_embodied_entity_id :: "uuid option"
  rq_interaction_id :: "uuid option"
  rq_correlation_id :: "uuid option"
  rq_causation_id :: "uuid option"
  rq_seed :: int
  rq_idempotency_key :: string
  rq_situation :: jdict
  rq_actions :: "decision_action list"
  rq_reflex_rules :: "reflex_rule list"
  rq_planning_goal :: jdict
  rq_planning_actions :: "goap_action list"
  rq_planner_max_depth :: int
  rq_planner_max_nodes :: int
  rq_utility_margin :: rat
  rq_novel_or_ambiguous :: bool
  rq_allow_llm :: bool
  rq_llm_runtime_kind :: string
  rq_prompt_contract_version :: string

text \<open>The validators of the class.\<close>

definition request_ok :: "decision_request \<Rightarrow> bool" where
  "request_ok r \<longleftrightarrow> rq_actions r \<noteq> [] \<and> distinct (map da_action (rq_actions r)) \<and>
     0 \<le> rq_planner_max_depth r \<and> rq_planner_max_depth r \<le> 32 \<and>
     1 \<le> rq_planner_max_nodes r \<and> rq_planner_max_nodes r \<le> 10000 \<and> 0 \<le> rq_utility_margin r \<and>
     rq_idempotency_key r \<noteq> [] \<and> length (rq_idempotency_key r) \<le> 200"

datatype tier = REFLEX | UTILITY | PLANNER | LLM

definition tier_name :: "tier \<Rightarrow> string" where
  "tier_name t = (case t of REFLEX \<Rightarrow> ''REFLEX'' | UTILITY \<Rightarrow> ''UTILITY'' | PLANNER \<Rightarrow> ''PLANNER'' | LLM \<Rightarrow> ''LLM'')"

record decision_outcome =
  do_tier :: tier
  do_trace :: decision_trace
  do_proposal :: proposal
  do_reflex :: "reflex_decision option"
  do_plan :: "plan_result option"
  do_deliberation :: "deliberation_result option"

text \<open>What the layers settle: the local variables of the method when the trace is built.\<close>

record choice =
  cx_chosen :: string
  cx_tier :: tier
  cx_runtime_kind :: string
  cx_rationale :: string
  cx_fallback_reason :: "string option"
  cx_plan :: "plan_result option"
  cx_plan_actions :: "string list"
  cx_deliberation :: "deliberation_result option"

definition options_of :: "decision_request \<Rightarrow> action_option list" where
  "options_of r = map (\<lambda>a. \<lparr>ao_action = da_action a, ao_factors = da_utility_factors a\<rparr>) (rq_actions r)"

definition actions_by_name :: "decision_request \<Rightarrow> (string \<times> decision_action) list" where
  "actions_by_name r = dupdate [] (map (\<lambda>a. (da_action a, a)) (rq_actions r))"

definition scores_by_name :: "decision_candidate list \<Rightarrow> (string \<times> rat) list" where
  "scores_by_name cs = dupdate [] (map (\<lambda>c. (dc_action c, dc_score c)) cs)"

definition ranked :: "decision_candidate list \<Rightarrow> decision_candidate list" where
  "ranked = sort_key (\<lambda>c. (- dc_score c, dc_action c))"

text \<open>The margin between the first two; a single candidate wins by an infinite one.\<close>

definition margin_of :: "pylib \<Rightarrow> decision_candidate list \<Rightarrow> rat option" where
  "margin_of L ordered = (case ordered of
      c # d # _ \<Rightarrow> Some (fl L (dc_score c - dc_score d)) | _ \<Rightarrow> None)"

definition utility_is_clear :: "pylib \<Rightarrow> decision_request \<Rightarrow> decision_candidate list \<Rightarrow> bool" where
  "utility_is_clear L r ordered \<longleftrightarrow> \<not> rq_novel_or_ambiguous r \<and>
     (case margin_of L ordered of None \<Rightarrow> True | Some m \<Rightarrow> m \<ge> rq_utility_margin r)"

definition best_action :: "decision_candidate list \<Rightarrow> string" where
  "best_action ordered = dc_action (hd ordered)"

definition reflex_choice :: "decision_request \<Rightarrow> reflex_decision \<Rightarrow> choice res" where
  "reflex_choice r x = bindR (ensure (dhas (actions_by_name r) (rd_action x))
       (ValueError ''Reflex selected unknown action'')) (\<lambda>_.
     Inr \<lparr>cx_chosen = rd_action x, cx_tier = REFLEX, cx_runtime_kind = ''DETERMINISTIC'',
       cx_rationale = ''Reflex rule '' @ rd_rule_id x @ '' matched at priority '' @ int_str (rd_priority x) @ ''.'',
       cx_fallback_reason = None, cx_plan = None, cx_plan_actions = [], cx_deliberation = None\<rparr>)"

definition utility_choice :: "pylib \<Rightarrow> decision_candidate list \<Rightarrow> choice" where
  "utility_choice L ordered = \<lparr>cx_chosen = best_action ordered, cx_tier = UTILITY, cx_runtime_kind = ''UTILITY'',
     cx_rationale = ''Utility winner exceeded the decision margin ('' @
       (case margin_of L ordered of None \<Rightarrow> ''inf'' | Some m \<Rightarrow> fixed6 m) @ '').'',
     cx_fallback_reason = None, cx_plan = None, cx_plan_actions = [], cx_deliberation = None\<rparr>"

definition planner_result :: "pylib \<Rightarrow> decision_request \<Rightarrow> plan_result option res" where
  "planner_result L r =
     (if rq_planning_goal r \<noteq> [] \<and> rq_planning_actions r \<noteq> []
      then bindR (plan L (rq_situation r) (rq_planning_goal r) (rq_planning_actions r)
             (rq_planner_max_depth r) (rq_planner_max_nodes r)) (\<lambda>p. Inr (Some p))
      else Inr None)"

definition planner_choice :: "decision_request \<Rightarrow> plan_result \<Rightarrow> choice res" where
  "planner_choice r p = bindR (ensure (dhas (actions_by_name r) (hd (pl_actions p)))
       (ValueError ''Planner selected unknown action'')) (\<lambda>_.
     Inr \<lparr>cx_chosen = hd (pl_actions p), cx_tier = PLANNER, cx_runtime_kind = ''PLANNER'',
       cx_rationale = ''Bounded planner found a '' @ nat_str (length (pl_actions p)) @
         ''-step plan with cost '' @ fixed6 (pl_total_cost p) @ ''.'',
       cx_fallback_reason = None, cx_plan = Some p, cx_plan_actions = pl_actions p, cx_deliberation = None\<rparr>)"

definition llm_choice ::
  "pylib \<Rightarrow> decision_request \<Rightarrow> decision_candidate list \<Rightarrow> plan_result option \<Rightarrow> provider option \<Rightarrow> choice res" where
  "llm_choice L r cs p prov =
     bindR (deliberate L \<lparr>dq_identity_summary = cp_identity_summary (rq_persona r), dq_situation = rq_situation r,
         dq_allowed_actions = sort (map fst (actions_by_name r)), dq_seed = rq_seed r,
         dq_prompt_contract_version = rq_prompt_contract_version r\<rparr> (scores_by_name cs) prov) (\<lambda>dl.
     Inr \<lparr>cx_chosen = ds_action (dl_response dl),
       cx_tier = (if dl_used_model dl then LLM else UTILITY),
       cx_runtime_kind = (if dl_used_model dl then rq_llm_runtime_kind r else ''UTILITY''),
       cx_rationale = ds_rationale (dl_response dl), cx_fallback_reason = dl_fallback_reason dl,
       cx_plan = p, cx_plan_actions = [], cx_deliberation = Some dl\<rparr>)"

definition ambiguous_choice :: "decision_candidate list \<Rightarrow> plan_result option \<Rightarrow> choice" where
  "ambiguous_choice ordered p = \<lparr>cx_chosen = best_action ordered, cx_tier = UTILITY, cx_runtime_kind = ''UTILITY'',
     cx_rationale = ''Ambiguous decision resolved by deterministic utility policy.'',
     cx_fallback_reason = Some ''llm_disabled'', cx_plan = p, cx_plan_actions = [], cx_deliberation = None\<rparr>"

definition layers ::
  "pylib \<Rightarrow> decision_request \<Rightarrow> decision_candidate list \<Rightarrow> provider option \<Rightarrow> choice res" where
  "layers L r cs prov =
     bindR (choose_reflex (rq_situation r) (rq_reflex_rules r)) (\<lambda>reflex.
     case reflex of
       Some x \<Rightarrow> reflex_choice r x
     | None \<Rightarrow>
         if utility_is_clear L r (ranked cs) then Inr (utility_choice L (ranked cs))
         else bindR (planner_result L r) (\<lambda>p.
           case p of
             Some q \<Rightarrow>
               if pl_achieved q \<and> pl_actions q \<noteq> [] then planner_choice r q
               else if rq_allow_llm r then llm_choice L r cs p prov
               else Inr (ambiguous_choice (ranked cs) p)
           | None \<Rightarrow> if rq_allow_llm r then llm_choice L r cs p prov
               else Inr (ambiguous_choice (ranked cs) p)))"

definition candidate_json :: "decision_candidate \<Rightarrow> jval" where
  "candidate_json c = JDict [(''action'', JStr (dc_action c)), (''score'', JFloat (dc_score c)),
     (''factors'', JDict (map (\<lambda>(k, q). (k, JFloat q)) (dc_factors c)))]"

definition layered_trace ::
  "pylib \<Rightarrow> decision_request \<Rightarrow> decision_candidate list \<Rightarrow> choice \<Rightarrow> decision_trace" where
  "layered_trace L r cs x = \<lparr>
     dt_trace_id = uuid5 L (join_with '':'' [''tabletop-dm:layered-trace'', ''layered-cognition-1.0.0'',
       cp_persona_id (rq_persona r), cp_persona_version (rq_persona r), int_str (rq_seed r),
       tier_name (cx_tier x), cx_chosen x, stable_hash L (JList (map candidate_json cs)),
       stable_hash L (JList (map JStr (cx_plan_actions x)))]),
     dt_persona_id = cp_persona_id (rq_persona r), dt_persona_version = cp_persona_version (rq_persona r),
     dt_policy_version = ''layered-cognition-1.0.0'', dt_runtime_kind = cx_runtime_kind x,
     dt_seed = rq_seed r, dt_candidates = cs, dt_chosen_action = cx_chosen x,
     dt_decision_tier = Some (tier_name (cx_tier x)), dt_rationale = Some (cx_rationale x),
     dt_fallback_reason = cx_fallback_reason x, dt_plan = cx_plan_actions x,
     dt_prompt_contract_version = (if cx_deliberation x \<noteq> None then Some (rq_prompt_contract_version r) else None),
     dt_model_version = (case cx_deliberation x of
         Some dl \<Rightarrow> if dl_used_model dl then dl_model_version dl else None | None \<Rightarrow> None)\<rparr>"

definition proposed :: "pylib \<Rightarrow> decision_request \<Rightarrow> decision_trace \<Rightarrow> decision_action \<Rightarrow> proposal" where
  "proposed L r t a = \<lparr>
     p_command_id = uuid5 L (''tabletop-dm:proposal:'' @ rq_run_id r @ '':'' @ rq_actor_id r @ '':'' @
       rq_idempotency_key r @ '':'' @ dt_trace_id t),
     p_command_type = da_command_type a, p_world_id = rq_world_id r, p_branch_id = rq_branch_id r,
     p_run_id = rq_run_id r, p_interaction_id = rq_interaction_id r, p_actor_id = rq_actor_id r,
     p_embodied_entity_id = rq_embodied_entity_id r, p_parameters = da_parameters a,
     p_idempotency_key = rq_idempotency_key r,
     p_correlation_id = (case rq_correlation_id r of Some c \<Rightarrow> c
       | None \<Rightarrow> uuid5 L (''tabletop-dm:correlation:'' @ rq_run_id r @ '':'' @ rq_idempotency_key r)),
     p_causation_id = rq_causation_id r, p_seed = Some (rq_seed r), p_decision_trace_id = Some (dt_trace_id t),
     p_persona_version = Some (dt_persona_version t), p_policy_version = Some (dt_policy_version t),
     p_prompt_contract_version = dt_prompt_contract_version t, p_model_version = dt_model_version t\<rparr>"

definition decide ::
  "pylib \<Rightarrow> utility_lib \<Rightarrow> decision_request \<Rightarrow> provider option \<Rightarrow> decision_outcome res" where
  "decide L U r prov =
     bindR (choose_utility L U (rq_persona r) (rq_seed r) (options_of r)) (\<lambda>ut.
     let cs = dt_candidates ut in
     bindR (layers L r cs prov) (\<lambda>x.
     bindR (of_option (KeyError (cx_chosen x)) (dget (actions_by_name r) (cx_chosen x))) (\<lambda>a.
     let t = layered_trace L r cs x in
     bindR (choose_reflex (rq_situation r) (rq_reflex_rules r)) (\<lambda>reflex.
     Inr \<lparr>do_tier = cx_tier x, do_trace = t, do_proposal = proposed L r t a, do_reflex = reflex,
       do_plan = cx_plan x, do_deliberation = cx_deliberation x\<rparr>))))"

section \<open>Soundness of decisions\<close>

lemma dupdate_map_of:
  assumes "distinct (map fst xs)"
  shows "dget (dupdate [] xs) = dget xs"
proof
  fix k
  have "dget (rev xs) = dget xs"
    using assms by (subst map_of_inject_set) (auto simp: rev_map [symmetric])
  then show "dget (dupdate [] xs) k = dget xs k" by (simp add: dget_dupdate split: option.splits)
qed

lemma actions_by_name_iff:
  assumes "distinct (map da_action (rq_actions r))"
  shows "dget (actions_by_name r) n = Some a \<longleftrightarrow> a \<in> set (rq_actions r) \<and> da_action a = n"
proof -
  have "distinct (map fst (map (\<lambda>a. (da_action a, a)) (rq_actions r)))" using assms by (simp add: comp_def)
  then show ?thesis
    unfolding actions_by_name_def by (subst dupdate_map_of) (auto simp: map_of_eq_Some_iff)
qed

lemma actions_by_name_has:
  assumes "distinct (map da_action (rq_actions r))"
  shows "dhas (actions_by_name r) n \<longleftrightarrow> n \<in> da_action ` set (rq_actions r)"
  using actions_by_name_iff [OF assms, of n] by (auto simp: dhas_def)

lemma actions_by_name_keys:
  assumes "distinct (map da_action (rq_actions r))"
  shows "fst ` set (actions_by_name r) = da_action ` set (rq_actions r)"
proof -
  have "fst ` set (actions_by_name r) = {n. dhas (actions_by_name r) n}"
    by (auto simp: dhas_def map_of_eq_None_iff)
  also have "\<dots> = da_action ` set (rq_actions r)" by (auto simp: actions_by_name_has [OF assms])
  finally show ?thesis .
qed

lemma candidates_distinct:
  assumes "distinct (map da_action (rq_actions r))"
    and "map dc_action cs = map ao_action (sort_key ao_action (options_of r))"
  shows "distinct (map dc_action cs) \<and> dc_action ` set cs = da_action ` set (rq_actions r)"
proof -
  have "distinct (map ao_action (sort_key ao_action (options_of r)))"
    using assms(1) by (simp add: distinct_map options_of_def inj_on_def) (metis distinct_map inj_on_def)
  moreover have "ao_action ` set (options_of r) = da_action ` set (rq_actions r)"
    by (simp add: options_of_def image_image)
  ultimately show ?thesis using assms(2) by (metis image_set set_sort)
qed

lemma score_of_candidate:
  assumes "distinct (map dc_action cs)" and "c \<in> set cs"
  shows "dget_or (scores_by_name cs) (dc_action c) 0 = dc_score c"
proof -
  have "distinct (map fst (map (\<lambda>c. (dc_action c, dc_score c)) cs))" using assms(1) by (simp add: comp_def)
  from dupdate_map_of [OF this] assms(2) this have "dget (scores_by_name cs) (dc_action c) = Some (dc_score c)"
    unfolding scores_by_name_def by (auto simp: map_of_eq_Some_iff)
  then show ?thesis by (simp add: dget_or_def)
qed

definition best_scored :: "decision_candidate list \<Rightarrow> string \<Rightarrow> bool" where
  "best_scored cs n \<longleftrightarrow> (\<exists>c\<in>set cs. dc_action c = n \<and> (\<forall>d\<in>set cs. dc_score d \<le> dc_score c))"

lemma ranked_best: "cs \<noteq> [] \<Longrightarrow> best_scored cs (best_action (ranked cs))"
proof -
  assume ne: "cs \<noteq> []"
  let ?key = "\<lambda>c. (- dc_score c, dc_action c)"
  have set_r: "set (ranked cs) = set cs" by (simp add: ranked_def)
  have sorted_r: "sorted (map ?key (ranked cs))" by (simp add: ranked_def)
  obtain c rest where r: "ranked cs = c # rest"
    using ne set_r by (cases "ranked cs") auto
  have "?key c \<le> ?key d" if "d \<in> set cs" for d
    using that sorted_r set_r by (auto simp: r)
  then have "dc_score d \<le> dc_score c" if "d \<in> set cs" for d
    using that by (force simp: less_eq_prod_def)
  moreover have "c \<in> set cs" using set_r r by auto
  ultimately show ?thesis unfolding best_scored_def best_action_def r by auto
qed

lemma fallback_best:
  assumes "distinct (map dc_action cs)" and "n \<in> dc_action ` set cs"
    and "\<And>a. a \<in> dc_action ` set cs \<Longrightarrow> dget_or (scores_by_name cs) a 0 \<le> dget_or (scores_by_name cs) n 0"
  shows "best_scored cs n"
proof -
  from assms(2) obtain c where c: "c \<in> set cs" "n = dc_action c" by blast
  have "dc_score d \<le> dc_score c" if "d \<in> set cs" for d
    using assms(3) [of "dc_action d"] that c by (simp add: score_of_candidate [OF assms(1)])
  with c show ?thesis by (auto simp: best_scored_def)
qed

text \<open>The request that the gateway is given.\<close>

definition gateway_request :: "decision_request \<Rightarrow> deliberation_request" where
  "gateway_request r = \<lparr>dq_identity_summary = cp_identity_summary (rq_persona r), dq_situation = rq_situation r,
     dq_allowed_actions = sort (map fst (actions_by_name r)), dq_seed = rq_seed r,
     dq_prompt_contract_version = rq_prompt_contract_version r\<rparr>"

text \<open>What each tier stands for.\<close>

definition tier_justified ::
  "pylib \<Rightarrow> decision_request \<Rightarrow> provider option \<Rightarrow> decision_candidate list \<Rightarrow> tier \<Rightarrow> string \<Rightarrow> string list \<Rightarrow> bool" where
  "tier_justified L r prov cs t n steps = (case t of
      REFLEX \<Rightarrow> \<exists>q\<in>set (rq_reflex_rules r). rl_action q = n \<and> rule_matches (rq_situation r) q \<and>
        (\<forall>q'\<in>set (rq_reflex_rules r). rule_matches (rq_situation r) q' \<longrightarrow> rl_priority q' \<le> rl_priority q)
    | UTILITY \<Rightarrow> (\<forall>q\<in>set (rq_reflex_rules r). \<not> rule_matches (rq_situation r) q) \<and> best_scored cs n
    | PLANNER \<Rightarrow> (\<forall>q\<in>set (rq_reflex_rules r). \<not> rule_matches (rq_situation r) q) \<and>
        (\<exists>rest s. steps = n # rest \<and> carry_out (rq_planning_actions r) (rq_situation r) steps = Some s \<and>
           satisfies s (rq_planning_goal r))
    | LLM \<Rightarrow> (\<forall>q\<in>set (rq_reflex_rules r). \<not> rule_matches (rq_situation r) q) \<and> rq_allow_llm r \<and>
        (\<exists>pv resp. prov = Some pv \<and> completed L (pv_complete pv (gateway_request r)) = Inr resp \<and> ds_action resp = n))"

lemma llm_choice_sound:
  assumes names: "distinct (map da_action (rq_actions r))" and ne: "rq_actions r \<noteq> []"
    and cs: "map dc_action cs = map ao_action (sort_key ao_action (options_of r))"
    and none: "\<forall>q\<in>set (rq_reflex_rules r). \<not> rule_matches (rq_situation r) q" and llm: "rq_allow_llm r"
  shows "\<exists>x. llm_choice L r cs p prov = Inr x \<and> cx_chosen x \<in> da_action ` set (rq_actions r) \<and>
    tier_justified L r prov cs (cx_tier x) (cx_chosen x) (cx_plan_actions x)"
proof -
  note keys = actions_by_name_keys [OF names] and cand = candidates_distinct [OF names cs]
  have allowed: "set (dq_allowed_actions (gateway_request r)) = da_action ` set (rq_actions r)"
    using keys by (simp add: gateway_request_def)
  have scored: "dhas (scores_by_name cs) a" if "a \<in> da_action ` set (rq_actions r)" for a
  proof -
    have "distinct (map fst (map (\<lambda>c. (dc_action c, dc_score c)) cs))" using cand by (simp add: comp_def)
    from dupdate_map_of [OF this] that cand show ?thesis
      by (auto simp: scores_by_name_def dhas_def map_of_eq_None_iff image_image)
  qed
  have "dq_allowed_actions (gateway_request r) \<noteq> []" using allowed ne by auto
  from deliberate_spec [OF this, of "scores_by_name cs" L prov] allowed scored
  obtain dl where dl: "deliberate L (gateway_request r) (scores_by_name cs) prov = Inr dl"
    and mem: "ds_action (dl_response dl) \<in> da_action ` set (rq_actions r)"
    and how: "if dl_used_model dl
      then \<exists>pv. prov = Some pv \<and> completed L (pv_complete pv (gateway_request r)) = Inr (dl_response dl)
      else \<forall>a\<in>da_action ` set (rq_actions r).
        dget_or (scores_by_name cs) a 0 \<le> dget_or (scores_by_name cs) (ds_action (dl_response dl)) 0"
    by (auto split: if_splits)
  have "tier_justified L r prov cs (if dl_used_model dl then LLM else UTILITY) (ds_action (dl_response dl)) []"
  proof (cases "dl_used_model dl")
    case True
    then show ?thesis using how none llm by (auto simp: tier_justified_def)
  next
    case False
    then have "best_scored cs (ds_action (dl_response dl))"
      using how mem cand by (intro fallback_best) auto
    then show ?thesis using False none by (simp add: tier_justified_def)
  qed
  then show ?thesis using dl mem by (simp add: llm_choice_def gateway_request_def [symmetric])
qed

lemma planner_choice_sound:
  assumes L: "lawful_lib L" and names: "distinct (map da_action (rq_actions r))"
    and q: "planner_result L r = Inr (Some q)" "pl_achieved q" "pl_actions q \<noteq> []"
    and none: "\<forall>q\<in>set (rq_reflex_rules r). \<not> rule_matches (rq_situation r) q"
    and x: "planner_choice r q = Inr x"
  shows "cx_chosen x \<in> da_action ` set (rq_actions r) \<and>
    tier_justified L r prov cs (cx_tier x) (cx_chosen x) (cx_plan_actions x)"
proof -
  from q(1) have "plan L (rq_situation r) (rq_planning_goal r) (rq_planning_actions r)
      (rq_planner_max_depth r) (rq_planner_max_nodes r) = Inr q"
    by (auto simp: planner_result_def bindR_eq_Inr split: if_splits)
  from plan_sound [OF L this] q(2) have out:
      "carry_out (rq_planning_actions r) (rq_situation r) (pl_actions q) = Some (pl_final_state q)"
      "satisfies (pl_final_state q) (rq_planning_goal r)"
    by (auto simp: sound_result_def)
  obtain n rest where "pl_actions q = n # rest" using q(3) by (cases "pl_actions q") auto
  with x out none show ?thesis
    by (auto simp: planner_choice_def actions_by_name_has [OF names] tier_justified_def split: if_splits)
qed

lemma layers_sound:
  assumes L: "lawful_lib L" and r: "request_ok r"
    and cs: "map dc_action cs = map ao_action (sort_key ao_action (options_of r))"
    and x: "layers L r cs prov = Inr x"
  shows "cx_chosen x \<in> da_action ` set (rq_actions r) \<and>
    tier_justified L r prov cs (cx_tier x) (cx_chosen x) (cx_plan_actions x)"
proof -
  from r have names: "distinct (map da_action (rq_actions r))" and ne: "rq_actions r \<noteq> []"
    by (auto simp: request_ok_def)
  note cand = candidates_distinct [OF names cs]
  have "cs \<noteq> []" using cand ne by auto
  note best = ranked_best [OF this]
  have best_in: "best_action (ranked cs) \<in> da_action ` set (rq_actions r)"
    using best cand unfolding best_scored_def by (metis imageI)
  obtain reflex where reflex: "choose_reflex (rq_situation r) (rq_reflex_rules r) = Inr reflex"
    using x by (auto simp: layers_def bindR_eq_Inr)
  note rc = choose_reflex_cases [OF reflex]
  show ?thesis
  proof (cases reflex)
    case (Some d)
    then show ?thesis
      using x rc reflex
      by (auto simp: layers_def reflex_choice_def actions_by_name_has [OF names] tier_justified_def
          rule_order_def less_eq_prod_def split: if_splits)
        (metis (no_types, lifting) neg_le_iff_le order_refl less_imp_le)+
  next
    case None
    with rc have none: "\<forall>q\<in>set (rq_reflex_rules r). \<not> rule_matches (rq_situation r) q" by simp
    then have utility: "tier_justified L r prov cs UTILITY (best_action (ranked cs)) []"
      using best by (simp add: tier_justified_def)
    show ?thesis
    proof (cases "utility_is_clear L r (ranked cs)")
      case True
      then show ?thesis using x reflex None utility best_in by (auto simp: layers_def utility_choice_def)
    next
      case False
      with x reflex None obtain p where p: "planner_result L r = Inr p"
        and x': "(case p of
             Some q \<Rightarrow>
               if pl_achieved q \<and> pl_actions q \<noteq> [] then planner_choice r q
               else if rq_allow_llm r then llm_choice L r cs p prov
               else Inr (ambiguous_choice (ranked cs) p)
           | None \<Rightarrow> if rq_allow_llm r then llm_choice L r cs p prov
               else Inr (ambiguous_choice (ranked cs) p)) = Inr x"
        by (auto simp: layers_def bindR_eq_Inr)
      consider (planned) q where "p = Some q" "pl_achieved q" "pl_actions q \<noteq> []" "planner_choice r q = Inr x"
        | (llm) "rq_allow_llm r" "llm_choice L r cs p prov = Inr x"
        | (settled) "ambiguous_choice (ranked cs) p = x"
        using x' by (auto split: option.splits if_splits)
      then show ?thesis
      proof cases
        case planned
        then show ?thesis using planner_choice_sound [OF L names _ _ _ none] p by blast
      next
        case llm
        then show ?thesis using llm_choice_sound [OF names ne cs none, of L p prov] by auto
      next
        case settled
        then show ?thesis using utility best_in by (auto simp: ambiguous_choice_def)
      qed
    qed
  qed
qed

text \<open>
  C22. A decision is bound to its request and justified by its tier. The proposal carries the command
  and the parameters that the request lists for the chosen action, and the actor, embodiment, world,
  branch, run and idempotency key of the request, and refers to the trace. The tier says why the
  action was chosen: a matching reflex rule of the highest priority; without a matching rule, the
  highest utility score, the first step of a plan that reaches the goal from the situation,
  or the well-formed answer of the provider.
\<close>

theorem decision_is_justified:
  assumes "lawful_lib L" and "request_ok r" and "decide L U r prov = Inr out"
  shows "\<exists>a\<in>set (rq_actions r). da_action a = dt_chosen_action (do_trace out) \<and>
    p_command_type (do_proposal out) = da_command_type a \<and> p_parameters (do_proposal out) = da_parameters a \<and>
    p_actor_id (do_proposal out) = rq_actor_id r \<and>
    p_embodied_entity_id (do_proposal out) = rq_embodied_entity_id r \<and>
    p_world_id (do_proposal out) = rq_world_id r \<and> p_branch_id (do_proposal out) = rq_branch_id r \<and>
    p_run_id (do_proposal out) = rq_run_id r \<and> p_idempotency_key (do_proposal out) = rq_idempotency_key r \<and>
    p_decision_trace_id (do_proposal out) = Some (dt_trace_id (do_trace out)) \<and>
    tier_justified L r prov (dt_candidates (do_trace out)) (do_tier out) (da_action a) (dt_plan (do_trace out))"
proof -
  from assms(2) have names: "distinct (map da_action (rq_actions r))" by (simp add: request_ok_def)
  from assms(3) obtain ut x a where ut: "choose_utility L U (rq_persona r) (rq_seed r) (options_of r) = Inr ut"
    and x: "layers L r (dt_candidates ut) prov = Inr x"
    and a: "dget (actions_by_name r) (cx_chosen x) = Some a"
    and out: "do_tier out = cx_tier x" "do_trace out = layered_trace L r (dt_candidates ut) x"
      "do_proposal out = proposed L r (layered_trace L r (dt_candidates ut) x) a"
    by (auto simp: decide_def bindR_eq_Inr Let_def)
  have cs: "map dc_action (dt_candidates ut) = map ao_action (sort_key ao_action (options_of r))"
    using utility_candidates [OF ut] by simp
  note sound = layers_sound [OF assms(1,2) cs x]
  from a have a': "a \<in> set (rq_actions r)" "da_action a = cx_chosen x"
    by (simp_all add: actions_by_name_iff [OF names])
  show ?thesis
    by (rule bexI [OF _ a'(1)]) (use sound in \<open>simp add: out proposed_def layered_trace_def a'(2)\<close>)
qed

lemma carry_out_known:
  "carry_out actions s ns = Some t \<Longrightarrow> set ns \<subseteq> ga_name ` set actions"
  by (induction ns arbitrary: s) (auto simp: action_named_def find_Some_iff split: option.splits if_splits)

text \<open>
  Deciding always ends in a proposal, whatever the provider answers or raises: the only requests
  that fail repeat a rule identifier or the name of a planning action, or have a
  reflex rule or planning action that the request does not list.
\<close>

theorem decision_is_made:
  assumes L: "lawful_lib L" and r: "request_ok r"
    and rules: "distinct (map rl_rule_id (rq_reflex_rules r))"
      "rl_action ` set (rq_reflex_rules r) \<subseteq> da_action ` set (rq_actions r)"
    and steps: "distinct (map ga_name (rq_planning_actions r))"
      "ga_name ` set (rq_planning_actions r) \<subseteq> da_action ` set (rq_actions r)"
  shows "\<exists>out. decide L U r prov = Inr out"
proof -
  from r have names: "distinct (map da_action (rq_actions r))" and ne: "rq_actions r \<noteq> []"
    and bounds: "0 \<le> rq_planner_max_depth r" "1 \<le> rq_planner_max_nodes r"
    by (auto simp: request_ok_def)
  obtain ut where ut: "choose_utility L U (rq_persona r) (rq_seed r) (options_of r) = Inr ut"
    using utility_returns [of "options_of r" L U "rq_persona r" "rq_seed r"] ne by (auto simp: options_of_def)
  let ?cs = "dt_candidates ut"
  have cs: "map dc_action ?cs = map ao_action (sort_key ao_action (options_of r))"
    using utility_candidates [OF ut] by simp
  have reflex: "\<exists>reflex. choose_reflex (rq_situation r) (rq_reflex_rules r) = Inr reflex"
    using rules(1) by (auto simp: choose_reflex_def split: list.splits)
  then obtain reflex where reflex: "choose_reflex (rq_situation r) (rq_reflex_rules r) = Inr reflex" by blast
  note rc = choose_reflex_cases [OF reflex]
  have planner: "planner_result L r = Inr None \<or> (\<exists>q. planner_result L r = Inr (Some q) \<and>
      set (pl_actions q) \<subseteq> da_action ` set (rq_actions r))"
  proof (cases "plan L (rq_situation r) (rq_planning_goal r) (rq_planning_actions r)
      (rq_planner_max_depth r) (rq_planner_max_nodes r)")
    case (Inl e)
    with plan_errors [OF this] bounds steps(1) show ?thesis by auto
  next
    case (Inr q)
    have "set (pl_actions q) \<subseteq> da_action ` set (rq_actions r)"
      using plan_sound [OF L Inr] carry_out_known steps(2)
      by (fastforce simp: sound_result_def split: if_splits)
    with Inr show ?thesis by (auto simp: planner_result_def)
  qed
  have "\<exists>x. layers L r ?cs prov = Inr x"
  proof (cases reflex)
    case (Some d)
    with rc obtain q where "q \<in> set (rq_reflex_rules r)" "rl_action q = rd_action d" by auto
    with rules(2) have "rd_action d \<in> da_action ` set (rq_actions r)" by (metis imageI subsetD)
    then have "dhas (actions_by_name r) (rd_action d)" by (simp add: actions_by_name_has [OF names])
    with Some reflex show ?thesis by (simp add: layers_def reflex_choice_def)
  next
    case None
    with rc have none: "\<forall>q\<in>set (rq_reflex_rules r). \<not> rule_matches (rq_situation r) q" by simp
    have llm: "\<exists>x. llm_choice L r ?cs p prov = Inr x" if "rq_allow_llm r" for p
      using llm_choice_sound [OF names ne cs none that, of L p prov] by blast
    from planner show ?thesis
    proof
      assume "planner_result L r = Inr None"
      with None reflex llm show ?thesis by (auto simp: layers_def)
    next
      assume "\<exists>q. planner_result L r = Inr (Some q) \<and> set (pl_actions q) \<subseteq> da_action ` set (rq_actions r)"
      then obtain q where q: "planner_result L r = Inr (Some q)"
        and sub: "set (pl_actions q) \<subseteq> da_action ` set (rq_actions r)" by blast
      have "pl_actions q \<noteq> [] \<Longrightarrow> dhas (actions_by_name r) (hd (pl_actions q))"
        using sub by (auto simp: actions_by_name_has [OF names])
      with None reflex llm q show ?thesis by (auto simp: layers_def planner_choice_def)
    qed
  qed
  then obtain x where x: "layers L r ?cs prov = Inr x" by blast
  from layers_sound [OF L r cs x] obtain a where "dget (actions_by_name r) (cx_chosen x) = Some a"
    using actions_by_name_has [OF names, of "cx_chosen x"] by (auto simp: dhas_def)
  with ut x reflex show ?thesis by (simp add: decide_def Let_def)
qed

section \<open>A decision\<close>

definition quiet_lib :: utility_lib where
  "quiet_lib = \<lparr>ul_sum = sum_list, ul_uniform = (\<lambda>g. (0, g))\<rparr>"

definition hermit :: compiled_persona where
  "hermit = \<lparr>cp_persona_id = ''p'', cp_persona_version = ''1'', cp_compiler_version = ''c'',
     cp_identity_summary = ''hermit'', cp_policy_weights = [], cp_starting_goals = [],
     cp_retrieval_filters = [], cp_starting_beliefs = [], cp_starting_relationships = [],
     cp_routines = [], cp_capability_modifiers = [], cp_deep_traits = []\<rparr>"

definition flee :: reflex_rule where
  "flee = \<lparr>rl_rule_id = ''r1'', rl_action = ''hide'', rl_priority = 5,
     rl_conditions = [\<lparr>rx_path = ''danger.near'', rx_operator = EQ, rx_value = JBool True\<rparr>]\<rparr>"

definition hermit_request :: decision_request where
  "hermit_request = \<lparr>rq_persona = hermit, rq_world_id = ''w'', rq_branch_id = ''b'', rq_run_id = ''r'',
     rq_actor_id = ''a'', rq_embodied_entity_id = None, rq_interaction_id = None,
     rq_correlation_id = None, rq_causation_id = None, rq_seed = 1, rq_idempotency_key = ''k'',
     rq_situation = [(''danger'', JDict [(''near'', JBool True)])],
     rq_actions = [\<lparr>da_action = ''hide'', da_command_type = ''tabletop.move'', da_parameters = [], da_utility_factors = []\<rparr>,
       \<lparr>da_action = ''wait'', da_command_type = ''tabletop.wait'', da_parameters = [], da_utility_factors = []\<rparr>],
     rq_reflex_rules = [flee], rq_planning_goal = [], rq_planning_actions = [],
     rq_planner_max_depth = 6, rq_planner_max_nodes = 256, rq_utility_margin = 1,
     rq_novel_or_ambiguous = False, rq_allow_llm = True, rq_llm_runtime_kind = ''HOSTED_LLM'',
     rq_prompt_contract_version = ''v''\<rparr>"

lemma hermit_request_ok: "request_ok hermit_request"
  by (simp add: request_ok_def hermit_request_def)

theorem decision_is_made_witness:
  "\<exists>out. decide ref_lib quiet_lib hermit_request None = Inr out"
  by (rule decision_is_made [OF lawful_ref_lib hermit_request_ok])
     (simp_all add: hermit_request_def flee_def)

theorem decision_is_justified_witness:
  "case decide ref_lib quiet_lib hermit_request None of
     Inl e \<Rightarrow> False
   | Inr out \<Rightarrow> do_tier out = REFLEX \<and> dt_chosen_action (do_trace out) = ''hide'' \<and>
       p_command_type (do_proposal out) = ''tabletop.move'' \<and> p_actor_id (do_proposal out) = ''a''"
proof -
  obtain out where out: "decide ref_lib quiet_lib hermit_request None = Inr out"
    and how: "do_tier out = REFLEX" "dt_chosen_action (do_trace out) = ''hide''"
  proof (cases "decide ref_lib quiet_lib hermit_request None")
    case (Inl e)
    have "is_ok (decide ref_lib quiet_lib hermit_request None)" by code_simp
    with Inl show ?thesis by simp
  next
    case (Inr out)
    have "map_option (\<lambda>out. (do_tier out, dt_chosen_action (do_trace out)))
      (case decide ref_lib quiet_lib hermit_request None of Inl e \<Rightarrow> None | Inr out \<Rightarrow> Some out) = Some (REFLEX, ''hide'')"
      by code_simp
    with Inr that show ?thesis by simp
  qed
  from decision_is_justified [OF lawful_ref_lib hermit_request_ok out] out how show ?thesis
    by (auto simp: hermit_request_def)
qed

end
