(* ===== verification/CognitionStore.thy ===== *)
theory CognitionStore
  imports CognitionMind CognitionRelations CognitionEngine Effects
begin

text \<open>
  From an event to a stored mind: \<open>SubjectiveStatePipeline\<close> of \<open>cognition/engine.py\<close> and the
  reference projection \<open>MindStore\<close> of \<open>cognition/store.py\<close>, every operation. The lock of the store
  is not modelled: an operation is one step.
\<close>

section \<open>The pipeline\<close>

record subjective_update =
  su_observation :: "observation option"
  su_belief_revision :: "belief_revision option"
  su_memory :: "memory option"
  su_evidence :: "belief_evidence list"
  su_disposition :: disposition

definition keep_observation :: "bool \<Rightarrow> rat \<Rightarrow> disposition" where
  "keep_observation create_memory importance = \<lparr>di_persist_observation = True, di_revise_beliefs = True,
     di_create_memory = create_memory, di_importance = importance, di_emotional_weight = 0\<rparr>"

definition disposition_of :: "pylib \<Rightarrow> event \<Rightarrow> disposition" where
  "disposition_of L e = (let tags = set (e_domain_tags e) in
     if ''movement'' \<in> tags then keep_observation False (fl L (5 / 100))
     else if ''speech'' \<in> tags \<or> ''dialogue'' \<in> tags then keep_observation True (fl L (45 / 100))
     else if tags \<inter> {''combat'', ''betrayal'', ''injury'', ''discovery''} \<noteq> {} then keep_observation True (fl L (85 / 100))
     else keep_observation True (1 / 2))"

definition evidence_for ::
  "pylib \<Rightarrow> event \<Rightarrow> observation \<Rightarrow> grant \<Rightarrow> bool \<Rightarrow> uuid option \<Rightarrow> belief \<Rightarrow> belief_evidence" where
  "evidence_for L e ob g testimony source b = \<lparr>
     evd_evidence_id = uuid5 L (''tabletop-dm:evidence:'' @ ob_observation_id ob @ '':'' @ bl_belief_id b),
     evd_world_id = e_world_id e, evd_branch_id = e_branch_id e, evd_entity_id = ob_observer_entity_id ob,
     evd_belief_id = Some (bl_belief_id b), evd_source_observation_id = ob_observation_id ob,
     evd_evidence_type = (if testimony then TESTIMONY else DIRECT_OBSERVATION),
     evd_immediate_source_entity_id = source, evd_claimed_origin_event_id = None,
     evd_parent_evidence_id = None, evd_direct_witness = (\<not> testimony),
     evd_confidence_modifier = g_confidence g, evd_created_at = ob_observed_at ob\<rparr>"

definition evidence_of ::
  "pylib \<Rightarrow> event \<Rightarrow> observation \<Rightarrow> belief_revision option \<Rightarrow> grant \<Rightarrow> belief_evidence list res" where
  "evidence_of L e ob revision g = (case revision of
      None \<Rightarrow> Inr []
    | Some r \<Rightarrow>
        let testimony = (''testimony'' \<in> set (e_domain_tags e) \<or> ''speech'' \<in> set (e_domain_tags e));
            speaker = dget_or (e_payload e) ''speaker_entity_id'' JNull
        in bindR (if testimony \<and> py_bool speaker
                  then bindR (parse_uuid L (py_str L speaker)) (\<lambda>u. Inr (Some u)) else Inr None) (\<lambda>source.
           Inr (map (evidence_for L e ob g testimony source)
             (sort_key bl_belief_id
               (filter (\<lambda>b. bl_source_observation_id b = Some (ob_observation_id ob)) (br_active_beliefs r))))))"

text \<open>The arguments of \<open>process\<close> that have defaults.\<close>

record process_options =
  po_claims :: "belief_claim list option"
  po_memory_summary :: "string option"
  po_emotional_weight :: rat
  po_importance :: rat
  po_memory_visibility :: string
  po_disposition :: "disposition option"

definition default_options :: process_options where
  "default_options = \<lparr>po_claims = None, po_memory_summary = None, po_emotional_weight = 0,
     po_importance = 1 / 2, po_memory_visibility = ''PRIVATE'', po_disposition = None\<rparr>"

definition process ::
  "pylib \<Rightarrow> event \<Rightarrow> perception_profile \<Rightarrow> grant \<Rightarrow> belief list \<Rightarrow> process_options \<Rightarrow> subjective_update res" where
  "process L e p g existing po =
     (let disp = (case po_disposition po of Some d \<Rightarrow> d | None \<Rightarrow> disposition_of L e)
      in case observe L e p g None of
           None \<Rightarrow> Inr \<lparr>su_observation = None, su_belief_revision = None, su_memory = None,
             su_evidence = [], su_disposition = disp\<rparr>
         | Some ob \<Rightarrow>
             bindR (case po_claims po of None \<Rightarrow> claims_from_observation L ob | Some cs \<Rightarrow> Inr cs) (\<lambda>claims.
             bindR (if di_revise_beliefs disp
                    then bindR (revise L ob claims existing) (\<lambda>r. Inr (Some r)) else Inr None) (\<lambda>revision.
             bindR (if di_create_memory disp
                    then bindR (record_memory L ob (po_memory_summary po)
                           (if po_emotional_weight po \<noteq> 0 then po_emotional_weight po else di_emotional_weight disp)
                           (if po_importance po \<noteq> 1 / 2 then po_importance po else di_importance disp)
                           (po_memory_visibility po)) (\<lambda>m. Inr (Some m))
                    else Inr None) (\<lambda>mem.
             bindR (evidence_of L e ob revision g) (\<lambda>evidence.
             Inr \<lparr>su_observation = Some ob, su_belief_revision = revision, su_memory = mem,
               su_evidence = evidence, su_disposition = disp\<rparr>)))))"

section \<open>The store\<close>

record runtime_assignment =
  ra_world_id :: uuid
  ra_branch_id :: uuid
  ra_run_id :: uuid
  ra_entity_id :: uuid
  ra_runtime_kind :: string
  ra_runtime_config :: jdict
  ra_assigned_at :: int

type_synonym mind_key = "uuid option \<times> uuid"

record mind_store =
  st_states :: "(mind_key \<times> mind_state) list"
  st_observations :: "(mind_key \<times> observation) list"
  st_evidence :: "(mind_key \<times> belief_evidence) list"
  st_relationships :: "((uuid option \<times> uuid \<times> uuid) \<times> relationship_vector) list"
  st_relationship_changes :: "((uuid \<times> uuid) \<times> relationship_change_record) list"
  st_runtime_assignments :: "((uuid \<times> uuid \<times> uuid \<times> uuid) \<times> runtime_assignment) list"
  st_decisions :: "(uuid \<times> decision_outcome) list"

definition empty_mind_store :: mind_store where
  "empty_mind_store = \<lparr>st_states = [], st_observations = [], st_evidence = [], st_relationships = [],
     st_relationship_changes = [], st_runtime_assignments = [], st_decisions = []\<rparr>"

definition get_mind :: "mind_store \<Rightarrow> uuid \<Rightarrow> uuid option \<Rightarrow> mind_state" where
  "get_mind s e b = dget_or (st_states s) (b, e) (new_mind e)"

definition has_observation :: "mind_store \<Rightarrow> uuid \<Rightarrow> uuid option \<Rightarrow> bool" where
  "has_observation s ob b = dhas (st_observations s) (b, ob)"

definition relationship :: "mind_store \<Rightarrow> uuid \<Rightarrow> uuid \<Rightarrow> uuid option \<Rightarrow> relationship_vector" where
  "relationship s source target b = dget_or (st_relationships s) (b, source, target) neutral_vector"

definition initialize :: "mind_state \<Rightarrow> uuid option \<Rightarrow> (mind_store, mind_state) eff" where
  "initialize m b =
     bindE (updE (\<lambda>s. s\<lparr>st_states := dsetdefault (st_states s) (b, ms_entity_id m) m\<rparr>)) (\<lambda>_.
     bindE (readE (\<lambda>s. get_mind s (ms_entity_id m) b)) (\<lambda>existing.
     bindE (ensureE (existing = m) (ValueError ''mind state is already initialized'')) (\<lambda>_.
     returnE existing)))"

definition restore_observation :: "uuid \<Rightarrow> uuid \<Rightarrow> observation \<Rightarrow> (mind_store, unit) eff" where
  "restore_observation e b ob =
     bindE (ensureE (ob_observer_entity_id ob = e) (ValueError ''observation belongs to another entity'')) (\<lambda>_.
     updE (\<lambda>s. s\<lparr>st_observations := dset (st_observations s) (Some b, ob_observation_id ob) ob\<rparr>))"

fun restore_observations :: "uuid \<Rightarrow> uuid \<Rightarrow> observation list \<Rightarrow> (mind_store, unit) eff" where
  "restore_observations e b [] = returnE ()"
| "restore_observations e b (ob # obs) = bindE (restore_observation e b ob) (\<lambda>_. restore_observations e b obs)"

definition restore ::
  "mind_state \<Rightarrow> uuid \<Rightarrow> observation list \<Rightarrow> (uuid \<times> relationship_vector) list \<Rightarrow> (mind_store, mind_state) eff" where
  "restore m b observations relationships =
     bindE (updE (\<lambda>s. s\<lparr>st_states := dset (st_states s) (Some b, ms_entity_id m) m\<rparr>)) (\<lambda>_.
     bindE (restore_observations (ms_entity_id m) b observations) (\<lambda>_.
     bindE (updE (\<lambda>s. s\<lparr>st_relationships := dupdate (st_relationships s)
       (map (\<lambda>(t, v). ((Some b, ms_entity_id m, t), v)) relationships)\<rparr>)) (\<lambda>_.
     returnE m)))"

definition apply_belief_revision :: "belief list \<Rightarrow> belief_revision \<Rightarrow> belief list" where
  "apply_belief_revision existing r = map snd (sort_key fst
     (dupdate [] (map (\<lambda>b. (bl_belief_id b, b)) (br_active_beliefs r @ br_superseded_beliefs r))))"

definition preview_subjective_update :: "mind_store \<Rightarrow> uuid \<Rightarrow> subjective_update \<Rightarrow> uuid option \<Rightarrow> mind_state" where
  "preview_subjective_update s e u b =
     (let m = get_mind s e b;
          beliefs = (case su_belief_revision u of None \<Rightarrow> ms_beliefs m
            | Some r \<Rightarrow> apply_belief_revision (ms_beliefs m) r);
          memories = (case su_memory u of None \<Rightarrow> ms_memories m
            | Some x \<Rightarrow> if mm_memory_id x \<in> mm_memory_id ` set (ms_memories m) then ms_memories m else ms_memories m @ [x])
      in m\<lparr>ms_beliefs := beliefs, ms_memories := memories\<rparr>)"

definition note_observation :: "uuid \<Rightarrow> uuid option \<Rightarrow> observation option \<Rightarrow> (mind_store, unit) eff" where
  "note_observation e b ob = (case ob of
      None \<Rightarrow> returnE ()
    | Some x \<Rightarrow>
        bindE (ensureE (ob_observer_entity_id x = e) (ValueError ''observation belongs to another entity'')) (\<lambda>_.
        updE (\<lambda>s. s\<lparr>st_observations := dsetdefault (st_observations s) (b, ob_observation_id x) x\<rparr>)))"

definition note_evidence :: "uuid option \<Rightarrow> belief_evidence list \<Rightarrow> mind_store \<Rightarrow> mind_store" where
  "note_evidence b evs s = s\<lparr>st_evidence :=
     foldl (\<lambda>acc e. dsetdefault acc (b, evd_evidence_id e) e) (st_evidence s) evs\<rparr>"

definition apply_subjective_update ::
  "uuid \<Rightarrow> subjective_update \<Rightarrow> uuid option \<Rightarrow> (mind_store, mind_state) eff" where
  "apply_subjective_update e u b =
     bindE (updE (\<lambda>s. s\<lparr>st_states := dsetdefault (st_states s) (b, e) (new_mind e)\<rparr>)) (\<lambda>_.
     bindE (note_observation e b (su_observation u)) (\<lambda>_.
     bindE (updE (note_evidence b (su_evidence u))) (\<lambda>_.
     bindE (readE (\<lambda>s. preview_subjective_update s e u b)) (\<lambda>committed.
     bindE (updE (\<lambda>s. s\<lparr>st_states := dset (st_states s) (b, e) committed\<rparr>)) (\<lambda>_.
     returnE committed)))))"

definition set_relationship ::
  "uuid \<Rightarrow> uuid \<Rightarrow> relationship_vector \<Rightarrow> uuid option \<Rightarrow> (mind_store, relationship_vector) eff" where
  "set_relationship source target v b =
     bindE (ensureE (source \<noteq> target) (ValueError ''self relationships are not supported'')) (\<lambda>_.
     bindE (updE (\<lambda>s. s\<lparr>st_relationships := dset (st_relationships s) (b, source, target) v\<rparr>)) (\<lambda>_.
     returnE v))"

definition publish_change :: "relationship_change_record \<Rightarrow> mind_store \<Rightarrow> mind_store" where
  "publish_change r s = s\<lparr>
     st_relationship_changes := dset (st_relationship_changes s) (rg_branch_id r, rg_change_id r) r,
     st_relationships := dset (st_relationships s)
       (Some (rg_branch_id r), rg_source_entity_id r, rg_target_entity_id r) (rg_after r)\<rparr>"

definition apply_relationship_change ::
  "relationship_change_record \<Rightarrow> (mind_store, relationship_change_record) eff" where
  "apply_relationship_change r =
     bindE (readE (\<lambda>s. dget (st_relationship_changes s) (rg_branch_id r, rg_change_id r))) (\<lambda>existing.
     case existing of
       Some x \<Rightarrow> bindE (ensureE (immutable_content x = immutable_content r)
           (ValueError ''relationship change retry differs from immutable history'')) (\<lambda>_. returnE x)
     | None \<Rightarrow>
         bindE (readE (\<lambda>s. relationship s (rg_source_entity_id r) (rg_target_entity_id r) (Some (rg_branch_id r)))) (\<lambda>current.
         bindE (ensureE (\<not> (current \<noteq> rg_before r \<and> current \<noteq> rg_after r))
           (ValueError ''relationship projection changed before causal update'')) (\<lambda>_.
         bindE (updE (publish_change r)) (\<lambda>_. returnE r))))"

definition change_in_store :: "mind_store \<Rightarrow> uuid \<Rightarrow> uuid \<Rightarrow> relationship_change_record option" where
  "change_in_store s change_id b = dget (st_relationship_changes s) (b, change_id)"

definition assignment_key :: "runtime_assignment \<Rightarrow> uuid \<times> uuid \<times> uuid \<times> uuid" where
  "assignment_key a = (ra_world_id a, ra_branch_id a, ra_run_id a, ra_entity_id a)"

definition set_runtime_assignment :: "runtime_assignment \<Rightarrow> (mind_store, runtime_assignment) eff" where
  "set_runtime_assignment a =
     bindE (updE (\<lambda>s. s\<lparr>st_runtime_assignments := dset (st_runtime_assignments s) (assignment_key a) a\<rparr>)) (\<lambda>_. returnE a)"

definition assignment_of :: "mind_store \<Rightarrow> uuid \<Rightarrow> uuid \<Rightarrow> uuid \<Rightarrow> uuid \<Rightarrow> runtime_assignment option" where
  "assignment_of s w b r e = dget (st_runtime_assignments s) (w, b, r, e)"

definition matches_filter :: "'a option \<Rightarrow> 'a \<Rightarrow> bool" where
  "matches_filter f x = (case f of None \<Rightarrow> True | Some y \<Rightarrow> x = y)"

definition list_runtime_assignments ::
  "mind_store \<Rightarrow> uuid option \<Rightarrow> uuid option \<Rightarrow> uuid option \<Rightarrow> uuid option \<Rightarrow> runtime_assignment list" where
  "list_runtime_assignments s w b r e = sort_key assignment_key
     (filter (\<lambda>a. matches_filter w (ra_world_id a) \<and> matches_filter b (ra_branch_id a) \<and>
        matches_filter r (ra_run_id a) \<and> matches_filter e (ra_entity_id a)) (map snd (st_runtime_assignments s)))"

definition record_decision :: "decision_outcome \<Rightarrow> (mind_store, decision_outcome) eff" where
  "record_decision d =
     bindE (updE (\<lambda>s. s\<lparr>st_decisions := dsetdefault (st_decisions s) (dt_trace_id (do_trace d)) d\<rparr>)) (\<lambda>_.
     readE (\<lambda>s. dget_or (st_decisions s) (dt_trace_id (do_trace d)) d))"

record mind_view =
  mv_mind_state :: mind_state
  mv_observations :: "observation list"
  mv_relationships :: "(uuid \<times> relationship_vector) list"
  mv_belief_evidence :: "belief_evidence list"
  mv_relationship_changes :: "relationship_change_record list"
  mv_decisions :: "decision_trace list"

definition inspect :: "mind_store \<Rightarrow> uuid \<Rightarrow> uuid option \<Rightarrow> mind_view" where
  "inspect s e b = \<lparr>mv_mind_state = get_mind s e b,
     mv_observations = [ob. ((ob_branch, _), ob) \<leftarrow> st_observations s,
       ob_observer_entity_id ob = e \<and> (b = None \<or> ob_branch = b)],
     mv_relationships = [(target, v). ((rel_branch, source, target), v) \<leftarrow> st_relationships s,
       source = e \<and> (b = None \<or> rel_branch = b)],
     mv_belief_evidence = [ev. ((evd_branch, _), ev) \<leftarrow> st_evidence s,
       evd_entity_id ev = e \<and> (b = None \<or> evd_branch = b)],
     mv_relationship_changes = [r. ((change_branch, _), r) \<leftarrow> st_relationship_changes s,
       rg_source_entity_id r = e \<and> (b = None \<or> Some change_branch = b)],
     mv_decisions = [do_trace d. (_, d) \<leftarrow> st_decisions s,
       p_embodied_entity_id (do_proposal d) = Some e \<and> (b = None \<or> Some (p_branch_id (do_proposal d)) = b)]\<rparr>"

section \<open>Projection of events\<close>

text \<open>
  What the application does with the event and the grants of a receipt when it keeps its minds in
  memory (\<open>project_subjective_event\<close> in \<open>kernel/api/app.py\<close>): each observer's mind takes in the
  event unless it has observed it already.
\<close>

definition whole_profile :: "uuid \<Rightarrow> grant \<Rightarrow> perception_profile" where
  "whole_profile demo g = \<lparr>pp_observer_entity_id = g_observer_entity_id g,
     pp_observer_actor_id = (case g_controller_actor_id g of Some a \<Rightarrow> a | None \<Rightarrow> demo),
     pp_acuity = 1, pp_confidence_bias = 0, pp_allowed_payload_fields = None,
     pp_hidden_payload_fields = {}, pp_payload_overrides = []\<rparr>"

definition observed_before :: "uuid option \<Rightarrow> subjective_update \<Rightarrow> mind_store \<Rightarrow> bool" where
  "observed_before b u s = (case su_observation u of None \<Rightarrow> True
     | Some ob \<Rightarrow> has_observation s (ob_observation_id ob) b)"

definition project_grant :: "pylib \<Rightarrow> uuid \<Rightarrow> event \<Rightarrow> grant \<Rightarrow> (mind_store, unit) eff" where
  "project_grant L demo e g =
     bindE (readE (\<lambda>s. get_mind s (g_observer_entity_id g) (Some (e_branch_id e)))) (\<lambda>m.
     bindE (liftE (process L e (whole_profile demo g) g (ms_beliefs m) default_options)) (\<lambda>u.
     bindE (readE (observed_before (Some (e_branch_id e)) u)) (\<lambda>seen.
     if seen then returnE ()
     else bindE (apply_subjective_update (g_observer_entity_id g) u (Some (e_branch_id e))) (\<lambda>_. returnE ()))))"

fun project_event :: "pylib \<Rightarrow> uuid \<Rightarrow> event \<Rightarrow> grant list \<Rightarrow> (mind_store, unit) eff" where
  "project_event L demo e [] = returnE ()"
| "project_event L demo e (g # gs) = bindE (project_grant L demo e g) (\<lambda>_. project_event L demo e gs)"

lemma process_any_beliefs:
  assumes "process L e p g existing po = Inr u"
  shows "\<exists>u'. process L e p g existing' po = Inr u' \<and> su_observation u' = su_observation u"
proof (cases "observe L e p g None")
  case None
  then show ?thesis using assms by (auto simp: process_def)
next
  case (Some ob)
  let ?d = "case po_disposition po of Some d \<Rightarrow> d | None \<Rightarrow> disposition_of L e"
  from assms Some obtain claims revision mem evidence where
    claims: "(case po_claims po of None \<Rightarrow> claims_from_observation L ob | Some cs \<Rightarrow> Inr cs) = Inr claims"
    and revision: "(if di_revise_beliefs ?d then bindR (revise L ob claims existing) (\<lambda>r. Inr (Some r)) else Inr None) = Inr revision"
    and mem: "(if di_create_memory ?d
        then bindR (record_memory L ob (po_memory_summary po)
               (if po_emotional_weight po \<noteq> 0 then po_emotional_weight po else di_emotional_weight ?d)
               (if po_importance po \<noteq> 1 / 2 then po_importance po else di_importance ?d)
               (po_memory_visibility po)) (\<lambda>m. Inr (Some m))
        else Inr None) = Inr mem"
    and evidence: "evidence_of L e ob revision g = Inr evidence"
    and u: "su_observation u = Some ob"
    by (auto simp: process_def Let_def bindR_eq_Inr simp del: bindR_ensure)
  have "\<exists>revision'. (if di_revise_beliefs ?d then bindR (revise L ob claims existing') (\<lambda>r. Inr (Some r)) else Inr None) = Inr revision'
      \<and> (revision' = None \<longleftrightarrow> revision = None)"
  proof (cases "di_revise_beliefs ?d")
    case True
    with revision have "distinct (map claim_key claims)"
      by (auto simp: bindR_eq_Inr revise_def split: if_splits)
    with True revision show ?thesis
      by (auto simp: bindR_eq_Inr revise_def Let_def split: prod.splits)
  next
    case False
    with revision show ?thesis by simp
  qed
  then obtain revision' where revision':
    "(if di_revise_beliefs ?d then bindR (revise L ob claims existing') (\<lambda>r. Inr (Some r)) else Inr None) = Inr revision'"
    and same: "revision' = None \<longleftrightarrow> revision = None" by blast
  have "\<exists>evidence'. evidence_of L e ob revision' g = Inr evidence'"
    using evidence same
    by (cases revision; cases revision') (auto simp: evidence_of_def Let_def bindR_eq_Inr split: if_splits)
  then obtain evidence' where "evidence_of L e ob revision' g = Inr evidence'" by blast
  with claims revision' mem Some u show ?thesis by (simp add: process_def Let_def)
qed

lemma process_observer:
  assumes "process L e p g existing po = Inr u" and "su_observation u = Some ob"
  shows "ob_observer_entity_id ob = pp_observer_entity_id p"
proof (cases "observe L e p g None")
  case None
  then show ?thesis using assms by (auto simp: process_def)
next
  case (Some x)
  then have "x = ob" using assms by (auto simp: process_def Let_def bindR_eq_Inr simp del: bindR_ensure)
  with Some show ?thesis by (auto simp: observe_def Let_def split: if_splits)
qed

lemma note_evidence_frame [simp, frame_simps]:
  "st_states (note_evidence b evs s) = st_states s" "st_observations (note_evidence b evs s) = st_observations s"
  "st_relationships (note_evidence b evs s) = st_relationships s"
  "st_relationship_changes (note_evidence b evs s) = st_relationship_changes s"
  "st_decisions (note_evidence b evs s) = st_decisions s"
  by (simp_all add: note_evidence_def)

definition file_observation :: "uuid option \<Rightarrow> observation option \<Rightarrow> mind_store \<Rightarrow> mind_store" where
  "file_observation b ob s = (case ob of None \<Rightarrow> s
     | Some x \<Rightarrow> s\<lparr>st_observations := dsetdefault (st_observations s) (b, ob_observation_id x) x\<rparr>)"

lemma file_observation_frame [simp, frame_simps]:
  "st_states (file_observation b ob s) = st_states s"
  "st_relationships (file_observation b ob s) = st_relationships s"
  "st_relationship_changes (file_observation b ob s) = st_relationship_changes s"
  "st_decisions (file_observation b ob s) = st_decisions s"
  by (simp_all add: file_observation_def split: option.splits)

lemma dget_file_observation:
  "dget (st_observations (file_observation b ob s)) k = (case dget (st_observations s) k of Some x \<Rightarrow> Some x
     | None \<Rightarrow> (case ob of None \<Rightarrow> None | Some x \<Rightarrow> if k = (b, ob_observation_id x) then Some x else None))"
  by (auto simp: file_observation_def dget_or_def split: option.splits)

lemma note_own_observation:
  assumes "\<And>x. ob = Some x \<Longrightarrow> ob_observer_entity_id x = e"
  shows "note_observation e b ob s = (Inr (), file_observation b ob s)"
  using assms by (cases ob) (simp_all add: note_observation_def file_observation_def)

lemma preview_cong:
  "get_mind t e b = get_mind s e b \<Longrightarrow> preview_subjective_update t e u b = preview_subjective_update s e u b"
  by (simp add: preview_subjective_update_def)

lemma apply_own_run:
  assumes own: "\<And>ob. su_observation u = Some ob \<Longrightarrow> ob_observer_entity_id ob = e"
  shows "apply_subjective_update e u b s =
    (let m = preview_subjective_update s e u b;
         t = note_evidence b (su_evidence u) (file_observation b (su_observation u)
           (s\<lparr>st_states := dsetdefault (st_states s) (b, e) (new_mind e)\<rparr>))
     in (Inr m, t\<lparr>st_states := dset (st_states t) (b, e) m\<rparr>))"
proof -
  let ?s = "s\<lparr>st_states := dsetdefault (st_states s) (b, e) (new_mind e)\<rparr>"
  let ?t = "note_evidence b (su_evidence u) (file_observation b (su_observation u) ?s)"
  have "preview_subjective_update ?t e u b = preview_subjective_update s e u b"
    by (rule preview_cong) (simp add: get_mind_def dget_or_def)
  then show ?thesis
    by (simp add: apply_subjective_update_def bindE_run note_own_observation [OF own] Let_def)
qed

lemma apply_own_update:
  assumes "\<And>ob. su_observation u = Some ob \<Longrightarrow> ob_observer_entity_id ob = e"
  shows "\<exists>m t. apply_subjective_update e u b s = (Inr m, t) \<and> m = preview_subjective_update s e u b \<and>
    (\<forall>k. dget (st_states t) k = (if k = (b, e) then Some m else dget (st_states s) k)) \<and>
    (\<forall>k. dget (st_observations t) k = dget (st_observations (file_observation b (su_observation u) s)) k) \<and>
    st_relationships t = st_relationships s \<and> st_relationship_changes t = st_relationship_changes s"
  by (simp add: apply_own_run [OF assms] Let_def dget_file_observation)

text \<open>What projecting one grant does: the observation decides, and only the observer's mind changes.\<close>

lemma project_grant_cases:
  fixes L demo e g s
  defines "b \<equiv> Some (e_branch_id e)"
  obtains (fails) err where "project_grant L demo e g s = (Inl err, s)"
      "\<forall>beliefs. \<not> is_ok (process L e (whole_profile demo g) g beliefs default_options)"
  | (seen) u where "process L e (whole_profile demo g) g (ms_beliefs (get_mind s (g_observer_entity_id g) b)) default_options = Inr u"
      "observed_before b u s" "project_grant L demo e g s = (Inr (), s)"
  | (new) u t where "process L e (whole_profile demo g) g (ms_beliefs (get_mind s (g_observer_entity_id g) b)) default_options = Inr u"
      "\<not> observed_before b u s" "project_grant L demo e g s = (Inr (), t)"
      "\<forall>k. dget (st_states t) k = (if k = (b, g_observer_entity_id g)
         then Some (preview_subjective_update s (g_observer_entity_id g) u b) else dget (st_states s) k)"
      "\<forall>k. dget (st_observations t) k = dget (st_observations (file_observation b (su_observation u) s)) k"
      "st_relationships t = st_relationships s" "st_relationship_changes t = st_relationship_changes s"
proof (cases "process L e (whole_profile demo g) g (ms_beliefs (get_mind s (g_observer_entity_id g) b)) default_options")
  case (Inl err)
  have "\<not> is_ok (process L e (whole_profile demo g) g beliefs default_options)" for beliefs
    using process_any_beliefs [of L e "whole_profile demo g" g beliefs default_options _
      "ms_beliefs (get_mind s (g_observer_entity_id g) b)"] Inl by (auto simp: is_ok_iff)
  then show ?thesis using Inl by (intro fails [of err]) (auto simp: project_grant_def b_def)
next
  case (Inr u)
  show ?thesis
  proof (cases "observed_before b u s")
    case True
    then show ?thesis using Inr by (intro seen [of u]) (auto simp: project_grant_def b_def)
  next
    case False
    have "ob_observer_entity_id ob = g_observer_entity_id g" if "su_observation u = Some ob" for ob
      using process_observer [OF Inr that] by (simp add: whole_profile_def)
    from apply_own_update [of u, OF this] obtain m t where
      run: "apply_subjective_update (g_observer_entity_id g) u b s = (Inr m, t)"
      and t: "m = preview_subjective_update s (g_observer_entity_id g) u b"
        "\<forall>k. dget (st_states t) k = (if k = (b, g_observer_entity_id g) then Some m else dget (st_states s) k)"
        "\<forall>k. dget (st_observations t) k = dget (st_observations (file_observation b (su_observation u) s)) k"
        "st_relationships t = st_relationships s" "st_relationship_changes t = st_relationship_changes s"
      by metis
    have "project_grant L demo e g s = (Inr (), t)"
      using Inr False run by (simp add: project_grant_def b_def [symmetric] bindE_run)
    then show ?thesis using Inr False t by (intro new [of u t]) auto
  qed
qed

lemma has_observation_file:
  "has_observation (file_observation b ob s) oid b' \<longleftrightarrow>
     has_observation s oid b' \<or> (\<exists>x. ob = Some x \<and> b' = b \<and> oid = ob_observation_id x)"
  by (auto simp: has_observation_def dhas_def dget_file_observation split: option.splits)

lemma project_event_observations:
  assumes "project_event L demo e gs s = (r, t)" and "dget (st_observations s) k = Some ob"
  shows "dget (st_observations t) k = Some ob"
  using assms
proof (induction gs arbitrary: s)
  case Nil
  then show ?case by simp
next
  case (Cons g gs)
  show ?case
  proof (cases rule: project_grant_cases [of L demo e g s])
    case (fails err)
    with Cons.prems show ?thesis by (simp add: bindE_run)
  next
    case (seen u)
    with Cons.prems have "project_event L demo e gs s = (r, t)" by (simp add: bindE_run)
    with Cons.IH Cons.prems(2) show ?thesis by blast
  next
    case (new u s1)
    with Cons.prems have "project_event L demo e gs s1 = (r, t)" by (simp add: bindE_run)
    moreover have "dget (st_observations s1) k = Some ob"
      using new(5) [rule_format, of k] Cons.prems(2) unfolding dget_file_observation by simp
    ultimately show ?thesis using Cons.IH by blast
  qed
qed

text \<open>
  An event changes the minds of its observers only. Whatever comes of projecting it, also when a
  grant fails, every mind that no grant of the event names, on that branch, is as before, the minds
  of other branches too, no recorded observation is changed, and relationships are left alone.
\<close>

theorem minds_stay_apart:
  assumes "project_event L demo e gs s = (r, t)"
  shows "(\<forall>b x. (b, x) \<notin> (\<lambda>g. (Some (e_branch_id e), g_observer_entity_id g)) ` set gs \<longrightarrow> get_mind t x b = get_mind s x b) \<and>
    (\<forall>k ob. dget (st_observations s) k = Some ob \<longrightarrow> dget (st_observations t) k = Some ob) \<and>
    st_relationships t = st_relationships s \<and> st_relationship_changes t = st_relationship_changes s"
proof -
  have "(\<forall>k. k \<notin> (\<lambda>g. (Some (e_branch_id e), g_observer_entity_id g)) ` set gs \<longrightarrow> dget (st_states t) k = dget (st_states s) k) \<and>
    st_relationships t = st_relationships s \<and> st_relationship_changes t = st_relationship_changes s"
    using assms
  proof (induction gs arbitrary: s)
    case Nil
    then show ?case by simp
  next
    case (Cons g gs)
    show ?case
    proof (cases rule: project_grant_cases [of L demo e g s])
      case (fails err)
      with Cons.prems show ?thesis by (simp add: bindE_run)
    next
      case (seen u)
      with Cons.prems have "project_event L demo e gs s = (r, t)" by (simp add: bindE_run)
      from Cons.IH [OF this] show ?thesis by simp
    next
      case (new u s1)
      with Cons.prems have "project_event L demo e gs s1 = (r, t)" by (simp add: bindE_run)
      from Cons.IH [OF this] new show ?thesis by simp
    qed
  qed
  then show ?thesis using project_event_observations [OF assms] by (simp add: get_mind_def dget_or_def)
qed

text \<open>
  Delivering an event again changes nothing. When an event has been projected for all its grants,
  projecting it once more, whatever was believed in between, succeeds and leaves the store as it is.
\<close>

theorem projection_is_idempotent:
  assumes "project_event L demo e gs s = (Inr (), t)"
  shows "project_event L demo e gs t = (Inr (), t)"
  using assms
proof (induction gs arbitrary: s)
  case Nil
  then show ?case by simp
next
  case (Cons g gs)
  let ?b = "Some (e_branch_id e)"
  let ?run = "\<lambda>beliefs. process L e (whole_profile demo g) g beliefs default_options"
  obtain u s1 where u: "?run (ms_beliefs (get_mind s (g_observer_entity_id g) ?b)) = Inr u"
    and seen1: "observed_before ?b u s1" and rest: "project_event L demo e gs s1 = (Inr (), t)"
  proof (cases rule: project_grant_cases [of L demo e g s])
    case (fails err)
    with Cons.prems show ?thesis by (simp add: bindE_run)
  next
    case (seen u)
    with Cons.prems show ?thesis by (intro that [of u s]) (simp_all add: bindE_run)
  next
    case (new u s1)
    have "observed_before ?b u s1"
      using new(5) by (auto simp: observed_before_def has_observation_def dhas_def dget_file_observation split: option.splits)
    with new Cons.prems show ?thesis by (intro that [of u s1]) (simp_all add: bindE_run)
  qed
  have seen_t: "observed_before ?b u t"
    using seen1 project_event_observations [OF rest]
    by (auto simp: observed_before_def has_observation_def dhas_def split: option.splits)
  have "project_grant L demo e g t = (Inr (), t)"
  proof (cases rule: project_grant_cases [of L demo e g t])
    case (fails err)
    with u show ?thesis by (metis is_ok_simps(2))
  next
    case (seen u')
    then show ?thesis by simp
  next
    case (new u' t')
    from process_any_beliefs [OF u, of "ms_beliefs (get_mind t (g_observer_entity_id g) ?b)"] new(1)
    have "su_observation u' = su_observation u" by auto
    with seen_t new(2) show ?thesis by (simp add: observed_before_def)
  qed
  with Cons.IH [OF rest] show ?case by (simp add: bindE_run)
qed

section \<open>Causal changes of relationships\<close>

text \<open>The body of the relationship route of \<open>kernel/api/app.py\<close> after its access checks.\<close>

definition react ::
  "pylib \<Rightarrow> uuid \<Rightarrow> uuid \<Rightarrow> uuid \<Rightarrow> uuid \<Rightarrow> uuid \<Rightarrow> uuid \<Rightarrow> string \<Rightarrow> relationship_modifiers \<Rightarrow>
     (string \<times> rat) list option \<Rightarrow> int \<Rightarrow> (mind_store, relationship_change_record) eff" where
  "react L world b source target event_id actor event_type md deltas now =
     bindE (readE (\<lambda>s. change_in_store s (change_identity L world b source target event_id) b)) (\<lambda>existing.
     bindE (readE (\<lambda>s. case existing of Some x \<Rightarrow> rg_before x | None \<Rightarrow> relationship s source target (Some b))) (\<lambda>before.
     bindE (liftE (apply_relationship L before event_type (Some md) deltas)) (\<lambda>change.
     apply_relationship_change
       (from_change L change world b source target event_id actor ''relationship-policy-1.0.0'' now))))"

lemma from_change_parts [simp]:
  "rg_change_id (from_change L c w b s t e a p now) = change_identity L w b s t e"
  "rg_branch_id (from_change L c w b s t e a p now) = b"
  "rg_source_entity_id (from_change L c w b s t e a p now) = s"
  "rg_target_entity_id (from_change L c w b s t e a p now) = t"
  "rg_before (from_change L c w b s t e a p now) = rg_before c"
  "rg_after (from_change L c w b s t e a p now) = rg_after c"
  by (simp_all add: from_change_def)

lemma immutable_any_time:
  "immutable_content (from_change L c w b s t e a p now) = immutable_content (from_change L c w b s t e a p now')"
  by (simp add: from_change_def immutable_content_def)

lemma apply_relationship_before:
  "apply_relationship L v et md ds = Inr c \<Longrightarrow> rg_before c = v"
  by (auto simp: apply_relationship_def Let_def bindR_eq_Inr split: prod.splits if_splits)

lemma apply_change_retry:
  assumes "change_in_store s (rg_change_id r) (rg_branch_id r) = Some x" and "immutable_content x = immutable_content r"
  shows "apply_relationship_change r s = (Inr x, s)"
  using assms by (simp add: apply_relationship_change_def change_in_store_def)

lemma react_retry:
  assumes "change_in_store s (change_identity L w b source target event_id) b = Some x"
    and "apply_relationship L (rg_before x) et (Some md) ds = Inr c"
    and "immutable_content x =
      immutable_content (from_change L c w b source target event_id actor ''relationship-policy-1.0.0'' now)"
  shows "react L w b source target event_id actor et md ds now s = (Inr x, s)"
proof -
  have "react L w b source target event_id actor et md ds now s = apply_relationship_change
      (from_change L c w b source target event_id actor ''relationship-policy-1.0.0'' now) s"
    using assms(1,2) by (simp add: react_def)
  also have "\<dots> = (Inr x, s)"
    by (rule apply_change_retry) (simp_all add: assms)
  finally show ?thesis .
qed

text \<open>
  One event moves a relationship once. When a reaction has been recorded, the relationship either
  has the recorded outcome or, if it had been recorded earlier, the store is unchanged; repeating the
  same reaction, at any time, returns the same record and changes nothing, whatever has become of the relationship since.
\<close>

theorem reaction_is_idempotent:
  assumes "react L w b source target event_id actor et md ds now s = (Inr r, t)"
    and later: "dget (st_relationship_changes t') (b, rg_change_id r) = dget (st_relationship_changes t) (b, rg_change_id r)"
  shows "(t = s \<or> relationship t source target (Some b) = rg_after r) \<and>
    react L w b source target event_id actor et md ds now' t' = (Inr r, t')"
proof -
  let ?id = "change_identity L w b source target event_id"
  let ?from = "\<lambda>c. from_change L c w b source target event_id actor ''relationship-policy-1.0.0''"
  show ?thesis
  proof (cases "change_in_store s ?id b")
    case None
    with assms(1) obtain c where
      c: "apply_relationship L (relationship s source target (Some b)) et (Some md) ds = Inr c"
      and run: "apply_relationship_change (?from c now) s = (Inr r, t)"
      by (cases "apply_relationship L (relationship s source target (Some b)) et (Some md) ds")
        (auto simp: react_def)
    from run None have r: "r = ?from c now" and t: "t = publish_change (?from c now) s"
      by (auto simp: apply_relationship_change_def change_in_store_def split: if_splits)
    have rel: "relationship t source target (Some b) = rg_after r"
      by (simp add: r t publish_change_def relationship_def)
    have stored: "change_in_store t' ?id b = Some r"
      using later by (simp add: t r publish_change_def change_in_store_def)
    have before: "apply_relationship L (rg_before r) et (Some md) ds = Inr c"
      using apply_relationship_before [OF c] c by (simp add: r)
    have "react L w b source target event_id actor et md ds now' t' = (Inr r, t')"
      by (rule react_retry [OF stored before]) (unfold r, rule immutable_any_time)
    with rel show ?thesis by simp
  next
    case (Some x)
    with assms(1) obtain c where c: "apply_relationship L (rg_before x) et (Some md) ds = Inr c"
      and run: "apply_relationship_change (?from c now) s = (Inr r, t)"
      by (cases "apply_relationship L (rg_before x) et (Some md) ds") (auto simp: react_def)
    from run Some have r: "r = x" and t: "t = s" and same: "immutable_content x = immutable_content (?from c now)"
      by (auto simp: apply_relationship_change_def change_in_store_def split: if_splits)
    from arg_cong [OF same, of rg_change_id] have "rg_change_id x = ?id"
      by (simp add: immutable_content_def)
    then have stored: "change_in_store t' ?id b = Some x"
      using later Some by (simp add: t r change_in_store_def)
    have "immutable_content x = immutable_content (?from c now')"
      unfolding same by (rule immutable_any_time)
    from react_retry [OF stored c this] show ?thesis by (simp add: r t)
  qed
qed

section \<open>Runs of the store\<close>

text \<open>One call of any operation that changes the store, with whatever outcome.\<close>

inductive mind_step :: "mind_store \<Rightarrow> mind_store \<Rightarrow> bool" where
  initialize: "mind_step s (snd (initialize m b s))"
| restore: "mind_step s (snd (restore m br obs rels s))"
| subjective: "mind_step s (snd (apply_subjective_update e u b s))"
| relation: "mind_step s (snd (set_relationship source target v b s))"
| change: "mind_step s (snd (apply_relationship_change r s))"
| assignment: "mind_step s (snd (set_runtime_assignment a s))"
| decision: "mind_step s (snd (record_decision d s))"

inductive mind_run :: "mind_store \<Rightarrow> mind_store \<Rightarrow> bool" where
  mind_run_refl: "mind_run s s"
| mind_run_step: "\<lbrakk>mind_run s t; mind_step t u\<rbrakk> \<Longrightarrow> mind_run s u"

text \<open>What a store never forgets: causal changes, evidence and decisions.\<close>

definition history_kept :: "mind_store \<Rightarrow> mind_store \<Rightarrow> bool" where
  "history_kept s t \<longleftrightarrow> dget (st_relationship_changes s) \<subseteq>\<^sub>m dget (st_relationship_changes t) \<and>
     dget (st_evidence s) \<subseteq>\<^sub>m dget (st_evidence t) \<and> dget (st_decisions s) \<subseteq>\<^sub>m dget (st_decisions t)"

definition well_filed :: "mind_store \<Rightarrow> bool" where
  "well_filed s \<longleftrightarrow> (\<forall>b e m. dget (st_states s) (b, e) = Some m \<longrightarrow> ms_entity_id m = e) \<and>
     (\<forall>b i ob. dget (st_observations s) (b, i) = Some ob \<longrightarrow> ob_observation_id ob = i) \<and>
     (\<forall>b i r. dget (st_relationship_changes s) (b, i) = Some r \<longrightarrow> rg_branch_id r = b \<and> rg_change_id r = i) \<and>
     (\<forall>i d. dget (st_decisions s) i = Some d \<longrightarrow> dt_trace_id (do_trace d) = i)"

lemma well_filedI:
  assumes "\<And>b e m. dget (st_states s) (b, e) = Some m \<Longrightarrow> ms_entity_id m = e"
    and "\<And>b i ob. dget (st_observations s) (b, i) = Some ob \<Longrightarrow> ob_observation_id ob = i"
    and "\<And>b i r. dget (st_relationship_changes s) (b, i) = Some r \<Longrightarrow> rg_branch_id r = b \<and> rg_change_id r = i"
    and "\<And>i d. dget (st_decisions s) i = Some d \<Longrightarrow> dt_trace_id (do_trace d) = i"
  shows "well_filed s"
  using assms by (simp add: well_filed_def)

lemma history_kept_refl [simp]: "history_kept s s"
  by (simp add: history_kept_def)

lemma history_kept_trans: "\<lbrakk>history_kept s t; history_kept t u\<rbrakk> \<Longrightarrow> history_kept s u"
  unfolding history_kept_def by (meson map_le_trans)

lemma history_kept_same:
  "\<lbrakk>st_relationship_changes t = st_relationship_changes s; st_evidence t = st_evidence s; st_decisions t = st_decisions s\<rbrakk>
    \<Longrightarrow> history_kept s t"
  by (simp add: history_kept_def)

lemma dsetdefault_le: "dget d \<subseteq>\<^sub>m dget (dsetdefault d k v)"
  by (auto simp: map_le_def dget_or_def)

lemma note_evidence_kept: "history_kept s (note_evidence b evs s)"
proof -
  have "dget d \<subseteq>\<^sub>m dget (foldl (\<lambda>acc e. dsetdefault acc (b, evd_evidence_id e) e) d evs)" for d
  proof (induction evs arbitrary: d)
    case Nil
    then show ?case by simp
  next
    case (Cons e evs)
    have "dget d \<subseteq>\<^sub>m dget (dsetdefault d (b, evd_evidence_id e) e)" by (rule dsetdefault_le)
    also have "\<dots> \<subseteq>\<^sub>m dget (foldl (\<lambda>acc e. dsetdefault acc (b, evd_evidence_id e) e) (dsetdefault d (b, evd_evidence_id e) e) evs)"
      by (rule Cons.IH)
    finally show ?case by simp
  qed
  then show ?thesis by (simp add: history_kept_def note_evidence_def)
qed

lemma restore_observations_frame:
  "st_states (snd (restore_observations e b obs s)) = st_states s \<and>
   st_relationship_changes (snd (restore_observations e b obs s)) = st_relationship_changes s \<and>
   st_evidence (snd (restore_observations e b obs s)) = st_evidence s \<and>
   st_decisions (snd (restore_observations e b obs s)) = st_decisions s \<and>
   (well_filed s \<longrightarrow> well_filed (snd (restore_observations e b obs s)))"
proof (induction obs arbitrary: s)
  case Nil
  then show ?case by simp
next
  case (Cons ob obs)
  let ?s = "s\<lparr>st_observations := dset (st_observations s) (Some b, ob_observation_id ob) ob\<rparr>"
  have "well_filed s \<longrightarrow> well_filed ?s" by (auto simp: well_filed_def)
  with Cons.IH [of ?s] show ?case
    by (cases "ob_observer_entity_id ob = e") (auto simp: restore_observation_def bindE_run)
qed

lemma subjective_update_run:
  "\<exists>t. snd (apply_subjective_update e u b s) = t \<and> history_kept s t \<and> (well_filed s \<longrightarrow> well_filed t)"
proof (cases "\<forall>ob. su_observation u = Some ob \<longrightarrow> ob_observer_entity_id ob = e")
  case True
  let ?s = "s\<lparr>st_states := dsetdefault (st_states s) (b, e) (new_mind e)\<rparr>"
  let ?o = "file_observation b (su_observation u) ?s"
  let ?t = "note_evidence b (su_evidence u) ?o"
  let ?m = "preview_subjective_update s e u b"
  have run: "snd (apply_subjective_update e u b s) = ?t\<lparr>st_states := dset (st_states ?t) (b, e) ?m\<rparr>"
    using apply_own_run [of u e b s] True by (simp add: Let_def)
  have "st_evidence ?o = st_evidence s" by (simp add: file_observation_def split: option.splits)
  then have "history_kept s ?o" by (intro history_kept_same) simp_all
  then have "history_kept s ?t" by (rule history_kept_trans) (rule note_evidence_kept)
  then have kept: "history_kept s (?t\<lparr>st_states := dset (st_states ?t) (b, e) ?m\<rparr>)"
    by (simp add: history_kept_def)
  have "well_filed (?t\<lparr>st_states := dset (st_states ?t) (b, e) ?m\<rparr>)" if wf: "well_filed s"
  proof -
    have "ms_entity_id (get_mind s e b) = e"
      using wf by (auto simp: well_filed_def get_mind_def dget_or_def new_mind_def split: option.splits)
    then have own: "ms_entity_id ?m = e" by (simp add: preview_subjective_update_def Let_def)
    have old: "ms_entity_id m = x" if "dget (st_states ?s) (c, x) = Some m" for c x m
      using that wf by (auto simp: well_filed_def dget_or_def new_mind_def split: option.splits if_splits)
    have states: "ms_entity_id m = x"
      if get: "dget (st_states (?t\<lparr>st_states := dset (st_states ?t) (b, e) ?m\<rparr>)) (c, x) = Some m" for c x m
    proof (cases "(c, x) = (b, e)")
      case True
      with get have "m = ?m" by simp
      with own True show ?thesis by simp
    next
      case False
      with get have "dget (st_states ?s) (c, x) = Some m" by (auto split: if_splits)
      then show ?thesis by (rule old)
    qed
    have obs: "ob_observation_id ob = i" if "dget (st_observations ?o) (c, i) = Some ob" for c i ob
      using wf that by (auto simp: dget_file_observation well_filed_def split: option.splits if_splits)
    show ?thesis
    proof (rule well_filedI)
      show "ms_entity_id m = x" if "dget (st_states (?t\<lparr>st_states := dset (st_states ?t) (b, e) ?m\<rparr>)) (c, x) = Some m" for c x m
        using that by (rule states)
      show "ob_observation_id ob = i"
        if "dget (st_observations (?t\<lparr>st_states := dset (st_states ?t) (b, e) ?m\<rparr>)) (c, i) = Some ob" for c i ob
        using that obs [of c i ob] by simp
    qed (use wf in \<open>simp_all add: well_filed_def\<close>)
  qed
  with run kept show ?thesis by blast
next
  case False
  then obtain ob where ob: "su_observation u = Some ob" "ob_observer_entity_id ob \<noteq> e" by blast
  let ?s = "s\<lparr>st_states := dsetdefault (st_states s) (b, e) (new_mind e)\<rparr>"
  have "snd (apply_subjective_update e u b s) = ?s"
    using ob by (simp add: apply_subjective_update_def note_observation_def bindE_run)
  moreover have "well_filed s \<longrightarrow> well_filed ?s"
    by (auto simp: well_filed_def dget_or_def new_mind_def split: option.splits)
  ultimately show ?thesis by (simp add: history_kept_def)
qed

lemma mind_step_ok:
  assumes "mind_step s t"
  shows "history_kept s t \<and> (well_filed s \<longrightarrow> well_filed t)"
  using assms
proof (cases rule: mind_step.cases)
  case (initialize m b)
  then have "t = s\<lparr>st_states := dsetdefault (st_states s) (b, ms_entity_id m) m\<rparr>"
    by (simp add: initialize_def)
  then show ?thesis by (auto simp: history_kept_def well_filed_def dget_or_def split: option.splits if_splits)
next
  case (restore m br obs rels)
  let ?s = "s\<lparr>st_states := dset (st_states s) (Some br, ms_entity_id m) m\<rparr>"
  have wf: "well_filed s \<longrightarrow> well_filed ?s" by (auto simp: well_filed_def)
  obtain x u where x: "restore_observations (ms_entity_id m) br obs ?s = (x, u)" by fastforce
  note frame = restore_observations_frame [of "ms_entity_id m" br obs ?s, unfolded x snd_conv]
  have "t = u \<or> (\<exists>rels'. t = u\<lparr>st_relationships := rels'\<rparr>)"
    using restore x by (cases x) (auto simp: restore_def bindE_run)
  moreover have "well_filed (u\<lparr>st_relationships := rels'\<rparr>) = well_filed u" for rels'
    by (simp add: well_filed_def)
  ultimately show ?thesis using frame wf by (auto simp: history_kept_def)
next
  case (subjective e u b)
  then show ?thesis using subjective_update_run [of e u b s] by simp
next
  case (relation source target v b)
  then show ?thesis
    by (cases "source = target") (simp_all add: set_relationship_def history_kept_def well_filed_def)
next
  case (change r)
  consider "t = s" | "dget (st_relationship_changes s) (rg_branch_id r, rg_change_id r) = None" "t = publish_change r s"
    using change by (auto simp: apply_relationship_change_def split: option.splits if_splits)
  then show ?thesis
    by cases (auto simp: publish_change_def history_kept_def well_filed_def map_le_def)
next
  case (assignment a)
  then show ?thesis by (simp add: set_runtime_assignment_def history_kept_def well_filed_def)
next
  case (decision d)
  then have "t = s\<lparr>st_decisions := dsetdefault (st_decisions s) (dt_trace_id (do_trace d)) d\<rparr>"
    by (simp add: record_decision_def)
  then show ?thesis
    by (auto simp: history_kept_def well_filed_def dget_or_def map_le_def split: option.splits if_splits)
qed

text \<open>
  The store never rewrites history. Whatever calls are made, with whatever outcome, a recorded
  relationship change, piece of evidence or decision stays as it was recorded, and in a store that began
  empty every mind, observation, change and decision is filed under its own identity.
\<close>

theorem mind_history_is_kept:
  assumes "mind_run s t"
  shows "history_kept s t \<and> (well_filed s \<longrightarrow> well_filed t)"
  using assms
proof (induction rule: mind_run.induct)
  case (mind_run_refl s)
  then show ?case by simp
next
  case (mind_run_step s t u)
  then show ?case using mind_step_ok [of t u] history_kept_trans by blast
qed

section \<open>Applications\<close>

theorem mind_history_is_kept_witness:
  "well_filed (snd (set_relationship ''a'' ''b'' neutral_vector None empty_mind_store))"
proof -
  have "well_filed empty_mind_store" by (simp add: well_filed_def empty_mind_store_def)
  with mind_history_is_kept [OF mind_run_step [OF mind_run_refl relation], of empty_mind_store "''a''" "''b''" neutral_vector None]
  show ?thesis by blast
qed

definition gate_store :: mind_store where
  "gate_store = snd (project_event ref_lib ''gm'' gate_event [gate_grant] empty_mind_store)"

lemma gate_projection: "project_event ref_lib ''gm'' gate_event [gate_grant] empty_mind_store = (Inr (), gate_store)"
proof -
  let ?p = "whole_profile ''gm'' gate_grant"
  obtain ob where ob: "observe ref_lib gate_event ?p gate_grant None = Some ob"
    and payload: "ob_perceived_payload ob = [(''door'', JStr ''gate''), (''light'', JStr ''dim'')]"
    by (simp add: observe_def Let_def grant_matches_def whole_profile_def gate_event_def gate_grant_def
        perceived_payload_def restrict_fields_def)
  have claims: "claims_from_observation ref_lib ob = Inr []"
    by (simp add: claims_from_observation_def payload dget_or_def)
  have disp: "disposition_of ref_lib gate_event = keep_observation False (fl ref_lib (5 / 100))"
    by (simp add: disposition_of_def gate_event_def)
  have "is_ok (process ref_lib gate_event ?p gate_grant beliefs default_options)" for beliefs
  proof -
    obtain r where r: "revise ref_lib ob [] beliefs = Inr r" by (simp add: revise_def Let_def)
    obtain evs where "evidence_of ref_lib gate_event ob (Some r) gate_grant = Inr evs"
      by (simp add: evidence_of_def gate_event_def)
    with r show ?thesis
      by (simp add: process_def ob claims disp default_options_def keep_observation_def)
  qed
  then have "fst (project_event ref_lib ''gm'' gate_event [gate_grant] empty_mind_store) = Inr ()"
    by (cases rule: project_grant_cases [of ref_lib "''gm''" gate_event gate_grant empty_mind_store])
      (simp_all add: bindE_run)
  then show ?thesis by (simp add: gate_store_def prod_eq_iff)
qed

theorem minds_stay_apart_witness:
  "get_mind gate_store ''thief'' (Some ''b'') = get_mind empty_mind_store ''thief'' (Some ''b'')"
  using minds_stay_apart [OF gate_projection] by (simp add: gate_grant_def)

theorem projection_is_idempotent_witness:
  "project_event ref_lib ''gm'' gate_event [gate_grant] gate_store = (Inr (), gate_store)"
  by (rule projection_is_idempotent [OF gate_projection])

theorem reaction_is_idempotent_witness:
  "\<exists>r t. react ref_lib ''w'' ''b'' ''guard'' ''thief'' ''ev'' ''gm'' ''public_humiliation'' default_modifiers None 1 empty_mind_store = (Inr r, t) \<and>
    relationship t ''guard'' ''thief'' (Some ''b'') = rg_after r \<and>
    react ref_lib ''w'' ''b'' ''guard'' ''thief'' ''ev'' ''gm'' ''public_humiliation'' default_modifiers None 9 t = (Inr r, t)"
proof -
  let ?run = "react ref_lib ''w'' ''b'' ''guard'' ''thief'' ''ev'' ''gm'' ''public_humiliation'' default_modifiers None 1 empty_mind_store"
  have dist: "distinct (map fst (case None of None \<Rightarrow> dget_or RELATIONSHIP_EVENT_DELTAS ''public_humiliation'' [] | Some ds \<Rightarrow> ds))"
    by code_simp
  have v: "vector_ok neutral_vector" by code_simp
  obtain c where c: "apply_relationship ref_lib neutral_vector ''public_humiliation'' (Some default_modifiers) None = Inr c"
    using relationship_spec [OF lawful_ref_lib exact_ints_ref v refl refl dist, of "Some default_modifiers"]
    by (simp add: RELATIONSHIP_EVENT_DELTAS_def AXIS_BOUNDS_def dget_or_def dhas_def split: sum.splits)
  define r where "r = from_change ref_lib c ''w'' ''b'' ''guard'' ''thief'' ''ev'' ''gm'' ''relationship-policy-1.0.0'' 1"
  have run: "?run = (Inr r, publish_change r empty_mind_store)"
    using apply_relationship_before [OF c] c
    by (simp add: react_def apply_relationship_change_def change_in_store_def empty_mind_store_def relationship_def
        dget_or_def r_def)
  have "publish_change r empty_mind_store \<noteq> empty_mind_store" by (simp add: publish_change_def empty_mind_store_def)
  with reaction_is_idempotent [OF run refl, of 9] run show ?thesis by blast
qed

end
