(* ===== verification/ExperimentJobs.thy ===== *)
theory ExperimentJobs
  imports Cognition Effects
begin

text \<open>
  Long-running experiment jobs: \<open>JobRecord\<close> of \<open>experiments/models.py\<close> and \<open>JobManager\<close> and
  \<open>JobContext\<close> of \<open>experiments/jobs.py\<close>. A runner is code of the caller; it is known by a name and
  its behaviour is a parameter. The manager's lock is taken per section, so \<open>run\<close> is cut where the code releases it:
  \<open>begin_run\<close>, the runner itself, \<open>settle\<close> (the outcome is computed) and \<open>publish\<close> (it is stored).
  \<open>run_job\<close> is their composition in one thread, \<open>job_step\<close> lets the sections of several threads interleave.
\<close>

section \<open>Records\<close>

datatype job_status = QUEUED | RUNNING | COMPLETED | FAILED | CANCELLED

record job_record =
  jr_job_id :: uuid
  jr_job_type :: string
  jr_status :: job_status
  jr_progress :: rat
  jr_request :: jdict
  jr_result :: "jdict option"
  jr_error :: "string option"
  jr_attempt :: int
  jr_max_attempts :: int
  jr_checkpoint :: jdict
  jr_cancellation_requested :: bool

record job_manager =
  jm_records :: "(uuid \<times> job_record) list"
  jm_runners :: "(uuid \<times> string) list"

definition new_job_manager :: job_manager where
  "new_job_manager = \<lparr>jm_records = [], jm_runners = []\<rparr>"

definition put_record :: "uuid \<Rightarrow> job_record \<Rightarrow> (job_manager, unit) eff" where
  "put_record i r = updE (\<lambda>m. m\<lparr>jm_records := dset (jm_records m) i r\<rparr>)"

definition put_runner :: "uuid \<Rightarrow> string \<Rightarrow> (job_manager, unit) eff" where
  "put_runner i n = updE (\<lambda>m. m\<lparr>jm_runners := dset (jm_runners m) i n\<rparr>)"

text \<open>\<open>self._records[job_id]\<close>\<close>

definition the_record :: "uuid \<Rightarrow> (job_manager, job_record) eff" where
  "the_record i m = (of_option (KeyError i) (dget (jm_records m) i), m)"

section \<open>The manager\<close>

definition job_identity :: "pylib \<Rightarrow> string \<Rightarrow> jdict \<Rightarrow> uuid" where
  "job_identity L job_type request = uuid5 L (json_text L
     (JDict [(''type'', JStr job_type), (''request'', JDict request)]))"

definition queued_job :: "uuid \<Rightarrow> string \<Rightarrow> jdict \<Rightarrow> int \<Rightarrow> job_record" where
  "queued_job i job_type request max_attempts = \<lparr>jr_job_id = i, jr_job_type = job_type,
     jr_status = QUEUED, jr_progress = 0, jr_request = request, jr_result = None, jr_error = None,
     jr_attempt = 1, jr_max_attempts = max_attempts, jr_checkpoint = [], jr_cancellation_requested = False\<rparr>"

definition create_resumable ::
  "pylib \<Rightarrow> string \<Rightarrow> jdict \<Rightarrow> string \<Rightarrow> int \<Rightarrow> (job_manager, job_record) eff" where
  "create_resumable L job_type request runner max_attempts =
     bindE (ensureE (\<not> max_attempts < 1) (ValueError ''max_attempts must be positive'')) (\<lambda>_.
     let i = job_identity L job_type request in
     bindE (readE (\<lambda>m. dget (jm_records m) i)) (\<lambda>existing.
     case existing of
       Some r \<Rightarrow> bindE (put_runner i runner) (\<lambda>_. returnE r)
     | None \<Rightarrow>
         let r = queued_job i job_type request max_attempts in
         bindE (put_record i r) (\<lambda>_. bindE (put_runner i runner) (\<lambda>_. returnE r))))"

definition stopped :: "job_record \<Rightarrow> job_record" where
  "stopped r = (if jr_status r = RUNNING
     then r\<lparr>jr_status := FAILED, jr_error := Some ''worker process stopped before recording completion''\<rparr> else r)"

definition restore_job :: "job_record \<Rightarrow> string option \<Rightarrow> (job_manager, job_record) eff" where
  "restore_job record_in runner = (let r = stopped record_in in
     bindE (readE (\<lambda>m. dget (jm_records m) (jr_job_id r))) (\<lambda>existing.
     bindE (ensureE (case existing of None \<Rightarrow> True | Some x \<Rightarrow> x = r)
       (ValueError ''restored job differs from existing job history'')) (\<lambda>_.
     bindE (put_record (jr_job_id r) r) (\<lambda>_.
     bindE (case runner of None \<Rightarrow> returnE () | Some n \<Rightarrow> put_runner (jr_job_id r) n) (\<lambda>_.
     returnE r)))))"

definition attach_runner :: "uuid \<Rightarrow> string \<Rightarrow> (job_manager, unit) eff" where
  "attach_runner i runner = bindE (the_record i) (\<lambda>_. put_runner i runner)"

definition started :: "pylib \<Rightarrow> job_record \<Rightarrow> job_record" where
  "started L r = r\<lparr>jr_status := RUNNING, jr_progress := max (fl L (1 / 100)) (jr_progress r),
     jr_cancellation_requested := False\<rparr>"

text \<open>The first locked section of \<open>run\<close>: the record of a job that is over (\<open>Inl\<close>), or its runner.\<close>

definition begin_run :: "pylib \<Rightarrow> uuid \<Rightarrow> (job_manager, job_record + string) eff" where
  "begin_run L i =
     bindE (the_record i) (\<lambda>r.
     if jr_status r \<in> {CANCELLED, COMPLETED, FAILED} then returnE (Inl r)
     else bindE (ensureE (jr_status r \<noteq> RUNNING) (ValueError ''job is already running'')) (\<lambda>_.
     bindE (put_record i (started L r)) (\<lambda>_.
     bindE (readE (\<lambda>m. dget (jm_runners m) i)) (\<lambda>runner. case runner of
         None \<Rightarrow> raiseE (ValueError ''job runner is unavailable after restart'')
       | Some n \<Rightarrow> returnE (Inr n)))))"

text \<open>How a runner ends: with a result, with \<open>JobCancelled\<close>, or with another exception.\<close>

datatype run_outcome = Returned jdict | Gave_up | Raised string

definition finished :: "run_outcome \<Rightarrow> job_record \<Rightarrow> job_record" where
  "finished oc r = (case oc of
      Returned result \<Rightarrow>
        (if jr_cancellation_requested r \<or> jr_status r = CANCELLED
         then r\<lparr>jr_status := CANCELLED, jr_result := None\<rparr>
         else r\<lparr>jr_status := COMPLETED, jr_progress := 1, jr_result := Some result\<rparr>)
    | Gave_up \<Rightarrow> r\<lparr>jr_status := CANCELLED\<rparr>
    | Raised text \<Rightarrow> r\<lparr>jr_status := FAILED, jr_error := Some text\<rparr>)"

definition settle :: "uuid \<Rightarrow> run_outcome \<Rightarrow> (job_manager, job_record) eff" where
  "settle i oc = bindE (the_record i) (\<lambda>r. returnE (finished oc r))"

definition publish :: "uuid \<Rightarrow> job_record \<Rightarrow> (job_manager, job_record) eff" where
  "publish i r = bindE (put_record i r) (\<lambda>_. returnE r)"

type_synonym runner_body = "string \<Rightarrow> uuid \<Rightarrow> job_manager \<Rightarrow> run_outcome \<times> job_manager"

definition run_job :: "pylib \<Rightarrow> runner_body \<Rightarrow> uuid \<Rightarrow> (job_manager, job_record) eff" where
  "run_job L body i =
     bindE (begin_run L i) (\<lambda>b. case b of
         Inl r \<Rightarrow> returnE r
       | Inr n \<Rightarrow> bindE (\<lambda>m. (Inr (fst (body n i m)), snd (body n i m))) (\<lambda>oc.
           bindE (settle i oc) (publish i)))"

definition checkpoint :: "uuid \<Rightarrow> jdict \<Rightarrow> rat \<Rightarrow> (job_manager, job_record) eff" where
  "checkpoint i v progress =
     bindE (ensureE (0 \<le> progress \<and> progress < 1) (ValueError ''checkpoint progress must be in [0, 1)'')) (\<lambda>_.
     bindE (the_record i) (\<lambda>r.
     bindE (ensureE (jr_status r = RUNNING) (ValueError ''only running jobs can checkpoint'')) (\<lambda>_.
     let r' = r\<lparr>jr_checkpoint := v, jr_progress := progress\<rparr> in
     bindE (put_record i r') (\<lambda>_. returnE r'))))"

definition list_jobs :: "job_manager \<Rightarrow> job_record list" where
  "list_jobs m = map snd (sort_key fst (jm_records m))"

definition cancel_job :: "uuid \<Rightarrow> (job_manager, job_record) eff" where
  "cancel_job i =
     bindE (the_record i) (\<lambda>r.
     bindE (ensureE (jr_status r \<notin> {COMPLETED, FAILED}) (ValueError ''terminal jobs cannot be cancelled'')) (\<lambda>_.
     let r' = r\<lparr>jr_status := CANCELLED, jr_cancellation_requested := True\<rparr> in
     bindE (put_record i r') (\<lambda>_. returnE r')))"

definition retry_job :: "uuid \<Rightarrow> (job_manager, job_record) eff" where
  "retry_job i =
     bindE (the_record i) (\<lambda>r.
     bindE (ensureE (jr_status r \<in> {FAILED, CANCELLED}) (ValueError ''only failed or cancelled jobs can be retried'')) (\<lambda>_.
     bindE (ensureE (jr_attempt r < jr_max_attempts r) (ValueError ''job retry limit reached'')) (\<lambda>_.
     let r' = r\<lparr>jr_status := QUEUED, jr_result := None, jr_error := None,
       jr_attempt := jr_attempt r + 1, jr_cancellation_requested := False\<rparr> in
     bindE (put_record i r') (\<lambda>_. returnE r'))))"

definition resume_job :: "pylib \<Rightarrow> runner_body \<Rightarrow> uuid \<Rightarrow> (job_manager, job_record) eff" where
  "resume_job L body i =
     bindE (the_record i) (\<lambda>r.
     bindE (if jr_status r \<in> {FAILED, CANCELLED} then bindE (retry_job i) (\<lambda>_. returnE ())
            else ensureE (jr_status r = QUEUED) (ValueError ''only queued, failed, or cancelled jobs can resume'')) (\<lambda>_.
     run_job L body i))"

text \<open>What a runner sees through its \<open>JobContext\<close>.\<close>

definition is_cancelled :: "uuid \<Rightarrow> (job_manager, bool) eff" where
  "is_cancelled i = bindE (the_record i) (\<lambda>r.
     returnE (jr_cancellation_requested r \<or> jr_status r = CANCELLED))"

definition context_request :: "uuid \<Rightarrow> (job_manager, jdict) eff" where
  "context_request i = bindE (the_record i) (\<lambda>r. returnE (jr_request r))"

definition context_checkpoint :: "uuid \<Rightarrow> (job_manager, jdict) eff" where
  "context_checkpoint i = bindE (the_record i) (\<lambda>r. returnE (jr_checkpoint r))"

definition context_attempt :: "uuid \<Rightarrow> (job_manager, int) eff" where
  "context_attempt i = bindE (the_record i) (\<lambda>r. returnE (jr_attempt r))"

section \<open>Interleaving\<close>

text \<open>What a thread of the process is doing with a job.\<close>

datatype worker = Executing uuid | Settled uuid job_record

fun worker_job :: "worker \<Rightarrow> uuid" where
  "worker_job (Executing i) = i"
| "worker_job (Settled i r) = i"

record job_system =
  js_manager :: job_manager
  js_workers :: "(nat \<times> worker) list"

datatype job_action =
    Create string jdict string int
  | Restore job_record "string option"
  | Attach uuid string
  | Begin nat uuid
  | Checkpoint uuid jdict rat
  | Cancel uuid
  | Retry uuid
  | Settle nat run_outcome
  | Publish nat

definition manager_does :: "(job_manager, 'a) eff \<Rightarrow> job_system \<Rightarrow> job_system" where
  "manager_does f s = s\<lparr>js_manager := snd (f (js_manager s))\<rparr>"

text \<open>
  One locked section of one thread, with whatever outcome. A thread takes up a job when it is
  free, settles the job it executes and publishes what it has settled.
\<close>

fun job_act :: "pylib \<Rightarrow> job_action \<Rightarrow> job_system \<Rightarrow> job_system" where
  "job_act L (Create ty rq n mx) s = manager_does (create_resumable L ty rq n mx) s"
| "job_act L (Restore r n) s = manager_does (restore_job r n) s"
| "job_act L (Attach i n) s = manager_does (attach_runner i n) s"
| "job_act L (Begin t i) s =
     (if dhas (js_workers s) t then s
      else (case begin_run L i (js_manager s) of
          (Inr (Inr n), m) \<Rightarrow> s\<lparr>js_manager := m, js_workers := dset (js_workers s) t (Executing i)\<rparr>
        | (_, m) \<Rightarrow> s\<lparr>js_manager := m\<rparr>))"
| "job_act L (Checkpoint i v p) s = manager_does (checkpoint i v p) s"
| "job_act L (Cancel i) s = manager_does (cancel_job i) s"
| "job_act L (Retry i) s = manager_does (retry_job i) s"
| "job_act L (Settle t oc) s = (case dget (js_workers s) t of
      Some (Executing i) \<Rightarrow> (case settle i oc (js_manager s) of
          (Inr r, m) \<Rightarrow> s\<lparr>js_workers := dset (js_workers s) t (Settled i r)\<rparr>
        | _ \<Rightarrow> s)
    | _ \<Rightarrow> s)"
| "job_act L (Publish t) s = (case dget (js_workers s) t of
      Some (Settled i r) \<Rightarrow>
        s\<lparr>js_manager := snd (publish i r (js_manager s)), js_workers := ddel (js_workers s) t\<rparr>
    | _ \<Rightarrow> s)"

definition job_acts :: "pylib \<Rightarrow> job_action list \<Rightarrow> job_system \<Rightarrow> job_system" where
  "job_acts L acts s = foldl (\<lambda>s a. job_act L a s) s acts"

definition idle_jobs :: job_system where
  "idle_jobs = \<lparr>js_manager = new_job_manager, js_workers = []\<rparr>"

section \<open>What holds of every record\<close>

definition job_sound :: "job_record \<Rightarrow> bool" where
  "job_sound r \<longleftrightarrow> 1 \<le> jr_attempt r \<and> jr_attempt r \<le> jr_max_attempts r \<and>
     0 \<le> jr_progress r \<and> jr_progress r \<le> 1 \<and>
     (jr_status r = COMPLETED \<longrightarrow> jr_progress r = 1 \<and> jr_result r \<noteq> None) \<and>
     (jr_status r = FAILED \<longrightarrow> jr_error r \<noteq> None) \<and>
     (jr_status r \<in> {QUEUED, RUNNING} \<longrightarrow>
        jr_result r = None \<and> jr_error r = None \<and> \<not> jr_cancellation_requested r)"

definition jobs_filed :: "job_manager \<Rightarrow> bool" where
  "jobs_filed m \<longleftrightarrow> (\<forall>i r. dget (jm_records m) i = Some r \<longrightarrow> jr_job_id r = i \<and> job_sound r)"

fun worker_sound :: "worker \<Rightarrow> bool" where
  "worker_sound (Executing i) = True"
| "worker_sound (Settled i r) =
     (jr_job_id r = i \<and> job_sound r \<and> jr_status r \<in> {COMPLETED, FAILED, CANCELLED})"

definition jobs_sound :: "job_system \<Rightarrow> bool" where
  "jobs_sound s \<longleftrightarrow> jobs_filed (js_manager s) \<and>
     (\<forall>t w. dget (js_workers s) t = Some w \<longrightarrow> worker_sound w \<and> dhas (jm_records (js_manager s)) (worker_job w))"

text \<open>Records that come from an earlier process are those such a process wrote.\<close>

fun action_sound :: "job_action \<Rightarrow> bool" where
  "action_sound (Restore r n) = job_sound r"
| "action_sound _ = True"

lemma job_sound_queued: "\<not> n < 1 \<Longrightarrow> job_sound (queued_job i ty rq n)"
  by (simp add: job_sound_def queued_job_def)

lemma job_sound_stopped: "job_sound r \<Longrightarrow> job_sound (stopped r)"
  by (auto simp: job_sound_def stopped_def)

lemma job_sound_started:
  assumes "lawful_lib L" and "job_sound r" and "jr_status r = QUEUED"
  shows "job_sound (started L r)"
proof -
  have "0 \<le> fl L (1 / 100) \<and> fl L (1 / 100) \<le> 1"
    using lawful_fl_unit [OF assms(1), of "1 / 100"] by simp
  with assms(2,3) show ?thesis by (auto simp: job_sound_def started_def)
qed

lemma job_sound_finished: "job_sound r \<Longrightarrow> job_sound (finished oc r)"
  by (auto simp: job_sound_def finished_def split: run_outcome.splits)

lemma finished_status: "jr_status (finished oc r) \<in> {COMPLETED, FAILED, CANCELLED}"
  by (simp add: finished_def split: run_outcome.splits)

lemma finished_id [simp]: "jr_job_id (finished oc r) = jr_job_id r"
  by (simp add: finished_def split: run_outcome.splits)

text \<open>Every operation either leaves the records alone or files one record.\<close>

lemma put_run [simp]:
  "put_record i r m = (Inr (), m\<lparr>jm_records := dset (jm_records m) i r\<rparr>)"
  "put_runner i n m = (Inr (), m\<lparr>jm_runners := dset (jm_runners m) i n\<rparr>)"
  by (simp_all add: put_record_def put_runner_def)

lemma bind_the_record:
  "bindE (the_record i) f m = (case dget (jm_records m) i of None \<Rightarrow> (Inl (KeyError i), m) | Some r \<Rightarrow> f r m)"
  by (simp add: the_record_def bindE_def split: option.splits)

lemma bind_put [simp]:
  "bindE (put_record i r) f m = f () (m\<lparr>jm_records := dset (jm_records m) i r\<rparr>)"
  "bindE (put_runner i n) f m = f () (m\<lparr>jm_runners := dset (jm_runners m) i n\<rparr>)"
  by (simp_all add: bindE_run)

definition same_records :: "job_manager \<Rightarrow> job_manager \<Rightarrow> bool" where
  "same_records m m' \<longleftrightarrow> jm_records m' = jm_records m"

definition files_record :: "uuid \<Rightarrow> job_record \<Rightarrow> job_manager \<Rightarrow> job_manager \<Rightarrow> bool" where
  "files_record i r m m' \<longleftrightarrow> jm_records m' = dset (jm_records m) i r"

lemma create_cases:
  obtains "same_records m (snd (create_resumable L ty rq n mx m))"
  | "\<not> mx < 1" "dget (jm_records m) (job_identity L ty rq) = None"
    "files_record (job_identity L ty rq) (queued_job (job_identity L ty rq) ty rq mx) m
       (snd (create_resumable L ty rq n mx m))"
  by (cases "mx < 1"; cases "dget (jm_records m) (job_identity L ty rq)")
    (auto simp: create_resumable_def Let_def same_records_def files_record_def)

lemma restore_cases:
  obtains "same_records m (snd (restore_job r n m))"
  | "dget (jm_records m) (jr_job_id r) \<in> {None, Some (stopped r)}"
    "files_record (jr_job_id r) (stopped r) m (snd (restore_job r n m))"
proof -
  have id: "jr_job_id (stopped r) = jr_job_id r" by (simp add: stopped_def)
  show thesis
  proof (cases "dget (jm_records m) (jr_job_id r) \<in> {None, Some (stopped r)}")
    case True
    then have "files_record (jr_job_id r) (stopped r) m (snd (restore_job r n m))"
      by (cases n) (auto simp: restore_job_def Let_def id files_record_def)
    with True show thesis by (rule that(2))
  next
    case False
    then have "same_records m (snd (restore_job r n m))"
      by (auto simp: restore_job_def Let_def id same_records_def split: option.splits)
    then show thesis by (rule that(1))
  qed
qed

lemma attach_same: "same_records m (snd (attach_runner i n m))"
  by (simp add: attach_runner_def bind_the_record same_records_def split: option.splits)

lemma begin_cases:
  obtains (idle) x where "begin_run L i m = (x, m)" "\<forall>n. x \<noteq> Inr (Inr n)"
  | (no_runner) r e where "begin_run L i m = (Inl e, m\<lparr>jm_records := dset (jm_records m) i (started L r)\<rparr>)"
    "dget (jm_records m) i = Some r" "jr_status r = QUEUED" "dget (jm_runners m) i = None"
  | (runner) r n where "begin_run L i m = (Inr (Inr n), m\<lparr>jm_records := dset (jm_records m) i (started L r)\<rparr>)"
    "dget (jm_records m) i = Some r" "jr_status r = QUEUED" "dget (jm_runners m) i = Some n"
proof (cases "dget (jm_records m) i")
  case None
  then show thesis by (intro idle [of "Inl (KeyError i)"]) (simp_all add: begin_run_def bind_the_record)
next
  case (Some r)
  show thesis
  proof (cases "jr_status r = QUEUED")
    case True
    show thesis
    proof (cases "dget (jm_runners m) i")
      case None
      with Some True show thesis by (intro no_runner) (simp_all add: begin_run_def bind_the_record)
    next
      case (Some n)
      with \<open>dget (jm_records m) i = Some r\<close> True show thesis
        by (intro runner) (simp_all add: begin_run_def bind_the_record)
    qed
  next
    case False
    with Some show thesis
      by (cases "jr_status r") (auto intro: idle simp: begin_run_def bind_the_record)
  qed
qed

lemma checkpoint_cases:
  "same_records m (snd (checkpoint i v p m)) \<or>
   (\<exists>r. dget (jm_records m) i = Some r \<and> jr_status r = RUNNING \<and> 0 \<le> p \<and> p < 1 \<and>
     files_record i (r\<lparr>jr_checkpoint := v, jr_progress := p\<rparr>) m (snd (checkpoint i v p m)))"
  by (auto simp: checkpoint_def bind_the_record Let_def same_records_def files_record_def split: option.splits)

lemma cancel_cases:
  "same_records m (snd (cancel_job i m)) \<or>
   (\<exists>r. dget (jm_records m) i = Some r \<and> jr_status r \<notin> {COMPLETED, FAILED} \<and>
     files_record i (r\<lparr>jr_status := CANCELLED, jr_cancellation_requested := True\<rparr>) m (snd (cancel_job i m)))"
  by (auto simp: cancel_job_def bind_the_record Let_def same_records_def files_record_def split: option.splits)

definition requeued :: "job_record \<Rightarrow> job_record" where
  "requeued r = r\<lparr>jr_status := QUEUED, jr_result := None, jr_error := None,
     jr_attempt := jr_attempt r + 1, jr_cancellation_requested := False\<rparr>"

lemma retry_cases:
  "same_records m (snd (retry_job i m)) \<or>
   (\<exists>r. dget (jm_records m) i = Some r \<and> jr_status r \<in> {FAILED, CANCELLED} \<and> jr_attempt r < jr_max_attempts r \<and>
     files_record i (requeued r) m (snd (retry_job i m)))"
  by (auto simp: retry_job_def requeued_def bind_the_record Let_def same_records_def files_record_def split: option.splits)

text \<open>
  What an action does to the records: nothing, or it files one record. The cases are what the
  invariants below are about.
\<close>

inductive job_change :: "pylib \<Rightarrow> job_system \<Rightarrow> job_action \<Rightarrow> uuid \<Rightarrow> job_record \<Rightarrow> bool" for L s where
  created: "\<lbrakk>\<not> mx < 1; dget (jm_records (js_manager s)) i = None\<rbrakk>
    \<Longrightarrow> job_change L s (Create ty rq n mx) i (queued_job i ty rq mx)"
| restored: "dget (jm_records (js_manager s)) (jr_job_id r) \<in> {None, Some (stopped r)}
    \<Longrightarrow> job_change L s (Restore r n) (jr_job_id r) (stopped r)"
| begun: "\<lbrakk>dget (jm_records (js_manager s)) i = Some r; jr_status r = QUEUED\<rbrakk>
    \<Longrightarrow> job_change L s (Begin t i) i (started L r)"
| checkpointed: "\<lbrakk>dget (jm_records (js_manager s)) i = Some r; jr_status r = RUNNING; 0 \<le> p; p < 1\<rbrakk>
    \<Longrightarrow> job_change L s (Checkpoint i v p) i (r\<lparr>jr_checkpoint := v, jr_progress := p\<rparr>)"
| cancelled: "\<lbrakk>dget (jm_records (js_manager s)) i = Some r; jr_status r \<notin> {COMPLETED, FAILED}\<rbrakk>
    \<Longrightarrow> job_change L s (Cancel i) i (r\<lparr>jr_status := CANCELLED, jr_cancellation_requested := True\<rparr>)"
| retried: "\<lbrakk>dget (jm_records (js_manager s)) i = Some r; jr_status r \<in> {FAILED, CANCELLED}; jr_attempt r < jr_max_attempts r\<rbrakk>
    \<Longrightarrow> job_change L s (Retry i) i (requeued r)"
| published: "dget (js_workers s) t = Some (Settled i r) \<Longrightarrow> job_change L s (Publish t) i r"

inductive_cases job_changeE: "job_change L s a i r"

definition records_of :: "job_system \<Rightarrow> (uuid \<times> job_record) list" where
  "records_of s = jm_records (js_manager s)"

lemma act_changes:
  "records_of (job_act L a s) = records_of s \<or>
   (\<exists>i r. job_change L s a i r \<and> records_of (job_act L a s) = dset (records_of s) i r)"
proof (cases a)
  case (Create ty rq n mx)
  then show ?thesis
    by (cases rule: create_cases [of "js_manager s" L ty rq n mx])
      (auto simp: manager_does_def same_records_def files_record_def records_of_def intro!: job_change.intros exI)
next
  case (Restore r n)
  then show ?thesis
    by (cases rule: restore_cases [of "js_manager s" r n])
      (auto simp: manager_does_def same_records_def files_record_def records_of_def
        intro!: job_change.restored exI)
next
  case (Attach i n)
  then show ?thesis using attach_same [of "js_manager s" i n]
    by (simp add: manager_does_def same_records_def records_of_def)
next
  case (Begin t i)
  show ?thesis
  proof (cases "dhas (js_workers s) t")
    case False
    with Begin show ?thesis
      by (cases rule: begin_cases [of L i "js_manager s"])
        (auto simp: records_of_def split: sum.splits intro!: job_change.begun exI)
  qed (use Begin in simp)
next
  case (Checkpoint i v p)
  then show ?thesis using checkpoint_cases [of "js_manager s" i v p]
    by (auto simp: manager_does_def same_records_def files_record_def records_of_def intro!: job_change.checkpointed)
next
  case (Cancel i)
  then show ?thesis using cancel_cases [of "js_manager s" i]
    by (auto simp: manager_does_def same_records_def files_record_def records_of_def intro!: job_change.cancelled)
next
  case (Retry i)
  then show ?thesis using retry_cases [of "js_manager s" i]
    by (auto simp: manager_does_def same_records_def files_record_def records_of_def intro!: job_change.retried)
next
  case (Settle t oc)
  then show ?thesis
    by (simp add: settle_def bind_the_record records_of_def split: option.splits worker.splits)
next
  case (Publish t)
  then show ?thesis
    by (auto simp: publish_def records_of_def split: option.splits worker.splits intro!: job_change.published)
qed

text \<open>What an action does to the threads.\<close>

lemma act_workers:
  obtains (same) "js_workers (job_act L a s) = js_workers s"
  | (begins) t i r where "a = Begin t i" "dget (js_workers s) t = None" "dget (records_of s) i = Some r"
    "jr_status r = QUEUED" "js_workers (job_act L a s) = dset (js_workers s) t (Executing i)"
    "records_of (job_act L a s) = dset (records_of s) i (started L r)"
  | (settles) t oc i r where "a = Settle t oc" "dget (js_workers s) t = Some (Executing i)"
    "dget (records_of s) i = Some r" "js_workers (job_act L a s) = dset (js_workers s) t (Settled i (finished oc r))"
    "records_of (job_act L a s) = records_of s"
  | (publishes) t i r where "a = Publish t" "dget (js_workers s) t = Some (Settled i r)"
    "js_workers (job_act L a s) = ddel (js_workers s) t" "records_of (job_act L a s) = dset (records_of s) i r"
proof (cases a)
  case (Begin t i)
  show thesis
  proof (cases "dget (js_workers s) t")
    case None
    show thesis
    proof (cases rule: begin_cases [of L i "js_manager s"])
      case (idle x)
      with Begin show thesis by (intro same) (auto split: sum.splits)
    next
      case (no_runner r e)
      with Begin show thesis by (intro same) (auto split: sum.splits)
    next
      case (runner r n)
      with Begin None show thesis by (intro begins [of t i r]) (simp_all add: records_of_def dhas_def)
    qed
  next
    case (Some w)
    with Begin show thesis by (intro same) (simp add: dhas_def)
  qed
next
  case (Settle t oc)
  show thesis
  proof (cases "\<exists>i. dget (js_workers s) t = Some (Executing i) \<and> dget (records_of s) i \<noteq> None")
    case True
    then obtain i r where "dget (js_workers s) t = Some (Executing i)" "dget (records_of s) i = Some r" by auto
    with Settle show thesis
      by (intro settles [of t oc i r]) (simp_all add: settle_def bind_the_record records_of_def)
  next
    case False
    with Settle show thesis
      by (intro same) (auto simp: settle_def bind_the_record records_of_def split: option.splits worker.splits)
  qed
next
  case (Publish t)
  show thesis
  proof (cases "\<exists>i r. dget (js_workers s) t = Some (Settled i r)")
    case True
    then obtain i r where "dget (js_workers s) t = Some (Settled i r)" by blast
    with Publish show thesis by (intro publishes [of t i r]) (simp_all add: publish_def records_of_def)
  next
    case False
    with Publish show thesis by (intro same) (auto split: option.splits worker.splits)
  qed
qed (auto simp: manager_does_def intro: same)

lemma act_records_grow: "dhas (records_of s) i \<Longrightarrow> dhas (records_of (job_act L a s)) i"
  using act_changes [of L a s] by (auto simp: dhas_dset)

lemma change_sound:
  assumes "lawful_lib L" and "jobs_sound s" and "action_sound a" and "job_change L s a i r"
  shows "jr_job_id r = i \<and> job_sound r"
proof -
  have filed: "\<And>i r. dget (jm_records (js_manager s)) i = Some r \<Longrightarrow> jr_job_id r = i \<and> job_sound r"
    using assms(2) by (simp add: jobs_sound_def jobs_filed_def)
  from assms(4) show ?thesis
  proof cases
    case (created mx ty rq n)
    then show ?thesis using job_sound_queued [of mx i ty rq] by (simp add: queued_job_def)
  next
    case (restored r n)
    then show ?thesis using assms(3) job_sound_stopped [of r] by (simp add: stopped_def)
  next
    case (begun r t)
    then show ?thesis using filed [of i r] job_sound_started [OF assms(1), of r] by (simp add: started_def)
  next
    case (checkpointed r p v)
    then show ?thesis using filed [of i r] by (auto simp: job_sound_def)
  next
    case (cancelled r)
    then show ?thesis using filed [of i r] by (auto simp: job_sound_def)
  next
    case (retried r)
    then show ?thesis using filed [of i r] by (auto simp: job_sound_def requeued_def)
  next
    case (published t)
    then have "worker_sound (Settled i r)" using assms(2) unfolding jobs_sound_def by blast
    then show ?thesis by simp
  qed
qed

lemma job_act_sound:
  assumes lib: "lawful_lib L" and sound: "jobs_sound s" and act: "action_sound a"
  shows "jobs_sound (job_act L a s)"
proof -
  let ?t = "job_act L a s"
  have "jobs_filed (js_manager ?t)"
    using act_changes [of L a s] change_sound [OF lib sound act] sound
    by (auto simp: jobs_filed_def jobs_sound_def records_of_def split: if_splits)
  moreover have "worker_sound w \<and> dhas (records_of ?t) (worker_job w)"
    if w: "dget (js_workers ?t) t = Some w" for t w
  proof (cases rule: act_workers [of L a s])
    case same
    with w sound show ?thesis by (auto simp: jobs_sound_def records_of_def [symmetric] intro: act_records_grow)
  next
    case (begins t' i r)
    then have "t = t' \<and> w = Executing i \<or> dget (js_workers s) t = Some w" using w by (auto split: if_splits)
    then show ?thesis
    proof
      assume "t = t' \<and> w = Executing i"
      then show ?thesis using begins by (simp add: dhas_dset)
    next
      assume "dget (js_workers s) t = Some w"
      then show ?thesis using sound by (auto simp: jobs_sound_def records_of_def [symmetric] intro: act_records_grow)
    qed
  next
    case (settles t' oc i r)
    then have "t = t' \<and> w = Settled i (finished oc r) \<or> dget (js_workers s) t = Some w" using w by (auto split: if_splits)
    then show ?thesis
    proof
      assume "t = t' \<and> w = Settled i (finished oc r)"
      then show ?thesis using settles sound finished_status [of oc r]
        by (auto simp: jobs_sound_def jobs_filed_def records_of_def [symmetric] job_sound_finished dhas_def)
    next
      assume "dget (js_workers s) t = Some w"
      then show ?thesis using sound by (auto simp: jobs_sound_def records_of_def [symmetric] intro: act_records_grow)
    qed
  next
    case (publishes t' i r)
    then have "dget (js_workers s) t = Some w" using w by (auto split: if_splits)
    then show ?thesis using sound by (auto simp: jobs_sound_def records_of_def [symmetric] intro: act_records_grow)
  qed
  ultimately show ?thesis by (simp add: jobs_sound_def records_of_def)
qed

lemma idle_jobs_sound [simp]: "jobs_sound idle_jobs"
  by (simp add: jobs_sound_def jobs_filed_def idle_jobs_def new_job_manager_def)

lemma job_acts_simps [simp]:
  "job_acts L [] s = s" "job_acts L (a # as) s = job_acts L as (job_act L a s)"
  by (simp_all add: job_acts_def)

lemma job_acts_sound:
  "\<lbrakk>lawful_lib L; jobs_sound s; list_all action_sound acts\<rbrakk> \<Longrightarrow> jobs_sound (job_acts L acts s)"
  by (induction acts arbitrary: s) (simp_all add: job_act_sound)

text \<open>
  C28. Whatever the interleaving of clients, runners and retries, every record is filed under its own
  identifier and is consistent: between one attempt and the allowed number, progress between 0 and 1, a completed job
  has a result and full progress, a failed one an error, and a job that waits or runs carries
  neither result, error nor a request to stop.
\<close>

theorem jobs_stay_sound:
  assumes "lawful_lib L" and "list_all action_sound acts"
    and "dget (jm_records (js_manager (job_acts L acts idle_jobs))) i = Some r"
  shows "jr_job_id r = i \<and> job_sound r"
  using job_acts_sound [OF assms(1) idle_jobs_sound assms(2)] assms(3)
  by (simp add: jobs_sound_def jobs_filed_def)

section \<open>One runner at a time\<close>

definition busy :: "job_system \<Rightarrow> nat \<Rightarrow> uuid \<Rightarrow> bool" where
  "busy s t i \<longleftrightarrow> (case dget (js_workers s) t of None \<Rightarrow> False | Some w \<Rightarrow> worker_job w = i)"

definition sole_runner :: "uuid \<Rightarrow> job_system \<Rightarrow> bool" where
  "sole_runner i s \<longleftrightarrow> (\<forall>t t'. busy s t i \<longrightarrow> busy s t' i \<longrightarrow> t = t') \<and>
     (\<forall>r. dget (records_of s) i = Some r \<longrightarrow> jr_status r = QUEUED \<longrightarrow> (\<forall>t. \<not> busy s t i))"

lemma busy_dget: "busy s t i \<longleftrightarrow> (\<exists>w. dget (js_workers s) t = Some w \<and> worker_job w = i)"
  by (simp add: busy_def split: option.splits)

lemma busy_filed: "\<lbrakk>jobs_sound s; busy s t i\<rbrakk> \<Longrightarrow> dget (records_of s) i \<noteq> None"
  by (cases "dget (js_workers s) t") (fastforce simp: busy_def jobs_sound_def records_of_def dhas_def)+

lemma sole_runnerI:
  assumes "sole_runner i s" and "\<And>t. busy s' t i \<Longrightarrow> busy s t i"
    and "\<And>r t. \<lbrakk>dget (records_of s') i = Some r; jr_status r = QUEUED\<rbrakk> \<Longrightarrow> \<not> busy s t i"
  shows "sole_runner i s'"
  unfolding sole_runner_def
proof (intro conjI allI impI)
  show "t = t'" if "busy s' t i" "busy s' t' i" for t t'
    using assms(1) assms(2) [OF that(1)] assms(2) [OF that(2)] by (simp add: sole_runner_def)
  show "\<not> busy s' t i" if "dget (records_of s') i = Some r" "jr_status r = QUEUED" for r t
    using assms(3) [OF that, of t] assms(2) [of t] by blast
qed

lemma change_to_queued:
  assumes "jobs_sound s" and "job_change L s a i r" and "jr_status r = QUEUED" and "a \<noteq> Retry i"
  shows "dget (records_of s) i = None \<or> (\<exists>r'. dget (records_of s) i = Some r' \<and> jr_status r' = QUEUED)"
  using assms(2)
proof cases
  case (restored r n)
  then show ?thesis using assms(3) by (auto simp: records_of_def)
next
  case (published t)
  then have "worker_sound (Settled i r)" using assms(1) unfolding jobs_sound_def by blast
  then show ?thesis using assms(3) by simp
qed (use assms(3,4) in \<open>simp_all add: started_def records_of_def\<close>)

lemma queued_before:
  assumes sound: "jobs_sound s" and a: "a \<noteq> Retry i" and sole: "sole_runner i s"
    and r: "dget (records_of (job_act L a s)) i = Some r" "jr_status r = QUEUED"
  shows "\<not> busy s t i"
proof -
  consider "dget (records_of s) i = None" | r' where "dget (records_of s) i = Some r'" "jr_status r' = QUEUED"
    using act_changes [of L a s] change_to_queued [OF sound _ _ a, of L r] r by (auto split: if_splits)
  then show ?thesis
  proof cases
    case 1
    then show ?thesis using busy_filed [OF sound, of t i] by blast
  next
    case 2
    then show ?thesis using sole by (simp add: sole_runner_def)
  qed
qed

lemma sole_runner_act:
  assumes sound: "jobs_sound s" and a: "a \<noteq> Retry i" and sole: "sole_runner i s"
  shows "sole_runner i (job_act L a s)"
proof (cases "\<exists>t r. a = Begin t i \<and> dget (records_of s) i = Some r \<and> jr_status r = QUEUED \<and>
    js_workers (job_act L a s) = dset (js_workers s) t (Executing i) \<and>
    records_of (job_act L a s) = dset (records_of s) i (started L r)")
  case True
  then obtain t r where r: "dget (records_of s) i = Some r" "jr_status r = QUEUED"
    and w: "js_workers (job_act L a s) = dset (js_workers s) t (Executing i)"
    and recs: "records_of (job_act L a s) = dset (records_of s) i (started L r)" by blast
  have "\<not> busy s t' i" for t' using sole r by (simp add: sole_runner_def)
  then have "busy (job_act L a s) t' i \<longleftrightarrow> t' = t" for t' using w by (simp add: busy_def)
  then show ?thesis using recs by (simp add: sole_runner_def started_def)
next
  case False
  have "busy (job_act L a s) t i \<Longrightarrow> busy s t i" for t
    by (cases rule: act_workers [of L a s]) (use False in \<open>auto simp: busy_dget split: if_splits\<close>)
  then show ?thesis by (rule sole_runnerI [OF sole _ queued_before [OF sound a sole]])
qed

lemma sole_runner_acts:
  "\<lbrakk>lawful_lib L; jobs_sound s; sole_runner i s; list_all action_sound acts; Retry i \<notin> set acts\<rbrakk>
    \<Longrightarrow> sole_runner i (job_acts L acts s)"
  by (induction acts arbitrary: s) (auto simp: job_act_sound sole_runner_act)

text \<open>
  As long as a job is not retried, at most one thread works on it, however often and from however
  many threads it is created, restored, started and cancelled; and nobody works on it while it waits.
\<close>

theorem one_runner_without_retry:
  assumes "lawful_lib L" and "list_all action_sound acts" and "Retry i \<notin> set acts"
  shows "sole_runner i (job_acts L acts idle_jobs)"
  using sole_runner_acts [OF assms(1) idle_jobs_sound _ assms(2,3)]
  by (simp add: sole_runner_def idle_jobs_def busy_def records_of_def new_job_manager_def)

section \<open>Cancellation\<close>

definition called_off :: "job_record \<Rightarrow> bool" where
  "called_off r \<longleftrightarrow> jr_status r \<in> {CANCELLED, FAILED} \<and> jr_cancellation_requested r"

definition stays_off :: "uuid \<Rightarrow> job_system \<Rightarrow> bool" where
  "stays_off i s \<longleftrightarrow> (\<exists>r. dget (records_of s) i = Some r \<and> called_off r) \<and>
     (\<forall>t f. dget (js_workers s) t = Some (Settled i f) \<longrightarrow> called_off f)"

lemma finished_called_off: "called_off r \<Longrightarrow> called_off (finished oc r)"
  by (simp add: called_off_def finished_def split: run_outcome.splits)

lemma change_called_off:
  assumes "stays_off i s" and "job_change L s a i r" and "a \<noteq> Retry i"
  shows "called_off r"
proof -
  from assms(1) obtain q where q: "dget (records_of s) i = Some q" "called_off q"
    and pending: "\<And>t f. dget (js_workers s) t = Some (Settled i f) \<Longrightarrow> called_off f"
    by (auto simp: stays_off_def)
  from assms(2) show ?thesis
  proof cases
    case (published t)
    then show ?thesis using pending by blast
  qed (use q assms(3) in \<open>auto simp: records_of_def called_off_def\<close>)
qed

lemma stays_off_act:
  assumes off: "stays_off i s" and a: "a \<noteq> Retry i"
  shows "stays_off i (job_act L a s)"
proof -
  obtain q where q: "dget (records_of s) i = Some q" "called_off q" using off by (auto simp: stays_off_def)
  have "\<exists>r. dget (records_of (job_act L a s)) i = Some r \<and> called_off r"
    using act_changes [of L a s] change_called_off [OF off _ a, of L] q by auto
  moreover have "called_off f" if f: "dget (js_workers (job_act L a s)) t = Some (Settled i f)" for t f
  proof (cases rule: act_workers [of L a s])
    case (settles t' oc j r)
    then show ?thesis
      using f q off finished_called_off [of q oc] by (auto simp: stays_off_def split: if_splits)
  qed (use f off in \<open>auto simp: stays_off_def split: if_splits\<close>)
  ultimately show ?thesis by (simp add: stays_off_def)
qed

lemma stays_off_acts: "\<lbrakk>stays_off i s; Retry i \<notin> set acts\<rbrakk> \<Longrightarrow> stays_off i (job_acts L acts s)"
  by (induction acts arbitrary: s) (auto simp: stays_off_act)

text \<open>
  A cancelled job never completes: once a client has cancelled it, and unless a runner's outcome was
  already computed, no later action but a retry makes it anything else than cancelled or failed,
  whatever result its runner returns.
\<close>

theorem cancelled_job_never_completes:
  assumes "cancel_job i (js_manager s) = (Inr r, m)"
    and "\<And>t f. dget (js_workers s) t \<noteq> Some (Settled i f)"
    and "Retry i \<notin> set acts"
  shows "\<exists>r'. dget (jm_records (js_manager (job_acts L acts (s\<lparr>js_manager := m\<rparr>)))) i = Some r' \<and>
    jr_status r' \<in> {CANCELLED, FAILED}"
proof -
  have "stays_off i (s\<lparr>js_manager := m\<rparr>)"
    using assms(1,2) by (auto simp: cancel_job_def bind_the_record Let_def stays_off_def called_off_def records_of_def
      split: option.splits if_splits)
  from stays_off_acts [OF this assms(3), of L] show ?thesis
    by (auto simp: stays_off_def called_off_def records_of_def)
qed

section \<open>A job of the fixture\<close>

definition demo_job :: uuid where
  "demo_job = job_identity ref_lib ''demo'' []"

definition demo_create :: job_action where
  "demo_create = Create ''demo'' [] ''runner'' 3"

lemmas job_runs = demo_create_def manager_does_def create_resumable_def restore_job_def begin_run_def checkpoint_def
  cancel_job_def retry_job_def settle_def publish_def bind_the_record queued_job_def started_def finished_def
  stopped_def idle_jobs_def new_job_manager_def Let_def dhas_def demo_job_def [symmetric]

definition demo_run :: "job_action list" where
  "demo_run = [demo_create, Begin 1 demo_job, Checkpoint demo_job [] (1 / 2), Settle 1 (Returned []), Publish 1]"

lemma demo_run_completes:
  "\<exists>r. dget (jm_records (js_manager (job_acts ref_lib demo_run idle_jobs))) demo_job = Some r \<and> jr_status r = COMPLETED"
  by (simp add: demo_run_def job_runs)

theorem jobs_stay_sound_witness:
  "\<exists>r. dget (jm_records (js_manager (job_acts ref_lib demo_run idle_jobs))) demo_job = Some r \<and>
    jr_status r = COMPLETED \<and> jr_job_id r = demo_job \<and> job_sound r"
proof -
  obtain r where r: "dget (jm_records (js_manager (job_acts ref_lib demo_run idle_jobs))) demo_job = Some r"
    and "jr_status r = COMPLETED" using demo_run_completes by blast
  moreover have "list_all action_sound demo_run" by (simp add: demo_run_def demo_create_def)
  from jobs_stay_sound [OF lawful_ref_lib this r] have "jr_job_id r = demo_job \<and> job_sound r" .
  ultimately show ?thesis by blast
qed

theorem one_runner_without_retry_witness:
  "sole_runner demo_job (job_acts ref_lib [demo_create, Begin 1 demo_job, Begin 2 demo_job] idle_jobs) \<and>
   busy (job_acts ref_lib [demo_create, Begin 1 demo_job, Begin 2 demo_job] idle_jobs) 1 demo_job"
proof
  have "list_all action_sound [demo_create, Begin 1 demo_job, Begin 2 demo_job]"
    and "Retry demo_job \<notin> set [demo_create, Begin 1 demo_job, Begin 2 demo_job]"
    by (simp_all add: demo_create_def)
  from one_runner_without_retry [OF lawful_ref_lib this]
  show "sole_runner demo_job (job_acts ref_lib [demo_create, Begin 1 demo_job, Begin 2 demo_job] idle_jobs)" .
  show "busy (job_acts ref_lib [demo_create, Begin 1 demo_job, Begin 2 demo_job] idle_jobs) 1 demo_job"
    by (simp add: job_runs busy_def)
qed

theorem cancelled_job_never_completes_witness:
  "\<exists>s r r' m. s = job_acts ref_lib [demo_create, Begin 1 demo_job] idle_jobs \<and>
    cancel_job demo_job (js_manager s) = (Inr r, m) \<and>
    dget (jm_records (js_manager (job_acts ref_lib [Settle 1 (Returned []), Publish 1] (s\<lparr>js_manager := m\<rparr>)))) demo_job = Some r' \<and>
    jr_status r' \<in> {CANCELLED, FAILED}"
proof -
  let ?s = "job_acts ref_lib [demo_create, Begin 1 demo_job] idle_jobs"
  obtain r m where c: "cancel_job demo_job (js_manager ?s) = (Inr r, m)" by (simp add: job_runs)
  have "dget (js_workers ?s) t \<noteq> Some (Settled demo_job f)" for t f by (simp add: job_runs)
  from cancelled_job_never_completes [OF c this, of "[Settle 1 (Returned []), Publish 1]" ref_lib] c
  show ?thesis by auto
qed

text \<open>A job is cancelled and retried while its first runner works.\<close>

definition overlap_run :: "job_action list" where
  "overlap_run = [demo_create, Begin 1 demo_job, Cancel demo_job, Retry demo_job, Begin 2 demo_job,
     Settle 1 (Returned [(''stale'', JBool True)]), Publish 1]"

text \<open>
  Cancelling does not stop a runner, so a retry can start a second one beside it: there is a run in
  which two threads execute the same job, and the outcome of the attempt that was called off then
  completes the job while the new attempt is still executing.
\<close>

theorem retry_overlaps_runner:
  "\<exists>r. dget (jm_records (js_manager (job_acts ref_lib overlap_run idle_jobs))) demo_job = Some r \<and>
    jr_status r = COMPLETED \<and> jr_attempt r = 2 \<and> jr_result r = Some [(''stale'', JBool True)] \<and>
    busy (job_acts ref_lib overlap_run idle_jobs) 2 demo_job"
  by (simp add: overlap_run_def job_runs busy_def)

text \<open>
  A cancellation that falls between the two locked sections at the end of \<open>run\<close> is overwritten, and so is a
  retry: the attempt number goes back.
\<close>

lemma late_cancellation_is_lost:
  "\<exists>r. dget (jm_records (js_manager (job_acts ref_lib
      [demo_create, Begin 1 demo_job, Settle 1 (Returned []), Cancel demo_job, Retry demo_job, Publish 1] idle_jobs))) demo_job = Some r \<and>
    jr_status r = COMPLETED \<and> jr_attempt r = 1"
  by (simp add: job_runs)

section \<open>Jobs without a runner\<close>

text \<open>
  Starting a queued job that has no runner, as after a restart, raises an error but leaves the job
  \<open>RUNNING\<close> with nobody working on it; from then on it can neither be started, retried nor resumed.
\<close>

theorem runnerless_job_gets_stuck:
  assumes "dget (jm_records m) i = Some r" and "jr_status r = QUEUED" and "dget (jm_runners m) i = None"
  shows "\<exists>m'. run_job L body i m = (Inl (ValueError ''job runner is unavailable after restart''), m') \<and>
    dget (jm_records m') i = Some (started L r) \<and>
    run_job L body i m' = (Inl (ValueError ''job is already running''), m') \<and>
    retry_job i m' = (Inl (ValueError ''only failed or cancelled jobs can be retried''), m') \<and>
    resume_job L body i m' = (Inl (ValueError ''only queued, failed, or cancelled jobs can resume''), m')"
proof (intro exI conjI)
  let ?m = "m\<lparr>jm_records := dset (jm_records m) i (started L r)\<rparr>"
  show "run_job L body i m = (Inl (ValueError ''job runner is unavailable after restart''), ?m)"
    using assms by (simp add: run_job_def begin_run_def bind_the_record bindE_run)
  show "dget (jm_records ?m) i = Some (started L r)" by simp
  show "run_job L body i ?m = (Inl (ValueError ''job is already running''), ?m)"
    by (simp add: run_job_def begin_run_def bind_the_record bindE_run started_def)
  show "retry_job i ?m = (Inl (ValueError ''only failed or cancelled jobs can be retried''), ?m)"
    by (simp add: retry_job_def bind_the_record started_def)
  show "resume_job L body i ?m = (Inl (ValueError ''only queued, failed, or cancelled jobs can resume''), ?m)"
    by (simp add: resume_job_def bind_the_record started_def bindE_run)
qed

theorem runnerless_job_gets_stuck_witness:
  "\<exists>m'. run_job ref_lib (\<lambda>_ _ m. (Returned [], m)) demo_job
      (snd (restore_job (queued_job demo_job ''demo'' [] 3) None new_job_manager)) =
    (Inl (ValueError ''job runner is unavailable after restart''), m')"
proof -
  have "dget (jm_records (snd (restore_job (queued_job demo_job ''demo'' [] 3) None new_job_manager))) demo_job =
      Some (queued_job demo_job ''demo'' [] 3)"
    and "jr_status (queued_job demo_job ''demo'' [] 3) = QUEUED"
    and "dget (jm_runners (snd (restore_job (queued_job demo_job ''demo'' [] 3) None new_job_manager))) demo_job = None"
    by (simp_all add: restore_job_def stopped_def queued_job_def new_job_manager_def Let_def)
  from runnerless_job_gets_stuck [OF this] show ?thesis by blast
qed

section \<open>A whole run\<close>

text \<open>
  What \<open>run\<close> leaves behind when no other thread interferes: the record the runner left, ended by its
  outcome; creating the same job again finds that record.
\<close>

lemma run_job_outcome:
  assumes "dget (jm_records m) i = Some r" and "jr_status r = QUEUED" and "dget (jm_runners m) i = Some n"
    and "body n i (m\<lparr>jm_records := dset (jm_records m) i (started L r)\<rparr>) = (oc, m')"
    and "dget (jm_records m') i = Some c"
  shows "run_job L body i m = (Inr (finished oc c), m'\<lparr>jm_records := dset (jm_records m') i (finished oc c)\<rparr>)"
  using assms by (simp add: run_job_def begin_run_def settle_def publish_def bind_the_record bindE_run)

lemma create_finds_existing:
  assumes "dget (jm_records m) (job_identity L ty rq) = Some r" and "1 \<le> mx"
  shows "create_resumable L ty rq n mx m = (Inr r, m\<lparr>jm_runners := dset (jm_runners m) (job_identity L ty rq) n\<rparr>)"
  using assms by (simp add: create_resumable_def Let_def)

end
