(* ===== verification/ExperimentRepository.thy ===== *)
theory ExperimentRepository
  imports CognitionDecision Effects
begin

text \<open>
  The records of \<open>experiments/models.py\<close> and \<open>InMemoryExperimentRepository\<close> (\<open>experiments/repository.py\<close>): scenarios by
  name and version, trial records and outputs by trial. Saving is guarded: a stored scenario or output is not
  replaced by a different one and the identity of a trial does not change. The copies that the methods take are values here.
\<close>

section \<open>Records\<close>

record verifier_fact =
  vf_fact_type :: string
  vf_value :: jval
  vf_unit :: "string option"
  vf_evidence_event_ids :: "uuid list"
  vf_verifier_version :: string

record scenario_definition =
  sx_scenario_id :: string
  sx_version :: string
  sx_name :: "string option"
  sx_description :: string
  sx_base_snapshot_id :: "uuid option"
  sx_world_setup :: jdict
  sx_cohort :: jdict
  sx_intervention :: jdict
  sx_allowed_actions :: "string list"
  sx_cohort_size :: int
  sx_seeds :: "int list"
  sx_run_horizon_steps :: int
  sx_stop_conditions :: "string list"
  sx_model_assignment :: jdict
  sx_verifier_versions :: "string list"
  sx_metric_contract :: jdict

record snapshot_reference =
  snap_snapshot_id :: uuid
  snap_world_id :: uuid
  snap_canonical_branch_id :: uuid
  snap_state_hash :: string
  snap_contract_version :: string

record trial_branch =
  tb_trial_id :: uuid
  tb_world_id :: uuid
  tb_snapshot_id :: uuid
  tb_branch_id :: uuid
  tb_run_id :: uuid
  tb_seed :: int

record trial_execution =
  tx_status :: string
  tx_steps :: int
  tx_final_state :: jdict
  tx_trial_state_hash :: string
  tx_events :: "event list"
  tx_traces :: "decision_trace list"
  tx_metrics :: jdict
  tx_checkpoint :: jdict
  tx_artifact_uris :: "string list"
  tx_failure_code :: "string option"

datatype reduction = VALUE | COUNT | SUM_OF | MEAN | ANY_OF | ALL_OF

record metric_spec =
  mt_name :: string
  mt_fact_type :: string
  mt_reduction :: reduction
  mt_default :: jval
  mt_version :: string

record trial_output =
  out_trial_id :: uuid
  out_persona_id :: "uuid option"
  out_seed :: int
  out_status :: string
  out_steps :: int
  out_canonical_hash_before :: string
  out_canonical_hash_after :: string
  out_trial_state_hash :: string
  out_traces :: "decision_trace list"
  out_events :: "event list"
  out_facts :: "verifier_fact list"
  out_metrics :: jdict
  out_branch_id :: "uuid option"
  out_run_id :: "uuid option"
  out_artifact_uris :: "string list"
  out_failure_code :: "string option"

record trial_record =
  tr_trial_id :: uuid
  tr_scenario_id :: string
  tr_scenario_version :: string
  tr_persona_id :: "uuid option"
  tr_persona_version :: "string option"
  tr_world_id :: uuid
  tr_snapshot_id :: uuid
  tr_branch_id :: uuid
  tr_run_id :: uuid
  tr_seed :: int
  tr_status :: string
  tr_attempt :: int
  tr_checkpoint :: jdict
  tr_failure_code :: "string option"

section \<open>Equality of models\<close>

text \<open>Pydantic compares field by field, and dictionaries whatever the order of their keys.\<close>

definition same_event :: "event \<Rightarrow> event \<Rightarrow> bool" where
  "same_event a b \<longleftrightarrow> py_eq (JDict (e_payload a)) (JDict (e_payload b)) \<and> a\<lparr>e_payload := []\<rparr> = b\<lparr>e_payload := []\<rparr>"

definition same_fact :: "verifier_fact \<Rightarrow> verifier_fact \<Rightarrow> bool" where
  "same_fact a b \<longleftrightarrow> py_eq (vf_value a) (vf_value b) \<and> a\<lparr>vf_value := JNull\<rparr> = b\<lparr>vf_value := JNull\<rparr>"

definition same_candidate :: "decision_candidate \<Rightarrow> decision_candidate \<Rightarrow> bool" where
  "same_candidate a b \<longleftrightarrow>
     py_eq (JDict (map (\<lambda>(n, q). (n, JFloat q)) (dc_factors a))) (JDict (map (\<lambda>(n, q). (n, JFloat q)) (dc_factors b))) \<and>
     a\<lparr>dc_factors := []\<rparr> = b\<lparr>dc_factors := []\<rparr>"

definition same_trace :: "decision_trace \<Rightarrow> decision_trace \<Rightarrow> bool" where
  "same_trace a b \<longleftrightarrow> list_all2 same_candidate (dt_candidates a) (dt_candidates b) \<and>
     a\<lparr>dt_candidates := []\<rparr> = b\<lparr>dt_candidates := []\<rparr>"

definition same_output :: "trial_output \<Rightarrow> trial_output \<Rightarrow> bool" where
  "same_output a b \<longleftrightarrow> list_all2 same_trace (out_traces a) (out_traces b) \<and> list_all2 same_event (out_events a) (out_events b) \<and>
     list_all2 same_fact (out_facts a) (out_facts b) \<and> py_eq (JDict (out_metrics a)) (JDict (out_metrics b)) \<and>
     a\<lparr>out_traces := [], out_events := [], out_facts := [], out_metrics := []\<rparr> =
     b\<lparr>out_traces := [], out_events := [], out_facts := [], out_metrics := []\<rparr>"

definition same_definition :: "scenario_definition \<Rightarrow> scenario_definition \<Rightarrow> bool" where
  "same_definition a b \<longleftrightarrow>
     list_all2 (\<lambda>x y. py_eq (JDict x) (JDict y))
       [sx_world_setup a, sx_cohort a, sx_intervention a, sx_model_assignment a, sx_metric_contract a]
       [sx_world_setup b, sx_cohort b, sx_intervention b, sx_model_assignment b, sx_metric_contract b] \<and>
     a\<lparr>sx_world_setup := [], sx_cohort := [], sx_intervention := [], sx_model_assignment := [], sx_metric_contract := []\<rparr> =
     b\<lparr>sx_world_setup := [], sx_cohort := [], sx_intervention := [], sx_model_assignment := [], sx_metric_contract := []\<rparr>"

section \<open>The repository\<close>

record experiment_repository =
  xr_scenarios :: "((string \<times> string) \<times> scenario_definition) list"
  xr_trials :: "(uuid \<times> trial_record) list"
  xr_outputs :: "(uuid \<times> trial_output) list"

definition new_repository :: experiment_repository where
  "new_repository = \<lparr>xr_scenarios = [], xr_trials = [], xr_outputs = []\<rparr>"

definition scenario_uuid :: "pylib \<Rightarrow> string \<times> string \<Rightarrow> uuid" where
  "scenario_uuid L k = uuid5 L (''tabletop-dm:scenario:'' @ fst k @ '':'' @ snd k)"

definition store_scenario :: "pylib \<Rightarrow> scenario_definition \<Rightarrow> (experiment_repository, uuid) eff" where
  "store_scenario L d = (let k = (sx_scenario_id d, sx_version d) in
     bindE (readE (\<lambda>s. dget (xr_scenarios s) k)) (\<lambda>existing.
     bindE (ensureE (case existing of None \<Rightarrow> True | Some e \<Rightarrow> same_definition e d)
       (ValueError ''An immutable scenario version cannot be replaced'')) (\<lambda>_.
     bindE (updE (\<lambda>s. s\<lparr>xr_scenarios := dset (xr_scenarios s) k d\<rparr>)) (\<lambda>_. returnE (scenario_uuid L k)))))"

definition stored_scenario :: "experiment_repository \<Rightarrow> string \<times> string \<Rightarrow> scenario_definition res" where
  "stored_scenario s k = of_option (KeyError (snd k)) (dget (xr_scenarios s) k)"

definition stored_scenarios :: "experiment_repository \<Rightarrow> scenario_definition list" where
  "stored_scenarios s = map snd (sort_key fst (xr_scenarios s))"

text \<open>The fields of a trial that never change.\<close>

definition same_identity :: "trial_record \<Rightarrow> trial_record \<Rightarrow> bool" where
  "same_identity a b \<longleftrightarrow> tr_scenario_id a = tr_scenario_id b \<and> tr_scenario_version a = tr_scenario_version b \<and>
     tr_persona_id a = tr_persona_id b \<and> tr_persona_version a = tr_persona_version b \<and> tr_world_id a = tr_world_id b \<and>
     tr_snapshot_id a = tr_snapshot_id b \<and> tr_branch_id a = tr_branch_id b \<and> tr_run_id a = tr_run_id b \<and>
     tr_seed a = tr_seed b \<and> tr_attempt a = tr_attempt b"

definition repository_save_trial :: "trial_record \<Rightarrow> (experiment_repository, unit) eff" where
  "repository_save_trial t =
     bindE (readE (\<lambda>s. dget (xr_trials s) (tr_trial_id t))) (\<lambda>existing.
     bindE (ensureE (case existing of None \<Rightarrow> True | Some e \<Rightarrow> same_identity e t)
       (ValueError ''Trial identity fields cannot change'')) (\<lambda>_.
     updE (\<lambda>s. s\<lparr>xr_trials := dset (xr_trials s) (tr_trial_id t) t\<rparr>)))"

definition repository_save_output :: "trial_record \<Rightarrow> trial_output \<Rightarrow> (experiment_repository, unit) eff" where
  "repository_save_output t out =
     bindE (ensureE (tr_trial_id t = out_trial_id out) (ValueError ''Trial record and output IDs differ'')) (\<lambda>_.
     bindE (repository_save_trial t) (\<lambda>_.
     bindE (readE (\<lambda>s. dget (xr_outputs s) (out_trial_id out))) (\<lambda>existing.
     bindE (ensureE (case existing of None \<Rightarrow> True | Some e \<Rightarrow> same_output e out)
       (ValueError ''A normalized trial output cannot be replaced'')) (\<lambda>_.
     updE (\<lambda>s. s\<lparr>xr_outputs := dset (xr_outputs s) (out_trial_id out) out\<rparr>)))))"

definition stored_trial :: "experiment_repository \<Rightarrow> uuid \<Rightarrow> trial_record res" where
  "stored_trial s i = of_option (KeyError i) (dget (xr_trials s) i)"

definition stored_output :: "experiment_repository \<Rightarrow> uuid \<Rightarrow> trial_output res" where
  "stored_output s i = of_option (KeyError i) (dget (xr_outputs s) i)"

definition stored_trials :: "experiment_repository \<Rightarrow> trial_record list" where
  "stored_trials s = map snd (sort_key fst (xr_trials s))"

section \<open>What saving does\<close>

lemma same_identity_refl [simp]: "same_identity t t"
  by (simp add: same_identity_def)

lemma same_identity_trans: "\<lbrakk>same_identity a b; same_identity b c\<rbrakk> \<Longrightarrow> same_identity a c"
  by (simp add: same_identity_def)

text \<open>A record can be saved when the stored one, if any, has the same identity.\<close>

definition accepts :: "experiment_repository \<Rightarrow> trial_record \<Rightarrow> bool" where
  "accepts s t \<longleftrightarrow> (\<forall>e. dget (xr_trials s) (tr_trial_id t) = Some e \<longrightarrow> same_identity e t)"

lemma save_trial_run:
  "repository_save_trial t s = (if accepts s t then (Inr (), s\<lparr>xr_trials := dset (xr_trials s) (tr_trial_id t) t\<rparr>)
     else (Inl (ValueError ''Trial identity fields cannot change''), s))"
  by (simp add: repository_save_trial_def accepts_def ensure_def split: option.split)

lemma accepts_saved:
  "\<lbrakk>same_identity e t; tr_trial_id t = tr_trial_id e; xr_trials s = dset d (tr_trial_id e) e\<rbrakk> \<Longrightarrow> accepts s t"
  by (simp add: accepts_def)

lemma save_output_run:
  assumes "accepts s t" and "tr_trial_id t = out_trial_id out"
  shows "repository_save_output t out s = (let s' = s\<lparr>xr_trials := dset (xr_trials s) (tr_trial_id t) t\<rparr> in
     if \<forall>e. dget (xr_outputs s) (out_trial_id out) = Some e \<longrightarrow> same_output e out
     then (Inr (), s'\<lparr>xr_outputs := dset (xr_outputs s) (out_trial_id out) out\<rparr>)
     else (Inl (ValueError ''A normalized trial output cannot be replaced''), s'))"
  using assms by (simp add: repository_save_output_def bindE_run save_trial_run Let_def ensure_def split: option.split)

end
