(* ===== verification/ExperimentTrials.thy ===== *)
theory ExperimentTrials
  imports ExperimentRepository "HOL-Library.Multiset"
begin

text \<open>
  Isolated trials: \<open>VerifierRegistry\<close> (\<open>experiments/verifiers.py\<close>), \<open>MetricEvaluator\<close>
  (\<open>experiments/metrics.py\<close>), the executor protocol with its reference implementation
  \<open>InMemoryBranchExecutor\<close> (\<open>experiments/executor.py\<close>) and \<open>TrialEngine\<close> (\<open>experiments/trial_engine.py\<close>).
  An executor is a record of methods over a state of its own; the repository is the in-memory one, whose methods may
  raise. The cancellation callback is part of the executor's behaviour, the sum of floats is a parameter.
\<close>

section \<open>Verifiers\<close>

type_synonym verifier = "event list \<Rightarrow> jdict \<Rightarrow> verifier_fact list res"

record verifier_registry =
  vr_verifiers :: "(string \<times> verifier) list"
  vr_latest :: "(string \<times> string) list"

definition register_verifier :: "string \<Rightarrow> verifier \<Rightarrow> string \<Rightarrow> (verifier_registry, string) eff" where
  "register_verifier n v version =
     (let reference = n @ ''@'' @ version
      in bindE (readE (\<lambda>r. dhas (vr_verifiers r) reference)) (\<lambda>there.
         bindE (ensureE (\<not> there) (ValueError (''Verifier already registered: '' @ reference))) (\<lambda>_.
         bindE (updE (\<lambda>r. r\<lparr>vr_verifiers := dset (vr_verifiers r) reference v,
           vr_latest := dset (vr_latest r) n reference\<rparr>)) (\<lambda>_.
         returnE reference))))"

definition find_verifier :: "verifier_registry \<Rightarrow> string \<Rightarrow> verifier res" where
  "find_verifier r requested =
     of_option (ValueError (''Unknown verifier: '' @ requested))
       (if CHR ''@'' \<in> set requested then dget (vr_verifiers r) requested
        else Option.bind (dget (vr_latest r) requested) (dget (vr_verifiers r)))"

definition verify_facts :: "verifier_registry \<Rightarrow> string list \<Rightarrow> event list \<Rightarrow> jdict \<Rightarrow> verifier_fact list res" where
  "verify_facts r names events final_state =
     foldR (\<lambda>facts n. bindR (find_verifier r n) (\<lambda>v. bindR (v events final_state) (\<lambda>emitted. Inr (facts @ emitted)))) [] names"

section \<open>Metrics\<close>

text \<open>\<open>statistics.mean\<close> of floats is the rounded exact mean.\<close>

definition float_mean :: "pylib \<Rightarrow> rat list \<Rightarrow> rat" where
  "float_mean L xs = fl L (sum_list xs / of_nat (length xs))"

definition reduce_metric :: "pylib \<Rightarrow> (rat list \<Rightarrow> rat) \<Rightarrow> metric_spec \<Rightarrow> jval list \<Rightarrow> jval res" where
  "reduce_metric L fsum m vs =
     (if vs = [] then
        (if mt_default m = JNull then Inl (ValueError (''Metric '' @ mt_name m @ '' has no '' @ mt_fact_type m @ '' facts and no default''))
         else Inr (mt_default m))
      else (case mt_reduction m of
          VALUE \<Rightarrow> if length vs \<noteq> 1
            then Inl (ValueError (''Metric '' @ mt_name m @ '' expected one fact, found '' @ int_str (int (length vs)))) else Inr (hd vs)
        | COUNT \<Rightarrow> Inr (JInt (int (length vs)))
        | ANY_OF \<Rightarrow> Inr (JBool (list_ex py_bool vs))
        | ALL_OF \<Rightarrow> Inr (JBool (list_all py_bool vs))
        | SUM_OF \<Rightarrow> bindR (mapR (py_float L) vs) (\<lambda>xs. Inr (JFloat (round6 L (fsum xs))))
        | MEAN \<Rightarrow> bindR (mapR (py_float L) vs) (\<lambda>xs. Inr (JFloat (round6 L (float_mean L xs))))))"

definition evaluate_metrics ::
  "pylib \<Rightarrow> (rat list \<Rightarrow> rat) \<Rightarrow> verifier_fact list \<Rightarrow> metric_spec list \<Rightarrow> jdict res" where
  "evaluate_metrics L fsum facts specs =
     bindR (ensure (distinct (map mt_name specs)) (ValueError ''Metric contract names must be unique'')) (\<lambda>_.
     mapR (\<lambda>m. bindR (reduce_metric L fsum m (map vf_value (filter (\<lambda>f. vf_fact_type f = mt_fact_type m) facts)))
       (\<lambda>v. Inr (mt_name m, v))) specs)"

section \<open>Executors\<close>

record 's executor =
  ex_canonical_hash :: "snapshot_reference \<Rightarrow> ('s, string) eff"
  ex_create_trial_branch :: "snapshot_reference \<Rightarrow> uuid \<Rightarrow> int \<Rightarrow> ('s, trial_branch) eff"
  ex_execute :: "scenario_definition \<Rightarrow> trial_branch \<Rightarrow> uuid option \<Rightarrow> int \<Rightarrow> jdict \<Rightarrow> ('s, trial_execution) eff"

text \<open>The reference executor: registered snapshots are frozen, a branch is a copy of one.\<close>

type_synonym trial_handler =
  "scenario_definition \<Rightarrow> trial_branch \<Rightarrow> jdict \<Rightarrow> uuid option \<Rightarrow> int \<Rightarrow> jdict \<Rightarrow> trial_execution res"

record memory_executor =
  me_snapshots :: "(uuid \<times> snapshot_reference \<times> jdict) list"
  me_branches :: "(uuid \<times> jdict) list"

definition register_snapshot :: "snapshot_reference \<Rightarrow> jdict \<Rightarrow> (memory_executor, unit) eff" where
  "register_snapshot s st =
     bindE (readE (\<lambda>m. dget (me_snapshots m) (snap_snapshot_id s))) (\<lambda>existing.
     bindE (ensureE (case existing of None \<Rightarrow> True | Some (s', st') \<Rightarrow> s' = s \<and> py_eq (JDict st') (JDict st))
       (ValueError ''An immutable snapshot cannot be replaced'')) (\<lambda>_.
     updE (\<lambda>m. m\<lparr>me_snapshots := dset (me_snapshots m) (snap_snapshot_id s) (s, st)\<rparr>)))"

definition registered_snapshot :: "snapshot_reference \<Rightarrow> (memory_executor, snapshot_reference \<times> jdict) eff" where
  "registered_snapshot s m =
     (bindR (of_option (KeyError (snap_snapshot_id s)) (dget (me_snapshots m) (snap_snapshot_id s))) (\<lambda>(registered, st).
      bindR (ensure (registered = s) (ValueError ''Snapshot reference does not match registered snapshot'')) (\<lambda>_.
      Inr (registered, st))), m)"

definition memory_hash :: "snapshot_reference \<Rightarrow> (memory_executor, string) eff" where
  "memory_hash s = bindE (registered_snapshot s) (\<lambda>(registered, _). returnE (snap_state_hash registered))"

definition branch_name :: "string \<Rightarrow> snapshot_reference \<Rightarrow> uuid \<Rightarrow> int \<Rightarrow> string" where
  "branch_name what s trial seed = ''tabletop-dm:trial-'' @ what @ '':'' @ snap_snapshot_id s @ '':'' @ trial @ '':'' @ int_str seed"

definition memory_branch :: "pylib \<Rightarrow> snapshot_reference \<Rightarrow> uuid \<Rightarrow> int \<Rightarrow> (memory_executor, trial_branch) eff" where
  "memory_branch L s trial seed =
     bindE (registered_snapshot s) (\<lambda>(_, st).
     let b = uuid5 L (branch_name ''branch'' s trial seed); rn = uuid5 L (branch_name ''run'' s trial seed)
     in bindE (updE (\<lambda>m. m\<lparr>me_branches := dset (me_branches m) b st\<rparr>)) (\<lambda>_.
        returnE \<lparr>tb_trial_id = trial, tb_world_id = snap_world_id s, tb_snapshot_id = snap_snapshot_id s,
          tb_branch_id = b, tb_run_id = rn, tb_seed = seed\<rparr>))"

definition memory_execute ::
  "trial_handler \<Rightarrow> scenario_definition \<Rightarrow> trial_branch \<Rightarrow> uuid option \<Rightarrow> int \<Rightarrow> jdict \<Rightarrow> (memory_executor, trial_execution) eff" where
  "memory_execute handler sx b persona seed cp m =
     (bindR (of_option (KeyError (''Unknown trial branch '' @ tb_branch_id b)) (dget (me_branches m) (tb_branch_id b))) (\<lambda>st.
        handler sx b st persona seed cp), m)"

definition memory_methods :: "pylib \<Rightarrow> trial_handler \<Rightarrow> memory_executor executor" where
  "memory_methods L handler = \<lparr>ex_canonical_hash = memory_hash, ex_create_trial_branch = memory_branch L,
     ex_execute = memory_execute handler\<rparr>"

section \<open>The engine\<close>

text \<open>\<open>try ... except Exception\<close>: the handler sees the exception and the state it left.\<close>

definition tryE :: "('s, 'a) eff \<Rightarrow> (pyerr \<Rightarrow> ('s, 'a) eff) \<Rightarrow> ('s, 'a) eff" where
  "tryE m h s = (case m s of (Inr x, s') \<Rightarrow> (Inr x, s') | (Inl e, s') \<Rightarrow> h e s')"

record 's trial_world =
  tw_executor :: 's
  tw_repository :: experiment_repository

definition on_executor :: "('s, 'a) eff \<Rightarrow> ('s trial_world, 'a) eff" where
  "on_executor m w = (let (r, s) = m (tw_executor w) in (r, w\<lparr>tw_executor := s\<rparr>))"

definition on_repository :: "(experiment_repository, 'a) eff \<Rightarrow> ('s trial_world, 'a) eff" where
  "on_repository m w = (let (r, s) = m (tw_repository w) in (r, w\<lparr>tw_repository := s\<rparr>))"

definition save_trial :: "trial_record \<Rightarrow> ('s trial_world, unit) eff" where
  "save_trial t = on_repository (repository_save_trial t)"

definition save_output :: "trial_record \<Rightarrow> trial_output \<Rightarrow> ('s trial_world, unit) eff" where
  "save_output t out = on_repository (repository_save_output t out)"

text \<open>\<open>type(exc).__name__\<close>; \<open>TrialIsolationError\<close> is a \<open>RuntimeError\<close> with a name of its own.\<close>

definition isolation_error :: "string \<Rightarrow> pyerr" where
  "isolation_error msg = RuntimeError (''TrialIsolationError: '' @ msg)"

fun error_name :: "pyerr \<Rightarrow> string" where
  "error_name (ValueError _) = ''ValueError''"
| "error_name (KeyError _) = ''KeyError''"
| "error_name (IndexError _) = ''IndexError''"
| "error_name (TypeError _) = ''TypeError''"
| "error_name (AttributeError _) = ''AttributeError''"
| "error_name (PermissionError _) = ''PermissionError''"
| "error_name (RuntimeError s) = (if starts_with ''TrialIsolationError: '' s then ''TrialIsolationError'' else ''RuntimeError'')"
| "error_name ValidationError = ''ValidationError''"
| "error_name (AuthorizationDenied _) = ''AuthorizationDenied''"
| "error_name (UnknownCommand _) = ''UnknownCommand''"
| "error_name (BranchIsolationError _) = ''BranchIsolationError''"
| "error_name (ReplayDivergence _) = ''ReplayDivergence''"
| "error_name (AuthenticationError _) = ''AuthenticationError''"
| "error_name StopIteration = ''StopIteration''"
| "error_name (FileNotFoundError _) = ''FileNotFoundError''"
| "error_name (OverflowError _) = ''OverflowError''"
| "error_name (FixedFieldFeasibilityError _) = ''FixedFieldFeasibilityError''"
| "error_name (InfeasibleStratumError _) = ''InfeasibleStratumError''"

record trial_engine =
  te_verifiers :: verifier_registry
  te_contract :: "jdict \<Rightarrow> metric_spec list res"      \<comment> \<open>\<open>MetricContract.model_validate\<close>\<close>
  te_sum :: "rat list \<Rightarrow> rat"

definition trial_identity :: "pylib \<Rightarrow> scenario_definition \<Rightarrow> snapshot_reference \<Rightarrow> uuid option \<Rightarrow> int \<Rightarrow> int \<Rightarrow> uuid" where
  "trial_identity L sx s persona seed attempt = uuid5 L (''tabletop-dm:generic-trial:'' @ sx_scenario_id sx @ '':'' @
     sx_version sx @ '':'' @ snap_snapshot_id s @ '':'' @ (case persona of None \<Rightarrow> ''None'' | Some p \<Rightarrow> p) @ '':'' @
     int_str seed @ '':'' @ int_str attempt)"

definition running_record ::
  "scenario_definition \<Rightarrow> snapshot_reference \<Rightarrow> trial_branch \<Rightarrow> uuid \<Rightarrow> uuid option \<Rightarrow> string option \<Rightarrow> int \<Rightarrow> int \<Rightarrow>
     jdict \<Rightarrow> trial_record" where
  "running_record sx s b trial persona version seed attempt cp = \<lparr>tr_trial_id = trial, tr_scenario_id = sx_scenario_id sx,
     tr_scenario_version = sx_version sx, tr_persona_id = persona, tr_persona_version = version,
     tr_world_id = snap_world_id s, tr_snapshot_id = snap_snapshot_id s, tr_branch_id = tb_branch_id b,
     tr_run_id = tb_run_id b, tr_seed = seed, tr_status = ''RUNNING'', tr_attempt = attempt, tr_checkpoint = cp,
     tr_failure_code = None\<rparr>"

definition terminal_status :: "string \<Rightarrow> string" where
  "terminal_status st = (if st = ''CANCELLED'' then ''CANCELLED'' else if st = ''FAILED'' then ''FAILED'' else ''COMPLETED'')"

definition trial_output_of ::
  "uuid \<Rightarrow> uuid option \<Rightarrow> int \<Rightarrow> string \<Rightarrow> string \<Rightarrow> trial_branch \<Rightarrow> trial_execution \<Rightarrow> verifier_fact list \<Rightarrow> jdict \<Rightarrow> trial_output" where
  "trial_output_of trial persona seed before after b x facts evaluated = \<lparr>out_trial_id = trial, out_persona_id = persona,
     out_seed = seed, out_status = tx_status x, out_steps = tx_steps x, out_canonical_hash_before = before,
     out_canonical_hash_after = after, out_trial_state_hash = tx_trial_state_hash x, out_traces = tx_traces x,
     out_events = tx_events x, out_facts = facts, out_metrics = dupdate (tx_metrics x) evaluated,
     out_branch_id = Some (tb_branch_id b), out_run_id = Some (tb_run_id b), out_artifact_uris = tx_artifact_uris x,
     out_failure_code = tx_failure_code x\<rparr>"

definition trial_results ::
  "pylib \<Rightarrow> trial_engine \<Rightarrow> 's executor \<Rightarrow> scenario_definition \<Rightarrow> snapshot_reference \<Rightarrow> string \<Rightarrow> trial_branch \<Rightarrow>
     trial_record \<Rightarrow> ('s trial_world, trial_execution \<times> string \<times> verifier_fact list \<times> jdict) eff" where
  "trial_results L en x sx s before b running =
     bindE (on_executor (ex_execute x sx b (tr_persona_id running) (tr_seed running) (tr_checkpoint running))) (\<lambda>ex.
     bindE (on_executor (ex_canonical_hash x s)) (\<lambda>after.
     bindE (ensureE (after = before) (isolation_error ''Trial executor changed the canonical snapshot state hash'')) (\<lambda>_.
     bindE (liftE (verify_facts (te_verifiers en) (sx_verifier_versions sx) (tx_events ex) (tx_final_state ex))) (\<lambda>facts.
     bindE (liftE (te_contract en (sx_metric_contract sx))) (\<lambda>specs.
     bindE (liftE (evaluate_metrics L (te_sum en) facts specs)) (\<lambda>evaluated.
     returnE (ex, after, facts, evaluated)))))))"

definition closed_record :: "trial_record \<Rightarrow> trial_execution \<Rightarrow> trial_record" where
  "closed_record running ex = running\<lparr>tr_status := terminal_status (tx_status ex), tr_checkpoint := tx_checkpoint ex,
     tr_failure_code := tx_failure_code ex\<rparr>"

definition carry_out_trial ::
  "pylib \<Rightarrow> trial_engine \<Rightarrow> 's executor \<Rightarrow> scenario_definition \<Rightarrow> snapshot_reference \<Rightarrow> string \<Rightarrow> trial_branch \<Rightarrow>
     trial_record \<Rightarrow> ('s trial_world, trial_output) eff" where
  "carry_out_trial L en x sx s before b running =
     bindE (trial_results L en x sx s before b running) (\<lambda>(ex, after, facts, evaluated).
     let out = trial_output_of (tr_trial_id running) (tr_persona_id running) (tr_seed running) before after b ex facts evaluated
     in bindE (save_output (closed_record running ex) out) (\<lambda>_. returnE out))"

definition probe_isolation :: "'s executor \<Rightarrow> snapshot_reference \<Rightarrow> string \<Rightarrow> ('s trial_world, pyerr option) eff" where
  "probe_isolation x s before =
     tryE (bindE (on_executor (ex_canonical_hash x s)) (\<lambda>h.
         returnE (if h \<noteq> before then Some (isolation_error ''Trial executor changed canonical state while failing'') else None)))
       (\<lambda>_. returnE (Some (isolation_error ''Canonical state could not be verified after trial failure'')))"

definition after_failure ::
  "'s executor \<Rightarrow> snapshot_reference \<Rightarrow> string \<Rightarrow> trial_record \<Rightarrow> pyerr \<Rightarrow> ('s trial_world, trial_output) eff" where
  "after_failure x s before running e =
     bindE (probe_isolation x s before) (\<lambda>isolation.
     let final = (case isolation of None \<Rightarrow> e | Some f \<Rightarrow> f)
     in bindE (save_trial (running\<lparr>tr_status := ''FAILED'', tr_failure_code := Some (error_name final)\<rparr>)) (\<lambda>_.
        raiseE final))"

definition start_trial ::
  "'s executor \<Rightarrow> scenario_definition \<Rightarrow> snapshot_reference \<Rightarrow> uuid \<Rightarrow> uuid option \<Rightarrow> string option \<Rightarrow>
     int \<Rightarrow> int \<Rightarrow> ('s trial_world, string \<times> trial_branch) eff" where
  "start_trial x sx s trial persona version seed attempt =
     bindE (ensureE (case sx_base_snapshot_id sx of None \<Rightarrow> True | Some i \<Rightarrow> i = snap_snapshot_id s)
       (ValueError ''Scenario base snapshot does not match executor snapshot'')) (\<lambda>_.
     bindE (ensureE ((persona = None) = (version = None)) (ValueError ''persona_id and persona_version must be supplied together'')) (\<lambda>_.
     bindE (ensureE (\<not> attempt < 1) (ValueError ''attempt must be positive'')) (\<lambda>_.
     bindE (on_executor (ex_canonical_hash x s)) (\<lambda>before.
     bindE (on_executor (ex_create_trial_branch x s trial seed)) (\<lambda>b. returnE (before, b))))))"

definition run_trial ::
  "pylib \<Rightarrow> trial_engine \<Rightarrow> 's executor \<Rightarrow> scenario_definition \<Rightarrow> snapshot_reference \<Rightarrow> uuid option \<Rightarrow> string option \<Rightarrow>
     int \<Rightarrow> int \<Rightarrow> jdict \<Rightarrow> ('s trial_world, trial_output) eff" where
  "run_trial L en x sx s persona version seed attempt cp =
     (let trial = trial_identity L sx s persona seed attempt
      in bindE (start_trial x sx s trial persona version seed attempt) (\<lambda>(before, b).
         let running = running_record sx s b trial persona version seed attempt cp
         in bindE (save_trial running) (\<lambda>_.
            tryE (carry_out_trial L en x sx s before b running) (after_failure x s before running))))"

section \<open>How a trial ends\<close>

lemma on_executor_run: "on_executor m w = (fst (m (tw_executor w)), w\<lparr>tw_executor := snd (m (tw_executor w))\<rparr>)"
  by (simp add: on_executor_def Let_def case_prod_unfold)

lemma on_repository_run: "on_repository m w = (fst (m (tw_repository w)), w\<lparr>tw_repository := snd (m (tw_repository w))\<rparr>)"
  by (simp add: on_repository_def Let_def case_prod_unfold)

text \<open>A computation that leaves the repository alone.\<close>

definition quiet :: "('s trial_world, 'a) eff \<Rightarrow> bool" where
  "quiet m \<longleftrightarrow> (\<forall>w. tw_repository (snd (m w)) = tw_repository w)"

lemma quiet_steps [simp, intro]:
  "quiet (on_executor f)" "quiet (liftE r)" "quiet (ensureE b e)" "quiet (returnE x)" "quiet (raiseE e)"
  by (simp_all add: quiet_def on_executor_run)

lemma quietD: "quiet m \<Longrightarrow> m w = (r, w') \<Longrightarrow> tw_repository w' = tw_repository w"
  by (metis quiet_def snd_conv)

lemma quietI: "(\<And>w r w'. m w = (r, w') \<Longrightarrow> tw_repository w' = tw_repository w) \<Longrightarrow> quiet m"
  by (metis quiet_def surjective_pairing)

lemma quiet_bindE [intro]:
  assumes m: "quiet m" and f: "\<And>x. quiet (f x)"
  shows "quiet (bindE m f)"
proof (rule quietI)
  fix w r w' assume run: "bindE m f w = (r, w')"
  obtain q w1 where q: "m w = (q, w1)" by (cases "m w")
  with run quietD [OF m q] quietD [OF f] show "tw_repository w' = tw_repository w"
    by (cases q) (auto simp: bindE_def)
qed

lemma quiet_tryE [intro]:
  assumes m: "quiet m" and h: "\<And>e. quiet (h e)"
  shows "quiet (tryE m h)"
proof (rule quietI)
  fix w r w' assume run: "tryE m h w = (r, w')"
  obtain q w1 where q: "m w = (q, w1)" by (cases "m w")
  with run quietD [OF m q] quietD [OF h] show "tw_repository w' = tw_repository w"
    by (cases q) (auto simp: tryE_def)
qed

lemma quiet_results: "quiet (trial_results L en x sx s before b running)"
  unfolding trial_results_def by (intro quiet_bindE quiet_steps)

lemma quiet_probe: "quiet (probe_isolation x s before)"
  unfolding probe_isolation_def by (intro quiet_bindE quiet_tryE quiet_steps)

lemma quiet_start: "quiet (start_trial x sx s trial persona version seed attempt)"
  unfolding start_trial_def by (intro quiet_bindE quiet_steps)

lemma results_isolated:
  "trial_results L en x sx s before b running w = (Inr (ex, after, facts, evaluated), w') \<Longrightarrow> after = before"
  by (auto simp: trial_results_def bindE_eq_Inr split: if_splits)

text \<open>Once the running record is stored, a body that raises leaves the trial under the same identity, and the outputs alone.\<close>

definition trial_stored :: "trial_record \<Rightarrow> experiment_repository \<Rightarrow> experiment_repository \<Rightarrow> bool" where
  "trial_stored t s s' \<longleftrightarrow> (\<exists>e. same_identity e t \<and> tr_trial_id e = tr_trial_id t \<and>
     s' = s\<lparr>xr_trials := dset (xr_trials s) (tr_trial_id t) e\<rparr>)"

lemma closed_identity [simp]:
  "same_identity running (closed_record running ex)" "same_identity (closed_record running ex) running"
  "tr_trial_id (closed_record running ex) = tr_trial_id running"
  by (simp_all add: closed_record_def same_identity_def)

lemma carry_out_saves:
  assumes "trial_results L en x sx s before b running w = (Inr (ex, after, facts, evaluated), w1)"
    and "out = trial_output_of (tr_trial_id running) (tr_persona_id running) (tr_seed running) before after b ex facts evaluated"
    and "repository_save_output (closed_record running ex) out (tw_repository w1) = (res, R)"
  shows "carry_out_trial L en x sx s before b running w = (bindR res (\<lambda>_. Inr out), w1\<lparr>tw_repository := R\<rparr>)"
  using assms
  by (cases res) (simp_all add: carry_out_trial_def bindE_def Let_def save_output_def on_repository_run)

lemma carry_out_cases:
  assumes "carry_out_trial L en x sx s before b running w = (r, w')"
    and stored: "tw_repository w = R\<lparr>xr_trials := dset (xr_trials R) (tr_trial_id running) running\<rparr>"
  shows "(\<exists>e. r = Inl e \<and> trial_stored running R (tw_repository w')) \<or>
    (\<exists>out ex. r = Inr out \<and> out_canonical_hash_before out = before \<and> out_canonical_hash_after out = before \<and>
       out_status out = tx_status ex \<and> (\<forall>old. dget (xr_outputs R) (tr_trial_id running) = Some old \<longrightarrow> same_output old out) \<and>
       tw_repository w' = R\<lparr>xr_trials := dset (xr_trials R) (tr_trial_id running) (closed_record running ex),
         xr_outputs := dset (xr_outputs R) (tr_trial_id running) out\<rparr>)"
proof -
  obtain q w1 where q: "trial_results L en x sx s before b running w = (q, w1)"
    by (cases "trial_results L en x sx s before b running w")
  note same = quietD [OF quiet_results q]
  show ?thesis
  proof (cases q)
    case (Inl e)
    have "trial_stored running R (tw_repository w1)" unfolding trial_stored_def same stored
      by (intro exI [of _ running]) simp
    with assms q Inl show ?thesis by (auto simp: carry_out_trial_def bindE_run)
  next
    case (Inr p)
    obtain ex after facts evaluated where p: "p = (ex, after, facts, evaluated)" by (cases p)
    with q Inr have after: "after = before" by (simp add: results_isolated)
    let ?out = "trial_output_of (tr_trial_id running) (tr_persona_id running) (tr_seed running) before after b ex facts evaluated"
    let ?closed = "closed_record running ex"
    have out: "out_trial_id ?out = tr_trial_id running" by (simp add: trial_output_of_def)
    have w1: "tw_repository w1 = R\<lparr>xr_trials := dset (xr_trials R) (tr_trial_id running) running\<rparr>" using same stored by simp
    then have ok: "accepts (tw_repository w1) ?closed" by (intro accepts_saved [of running]) simp_all
    obtain res R' where save: "repository_save_output ?closed ?out (tw_repository w1) = (res, R')"
      by (cases "repository_save_output ?closed ?out (tw_repository w1)")
    have run: "r = bindR res (\<lambda>_. Inr ?out)" "tw_repository w' = R'"
      using carry_out_saves [OF q [unfolded Inr p] refl save] assms(1) by simp_all
    show ?thesis
    proof (cases "\<forall>e. dget (xr_outputs R) (tr_trial_id running) = Some e \<longrightarrow> same_output e ?out")
      case True
      then have "r = Inr ?out" "tw_repository w' = R\<lparr>xr_trials := dset (xr_trials R) (tr_trial_id running) ?closed,
          xr_outputs := dset (xr_outputs R) (tr_trial_id running) ?out\<rparr>"
        using run save save_output_run [OF ok, of ?out] out by (auto simp: Let_def w1)
      then show ?thesis using True after by (intro disjI2 exI [of _ ?out] exI [of _ ex]) (simp add: trial_output_of_def)
    next
      case False
      then have "\<exists>e. r = Inl e" "tw_repository w' = R\<lparr>xr_trials := dset (xr_trials R) (tr_trial_id running) ?closed\<rparr>"
        using run save save_output_run [OF ok, of ?out] out by (auto simp: Let_def w1)
      then show ?thesis unfolding trial_stored_def by (intro disjI1) (auto intro!: exI [of _ ?closed])
    qed
  qed
qed

lemma probe_returns: "\<exists>isolation w'. probe_isolation x s before w = (Inr isolation, w')"
proof (cases "fst (ex_canonical_hash x s (tw_executor w))")
  case (Inl e)
  then show ?thesis by (simp add: probe_isolation_def tryE_def bindE_def on_executor_run)
next
  case (Inr h)
  then show ?thesis by (simp add: probe_isolation_def tryE_def bindE_def on_executor_run)
qed

lemma after_failure_cases:
  assumes "after_failure x s before running e w = (r, w')" and "trial_stored running R (tw_repository w)"
  shows "\<exists>final. r = Inl final \<and> tw_repository w' = R\<lparr>xr_trials := dset (xr_trials R) (tr_trial_id running)
    (running\<lparr>tr_status := ''FAILED'', tr_failure_code := Some (error_name final)\<rparr>)\<rparr>"
proof -
  obtain isolation w1 where probe: "probe_isolation x s before w = (Inr isolation, w1)" using probe_returns by blast
  have w1: "tw_repository w1 = tw_repository w" using quietD [OF quiet_probe probe] .
  obtain t where t: "same_identity t running" "tr_trial_id t = tr_trial_id running"
    "tw_repository w = R\<lparr>xr_trials := dset (xr_trials R) (tr_trial_id running) t\<rparr>"
    using assms(2) unfolding trial_stored_def by blast
  let ?final = "case isolation of None \<Rightarrow> e | Some f \<Rightarrow> f"
  let ?failed = "running\<lparr>tr_status := ''FAILED'', tr_failure_code := Some (error_name ?final)\<rparr>"
  have "same_identity t ?failed" using t(1) by (simp add: same_identity_def)
  then have "accepts (tw_repository w1) ?failed" using t by (intro accepts_saved [of t]) (simp_all add: w1)
  then have "r = Inl ?final \<and> tw_repository w' = R\<lparr>xr_trials := dset (xr_trials R) (tr_trial_id running) ?failed\<rparr>"
    using assms(1) probe t
    by (auto simp: after_failure_def bindE_run save_trial_def on_repository_run save_trial_run Let_def w1)
  then show ?thesis by blast
qed

text \<open>
  C29. No trial is left running: with the in-memory repository, a run either raises and has recorded nothing, because it could
  not be started or the repository refused its record, or the record it leaves for the trial has a terminal
  status, also when the output was refused after the trial had been stored as completed. An output is only
  returned, and then also stored, when the canonical state has the same hash before and after and no different output
  was stored before; when the run raises, the record is \<open>FAILED\<close> and carries the name of the exception, and the
  stored outputs are unchanged.
\<close>

theorem no_trial_is_left_running:
  assumes "run_trial L en x sx s persona version seed attempt cp w = (r, w')"
  shows "(tw_repository w' = tw_repository w \<and> (\<exists>e. r = Inl e)) \<or>
    (\<exists>final outs. tr_trial_id final = trial_identity L sx s persona seed attempt \<and>
       tw_repository w' = (tw_repository w)\<lparr>xr_trials := dset (xr_trials (tw_repository w)) (tr_trial_id final) final,
         xr_outputs := outs\<rparr> \<and>
       tr_status final \<in> {''COMPLETED'', ''FAILED'', ''CANCELLED''} \<and>
       (\<forall>out. r = Inr out \<longrightarrow> out_canonical_hash_after out = out_canonical_hash_before out \<and>
          tr_status final = terminal_status (out_status out) \<and>
          outs = dset (xr_outputs (tw_repository w)) (tr_trial_id final) out \<and>
          (\<forall>old. dget (xr_outputs (tw_repository w)) (tr_trial_id final) = Some old \<longrightarrow> same_output old out)) \<and>
       (\<forall>e. r = Inl e \<longrightarrow> tr_status final = ''FAILED'' \<and> tr_failure_code final = Some (error_name e) \<and>
          outs = xr_outputs (tw_repository w)))"
proof -
  let ?trial = "trial_identity L sx s persona seed attempt" and ?R = "tw_repository w"
  obtain q w1 where q: "start_trial x sx s ?trial persona version seed attempt w = (q, w1)"
    by (cases "start_trial x sx s ?trial persona version seed attempt w")
  note same = quietD [OF quiet_start q]
  show ?thesis
  proof (cases q)
    case (Inl e)
    with assms q same show ?thesis by (auto simp: run_trial_def bindE_run Let_def)
  next
    case (Inr p)
    obtain before b where p: "p = (before, b)" by (cases p)
    let ?running = "running_record sx s b ?trial persona version seed attempt cp"
    have i: "tr_trial_id ?running = ?trial" by (simp add: running_record_def)
    show ?thesis
    proof (cases "accepts ?R ?running")
      case False
      then show ?thesis using assms q Inr p same
        by (auto simp: run_trial_def bindE_run save_trial_def on_repository_run save_trial_run Let_def)
    next
      case True
      let ?w2 = "w1\<lparr>tw_repository := ?R\<lparr>xr_trials := dset (xr_trials ?R) ?trial ?running\<rparr>\<rparr>"
      have rest: "tryE (carry_out_trial L en x sx s before b ?running) (after_failure x s before ?running) ?w2 = (r, w')"
        using assms q Inr p True i same
        by (simp add: run_trial_def bindE_run save_trial_def on_repository_run save_trial_run Let_def)
      obtain r1 w3 where body: "carry_out_trial L en x sx s before b ?running ?w2 = (r1, w3)"
        by (cases "carry_out_trial L en x sx s before b ?running ?w2")
      have stored: "tw_repository ?w2 = ?R\<lparr>xr_trials := dset (xr_trials ?R) (tr_trial_id ?running) ?running\<rparr>"
        by (simp add: i)
      note cases = carry_out_cases [OF body stored]
      show ?thesis
      proof (cases r1)
        case (Inl e)
        with cases have w3: "trial_stored ?running ?R (tw_repository w3)" by auto
        from rest body Inl have "after_failure x s before ?running e w3 = (r, w')" by (simp add: tryE_def)
        from after_failure_cases [OF this w3] obtain final where "r = Inl final"
          "tw_repository w' = ?R\<lparr>xr_trials := dset (xr_trials ?R) ?trial
            (?running\<lparr>tr_status := ''FAILED'', tr_failure_code := Some (error_name final)\<rparr>)\<rparr>" unfolding i by blast
        then show ?thesis
          by (intro disjI2 exI [of _ "?running\<lparr>tr_status := ''FAILED'', tr_failure_code := Some (error_name final)\<rparr>"]
            exI [of _ "xr_outputs ?R"]) (simp add: i)
      next
        case (Inr out)
        with rest body have r: "r = Inr out" and w3: "w' = w3" by (simp_all add: tryE_def)
        from cases Inr obtain ex where
          "out_canonical_hash_before out = before" "out_canonical_hash_after out = before" "out_status out = tx_status ex"
          "\<forall>old. dget (xr_outputs ?R) ?trial = Some old \<longrightarrow> same_output old out"
          "tw_repository w3 = ?R\<lparr>xr_trials := dset (xr_trials ?R) ?trial (closed_record ?running ex),
            xr_outputs := dset (xr_outputs ?R) ?trial out\<rparr>" unfolding i by blast
        then show ?thesis using r w3
          by (intro disjI2 exI [of _ "closed_record ?running ex"] exI [of _ "dset (xr_outputs ?R) ?trial out"])
            (simp add: i closed_record_def terminal_status_def)
      qed
    qed
  qed
qed

section \<open>What an isolated executor promises\<close>

text \<open>
  Reading the canonical hash changes nothing, and in a state that is ready for trials neither creating a branch nor
  executing on one changes what is read. The engine's run then is what the handler and the verifiers make of the branch.
\<close>

locale isolated_executor =
  fixes x :: "'s executor" and ready :: "'s \<Rightarrow> bool"
  assumes hash_reads: "snd (ex_canonical_hash x s st) = st"
    and branch_ready: "ready st \<Longrightarrow> ready (snd (ex_create_trial_branch x s trial seed st))"
    and execute_ready: "ready st \<Longrightarrow> ready (snd (ex_execute x sx b persona seed cp st))"
    and branch_keeps: "ready st \<Longrightarrow> fst (ex_canonical_hash x s st) = Inr h \<Longrightarrow>
      fst (ex_canonical_hash x s (snd (ex_create_trial_branch x s' trial seed st))) = Inr h"
    and execute_keeps: "ready st \<Longrightarrow> fst (ex_canonical_hash x s st) = Inr h \<Longrightarrow>
      fst (ex_canonical_hash x s (snd (ex_execute x sx b persona seed cp st))) = Inr h"
begin

lemma hash_run: "fst (ex_canonical_hash x s st) = Inr h \<Longrightarrow> ex_canonical_hash x s st = (Inr h, st)"
  using hash_reads [of s st] by (metis prod.collapse)

lemma failure_keeps_error:
  assumes "fst (ex_canonical_hash x s (tw_executor w)) = Inr before" and "trial_stored running R (tw_repository w)"
  shows "fst (after_failure x s before running e w) = Inl e"
proof -
  obtain t where t: "same_identity t running" "tr_trial_id t = tr_trial_id running"
    "tw_repository w = R\<lparr>xr_trials := dset (xr_trials R) (tr_trial_id running) t\<rparr>"
    using assms(2) unfolding trial_stored_def by blast
  let ?failed = "running\<lparr>tr_status := ''FAILED'', tr_failure_code := Some (error_name e)\<rparr>"
  have "same_identity t ?failed" using t(1) by (simp add: same_identity_def)
  then have "accepts (tw_repository w) ?failed" using t by (intro accepts_saved [of t]) simp_all
  then show ?thesis
    using hash_run [OF assms(1)]
    by (simp add: after_failure_def probe_isolation_def tryE_def bindE_def on_executor_run save_trial_def
      on_repository_run save_trial_run Let_def)
qed

lemma run_outcome:
  assumes checks: "case sx_base_snapshot_id sx of None \<Rightarrow> True | Some i \<Rightarrow> i = snap_snapshot_id s"
      "(persona = None) = (version = None)" "1 \<le> attempt"
    and ready: "ready (tw_executor w)"
    and h: "fst (ex_canonical_hash x s (tw_executor w)) = Inr h"
    and b: "ex_create_trial_branch x s (trial_identity L sx s persona seed attempt) seed (tw_executor w) = (Inr b, st)"
    and new: "\<not> dhas (xr_trials (tw_repository w)) (trial_identity L sx s persona seed attempt)"
      "\<not> dhas (xr_outputs (tw_repository w)) (trial_identity L sx s persona seed attempt)"
  shows "fst (run_trial L en x sx s persona version seed attempt cp w) =
    bindR (fst (ex_execute x sx b persona seed cp st)) (\<lambda>ex.
    bindR (verify_facts (te_verifiers en) (sx_verifier_versions sx) (tx_events ex) (tx_final_state ex)) (\<lambda>facts.
    bindR (te_contract en (sx_metric_contract sx)) (\<lambda>specs.
    bindR (evaluate_metrics L (te_sum en) facts specs) (\<lambda>evaluated.
    Inr (trial_output_of (trial_identity L sx s persona seed attempt) persona seed h h b ex facts evaluated)))))"
proof -
  let ?trial = "trial_identity L sx s persona seed attempt"
  let ?running = "running_record sx s b ?trial persona version seed attempt cp"
  let ?R = "tw_repository w"
  let ?w = "w\<lparr>tw_executor := st, tw_repository := ?R\<lparr>xr_trials := dset (xr_trials ?R) ?trial ?running\<rparr>\<rparr>"
  have i: "tr_trial_id ?running = ?trial" by (simp add: running_record_def)
  have ok: "accepts ?R ?running" using new(1) by (simp add: accepts_def i dhas_def)
  obtain er st' where ex: "ex_execute x sx b persona seed cp st = (er, st')"
    by (cases "ex_execute x sx b persona seed cp st")
  let ?w' = "?w\<lparr>tw_executor := st'\<rparr>"
  have h1: "fst (ex_canonical_hash x s st) = Inr h" using branch_keeps [OF ready h, of s ?trial seed] b by simp
  have ready1: "ready st" using branch_ready [OF ready, of s ?trial seed] b by simp
  have h2: "fst (ex_canonical_hash x s st') = Inr h" using execute_keeps [OF ready1 h1, of sx b persona seed cp] ex by simp
  have start: "start_trial x sx s ?trial persona version seed attempt w = (Inr (h, b), w\<lparr>tw_executor := st\<rparr>)"
    using checks b hash_run [OF h] by (simp add: start_trial_def bindE_def on_executor_run ensureE_def ensure_def)
  have results: "trial_results L en x sx s h b ?running ?w =
      (bindR er (\<lambda>ex. bindR (verify_facts (te_verifiers en) (sx_verifier_versions sx) (tx_events ex) (tx_final_state ex)) (\<lambda>facts.
       bindR (te_contract en (sx_metric_contract sx)) (\<lambda>specs. bindR (evaluate_metrics L (te_sum en) facts specs) (\<lambda>evaluated.
       Inr (ex, h, facts, evaluated))))), ?w')"
    using ex hash_run [OF h2]
    by (auto simp: trial_results_def bindE_def bindR_def on_executor_run ensure_def ensureE_def running_record_def
      liftE_def returnE_def split: sum.splits)
  have "fst (run_trial L en x sx s persona version seed attempt cp w) =
      fst (tryE (carry_out_trial L en x sx s h b ?running) (after_failure x s h ?running) ?w)"
    using ok by (simp add: run_trial_def bindE_run start save_trial_def on_repository_run save_trial_run Let_def i)
  also have "\<dots> = bindR (fst (trial_results L en x sx s h b ?running ?w)) (\<lambda>(ex, after, facts, evaluated).
      Inr (trial_output_of ?trial persona seed h after b ex facts evaluated))"
  proof (cases "fst (trial_results L en x sx s h b ?running ?w)")
    case (Inl e)
    then have run: "trial_results L en x sx s h b ?running ?w = (Inl e, ?w')" using results by simp
    have "trial_stored ?running ?R (tw_repository ?w')"
      unfolding trial_stored_def by (intro exI [of _ ?running]) (simp add: i)
    then show ?thesis using failure_keeps_error [of s ?w' h ?running ?R e] h2 run
      by (simp add: tryE_def carry_out_trial_def bindE_run)
  next
    case (Inr p)
    obtain ex after facts evaluated where p: "p = (ex, after, facts, evaluated)" by (cases p)
    have run: "trial_results L en x sx s h b ?running ?w = (Inr p, ?w')" using results Inr by simp
    let ?out = "trial_output_of ?trial persona seed h after b ex facts evaluated"
    have "accepts (tw_repository ?w') (closed_record ?running ex)" by (intro accepts_saved [of ?running]) (simp_all add: i)
    moreover have "dget (xr_outputs ?R) ?trial = None" using new(2) by (simp add: dhas_def)
    moreover have "out_trial_id ?out = ?trial" by (simp add: trial_output_of_def)
    ultimately have save: "fst (repository_save_output (closed_record ?running ex) ?out (tw_repository ?w')) = Inr ()"
      using save_output_run [of "tw_repository ?w'" "closed_record ?running ex" ?out] by (simp add: i Let_def)
    have fields: "tr_persona_id ?running = persona" "tr_seed ?running = seed" by (simp_all add: running_record_def)
    have "fst (carry_out_trial L en x sx s h b ?running ?w) = Inr ?out"
      using carry_out_saves [OF run [unfolded p] _ prod.collapse [symmetric], of ?out] save by (simp add: i fields)
    then obtain w2 where "carry_out_trial L en x sx s h b ?running ?w = (Inr ?out, w2)" by (metis prod.collapse)
    then show ?thesis by (simp add: tryE_def run p)
  qed
  also have "\<dots> = bindR er (\<lambda>ex. bindR (verify_facts (te_verifiers en) (sx_verifier_versions sx) (tx_events ex) (tx_final_state ex)) (\<lambda>facts.
       bindR (te_contract en (sx_metric_contract sx)) (\<lambda>specs. bindR (evaluate_metrics L (te_sum en) facts specs) (\<lambda>evaluated.
       Inr (trial_output_of ?trial persona seed h h b ex facts evaluated)))))"
    unfolding results by (simp add: bindR_def split: sum.splits)
  finally show ?thesis using ex by simp
qed

end

section \<open>The reference executor is isolated\<close>

lemma memory_hash_reads: "snd (memory_hash s m) = m"
  by (simp add: memory_hash_def registered_snapshot_def bindE_def split: sum.splits prod.splits)

lemma memory_branch_snapshots: "me_snapshots (snd (memory_branch L s trial seed m)) = me_snapshots m"
  by (simp add: memory_branch_def registered_snapshot_def bindE_def Let_def split: sum.splits prod.splits)

lemma memory_execute_same: "snd (memory_execute handler sx b persona seed cp m) = m"
  by (simp add: memory_execute_def)

lemma memory_hash_cong: "me_snapshots m' = me_snapshots m \<Longrightarrow> fst (memory_hash s m') = fst (memory_hash s m)"
  by (simp add: memory_hash_def registered_snapshot_def bindE_def split: sum.splits prod.splits)

interpretation mem: isolated_executor "memory_methods L handler" "\<lambda>_. True" for L handler
proof unfold_locales
  show "snd (ex_canonical_hash (memory_methods L handler) s st) = st" for s st
    by (simp add: memory_methods_def memory_hash_reads)
  show "fst (ex_canonical_hash (memory_methods L handler) s
      (snd (ex_create_trial_branch (memory_methods L handler) s' trial seed st))) = Inr h"
    if "fst (ex_canonical_hash (memory_methods L handler) s st) = Inr h" for s st h s' trial seed
    using that memory_hash_cong [OF memory_branch_snapshots] by (simp add: memory_methods_def)
  show "fst (ex_canonical_hash (memory_methods L handler) s
      (snd (ex_execute (memory_methods L handler) sx b persona seed cp st))) = Inr h"
    if "fst (ex_canonical_hash (memory_methods L handler) s st) = Inr h" for s st h sx b persona seed cp
    using that by (simp add: memory_methods_def memory_execute_same)
qed simp_all

definition reference_branch :: "pylib \<Rightarrow> snapshot_reference \<Rightarrow> uuid \<Rightarrow> int \<Rightarrow> trial_branch" where
  "reference_branch L s trial seed = \<lparr>tb_trial_id = trial, tb_world_id = snap_world_id s, tb_snapshot_id = snap_snapshot_id s,
     tb_branch_id = uuid5 L (branch_name ''branch'' s trial seed), tb_run_id = uuid5 L (branch_name ''run'' s trial seed),
     tb_seed = seed\<rparr>"

text \<open>
  A new trial on the reference executor computes exactly what its handler, the verifiers and the metrics make of a
  copy of the registered snapshot: its outcome, output or exception, depends on nothing that earlier
  trials left behind, and it is never reported as a breach of isolation.
\<close>

theorem reference_trial_outcome:
  assumes "case sx_base_snapshot_id sx of None \<Rightarrow> True | Some i \<Rightarrow> i = snap_snapshot_id s"
    and "(persona = None) = (version = None)" and "1 \<le> attempt"
    and "dget (me_snapshots (tw_executor w)) (snap_snapshot_id s) = Some (s, st)"
    and "\<not> dhas (xr_trials (tw_repository w)) (trial_identity L sx s persona seed attempt)"
    and "\<not> dhas (xr_outputs (tw_repository w)) (trial_identity L sx s persona seed attempt)"
  shows "fst (run_trial L en (memory_methods L handler) sx s persona version seed attempt cp w) =
    (let trial = trial_identity L sx s persona seed attempt; b = reference_branch L s trial seed
     in bindR (handler sx b st persona seed cp) (\<lambda>ex.
        bindR (verify_facts (te_verifiers en) (sx_verifier_versions sx) (tx_events ex) (tx_final_state ex)) (\<lambda>facts.
        bindR (te_contract en (sx_metric_contract sx)) (\<lambda>specs.
        bindR (evaluate_metrics L (te_sum en) facts specs) (\<lambda>evaluated.
        Inr (trial_output_of trial persona seed (snap_state_hash s) (snap_state_hash s) b ex facts evaluated))))))"
proof -
  let ?trial = "trial_identity L sx s persona seed attempt"
  let ?b = "reference_branch L s ?trial seed"
  let ?m = "(tw_executor w)\<lparr>me_branches := dset (me_branches (tw_executor w)) (tb_branch_id ?b) st\<rparr>"
  have h: "fst (ex_canonical_hash (memory_methods L handler) s (tw_executor w)) = Inr (snap_state_hash s)"
    using assms(4) by (simp add: memory_methods_def memory_hash_def registered_snapshot_def bindE_def)
  have b: "ex_create_trial_branch (memory_methods L handler) s ?trial seed (tw_executor w) = (Inr ?b, ?m)"
    using assms(4) by (simp add: memory_methods_def memory_branch_def registered_snapshot_def reference_branch_def bindE_def Let_def)
  have "fst (ex_execute (memory_methods L handler) sx ?b persona seed cp ?m) = handler sx ?b st persona seed cp"
    by (simp add: memory_methods_def memory_execute_def)
  with mem.run_outcome [OF assms(1,2,3) TrueI h b assms(5,6)] show ?thesis by (simp add: Let_def)
qed

section \<open>A trial of the fixture\<close>

definition demo_snapshot :: snapshot_reference where
  "demo_snapshot = \<lparr>snap_snapshot_id = ''s'', snap_world_id = ''w'', snap_canonical_branch_id = ''c'', snap_state_hash = ''h'',
     snap_contract_version = ''2.0.0''\<rparr>"

definition demo_scenario :: scenario_definition where
  "demo_scenario = \<lparr>sx_scenario_id = ''demo'', sx_version = ''1.0.0'', sx_name = None, sx_description = [],
     sx_base_snapshot_id = Some ''s'', sx_world_setup = [],
     sx_cohort = [], sx_intervention = [], sx_allowed_actions = [], sx_cohort_size = 1, sx_seeds = [1],
     sx_run_horizon_steps = 10, sx_stop_conditions = [], sx_model_assignment = [], sx_verifier_versions = [],
     sx_metric_contract = []\<rparr>"

definition echo_handler :: trial_handler where
  "echo_handler = (\<lambda>sx b st persona seed cp. Inr \<lparr>tx_status = ''COMPLETED'', tx_steps = seed, tx_final_state = st,
     tx_trial_state_hash = ''t'', tx_events = [], tx_traces = [], tx_metrics = [], tx_checkpoint = cp,
     tx_artifact_uris = [], tx_failure_code = None\<rparr>)"

definition demo_engine :: trial_engine where
  "demo_engine = \<lparr>te_verifiers = \<lparr>vr_verifiers = [], vr_latest = []\<rparr>, te_contract = (\<lambda>_. Inr []), te_sum = sum_list\<rparr>"

definition demo_trials :: "memory_executor trial_world" where
  "demo_trials = \<lparr>tw_executor = \<lparr>me_snapshots = [(''s'', demo_snapshot, [(''k'', JInt 1)])], me_branches = []\<rparr>,
     tw_repository = new_repository\<rparr>"

lemma demo_checks:
  "case sx_base_snapshot_id demo_scenario of None \<Rightarrow> True | Some i \<Rightarrow> i = snap_snapshot_id demo_snapshot"
  "dget (me_snapshots (tw_executor demo_trials)) (snap_snapshot_id demo_snapshot) = Some (demo_snapshot, [(''k'', JInt 1)])"
  by (simp_all add: demo_scenario_def demo_snapshot_def demo_trials_def)

lemma demo_fresh: "\<not> dhas (xr_trials (tw_repository demo_trials)) i" "\<not> dhas (xr_outputs (tw_repository demo_trials)) i"
  by (simp_all add: demo_trials_def new_repository_def dhas_def)

theorem reference_trial_outcome_witness:
  "\<exists>out. fst (run_trial ref_lib demo_engine (memory_methods ref_lib echo_handler) demo_scenario demo_snapshot None None 7 1 [] demo_trials) =
    Inr out \<and> out_steps out = 7 \<and> out_canonical_hash_after out = ''h''"
  unfolding reference_trial_outcome [OF demo_checks(1) refl order_refl demo_checks(2) demo_fresh]
  by (simp add: Let_def echo_handler_def verify_facts_def demo_engine_def evaluate_metrics_def trial_output_of_def demo_snapshot_def)
    (simp add: demo_scenario_def)

theorem no_trial_is_left_running_witness:
  "\<exists>w'. run_trial ref_lib demo_engine (memory_methods ref_lib (\<lambda>_ _ _ _ _ _. Inl (ValueError ''stuck''))) demo_scenario
      demo_snapshot None None 7 1 [] demo_trials = (Inl (ValueError ''stuck''), w') \<and>
    (\<forall>(i, t) \<in> set (xr_trials (tw_repository w')). tr_status t = ''FAILED'')"
proof -
  let ?run = "run_trial ref_lib demo_engine (memory_methods ref_lib (\<lambda>_ _ _ _ _ _. Inl (ValueError ''stuck''))) demo_scenario
      demo_snapshot None None 7 1 [] demo_trials"
  have checks: "(None = (None :: uuid option)) = (None = (None :: string option))" "(1 :: int) \<le> 1" by simp_all
  let ?m = "(tw_executor demo_trials)\<lparr>me_branches := dset [] (tb_branch_id (reference_branch ref_lib demo_snapshot
      (trial_identity ref_lib demo_scenario demo_snapshot None 7 1) 7)) [(''k'', JInt 1)]\<rparr>"
  have "fst ?run = Inl (ValueError ''stuck'')"
    by (subst mem.run_outcome [OF demo_checks(1) checks TrueI, where h = "''h''" and st = ?m and
        b = "reference_branch ref_lib demo_snapshot (trial_identity ref_lib demo_scenario demo_snapshot None 7 1) 7"])
      (simp_all add: memory_methods_def memory_hash_def memory_branch_def memory_execute_def registered_snapshot_def
        reference_branch_def bindE_def demo_trials_def new_repository_def dhas_def Let_def, simp_all add: demo_snapshot_def)
  then obtain w' where run: "?run = (Inl (ValueError ''stuck''), w')" by (metis prod.collapse)
  have "xr_trials (tw_repository demo_trials) = []" by (simp add: demo_trials_def new_repository_def)
  with no_trial_is_left_running [OF run] have "\<forall>(i, t) \<in> set (xr_trials (tw_repository w')). tr_status t = ''FAILED''" by auto
  with run show ?thesis by blast
qed

end
