(* ===== verification/ExperimentReports.thy ===== *)
theory ExperimentReports
  imports ExperimentTrials
begin

text \<open>
  Aggregation of trial outputs, comparison of reports and the report builder: \<open>experiments/aggregation.py\<close>.
  Writing an artifact file is a parameter of the builder. The main result is that a report does not
  depend on the order in which its trials finished.
\<close>

section \<open>Aggregation\<close>

fun metric_number :: "pylib \<Rightarrow> jval \<Rightarrow> rat option" where
  "metric_number L (JBool b) = Some (if b then 1 else 0)"
| "metric_number L (JInt n) = Some (fl L (of_int n))"
| "metric_number L (JFloat q) = Some q"
| "metric_number L _ = None"

text \<open>The entries of \<open>numeric\<close> and \<open>status\<close>, in the order in which they are collected.\<close>

definition numeric_entries :: "pylib \<Rightarrow> trial_output list \<Rightarrow> (string \<times> rat) list" where
  "numeric_entries L trials = concat (map (\<lambda>t. List.map_filter
     (\<lambda>(k, v). map_option (Pair k) (metric_number L v)) (out_metrics t)) trials)"

definition sorted_names :: "string list \<Rightarrow> string list" where
  "sorted_names xs = sort (remdups xs)"

definition values_named :: "(string \<times> rat) list \<Rightarrow> string \<Rightarrow> rat list" where
  "values_named es n = map snd (filter (\<lambda>e. fst e = n) es)"

definition status_counts :: "trial_output list \<Rightarrow> jdict" where
  "status_counts trials = map (\<lambda>st. (st, JInt (int (length (filter (\<lambda>t. out_status t = st) trials)))))
     (sorted_names (map out_status trials))"

definition metric_means :: "pylib \<Rightarrow> trial_output list \<Rightarrow> (string \<times> rat) list" where
  "metric_means L trials = (let es = numeric_entries L trials
     in map (\<lambda>n. (n, round6 L (float_mean L (values_named es n)))) (sorted_names (map fst es)))"

record aggregate =
  ag_trial_count :: int
  ag_statuses :: jdict
  ag_means :: "(string \<times> rat) list"
  ag_cohort_dimensions :: jdict

definition aggregate_metrics :: "pylib \<Rightarrow> trial_output list \<Rightarrow> jdict \<Rightarrow> aggregate" where
  "aggregate_metrics L trials cohort = \<lparr>ag_trial_count = int (length trials), ag_statuses = status_counts trials,
     ag_means = metric_means L trials, ag_cohort_dimensions = cohort\<rparr>"

definition aggregate_json :: "aggregate \<Rightarrow> jval" where
  "aggregate_json a = JDict [(''trial_count'', JInt (ag_trial_count a)), (''statuses'', JDict (ag_statuses a)),
     (''means'', JDict (map (\<lambda>(n, q). (n, JFloat q)) (ag_means a))),
     (''cohort_dimensions'', JDict (ag_cohort_dimensions a)), (''synthetic_results_are_hypotheses'', JBool True)]"

record metric_comparison =
  mc_left :: rat
  mc_right :: rat
  mc_delta :: rat

definition compare_reports :: "pylib \<Rightarrow> (string \<times> rat) list \<Rightarrow> (string \<times> rat) list \<Rightarrow> (string \<times> metric_comparison) list" where
  "compare_reports L lefts rights =
     map (\<lambda>n. let l = dget_or lefts n 0; r = dget_or rights n 0
       in (n, \<lparr>mc_left = l, mc_right = r, mc_delta = round6 L (fl L (r - l))\<rparr>))
       (sorted_names (filter (dhas rights) (map fst lefts)))"

section \<open>Reports\<close>

record artifact_reference =
  ar_artifact_id :: uuid
  ar_kind :: string
  ar_uri :: string
  ar_content_hash :: string
  ar_media_type :: string

record experiment_report =
  er_report_id :: uuid
  er_scenario_id :: string
  er_scenario_version :: string
  er_trial_ids :: "uuid list"
  er_aggregate :: aggregate
  er_cohort_slices :: "(string \<times> aggregate) list"
  er_artifact :: "artifact_reference option"

type_synonym artifact_writer = "string \<Rightarrow> string \<Rightarrow> jval \<Rightarrow> artifact_reference"

definition report_identity :: "pylib \<Rightarrow> string \<Rightarrow> string \<Rightarrow> uuid list \<Rightarrow> aggregate \<Rightarrow> (string \<times> aggregate) list \<Rightarrow> string" where
  "report_identity L scenario version trials ag slices = json_text L (JDict
     [(''scenario'', JStr scenario), (''version'', JStr version), (''trials'', JList (map JStr trials)),
      (''aggregate'', aggregate_json ag), (''slices'', JDict (map (\<lambda>(n, a). (n, aggregate_json a)) slices))])"

definition report_json :: "experiment_report \<Rightarrow> jval" where
  "report_json r = JDict [(''report_id'', JStr (er_report_id r)), (''scenario_id'', JStr (er_scenario_id r)),
     (''scenario_version'', JStr (er_scenario_version r)), (''trial_ids'', JList (map JStr (er_trial_ids r))),
     (''aggregate'', aggregate_json (er_aggregate r)),
     (''cohort_slices'', JDict (map (\<lambda>(n, a). (n, aggregate_json a)) (er_cohort_slices r))),
     (''artifact'', JNull), (''synthetic_results_are_hypotheses'', JBool True)]"

definition build_report ::
  "pylib \<Rightarrow> artifact_writer option \<Rightarrow> string \<Rightarrow> string \<Rightarrow> trial_output list \<Rightarrow> (string \<times> trial_output list) list \<Rightarrow> experiment_report" where
  "build_report L artifacts scenario version trials cohort_slices =
     (let ag = aggregate_metrics L trials [];
          slices = map (\<lambda>(n, ts). (n, aggregate_metrics L ts [])) (sort_key fst cohort_slices);
          ids = sort (map out_trial_id trials);
          rid = uuid5 L (''tabletop-dm:experiment-report:'' @ report_identity L scenario version ids ag slices);
          r = \<lparr>er_report_id = rid, er_scenario_id = scenario, er_scenario_version = version, er_trial_ids = ids,
            er_aggregate = ag, er_cohort_slices = slices, er_artifact = None\<rparr>
      in case artifacts of None \<Rightarrow> r
         | Some write \<Rightarrow> r\<lparr>er_artifact := Some (write ''experiment-report'' rid (report_json r))\<rparr>)"

record comparison_report =
  cx_comparison_id :: uuid
  cx_name :: string
  cx_baseline_report_id :: uuid
  cx_candidate_report_id :: uuid
  cx_metric_contract_version :: string
  cx_metrics :: "(string \<times> metric_comparison) list"
  cx_artifact :: "artifact_reference option"

definition comparison_json :: "(string \<times> metric_comparison) list \<Rightarrow> jval" where
  "comparison_json ms = JDict (map (\<lambda>(n, c). (n, JDict [(''left'', JFloat (mc_left c)), (''right'', JFloat (mc_right c)),
     (''delta'', JFloat (mc_delta c))])) ms)"

definition compare_experiments ::
  "pylib \<Rightarrow> artifact_writer option \<Rightarrow> string \<Rightarrow> experiment_report \<Rightarrow> experiment_report \<Rightarrow> string \<Rightarrow> comparison_report" where
  "compare_experiments L artifacts name baseline candidate contract_version =
     (let ms = compare_reports L (ag_means (er_aggregate baseline)) (ag_means (er_aggregate candidate));
          cid = uuid5 L (''tabletop-dm:experiment-comparison:'' @ json_text L (JDict
            [(''name'', JStr name), (''baseline'', JStr (er_report_id baseline)), (''candidate'', JStr (er_report_id candidate)),
             (''contract'', JStr contract_version), (''metrics'', comparison_json ms)]));
          r = \<lparr>cx_comparison_id = cid, cx_name = name, cx_baseline_report_id = er_report_id baseline,
            cx_candidate_report_id = er_report_id candidate, cx_metric_contract_version = contract_version,
            cx_metrics = ms, cx_artifact = None\<rparr>
      in case artifacts of None \<Rightarrow> r
         | Some write \<Rightarrow> r\<lparr>cx_artifact := Some (write ''experiment-comparison'' cid
             (JDict [(''comparison_id'', JStr cid), (''name'', JStr name), (''baseline_report_id'', JStr (er_report_id baseline)),
               (''candidate_report_id'', JStr (er_report_id candidate)), (''metric_contract_version'', JStr contract_version),
               (''metrics'', comparison_json ms), (''artifact'', JNull), (''synthetic_results_are_hypotheses'', JBool True)]))\<rparr>)"

section \<open>The order of trials does not matter\<close>

lemma sorted_names_cong: "set xs = set ys \<Longrightarrow> sorted_names xs = sorted_names ys"
  by (simp add: sorted_names_def sorted_list_of_set_sort_remdups [symmetric])

lemma mset_concat_map: "mset ts = mset us \<Longrightarrow> mset (concat (map f ts)) = mset (concat (map f us))"
proof -
  have "mset (concat (map f xs)) = (\<Sum>x\<in>#mset xs. mset (f x))" for xs by (induction xs) simp_all
  then show "mset ts = mset us \<Longrightarrow> ?thesis" by simp
qed

lemma float_mean_cong: "mset xs = mset ys \<Longrightarrow> float_mean L xs = float_mean L ys"
  by (metis float_mean_def size_mset sum_mset_sum_list)

lemma values_named_cong: "mset es = mset es' \<Longrightarrow> mset (values_named es n) = mset (values_named es' n)"
  unfolding values_named_def by (metis mset_filter mset_map)

lemma aggregate_cong:
  assumes "mset ts = mset us"
  shows "aggregate_metrics L ts c = aggregate_metrics L us c"
proof -
  have es: "mset (numeric_entries L ts) = mset (numeric_entries L us)"
    unfolding numeric_entries_def by (rule mset_concat_map [OF assms])
  have means: "metric_means L ts = metric_means L us"
  proof -
    have "sorted_names (map fst (numeric_entries L ts)) = sorted_names (map fst (numeric_entries L us))"
      using mset_eq_setD [OF es] by (intro sorted_names_cong) simp
    then show ?thesis
      using float_mean_cong [OF values_named_cong [OF es]] by (simp add: metric_means_def Let_def)
  qed
  have counts: "length (filter P ts) = length (filter P us)" for P
    using assms by (metis mset_filter size_mset)
  have "sorted_names (map out_status ts) = sorted_names (map out_status us)"
    using mset_eq_setD [OF assms] by (intro sorted_names_cong) simp
  then have statuses: "status_counts ts = status_counts us" by (simp add: status_counts_def counts)
  have "length ts = length us" using assms by (metis size_mset)
  with means statuses show ?thesis by (simp add: aggregate_metrics_def)
qed

text \<open>
  A report depends on its trials only as a collection: whatever order they are listed in, also within the
  cohort slices, the same report with the same identifier is built, so that runs of a
  cohort on parallel workers are reported alike.
\<close>

theorem report_ignores_order:
  assumes "mset ts = mset us" and "map fst slices = map fst slices'"
    and "\<And>i. i < length slices \<Longrightarrow> mset (snd (slices ! i)) = mset (snd (slices' ! i))"
  shows "build_report L artifacts scenario version ts slices = build_report L artifacts scenario version us slices'"
proof -
  have ids: "sort (map out_trial_id ts) = sort (map out_trial_id us)"
  proof (rule properties_for_sort)
    show "mset (sort (map out_trial_id us)) = mset (map out_trial_id ts)" using assms(1) by (simp add: mset_map)
  qed simp
  have len: "length slices = length slices'" using arg_cong [OF assms(2), of length] by simp
  let ?agg = "map (\<lambda>(n, ts). (n, aggregate_metrics L ts []))"
  have same: "?agg slices = ?agg slices'"
  proof (rule nth_equalityI)
    fix i assume "i < length (?agg slices)"
    then have i: "i < length slices" by simp
    have "fst (slices ! i) = fst (slices' ! i)" using arg_cong [OF assms(2), of "\<lambda>xs. xs ! i"] i len by simp
    with aggregate_cong [OF assms(3) [OF i]] show "?agg slices ! i = ?agg slices' ! i"
      using i len by (simp add: case_prod_unfold)
  qed (simp add: len)
  have commute: "?agg (sort_key fst xs) = sort_key fst (?agg xs)" for xs
  proof (induction xs)
    case (Cons x xs)
    have "?agg (insort_key fst x ys) = insort_key fst (fst x, aggregate_metrics L (snd x) []) (?agg ys)" for ys
      by (induction ys) (auto simp: case_prod_unfold)
    with Cons show ?case by (simp add: sort_key_def case_prod_unfold)
  qed (simp add: sort_key_def)
  have "?agg (sort_key fst slices) = ?agg (sort_key fst slices')" unfolding commute same ..
  then show ?thesis using aggregate_cong [OF assms(1)] ids by (simp add: build_report_def Let_def)
qed

definition demo_output :: "uuid \<Rightarrow> int \<Rightarrow> trial_output" where
  "demo_output i n = \<lparr>out_trial_id = i, out_persona_id = None, out_seed = n, out_status = ''COMPLETED'', out_steps = n,
     out_canonical_hash_before = ''h'', out_canonical_hash_after = ''h'', out_trial_state_hash = ''t'', out_traces = [],
     out_events = [], out_facts = [], out_metrics = [(''turns'', JInt n)], out_branch_id = None, out_run_id = None,
     out_artifact_uris = [], out_failure_code = None\<rparr>"

theorem report_ignores_order_witness:
  "build_report ref_lib None ''demo'' ''1.0.0'' [demo_output ''b'' 4, demo_output ''a'' 2] [(''all'', [demo_output ''b'' 4, demo_output ''a'' 2])] =
   build_report ref_lib None ''demo'' ''1.0.0'' [demo_output ''a'' 2, demo_output ''b'' 4] [(''all'', [demo_output ''a'' 2, demo_output ''b'' 4])]"
  by (rule report_ignores_order) (simp_all add: less_Suc_eq)

lemma demo_means:
  "ag_means (er_aggregate (build_report ref_lib None ''demo'' ''1.0.0'' [demo_output ''b'' 4, demo_output ''a'' 2] [])) = [(''turns'', 3)]"
  by code_simp

section \<open>Artifact names\<close>

text \<open>\<open>_safe_component\<close> of \<open>experiments/artifacts.py\<close>: the path component made of a kind or a key.\<close>

definition component_char :: "char \<Rightarrow> bool" where
  "component_char c = (let n = (of_char c :: nat) in is_digit c \<or> (65 \<le> n \<and> n \<le> 90) \<or> (97 \<le> n \<and> n \<le> 122) \<or>
     n \<in> {170, 178, 179, 181, 185, 186, 188, 189, 190} \<or> (192 \<le> n \<and> n \<noteq> 215 \<and> n \<noteq> 247) \<or>
     c \<in> {CHR ''-'', CHR ''_'', CHR ''.''})"

definition strip_edges :: "string \<Rightarrow> string" where
  "strip_edges s = rev (dropWhile (\<lambda>c. c \<in> {CHR ''.'', CHR ''-''}) (rev (dropWhile (\<lambda>c. c \<in> {CHR ''.'', CHR ''-''}) s)))"

definition safe_component :: "string \<Rightarrow> string res" where
  "safe_component v = (let safe = strip_edges (map (\<lambda>c. if component_char c then c else CHR ''-'') v)
     in if safe = [] then Inl (ValueError ''Artifact path component cannot be empty'') else Inr (take 120 safe))"

lemma set_strip_edges: "set (strip_edges s) \<subseteq> set s"
proof
  fix c assume "c \<in> set (strip_edges s)"
  then have "c \<in> set (dropWhile (\<lambda>c. c \<in> {CHR ''.'', CHR ''-''}) (rev (dropWhile (\<lambda>c. c \<in> {CHR ''.'', CHR ''-''}) s)))"
    unfolding strip_edges_def set_rev .
  from set_dropWhileD [OF this]
  have "c \<in> set (dropWhile (\<lambda>c. c \<in> {CHR ''.'', CHR ''-''}) s)" unfolding set_rev .
  then show "c \<in> set s" by (rule set_dropWhileD)
qed

lemma hd_rev_dropWhile_rev:
  assumes "rev (dropWhile P (rev xs)) \<noteq> []"
  shows "hd (rev (dropWhile P (rev xs))) = hd xs"
proof -
  have "rev (dropWhile P (rev xs)) @ rev (takeWhile P (rev xs)) = xs"
    unfolding rev_append [symmetric] takeWhile_dropWhile_id by (rule rev_rev_ident)
  then show ?thesis using hd_append2 [OF assms, of "rev (takeWhile P (rev xs))"] by (simp only:)
qed

lemma strip_edges_first:
  assumes "strip_edges s \<noteq> []"
  shows "hd (strip_edges s) \<notin> {CHR ''.'', CHR ''-''}"
proof -
  let ?d = "dropWhile (\<lambda>c. c \<in> {CHR ''.'', CHR ''-''}) s"
  have "?d \<noteq> []" using assms unfolding strip_edges_def by (rule contrapos_nn) (simp only: rev.simps dropWhile.simps not_False_eq_True)
  from hd_dropWhile [OF this] show ?thesis
    unfolding strip_edges_def hd_rev_dropWhile_rev [OF assms [unfolded strip_edges_def]] .
qed

text \<open>
  A path component never escapes its directory: it has between one and 120 characters, none of them
  a separator, and does not begin with a dot.
\<close>

lemma safe_component_is_safe:
  assumes "safe_component v = Inr s"
  shows "s \<noteq> [] \<and> length s \<le> 120 \<and> list_all component_char s \<and> hd s \<noteq> CHR ''.''"
proof -
  let ?t = "strip_edges (map (\<lambda>c. if component_char c then c else CHR ''-'') v)"
  from assms have ne: "?t \<noteq> []" and s: "s = take 120 ?t" by (simp_all add: safe_component_def Let_def split: if_splits)
  have "component_char (CHR ''-'')" by (simp add: component_char_def)
  then have "\<forall>c\<in>set (map (\<lambda>c. if component_char c then c else CHR ''-'') v). component_char c" by (auto split: if_splits)
  then have "\<forall>c\<in>set ?t. component_char c" using set_strip_edges by blast
  then have "list_all component_char s" unfolding s by (auto simp: list_all_iff dest!: in_set_takeD)
  moreover have "hd s = hd ?t" unfolding s by simp
  ultimately show ?thesis using strip_edges_first [OF ne] ne by (simp add: s)
qed

end
