(* ===== verification/PopulationLifecycle.thy ===== *)
theory PopulationLifecycle
  imports Cognition Effects "HOL-Library.Multiset"
begin

text \<open>
  The activation lifecycle of statistical personas: the records of \<open>population/models.py\<close> and
  \<open>PopulationLifecycle\<close> of \<open>population/lifecycle.py\<close>, every operation. A persona is registered with a
  fixed profile, materialised into a world branch, activated while it is relevant and deactivated
  again; each move appends a transition to the history. The main results tie the two together: the
  history alone determines level, version and step of every member.
\<close>

section \<open>Records\<close>

datatype population_level = STATISTICAL | MATERIALIZED | ACTIVE

fun level_text :: "population_level \<Rightarrow> string" where
  "level_text STATISTICAL = ''STATISTICAL''"
| "level_text MATERIALIZED = ''MATERIALIZED''"
| "level_text ACTIVE = ''ACTIVE''"

record population_member =
  pm_persona_id :: uuid
  pm_level :: population_level
  pm_world_id :: "uuid option"
  pm_branch_id :: "uuid option"
  pm_profile :: jdict
  pm_persistent_state :: jdict
  pm_active_state :: jdict
  pm_compressed_state :: jdict
  pm_version :: int
  pm_world_step :: int

record population_transition =
  pt_transition_id :: uuid
  pt_sequence :: int
  pt_persona_id :: uuid
  pt_world_id :: "uuid option"
  pt_branch_id :: "uuid option"
  pt_lifecycle_version :: int
  pt_from_level :: population_level
  pt_to_level :: population_level
  pt_reason :: string
  pt_world_step :: int
  pt_persistent_state_hash :: string
  pt_active_state_hash :: string

record lifecycle =
  lc_world_id :: "uuid option"
  lc_branch_id :: "uuid option"
  lc_members :: "(uuid \<times> population_member) list"
  lc_history :: "population_transition list"

definition supplied_together :: "'a option \<Rightarrow> 'b option \<Rightarrow> unit res" where
  "supplied_together w b = ensure ((w = None) = (b = None)) (ValueError ''world_id and branch_id must be supplied together'')"

definition new_lifecycle :: "uuid option \<Rightarrow> uuid option \<Rightarrow> lifecycle res" where
  "new_lifecycle w b = bindR (supplied_together w b) (\<lambda>_.
     Inr \<lparr>lc_world_id = w, lc_branch_id = b, lc_members = [], lc_history = []\<rparr>)"

section \<open>Operations\<close>

definition get_member :: "uuid \<Rightarrow> (lifecycle, population_member) eff" where
  "get_member p s = (of_option (KeyError (''Unknown statistical persona '' @ p)) (dget (lc_members s) p), s)"

definition PRESERVED_ON_DEACTIVATION :: "string list" where
  "PRESERVED_ON_DEACTIVATION = [''beliefs'', ''memories'', ''relationships'', ''finances'', ''history'']"

definition restore_lifecycle ::
  "population_member list \<Rightarrow> population_transition list \<Rightarrow> (lifecycle, unit) eff" where
  "restore_lifecycle members transitions =
     (let restored_members = dupdate [] (map (\<lambda>m. (pm_persona_id m, m)) members);
          restored_history = sort_key pt_sequence transitions
      in bindE (ensureE (distinct (map pt_transition_id restored_history))
           (ValueError ''population transition identifiers must be unique'')) (\<lambda>_.
         bindE (\<lambda>s. (ensure (list_all (\<lambda>(_, m). \<not> (lc_world_id s \<noteq> None \<and>
               (pm_world_id m \<noteq> lc_world_id s \<or> pm_branch_id m \<noteq> lc_branch_id s))) restored_members)
             (ValueError ''restored member belongs to a different world branch''), s)) (\<lambda>_.
         updE (\<lambda>s. s\<lparr>lc_members := restored_members, lc_history := restored_history\<rparr>))))"

definition statistical :: "lifecycle \<Rightarrow> uuid \<Rightarrow> jdict \<Rightarrow> population_member" where
  "statistical s p profile = \<lparr>pm_persona_id = p, pm_level = STATISTICAL, pm_world_id = lc_world_id s,
     pm_branch_id = lc_branch_id s, pm_profile = profile, pm_persistent_state = [], pm_active_state = [],
     pm_compressed_state = [], pm_version = 0, pm_world_step = 0\<rparr>"

definition register_persona :: "uuid \<Rightarrow> jdict \<Rightarrow> (lifecycle, population_member) eff" where
  "register_persona p profile s = (case dget (lc_members s) p of
      Some existing \<Rightarrow>
        (if py_eq (JDict (pm_profile existing)) (JDict profile) then (Inr existing, s)
         else (Inl (ValueError ''A registered persona profile cannot be replaced''), s))
    | None \<Rightarrow> let m = statistical s p profile in (Inr m, s\<lparr>lc_members := dset (lc_members s) p m\<rparr>))"

definition transition_for ::
  "pylib \<Rightarrow> population_member \<Rightarrow> population_member \<Rightarrow> int \<Rightarrow> string \<Rightarrow> int \<Rightarrow> population_transition" where
  "transition_for L before after world_step reason sequence =
     (let ph = stable_hash L (JDict (pm_persistent_state after));
          ah = stable_hash L (JDict (pm_active_state after))
      in \<lparr>pt_transition_id = uuid5 L (''tabletop-dm:population-transition:'' @ pm_persona_id before @ '':'' @
            int_str sequence @ '':'' @ level_text (pm_level before) @ '':'' @ level_text (pm_level after) @ '':'' @
            int_str world_step @ '':'' @ ph @ '':'' @ ah),
          pt_sequence = sequence, pt_persona_id = pm_persona_id before, pt_world_id = pm_world_id after,
          pt_branch_id = pm_branch_id after, pt_lifecycle_version = pm_version after,
          pt_from_level = pm_level before, pt_to_level = pm_level after, pt_reason = reason,
          pt_world_step = world_step, pt_persistent_state_hash = ph, pt_active_state_hash = ah\<rparr>)"

definition prior_steps :: "lifecycle \<Rightarrow> uuid \<Rightarrow> int list" where
  "prior_steps s p = map pt_world_step (filter (\<lambda>t. pt_persona_id t = p) (lc_history s))"

definition commit_transition ::
  "pylib \<Rightarrow> population_member \<Rightarrow> population_member \<Rightarrow> int \<Rightarrow> string \<Rightarrow> (lifecycle, population_member) eff" where
  "commit_transition L before after world_step reason =
     bindE (ensureE (\<not> world_step < 0) (ValueError ''world_step cannot be negative'')) (\<lambda>_.
     bindE (readE (\<lambda>s. prior_steps s (pm_persona_id before))) (\<lambda>prior.
     bindE (ensureE (\<not> (prior \<noteq> [] \<and> world_step < last prior))
       (ValueError ''world_step cannot move backward for a persona'')) (\<lambda>_.
     bindE (updE (\<lambda>s. s\<lparr>lc_members := dset (lc_members s) (pm_persona_id after) after,
       lc_history := lc_history s @ [transition_for L before after world_step reason (int (length (lc_history s)) + 1)]\<rparr>)) (\<lambda>_.
     returnE after))))"

definition or_else :: "'a option \<Rightarrow> 'a option \<Rightarrow> 'a option" where
  "or_else x y = (case x of Some _ \<Rightarrow> x | None \<Rightarrow> y)"

definition materialized ::
  "population_member \<Rightarrow> uuid option \<Rightarrow> uuid option \<Rightarrow> jdict option \<Rightarrow> int \<Rightarrow> population_member" where
  "materialized before w b persistent world_step = before\<lparr>pm_level := MATERIALIZED, pm_world_id := w,
     pm_branch_id := b, pm_persistent_state := (case persistent of None \<Rightarrow> [] | Some d \<Rightarrow> d),
     pm_active_state := [], pm_compressed_state := [], pm_version := pm_version before + 1,
     pm_world_step := world_step\<rparr>"

definition materialize_persona ::
  "pylib \<Rightarrow> uuid \<Rightarrow> jdict option \<Rightarrow> jdict option \<Rightarrow> int \<Rightarrow> uuid option \<Rightarrow> uuid option \<Rightarrow> string \<Rightarrow>
     (lifecycle, population_member) eff" where
  "materialize_persona L p profile persistent world_step world branch reason =
     bindE (\<lambda>s. if dhas (lc_members s) p then (Inr (), s)
         else (case profile of
             None \<Rightarrow> (Inl (KeyError ''Lazy materialization requires the statistical profile''), s)
           | Some d \<Rightarrow> bindE (register_persona p d) (\<lambda>_. returnE ()) s)) (\<lambda>_.
     bindE (get_member p) (\<lambda>before.
     bindE (ensureE (pm_level before = STATISTICAL)
       (ValueError (''Cannot materialize a '' @ level_text (pm_level before) @ '' persona''))) (\<lambda>_.
     bindE (readE (\<lambda>s. (or_else world (lc_world_id s), or_else branch (lc_branch_id s)))) (\<lambda>(w, b).
     bindE (liftE (supplied_together w b)) (\<lambda>_.
     commit_transition L before (materialized before w b persistent world_step) world_step reason)))))"

definition activated :: "population_member \<Rightarrow> jdict \<Rightarrow> int \<Rightarrow> population_member" where
  "activated before active world_step = before\<lparr>pm_level := ACTIVE, pm_active_state := active,
     pm_version := pm_version before + 1, pm_world_step := world_step\<rparr>"

definition activate_persona ::
  "pylib \<Rightarrow> uuid \<Rightarrow> jdict \<Rightarrow> int \<Rightarrow> string \<Rightarrow> (lifecycle, population_member) eff" where
  "activate_persona L p active world_step reason =
     bindE (get_member p) (\<lambda>before.
     bindE (ensureE (pm_level before = MATERIALIZED)
       (ValueError (''Cannot activate a '' @ level_text (pm_level before) @ '' persona''))) (\<lambda>_.
     commit_transition L before (activated before active world_step) world_step reason))"

text \<open>The fields of the active state that survive: copied in the order of their names.\<close>

definition carry_field :: "jdict \<Rightarrow> jdict \<Rightarrow> string \<Rightarrow> jdict" where
  "carry_field active persistent f = (case dget active f of None \<Rightarrow> persistent | Some v \<Rightarrow> dset persistent f v)"

definition preserved_state :: "population_member \<Rightarrow> string list option \<Rightarrow> jdict option \<Rightarrow> jdict" where
  "preserved_state before preserve compressed =
     (let preserved = (case preserve of None \<Rightarrow> PRESERVED_ON_DEACTIVATION | Some fs \<Rightarrow> fs)
      in dupdate (foldl (carry_field (pm_active_state before)) (pm_persistent_state before) (sort (remdups preserved)))
           (case compressed of None \<Rightarrow> [] | Some d \<Rightarrow> d))"

definition deactivated ::
  "population_member \<Rightarrow> jdict option \<Rightarrow> string list option \<Rightarrow> int \<Rightarrow> population_member" where
  "deactivated before compressed preserve world_step = before\<lparr>pm_level := MATERIALIZED,
     pm_persistent_state := preserved_state before preserve compressed, pm_active_state := [],
     pm_compressed_state := (case compressed of None \<Rightarrow> [] | Some d \<Rightarrow> d),
     pm_version := pm_version before + 1, pm_world_step := world_step\<rparr>"

definition deactivate_persona ::
  "pylib \<Rightarrow> uuid \<Rightarrow> int \<Rightarrow> jdict option \<Rightarrow> string list option \<Rightarrow> string \<Rightarrow> (lifecycle, population_member) eff" where
  "deactivate_persona L p world_step compressed preserve reason =
     bindE (get_member p) (\<lambda>before.
     bindE (ensureE (pm_level before = ACTIVE)
       (ValueError (''Cannot deactivate a '' @ level_text (pm_level before) @ '' persona''))) (\<lambda>_.
     commit_transition L before (deactivated before compressed preserve world_step) world_step reason))"

section \<open>What an operation does\<close>

lemma bind_get_member:
  "bindE (get_member p) f s = (case dget (lc_members s) p of
      None \<Rightarrow> (Inl (KeyError (''Unknown statistical persona '' @ p)), s) | Some m \<Rightarrow> f m s)"
  by (simp add: get_member_def bindE_def split: option.splits)

definition committed :: "pylib \<Rightarrow> population_member \<Rightarrow> population_member \<Rightarrow> string \<Rightarrow> lifecycle \<Rightarrow> lifecycle" where
  "committed L before after reason s = s\<lparr>lc_members := dset (lc_members s) (pm_persona_id after) after,
     lc_history := lc_history s @
       [transition_for L before after (pm_world_step after) reason (int (length (lc_history s)) + 1)]\<rparr>"

definition step_admissible :: "lifecycle \<Rightarrow> uuid \<Rightarrow> int \<Rightarrow> bool" where
  "step_admissible s p w \<longleftrightarrow> 0 \<le> w \<and> (prior_steps s p = [] \<or> last (prior_steps s p) \<le> w)"

lemma commit_cases:
  assumes "pm_world_step after = w"
  shows "commit_transition L before after w reason s =
    (if step_admissible s (pm_persona_id before) w then (Inr after, committed L before after reason s)
     else (Inl (ValueError (if w < 0 then ''world_step cannot be negative''
       else ''world_step cannot move backward for a persona'')), s))"
  using assms by (auto simp: commit_transition_def step_admissible_def committed_def)

inductive population_move :: "lifecycle \<Rightarrow> population_member \<Rightarrow> population_member \<Rightarrow> bool" for s where
  materialize: "\<lbrakk>dget (lc_members s) p = Some m; pm_level m = STATISTICAL; (wid = None) = (bid = None);
      step_admissible s (pm_persona_id m) w\<rbrakk> \<Longrightarrow> population_move s m (materialized m wid bid persistent w)"
| activate: "\<lbrakk>dget (lc_members s) p = Some m; pm_level m = MATERIALIZED; step_admissible s (pm_persona_id m) w\<rbrakk>
    \<Longrightarrow> population_move s m (activated m active w)"
| deactivate: "\<lbrakk>dget (lc_members s) p = Some m; pm_level m = ACTIVE; step_admissible s (pm_persona_id m) w\<rbrakk>
    \<Longrightarrow> population_move s m (deactivated m compressed preserve w)"

definition registered_as :: "uuid \<Rightarrow> jdict \<Rightarrow> lifecycle \<Rightarrow> lifecycle" where
  "registered_as p profile s = s\<lparr>lc_members := dset (lc_members s) p (statistical s p profile)\<rparr>"

lemma register_shape:
  "snd (register_persona p d s) = (if dhas (lc_members s) p then s else registered_as p d s)"
  by (simp add: register_persona_def registered_as_def dhas_def Let_def split: option.splits)

lemma register_run:
  "register_persona p d s = (case dget (lc_members s) p of
     None \<Rightarrow> (Inr (statistical s p d), registered_as p d s)
   | Some m \<Rightarrow> (if py_eq (JDict (pm_profile m)) (JDict d) then Inr m
       else Inl (ValueError ''A registered persona profile cannot be replaced''), s))"
  by (simp add: register_persona_def registered_as_def Let_def split: option.splits)

text \<open>\<open>s1\<close> is the lifecycle in which \<open>materialize\<close> looks the persona up.\<close>

definition looked_up :: "uuid \<Rightarrow> jdict option \<Rightarrow> lifecycle \<Rightarrow> lifecycle" where
  "looked_up p profile s = (if dhas (lc_members s) p then s
     else (case profile of None \<Rightarrow> s | Some d \<Rightarrow> registered_as p d s))"

definition moved_by :: "pylib \<Rightarrow> uuid \<Rightarrow> lifecycle \<Rightarrow> lifecycle \<Rightarrow> bool" where
  "moved_by L p s t \<longleftrightarrow> (\<exists>m m' reason. dget (lc_members s) p = Some m \<and> population_move s m m' \<and>
     t = committed L m m' reason s)"

lemma move_world_step: "population_move s m m' \<Longrightarrow> step_admissible s (pm_persona_id m) (pm_world_step m')"
  by (cases rule: population_move.cases) (auto simp: materialized_def activated_def deactivated_def)

lemma materialize_shape:
  "snd (materialize_persona L p profile persistent w world branch reason s) = looked_up p profile s \<or>
   moved_by L p (looked_up p profile s) (snd (materialize_persona L p profile persistent w world branch reason s))"
proof -
  let ?s = "looked_up p profile s"
  let ?w = "or_else world (lc_world_id ?s)" and ?b = "or_else branch (lc_branch_id ?s)"
  let ?rest = "\<lambda>s. bindE (get_member p) (\<lambda>before.
     bindE (ensureE (pm_level before = STATISTICAL)
       (ValueError (''Cannot materialize a '' @ level_text (pm_level before) @ '' persona''))) (\<lambda>_.
     bindE (readE (\<lambda>s. (or_else world (lc_world_id s), or_else branch (lc_branch_id s)))) (\<lambda>(w', b).
     bindE (liftE (supplied_together w' b)) (\<lambda>_.
     commit_transition L before (materialized before w' b persistent w) w reason)))) s"
  show ?thesis
  proof (cases "dget (lc_members ?s) p")
    case None
    then have "snd (materialize_persona L p profile persistent w world branch reason s) = ?s"
      by (cases profile) (auto simp: materialize_persona_def looked_up_def registered_as_def dhas_def bindE_def split: if_splits)
    then show ?thesis ..
  next
    case (Some m)
    then have run: "materialize_persona L p profile persistent w world branch reason s = ?rest ?s"
      by (cases profile) (auto simp: materialize_persona_def looked_up_def registered_as_def dhas_def bindE_def
        register_run split: if_splits option.splits)
    show ?thesis
    proof (cases "pm_level m = STATISTICAL \<and> (?w = None) = (?b = None) \<and> step_admissible ?s (pm_persona_id m) w")
      case True
      let ?m = "materialized m ?w ?b persistent w"
      have step: "pm_world_step ?m = w" by (simp add: materialized_def)
      have "?rest ?s = (Inr ?m, committed L m ?m reason ?s)"
        using True Some by (simp add: bind_get_member supplied_together_def ensure_def commit_cases [OF step])
      moreover have "population_move ?s m ?m" using True Some by (intro population_move.materialize) auto
      ultimately show ?thesis using Some unfolding run moved_by_def by auto
    next
      case False
      have step: "pm_world_step (materialized m ?w ?b persistent w) = w" by (simp add: materialized_def)
      from False have "snd (?rest ?s) = ?s"
        using Some by (auto simp: bind_get_member supplied_together_def ensure_def commit_cases [OF step])
      then show ?thesis unfolding run ..
    qed
  qed
qed

lemma activate_shape:
  "snd (activate_persona L p active w reason s) = s \<or> moved_by L p s (snd (activate_persona L p active w reason s))"
proof (cases "dget (lc_members s) p")
  case (Some m)
  have step: "pm_world_step (activated m active w) = w" by (simp add: activated_def)
  show ?thesis
  proof (cases "pm_level m = MATERIALIZED \<and> step_admissible s (pm_persona_id m) w")
    case True
    with Some have "population_move s m (activated m active w)" by (intro population_move.activate) auto
    with Some True show ?thesis
      by (auto simp: activate_persona_def bind_get_member commit_cases [OF step] moved_by_def)
  qed (use Some in \<open>auto simp: activate_persona_def bind_get_member commit_cases [OF step]\<close>)
qed (simp add: activate_persona_def bind_get_member)

lemma deactivate_succeeds:
  assumes "dget (lc_members s) p = Some m" and "pm_level m = ACTIVE" and "step_admissible s (pm_persona_id m) w"
  shows "deactivate_persona L p w compressed preserve reason s =
    (Inr (deactivated m compressed preserve w), committed L m (deactivated m compressed preserve w) reason s)"
proof -
  have step: "pm_world_step (deactivated m compressed preserve w) = w" by (simp add: deactivated_def)
  show ?thesis using assms by (simp add: deactivate_persona_def bind_get_member commit_cases [OF step])
qed

lemma deactivate_shape:
  "snd (deactivate_persona L p w compressed preserve reason s) = s \<or>
   moved_by L p s (snd (deactivate_persona L p w compressed preserve reason s))"
proof (cases "dget (lc_members s) p")
  case (Some m)
  have step: "pm_world_step (deactivated m compressed preserve w) = w" by (simp add: deactivated_def)
  show ?thesis
  proof (cases "pm_level m = ACTIVE \<and> step_admissible s (pm_persona_id m) w")
    case True
    with Some have "population_move s m (deactivated m compressed preserve w)" by (intro population_move.deactivate) auto
    with Some True show ?thesis
      by (auto simp: deactivate_persona_def bind_get_member commit_cases [OF step] moved_by_def)
  qed (use Some in \<open>auto simp: deactivate_persona_def bind_get_member commit_cases [OF step]\<close>)
qed (simp add: deactivate_persona_def bind_get_member)

section \<open>The history explains the members\<close>

text \<open>
  The abstract lifecycle: level, version and step of a persona, moved by its transitions. \<open>told\<close> runs a
  list of transitions and is undefined where one does not follow from what precedes it.
\<close>

type_synonym standing = "population_level \<times> int \<times> int"

fun level_move :: "population_level \<Rightarrow> population_level \<Rightarrow> bool" where
  "level_move STATISTICAL l = (l = MATERIALIZED)"
| "level_move MATERIALIZED l = (l = ACTIVE)"
| "level_move ACTIVE l = (l = MATERIALIZED)"

fun told :: "population_transition list \<Rightarrow> standing \<Rightarrow> standing option" where
  "told [] st = Some st"
| "told (t # ts) (l, v, w) =
     (if pt_from_level t = l \<and> level_move l (pt_to_level t) \<and> pt_lifecycle_version t = v + 1 \<and> w \<le> pt_world_step t
      then told ts (pt_to_level t, v + 1, pt_world_step t) else None)"

definition transitions_of :: "lifecycle \<Rightarrow> uuid \<Rightarrow> population_transition list" where
  "transitions_of s p = filter (\<lambda>t. pt_persona_id t = p) (lc_history s)"

definition member_explained :: "pylib \<Rightarrow> lifecycle \<Rightarrow> uuid \<Rightarrow> population_member \<Rightarrow> bool" where
  "member_explained L s p m \<longleftrightarrow> pm_persona_id m = p \<and>
     told (transitions_of s p) (STATISTICAL, 0, 0) = Some (pm_level m, pm_version m, pm_world_step m) \<and>
     (transitions_of s p \<noteq> [] \<longrightarrow>
        pt_persistent_state_hash (last (transitions_of s p)) = stable_hash L (JDict (pm_persistent_state m)) \<and>
        pt_active_state_hash (last (transitions_of s p)) = stable_hash L (JDict (pm_active_state m)) \<and>
        pt_world_id (last (transitions_of s p)) = pm_world_id m \<and>
        pt_branch_id (last (transitions_of s p)) = pm_branch_id m) \<and>
     (pm_level m \<noteq> ACTIVE \<longrightarrow> pm_active_state m = [])"

definition history_explains :: "pylib \<Rightarrow> lifecycle \<Rightarrow> bool" where
  "history_explains L s \<longleftrightarrow> (\<forall>p m. dget (lc_members s) p = Some m \<longrightarrow> member_explained L s p m) \<and>
     (\<forall>t\<in>set (lc_history s). dhas (lc_members s) (pt_persona_id t)) \<and>
     map pt_sequence (lc_history s) = map int [1..<length (lc_history s) + 1] \<and>
     distinct (map fst (lc_members s))"

lemma told_append: "told (ts @ us) st = (case told ts st of None \<Rightarrow> None | Some st' \<Rightarrow> told us st')"
  by (induction ts st rule: told.induct) auto

lemma told_last_step: "told ts st = Some (l, v, w) \<Longrightarrow> ts \<noteq> [] \<Longrightarrow> pt_world_step (last ts) = w"
  by (induction ts st rule: told.induct) (auto split: if_splits)

lemma transition_for_simps [simp]:
  "pt_sequence (transition_for L m m' w reason n) = n"
  "pt_persona_id (transition_for L m m' w reason n) = pm_persona_id m"
  "pt_lifecycle_version (transition_for L m m' w reason n) = pm_version m'"
  "pt_from_level (transition_for L m m' w reason n) = pm_level m"
  "pt_to_level (transition_for L m m' w reason n) = pm_level m'"
  "pt_world_step (transition_for L m m' w reason n) = w"
  "pt_world_id (transition_for L m m' w reason n) = pm_world_id m'"
  "pt_branch_id (transition_for L m m' w reason n) = pm_branch_id m'"
  "pt_persistent_state_hash (transition_for L m m' w reason n) = stable_hash L (JDict (pm_persistent_state m'))"
  "pt_active_state_hash (transition_for L m m' w reason n) = stable_hash L (JDict (pm_active_state m'))"
  by (simp_all add: transition_for_def Let_def)

lemma move_effect:
  assumes "population_move s m m'"
  shows "pm_persona_id m' = pm_persona_id m" "pm_profile m' = pm_profile m" "pm_version m' = pm_version m + 1"
    "level_move (pm_level m) (pm_level m')" "pm_level m' \<noteq> ACTIVE \<Longrightarrow> pm_active_state m' = []"
  using assms by (cases rule: population_move.cases; simp add: materialized_def activated_def deactivated_def)+

lemma explains_register:
  assumes "history_explains L s" and "\<not> dhas (lc_members s) p"
  shows "history_explains L (registered_as p d s)"
proof -
  have "transitions_of s p = []" using assms by (auto simp: history_explains_def transitions_of_def filter_empty_conv)
  then have "member_explained L (registered_as p d s) p (statistical s p d)"
    by (simp add: member_explained_def registered_as_def transitions_of_def statistical_def)
  then show ?thesis using assms
    by (auto simp: history_explains_def registered_as_def transitions_of_def member_explained_def distinct_update)
qed

lemma explains_committed:
  assumes sound: "history_explains L s" and m: "dget (lc_members s) p = Some m" and move: "population_move s m m'"
  shows "history_explains L (committed L m m' reason s)"
proof -
  let ?t = "transition_for L m m' (pm_world_step m') reason (int (length (lc_history s)) + 1)"
  let ?c = "committed L m m' reason s"
  note effect = move_effect [OF move]
  from sound m have explained: "member_explained L s p m" by (simp add: history_explains_def)
  then have id: "pm_persona_id m = p" and told: "told (transitions_of s p) (STATISTICAL, 0, 0) = Some (pm_level m, pm_version m, pm_world_step m)"
    by (simp_all add: member_explained_def)
  have ts: "transitions_of ?c q = (if q = p then transitions_of s p @ [?t] else transitions_of s q)" for q
    by (simp add: transitions_of_def committed_def id)
  have prior: "prior_steps s p = map pt_world_step (transitions_of s p)" by (simp add: prior_steps_def transitions_of_def)
  have "pm_world_step m \<le> pm_world_step m'"
  proof (cases "transitions_of s p = []")
    case True
    then have "pm_world_step m = 0" using told by simp
    then show ?thesis using move_world_step [OF move] by (simp add: step_admissible_def)
  next
    case False
    then show ?thesis using told_last_step [OF told False] move_world_step [OF move]
      by (simp add: step_admissible_def id prior last_map)
  qed
  then have new: "member_explained L ?c p m'"
    using told effect id by (simp add: member_explained_def ts told_append)
  have "dget (lc_members ?c) q = (if q = p then Some m' else dget (lc_members s) q)" for q
    by (simp add: committed_def effect id)
  moreover have "member_explained L ?c q n" if "dget (lc_members s) q = Some n" "q \<noteq> p" for q n
    using that sound by (simp add: history_explains_def member_explained_def ts)
  ultimately show ?thesis using sound new m
    by (auto simp: history_explains_def committed_def effect id dhas_def distinct_update split: if_splits)
qed

inductive life_step :: "pylib \<Rightarrow> lifecycle \<Rightarrow> lifecycle \<Rightarrow> bool" for L where
  registers: "life_step L s (snd (register_persona p d s))"
| materializes: "life_step L s (snd (materialize_persona L p d st w world branch reason s))"
| activates: "life_step L s (snd (activate_persona L p st w reason s))"
| deactivates: "life_step L s (snd (deactivate_persona L p w st fs reason s))"

inductive life_run :: "pylib \<Rightarrow> lifecycle \<Rightarrow> lifecycle \<Rightarrow> bool" for L where
  life_refl: "life_run L s s"
| life_step: "\<lbrakk>life_run L s t; life_step L t u\<rbrakk> \<Longrightarrow> life_run L s u"

lemma life_step_cases:
  assumes "life_step L s t"
  obtains (same) "t = s"
  | (registered) p d where "\<not> dhas (lc_members s) p" "t = registered_as p d s"
  | (moved) p where "moved_by L p s t"
  | (both) p d where "\<not> dhas (lc_members s) p" "moved_by L p (registered_as p d s) t"
  using assms
proof cases
  case (registers p d)
  then show thesis by (cases "dhas (lc_members s) p") (auto simp: register_shape intro: same registered)
next
  case (materializes p d st w world branch reason)
  then show thesis using materialize_shape [of L p d st w world branch reason s] same registered moved both
    by (auto simp: looked_up_def split: if_splits option.splits)
next
  case (activates p st w reason)
  then show thesis using activate_shape [of L p st w reason s] same moved by auto
next
  case (deactivates p w st fs reason)
  then show thesis using deactivate_shape [of L p w st fs reason s] same moved by auto
qed

lemma life_step_explains: "\<lbrakk>life_step L s t; history_explains L s\<rbrakk> \<Longrightarrow> history_explains L t"
  by (cases rule: life_step_cases)
    (auto simp: moved_by_def intro: explains_register explains_committed)

lemma life_run_explains: "\<lbrakk>life_run L s t; history_explains L s\<rbrakk> \<Longrightarrow> history_explains L t"
  by (induction rule: life_run.induct) (auto intro: life_step_explains)

lemma new_lifecycle_explains: "new_lifecycle w b = Inr s \<Longrightarrow> history_explains L s"
  by (auto simp: new_lifecycle_def supplied_together_def history_explains_def bindR_eq_Inr split: if_splits)

text \<open>
  C27. In whatever order personas are registered, materialised, activated and deactivated, the history
  explains every member: its transitions are numbered without gaps, and running those of a persona from
  the statistical level gives, step by step with rising versions and steps that never go back, exactly its present
  level, version and step, with the last one carrying the digests of its state; only active personas have active state.
\<close>

theorem population_history_explains:
  assumes "new_lifecycle w b = Inr s" and "life_run L s t"
  shows "history_explains L t"
  using life_run_explains [OF assms(2) new_lifecycle_explains [OF assms(1)]] .

section \<open>Restoring a lifecycle\<close>

lemma dupdate_fresh:
  "\<lbrakk>distinct (map fst (d @ e))\<rbrakk> \<Longrightarrow> dupdate d e = d @ e"
proof (induction e arbitrary: d)
  case (Cons p e)
  obtain k v where p: "p = (k, v)" by (cases p)
  from Cons.prems have "\<not> dhas d k" by (auto simp: p dhas_def map_of_eq_None_iff)
  then have "dset d k v = d @ [(k, v)]" by (rule dset_fresh)
  with Cons.prems show ?case by (simp add: p Cons.IH)
qed simp

text \<open>
  The durable form of a lifecycle restores it exactly: its members and its transitions, the latter in
  any order, give back the same members and the same history, provided the transitions have
  different identifiers and all members are of the world branch the lifecycle is bound to.
\<close>

theorem lifecycle_restores:
  assumes sound: "history_explains L s" and perm: "mset transitions = mset (lc_history s)"
    and ids: "distinct (map pt_transition_id (lc_history s))"
    and bound: "lc_world_id s \<noteq> None \<longrightarrow> (\<forall>p m. dget (lc_members s) p = Some m \<longrightarrow>
      pm_world_id m = lc_world_id s \<and> pm_branch_id m = lc_branch_id s)"
  shows "restore_lifecycle (map snd (lc_members s)) transitions (s\<lparr>lc_members := [], lc_history := []\<rparr>) = (Inr (), s)"
proof -
  let ?h = "lc_history s"
  have keys: "distinct (map fst (lc_members s))" and seqs: "map pt_sequence ?h = map int [1..<length ?h + 1]"
    using sound by (simp_all add: history_explains_def)
  have filed: "pm_persona_id m = p" and there: "dget (lc_members s) p = Some m" if "(p, m) \<in> set (lc_members s)" for p m
    using that sound keys by (auto simp: history_explains_def member_explained_def)
  then have "map (\<lambda>m. (pm_persona_id m, m)) (map snd (lc_members s)) = lc_members s"
    by (auto simp: comp_def intro: map_idI)
  then have members: "dupdate [] (map (\<lambda>m. (pm_persona_id m, m)) (map snd (lc_members s))) = lc_members s"
    using keys by (simp only: dupdate_fresh append_Nil)
  then have members': "dupdate [] (map (\<lambda>x. (pm_persona_id (snd x), snd x)) (lc_members s)) = lc_members s"
    by (simp only: map_map comp_def)
  have inc: "sorted (map pt_sequence ?h)" "distinct (map pt_sequence ?h)"
    unfolding seqs by (simp_all add: distinct_map sorted_map del: upt_Suc)
  have same: "mset (sort_key pt_sequence transitions) = mset ?h" using perm by simp
  have "sort_key pt_sequence transitions = ?h"
  proof (rule map_sorted_distinct_set_unique)
    show "inj_on pt_sequence (set (sort_key pt_sequence transitions) \<union> set ?h)"
      using inc(2) mset_eq_setD [OF same] by (simp add: distinct_map)
    show "distinct (map pt_sequence (sort_key pt_sequence transitions))"
      using inc(2) mset_map [of pt_sequence] same by (metis mset_eq_imp_distinct_iff)
  qed (use inc mset_eq_setD [OF same] in simp_all)
  moreover have "list_all (\<lambda>(_, m). \<not> (lc_world_id s \<noteq> None \<and>
      (pm_world_id m \<noteq> lc_world_id s \<or> pm_branch_id m \<noteq> lc_branch_id s))) (lc_members s)"
    using bound there by (auto simp: list_all_iff)
  ultimately show ?thesis
    using ids by (simp add: restore_lifecycle_def Let_def members' bindE_def ensure_def comp_def)
qed

text \<open>
  A lifecycle that is bound to a world branch nevertheless materialises a persona elsewhere when the
  call names another one; what it then holds cannot be restored.
\<close>

definition bound_lifecycle :: lifecycle where
  "bound_lifecycle = \<lparr>lc_world_id = Some ''w'', lc_branch_id = Some ''b'', lc_members = [], lc_history = []\<rparr>"

definition visitor :: population_member where
  "visitor = materialized (statistical bound_lifecycle ''p'' []) (Some ''w2'') (Some ''b2'') None 0"

definition visited :: lifecycle where
  "visited = committed ref_lib (statistical bound_lifecycle ''p'' []) visitor ''visit'' (registered_as ''p'' [] bound_lifecycle)"

lemma foreign_materialization_is_not_restorable:
  "materialize_persona ref_lib ''p'' (Some []) None 0 (Some ''w2'') (Some ''b2'') ''visit'' bound_lifecycle = (Inr visitor, visited)"
  "restore_lifecycle (map snd (lc_members visited)) (lc_history visited) bound_lifecycle =
    (Inl (ValueError ''restored member belongs to a different world branch''), bound_lifecycle)"
proof -
  have step: "pm_world_step visitor = 0" by (simp add: visitor_def materialized_def)
  have run: "commit_transition ref_lib (statistical bound_lifecycle ''p'' []) visitor 0 ''visit'' (registered_as ''p'' [] bound_lifecycle) =
      (Inr visitor, visited)"
    by (simp add: commit_cases [OF step] step_admissible_def prior_steps_def visited_def registered_as_def bound_lifecycle_def)
  show "materialize_persona ref_lib ''p'' (Some []) None 0 (Some ''w2'') (Some ''b2'') ''visit'' bound_lifecycle = (Inr visitor, visited)"
    using run by (simp add: materialize_persona_def dhas_def bindE_def register_run get_member_def supplied_together_def ensure_def
      or_else_def visitor_def) (simp add: bound_lifecycle_def registered_as_def statistical_def)
  show "restore_lifecycle (map snd (lc_members visited)) (lc_history visited) bound_lifecycle =
      (Inl (ValueError ''restored member belongs to a different world branch''), bound_lifecycle)"
    by (simp add: restore_lifecycle_def visited_def committed_def registered_as_def bound_lifecycle_def visitor_def
      materialized_def statistical_def bindE_def ensure_def Let_def)
qed

section \<open>Deactivation\<close>

definition survives :: "string list option \<Rightarrow> string \<Rightarrow> bool" where
  "survives preserve f \<longleftrightarrow> f \<in> set (case preserve of None \<Rightarrow> PRESERVED_ON_DEACTIVATION | Some fs \<Rightarrow> fs)"

lemma carry_fields:
  "dget (foldl (carry_field active) persistent fs) f =
    (if f \<in> set fs \<and> dget active f \<noteq> None then dget active f else dget persistent f)"
  by (induction fs arbitrary: persistent) (auto simp: carry_field_def split: option.splits)

text \<open>
  Deactivation loses nothing it should keep: afterwards the persona is materialised with empty active
  state, and its persistent state has, for each field, the compressed value if one is given, else the
  active value if the field is preserved and was active, else the persistent value of before.
\<close>

theorem deactivation_preserves:
  assumes "deactivate_persona L p w compressed preserve reason s = (Inr m, t)"
    and "dget (lc_members s) p = Some before" and "pm_persona_id before = p"
  shows "dget (lc_members t) p = Some m \<and> pm_level m = MATERIALIZED \<and> pm_active_state m = [] \<and>
    pm_profile m = pm_profile before \<and>
    dget (pm_persistent_state m) f =
      (case dget (rev (case compressed of None \<Rightarrow> [] | Some d \<Rightarrow> d)) f of
         Some v \<Rightarrow> Some v
       | None \<Rightarrow> if survives preserve f \<and> dhas (pm_active_state before) f then dget (pm_active_state before) f
           else dget (pm_persistent_state before) f)"
proof -
  have step: "pm_world_step (deactivated before compressed preserve w) = w" by (simp add: deactivated_def)
  have m: "m = deactivated before compressed preserve w" and t: "t = committed L before m reason s"
    using assms(1,2) by (auto simp: deactivate_persona_def bind_get_member commit_cases [OF step] split: if_splits)
  show ?thesis
    using assms(3) by (auto simp: m t committed_def deactivated_def preserved_state_def Let_def dget_dupdate carry_fields
      survives_def dhas_def split: option.splits)
qed

section \<open>What a run keeps\<close>

definition members_kept :: "lifecycle \<Rightarrow> lifecycle \<Rightarrow> bool" where
  "members_kept s t \<longleftrightarrow> (\<forall>p m. dget (lc_members s) p = Some m \<longrightarrow>
      (\<exists>m'. dget (lc_members t) p = Some m' \<and> pm_profile m' = pm_profile m \<and> pm_version m \<le> pm_version m')) \<and>
    (\<exists>later. lc_history t = lc_history s @ later)"

lemma members_kept_refl [simp]: "members_kept s s"
  by (simp add: members_kept_def)

lemma members_kept_trans: "\<lbrakk>members_kept s t; members_kept t u\<rbrakk> \<Longrightarrow> members_kept s u"
proof -
  assume s: "members_kept s t" and t: "members_kept t u"
  have "\<exists>m''. dget (lc_members u) p = Some m'' \<and> pm_profile m'' = pm_profile m \<and> pm_version m \<le> pm_version m''"
    if m: "dget (lc_members s) p = Some m" for p m
  proof -
    from s m obtain m' where m': "dget (lc_members t) p = Some m'" "pm_profile m' = pm_profile m" "pm_version m \<le> pm_version m'"
      unfolding members_kept_def by blast
    from t m'(1) obtain m'' where "dget (lc_members u) p = Some m''" "pm_profile m'' = pm_profile m'" "pm_version m' \<le> pm_version m''"
      unfolding members_kept_def by blast
    with m' show ?thesis by auto
  qed
  moreover have "\<exists>later. lc_history u = lc_history s @ later"
    using s t by (auto simp: members_kept_def)
  ultimately show ?thesis by (simp add: members_kept_def)
qed

lemma registered_keeps: "\<not> dhas (lc_members s) p \<Longrightarrow> members_kept s (registered_as p d s)"
  by (auto simp: members_kept_def registered_as_def dhas_def)

lemma moved_keeps:
  assumes "history_explains L s" and "moved_by L q s t"
  shows "members_kept s t"
proof -
  obtain n n' reason where n: "dget (lc_members s) q = Some n" and move: "population_move s n n'"
    and t: "t = committed L n n' reason s" using assms(2) by (auto simp: moved_by_def)
  have "pm_persona_id n = q" using assms(1) n by (simp add: history_explains_def member_explained_def)
  then have "dget (lc_members t) p = (if p = q then Some n' else dget (lc_members s) p)" for p
    by (simp add: t committed_def move_effect [OF move])
  then show ?thesis using n move_effect [OF move] by (auto simp: members_kept_def t committed_def)
qed

text \<open>
  A registered persona stays registered with the profile it was registered with, its version never
  goes down, and no transition is ever dropped or altered.
\<close>

lemma life_run_keeps:
  assumes "life_run L s t" and "history_explains L s"
  shows "members_kept s t"
  using assms
proof (induction rule: life_run.induct)
  case (life_refl s)
  then show ?case by simp
next
  case (life_step s t u)
  have sound: "history_explains L t" using life_step.hyps(1) life_step.prems by (rule life_run_explains)
  have "members_kept t u"
    using life_step.hyps(2)
  proof (cases rule: life_step_cases)
    case same
    then show ?thesis by simp
  next
    case (registered p d)
    then show ?thesis by (simp add: registered_keeps)
  next
    case (moved p)
    then show ?thesis by (rule moved_keeps [OF sound])
  next
    case (both p d)
    show ?thesis
      by (rule members_kept_trans [OF registered_keeps [OF both(1)] moved_keeps [OF explains_register [OF sound both(1)] both(2)]])
  qed
  with life_step.IH life_step.prems show ?case by (meson members_kept_trans)
qed

section \<open>A lifecycle of the fixture\<close>

lemmas life_runs = materialize_persona_def activate_persona_def deactivate_persona_def commit_transition_def register_persona_def
  get_member_def supplied_together_def or_else_def prior_steps_def transition_for_def ensure_def bindE_def dhas_def Let_def
  bound_lifecycle_def statistical_def materialized_def activated_def deactivated_def

definition active_lifecycle :: lifecycle where
  "active_lifecycle = snd (activate_persona ref_lib ''p'' [(''beliefs'', JInt 7), (''scratch'', JInt 8)] 1 ''met''
     (snd (materialize_persona ref_lib ''p'' (Some []) None 0 None None ''near'' bound_lifecycle)))"

lemma bound_is_new: "new_lifecycle (Some ''w'') (Some ''b'') = Inr bound_lifecycle"
  by (simp add: new_lifecycle_def supplied_together_def ensure_def bound_lifecycle_def)

lemma active_run: "life_run ref_lib bound_lifecycle active_lifecycle"
  unfolding active_lifecycle_def
  by (rule life_run.life_step [OF life_run.life_step [OF life_run.life_refl life_step.materializes] life_step.activates])

lemma ref_uuid5: "uuid5 ref_lib n = uuid5 ref_lib m \<longleftrightarrow> n = m"
  using ref_lib_injective by (auto simp: uuid5_injective_def)

lemma active_facts:
  "lc_members active_lifecycle = [(''p'', activated (materialized (statistical bound_lifecycle ''p'' []) (Some ''w'') (Some ''b'') None 0)
      [(''beliefs'', JInt 7), (''scratch'', JInt 8)] 1)]"
  "map pt_lifecycle_version (lc_history active_lifecycle) = [1, 2]"
  by (simp_all add: active_lifecycle_def life_runs)

theorem population_history_explains_witness:
  "history_explains ref_lib active_lifecycle \<and> map pt_lifecycle_version (lc_history active_lifecycle) = [1, 2]"
  using population_history_explains [OF bound_is_new active_run] active_facts(2) by simp

theorem lifecycle_restores_witness:
  "restore_lifecycle (map snd (lc_members active_lifecycle)) (rev (lc_history active_lifecycle))
    (active_lifecycle\<lparr>lc_members := [], lc_history := []\<rparr>) = (Inr (), active_lifecycle)"
proof (rule lifecycle_restores [of ref_lib])
  show "history_explains ref_lib active_lifecycle"
    by (rule life_run_explains [OF active_run new_lifecycle_explains [OF bound_is_new]])
  show "distinct (map pt_transition_id (lc_history active_lifecycle))"
    by (simp add: active_lifecycle_def life_runs ref_uuid5 int_str_def nat_str.simps)
  show "lc_world_id active_lifecycle \<noteq> None \<longrightarrow> (\<forall>p m. dget (lc_members active_lifecycle) p = Some m \<longrightarrow>
      pm_world_id m = lc_world_id active_lifecycle \<and> pm_branch_id m = lc_branch_id active_lifecycle)"
    by (simp add: active_facts) (simp add: active_lifecycle_def life_runs)
qed simp

theorem deactivation_preserves_witness:
  "\<exists>m t. deactivate_persona ref_lib ''p'' 2 (Some [(''mood'', JInt 1)]) None ''left'' active_lifecycle = (Inr m, t) \<and>
    pm_level m = MATERIALIZED \<and> dget (pm_persistent_state m) ''beliefs'' = Some (JInt 7) \<and>
    dget (pm_persistent_state m) ''scratch'' = None"
proof -
  define before where "before = activated (materialized (statistical bound_lifecycle ''p'' []) (Some ''w'') (Some ''b'') None 0)
      [(''beliefs'', JInt 7), (''scratch'', JInt 8)] 1"
  have there: "dget (lc_members active_lifecycle) ''p'' = Some before" by (simp add: active_facts before_def)
  have id: "pm_persona_id before = ''p''" by (simp add: before_def activated_def materialized_def statistical_def)
  have "map pt_world_step (lc_history active_lifecycle) = [0, 1]" "map pt_persona_id (lc_history active_lifecycle) = [''p'', ''p'']"
    by (simp_all add: active_lifecycle_def life_runs)
  then have "step_admissible active_lifecycle ''p'' 2"
    by (cases "lc_history active_lifecycle"; cases "tl (lc_history active_lifecycle)") (auto simp: step_admissible_def prior_steps_def)
  then have "step_admissible active_lifecycle (pm_persona_id before) 2" by (simp add: id)
  moreover have "pm_level before = ACTIVE" by (simp add: before_def activated_def)
  ultimately obtain m t where
    run: "deactivate_persona ref_lib ''p'' 2 (Some [(''mood'', JInt 1)]) None ''left'' active_lifecycle = (Inr m, t)"
    using deactivate_succeeds [OF there] by blast
  from deactivation_preserves [OF run there id, of "''beliefs''"] deactivation_preserves [OF run there id, of "''scratch''"] run
  show ?thesis
    by (auto simp: survives_def PRESERVED_ON_DEACTIVATION_def before_def activated_def materialized_def dhas_def)
qed

end
