(* ===== verification/PersonaSchema.thy ===== *)
theory PersonaSchema
  imports Cognition "HOL-Library.Multiset"
begin

text \<open>
  Dimensions of a persona and the rules between them: \<open>DimensionSpec\<close> and \<open>PersonaConstraint\<close> of
  \<open>persona/models.py\<close>, \<open>PersonaSchemaRegistry\<close> of \<open>persona/registry.py\<close> and \<open>PersonaValidator\<close> of
  \<open>persona/validation/validator.py\<close>. A registry is loaded from YAML files; their parsing is not modelled,
  the loader works on what the files contain. Where the code iterates over a set, the model
  iterates in the order of the names: the order only decides which error is raised.
\<close>

section \<open>Records\<close>

datatype dimension_kind = ENUM | INTEGER | NUMBER | BOOLEAN

type_synonym clauses = "(string \<times> jval list) list"

record dimension_spec =
  ds_name :: string
  ds_domain_pack :: string
  ds_kind :: dimension_kind
  ds_values :: "string list"
  ds_minimum :: "rat option"
  ds_maximum :: "rat option"
  ds_default :: jval
  ds_depends_on :: clauses

record domain_pack =
  dp_pack_id :: string
  dp_version :: string
  dp_description :: string

record persona_constraint =
  pc_rule_id :: string
  pc_when :: clauses
  pc_require :: clauses
  pc_forbid :: clauses
  pc_message :: string

record registry =
  rg_dimensions :: "(string \<times> dimension_spec) list"
  rg_constraints :: "persona_constraint list"
  rg_domain_packs :: "(string \<times> domain_pack) list"

definition SCHEMA_VERSION :: string where
  "SCHEMA_VERSION = ''2.0.0''"

section \<open>Values\<close>

text \<open>\<open>value in allowed\<close>\<close>

definition allowed_in :: "jval list \<Rightarrow> jval \<Rightarrow> bool" where
  "allowed_in allowed v = list_ex (\<lambda>a. py_eq a v) allowed"

fun is_integer :: "jval \<Rightarrow> bool" where
  "is_integer (JInt n) = True"
| "is_integer _ = False"

fun is_number :: "jval \<Rightarrow> bool" where
  "is_number (JInt n) = True"
| "is_number (JFloat q) = True"
| "is_number _ = False"

fun is_boolean :: "jval \<Rightarrow> bool" where
  "is_boolean (JBool b) = True"
| "is_boolean _ = False"

definition below :: "jval \<Rightarrow> rat \<Rightarrow> bool" where
  "below v q = (case num_val v of None \<Rightarrow> False | Some x \<Rightarrow> x < q)"

definition above :: "jval \<Rightarrow> rat \<Rightarrow> bool" where
  "above v q = (case num_val v of None \<Rightarrow> False | Some x \<Rightarrow> q < x)"

definition show_list :: "pylib \<Rightarrow> jval list \<Rightarrow> string" where
  "show_list L vs = py_repr L (JList vs)"

definition validate_value :: "pylib \<Rightarrow> dimension_spec \<Rightarrow> jval \<Rightarrow> string option" where
  "validate_value L d v =
     (if ds_kind d = ENUM \<and> \<not> allowed_in (map JStr (ds_values d)) v
      then Some (ds_name d @ '' must be one of '' @ show_list L (map JStr (ds_values d)))
      else if ds_kind d = BOOLEAN \<and> \<not> is_boolean v then Some (ds_name d @ '' must be boolean'')
      else if ds_kind d = INTEGER \<and> \<not> is_integer v then Some (ds_name d @ '' must be an integer'')
      else if ds_kind d = NUMBER \<and> \<not> is_number v then Some (ds_name d @ '' must be numeric'')
      else if ds_kind d \<in> {INTEGER, NUMBER} then
        (case (case ds_minimum d of None \<Rightarrow> None | Some lo \<Rightarrow>
             if below v lo then Some (ds_name d @ '' must be >= '' @ py_repr L (JFloat lo)) else None) of
           Some e \<Rightarrow> Some e
         | None \<Rightarrow> (case ds_maximum d of None \<Rightarrow> None | Some hi \<Rightarrow>
             if above v hi then Some (ds_name d @ '' must be <= '' @ py_repr L (JFloat hi)) else None))
      else None)"

text \<open>\<open>values.get(parent) in allowed\<close>; an absent value is \<open>None\<close>.\<close>

definition is_enabled :: "dimension_spec \<Rightarrow> jdict \<Rightarrow> bool" where
  "is_enabled d vs = list_all (\<lambda>(parent, allowed). allowed_in allowed (dget_or vs parent JNull)) (ds_depends_on d)"

section \<open>The dependency graph\<close>

definition mentions :: "clauses \<Rightarrow> string \<Rightarrow> bool" where
  "mentions cs n = list_ex (\<lambda>(k, _). k = n) cs"

definition generation_dependencies :: "registry \<Rightarrow> string \<Rightarrow> string list" where
  "generation_dependencies r n =
     sort (remdups (filter (\<lambda>k. k \<noteq> n)
       ((case dget (rg_dimensions r) n of None \<Rightarrow> [] | Some d \<Rightarrow> map fst (ds_depends_on d)) @
        concat (map (\<lambda>rule. if mentions (pc_require rule) n \<or> mentions (pc_forbid rule) n
          then map fst (pc_when rule) else []) (rg_constraints r)))))"

definition for_each :: "('a \<Rightarrow> unit res) \<Rightarrow> 'a list \<Rightarrow> unit res" where
  "for_each f xs = foldR (\<lambda>_. f) () xs"

definition unknown_names :: "registry \<Rightarrow> string list \<Rightarrow> string list" where
  "unknown_names r ns = sort (remdups (filter (\<lambda>n. \<not> dhas (rg_dimensions r) n) ns))"

text \<open>The values of a clause that its dimension does not admit.\<close>

definition invalid_values :: "pylib \<Rightarrow> registry \<Rightarrow> string \<Rightarrow> jval list \<Rightarrow> jval list res" where
  "invalid_values L r n vs = bindR (of_option (KeyError n) (dget (rg_dimensions r) n)) (\<lambda>d.
     Inr (filter (\<lambda>v. validate_value L d v \<noteq> None) vs))"

definition check_dimension :: "pylib \<Rightarrow> registry \<Rightarrow> string \<times> dimension_spec \<Rightarrow> unit res" where
  "check_dimension L r = (\<lambda>(n, d).
     (let missing = unknown_names r (map fst (ds_depends_on d))
      in bindR (ensure (missing = []) (ValueError (n @ '' depends on unknown dimensions: '' @ show_list L (map JStr missing)))) (\<lambda>_.
         bindR (ensure (ds_default d \<noteq> JNull) (ValueError (n @ '' must declare a default''))) (\<lambda>_.
         bindR (case validate_value L d (ds_default d) of None \<Rightarrow> Inr ()
           | Some e \<Rightarrow> Inl (ValueError (''Invalid default: '' @ e))) (\<lambda>_.
         for_each (\<lambda>(parent, allowed). bindR (invalid_values L r parent allowed) (\<lambda>bad.
             ensure (bad = []) (ValueError (n @ '' dependency '' @ parent @ '' has invalid values: '' @ show_list L bad))))
           (ds_depends_on d))))))"

definition check_constraint ::
  "pylib \<Rightarrow> registry \<Rightarrow> string list \<Rightarrow> persona_constraint \<Rightarrow> string list res" where
  "check_constraint L r seen rule =
     bindR (ensure (pc_rule_id rule \<notin> set seen) (ValueError (''Duplicate persona constraint '' @ pc_rule_id rule))) (\<lambda>_.
     let cs = pc_when rule @ pc_require rule @ pc_forbid rule;
         missing = unknown_names r (map fst cs)
     in bindR (ensure (missing = []) (ValueError (''Constraint '' @ pc_rule_id rule @
           '' references unknown dimensions: '' @ show_list L (map JStr missing)))) (\<lambda>_.
        bindR (for_each (\<lambda>(n, allowed). bindR (invalid_values L r n allowed) (\<lambda>bad.
             ensure (bad = []) (ValueError (''Constraint '' @ pc_rule_id rule @ '' has invalid '' @ n @ '' values: '' @ show_list L bad))))
           cs) (\<lambda>_.
        Inr (pc_rule_id rule # seen))))"

lemma foldR_cong [fundef_cong]:
  assumes "s = s'" and "xs = ys" and "\<And>acc x. x \<in> set ys \<Longrightarrow> f acc x = g acc x"
  shows "foldR f s xs = foldR g s' ys"
  using assms by (induction xs arbitrary: s s' ys) (auto simp: bindR_def split: sum.splits)

text \<open>
  The depth-first search of \<open>validate_graph\<close>: \<open>visiting\<close> are the names on the current path, \<open>visited\<close>
  those completed, the latest first.
\<close>

function visit :: "registry \<Rightarrow> string list \<Rightarrow> string list \<Rightarrow> string \<Rightarrow> string list res" where
  "visit r visiting visited n =
     (if n \<in> set visiting then Inl (ValueError (''Persona dependency cycle includes '' @ n))
      else if n \<in> set visited then Inr visited
      else if \<not> dhas (rg_dimensions r) n then Inl (KeyError n)
      else bindR (foldR (\<lambda>acc dep. visit r (n # visiting) acc dep) visited (generation_dependencies r n)) (\<lambda>acc.
        Inr (n # acc)))"
  by pat_completeness auto

termination
proof (relation "measure (\<lambda>(r, visiting, visited, n). card (fst ` set (rg_dimensions r) - set visiting))")
  fix r :: registry and visiting visited :: "string list" and n acc dep
  assume "n \<notin> set visiting" and "\<not> \<not> dhas (rg_dimensions r) n"
  then have "n \<in> fst ` set (rg_dimensions r) - set visiting" by (simp add: dhas_def map_of_eq_None_iff image_iff)
  then have "card (fst ` set (rg_dimensions r) - set (n # visiting)) < card (fst ` set (rg_dimensions r) - set visiting)"
    by (intro psubset_card_mono) auto
  then show "((r, n # visiting, acc, dep), r, visiting, visited, n) \<in>
      measure (\<lambda>(r, visiting, visited, n). card (fst ` set (rg_dimensions r) - set visiting))" by simp
qed simp

declare visit.simps [simp del]

definition validate_graph :: "pylib \<Rightarrow> registry \<Rightarrow> unit res" where
  "validate_graph L r =
     bindR (for_each (check_dimension L r) (rg_dimensions r)) (\<lambda>_.
     bindR (foldR (check_constraint L r) [] (rg_constraints r)) (\<lambda>_.
     bindR (foldR (visit r []) [] (map fst (rg_dimensions r))) (\<lambda>_. Inr ())))"

text \<open>
  \<open>ordered_dimensions\<close>: in every round the dimensions whose dependencies have been emitted come out in the
  order of their names.
\<close>

definition ready_in :: "registry \<Rightarrow> (string \<times> dimension_spec) list \<Rightarrow> string \<times> dimension_spec \<Rightarrow> bool" where
  "ready_in r emitted p \<longleftrightarrow> set (generation_dependencies r (fst p)) \<subseteq> fst ` set emitted"

function order_rounds ::
  "registry \<Rightarrow> (string \<times> dimension_spec) list \<Rightarrow> (string \<times> dimension_spec) list \<Rightarrow>
     (string \<times> dimension_spec) list res" where
  "order_rounds r remaining emitted =
     (if remaining = [] then Inr emitted
      else if filter (ready_in r emitted) remaining = [] then Inl (ValueError ''Persona dependency graph cannot be ordered'')
      else order_rounds r (filter (\<lambda>p. \<not> ready_in r emitted p) remaining)
        (emitted @ sort_key fst (filter (ready_in r emitted) remaining)))"
  by pat_completeness auto

termination
  by (relation "measure (\<lambda>(r, remaining, emitted). length remaining)")
    (auto simp: filter_empty_conv length_filter_less)

declare order_rounds.simps [simp del]

definition ordered_dimensions :: "registry \<Rightarrow> dimension_spec list res" where
  "ordered_dimensions r = bindR (order_rounds r (rg_dimensions r) []) (\<lambda>ps. Inr (map snd ps))"

definition defaults :: "registry \<Rightarrow> jdict res" where
  "defaults r = bindR (ordered_dimensions r) (\<lambda>ds.
     Inr (foldl (\<lambda>vs d. if is_enabled d vs then dset vs (ds_name d) (ds_default d) else vs) [] ds))"

section \<open>Constraints\<close>

definition required_violation :: "pylib \<Rightarrow> bool \<Rightarrow> jdict \<Rightarrow> string \<times> jval list \<Rightarrow> string list" where
  "required_violation L partial vs = (\<lambda>(n, allowed). case dget vs n of
      None \<Rightarrow> if partial then [] else [n @ '' is required'']
    | Some v \<Rightarrow> if allowed_in allowed v then [] else [n @ '' must be one of '' @ show_list L allowed])"

definition forbidden_violation :: "pylib \<Rightarrow> jdict \<Rightarrow> string \<times> jval list \<Rightarrow> string list" where
  "forbidden_violation L vs = (\<lambda>(n, forbidden). case dget vs n of
      None \<Rightarrow> []
    | Some v \<Rightarrow> if allowed_in forbidden v then [n @ '' cannot be '' @ py_str L v] else [])"

definition rule_applies :: "jdict \<Rightarrow> persona_constraint \<Rightarrow> bool" where
  "rule_applies vs rule = list_all (\<lambda>(n, allowed). case dget vs n of None \<Rightarrow> False | Some v \<Rightarrow> allowed_in allowed v) (pc_when rule)"

definition rule_errors :: "pylib \<Rightarrow> bool \<Rightarrow> jdict \<Rightarrow> persona_constraint \<Rightarrow> string list" where
  "rule_errors L partial vs rule =
     (if rule_applies vs rule then
        (let violations = concat (map (required_violation L partial vs) (pc_require rule)) @
               concat (map (forbidden_violation L vs) (pc_forbid rule))
         in if violations = [] then []
            else [pc_rule_id rule @ '': '' @ (if pc_message rule \<noteq> [] then pc_message rule else join_with ''; '' violations)])
      else [])"

definition constraint_errors :: "pylib \<Rightarrow> registry \<Rightarrow> bool \<Rightarrow> jdict \<Rightarrow> string list" where
  "constraint_errors L r partial vs = concat (map (rule_errors L partial vs) (rg_constraints r))"

section \<open>The validator\<close>

record persona_validation =
  pv_valid :: bool
  pv_ruleset_version :: string
  pv_errors :: "string list"
  pv_warnings :: "string list"
  pv_active_dimensions :: "string list"

definition RULESET_VERSION :: string where
  "RULESET_VERSION = ''constraints-0.2.0''"

text \<open>The state of the validation loop: errors, active names and the values known to be valid.\<close>

type_synonym validation_state = "string list \<times> string list \<times> jdict"

definition validate_step :: "pylib \<Rightarrow> jdict \<Rightarrow> bool \<Rightarrow> validation_state \<Rightarrow> dimension_spec \<Rightarrow> validation_state" where
  "validate_step L dims whole = (\<lambda>(errors, active, known) d.
     if \<not> is_enabled d known then
       (if dhas dims (ds_name d) then errors @ [ds_name d @ '' is inactive for its dependency assignments''] else errors,
        active, known)
     else (case dget dims (ds_name d) of
         None \<Rightarrow> (if whole then errors @ [''Missing active dimension: '' @ ds_name d] else errors,
           active @ [ds_name d], known)
       | Some v \<Rightarrow> (case validate_value L d v of
             Some e \<Rightarrow> (errors @ [e], active @ [ds_name d], known)
           | None \<Rightarrow> (errors, active @ [ds_name d], dset known (ds_name d) v))))"

definition validate_dimensions :: "pylib \<Rightarrow> registry \<Rightarrow> jdict \<Rightarrow> bool \<Rightarrow> persona_validation res" where
  "validate_dimensions L r dims whole =
     (let unknown = unknown_names r (map fst dims);
          start = (if unknown = [] then [] else [''Unknown dimensions: '' @ show_list L (map JStr unknown)])
      in bindR (ordered_dimensions r) (\<lambda>ds.
         let (errors, active, known) = foldl (validate_step L dims whole) (start, [], []) ds;
             all_errors = errors @ constraint_errors L r (\<not> whole) dims
         in Inr \<lparr>pv_valid = (all_errors = []), pv_ruleset_version = RULESET_VERSION, pv_errors = all_errors,
              pv_warnings = [], pv_active_dimensions = active\<rparr>))"

section \<open>Loading\<close>

text \<open>What one YAML file holds: its pack, its dimensions (with the pack as default domain pack), its constraints.\<close>

record schema_file =
  sf_pack :: domain_pack
  sf_dimensions :: "dimension_spec list"
  sf_constraints :: "persona_constraint list"

definition add_dimension :: "(string \<times> dimension_spec) list \<Rightarrow> dimension_spec \<Rightarrow> (string \<times> dimension_spec) list res" where
  "add_dimension ds d = bindR (ensure (\<not> dhas ds (ds_name d)) (ValueError (''Duplicate persona dimension '' @ ds_name d))) (\<lambda>_.
     Inr (dset ds (ds_name d) d))"

definition add_file :: "registry \<Rightarrow> schema_file \<Rightarrow> registry res" where
  "add_file r f = (let pack = sf_pack f in
     bindR (ensure (case dget (rg_domain_packs r) (dp_pack_id pack) of None \<Rightarrow> True | Some p \<Rightarrow> p = pack)
       (ValueError (''Conflicting domain pack metadata: '' @ dp_pack_id pack))) (\<lambda>_.
     bindR (foldR add_dimension (rg_dimensions r) (sf_dimensions f)) (\<lambda>ds.
     Inr \<lparr>rg_dimensions = ds, rg_constraints = rg_constraints r @ sf_constraints f,
       rg_domain_packs = dset (rg_domain_packs r) (dp_pack_id pack) pack\<rparr>)))"

definition load_registry :: "pylib \<Rightarrow> schema_file list \<Rightarrow> registry res" where
  "load_registry L files =
     bindR (foldR add_file \<lparr>rg_dimensions = [], rg_constraints = [], rg_domain_packs = []\<rparr> files) (\<lambda>r.
     bindR (validate_graph L r) (\<lambda>_. Inr r))"

section \<open>The graph can be ordered\<close>

text \<open>Names completed by the search, the latest first: each comes after its dependencies.\<close>

fun completed_order :: "registry \<Rightarrow> string list \<Rightarrow> bool" where
  "completed_order r [] = True"
| "completed_order r (n # vs) =
     (dhas (rg_dimensions r) n \<and> set (generation_dependencies r n) \<subseteq> set vs \<and> completed_order r vs)"

lemma foldR_collect:
  assumes "\<And>acc x acc'. \<lbrakk>x \<in> set xs; P acc; f acc x = Inr acc'\<rbrakk> \<Longrightarrow> P acc' \<and> x \<in> set acc' \<and> set acc \<subseteq> set acc'"
    and "P acc" and "foldR f acc xs = Inr acc'"
  shows "P acc' \<and> set xs \<subseteq> set acc' \<and> set acc \<subseteq> set acc'"
  using assms
proof (induction xs arbitrary: acc)
  case (Cons x xs)
  from Cons.prems(3) obtain b where b: "f acc x = Inr b" and rest: "foldR f b xs = Inr acc'" by (auto simp: bindR_eq_Inr)
  have first: "P b \<and> x \<in> set b \<and> set acc \<subseteq> set b" using Cons.prems(1) [OF _ Cons.prems(2) b] by simp
  have "P acc' \<and> set xs \<subseteq> set acc' \<and> set b \<subseteq> set acc'"
    by (rule Cons.IH [OF _ _ rest]) (use Cons.prems(1) first in auto)
  with first show ?case by auto
qed simp

lemma visit_completes:
  "\<lbrakk>visit r visiting visited n = Inr visited'; completed_order r visited\<rbrakk>
    \<Longrightarrow> completed_order r visited' \<and> n \<in> set visited' \<and> set visited \<subseteq> set visited'"
proof (induction r visiting visited n arbitrary: visited' rule: visit.induct)
  case (1 r visiting visited n)
  show ?case
  proof (cases "n \<in> set visited")
    case True
    then show ?thesis using "1.prems" by (simp add: visit.simps [of r visiting visited n] split: if_splits)
  next
    case False
    from "1.prems"(1) False have fresh: "n \<notin> set visiting" "dhas (rg_dimensions r) n"
      by (simp_all add: visit.simps [of r visiting visited n] split: if_splits)
    from "1.prems"(1) False fresh obtain acc where
      acc: "foldR (\<lambda>acc dep. visit r (n # visiting) acc dep) visited (generation_dependencies r n) = Inr acc"
      and v: "visited' = n # acc"
      by (auto simp: visit.simps [of r visiting visited n] bindR_eq_Inr)
    have "completed_order r acc \<and> set (generation_dependencies r n) \<subseteq> set acc \<and> set visited \<subseteq> set acc"
    proof (rule foldR_collect [where P = "completed_order r", OF _ "1.prems"(2) acc])
      fix a x a'
      assume "x \<in> set (generation_dependencies r n)" and "completed_order r a" and "visit r (n # visiting) a x = Inr a'"
      with "1.IH" [OF fresh(1) False] fresh(2)
      show "completed_order r a' \<and> x \<in> set a' \<and> set a \<subseteq> set a'" by simp
    qed
    with fresh v show ?thesis by auto
  qed
qed

lemma completed_split: "completed_order r (xs @ n # ys) \<Longrightarrow> set (generation_dependencies r n) \<subseteq> set ys"
  by (induction xs) auto

lemma completed_known: "completed_order r vs \<Longrightarrow> n \<in> set vs \<Longrightarrow> dhas (rg_dimensions r) n"
  by (induction vs) auto

text \<open>As long as dimensions remain, one of them has all its dependencies among the others.\<close>

lemma some_ready:
  assumes "completed_order r vs" and "fst ` set remaining \<subseteq> set vs" and "remaining \<noteq> []"
    and "fst ` set (rg_dimensions r) \<subseteq> fst ` set remaining \<union> emitted"
  shows "\<exists>p\<in>set remaining. set (generation_dependencies r (fst p)) \<subseteq> emitted"
proof -
  have "\<exists>n\<in>set vs. n \<in> fst ` set remaining" using assms(2,3) by (cases remaining) auto
  then obtain xs n ys where vs: "vs = xs @ n # ys" and n: "n \<in> fst ` set remaining"
    and later: "\<forall>z\<in>set ys. z \<notin> fst ` set remaining" using split_list_last_prop [of vs "\<lambda>n. n \<in> fst ` set remaining"] by blast
  have "set (generation_dependencies r n) \<subseteq> set ys" using assms(1) unfolding vs by (rule completed_split)
  also have "set ys \<subseteq> emitted"
  proof
    fix z assume z: "z \<in> set ys"
    then have "dhas (rg_dimensions r) z" using completed_known [OF assms(1), of z] by (simp add: vs)
    then have "z \<in> fst ` set (rg_dimensions r)" by (simp add: dhas_def map_of_eq_None_iff)
    with z later assms(4) show "z \<in> emitted" by blast
  qed
  finally show ?thesis using n by auto
qed

lemma order_rounds_returns:
  assumes order: "completed_order r vs"
  shows "\<lbrakk>fst ` set remaining \<subseteq> set vs; fst ` set (rg_dimensions r) \<subseteq> fst ` set remaining \<union> fst ` set emitted\<rbrakk>
    \<Longrightarrow> \<exists>ps. order_rounds r remaining emitted = Inr ps"
proof (induction "length remaining" arbitrary: remaining emitted rule: less_induct)
  case less
  let ?ready = "filter (ready_in r emitted) remaining" and ?rest = "filter (\<lambda>p. \<not> ready_in r emitted p) remaining"
  show ?case
  proof (cases "remaining = []")
    case True
    then show ?thesis by (simp add: order_rounds.simps)
  next
    case False
    from some_ready [OF order less.prems(1) False less.prems(2)] obtain p
      where p: "p \<in> set remaining" "ready_in r emitted p" by (auto simp: ready_in_def)
    then have ready: "?ready \<noteq> []" by (auto simp: filter_empty_conv)
    have "length ?rest < length remaining" using p by (intro length_filter_less) auto
    moreover have "fst ` set ?rest \<subseteq> set vs" using less.prems(1) by auto
    moreover have "fst ` set (rg_dimensions r) \<subseteq> fst ` set ?rest \<union> fst ` set (emitted @ sort_key fst ?ready)"
      using less.prems(2) by auto
    ultimately have "\<exists>ps. order_rounds r ?rest (emitted @ sort_key fst ?ready) = Inr ps" by (rule less.hyps)
    with False ready show ?thesis by (simp add: order_rounds.simps [of r remaining emitted])
  qed
qed

text \<open>In an ordered list every dimension comes after those it depends on.\<close>

fun ready_order :: "registry \<Rightarrow> string set \<Rightarrow> (string \<times> dimension_spec) list \<Rightarrow> bool" where
  "ready_order r seen [] = True"
| "ready_order r seen (p # ps) =
     (set (generation_dependencies r (fst p)) \<subseteq> seen \<and> ready_order r (insert (fst p) seen) ps)"

lemma ready_order_append:
  "ready_order r seen (xs @ ys) \<longleftrightarrow> ready_order r seen xs \<and> ready_order r (seen \<union> fst ` set xs) ys"
  by (induction xs arbitrary: seen) auto

lemma ready_order_all: "\<forall>p\<in>set xs. set (generation_dependencies r (fst p)) \<subseteq> seen \<Longrightarrow> ready_order r seen xs"
  by (induction xs arbitrary: seen) (simp_all add: subset_insertI2)

lemma order_rounds_sound:
  "\<lbrakk>order_rounds r remaining emitted = Inr ps; ready_order r {} emitted\<rbrakk>
    \<Longrightarrow> mset ps = mset emitted + mset remaining \<and> ready_order r {} ps"
proof (induction "length remaining" arbitrary: remaining emitted rule: less_induct)
  case less
  let ?ready = "filter (ready_in r emitted) remaining" and ?rest = "filter (\<lambda>p. \<not> ready_in r emitted p) remaining"
  show ?case
  proof (cases "remaining = []")
    case True
    then show ?thesis using less.prems by (simp add: order_rounds.simps)
  next
    case False
    then have ready: "?ready \<noteq> []" and rec: "order_rounds r ?rest (emitted @ sort_key fst ?ready) = Inr ps"
      using less.prems(1) by (simp_all add: order_rounds.simps [of r remaining emitted] split: if_splits)
    have "length ?rest < length remaining"
    proof -
      obtain p where "p \<in> set remaining" "ready_in r emitted p" using ready by (auto simp: filter_empty_conv)
      then show ?thesis by (intro length_filter_less) auto
    qed
    moreover have "ready_order r {} (emitted @ sort_key fst ?ready)"
      using less.prems(2) ready_order_all [of "sort_key fst ?ready" r "fst ` set emitted"]
      by (simp add: ready_order_append ready_in_def)
    ultimately have "mset ps = mset (emitted @ sort_key fst ?ready) + mset ?rest \<and> ready_order r {} ps"
      using less.hyps rec by blast
    moreover have "mset ?ready + mset ?rest = mset remaining"
      using multiset_partition [of "mset remaining" "ready_in r emitted"] by simp
    ultimately show ?thesis by (simp add: ac_simps)
  qed
qed

lemma graph_visits: "validate_graph L r = Inr () \<Longrightarrow> \<exists>vs. completed_order r vs \<and> fst ` set (rg_dimensions r) \<subseteq> set vs"
proof -
  assume "validate_graph L r = Inr ()"
  then obtain vs where "foldR (visit r []) [] (map fst (rg_dimensions r)) = Inr vs"
    by (auto simp: validate_graph_def bindR_eq_Inr)
  moreover from foldR_collect [OF _ _ this, where P = "completed_order r"]
  have "completed_order r vs \<and> set (map fst (rg_dimensions r)) \<subseteq> set vs"
    by (auto dest: visit_completes)
  ultimately show ?thesis by auto
qed

lemma ordered_spec:
  assumes "validate_graph L r = Inr ()"
  shows "\<exists>ps. ordered_dimensions r = Inr (map snd ps) \<and> mset ps = mset (rg_dimensions r) \<and> ready_order r {} ps"
proof -
  obtain vs where "completed_order r vs" "fst ` set (rg_dimensions r) \<subseteq> set vs" using graph_visits [OF assms] by blast
  from order_rounds_returns [OF this, of "[]"] obtain ps where ps: "order_rounds r (rg_dimensions r) [] = Inr ps" by auto
  from order_rounds_sound [OF ps] ps show ?thesis by (auto simp: ordered_dimensions_def)
qed

text \<open>
  C24. A schema whose graph validates can always be put in order: no round of the ordering comes up empty, the
  result contains every dimension exactly as often as the schema does, and each dimension comes after all those its
  activation and its constraints depend on.
\<close>

theorem persona_schema_is_ordered:
  assumes "validate_graph L r = Inr ()"
  shows "\<exists>ps. ordered_dimensions r = Inr (map snd ps) \<and> mset ps = mset (rg_dimensions r) \<and>
    (\<forall>xs p ys. ps = xs @ p # ys \<longrightarrow> set (generation_dependencies r (fst p)) \<subseteq> fst ` set xs)"
proof -
  obtain ps where "ordered_dimensions r = Inr (map snd ps)" "mset ps = mset (rg_dimensions r)" "ready_order r {} ps"
    using ordered_spec [OF assms] by blast
  then show ?thesis by (intro exI [of _ ps]) (auto simp: ready_order_append)
qed

section \<open>What a valid profile is\<close>

definition registry_keyed :: "registry \<Rightarrow> bool" where
  "registry_keyed r \<longleftrightarrow> distinct (map fst (rg_dimensions r)) \<and> (\<forall>(n, d)\<in>set (rg_dimensions r). ds_name d = n)"

text \<open>
  A dimension is active when its parents have the values it asks for; a dimension that asks for itself never is.
\<close>

definition dimension_ok :: "pylib \<Rightarrow> jdict \<Rightarrow> bool \<Rightarrow> dimension_spec \<Rightarrow> bool" where
  "dimension_ok L vs whole d =
     (if is_enabled d (ddel vs (ds_name d))
      then (case dget vs (ds_name d) of None \<Rightarrow> \<not> whole | Some v \<Rightarrow> validate_value L d v = None)
      else \<not> dhas vs (ds_name d))"

definition clause_met :: "jdict \<Rightarrow> bool \<Rightarrow> string \<times> jval list \<Rightarrow> bool" where
  "clause_met vs absent = (\<lambda>(n, allowed). case dget vs n of None \<Rightarrow> absent | Some v \<Rightarrow> allowed_in allowed v)"

definition constraint_ok :: "jdict \<Rightarrow> bool \<Rightarrow> persona_constraint \<Rightarrow> bool" where
  "constraint_ok vs whole rule \<longleftrightarrow>
     ((\<forall>c\<in>set (pc_when rule). clause_met vs False c) \<longrightarrow>
        (\<forall>c\<in>set (pc_require rule). clause_met vs (\<not> whole) c) \<and>
        (\<forall>c\<in>set (pc_forbid rule). \<not> clause_met vs False c))"

definition profile_ok :: "pylib \<Rightarrow> registry \<Rightarrow> bool \<Rightarrow> jdict \<Rightarrow> bool" where
  "profile_ok L r whole vs \<longleftrightarrow> (\<forall>n\<in>fst ` set vs. dhas (rg_dimensions r) n) \<and>
     (\<forall>d\<in>snd ` set (rg_dimensions r). dimension_ok L vs whole d) \<and>
     (\<forall>rule\<in>set (rg_constraints r). constraint_ok vs whole rule)"

lemma no_rule_errors: "rule_errors L (\<not> whole) vs rule = [] \<longleftrightarrow> constraint_ok vs whole rule"
proof -
  have applies: "rule_applies vs rule \<longleftrightarrow> (\<forall>c\<in>set (pc_when rule). clause_met vs False c)"
    by (simp add: rule_applies_def clause_met_def list_all_iff)
  have required: "required_violation L (\<not> whole) vs c = [] \<longleftrightarrow> clause_met vs (\<not> whole) c" for c
    by (simp add: required_violation_def clause_met_def split: prod.splits option.splits)
  have forbidden: "forbidden_violation L vs c = [] \<longleftrightarrow> \<not> clause_met vs False c" for c
    by (simp add: forbidden_violation_def clause_met_def split: prod.splits option.splits)
  show ?thesis
    by (auto simp: rule_errors_def constraint_ok_def Let_def applies required forbidden)
qed

lemma no_constraint_errors:
  "constraint_errors L r (\<not> whole) vs = [] \<longleftrightarrow> (\<forall>rule\<in>set (rg_constraints r). constraint_ok vs whole rule)"
  by (simp add: constraint_errors_def no_rule_errors)

lemma no_unknown_names: "unknown_names r ns = [] \<longleftrightarrow> (\<forall>n\<in>set ns. dhas (rg_dimensions r) n)"
proof -
  have "unknown_names r ns = [] \<longleftrightarrow> set (unknown_names r ns) = {}" by simp
  then show ?thesis by (auto simp: unknown_names_def)
qed

lemma validate_step_errors: "fst (validate_step L vs whole s d) = [] \<Longrightarrow> fst s = []"
  by (cases s) (auto simp: validate_step_def split: if_splits option.splits)

lemma validate_fold_errors: "fst (foldl (validate_step L vs whole) s ds) = [] \<Longrightarrow> fst s = []"
  by (induction ds arbitrary: s) (simp, metis foldl_Cons validate_step_errors)

lemma enabled_cong:
  assumes "\<And>parent allowed. (parent, allowed) \<in> set (ds_depends_on d) \<Longrightarrow> dget vs parent = dget ws parent"
  shows "is_enabled d vs = is_enabled d ws"
  using assms by (auto simp: is_enabled_def list_all_iff dget_or_def)

lemma parents_are_dependencies:
  assumes "dget (rg_dimensions r) n = Some d" and "(parent, allowed) \<in> set (ds_depends_on d)" and "parent \<noteq> n"
  shows "parent \<in> set (generation_dependencies r n)"
proof -
  have "parent \<in> fst ` set (ds_depends_on d)" using assms(2) by force
  with assms(1,3) show ?thesis by (simp add: generation_dependencies_def)
qed

text \<open>The loop knows, of the dimensions it has passed, exactly the given values; it stays without errors as long as they are right.\<close>

lemma validate_fold_ok:
  assumes "ready_order r seen ps"
    and "\<And>n d. (n, d) \<in> set ps \<Longrightarrow> dget (rg_dimensions r) n = Some d \<and> ds_name d = n"
    and "distinct (map fst ps)" and "seen \<inter> fst ` set ps = {}"
    and "\<And>k. dget known k = (if k \<in> seen then dget vs k else None)"
  shows "fst (foldl (validate_step L vs whole) ([], active, known) (map snd ps)) = [] \<longleftrightarrow>
    (\<forall>p\<in>set ps. dimension_ok L vs whole (snd p))"
  using assms
proof (induction ps arbitrary: seen known active)
  case (Cons p ps)
  obtain n d where p: "p = (n, d)" by (cases p)
  have d: "dget (rg_dimensions r) n = Some d" "ds_name d = n" using Cons.prems(2) [of n d] by (simp_all add: p)
  have deps: "set (generation_dependencies r n) \<subseteq> seen" using Cons.prems(1) by (simp add: p)
  have n: "n \<notin> seen" using Cons.prems(4) by (auto simp: p)
  have enabled: "is_enabled d known = is_enabled d (ddel vs n)"
  proof (rule enabled_cong)
    fix parent allowed assume a: "(parent, allowed) \<in> set (ds_depends_on d)"
    show "dget known parent = dget (ddel vs n) parent"
    proof (cases "parent = n")
      case False
      with parents_are_dependencies [OF d(1) a] deps Cons.prems(5) show ?thesis by auto
    qed (use n Cons.prems(5) in simp)
  qed
  let ?stepped = "validate_step L vs whole ([], active, known) d"
  show ?case
  proof (cases "dimension_ok L vs whole d")
    case False
    then have "fst ?stepped \<noteq> []"
      by (auto simp: dimension_ok_def validate_step_def enabled d(2) dhas_def split: if_splits option.splits)
    then have "fst (foldl (validate_step L vs whole) ?stepped (map snd ps)) \<noteq> []" using validate_fold_errors by blast
    with False show ?thesis by (simp add: p)
  next
    case True
    then obtain active' known' where stepped: "?stepped = ([], active', known')"
      and known': "\<And>k. dget known' k = (if k \<in> insert n seen then dget vs k else None)"
      using n Cons.prems(5)
      by (auto simp: dimension_ok_def validate_step_def enabled d(2) dhas_def split: if_splits option.splits)
    have "fst (foldl (validate_step L vs whole) ([], active', known') (map snd ps)) = [] \<longleftrightarrow>
        (\<forall>p\<in>set ps. dimension_ok L vs whole (snd p))"
    proof (rule Cons.IH [of "insert n seen"])
      show "ready_order r (insert n seen) ps" and "distinct (map fst ps)" using Cons.prems(1,3) by (simp_all add: p)
      show "dget (rg_dimensions r) n' = Some d' \<and> ds_name d' = n'" if "(n', d') \<in> set ps" for n' d'
        using Cons.prems(2) [of n' d'] that by simp
      show "insert n seen \<inter> fst ` set ps = {}" using Cons.prems(3,4) by (auto simp: p)
      show "dget known' k = (if k \<in> insert n seen then dget vs k else None)" for k by (rule known')
    qed
    with True stepped show ?thesis by (simp add: p)
  qed
qed simp

lemma validator_spec:
  assumes graph: "validate_graph L r = Inr ()" and keyed: "registry_keyed r"
  shows "\<exists>pv. validate_dimensions L r vs whole = Inr pv \<and> (pv_valid pv \<longleftrightarrow> profile_ok L r whole vs)"
proof -
  obtain ps where ps: "ordered_dimensions r = Inr (map snd ps)" "mset ps = mset (rg_dimensions r)" "ready_order r {} ps"
    using ordered_spec [OF graph] by blast
  have set_ps: "set ps = set (rg_dimensions r)" using ps(2) by (rule mset_eq_setD)
  have names: "distinct (map fst ps)"
    using keyed ps(2) by (metis mset_eq_imp_distinct_iff mset_map registry_keyed_def)
  have specs: "dget (rg_dimensions r) n = Some d \<and> ds_name d = n" if "(n, d) \<in> set ps" for n d
    using that keyed by (auto simp: set_ps registry_keyed_def)
  let ?unknown = "unknown_names r (map fst vs)"
  let ?start = "if ?unknown = [] then [] else [''Unknown dimensions: '' @ show_list L (map JStr ?unknown)]"
  let ?final = "foldl (validate_step L vs whole) (?start, [], []) (map snd ps)"
  have "fst ?final = [] \<longleftrightarrow> ?unknown = [] \<and> (\<forall>p\<in>set ps. dimension_ok L vs whole (snd p))"
  proof (cases "?unknown = []")
    case True
    then show ?thesis
      using validate_fold_ok [OF ps(3) specs names, of "[]" vs L whole "[]"] by simp
  next
    case False
    then show ?thesis using validate_fold_errors [of L vs whole "(?start, [], [])" "map snd ps"] by auto
  qed
  then show ?thesis
    by (auto simp: validate_dimensions_def Let_def ps(1) case_prod_unfold no_constraint_errors no_unknown_names
      profile_ok_def set_ps)
qed

text \<open>
  C25. The validator decides exactly what a valid profile is, although it looks at one dimension after
  another and trusts only the values it has already accepted: it never fails on a validated schema, and it accepts a
  profile if and only if all its names are known, every active dimension has an admissible value (or none, where the profile
  may be incomplete), no inactive one has a value, and every constraint whose condition holds is met.
\<close>

theorem validator_decides_profiles:
  assumes "validate_graph L r = Inr ()" and "registry_keyed r"
  shows "\<exists>pv. validate_dimensions L r vs whole = Inr pv \<and> (pv_valid pv \<longleftrightarrow> profile_ok L r whole vs)"
  by (rule validator_spec [OF assms])

end
