(* ===== verification/PersonaGenerator.thy ===== *)
theory PersonaGenerator
  imports PersonaSchema
begin

text \<open>
  \<open>PersonaGenerator\<close> of \<open>persona/generation/generator.py\<close>: a seeded walk over the ordered dimensions that
  fixes, defaults or draws a value for each active one, rejecting candidates that a constraint excludes.
  The weights of a distribution are numbers, as annotated. The floating-point sum, \<open>random.uniform\<close> and
  \<open>random.choices\<close> are the parameter \<open>sampler\<close>.
\<close>

record sampler =
  sm_sum :: "rat list \<Rightarrow> rat"                              \<comment> \<open>\<open>sum\<close> of floats\<close>
  sm_uniform :: "nat \<Rightarrow> rat \<Rightarrow> rat \<Rightarrow> rat \<times> nat"          \<comment> \<open>\<open>uniform\<close> and the next state\<close>
  sm_choices :: "nat \<Rightarrow> rat list \<Rightarrow> nat \<times> nat"            \<comment> \<open>the index \<open>choices\<close> picks for the weights\<close>

text \<open>
  The documented behaviour: a sum of non-negative numbers is positive only if one of them is, and a
  weighted choice picks an element of positive weight.
\<close>

definition lawful_sampler :: "sampler \<Rightarrow> bool" where
  "lawful_sampler S \<longleftrightarrow>
     (\<forall>ws. (\<forall>w\<in>set ws. 0 \<le> w) \<longrightarrow> 0 < sm_sum S ws \<longrightarrow> (\<exists>w\<in>set ws. 0 < w)) \<and>
     (\<forall>g ws. (\<forall>w\<in>set ws. 0 \<le> w) \<longrightarrow> (\<exists>w\<in>set ws. 0 < w) \<longrightarrow>
        fst (sm_choices S g ws) < length ws \<and> 0 < ws ! fst (sm_choices S g ws))"

type_synonym weights = "(jval \<times> rat) list"
type_synonym distributions = "(string \<times> weights) list"

definition GENERATOR_VERSION :: string where
  "GENERATOR_VERSION = ''persona-gen-0.2.0''"

datatype provenance_source = FIXED | DEFAULT | SEEDED_GENERATOR | WEIGHTED_DISTRIBUTION

record field_provenance =
  fp_source :: provenance_source
  fp_generator_version :: string
  fp_schema_version :: string
  fp_domain_pack :: string
  fp_seed :: int
  fp_distribution :: "(string \<times> rat) list"
  fp_constraint_rules :: "string list"

record persona_blueprint =
  bp_persona_id :: uuid
  bp_schema_version :: string
  bp_seed :: int
  bp_generator_version :: string
  bp_source :: string
  bp_dimensions :: jdict
  bp_derived_traits :: jdict
  bp_provenance :: "(string \<times> field_provenance) list"
  bp_validation :: persona_validation

section \<open>Feasibility of a candidate\<close>

text \<open>\<open>weights.get(candidate, 0)\<close>\<close>

definition weight_of :: "weights \<Rightarrow> jval \<Rightarrow> rat" where
  "weight_of ws v = (case List.find (\<lambda>(k, _). py_eq k v) ws of None \<Rightarrow> 0 | Some (_, w) \<Rightarrow> w)"

definition allows_configured_dependencies ::
  "registry \<Rightarrow> string \<Rightarrow> jval \<Rightarrow> jdict \<Rightarrow> distributions \<Rightarrow> bool" where
  "allows_configured_dependencies r n v fixed dists =
     list_all (\<lambda>child. case dget (rg_dimensions r) child of
         None \<Rightarrow> True
       | Some d \<Rightarrow> (case dget (ds_depends_on d) n of None \<Rightarrow> True | Some allowed \<Rightarrow> allowed_in allowed v))
       (map fst fixed @ map fst dists)"

definition some_weight :: "(jval \<Rightarrow> bool) \<Rightarrow> weights option \<Rightarrow> bool" where
  "some_weight ok ws = (case ws of None \<Rightarrow> True | Some ws \<Rightarrow> list_ex (\<lambda>(v, w). ok v \<and> 0 < w) ws)"

definition allows_future_constraints :: "registry \<Rightarrow> jdict \<Rightarrow> jdict \<Rightarrow> distributions \<Rightarrow> bool" where
  "allows_future_constraints r proposed fixed dists =
     (let ctx = dupdate proposed fixed
      in list_all (\<lambda>rule. rule_applies ctx rule \<longrightarrow>
           list_all (\<lambda>(n, allowed).
               (case dget fixed n of None \<Rightarrow> True | Some v \<Rightarrow> allowed_in allowed v) \<and>
               some_weight (allowed_in allowed) (dget dists n)) (pc_require rule) \<and>
           list_all (\<lambda>(n, forbidden).
               (case dget fixed n of None \<Rightarrow> True | Some v \<Rightarrow> \<not> allowed_in forbidden v) \<and>
               some_weight (\<lambda>v. \<not> allowed_in forbidden v) (dget dists n)) (pc_forbid rule))
         (rg_constraints r))"

definition candidate_feasible ::
  "pylib \<Rightarrow> registry \<Rightarrow> string \<Rightarrow> jdict \<Rightarrow> jdict \<Rightarrow> distributions \<Rightarrow> jval \<Rightarrow> bool" where
  "candidate_feasible L r n current fixed dists v =
     (let proposed = dset current n v
      in constraint_errors L r True proposed = [] \<and>
         allows_configured_dependencies r n v fixed dists \<and>
         allows_future_constraints r proposed fixed dists)"

definition check_weights :: "pylib \<Rightarrow> string \<Rightarrow> jval list \<Rightarrow> weights option \<Rightarrow> unit res" where
  "check_weights L n candidates ws = (case ws of
      None \<Rightarrow> Inr ()
    | Some ws \<Rightarrow>
        (let unknown = filter (\<lambda>v. \<not> allowed_in candidates v) (map fst ws)
         in bindR (ensure (unknown = []) (InfeasibleStratumError
              (''Distribution '' @ n @ '' has unknown values: '' @ show_list L (sort_key (py_str L) unknown)))) (\<lambda>_.
            ensure (list_all (\<lambda>(_, w). \<not> w < 0) ws) (InfeasibleStratumError
              (''Distribution '' @ n @ '' weights must be non-negative numbers'')))))"

definition candidate_weight :: "weights option \<Rightarrow> jval \<Rightarrow> rat" where
  "candidate_weight ws v = (case ws of None \<Rightarrow> 1 | Some ws \<Rightarrow> if ws = [] then 1 else weight_of ws v)"

definition choice_source :: "weights option \<Rightarrow> provenance_source" where
  "choice_source ws = (case ws of None \<Rightarrow> SEEDED_GENERATOR
     | Some ws \<Rightarrow> if ws = [] then SEEDED_GENERATOR else WEIGHTED_DISTRIBUTION)"

definition choose_value ::
  "pylib \<Rightarrow> sampler \<Rightarrow> registry \<Rightarrow> nat \<Rightarrow> string \<Rightarrow> jval list \<Rightarrow> jdict \<Rightarrow> jdict \<Rightarrow> distributions \<Rightarrow>
     ((jval \<times> provenance_source) \<times> nat) res" where
  "choose_value L S r g n candidates current fixed dists =
     (let ws = dget dists n
      in bindR (check_weights L n candidates ws) (\<lambda>_.
         let feasible = filter (candidate_feasible L r n current fixed dists) candidates;
             fws = map (candidate_weight ws) feasible
         in bindR (ensure (\<not> (feasible = [] \<or> sm_sum S fws \<le> 0))
              (InfeasibleStratumError (''No feasible weighted value for '' @ n))) (\<lambda>_.
            let (i, g') = sm_choices S g fws
            in Inr ((feasible ! i, choice_source ws), g'))))"

section \<open>Drawing one dimension\<close>

text \<open>\<open>x or d\<close> for an optional float.\<close>

definition or_number :: "rat option \<Rightarrow> rat \<Rightarrow> rat" where
  "or_number x d = (case x of None \<Rightarrow> d | Some q \<Rightarrow> if q = 0 then d else q)"

definition draw_value ::
  "pylib \<Rightarrow> sampler \<Rightarrow> registry \<Rightarrow> bool \<Rightarrow> jdict \<Rightarrow> distributions \<Rightarrow> nat \<Rightarrow> jdict \<Rightarrow> dimension_spec \<Rightarrow>
     ((jval \<times> provenance_source) \<times> nat) res" where
  "draw_value L S r use_defaults fixed dists g vs d =
     (case dget fixed (ds_name d) of
        Some v \<Rightarrow> Inr ((v, FIXED), g)
      | None \<Rightarrow>
          if use_defaults then Inr ((ds_default d, DEFAULT), g)
          else (case ds_kind d of
              BOOLEAN \<Rightarrow> choose_value L S r g (ds_name d) [JBool False, JBool True] vs fixed dists
            | ENUM \<Rightarrow> choose_value L S r g (ds_name d) (map JStr (ds_values d)) vs fixed dists
            | INTEGER \<Rightarrow>
                (let lo = truncate_rat (or_number (ds_minimum d) 0); hi = truncate_rat (or_number (ds_maximum d) 100)
                 in bindR (ensure (lo \<le> hi) (ValueError ''empty range for randrange()'')) (\<lambda>_.
                    let (n, g') = rng_int L g lo hi in Inr ((JInt n, SEEDED_GENERATOR), g')))
            | NUMBER \<Rightarrow>
                (let (x, g') = sm_uniform S g (or_number (ds_minimum d) 0) (or_number (ds_maximum d) 1)
                 in Inr ((JFloat (round_to L 4 x), SEEDED_GENERATOR), g'))))"

definition infeasible :: "jdict \<Rightarrow> string \<Rightarrow> string \<Rightarrow> pyerr" where
  "infeasible fixed n e = (if dhas fixed n then FixedFieldFeasibilityError e else InfeasibleStratumError e)"

definition show_clauses :: "pylib \<Rightarrow> clauses \<Rightarrow> string" where
  "show_clauses L cs = py_repr L (JDict (map (\<lambda>(k, vs). (k, JList vs)) cs))"

definition inactive_text :: "pylib \<Rightarrow> string \<Rightarrow> dimension_spec \<Rightarrow> jdict \<Rightarrow> string" where
  "inactive_text L what d vs = what @ '' dimension '' @ ds_name d @ '' is inactive for dependencies '' @
     show_clauses L (ds_depends_on d) @ '' under assignments '' @ py_repr L (JDict vs)"

definition provenance_of ::
  "pylib \<Rightarrow> registry \<Rightarrow> int \<Rightarrow> distributions \<Rightarrow> dimension_spec \<Rightarrow> provenance_source \<Rightarrow> field_provenance" where
  "provenance_of L r seed dists d source = \<lparr>fp_source = source, fp_generator_version = GENERATOR_VERSION,
     fp_schema_version = SCHEMA_VERSION, fp_domain_pack = ds_domain_pack d, fp_seed = seed,
     fp_distribution = dupdate [] (map (\<lambda>(k, w). (py_str L k, w)) (dget_or dists (ds_name d) [])),
     fp_constraint_rules = map pc_rule_id (filter (\<lambda>rule. mentions (pc_when rule) (ds_name d) \<or>
       mentions (pc_require rule) (ds_name d) \<or> mentions (pc_forbid rule) (ds_name d)) (rg_constraints r))\<rparr>"

type_synonym generation_state = "nat \<times> jdict \<times> (string \<times> field_provenance) list"

definition generate_dimension ::
  "pylib \<Rightarrow> sampler \<Rightarrow> registry \<Rightarrow> int \<Rightarrow> bool \<Rightarrow> jdict \<Rightarrow> distributions \<Rightarrow> generation_state \<Rightarrow> dimension_spec \<Rightarrow>
     generation_state res" where
  "generate_dimension L S r seed use_defaults fixed dists = (\<lambda>(g, vs, prov) d.
     if \<not> is_enabled d vs then
       bindR (ensure (\<not> dhas fixed (ds_name d)) (FixedFieldFeasibilityError (inactive_text L ''Fixed'' d vs))) (\<lambda>_.
       bindR (ensure (\<not> dhas dists (ds_name d)) (InfeasibleStratumError (inactive_text L ''Distribution'' d vs))) (\<lambda>_.
       Inr (g, vs, prov)))
     else
       bindR (draw_value L S r use_defaults fixed dists g vs d) (\<lambda>((v, source), g').
       bindR (case validate_value L d v of None \<Rightarrow> Inr () | Some e \<Rightarrow> Inl (infeasible fixed (ds_name d) e)) (\<lambda>_.
       let vs' = dset vs (ds_name d) v; errors = constraint_errors L r True vs'
       in bindR (ensure (errors = []) (infeasible fixed (ds_name d) (join_with ''; '' errors))) (\<lambda>_.
          Inr (g', vs', dset prov (ds_name d) (provenance_of L r seed dists d source))))))"

section \<open>A whole persona\<close>

definition validate_fixed_assignments :: "pylib \<Rightarrow> registry \<Rightarrow> jdict \<Rightarrow> unit res" where
  "validate_fixed_assignments L r fixed =
     bindR (for_each (\<lambda>(n, v). bindR (of_option (KeyError n) (dget (rg_dimensions r) n)) (\<lambda>d.
         bindR (case validate_value L d v of None \<Rightarrow> Inr () | Some e \<Rightarrow> Inl (FixedFieldFeasibilityError e)) (\<lambda>_.
         for_each (\<lambda>(parent, allowed). ensure
             (\<not> (case dget fixed parent of None \<Rightarrow> False | Some w \<Rightarrow> \<not> allowed_in allowed w))
             (FixedFieldFeasibilityError (inactive_text L ''Fixed'' d fixed))) (ds_depends_on d)))) fixed) (\<lambda>_.
     let errors = constraint_errors L r True fixed
     in ensure (errors = []) (FixedFieldFeasibilityError (join_with ''; '' errors)))"

definition table :: "(string \<times> rat) list \<Rightarrow> rat \<Rightarrow> string \<Rightarrow> rat" where
  "table t d k = dget_or t k d"

definition derive :: "pylib \<Rightarrow> jdict \<Rightarrow> jdict" where
  "derive L vs =
     (let lit = (\<lambda>n d. fl L (n / d));
          trait = (\<lambda>k. py_str L (dget_or vs k JNull));
          levels = [(''LOW'', lit 2 10), (''MEDIUM'', lit 55 100), (''HIGH'', lit 85 100)];
          experience = table [(''NONE'', lit 1 10), (''LOW'', lit 3 10), (''MEDIUM'', lit 6 10), (''HIGH'', lit 9 10)]
            (1 / 2) (trait ''rules_familiarity'');
          patience = table levels (1 / 2) (trait ''patience'');
          reading = table levels (1 / 2) (trait ''reading_tolerance'')
      in [(''onboarding_readiness'', JFloat (round_to L 4 (fl L (fl L (fl L (experience + patience) + reading) / 3)))),
          (''needs_guided_help'', JBool (experience < lit 4 10 \<or> reading < lit 4 10)),
          (''play_archetype'', dget_or vs ''player_style'' (JStr ''BALANCED''))])"

text \<open>The name of a dictionary key in a JSON text.\<close>

fun json_key :: "pylib \<Rightarrow> jval \<Rightarrow> string" where
  "json_key L (JStr s) = s"
| "json_key L v = json_write L v"

definition generation_key :: "pylib \<Rightarrow> jdict \<Rightarrow> distributions \<Rightarrow> bool \<Rightarrow> string" where
  "generation_key L fixed dists use_defaults = json_text L (JDict
     [(''fixed'', JDict fixed),
      (''distributions'', JDict (map (\<lambda>(n, ws). (n, JDict (map (\<lambda>(v, w). (json_key L v, JFloat w)) ws))) dists)),
      (''use_defaults'', JBool use_defaults), (''generator'', JStr GENERATOR_VERSION)])"

definition generation_checks :: "pylib \<Rightarrow> registry \<Rightarrow> jdict \<Rightarrow> distributions \<Rightarrow> unit res" where
  "generation_checks L r fixed dists =
     (let unknown = unknown_names r (map fst fixed); unknown_dists = unknown_names r (map fst dists);
          overlap = sort (remdups (filter (dhas dists) (map fst fixed)))
      in bindR (ensure (unknown = []) (FixedFieldFeasibilityError (''Unknown fixed dimensions: '' @ show_list L (map JStr unknown)))) (\<lambda>_.
         bindR (ensure (unknown_dists = []) (InfeasibleStratumError (''Unknown distribution dimensions: '' @ show_list L (map JStr unknown_dists)))) (\<lambda>_.
         bindR (ensure (overlap = []) (InfeasibleStratumError (''Dimensions cannot be both fixed and distributed: '' @ show_list L (map JStr overlap)))) (\<lambda>_.
         validate_fixed_assignments L r fixed))))"

definition generate ::
  "pylib \<Rightarrow> sampler \<Rightarrow> registry \<Rightarrow> int \<Rightarrow> jdict \<Rightarrow> distributions \<Rightarrow> bool \<Rightarrow> persona_blueprint res" where
  "generate L S r seed fixed dists use_defaults =
     bindR (generation_checks L r fixed dists) (\<lambda>_.
     bindR (ordered_dimensions r) (\<lambda>ds.
     bindR (foldR (generate_dimension L S r seed use_defaults fixed dists) (rng_new L seed, [], []) ds) (\<lambda>(g, vs, prov).
     bindR (validate_dimensions L r vs True) (\<lambda>pv.
     bindR (ensure (pv_valid pv) (InfeasibleStratumError (join_with ''; '' (pv_errors pv)))) (\<lambda>_.
     Inr \<lparr>bp_persona_id = uuid5 L (''tabletop-dm:persona:'' @ SCHEMA_VERSION @ '':'' @ int_str seed @ '':'' @
            generation_key L fixed dists use_defaults),
        bp_schema_version = SCHEMA_VERSION, bp_seed = seed, bp_generator_version = GENERATOR_VERSION,
        bp_source = ''synthetic'', bp_dimensions = vs, bp_derived_traits = derive L vs, bp_provenance = prov,
        bp_validation = pv\<rparr>)))))"

text \<open>The personas \<open>generate_batch\<close> yields when it is exhausted; it stops at the first that cannot be generated.\<close>

definition generate_batch ::
  "pylib \<Rightarrow> sampler \<Rightarrow> registry \<Rightarrow> int \<Rightarrow> int \<Rightarrow> jdict \<Rightarrow> distributions \<Rightarrow> persona_blueprint list res" where
  "generate_batch L S r personas seed fixed dists =
     bindR (ensure (\<not> personas < 0) (ValueError ''size cannot be negative'')) (\<lambda>_.
     mapR (\<lambda>i. generate L S r (seed * 10000000 + int i) fixed dists False) [0..<nat personas])"

record stratum_feasibility =
  sq_feasible :: bool
  sq_fixed :: jdict
  sq_errors :: "string list"

definition validate_stratum :: "pylib \<Rightarrow> sampler \<Rightarrow> registry \<Rightarrow> jdict \<Rightarrow> distributions \<Rightarrow> stratum_feasibility res" where
  "validate_stratum L S r fixed dists = (case generate L S r 0 fixed dists False of
      Inr _ \<Rightarrow> Inr \<lparr>sq_feasible = True, sq_fixed = fixed, sq_errors = []\<rparr>
    | Inl (FixedFieldFeasibilityError e) \<Rightarrow> Inr \<lparr>sq_feasible = False, sq_fixed = fixed, sq_errors = [e]\<rparr>
    | Inl (InfeasibleStratumError e) \<Rightarrow> Inr \<lparr>sq_feasible = False, sq_fixed = fixed, sq_errors = [e]\<rparr>
    | Inl e \<Rightarrow> Inl e)"

definition validate_blueprint :: "pylib \<Rightarrow> registry \<Rightarrow> persona_blueprint \<Rightarrow> persona_validation res" where
  "validate_blueprint L r b =
     bindR (validate_dimensions L r (bp_dimensions b) True) (\<lambda>pv.
     let missing = sort (remdups (filter (\<lambda>n. \<not> dhas (bp_provenance b) n) (map fst (bp_dimensions b))));
         errors = pv_errors pv @ (if missing = [] then []
           else [''Missing provenance for dimensions: '' @ show_list L (map JStr missing)])
     in Inr (pv\<lparr>pv_valid := (errors = []), pv_errors := errors\<rparr>))"

section \<open>What is drawn\<close>

lemma weight_of_nonneg: "list_all (\<lambda>(_, w). \<not> w < 0) ws \<Longrightarrow> 0 \<le> weight_of ws v"
proof -
  assume ws: "list_all (\<lambda>(_, w). \<not> w < 0) ws"
  show ?thesis
  proof (cases "List.find (\<lambda>(k, _). py_eq k v) ws")
    case (Some p)
    then have "p \<in> set ws" unfolding find_Some_iff using nth_mem by blast
    with ws Some show ?thesis by (auto simp: weight_of_def list_all_iff not_less split: prod.splits)
  qed (simp add: weight_of_def)
qed

lemma choose_value_spec:
  assumes lawful: "lawful_sampler S" and drawn: "choose_value L S r g n candidates current fixed dists = Inr ((v, source), g')"
  shows "v \<in> set candidates \<and> candidate_feasible L r n current fixed dists v \<and>
    (source = WEIGHTED_DISTRIBUTION \<longrightarrow> (\<exists>ws. dget dists n = Some ws \<and> 0 < weight_of ws v))"
proof -
  let ?feasible = "filter (candidate_feasible L r n current fixed dists) candidates"
  let ?fws = "map (candidate_weight (dget dists n)) ?feasible"
  from drawn obtain i where checked: "check_weights L n candidates (dget dists n) = Inr ()"
    and total: "0 < sm_sum S ?fws" and i: "sm_choices S g ?fws = (i, g')"
    and v: "v = ?feasible ! i" and source: "source = choice_source (dget dists n)"
    by (auto simp: choose_value_def Let_def bindR_eq_Inr split: prod.splits if_splits)
  have nonneg: "\<forall>w\<in>set ?fws. 0 \<le> w"
  proof (cases "dget dists n")
    case (Some ws)
    with checked have "list_all (\<lambda>(_, w). \<not> w < 0) ws" by (simp add: check_weights_def Let_def split: if_splits)
    with Some show ?thesis by (auto simp: candidate_weight_def weight_of_nonneg)
  qed (simp add: candidate_weight_def)
  with lawful total have "\<exists>w\<in>set ?fws. 0 < w" unfolding lawful_sampler_def by blast
  with lawful nonneg have "fst (sm_choices S g ?fws) < length ?fws \<and> 0 < ?fws ! fst (sm_choices S g ?fws)"
    unfolding lawful_sampler_def by blast
  then have picked: "i < length ?fws" "0 < ?fws ! i" unfolding i fst_conv by blast+
  from picked(1) have i': "i < length ?feasible" by (simp only: length_map)
  from picked(2) have pos: "0 < candidate_weight (dget dists n) (?feasible ! i)" unfolding nth_map [OF i'] .
  from i' have "v \<in> set ?feasible" unfolding v by (rule nth_mem)
  moreover have "\<exists>ws. dget dists n = Some ws \<and> 0 < weight_of ws v" if "source = WEIGHTED_DISTRIBUTION"
    using that pos by (auto simp: source v choice_source_def candidate_weight_def split: option.splits if_splits)
  ultimately show ?thesis by simp
qed

lemma draw_value_spec:
  assumes "lawful_sampler S" and "draw_value L S r use_defaults fixed dists g vs d = Inr ((v, source), g')"
  shows "(dget fixed (ds_name d) \<noteq> None \<longrightarrow> dget fixed (ds_name d) = Some v) \<and>
    (source = WEIGHTED_DISTRIBUTION \<longrightarrow> (\<exists>ws. dget dists (ds_name d) = Some ws \<and> 0 < weight_of ws v))"
  using assms(2) choose_value_spec [OF assms(1)]
  by (cases "dget fixed (ds_name d)"; cases "ds_kind d")
    (auto simp: draw_value_def Let_def bindR_eq_Inr split: if_splits prod.splits)

text \<open>What the loop has achieved for the dimensions it has passed.\<close>

definition drawn_ok :: "jdict \<Rightarrow> distributions \<Rightarrow> string set \<Rightarrow> jdict \<Rightarrow> (string \<times> field_provenance) list \<Rightarrow> bool" where
  "drawn_ok fixed dists seen vs prov \<longleftrightarrow> (\<forall>n. dhas vs n \<longleftrightarrow> dhas prov n) \<and>
     (\<forall>n v. n \<in> seen \<longrightarrow> dget fixed n = Some v \<longrightarrow> dget vs n = Some v) \<and>
     (\<forall>n. n \<in> seen \<longrightarrow> dhas dists n \<longrightarrow> dhas vs n) \<and>
     (\<forall>n v p. dget vs n = Some v \<longrightarrow> dget prov n = Some p \<longrightarrow> fp_source p = WEIGHTED_DISTRIBUTION \<longrightarrow>
        (\<exists>ws. dget dists n = Some ws \<and> 0 < weight_of ws v))"

lemma generate_dimension_ok:
  assumes lawful: "lawful_sampler S" and ok: "drawn_ok fixed dists seen vs prov"
    and step: "generate_dimension L S r seed use_defaults fixed dists (g, vs, prov) d = Inr (g', vs', prov')"
  shows "drawn_ok fixed dists (insert (ds_name d) seen) vs' prov'"
proof (cases "is_enabled d vs")
  case False
  with step have "vs' = vs" "prov' = prov" "\<not> dhas fixed (ds_name d)" "\<not> dhas dists (ds_name d)"
    by (simp_all add: generate_dimension_def split: if_splits)
  with ok show ?thesis by (auto simp: drawn_ok_def dhas_def)
next
  case True
  with step obtain v source where
    drawn: "draw_value L S r use_defaults fixed dists g vs d = Inr ((v, source), g')"
    and vs': "vs' = dset vs (ds_name d) v" and prov': "prov' = dset prov (ds_name d) (provenance_of L r seed dists d source)"
    by (auto simp: generate_dimension_def bindR_eq_Inr Let_def split: if_splits)
  from draw_value_spec [OF lawful drawn] ok show ?thesis
    by (auto simp: drawn_ok_def vs' prov' provenance_of_def)
qed

lemma generate_fold_ok:
  assumes lawful: "lawful_sampler S"
  shows "\<lbrakk>drawn_ok fixed dists seen vs prov;
      foldR (generate_dimension L S r seed use_defaults fixed dists) (g, vs, prov) ds = Inr (g', vs', prov')\<rbrakk>
    \<Longrightarrow> drawn_ok fixed dists (seen \<union> ds_name ` set ds) vs' prov'"
proof (induction ds arbitrary: seen g vs prov)
  case (Cons d ds)
  from Cons.prems(2) obtain g1 vs1 prov1 where
    step: "generate_dimension L S r seed use_defaults fixed dists (g, vs, prov) d = Inr (g1, vs1, prov1)"
    and rest: "foldR (generate_dimension L S r seed use_defaults fixed dists) (g1, vs1, prov1) ds = Inr (g', vs', prov')"
    by (auto simp: bindR_eq_Inr)
  from Cons.IH [OF generate_dimension_ok [OF lawful Cons.prems(1) step] rest] show ?case by simp
qed simp

lemma generate_Inr:
  assumes "generate L S r seed fixed dists use_defaults = Inr b"
  obtains ds g where "generation_checks L r fixed dists = Inr ()" "ordered_dimensions r = Inr ds"
    "foldR (generate_dimension L S r seed use_defaults fixed dists) (rng_new L seed, [], []) ds = Inr (g, bp_dimensions b, bp_provenance b)"
    "validate_dimensions L r (bp_dimensions b) True = Inr (bp_validation b)" "pv_valid (bp_validation b)"
  using assms by (auto simp: generate_def bindR_eq_Inr split: if_splits)

text \<open>
  C23. A persona is generated only as a complete valid profile: every active dimension has an
  admissible value, no inactive one has any and all constraints hold; the fixed values are those asked
  for, every distributed dimension is present, a value drawn from a distribution has positive weight in it, and exactly the
  dimensions of the persona have a provenance.
\<close>

theorem generated_personas_are_valid:
  assumes "validate_graph L r = Inr ()" and "registry_keyed r" and "lawful_sampler S"
    and "generate L S r seed fixed dists use_defaults = Inr b"
  shows "profile_ok L r True (bp_dimensions b) \<and>
    (\<forall>n v. dget fixed n = Some v \<longrightarrow> dget (bp_dimensions b) n = Some v) \<and>
    (\<forall>n. dhas dists n \<longrightarrow> dhas (bp_dimensions b) n) \<and>
    (\<forall>n. dhas (bp_provenance b) n \<longleftrightarrow> dhas (bp_dimensions b) n) \<and>
    (\<forall>n v p. dget (bp_dimensions b) n = Some v \<longrightarrow> dget (bp_provenance b) n = Some p \<longrightarrow>
       fp_source p = WEIGHTED_DISTRIBUTION \<longrightarrow> (\<exists>ws. dget dists n = Some ws \<and> 0 < weight_of ws v))"
proof -
  from assms(4) obtain ds g where checks: "generation_checks L r fixed dists = Inr ()" and ds: "ordered_dimensions r = Inr ds"
    and fold: "foldR (generate_dimension L S r seed use_defaults fixed dists) (rng_new L seed, [], []) ds = Inr (g, bp_dimensions b, bp_provenance b)"
    and valid: "validate_dimensions L r (bp_dimensions b) True = Inr (bp_validation b)" "pv_valid (bp_validation b)"
    by (rule generate_Inr)
  have profile: "profile_ok L r True (bp_dimensions b)"
    using validator_spec [OF assms(1,2), of "bp_dimensions b" True] valid by auto
  obtain ps where ps: "ds = map snd ps" "mset ps = mset (rg_dimensions r)"
    using ordered_spec [OF assms(1)] ds by auto
  have "drawn_ok fixed dists {} [] []" by (simp add: drawn_ok_def dhas_def)
  from generate_fold_ok [OF assms(3) this fold]
  have drawn: "drawn_ok fixed dists (ds_name ` set ds) (bp_dimensions b) (bp_provenance b)" by simp
  have "ds_name ` set ds = (\<lambda>p. ds_name (snd p)) ` set (rg_dimensions r)"
    using mset_eq_setD [OF ps(2)] by (simp add: ps(1) image_image)
  also have "\<dots> = fst ` set (rg_dimensions r)"
    using assms(2) by (intro image_cong) (auto simp: registry_keyed_def)
  finally have known: "n \<in> ds_name ` set ds \<longleftrightarrow> dhas (rg_dimensions r) n" for n
    by (simp add: dhas_def map_of_eq_None_iff)
  have "unknown_names r (map fst fixed) = []" and "unknown_names r (map fst dists) = []"
    using checks by (simp_all add: generation_checks_def Let_def split: if_splits)
  then have seen: "n \<in> ds_name ` set ds" if "n \<in> fst ` set fixed \<union> fst ` set dists" for n
    using that by (auto simp: known no_unknown_names)
  have fixed_seen: "n \<in> ds_name ` set ds" if "dget fixed n = Some v" for n v
    using map_of_SomeD [OF that] by (intro seen) force
  have dists_seen: "n \<in> ds_name ` set ds" if "dhas dists n" for n
    using that by (intro seen) (auto simp: dhas_def dest!: map_of_SomeD intro!: rev_image_eqI)
  have keep: "dget (bp_dimensions b) n = Some v" if "n \<in> ds_name ` set ds" "dget fixed n = Some v" for n v
    using drawn that by (simp add: drawn_ok_def)
  have present: "dhas (bp_dimensions b) n" if "n \<in> ds_name ` set ds" "dhas dists n" for n
    using drawn that unfolding drawn_ok_def by blast
  show ?thesis
  proof (intro conjI)
    show "\<forall>n v. dget fixed n = Some v \<longrightarrow> dget (bp_dimensions b) n = Some v"
      by (intro allI impI) (rule keep [OF fixed_seen])
    show "\<forall>n. dhas dists n \<longrightarrow> dhas (bp_dimensions b) n"
      by (intro allI impI) (rule present [OF dists_seen])
    show "\<forall>n. dhas (bp_provenance b) n \<longleftrightarrow> dhas (bp_dimensions b) n"
      using drawn by (simp add: drawn_ok_def)
    show "\<forall>n v p. dget (bp_dimensions b) n = Some v \<longrightarrow> dget (bp_provenance b) n = Some p \<longrightarrow>
       fp_source p = WEIGHTED_DISTRIBUTION \<longrightarrow> (\<exists>ws. dget dists n = Some ws \<and> 0 < weight_of ws v)"
      using drawn by (simp add: drawn_ok_def)
  qed (rule profile)
qed

section \<open>A schema of the fixture\<close>

definition demo_dimension :: "string \<Rightarrow> dimension_spec" where
  "demo_dimension n = \<lparr>ds_name = n, ds_domain_pack = ''core'', ds_kind = ENUM, ds_values = [''X'', ''Y''],
     ds_minimum = None, ds_maximum = None, ds_default = JStr ''X'', ds_depends_on = []\<rparr>"

definition demo_rule :: "string \<Rightarrow> clauses \<Rightarrow> clauses \<Rightarrow> clauses \<Rightarrow> persona_constraint" where
  "demo_rule i wh req forb = \<lparr>pc_rule_id = i, pc_when = wh, pc_require = req, pc_forbid = forb, pc_message = []\<rparr>"

text \<open>Two rules that leave nothing for the third dimension when both apply.\<close>

definition demo_schema :: registry where
  "demo_schema = \<lparr>rg_dimensions = map (\<lambda>n. (n, demo_dimension n)) [''a'', ''b'', ''c''],
     rg_constraints = [demo_rule ''r1'' [(''a'', [JStr ''Y''])] [(''c'', [JStr ''X''])] [],
       demo_rule ''r2'' [(''b'', [JStr ''Y''])] [] [(''c'', [JStr ''X''])]],
     rg_domain_packs = []\<rparr>"

text \<open>A sampler whose state is the index it prefers.\<close>

definition first_positive :: "rat list \<Rightarrow> nat" where
  "first_positive ws = length (takeWhile (\<lambda>w. \<not> 0 < w) ws)"

definition demo_sampler :: sampler where
  "demo_sampler = \<lparr>sm_sum = (\<lambda>ws. sum_list ws), sm_uniform = (\<lambda>g lo hi. (lo, g)),
     sm_choices = (\<lambda>g ws. (if g < length ws \<and> 0 < ws ! g then g else first_positive ws, g))\<rparr>"

lemma first_positive_ok: "\<exists>w\<in>set ws. 0 < w \<Longrightarrow> first_positive ws < length ws \<and> 0 < ws ! first_positive ws"
  by (induction ws) (auto simp: first_positive_def)

lemma sum_list_positive: "(0 :: rat) < sum_list ws \<Longrightarrow> \<exists>w\<in>set ws. 0 < w"
  by (induction ws) (auto simp: add_nonpos_nonpos not_less [symmetric] intro: ccontr)

lemma demo_sampler_lawful: "lawful_sampler demo_sampler"
proof -
  have "\<exists>w\<in>set ws. 0 < w" if "0 < sm_sum demo_sampler ws" for ws
    using that sum_list_positive [of ws] by (simp add: demo_sampler_def)
  moreover have "fst (sm_choices demo_sampler g ws) < length ws \<and> 0 < ws ! fst (sm_choices demo_sampler g ws)"
    if "\<exists>w\<in>set ws. 0 < w" for g ws
    using first_positive_ok [OF that] by (simp add: demo_sampler_def)
  ultimately show ?thesis unfolding lawful_sampler_def by blast
qed

lemma demo_schema_valid: "validate_graph ref_lib demo_schema = Inr ()"
proof -
  have "is_ok (validate_graph ref_lib demo_schema)" by code_simp
  then show ?thesis by (auto simp: is_ok_iff)
qed

lemma demo_schema_keyed: "registry_keyed demo_schema"
  by (simp add: registry_keyed_def demo_schema_def demo_dimension_def)

theorem persona_schema_is_ordered_witness:
  "\<exists>ps. ordered_dimensions demo_schema = Inr (map snd ps) \<and> mset ps = mset (rg_dimensions demo_schema)"
  using persona_schema_is_ordered [OF demo_schema_valid] by blast

theorem validator_decides_profiles_witness:
  "\<exists>pv. validate_dimensions ref_lib demo_schema [(''a'', JStr ''X'')] False = Inr pv \<and> pv_valid pv"
proof -
  have "profile_ok ref_lib demo_schema False [(''a'', JStr ''X'')]"
    by (simp add: profile_ok_def demo_schema_def demo_dimension_def demo_rule_def dimension_ok_def is_enabled_def
      constraint_ok_def clause_met_def validate_value_def allowed_in_def dhas_def)
  with validator_decides_profiles [OF demo_schema_valid demo_schema_keyed, of "[(''a'', JStr ''X'')]" False]
  show ?thesis by blast
qed

definition demo_distributions :: distributions where
  "demo_distributions = [(''b'', [(JStr ''Y'', 1), (JStr ''X'', 0)])]"

lemma demo_persona: "\<exists>b. generate ref_lib demo_sampler demo_schema 0 [(''a'', JStr ''X'')] demo_distributions False = Inr b"
proof -
  have "is_ok (generate ref_lib demo_sampler demo_schema 0 [(''a'', JStr ''X'')] demo_distributions False)" by code_simp
  then show ?thesis by (simp add: is_ok_iff)
qed

theorem generated_personas_are_valid_witness:
  "\<exists>b. generate ref_lib demo_sampler demo_schema 0 [(''a'', JStr ''X'')] demo_distributions False = Inr b \<and>
    profile_ok ref_lib demo_schema True (bp_dimensions b) \<and> dget (bp_dimensions b) ''a'' = Some (JStr ''X'') \<and>
    dhas (bp_dimensions b) ''b''"
proof -
  obtain b where b: "generate ref_lib demo_sampler demo_schema 0 [(''a'', JStr ''X'')] demo_distributions False = Inr b"
    using demo_persona by blast
  from generated_personas_are_valid [OF demo_schema_valid demo_schema_keyed demo_sampler_lawful b]
  have "profile_ok ref_lib demo_schema True (bp_dimensions b)" and "dget (bp_dimensions b) ''a'' = Some (JStr ''X'')"
    and "dhas (bp_dimensions b) ''b''"
    by (simp_all add: demo_distributions_def dhas_def)
  with b show ?thesis by blast
qed

section \<open>Feasibility is tried with one seed\<close>

text \<open>
  \<open>validate_stratum\<close> generates with seed 0 only. Values are drawn one after another without
  looking ahead at free dimensions, so a stratum reported as feasible can fail for another seed, although
  it has valid profiles.
\<close>

lemma feasible_stratum_can_fail:
  "\<exists>q e. validate_stratum ref_lib demo_sampler demo_schema [] [] = Inr q \<and> sq_feasible q \<and>
    generate ref_lib demo_sampler demo_schema 1 [] [] False = Inl (InfeasibleStratumError e)"
proof -
  have "(case validate_stratum ref_lib demo_sampler demo_schema [] [] of Inr q \<Rightarrow> sq_feasible q | Inl _ \<Rightarrow> False)"
    by code_simp
  moreover have "(case generate ref_lib demo_sampler demo_schema 1 [] [] False of Inl (InfeasibleStratumError e) \<Rightarrow> True | _ \<Rightarrow> False)"
    by code_simp
  ultimately show ?thesis by (auto split: sum.splits pyerr.splits)
qed

end
