(* ===== verification/PersonaCompiler.thy ===== *)
theory PersonaCompiler
  imports PersonaGenerator CognitionDecision
begin

text \<open>
  \<open>PersonaVersioning\<close> of \<open>persona/versioning.py\<close> and \<open>PersonaCompiler\<close> of
  \<open>persona/compilation/compiler.py\<close>: the content-addressed version of a blueprint, the compilation of
  its dimensions into policy weights, goals, beliefs and routines, and the assembly of a prompt
  within a budget of tokens and characters.
\<close>

section \<open>Versions\<close>

definition optional_float :: "(string \<times> rat) list \<Rightarrow> jval" where
  "optional_float d = JDict (map (\<lambda>(k, q). (k, JFloat q)) d)"

fun source_text :: "provenance_source \<Rightarrow> string" where
  "source_text FIXED = ''fixed''"
| "source_text DEFAULT = ''default''"
| "source_text SEEDED_GENERATOR = ''seeded_generator''"
| "source_text WEIGHTED_DISTRIBUTION = ''weighted_distribution''"

definition provenance_json :: "field_provenance \<Rightarrow> jval" where
  "provenance_json p = JDict [(''source'', JStr (source_text (fp_source p))),
     (''generator_version'', JStr (fp_generator_version p)), (''schema_version'', JStr (fp_schema_version p)),
     (''domain_pack'', JStr (fp_domain_pack p)), (''seed'', JInt (fp_seed p)),
     (''distribution'', optional_float (fp_distribution p)),
     (''constraint_rules'', JList (map JStr (fp_constraint_rules p)))]"

text \<open>The blueprint as JSON, without the warnings of its validation.\<close>

definition blueprint_json :: "persona_blueprint \<Rightarrow> jval" where
  "blueprint_json b = JDict [(''persona_id'', JStr (bp_persona_id b)), (''schema_version'', JStr (bp_schema_version b)),
     (''seed'', JInt (bp_seed b)), (''generator_version'', JStr (bp_generator_version b)), (''source'', JStr (bp_source b)),
     (''dimensions'', JDict (bp_dimensions b)), (''derived_traits'', JDict (bp_derived_traits b)),
     (''provenance'', JDict (map (\<lambda>(k, p). (k, provenance_json p)) (bp_provenance b))),
     (''validation'', JDict [(''status'', JStr (if pv_valid (bp_validation b) then ''valid'' else ''invalid'')),
        (''ruleset_version'', JStr (pv_ruleset_version (bp_validation b))),
        (''errors'', JList (map JStr (pv_errors (bp_validation b)))),
        (''active_dimensions'', JList (map JStr (pv_active_dimensions (bp_validation b))))])]"

record persona_version_record =
  pr_version_id :: uuid
  pr_blueprint :: persona_blueprint
  pr_content_hash :: string
  pr_parent_version_id :: "uuid option"
  pr_created_at :: int

definition record_version :: "pylib \<Rightarrow> persona_blueprint \<Rightarrow> uuid option \<Rightarrow> int option \<Rightarrow> int \<Rightarrow> persona_version_record" where
  "record_version L b parent created_at now =
     (let h = stable_hash L (blueprint_json b)
      in \<lparr>pr_version_id = uuid5 L (''tabletop-dm:persona-version:'' @ bp_persona_id b @ '':'' @ bp_schema_version b @
            '':'' @ h @ '':'' @ (case parent of None \<Rightarrow> ''None'' | Some p \<Rightarrow> p)),
          pr_blueprint = b, pr_content_hash = h, pr_parent_version_id = parent,
          pr_created_at = (case created_at of None \<Rightarrow> now | Some t \<Rightarrow> t)\<rparr>)"

section \<open>Compilation\<close>

definition COMPILER_VERSION :: string where
  "COMPILER_VERSION = ''persona-compiler-0.2.0''"

text \<open>A float literal, given as a number of hundredths.\<close>

definition hundredths :: "pylib \<Rightarrow> int \<Rightarrow> rat" where
  "hundredths L n = fl L (of_int n / 100)"

definition LEVEL :: "pylib \<Rightarrow> (string \<times> rat) list" where
  "LEVEL L = [(''LOW'', hundredths L 25), (''MEDIUM'', hundredths L 55), (''HIGH'', hundredths L 85)]"

text \<open>\<open>TABLE.get(str(dims.get(name)), d)\<close>\<close>

definition graded :: "pylib \<Rightarrow> (string \<times> rat) list \<Rightarrow> rat \<Rightarrow> jdict \<Rightarrow> string \<Rightarrow> rat" where
  "graded L t d dims n = dget_or t (py_str L (dget_or dims n JNull)) d"

definition level_of :: "pylib \<Rightarrow> jdict \<Rightarrow> string \<Rightarrow> rat" where
  "level_of L dims n = graded L (LEVEL L) (hundredths L 55) dims n"

definition rules_familiarity :: "pylib \<Rightarrow> jdict \<Rightarrow> rat" where
  "rules_familiarity L dims = graded L [(''NONE'', hundredths L 5), (''LOW'', hundredths L 30),
     (''MEDIUM'', hundredths L 60), (''HIGH'', hundredths L 90)] (hundredths L 30) dims ''rules_familiarity''"

definition interface_familiarity :: "pylib \<Rightarrow> jdict \<Rightarrow> rat" where
  "interface_familiarity L dims = graded L [(''NONE'', hundredths L 10), (''LOW'', hundredths L 35),
     (''MEDIUM'', hundredths L 65), (''HIGH'', hundredths L 90)] (hundredths L 35) dims ''interface_familiarity''"

definition lower_text :: "string \<Rightarrow> string" where
  "lower_text s = map lower_char s"

text \<open>\<open>dims.get(name, "MEDIUM").lower()\<close> inside a text.\<close>

definition lowered :: "jdict \<Rightarrow> string \<Rightarrow> string res" where
  "lowered dims n = (case dget_or dims n (JStr ''MEDIUM'') of JStr s \<Rightarrow> Inr (lower_text s)
     | _ \<Rightarrow> Inl (AttributeError ''lower''))"

definition policy_weights :: "pylib \<Rightarrow> jdict \<Rightarrow> (string \<times> rat) list" where
  "policy_weights L dims =
     [(''risk_penalty'', round_to L 4 (fl L (hundredths L 180 - level_of L dims ''risk_tolerance''))),
      (''patience'', level_of L dims ''patience''), (''curiosity'', level_of L dims ''curiosity''),
      (''reading_tolerance'', level_of L dims ''reading_tolerance''), (''help_seeking'', level_of L dims ''help_seeking''),
      (''rules_familiarity'', rules_familiarity L dims), (''invalid_action_penalty'', hundredths L 125)]"

definition starting_belief :: "string \<Rightarrow> jdict \<Rightarrow> jdict" where
  "starting_belief n dims = [(''subject_type'', JStr ''self''), (''predicate'', JStr n),
     (''value'', dget_or dims n (JStr ''MEDIUM'')), (''confidence'', JFloat 1)]"

definition compile_persona :: "pylib \<Rightarrow> persona_blueprint \<Rightarrow> string option \<Rightarrow> compiled_persona res" where
  "compile_persona L b version =
     (let dims = bp_dimensions b;
          familiarity = rules_familiarity L dims;
          patience = level_of L dims ''patience'';
          help_willingness = level_of L dims ''help_seeking'';
          style = replace_char (CHR ''_'') (CHR '' '') (lower_text (py_str L (dget_or dims ''player_style'' (JStr ''BALANCED''))));
          experience = lower_text (py_str L (dget_or dims ''rules_familiarity'' (JStr ''MEDIUM'')))
      in bindR (lowered dims ''risk_tolerance'') (\<lambda>risk_text.
         bindR (lowered dims ''reading_tolerance'') (\<lambda>reading_text.
         Inr \<lparr>cp_persona_id = bp_persona_id b,
           cp_persona_version = (case version of Some v \<Rightarrow> if v \<noteq> [] then v else pr_version_id (record_version L b None None 0)
             | None \<Rightarrow> pr_version_id (record_version L b None None 0)),
           cp_compiler_version = COMPILER_VERSION,
           cp_identity_summary = ''A '' @ style @ '' player with '' @ experience @ '' rules familiarity, '' @ risk_text @
             '' risk tolerance, and '' @ reading_text @ '' reading tolerance.'',
           cp_policy_weights = policy_weights L dims,
           cp_starting_goals = [''understand_controls'', ''complete_first_goal'', ''finish_onboarding''],
           cp_retrieval_filters = [''onboarding'', ''rules'', ''style:'' @ replace_char (CHR '' '') (CHR ''_'') style],
           cp_starting_beliefs = [starting_belief ''risk_tolerance'' dims, starting_belief ''authority_trust'' dims],
           cp_starting_relationships = [[(''target_role'', JStr ''GM''),
             (''trust'', JFloat (round_to L 4 (fl L (fl L (level_of L dims ''dm_trust'' - 1 / 2) * 40)))),
             (''familiarity'', JFloat (round_to L 4 (fl L (familiarity * 20))))]],
           cp_routines = [[(''routine'', JStr ''review_available_actions''), (''frequency'', JStr ''EACH_INTERACTION''),
               (''priority'', JFloat (round_to L 4 (fl L (hundredths L 40 + fl L (1 / 2 * patience)))))],
             [(''routine'', JStr ''seek_help_when_blocked''), (''frequency'', JStr ''ON_FAILURE''),
               (''priority'', JFloat help_willingness)]],
           cp_capability_modifiers = [(''rules.interpret'', familiarity), (''interface.navigate'', interface_familiarity L dims),
             (''text.process'', level_of L dims ''reading_tolerance''), (''plan.persist'', patience)],
           cp_deep_traits = sort_key fst dims\<rparr>)))"

section \<open>Prompts\<close>

record prompt_assembly =
  pa_text :: string
  pa_estimated_tokens :: int
  pa_character_count :: int
  pa_max_tokens :: int
  pa_max_characters :: int
  pa_included_traits :: "string list"
  pa_truncated :: bool

definition selected_traits :: "compiled_persona \<Rightarrow> string list \<Rightarrow> string list" where
  "selected_traits p relevant = filter (dhas (cp_deep_traits p)) (sort (remdups relevant))"

definition prompt_sections :: "pylib \<Rightarrow> compiled_persona \<Rightarrow> string \<Rightarrow> string list \<Rightarrow> string list" where
  "prompt_sections L p situation selected =
     [''Identity: '' @ cp_identity_summary p] @
     (if strip situation \<noteq> [] then [''Situation: '' @ strip situation] else []) @
     (if selected \<noteq> [] then [''Relevant traits: '' @ join_with '', ''
        (map (\<lambda>n. n @ ''='' @ py_str L (dget_or (cp_deep_traits p) n JNull)) selected)] else []) @
     [''Active goals: '' @ join_with '', '' (cp_starting_goals p)]"

text \<open>\<open>text.rsplit(" ", 1)[0]\<close> of a text with a space, and \<open>text.rstrip()\<close>.\<close>

definition before_last_space :: "string \<Rightarrow> string" where
  "before_last_space s = rev (tl (dropWhile (\<lambda>c. c \<noteq> CHR '' '') (rev s)))"

definition right_strip :: "string \<Rightarrow> string" where
  "right_strip s = rev (dropWhile is_space (rev s))"

definition cut_text :: "nat \<Rightarrow> string \<Rightarrow> string" where
  "cut_text limit s = (let t = take limit s
     in right_strip (if CHR '' '' \<in> set t \<and> 16 < limit then before_last_space t else t))"

definition assemble_prompt ::
  "pylib \<Rightarrow> compiled_persona \<Rightarrow> string \<Rightarrow> string list \<Rightarrow> int \<Rightarrow> int \<Rightarrow> prompt_assembly res" where
  "assemble_prompt L p situation relevant max_tokens max_characters =
     bindR (ensure (\<not> (max_tokens < 1 \<or> max_characters < 1)) (ValueError ''Prompt budgets must be positive'')) (\<lambda>_.
     let selected = selected_traits p relevant;
         text = join_with [CHR 10] (prompt_sections L p situation selected);
         limit = nat (min max_characters (max_tokens * 4));
         truncated = limit < length text;
         final = (if truncated then cut_text limit text else text)
     in Inr \<lparr>pa_text = final, pa_estimated_tokens = max 1 \<lceil>of_nat (length final) / (4 :: rat)\<rceil>,
          pa_character_count = int (length final), pa_max_tokens = max_tokens, pa_max_characters = max_characters,
          pa_included_traits = selected, pa_truncated = truncated\<rparr>)"

lemma length_right_strip: "length (right_strip s) \<le> length s"
  by (simp add: right_strip_def) (metis length_dropWhile_le length_rev)

lemma length_before_last_space: "length (before_last_space s) \<le> length s"
proof -
  have "length (dropWhile (\<lambda>c. c \<noteq> CHR '' '') (rev s)) \<le> length s" by (metis length_dropWhile_le length_rev)
  then show ?thesis by (simp add: before_last_space_def)
qed

lemma length_cut_text: "length (cut_text limit s) \<le> limit"
proof -
  let ?t = "take limit s"
  have "length (cut_text limit s) \<le> length ?t"
    unfolding cut_text_def Let_def
    by (rule order_trans [OF length_right_strip]) (simp add: length_before_last_space del: length_take)
  also have "\<dots> \<le> limit" by simp
  finally show ?thesis .
qed

text \<open>
  C26. A prompt never exceeds its budget: its length is at most the number of characters allowed, and its
  estimate at least one and at most the number of tokens allowed; a prompt that is not marked truncated is
  the whole text, with every relevant trait the persona has.
\<close>

theorem prompt_fits_budget:
  assumes "assemble_prompt L p situation relevant max_tokens max_characters = Inr a"
  shows "int (length (pa_text a)) \<le> max_characters \<and> pa_character_count a = int (length (pa_text a)) \<and>
    1 \<le> pa_estimated_tokens a \<and> pa_estimated_tokens a \<le> max_tokens \<and>
    (\<not> pa_truncated a \<longrightarrow> pa_text a = join_with [CHR 10] (prompt_sections L p situation (selected_traits p relevant)))"
proof -
  let ?text = "join_with [CHR 10] (prompt_sections L p situation (selected_traits p relevant))"
  let ?limit = "nat (min max_characters (max_tokens * 4))"
  let ?final = "if ?limit < length ?text then cut_text ?limit ?text else ?text"
  from assms have pos: "1 \<le> max_tokens" "1 \<le> max_characters" and body: "pa_text a = ?final"
    and trunc: "pa_truncated a = (?limit < length ?text)" and count: "pa_character_count a = int (length ?final)"
    and tokens: "pa_estimated_tokens a = max 1 \<lceil>of_nat (length ?final) / (4 :: rat)\<rceil>"
    by (auto simp: assemble_prompt_def Let_def split: if_splits)
  have "length ?final \<le> ?limit" by (simp add: length_cut_text)
  then have len: "int (length ?final) \<le> max_characters" "int (length ?final) \<le> max_tokens * 4"
    using pos by linarith+
  have "(of_nat (length ?final) :: rat) / 4 \<le> of_int max_tokens"
  proof -
    have "(of_int (int (length ?final)) :: rat) \<le> of_int (max_tokens * 4)" using len(2) by (simp only: of_int_le_iff)
    then show ?thesis by simp
  qed
  then have "\<lceil>of_nat (length ?final) / (4 :: rat)\<rceil> \<le> max_tokens" by (simp add: ceiling_le_iff)
  with len(1) pos(1) show ?thesis by (simp add: body trunc count tokens)
qed

definition demo_compiled :: compiled_persona where
  "demo_compiled = \<lparr>cp_persona_id = ''p'', cp_persona_version = ''v'', cp_compiler_version = COMPILER_VERSION,
     cp_identity_summary = ''A balanced player with medium rules familiarity'', cp_policy_weights = [],
     cp_starting_goals = [''finish_onboarding''], cp_retrieval_filters = [], cp_starting_beliefs = [],
     cp_starting_relationships = [], cp_routines = [], cp_capability_modifiers = [],
     cp_deep_traits = [(''patience'', JStr ''HIGH'')]\<rparr>"

lemma demo_prompt:
  "\<exists>a. assemble_prompt ref_lib demo_compiled ''At the inn'' [''patience'', ''luck''] 6 100 = Inr a \<and> pa_truncated a"
  by (simp add: assemble_prompt_def Let_def) (simp add: prompt_sections_def demo_compiled_def selected_traits_def)

theorem prompt_fits_budget_witness:
  "\<exists>a. assemble_prompt ref_lib demo_compiled ''At the inn'' [''patience'', ''luck''] 6 100 = Inr a \<and> pa_truncated a \<and>
    int (length (pa_text a)) \<le> 100 \<and> pa_estimated_tokens a \<le> 6"
proof -
  obtain a where a: "assemble_prompt ref_lib demo_compiled ''At the inn'' [''patience'', ''luck''] 6 100 = Inr a"
    and "pa_truncated a" using demo_prompt by blast
  with prompt_fits_budget [OF a] show ?thesis by simp
qed

section \<open>The weights of a compiled persona\<close>

lemma hundredths_mono: "\<lbrakk>lawful_lib L; m \<le> n\<rbrakk> \<Longrightarrow> hundredths L m \<le> hundredths L n"
  unfolding hundredths_def by (intro lawful_fl_mono) simp_all

lemma hundredths_unit: "\<lbrakk>lawful_lib L; 0 \<le> n; n \<le> 100\<rbrakk> \<Longrightarrow> 0 \<le> hundredths L n \<and> hundredths L n \<le> 1"
  unfolding hundredths_def using lawful_fl_unit [of L "of_int n / 100"] by simp

lemma graded_unit:
  assumes "0 \<le> d \<and> d \<le> 1" and "\<forall>x\<in>snd ` set t. 0 \<le> x \<and> x \<le> 1"
  shows "0 \<le> graded L t d dims n \<and> graded L t d dims n \<le> 1"
proof (cases "dget t (py_str L (dget_or dims n JNull))")
  case (Some x)
  then have "x \<in> snd ` set t" by (force dest: map_of_SomeD)
  with assms(2) have "0 \<le> x \<and> x \<le> 1" by blast
  with Some show ?thesis by (simp add: graded_def dget_or_def)
qed (use assms(1) in \<open>simp add: graded_def dget_or_def\<close>)

lemma level_of_unit: "lawful_lib L \<Longrightarrow> 0 \<le> level_of L dims n \<and> level_of L dims n \<le> 1"
  unfolding level_of_def LEVEL_def by (rule graded_unit) (simp_all add: hundredths_unit)

lemma familiarity_unit:
  "lawful_lib L \<Longrightarrow> 0 \<le> rules_familiarity L dims \<and> rules_familiarity L dims \<le> 1"
  "lawful_lib L \<Longrightarrow> 0 \<le> interface_familiarity L dims \<and> interface_familiarity L dims \<le> 1"
  unfolding rules_familiarity_def interface_familiarity_def
  by (rule graded_unit; simp add: hundredths_unit)+

text \<open>
  Whatever the dimensions of a persona are, compiling them gives capability modifiers between 0 and 1.
\<close>

lemma compiled_modifiers_are_units:
  assumes "lawful_lib L" and "compile_persona L b version = Inr c" and "(k, q) \<in> set (cp_capability_modifiers c)"
  shows "0 \<le> q \<and> q \<le> 1"
  using assms level_of_unit [OF assms(1)] familiarity_unit [OF assms(1)]
  by (auto simp: compile_persona_def Let_def bindR_eq_Inr)

end
