(* ===== verification/ScenarioExecution.thy ===== *)
theory ScenarioExecution
  imports ExperimentTrials ServiceFixture
begin

text \<open>
  Scenarios against the real service: the command \<open>experiments.scenario.apply\<close> and
  \<open>ApplicationBranchExecutor\<close> of \<open>experiments/executor.py\<close>, without a \<open>persist\<close> callback; whether the
  caller has cancelled is an argument. The theory joins the trial engine with the kernel: the executor keeps the
  contract of \<open>isolated_executor\<close>, trials leave every other branch alone, and what a trial reports is
  the snapshot with the deltas of the scenario applied.
\<close>

section \<open>The scenario command\<close>

definition scenario_intervention :: schema where
  "scenario_intervention =
     [(''scenario_id'', FStr 1 None, None), (''scenario_version'', FStr 1 None, None),
      (''world_setup'', FMapping, Some (JDict [])), (''intervention'', FMapping, Some (JDict [])),
      (''allowed_actions'', FTuple 0 (FStr 0 None), Some (JList [])),
      (''stop_conditions'', FTuple 0 (FStr 0 None), Some (JList [])),
      (''horizon_steps'', FInt (Some 1) None, None),
      (''deltas'', FTuple 0 (FModel state_delta_schema), Some (JList []))]"

definition scenario_intervention_result :: schema where
  "scenario_intervention_result =
     [(''scenario_id'', FStr 0 None, None), (''scenario_version'', FStr 0 None, None),
      (''intervention_applied'', FBool, None), (''delta_count'', FInt (Some 0) None, None),
      (''status'', FEnum [''COMPLETED''], None)]"

definition audit_delta :: "pylib \<Rightarrow> jdict \<Rightarrow> state_delta" where
  "audit_delta L req = mk_delta ''experiments.scenario_runs'' SET
     (uuid5 L (''tabletop-dm:scenario-state:'' @ vstr req ''scenario_id'' @ '':'' @ vstr req ''scenario_version''))
     [(''scenario_id'', JStr (vstr req ''scenario_id'')), (''scenario_version'', JStr (vstr req ''scenario_version'')),
      (''world_setup'', JDict (vdict req ''world_setup'')), (''intervention'', JDict (vdict req ''intervention'')),
      (''allowed_actions'', JList (vlist req ''allowed_actions'')),
      (''stop_conditions'', JList (vlist req ''stop_conditions'')), (''horizon_steps'', JInt (vint req ''horizon_steps'')),
      (''status'', JStr ''COMPLETED''), (''intervention_applied'', JBool (vdict req ''intervention'' \<noteq> []))]"

definition apply_scenario_intervention :: "pylib \<Rightarrow> proposal \<Rightarrow> branch_state \<Rightarrow> command_result res" where
  "apply_scenario_intervention L p s =
     bindR (model_validate L scenario_intervention (p_parameters p)) (\<lambda>req.
     let ds = deltas_of_json (vlist req ''deltas'') in
     Inr (mk_result
       [(''scenario_id'', JStr (vstr req ''scenario_id'')), (''scenario_version'', JStr (vstr req ''scenario_version'')),
        (''intervention_applied'', JBool (vdict req ''intervention'' \<noteq> [])),
        (''delta_count'', JInt (int (length ds))), (''status'', JStr ''COMPLETED'')]
       (ds @ [audit_delta L req]) [''experiments'', ''scenario'', ''intervention'']))"

definition scenario_intervention_definition :: "pylib \<Rightarrow> command_definition" where
  "scenario_intervention_definition L = \<lparr>cd_command_type = ''experiments.scenario.apply'',
     cd_required_capabilities = {''action.propose''}, cd_allowed_branch_kinds = {TRIAL},
     cd_handler = reads_only (apply_scenario_intervention L), cd_version = ''1.0.0'',
     cd_request_model = Some (model_validate L scenario_intervention),
     cd_result_model = Some (model_accepts L scenario_intervention_result),
     cd_sensitive_parameters = {}, cd_requires_controlled_entity = False, cd_emission_builder = None\<rparr>"

section \<open>The executor\<close>

record scenario_executor =
  sc_simulation :: app
  sc_actor_id :: uuid
  sc_persona_versions :: "(uuid \<times> string) list"

definition new_scenario_executor :: "pylib \<Rightarrow> app \<Rightarrow> uuid \<Rightarrow> scenario_executor res" where
  "new_scenario_executor L a actor =
     bindR (if dhas (bus_definitions (ap_bus a)) ''experiments.scenario.apply'' then Inr (ap_bus a)
       else register (ap_bus a) (scenario_intervention_definition L)) (\<lambda>b.
     Inr \<lparr>sc_simulation = a\<lparr>ap_bus := b\<rparr>, sc_actor_id = actor, sc_persona_versions = []\<rparr>)"

definition bind_persona_version :: "uuid \<Rightarrow> string \<Rightarrow> (scenario_executor, unit) eff" where
  "bind_persona_version persona version =
     bindE (readE (\<lambda>x. dget (sc_persona_versions x) persona)) (\<lambda>existing.
     bindE (ensureE (existing = None \<or> existing = Some version)
       (ValueError ''persona identity was rebound to another immutable version'')) (\<lambda>_.
     updE (\<lambda>x. x\<lparr>sc_persona_versions := dset (sc_persona_versions x) persona version\<rparr>)))"

definition application_hash :: "pylib \<Rightarrow> snapshot_reference \<Rightarrow> (scenario_executor, string) eff" where
  "application_hash L s x = (let a = sc_simulation x in
     (bindR (of_option (KeyError (snap_snapshot_id s)) (dget (ap_snapshots a) (snap_snapshot_id s))) (\<lambda>m.
      bindR (ensure (mf_world_id m = snap_world_id s \<and> mf_branch_id m = snap_canonical_branch_id s \<and>
          mf_state_hash m = snap_state_hash s)
        (ValueError ''Snapshot reference does not match immutable manifest'')) (\<lambda>_.
      bindR (store_get (app_states a) (snap_canonical_branch_id s)) (\<lambda>canonical.
      bindR (ensure (bs_kind canonical = CANONICAL)
        (ValueError ''Scenario trials require a canonical source snapshot'')) (\<lambda>_.
      Inr (state_hash L canonical))))), x))"

definition trial_start :: "snapshot_reference \<Rightarrow> uuid \<Rightarrow> projections \<Rightarrow> branch_state" where
  "trial_start s b ps = \<lparr>bs_world_id = snap_world_id s, bs_branch_id = b, bs_kind = TRIAL, projections = ps,
     base_snapshot_hash = Some (snap_state_hash s), bs_version = 0\<rparr>"

text \<open>The branches once the trial branch exists: found with the right origin, or loaded from the snapshot.\<close>

definition trial_states :: "pylib \<Rightarrow> app \<Rightarrow> snapshot_reference \<Rightarrow> manifest \<Rightarrow> uuid \<Rightarrow> receipt store res" where
  "trial_states L a s m b = (case store_get (app_states a) b of
      Inr branch \<Rightarrow> bindR (ensure (bs_world_id branch = snap_world_id s \<and> bs_kind branch = TRIAL \<and>
          base_snapshot_hash branch = Some (snap_state_hash s))
        (ValueError ''Existing trial branch has a different snapshot origin'')) (\<lambda>_. Inr (app_states a))
    | Inl _ \<Rightarrow>
        bindR (snapshot_load L (ap_snapshot_store a) m) (\<lambda>payload.
        bindR (bindR (of_option (KeyError ''projections'') (dget payload ''projections'')) projections_of_json) (\<lambda>ps.
        store_add (app_states a) (trial_start s b ps))))"

definition trial_runs :: "int \<Rightarrow> app \<Rightarrow> snapshot_reference \<Rightarrow> uuid \<Rightarrow> uuid \<Rightarrow> int \<Rightarrow> (uuid \<times> run_record) list res" where
  "trial_runs now a s b rn seed = (case dget (ap_runs a) rn of
      None \<Rightarrow> Inr (dset (ap_runs a) rn \<lparr>rn_run_id = rn, rn_world_id = snap_world_id s, rn_branch_id = b,
        rn_kind = EVALUATION, rn_status = ''ACTIVE'', rn_seed = Some seed, rn_started_at = now\<rparr>)
    | Some run \<Rightarrow> bindR (ensure (rn_world_id run = snap_world_id s \<and> rn_branch_id run = b \<and>
          rn_kind run = EVALUATION \<and> rn_seed run = Some seed)
        (ValueError ''Existing trial run has a different identity'')) (\<lambda>_. Inr (ap_runs a)))"

definition trial_authority :: "app \<Rightarrow> uuid \<Rightarrow> snapshot_reference \<Rightarrow> manifest res" where
  "trial_authority a actor s =
     bindR (authority a (snap_world_id s) actor) (\<lambda>auth.
     bindR (ensure (''run.branch'' \<in> capabilities auth)
       (PermissionError ''actor cannot create scenario trial branches in this world'')) (\<lambda>_.
     bindR (of_option (KeyError (snap_snapshot_id s)) (dget (ap_snapshots a) (snap_snapshot_id s))) (\<lambda>m.
     bindR (ensure (mf_state_hash m = snap_state_hash s)
       (ValueError ''Snapshot reference state hash differs from manifest'')) (\<lambda>_.
     Inr m))))"

definition application_branch ::
  "pylib \<Rightarrow> int \<Rightarrow> snapshot_reference \<Rightarrow> uuid \<Rightarrow> int \<Rightarrow> (scenario_executor, trial_branch) eff" where
  "application_branch L now s trial seed x =
     (let a = sc_simulation x;
          b = uuid5 L (branch_name ''branch'' s trial seed); rn = uuid5 L (branch_name ''run'' s trial seed)
      in case bindR (trial_authority a (sc_actor_id x) s) (\<lambda>m. trial_states L a s m b) of
        Inl e \<Rightarrow> (Inl e, x)
      | Inr st \<Rightarrow> (let a1 = set_app_states a st in
          case trial_runs now a1 s b rn seed of
            Inl e \<Rightarrow> (Inl e, x\<lparr>sc_simulation := a1\<rparr>)
          | Inr rs \<Rightarrow> (Inr \<lparr>tb_trial_id = trial, tb_world_id = snap_world_id s, tb_snapshot_id = snap_snapshot_id s,
              tb_branch_id = b, tb_run_id = rn, tb_seed = seed\<rparr>, x\<lparr>sc_simulation := a1\<lparr>ap_runs := rs\<rparr>\<rparr>)))"

definition raw_deltas :: "pylib \<Rightarrow> jdict \<Rightarrow> jdict list res" where
  "raw_deltas L source = (case dget_or source ''deltas'' (JList []) of
      JList vs \<Rightarrow> mapR (validate_any L state_delta_schema) vs
    | _ \<Rightarrow> Inl (ValueError ''scenario deltas must be a list''))"

definition scenario_deltas :: "pylib \<Rightarrow> scenario_definition \<Rightarrow> jdict list res" where
  "scenario_deltas L sx = bindR (raw_deltas L (sx_world_setup sx)) (\<lambda>ds.
     bindR (raw_deltas L (sx_intervention sx)) (\<lambda>es. Inr (ds @ es)))"

definition scenario_parameters :: "pylib \<Rightarrow> scenario_definition \<Rightarrow> jdict list \<Rightarrow> jdict res" where
  "scenario_parameters L sx ds = model_validate L scenario_intervention
     [(''scenario_id'', JStr (sx_scenario_id sx)), (''scenario_version'', JStr (sx_version sx)),
      (''world_setup'', JDict (sx_world_setup sx)), (''intervention'', JDict (sx_intervention sx)),
      (''allowed_actions'', JList (map JStr (sx_allowed_actions sx))),
      (''stop_conditions'', JList (map JStr (sx_stop_conditions sx))),
      (''horizon_steps'', JInt (sx_run_horizon_steps sx)), (''deltas'', JList (map JDict ds))]"

definition scenario_proposal ::
  "pylib \<Rightarrow> scenario_executor \<Rightarrow> scenario_definition \<Rightarrow> trial_branch \<Rightarrow> uuid option \<Rightarrow> int \<Rightarrow> jdict \<Rightarrow> proposal" where
  "scenario_proposal L x sx b persona seed params = \<lparr>
     p_command_id = uuid5 L (''tabletop-dm:scenario-command:'' @ tb_trial_id b),
     p_command_type = ''experiments.scenario.apply'', p_world_id = tb_world_id b, p_branch_id = tb_branch_id b,
     p_run_id = tb_run_id b, p_interaction_id = None, p_actor_id = sc_actor_id x, p_embodied_entity_id = None,
     p_parameters = params, p_idempotency_key = ''scenario:'' @ tb_trial_id b @ '':apply'',
     p_correlation_id = tb_trial_id b, p_causation_id = None, p_seed = Some seed, p_decision_trace_id = None,
     p_persona_version = Option.bind persona (dget (sc_persona_versions x)),
     p_policy_version = Some (py_str L (dget_or (sx_model_assignment sx) ''policy_version'' (JStr ''reference-policy-1.0.0''))),
     p_prompt_contract_version = None,
     p_model_version = map_option (py_str L) (dget (sx_model_assignment sx) ''model_version'')\<rparr>"

definition projections_dict :: "branch_state \<Rightarrow> jdict" where
  "projections_dict s = map (\<lambda>(k, b). (k, JDict b)) (projections s)"

definition cancelled_execution :: "pylib \<Rightarrow> jdict \<Rightarrow> branch_state \<Rightarrow> trial_execution" where
  "cancelled_execution L cp s = \<lparr>tx_status = ''CANCELLED'', tx_steps = 0, tx_final_state = projections_dict s,
     tx_trial_state_hash = state_hash L s, tx_events = [], tx_traces = [], tx_metrics = [], tx_checkpoint = cp,
     tx_artifact_uris = [], tx_failure_code = None\<rparr>"

definition completed_execution :: "pylib \<Rightarrow> nat \<Rightarrow> receipt \<Rightarrow> branch_state \<Rightarrow> trial_execution" where
  "completed_execution L n r s = \<lparr>tx_status = ''COMPLETED'', tx_steps = 1, tx_final_state = projections_dict s,
     tx_trial_state_hash = state_hash L s, tx_events = [rc_event r], tx_traces = [],
     tx_metrics = [(''applied_delta_count'', JInt (int n))],
     tx_checkpoint = [(''step'', JInt 1), (''completed'', JBool True)], tx_artifact_uris = [], tx_failure_code = None\<rparr>"

definition application_execute ::
  "pylib \<Rightarrow> int \<Rightarrow> bool \<Rightarrow> scenario_definition \<Rightarrow> trial_branch \<Rightarrow> uuid option \<Rightarrow> int \<Rightarrow> jdict \<Rightarrow>
     (scenario_executor, trial_execution) eff" where
  "application_execute L now cancelled sx b persona seed cp x =
     (let a = sc_simulation x in
      if cancelled then (bindR (store_get (app_states a) (tb_branch_id b)) (\<lambda>s. Inr (cancelled_execution L cp s)), x)
      else (case bindR (scenario_deltas L sx) (\<lambda>ds. bindR (scenario_parameters L sx ds) (\<lambda>params. Inr (ds, params))) of
          Inl e \<Rightarrow> (Inl e, x)
        | Inr (ds, params) \<Rightarrow>
            (case submit L now a (scenario_proposal L x sx b persona seed params) of
               (Inl e, a') \<Rightarrow> (Inl e, x\<lparr>sc_simulation := a'\<rparr>)
             | (Inr r, a') \<Rightarrow> (bindR (store_get (app_states a') (tb_branch_id b)) (\<lambda>s.
                   Inr (completed_execution L (length ds) r s)), x\<lparr>sc_simulation := a'\<rparr>))))"

definition application_methods :: "pylib \<Rightarrow> int \<Rightarrow> bool \<Rightarrow> scenario_executor executor" where
  "application_methods L now cancelled = \<lparr>ex_canonical_hash = application_hash L,
     ex_create_trial_branch = application_branch L now, ex_execute = application_execute L now cancelled\<rparr>"

section \<open>Quarantine\<close>

text \<open>
  The service can run scenarios when their command is registered as defined above. Between two states of the
  service everything but the trial branch is where it was: the other branches, every canonical branch, the
  snapshots and the registered commands.
\<close>

definition scenario_ready :: "pylib \<Rightarrow> scenario_executor \<Rightarrow> bool" where
  "scenario_ready L x \<longleftrightarrow> dget (bus_definitions (ap_bus (sc_simulation x))) ''experiments.scenario.apply'' =
     Some (scenario_intervention_definition L)"

definition quarantined :: "uuid \<Rightarrow> app \<Rightarrow> app \<Rightarrow> bool" where
  "quarantined b a a' \<longleftrightarrow>
     (\<forall>i s. dget (branches (app_states a)) i = Some s \<longrightarrow> i \<noteq> b \<or> bs_kind s = CANONICAL \<longrightarrow>
        dget (branches (app_states a')) i = Some s) \<and>
     bus_definitions (ap_bus a') = bus_definitions (ap_bus a) \<and> ap_snapshots a' = ap_snapshots a \<and>
     ap_snapshot_store a' = ap_snapshot_store a \<and> ap_worlds a' = ap_worlds a \<and> ap_actors a' = ap_actors a"

lemma quarantined_refl [simp]: "quarantined b a a"
  by (simp add: quarantined_def)

lemma quarantined_trans: "quarantined b a a' \<Longrightarrow> quarantined b a' a'' \<Longrightarrow> quarantined b a a''"
  by (simp add: quarantined_def)

lemma quarantined_branch:
  "quarantined b a a' \<Longrightarrow> dget (branches (app_states a)) i = Some s \<Longrightarrow> i \<noteq> b \<or> bs_kind s = CANONICAL \<Longrightarrow>
     dget (branches (app_states a')) i = Some s"
  by (simp add: quarantined_def)


lemma record_grants_kept [simp]:
  "quarantined b a (record_grants r a') \<longleftrightarrow> quarantined b a a'"
  by (simp add: quarantined_def record_grants_def app_states_def)

lemma record_event_kept [simp]: "quarantined b a (record_event p r a') \<longleftrightarrow> quarantined b a a'"
  by (simp add: quarantined_def record_event_def app_states_def)

lemma quarantined_mutations: "record_mutations L p a ms = (res, a') \<Longrightarrow> quarantined b a a'"
  using record_mutations_same [of L p a ms res a']
  by (simp add: same_but_entities_def same_record_def quarantined_def app_states_def)

lemma quarantined_capture [simp]: "quarantined b (capture_base a i) a' \<longleftrightarrow> quarantined b a a'"
  by (simp add: quarantined_def)

lemma quarantined_execute:
  assumes "execute L now (ap_bus a) p auth = (res, bus)"
    and "dget (bus_definitions (ap_bus a)) (p_command_type p) = Some d" and "cd_allowed_branch_kinds d = {TRIAL}"
  shows "quarantined (p_branch_id p) a (a\<lparr>ap_bus := bus\<rparr>)"
  using assms(1)
proof (cases rule: execute_cases)
  case (fresh d' q r source working)
  have d: "d' = d" using admit_Inr(2) [OF fresh(1)] assms(2) by simp
  from fresh(5) have "bs_kind source = TRIAL"
    by (rule run_command_Inr) (simp add: d assms(3))
  with fresh(4,6) show ?thesis by (auto simp: quarantined_def app_states_def)
qed (simp_all add: quarantined_def app_states_def)

lemma quarantined_submit:
  assumes "dget (bus_definitions (ap_bus a)) (p_command_type p) = Some d" and "cd_allowed_branch_kinds d = {TRIAL}"
    and "submit L now a p = (res, a')"
  shows "quarantined (p_branch_id p) a a'"
proof (cases "submit_checks L a p")
  case (Inl e)
  with assms(3) show ?thesis by (simp add: submit_def)
next
  case (Inr auth)
  let ?a1 = "capture_base a (p_branch_id p)"
  obtain out bus where ex: "execute L now (ap_bus ?a1) p auth = (out, bus)" by (rule prod.exhaust)
  have q: "quarantined (p_branch_id p) a (?a1\<lparr>ap_bus := bus\<rparr>)"
    using quarantined_execute [OF ex] assms(1,2) by simp
  show ?thesis
  proof (cases out)
    case (Inl e)
    with assms(3) Inr ex q show ?thesis by (simp add: submit_def Let_def)
  next
    case (Inr r)
    have "quarantined (p_branch_id p) a x" if "record_mutations L p (?a1\<lparr>ap_bus := bus\<rparr>) ms = (m, x)" for ms m x
      using quarantined_trans [OF q quarantined_mutations [OF that]] .
    with assms(3) \<open>submit_checks L a p = Inr auth\<close> ex q Inr show ?thesis
      by (auto simp: submit_def Let_def split: if_splits prod.splits sum.splits)
  qed
qed

section \<open>The executor keeps the contract\<close>

lemma branch_quarantined:
  "quarantined (uuid5 L (branch_name ''branch'' s trial seed)) (sc_simulation x)
     (sc_simulation (snd (application_branch L now s trial seed x)))"
proof -
  let ?a = "sc_simulation x" and ?b = "uuid5 L (branch_name ''branch'' s trial seed)"
  have "quarantined ?b ?a (set_app_states ?a st)" if "trial_states L ?a s m ?b = Inr st" for m st
    using that
    by (auto simp: trial_states_def quarantined_def set_app_states_def app_states_def store_add_def trial_start_def bindR_eq_Inr dhas_def
      split: sum.splits if_splits)
  then show ?thesis
    by (auto simp: application_branch_def Let_def bindR_eq_Inr quarantined_def app_states_def split: sum.splits)
qed

lemma execute_quarantined:
  assumes "scenario_ready L x"
  shows "quarantined (tb_branch_id b) (sc_simulation x)
     (sc_simulation (snd (application_execute L now cancelled sx b persona seed cp x)))"
proof -
  let ?p = "scenario_proposal L x sx b persona seed"
  have "quarantined (tb_branch_id b) (sc_simulation x) a'"
    if "submit L now (sc_simulation x) (?p params) = (res, a')" for params res a'
    using quarantined_submit [OF _ _ that] assms
    by (simp add: scenario_ready_def scenario_proposal_def scenario_intervention_definition_def)
  then show ?thesis
    by (auto simp: application_execute_def Let_def split: sum.splits prod.splits)
qed

lemma hash_quarantined:
  assumes "quarantined b (sc_simulation x) (sc_simulation x')" and "fst (application_hash L s x) = Inr h"
  shows "fst (application_hash L s x') = Inr h"
proof -
  from assms(2) obtain m c where m: "dget (ap_snapshots (sc_simulation x)) (snap_snapshot_id s) = Some m"
      "mf_world_id m = snap_world_id s \<and> mf_branch_id m = snap_canonical_branch_id s \<and> mf_state_hash m = snap_state_hash s"
    and c: "dget (branches (app_states (sc_simulation x))) (snap_canonical_branch_id s) = Some c" "bs_kind c = CANONICAL"
      "h = state_hash L c"
    by (auto simp: application_hash_def Let_def bindR_eq_Inr split: if_splits)
  have "dget (branches (app_states (sc_simulation x'))) (snap_canonical_branch_id s) = Some c"
    using assms(1) c by (auto intro: quarantined_branch)
  moreover have "ap_snapshots (sc_simulation x') = ap_snapshots (sc_simulation x)"
    using assms(1) by (simp add: quarantined_def)
  ultimately show ?thesis using m c by (simp add: application_hash_def Let_def store_get_def)
qed

lemma quarantined_ready: "quarantined b (sc_simulation x) (sc_simulation x') \<Longrightarrow> scenario_ready L x \<Longrightarrow> scenario_ready L x'"
  by (simp add: quarantined_def scenario_ready_def)

interpretation scenario: isolated_executor "application_methods L now cancelled" "scenario_ready L" for L now cancelled
proof unfold_locales
  show "snd (ex_canonical_hash (application_methods L now cancelled) s x) = x" for s x
    by (simp add: application_methods_def application_hash_def Let_def)
  show "scenario_ready L (snd (ex_create_trial_branch (application_methods L now cancelled) s trial seed x))"
    if "scenario_ready L x" for x s trial seed
    using that quarantined_ready [OF branch_quarantined] by (simp add: application_methods_def)
  show "scenario_ready L (snd (ex_execute (application_methods L now cancelled) sx b persona seed cp x))"
    if "scenario_ready L x" for x sx b persona seed cp
    using that quarantined_ready [OF execute_quarantined [OF that]] by (simp add: application_methods_def)
  show "fst (ex_canonical_hash (application_methods L now cancelled) s
      (snd (ex_create_trial_branch (application_methods L now cancelled) s' trial seed x))) = Inr h"
    if "scenario_ready L x" "fst (ex_canonical_hash (application_methods L now cancelled) s x) = Inr h" for x s h s' trial seed
    using that hash_quarantined [OF branch_quarantined] by (simp add: application_methods_def)
  show "fst (ex_canonical_hash (application_methods L now cancelled) s
      (snd (ex_execute (application_methods L now cancelled) sx b persona seed cp x))) = Inr h"
    if "scenario_ready L x" "fst (ex_canonical_hash (application_methods L now cancelled) s x) = Inr h"
    for x s h sx b persona seed cp
    using that hash_quarantined [OF execute_quarantined [OF that(1)]] by (simp add: application_methods_def)
qed


section \<open>A whole trial\<close>

text \<open>A computation whose steps keep the state of the executor in a reflexive and transitive relation.\<close>

definition evolves :: "('s \<Rightarrow> 's \<Rightarrow> bool) \<Rightarrow> ('s trial_world, 'a) eff \<Rightarrow> bool" where
  "evolves R m \<longleftrightarrow> (\<forall>w. R (tw_executor w) (tw_executor (snd (m w))))"

lemma moves_steps:
  assumes "reflp R"
  shows "evolves R (liftE r)" "evolves R (ensureE c e)" "evolves R (returnE v)" "evolves R (raiseE e)"
    "evolves R (save_trial t)" "evolves R (save_output t out)"
  using assms by (simp_all add: evolves_def save_trial_def save_output_def on_repository_run reflpD)

lemma moves_on_executor: "(\<And>st. R st (snd (m st))) \<Longrightarrow> evolves R (on_executor m)"
  by (simp add: evolves_def on_executor_run)

lemma moves_bindE:
  assumes R: "reflp R" "transp R" and m: "evolves R m" and f: "\<And>w v w'. m w = (Inr v, w') \<Longrightarrow> evolves R (f v)"
  shows "evolves R (bindE m f)"
  unfolding evolves_def
proof
  fix w
  obtain q w1 where q: "m w = (q, w1)" by (cases "m w")
  have w1: "R (tw_executor w) (tw_executor w1)" using m q by (simp add: evolves_def) (metis snd_conv)
  show "R (tw_executor w) (tw_executor (snd (bindE m f w)))"
  proof (cases q)
    case (Inr v)
    with q f [of w v w1] have "R (tw_executor w1) (tw_executor (snd (f v w1)))" by (simp add: evolves_def)
    with transpD [OF R(2) w1] q Inr show ?thesis by (simp add: bindE_def)
  qed (use q w1 in \<open>simp add: bindE_def\<close>)
qed

lemma moves_tryE:
  assumes R: "transp R" and m: "evolves R m" and h: "\<And>e. evolves R (h e)"
  shows "evolves R (tryE m h)"
  unfolding evolves_def
proof
  fix w
  obtain q w1 where q: "m w = (q, w1)" by (cases "m w")
  have w1: "R (tw_executor w) (tw_executor w1)" using m q by (simp add: evolves_def) (metis snd_conv)
  show "R (tw_executor w) (tw_executor (snd (tryE m h w)))"
  proof (cases q)
    case (Inl e)
    have "R (tw_executor w1) (tw_executor (snd (h e w1)))" using h by (simp add: evolves_def)
    with transpD [OF R w1] q Inl show ?thesis by (simp add: tryE_def)
  qed (use q w1 in \<open>simp add: tryE_def\<close>)
qed

lemma trial_moves:
  assumes R: "reflp R" "transp R" and reads: "\<And>st. snd (ex_canonical_hash x s st) = st"
    and branch: "\<And>st. R st (snd (ex_create_trial_branch x s (trial_identity L sx s persona seed attempt) seed st))"
    and execute: "\<And>st b st' st1. ex_create_trial_branch x s (trial_identity L sx s persona seed attempt) seed st = (Inr b, st') \<Longrightarrow>
      R st1 (snd (ex_execute x sx b persona seed cp st1))"
  shows "evolves R (run_trial L en x sx s persona version seed attempt cp)"
proof -
  let ?trial = "trial_identity L sx s persona seed attempt"
  note steps = moves_bindE [OF R] moves_tryE [OF R(2)] moves_steps [OF R(1)] moves_on_executor
  have hash: "evolves R (on_executor (ex_canonical_hash x s))"
    using R(1) by (intro moves_on_executor) (simp add: reads reflpD)
  have start: "evolves R (start_trial x sx s ?trial persona version seed attempt)"
    unfolding start_trial_def by (intro steps hash branch)
  have started: "\<exists>st st'. ex_create_trial_branch x s ?trial seed st = (Inr b, st')"
    if "start_trial x sx s ?trial persona version seed attempt v = (Inr (before, b), v')" for v before b v'
    using that by (auto simp: start_trial_def bindE_eq_Inr on_executor_def split: prod.splits if_splits)
  have results: "evolves R (trial_results L en x sx s before b (running_record sx s b ?trial persona version seed attempt cp))"
    if "ex_create_trial_branch x s ?trial seed st = (Inr b, st')" for before b st st'
    unfolding trial_results_def
    by (intro steps hash) (simp add: running_record_def execute [OF that])
  have failure: "evolves R (after_failure x s before running e)" for before running e
    unfolding after_failure_def probe_isolation_def Let_def by (intro steps hash)
  show ?thesis
    unfolding run_trial_def Let_def
  proof (intro moves_bindE [OF R] start)
    fix v p v' assume "start_trial x sx s ?trial persona version seed attempt v = (Inr p, v')"
    moreover obtain before b where p: "p = (before, b)" by (cases p)
    ultimately obtain st st' where "ex_create_trial_branch x s ?trial seed st = (Inr b, st')" using started by blast
    note results = results [OF this]
    show "evolves R (case p of (before, b) \<Rightarrow> bindE (save_trial (running_record sx s b ?trial persona version seed attempt cp))
        (\<lambda>_. tryE (carry_out_trial L en x sx s before b (running_record sx s b ?trial persona version seed attempt cp))
          (after_failure x s before (running_record sx s b ?trial persona version seed attempt cp))))"
      unfolding p case_prod_conv carry_out_trial_def Let_def
      by (intro steps failure) (auto intro!: steps results split: prod.split)
  qed
qed

text \<open>
  C30. Trials are quarantined: whatever scenario is run against the service, and whether the trial succeeds or
  raises, every branch but the one of this trial is left exactly as it was, and so are all canonical branches, the
  snapshots, the worlds, the actors and the registered commands; the service stays ready for the next trial.
\<close>

theorem scenario_trials_are_quarantined:
  assumes "scenario_ready L (tw_executor w)"
    and "run_trial L en (application_methods L now cancelled) sx s persona version seed attempt cp w = (r, w')"
  shows "quarantined (uuid5 L (branch_name ''branch'' s (trial_identity L sx s persona seed attempt) seed))
      (sc_simulation (tw_executor w)) (sc_simulation (tw_executor w')) \<and>
    scenario_ready L (tw_executor w')"
proof -
  let ?trial = "trial_identity L sx s persona seed attempt"
  let ?b = "uuid5 L (branch_name ''branch'' s ?trial seed)"
  let ?R = "\<lambda>x x'. scenario_ready L x \<longrightarrow> quarantined ?b (sc_simulation x) (sc_simulation x') \<and> scenario_ready L x'"
  have "evolves ?R (run_trial L en (application_methods L now cancelled) sx s persona version seed attempt cp)"
  proof (rule trial_moves)
    show "reflp ?R" by (simp add: reflp_def)
    show "transp ?R" using quarantined_trans by (fastforce simp: transp_def)
    show "snd (ex_canonical_hash (application_methods L now cancelled) s st) = st" for st by (rule scenario.hash_reads)
    show "?R st (snd (ex_create_trial_branch (application_methods L now cancelled) s ?trial seed st))" for st
      using branch_quarantined quarantined_ready [OF branch_quarantined] by (simp add: application_methods_def)
    fix st b st' st1
    assume "ex_create_trial_branch (application_methods L now cancelled) s ?trial seed st = (Inr b, st')"
    then have "tb_branch_id b = ?b"
      by (auto simp: application_methods_def application_branch_def Let_def split: sum.splits)
    then show "?R st1 (snd (ex_execute (application_methods L now cancelled) sx b persona seed cp st1))"
      using execute_quarantined [of L st1 b now cancelled sx persona seed cp]
        scenario.execute_ready [of L st1 now cancelled sx b persona seed cp]
      by (simp add: application_methods_def)
  qed
  with assms show ?thesis unfolding evolves_def by (metis snd_conv)
qed


section \<open>What a trial computes\<close>

lemma delta_validated_twice:
  assumes "lawful_lib L" and "model_validate L state_delta_schema d = Inr r"
  shows "model_validate L state_delta_schema r = Inr r"
  by (rule model_validate_idem [OF assms(1) _ _ assms(2)])
    (auto simp: state_delta_schema_def default_stable_def)

lemma stable_deltas: "lawful_lib L \<Longrightarrow> stable_kind L (FTuple 0 (FModel state_delta_schema))"
proof -
  assume L: "lawful_lib L"
  have one: "check_kind L (FModel state_delta_schema) w = Some w" if "check_kind L (FModel state_delta_schema) v = Some w" for v w
    using that delta_validated_twice [OF L] by (auto simp: model_validate_fields split: jval.splits)
  show ?thesis
    unfolding stable_kind_def using all_some_map_idem [OF _ one] all_some_length by (fastforce split: jval.splits)
qed

lemma intervention_validated_twice:
  assumes "lawful_lib L" and "model_validate L scenario_intervention d = Inr r"
  shows "model_validate L scenario_intervention r = Inr r"
proof (rule model_validate_stable [OF _ _ assms(2)])
  show "distinct (map fst scenario_intervention)" by (simp add: scenario_intervention_def)
  fix f assume "f \<in> set scenario_intervention"
  then show "stable_kind L (fst (snd f)) \<and> default_stable L f"
    using stable_deltas [OF assms(1)] by (auto simp: scenario_intervention_def default_stable_def simple_kind_stable [OF assms(1)])
qed

lemma raw_deltas_valid:
  assumes "raw_deltas L source = Inr ds" and "d \<in> set ds"
  shows "\<exists>v. model_validate L state_delta_schema v = Inr d"
proof -
  from assms(1) obtain vs where "mapR (validate_any L state_delta_schema) vs = Inr ds"
    by (auto simp: raw_deltas_def split: jval.splits)
  from mapR_set [OF this assms(2)] show ?thesis by auto
qed

lemma deltas_kept:
  assumes "lawful_lib L" and "scenario_deltas L sx = Inr ds" and "scenario_parameters L sx ds = Inr params"
  shows "deltas_of_json (vlist params ''deltas'') = map delta_of_json ds"
proof -
  have "model_validate L state_delta_schema d = Inr d" if "d \<in> set ds" for d
    using that assms(2) raw_deltas_valid delta_validated_twice [OF assms(1)]
    by (fastforce simp: scenario_deltas_def bindR_eq_Inr)
  then have "all_some (map (check_kind L (FModel state_delta_schema)) (map JDict ds)) = Some (map JDict ds)"
    by (intro all_some_ident) (auto simp: model_validate_fields)
  then have kind: "check_kind L (FTuple 0 (FModel state_delta_schema)) (JList (map JDict ds)) = Some (JList (map JDict ds))"
    by simp
  let ?raw = "[(''scenario_id'', JStr (sx_scenario_id sx)), (''scenario_version'', JStr (sx_version sx)),
      (''world_setup'', JDict (sx_world_setup sx)), (''intervention'', JDict (sx_intervention sx)),
      (''allowed_actions'', JList (map JStr (sx_allowed_actions sx))),
      (''stop_conditions'', JList (map JStr (sx_stop_conditions sx))),
      (''horizon_steps'', JInt (sx_run_horizon_steps sx)), (''deltas'', JList (map JDict ds))]"
  have params: "check_fields L scenario_intervention ?raw = Some params"
    using assms(3) by (simp add: scenario_parameters_def model_validate_def)
  have "\<exists>w. dget params ''deltas'' = Some w \<and>
      (case dget ?raw ''deltas'' of Some v \<Rightarrow> check_kind L (FTuple 0 (FModel state_delta_schema)) v | None \<Rightarrow> Some (JList [])) = Some w"
    by (rule check_fields_dget [OF params]) (simp_all add: scenario_intervention_def)
  then have "dget params ''deltas'' = Some (JList (map JDict ds))" using kind by simp
  then show ?thesis by (simp add: vlist_def deltas_of_json_def)
qed

lemma fresh_submit:
  assumes "submit L now a p = (Inr r, a')" and "\<not> dhas (receipts (app_states a)) (receipt_key_of p)"
    and "dget (branches (app_states a)) (p_branch_id p) = Some s"
  obtains auth d q w where "admit (ap_bus a) p auth = Inr (d, q)" "run_command L (ap_bus a) now d q auth s = (Inr r, w)"
    "dget (branches (app_states a')) (p_branch_id p) = Some (s\<lparr>projections := projections w,
       base_snapshot_hash := base_snapshot_hash w, bs_version := bs_version s + 1\<rparr>)"
proof -
  from assms(1) obtain auth where auth: "submit_checks L a p = Inr auth"
    by (cases "submit_checks L a p") (simp_all add: submit_def)
  let ?a1 = "capture_base a (p_branch_id p)"
  obtain out bus where ex: "execute L now (ap_bus a) p auth = (out, bus)" by (rule prod.exhaust)
  have out: "out = Inr r" using assms(1) auth ex
    by (auto simp: submit_def Let_def split: sum.splits if_splits prod.splits)
  from ex show ?thesis
  proof (cases rule: execute_cases)
    case (fresh d q r' source w)
    have states: "app_states a' = bus_states bus"
      using assms(1) auth ex out record_mutations_same [of L p "?a1\<lparr>ap_bus := bus\<rparr>"]
      by (fastforce simp: submit_def Let_def record_grants_def record_event_def app_states_def same_but_entities_def same_record_def
        split: sum.splits if_splits prod.splits)
    show ?thesis
      by (rule that [OF fresh(1)]) (use fresh assms(3) states out in \<open>simp_all add: app_states_def\<close>)
  next
    case (duplicate d q r')
    with assms(2) show ?thesis by (simp add: dhas_def app_states_def)
  qed (use out in simp_all)
qed


lemma branch_created:
  assumes "application_branch L now s trial seed x = (Inr b, x1)"
    and "\<not> dhas (branches (app_states (sc_simulation x))) (tb_branch_id b)"
  obtains m payload pj ps where "dget (ap_snapshots (sc_simulation x)) (snap_snapshot_id s) = Some m"
    "mf_state_hash m = snap_state_hash s"
    "snapshot_load L (ap_snapshot_store (sc_simulation x)) m = Inr payload" "dget payload ''projections'' = Some pj"
    "projections_of_json pj = Inr ps"
    "dget (branches (app_states (sc_simulation x1))) (tb_branch_id b) = Some (trial_start s (tb_branch_id b) ps)"
    "receipts (app_states (sc_simulation x1)) = receipts (app_states (sc_simulation x))"
    "sc_actor_id x1 = sc_actor_id x" "tb_trial_id b = trial"
    "tb_run_id b = uuid5 L (branch_name ''run'' s trial seed)"
proof -
  let ?a = "sc_simulation x" and ?b = "uuid5 L (branch_name ''branch'' s trial seed)"
  from assms(1) obtain st where st: "bindR (trial_authority ?a (sc_actor_id x) s) (\<lambda>m. trial_states L ?a s m ?b) = Inr st"
    by (cases "bindR (trial_authority ?a (sc_actor_id x) s) (\<lambda>m. trial_states L ?a s m ?b)")
      (simp_all add: application_branch_def Let_def)
  with assms(1) obtain rs where rs: "trial_runs now (set_app_states ?a st) s ?b (uuid5 L (branch_name ''run'' s trial seed)) seed = Inr rs"
    by (cases "trial_runs now (set_app_states ?a st) s ?b (uuid5 L (branch_name ''run'' s trial seed)) seed")
      (simp_all add: application_branch_def Let_def)
  from assms(1) st rs have b: "tb_branch_id b = ?b" "tb_trial_id b = trial" "tb_run_id b = uuid5 L (branch_name ''run'' s trial seed)"
    and x1: "x1 = x\<lparr>sc_simulation := (set_app_states ?a st)\<lparr>ap_runs := rs\<rparr>\<rparr>"
    by (auto simp: application_branch_def Let_def)
  from st obtain m where m: "trial_authority ?a (sc_actor_id x) s = Inr m" and states: "trial_states L ?a s m ?b = Inr st"
    by (auto simp: bindR_eq_Inr)
  from m have found: "dget (ap_snapshots ?a) (snap_snapshot_id s) = Some m" "mf_state_hash m = snap_state_hash s"
    by (auto simp: trial_authority_def bindR_eq_Inr split: if_splits)
  have new: "dget (branches (app_states ?a)) ?b = None" using assms(2) b by (simp add: dhas_def)
  with states obtain payload pj ps where load: "snapshot_load L (ap_snapshot_store ?a) m = Inr payload"
      "dget payload ''projections'' = Some pj" "projections_of_json pj = Inr ps"
      and st': "store_add (app_states ?a) (trial_start s ?b ps) = Inr st"
    by (auto simp: trial_states_def store_get_def bindR_eq_Inr)
  have st'': "st = (app_states ?a)\<lparr>branches := dset (branches (app_states ?a)) ?b (trial_start s ?b ps)\<rparr>"
    using st' new by (simp add: store_add_def trial_start_def dhas_def)
  show ?thesis
    by (rule that [OF found load]) (simp_all add: x1 st'' b set_app_states_def app_states_def)
qed

text \<open>
  What a fresh trial reports is the snapshot with the scenario applied: its final state and hash are those of the
  projections stored in the snapshot after the deltas of the world setup, the deltas of the intervention and the audit
  record, in this order; it has one step and one event, which counts the deltas.
\<close>

theorem scenario_trial_outcome:
  assumes "lawful_lib L" and "scenario_ready L x"
    and "application_branch L now s trial seed x = (Inr b, x1)"
    and "\<not> dhas (branches (app_states (sc_simulation x))) (tb_branch_id b)"
    and "\<not> dhas (receipts (app_states (sc_simulation x))) (tb_run_id b, sc_actor_id x, ''scenario:'' @ trial @ '':apply'')"
    and "application_execute L now' False sx b persona seed cp x1 = (Inr ex, x2)"
  shows "\<exists>m payload pj ps ds params final.
    dget (ap_snapshots (sc_simulation x)) (snap_snapshot_id s) = Some m \<and> mf_state_hash m = snap_state_hash s \<and>
    snapshot_load L (ap_snapshot_store (sc_simulation x)) m = Inr payload \<and>
    dget payload ''projections'' = Some pj \<and> projections_of_json pj = Inr ps \<and>
    scenario_deltas L sx = Inr ds \<and> scenario_parameters L sx ds = Inr params \<and>
    apply_deltas L (trial_start s (tb_branch_id b) ps) (map delta_of_json ds @ [audit_delta L params]) = Inr final \<and>
    tx_status ex = ''COMPLETED'' \<and> tx_steps ex = 1 \<and> tx_final_state ex = projections_dict final \<and>
    tx_trial_state_hash ex = state_hash L final \<and> tx_metrics ex = [(''applied_delta_count'', JInt (int (length ds)))] \<and>
    (\<exists>e. tx_events ex = [e] \<and> e_branch_id e = tb_branch_id b \<and> dget (e_payload e) ''delta_count'' = Some (JInt (int (length ds))))"
proof -
  from branch_created [OF assms(3,4)] obtain m payload pj ps where
    m: "dget (ap_snapshots (sc_simulation x)) (snap_snapshot_id s) = Some m" "mf_state_hash m = snap_state_hash s"
    "snapshot_load L (ap_snapshot_store (sc_simulation x)) m = Inr payload" "dget payload ''projections'' = Some pj"
    "projections_of_json pj = Inr ps"
    and start: "dget (branches (app_states (sc_simulation x1))) (tb_branch_id b) = Some (trial_start s (tb_branch_id b) ps)"
    and kept: "receipts (app_states (sc_simulation x1)) = receipts (app_states (sc_simulation x))"
      "sc_actor_id x1 = sc_actor_id x" "tb_trial_id b = trial"
    by metis
  let ?p = "scenario_proposal L x1 sx b persona seed"
  from assms(6) obtain ds params where ds: "scenario_deltas L sx = Inr ds" and params: "scenario_parameters L sx ds = Inr params"
    by (auto simp: application_execute_def Let_def bindR_eq_Inr split: sum.splits prod.splits)
  from assms(6) ds params obtain r a' where sub: "submit L now' (sc_simulation x1) (?p params) = (Inr r, a')"
    and ex: "bindR (store_get (app_states a') (tb_branch_id b)) (\<lambda>s. Inr (completed_execution L (length ds) r s)) = Inr ex"
    by (auto simp: application_execute_def Let_def split: sum.splits prod.splits)
  have key: "\<not> dhas (receipts (app_states (sc_simulation x1))) (receipt_key_of (?p params))"
    using assms(5) kept by (simp add: receipt_key_of_def scenario_proposal_def)
  have branch: "p_branch_id (?p params) = tb_branch_id b" "p_parameters (?p params) = params"
      "p_command_type (?p params) = ''experiments.scenario.apply''"
    by (simp_all add: scenario_proposal_def)
  obtain auth d q w where adm: "admit (ap_bus (sc_simulation x1)) (?p params) auth = Inr (d, q)"
    and run: "run_command L (ap_bus (sc_simulation x1)) now' d q auth (trial_start s (tb_branch_id b) ps) = (Inr r, w)"
    and stored: "dget (branches (app_states a')) (tb_branch_id b) = Some ((trial_start s (tb_branch_id b) ps)\<lparr>projections := projections w,
       base_snapshot_hash := base_snapshot_hash w, bs_version := bs_version (trial_start s (tb_branch_id b) ps) + 1\<rparr>)"
    using fresh_submit [OF sub key, unfolded branch, OF start] by metis
  have ready: "scenario_ready L x1"
    using quarantined_ready [OF branch_quarantined [of L s trial seed x now] assms(2)] assms(3) by simp
  have d: "d = scenario_intervention_definition L"
    using admit_Inr(2) [OF adm] ready by (simp add: branch scenario_ready_def)
  have twice: "model_validate L scenario_intervention params = Inr params"
    using intervention_validated_twice [OF assms(1)] params by (simp add: scenario_parameters_def)
  have q: "p_parameters q = params" "p_branch_id q = tb_branch_id b"
    using admit_Inr(6) [OF adm] admit_keeps(2) [OF adm] twice by (simp_all add: d scenario_proposal_def scenario_intervention_definition_def)
  from run obtain s' where s': "cd_handler d q (trial_start s (tb_branch_id b) ps) = (Inr (rc_result r), s')"
    and applied: "apply_deltas L s' (cr_deltas (rc_result r)) = Inr w"
    and event: "materialize L (bus_resolver (ap_bus (sc_simulation x1))) now' q (rc_result r) (trial_start s (tb_branch_id b) ps) w
       (cd_emission_builder d) = Inr (rc_event r, rc_perceptions r)"
    by (rule run_command_Inr)
  note kept_deltas = deltas_kept [OF assms(1) ds params]
  have "(Inr (rc_result r), s') = reads_only (apply_scenario_intervention L) q (trial_start s (tb_branch_id b) ps)"
    using s' by (simp add: d scenario_intervention_definition_def)
  then have res: "s' = trial_start s (tb_branch_id b) ps"
    "cr_deltas (rc_result r) = map delta_of_json ds @ [audit_delta L params]"
    "dget (cr_result (rc_result r)) ''delta_count'' = Some (JInt (int (length ds)))"
    using twice q kept_deltas
    by (simp_all add: reads_only_def apply_scenario_intervention_def Let_def)
  have event': "e_branch_id (rc_event r) = tb_branch_id b" "e_payload (rc_event r) = cr_result (rc_result r)"
    using materialize_Inr [OF event] q by simp_all
  have "ex = completed_execution L (length ds) r (trial_start s (tb_branch_id b) ps
      \<lparr>projections := projections w, base_snapshot_hash := base_snapshot_hash w, bs_version := bs_version (trial_start s (tb_branch_id b) ps) + 1\<rparr>)"
    using ex stored by (simp add: store_get_def)
  then have "tx_status ex = ''COMPLETED'' \<and> tx_steps ex = 1 \<and> tx_final_state ex = projections_dict w \<and>
    tx_trial_state_hash ex = state_hash L w \<and> tx_metrics ex = [(''applied_delta_count'', JInt (int (length ds)))] \<and>
    tx_events ex = [rc_event r]"
    by (simp add: completed_execution_def projections_dict_def state_hash_def)
  with m ds params applied res event' show ?thesis by fastforce
qed


section \<open>A scenario on the fixture\<close>

definition lab_service :: app where
  "lab_service = snd (projr (create_branch_snapshot ref_lib (fixture_app (st0 fixture_lair) runs2 acs
     [((''w'', fixture_id CHR ''a''), fixture_actor {''action.propose'', ''run.branch''} {})] []) ''b''))"

definition lab_executor :: scenario_executor where
  "lab_executor = projr (new_scenario_executor ref_lib lab_service (fixture_id CHR ''a''))"

definition lab_snapshot :: snapshot_reference where
  "lab_snapshot = (let m = snd (hd (ap_snapshots lab_service)) in \<lparr>snap_snapshot_id = mf_snapshot_id m, snap_world_id = ''w'',
     snap_canonical_branch_id = ''b'', snap_state_hash = mf_state_hash m, snap_contract_version = ''2.0.0''\<rparr>)"

definition lab_scenario :: scenario_definition where
  "lab_scenario = \<lparr>sx_scenario_id = ''demo'', sx_version = ''1.0.0'', sx_name = None, sx_description = [],
     sx_base_snapshot_id = None,
     sx_world_setup = [(''deltas'', JList [JDict [(''projection'', JStr ''tabletop.entities''), (''operation'', JStr ''MERGE''),
       (''entity_id'', JStr ''hero''), (''values'', JDict [(''hp'', JInt 3)])]])],
     sx_cohort = [], sx_intervention = [], sx_allowed_actions = [], sx_cohort_size = 1, sx_seeds = [1],
     sx_run_horizon_steps = 10, sx_stop_conditions = [], sx_model_assignment = [], sx_verifier_versions = [],
     sx_metric_contract = []\<rparr>"

definition lab_branch :: "trial_branch res \<times> scenario_executor" where
  "lab_branch = application_branch ref_lib 1 lab_snapshot ''t'' 7 lab_executor"



definition lab_proposal :: proposal where
  "lab_proposal = scenario_proposal ref_lib (snd lab_branch) lab_scenario (projr (fst lab_branch)) None 7
     (projr (scenario_parameters ref_lib lab_scenario (projr (scenario_deltas ref_lib lab_scenario))))"

lemma lab_checks:
  "is_ok (fst lab_branch)" "is_ok (scenario_deltas ref_lib lab_scenario)"
  "is_ok (scenario_parameters ref_lib lab_scenario (projr (scenario_deltas ref_lib lab_scenario)))"
  "is_ok (fst (submit ref_lib 2 (sc_simulation (snd lab_branch)) lab_proposal))"
  by code_simp+

lemma lab_stored:
  "is_ok (store_get (app_states (snd (submit ref_lib 2 (sc_simulation (snd lab_branch)) lab_proposal))) (tb_branch_id (projr (fst lab_branch))))"
  by code_simp

lemma lab_fresh:
  "\<not> dhas (branches (app_states (sc_simulation lab_executor))) (tb_branch_id (projr (fst lab_branch)))"
  "\<not> dhas (receipts (app_states (sc_simulation lab_executor))) (tb_run_id (projr (fst lab_branch)), sc_actor_id lab_executor,
     ''scenario:'' @ ''t'' @ '':apply'')"
  by code_simp+

lemma lab_ready: "scenario_ready ref_lib lab_executor"
proof -
  have "is_ok (create_branch_snapshot ref_lib (fixture_app (st0 fixture_lair) runs2 acs
     [((''w'', fixture_id CHR ''a''), fixture_actor {''action.propose'', ''run.branch''} {})] []) ''b'')"
    by code_simp
  then obtain m a where snap: "create_branch_snapshot ref_lib (fixture_app (st0 fixture_lair) runs2 acs
     [((''w'', fixture_id CHR ''a''), fixture_actor {''action.propose'', ''run.branch''} {})] []) ''b'' = Inr (m, a)"
    by (auto simp: is_ok_iff)
  from same_record_steps(5) [OF this] have "ap_bus a = service_bus (st0 fixture_lair)"
    by (simp add: same_record_def fixture_app_def)
  then have "ap_bus lab_service = service_bus (st0 fixture_lair)" by (simp add: lab_service_def snap)
  then have "\<not> dhas (bus_definitions (ap_bus lab_service)) ''experiments.scenario.apply''"
    using registered_types by (simp add: service_bus_def dhas_def map_of_eq_None_iff comp_def image_image flip: set_map)
  then show ?thesis
    by (simp add: lab_executor_def new_scenario_executor_def register_def scenario_ready_def scenario_intervention_definition_def)
qed


theorem scenario_trial_outcome_witness:
  "\<exists>b x1 ex x2. application_branch ref_lib 1 lab_snapshot ''t'' 7 lab_executor = (Inr b, x1) \<and>
    application_execute ref_lib 2 False lab_scenario b None 7 [] x1 = (Inr ex, x2) \<and>
    (\<exists>ds. scenario_deltas ref_lib lab_scenario = Inr ds \<and> tx_metrics ex = [(''applied_delta_count'', JInt (int (length ds)))])"
proof -
  obtain b where "fst lab_branch = Inr b" using lab_checks(1) by (auto simp: is_ok_iff)
  then obtain x1 where branch: "lab_branch = (Inr b, x1)" by (metis prod.collapse)
  obtain ds where ds: "scenario_deltas ref_lib lab_scenario = Inr ds" using lab_checks(2) by (auto simp: is_ok_iff)
  obtain params where params: "scenario_parameters ref_lib lab_scenario ds = Inr params"
    using lab_checks(3) by (auto simp: is_ok_iff ds)
  let ?p = "scenario_proposal ref_lib x1 lab_scenario b None 7 params"
  have p: "lab_proposal = ?p" by (simp add: lab_proposal_def branch ds params)
  obtain r where "fst (submit ref_lib 2 (sc_simulation x1) ?p) = Inr r"
    using lab_checks(4) by (auto simp: is_ok_iff branch p)
  then obtain a' where sub: "submit ref_lib 2 (sc_simulation x1) ?p = (Inr r, a')" by (metis prod.collapse)
  obtain s where "store_get (app_states a') (tb_branch_id b) = Inr s"
    using lab_stored by (auto simp only: is_ok_iff branch p sub fst_conv snd_conv sum.sel)
  then have ex: "application_execute ref_lib 2 False lab_scenario b None 7 [] x1 =
      (Inr (completed_execution ref_lib (length ds) r s), x1\<lparr>sc_simulation := a'\<rparr>)"
    using ds params sub by (simp add: application_execute_def store_get_def Let_def)
  from lab_fresh have fresh: "\<not> dhas (branches (app_states (sc_simulation lab_executor))) (tb_branch_id b)"
    "\<not> dhas (receipts (app_states (sc_simulation lab_executor))) (tb_run_id b, sc_actor_id lab_executor, ''scenario:'' @ ''t'' @ '':apply'')"
    by (simp_all only: branch fst_conv sum.sel not_False_eq_True)
  from scenario_trial_outcome [OF lawful_ref_lib lab_ready branch [unfolded lab_branch_def] fresh ex] ex branch
  show ?thesis unfolding lab_branch_def by metis
qed

theorem scenario_trials_are_quarantined_witness:
  "\<exists>r w'. run_trial ref_lib demo_engine (application_methods ref_lib 1 False) lab_scenario lab_snapshot None None 7 1 []
      \<lparr>tw_executor = lab_executor, tw_repository = new_repository\<rparr> = (r, w') \<and> scenario_ready ref_lib (tw_executor w')"
proof -
  let ?w = "\<lparr>tw_executor = lab_executor, tw_repository = new_repository\<rparr>"
  obtain r w' where run: "run_trial ref_lib demo_engine (application_methods ref_lib 1 False) lab_scenario lab_snapshot None None 7 1 [] ?w = (r, w')"
    by (rule prod.exhaust)
  have "scenario_ready ref_lib (tw_executor ?w)" using lab_ready by simp
  from scenario_trials_are_quarantined [OF this run] run show ?thesis by blast
qed

end
