(* ===== verification/Telemetry.thy ===== *)
theory Telemetry
  imports CognitionMind KernelServices Effects
begin

text \<open>
  \<open>experiments/telemetry.py\<close> with the in-memory repository and local settings: opting in, the capture of redacted
  events, listing, export, deletion and retention. Times are microseconds; the clock (which may be naive) and \<open>uuid4\<close> are
  arguments; the retention job is given an aware time. The main results: what is stored was captured with consent while telemetry was enabled and holds
  no secret, and a redaction does not depend on the secrets it hides.
\<close>

section \<open>Settings and events\<close>

record telemetry_settings =
  ts_human_telemetry_enabled :: bool
  ts_local_only :: bool
  ts_retention_days :: int

record telemetry_event =
  te_event_id :: uuid
  te_event_type :: string
  te_payload :: jval
  te_consent_version :: string
  te_captured_at :: int
  te_world_id :: "uuid option"
  te_actor_id :: "uuid option"

record telemetry =
  tl_settings :: telemetry_settings
  tl_events :: "(uuid \<times> telemetry_event) list"

definition default_settings :: telemetry_settings where
  "default_settings = \<lparr>ts_human_telemetry_enabled = False, ts_local_only = True, ts_retention_days = 30\<rparr>"

definition new_telemetry :: telemetry where
  "new_telemetry = \<lparr>tl_settings = default_settings, tl_events = []\<rparr>"

definition configure :: "bool option \<Rightarrow> int option \<Rightarrow> (telemetry, telemetry_settings) eff" where
  "configure enabled retention_days =
     bindE (readE tl_settings) (\<lambda>current.
     let days = (case retention_days of None \<Rightarrow> ts_retention_days current | Some n \<Rightarrow> n);
         updated = \<lparr>ts_human_telemetry_enabled = (case enabled of None \<Rightarrow> ts_human_telemetry_enabled current | Some b \<Rightarrow> b),
           ts_local_only = True, ts_retention_days = days\<rparr>
     in bindE (ensureE (1 \<le> days \<and> days \<le> 3650) ValidationError) (\<lambda>_.
        bindE (updE (\<lambda>s. s\<lparr>tl_settings := updated\<rparr>)) (\<lambda>_. returnE updated)))"

definition set_enabled :: "bool \<Rightarrow> (telemetry, telemetry_settings) eff" where
  "set_enabled enabled = configure (Some enabled) None"

section \<open>The repository\<close>

definition add_event :: "telemetry_event \<Rightarrow> (telemetry, unit) eff" where
  "add_event e =
     bindE (readE (\<lambda>s. dget (tl_events s) (te_event_id e))) (\<lambda>existing.
     bindE (ensureE (existing = None \<or> existing = Some e) (ValueError ''Telemetry event ID collision'')) (\<lambda>_.
     updE (\<lambda>s. s\<lparr>tl_events := dset (tl_events s) (te_event_id e) e\<rparr>)))"

definition list_events :: "telemetry \<Rightarrow> telemetry_event list" where
  "list_events s = sort_key (\<lambda>e. (te_captured_at e, te_event_id e)) (map snd (tl_events s))"

definition selected :: "uuid option \<Rightarrow> uuid option \<Rightarrow> int option \<Rightarrow> telemetry_event \<Rightarrow> bool" where
  "selected world actor before e \<longleftrightarrow> (world = None \<or> te_world_id e = world) \<and> (actor = None \<or> te_actor_id e = actor) \<and>
     (case before of None \<Rightarrow> True | Some t \<Rightarrow> te_captured_at e < t)"

definition delete_events :: "uuid option \<Rightarrow> uuid option \<Rightarrow> int option \<Rightarrow> (telemetry, int) eff" where
  "delete_events world actor before s =
     (Inr (int (length (filter (\<lambda>(_, e). selected world actor before e) (tl_events s)))),
      s\<lparr>tl_events := filter (\<lambda>(_, e). \<not> selected world actor before e) (tl_events s)\<rparr>)"

section \<open>The recorder\<close>

definition SENSITIVE_KEYS :: "string list" where
  "SENSITIVE_KEYS = [''token'', ''password'', ''secret'', ''api_key'', ''authorization'', ''cookie'']"

definition sensitive :: "string \<Rightarrow> bool" where
  "sensitive k \<longleftrightarrow> casefold k \<in> set SENSITIVE_KEYS"

fun redact :: "jval \<Rightarrow> jval" where
  "redact (JDict d) = JDict (map (\<lambda>(k, v). (k, if sensitive k then JStr ''[REDACTED]'' else redact v)) d)"
| "redact (JList vs) = JList (map redact vs)"
| "redact v = v"

definition capture ::
  "uuid \<Rightarrow> datetime \<Rightarrow> string \<Rightarrow> jdict \<Rightarrow> string \<Rightarrow> uuid option \<Rightarrow> uuid option \<Rightarrow> (telemetry, telemetry_event) eff" where
  "capture fresh clock event_type payload consent_version world actor =
     bindE (readE (\<lambda>s. ts_human_telemetry_enabled (tl_settings s))) (\<lambda>enabled.
     bindE (ensureE enabled (PermissionError ''human telemetry is disabled'')) (\<lambda>_.
     bindE (ensureE (strip event_type \<noteq> [] \<and> strip consent_version \<noteq> [])
       (ValueError ''event_type and consent_version are required'')) (\<lambda>_.
     case clock of Naive _ \<Rightarrow> raiseE (ValueError ''telemetry timestamps must be timezone-aware'')
     | Aware t off \<Rightarrow>
         let e = \<lparr>te_event_id = fresh, te_event_type = strip event_type, te_payload = redact (JDict payload),
               te_consent_version = strip consent_version, te_captured_at = t - off, te_world_id = world, te_actor_id = actor\<rparr>
         in bindE (add_event e) (\<lambda>_. returnE e))))"

definition exported :: "telemetry \<Rightarrow> uuid option \<Rightarrow> uuid option \<Rightarrow> telemetry_event list" where
  "exported s world actor = filter (selected world actor None) (list_events s)"

definition delete_all :: "(telemetry, int) eff" where
  "delete_all = delete_events None None None"

definition whole_days :: "int \<Rightarrow> int" where
  "whole_days n = n * 24 * 60 * 60 * 1000000"

definition purge_expired :: "int \<Rightarrow> (telemetry, int) eff" where
  "purge_expired now = bindE (readE (\<lambda>s. ts_retention_days (tl_settings s))) (\<lambda>days.
     delete_events None None (Some (now - whole_days days)))"

section \<open>Redaction\<close>

text \<open>The value at a path of keys and positions.\<close>

fun at_path :: "jval \<Rightarrow> (string + nat) list \<Rightarrow> jval option" where
  "at_path v [] = Some v"
| "at_path (JDict d) (Inl k # p) = Option.bind (dget d k) (\<lambda>v. at_path v p)"
| "at_path (JList vs) (Inr i # p) = (if i < length vs then at_path (vs ! i) p else None)"
| "at_path v (x # p) = None"

fun secret_step :: "string + nat \<Rightarrow> bool" where
  "secret_step (Inl k) = sensitive k"
| "secret_step (Inr i) = False"

lemma dget_redacted: "dget (map (\<lambda>(k, v). (k, if sensitive k then JStr ''[REDACTED]'' else redact v)) d) k =
    map_option (\<lambda>v. if sensitive k then JStr ''[REDACTED]'' else redact v) (dget d k)"
  by (induction d) auto

lemma at_path_redact:
  "\<not> list_ex secret_step p \<Longrightarrow> at_path (redact v) p = map_option redact (at_path v p)"
proof (induction v p rule: at_path.induct)
  case (2 d k p)
  then show ?case by (cases "dget d k") (auto simp: dget_redacted)
qed simp_all

lemma at_path_secret:
  assumes "\<not> list_ex secret_step p" and "sensitive k" and "at_path (redact v) (p @ [Inl k]) = Some w"
  shows "w = JStr ''[REDACTED]''"
  using assms
proof (induction v p rule: at_path.induct)
  case (1 v)
  then show ?case by (cases v) (auto simp: dget_redacted)
next
  case (2 d k' p)
  then show ?case by (cases "dget d k'") (auto simp: dget_redacted)
qed (auto split: if_splits)

lemma at_path_redacted_secret:
  assumes "sensitive k" and "at_path (redact v) (p @ [Inl k]) = Some w"
  shows "w = JStr ''[REDACTED]''"
  using assms
proof (induction v p rule: at_path.induct)
  case (1 v)
  then show ?case by (cases v) (auto simp: dget_redacted)
next
  case (2 d k' p)
  then show ?case by (cases "dget d k'"; cases p) (auto simp: dget_redacted split: if_splits)
qed (auto split: if_splits)

lemma redact_idem: "redact (redact v) = redact v"
  by (induction v rule: redact.induct) auto

section \<open>The recorder's invariant\<close>

definition settings_ok :: "telemetry_settings \<Rightarrow> bool" where
  "settings_ok c \<longleftrightarrow> ts_local_only c \<and> 1 \<le> ts_retention_days c \<and> ts_retention_days c \<le> 3650"

definition redacted :: "jval \<Rightarrow> bool" where
  "redacted v \<longleftrightarrow> (\<exists>raw. v = redact (JDict raw))"

definition event_ok :: "telemetry_event \<Rightarrow> bool" where
  "event_ok e \<longleftrightarrow> te_event_type e \<noteq> [] \<and> te_consent_version e \<noteq> [] \<and>
     redacted (te_payload e)"

definition telemetry_ok :: "telemetry \<Rightarrow> bool" where
  "telemetry_ok s \<longleftrightarrow> settings_ok (tl_settings s) \<and> distinct (map fst (tl_events s)) \<and>
     (\<forall>(i, e) \<in> set (tl_events s). te_event_id e = i \<and> event_ok e)"

text \<open>The requests a recorder serves, in any order: settings, captures, deletions and the retention job.\<close>

inductive telemetry_step :: "telemetry \<Rightarrow> telemetry \<Rightarrow> bool" where
  configured: "telemetry_step s (snd (configure enabled days s))"
| captured: "telemetry_step s (snd (capture fresh clock event_type payload consent world actor s))"
| deleted: "telemetry_step s (snd (delete_events world actor before s))"
| purged: "telemetry_step s (snd (purge_expired now s))"

inductive_cases telemetry_stepE: "telemetry_step s t"

lemma new_telemetry_ok: "telemetry_ok new_telemetry"
  by (simp add: telemetry_ok_def settings_ok_def new_telemetry_def default_settings_def)

lemma configure_state: "snd (configure enabled days s) = s \<or>
    (\<exists>c. settings_ok c \<and> snd (configure enabled days s) = s\<lparr>tl_settings := c\<rparr>)"
proof (cases "1 \<le> (case days of None \<Rightarrow> ts_retention_days (tl_settings s) | Some n \<Rightarrow> n) \<and>
    (case days of None \<Rightarrow> ts_retention_days (tl_settings s) | Some n \<Rightarrow> n) \<le> 3650")
  case True
  then show ?thesis
    by (intro disjI2 exI [of _ "tl_settings (snd (configure enabled days s))"])
       (simp add: configure_def settings_ok_def Let_def)
qed (auto simp: configure_def Let_def)

lemma capture_state:
  "snd (capture fresh now event_type payload consent world actor s) = s \<or>
   (\<exists>e. event_ok e \<and> te_event_id e = fresh \<and> ts_human_telemetry_enabled (tl_settings s) \<and>
     snd (capture fresh now event_type payload consent world actor s) = s\<lparr>tl_events := dset (tl_events s) fresh e\<rparr>)"
proof (cases "ts_human_telemetry_enabled (tl_settings s) \<and> strip event_type \<noteq> [] \<and> strip consent \<noteq> [] \<and>
    (\<exists>t off. now = Aware t off)")
  case True
  then obtain t off where now: "now = Aware t off" by blast
  let ?e = "\<lparr>te_event_id = fresh, te_event_type = strip event_type, te_payload = redact (JDict payload),
    te_consent_version = strip consent, te_captured_at = t - off, te_world_id = world, te_actor_id = actor\<rparr>"
  have "event_ok ?e" using True by (auto simp: event_ok_def redacted_def simp del: redact.simps)
  with True show ?thesis
    by (auto simp: capture_def add_event_def Let_def bindE_def now simp del: redact.simps intro!: exI [of _ ?e])
qed (cases now; auto simp: capture_def)

lemma delete_state: "\<exists>P. snd (delete_events world actor before s) = s\<lparr>tl_events := filter P (tl_events s)\<rparr>"
  by (auto simp: delete_events_def)

lemma purge_run: "purge_expired now s =
    delete_events None None (Some (now - whole_days (ts_retention_days (tl_settings s)))) s"
  by (simp add: purge_expired_def bindE_def)

lemma telemetry_ok_settings: "\<lbrakk>telemetry_ok s; settings_ok c\<rbrakk> \<Longrightarrow> telemetry_ok (s\<lparr>tl_settings := c\<rparr>)"
  by (simp add: telemetry_ok_def)

lemma telemetry_ok_event:
  "\<lbrakk>telemetry_ok s; event_ok e; te_event_id e = i\<rbrakk> \<Longrightarrow> telemetry_ok (s\<lparr>tl_events := dset (tl_events s) i e\<rparr>)"
  using set_dset_subset [where d = "tl_events s" and k = i and v = e] by (auto simp: telemetry_ok_def dset_distinct)

lemma telemetry_ok_filter: "telemetry_ok s \<Longrightarrow> telemetry_ok (s\<lparr>tl_events := filter P (tl_events s)\<rparr>)"
  by (auto simp: telemetry_ok_def distinct_map_filter)

lemma telemetry_ok_step: "\<lbrakk>telemetry_step s t; telemetry_ok s\<rbrakk> \<Longrightarrow> telemetry_ok t"
proof (induction rule: telemetry_step.induct)
  case (configured s enabled days)
  then show ?case using configure_state [of enabled days s] telemetry_ok_settings by metis
next
  case (captured s fresh now event_type payload consent world actor)
  then show ?case
    using capture_state [of fresh now event_type payload consent world actor s] telemetry_ok_event by metis
next
  case (deleted s world actor before)
  then show ?case using delete_state [of world actor before s] telemetry_ok_filter by metis
next
  case (purged s now)
  then show ?case unfolding purge_run
    using delete_state [of None None "Some (now - whole_days (ts_retention_days (tl_settings s)))" s]
      telemetry_ok_filter by metis
qed

lemma telemetry_ok_reachable: "telemetry_step\<^sup>*\<^sup>* new_telemetry s \<Longrightarrow> telemetry_ok s"
  by (induction rule: rtranclp_induct) (simp_all add: new_telemetry_ok telemetry_ok_step)

lemma telemetry_step_adds:
  assumes "telemetry_step s t" and "x \<in> set (tl_events t)" and "x \<notin> set (tl_events s)"
  shows "ts_human_telemetry_enabled (tl_settings s)"
  using assms
proof (induction rule: telemetry_step.induct)
  case (configured s enabled days)
  then show ?case using configure_state [of enabled days s] by auto
next
  case (captured s fresh now event_type payload consent world actor)
  then show ?case using capture_state [of fresh now event_type payload consent world actor s] by auto
qed (auto simp: purge_run delete_events_def)

section \<open>The properties\<close>

definition telemetry_example :: telemetry where
  "telemetry_example = snd (capture ''e1'' (Aware 5 0) ''turn'' [(''Token'', JStr ''t''), (''note'', JStr ''hi'')] ''v1'' None None
     (snd (set_enabled True new_telemetry)))"

lemma telemetry_example_value:
  "telemetry_example = \<lparr>tl_settings = default_settings\<lparr>ts_human_telemetry_enabled := True\<rparr>,
     tl_events = [(''e1'', \<lparr>te_event_id = ''e1'', te_event_type = ''turn'',
       te_payload = JDict [(''Token'', JStr ''[REDACTED]''), (''note'', JStr ''hi'')],
       te_consent_version = ''v1'', te_captured_at = 5, te_world_id = None, te_actor_id = None\<rparr>)]\<rparr>"
  by code_simp

lemma telemetry_example_reachable: "telemetry_step\<^sup>*\<^sup>* new_telemetry telemetry_example"
  unfolding telemetry_example_def set_enabled_def
  by (meson converse_rtranclp_into_rtranclp rtranclp.rtrancl_refl telemetry_step.configured telemetry_step.captured)

text \<open>
  C39. Telemetry is private: in every state that settings changes, captures, deletions and retention runs reach, in
  any order and whatever they raise, the settings are local only, a stored event has a type and a consent version,
  and whatever was captured, no path of its payload ends in a sensitive key (in any case of letters) with a value
  other than the redaction mark. A new event appears only while telemetry is enabled.
\<close>

theorem telemetry_is_private:
  assumes "telemetry_step\<^sup>*\<^sup>* new_telemetry s"
  shows "ts_local_only (tl_settings s) \<and>
    (\<forall>(i, e) \<in> set (tl_events s). te_event_id e = i \<and> te_event_type e \<noteq> [] \<and> te_consent_version e \<noteq> [] \<and>
      (\<forall>p k w. casefold k \<in> set SENSITIVE_KEYS \<longrightarrow> at_path (te_payload e) (p @ [Inl k]) = Some w \<longrightarrow>
        w = JStr ''[REDACTED]'')) \<and>
    (\<forall>t x. telemetry_step s t \<longrightarrow> x \<in> set (tl_events t) \<longrightarrow> x \<notin> set (tl_events s) \<longrightarrow>
      ts_human_telemetry_enabled (tl_settings s))"
proof -
  have ok: "telemetry_ok s" using assms by (rule telemetry_ok_reachable)
  have hidden: "w = JStr ''[REDACTED]''"
    if "(i, e) \<in> set (tl_events s)" and "casefold k \<in> set SENSITIVE_KEYS"
      and "at_path (te_payload e) (p @ [Inl k]) = Some w" for i e p k w
  proof -
    have "redacted (te_payload e)" using ok that(1) by (auto simp: telemetry_ok_def event_ok_def)
    then obtain raw where "te_payload e = redact (JDict raw)" unfolding redacted_def by blast
    then show ?thesis using at_path_redacted_secret that(2, 3) by (metis sensitive_def)
  qed
  show ?thesis
    using ok hidden telemetry_step_adds by (fastforce simp: telemetry_ok_def settings_ok_def event_ok_def)
qed

theorem telemetry_is_private_witness:
  "(\<exists>i e. (i, e) \<in> set (tl_events telemetry_example) \<and> te_event_type e \<noteq> []) \<and> ts_local_only (tl_settings telemetry_example)"
proof -
  have "\<forall>(i, e) \<in> set (tl_events telemetry_example). te_event_type e \<noteq> []" "ts_local_only (tl_settings telemetry_example)"
    using telemetry_is_private [OF telemetry_example_reachable] by auto
  then show ?thesis by (auto simp: telemetry_example_value)
qed

text \<open>
  Redaction is exact: it leaves every path that crosses no sensitive key as it was, apart from the secrets
  below it, so a value that is neither an object nor a list is kept; and redacting twice is redacting once.
\<close>

theorem redaction_is_exact:
  "redact (redact v) = redact v \<and>
   (\<forall>p. (\<forall>k. Inl k \<in> set p \<longrightarrow> casefold k \<notin> set SENSITIVE_KEYS) \<longrightarrow>
      at_path (redact v) p = map_option redact (at_path v p))"
proof -
  have "\<not> list_ex secret_step p" if "\<forall>k. Inl k \<in> set p \<longrightarrow> casefold k \<notin> set SENSITIVE_KEYS" for p
    using that by (auto simp: list_ex_iff sensitive_def elim!: secret_step.elims)
  then show ?thesis by (simp add: redact_idem at_path_redact)
qed

theorem redaction_is_exact_witness:
  "at_path (redact (JDict [(''api_KEY'', JStr ''x''), (''a'', JList [JInt 1, JDict [(''b'', JInt 2)]])])) [Inl ''a'', Inr 1, Inl ''b''] =
   Some (JInt 2)"
proof -
  let ?v = "JDict [(''api_KEY'', JStr ''x''), (''a'', JList [JInt 1, JDict [(''b'', JInt 2)]])]"
    and ?p = "[Inl ''a'', Inr (1::nat), Inl ''b'']"
  have "casefold ''a'' \<notin> set SENSITIVE_KEYS" "casefold ''b'' \<notin> set SENSITIVE_KEYS" by code_simp+
  then have "\<forall>k. Inl k \<in> set ?p \<longrightarrow> casefold k \<notin> set SENSITIVE_KEYS" by auto
  then have "at_path (redact ?v) ?p = map_option redact (at_path ?v ?p)" using redaction_is_exact [of ?v] by blast
  moreover have "at_path ?v ?p = Some (JInt 2)" by simp
  ultimately show ?thesis by (simp only: option.map redact.simps)
qed

text \<open>
  Retention: a run of the retention job on a state the recorder can reach removes exactly the events older than
  the retention period, reports how many, keeps the others in order, and leaves no event older than 3650 days.
\<close>

theorem retention_is_enforced:
  assumes "telemetry_step\<^sup>*\<^sup>* new_telemetry s" and "purge_expired now s = (r, t)"
  shows "tl_events t = filter (\<lambda>(i, e). now - te_captured_at e \<le> whole_days (ts_retention_days (tl_settings s))) (tl_events s) \<and>
    r = Inr (int (length (tl_events s)) - int (length (tl_events t))) \<and> tl_settings t = tl_settings s \<and>
    (\<forall>e \<in> set (list_events t). now - te_captured_at e \<le> 3650 * 24 * 60 * 60 * 1000000)"
proof -
  let ?old = "\<lambda>(i, e). selected None None (Some (now - whole_days (ts_retention_days (tl_settings s)))) e"
  have t: "t = s\<lparr>tl_events := filter (\<lambda>x. \<not> ?old x) (tl_events s)\<rparr>" and
    r: "r = Inr (int (length (filter ?old (tl_events s))))"
    using assms(2) by (auto simp: purge_run delete_events_def case_prod_unfold)
  have kept: "tl_events t = filter (\<lambda>(i, e). now - te_captured_at e \<le> whole_days (ts_retention_days (tl_settings s))) (tl_events s)"
    unfolding t by (simp add: selected_def case_prod_unfold not_less algebra_simps cong: filter_cong)
  have "whole_days (ts_retention_days (tl_settings s)) \<le> 3650 * 24 * 60 * 60 * 1000000"
    using telemetry_ok_reachable [OF assms(1)] by (simp add: telemetry_ok_def settings_ok_def whole_days_def)
  then have bound: "\<forall>e \<in> set (list_events t). now - te_captured_at e \<le> 3650 * 24 * 60 * 60 * 1000000"
    unfolding kept list_events_def by auto
  have "length (filter ?old (tl_events s)) + length (filter (\<lambda>x. \<not> ?old x) (tl_events s)) = length (tl_events s)"
    by (rule sum_length_filter_compl)
  then have "r = Inr (int (length (tl_events s)) - int (length (tl_events t)))" unfolding r t by simp
  then show ?thesis using bound kept by (simp add: t)
qed

theorem retention_is_enforced_witness:
  "\<exists>r t. purge_expired (whole_days 31) telemetry_example = (r, t) \<and> tl_events t = []"
proof -
  obtain r t where run: "purge_expired (whole_days 31) telemetry_example = (r, t)" by (cases "purge_expired (whole_days 31) telemetry_example")
  have "tl_events t = filter (\<lambda>(i, e). whole_days 31 - te_captured_at e \<le> whole_days (ts_retention_days (tl_settings telemetry_example)))
      (tl_events telemetry_example)"
    using retention_is_enforced [OF telemetry_example_reachable run] by blast
  then show ?thesis using run by (auto simp: telemetry_example_value whole_days_def default_settings_def)
qed

end
