(* ===== verification/Calibration.thy ===== *)
theory Calibration
  imports ExperimentTrials
begin

text \<open>
  \<open>experiments/calibration/engine.py\<close>: the comparison of synthetic with human metrics and the store of immutable
  calibration proposals, their reviews and their promotions, with its artifact directory. A directory is three
  dictionaries from report id to the model an artifact file was written from, and \<open>reread\<close> is what its JSON text gives
  when it is read; \<open>None\<close> stands for a store without a directory. Several stores (processes) may share
  a directory; a step is one whole call of one of them, or a start or stop: calls that overlap in time are not modelled
  (the code takes no lock between looking for a file and replacing it). The main results: a policy is promoted
  only on an approved review, artifacts never change, and a restart loses nothing unless a number has overflowed.
\<close>

section \<open>Records\<close>

record metric_calibration =
  kn_metric :: string
  kn_synthetic_value :: rat
  kn_human_value :: rat
  kn_absolute_error :: rat
  kn_relative_error :: "rat option"

record calibration_report =
  kr_report_id :: uuid
  kr_synthetic_policy_version :: string
  kr_evidence_version :: string
  kr_metrics :: "metric_calibration list"
  kr_root_mean_squared_error :: rat
  kr_proposed_policy_version :: string
  kr_promotion_status :: string
  kr_human_ground_truth_claimed :: bool
  kr_proposed_adjustments :: "(string \<times> rat) list"
  kr_evidence_metadata :: jdict
  kr_approved_by :: "string option"
  kr_approved_at :: "int option"
  kr_review_id :: "uuid option"
  kr_reviewed_by :: "string option"
  kr_reviewed_at :: "int option"
  kr_promotion_id :: "uuid option"
  kr_promoted_by :: "string option"
  kr_promoted_at :: "int option"

record calibration_review =
  kv_review_id :: uuid
  kv_report_id :: uuid
  kv_decision :: string
  kv_reviewer :: string
  kv_rationale :: string
  kv_reviewed_at :: int

record calibration_promotion =
  kp_promotion_id :: uuid
  kp_report_id :: uuid
  kp_review_id :: uuid
  kp_promoted_policy_version :: string
  kp_promoted_by :: string
  kp_promoted_at :: int

record calibration_artifacts =
  ca_reports :: "(uuid \<times> calibration_report) list"
  ca_reviews :: "(uuid \<times> calibration_review) list"
  ca_promotions :: "(uuid \<times> calibration_promotion) list"

record calibration_store =
  cs_disk :: "calibration_artifacts option"
  cs_memory :: calibration_artifacts

section \<open>The engine\<close>

text \<open>A float beyond the largest finite one stands for an infinity.\<close>

definition FLOAT_MAX :: rat where
  "FLOAT_MAX = (2 ^ 53 - 1) * 2 ^ 971"

definition finite_float :: "rat \<Rightarrow> bool" where
  "finite_float q \<longleftrightarrow> \<bar>q\<bar> \<le> FLOAT_MAX"

definition metric_calibration_of :: "pylib \<Rightarrow> string \<Rightarrow> rat \<Rightarrow> rat \<Rightarrow> metric_calibration" where
  "metric_calibration_of L n synthetic human =
     (let err = \<bar>fl L (synthetic - human)\<bar>
      in \<lparr>kn_metric = n, kn_synthetic_value = synthetic, kn_human_value = human, kn_absolute_error = round6 L err,
        kn_relative_error = (if human = 0 then None else Some (round6 L (fl L (err / \<bar>human\<bar>))))\<rparr>)"

text \<open>The power of a finite float raises when it overflows, the other operations yield an infinity.\<close>

definition squared_error :: "pylib \<Rightarrow> rat \<Rightarrow> rat \<Rightarrow> rat res" where
  "squared_error L synthetic human =
     (let d = fl L (synthetic - human); q = fl L (d ^ 2)
      in if finite_float d \<and> \<not> finite_float q then Inl (OverflowError ''Numerical result out of range'') else Inr q)"

definition calibration_key :: "string \<Rightarrow> string \<Rightarrow> (string \<times> rat) list \<Rightarrow> (string \<times> rat) list \<Rightarrow> jdict \<Rightarrow> jval" where
  "calibration_key policy evidence synthetic human metadata = JDict
     [(''policy'', JStr policy), (''evidence'', JStr evidence),
      (''synthetic'', JDict (map (\<lambda>(n, q). (n, JFloat q)) synthetic)),
      (''human'', JDict (map (\<lambda>(n, q). (n, JFloat q)) human)), (''evidence_metadata'', JDict metadata)]"

definition compare_metrics ::
  "pylib \<Rightarrow> (rat list \<Rightarrow> rat) \<Rightarrow> (rat \<Rightarrow> rat) \<Rightarrow> (string \<times> rat) list \<Rightarrow> (string \<times> rat) list \<Rightarrow> string \<Rightarrow> string \<Rightarrow> jdict option \<Rightarrow>
   calibration_report res" where
  "compare_metrics L fsum sqrt_of synthetic human policy evidence metadata =
     (let shared = sort (remdups (filter (dhas human) (map fst synthetic)));
          side = (\<lambda>d n. dget_or d n 0);
          metrics = map (\<lambda>n. metric_calibration_of L n (side synthetic n) (side human n)) shared;
          meta = (case metadata of None \<Rightarrow> [] | Some m \<Rightarrow> m);
          rid = uuid5 L (json_text L (calibration_key policy evidence synthetic human meta))
      in bindR (ensure (shared \<noteq> []) (ValueError ''Synthetic and human evidence share no metrics'')) (\<lambda>_.
      bindR (mapR (\<lambda>n. squared_error L (side synthetic n) (side human n)) shared) (\<lambda>squares.
      Inr \<lparr>kr_report_id = rid, kr_synthetic_policy_version = policy, kr_evidence_version = evidence, kr_metrics = metrics,
        kr_root_mean_squared_error = round6 L (sqrt_of (fl L (fsum squares / of_nat (length shared)))),
        kr_proposed_policy_version = policy @ ''+calibration.'' @ take 8 rid,
        kr_promotion_status = ''REVIEW_REQUIRED'', kr_human_ground_truth_claimed = False,
        kr_proposed_adjustments = map (\<lambda>m. (kn_metric m, round6 L (fl L (kn_human_value m - kn_synthetic_value m)))) metrics,
        kr_evidence_metadata = meta, kr_approved_by = None, kr_approved_at = None, kr_review_id = None, kr_reviewed_by = None,
        kr_reviewed_at = None, kr_promotion_id = None, kr_promoted_by = None, kr_promoted_at = None\<rparr>)))"

section \<open>The store\<close>

text \<open>
  \<open>model_dump_json\<close> writes an infinity as \<open>null\<close>, which
  \<open>model_validate_json\<close> accepts for an optional field and in free metadata and refuses for a number.
\<close>

fun json_nulls :: "jval \<Rightarrow> jval" where
  "json_nulls (JFloat q) = (if finite_float q then JFloat q else JNull)"
| "json_nulls (JList vs) = JList (map json_nulls vs)"
| "json_nulls (JDict d) = JDict (map (\<lambda>(k, v). (k, json_nulls v)) d)"
| "json_nulls v = v"

definition finite_report :: "calibration_report \<Rightarrow> bool" where
  "finite_report r \<longleftrightarrow>
     list_all (\<lambda>m. finite_float (kn_synthetic_value m) \<and> finite_float (kn_human_value m) \<and> finite_float (kn_absolute_error m))
       (kr_metrics r) \<and>
     finite_float (kr_root_mean_squared_error r) \<and> list_all (\<lambda>(_, q). finite_float q) (kr_proposed_adjustments r)"

definition through_json :: "calibration_report \<Rightarrow> calibration_report" where
  "through_json r = r\<lparr>
     kr_metrics := map (\<lambda>m. m\<lparr>kn_relative_error := (case kn_relative_error m of
         Some q \<Rightarrow> if finite_float q then Some q else None | None \<Rightarrow> None)\<rparr>) (kr_metrics r),
     kr_evidence_metadata := map (\<lambda>(k, v). (k, json_nulls v)) (kr_evidence_metadata r)\<rparr>"

definition reread :: "calibration_report \<Rightarrow> calibration_report res" where
  "reread r = (if finite_report r then Inr (through_json r) else Inl ValidationError)"

text \<open>Pydantic's equality: dictionaries are compared whatever the order of their keys.\<close>

definition same_report :: "calibration_report \<Rightarrow> calibration_report \<Rightarrow> bool" where
  "same_report a b \<longleftrightarrow>
     a\<lparr>kr_proposed_adjustments := [], kr_evidence_metadata := []\<rparr> = b\<lparr>kr_proposed_adjustments := [], kr_evidence_metadata := []\<rparr> \<and>
     py_eq (JDict (map (\<lambda>(n, q). (n, JFloat q)) (kr_proposed_adjustments a)))
       (JDict (map (\<lambda>(n, q). (n, JFloat q)) (kr_proposed_adjustments b))) \<and>
     py_eq (JDict (kr_evidence_metadata a)) (JDict (kr_evidence_metadata b))"

definition no_artifacts :: calibration_artifacts where
  "no_artifacts = \<lparr>ca_reports = [], ca_reviews = [], ca_promotions = []\<rparr>"

definition index_by :: "('v \<Rightarrow> uuid) \<Rightarrow> (uuid \<times> 'v) list \<Rightarrow> (uuid \<times> 'v) list" where
  "index_by key files = foldl (\<lambda>d (_, v). dset d (key v) v) [] (sort_key fst files)"

definition load_artifacts :: "calibration_artifacts option \<Rightarrow> calibration_artifacts res" where
  "load_artifacts disk = (case disk of None \<Rightarrow> Inr no_artifacts
     | Some f \<Rightarrow>
         bindR (mapR (\<lambda>(i, r). bindR (reread r) (\<lambda>r'. Inr (i, r'))) (sort_key fst (ca_reports f))) (\<lambda>files.
         let reports = index_by kr_report_id files in
         bindR (ensure (list_all (\<lambda>(_, v). dhas reports (kv_report_id v)) (ca_reviews f))
           (ValueError ''calibration review has no proposal artifact'')) (\<lambda>_.
         bindR (ensure (list_all (\<lambda>(_, p). dhas reports (kp_report_id p)) (ca_promotions f))
           (ValueError ''calibration promotion has no proposal artifact'')) (\<lambda>_.
         Inr \<lparr>ca_reports = reports, ca_reviews = index_by kv_report_id (ca_reviews f),
           ca_promotions = index_by kp_report_id (ca_promotions f)\<rparr>))))"

definition new_calibration_store :: "calibration_artifacts option \<Rightarrow> calibration_store res" where
  "new_calibration_store disk = bindR (load_artifacts disk) (\<lambda>m. Inr \<lparr>cs_disk = disk, cs_memory = m\<rparr>)"

definition on_disk :: "(calibration_artifacts \<Rightarrow> calibration_artifacts) \<Rightarrow> calibration_store \<Rightarrow> calibration_store" where
  "on_disk f s = s\<lparr>cs_disk := map_option f (cs_disk s)\<rparr>"

definition in_memory :: "(calibration_artifacts \<Rightarrow> calibration_artifacts) \<Rightarrow> calibration_store \<Rightarrow> calibration_store" where
  "in_memory f s = s\<lparr>cs_memory := f (cs_memory s)\<rparr>"

definition write_proposal :: "calibration_report \<Rightarrow> (calibration_store, unit) eff" where
  "write_proposal r = bindE (readE cs_disk) (\<lambda>disk. case disk of None \<Rightarrow> returnE ()
     | Some f \<Rightarrow> (case dget (ca_reports f) (kr_report_id r) of
           Some e \<Rightarrow> bindE (liftE (reread e)) (\<lambda>e'.
             ensureE (same_report e' r) (ValueError ''Calibration proposal artifact is immutable''))
         | None \<Rightarrow> updE (on_disk (\<lambda>f. f\<lparr>ca_reports := dset (ca_reports f) (kr_report_id r) r\<rparr>))))"

definition write_review :: "calibration_review \<Rightarrow> (calibration_store, unit) eff" where
  "write_review v = bindE (readE cs_disk) (\<lambda>disk. case disk of None \<Rightarrow> returnE ()
     | Some f \<Rightarrow> (case dget (ca_reviews f) (kv_report_id v) of
           Some e \<Rightarrow> ensureE (e = v) (ValueError ''Calibration review artifact is immutable'')
         | None \<Rightarrow> updE (on_disk (\<lambda>f. f\<lparr>ca_reviews := dset (ca_reviews f) (kv_report_id v) v\<rparr>))))"

definition write_promotion :: "calibration_promotion \<Rightarrow> (calibration_store, unit) eff" where
  "write_promotion p = bindE (readE cs_disk) (\<lambda>disk. case disk of None \<Rightarrow> returnE ()
     | Some f \<Rightarrow> (case dget (ca_promotions f) (kp_report_id p) of
           Some e \<Rightarrow> ensureE (e = p) (ValueError ''Calibration promotion artifact is immutable'')
         | None \<Rightarrow> updE (on_disk (\<lambda>f. f\<lparr>ca_promotions := dset (ca_promotions f) (kp_report_id p) p\<rparr>))))"

definition unreviewed :: "calibration_report \<Rightarrow> bool" where
  "unreviewed r \<longleftrightarrow> kr_promotion_status r = ''REVIEW_REQUIRED'' \<and> \<not> kr_human_ground_truth_claimed r \<and>
     kr_approved_by r = None \<and> kr_approved_at r = None \<and> kr_review_id r = None \<and> kr_promotion_id r = None"

definition add_calibration :: "calibration_report \<Rightarrow> (calibration_store, calibration_report) eff" where
  "add_calibration r =
     bindE (ensureE (unreviewed r) (ValueError ''Only unreviewed calibration proposals can be added'')) (\<lambda>_.
     bindE (readE (\<lambda>s. dget (ca_reports (cs_memory s)) (kr_report_id r))) (\<lambda>existing.
     bindE (ensureE (case existing of None \<Rightarrow> True | Some e \<Rightarrow> same_report e r)
       (ValueError ''An immutable calibration proposal cannot be replaced'')) (\<lambda>_.
     let proposal = (case existing of None \<Rightarrow> r | Some e \<Rightarrow> e) in
     bindE (write_proposal proposal) (\<lambda>_.
     bindE (updE (in_memory (\<lambda>m. m\<lparr>ca_reports := dsetdefault (ca_reports m) (kr_report_id r) proposal\<rparr>))) (\<lambda>_.
     returnE proposal)))))"

definition calibration_view :: "calibration_store \<Rightarrow> uuid \<Rightarrow> calibration_report res" where
  "calibration_view s i =
     (let m = cs_memory s; review = dget (ca_reviews m) i; promotion = dget (ca_promotions m) i
      in bindR (of_option (KeyError i) (dget (ca_reports m) i)) (\<lambda>r.
      let r1 = (case review of None \<Rightarrow> r | Some v \<Rightarrow>
            r\<lparr>kr_promotion_status := kv_decision v, kr_review_id := Some (kv_review_id v),
              kr_reviewed_by := Some (kv_reviewer v), kr_reviewed_at := Some (kv_reviewed_at v),
              kr_approved_by := (if kv_decision v = ''APPROVED'' then Some (kv_reviewer v) else None),
              kr_approved_at := (if kv_decision v = ''APPROVED'' then Some (kv_reviewed_at v) else None)\<rparr>)
      in Inr (case promotion of None \<Rightarrow> r1 | Some p \<Rightarrow>
            r1\<lparr>kr_promotion_id := Some (kp_promotion_id p), kr_promoted_by := Some (kp_promoted_by p),
              kr_promoted_at := Some (kp_promoted_at p)\<rparr>)))"

definition list_calibrations :: "calibration_store \<Rightarrow> calibration_report list res" where
  "list_calibrations s = mapR (calibration_view s) (sort (map fst (ca_reports (cs_memory s))))"

definition get_calibration :: "uuid \<Rightarrow> (calibration_store, calibration_report) eff" where
  "get_calibration i s = (calibration_view s i, s)"

definition calibration_proposal :: "calibration_store \<Rightarrow> uuid \<Rightarrow> calibration_report res" where
  "calibration_proposal s i = of_option (KeyError i) (dget (ca_reports (cs_memory s)) i)"

definition review_of :: "pylib \<Rightarrow> uuid \<Rightarrow> string \<Rightarrow> string \<Rightarrow> string \<Rightarrow> int \<Rightarrow> calibration_review" where
  "review_of L i reviewer decision rationale t =
     \<lparr>kv_review_id = uuid5 L (join_with '':'' [''tabletop-dm:calibration-review'', i, decision, reviewer, rationale]),
       kv_report_id = i, kv_decision = decision, kv_reviewer = reviewer, kv_rationale = rationale, kv_reviewed_at = t\<rparr>"

definition review_calibration ::
  "pylib \<Rightarrow> int \<Rightarrow> uuid \<Rightarrow> string \<Rightarrow> string \<Rightarrow> string \<Rightarrow> int option \<Rightarrow> (calibration_store, calibration_review) eff" where
  "review_calibration L now i reviewer decision rationale reviewed_at =
     bindE (ensureE (strip reviewer \<noteq> []) (ValueError ''reviewer is required'')) (\<lambda>_.
     bindE (ensureE (decision \<in> set [''APPROVED'', ''REJECTED'']) (ValueError ''decision must be APPROVED or REJECTED'')) (\<lambda>_.
     bindE (readE cs_memory) (\<lambda>m.
     bindE (ensureE (dhas (ca_reports m) i) (KeyError i)) (\<lambda>_.
     bindE (ensureE (\<not> dhas (ca_reviews m) i) (ValueError ''calibration proposal has already been reviewed'')) (\<lambda>_.
     let v = review_of L i (strip reviewer) decision (strip rationale) (case reviewed_at of None \<Rightarrow> now | Some t \<Rightarrow> t) in
     bindE (write_review v) (\<lambda>_.
     bindE (updE (in_memory (\<lambda>m. m\<lparr>ca_reviews := dset (ca_reviews m) i v\<rparr>))) (\<lambda>_. returnE v)))))))"

definition approve_calibration :: "pylib \<Rightarrow> int \<Rightarrow> uuid \<Rightarrow> string \<Rightarrow> (calibration_store, calibration_report) eff" where
  "approve_calibration L now i reviewer =
     bindE (review_calibration L now i reviewer ''APPROVED'' [] None) (\<lambda>_. get_calibration i)"

definition promotion_of :: "pylib \<Rightarrow> uuid \<Rightarrow> calibration_review \<Rightarrow> calibration_report \<Rightarrow> string \<Rightarrow> int \<Rightarrow> calibration_promotion" where
  "promotion_of L i v r promoted_by t =
     \<lparr>kp_promotion_id = uuid5 L (join_with '':'' [''tabletop-dm:calibration-promotion'', i, kv_review_id v,
         kr_proposed_policy_version r, promoted_by]),
       kp_report_id = i, kp_review_id = kv_review_id v, kp_promoted_policy_version = kr_proposed_policy_version r,
       kp_promoted_by = promoted_by, kp_promoted_at = t\<rparr>"

definition promote_calibration ::
  "pylib \<Rightarrow> int \<Rightarrow> uuid \<Rightarrow> string \<Rightarrow> int option \<Rightarrow> (calibration_store, calibration_promotion) eff" where
  "promote_calibration L now i promoted_by promoted_at =
     bindE (ensureE (strip promoted_by \<noteq> []) (ValueError ''promoted_by is required'')) (\<lambda>_.
     bindE (readE cs_memory) (\<lambda>m.
     bindE (liftE (case dget (ca_reviews m) i of
         Some v \<Rightarrow> if kv_decision v = ''APPROVED'' then Inr v else Inl (ValueError ''an approved review is required before promotion'')
       | None \<Rightarrow> Inl (ValueError ''an approved review is required before promotion''))) (\<lambda>v.
     bindE (ensureE (\<not> dhas (ca_promotions m) i) (ValueError ''calibration proposal has already been promoted'')) (\<lambda>_.
     bindE (liftE (of_option (KeyError i) (dget (ca_reports m) i))) (\<lambda>r.
     let p = promotion_of L i v r (strip promoted_by) (case promoted_at of None \<Rightarrow> now | Some t \<Rightarrow> t) in
     bindE (write_promotion p) (\<lambda>_.
     bindE (updE (in_memory (\<lambda>m. m\<lparr>ca_promotions := dset (ca_promotions m) i p\<rparr>))) (\<lambda>_. returnE p)))))))"

text \<open>A comparison fails exactly when no metric is shared or the square of a difference overflows; otherwise each
  shared metric is measured once, in order, and the proposal can be added.\<close>

lemma mapR_Inl_member: "mapR f xs = Inl e \<Longrightarrow> \<exists>x \<in> set xs. f x = Inl e"
  by (induction xs) (auto simp: bindR_def split: sum.splits)

lemma compare_metrics_outcome:
  "case compare_metrics L fsum sqrt_of synthetic human policy evidence metadata of
     Inl e \<Rightarrow> (e = ValueError ''Synthetic and human evidence share no metrics'' \<and> set (map fst synthetic) \<inter> set (map fst human) = {}) \<or>
       (\<exists>n \<in> set (map fst synthetic) \<inter> set (map fst human). squared_error L (dget_or synthetic n 0) (dget_or human n 0) = Inl e)
   | Inr r \<Rightarrow> unreviewed r \<and> sorted (map kn_metric (kr_metrics r)) \<and> distinct (map kn_metric (kr_metrics r)) \<and>
       set (map kn_metric (kr_metrics r)) = set (map fst synthetic) \<inter> set (map fst human) \<and>
       map fst (kr_proposed_adjustments r) = map kn_metric (kr_metrics r)"
proof -
  have names: "map (\<lambda>n. kn_metric (metric_calibration_of L n (f n) (g n))) ns = ns" for f g ns
    by (simp add: metric_calibration_of_def Let_def)
  let ?shared = "filter (dhas human) (map fst synthetic)"
  have shared: "set ?shared = set (map fst synthetic) \<inter> set (map fst human)"
    using map_of_eq_None_iff [of human] by (auto simp: dhas_def)
  show ?thesis
  proof (cases "?shared = []")
    case True
    then show ?thesis using shared by (simp add: compare_metrics_def Let_def ensure_def)
  next
    case False
    let ?square = "\<lambda>n. squared_error L (dget_or synthetic n 0) (dget_or human n 0)"
    from False have some: "sort (remdups ?shared) \<noteq> []" by (metis set_empty set_remdups set_sort)
    show ?thesis
    proof (cases "mapR ?square (sort (remdups ?shared))")
      case (Inl e)
      have "\<exists>n \<in> set (map fst synthetic) \<inter> set (map fst human). ?square n = Inl e"
        using mapR_Inl_member [OF Inl] unfolding set_sort set_remdups shared .
      then show ?thesis using some Inl by (simp add: compare_metrics_def Let_def ensure_def)
    next
      case (Inr squares)
      then show ?thesis using some shared
        by (simp add: compare_metrics_def Let_def ensure_def unreviewed_def comp_def names)
    qed
  qed
qed

section \<open>Several stores over one directory\<close>

text \<open>One call of a store.\<close>

inductive calibration_call :: "pylib \<Rightarrow> calibration_store \<Rightarrow> calibration_store \<Rightarrow> bool" for L where
  added: "calibration_call L s (snd (add_calibration r s))"
| reviewed: "calibration_call L s (snd (review_calibration L now i reviewer decision rationale reviewed_at s))"
| approved: "calibration_call L s (snd (approve_calibration L now i reviewer s))"
| promoted: "calibration_call L s (snd (promote_calibration L now i promoted_by promoted_at s))"

text \<open>The directory and the memory of each running store: a call, a start, the end of a process at any time.\<close>

type_synonym calibration_site = "calibration_artifacts option \<times> calibration_artifacts list"

inductive calibration_step :: "pylib \<Rightarrow> calibration_site \<Rightarrow> calibration_site \<Rightarrow> bool" for L where
  called: "\<lbrakk>i < length ms; calibration_call L \<lparr>cs_disk = D, cs_memory = ms ! i\<rparr> s\<rbrakk> \<Longrightarrow>
     calibration_step L (D, ms) (cs_disk s, ms[i := cs_memory s])"
| started: "new_calibration_store D = Inr s \<Longrightarrow> calibration_step L (D, ms) (D, ms @ [cs_memory s])"
| stopped: "calibration_step L (D, ms) (D, take i ms @ drop (Suc i) ms)"

inductive_cases calibration_callE: "calibration_call L s t"
inductive_cases calibration_stepE: "calibration_step L x y"

section \<open>The invariant\<close>

definition filed :: "('v \<Rightarrow> uuid) \<Rightarrow> (uuid \<times> 'v) list \<Rightarrow> bool" where
  "filed key d \<longleftrightarrow> distinct (map fst d) \<and> (\<forall>i v. dget d i = Some v \<longrightarrow> key v = i)"

definition review_ok :: "calibration_artifacts \<Rightarrow> uuid \<Rightarrow> calibration_review \<Rightarrow> bool" where
  "review_ok f i v \<longleftrightarrow> dhas (ca_reports f) i \<and> kv_decision v \<in> {''APPROVED'', ''REJECTED''} \<and> kv_reviewer v \<noteq> []"

definition promotion_ok :: "calibration_artifacts \<Rightarrow> uuid \<Rightarrow> calibration_promotion \<Rightarrow> bool" where
  "promotion_ok f i p \<longleftrightarrow> (\<exists>v r. dget (ca_reviews f) i = Some v \<and> kv_decision v = ''APPROVED'' \<and>
     kp_review_id p = kv_review_id v \<and> dget (ca_reports f) i = Some r \<and>
     kp_promoted_policy_version p = kr_proposed_policy_version r)"

definition artifacts_ok :: "calibration_artifacts \<Rightarrow> bool" where
  "artifacts_ok f \<longleftrightarrow> filed kr_report_id (ca_reports f) \<and> filed kv_report_id (ca_reviews f) \<and> filed kp_report_id (ca_promotions f) \<and>
     (\<forall>i r. dget (ca_reports f) i = Some r \<longrightarrow> unreviewed r) \<and>
     (\<forall>i v. dget (ca_reviews f) i = Some v \<longrightarrow> review_ok f i v) \<and>
     (\<forall>i p. dget (ca_promotions f) i = Some p \<longrightarrow> promotion_ok f i p)"

definition agrees :: "calibration_report \<Rightarrow> calibration_report \<Rightarrow> bool" where
  "agrees e r \<longleftrightarrow> e = r \<or> (\<exists>e'. reread e = Inr e' \<and> (e' = r \<or> same_report e' r))"

definition known :: "calibration_artifacts \<Rightarrow> calibration_artifacts \<Rightarrow> bool" where
  "known m f \<longleftrightarrow> (\<forall>i r. dget (ca_reports m) i = Some r \<longrightarrow> (\<exists>e. dget (ca_reports f) i = Some e \<and> agrees e r)) \<and>
     (\<forall>i v. dget (ca_reviews m) i = Some v \<longrightarrow> dget (ca_reviews f) i = Some v) \<and>
     (\<forall>i p. dget (ca_promotions m) i = Some p \<longrightarrow> dget (ca_promotions f) i = Some p)"

definition grows :: "calibration_artifacts \<Rightarrow> calibration_artifacts \<Rightarrow> bool" where
  "grows f g \<longleftrightarrow> (\<forall>i r. dget (ca_reports f) i = Some r \<longrightarrow> dget (ca_reports g) i = Some r) \<and>
     (\<forall>i v. dget (ca_reviews f) i = Some v \<longrightarrow> dget (ca_reviews g) i = Some v) \<and>
     (\<forall>i p. dget (ca_promotions f) i = Some p \<longrightarrow> dget (ca_promotions g) i = Some p)"

definition disk_grows :: "calibration_artifacts option \<Rightarrow> calibration_artifacts option \<Rightarrow> bool" where
  "disk_grows D E \<longleftrightarrow> (case D of None \<Rightarrow> E = None | Some f \<Rightarrow> \<exists>g. E = Some g \<and> grows f g)"

definition store_ok :: "calibration_store \<Rightarrow> bool" where
  "store_ok s \<longleftrightarrow> artifacts_ok (cs_memory s) \<and>
     (case cs_disk s of None \<Rightarrow> True | Some f \<Rightarrow> artifacts_ok f \<and> known (cs_memory s) f)"

definition advanced :: "calibration_store \<Rightarrow> calibration_store \<Rightarrow> bool" where
  "advanced s t \<longleftrightarrow> store_ok t \<and> disk_grows (cs_disk s) (cs_disk t)"

lemma grows_refl [simp]: "grows f f"
  by (simp add: grows_def)

lemma disk_grows_refl [simp]: "disk_grows D D"
  by (simp add: disk_grows_def split: option.split)

lemma known_grows: "\<lbrakk>known m f; grows f g\<rbrakk> \<Longrightarrow> known m g"
  unfolding known_def grows_def by blast

lemma filed_dset: "\<lbrakk>filed key d; key v = i\<rbrakk> \<Longrightarrow> filed key (dset d i v)"
  by (auto simp: filed_def distinct_update)

lemma through_json_keeps [simp]:
  "kr_report_id (through_json r) = kr_report_id r" "unreviewed (through_json r) = unreviewed r"
  "kr_proposed_policy_version (through_json r) = kr_proposed_policy_version r"
  by (simp_all add: through_json_def unreviewed_def)

lemma reread_keeps:
  assumes "reread e = Inr r"
  shows "kr_report_id r = kr_report_id e" "unreviewed r = unreviewed e"
    "kr_proposed_policy_version r = kr_proposed_policy_version e"
  using assms by (auto simp: reread_def split: if_splits)

lemma same_report_version: "same_report e r \<Longrightarrow> kr_proposed_policy_version e = kr_proposed_policy_version r"
  unfolding same_report_def by (cases e; cases r) simp

lemma agrees_version: "agrees e r \<Longrightarrow> kr_proposed_policy_version e = kr_proposed_policy_version r"
  unfolding agrees_def using same_report_version reread_keeps(3) by metis

lemma artifacts_ok_report:
  assumes "artifacts_ok f" and "unreviewed r" and "kr_report_id r = i" and "dget (ca_reports f) i = None"
  shows "artifacts_ok (f\<lparr>ca_reports := dset (ca_reports f) i r\<rparr>)"
  using assms unfolding artifacts_ok_def review_ok_def promotion_ok_def dhas_def
  by (auto simp: filed_dset) (metis option.distinct(1))+

lemma artifacts_ok_review:
  assumes "artifacts_ok f" and "review_ok f i v" and "kv_report_id v = i" and "dget (ca_reviews f) i = None"
  shows "artifacts_ok (f\<lparr>ca_reviews := dset (ca_reviews f) i v\<rparr>)"
  using assms unfolding artifacts_ok_def review_ok_def promotion_ok_def dhas_def
  by (auto simp: filed_dset) (metis option.distinct(1))+

lemma artifacts_ok_promotion:
  assumes "artifacts_ok f" and "promotion_ok f i p" and "kp_report_id p = i"
  shows "artifacts_ok (f\<lparr>ca_promotions := dset (ca_promotions f) i p\<rparr>)"
  using assms unfolding artifacts_ok_def review_ok_def promotion_ok_def dhas_def
  by (auto simp: filed_dset)

section \<open>What each call does\<close>

lemma write_proposal_run:
  "write_proposal r s = (case cs_disk s of None \<Rightarrow> (Inr (), s)
     | Some f \<Rightarrow> (case dget (ca_reports f) (kr_report_id r) of
         Some e \<Rightarrow> (bindR (reread e) (\<lambda>e'. if same_report e' r then Inr ()
             else Inl (ValueError ''Calibration proposal artifact is immutable'')), s)
       | None \<Rightarrow> (Inr (), s\<lparr>cs_disk := Some (f\<lparr>ca_reports := dset (ca_reports f) (kr_report_id r) r\<rparr>)\<rparr>)))"
  by (auto simp: write_proposal_def on_disk_def ensure_def ensureE_def bindE_def split: option.split sum.split)

lemma write_review_run:
  "write_review v s = (case cs_disk s of None \<Rightarrow> (Inr (), s)
     | Some f \<Rightarrow> (case dget (ca_reviews f) (kv_report_id v) of
         Some e \<Rightarrow> (if e = v then Inr () else Inl (ValueError ''Calibration review artifact is immutable''), s)
       | None \<Rightarrow> (Inr (), s\<lparr>cs_disk := Some (f\<lparr>ca_reviews := dset (ca_reviews f) (kv_report_id v) v\<rparr>)\<rparr>)))"
  by (simp add: write_review_def on_disk_def split: option.split)

lemma write_promotion_run:
  "write_promotion p s = (case cs_disk s of None \<Rightarrow> (Inr (), s)
     | Some f \<Rightarrow> (case dget (ca_promotions f) (kp_report_id p) of
         Some e \<Rightarrow> (if e = p then Inr () else Inl (ValueError ''Calibration promotion artifact is immutable''), s)
       | None \<Rightarrow> (Inr (), s\<lparr>cs_disk := Some (f\<lparr>ca_promotions := dset (ca_promotions f) (kp_report_id p) p\<rparr>)\<rparr>)))"
  by (simp add: write_promotion_def on_disk_def split: option.split)

text \<open>Writing an artifact and then the memory, when the writing checks what is there.\<close>

lemma advanced_report:
  assumes ok: "store_ok s" and new: "unreviewed r" "kr_report_id r = i" "dget (ca_reports (cs_memory s)) i = None"
  shows "advanced s (snd (bindE (write_proposal r) (\<lambda>_. bindE (updE (in_memory (\<lambda>m. m\<lparr>ca_reports := dset (ca_reports m) i r\<rparr>)))
    (\<lambda>_. returnE x)) s))"
proof (cases "cs_disk s")
  case None
  then show ?thesis using ok artifacts_ok_report [OF _ new]
    by (auto simp: bindE_def write_proposal_run in_memory_def advanced_def store_ok_def)
next
  case (Some f)
  have f: "artifacts_ok f" "known (cs_memory s) f" and m: "artifacts_ok (cs_memory s)"
    using ok Some by (auto simp: store_ok_def)
  show ?thesis
  proof (cases "dget (ca_reports f) i")
    case None
    have "grows f (f\<lparr>ca_reports := dset (ca_reports f) i r\<rparr>)" using None by (auto simp: grows_def)
    moreover from this have "known (cs_memory s\<lparr>ca_reports := dset (ca_reports (cs_memory s)) i r\<rparr>)
        (f\<lparr>ca_reports := dset (ca_reports f) i r\<rparr>)"
      using known_grows [OF f(2)] by (auto simp: known_def agrees_def)
    ultimately show ?thesis
      using Some None new m f artifacts_ok_report [OF f(1) new(1, 2) None] artifacts_ok_report [OF m new]
      by (auto simp: bindE_def write_proposal_run in_memory_def advanced_def store_ok_def disk_grows_def)
  next
    fix e assume e: "dget (ca_reports f) i = Some e"
    then have "known (cs_memory s\<lparr>ca_reports := dset (ca_reports (cs_memory s)) i r\<rparr>) f"
      if "reread e = Inr e'" "same_report e' r" for e'
      using f(2) that by (auto simp: known_def agrees_def)
    then show ?thesis
      using Some e new ok m f artifacts_ok_report [OF m new]
      by (cases "reread e")
        (auto simp: bindE_def write_proposal_run in_memory_def advanced_def store_ok_def disk_grows_def)
  qed
qed

lemma known_review_ok: "\<lbrakk>known m f; review_ok m i v\<rbrakk> \<Longrightarrow> review_ok f i v"
  by (fastforce simp: known_def review_ok_def dhas_def)

lemma known_promotion_ok:
  assumes "known m f" and "promotion_ok m i p"
  shows "promotion_ok f i p"
proof -
  obtain v r where v: "dget (ca_reviews m) i = Some v" "kv_decision v = ''APPROVED''" "kp_review_id p = kv_review_id v"
    and r: "dget (ca_reports m) i = Some r" "kp_promoted_policy_version p = kr_proposed_policy_version r"
    using assms(2) unfolding promotion_ok_def by blast
  obtain e where e: "dget (ca_reports f) i = Some e" "agrees e r" using assms(1) r(1) unfolding known_def by blast
  have "dget (ca_reviews f) i = Some v" using assms(1) v(1) unfolding known_def by blast
  then show ?thesis using v r(2) e(1) agrees_version [OF e(2)] unfolding promotion_ok_def by metis
qed

lemma advanced_review:
  assumes ok: "store_ok s" and new: "review_ok (cs_memory s) i v" "kv_report_id v = i" "dget (ca_reviews (cs_memory s)) i = None"
  shows "advanced s (snd (bindE (write_review v) (\<lambda>_. bindE (updE (in_memory (\<lambda>m. m\<lparr>ca_reviews := dset (ca_reviews m) i v\<rparr>)))
    (\<lambda>_. returnE x)) s))"
proof (cases "cs_disk s")
  case None
  then show ?thesis using ok artifacts_ok_review [OF _ new]
    by (auto simp: bindE_def write_review_run in_memory_def advanced_def store_ok_def)
next
  case (Some f)
  have f: "artifacts_ok f" "known (cs_memory s) f" and m: "artifacts_ok (cs_memory s)"
    using ok Some by (auto simp: store_ok_def)
  have fv: "review_ok f i v" using known_review_ok [OF f(2) new(1)] .
  note mv = artifacts_ok_review [OF m new]
  show ?thesis
  proof (cases "dget (ca_reviews f) i")
    case None
    have "grows f (f\<lparr>ca_reviews := dset (ca_reviews f) i v\<rparr>)" using None by (auto simp: grows_def)
    moreover from this have "known (cs_memory s\<lparr>ca_reviews := dset (ca_reviews (cs_memory s)) i v\<rparr>)
        (f\<lparr>ca_reviews := dset (ca_reviews f) i v\<rparr>)"
      using known_grows [OF f(2)] by (auto simp: known_def agrees_def)
    ultimately show ?thesis
      using Some None new(2) artifacts_ok_review [OF f(1) fv new(2) None] mv
      by (auto simp: bindE_def write_review_run in_memory_def advanced_def store_ok_def disk_grows_def)
  next
    fix e assume e: "dget (ca_reviews f) i = Some e"
    then have "e = v \<Longrightarrow> known (cs_memory s\<lparr>ca_reviews := dset (ca_reviews (cs_memory s)) i v\<rparr>) f"
      using f(2) by (auto simp: known_def agrees_def)
    then show ?thesis
      using Some e new(2) ok m f mv
      by (auto simp: bindE_def write_review_run in_memory_def advanced_def store_ok_def disk_grows_def)
  qed
qed

lemma advanced_promotion:
  assumes ok: "store_ok s" and new: "promotion_ok (cs_memory s) i v" "kp_report_id v = i" "dget (ca_promotions (cs_memory s)) i = None"
  shows "advanced s (snd (bindE (write_promotion v) (\<lambda>_. bindE (updE (in_memory (\<lambda>m. m\<lparr>ca_promotions := dset (ca_promotions m) i v\<rparr>)))
    (\<lambda>_. returnE x)) s))"
proof (cases "cs_disk s")
  case None
  then show ?thesis using ok artifacts_ok_promotion [OF _ new(1, 2)]
    by (auto simp: bindE_def write_promotion_run in_memory_def advanced_def store_ok_def)
next
  case (Some f)
  have f: "artifacts_ok f" "known (cs_memory s) f" and m: "artifacts_ok (cs_memory s)"
    using ok Some by (auto simp: store_ok_def)
  have fv: "promotion_ok f i v" using known_promotion_ok [OF f(2) new(1)] .
  note mv = artifacts_ok_promotion [OF m new(1, 2)]
  show ?thesis
  proof (cases "dget (ca_promotions f) i")
    case None
    have "grows f (f\<lparr>ca_promotions := dset (ca_promotions f) i v\<rparr>)" using None by (auto simp: grows_def)
    moreover from this have "known (cs_memory s\<lparr>ca_promotions := dset (ca_promotions (cs_memory s)) i v\<rparr>)
        (f\<lparr>ca_promotions := dset (ca_promotions f) i v\<rparr>)"
      using known_grows [OF f(2)] by (auto simp: known_def agrees_def)
    ultimately show ?thesis
      using Some None new(2) artifacts_ok_promotion [OF f(1) fv new(2)] mv
      by (auto simp: bindE_def write_promotion_run in_memory_def advanced_def store_ok_def disk_grows_def)
  next
    fix e assume e: "dget (ca_promotions f) i = Some e"
    then have "e = v \<Longrightarrow> known (cs_memory s\<lparr>ca_promotions := dset (ca_promotions (cs_memory s)) i v\<rparr>) f"
      using f(2) by (auto simp: known_def agrees_def)
    then show ?thesis
      using Some e new(2) ok m f mv
      by (auto simp: bindE_def write_promotion_run in_memory_def advanced_def store_ok_def disk_grows_def)
  qed
qed

lemma advanced_refl: "store_ok s \<Longrightarrow> advanced s s"
  by (simp add: advanced_def)

lemma advanced_add: "store_ok s \<Longrightarrow> advanced s (snd (add_calibration r s))"
proof (cases "unreviewed r \<and> dget (ca_reports (cs_memory s)) (kr_report_id r) = None")
  case True
  assume ok: "store_ok s"
  have same: "dsetdefault (ca_reports (cs_memory t)) (kr_report_id r) r = dset (ca_reports (cs_memory t)) (kr_report_id r) r"
    if "cs_memory t = cs_memory s" for t
    using True that by (simp add: dsetdefault_def dhas_def)
  have "snd (add_calibration r s) = snd (bindE (write_proposal r) (\<lambda>_. bindE (updE (in_memory
      (\<lambda>m. m\<lparr>ca_reports := dset (ca_reports m) (kr_report_id r) r\<rparr>))) (\<lambda>_. returnE r)) s)"
    using True by (simp add: add_calibration_def bindE_def write_proposal_run in_memory_def same split: option.split sum.split)
  then show ?thesis using advanced_report [OF ok, of r "kr_report_id r" r] True by simp
next
  case False
  assume ok: "store_ok s"
  have "snd (add_calibration r s) = s" if e: "dget (ca_reports (cs_memory s)) (kr_report_id r) = Some e" for e
  proof -
    have "kr_report_id e = kr_report_id r" using ok e unfolding store_ok_def artifacts_ok_def filed_def by blast
    moreover have "dget (ca_reports f) (kr_report_id r) \<noteq> None" if "cs_disk s = Some f" for f
    proof -
      have "known (cs_memory s) f" using ok that by (simp add: store_ok_def)
      then show ?thesis using e unfolding known_def by blast
    qed
    moreover have "in_memory (\<lambda>m. m\<lparr>ca_reports := dsetdefault (ca_reports m) (kr_report_id r) e\<rparr>) s = s"
      using e by (simp add: in_memory_def dsetdefault_def dhas_def)
    ultimately show ?thesis
      using e by (auto simp: add_calibration_def bindE_def write_proposal_run split: option.split sum.split)
  qed
  then show ?thesis using False ok advanced_refl by (auto simp: add_calibration_def)
qed

lemma review_of_id [simp]: "kv_report_id (review_of L i reviewer decision rationale t) = i"
  by (simp add: review_of_def)

lemma review_of_ok:
  "\<lbrakk>dhas (ca_reports m) i; decision = ''APPROVED'' \<or> decision = ''REJECTED''; reviewer \<noteq> []\<rbrakk> \<Longrightarrow>
     review_ok m i (review_of L i reviewer decision rationale t)"
  by (auto simp: review_ok_def review_of_def)

lemma advanced_reviewed: "store_ok s \<Longrightarrow> advanced s (snd (review_calibration L now i reviewer decision rationale reviewed_at s))"
  by (auto simp: review_calibration_def Let_def advanced_refl dhas_def intro!: advanced_review review_of_ok)

lemma approve_state: "snd (approve_calibration L now i reviewer s) = snd (review_calibration L now i reviewer ''APPROVED'' [] None s)"
  by (simp add: approve_calibration_def bindE_def get_calibration_def split: prod.split sum.split)

lemma promotion_of_id [simp]: "kp_report_id (promotion_of L i v r promoted_by t) = i"
  by (simp add: promotion_of_def)

lemma promotion_of_ok:
  "\<lbrakk>dget (ca_reviews m) i = Some v; kv_decision v = ''APPROVED''; dget (ca_reports m) i = Some r\<rbrakk> \<Longrightarrow>
     promotion_ok m i (promotion_of L i v r promoted_by t)"
  by (auto simp: promotion_ok_def promotion_of_def)

lemma advanced_promoted: "store_ok s \<Longrightarrow> advanced s (snd (promote_calibration L now i promoted_by promoted_at s))"
  by (cases "dget (ca_reports (cs_memory s)) i")
     (auto simp: promote_calibration_def Let_def advanced_refl dhas_def of_option_def
       intro!: advanced_promotion promotion_of_ok split: option.split)

lemma advanced_call: "\<lbrakk>calibration_call L s t; store_ok s\<rbrakk> \<Longrightarrow> advanced s t"
  by (induction rule: calibration_call.induct) (simp_all add: advanced_add advanced_reviewed advanced_promoted approve_state)

section \<open>Loading\<close>

lemma dget_foldl_index:
  "\<lbrakk>distinct (map fst xs); \<forall>(i, v) \<in> set xs. key v = i\<rbrakk> \<Longrightarrow>
     dget (foldl (\<lambda>d (_, v). dset d (key v) v) acc xs) i = (case dget xs i of None \<Rightarrow> dget acc i | Some v \<Rightarrow> Some v)"
proof (induction xs arbitrary: acc)
  case (Cons p xs)
  obtain k v where p: "p = (k, v)" by (cases p)
  have "dget xs k = None" "key v = k" using Cons.prems by (auto simp: p map_of_eq_None_iff)
  then show ?case using Cons by (auto simp: p split: option.split)
qed simp

lemma dget_sort_key: "distinct (map fst d) \<Longrightarrow> dget (sort_key fst d) i = dget d i"
  by (rule map_of_eqI [THEN fun_cong]) (auto simp: map_of_eq_None_iff distinct_map)

lemma dget_index_by:
  assumes "filed key d"
  shows "dget (index_by key d) i = dget d i"
proof -
  have d: "distinct (map fst d)" and k: "\<forall>(i, v) \<in> set d. key v = i"
    using assms by (auto simp: filed_def)
  have "distinct (map fst (sort_key fst d))" using d by (simp add: distinct_map)
  then show ?thesis
    using dget_foldl_index [of "sort_key fst d" key "[]" i] k dget_sort_key [OF d]
    by (simp add: index_by_def split: option.split)
qed

lemma reread_files:
  "mapR (\<lambda>(i, r). bindR (reread r) (\<lambda>r'. Inr (i, r'))) files =
     (if \<forall>(i, r) \<in> set files. finite_report r then Inr (map (\<lambda>(i, r). (i, through_json r)) files) else Inl ValidationError)"
  by (induction files) (auto simp: reread_def)

text \<open>A directory loads exactly when every number in its proposals is finite.\<close>

lemma load_exact:
  assumes f: "artifacts_ok f" and finite: "\<forall>i r. dget (ca_reports f) i = Some r \<longrightarrow> finite_report r"
  obtains m where "load_artifacts (Some f) = Inr m"
    and "\<forall>i. dget (ca_reports m) i = map_option through_json (dget (ca_reports f) i)"
    and "dget (ca_reviews m) = dget (ca_reviews f)" and "dget (ca_promotions m) = dget (ca_promotions f)"
proof -
  let ?files = "map (\<lambda>(i, r). (i, through_json r)) (sort_key fst (ca_reports f))"
  let ?m = "\<lparr>ca_reports = index_by kr_report_id ?files, ca_reviews = index_by kv_report_id (ca_reviews f),
    ca_promotions = index_by kp_report_id (ca_promotions f)\<rparr>"
  have d: "distinct (map fst (ca_reports f))" using f by (simp add: artifacts_ok_def filed_def)
  have found: "dget ?files i = map_option through_json (dget (ca_reports f) i)" for i
    by (simp add: map_of_map dget_sort_key [OF d])
  have keys: "map fst ?files = map fst (sort_key fst (ca_reports f))" by (simp add: case_prod_beta comp_def)
  have "filed kr_report_id ?files"
    unfolding filed_def keys found using f d by (auto simp: artifacts_ok_def filed_def distinct_map)
  then have same: "dget (index_by kr_report_id ?files) i = map_option through_json (dget (ca_reports f) i)"
    "dget (index_by kv_report_id (ca_reviews f)) = dget (ca_reviews f)"
    "dget (index_by kp_report_id (ca_promotions f)) = dget (ca_promotions f)" for i
    using f found by (auto simp: artifacts_ok_def dget_index_by)
  have reports: "dhas (index_by kr_report_id ?files) i \<longleftrightarrow> dhas (ca_reports f) i" for i by (simp add: dhas_def same(1))
  have "dhas (ca_reports f) (kv_report_id v)" if "(i, v) \<in> set (ca_reviews f)" for i v
  proof -
    have "dget (ca_reviews f) i = Some v" using f that by (simp add: artifacts_ok_def filed_def)
    then show ?thesis using f unfolding artifacts_ok_def filed_def review_ok_def by metis
  qed
  moreover have "dhas (ca_reports f) (kp_report_id p)" if "(i, p) \<in> set (ca_promotions f)" for i p
  proof -
    have "dget (ca_promotions f) i = Some p" using f that by (simp add: artifacts_ok_def filed_def)
    then show ?thesis using f unfolding artifacts_ok_def filed_def promotion_ok_def dhas_def by (metis option.distinct(1))
  qed
  moreover have "\<forall>(i, r) \<in> set (sort_key fst (ca_reports f)). finite_report r" using finite d by auto
  ultimately have "load_artifacts (Some f) = Inr ?m"
    by (auto simp: load_artifacts_def reread_files Let_def ensure_def list_all_iff reports)
  with same that show ?thesis by simp
qed

lemma load_overflow:
  assumes "dget (ca_reports f) i = Some r" and "\<not> finite_report r"
  shows "load_artifacts (Some f) = Inl ValidationError"
proof -
  have "(i, r) \<in> set (sort_key fst (ca_reports f))" using map_of_SomeD [OF assms(1)] by simp
  then have bad: "\<not> (\<forall>(i, r) \<in> set (sort_key fst (ca_reports f)). finite_report r)" using assms(2) by blast
  show ?thesis by (simp only: load_artifacts_def option.case reread_files if_not_P [OF bad] bindR_simps)
qed

definition site_ok :: "calibration_site \<Rightarrow> bool" where
  "site_ok x \<longleftrightarrow> (\<forall>f. fst x = Some f \<longrightarrow> artifacts_ok f) \<and> (\<forall>m \<in> set (snd x). store_ok \<lparr>cs_disk = fst x, cs_memory = m\<rparr>)"

lemma no_artifacts_ok: "artifacts_ok no_artifacts"
  by (simp add: artifacts_ok_def filed_def no_artifacts_def)

lemma index_by_distinct: "distinct (map fst (index_by key d))"
proof -
  have "distinct (map fst acc) \<Longrightarrow> distinct (map fst (foldl (\<lambda>d (_, v). dset d (key v) v) acc xs))" for acc xs
    by (induction xs arbitrary: acc) (auto simp: distinct_update)
  from this [of "[]"] show ?thesis by (simp add: index_by_def)
qed

lemma load_ok:
  assumes "load_artifacts D = Inr m" and "\<forall>f. D = Some f \<longrightarrow> artifacts_ok f"
  shows "store_ok \<lparr>cs_disk = D, cs_memory = m\<rparr>"
proof (cases D)
  case None
  then show ?thesis using assms(1) no_artifacts_ok by (simp add: store_ok_def load_artifacts_def)
next
  case (Some f)
  then have f: "artifacts_ok f" using assms(2) by blast
  have finite: "\<forall>i r. dget (ca_reports f) i = Some r \<longrightarrow> finite_report r"
    using load_overflow assms(1) Some by fastforce
  obtain m' where m': "load_artifacts (Some f) = Inr m'"
    and same: "\<forall>i. dget (ca_reports m') i = map_option through_json (dget (ca_reports f) i)"
      "dget (ca_reviews m') = dget (ca_reviews f)" "dget (ca_promotions m') = dget (ca_promotions f)"
    using load_exact [OF f finite] .
  have m: "m' = m" using m' assms(1) Some by simp
  have "distinct (map fst (ca_reports m))" "distinct (map fst (ca_reviews m))" "distinct (map fst (ca_promotions m))"
    using assms(1) Some by (auto simp: load_artifacts_def Let_def res_simps index_by_distinct split: if_splits)
  moreover have "promotion_ok m i p" if "dget (ca_promotions f) i = Some p" for i p
  proof -
    have "promotion_ok f i p" using f that unfolding artifacts_ok_def by blast
    then show ?thesis by (auto simp: promotion_ok_def same [unfolded m])
  qed
  ultimately have "artifacts_ok m"
    using f by (auto simp: artifacts_ok_def filed_def review_ok_def dhas_def same [unfolded m])
  moreover have "known m f"
    using finite by (auto simp: m [symmetric] same known_def agrees_def reread_def)
  ultimately show ?thesis using f Some by (simp add: store_ok_def)
qed

lemma store_ok_grows:
  "\<lbrakk>store_ok \<lparr>cs_disk = D, cs_memory = m\<rparr>; disk_grows D E; \<forall>g. E = Some g \<longrightarrow> artifacts_ok g\<rbrakk> \<Longrightarrow>
     store_ok \<lparr>cs_disk = E, cs_memory = m\<rparr>"
  by (cases D) (auto simp: store_ok_def disk_grows_def intro: known_grows)

lemma called_grows:
  assumes "calibration_step L x y" and "site_ok x"
  shows "site_ok y \<and> disk_grows (fst x) (fst y)"
  using assms
proof (induction rule: calibration_step.induct)
  case (called i ms D s)
  have "store_ok \<lparr>cs_disk = D, cs_memory = ms ! i\<rparr>" using called by (simp add: site_ok_def)
  from advanced_call [OF called(2) this] have s: "store_ok s" and g: "disk_grows D (cs_disk s)"
    by (simp_all add: advanced_def)
  have disk: "\<forall>g. cs_disk s = Some g \<longrightarrow> artifacts_ok g" using s by (auto simp: store_ok_def)
  have "store_ok \<lparr>cs_disk = cs_disk s, cs_memory = m\<rparr>" if "m \<in> set (ms[i := cs_memory s])" for m
  proof (cases "m = cs_memory s")
    case False
    then have "m \<in> set ms" using that set_update_subset_insert [of ms i "cs_memory s"] by blast
    then show ?thesis using called(3) store_ok_grows [OF _ g disk] by (simp add: site_ok_def)
  qed (use s in \<open>cases s; simp\<close>)
  then show ?case using disk g by (simp add: site_ok_def)
next
  case (started D s ms)
  then have "load_artifacts D = Inr (cs_memory s)" by (auto simp: new_calibration_store_def res_simps)
  then have "store_ok \<lparr>cs_disk = D, cs_memory = cs_memory s\<rparr>" using load_ok started(2) by (simp add: site_ok_def)
  then show ?case using started(2) by (auto simp: site_ok_def)
next
  case (stopped i ms D)
  then show ?case by (auto simp: site_ok_def dest: in_set_takeD in_set_dropD)
qed

lemma site_ok_reachable:
  assumes "(calibration_step L)\<^sup>*\<^sup>* (D, []) x" and "D = None \<or> D = Some no_artifacts"
  shows "site_ok x"
  using assms
proof (induction rule: rtranclp_induct)
  case base
  then show ?case using no_artifacts_ok by (auto simp: site_ok_def)
qed (use called_grows in blast)

lemma known_loaded:
  assumes "known k f" and "dget (ca_reports k) i = Some r" and "\<forall>i r. dget (ca_reports f) i = Some r \<longrightarrow> finite_report r"
  shows "\<exists>e. map_option through_json (dget (ca_reports f) i) = Some e \<and> (e = r \<or> e = through_json r \<or> same_report e r) \<and>
    kr_proposed_policy_version e = kr_proposed_policy_version r"
proof -
  obtain d where d: "dget (ca_reports f) i = Some d" "agrees d r" using assms(1,2) unfolding known_def by blast
  have "reread d = Inr (through_json d)" using assms(3) d(1) by (simp add: reread_def)
  then have "through_json d = r \<or> through_json d = through_json r \<or> same_report (through_json d) r"
    using d(2) by (auto simp: agrees_def)
  then show ?thesis using d(1) agrees_version [OF d(2)] by auto
qed

section \<open>The properties\<close>

text \<open>A proposal that is added, approved and promoted by one server.\<close>

definition calibration_example_report :: calibration_report where
  "calibration_example_report = \<lparr>kr_report_id = ''r'', kr_synthetic_policy_version = ''p1'', kr_evidence_version = ''e1'',
     kr_metrics = [metric_calibration_of ref_lib ''joy'' 1 2], kr_root_mean_squared_error = 1,
     kr_proposed_policy_version = ''p1+calibration.r'', kr_promotion_status = ''REVIEW_REQUIRED'',
     kr_human_ground_truth_claimed = False, kr_proposed_adjustments = [(''joy'', 1)], kr_evidence_metadata = [],
     kr_approved_by = None, kr_approved_at = None, kr_review_id = None, kr_reviewed_by = None, kr_reviewed_at = None,
     kr_promotion_id = None, kr_promoted_by = None, kr_promoted_at = None\<rparr>"

definition calibration_started :: calibration_store where
  "calibration_started = \<lparr>cs_disk = Some no_artifacts, cs_memory = no_artifacts\<rparr>"

definition calibration_added :: calibration_store where
  "calibration_added = snd (add_calibration calibration_example_report calibration_started)"

definition calibration_approved :: calibration_store where
  "calibration_approved = snd (approve_calibration ref_lib 7 ''r'' ''Ada'' calibration_added)"

definition calibration_promoted :: calibration_store where
  "calibration_promoted = snd (promote_calibration ref_lib 8 ''r'' ''Bob'' None calibration_approved)"

lemma calibration_promoted_facts:
  "dhas (ca_promotions (cs_memory calibration_promoted)) ''r''"
  "map_option (\<lambda>f. dhas (ca_promotions f) ''r'') (cs_disk calibration_promoted) = Some True"
  "dhas (ca_reports (cs_memory calibration_promoted)) ''r''"
  "map_option ca_reports (cs_disk calibration_promoted) = Some [(''r'', calibration_example_report)]"
  by code_simp+

lemma calibration_called: "calibration_call L s t \<Longrightarrow>
    calibration_step L (cs_disk s, [cs_memory s]) (cs_disk t, [cs_memory t])"
  using calibration_step.called [of 0 "[cs_memory s]" L "cs_disk s" t] by (cases s) simp

lemma calibration_example_reachable:
  "(calibration_step ref_lib)\<^sup>*\<^sup>* (Some no_artifacts, []) (cs_disk calibration_promoted, [cs_memory calibration_promoted])"
proof -
  have "calibration_step ref_lib (Some no_artifacts, []) (cs_disk calibration_started, [cs_memory calibration_started])"
    using calibration_step.started [of "Some no_artifacts" calibration_started ref_lib "[]"]
    by (simp add: calibration_started_def new_calibration_store_def load_artifacts_def reread_files index_by_def no_artifacts_def)
  moreover have "calibration_step ref_lib (cs_disk calibration_started, [cs_memory calibration_started])
      (cs_disk calibration_added, [cs_memory calibration_added])"
    unfolding calibration_added_def by (intro calibration_called calibration_call.added)
  moreover have "calibration_step ref_lib (cs_disk calibration_added, [cs_memory calibration_added])
      (cs_disk calibration_approved, [cs_memory calibration_approved])"
    unfolding calibration_approved_def by (intro calibration_called calibration_call.approved)
  moreover have "calibration_step ref_lib (cs_disk calibration_approved, [cs_memory calibration_approved])
      (cs_disk calibration_promoted, [cs_memory calibration_promoted])"
    unfolding calibration_promoted_def by (intro calibration_called calibration_call.promoted)
  ultimately show ?thesis by (meson converse_rtranclp_into_rtranclp rtranclp.rtrancl_refl)
qed

text \<open>
  C37. A policy is promoted only on an approved review: in every state that servers starting, stopping and serving
  requests one at a time, in any order, over one artifact directory (or none) can reach, what a server shows of a proposal never claims
  human ground truth; it is waiting, approved or rejected; it names an approver exactly when it is approved; and when
  it is promoted it is approved, the promotion names that review and promotes the version the proposal asked for.
\<close>

theorem promotion_needs_approval:
  assumes "(calibration_step L)\<^sup>*\<^sup>* (D, []) (E, ms)" and "D = None \<or> D = Some no_artifacts" and "m \<in> set ms"
    and "calibration_view \<lparr>cs_disk = E, cs_memory = m\<rparr> i = Inr r"
  shows "\<not> kr_human_ground_truth_claimed r \<and>
    kr_promotion_status r \<in> {''REVIEW_REQUIRED'', ''APPROVED'', ''REJECTED''} \<and>
    (kr_approved_by r \<noteq> None \<longleftrightarrow> kr_promotion_status r = ''APPROVED'') \<and>
    (kr_promotion_id r \<noteq> None \<longrightarrow> kr_promotion_status r = ''APPROVED'' \<and>
      (\<exists>p v. dget (ca_promotions m) i = Some p \<and> dget (ca_reviews m) i = Some v \<and> kr_promotion_id r = Some (kp_promotion_id p) \<and>
        kr_review_id r = Some (kp_review_id p) \<and> kp_review_id p = kv_review_id v \<and>
        kp_promoted_policy_version p = kr_proposed_policy_version r))"
proof -
  have "store_ok \<lparr>cs_disk = E, cs_memory = m\<rparr>"
    using site_ok_reachable [OF assms(1, 2)] assms(3) by (simp add: site_ok_def)
  then have m: "artifacts_ok m" by (simp add: store_ok_def)
  obtain q where q: "dget (ca_reports m) i = Some q"
    using assms(4) by (cases "dget (ca_reports m) i") (simp_all add: calibration_view_def)
  have new: "unreviewed q" using m q unfolding artifacts_ok_def by blast
  have review: "kv_decision v = ''APPROVED'' \<or> kv_decision v = ''REJECTED''" if "dget (ca_reviews m) i = Some v" for v
    using m that unfolding artifacts_ok_def review_ok_def by blast
  show ?thesis
  proof (cases "dget (ca_promotions m) i")
    case None
    then show ?thesis
      using assms(4) q new review
      by (cases "dget (ca_reviews m) i") (auto simp: calibration_view_def Let_def unreviewed_def)
  next
    case (Some p)
    then have "promotion_ok m i p" using m unfolding artifacts_ok_def by blast
    then show ?thesis
      using assms(4) q new Some by (auto simp: promotion_ok_def calibration_view_def Let_def unreviewed_def)
  qed
qed

theorem promotion_needs_approval_witness:
  "\<exists>r. calibration_view calibration_promoted ''r'' = Inr r \<and> kr_promotion_id r \<noteq> None \<and> kr_promotion_status r = ''APPROVED''"
proof -
  obtain q p where "dget (ca_reports (cs_memory calibration_promoted)) ''r'' = Some q"
    "dget (ca_promotions (cs_memory calibration_promoted)) ''r'' = Some p"
    using calibration_promoted_facts unfolding dhas_def by blast
  then obtain r where r: "calibration_view calibration_promoted ''r'' = Inr r" "kr_promotion_id r = Some (kp_promotion_id p)"
    by (auto simp: calibration_view_def Let_def)
  have whole: "\<lparr>cs_disk = cs_disk calibration_promoted, cs_memory = cs_memory calibration_promoted\<rparr> = calibration_promoted"
    by (cases calibration_promoted) simp
  have "kr_promotion_status r = ''APPROVED''"
    using promotion_needs_approval [OF calibration_example_reachable, of "cs_memory calibration_promoted" "''r''" r] r
    by (simp add: whole)
  then show ?thesis using r by blast
qed

text \<open>
  C38. The artifact directory is the truth all servers share: whatever servers over one directory did, one request at a
  time, a further request of any of them leaves every artifact as it was, and the reviews and promotions any running
  server knows are those of the directory. When every number in the proposals is finite, a server started now loads
  without error what the directory holds, each proposal as JSON gives it back (an infinite relative error or metadata
  value has become null), and so all that any running server knows. When some number of a proposal has overflowed,
  every start over the directory fails with a validation error.
\<close>

theorem calibration_survives_restart:
  assumes "(calibration_step L)\<^sup>*\<^sup>* (Some no_artifacts, []) (E, ms)"
  shows "\<exists>f. E = Some f \<and>
    (\<forall>y. calibration_step L (E, ms) y \<longrightarrow> (\<exists>g. fst y = Some g \<and> grows f g)) \<and>
    (\<forall>k \<in> set ms. \<forall>i. (\<forall>v. dget (ca_reviews k) i = Some v \<longrightarrow> dget (ca_reviews f) i = Some v) \<and>
      (\<forall>p. dget (ca_promotions k) i = Some p \<longrightarrow> dget (ca_promotions f) i = Some p)) \<and>
    ((\<exists>i r. dget (ca_reports f) i = Some r \<and> \<not> finite_report r) \<longrightarrow> new_calibration_store E = Inl ValidationError) \<and>
    ((\<forall>i r. dget (ca_reports f) i = Some r \<longrightarrow> finite_report r) \<longrightarrow>
      (\<exists>m. new_calibration_store E = Inr \<lparr>cs_disk = E, cs_memory = m\<rparr> \<and>
        (\<forall>i. dget (ca_reports m) i = map_option through_json (dget (ca_reports f) i)) \<and>
        dget (ca_reviews m) = dget (ca_reviews f) \<and> dget (ca_promotions m) = dget (ca_promotions f) \<and>
        (\<forall>k \<in> set ms. \<forall>i r. dget (ca_reports k) i = Some r \<longrightarrow>
          (\<exists>e. dget (ca_reports m) i = Some e \<and> (e = r \<or> e = through_json r \<or> same_report e r) \<and>
            kr_proposed_policy_version e = kr_proposed_policy_version r))))"
proof -
  have ok: "site_ok (E, ms)" using site_ok_reachable [OF assms] by blast
  have "disk_grows (Some no_artifacts) (fst x) \<and> site_ok x" if "(calibration_step L)\<^sup>*\<^sup>* (Some no_artifacts, []) x" for x
    using that
  proof (induction rule: rtranclp_induct)
    case base
    then show ?case using no_artifacts_ok by (simp add: site_ok_def)
  next
    case (step y z)
    then have "site_ok z" "disk_grows (fst y) (fst z)" using called_grows by blast+
    then show ?case using step.IH by (auto simp: disk_grows_def grows_def split: option.splits)
  qed
  from this [OF assms] obtain f where E: "E = Some f" by (auto simp: disk_grows_def)
  have f: "artifacts_ok f" using ok E by (simp add: site_ok_def)
  have known: "known k f" if "k \<in> set ms" for k
    using ok that E by (auto simp: site_ok_def store_ok_def)
  have kept: "\<exists>g. fst y = Some g \<and> grows f g" if "calibration_step L (E, ms) y" for y
    using called_grows [OF that ok] by (simp add: disk_grows_def E)
  have verdicts: "(\<forall>v. dget (ca_reviews k) i = Some v \<longrightarrow> dget (ca_reviews f) i = Some v) \<and>
      (\<forall>p. dget (ca_promotions k) i = Some p \<longrightarrow> dget (ca_promotions f) i = Some p)" if "k \<in> set ms" for k i
    using known [OF that] unfolding known_def by blast
  have overflow: "new_calibration_store E = Inl ValidationError" if "dget (ca_reports f) i = Some r" "\<not> finite_report r" for i r
    using load_overflow [OF that] by (simp add: new_calibration_store_def E)
  have loads: "\<exists>m. new_calibration_store E = Inr \<lparr>cs_disk = E, cs_memory = m\<rparr> \<and>
      (\<forall>i. dget (ca_reports m) i = map_option through_json (dget (ca_reports f) i)) \<and>
      dget (ca_reviews m) = dget (ca_reviews f) \<and> dget (ca_promotions m) = dget (ca_promotions f) \<and>
      (\<forall>k \<in> set ms. \<forall>i r. dget (ca_reports k) i = Some r \<longrightarrow>
        (\<exists>e. dget (ca_reports m) i = Some e \<and> (e = r \<or> e = through_json r \<or> same_report e r) \<and>
          kr_proposed_policy_version e = kr_proposed_policy_version r))"
    if finite: "\<forall>i r. dget (ca_reports f) i = Some r \<longrightarrow> finite_report r"
  proof -
    obtain m where m: "load_artifacts (Some f) = Inr m"
      "\<forall>i. dget (ca_reports m) i = map_option through_json (dget (ca_reports f) i)"
      "dget (ca_reviews m) = dget (ca_reviews f)" "dget (ca_promotions m) = dget (ca_promotions f)"
      using load_exact [OF f finite] .
    have "\<exists>e. dget (ca_reports m) i = Some e \<and> (e = r \<or> e = through_json r \<or> same_report e r) \<and>
        kr_proposed_policy_version e = kr_proposed_policy_version r"
      if "k \<in> set ms" "dget (ca_reports k) i = Some r" for k i r
      using known_loaded [OF known [OF that(1)] that(2) finite] by (simp add: m(2))
    moreover have "new_calibration_store E = Inr \<lparr>cs_disk = E, cs_memory = m\<rparr>"
      using m(1) by (simp add: new_calibration_store_def E)
    ultimately show ?thesis using m(2-4) by blast
  qed
  show ?thesis
    by (rule exI [of _ f]) (use E kept verdicts overflow loads in blast)
qed

lemma calibration_example_finite: "finite_report calibration_example_report"
proof -
  have "(1 :: rat) \<le> 2 ^ 971" by (rule one_le_power) simp
  then have "(2 ^ 53 - 1) * 1 \<le> FLOAT_MAX" unfolding FLOAT_MAX_def by (intro mult_left_mono) simp_all
  then have "\<bar>q\<bar> \<le> 2 \<Longrightarrow> finite_float q" for q by (simp add: finite_float_def)
  moreover have "kn_synthetic_value (metric_calibration_of ref_lib ''joy'' 1 2) = 1" "kn_human_value (metric_calibration_of ref_lib ''joy'' 1 2) = 2"
    "kn_absolute_error (metric_calibration_of ref_lib ''joy'' 1 2) = 1" by code_simp+
  ultimately show ?thesis by (simp add: finite_report_def calibration_example_report_def)
qed

theorem calibration_survives_restart_witness:
  "\<exists>m. new_calibration_store (cs_disk calibration_promoted) = Inr \<lparr>cs_disk = cs_disk calibration_promoted, cs_memory = m\<rparr> \<and>
     dhas (ca_promotions m) ''r''"
proof -
  obtain f where f: "cs_disk calibration_promoted = Some f" "dhas (ca_promotions f) ''r''"
    using calibration_promoted_facts(2) by auto
  have "ca_reports f = [(''r'', calibration_example_report)]"
    using calibration_promoted_facts(4) f(1) by simp
  then have "\<forall>i r. dget (ca_reports f) i = Some r \<longrightarrow> finite_report r"
    using calibration_example_finite by auto
  then obtain m where m:
    "new_calibration_store (cs_disk calibration_promoted) = Inr \<lparr>cs_disk = cs_disk calibration_promoted, cs_memory = m\<rparr>"
    "dget (ca_promotions m) = dget (ca_promotions f)"
    using calibration_survives_restart [OF calibration_example_reachable] f(1) by auto
  have "dhas (ca_promotions m) ''r''" using f(2) by (simp add: dhas_def m(2))
  then show ?thesis using m(1) by blast
qed

end
