(* ===== verification/PlayerEvaluation.thy ===== *)
theory PlayerEvaluation
  imports ExperimentTrials
begin

text \<open>
  \<open>experiments/player_evaluation.py\<close>: the verifier that reads a player's events and a final state and returns
  metrics with evidenced facts. \<open>tally_step\<close> is the body of the loop, \<open>metrics_of\<close> the metrics and
  \<open>player_facts\<close> the facts. The main result: the tally is the declarative count of the events, and every
  fact cites events of the run, as many as it counts unless the final state overrides the count.
\<close>

section \<open>The loop over the events\<close>

record tally =
  ta_first_valid :: int
  ta_invalid_reasons :: "(string \<times> int) list"
  ta_invalid_evidence :: "uuid list"
  ta_evidence_by_reason :: "(string \<times> uuid list) list"
  ta_hints :: "uuid list"
  ta_helps :: "uuid list"
  ta_deaths :: "uuid list"
  ta_inaccessible :: "uuid list"
  ta_contradictions :: "uuid list"
  ta_clues :: "uuid list"
  ta_loops :: "uuid list"
  ta_abandoned :: "uuid list"
  ta_comprehended :: "uuid list"
  ta_repeated :: int
  ta_prior_invalid :: "string option"
  ta_prior_help :: "string option"

definition empty_tally :: tally where
  "empty_tally = \<lparr>ta_first_valid = -1, ta_invalid_reasons = [], ta_invalid_evidence = [], ta_evidence_by_reason = [],
     ta_hints = [], ta_helps = [], ta_deaths = [], ta_inaccessible = [], ta_contradictions = [], ta_clues = [],
     ta_loops = [], ta_abandoned = [], ta_comprehended = [], ta_repeated = 0, ta_prior_invalid = None, ta_prior_help = None\<rparr>"

definition outcome_of :: "pylib \<Rightarrow> event \<Rightarrow> string" where
  "outcome_of L e = upper (py_str L (dget_or (e_payload e) ''outcome'' (JStr [])))"

definition action_of :: "pylib \<Rightarrow> event \<Rightarrow> string" where
  "action_of L e = upper (py_str L (dget_or (e_payload e) ''action'' (JStr [])))"

definition reason_of :: "pylib \<Rightarrow> event \<Rightarrow> string" where
  "reason_of L e =
     (let first = dget_or (e_payload e) ''invalid_reason'' JNull; second = dget_or (e_payload e) ''failure_code'' JNull;
          action = action_of L e in
      if py_bool first then py_str L first else if py_bool second then py_str L second
      else ''unexpected_action:'' @ (if action = [] then ''unknown'' else action))"

definition marked :: "string \<Rightarrow> string \<Rightarrow> event \<Rightarrow> bool" where
  "marked in_type flag e \<longleftrightarrow> has_infix in_type (casefold (e_event_type e)) \<or> py_bool (dget_or (e_payload e) flag JNull)"

definition asks_help :: "pylib \<Rightarrow> event \<Rightarrow> bool" where
  "asks_help L e \<longleftrightarrow> action_of L e = ''ASK_HELP'' \<or> has_infix ''rules_help'' (casefold (e_event_type e))"

definition tally_outcome :: "pylib \<Rightarrow> int \<Rightarrow> event \<Rightarrow> tally \<Rightarrow> tally" where
  "tally_outcome L index e t0 =
     (let outcome = outcome_of L e; action = action_of L e; reason = reason_of L e; i = e_event_id e;
          t = (if outcome = ''VALID'' \<and> ta_first_valid t0 < 0 then t0\<lparr>ta_first_valid := index\<rparr> else t0)
      in if outcome = ''INVALID''
         then t\<lparr>ta_invalid_reasons := dset (ta_invalid_reasons t) reason (dget_or (ta_invalid_reasons t) reason 0 + 1),
           ta_invalid_evidence := ta_invalid_evidence t @ [i],
           ta_evidence_by_reason := dset (ta_evidence_by_reason t) reason (dget_or (ta_evidence_by_reason t) reason [] @ [i]),
           ta_repeated := ta_repeated t + (if ta_prior_invalid t = Some action then 1 else 0),
           ta_prior_invalid := Some action\<rparr>
         else t\<lparr>ta_prior_invalid := None\<rparr>)"

definition tally_dialogue :: "pylib \<Rightarrow> event \<Rightarrow> tally \<Rightarrow> tally" where
  "tally_dialogue L e t =
     (let outcome = outcome_of L e; i = e_event_id e in
      if has_infix ''dialogue.loop'' (casefold (e_event_type e)) then t\<lparr>ta_loops := ta_loops t @ [i]\<rparr>
      else if outcome = ''HELP_PROVIDED''
        then (let help_step = py_str L (dget_or (e_payload e) ''step'' (JStr [])) in
          t\<lparr>ta_loops := ta_loops t @ (if help_step \<noteq> [] \<and> ta_prior_help t = Some help_step then [i] else []),
            ta_prior_help := Some help_step\<rparr>)
      else if outcome = ''VALID'' then t\<lparr>ta_prior_help := None\<rparr>
      else t)"

definition noted :: "bool \<Rightarrow> uuid \<Rightarrow> uuid list \<Rightarrow> uuid list" where
  "noted b i xs = (if b then xs @ [i] else xs)"

definition tally_step :: "pylib \<Rightarrow> int \<Rightarrow> event \<Rightarrow> tally \<Rightarrow> tally" where
  "tally_step L index e t0 =
     (let t1 = tally_outcome L index e t0; i = e_event_id e;
          t2 = t1\<lparr>ta_helps := noted (asks_help L e) i (ta_helps t1)\<rparr>;
          t = tally_dialogue L e t2
      in t\<lparr>ta_hints := noted (marked ''hint'' ''hint_provided'' e) i (ta_hints t),
           ta_deaths := noted (marked ''death'' ''died'' e) i (ta_deaths t),
           ta_inaccessible := noted (marked ''accessibility.blocked'' ''inaccessible'' e) i (ta_inaccessible t),
           ta_contradictions := noted (marked ''narrative.contradiction'' ''narrative_contradiction'' e) i (ta_contradictions t),
           ta_clues := noted (marked ''clue.discovered'' ''clue_discovered'' e) i (ta_clues t),
           ta_abandoned := noted (marked ''abandon'' ''abandoned'' e) i (ta_abandoned t),
           ta_comprehended := noted (marked ''quest.comprehended'' ''quest_comprehended'' e) i (ta_comprehended t)\<rparr>)"

fun tally_from :: "pylib \<Rightarrow> int \<Rightarrow> event list \<Rightarrow> tally \<Rightarrow> tally" where
  "tally_from L index [] t = t"
| "tally_from L index (e # es) t = tally_from L (index + 1) es (tally_step L index e t)"

definition tally_of :: "pylib \<Rightarrow> event list \<Rightarrow> tally" where
  "tally_of L events = tally_from L 1 events empty_tally"

section \<open>Metrics and facts\<close>

record player_metrics =
  pe_time_to_first_valid_action :: int
  pe_invalid_actions :: int
  pe_invalid_action_reasons :: "(string \<times> int) list"
  pe_repeated_failed_actions :: int
  pe_rules_help_requests :: int
  pe_hints_requested :: int
  pe_dialogue_loops :: int
  pe_abandoned :: bool
  pe_deaths :: int
  pe_inaccessible_paths :: int
  pe_narrative_contradictions :: int
  pe_clues_discovered :: int
  pe_quest_comprehended :: bool

text \<open>\<open>int(state.get(name, default))\<close> and \<open>bool(state.get(name, default))\<close>.\<close>

definition state_int :: "jdict \<Rightarrow> string \<Rightarrow> int \<Rightarrow> int res" where
  "state_int d n k = py_int (dget_or d n (JInt k))"

definition state_bool :: "jdict \<Rightarrow> string \<Rightarrow> bool \<Rightarrow> bool" where
  "state_bool d n b = py_bool (dget_or d n (JBool b))"

definition length_int :: "'a list \<Rightarrow> int" where
  "length_int xs = int (length xs)"

definition metrics_of :: "tally \<Rightarrow> jdict \<Rightarrow> player_metrics res" where
  "metrics_of t d =
     bindR (state_int d ''time_to_first_valid_action'' (ta_first_valid t)) (\<lambda>first.
     bindR (state_int d ''invalid_actions'' (sum_list (map snd (ta_invalid_reasons t)))) (\<lambda>invalid.
     bindR (state_int d ''repeated_failed_actions'' (ta_repeated t)) (\<lambda>repeated.
     bindR (state_int d ''help_requests'' (length_int (ta_helps t))) (\<lambda>helps.
     bindR (state_int d ''hints_requested'' (length_int (ta_hints t))) (\<lambda>hints.
     bindR (state_int d ''dialogue_loops'' (length_int (ta_loops t))) (\<lambda>loops.
     bindR (state_int d ''deaths'' (length_int (ta_deaths t))) (\<lambda>deaths.
     bindR (state_int d ''inaccessible_paths'' (length_int (ta_inaccessible t))) (\<lambda>inaccessible.
     bindR (state_int d ''narrative_contradictions'' (length_int (ta_contradictions t))) (\<lambda>contradictions.
     bindR (state_int d ''clues_discovered'' (length_int (ta_clues t))) (\<lambda>clues.
     bindR (ensure (list_all (\<lambda>n. 0 \<le> n) [invalid, repeated, helps, hints, loops, deaths, inaccessible, contradictions, clues])
       ValidationError) (\<lambda>_.
     Inr \<lparr>pe_time_to_first_valid_action = first, pe_invalid_actions = invalid,
       pe_invalid_action_reasons = sort (ta_invalid_reasons t), pe_repeated_failed_actions = repeated,
       pe_rules_help_requests = helps, pe_hints_requested = hints, pe_dialogue_loops = loops,
       pe_abandoned = state_bool d ''abandoned'' (ta_abandoned t \<noteq> []), pe_deaths = deaths,
       pe_inaccessible_paths = inaccessible, pe_narrative_contradictions = contradictions, pe_clues_discovered = clues,
       pe_quest_comprehended = state_bool d ''quest_comprehended'' (ta_comprehended t \<noteq> [])\<rparr>)))))))))))"

definition player_fact :: "string \<Rightarrow> jval \<Rightarrow> uuid list \<Rightarrow> string option \<Rightarrow> verifier_fact" where
  "player_fact fact_type v evidence unit = \<lparr>vf_fact_type = fact_type, vf_value = v, vf_unit = unit,
     vf_evidence_event_ids = evidence, vf_verifier_version = ''player-evaluation-1.0.0''\<rparr>"

definition player_facts :: "event list \<Rightarrow> tally \<Rightarrow> player_metrics \<Rightarrow> verifier_fact list" where
  "player_facts events t m =
     [player_fact ''player.time_to_first_valid_action'' (JInt (pe_time_to_first_valid_action m))
        (map e_event_id (take (nat (max (pe_time_to_first_valid_action m) 0)) events)) (Some ''actions''),
      player_fact ''player.invalid_action_count'' (JInt (pe_invalid_actions m)) (ta_invalid_evidence t) (Some ''actions''),
      player_fact ''player.repeated_failed_actions'' (JInt (pe_repeated_failed_actions m)) (ta_invalid_evidence t) (Some ''actions''),
      player_fact ''player.rules_help_requests'' (JInt (pe_rules_help_requests m)) (ta_helps t) (Some ''requests''),
      player_fact ''player.abandoned'' (JBool (pe_abandoned m)) (ta_abandoned t) None,
      player_fact ''player.death_count'' (JInt (pe_deaths m)) (ta_deaths t) (Some ''deaths''),
      player_fact ''player.hints_requested'' (JInt (pe_hints_requested m)) (ta_hints t) (Some ''hints''),
      player_fact ''player.dialogue_loops'' (JInt (pe_dialogue_loops m)) (ta_loops t) (Some ''loops''),
      player_fact ''player.inaccessible_paths'' (JInt (pe_inaccessible_paths m)) (ta_inaccessible t) (Some ''paths''),
      player_fact ''player.narrative_contradictions'' (JInt (pe_narrative_contradictions m)) (ta_contradictions t)
        (Some ''contradictions''),
      player_fact ''player.clues_discovered'' (JInt (pe_clues_discovered m)) (ta_clues t) (Some ''clues''),
      player_fact ''player.quest_comprehended'' (JBool (pe_quest_comprehended m)) (ta_comprehended t) None] @
     concat (map (\<lambda>reason. map (\<lambda>i. player_fact ''player.invalid_action_reason'' (JStr reason) [i] None)
       (dget_or (ta_evidence_by_reason t) reason [])) (sort (map fst (ta_invalid_reasons t))))"

definition verify_player :: "pylib \<Rightarrow> event list \<Rightarrow> jdict \<Rightarrow> (player_metrics \<times> verifier_fact list) res" where
  "verify_player L events final_state =
     (let t = tally_of L events in
      bindR (case dget_or final_state ''player_evaluation'' (JDict final_state) of JDict d \<Rightarrow> Inr d
         | _ \<Rightarrow> Inl (AttributeError ''no attribute get'')) (\<lambda>d.
      bindR (metrics_of t d) (\<lambda>m. Inr (m, player_facts events t m))))"

definition player_verifier :: "pylib \<Rightarrow> event list \<Rightarrow> jdict \<Rightarrow> verifier_fact list res" where
  "player_verifier L events final_state = bindR (verify_player L events final_state) (\<lambda>r. Inr (snd r))"

section \<open>The tally is a count\<close>

definition ids_where :: "(event \<Rightarrow> bool) \<Rightarrow> event list \<Rightarrow> uuid list" where
  "ids_where P es = map e_event_id (filter P es)"

lemma ids_where_simps [simp]: "ids_where P [] = []"
    "ids_where P (e # es) = (if P e then [e_event_id e] else []) @ ids_where P es"
  by (simp_all add: ids_where_def)

definition is_invalid :: "pylib \<Rightarrow> event \<Rightarrow> bool" where
  "is_invalid L e \<longleftrightarrow> outcome_of L e = ''INVALID''"

lemmas tally_defs = tally_step_def tally_outcome_def tally_dialogue_def noted_def Let_def

text \<open>What each list collects: the selectors do not depend on the events before.\<close>

lemma tally_lists:
  "ta_helps (tally_from L k es t) = ta_helps t @ ids_where (asks_help L) es"
  "ta_hints (tally_from L k es t) = ta_hints t @ ids_where (marked ''hint'' ''hint_provided'') es"
  "ta_deaths (tally_from L k es t) = ta_deaths t @ ids_where (marked ''death'' ''died'') es"
  "ta_inaccessible (tally_from L k es t) = ta_inaccessible t @ ids_where (marked ''accessibility.blocked'' ''inaccessible'') es"
  "ta_contradictions (tally_from L k es t) =
     ta_contradictions t @ ids_where (marked ''narrative.contradiction'' ''narrative_contradiction'') es"
  "ta_clues (tally_from L k es t) = ta_clues t @ ids_where (marked ''clue.discovered'' ''clue_discovered'') es"
  "ta_abandoned (tally_from L k es t) = ta_abandoned t @ ids_where (marked ''abandon'' ''abandoned'') es"
  "ta_comprehended (tally_from L k es t) = ta_comprehended t @ ids_where (marked ''quest.comprehended'' ''quest_comprehended'') es"
  "ta_invalid_evidence (tally_from L k es t) = ta_invalid_evidence t @ ids_where (is_invalid L) es"
  by (induction es arbitrary: k t; simp add: tally_defs is_invalid_def)+

lemma tally_first:
  "1 \<le> k \<Longrightarrow> ta_first_valid (tally_from L k es t) =
     (let n = length (takeWhile (\<lambda>e. outcome_of L e \<noteq> ''VALID'') es) in
      if ta_first_valid t < 0 \<and> n < length es then k + int n else ta_first_valid t)"
  by (induction es arbitrary: k t) (simp_all add: tally_defs)

lemma step_fields:
  "ta_invalid_reasons (tally_step L k e t) = (if is_invalid L e
     then dset (ta_invalid_reasons t) (reason_of L e) (dget_or (ta_invalid_reasons t) (reason_of L e) 0 + 1)
     else ta_invalid_reasons t)"
  "ta_evidence_by_reason (tally_step L k e t) = (if is_invalid L e
     then dset (ta_evidence_by_reason t) (reason_of L e) (dget_or (ta_evidence_by_reason t) (reason_of L e) [] @ [e_event_id e])
     else ta_evidence_by_reason t)"
  "ta_repeated (tally_step L k e t) = ta_repeated t +
     (if is_invalid L e \<and> ta_prior_invalid t = Some (action_of L e) then 1 else 0)"
  "set (ta_loops (tally_step L k e t)) \<subseteq> insert (e_event_id e) (set (ta_loops t))"
  by (simp_all add: tally_defs is_invalid_def subset_insertI) blast

lemma tally_loops: "set (ta_loops (tally_from L k es t)) \<subseteq> set (ta_loops t) \<union> e_event_id ` set es"
proof (induction es arbitrary: k t)
  case (Cons e es)
  show ?case using Cons.IH [where t = "tally_step L k e t"] step_fields(4) [of L k e t] by fastforce
qed simp

lemma tally_repeated:
  "ta_repeated t \<le> ta_repeated (tally_from L k es t) \<and>
     ta_repeated (tally_from L k es t) \<le> ta_repeated t + length_int (ids_where (is_invalid L) es)"
proof (induction es arbitrary: k t)
  case (Cons e es)
  show ?case using Cons.IH [where t = "tally_step L k e t" and k = "k + 1"]
    by (auto simp: step_fields(3) length_int_def split: if_splits)
qed (simp add: length_int_def)

lemma sum_dset_incr:
  "distinct (map fst d) \<Longrightarrow> sum_list (map snd (dset d k (dget_or d k 0 + 1))) = sum_list (map snd d) + (1 :: int)"
proof (induction d)
  case (Cons p d)
  then show ?case by (cases p) (auto simp: dget_or_def map_of_eq_None_iff split: option.split)
qed (simp add: dget_or_def)

text \<open>The events that fail for a reason.\<close>

definition fails_for :: "pylib \<Rightarrow> string \<Rightarrow> event \<Rightarrow> bool" where
  "fails_for L r e \<longleftrightarrow> is_invalid L e \<and> reason_of L e = r"

lemma tally_evidence:
  "dget_or (ta_evidence_by_reason (tally_from L k es t)) r [] = dget_or (ta_evidence_by_reason t) r [] @ ids_where (fails_for L r) es"
proof (induction es arbitrary: k t)
  case (Cons e es)
  show ?case by (simp add: Cons.IH step_fields(2) fails_for_def)
qed simp

lemma tally_counts:
  "dget_or (ta_invalid_reasons (tally_from L k es t)) r 0 = dget_or (ta_invalid_reasons t) r 0 + length_int (ids_where (fails_for L r) es)"
proof (induction es arbitrary: k t)
  case (Cons e es)
  show ?case by (simp add: Cons.IH step_fields(1) fails_for_def length_int_def)
qed (simp add: length_int_def)

lemma tally_reasons:
  "fst ` set (ta_invalid_reasons (tally_from L k es t)) = fst ` set (ta_invalid_reasons t) \<union> reason_of L ` {e \<in> set es. is_invalid L e}"
proof (induction es arbitrary: k t)
  case (Cons e es)
  show ?case by (auto simp: Cons.IH step_fields(1) dom_update)
qed simp

lemma tally_total:
  "distinct (map fst (ta_invalid_reasons t)) \<Longrightarrow> distinct (map fst (ta_invalid_reasons (tally_from L k es t))) \<and>
     sum_list (map snd (ta_invalid_reasons (tally_from L k es t))) =
       sum_list (map snd (ta_invalid_reasons t)) + length_int (ids_where (is_invalid L) es)"
proof (induction es arbitrary: k t)
  case (Cons e es)
  show ?case using Cons.IH [where t = "tally_step L k e t" and k = "k + 1"] Cons.prems
    by (auto simp: step_fields(1) length_int_def distinct_update sum_dset_incr)
qed (simp add: length_int_def)

section \<open>The properties\<close>

definition OVERRIDABLE :: "string list" where
  "OVERRIDABLE = [''player_evaluation'', ''time_to_first_valid_action'', ''invalid_actions'', ''repeated_failed_actions'',
     ''help_requests'', ''hints_requested'', ''dialogue_loops'', ''abandoned'', ''deaths'', ''inaccessible_paths'',
     ''narrative_contradictions'', ''clues_discovered'', ''quest_comprehended'']"

lemma ids_where_subset: "set (ids_where P es) \<subseteq> e_event_id ` set es"
  by (auto simp: ids_where_def)

text \<open>The tally of a whole run.\<close>

lemma tally_of_lists:
  "ta_helps (tally_of L es) = ids_where (asks_help L) es"
  "ta_hints (tally_of L es) = ids_where (marked ''hint'' ''hint_provided'') es"
  "ta_deaths (tally_of L es) = ids_where (marked ''death'' ''died'') es"
  "ta_inaccessible (tally_of L es) = ids_where (marked ''accessibility.blocked'' ''inaccessible'') es"
  "ta_contradictions (tally_of L es) = ids_where (marked ''narrative.contradiction'' ''narrative_contradiction'') es"
  "ta_clues (tally_of L es) = ids_where (marked ''clue.discovered'' ''clue_discovered'') es"
  "ta_abandoned (tally_of L es) = ids_where (marked ''abandon'' ''abandoned'') es"
  "ta_comprehended (tally_of L es) = ids_where (marked ''quest.comprehended'' ''quest_comprehended'') es"
  "ta_invalid_evidence (tally_of L es) = ids_where (is_invalid L) es"
  "dget_or (ta_evidence_by_reason (tally_of L es)) r [] = ids_where (fails_for L r) es"
  unfolding tally_of_def by (simp_all add: tally_lists tally_evidence) (simp_all add: empty_tally_def dget_or_def)

lemma tally_of_loops: "set (ta_loops (tally_of L es)) \<subseteq> e_event_id ` set es"
  using tally_loops [of L 1 es empty_tally] by (simp add: tally_of_def empty_tally_def)

lemma tally_of_numbers:
  "ta_first_valid (tally_of L es) = (let n = length (takeWhile (\<lambda>e. outcome_of L e \<noteq> ''VALID'') es) in
     if n < length es then int n + 1 else -1)"
  "0 \<le> ta_repeated (tally_of L es)" "ta_repeated (tally_of L es) \<le> length_int (ids_where (is_invalid L) es)"
  "sum_list (map snd (ta_invalid_reasons (tally_of L es))) = length_int (ids_where (is_invalid L) es)"
  "distinct (map fst (ta_invalid_reasons (tally_of L es)))"
  using tally_first [of 1 L es empty_tally] tally_repeated [of empty_tally L 1 es] tally_total [of empty_tally L 1 es]
  unfolding tally_of_def by (simp_all add: Let_def) (simp_all add: empty_tally_def)

lemma tally_of_reasons:
  "(r, n) \<in> set (ta_invalid_reasons (tally_of L es)) \<longleftrightarrow> 0 < n \<and> n = length_int (ids_where (fails_for L r) es)"
proof -
  have count: "dget_or (ta_invalid_reasons (tally_of L es)) r 0 = length_int (ids_where (fails_for L r) es)"
    using tally_counts [of L 1 es empty_tally r] by (simp add: tally_of_def) (simp add: empty_tally_def dget_or_def)
  have keys: "fst ` set (ta_invalid_reasons (tally_of L es)) = reason_of L ` {e \<in> set es. is_invalid L e}"
    using tally_reasons [of L 1 es empty_tally] by (simp add: tally_of_def) (simp add: empty_tally_def)
  have some: "0 < length_int (ids_where (fails_for L r) es) \<longleftrightarrow> r \<in> reason_of L ` {e \<in> set es. is_invalid L e}"
    by (auto simp: length_int_def ids_where_def fails_for_def filter_empty_conv)
  have member: "(r, n) \<in> set (ta_invalid_reasons (tally_of L es)) \<longleftrightarrow> dget (ta_invalid_reasons (tally_of L es)) r = Some n"
    using tally_of_numbers(5) [of L es] by simp
  show ?thesis
  proof (cases "dget (ta_invalid_reasons (tally_of L es)) r")
    case None
    then have "r \<notin> fst ` set (ta_invalid_reasons (tally_of L es))" by (simp add: map_of_eq_None_iff)
    then show ?thesis using None member some keys by simp
  next
    case (Some k)
    then have "r \<in> fst ` set (ta_invalid_reasons (tally_of L es))" by (metis domI dom_map_of_conv_image_fst)
    then show ?thesis using Some member some keys count by (auto simp: dget_or_def)
  qed
qed

text \<open>Whatever the final state says, a fact cites events of the run only.\<close>

lemma facts_cite_events:
  assumes "verify_player L es final_state = Inr (m, fs)" and "f \<in> set fs"
  shows "set (vf_evidence_event_ids f) \<subseteq> e_event_id ` set es"
proof -
  have fs: "f \<in> set (player_facts es (tally_of L es) m)"
    using assms by (auto simp: verify_player_def Let_def res_simps)
  have taken: "e \<in> set (take n es) \<Longrightarrow> e_event_id e \<in> e_event_id ` set es" for n e by (blast dest: in_set_takeD)
  have looped: "i \<in> set (ta_loops (tally_of L es)) \<Longrightarrow> i \<in> e_event_id ` set es" for i using tally_of_loops by blast
  have one: "i \<in> set (ids_where P es) \<Longrightarrow> i \<in> e_event_id ` set es" for i P using ids_where_subset by blast
  show ?thesis using fs
    by (auto simp: player_facts_def player_fact_def tally_of_lists dest: one taken looped)
qed

lemma no_overrides:
  assumes "\<forall>n \<in> set OVERRIDABLE. dget d n = None"
  shows "verify_player L es d = (let t = tally_of L es; m = \<lparr>pe_time_to_first_valid_action = ta_first_valid t,
      pe_invalid_actions = length_int (ids_where (is_invalid L) es), pe_invalid_action_reasons = sort (ta_invalid_reasons t),
      pe_repeated_failed_actions = ta_repeated t, pe_rules_help_requests = length_int (ta_helps t),
      pe_hints_requested = length_int (ta_hints t), pe_dialogue_loops = length_int (ta_loops t),
      pe_abandoned = (ta_abandoned t \<noteq> []), pe_deaths = length_int (ta_deaths t),
      pe_inaccessible_paths = length_int (ta_inaccessible t), pe_narrative_contradictions = length_int (ta_contradictions t),
      pe_clues_discovered = length_int (ta_clues t), pe_quest_comprehended = (ta_comprehended t \<noteq> [])\<rparr>
    in Inr (m, player_facts es t m))"
  using assms tally_of_numbers(2, 4) [of L es]
  by (simp add: OVERRIDABLE_def verify_player_def metrics_of_def state_int_def state_bool_def dget_or_def Let_def ensure_def
      length_int_def)

text \<open>
  C33. The player verifier counts what it says: when the final state overrides nothing, it returns, and its metrics
  are the declarative counts of the run's events (the position of the first valid action, or -1; the invalid
  actions and, for each reason, how many there were; the requests, hints, deaths, blocked paths, contradictions and
  clues), the repeated failures never exceed the invalid actions, every fact cites only events of the run, and a
  fact that counts requests, hints, loops, deaths, paths, contradictions or clues cites exactly as many.
\<close>

theorem player_evaluation_counts:
  assumes "\<forall>n \<in> set OVERRIDABLE. dget final_state n = None"
  shows "\<exists>m fs. verify_player L es final_state = Inr (m, fs) \<and>
    pe_time_to_first_valid_action m = (let n = length (takeWhile (\<lambda>e. outcome_of L e \<noteq> ''VALID'') es) in
      if n < length es then int n + 1 else -1) \<and>
    pe_invalid_actions m = int (length (filter (\<lambda>e. outcome_of L e = ''INVALID'') es)) \<and>
    (\<forall>r n. (r, n) \<in> set (pe_invalid_action_reasons m) \<longleftrightarrow>
      0 < n \<and> n = int (length (filter (\<lambda>e. outcome_of L e = ''INVALID'' \<and> reason_of L e = r) es))) \<and>
    0 \<le> pe_repeated_failed_actions m \<and> pe_repeated_failed_actions m \<le> pe_invalid_actions m \<and>
    pe_rules_help_requests m = int (length (filter (asks_help L) es)) \<and>
    pe_hints_requested m = int (length (filter (marked ''hint'' ''hint_provided'') es)) \<and>
    pe_deaths m = int (length (filter (marked ''death'' ''died'') es)) \<and>
    pe_inaccessible_paths m = int (length (filter (marked ''accessibility.blocked'' ''inaccessible'') es)) \<and>
    pe_narrative_contradictions m = int (length (filter (marked ''narrative.contradiction'' ''narrative_contradiction'') es)) \<and>
    pe_clues_discovered m = int (length (filter (marked ''clue.discovered'' ''clue_discovered'') es)) \<and>
    (pe_abandoned m \<longleftrightarrow> (\<exists>e \<in> set es. marked ''abandon'' ''abandoned'' e)) \<and>
    (pe_quest_comprehended m \<longleftrightarrow> (\<exists>e \<in> set es. marked ''quest.comprehended'' ''quest_comprehended'' e)) \<and>
    (\<forall>f \<in> set fs. set (vf_evidence_event_ids f) \<subseteq> e_event_id ` set es \<and>
      (vf_unit f \<noteq> None \<longrightarrow> vf_unit f \<noteq> Some ''actions'' \<longrightarrow> vf_value f = JInt (int (length (vf_evidence_event_ids f)))))"
proof -
  obtain m fs where run: "verify_player L es final_state = Inr (m, fs)" and fs: "fs = player_facts es (tally_of L es) m"
    and m: "pe_time_to_first_valid_action m = ta_first_valid (tally_of L es)"
      "pe_invalid_actions m = length_int (ids_where (is_invalid L) es)"
      "pe_invalid_action_reasons m = sort (ta_invalid_reasons (tally_of L es))"
      "pe_repeated_failed_actions m = ta_repeated (tally_of L es)"
      "pe_rules_help_requests m = length_int (ta_helps (tally_of L es))"
      "pe_hints_requested m = length_int (ta_hints (tally_of L es))"
      "pe_dialogue_loops m = length_int (ta_loops (tally_of L es))"
      "pe_deaths m = length_int (ta_deaths (tally_of L es))"
      "pe_inaccessible_paths m = length_int (ta_inaccessible (tally_of L es))"
      "pe_narrative_contradictions m = length_int (ta_contradictions (tally_of L es))"
      "pe_clues_discovered m = length_int (ta_clues (tally_of L es))"
      "pe_abandoned m \<longleftrightarrow> ta_abandoned (tally_of L es) \<noteq> []"
      "pe_quest_comprehended m \<longleftrightarrow> ta_comprehended (tally_of L es) \<noteq> []"
    using no_overrides [OF assms, of L es] by (simp add: Let_def)
  have counted: "vf_unit f \<noteq> None \<longrightarrow> vf_unit f \<noteq> Some ''actions'' \<longrightarrow> vf_value f = JInt (int (length (vf_evidence_event_ids f)))"
    if "f \<in> set fs" for f
    using that unfolding fs by (auto simp: player_facts_def player_fact_def m length_int_def)
  note cited = facts_cite_events [OF run]
  show ?thesis
    by (rule exI [of _ m], rule exI [of _ fs], intro conjI)
       (use run counted cited tally_of_numbers [of L es] in
         \<open>simp_all add: m tally_of_lists tally_of_reasons filter_empty_conv length_int_def ids_where_def is_invalid_def [abs_def] fails_for_def [abs_def]\<close>)
qed

theorem player_evaluation_counts_witness:
  "\<exists>m fs. verify_player ref_lib [] [(''completed'', JBool True)] = Inr (m, fs) \<and> pe_time_to_first_valid_action m = -1"
  using player_evaluation_counts [of "[(''completed'', JBool True)]" ref_lib "[]"] by (auto simp: OVERRIDABLE_def)

end
