(* ===== verification/ScenarioLab.thy ===== *)
theory ScenarioLab
  imports ExperimentTrials
begin

text \<open>
  \<open>experiments/scenario_lab.py\<close>: the registry of immutable scenario versions with their executors and
  reports, without an artifact store. The executor of a scenario is a function that returns a report or raises;
  the JSON text of a report is a parameter. The main results: a version never changes, its lineage ends,
  and nothing is reported for a scenario that is not registered or that touched the canonical world.
\<close>

section \<open>Records and state\<close>

record cohort_report =
  cohort_scenario_id :: string
  cohort_scenario_version :: string
  cohort_trial_count :: int
  cohort_completed :: int
  cohort_completion_rate :: rat
  cohort_canonical_world_unchanged :: bool
  cohort_metrics :: "(string \<times> rat) list"
  cohort_sample_trials :: "trial_output list"

datatype version_status = IN_USE | ARCHIVED

record scenario_record =
  sr_definition :: scenario_definition
  sr_content_hash :: string
  sr_status :: version_status
  sr_predecessor_version :: "string option"

type_synonym scenario_key = "string \<times> string"
type_synonym scenario_runner = "scenario_definition \<Rightarrow> cohort_report res"

record scenario_lab =
  lb_records :: "(scenario_key \<times> scenario_record) list"
  lb_executors :: "(scenario_key \<times> scenario_runner) list"
  lb_reports :: "(uuid \<times> cohort_report) list"
  lb_report_scenarios :: "(uuid \<times> scenario_key) list"

definition new_lab :: scenario_lab where
  "new_lab = \<lparr>lb_records = [], lb_executors = [], lb_reports = [], lb_report_scenarios = []\<rparr>"

section \<open>Operations\<close>

definition scenario_key_of :: "scenario_definition \<Rightarrow> scenario_key" where
  "scenario_key_of d = (sx_scenario_id d, sx_version d)"

definition scenario_json :: "scenario_definition \<Rightarrow> jval" where
  "scenario_json d = JDict
     [(''scenario_id'', JStr (sx_scenario_id d)), (''version'', JStr (sx_version d)), (''name'', opt_str (sx_name d)),
      (''description'', JStr (sx_description d)), (''base_snapshot_id'', opt_str (sx_base_snapshot_id d)),
      (''world_setup'', JDict (sx_world_setup d)), (''cohort'', JDict (sx_cohort d)),
      (''intervention'', JDict (sx_intervention d)), (''allowed_actions'', JList (map JStr (sx_allowed_actions d))),
      (''cohort_size'', JInt (sx_cohort_size d)), (''seeds'', JList (map JInt (sx_seeds d))),
      (''run_horizon_steps'', JInt (sx_run_horizon_steps d)), (''stop_conditions'', JList (map JStr (sx_stop_conditions d))),
      (''model_assignment'', JDict (sx_model_assignment d)), (''verifier_versions'', JList (map JStr (sx_verifier_versions d))),
      (''metric_contract'', JDict (sx_metric_contract d))]"

definition scenario_record_of :: "pylib \<Rightarrow> scenario_definition \<Rightarrow> string option \<Rightarrow> scenario_record" where
  "scenario_record_of L d predecessor = \<lparr>sr_definition = d, sr_content_hash = stable_hash L (scenario_json d),
     sr_status = IN_USE, sr_predecessor_version = predecessor\<rparr>"

definition create_scenario ::
  "pylib \<Rightarrow> scenario_definition \<Rightarrow> scenario_runner option \<Rightarrow> string option \<Rightarrow> (scenario_lab, scenario_record) eff" where
  "create_scenario L d run predecessor =
     (let k = scenario_key_of d; r = scenario_record_of L d predecessor in
      bindE (readE lb_records) (\<lambda>known.
      bindE (ensureE (\<not> dhas known k) (ValueError ''Scenario already registered'')) (\<lambda>_.
      bindE (ensureE (case predecessor of None \<Rightarrow> True | Some v \<Rightarrow> dhas known (sx_scenario_id d, v))
        (KeyError ''Unknown predecessor scenario'')) (\<lambda>_.
      bindE (updE (\<lambda>s. s\<lparr>lb_records := dset (lb_records s) k r,
        lb_executors := (case run of None \<Rightarrow> lb_executors s | Some f \<Rightarrow> dset (lb_executors s) k f)\<rparr>)) (\<lambda>_.
      returnE r)))))"

definition register_scenario :: "pylib \<Rightarrow> scenario_definition \<Rightarrow> scenario_runner \<Rightarrow> (scenario_lab, unit) eff" where
  "register_scenario L d run = bindE (create_scenario L d (Some run) None) (\<lambda>_. returnE ())"

definition update_scenario ::
  "pylib \<Rightarrow> string \<Rightarrow> string \<Rightarrow> scenario_definition \<Rightarrow> scenario_runner option \<Rightarrow> (scenario_lab, scenario_record) eff" where
  "update_scenario L scenario_id predecessor d run =
     bindE (ensureE (sx_scenario_id d = scenario_id) (ValueError ''A scenario version cannot change scenario_id'')) (\<lambda>_.
     create_scenario L d run (Some predecessor))"

definition get_scenario :: "scenario_key \<Rightarrow> (scenario_lab, scenario_record) eff" where
  "get_scenario k s = (of_option (KeyError (fst k)) (dget (lb_records s) k), s)"

definition archive_scenario :: "scenario_key \<Rightarrow> (scenario_lab, scenario_record) eff" where
  "archive_scenario k = bindE (get_scenario k) (\<lambda>r.
     if sr_status r = ARCHIVED then returnE r
     else let archived = r\<lparr>sr_status := ARCHIVED\<rparr>
       in bindE (updE (\<lambda>s. s\<lparr>lb_records := dset (lb_records s) k archived\<rparr>)) (\<lambda>_. returnE archived))"

definition delete_scenario :: "scenario_key \<Rightarrow> (scenario_lab, scenario_record) eff" where
  "delete_scenario k = archive_scenario k"

definition definitions :: "scenario_lab \<Rightarrow> bool \<Rightarrow> scenario_definition list" where
  "definitions s include_archived = map sr_definition (filter (\<lambda>r. include_archived \<or> sr_status r = IN_USE)
     (map snd (sort_key fst (lb_records s))))"

definition report_key :: "pylib \<Rightarrow> (cohort_report \<Rightarrow> string) \<Rightarrow> scenario_key \<Rightarrow> cohort_report \<Rightarrow> uuid" where
  "report_key L dump k report = uuid5 L (''tabletop-dm:report:'' @ fst k @ '':'' @ snd k @ '':'' @ dump report)"

definition run_scenario ::
  "pylib \<Rightarrow> (cohort_report \<Rightarrow> string) \<Rightarrow> scenario_key \<Rightarrow> (scenario_lab, uuid \<times> cohort_report) eff" where
  "run_scenario L dump k =
     bindE (readE (\<lambda>s. dget (lb_records s) k)) (\<lambda>found.
     bindE (liftE (of_option (KeyError ''Unknown scenario'') found)) (\<lambda>r.
     bindE (ensureE (sr_status r = IN_USE) (ValueError ''Archived scenarios cannot start new runs'')) (\<lambda>_.
     bindE (readE (\<lambda>s. dget (lb_executors s) k)) (\<lambda>run.
     bindE (liftE (of_option (ValueError ''Scenario has no executor'') run)) (\<lambda>f.
     bindE (liftE (f (sr_definition r))) (\<lambda>report.
     bindE (ensureE ((cohort_scenario_id report, cohort_scenario_version report) = k)
       (ValueError ''Scenario executor returned a report for another version'')) (\<lambda>_.
     bindE (ensureE (cohort_canonical_world_unchanged report)
       (RuntimeError ''Trial executor violated canonical branch isolation'')) (\<lambda>_.
     let i = report_key L dump k report
     in bindE (updE (\<lambda>s. s\<lparr>lb_reports := dset (lb_reports s) i report, lb_report_scenarios := dset (lb_report_scenarios s) i k\<rparr>)) (\<lambda>_.
        returnE (i, report))))))))))"

definition get_report :: "uuid \<Rightarrow> (scenario_lab, cohort_report) eff" where
  "get_report i s = (of_option (KeyError i) (dget (lb_reports s) i), s)"

definition reports_for :: "scenario_lab \<Rightarrow> string \<Rightarrow> string option \<Rightarrow> (uuid \<times> cohort_report) list res" where
  "reports_for s scenario_id version =
     bindR (mapR (\<lambda>(i, report). bindR (of_option (KeyError i) (dget (lb_report_scenarios s) i)) (\<lambda>k. Inr (k, i, report)))
       (sort_key fst (lb_reports s))) (\<lambda>rs.
     Inr (map snd (filter (\<lambda>(k, _). fst k = scenario_id \<and> (version = None \<or> version = Some (snd k))) rs)))"

section \<open>The order of versions\<close>

fun dotted_parts :: "string \<Rightarrow> string list" where
  "dotted_parts [] = [[]]"
| "dotted_parts (c # cs) = (if c = CHR ''.'' then [] # dotted_parts cs
     else (case dotted_parts cs of p # ps \<Rightarrow> (c # p) # ps | [] \<Rightarrow> [[c]]))"

definition digits_value :: "string \<Rightarrow> int" where
  "digits_value = foldl (\<lambda>n c. 10 * n + (int (of_char c) - 48)) 0"

definition version_number :: "string \<Rightarrow> int res" where
  "version_number s = bindR (ensure (s \<noteq> [] \<and> list_all is_digit s) (ValueError ''invalid literal for int()'')) (\<lambda>_.
     Inr (digits_value s))"

definition scenario_version_key :: "string \<Rightarrow> (int \<times> int \<times> int) res" where
  "scenario_version_key v = (case dotted_parts v of
      [major, minor, patch] \<Rightarrow> bindR (version_number major) (\<lambda>a. bindR (version_number minor) (\<lambda>b.
        bindR (version_number patch) (\<lambda>c. Inr (a, b, c))))
    | _ \<Rightarrow> Inl (ValueError ''wrong number of values to unpack''))"


section \<open>Steps of the lab\<close>

text \<open>\<open>register\<close>, \<open>update\<close> and \<open>delete\<close> are instances of the first two steps.\<close>

inductive lab_step :: "pylib \<Rightarrow> (cohort_report \<Rightarrow> string) \<Rightarrow> scenario_lab \<Rightarrow> scenario_lab \<Rightarrow> bool" for L dump where
  create: "create_scenario L d run predecessor s = (res, t) \<Longrightarrow> lab_step L dump s t"
| archive: "archive_scenario k s = (res, t) \<Longrightarrow> lab_step L dump s t"
| run: "run_scenario L dump k s = (rep, t) \<Longrightarrow> lab_step L dump s t"

abbreviation lab_steps :: "pylib \<Rightarrow> (cohort_report \<Rightarrow> string) \<Rightarrow> scenario_lab \<Rightarrow> scenario_lab \<Rightarrow> bool" where
  "lab_steps L dump \<equiv> (lab_step L dump)\<^sup>*\<^sup>*"

lemma other_steps:
  "register_scenario L d f s = (res, t) \<Longrightarrow> lab_step L dump s t"
  "update_scenario L i v d run s = (res', t) \<Longrightarrow> lab_steps L dump s t"
  "delete_scenario k s = (res', t) \<Longrightarrow> lab_step L dump s t"
proof -
  show "lab_step L dump s t" if "register_scenario L d f s = (res, t)"
  proof (rule lab_step.create)
    show "create_scenario L d (Some f) None s = (fst (create_scenario L d (Some f) None s), t)"
      using that by (auto simp: register_scenario_def bindE_def split: prod.splits sum.splits)
  qed
  show "lab_steps L dump s t" if "update_scenario L i v d run s = (res', t)"
    using that lab_step.create by (fastforce simp: update_scenario_def bindE_def split: prod.splits sum.splits if_splits)
  show "lab_step L dump s t" if "delete_scenario k s = (res', t)"
    using that unfolding delete_scenario_def by (rule lab_step.archive)
qed

text \<open>What a step does to the records and to the reports.\<close>

lemma create_scenario_cases:
  assumes "create_scenario L d run predecessor s = (res, t)"
  obtains (refused) "t = s"
  | (created) "\<not> dhas (lb_records s) (scenario_key_of d)"
      "case predecessor of None \<Rightarrow> True | Some v \<Rightarrow> dhas (lb_records s) (sx_scenario_id d, v)"
      "lb_records t = dset (lb_records s) (scenario_key_of d) (scenario_record_of L d predecessor)"
      "lb_reports t = lb_reports s" "lb_report_scenarios t = lb_report_scenarios s"
  using assms by (auto simp: create_scenario_def Let_def split: if_splits)

lemma archive_cases:
  assumes "archive_scenario k s = (res, t)"
  obtains (same) "t = s"
  | (archived) r where "dget (lb_records s) k = Some r" "lb_records t = dset (lb_records s) k (r\<lparr>sr_status := ARCHIVED\<rparr>)"
      "lb_reports t = lb_reports s" "lb_report_scenarios t = lb_report_scenarios s"
  using assms
  by (cases "dget (lb_records s) k") (auto simp: archive_scenario_def get_scenario_def bindE_def Let_def split: if_splits)

lemma run_cases:
  assumes "run_scenario L dump k s = (res, t)"
  obtains (refused) e where "res = Inl e" "t = s"
  | (reported) r f rep where "res = Inr (report_key L dump k rep, rep)" "dget (lb_records s) k = Some r" "sr_status r = IN_USE"
      "dget (lb_executors s) k = Some f" "f (sr_definition r) = Inr rep"
      "(cohort_scenario_id rep, cohort_scenario_version rep) = k" "cohort_canonical_world_unchanged rep"
      "t = s\<lparr>lb_reports := dset (lb_reports s) (report_key L dump k rep) rep,
        lb_report_scenarios := dset (lb_report_scenarios s) (report_key L dump k rep) k\<rparr>"
proof (cases res)
  case (Inl e)
  have "t = s" using assms unfolding Inl run_scenario_def
    by (auto simp: bindE_eq_Inl bindE_eq_Inr Let_def split: if_splits)
  then show ?thesis by (rule refused [OF Inl])
next
  case (Inr p)
  with assms show ?thesis
    by (auto simp: run_scenario_def bindE_eq_Inr Let_def split: if_splits intro!: reported)
qed

section \<open>A version never changes\<close>

definition version_kept :: "scenario_lab \<Rightarrow> scenario_lab \<Rightarrow> bool" where
  "version_kept s t \<longleftrightarrow> (\<forall>k r. dget (lb_records s) k = Some r \<longrightarrow>
     (\<exists>r'. dget (lb_records t) k = Some r' \<and> (r' = r \<or> r' = r\<lparr>sr_status := ARCHIVED\<rparr>)))"

lemma version_kept_refl [simp]: "version_kept s s"
  by (simp add: version_kept_def)

lemma version_kept_trans: "version_kept s t \<Longrightarrow> version_kept t u \<Longrightarrow> version_kept s u"
  by (fastforce simp: version_kept_def)

lemma lab_step_keeps: "lab_step L dump s t \<Longrightarrow> version_kept s t"
proof (induction rule: lab_step.induct)
  case (create d run predecessor s res t)
  then show ?case by (cases rule: create_scenario_cases) (auto simp: version_kept_def dhas_def)
next
  case (archive k s res t)
  then show ?case by (cases rule: archive_cases) (auto simp: version_kept_def)
next
  case (run k s rep t)
  then show ?case by (cases rule: run_cases) (auto simp: version_kept_def)
qed

lemma lab_steps_keep: "lab_steps L dump s t \<Longrightarrow> version_kept s t"
  by (induction rule: rtranclp_induct) (auto dest: lab_step_keeps intro: version_kept_trans)

text \<open>
  C34. A scenario version never changes: whatever is created, updated, archived, deleted or run afterwards, it stays
  registered with its definition, content hash and predecessor, and the only thing that may happen to it is that
  it is archived; once archived it stays so, and running it is refused without effect.
\<close>

theorem scenario_versions_never_change:
  assumes "lab_steps L dump s t" and "dget (lb_records s) k = Some r"
  shows "\<exists>r'. dget (lb_records t) k = Some r' \<and> (r' = r \<or> r' = r\<lparr>sr_status := ARCHIVED\<rparr>) \<and>
    (sr_status r = ARCHIVED \<longrightarrow>
       run_scenario L dump k t = (Inl (ValueError ''Archived scenarios cannot start new runs''), t))"
proof -
  from lab_steps_keep [OF assms(1)] assms(2) obtain r' where
    r': "dget (lb_records t) k = Some r'" "r' = r \<or> r' = r\<lparr>sr_status := ARCHIVED\<rparr>"
    unfolding version_kept_def by blast
  moreover from this have "sr_status r = ARCHIVED \<longrightarrow>
      run_scenario L dump k t = (Inl (ValueError ''Archived scenarios cannot start new runs''), t)"
    by (auto simp: run_scenario_def)
  ultimately show ?thesis by blast
qed

section \<open>The registry is sound\<close>

definition lineage :: "scenario_lab \<Rightarrow> (scenario_key \<times> scenario_key) set" where
  "lineage s = {((fst k, v), k) |k r v. dget (lb_records s) k = Some r \<and> sr_predecessor_version r = Some v}"

definition lab_ok :: "pylib \<Rightarrow> scenario_lab \<Rightarrow> bool" where
  "lab_ok L s \<longleftrightarrow>
     (\<forall>k r. dget (lb_records s) k = Some r \<longrightarrow> scenario_key_of (sr_definition r) = k \<and>
        sr_content_hash r = stable_hash L (scenario_json (sr_definition r))) \<and>
     (\<forall>p k. (p, k) \<in> lineage s \<longrightarrow> dhas (lb_records s) p) \<and> acyclic (lineage s) \<and>
     (\<forall>i rep. dget (lb_reports s) i = Some rep \<longrightarrow> cohort_canonical_world_unchanged rep \<and>
        dget (lb_report_scenarios s) i = Some (cohort_scenario_id rep, cohort_scenario_version rep) \<and>
        dhas (lb_records s) (cohort_scenario_id rep, cohort_scenario_version rep))"

lemma lineage_iff: "(p, k) \<in> lineage s \<longleftrightarrow>
    (\<exists>r v. dget (lb_records s) k = Some r \<and> sr_predecessor_version r = Some v \<and> p = (fst k, v))"
  by (cases k) (auto simp: lineage_def)

lemma lineage_create:
  assumes "\<not> dhas (lb_records s) k" and "lb_records t = dset (lb_records s) k r"
  shows "lineage t = (case sr_predecessor_version r of None \<Rightarrow> {} | Some v \<Rightarrow> {((fst k, v), k)}) \<union> lineage s"
proof (rule set_eqI, unfold split_paired_all)
  fix a b c d
  show "((a, b), c, d) \<in> lineage t \<longleftrightarrow>
      ((a, b), c, d) \<in> (case sr_predecessor_version r of None \<Rightarrow> {} | Some v \<Rightarrow> {((fst k, v), k)}) \<union> lineage s"
    using assms by (cases "(c, d) = k") (auto simp: lineage_iff dhas_def split: option.splits)
qed

lemma lineage_archive:
  assumes "dget (lb_records s) k = Some r" and "lb_records t = dset (lb_records s) k (r\<lparr>sr_status := st\<rparr>)"
  shows "lineage t = lineage s"
proof (rule set_eqI, unfold split_paired_all)
  fix a b c d
  show "((a, b), c, d) \<in> lineage t \<longleftrightarrow> ((a, b), c, d) \<in> lineage s"
    using assms by (cases "(c, d) = k") (auto simp: lineage_iff)
qed

lemma lab_step_ok: "lab_step L dump s t \<Longrightarrow> lab_ok L s \<Longrightarrow> lab_ok L t"
proof (induction rule: lab_step.induct)
  case (create d run predecessor s res t)
  let ?k = "scenario_key_of d" and ?r = "scenario_record_of L d predecessor"
  from create(1) show ?case
  proof (cases rule: create_scenario_cases)
    case created
    have acyc: "acyclic (lineage s)" and known: "\<And>p k. (p, k) \<in> lineage s \<Longrightarrow> dhas (lb_records s) p"
      using create(2) unfolding lab_ok_def by blast+
    have "acyclic (insert (p, ?k) (lineage s))" if "dhas (lb_records s) p" for p
    proof -
      have "(?k, p) \<notin> (lineage s)\<^sup>*"
      proof
        assume "(?k, p) \<in> (lineage s)\<^sup>*"
        then show False
          by (cases rule: converse_rtranclE) (use that created(1) known in auto)
      qed
      with acyc show ?thesis by (simp add: acyclic_insert)
    qed
    moreover have "fst ?k = sx_scenario_id d" "sr_predecessor_version ?r = predecessor"
      by (simp_all add: scenario_key_of_def scenario_record_of_def)
    ultimately have lin: "acyclic (lineage t)" "\<And>p k. (p, k) \<in> lineage t \<Longrightarrow> dhas (lb_records t) p"
      using lineage_create [OF created(1,3)] created(2) acyc known
      by (auto simp: created(3) split: option.splits)
    show ?thesis
      unfolding lab_ok_def using create(2) lin created
      by (auto simp: lab_ok_def scenario_record_of_def)
  qed (use create in simp)
next
  case (archive k s res t)
  from archive(1) show ?case
  proof (cases rule: archive_cases)
    case (archived r)
    with archive(2) lineage_archive [OF archived(1,2)] show ?thesis by (auto simp: lab_ok_def)
  qed (use archive in simp)
next
  case (run k s rep t)
  from run(1) show ?case
  proof (cases rule: run_cases)
    case (reported r f rp)
    have "lineage t = lineage s" by (simp add: lineage_def reported(8))
    with reported run(2) show ?thesis by (auto simp: lab_ok_def dhas_def)
  qed (use run in simp)
qed

lemma new_lab_ok: "lab_ok L new_lab"
  by (simp add: lab_ok_def new_lab_def lineage_def acyclic_def)

text \<open>
  The registry stays sound: in every state that its operations reach, each version is filed under its own
  name with the hash of its content, every predecessor is registered and the lineage of a version ends, and every stored
  report belongs to a registered version and left the canonical world unchanged.
\<close>

theorem scenario_lab_stays_sound:
  assumes "lab_steps L dump new_lab s"
  shows "lab_ok L s"
  using assms by (induction rule: rtranclp_induct) (auto intro: new_lab_ok lab_step_ok)


section \<open>A lab with two versions\<close>

definition second_scenario :: scenario_definition where
  "second_scenario = demo_scenario\<lparr>sx_version := ''1.1.0''\<rparr>"

definition demo_lab :: scenario_lab where
  "demo_lab = snd (create_scenario ref_lib demo_scenario None None new_lab)"

definition archived_lab :: scenario_lab where
  "archived_lab = snd (archive_scenario (''demo'', ''1.0.0'') (snd (update_scenario ref_lib ''demo'' ''1.0.0'' second_scenario None demo_lab)))"

lemma demo_lab_steps:
  "lab_steps ref_lib dump new_lab demo_lab" "lab_steps ref_lib dump demo_lab archived_lab"
proof -
  show "lab_steps ref_lib dump new_lab demo_lab"
    unfolding demo_lab_def by (rule r_into_rtranclp, rule lab_step.create, rule prod.collapse [symmetric])
  have "lab_steps ref_lib dump demo_lab (snd (update_scenario ref_lib ''demo'' ''1.0.0'' second_scenario None demo_lab))"
    by (rule other_steps(2), rule prod.collapse [symmetric])
  moreover have "lab_step ref_lib dump (snd (update_scenario ref_lib ''demo'' ''1.0.0'' second_scenario None demo_lab)) archived_lab"
    unfolding archived_lab_def by (rule lab_step.archive, rule prod.collapse [symmetric])
  ultimately show "lab_steps ref_lib dump demo_lab archived_lab" by (rule rtranclp.rtrancl_into_rtrancl)
qed

lemma demo_lab_runs:
  "map fst (lb_records demo_lab) = [(''demo'', ''1.0.0'')]"
  "map (\<lambda>(k, r). (snd k, sr_status r = ARCHIVED, sr_predecessor_version r)) (lb_records archived_lab) =
     [(''1.0.0'', True, None), (''1.1.0'', False, Some ''1.0.0'')]"
  "scenario_version_key ''1.10.0'' = Inr (1, 10, 0)"
  by code_simp+

theorem scenario_versions_never_change_witness:
  "\<exists>r r'. dget (lb_records demo_lab) (''demo'', ''1.0.0'') = Some r \<and>
     dget (lb_records archived_lab) (''demo'', ''1.0.0'') = Some r' \<and> (r' = r \<or> r' = r\<lparr>sr_status := ARCHIVED\<rparr>)"
proof -
  have "dget (lb_records demo_lab) (''demo'', ''1.0.0'') \<noteq> None" using demo_lab_runs(1) by (auto simp: map_of_eq_None_iff)
  then obtain r where "dget (lb_records demo_lab) (''demo'', ''1.0.0'') = Some r" by auto
  with scenario_versions_never_change [OF demo_lab_steps(2) this] show ?thesis by blast
qed

theorem scenario_lab_stays_sound_witness: "lab_ok ref_lib archived_lab"
  by (rule scenario_lab_stays_sound [OF rtranclp_trans [OF demo_lab_steps]])

end
