(* ===== verification/OnboardingTrial.thy ===== *)
theory OnboardingTrial
  imports Onboarding PlayerEvaluation PersonaCompiler ScenarioLab
begin

text \<open>
  \<open>experiments/onboarding.py\<close>: a simulated player goes through the onboarding on a trial branch, and a cohort
  of them. A trial composes the persona compiler, the utility policy, the state store, the command bus with the
  onboarding command, and the player verifier. SHA-256 of a text (\<open>ol_seed\<close>), the integer of a UUID
  (\<open>ol_uuid_int\<close>) and the sums and random numbers of the policy are parameters; the clock is an argument.
  The main results: a trial always returns, is a run of the tutorial machine, and leaves the canonical branch alone.
\<close>

section \<open>The trial\<close>

record onboarding_lib =
  ol_seed :: "string \<Rightarrow> int"
  ol_uuid_int :: "uuid \<Rightarrow> int"
  ol_policy :: utility_lib

definition onboarding_id :: "pylib \<Rightarrow> string \<Rightarrow> uuid" where
  "onboarding_id L label = uuid5 L (''tabletop-dm:'' @ label)"

definition decision_seed :: "onboarding_lib \<Rightarrow> int \<Rightarrow> uuid \<Rightarrow> int \<Rightarrow> int \<Rightarrow> int" where
  "decision_seed Q seed persona step attempt =
     ol_seed Q (join_with '':'' [int_str seed, persona, int_str step, int_str attempt])"

definition weight_named :: "compiled_persona \<Rightarrow> string \<Rightarrow> rat res" where
  "weight_named persona n = of_option (KeyError n) (dget (cp_policy_weights persona) n)"

definition onboarding_options :: "pylib \<Rightarrow> compiled_persona \<Rightarrow> int \<Rightarrow> bool \<Rightarrow> action_option list res" where
  "onboarding_options L persona step_index had_help =
     bindR (step_at step_index) (\<lambda>step.
     bindR (of_option (KeyError step) (dget EXPECTED_ACTION step)) (\<lambda>expected.
     bindR (weight_named persona ''rules_familiarity'') (\<lambda>rules.
     bindR (weight_named persona ''patience'') (\<lambda>patience.
     let c = hundredths L; add = (\<lambda>x y. fl L (x + y)); mul = (\<lambda>x y. fl L (x * y)); sub = (\<lambda>x y. fl L (x - y));
         base = add (add (c 35) (mul (c 35) rules)) (mul (c 20) patience) in
     bindR (if step = ''LEARN_CONTROLS'' then bindR (weight_named persona ''reading_tolerance'') (\<lambda>w. Inr (add base (mul (c 25) w)))
       else Inr base) (\<lambda>read.
     bindR (if step \<in> set [''COMPLETE_TASK'', ''CHOOSE_PATH'']
       then bindR (weight_named persona ''curiosity'') (\<lambda>w. Inr (add read (mul (c 20) w))) else Inr read) (\<lambda>curious.
     let valid_score = (if had_help then add curious (c 55) else curious);
         invalid_score = sub (sub (c 55) (mul (c 30) rules)) (mul (c 20) patience);
         always = [\<lparr>ao_action = expected, ao_factors = [(''goal_alignment'', valid_score), (''habit'', c 10)]\<rparr>,
           \<lparr>ao_action = ''INVALID_ACTION'', ao_factors = [(''uncertainty'', invalid_score), (''moral_cost'', - c 10)]\<rparr>] in
     if step \<in> set [''LEARN_CONTROLS'', ''COMPLETE_TASK''] \<and> \<not> had_help
     then bindR (weight_named persona ''help_seeking'') (\<lambda>help_weight. Inr (always @
       [\<lparr>ao_action = ''ASK_HELP'', ao_factors = [(''help_seeking'', add (c 25) (mul (c 55) help_weight)),
          (''uncertainty_relief'', mul (c 25) (sub 1 rules))]\<rparr>]))
     else Inr always))))))"

record onboarding_names =
  on_world :: uuid
  on_canonical :: uuid
  on_trial :: uuid
  on_branch :: uuid
  on_run :: uuid
  on_actor :: uuid
  on_entity :: uuid

definition onboarding_names_of :: "pylib \<Rightarrow> uuid \<Rightarrow> int \<Rightarrow> onboarding_names" where
  "onboarding_names_of L persona seed =
     (let trial = onboarding_id L (''trial:'' @ persona @ '':'' @ int_str seed)
      in \<lparr>on_world = onboarding_id L ''onboarding-world'', on_canonical = onboarding_id L ''onboarding-world:canonical'',
        on_trial = trial, on_branch = onboarding_id L (''branch:'' @ trial), on_run = onboarding_id L (''run:'' @ trial),
        on_actor = onboarding_id L (''actor:'' @ persona), on_entity = onboarding_id L (''entity:'' @ persona)\<rparr>)"

definition onboarding_canonical :: "onboarding_names \<Rightarrow> branch_state" where
  "onboarding_canonical n = \<lparr>bs_world_id = on_world n, bs_branch_id = on_canonical n, bs_kind = CANONICAL,
     projections = [(''tabletop.onboarding'', [])], base_snapshot_hash = None, bs_version = 0\<rparr>"

definition onboarding_actor :: "onboarding_names \<Rightarrow> uuid \<Rightarrow> actor" where
  "onboarding_actor n persona = \<lparr>actor_id = on_actor n, actor_kind = AGENT,
     display_name = ''Simulated player '' @ take 8 persona, roles = {''TEST_PERSONA'', ''PLAYER''},
     capabilities = {''world.read'', ''action.propose'', ''entity.act''}, controlled_entity_ids = {on_entity n}\<rparr>"

record play_state =
  ps_bus :: bus
  ps_traces :: "decision_trace list"
  ps_evidence :: "uuid list"
  ps_events :: "event list"
  ps_attempts :: "(int \<times> int) list"

text \<open>\<open>trial.projections\<close>: the store keeps one object per branch and updates it in place.\<close>

definition trial_bucket :: "onboarding_names \<Rightarrow> play_state \<Rightarrow> (string \<times> jval) list res" where
  "trial_bucket n s = bindR (store_get (bus_states (ps_bus s)) (on_branch n)) (\<lambda>b. Inr (bucket b ''tabletop.onboarding''))"

definition player_record :: "onboarding_names \<Rightarrow> play_state \<Rightarrow> jval res" where
  "player_record n s = bindR (trial_bucket n s) (\<lambda>b. Inr (dget_or b (on_entity n) (JDict initial_record)))"

definition play_proposal :: "pylib \<Rightarrow> onboarding_names \<Rightarrow> nat \<Rightarrow> string \<Rightarrow> int \<Rightarrow> proposal" where
  "play_proposal L n k action seed = \<lparr>p_command_id = onboarding_id L (''command:'' @ on_trial n @ '':'' @ int_str (int k)),
     p_command_type = ''tabletop.onboarding.act'', p_world_id = on_world n, p_branch_id = on_branch n, p_run_id = on_run n,
     p_interaction_id = None, p_actor_id = on_actor n, p_embodied_entity_id = Some (on_entity n),
     p_parameters = [(''action'', JStr action)], p_idempotency_key = on_trial n @ '':'' @ int_str (int k),
     p_correlation_id = on_trial n, p_causation_id = None, p_seed = Some seed, p_decision_trace_id = None,
     p_persona_version = None, p_policy_version = None, p_prompt_contract_version = None, p_model_version = None\<rparr>"

definition fixed_time :: "onboarding_lib \<Rightarrow> event \<Rightarrow> event" where
  "fixed_time Q e = e\<lparr>e_created_at := 946684800000000 + ol_uuid_int Q (e_event_id e) mod 86400000000\<rparr>"

definition play_step ::
  "pylib \<Rightarrow> onboarding_lib \<Rightarrow> int \<Rightarrow> compiled_persona \<Rightarrow> uuid \<Rightarrow> int \<Rightarrow> onboarding_names \<Rightarrow> nat \<Rightarrow> jval \<Rightarrow> play_state \<Rightarrow> play_state res" where
  "play_step L Q now compiled persona seed n k rec s =
     bindR (bindR (item rec ''step_index'') py_int) (\<lambda>step_index.
     let attempts = dset (ps_attempts s) step_index (dget_or (ps_attempts s) step_index 0 + 1);
         ds = decision_seed Q seed persona step_index (dget_or attempts step_index 0) in
     bindR (item rec ''had_help_this_step'') (\<lambda>had.
     bindR (onboarding_options L compiled step_index (py_bool had)) (\<lambda>options.
     bindR (choose_utility L (ol_policy Q) compiled ds options) (\<lambda>trace.
     (case execute L now (ps_bus s) (play_proposal L n k (dt_chosen_action trace) ds) (onboarding_actor n persona) of
        (Inl e, _) \<Rightarrow> Inl e
      | (Inr receipt, b) \<Rightarrow> Inr \<lparr>ps_bus = b, ps_traces = ps_traces s @ [trace],
          ps_evidence = ps_evidence s @ [e_event_id (rc_event receipt)],
          ps_events = ps_events s @ [fixed_time Q (rc_event receipt)], ps_attempts = attempts\<rparr>)))))"

fun play ::
  "pylib \<Rightarrow> onboarding_lib \<Rightarrow> int \<Rightarrow> compiled_persona \<Rightarrow> uuid \<Rightarrow> int \<Rightarrow> onboarding_names \<Rightarrow> nat list \<Rightarrow> play_state \<Rightarrow> play_state res" where
  "play L Q now compiled persona seed n [] s = Inr s"
| "play L Q now compiled persona seed n (k # ks) s =
     bindR (player_record n s) (\<lambda>rec.
     bindR (item rec ''completed'') (\<lambda>finished.
     if py_bool finished then Inr s
     else bindR (play_step L Q now compiled persona seed n k rec s) (play L Q now compiled persona seed n ks)))"

definition begin_play :: "pylib \<Rightarrow> onboarding_names \<Rightarrow> play_state res" where
  "begin_play L n =
     bindR (store_add empty_store (onboarding_canonical n)) (\<lambda>st.
     bindR (store_create_trial L st (on_canonical n) (on_branch n)) (\<lambda>(trial, st1).
     bindR (register (new_bus st1) (onboarding_definition L)) (\<lambda>b.
     Inr \<lparr>ps_bus = b, ps_traces = [], ps_evidence = [], ps_events = [], ps_attempts = []\<rparr>)))"

text \<open>\<open>int(record.get(name, 0))\<close>\<close>

definition record_int :: "jdict \<Rightarrow> string \<Rightarrow> int res" where
  "record_int d n = py_int (dget_or d n (JInt 0))"

definition metrics_json :: "player_metrics \<Rightarrow> jdict" where
  "metrics_json m = [(''time_to_first_valid_action'', JInt (pe_time_to_first_valid_action m)),
     (''invalid_actions'', JInt (pe_invalid_actions m)),
     (''invalid_action_reasons'', JDict (map (\<lambda>(r, n). (r, JInt n)) (pe_invalid_action_reasons m))),
     (''repeated_failed_actions'', JInt (pe_repeated_failed_actions m)), (''rules_help_requests'', JInt (pe_rules_help_requests m)),
     (''hints_requested'', JInt (pe_hints_requested m)), (''dialogue_loops'', JInt (pe_dialogue_loops m)),
     (''abandoned'', JBool (pe_abandoned m)), (''deaths'', JInt (pe_deaths m)),
     (''inaccessible_paths'', JInt (pe_inaccessible_paths m)),
     (''narrative_contradictions'', JInt (pe_narrative_contradictions m)), (''clues_discovered'', JInt (pe_clues_discovered m)),
     (''quest_comprehended'', JBool (pe_quest_comprehended m))]"

definition onboarding_facts :: "bool \<Rightarrow> int \<Rightarrow> bool \<Rightarrow> uuid list \<Rightarrow> verifier_fact list" where
  "onboarding_facts finished invalid unchanged evidence =
     [\<lparr>vf_fact_type = ''onboarding.completed'', vf_value = JBool finished, vf_unit = None,
        vf_evidence_event_ids = evidence, vf_verifier_version = ''onboarding-verifier-1.0.0''\<rparr>,
      \<lparr>vf_fact_type = ''onboarding.invalid_action_count'', vf_value = JInt invalid, vf_unit = Some ''actions'',
        vf_evidence_event_ids = evidence, vf_verifier_version = ''onboarding-verifier-1.0.0''\<rparr>,
      \<lparr>vf_fact_type = ''kernel.canonical_world_unchanged'', vf_value = JBool unchanged, vf_unit = None,
        vf_evidence_event_ids = [], vf_verifier_version = ''branch-isolation-verifier-1.0.0''\<rparr>]"

definition finish_trial ::
  "pylib \<Rightarrow> uuid \<Rightarrow> int \<Rightarrow> onboarding_names \<Rightarrow> string \<Rightarrow> play_state \<Rightarrow> trial_output res" where
  "finish_trial L persona seed n canonical_before s =
     bindR (trial_bucket n s) (\<lambda>b.
     bindR (item (JDict b) (on_entity n)) (\<lambda>rec.
     bindR (item rec ''completed'') (\<lambda>c.
     bindR (bindR (item rec ''invalid_actions'') py_int) (\<lambda>invalid.
     bindR (py_dict rec) (\<lambda>d.
     let finished = py_bool c; comprehended = finished \<and> invalid \<le> 2 in
     bindR (store_get (bus_states (ps_bus s)) (on_canonical n)) (\<lambda>canonical.
     bindR (store_get (bus_states (ps_bus s)) (on_branch n)) (\<lambda>trial.
     let canonical_after = state_hash L canonical in
     bindR (record_int d ''deaths'') (\<lambda>deaths.
     bindR (record_int d ''inaccessible_paths'') (\<lambda>inaccessible.
     bindR (record_int d ''narrative_contradictions'') (\<lambda>contradictions.
     bindR (verify_player L (ps_events s) (dupdate d [(''abandoned'', JBool (\<not> finished)), (''deaths'', JInt deaths),
       (''inaccessible_paths'', JInt inaccessible), (''narrative_contradictions'', JInt contradictions),
       (''quest_comprehended'', JBool comprehended)])) (\<lambda>(m, facts).
     bindR (bindR (item rec ''help_requests'') py_int) (\<lambda>helps.
     bindR (bindR (item rec ''hints_requested'') py_int) (\<lambda>hints.
     bindR (bindR (item rec ''dialogue_loops'') py_int) (\<lambda>loops.
     let steps = int (length (ps_traces s)) in
     Inr \<lparr>out_trial_id = on_trial n, out_persona_id = Some persona, out_seed = seed,
       out_status = (if finished then ''COMPLETED'' else ''HORIZON_REACHED''), out_steps = steps,
       out_canonical_hash_before = canonical_before, out_canonical_hash_after = canonical_after,
       out_trial_state_hash = state_hash L trial, out_traces = ps_traces s, out_events = ps_events s,
       out_facts = onboarding_facts finished invalid (canonical_before = canonical_after) (ps_evidence s) @ facts,
       out_metrics = dupdate [(''completed'', JBool finished), (''steps'', JInt steps), (''invalid_actions'', JInt invalid),
         (''help_requests'', JInt helps), (''hints_requested'', JInt hints), (''dialogue_loops'', JInt loops),
         (''comprehended_first_goal'', JBool comprehended)] (metrics_json m),
       out_branch_id = None, out_run_id = None, out_artifact_uris = [], out_failure_code = None\<rparr>))))))))))))))"

definition run_onboarding_trial :: "pylib \<Rightarrow> onboarding_lib \<Rightarrow> int \<Rightarrow> persona_blueprint \<Rightarrow> int \<Rightarrow> trial_output res" where
  "run_onboarding_trial L Q now b seed =
     (let n = onboarding_names_of L (bp_persona_id b) seed in
      bindR (compile_persona L b None) (\<lambda>compiled.
      bindR (begin_play L n) (\<lambda>s.
      bindR (play L Q now compiled (bp_persona_id b) seed n [0..<24] s)
        (finish_trial L (bp_persona_id b) seed n (state_hash L (onboarding_canonical n))))))"

section \<open>The cohort\<close>

definition numeric_mean :: "pylib \<Rightarrow> trial_output list \<Rightarrow> string \<Rightarrow> rat res" where
  "numeric_mean L trials n =
     bindR (mapR (\<lambda>t. bindR (of_option (KeyError n) (dget (out_metrics t) n)) (py_float L)) trials) (\<lambda>xs.
     Inr (round_to L 4 (float_mean L xs)))"

definition COHORT_METRICS :: "(string \<times> string) list" where
  "COHORT_METRICS = [(''mean_steps'', ''steps''), (''mean_invalid_actions'', ''invalid_actions''),
     (''mean_help_requests'', ''help_requests''), (''mean_hints_requested'', ''hints_requested''),
     (''mean_dialogue_loops'', ''dialogue_loops''), (''comprehension_rate'', ''comprehended_first_goal''),
     (''mean_time_to_first_valid_action'', ''time_to_first_valid_action''), (''abandonment_rate'', ''abandoned''),
     (''mean_deaths'', ''deaths''), (''mean_inaccessible_paths'', ''inaccessible_paths''),
     (''mean_narrative_contradictions'', ''narrative_contradictions'')]"

text \<open>The trials of a cohort, in the order in which they run.\<close>

definition cohort_plan :: "int \<Rightarrow> int list \<Rightarrow> (int \<times> nat) list" where
  "cohort_plan cohort_size seeds = List.product seeds [0..<nat cohort_size]"

definition run_cohort ::
  "pylib \<Rightarrow> onboarding_lib \<Rightarrow> sampler \<Rightarrow> registry \<Rightarrow> int \<Rightarrow> int \<Rightarrow> int list \<Rightarrow> int \<Rightarrow> cohort_report res" where
  "run_cohort L Q S r now cohort_size seeds include_trials =
     bindR (ensure (\<not> (cohort_size < 1 \<or> 10000 < cohort_size)) (ValueError ''cohort_size must be between 1 and 10000'')) (\<lambda>_.
     bindR (ensure (seeds \<noteq> []) (ValueError ''At least one seed is required'')) (\<lambda>_.
     bindR (mapR (\<lambda>(seed, index). bindR (generate L S r (seed * 100000 + int index) [] [] False) (\<lambda>persona.
         run_onboarding_trial L Q now persona seed)) (cohort_plan cohort_size seeds)) (\<lambda>trials.
     bindR (mapR (\<lambda>t. bindR (of_option (KeyError ''completed'') (dget (out_metrics t) ''completed'')) (\<lambda>v. Inr (py_bool v))) trials) (\<lambda>flags.
     bindR (mapR (\<lambda>(k, n). bindR (numeric_mean L trials n) (\<lambda>q. Inr (k, q))) COHORT_METRICS) (\<lambda>metrics.
     let finished = length (filter id flags) in
     Inr \<lparr>cohort_scenario_id = ''player-onboarding'', cohort_scenario_version = ''1.0.0'',
       cohort_trial_count = int (length trials), cohort_completed = int finished,
       cohort_completion_rate = round_to L 4 (fl L (of_nat finished / of_nat (length trials))),
       cohort_canonical_world_unchanged = list_all (\<lambda>t. out_canonical_hash_before t = out_canonical_hash_after t) trials,
       cohort_metrics = metrics, cohort_sample_trials = take (nat (max 0 include_trials)) trials\<rparr>)))))"

section \<open>The run as a run of the tutorial machine\<close>

text \<open>The actions the policy chooses from.\<close>

definition offered :: "tutorial \<Rightarrow> string \<Rightarrow> bool" where
  "offered t a \<longleftrightarrow> a = expected_action t \<or> a = ''INVALID_ACTION'' \<or>
     (a = ''ASK_HELP'' \<and> tu_step t \<in> {1, 2} \<and> \<not> tu_had_help t)"

inductive simulated :: "string list \<Rightarrow> tutorial \<Rightarrow> bool" where
  begin_run: "simulated [] tutorial_start"
| one_more: "\<lbrakk>simulated acts t; \<not> tu_completed t; offered t a\<rbrakk> \<Longrightarrow> simulated (acts @ [a]) (tutorial_step a t)"

text \<open>Help is asked at most once in each of the two steps that offer it, hence no dialogue loop.\<close>

definition help_ok :: "tutorial \<Rightarrow> bool" where
  "help_ok t \<longleftrightarrow> tu_loops t = 0 \<and> (tu_step t = 0 \<longrightarrow> tu_helps t = 0 \<and> \<not> tu_had_help t) \<and>
     (tu_step t = 1 \<longrightarrow> tu_helps t \<le> (if tu_had_help t then 1 else 0)) \<and>
     (tu_step t = 2 \<longrightarrow> tu_helps t \<le> (if tu_had_help t then 2 else 1) \<and> tu_hints t \<le> (if tu_had_help t then 1 else 0)) \<and>
     (tu_step t < 2 \<longrightarrow> tu_hints t = 0) \<and> tu_helps t \<le> 2 \<and> tu_hints t \<le> 1"

lemma expected_not_help: "tu_step t \<le> 6 \<Longrightarrow> expected_action t \<noteq> ''ASK_HELP'' \<and> expected_action t \<noteq> ''INVALID_ACTION''"
proof -
  assume "tu_step t \<le> 6"
  then have "tu_step t \<in> {0, 1, 2, 3, 4, 5, 6}" by auto
  then show ?thesis by (auto simp: expected_action_def)
qed

lemma help_ok_step:
  assumes "help_ok t" and "offered t a"
  shows "help_ok (tutorial_step a t)"
proof -
  have asked: "a = ''ASK_HELP'' \<Longrightarrow> tu_step t \<in> {1, 2} \<and> \<not> tu_had_help t \<or> expected_action t = ''ASK_HELP''"
    using assms(2) by (auto simp: offered_def)
  consider "tu_completed t" | (ask) "\<not> tu_completed t" "a = ''ASK_HELP''" "tu_step t \<in> {1, 2} \<and> \<not> tu_had_help t \<or> expected_action t = ''ASK_HELP''"
    | (ahead) "\<not> tu_completed t" "a \<noteq> ''ASK_HELP''" "a = expected_action t"
    | (wrong) "\<not> tu_completed t" "a \<noteq> ''ASK_HELP''" "a \<noteq> expected_action t"
    using asked by blast
  then show ?thesis
  proof cases
    case ask
    have "expected_action t \<noteq> ''ASK_HELP''" if "tu_step t \<le> 6" using expected_not_help [OF that] by blast
    moreover have "expected_action t \<noteq> ''ASK_HELP''" if "\<not> tu_step t \<le> 6"
      using that by (simp add: expected_action_def min_def)
    ultimately have "tu_step t \<in> {1, 2}" "\<not> tu_had_help t" using ask(3) by blast+
    then show ?thesis using assms(1) ask(1, 2) by (auto simp: help_ok_def tutorial_step_def)
  next
    case ahead
    then show ?thesis using assms(1) by (cases "tu_had_help t") (auto simp: help_ok_def tutorial_step_def)
  next
    case wrong
    then show ?thesis using assms(1) by (simp add: help_ok_def tutorial_step_def)
  qed (use assms(1) in \<open>simp add: tutorial_step_def\<close>)
qed

lemma tutorial_step_counts:
  "\<not> tu_completed t \<Longrightarrow> int (tu_step (tutorial_step a t)) + tu_invalid (tutorial_step a t) + tu_helps (tutorial_step a t) =
     int (tu_step t) + tu_invalid t + tu_helps t + 1"
  by (simp add: tutorial_step_def)

lemma simulated_ok:
  "simulated acts t \<Longrightarrow> tutorial_ok t \<and> help_ok t \<and> t = fold tutorial_step acts tutorial_start \<and>
     int (length acts) = int (tu_step t) + tu_invalid t + tu_helps t"
proof (induction rule: simulated.induct)
  case begin_run
  then show ?case using tutorial_ok_start by (simp add: help_ok_def tutorial_start_def)
next
  case (one_more acts t a)
  from one_more.IH have t: "tutorial_ok t" "help_ok t" "t = fold tutorial_step acts tutorial_start"
    "int (length acts) = int (tu_step t) + tu_invalid t + tu_helps t" by blast+
  from t(3) [symmetric] show ?case
    using tutorial_ok_step [OF t(1)] help_ok_step [OF t(2) one_more.hyps(3)] tutorial_step_counts [OF one_more.hyps(2)] t(4) by simp
qed

section \<open>One step of the loop\<close>

lemma onboarding_options_offered:
  assumes "tutorial_ok t" and "\<not> tu_completed t" and "cp_policy_weights persona = policy_weights L dims"
  obtains opts where "onboarding_options L persona (int (tu_step t)) (tu_had_help t) = Inr opts" and "opts \<noteq> []"
    and "\<And>x. x \<in> set opts \<Longrightarrow> offered t (ao_action x)"
proof -
  have "tu_step t < 6" using assms(1, 2) by (auto simp: tutorial_ok_def)
  then have "tu_step t \<in> {0, 1, 2, 3, 4, 5}" by auto
  then have "\<exists>opts. onboarding_options L persona (int (tu_step t)) (tu_had_help t) = Inr opts \<and> opts \<noteq> [] \<and>
      (\<forall>x \<in> set opts. offered t (ao_action x))"
    by (elim insertE emptyE; cases "tu_had_help t";
        simp add: onboarding_options_def weight_named_def assms(3) policy_weights_def step_at_def ONBOARDING_STEPS_def
          EXPECTED_ACTION_def Let_def of_option_def offered_def expected_action_def)
  then show ?thesis using that by blast
qed

lemma max_candidate_member: "max_candidate c cs \<in> set (c # cs)"
proof -
  have "foldl (\<lambda>best x. if candidate_order best < candidate_order x then x else best) c cs \<in> insert c (set cs)"
    by (induction cs arbitrary: c) auto
  then show ?thesis by (simp add: max_candidate_def)
qed

lemma chosen_offered:
  assumes "choose_utility L U persona seed opts = Inr trace"
  shows "dt_chosen_action trace \<in> ao_action ` set opts"
proof -
  obtain c cs where cs: "score_options L U (rng_new L seed) (sort_key ao_action opts) = c # cs"
    and trace: "dt_chosen_action trace = dc_action (max_candidate c cs)"
    using assms by (auto simp: choose_utility_def Let_def split: list.splits)
  have "dc_action (max_candidate c cs) \<in> set (map dc_action (c # cs))"
    using max_candidate_member [of c cs] by (metis image_eqI list.set_map)
  also have "set (map dc_action (c # cs)) = ao_action ` set opts"
    using scored_actions [of L U "rng_new L seed" "sort_key ao_action opts"] cs by (metis list.set_map set_sort)
  finally show ?thesis using trace by simp
qed

lemma onboarding_changes_outcome:
  "onboarding_changes rec i step expected action = Inr (outcome, changes) \<Longrightarrow>
     outcome \<in> {''INVALID'', ''ALREADY_COMPLETE'', ''HELP_PROVIDED'', ''VALID''}"
  by (auto simp: onboarding_changes_def res_simps split: if_splits)

lemma onboarding_result_accepted:
  assumes "lawful_lib L" and "handle_onboarding_action L p s = Inr r"
  shows "model_accepts L OnboardingResult (cr_result r)"
proof -
  obtain a e step outcome where
    "cr_result r = [(''action'', JStr a), (''expected_action'', JStr e), (''step'', JStr step), (''outcome'', JStr outcome)]"
    and "outcome \<in> {''INVALID'', ''ALREADY_COMPLETE'', ''HELP_PROVIDED'', ''VALID''}"
    using assms(2) onboarding_changes_outcome
    by (auto simp: handle_onboarding_action_def res_simps Let_def mk_result_def)
  then show ?thesis
    using lawful_co [OF assms(1)] by (simp add: model_accepts_def OnboardingResult_def in_bounds_def)
qed

text \<open>The decimal text of a number determines it.\<close>

lemma nat_str_value: "foldl (\<lambda>n c. n * 10 + (of_char c - 48)) 0 (nat_str n) = n"
proof (induction n rule: nat_str.induct)
  case (1 n)
  have digit: "of_char (char_of (48 + d) :: char) = 48 + d" if "d < 10" for d :: nat
    using that by simp
  show ?case
  proof (cases "n < 10")
    case True
    then show ?thesis by (subst nat_str.simps) (simp add: digit)
  next
    case False
    have "of_char (char_of (48 + n mod 10) :: char) = 48 + n mod 10" by (rule digit) simp
    with False 1 show ?thesis by (subst nat_str.simps) simp
  qed
qed

lemma int_str_inj: "int_str (int m) = int_str (int n) \<Longrightarrow> m = n"
proof -
  assume "int_str (int m) = int_str (int n)"
  then have "nat_str m = nat_str n" by (simp add: int_str_def)
  then show ?thesis by (metis nat_str_value)
qed

section \<open>The state of the loop\<close>

definition playing :: "pylib \<Rightarrow> onboarding_names \<Rightarrow> nat \<Rightarrow> tutorial \<Rightarrow> bus \<Rightarrow> bool" where
  "playing L n k t b \<longleftrightarrow>
     (\<exists>src. dget (branches (bus_states b)) (on_branch n) = Some src \<and> bs_world_id src = on_world n \<and> bs_kind src = TRIAL \<and>
        dget (bucket src ''tabletop.onboarding'') (on_entity n) = (if k = 0 then None else Some (JDict (encode t)))) \<and>
     (k = 0 \<longrightarrow> t = tutorial_start) \<and>
     dget (branches (bus_states b)) (on_canonical n) = Some (onboarding_canonical n) \<and>
     (\<forall>j. k \<le> j \<longrightarrow> dget (receipts (bus_states b)) (on_run n, on_actor n, on_trial n @ '':'' @ int_str (int j)) = None) \<and>
     dget (bus_definitions b) ''tabletop.onboarding.act'' = Some (onboarding_definition L) \<and> bus_resolver b = null_resolver"

lemma admit_play:
  assumes "lawful_lib L" and "dget (bus_definitions b) ''tabletop.onboarding.act'' = Some (onboarding_definition L)"
  shows "admit b (play_proposal L n k a seed) (onboarding_actor n persona) =
    Inr (onboarding_definition L, play_proposal L n k a seed)"
proof -
  have "model_validate L OnboardingAction [(''action'', JStr a)] = Inr [(''action'', JStr a)]"
    using lawful_co [OF assms(1)] by (simp add: model_validate_def OnboardingAction_def in_bounds_def of_option_def)
  then show ?thesis
    using assms(2)
    by (simp add: admit_def play_proposal_def onboarding_actor_def bus_definition_def onboarding_definition_def of_option_def
        ensure_def has_capabilities_def act_capabilities_def)
qed

lemma play_command:
  assumes lib: "lawful_lib L" and b: "playing L n k t b" and t: "tutorial_ok t" and other: "on_canonical n \<noteq> on_branch n"
  obtains r b' where "execute L now b (play_proposal L n k a seed) (onboarding_actor n persona) = (Inr r, b')"
    and "playing L n (Suc k) (tutorial_step a t) b'"
proof -
  let ?p = "play_proposal L n k a seed" and ?actor = "onboarding_actor n persona" and ?st = "bus_states b"
  obtain src where src: "dget (branches ?st) (on_branch n) = Some src" "bs_world_id src = on_world n" "bs_kind src = TRIAL"
    "dget (bucket src ''tabletop.onboarding'') (on_entity n) = (if k = 0 then None else Some (JDict (encode t)))"
    and zero: "k = 0 \<longrightarrow> t = tutorial_start"
    using b unfolding playing_def by blast
  have held: "stored_tutorial src (on_entity n) t" using src(4) zero by (simp add: stored_tutorial_def pget_def split: if_splits)
  have p: "p_embodied_entity_id ?p = Some (on_entity n)" "dget (p_parameters ?p) ''action'' = Some (JStr a)"
    "p_branch_id ?p = on_branch n" "p_world_id ?p = on_world n" "p_actor_id ?p = on_actor n"
    "receipt_key_of ?p = (on_run n, on_actor n, on_trial n @ '':'' @ int_str (int k))"
    by (simp_all add: play_proposal_def receipt_key_of_def)
  from onboarding_refines [OF t p(1) held p(2)] obtain r where r: "handle_onboarding_action L ?p src = Inr r"
    "cr_deltas r = [mk_delta ''tabletop.onboarding'' SET (on_entity n) (encode (tutorial_step a t))]" by blast
  let ?after = "set_bucket src ''tabletop.onboarding'' (dset (bucket src ''tabletop.onboarding'') (on_entity n)
    (JDict (encode (tutorial_step a t))))"
  have applied: "apply_deltas L src (cr_deltas r) = Inr ?after" by (simp add: r(2) apply_delta_def delta_key_def mk_delta_def)
  have mat: "\<exists>ev. materialize L null_resolver now ?p r src ?after None = Inr (ev, [])"
    by (simp add: materialize_def null_resolver_def visible_to_cannot_be_empty_def)
  then obtain ev where ev: "materialize L null_resolver now ?p r src ?after None = Inr (ev, [])" by blast
  let ?r = "\<lparr>rc_result = r, rc_event = ev, rc_state_hash = state_hash L ?after, rc_perceptions = []\<rparr>"
  have run: "run_command L b now (onboarding_definition L) ?p ?actor src = (Inr ?r, ?after)"
    using src(2, 3) onboarding_result_accepted [OF lib r(1)] r(1) applied ev b p(4)
    by (simp add: run_command_def onboarding_definition_def reads_only_def both_branches_def branch_capability_def
        onboarding_actor_def playing_def)
  let ?src' = "src\<lparr>projections := projections ?after, base_snapshot_hash := base_snapshot_hash ?after,
    bs_version := bs_version src + 1\<rparr>"
  let ?b' = "b\<lparr>bus_states := ?st\<lparr>branches := dset (branches ?st) (on_branch n) ?src',
    receipts := dset (receipts ?st) (receipt_key_of ?p) ?r\<rparr>\<rparr>"
  have free: "dget (receipts ?st) (receipt_key_of ?p) = None" using b by (simp add: playing_def p(6))
  have "execute L now b ?p ?actor = (Inr ?r, ?b')"
    using admit_play [OF lib, of b n k a seed persona] b free src(1) run
    by (simp add: execute_def playing_def execute_atomic_def p(3) store_get_def of_option_def Let_def)
  moreover have stored: "dget (bucket ?src' ''tabletop.onboarding'') (on_entity n) = Some (JDict (encode (tutorial_step a t)))"
    by (simp add: bucket_def set_bucket_def dget_or_def)
  moreover have "playing L n (Suc k) (tutorial_step a t) ?b'"
    using b src(2, 3) stored other
    by (auto simp: playing_def p(6) stored_tutorial_def set_bucket_def dest: int_str_inj)
  ultimately show ?thesis using that by fastforce
qed

section \<open>A whole trial\<close>

text \<open>The state after the loop has performed the actions of its traces.\<close>

definition played :: "pylib \<Rightarrow> onboarding_names \<Rightarrow> tutorial \<Rightarrow> play_state \<Rightarrow> bool" where
  "played L n t s \<longleftrightarrow> playing L n (length (ps_traces s)) t (ps_bus s) \<and>
     simulated (map dt_chosen_action (ps_traces s)) t \<and> length (ps_events s) = length (ps_traces s) \<and>
     map e_event_id (ps_events s) = ps_evidence s"

lemma player_record_encode:
  assumes "playing L n k t b" and "ps_bus s = b"
  shows "player_record n s = Inr (JDict (encode t))"
proof -
  obtain src where src: "dget (branches (bus_states b)) (on_branch n) = Some src"
    "dget (bucket src ''tabletop.onboarding'') (on_entity n) = (if k = 0 then None else Some (JDict (encode t)))"
    and zero: "k = 0 \<longrightarrow> t = tutorial_start"
    using assms(1) unfolding playing_def by blast
  then show ?thesis using assms(2)
    by (cases "k = 0") (simp_all add: player_record_def trial_bucket_def store_get_def dget_or_def encode_start of_option_def)
qed

lemma encode_items [simp]:
  "dget (encode t) ''step_index'' = Some (JInt (int (tu_step t)))" "dget (encode t) ''completed'' = Some (JBool (tu_completed t))"
  "dget (encode t) ''had_help_this_step'' = Some (JBool (tu_had_help t))"
  "dget (encode t) ''invalid_actions'' = Some (JInt (tu_invalid t))" "dget (encode t) ''help_requests'' = Some (JInt (tu_helps t))"
  "dget (encode t) ''hints_requested'' = Some (JInt (tu_hints t))" "dget (encode t) ''dialogue_loops'' = Some (JInt (tu_loops t))"
  by (simp_all add: encode_def)

lemma play_step_goes:
  assumes lib: "lawful_lib L" and other: "on_canonical n \<noteq> on_branch n" and w: "cp_policy_weights compiled = policy_weights L dims"
    and s: "played L n t s" and going: "\<not> tu_completed t"
  obtains s' t' where "play_step L Q now compiled persona seed n (length (ps_traces s)) (JDict (encode t)) s = Inr s'"
    and "played L n t' s'" and "length (ps_traces s') = Suc (length (ps_traces s))"
proof -
  let ?k = "length (ps_traces s)"
  have b: "playing L n ?k t (ps_bus s)" and sim: "simulated (map dt_chosen_action (ps_traces s)) t"
    using s by (simp_all add: played_def)
  have ok: "tutorial_ok t" using simulated_ok [OF sim] by blast
  let ?attempts = "dset (ps_attempts s) (int (tu_step t)) (dget_or (ps_attempts s) (int (tu_step t)) 0 + 1)"
  let ?seed = "decision_seed Q seed persona (int (tu_step t)) (dget_or ?attempts (int (tu_step t)) 0)"
  obtain opts where opts: "onboarding_options L compiled (int (tu_step t)) (tu_had_help t) = Inr opts" "opts \<noteq> []"
    "\<And>x. x \<in> set opts \<Longrightarrow> offered t (ao_action x)"
    using onboarding_options_offered [OF ok going w] by blast
  obtain trace where trace: "choose_utility L (ol_policy Q) compiled ?seed opts = Inr trace"
    using utility_returns [OF opts(2)] by blast
  have chosen: "offered t (dt_chosen_action trace)" using chosen_offered [OF trace] opts(3) by (metis imageE)
  obtain r b' where r: "execute L now (ps_bus s) (play_proposal L n ?k (dt_chosen_action trace) ?seed)
      (onboarding_actor n persona) = (Inr r, b')"
    and b': "playing L n (Suc ?k) (tutorial_step (dt_chosen_action trace) t) b'"
    using play_command [OF lib b ok other] .
  let ?s = "\<lparr>ps_bus = b', ps_traces = ps_traces s @ [trace], ps_evidence = ps_evidence s @ [e_event_id (rc_event r)],
    ps_events = ps_events s @ [fixed_time Q (rc_event r)], ps_attempts = ?attempts\<rparr>"
  have "play_step L Q now compiled persona seed n ?k (JDict (encode t)) s = Inr ?s"
    using opts(1) trace r by (simp add: play_step_def Let_def of_option_def)
  moreover have "played L n (tutorial_step (dt_chosen_action trace) t) ?s"
    using s b' simulated.one_more [OF sim going chosen] by (simp add: played_def fixed_time_def)
  ultimately show ?thesis using that [of ?s] by simp
qed

lemma play_goes:
  assumes lib: "lawful_lib L" and other: "on_canonical n \<noteq> on_branch n" and w: "cp_policy_weights compiled = policy_weights L dims"
  shows "played L n t s \<Longrightarrow> ks = [length (ps_traces s)..<24] \<Longrightarrow> length (ps_traces s) \<le> 24 \<Longrightarrow>
    \<exists>s' t'. play L Q now compiled persona seed n ks s = Inr s' \<and> played L n t' s' \<and>
      (tu_completed t' \<or> length (ps_traces s') = 24) \<and> length (ps_traces s') \<le> 24"
proof (induction ks arbitrary: s t)
  case Nil
  have "length (ps_traces s) = 24" using Nil.prems(2) [symmetric] Nil.prems(3) by simp
  then show ?case using Nil.prems(1) by auto
next
  case (Cons k ks)
  from Cons.prems(2) [symmetric] have k: "k = length (ps_traces s)" "ks = [Suc k..<24]" "k < 24"
    by (auto simp: upt_eq_Cons_conv)
  have rec: "player_record n s = Inr (JDict (encode t))"
    using Cons.prems(1) player_record_encode by (auto simp: played_def)
  show ?case
  proof (cases "tu_completed t")
    case True
    then have "play L Q now compiled persona seed n (k # ks) s = Inr s" using rec by (simp add: of_option_def)
    then show ?thesis using Cons.prems(1, 3) True by blast
  next
    case False
    obtain s' t' where s': "play_step L Q now compiled persona seed n k (JDict (encode t)) s = Inr s'" "played L n t' s'"
      "length (ps_traces s') = Suc k"
      using play_step_goes [OF lib other w Cons.prems(1) False] k(1) by metis
    then show ?thesis using Cons.IH [OF s'(2)] rec False k by (simp add: of_option_def)
  qed
qed

lemma start_goes:
  assumes "on_canonical n \<noteq> on_branch n"
  obtains s where "begin_play L n = Inr s" and "played L n tutorial_start s" and "ps_traces s = []"
proof -
  let ?c = "onboarding_canonical n"
  let ?st = "\<lparr>branches = dset [(on_canonical n, ?c)] (on_branch n) (clone_for_trial L ?c (on_branch n)), receipts = []\<rparr>"
  let ?b = "new_bus ?st"
  let ?s = "\<lparr>ps_bus = ?b\<lparr>bus_definitions := dset (bus_definitions ?b) ''tabletop.onboarding.act'' (onboarding_definition L)\<rparr>,
    ps_traces = [], ps_evidence = [], ps_events = [], ps_attempts = []\<rparr>"
  have "begin_play L n = Inr ?s"
    using assms by (simp add: begin_play_def store_add_def empty_store_def store_create_trial_def store_get_def of_option_def
        onboarding_canonical_def clone_for_trial_def register_def new_bus_def onboarding_definition_def dhas_def Let_def)
  moreover have "played L n tutorial_start ?s"
    using assms by (simp add: played_def playing_def new_bus_def clone_for_trial_def onboarding_canonical_def bucket_def
        dget_or_def simulated.begin_run)
  ultimately show ?thesis using that by simp
qed

lemma finish_goes:
  assumes s: "played L n t s" and some: "ps_traces s \<noteq> []"
  obtains out where "finish_trial L persona seed n before s = Inr out"
    and "out_status out = (if tu_completed t then ''COMPLETED'' else ''HORIZON_REACHED'')"
    and "out_steps out = int (length (ps_traces s))" and "out_traces out = ps_traces s" and "out_events out = ps_events s"
    and "out_canonical_hash_before out = before"
    and "out_canonical_hash_after out = state_hash L (onboarding_canonical n)"
    and "dget (out_metrics out) ''steps'' = Some (JInt (int (length (ps_traces s))))"
    and "dget (out_metrics out) ''completed'' = Some (JBool (tu_completed t))"
    and "dget (out_metrics out) ''invalid_actions'' = Some (JInt (tu_invalid t))"
    and "dget (out_metrics out) ''help_requests'' = Some (JInt (tu_helps t))"
    and "dget (out_metrics out) ''hints_requested'' = Some (JInt (tu_hints t))"
    and "dget (out_metrics out) ''dialogue_loops'' = Some (JInt (tu_loops t))"
    and "dget (out_metrics out) ''comprehended_first_goal'' = Some (JBool (tu_completed t \<and> tu_invalid t \<le> 2))"
    and "dget (out_metrics out) ''abandoned'' = Some (JBool (\<not> tu_completed t))"
    and "\<forall>x \<in> set (out_facts out). set (vf_evidence_event_ids x) \<subseteq> e_event_id ` set (out_events out)"
    and "\<forall>k \<in> set (map snd COHORT_METRICS). \<exists>v. dget (out_metrics out) k = Some v \<and> ((\<exists>i. v = JInt i) \<or> (\<exists>b. v = JBool b))"
proof -
  obtain src where src: "dget (branches (bus_states (ps_bus s))) (on_branch n) = Some src"
    "dget (bucket src ''tabletop.onboarding'') (on_entity n) = Some (JDict (encode t))"
    and can: "dget (branches (bus_states (ps_bus s))) (on_canonical n) = Some (onboarding_canonical n)"
    using s some unfolding played_def playing_def by (auto split: if_splits)
  have ok: "0 \<le> tu_hints t" "tu_hints t \<le> tu_helps t" "0 \<le> tu_loops t" "0 \<le> tu_invalid t"
    using s simulated_ok by (auto simp: played_def tutorial_ok_def)
  let ?finished = "tu_completed t"
  let ?d = "dupdate (encode t) [(''abandoned'', JBool (\<not> ?finished)), (''deaths'', JInt 0), (''inaccessible_paths'', JInt 0),
    (''narrative_contradictions'', JInt 0), (''quest_comprehended'', JBool (?finished \<and> tu_invalid t \<le> 2))]"
  have absent: "dget (encode t) ''deaths'' = None" "dget (encode t) ''inaccessible_paths'' = None"
    "dget (encode t) ''narrative_contradictions'' = None"
    by (simp_all add: encode_def)
  let ?t = "tally_of L (ps_events s)"
  let ?m = "\<lparr>pe_time_to_first_valid_action = ta_first_valid ?t, pe_invalid_actions = tu_invalid t,
    pe_invalid_action_reasons = sort (ta_invalid_reasons ?t), pe_repeated_failed_actions = ta_repeated ?t,
    pe_rules_help_requests = tu_helps t, pe_hints_requested = tu_hints t, pe_dialogue_loops = tu_loops t,
    pe_abandoned = (\<not> ?finished), pe_deaths = 0, pe_inaccessible_paths = 0, pe_narrative_contradictions = 0,
    pe_clues_discovered = length_int (ta_clues ?t), pe_quest_comprehended = (?finished \<and> tu_invalid t \<le> 2)\<rparr>"
  have m: "verify_player L (ps_events s) ?d = Inr (?m, player_facts (ps_events s) ?t ?m)"
    using ok tally_of_numbers(2) [of L "ps_events s"]
    by (simp add: verify_player_def metrics_of_def state_int_def state_bool_def Let_def ensure_def length_int_def)
       (simp add: dget_or_def encode_def)
  let ?facts = "onboarding_facts ?finished (tu_invalid t) (before = state_hash L (onboarding_canonical n)) (ps_evidence s) @
    player_facts (ps_events s) ?t ?m"
  let ?out = "\<lparr>out_trial_id = on_trial n, out_persona_id = Some persona, out_seed = seed,
    out_status = (if ?finished then ''COMPLETED'' else ''HORIZON_REACHED''), out_steps = int (length (ps_traces s)),
    out_canonical_hash_before = before, out_canonical_hash_after = state_hash L (onboarding_canonical n),
    out_trial_state_hash = state_hash L src, out_traces = ps_traces s, out_events = ps_events s, out_facts = ?facts,
    out_metrics = dupdate [(''completed'', JBool ?finished), (''steps'', JInt (int (length (ps_traces s)))),
      (''invalid_actions'', JInt (tu_invalid t)), (''help_requests'', JInt (tu_helps t)), (''hints_requested'', JInt (tu_hints t)),
      (''dialogue_loops'', JInt (tu_loops t)), (''comprehended_first_goal'', JBool (?finished \<and> tu_invalid t \<le> 2))] (metrics_json ?m),
    out_branch_id = None, out_run_id = None, out_artifact_uris = [], out_failure_code = None\<rparr>"
  have finish: "finish_trial L persona seed n before s = Inr ?out"
    using src can m absent
    by (simp add: finish_trial_def trial_bucket_def store_get_def of_option_def record_int_def dget_or_def Let_def)
  have cited: "set (vf_evidence_event_ids x) \<subseteq> e_event_id ` set (ps_events s)" if "x \<in> set ?facts" for x
  proof (cases "x \<in> set (player_facts (ps_events s) ?t ?m)")
    case True
    then show ?thesis using facts_cite_events [OF m] by blast
  next
    case False
    then have "set (vf_evidence_event_ids x) \<subseteq> set (ps_evidence s)" using that by (auto simp: onboarding_facts_def)
    also have "\<dots> = e_event_id ` set (ps_events s)" using s by (metis list.set_map played_def)
    finally show ?thesis .
  qed
  show ?thesis
    by (rule that [of ?out]) (use finish cited in \<open>simp_all add: metrics_json_def COHORT_METRICS_def\<close>)
qed

lemma compiled_weights: "compile_persona L b version = Inr c \<Longrightarrow> cp_policy_weights c = policy_weights L (bp_dimensions b)"
  by (auto simp: compile_persona_def Let_def res_simps)

lemma names_differ: "uuid5_injective L \<Longrightarrow> on_canonical (onboarding_names_of L persona seed) \<noteq> on_branch (onboarding_names_of L persona seed)"
  by (auto simp: onboarding_names_of_def Let_def onboarding_id_def uuid5_injective_def)

text \<open>What a trial returns, and the machine state it ended in.\<close>

definition trial_of :: "pylib \<Rightarrow> trial_output \<Rightarrow> tutorial \<Rightarrow> bool" where
  "trial_of L out t \<longleftrightarrow> simulated (map dt_chosen_action (out_traces out)) t \<and>
     out_steps out = int (length (out_traces out)) \<and> length (out_traces out) \<le> 24 \<and> length (out_events out) = length (out_traces out) \<and>
     out_status out = (if tu_completed t then ''COMPLETED'' else ''HORIZON_REACHED'') \<and>
     (tu_completed t \<or> length (out_traces out) = 24) \<and> out_canonical_hash_before out = out_canonical_hash_after out \<and>
     dget (out_metrics out) ''completed'' = Some (JBool (tu_completed t)) \<and>
     dget (out_metrics out) ''invalid_actions'' = Some (JInt (tu_invalid t)) \<and>
     dget (out_metrics out) ''help_requests'' = Some (JInt (tu_helps t)) \<and>
     dget (out_metrics out) ''dialogue_loops'' = Some (JInt (tu_loops t)) \<and>
     (\<forall>x \<in> set (out_facts out). set (vf_evidence_event_ids x) \<subseteq> e_event_id ` set (out_events out)) \<and>
     (\<forall>k \<in> set (map snd COHORT_METRICS). \<exists>v. dget (out_metrics out) k = Some v \<and> ((\<exists>i. v = JInt i) \<or> (\<exists>b. v = JBool b)))"

lemma trial_returns:
  assumes lib: "lawful_lib L" "uuid5_injective L" and compiled: "compile_persona L b None = Inr compiled"
  obtains out t where "run_onboarding_trial L Q now b seed = Inr out" and "trial_of L out t"
proof -
  let ?n = "onboarding_names_of L (bp_persona_id b) seed" and ?before = "state_hash L (onboarding_canonical (onboarding_names_of L (bp_persona_id b) seed))"
  note other = names_differ [OF lib(2), of "bp_persona_id b" seed]
  obtain s where s: "begin_play L ?n = Inr s" "played L ?n tutorial_start s" "ps_traces s = []"
    using start_goes [OF other] .
  obtain s' t where s': "play L Q now compiled (bp_persona_id b) seed ?n [0..<24] s = Inr s'" "played L ?n t s'"
    "tu_completed t \<or> length (ps_traces s') = 24" "length (ps_traces s') \<le> 24"
    using play_goes [OF lib(1) other compiled_weights [OF compiled] s(2), where ks = "[0..<24]" and Q = Q and now = now
        and persona = "bp_persona_id b" and seed = seed] s(3) by auto
  have some: "ps_traces s' \<noteq> []"
  proof
    assume none: "ps_traces s' = []"
    then have "simulated [] t" using s'(2) by (simp add: played_def)
    then have "t = tutorial_start" using simulated_ok by fastforce
    then show False using s'(3) none by (simp add: tutorial_start_def)
  qed
  have same: "length (ps_events s') = length (ps_traces s')" "simulated (map dt_chosen_action (ps_traces s')) t"
    using s'(2) by (simp_all add: played_def)
  obtain out where out: "finish_trial L (bp_persona_id b) seed ?n ?before s' = Inr out" "trial_of L out t"
    by (rule finish_goes [OF s'(2) some, of "bp_persona_id b" seed ?before]) (use same s'(3, 4) in \<open>simp add: trial_of_def\<close>)
  then show ?thesis using that compiled s(1) s'(1) by (simp add: run_onboarding_trial_def Let_def)
qed

section \<open>The properties\<close>

text \<open>
  C31. A simulated player's trial always returns and is a run of the tutorial: for every persona the compiler accepts,
  whatever the random numbers, the seeds and the clock, the trial takes at most 24 steps; its actions are a run of the
  tutorial machine in which each action is one the policy was offered; it completes or uses all 24 steps; the steps are
  exactly the progress, the invalid actions and the help requests; help is asked at most twice, never twice in one
  step, so that no dialogue loop is ever reported; the canonical hash does not change; and every fact cites events of
  the trial.
\<close>

theorem onboarding_trial_is_a_run:
  assumes "lawful_lib L" and "uuid5_injective L" and "compile_persona L b None = Inr compiled"
  shows "\<exists>out t. run_onboarding_trial L Q now b seed = Inr out \<and> simulated (map dt_chosen_action (out_traces out)) t \<and>
    t = fold tutorial_step (map dt_chosen_action (out_traces out)) tutorial_start \<and>
    out_steps out \<le> 24 \<and> out_steps out = int (length (out_events out)) \<and>
    out_steps out = int (tu_step t) + tu_invalid t + tu_helps t \<and>
    (out_status out = ''COMPLETED'' \<longleftrightarrow> tu_step t = 6) \<and> (out_status out \<noteq> ''COMPLETED'' \<longrightarrow> out_steps out = 24) \<and>
    dget (out_metrics out) ''invalid_actions'' = Some (JInt (tu_invalid t)) \<and>
    dget (out_metrics out) ''help_requests'' = Some (JInt (tu_helps t)) \<and> tu_helps t \<le> 2 \<and>
    dget (out_metrics out) ''dialogue_loops'' = Some (JInt 0) \<and>
    out_canonical_hash_before out = out_canonical_hash_after out \<and>
    (\<forall>f \<in> set (out_facts out). set (vf_evidence_event_ids f) \<subseteq> e_event_id ` set (out_events out))"
proof -
  obtain out t where run: "run_onboarding_trial L Q now b seed = Inr out" and t: "trial_of L out t"
    using trial_returns [OF assms] .
  have sim: "simulated (map dt_chosen_action (out_traces out)) t" using t by (simp add: trial_of_def)
  note ok = simulated_ok [OF sim]
  show ?thesis
    by (rule exI [of _ out], rule exI [of _ t], intro conjI)
       (use run t sim ok in \<open>simp_all add: trial_of_def tutorial_ok_def help_ok_def split: if_splits\<close>)
qed

text \<open>A persona without dimensions, which the compiler gives its defaults.\<close>

definition plain_persona :: persona_blueprint where
  "plain_persona = \<lparr>bp_persona_id = ''p'', bp_schema_version = SCHEMA_VERSION, bp_seed = 1, bp_generator_version = GENERATOR_VERSION,
     bp_source = ''synthetic'', bp_dimensions = [], bp_derived_traits = [], bp_provenance = [],
     bp_validation = \<lparr>pv_valid = True, pv_ruleset_version = [], pv_errors = [], pv_warnings = [], pv_active_dimensions = []\<rparr>\<rparr>"

definition calm_lib :: onboarding_lib where
  "calm_lib = \<lparr>ol_seed = (\<lambda>t. 7), ol_uuid_int = (\<lambda>u. 3), ol_policy = \<lparr>ul_sum = sum_list, ul_uniform = (\<lambda>g. (0, g))\<rparr>\<rparr>"

lemma plain_compiles: "\<exists>c. compile_persona ref_lib plain_persona None = Inr c"
  by (simp add: compile_persona_def plain_persona_def lowered_def dget_or_def Let_def)

theorem onboarding_trial_is_a_run_witness:
  "\<exists>out. run_onboarding_trial ref_lib calm_lib 0 plain_persona 1 = Inr out \<and> out_steps out \<le> 24 \<and>
     out_canonical_hash_before out = out_canonical_hash_after out"
proof -
  obtain c where "compile_persona ref_lib plain_persona None = Inr c" using plain_compiles by blast
  from onboarding_trial_is_a_run [OF lawful_ref_lib ref_lib_injective this, of calm_lib 0 1] show ?thesis by blast
qed

lemma numeric_mean_zero:
  assumes "lawful_lib L" and "\<forall>t \<in> set trials. dget (out_metrics t) n = Some (JInt 0)"
  shows "numeric_mean L trials n = Inr 0"
proof -
  have "mapR (\<lambda>t. bindR (of_option (KeyError n) (dget (out_metrics t) n)) (py_float L)) trials = Inr (map (\<lambda>t. 0) trials)"
    by (rule mapR_map) (use assms in \<open>simp add: of_option_def\<close>)
  then show ?thesis using assms(1) by (simp add: numeric_mean_def float_mean_def round_to_def round_half_even_def)
qed

lemma numeric_mean_returns:
  assumes "\<forall>t \<in> set trials. \<exists>v. dget (out_metrics t) n = Some v \<and> ((\<exists>i. v = JInt i) \<or> (\<exists>b. v = JBool b))"
  shows "\<exists>q. numeric_mean L trials n = Inr q"
proof -
  have "\<exists>xs. mapR (\<lambda>t. bindR (of_option (KeyError n) (dget (out_metrics t) n)) (py_float L)) trials = Inr xs \<and>
      length xs = length trials \<and> (\<forall>x \<in> set xs. True)"
    by (rule mapR_all) (use assms in \<open>fastforce simp: of_option_def\<close>)
  then show ?thesis by (auto simp: numeric_mean_def)
qed

text \<open>
  C32. A cohort is accounted for: when the generator and the compiler accept every persona of the cohort, the cohort run
  returns; it reports one trial for each seed and persona, counts as completed exactly the trials whose tutorial
  is finished, keeps the canonical world unchanged, and its mean number of dialogue loops is always 0.
\<close>

theorem onboarding_cohort_reports:
  assumes "lawful_lib L" and "uuid5_injective L" and "1 \<le> cohort_size" and "cohort_size \<le> 10000" and "seeds \<noteq> []"
    and "\<forall>(seed, index) \<in> set (cohort_plan cohort_size seeds). \<exists>b c.
      generate L S r (seed * 100000 + int index) [] [] False = Inr b \<and> compile_persona L b None = Inr c"
  shows "\<exists>report trials. run_cohort L Q S r now cohort_size seeds include_trials = Inr report \<and>
    mapR (\<lambda>(seed, index). bindR (generate L S r (seed * 100000 + int index) [] [] False) (\<lambda>b.
      run_onboarding_trial L Q now b seed)) (cohort_plan cohort_size seeds) = Inr trials \<and>
    cohort_trial_count report = cohort_size * int (length seeds) \<and> cohort_trial_count report = int (length trials) \<and>
    cohort_completed report = int (length (filter (\<lambda>t. out_status t = ''COMPLETED'') trials)) \<and>
    cohort_canonical_world_unchanged report \<and> dget (cohort_metrics report) ''mean_dialogue_loops'' = Some 0 \<and>
    (\<forall>t \<in> set (cohort_sample_trials report). t \<in> set trials)"
proof -
  let ?plan = "cohort_plan cohort_size seeds"
  let ?trial = "\<lambda>(seed, index). bindR (generate L S r (seed * 100000 + int index) [] [] False) (\<lambda>b. run_onboarding_trial L Q now b seed)"
  have each: "\<exists>out. ?trial x = Inr out \<and> (\<exists>t. trial_of L out t)" if "x \<in> set ?plan" for x
  proof -
    obtain seed index where x: "x = (seed, index)" by (cases x)
    obtain b c where b: "generate L S r (seed * 100000 + int index) [] [] False = Inr b" "compile_persona L b None = Inr c"
      using assms(6) \<open>x \<in> set ?plan\<close> unfolding x by blast
    obtain out t where "run_onboarding_trial L Q now b seed = Inr out" "trial_of L out t"
      using trial_returns [OF assms(1, 2) b(2)] .
    then show ?thesis using b(1) by (auto simp: x)
  qed
  obtain trials where trials: "mapR ?trial ?plan = Inr trials" "length trials = length ?plan" "\<forall>out \<in> set trials. \<exists>t. trial_of L out t"
    using mapR_all [where xs = ?plan and f = ?trial and P = "\<lambda>out. \<exists>t. trial_of L out t"] each by blast
  have plan: "length ?plan = nat cohort_size * length seeds" by (simp add: cohort_plan_def length_product)
  have some: "trials \<noteq> []" using trials(2) plan assms(3, 5) by auto
  have tally: "\<exists>t. trial_of L out t" if "out \<in> set trials" for out using trials(3) that by blast
  let ?done = "\<lambda>t. out_status t = ''COMPLETED''"
  have flags: "mapR (\<lambda>t. bindR (of_option (KeyError ''completed'') (dget (out_metrics t) ''completed'')) (\<lambda>v. Inr (py_bool v))) trials =
      Inr (map ?done trials)"
    by (rule mapR_map) (use tally in \<open>fastforce simp: trial_of_def of_option_def\<close>)
  have "\<forall>n \<in> set (map snd COHORT_METRICS). \<exists>q. numeric_mean L trials n = Inr q"
  proof
    fix n assume n: "n \<in> set (map snd COHORT_METRICS)"
    show "\<exists>q. numeric_mean L trials n = Inr q"
      by (rule numeric_mean_returns) (use tally n in \<open>fastforce simp: trial_of_def\<close>)
  qed
  then obtain q where q: "\<And>n. n \<in> set (map snd COHORT_METRICS) \<Longrightarrow> numeric_mean L trials n = Inr (q n)" by metis
  have metrics: "mapR (\<lambda>(k, n). bindR (numeric_mean L trials n) (\<lambda>v. Inr (k, v))) COHORT_METRICS =
      Inr (map (\<lambda>(k, n). (k, q n)) COHORT_METRICS)"
    by (rule mapR_map) (use q in \<open>force\<close>)
  have zero: "\<forall>t \<in> set trials. dget (out_metrics t) ''dialogue_loops'' = Some (JInt 0)"
  proof
    fix out assume "out \<in> set trials"
    then obtain t where t: "trial_of L out t" using tally by blast
    then have "tu_loops t = 0" using simulated_ok unfolding trial_of_def help_ok_def by blast
    with t show "dget (out_metrics out) ''dialogue_loops'' = Some (JInt 0)" by (simp add: trial_of_def)
  qed
  have "q ''dialogue_loops'' = 0"
    using numeric_mean_zero [OF assms(1) zero] q [of "''dialogue_loops''"] by (simp add: COHORT_METRICS_def)
  then have loops: "dget (map (\<lambda>(k, n). (k, q n)) COHORT_METRICS) ''mean_dialogue_loops'' = Some 0"
    by (simp add: COHORT_METRICS_def)
  have same: "list_all (\<lambda>t. out_canonical_hash_before t = out_canonical_hash_after t) trials"
    using tally by (auto simp: list_all_iff trial_of_def)
  let ?report = "\<lparr>cohort_scenario_id = ''player-onboarding'', cohort_scenario_version = ''1.0.0'',
    cohort_trial_count = int (length trials), cohort_completed = int (length (filter ?done trials)),
    cohort_completion_rate = round_to L 4 (fl L (of_nat (length (filter ?done trials)) / of_nat (length trials))),
    cohort_canonical_world_unchanged = True, cohort_metrics = map (\<lambda>(k, n). (k, q n)) COHORT_METRICS,
    cohort_sample_trials = take (nat (max 0 include_trials)) trials\<rparr>"
  have ids: "filter id (map ?done trials) = map ?done (filter ?done trials)" by (simp add: filter_map comp_def)
  have "run_cohort L Q S r now cohort_size seeds include_trials = Inr ?report"
    using assms(3-5) trials(1) flags metrics same by (simp add: run_cohort_def ensure_def ids Let_def)
  then show ?thesis
    by (intro exI [of _ ?report] exI [of _ trials])
       (use trials(1, 2) plan loops assms(3) in \<open>auto dest: in_set_takeD\<close>)
qed

lemma default_traits_compile:
  "\<lbrakk>dget (bp_dimensions b) ''risk_tolerance'' = None; dget (bp_dimensions b) ''reading_tolerance'' = None\<rbrakk> \<Longrightarrow>
     \<exists>c. compile_persona L b None = Inr c"
  by (simp add: compile_persona_def lowered_def dget_or_def Let_def)

lemma demo_cohort_persona:
  "\<exists>b c. generate ref_lib demo_sampler demo_schema 0 [] [] False = Inr b \<and> compile_persona ref_lib b None = Inr c"
proof -
  have "(case generate ref_lib demo_sampler demo_schema 0 [] [] False of Inl e \<Rightarrow> False
      | Inr b \<Rightarrow> dget (bp_dimensions b) ''risk_tolerance'' = None \<and> dget (bp_dimensions b) ''reading_tolerance'' = None)"
    by code_simp
  then show ?thesis using default_traits_compile by (auto split: sum.splits)
qed

theorem onboarding_cohort_reports_witness:
  "\<exists>report. run_cohort ref_lib calm_lib demo_sampler demo_schema 0 1 [0] 6 = Inr report \<and> cohort_trial_count report = 1 \<and>
     cohort_canonical_world_unchanged report"
proof -
  have "\<forall>(seed, index) \<in> set (cohort_plan 1 [0]). \<exists>b c.
      generate ref_lib demo_sampler demo_schema (seed * 100000 + int index) [] [] False = Inr b \<and> compile_persona ref_lib b None = Inr c"
    using demo_cohort_persona by (simp add: cohort_plan_def)
  from onboarding_cohort_reports [OF lawful_ref_lib ref_lib_injective _ _ _ this, where Q = calm_lib and now = 0 and include_trials = 6]
  show ?thesis by auto
qed

end
