(* ===== verification/LoreIndex.thy ===== *)
theory LoreIndex
  imports CognitionMind
begin

text \<open>
  \<open>kernel/lore.py\<close>: the local lexical index of lore documents, and the adapter of a remote vector index, whose
  vectorizer and HTTP service are parameters. The main result: a search of the local index returns only
  documents of the world with an allowed visibility, best matches first, and leaves out no better one.
\<close>

section \<open>Documents\<close>

record lore_document =
  ld_document_id :: uuid
  ld_world_id :: uuid
  ld_title :: string
  ld_text :: string
  ld_visibility :: string
  ld_tags :: "string list"
  ld_provenance :: jdict

record lore_hit =
  lh_document :: lore_document
  lh_score :: rat

section \<open>The local index\<close>

type_synonym lore_index = "(uuid \<times> lore_document) list"

definition new_lore_index :: lore_index where
  "new_lore_index = []"

definition lore_upsert :: "lore_index \<Rightarrow> lore_document list \<Rightarrow> lore_index" where
  "lore_upsert index documents = foldl (\<lambda>d doc. dset d (ld_document_id doc) doc) index documents"

definition document_tokens :: "lore_document \<Rightarrow> string list" where
  "document_tokens d = tokens (ld_title d @ '' '' @ ld_text d @ '' '' @ join_with '' '' (ld_tags d))"

definition lore_score :: "pylib \<Rightarrow> string list \<Rightarrow> string list \<Rightarrow> rat" where
  "lore_score L query document =
     (let union = remdups (query @ document) in
      if union = [] then 0
      else fl L (of_nat (length (filter (\<lambda>t. t \<in> set document) query)) / of_nat (length union)))"

text \<open>\<open>xs[:limit]\<close>; a negative limit counts from the end.\<close>

definition first_items :: "int \<Rightarrow> 'a list \<Rightarrow> 'a list" where
  "first_items limit xs = take (if 0 \<le> limit then nat limit else length xs - nat (- limit)) xs"

definition hit_order :: "lore_hit \<Rightarrow> rat \<times> uuid" where
  "hit_order h = (- lh_score h, ld_document_id (lh_document h))"

definition lore_search :: "pylib \<Rightarrow> lore_index \<Rightarrow> uuid \<Rightarrow> string \<Rightarrow> int \<Rightarrow> string set \<Rightarrow> lore_hit list" where
  "lore_search L index world query limit visibility =
     (let query_tokens = tokens query;
          candidates = filter (\<lambda>d. ld_world_id d = world \<and> ld_visibility d \<in> visibility) (map snd index);
          scored = List.map_filter (\<lambda>d. let score = lore_score L query_tokens (document_tokens d) in
            if score \<noteq> 0 then Some \<lparr>lh_document = d, lh_score = round6 L score\<rparr> else None) candidates
      in first_items limit (sort_key hit_order scored))"

section \<open>The remote index\<close>

definition LoreDocumentModel :: schema where
  "LoreDocumentModel = [(''document_id'', FUuid, None), (''world_id'', FUuid, None), (''title'', FStr 0 None, None),
     (''text'', FStr 0 None, None), (''visibility'', FStr 0 None, Some (JStr ''PUBLIC'')),
     (''tags'', FTuple 0 (FStr 0 None), Some (JList [])), (''provenance'', FMapping, Some (JDict []))]"

definition lore_json :: "lore_document \<Rightarrow> jdict" where
  "lore_json d = [(''document_id'', JStr (ld_document_id d)), (''world_id'', JStr (ld_world_id d)),
     (''title'', JStr (ld_title d)), (''text'', JStr (ld_text d)), (''visibility'', JStr (ld_visibility d)),
     (''tags'', JList (map JStr (ld_tags d))), (''provenance'', JDict (ld_provenance d))]"

definition lore_of_json :: "pylib \<Rightarrow> jval \<Rightarrow> lore_document res" where
  "lore_of_json L v = bindR (validate_any L LoreDocumentModel v) (\<lambda>d.
     Inr \<lparr>ld_document_id = vstr d ''document_id'', ld_world_id = vstr d ''world_id'', ld_title = vstr d ''title'',
       ld_text = vstr d ''text'', ld_visibility = vstr d ''visibility'',
       ld_tags = map (\<lambda>t. case t of JStr s \<Rightarrow> s | _ \<Rightarrow> []) (vlist d ''tags''), ld_provenance = vdict d ''provenance''\<rparr>)"

record qdrant_index =
  qd_collection :: string
  qd_vectorizer :: "string \<Rightarrow> rat list"
  qd_vector_size :: int
  qd_request :: "string \<Rightarrow> string \<Rightarrow> jdict \<Rightarrow> jdict res"

definition ensure_collection :: "qdrant_index \<Rightarrow> unit res" where
  "ensure_collection q = bindR (qd_request q ''PUT'' (''/collections/'' @ qd_collection q)
     [(''vectors'', JDict [(''size'', JInt (qd_vector_size q)), (''distance'', JStr ''Cosine'')]),
      (''on_disk_payload'', JBool True)]) (\<lambda>_. Inr ())"

definition qdrant_point :: "qdrant_index \<Rightarrow> lore_document \<Rightarrow> jval res" where
  "qdrant_point q d = (let vector = qd_vectorizer q (ld_title d @ [CHR 0x0A] @ ld_text d) in
     bindR (ensure (int (length vector) = qd_vector_size q) (ValueError ''vectorizer output does not match collection size'')) (\<lambda>_.
     Inr (JDict [(''id'', JStr (ld_document_id d)), (''vector'', JList (map JFloat vector)), (''payload'', JDict (lore_json d))])))"

definition qdrant_upsert :: "qdrant_index \<Rightarrow> lore_document list \<Rightarrow> unit res" where
  "qdrant_upsert q documents = bindR (mapR (qdrant_point q) documents) (\<lambda>points.
     bindR (qd_request q ''PUT'' (''/collections/'' @ qd_collection q @ ''/points?wait=true'') [(''points'', JList points)]) (\<lambda>_.
     Inr ()))"

definition qdrant_hit :: "pylib \<Rightarrow> jval \<Rightarrow> lore_hit res" where
  "qdrant_hit L v =
     bindR (py_dict v) (\<lambda>d.
     bindR (of_option (KeyError ''payload'') (dget d ''payload'')) (\<lambda>payload.
     bindR (lore_of_json L payload) (\<lambda>doc.
     bindR (of_option (KeyError ''score'') (dget d ''score'')) (\<lambda>s.
     bindR (py_float L s) (\<lambda>score. Inr \<lparr>lh_document = doc, lh_score = score\<rparr>)))))"

definition qdrant_search :: "pylib \<Rightarrow> qdrant_index \<Rightarrow> uuid \<Rightarrow> string \<Rightarrow> int \<Rightarrow> lore_hit list res" where
  "qdrant_search L q world query limit =
     bindR (qd_request q ''POST'' (''/collections/'' @ qd_collection q @ ''/points/search'')
       [(''vector'', JList (map JFloat (qd_vectorizer q query))), (''limit'', JInt limit), (''with_payload'', JBool True),
        (''filter'', JDict [(''must'', JList [JDict [(''key'', JStr ''world_id''),
           (''match'', JDict [(''value'', JStr world)])]])])]) (\<lambda>reply.
     (case dget_or reply ''result'' (JList []) of
        JList items \<Rightarrow> mapR (qdrant_hit L) items
      | _ \<Rightarrow> Inl (TypeError ''result is not a list'')))"

section \<open>What a search returns\<close>

lemma upsert_last:
  "dget (lore_upsert index documents) i = (case List.find (\<lambda>d. ld_document_id d = i) (rev documents) of
     None \<Rightarrow> dget index i | Some d \<Rightarrow> Some d)"
proof (induction documents rule: rev_induct)
  case (snoc d ds)
  then show ?case by (simp add: lore_upsert_def)
qed (simp add: lore_upsert_def)

lemma upsert_distinct: "distinct (map fst index) \<Longrightarrow> distinct (map fst (lore_upsert index documents))"
  by (induction documents arbitrary: index) (auto simp: lore_upsert_def distinct_update)

text \<open>The hits a document can give.\<close>

definition hit_for :: "pylib \<Rightarrow> string \<Rightarrow> lore_document \<Rightarrow> lore_hit option" where
  "hit_for L query d = (let score = lore_score L (tokens query) (document_tokens d) in
     if score \<noteq> 0 then Some \<lparr>lh_document = d, lh_score = round6 L score\<rparr> else None)"

lemma hit_for_document: "hit_for L query d = Some h \<Longrightarrow> lh_document h = d"
  by (auto simp: hit_for_def Let_def split: if_splits)

text \<open>
  Lore stays within its audience: a search of the local index, whatever was indexed, returns only documents of the
  index that belong to the world and have an allowed visibility, each with its score, in falling order of score (ties
  by document id), at most \<open>limit\<close> of them; and a visible document of the world that matches and is left out ranks
  after every document returned.
\<close>

theorem lore_stays_in_its_audience:
  assumes "0 \<le> limit" and "lore_search L index world query limit visibility = hits"
  shows "int (length hits) \<le> limit \<and> sorted (map hit_order hits) \<and>
    (\<forall>h \<in> set hits. \<exists>i d. (i, d) \<in> set index \<and> ld_world_id d = world \<and> ld_visibility d \<in> visibility \<and> hit_for L query d = Some h) \<and>
    (\<forall>(i, d) \<in> set index. \<forall>g. ld_world_id d = world \<longrightarrow> ld_visibility d \<in> visibility \<longrightarrow> hit_for L query d = Some g \<longrightarrow>
      g \<notin> set hits \<longrightarrow> (\<forall>h \<in> set hits. hit_order h \<le> hit_order g))"
proof -
  let ?seen = "filter (\<lambda>d. ld_world_id d = world \<and> ld_visibility d \<in> visibility) (map snd index)"
  let ?all = "List.map_filter (hit_for L query) ?seen"
  have hits: "hits = take (nat limit) (sort_key hit_order ?all)"
    using assms by (simp add: lore_search_def first_items_def hit_for_def [abs_def] Let_def)
  have all: "g \<in> set ?all \<longleftrightarrow> (\<exists>i d. (i, d) \<in> set index \<and> ld_world_id d = world \<and> ld_visibility d \<in> visibility \<and>
      hit_for L query d = Some g)" for g
    by (force simp: List.map_filter_def)
  have member: "g \<in> set ?all" if "g \<in> set hits" for g
    using that set_take_subset [of "nat limit" "sort_key hit_order ?all"] unfolding hits by (simp only: set_sort) blast
  have order: "hit_order h \<le> hit_order g" if "h \<in> set hits" "g \<in> set ?all" "g \<notin> set hits" for g h
  proof -
    have "g \<in> set (sort_key hit_order ?all)" using that(2) by simp
    with that(3) have out: "g \<in> set (drop (nat limit) (sort_key hit_order ?all))" unfolding hits by (rule not_taken_dropped [rotated])
    have "h \<in> set (take (nat limit) (sort_key hit_order ?all))" using that(1) unfolding hits .
    then show ?thesis using out by (rule sort_key_take)
  qed
  have "sorted (map hit_order hits)" unfolding sorted_map hits by (rule sorted_take_sort)
  moreover have "int (length hits) \<le> limit" using assms(1) by (simp add: hits)
  ultimately show ?thesis using member all order by blast
qed

definition lore_example :: lore_index where
  "lore_example = lore_upsert new_lore_index
     [\<lparr>ld_document_id = ''d1'', ld_world_id = ''w'', ld_title = ''Gate'', ld_text = ''old gate'', ld_visibility = ''PUBLIC'',
        ld_tags = [], ld_provenance = []\<rparr>,
      \<lparr>ld_document_id = ''d2'', ld_world_id = ''w'', ld_title = ''Gate'', ld_text = ''secret gate'', ld_visibility = ''GM'',
        ld_tags = [], ld_provenance = []\<rparr>]"

lemma lore_example_hits:
  "map (ld_document_id \<circ> lh_document) (lore_search ref_lib lore_example ''w'' ''GATE'' 5 {''PUBLIC''}) = [''d1'']"
  by code_simp

theorem lore_stays_in_its_audience_witness:
  "\<exists>h. lore_search ref_lib lore_example ''w'' ''GATE'' 5 {''PUBLIC''} = [h] \<and> ld_visibility (lh_document h) \<in> {''PUBLIC''}"
proof -
  obtain h where h: "lore_search ref_lib lore_example ''w'' ''GATE'' 5 {''PUBLIC''} = [h]"
    using lore_example_hits by auto
  from lore_stays_in_its_audience [OF _ h] hit_for_document show ?thesis using h by fastforce
qed

end
