(* ===== verification/PopulationStore.thy ===== *)
theory PopulationStore
  imports PersonaGenerator Effects
begin

text \<open>
  \<open>population/store.py\<close> with the cohort models of \<open>population/models.py\<close>: an immutable pool of personas, its counts,
  samples and feasibility reports. The Parquet file is the list of its rows, \<open>None\<close> if there is none; the queries are
  written out over the rows. What DuckDB and Arrow do with a value is a parameter (\<open>duckdb\<close>): the conversion of a
  row, equality in a WHERE clause, the order of a column, the hash and the logarithm. The main results: a pool does not
  depend on the batch size, and a sample contains what was asked for whenever the report says that it is feasible.
\<close>

section \<open>Records\<close>

record duckdb =
  dk_write :: "jdict \<Rightarrow> jdict res"                 \<comment> \<open>a row as the Arrow schema stores it\<close>
  dk_equal :: "jval \<Rightarrow> jval \<Rightarrow> bool"             \<comment> \<open>column = parameter\<close>
  dk_rank :: "jval \<Rightarrow> rat \<times> string"               \<comment> \<open>the order of a column\<close>
  dk_hash :: "string \<Rightarrow> nat"                      \<comment> \<open>hash(_)\<close>
  dk_log_key :: "rat \<Rightarrow> rat \<Rightarrow> rat"               \<comment> \<open>- ln(u) / weight\<close>

record population_definition =
  pd_population_key :: string
  pd_version :: string
  pd_members :: int
  pd_seed :: int
  pd_fixed :: jdict
  pd_distributions :: distributions

datatype sampling_mode = STRATIFIED | WEIGHTED

record cohort_definition =
  ch_cohort_key :: string
  ch_filters :: jdict
  ch_sampling_mode :: sampling_mode
  ch_strata :: "string list"
  ch_per_cell :: int
  ch_sample_size :: "int option"
  ch_seed :: int
  ch_weight_dimension :: "string option"
  ch_weights :: weights
  ch_required_cells :: "jdict list"

record feasibility_cell =
  fc_values :: jdict
  fc_available :: int
  fc_required :: int
  fc_feasible :: bool

record cohort_feasibility =
  cf_cohort_key :: string
  cf_feasible :: bool
  cf_total_available :: int
  cf_cells :: "feasibility_cell list"
  cf_errors :: "string list"

record distribution_report =
  dr_dimension :: string
  dr_population_count :: int
  dr_expected :: "(string \<times> rat) list"
  dr_observed :: "(string \<times> rat) list"
  dr_absolute_deviation :: "(string \<times> rat) list"
  dr_tolerance :: rat
  dr_within_tolerance :: bool

text \<open>The pool file, and what a store needs besides: the library functions and the persona schema.\<close>

type_synonym pool = "jdict list option"

record population_context =
  px_lib :: pylib
  px_sampler :: sampler
  px_registry :: registry
  px_duckdb :: duckdb

section \<open>Generation\<close>

definition persona_row :: "pylib \<Rightarrow> persona_blueprint \<Rightarrow> jdict" where
  "persona_row L b = dupdate [(''persona_id'', JStr (bp_persona_id b)), (''schema_version'', JStr (bp_schema_version b)),
     (''seed'', JInt (bp_seed b)), (''generator_version'', JStr (bp_generator_version b)),
     (''dimensions_json'', JStr (json_text L (JDict (bp_dimensions b))))] (bp_dimensions b)"

definition population_seed :: "population_definition \<Rightarrow> nat \<Rightarrow> int" where
  "population_seed d index = pd_seed d * 10000000 + int index"

definition pool_persona :: "population_context \<Rightarrow> population_definition \<Rightarrow> nat \<Rightarrow> persona_blueprint res" where
  "pool_persona X d index = generate (px_lib X) (px_sampler X) (px_registry X) (population_seed d index)
     (pd_fixed d) (pd_distributions d) False"

definition generate_batch_rows :: "population_context \<Rightarrow> population_definition \<Rightarrow> nat list \<Rightarrow> jdict list res" where
  "generate_batch_rows X d indices =
     bindR (mapR (\<lambda>i. bindR (pool_persona X d i) (\<lambda>b. Inr (persona_row (px_lib X) b))) indices) (\<lambda>rows.
     mapR (dk_write (px_duckdb X)) rows)"

text \<open>\<open>range(0, size, batch_size)\<close> with the rows of each batch.\<close>

function batches :: "nat \<Rightarrow> nat \<Rightarrow> nat \<Rightarrow> nat list list" where
  "batches start members batch = (if batch = 0 \<or> members \<le> start then []
     else [start..<min (start + batch) members] # batches (start + batch) members batch)"
  by auto
termination by (relation "measure (\<lambda>(start, members, batch). members - start)") auto

declare batches.simps [simp del]

text \<open>The temporary file replaces the pool only when every batch was written.\<close>

definition generate_definition :: "population_context \<Rightarrow> population_definition \<Rightarrow> int \<Rightarrow> (pool, unit) eff" where
  "generate_definition X d batch_size =
     bindE (ensureE (\<not> (batch_size < 1 \<or> 100000 < batch_size)) (ValueError ''batch_size must be between 1 and 100000'')) (\<lambda>_.
     bindE (liftE (validate_stratum (px_lib X) (px_sampler X) (px_registry X) (pd_fixed d) (pd_distributions d))) (\<lambda>feasibility.
     bindE (ensureE (sq_feasible feasibility) (ValueError (join_with ''; '' (sq_errors feasibility)))) (\<lambda>_.
     bindE (liftE (mapR (generate_batch_rows X d) (batches 0 (nat (pd_members d)) (nat batch_size)))) (\<lambda>rows.
     updE (\<lambda>_. Some (concat rows))))))"

definition generate_pool :: "population_context \<Rightarrow> string \<Rightarrow> int \<Rightarrow> int \<Rightarrow> int \<Rightarrow> (pool, unit) eff" where
  "generate_pool X stem members seed batch_size =
     bindE (ensureE (1 \<le> members \<and> members \<le> 5000000 \<and> stem \<noteq> []) ValidationError) (\<lambda>_.
     generate_definition X \<lparr>pd_population_key = stem, pd_version = ''1.0.0'', pd_members = members, pd_seed = seed,
       pd_fixed = [], pd_distributions = []\<rparr> batch_size)"

section \<open>Queries\<close>

definition unknown_dimensions :: "registry \<Rightarrow> string list \<Rightarrow> string list" where
  "unknown_dimensions r names = sort (remdups (filter (\<lambda>n. \<not> dhas (rg_dimensions r) n) names))"

definition require_dimensions :: "population_context \<Rightarrow> string list \<Rightarrow> string \<Rightarrow> unit res" where
  "require_dimensions X names label = (let unknown = unknown_dimensions (px_registry X) names in
     ensure (unknown = []) (ValueError (''Unknown '' @ label @ '': '' @ show_list (px_lib X) (map JStr unknown))))"

definition column :: "jdict \<Rightarrow> string \<Rightarrow> jval" where
  "column row n = dget_or row n JNull"

text \<open>A filter is a value or a collection of values.\<close>

fun filter_values :: "jval \<Rightarrow> jval list" where
  "filter_values (JList vs) = vs"
| "filter_values v = [v]"

definition passes :: "duckdb \<Rightarrow> jdict \<Rightarrow> jdict \<Rightarrow> bool" where
  "passes D filters row = list_all (\<lambda>(n, raw). list_ex (dk_equal D (column row n)) (filter_values raw)) filters"

definition eligible_rows :: "population_context \<Rightarrow> pool \<Rightarrow> jdict \<Rightarrow> jdict list res" where
  "eligible_rows X pool filters =
     bindR (of_option (FileNotFoundError ''pool'') pool) (\<lambda>rows.
     bindR (require_dimensions X (map fst filters) ''filters'') (\<lambda>_.
     Inr (filter (passes (px_duckdb X) filters) rows)))"

definition pool_count :: "population_context \<Rightarrow> pool \<Rightarrow> jdict \<Rightarrow> int res" where
  "pool_count X pool filters = bindR (eligible_rows X pool filters) (\<lambda>rows. Inr (int (length rows)))"

definition pool_get :: "pool \<Rightarrow> uuid \<Rightarrow> jdict res" where
  "pool_get pool i = bindR (of_option (FileNotFoundError ''pool'') pool) (\<lambda>rows.
     of_option (KeyError i) (List.find (\<lambda>row. column row ''persona_id'' = JStr i) rows))"

definition stratum_cell :: "string list \<Rightarrow> jdict \<Rightarrow> jval list" where
  "stratum_cell strata row = map (column row) strata"

text \<open>\<open>hash(persona_id || ':' || seed), persona_id\<close>\<close>

definition row_id :: "pylib \<Rightarrow> jdict \<Rightarrow> string" where
  "row_id L row = py_str L (column row ''persona_id'')"

definition sample_hash :: "population_context \<Rightarrow> int \<Rightarrow> jdict \<Rightarrow> nat" where
  "sample_hash X seed row = dk_hash (px_duckdb X) (row_id (px_lib X) row @ '':'' @ int_str seed)"

text \<open>\<open>row_number() OVER (PARTITION BY strata ORDER BY ...)\<close> on rows that are in that order.\<close>

fun number_rows :: "(jdict \<Rightarrow> jval list) \<Rightarrow> (jval list \<times> int) list \<Rightarrow> jdict list \<Rightarrow> (int \<times> jdict) list" where
  "number_rows key seen [] = []"
| "number_rows key seen (row # rows) = (let n = dget_or seen (key row) 0 + 1
     in (n, row) # number_rows key (dset seen (key row) n) rows)"

definition sample_stratified :: "population_context \<Rightarrow> pool \<Rightarrow> string list \<Rightarrow> int \<Rightarrow> int \<Rightarrow> jdict \<Rightarrow> jdict list res" where
  "sample_stratified X pool strata per_cell seed filters =
     bindR (ensure (\<not> per_cell < 1) (ValueError ''per_cell must be positive'')) (\<lambda>_.
     bindR (require_dimensions X strata ''strata'') (\<lambda>_.
     bindR (eligible_rows X pool filters) (\<lambda>rows.
     let ordered = sort_key (\<lambda>row. (sample_hash X seed row, row_id (px_lib X) row)) rows;
         chosen = filter (\<lambda>(n, row). n \<le> per_cell) (number_rows (stratum_cell strata) [] ordered)
     in Inr (map snd (sort_key (\<lambda>(n, row). (map (dk_rank (px_duckdb X)) (stratum_cell strata row), n)) chosen)))))"

definition weight_candidates :: "dimension_spec \<Rightarrow> jval list res" where
  "weight_candidates s = (case ds_kind s of ENUM \<Rightarrow> Inr (map JStr (ds_values s)) | BOOLEAN \<Rightarrow> Inr [JBool False, JBool True]
     | _ \<Rightarrow> Inl (ValueError ''Weighted sampling requires an enum or boolean dimension''))"

definition validate_weights :: "population_context \<Rightarrow> dimension_spec \<Rightarrow> weights \<Rightarrow> unit res" where
  "validate_weights X s ws =
     bindR (weight_candidates s) (\<lambda>candidates.
     let unknown = filter (\<lambda>v. \<not> allowed_in candidates v) (map fst ws) in
     bindR (ensure (unknown = []) (ValueError (''Unknown weights for '' @ ds_name s @ '': '' @
       show_list (px_lib X) (sort_key (py_str (px_lib X)) unknown)))) (\<lambda>_.
     bindR (ensure (\<not> (ws = [] \<or> list_ex (\<lambda>(_, w). w < 0) ws)) (ValueError ''Weights must be non-negative numbers'')) (\<lambda>_.
     ensure (\<not> sm_sum (px_sampler X) (map snd ws) \<le> 0) (ValueError ''At least one weight must be positive''))))"

definition weighted_filters :: "population_context \<Rightarrow> string \<Rightarrow> weights \<Rightarrow> jdict \<Rightarrow> jdict" where
  "weighted_filters X n ws filters =
     (let positive = map fst (filter (\<lambda>(_, w). 0 < w) ws);
          kept = (case dget filters n of None \<Rightarrow> positive
            | Some raw \<Rightarrow> filter (allowed_in (filter_values raw)) positive)
      in dset filters n (JList (sort_key (py_str (px_lib X)) kept)))"

text \<open>\<open>CASE column WHEN value THEN weight ... ELSE 0.0 END\<close>\<close>

definition row_weight :: "population_context \<Rightarrow> string \<Rightarrow> weights \<Rightarrow> jdict \<Rightarrow> rat" where
  "row_weight X n ws row = (case List.find (\<lambda>(v, _). dk_equal (px_duckdb X) (column row n) v)
       (sort_key (\<lambda>(v, _). py_str (px_lib X) v) ws) of None \<Rightarrow> 0 | Some (_, w) \<Rightarrow> w)"

definition weighted_key :: "population_context \<Rightarrow> string \<Rightarrow> weights \<Rightarrow> int \<Rightarrow> jdict \<Rightarrow> rat" where
  "weighted_key X n ws seed row = dk_log_key (px_duckdb X)
     (of_nat (sample_hash X seed row mod 1000000 + 1) / 1000001) (row_weight X n ws row)"

definition sample_weighted ::
  "population_context \<Rightarrow> pool \<Rightarrow> int \<Rightarrow> int \<Rightarrow> string \<Rightarrow> weights \<Rightarrow> jdict \<Rightarrow> jdict list res" where
  "sample_weighted X pool members seed n ws filters =
     bindR (ensure (\<not> members < 1) (ValueError ''size must be positive'')) (\<lambda>_.
     bindR (require_dimensions X [n] ''weight dimension'') (\<lambda>_.
     bindR (of_option (KeyError n) (dget (rg_dimensions (px_registry X)) n)) (\<lambda>s.
     bindR (validate_weights X s ws) (\<lambda>_.
     bindR (pool_count X pool (weighted_filters X n ws filters)) (\<lambda>available.
     bindR (ensure (\<not> available < members) (ValueError (''Weighted sample needs '' @ int_str members @ '', found '' @ int_str available))) (\<lambda>_.
     bindR (eligible_rows X pool filters) (\<lambda>rows.
     Inr (take (nat members) (sort_key (\<lambda>row. (weighted_key X n ws seed row, row_id (px_lib X) row))
       (filter (\<lambda>row. 0 < row_weight X n ws row) rows))))))))))"

section \<open>Cohorts\<close>

fun is_collection :: "jval \<Rightarrow> bool" where
  "is_collection (JList vs) = True"
| "is_collection _ = False"

definition stratum_choices :: "population_context \<Rightarrow> jdict \<Rightarrow> string \<Rightarrow> jval list res" where
  "stratum_choices X filters n = (case dget filters n of
      Some raw \<Rightarrow> Inr (sort_key (py_str (px_lib X)) (filter_values raw))
    | None \<Rightarrow> bindR (of_option (KeyError n) (dget (rg_dimensions (px_registry X)) n)) (\<lambda>s.
        case ds_kind s of ENUM \<Rightarrow> Inr (map JStr (ds_values s)) | BOOLEAN \<Rightarrow> Inr [JBool False, JBool True]
        | _ \<Rightarrow> Inl (ValueError (''Numeric stratum '' @ n @ '' requires explicit required_cells''))))"

definition product_size :: "'a list list \<Rightarrow> nat" where
  "product_size choices = foldl (\<lambda>n c. n * length c) 1 choices"

definition stratum_feasible :: "population_context \<Rightarrow> jdict \<Rightarrow> bool res" where
  "stratum_feasible X fixed = bindR (validate_stratum (px_lib X) (px_sampler X) (px_registry X) fixed []) (\<lambda>f. Inr (sq_feasible f))"

definition derived_cells :: "population_context \<Rightarrow> cohort_definition \<Rightarrow> jdict list res" where
  "derived_cells X d =
     bindR (mapR (stratum_choices X (ch_filters d)) (ch_strata d)) (\<lambda>choices.
     bindR (ensure (\<not> 10000 < product_size choices) (ValueError ''Derived cohort cell count exceeds 10000'')) (\<lambda>_.
     let single = filter (\<lambda>(n, raw). \<not> is_collection raw) (ch_filters d) in
     bindR (mapR (\<lambda>vs. let cell = zip (ch_strata d) vs in
       bindR (stratum_feasible X (dupdate single cell)) (\<lambda>ok. Inr (if ok then [cell] else []))) (product_lists choices)) (\<lambda>cells.
     Inr (concat cells))))"

definition required_cells :: "population_context \<Rightarrow> cohort_definition \<Rightarrow> jdict list res" where
  "required_cells X d =
     (if ch_strata d = [] then Inr [[]]
      else if ch_required_cells d \<noteq> []
      then bindR (for_each (\<lambda>cell. ensure (set (map fst cell) = set (ch_strata d))
          (ValueError ''Required cells must assign every stratum'')) (ch_required_cells d)) (\<lambda>_. Inr (ch_required_cells d))
      else derived_cells X d)"

definition strata_counts :: "population_context \<Rightarrow> pool \<Rightarrow> string list \<Rightarrow> jdict \<Rightarrow> (jval list \<times> int) list res" where
  "strata_counts X pool strata filters =
     (if strata = [] then bindR (pool_count X pool filters) (\<lambda>n. Inr [([], n)])
      else bindR (eligible_rows X pool filters) (\<lambda>rows.
        let keys = map (stratum_cell strata) rows in Inr (map (\<lambda>k. (k, int (length (filter (\<lambda>k'. k' = k) keys)))) (remdups keys))))"

text \<open>\<open>counts.get(key, 0)\<close>, by Python's equality of tuples.\<close>

definition count_for :: "(jval list \<times> int) list \<Rightarrow> jval list \<Rightarrow> int" where
  "count_for counts key = (case List.find (\<lambda>(k, _). py_eq (JList k) (JList key)) counts of None \<Rightarrow> 0 | Some (_, n) \<Rightarrow> n)"

definition cell_report :: "(jval list \<times> int) list \<Rightarrow> cohort_definition \<Rightarrow> jdict \<Rightarrow> feasibility_cell res" where
  "cell_report counts d cell =
     bindR (mapR (\<lambda>n. of_option (KeyError n) (dget cell n)) (ch_strata d)) (\<lambda>key.
     let available = count_for counts key in
     Inr \<lparr>fc_values = cell, fc_available = available, fc_required = ch_per_cell d, fc_feasible = (ch_per_cell d \<le> available)\<rparr>)"

definition cell_error :: "pylib \<Rightarrow> feasibility_cell \<Rightarrow> string" where
  "cell_error L c = ''Cell '' @ py_repr L (JDict (fc_values c)) @ '' needs '' @ int_str (fc_required c) @ '', found '' @
     int_str (fc_available c)"

definition infeasible_report :: "cohort_definition \<Rightarrow> int \<Rightarrow> string \<Rightarrow> cohort_feasibility" where
  "infeasible_report d total_rows e = \<lparr>cf_cohort_key = ch_cohort_key d, cf_feasible = False, cf_total_available = total_rows,
     cf_cells = [], cf_errors = [e]\<rparr>"

text \<open>\<open>definition.sample_size or definition.per_cell\<close>\<close>

definition wanted_rows :: "cohort_definition \<Rightarrow> int" where
  "wanted_rows d = (case ch_sample_size d of None \<Rightarrow> ch_per_cell d | Some n \<Rightarrow> if n = 0 then ch_per_cell d else n)"

definition weighted_feasibility :: "population_context \<Rightarrow> pool \<Rightarrow> cohort_definition \<Rightarrow> int \<Rightarrow> cohort_feasibility res" where
  "weighted_feasibility X pool d total_rows =
     (case ch_weight_dimension d of
        None \<Rightarrow> Inr (infeasible_report d total_rows ''Weighted cohorts require a dimension and weights'')
      | Some n \<Rightarrow>
          if ch_weights d = [] then Inr (infeasible_report d total_rows ''Weighted cohorts require a dimension and weights'')
          else (case bindR (of_option (KeyError n) (dget (rg_dimensions (px_registry X)) n)) (\<lambda>s.
                 bindR (validate_weights X s (ch_weights d)) (\<lambda>_.
                 pool_count X pool (weighted_filters X n (ch_weights d) (ch_filters d)))) of
              Inl (ValueError e) \<Rightarrow> Inr (infeasible_report d total_rows e)
            | Inl e \<Rightarrow> Inl e
            | Inr eligible \<Rightarrow>
                let required = wanted_rows d; ok = (required \<le> eligible) in
                Inr \<lparr>cf_cohort_key = ch_cohort_key d, cf_feasible = ok, cf_total_available = total_rows,
                  cf_cells = [\<lparr>fc_values = [], fc_available = eligible, fc_required = required, fc_feasible = ok\<rparr>],
                  cf_errors = (if ok then [] else
                    [''Weighted sample needs '' @ int_str required @ '', found '' @ int_str eligible])\<rparr>))"

definition cohort_dimensions :: "cohort_definition \<Rightarrow> string list" where
  "cohort_dimensions d = ch_strata d @ (case ch_weight_dimension d of None \<Rightarrow> [] | Some n \<Rightarrow> [n]) @ map fst (ch_filters d)"

definition cohort_feasibility_of :: "population_context \<Rightarrow> pool \<Rightarrow> cohort_definition \<Rightarrow> cohort_feasibility res" where
  "cohort_feasibility_of X pool d =
     (let unknown = unknown_dimensions (px_registry X) (cohort_dimensions d) in
      if unknown \<noteq> [] then Inr (infeasible_report d 0 (''Unknown cohort dimensions: '' @ show_list (px_lib X) (map JStr unknown)))
      else bindR (pool_count X pool (ch_filters d)) (\<lambda>total_rows.
        if ch_sampling_mode d = WEIGHTED then weighted_feasibility X pool d total_rows
        else bindR (strata_counts X pool (ch_strata d) (ch_filters d)) (\<lambda>counts.
          bindR (required_cells X d) (\<lambda>cells.
          bindR (mapR (cell_report counts d) cells) (\<lambda>reports.
          let errors = map (cell_error (px_lib X)) (filter (\<lambda>c. \<not> fc_feasible c) reports) in
          Inr \<lparr>cf_cohort_key = ch_cohort_key d, cf_feasible = (errors = []), cf_total_available = total_rows,
            cf_cells = reports, cf_errors = errors\<rparr>)))))"

definition sample_cohort :: "population_context \<Rightarrow> pool \<Rightarrow> cohort_definition \<Rightarrow> jdict list res" where
  "sample_cohort X pool d =
     bindR (cohort_feasibility_of X pool d) (\<lambda>f.
     bindR (ensure (cf_feasible f) (ValueError (let e = join_with ''; '' (cf_errors f) in
       if e = [] then ''Cohort is infeasible'' else e))) (\<lambda>_.
     if ch_sampling_mode d = WEIGHTED then
       (case ch_weight_dimension d of
          Some n \<Rightarrow> if ch_weights d = [] then Inl (ValueError ''Weighted cohorts require a dimension and weights'')
            else sample_weighted X pool (wanted_rows d) (ch_seed d) n (ch_weights d) (ch_filters d)
        | None \<Rightarrow> Inl (ValueError ''Weighted cohorts require a dimension and weights''))
     else sample_stratified X pool (ch_strata d) (ch_per_cell d) (ch_seed d) (ch_filters d)))"

section \<open>Tolerance of a distribution\<close>

definition value_counts :: "pylib \<Rightarrow> jdict list \<Rightarrow> string \<Rightarrow> (string \<times> int) list" where
  "value_counts L rows n =
     (let vs = map (\<lambda>row. column row n) rows; keys = filter (\<lambda>v. v \<noteq> JNull) (remdups vs)
      in dupdate [] (map (\<lambda>k. (py_str L k, int (length (filter (\<lambda>v. v = k) vs)))) keys))"

definition distribution_tolerance ::
  "population_context \<Rightarrow> pool \<Rightarrow> string \<Rightarrow> weights \<Rightarrow> rat \<Rightarrow> jdict \<Rightarrow> distribution_report res" where
  "distribution_tolerance X pool n expected_weights tolerance filters =
     (let L = px_lib X in
      bindR (ensure (0 \<le> tolerance \<and> tolerance \<le> 1) (ValueError ''tolerance must be between 0 and 1'')) (\<lambda>_.
      bindR (require_dimensions X [n] ''distribution dimension'') (\<lambda>_.
      bindR (of_option (KeyError n) (dget (rg_dimensions (px_registry X)) n)) (\<lambda>s.
      bindR (validate_weights X s expected_weights) (\<lambda>_.
      bindR (eligible_rows X pool filters) (\<lambda>rows.
      let counts = value_counts L rows n;
          members = sum_list (map snd counts);
          total_weight = sm_sum (px_sampler X) (map snd expected_weights);
          expected = dupdate [] (map (\<lambda>(v, w). (py_str L v, round_to L 8 (fl L (w / total_weight))))
            (sort_key (\<lambda>(v, _). py_str L v) expected_weights));
          observed = map (\<lambda>(v, _). (v, if members = 0 then 0
            else round_to L 8 (fl L (of_int (dget_or counts v 0) / of_int members)))) expected;
          deviation = map (\<lambda>(v, e). (v, round_to L 8 \<bar>fl L (dget_or observed v 0 - e)\<bar>)) expected
      in Inr \<lparr>dr_dimension = n, dr_population_count = members, dr_expected = expected, dr_observed = observed,
           dr_absolute_deviation = deviation, dr_tolerance = tolerance,
           dr_within_tolerance = list_all (\<lambda>(_, q). q \<le> tolerance) deviation\<rparr>))))))"

section \<open>Generation and batches\<close>

lemma batches_concat: "0 < batch \<Longrightarrow> start \<le> members \<Longrightarrow> concat (batches start members batch) = [start..<members]"
proof (induction start members batch rule: batches.induct)
  case (1 start members batch)
  show ?case
  proof (cases "members \<le> start")
    case True
    then show ?thesis using 1 by (subst batches.simps) simp
  next
    case False
    show ?thesis
    proof (cases "start + batch \<le> members")
      case True
      then have "concat (batches (start + batch) members batch) = [start + batch..<members]" using 1 False by simp
      then show ?thesis using False 1(2) True upt_add_eq_append [of start "start + batch" "members - (start + batch)"]
        by (subst batches.simps) simp
    next
      case over: False
      then have "batches (start + batch) members batch = []" by (subst batches.simps) simp
      then show ?thesis using False 1(2) over by (subst batches.simps) simp
    qed
  qed
qed

text \<open>One row of the pool.\<close>

definition pool_row :: "population_context \<Rightarrow> population_definition \<Rightarrow> nat \<Rightarrow> jdict res" where
  "pool_row X d i = bindR (pool_persona X d i) (\<lambda>b. dk_write (px_duckdb X) (persona_row (px_lib X) b))"

lemma batch_rows: "generate_batch_rows X d is = Inr rows \<longleftrightarrow> mapR (pool_row X d) is = Inr rows"
proof -
  have "generate_batch_rows X d is = Inr rows \<longleftrightarrow> (\<exists>raw. list_all2 (\<lambda>i row. \<exists>b. pool_persona X d i = Inr b \<and>
      row = persona_row (px_lib X) b) is raw \<and> list_all2 (\<lambda>row r. dk_write (px_duckdb X) row = Inr r) raw rows)"
    by (simp add: generate_batch_rows_def bindR_eq_Inr mapR_all2) (simp add: eq_commute)
  also have "\<dots> \<longleftrightarrow> list_all2 (\<lambda>i r. pool_row X d i = Inr r) is rows"
    unfolding pool_row_def bindR_eq_Inr
    by (auto simp: relcompp_apply [symmetric] list.rel_compp [symmetric] relcompp.simps elim!: list.rel_mono_strong)
  finally show ?thesis by (simp add: mapR_all2)
qed

lemma mapR_concat:
  "mapR (mapR f) xss = Inr yss \<Longrightarrow> mapR f (concat xss) = Inr (concat yss)"
proof (induction xss arbitrary: yss)
  case (Cons xs xss)
  then show ?case by (auto simp: res_simps mapR_all2 intro!: list_all2_appendI)
qed simp

lemma mapR_parts: "\<lbrakk>mapR f (concat xss) = Inr ys; xs \<in> set xss\<rbrakk> \<Longrightarrow> \<exists>zs. mapR f xs = Inr zs"
proof -
  assume "mapR f (concat xss) = Inr ys" "xs \<in> set xss"
  then have "\<forall>x \<in> set xs. \<exists>y. f x = Inr y"
    unfolding mapR_all2 by (auto simp: list_all2_conv_all_nth in_set_conv_nth) (metis UN_I in_set_conv_nth set_concat)
  then obtain g where "\<forall>x \<in> set xs. f x = Inr (g x)" by metis
  then have "mapR f xs = Inr (map g xs)" by (induction xs) simp_all
  then show ?thesis by blast
qed

lemma batches_rows:
  "is_ok (mapR (generate_batch_rows X d) bs) \<longleftrightarrow> is_ok (mapR (pool_row X d) (concat bs))"
  "mapR (generate_batch_rows X d) bs = Inr rows \<Longrightarrow> mapR (pool_row X d) (concat bs) = Inr (concat rows)"
proof -
  have whole: "mapR (generate_batch_rows X d) bs = Inr rows \<longleftrightarrow> mapR (mapR (pool_row X d)) bs = Inr rows" for rows
    unfolding mapR_all2 [of "generate_batch_rows X d"] mapR_all2 [of "mapR (pool_row X d)"] batch_rows ..
  show "mapR (generate_batch_rows X d) bs = Inr rows \<Longrightarrow> mapR (pool_row X d) (concat bs) = Inr (concat rows)"
    unfolding whole by (rule mapR_concat)
  have "\<exists>rows. mapR (mapR (pool_row X d)) bs = Inr rows" if "mapR (pool_row X d) (concat bs) = Inr ys" for ys
  proof -
    have "\<forall>xs \<in> set bs. \<exists>zs. mapR (pool_row X d) xs = Inr zs" using mapR_parts [OF that] by blast
    then obtain g where "\<forall>xs \<in> set bs. mapR (pool_row X d) xs = Inr (g xs)" by metis
    then have "mapR (mapR (pool_row X d)) bs = Inr (map g bs)" by (induction bs) simp_all
    then show ?thesis by blast
  qed
  then show "is_ok (mapR (generate_batch_rows X d) bs) \<longleftrightarrow> is_ok (mapR (pool_row X d) (concat bs))"
    unfolding is_ok_iff whole using mapR_concat by metis
qed

text \<open>A persona carries the seed it was generated from.\<close>

lemma pool_persona_seed: "pool_persona X d i = Inr b \<Longrightarrow> bp_seed b = population_seed d i"
  by (auto simp: pool_persona_def generate_def Let_def res_simps split: if_splits sum.splits)

lemma population_seed_unique:
  assumes "i < 10000000" and "j < 10000000" and "population_seed d i = population_seed d' j"
  shows "pd_seed d = pd_seed d' \<and> i = j"
proof -
  have "population_seed d i div 10000000 = pd_seed d" "population_seed d' j div 10000000 = pd_seed d'"
    using assms(1,2) by (simp_all add: population_seed_def)
  then have "pd_seed d = pd_seed d'" using assms(3) by simp
  then show ?thesis using assms(3) by (simp add: population_seed_def)
qed

section \<open>Samples\<close>

lemma snd_number_rows [simp]: "map snd (number_rows key seen rows) = rows"
  by (induction key seen rows rule: number_rows.induct) (simp_all add: Let_def)

text \<open>In each cell, the first \<open>c\<close> rows have a number of at most \<open>c\<close>.\<close>

lemma numbered_in_cell:
  "0 \<le> dget_or seen k 0 \<Longrightarrow> length (filter (\<lambda>(n, row). n \<le> c \<and> key row = k) (number_rows key seen rows)) =
     min (nat (c - dget_or seen k 0)) (length (filter (\<lambda>row. key row = k) rows))"
proof (induction key seen rows rule: number_rows.induct)
  case (2 key seen row rows)
  show ?case
  proof (cases "key row = k")
    case True
    then show ?thesis using 2 by (auto simp: Let_def)
  next
    case False
    then show ?thesis using 2 by (simp add: Let_def)
  qed
qed simp

definition in_cell :: "string list \<Rightarrow> jval list \<Rightarrow> jdict list \<Rightarrow> nat" where
  "in_cell strata k rows = length (filter (\<lambda>row. stratum_cell strata row = k) rows)"

lemma size_filter_list: "size (filter_mset P (mset xs)) = length (filter P xs)"
  by (metis mset_filter size_mset)

lemma in_cell_mset: "in_cell strata k rows = size (filter_mset (\<lambda>row. stratum_cell strata row = k) (mset rows))"
  by (simp only: in_cell_def size_filter_list)

lemma stratified_sample:
  assumes "sample_stratified X pool strata per_cell seed filters = Inr sample"
  obtains rows where "eligible_rows X pool filters = Inr rows" and "1 \<le> per_cell" and "mset sample \<subseteq># mset rows"
    and "\<And>k. in_cell strata k sample = min (nat per_cell) (in_cell strata k rows)"
proof -
  obtain rows where rows: "eligible_rows X pool filters = Inr rows" and one: "1 \<le> per_cell" and
    sample: "sample = map snd (sort_key (\<lambda>(n, row). (map (dk_rank (px_duckdb X)) (stratum_cell strata row), n))
      (filter (\<lambda>(n, row). n \<le> per_cell) (number_rows (stratum_cell strata) []
        (sort_key (\<lambda>row. (sample_hash X seed row, row_id (px_lib X) row)) rows))))"
    using assms by (auto simp: sample_stratified_def res_simps Let_def split: if_splits)
  let ?ordered = "sort_key (\<lambda>row. (sample_hash X seed row, row_id (px_lib X) row)) rows"
  let ?numbered = "number_rows (stratum_cell strata) [] ?ordered"
  have chosen: "mset sample = image_mset snd (mset (filter (\<lambda>(n, row). n \<le> per_cell) ?numbered))"
    unfolding sample by simp
  have "mset sample \<subseteq># image_mset snd (mset ?numbered)"
    unfolding chosen mset_filter by (rule image_mset_subseteq_mono) simp
  also have "image_mset snd (mset ?numbered) = mset rows"
    by (metis mset_map mset_sort snd_number_rows)
  finally have sub: "mset sample \<subseteq># mset rows" .
  have "in_cell strata k sample = min (nat per_cell) (in_cell strata k rows)" for k
  proof -
    have "in_cell strata k sample = length (filter (\<lambda>(n, row). n \<le> per_cell \<and> stratum_cell strata row = k) ?numbered)"
      unfolding in_cell_mset chosen filter_mset_image_mset size_image_mset size_filter_list filter_filter
      by (rule arg_cong [where f = length], rule filter_cong) auto
    also have "\<dots> = min (nat per_cell) (length (filter (\<lambda>row. stratum_cell strata row = k) ?ordered))"
      using numbered_in_cell [of "[]" k per_cell "stratum_cell strata" ?ordered] by (simp add: dget_or_def)
    also have "length (filter (\<lambda>row. stratum_cell strata row = k) ?ordered) = in_cell strata k rows"
      by (simp only: in_cell_def size_filter_list [symmetric] mset_sort)
    finally show ?thesis .
  qed
  with rows one sub that show ?thesis by blast
qed

lemma sort_key_cong:
  assumes "mset xs = mset ys" and "inj_on f (set xs)"
  shows "sort_key f xs = sort_key f ys"
proof (rule properties_for_sort_key)
  show "mset (sort_key f ys) = mset xs" using assms(1) by simp
  have same: "set ys = set xs" using assms(1) by (metis set_mset_mset)
  show "filter (\<lambda>x. f k = f x) (sort_key f ys) = filter (\<lambda>x. f k = f x) xs" if "k \<in> set (sort_key f ys)" for k
  proof -
    have k: "k \<in> set xs" using that same by simp
    have one: "filter (\<lambda>x. f k = f x) zs = replicate (count (mset zs) k) k" if "set zs = set xs" for zs
    proof -
      have "filter (\<lambda>x. f k = f x) zs = filter ((=) k) zs"
        by (rule filter_cong) (use inj_onD [OF assms(2)] k that in auto)
      then show ?thesis by (simp add: replicate_count_mset_eq_filter_eq)
    qed
    show ?thesis using one [of xs] one [of "sort_key f ys"] same assms(1) by simp
  qed
  show "sorted (map f (sort_key f ys))" by simp
qed

text \<open>The order of the rows in the file does not matter when each persona is in it once.\<close>

definition ids_unique :: "population_context \<Rightarrow> jdict list \<Rightarrow> bool" where
  "ids_unique X rows \<longleftrightarrow> inj_on (row_id (px_lib X)) (set rows)"

lemma stratified_order:
  assumes "mset rows = mset rows'" and "ids_unique X rows"
  shows "sample_stratified X (Some rows) strata per_cell seed filters = sample_stratified X (Some rows') strata per_cell seed filters"
proof -
  let ?key = "\<lambda>row. (sample_hash X seed row, row_id (px_lib X) row)"
  have "inj_on ?key (set (filter (passes (px_duckdb X) filters) rows))"
    using assms(2) by (auto simp: ids_unique_def inj_on_def)
  then have "sort_key ?key (filter (passes (px_duckdb X) filters) rows) = sort_key ?key (filter (passes (px_duckdb X) filters) rows')"
    using assms(1) by (intro sort_key_cong) (simp_all add: mset_filter)
  then show ?thesis
    by (simp add: sample_stratified_def eligible_rows_def of_option_def bindR_def Let_def split: sum.split)
qed

lemma find_member: "List.find P xs = Some x \<Longrightarrow> x \<in> set xs \<and> P x"
  by (metis find_Some_iff nth_mem)

text \<open>A column value selects one weight at most.\<close>

definition tells_apart :: "duckdb \<Rightarrow> jval list \<Rightarrow> bool" where
  "tells_apart D vs \<longleftrightarrow> distinct vs \<and> (\<forall>c. \<forall>v \<in> set vs. \<forall>w \<in> set vs. dk_equal D c v \<longrightarrow> dk_equal D c w \<longrightarrow> v = w)"

lemma positive_weight:
  assumes "tells_apart (px_duckdb X) (map fst ws)" and "(v, w) \<in> set ws" and "dk_equal (px_duckdb X) (column row n) v"
  shows "row_weight X n ws row = w"
proof -
  let ?ws = "sort_key (\<lambda>(v, _). py_str (px_lib X) v) ws"
  have "List.find (\<lambda>(v, _). dk_equal (px_duckdb X) (column row n) v) ?ws \<noteq> None"
    using assms(2, 3) by (auto simp: find_None_iff)
  then obtain v' w' where f: "List.find (\<lambda>(v, _). dk_equal (px_duckdb X) (column row n) v) ?ws = Some (v', w')" by auto
  then have m: "(v', w') \<in> set ws" "dk_equal (px_duckdb X) (column row n) v'" using find_member [OF f] by auto
  then have "v' = v" using assms unfolding tells_apart_def by (metis fst_conv image_eqI list.set_map)
  then have "w' = w" using m(1) assms(1, 2) unfolding tells_apart_def by (metis eq_key_imp_eq_value)
  then show ?thesis by (simp add: row_weight_def f)
qed

lemma passes_weighted:
  assumes "tells_apart (px_duckdb X) (map fst ws)" and "\<not> dhas filters n"
    and "passes (px_duckdb X) (weighted_filters X n ws filters) row"
  shows "passes (px_duckdb X) filters row \<and> 0 < row_weight X n ws row"
proof -
  let ?kept = "sort_key (py_str (px_lib X)) (map fst (filter (\<lambda>(_, w). 0 < w) ws))"
  have "weighted_filters X n ws filters = filters @ [(n, JList ?kept)]"
    using assms(2) dset_fresh [OF assms(2)] by (simp add: weighted_filters_def dhas_def)
  then have p: "passes (px_duckdb X) filters row" "list_ex (dk_equal (px_duckdb X) (column row n)) ?kept"
    using assms(3) by (simp_all add: passes_def)
  then obtain v w where "(v, w) \<in> set ws" "0 < w" "dk_equal (px_duckdb X) (column row n) v"
    by (auto simp: list_ex_iff)
  then show ?thesis using p(1) positive_weight [OF assms(1)] by auto
qed

lemma mset_take_sub: "mset (take n xs) \<subseteq># mset xs"
proof -
  have "mset (take n xs @ drop n xs) = mset (take n xs) + mset (drop n xs)" by (rule mset_append)
  then have "mset xs = mset (take n xs) + mset (drop n xs)" by (simp only: append_take_drop_id)
  then show ?thesis by simp
qed

section \<open>The properties\<close>

text \<open>
  C36. A pool does not depend on the batch size: with a valid batch size and a feasible definition, generation
  succeeds exactly when every persona can be generated and written; the file then holds one row for each
  index, in order; otherwise the old file is untouched. Two personas whose indices are below ten million carry the same
  generator seed only if they have the same index in pools with the same seed.
\<close>

theorem population_ignores_batches:
  assumes "1 \<le> batch_size" and "batch_size \<le> 100000"
    and "validate_stratum (px_lib X) (px_sampler X) (px_registry X) (pd_fixed d) (pd_distributions d) = Inr f" and "sq_feasible f"
  shows "(case mapR (\<lambda>i. bindR (pool_persona X d i) (\<lambda>b. dk_write (px_duckdb X) (persona_row (px_lib X) b)))
        [0..<nat (pd_members d)] of
      Inr rows \<Rightarrow> generate_definition X d batch_size pool = (Inr (), Some rows) \<and> length rows = nat (pd_members d)
    | Inl _ \<Rightarrow> \<exists>e. generate_definition X d batch_size pool = (Inl e, pool)) \<and>
    (\<forall>i j d' b b'. pool_persona X d i = Inr b \<longrightarrow> pool_persona X d' j = Inr b' \<longrightarrow> i < 10000000 \<longrightarrow> j < 10000000 \<longrightarrow>
      bp_seed b = bp_seed b' \<longrightarrow> pd_seed d = pd_seed d' \<and> i = j)"
proof -
  let ?bs = "batches 0 (nat (pd_members d)) (nat batch_size)" and ?all = "[0..<nat (pd_members d)]"
  have bs: "concat ?bs = ?all" using assms(1) by (intro batches_concat) simp_all
  have run: "generate_definition X d batch_size pool = (case mapR (generate_batch_rows X d) ?bs of
      Inl e \<Rightarrow> (Inl e, pool) | Inr rows \<Rightarrow> (Inr (), Some (concat rows)))"
    using assms by (simp add: generate_definition_def bindE_def split: sum.split)
  have row: "(\<lambda>i. bindR (pool_persona X d i) (\<lambda>b. dk_write (px_duckdb X) (persona_row (px_lib X) b))) = pool_row X d"
    by (simp add: pool_row_def [abs_def])
  have rows: "case mapR (pool_row X d) ?all of Inr rows \<Rightarrow> generate_definition X d batch_size pool = (Inr (), Some rows) \<and>
      length rows = nat (pd_members d) | Inl _ \<Rightarrow> \<exists>e. generate_definition X d batch_size pool = (Inl e, pool)"
  proof (cases "mapR (generate_batch_rows X d) ?bs")
    case (Inl e)
    then have "\<not> is_ok (mapR (pool_row X d) ?all)" using batches_rows(1) [of X d ?bs] by (simp add: bs is_ok_iff)
    then show ?thesis using run Inl by (auto simp: is_ok_iff split: sum.split)
  next
    case (Inr rows)
    then have "mapR (pool_row X d) ?all = Inr (concat rows)" using batches_rows(2) [OF Inr] by (simp add: bs)
    moreover from this have "length (concat rows) = nat (pd_members d)"
      unfolding mapR_all2 by (auto dest: list_all2_lengthD)
    ultimately show ?thesis using run Inr by simp
  qed
  have "pd_seed d = pd_seed d' \<and> i = j" if "pool_persona X d i = Inr b" "pool_persona X d' j = Inr b'"
    "i < 10000000" "j < 10000000" "bp_seed b = bp_seed b'" for i j d' b b'
    using population_seed_unique [of i j d d'] pool_persona_seed that by metis
  then show ?thesis using rows unfolding row by blast
qed

text \<open>
  C35. A stratified cohort is what its report promised: when \<open>sample_cohort\<close> returns, the sample consists of rows of
  the pool that pass the filters, none more often than in the pool, and every cell of the strata contributes the
  wanted number of rows or all it has; every required cell contributes the wanted number. The order of the rows in
  the file does not matter when each persona is in it once.
\<close>

theorem cohort_sample_fills_cells:
  assumes "sample_cohort X (Some pool) d = Inr sample" and "ch_sampling_mode d = STRATIFIED"
  shows "mset sample \<subseteq># mset (filter (passes (px_duckdb X) (ch_filters d)) pool) \<and>
    (\<forall>k. in_cell (ch_strata d) k sample =
      min (nat (ch_per_cell d)) (in_cell (ch_strata d) k (filter (passes (px_duckdb X) (ch_filters d)) pool))) \<and>
    (\<exists>cells. required_cells X d = Inr cells \<and>
      (\<forall>cell \<in> set cells. \<exists>key k. mapR (\<lambda>n. of_option (KeyError n) (dget cell n)) (ch_strata d) = Inr key \<and>
        py_eq (JList k) (JList key) \<and> in_cell (ch_strata d) k sample = nat (ch_per_cell d))) \<and>
    (ids_unique X pool \<longrightarrow> (\<forall>pool'. mset pool' = mset pool \<longrightarrow>
      sample_stratified X (Some pool') (ch_strata d) (ch_per_cell d) (ch_seed d) (ch_filters d) = Inr sample))"
proof -
  obtain f where f: "cohort_feasibility_of X (Some pool) d = Inr f" "cf_feasible f"
    and run: "sample_stratified X (Some pool) (ch_strata d) (ch_per_cell d) (ch_seed d) (ch_filters d) = Inr sample"
    using assms by (auto simp: sample_cohort_def res_simps split: if_splits)
  let ?rows = "filter (passes (px_duckdb X) (ch_filters d)) pool"
  obtain rows where rows: "eligible_rows X (Some pool) (ch_filters d) = Inr rows" and one: "1 \<le> ch_per_cell d"
    and sub: "mset sample \<subseteq># mset rows" and cells: "\<And>k. in_cell (ch_strata d) k sample = min (nat (ch_per_cell d)) (in_cell (ch_strata d) k rows)"
    using stratified_sample [OF run] by blast
  have r: "rows = ?rows" using rows by (auto simp: eligible_rows_def res_simps)
  obtain counts required reports where counts: "strata_counts X (Some pool) (ch_strata d) (ch_filters d) = Inr counts"
    and required: "required_cells X d = Inr required" and reports: "mapR (cell_report counts d) required = Inr reports"
    and fine: "\<forall>c \<in> set reports. fc_feasible c"
    using f assms(2)
    by (auto simp: cohort_feasibility_of_def infeasible_report_def res_simps Let_def filter_empty_conv split: if_splits)
  have known: "n = int (in_cell (ch_strata d) k rows)" if "(k, n) \<in> set counts" for k n
  proof (cases "ch_strata d = []")
    case True
    then have "counts = [([], int (length rows))]" using counts rows by (simp add: strata_counts_def pool_count_def)
    then show ?thesis using that True by (simp add: in_cell_def stratum_cell_def)
  next
    case False
    have "int (length (filter (\<lambda>k'. k' = k) (map (stratum_cell (ch_strata d)) rows))) = int (in_cell (ch_strata d) k rows)"
      by (simp add: in_cell_def filter_map comp_def)
    moreover have "n = int (length (filter (\<lambda>k'. k' = k) (map (stratum_cell (ch_strata d)) rows)))"
      using counts rows that False by (auto simp: strata_counts_def Let_def simp del: filter_map)
    ultimately show ?thesis by simp
  qed
  have "\<exists>key k. mapR (\<lambda>n. of_option (KeyError n) (dget cell n)) (ch_strata d) = Inr key \<and> py_eq (JList k) (JList key) \<and>
      in_cell (ch_strata d) k sample = nat (ch_per_cell d)" if "cell \<in> set required" for cell
  proof -
    obtain c where c: "cell_report counts d cell = Inr c" "c \<in> set reports"
      using mapR_member [OF reports \<open>cell \<in> set required\<close>] by blast
    obtain key where key: "mapR (\<lambda>n. of_option (KeyError n) (dget cell n)) (ch_strata d) = Inr key"
      and enough: "ch_per_cell d \<le> count_for counts key"
      using c fine by (auto simp: cell_report_def res_simps Let_def)
    have "count_for counts key \<noteq> 0" using enough one by simp
    then obtain k n where kn: "List.find (\<lambda>(k, _). py_eq (JList k) (JList key)) counts = Some (k, n)" "count_for counts key = n"
      by (auto simp: count_for_def split: option.splits)
    then have "(k, n) \<in> set counts" "py_eq (JList k) (JList key)" using find_member [OF kn(1)] by auto
    moreover from this have "in_cell (ch_strata d) k sample = nat (ch_per_cell d)"
      using known [of k n] enough cells [of k] unfolding kn(2) by simp
    ultimately show ?thesis using key by blast
  qed
  moreover have "sample_stratified X (Some pool') (ch_strata d) (ch_per_cell d) (ch_seed d) (ch_filters d) = Inr sample"
    if "ids_unique X pool" "mset pool' = mset pool" for pool'
    using stratified_order [OF that(2) [symmetric] that(1)] run by simp
  ultimately show ?thesis using sub cells required unfolding r by blast
qed

text \<open>
  A weighted sample is complete: when the dimension is not also filtered and its column tells the weighted values
  apart, \<open>sample_weighted\<close> returns exactly as many rows as asked, all of the pool and passing the filters, each
  with a positive weight, in the order of their sampling keys.
\<close>

theorem weighted_sample_is_complete:
  assumes "sample_weighted X (Some pool) members seed n ws filters = Inr sample"
    and "tells_apart (px_duckdb X) (map fst ws)" and "\<not> dhas filters n"
  shows "int (length sample) = members \<and> mset sample \<subseteq># mset pool \<and>
    (\<forall>row \<in> set sample. passes (px_duckdb X) filters row \<and> 0 < row_weight X n ws row) \<and>
    sorted (map (\<lambda>row. (weighted_key X n ws seed row, row_id (px_lib X) row)) sample)"
proof -
  let ?wanted = "filter (\<lambda>row. 0 < row_weight X n ws row) (filter (passes (px_duckdb X) filters) pool)"
  let ?key = "\<lambda>row. (weighted_key X n ws seed row, row_id (px_lib X) row)"
  have sample: "sample = take (nat members) (sort_key ?key ?wanted)" and one: "1 \<le> members"
    and enough: "members \<le> int (length (filter (passes (px_duckdb X) (weighted_filters X n ws filters)) pool))"
    using assms(1) by (auto simp: sample_weighted_def pool_count_def eligible_rows_def res_simps split: if_splits)
  have "filter (passes (px_duckdb X) (weighted_filters X n ws filters)) pool =
      filter (passes (px_duckdb X) (weighted_filters X n ws filters)) ?wanted"
    unfolding filter_filter by (rule filter_cong) (use passes_weighted [OF assms(2, 3)] in auto)
  then have "length (filter (passes (px_duckdb X) (weighted_filters X n ws filters)) pool) \<le> length ?wanted"
    by (metis length_filter_le)
  then have "int (length sample) = members" using enough one by (simp add: sample)
  moreover have "mset sample \<subseteq># mset pool"
  proof -
    have "mset sample \<subseteq># mset (sort_key ?key ?wanted)" unfolding sample by (rule mset_take_sub)
    also have "\<dots> \<subseteq># mset pool" by (simp add: multiset_filter_subset subset_mset.order_trans)
    finally show ?thesis .
  qed
  moreover have "\<forall>row \<in> set sample. passes (px_duckdb X) filters row \<and> 0 < row_weight X n ws row"
    unfolding sample by (auto dest: in_set_takeD)
  moreover have "sorted (map ?key sample)"
  proof -
    have "sorted (map ?key (sort_key ?key ?wanted))" by simp
    then show ?thesis unfolding sample take_map [symmetric] by (rule sorted_wrt_take)
  qed
  ultimately show ?thesis by blast
qed

text \<open>A pool of three rows over a boolean and an enumerated dimension.\<close>

definition plain_duckdb :: duckdb where
  "plain_duckdb = \<lparr>dk_write = Inr, dk_equal = (\<lambda>c v. c \<noteq> JNull \<and> c = v), dk_rank = (\<lambda>v. case v of JStr s \<Rightarrow> (0, s) | _ \<Rightarrow> (1, [])),
     dk_hash = length, dk_log_key = (\<lambda>u w. u / w)\<rparr>"

definition demo_context :: population_context where
  "demo_context = \<lparr>px_lib = ref_lib, px_sampler = demo_sampler, px_registry = demo_schema, px_duckdb = plain_duckdb\<rparr>"

definition demo_pool :: "jdict list" where
  "demo_pool = [[(''persona_id'', JStr ''p1''), (''a'', JStr ''X'')], [(''persona_id'', JStr ''p2''), (''a'', JStr ''Y'')],
     [(''persona_id'', JStr ''p3''), (''a'', JStr ''X'')]]"

definition demo_cohort :: cohort_definition where
  "demo_cohort = \<lparr>ch_cohort_key = ''c'', ch_filters = [], ch_sampling_mode = STRATIFIED, ch_strata = [''a''], ch_per_cell = 1,
     ch_sample_size = None, ch_seed = 3, ch_weight_dimension = None, ch_weights = [],
     ch_required_cells = [[(''a'', JStr ''X'')], [(''a'', JStr ''Y'')]]\<rparr>"

lemma demo_cohort_sample: "\<exists>sample. sample_cohort demo_context (Some demo_pool) demo_cohort = Inr sample"
proof -
  have "is_ok (sample_cohort demo_context (Some demo_pool) demo_cohort)" by code_simp
  then show ?thesis by (simp add: is_ok_iff)
qed

theorem cohort_sample_fills_cells_witness:
  "\<exists>sample. sample_cohort demo_context (Some demo_pool) demo_cohort = Inr sample \<and> in_cell [''a''] [JStr ''X''] sample = 1"
proof -
  obtain sample where s: "sample_cohort demo_context (Some demo_pool) demo_cohort = Inr sample"
    using demo_cohort_sample by blast
  have "in_cell [''a''] [JStr ''X''] sample = min 1 (in_cell [''a''] [JStr ''X''] (filter (passes plain_duckdb []) demo_pool))"
    using cohort_sample_fills_cells [OF s] by (simp add: demo_cohort_def demo_context_def)
  also have "\<dots> = 1" by (simp add: in_cell_def passes_def demo_pool_def stratum_cell_def column_def dget_or_def)
  finally show ?thesis using s by blast
qed

theorem population_ignores_batches_witness:
  "\<exists>rows. generate_definition demo_context \<lparr>pd_population_key = ''k'', pd_version = ''1'', pd_members = 1, pd_seed = 0,
     pd_fixed = [], pd_distributions = []\<rparr> 10 None = (Inr (), Some rows) \<and> length rows = 1"
proof -
  let ?d = "\<lparr>pd_population_key = ''k'', pd_version = ''1'', pd_members = 1, pd_seed = 0, pd_fixed = [], pd_distributions = []\<rparr>"
  obtain b where b: "generate ref_lib demo_sampler demo_schema 0 [] [] False = Inr b"
  proof -
    have "is_ok (generate ref_lib demo_sampler demo_schema 0 [] [] False)" by code_simp
    then show ?thesis using that by (auto simp: is_ok_iff)
  qed
  then have "validate_stratum ref_lib demo_sampler demo_schema [] [] = Inr \<lparr>sq_feasible = True, sq_fixed = [], sq_errors = []\<rparr>"
    by (simp add: validate_stratum_def)
  then show ?thesis
    using population_ignores_batches [of 10 demo_context ?d _ None] b
    by (simp add: demo_context_def pool_persona_def population_seed_def plain_duckdb_def)
qed

lemma demo_weighted_sample:
  "\<exists>sample. sample_weighted demo_context (Some demo_pool) 2 3 ''a'' [(JStr ''X'', 1), (JStr ''Y'', 0)] [] = Inr sample"
proof -
  let ?ws = "[(JStr ''X'', 1), (JStr ''Y'', 0 :: rat)]"
  have "require_dimensions demo_context [''a''] ''weight dimension'' = Inr ()" by code_simp
  moreover have "is_ok (bindR (of_option (KeyError ''a'') (dget (rg_dimensions demo_schema) ''a'')) (\<lambda>s. validate_weights demo_context s ?ws))"
    by code_simp
  then obtain s where "dget (rg_dimensions demo_schema) ''a'' = Some s" "validate_weights demo_context s ?ws = Inr ()"
    by (auto simp: is_ok_iff res_simps)
  moreover have "pool_count demo_context (Some demo_pool) (weighted_filters demo_context ''a'' ?ws []) = Inr 2" by code_simp
  moreover have "eligible_rows demo_context (Some demo_pool) [] = Inr demo_pool" by code_simp
  moreover have "px_registry demo_context = demo_schema" by (simp add: demo_context_def)
  ultimately show ?thesis by (simp add: sample_weighted_def of_option_def ensure_def)
qed

theorem weighted_sample_is_complete_witness:
  "\<exists>sample. sample_weighted demo_context (Some demo_pool) 2 3 ''a'' [(JStr ''X'', 1), (JStr ''Y'', 0)] [] = Inr sample \<and> length sample = 2"
proof -
  obtain sample where s: "sample_weighted demo_context (Some demo_pool) 2 3 ''a'' [(JStr ''X'', 1), (JStr ''Y'', 0)] [] = Inr sample"
    using demo_weighted_sample by blast
  have "tells_apart (px_duckdb demo_context) (map fst [(JStr ''X'', 1 :: rat), (JStr ''Y'', 0)])"
    by (auto simp: tells_apart_def demo_context_def plain_duckdb_def)
  from weighted_sample_is_complete [OF s this] have "int (length sample) = 2" by (simp add: dhas_def)
  then show ?thesis using s by simp
qed

end
