(* ===== verification/Spec2Isabelle.thy ===== *)
theory Spec2Isabelle
  imports KernelProperties CommandTypes IdentityService PortalService CognitionStore ExperimentJobs ExperimentReports PopulationLifecycle PersonaCompiler
    ScenarioExecution Telemetry Calibration OnboardingTrial LoreIndex PopulationStore
begin

text \<open>
  A verification library for the simulation kernel of TableTop DM and the services around it.

  \<^bold>\<open>The program.\<close> A world is a set of branches, each a bag of projections (named dictionaries of JSON
  documents). Everything that happens is a command: an actor proposes it, the bus checks authority
  and parameters, a domain handler computes state deltas and a result, the deltas are applied to a copy of the
  branch, which is committed with a receipt under the idempotency key, and an event is recorded with the
  audience that a spatial resolver worked out. The application service keeps the worlds, runs, actors,
  entities, events and perception grants, captures replay bases and replays histories. Around the
  kernel stand the accounts and sessions of the people who use it, the portal for characters and
  hosted games, the minds of the simulated actors (what they perceive, believe, remember and decide), the
  generator of personas with their pools and life cycle, and the experiments: jobs that run
  trials of a scenario on branches derived from a snapshot, their reports, telemetry and calibration.

  \<^bold>\<open>Theories and code\<close> (paths under \<open>src/\<close>).
  \<^item> \<open>Prelude\<close>, \<open>Values\<close>, \<open>Schema\<close>, \<open>Effects\<close>: Python exceptions as values (\<open>'a res\<close>), dictionaries as
    association lists, JSON values and the built-in conversions, pydantic models as schemas,
    methods that change their object and may raise (\<open>eff\<close>). The record \<open>pylib\<close> holds the library functions that
    are not code of the repository; \<open>lawful_lib\<close> states what is used of them and \<open>ref_lib\<close> is an instance.
  \<^item> \<open>Contracts\<close>, \<open>KernelState\<close>, \<open>CommandBus\<close>, \<open>KernelServices\<close>: \<open>kernel/contracts.py\<close>, \<open>state.py\<close>,
    \<open>command_bus.py\<close>, \<open>event_factory.py\<close>, \<open>branching.py\<close>, \<open>replay.py\<close>, \<open>visibility.py\<close>, \<open>scheduling.py\<close> and
    \<open>snapshots.py\<close>; \<open>LoreIndex\<close>: \<open>kernel/lore.py\<close>.
  \<^item> \<open>RuleContract\<close>, \<open>RulesMovement\<close>, \<open>RulesCombat\<close>, \<open>RulesSociety\<close>, \<open>RulesNarrative\<close>, \<open>Onboarding\<close>,
    \<open>Battlefield\<close>, \<open>SpatialGrid\<close>, \<open>SpatialPerception\<close>, \<open>TabletopRegistry\<close>, \<open>CommandTypes\<close>: the packages of
    \<open>domains/tabletop\<close>, each handler a function of the proposal and the branch it reads.
  \<^item> \<open>Application\<close>, \<open>ApplicationFacts\<close>, \<open>KernelProperties\<close>: \<open>kernel/application.py\<close>, its step relation, and
    the theorems that span the kernel.
  \<^item> \<open>IdentityAccounts\<close>, \<open>IdentityRepository\<close>, \<open>IdentityService\<close>: \<open>identity/\<close>.
  \<^item> \<open>PortalRepository\<close>, \<open>PortalService\<close>: \<open>domains/tabletop/portal.py\<close>.
  \<^item> \<open>Cognition\<close>, \<open>CognitionMind\<close>, \<open>CognitionRelations\<close>, \<open>CognitionPlanning\<close>, \<open>CognitionDecision\<close>,
    \<open>CognitionEngine\<close>, \<open>CognitionStore\<close>: \<open>cognition/\<close> and the projection of events to minds of \<open>kernel/api/app.py\<close>.
  \<^item> \<open>PersonaSchema\<close>, \<open>PersonaGenerator\<close>, \<open>PersonaCompiler\<close>: \<open>persona/\<close>.
  \<^item> \<open>PopulationLifecycle\<close>, \<open>PopulationStore\<close>: \<open>population/lifecycle.py\<close>, \<open>store.py\<close> and \<open>models.py\<close>. A pool is the list
    of its rows; DuckDB is the record \<open>duckdb\<close> of the functions the queries use, each query is written out as list operations.
  \<^item> \<open>ExperimentJobs\<close>, \<open>ExperimentRepository\<close>, \<open>ExperimentTrials\<close>, \<open>ExperimentReports\<close>: \<open>experiments/jobs.py\<close>; \<open>models.py\<close> and
    the in-memory \<open>repository.py\<close>; \<open>verifiers.py\<close>, \<open>metrics.py\<close>, \<open>executor.py\<close> (protocol and in-memory executor) and
    \<open>trial_engine.py\<close>; \<open>aggregation.py\<close>, \<open>artifacts.py\<close>.
  \<^item> \<open>ScenarioExecution\<close>: the executor of \<open>experiments/executor.py\<close> that runs trials on the application service.
  \<^item> \<open>ScenarioLab\<close>, \<open>PlayerEvaluation\<close>, \<open>OnboardingTrial\<close>, \<open>Telemetry\<close>, \<open>Calibration\<close>: \<open>experiments/scenario_lab.py\<close>,
    \<open>player_evaluation.py\<close>, \<open>onboarding.py\<close>, \<open>telemetry.py\<close>, \<open>calibration/engine.py\<close>.
  \<^item> \<open>Fixtures\<close>, \<open>ServiceFixture\<close>: concrete branches, actors and a service for the witnesses.

  A class is a record whose fields carry a prefix of the class, an enumeration a datatype, a method a
  definition of the same name where Isabelle allows it, a service object the state that its methods
  take and return. Every \<open>raise\<close> is a branch of the model; a message is shortened where nothing reads it. UUIDs and
  times are their canonical texts and integers, Python integers are unbounded, and a float is the rational it
  denotes, with \<open>fl\<close> rounding after each operation.

  \<^bold>\<open>What is shown.\<close>
  \<^item> Kernel: a commit was authorised, happens once, on one branch and inside the footprint of its
    handler; a submission is atomic; the ledger and the receipts correspond; replay yields the committed states, except on branches on
    which \<open>create_entity\<close> has written past the ledger; snapshots round-trip exactly when their path needs no
    percent-encoding; events are private; promotion is guarded; handlers get typed parameters only.
  \<^item> Rules: the outcome of each command on every branch of its code; trades conserve gold and goods; the tutorial
    implements its state machine and can be finished; the line of sight is the exact supercover, grants
    and views are earned, the search between zones returns.
  \<^item> Identity and portal: invariants of all reachable stores (an active administrator, the user-name
    index, legal characters), lockout, login and password change, ownership, and a repository contract as a locale.
  \<^item> Cognition: an observation discloses what was granted; revision keeps one belief for each key and all
    history; plans are sound; relationships stay in bounds; a decision is bound to its request, justified by its tier and
    always made; projecting an event is idempotent and touches its observers only. A search in the lore stays in its audience.
  \<^item> Personas and populations: a generated persona is valid, the schema is ordered without cycles, the
    validator decides the profiles, prompts fit their budget; the history of a life cycle explains its members; a pool
    does not depend on the batch size, and a cohort sample fills every cell.
  \<^item> Experiments: the invariant of the jobs under interleaved calls; no trial is left running, also when the repository refuses to save; scenario trials
    stay on branches of their own; an onboarding trial is a run of the tutorial on a trial branch; scenario
    versions never change; what a verifier counts; calibration is promoted after approval only, and survives a restart
    unless a number of a proposal has overflowed;
    telemetry is captured with consent and redacted.

  The interfaces are locales, interpreted on the model's own definitions in the theory of the provider:
  the rule handlers and audience resolvers of the kernel, the repository of accounts, the keyed stores of the portal,
  the executors of trials.

  \<^bold>\<open>Bounds and fuel.\<close> No definition uses fuel. Loops whose end is not structural are functions with a
  measure: the supercover by the remaining offsets, the zone search by the strengths that can still rise,
  the planner by the unexplored budget and the length of the queue, the scheduler by the length of the heap, the
  visit of the dependency graph by the dimensions not yet done, the rounds of its ordering by the dimensions that remain, the
  batches of a pool by the rows that remain. The onboarding trial plays at most 24 steps because the code does.

  \<^bold>\<open>Not modelled.\<close> SQL adapters and their databases, request parsing of the HTTP routes, the user interface,
  file formats of artifacts (a document is its content); NaN, and infinities except in calibration,
  where a rational beyond the largest float stands for one; text beyond the 8-bit range; calls of several calibration
  servers that overlap in time; concurrency
  inside a process other than that of the jobs, as the locks make each operation one step. A provider of deliberation is a
  function of its request.
\<close>

end
